(* ===== verification/Go_Base.thy ===== *)
theory Go_Base
  imports Main "HOL-Library.Word" "HOL-Library.AList"
begin

text \<open>
  Prelude of the development: the parts of Go and of its standard library that the
  modelled packages use, and the lemmas on them that every component shares.

  \<^item> A Go call ends in three ways: it returns a value, it returns an error value, or it
    panics. \<open>'a res\<close> is the sum type of the three; \<open>rbind\<close> is Go's
    \<open>if err != nil { return err }\<close>.
  \<^item> \<open>int\<close> and \<open>int64\<close> are integers with the wrap-around of \<open>+\<close> and \<open>*\<close>
    written out (\<open>wrap64\<close>); \<open>uint64\<close> conversions are \<open>to_uint64\<close>.
  \<^item> \<open>string\<close> and \<open>[]byte\<close> are lists of bytes (HOL's \<open>char\<close> has 256 values).
  \<^item> The functions of \<open>strings\<close>, \<open>strconv\<close> and \<open>fmt\<close> that the code calls.
    \<open>strings.ToLower\<close> is modelled on ASCII letters: other bytes are unchanged.
\<close>

named_theorems res_simps \<open>equations of the result type\<close>
named_theorems str_simps \<open>equations of the string primitives\<close>
named_theorems route_intros \<open>facts on sorted index lists and routes\<close>

section \<open>Errors, panics and results\<close>

datatype num_err = NSyntax | NRange

text \<open>
  The error values of \<open>core/errors\<close>, those of package \<open>mysql\<close> and \<open>io\<close>, and the
  ones the code builds with \<open>fmt.Errorf\<close> or gets from \<open>strconv\<close> and \<open>time\<close>.
  \<open>ErrBadConn\<close> is the one of package \<open>mysql\<close>, \<open>CoreErrBadConn\<close> the one of \<open>core/errors\<close>.
\<close>

datatype (plugins only: code size) goerr =
    ErrNoMasterConn | ErrNoSlaveConn | ErrNoDefaultNode | ErrNoMasterDB | ErrNoSlaveDB
  | ErrNoDatabase | ErrMasterDown | ErrSlaveDown | ErrDatabaseClose | ErrConnIsNil
  | ErrBadConn | CoreErrBadConn | ErrIgnoreSQL | ErrAddressNull | ErrInvalidArgument | ErrInvalidCharset
  | ErrCmdUnsupport | ErrLocationsCount | ErrNoCriteria | ErrNoRouteNode | ErrResultNil
  | ErrSumColumnType | ErrSelectInInsert | ErrInsertInMulti | ErrUpdateInMulti
  | ErrDeleteInMulti | ErrReplaceInMulti | ErrExecInMulti | ErrTransInMulti
  | ErrNoPlan | ErrNoPlanRule | ErrUpdateKey | ErrStmtConvert | ErrExprConvert
  | ErrConnNotEqual | ErrKeyOutOfRange | ErrMultiShard | ErrIRNoColumns
  | ErrIRNoShardingKey | ErrColsLenNotMatch | ErrDateIllegal | ErrDateRangeIllegal
  | ErrDateRangeCount | ErrSlaveExist | ErrSlaveNotExist | ErrBlackSqlExist
  | ErrBlackSqlNotExist | ErrInsertTooComplex | ErrSQLNULL | ErrInternalServer
  | ErrMalformPacket | ErrEOF
  | ErrNum num_err string
  | SqlError int string string
  | ErrTimeParse string
  | Errorf string

datatype panic =
    KeyError string
  | ParserError string
  | PanicMsg string
  | IndexOutOfRange
  | DivideByZero
  | MakeNegativeLen
  | TypeAssertion
  | NilDereference

datatype fail = Err goerr | Panic panic

type_synonym 'a res = "fail + 'a"

definition rbind :: "'a res \<Rightarrow> ('a \<Rightarrow> 'b res) \<Rightarrow> 'b res" where
  "rbind m f = (case m of Inl e \<Rightarrow> Inl e | Inr x \<Rightarrow> f x)"

lemma rbind_Inr [simp, res_simps]: "rbind (Inr x) f = f x"
  by (simp add: rbind_def)

lemma rbind_Inl [simp, res_simps]: "rbind (Inl e) f = Inl e"
  by (simp add: rbind_def)

lemma rbind_eq_Inr_iff [res_simps]:
  "rbind m f = Inr y \<longleftrightarrow> (\<exists>x. m = Inr x \<and> f x = Inr y)"
  by (cases m) auto

lemma rbind_InrE:
  assumes "rbind m f = Inr y"
  obtains x where "m = Inr x" and "f x = Inr y"
  using assms by (auto simp: rbind_eq_Inr_iff)

lemma rbind_cong [fundef_cong]:
  "m = m' \<Longrightarrow> (\<And>x. m' = Inr x \<Longrightarrow> f x = g x) \<Longrightarrow> rbind m f = rbind m' g"
  by (cases m') auto

text \<open>Slices: an index outside the slice panics, and so does \<open>make\<close> with a negative length.\<close>

definition at_index :: "'a list \<Rightarrow> int \<Rightarrow> 'a res" where
  "at_index xs i =
     (if 0 \<le> i \<and> i < int (length xs) then Inr (xs ! nat i) else Inl (Panic IndexOutOfRange))"

lemma at_index_Inr_iff:
  "at_index xs i = Inr x \<longleftrightarrow> 0 \<le> i \<and> i < int (length xs) \<and> x = xs ! nat i"
  by (auto simp: at_index_def)

lemma at_index_in_set: "at_index xs i = Inr x \<Longrightarrow> x \<in> set xs"
  by (auto simp: at_index_Inr_iff)

lemma at_index_of_nat [simp]: "i < length xs \<Longrightarrow> at_index xs (int i) = Inr (xs ! i)"
  by (simp add: at_index_def)

lemma at_index_map:
  "at_index (map f xs) i = (case at_index xs i of Inl e \<Rightarrow> Inl e | Inr x \<Rightarrow> Inr (f x))"
  by (auto simp: at_index_def)

text \<open>A loop over a slice whose body may fail: it stops at the first failure.\<close>

fun rmap :: "('a \<Rightarrow> 'b res) \<Rightarrow> 'a list \<Rightarrow> 'b list res" where
  "rmap f [] = Inr []"
| "rmap f (x # xs) = rbind (f x) (\<lambda>y. rbind (rmap f xs) (\<lambda>ys. Inr (y # ys)))"

lemma rmap_Inr_list_all2: "rmap f xs = Inr ys \<longleftrightarrow> list_all2 (\<lambda>x y. f x = Inr y) xs ys"
  by (induction xs arbitrary: ys) (auto simp: rbind_eq_Inr_iff list_all2_Cons1)

lemma rmap_total: "(\<And>x. x \<in> set xs \<Longrightarrow> f x = Inr (g x)) \<Longrightarrow> rmap f xs = Inr (map g xs)"
  by (induction xs) auto

section \<open>Machine integers\<close>

abbreviation "MinInt64 \<equiv> - (2 ^ 63) :: int"
abbreviation "MaxInt64 \<equiv> 2 ^ 63 - 1 :: int"
abbreviation "MaxUint64 \<equiv> 2 ^ 64 - 1 :: int"

definition wrap64 :: "int \<Rightarrow> int" where
  "wrap64 x = (x + 2 ^ 63) mod 2 ^ 64 - 2 ^ 63"

definition to_uint64 :: "int \<Rightarrow> int" where
  "to_uint64 x = x mod 2 ^ 64"

definition is_int64 :: "int \<Rightarrow> bool" where
  "is_int64 x \<longleftrightarrow> MinInt64 \<le> x \<and> x \<le> MaxInt64"

lemma wrap64_id [simp]: "is_int64 x \<Longrightarrow> wrap64 x = x"
  by (simp add: wrap64_def is_int64_def)

lemma wrap64_range: "is_int64 (wrap64 x)"
proof -
  have "0 \<le> (x + 2 ^ 63) mod 2 ^ 64" "(x + 2 ^ 63) mod 2 ^ 64 < 2 ^ 64" by simp_all
  then show ?thesis by (auto simp: wrap64_def is_int64_def)
qed

lemma to_uint64_id [simp]: "0 \<le> x \<Longrightarrow> x \<le> MaxUint64 \<Longrightarrow> to_uint64 x = x"
  by (simp add: to_uint64_def)

lemma to_uint64_bounds: "0 \<le> to_uint64 x" "to_uint64 x < 2 ^ 64"
  by (simp_all add: to_uint64_def)

text \<open>Go's \<open>/\<close> and \<open>%\<close> truncate towards zero and panic for a zero divisor.\<close>

definition go_div :: "int \<Rightarrow> int \<Rightarrow> int res" where
  "go_div a b = (if b = 0 then Inl (Panic DivideByZero) else Inr (sgn a * sgn b * (\<bar>a\<bar> div \<bar>b\<bar>)))"

definition go_mod :: "int \<Rightarrow> int \<Rightarrow> int res" where
  "go_mod a b = rbind (go_div a b) (\<lambda>q. Inr (a - b * q))"

lemma go_div_pos [simp]: "0 \<le> a \<Longrightarrow> 0 < b \<Longrightarrow> go_div a b = Inr (a div b)"
  by (cases "a = 0") (auto simp: go_div_def)

lemma go_mod_pos [simp]: "0 \<le> a \<Longrightarrow> 0 < b \<Longrightarrow> go_mod a b = Inr (a mod b)"
  by (simp add: go_mod_def minus_mult_div_eq_mod)

section \<open>Strings\<close>

abbreviation byte_of :: "char \<Rightarrow> nat" where
  "byte_of c \<equiv> of_char c"

fun str_less :: "string \<Rightarrow> string \<Rightarrow> bool" where
  "str_less _ [] = False"
| "str_less [] (y # ys) = True"
| "str_less (x # xs) (y # ys) =
     (if byte_of x < byte_of y then True
      else if byte_of x = byte_of y then str_less xs ys else False)"

lemma str_less_irrefl [simp]: "\<not> str_less a a"
  by (induction a) auto

definition is_digit :: "char \<Rightarrow> bool" where
  "is_digit c \<longleftrightarrow> 48 \<le> byte_of c \<and> byte_of c \<le> 57"

definition digit_val :: "char \<Rightarrow> nat" where
  "digit_val c = byte_of c - 48"

definition digit_char :: "nat \<Rightarrow> char" where
  "digit_char d = char_of (48 + d)"

lemma is_digit_digit_char [simp]: "d < 10 \<Longrightarrow> is_digit (digit_char d)"
  by (simp add: is_digit_def digit_char_def)

lemma digit_val_digit_char [simp]: "d < 10 \<Longrightarrow> digit_val (digit_char d) = d"
  by (simp add: digit_val_def digit_char_def)

definition to_lower_char :: "char \<Rightarrow> char" where
  "to_lower_char c = (if 65 \<le> byte_of c \<and> byte_of c \<le> 90 then char_of (byte_of c + 32) else c)"

definition to_upper_char :: "char \<Rightarrow> char" where
  "to_upper_char c = (if 97 \<le> byte_of c \<and> byte_of c \<le> 122 then char_of (byte_of c - 32) else c)"

definition to_lower :: "string \<Rightarrow> string" where
  "to_lower s = map to_lower_char s"

definition to_upper :: "string \<Rightarrow> string" where
  "to_upper s = map to_upper_char s"

lemma to_lower_char_idem [simp]: "to_lower_char (to_lower_char c) = to_lower_char c"
  by (auto simp: to_lower_char_def)

lemma to_lower_idem [simp]: "to_lower (to_lower s) = to_lower s"
  by (simp add: to_lower_def)

text \<open>\<open>strings.Split\<close> and \<open>strings.SplitN(s, sep, 2)\<close> for a one-byte separator.\<close>

fun str_split :: "char \<Rightarrow> string \<Rightarrow> string list" where
  "str_split c [] = [[]]"
| "str_split c (x # xs) =
     (if x = c then [] # str_split c xs
      else (case str_split c xs of [] \<Rightarrow> [[x]] | y # ys \<Rightarrow> (x # y) # ys))"

definition str_splitN2 :: "char \<Rightarrow> string \<Rightarrow> string list" where
  "str_splitN2 c s =
     (case dropWhile (\<lambda>x. x \<noteq> c) s of [] \<Rightarrow> [s] | _ # r \<Rightarrow> [takeWhile (\<lambda>x. x \<noteq> c) s, r])"

lemma str_split_nonempty [simp]: "str_split c s \<noteq> []"
  by (cases s) (auto split: list.splits)

lemma str_split_no_sep: "c \<notin> set s \<Longrightarrow> str_split c s = [s]"
  by (induction s) auto

lemma str_splitN2_no_sep: "c \<notin> set s \<Longrightarrow> str_splitN2 c s = [s]"
proof -
  assume "c \<notin> set s"
  then have "dropWhile (\<lambda>x. x \<noteq> c) s = []" by (auto simp: dropWhile_eq_Nil_conv)
  then show ?thesis unfolding str_splitN2_def by (simp only: list.case)
qed

lemma str_splitN2_sep: "c \<notin> set a \<Longrightarrow> str_splitN2 c (a @ c # b) = [a, b]"
proof -
  assume "c \<notin> set a"
  then have "dropWhile (\<lambda>x. x \<noteq> c) (a @ c # b) = c # b" "takeWhile (\<lambda>x. x \<noteq> c) (a @ c # b) = a"
    by (auto simp: dropWhile_append takeWhile_append)
  then show ?thesis by (simp add: str_splitN2_def)
qed

lemma str_splitN2_length: "length (str_splitN2 c s) = 1 \<or> length (str_splitN2 c s) = 2"
  by (auto simp: str_splitN2_def split: list.splits)

definition trim_set :: "string \<Rightarrow> string \<Rightarrow> string" where
  "trim_set cs s =
     rev (dropWhile (\<lambda>c. c \<in> set cs) (rev (dropWhile (\<lambda>c. c \<in> set cs) s)))"

lemma trim_set_id: "set cs \<inter> set s = {} \<Longrightarrow> trim_set cs s = s"
proof -
  assume a: "set cs \<inter> set s = {}"
  have k: "dropWhile (\<lambda>c. c \<in> set cs) t = t" if "set cs \<inter> set t = {}" for t
    using that by (cases t) auto
  have "dropWhile (\<lambda>c. c \<in> set cs) s = s" using a by (rule k)
  moreover have "dropWhile (\<lambda>c. c \<in> set cs) (rev s) = rev s" using a by (intro k) simp
  ultimately show ?thesis by (simp add: trim_set_def)
qed

section \<open>Decimal numbers\<close>

fun nat_str :: "nat \<Rightarrow> string" where
  "nat_str n =
     (if n < 10 then [digit_char n] else nat_str (n div 10) @ [digit_char (n mod 10)])"

declare nat_str.simps [simp del]

definition int_str :: "int \<Rightarrow> string" where
  "int_str i = (if i < 0 then CHR ''-'' # nat_str (nat (- i)) else nat_str (nat i))"

definition zero_pad :: "nat \<Rightarrow> string \<Rightarrow> string" where
  "zero_pad w s = replicate (w - length s) (CHR ''0'') @ s"

text \<open>\<open>fmt\<close>'s \<open>%0wd\<close>: the sign is written first and counts towards the width.\<close>

definition fmt_0d :: "nat \<Rightarrow> int \<Rightarrow> string" where
  "fmt_0d w i =
     (if i < 0 then CHR ''-'' # zero_pad (w - 1) (nat_str (nat (- i)))
      else zero_pad w (nat_str (nat i)))"

fun parse_digits :: "int \<Rightarrow> int \<Rightarrow> string \<Rightarrow> num_err + int" where
  "parse_digits mx n [] = Inr n"
| "parse_digits mx n (c # cs) =
     (if is_digit c then
        (let n1 = n * 10 + int (digit_val c) in
         if n1 > mx then Inl NRange else parse_digits mx n1 cs)
      else Inl NSyntax)"

definition ParseUint10 :: "string \<Rightarrow> num_err + int" where
  "ParseUint10 s = (if s = [] then Inl NSyntax else parse_digits MaxUint64 0 s)"

definition ParseInt10 :: "string \<Rightarrow> num_err + int" where
  "ParseInt10 s =
     (if s = [] then Inl NSyntax
      else
        let neg = (hd s = CHR ''-'');
            s' = (if hd s = CHR ''-'' \<or> hd s = CHR ''+'' then tl s else s)
        in (case ParseUint10 s' of
              Inl e \<Rightarrow> Inl e
            | Inr un \<Rightarrow>
                if \<not> neg \<and> un \<ge> 2 ^ 63 then Inl NRange
                else if neg \<and> un > 2 ^ 63 then Inl NRange
                else Inr (if neg then - un else un)))"

definition strconv_ParseInt :: "string \<Rightarrow> int res" where
  "strconv_ParseInt s =
     (case ParseInt10 s of Inl e \<Rightarrow> Inl (Err (ErrNum e s)) | Inr v \<Rightarrow> Inr v)"

abbreviation "strconv_Atoi \<equiv> strconv_ParseInt"

lemma nat_str_nonempty [simp]: "nat_str n \<noteq> []"
  by (subst nat_str.simps) simp

lemma nat_str_digits: "c \<in> set (nat_str n) \<Longrightarrow> is_digit c"
proof (induction n rule: nat_str.induct)
  case (1 n)
  show ?case
  proof (cases "n < 10")
    case True
    with "1.prems" show ?thesis by (simp add: nat_str.simps [of n])
  next
    case False
    with "1.prems" have "c \<in> set (nat_str (n div 10)) \<or> c = digit_char (n mod 10)"
      by (auto simp: nat_str.simps [of n])
    with "1.IH" [OF False] show ?thesis by auto
  qed
qed

lemma nat_str_hd: "is_digit (hd (nat_str n))"
  by (rule nat_str_digits [of _ n]) simp

lemma parse_digits_append:
  "parse_digits mx n (xs @ ys) =
     (case parse_digits mx n xs of Inl e \<Rightarrow> Inl e | Inr m \<Rightarrow> parse_digits mx m ys)"
  by (induction xs arbitrary: n) (auto simp: Let_def)

lemma parse_digits_nat_str: "int n \<le> mx \<Longrightarrow> parse_digits mx 0 (nat_str n) = Inr (int n)"
proof (induction n rule: nat_str.induct)
  case (1 n)
  show ?case
  proof (cases "n < 10")
    case True
    with "1.prems" show ?thesis by (simp add: nat_str.simps [of n])
  next
    case False
    have eq: "int (n div 10) * 10 + int (n mod 10) = int n"
      by (metis div_mult_mod_eq of_nat_add of_nat_mult of_nat_numeral)
    have "int (n div 10) \<le> mx"
      using "1.prems" by (meson div_le_dividend le_trans of_nat_mono order.trans)
    with False "1.IH" have "parse_digits mx 0 (nat_str (n div 10)) = Inr (int (n div 10))"
      by simp
    with False "1.prems" eq show ?thesis
      by (simp add: nat_str.simps [of n] parse_digits_append Let_def)
  qed
qed

lemma ParseUint10_nat_str: "int n \<le> MaxUint64 \<Longrightarrow> ParseUint10 (nat_str n) = Inr (int n)"
  by (simp add: ParseUint10_def parse_digits_nat_str del: of_nat_le_iff)

lemma not_digit_sign: "\<not> is_digit (CHR ''-'')" "\<not> is_digit (CHR ''+'')"
  by (simp_all add: is_digit_def)

lemma nat_str_hd_sign: "hd (nat_str n) \<noteq> CHR ''-''" "hd (nat_str n) \<noteq> CHR ''+''"
  using nat_str_hd [of n] not_digit_sign by metis+

text \<open>What \<open>strconv.FormatInt\<close> prints, \<open>strconv.ParseInt\<close> reads back.\<close>

lemma ParseInt10_int_str: "is_int64 i \<Longrightarrow> ParseInt10 (int_str i) = Inr i"
proof (cases "i < 0")
  case True
  moreover assume i: "is_int64 i"
  ultimately have "ParseUint10 (nat_str (nat (- i))) = Inr (- i)"
    using ParseUint10_nat_str [of "nat (- i)"] by (simp add: is_int64_def)
  with True i show ?thesis by (simp add: ParseInt10_def int_str_def is_int64_def)
next
  case False
  moreover assume i: "is_int64 i"
  ultimately have "ParseUint10 (nat_str (nat i)) = Inr i"
    using ParseUint10_nat_str [of "nat i"] by (simp add: is_int64_def)
  with False i show ?thesis
    by (simp add: ParseInt10_def int_str_def is_int64_def nat_str_hd_sign Let_def)
qed

lemma strconv_ParseInt_int_str: "is_int64 i \<Longrightarrow> strconv_ParseInt (int_str i) = Inr i"
  by (simp add: strconv_ParseInt_def ParseInt10_int_str)

lemma parse_digits_bounds:
  "parse_digits mx n s = Inr v \<Longrightarrow> 0 \<le> n \<Longrightarrow> n \<le> mx \<Longrightarrow> n \<le> v \<and> v \<le> mx"
proof (induction s arbitrary: n)
  case (Cons c cs)
  let ?n1 = "n * 10 + int (digit_val c)"
  from Cons.prems have le: "?n1 \<le> mx" and rest: "parse_digits mx ?n1 cs = Inr v"
    by (auto simp: Let_def split: if_splits)
  from Cons.prems have "n \<le> ?n1" by simp
  with Cons.IH [OF rest] le Cons.prems show ?case by linarith
qed simp

lemma ParseUint10_range: "ParseUint10 s = Inr v \<Longrightarrow> 0 \<le> v \<and> v \<le> MaxUint64"
  by (auto simp: ParseUint10_def dest: parse_digits_bounds split: if_splits)

lemma ParseInt10_range: "ParseInt10 s = Inr v \<Longrightarrow> is_int64 v"
  by (auto simp: ParseInt10_def is_int64_def Let_def dest!: ParseUint10_range
      split: if_splits sum.splits)

lemma strconv_ParseInt_range: "strconv_ParseInt s = Inr v \<Longrightarrow> is_int64 v"
  by (auto simp: strconv_ParseInt_def dest: ParseInt10_range split: sum.splits)

text \<open>A non-negative integer literal is read the same by \<open>ParseInt\<close> and \<open>ParseUint\<close>.\<close>

lemma parse_digits_mono:
  "parse_digits mx n s = Inr v \<Longrightarrow> mx \<le> mx' \<Longrightarrow> parse_digits mx' n s = Inr v"
  by (induction s arbitrary: n) (auto simp: Let_def split: if_splits)

section \<open>Maps with Go's zero default\<close>

definition map_get0 :: "('k \<rightharpoonup> int) \<Rightarrow> 'k \<Rightarrow> int" where
  "map_get0 m k = (case m k of None \<Rightarrow> 0 | Some v \<Rightarrow> v)"

lemma map_get0_Some [simp]: "m k = Some v \<Longrightarrow> map_get0 m k = v"
  by (simp add: map_get0_def)

text \<open>
  Maps from keys to slices, as association lists without duplicate keys: \<open>m[k]\<close>, which
  is \<open>nil\<close> for an absent key, and \<open>m[k] = append(m[k], x)\<close>.
\<close>

definition map_list :: "('k \<times> 'v list) list \<Rightarrow> 'k \<Rightarrow> 'v list" where
  "map_list m k = (case map_of m k of None \<Rightarrow> [] | Some l \<Rightarrow> l)"

definition map_append :: "('k \<times> 'v list) list \<Rightarrow> 'k \<Rightarrow> 'v \<Rightarrow> ('k \<times> 'v list) list" where
  "map_append m k x = AList.update k (map_list m k @ [x]) m"

lemma map_list_Nil [simp]: "map_list [] k = []"
  by (simp add: map_list_def)

lemma map_of_map_append: "map_of (map_append m k x) = (map_of m)(k \<mapsto> map_list m k @ [x])"
  by (simp add: map_append_def update_conv')

lemma map_list_append:
  "map_list (map_append m k x) j = (if j = k then map_list m k @ [x] else map_list m j)"
  by (simp add: map_list_def [of "map_append m k x"] map_of_map_append) (simp add: map_list_def)

lemma keys_map_append: "fst ` set (map_append m k x) = insert k (fst ` set m)"
  by (simp add: map_append_def dom_update)

lemma distinct_map_append: "distinct (map fst m) \<Longrightarrow> distinct (map fst (map_append m k x))"
  by (simp add: map_append_def distinct_update)

lemma map_list_mem: "distinct (map fst m) \<Longrightarrow> (k, l) \<in> set m \<Longrightarrow> map_list m k = l"
  by (simp add: map_list_def)

lemma map_list_absent: "k \<notin> fst ` set m \<Longrightarrow> map_list m k = []"
  using map_of_eq_None_iff [of m k] by (simp add: map_list_def)

text \<open>
  Go iterates over a map in an unspecified order: an order is a function that permutes the
  list of the map's keys, and \<open>map_order\<close> is all that the code may rely on.
\<close>

definition map_order :: "('a list \<Rightarrow> 'a list) \<Rightarrow> bool" where
  "map_order mo \<longleftrightarrow> (\<forall>xs. distinct xs \<longrightarrow> distinct (mo xs) \<and> set (mo xs) = set xs)"

lemma map_order_id: "map_order (\<lambda>xs. xs)"
  by (simp add: map_order_def)

lemma map_order_rev: "map_order rev"
  by (simp add: map_order_def)

lemma map_orderD:
  "map_order mo \<Longrightarrow> distinct xs \<Longrightarrow> distinct (mo xs)"
  "map_order mo \<Longrightarrow> distinct xs \<Longrightarrow> set (mo xs) = set xs"
  by (simp_all add: map_order_def)

end
