(* ===== verification/Sql_Keywords.thy ===== *)
theory Sql_Keywords
  imports Go_Base
begin

text \<open>
  The token codes of the generated parser (the constants of src/sqlparser/sql.go) and the
  keyword table of the tokenizer (src/sqlparser/token.go). A one-byte token is its own code.
\<close>

abbreviation tk_LEX_ERROR :: int where "tk_LEX_ERROR \<equiv> 57346"
abbreviation tk_SELECT :: int where "tk_SELECT \<equiv> 57347"
abbreviation tk_INSERT :: int where "tk_INSERT \<equiv> 57348"
abbreviation tk_UPDATE :: int where "tk_UPDATE \<equiv> 57349"
abbreviation tk_DELETE :: int where "tk_DELETE \<equiv> 57350"
abbreviation tk_FROM :: int where "tk_FROM \<equiv> 57351"
abbreviation tk_WHERE :: int where "tk_WHERE \<equiv> 57352"
abbreviation tk_GROUP :: int where "tk_GROUP \<equiv> 57353"
abbreviation tk_HAVING :: int where "tk_HAVING \<equiv> 57354"
abbreviation tk_ORDER :: int where "tk_ORDER \<equiv> 57355"
abbreviation tk_BY :: int where "tk_BY \<equiv> 57356"
abbreviation tk_LIMIT :: int where "tk_LIMIT \<equiv> 57357"
abbreviation tk_FOR :: int where "tk_FOR \<equiv> 57358"
abbreviation tk_ALL :: int where "tk_ALL \<equiv> 57359"
abbreviation tk_DISTINCT :: int where "tk_DISTINCT \<equiv> 57360"
abbreviation tk_AS :: int where "tk_AS \<equiv> 57361"
abbreviation tk_EXISTS :: int where "tk_EXISTS \<equiv> 57362"
abbreviation tk_NULL :: int where "tk_NULL \<equiv> 57363"
abbreviation tk_ASC :: int where "tk_ASC \<equiv> 57364"
abbreviation tk_DESC :: int where "tk_DESC \<equiv> 57365"
abbreviation tk_VALUES :: int where "tk_VALUES \<equiv> 57366"
abbreviation tk_INTO :: int where "tk_INTO \<equiv> 57367"
abbreviation tk_DUPLICATE :: int where "tk_DUPLICATE \<equiv> 57368"
abbreviation tk_KEY :: int where "tk_KEY \<equiv> 57369"
abbreviation tk_DEFAULT :: int where "tk_DEFAULT \<equiv> 57370"
abbreviation tk_SET :: int where "tk_SET \<equiv> 57371"
abbreviation tk_LOCK :: int where "tk_LOCK \<equiv> 57372"
abbreviation tk_ID :: int where "tk_ID \<equiv> 57373"
abbreviation tk_STRING :: int where "tk_STRING \<equiv> 57374"
abbreviation tk_NUMBER :: int where "tk_NUMBER \<equiv> 57375"
abbreviation tk_VALUE_ARG :: int where "tk_VALUE_ARG \<equiv> 57376"
abbreviation tk_COMMENT :: int where "tk_COMMENT \<equiv> 57377"
abbreviation tk_UNION :: int where "tk_UNION \<equiv> 57378"
abbreviation tk_MINUS :: int where "tk_MINUS \<equiv> 57379"
abbreviation tk_EXCEPT :: int where "tk_EXCEPT \<equiv> 57380"
abbreviation tk_INTERSECT :: int where "tk_INTERSECT \<equiv> 57381"
abbreviation tk_JOIN :: int where "tk_JOIN \<equiv> 57382"
abbreviation tk_STRAIGHT_JOIN :: int where "tk_STRAIGHT_JOIN \<equiv> 57383"
abbreviation tk_LEFT :: int where "tk_LEFT \<equiv> 57384"
abbreviation tk_RIGHT :: int where "tk_RIGHT \<equiv> 57385"
abbreviation tk_INNER :: int where "tk_INNER \<equiv> 57386"
abbreviation tk_OUTER :: int where "tk_OUTER \<equiv> 57387"
abbreviation tk_CROSS :: int where "tk_CROSS \<equiv> 57388"
abbreviation tk_NATURAL :: int where "tk_NATURAL \<equiv> 57389"
abbreviation tk_USE :: int where "tk_USE \<equiv> 57390"
abbreviation tk_FORCE :: int where "tk_FORCE \<equiv> 57391"
abbreviation tk_ON :: int where "tk_ON \<equiv> 57392"
abbreviation tk_OR :: int where "tk_OR \<equiv> 57393"
abbreviation tk_AND :: int where "tk_AND \<equiv> 57394"
abbreviation tk_NOT :: int where "tk_NOT \<equiv> 57395"
abbreviation tk_BETWEEN :: int where "tk_BETWEEN \<equiv> 57396"
abbreviation tk_CASE :: int where "tk_CASE \<equiv> 57397"
abbreviation tk_WHEN :: int where "tk_WHEN \<equiv> 57398"
abbreviation tk_THEN :: int where "tk_THEN \<equiv> 57399"
abbreviation tk_ELSE :: int where "tk_ELSE \<equiv> 57400"
abbreviation tk_LE :: int where "tk_LE \<equiv> 57401"
abbreviation tk_GE :: int where "tk_GE \<equiv> 57402"
abbreviation tk_NE :: int where "tk_NE \<equiv> 57403"
abbreviation tk_NULL_SAFE_EQUAL :: int where "tk_NULL_SAFE_EQUAL \<equiv> 57404"
abbreviation tk_IS :: int where "tk_IS \<equiv> 57405"
abbreviation tk_LIKE :: int where "tk_LIKE \<equiv> 57406"
abbreviation tk_IN :: int where "tk_IN \<equiv> 57407"
abbreviation tk_END :: int where "tk_END \<equiv> 57409"
abbreviation tk_BEGIN :: int where "tk_BEGIN \<equiv> 57410"
abbreviation tk_START :: int where "tk_START \<equiv> 57411"
abbreviation tk_TRANSACTION :: int where "tk_TRANSACTION \<equiv> 57412"
abbreviation tk_COMMIT :: int where "tk_COMMIT \<equiv> 57413"
abbreviation tk_ROLLBACK :: int where "tk_ROLLBACK \<equiv> 57414"
abbreviation tk_NAMES :: int where "tk_NAMES \<equiv> 57415"
abbreviation tk_REPLACE :: int where "tk_REPLACE \<equiv> 57416"
abbreviation tk_ADMIN :: int where "tk_ADMIN \<equiv> 57417"
abbreviation tk_HELP :: int where "tk_HELP \<equiv> 57418"
abbreviation tk_OFFSET :: int where "tk_OFFSET \<equiv> 57419"
abbreviation tk_COLLATE :: int where "tk_COLLATE \<equiv> 57420"
abbreviation tk_CREATE :: int where "tk_CREATE \<equiv> 57421"
abbreviation tk_ALTER :: int where "tk_ALTER \<equiv> 57422"
abbreviation tk_DROP :: int where "tk_DROP \<equiv> 57423"
abbreviation tk_RENAME :: int where "tk_RENAME \<equiv> 57424"
abbreviation tk_TABLE :: int where "tk_TABLE \<equiv> 57425"
abbreviation tk_INDEX :: int where "tk_INDEX \<equiv> 57426"
abbreviation tk_VIEW :: int where "tk_VIEW \<equiv> 57427"
abbreviation tk_TO :: int where "tk_TO \<equiv> 57428"
abbreviation tk_IGNORE :: int where "tk_IGNORE \<equiv> 57429"
abbreviation tk_IF :: int where "tk_IF \<equiv> 57430"
abbreviation tk_UNIQUE :: int where "tk_UNIQUE \<equiv> 57431"
abbreviation tk_USING :: int where "tk_USING \<equiv> 57432"
abbreviation tk_TRUNCATE :: int where "tk_TRUNCATE \<equiv> 57433"

definition keyword_table :: "(string \<times> int) list" where
  "keyword_table =
     [(''select'', tk_SELECT), (''insert'', tk_INSERT), (''update'', tk_UPDATE),
      (''delete'', tk_DELETE), (''from'', tk_FROM), (''where'', tk_WHERE),
      (''group'', tk_GROUP), (''having'', tk_HAVING), (''order'', tk_ORDER),
      (''by'', tk_BY), (''limit'', tk_LIMIT), (''for'', tk_FOR), (''union'', tk_UNION),
      (''all'', tk_ALL), (''minus'', tk_MINUS), (''except'', tk_EXCEPT),
      (''intersect'', tk_INTERSECT), (''join'', tk_JOIN),
      (''straight_join'', tk_STRAIGHT_JOIN), (''left'', tk_LEFT), (''right'', tk_RIGHT),
      (''inner'', tk_INNER), (''outer'', tk_OUTER), (''cross'', tk_CROSS),
      (''natural'', tk_NATURAL), (''use'', tk_USE), (''force'', tk_FORCE), (''on'', tk_ON),
      (''into'', tk_INTO), (''distinct'', tk_DISTINCT), (''case'', tk_CASE),
      (''when'', tk_WHEN), (''then'', tk_THEN), (''else'', tk_ELSE), (''end'', tk_END),
      (''as'', tk_AS), (''and'', tk_AND), (''or'', tk_OR), (''not'', tk_NOT),
      (''exists'', tk_EXISTS), (''in'', tk_IN), (''is'', tk_IS), (''like'', tk_LIKE),
      (''between'', tk_BETWEEN), (''null'', tk_NULL), (''asc'', tk_ASC),
      (''desc'', tk_DESC), (''values'', tk_VALUES), (''duplicate'', tk_DUPLICATE),
      (''key'', tk_KEY), (''default'', tk_DEFAULT), (''set'', tk_SET), (''lock'', tk_LOCK),
      (''create'', tk_CREATE), (''alter'', tk_ALTER), (''rename'', tk_RENAME),
      (''drop'', tk_DROP), (''table'', tk_TABLE), (''index'', tk_INDEX),
      (''view'', tk_VIEW), (''to'', tk_TO), (''ignore'', tk_IGNORE), (''if'', tk_IF),
      (''unique'', tk_UNIQUE), (''using'', tk_USING), (''begin'', tk_BEGIN),
      (''rollback'', tk_ROLLBACK), (''commit'', tk_COMMIT), (''names'', tk_NAMES),
      (''replace'', tk_REPLACE), (''admin'', tk_ADMIN), (''help'', tk_HELP),
      (''start'', tk_START), (''transaction'', tk_TRANSACTION), (''collate'', tk_COLLATE),
      (''offset'', tk_OFFSET), (''truncate'', tk_TRUNCATE)]"

definition keyword_id :: "string \<Rightarrow> int option" where
  "keyword_id s = map_of keyword_table s"

lemma keyword_table_distinct: "distinct (map fst keyword_table)"
  by (simp add: keyword_table_def)

lemma keyword_id_range: "keyword_id s = Some k \<Longrightarrow> 57346 < k \<and> k \<le> 57433"
proof -
  assume "keyword_id s = Some k"
  then have "(s, k) \<in> set keyword_table" by (simp add: keyword_id_def map_of_SomeD)
  moreover have "\<forall>p \<in> set keyword_table. 57346 < snd p \<and> snd p \<le> 57433"
    by (simp add: keyword_table_def)
  ultimately show ?thesis by fastforce
qed

text \<open>A keyword is a lower-case word, so an upper-case identifier is never escaped.\<close>

lemma keyword_id_lower: "keyword_id s = Some k \<Longrightarrow> to_lower s = s"
proof -
  assume "keyword_id s = Some k"
  then have "s \<in> set (map fst keyword_table)"
    by (auto simp: keyword_id_def dest: map_of_SomeD intro: rev_image_eqI)
  moreover have "\<forall>w \<in> set (map fst keyword_table). to_lower w = w"
    by (simp add: keyword_table_def to_lower_def to_lower_char_def)
  ultimately show ?thesis by blast
qed

end
