(* ===== verification/Sql_Tables.thy ===== *)
theory Sql_Tables
  imports Sql_Keywords
begin

text \<open>
  The tables of the generated parser (src/sqlparser/sql.go). A state is a number below 403, a production one below 219, a token of
  the grammar one from 1 to 107, and a nonterminal one below 78. \<open>yyPact\<close>, \<open>yyAct\<close> and \<open>yyChk\<close> are the packed table of shifts, \<open>yyDef\<close> the default
  reductions with \<open>yyExca\<close> for their exceptions, \<open>yyPgo\<close> the gotos, \<open>yyR1\<close> and \<open>yyR2\<close> the left sides and lengths of the productions, and
  \<open>yyTok1\<close>, \<open>yyTok2\<close>, \<open>yyTok3\<close> number the tokens of the lexer.
\<close>

abbreviation yyEofCode :: int where "yyEofCode \<equiv> 1"
abbreviation yyErrCode :: int where "yyErrCode \<equiv> 2"
abbreviation yyPrivate :: int where "yyPrivate \<equiv> 57344"
abbreviation yyLast :: int where "yyLast \<equiv> 647"
abbreviation yyFlag :: int where "yyFlag \<equiv> - 1000"

definition yyExca :: "int list" where
  "yyExca =
     [- 1, 1, 1, - 1, - 2, 0]"

definition yyAct :: "int list" where
  "yyAct =
     [111, 108, 315, 352, 187, 385, 102, 139, 74, 346, 270, 119, 76, 185, 229, 188, 3, 148, 97, 265,
      199, 98, 60, 92, 162, 161, 109, 118, 211, 88, 124, 81, 394, 53, 394, 63, 279, 79, 115, 116,
      117, 394, 133, 122, 142, 156, 156, 78, 77, 47, 83, 49, 66, 85, 156, 50, 258, 89, 227, 205,
      363, 362, 114, 118, 125, 361, 124, 72, 82, 37, 38, 39, 40, 79, 115, 116, 117, 256, 106, 122,
      120, 121, 103, 138, 334, 336, 52, 96, 53, 132, 343, 146, 84, 141, 78, 152, 129, 396, 105, 395,
      125, 158, 62, 55, 56, 57, 393, 54, 150, 123, 342, 307, 184, 186, 147, 79, 120, 121, 154, 305,
      189, 257, 58, 226, 190, 298, 193, 274, 160, 78, 77, 78, 77, 135, 94, 335, 206, 198, 259, 196,
      171, 399, 134, 201, 208, 123, 266, 203, 204, 137, 197, 243, 162, 161, 221, 174, 175, 176, 171, 207,
      235, 206, 61, 161, 242, 241, 358, 233, 237, 238, 103, 222, 75, 162, 161, 87, 225, 239, 234, 345,
      244, 245, 246, 248, 249, 250, 251, 252, 253, 254, 255, 240, 130, 347, 287, 288, 289, 290, 291, 275,
      292, 293, 145, 347, 236, 103, 103, 272, 217, 328, 261, 263, 276, 266, 329, 310, 273, 247, 360, 269,
      277, 267, 326, 215, 78, 77, 218, 327, 78, 283, 51, 359, 281, 90, 37, 38, 39, 40, 150, 200,
      280, 332, 331, 233, 330, 130, 297, 200, 262, 284, 114, 118, 258, 369, 124, 282, 300, 301, 338, 379,
      155, 101, 115, 116, 117, 64, 106, 122, 299, 78, 77, 285, 304, 311, 71, 318, 103, 313, 378, 130,
      314, 306, 268, 150, 309, 312, 105, 126, 125, 93, 214, 216, 213, 156, 19, 377, 223, 233, 233, 133,
      324, 325, 232, 93, 120, 121, 99, 231, 194, 321, 172, 173, 174, 175, 176, 171, 341, 349, 192, 19,
      232, 191, 93, 348, 344, 231, 79, 354, 339, 337, 350, 353, 296, 123, 114, 118, 320, 260, 124, 391,
      19, 20, 21, 22, 295, 79, 115, 116, 117, 159, 106, 122, 319, 392, 364, 220, 219, 207, 62, 365,
      153, 64, 375, 374, 23, 376, 373, 143, 140, 136, 105, 203, 125, 383, 86, 128, 384, 380, 386, 386,
      386, 381, 382, 353, 387, 388, 34, 366, 120, 121, 78, 77, 127, 91, 19, 400, 303, 209, 397, 144,
      401, 69, 402, 67, 357, 170, 169, 172, 173, 174, 175, 176, 171, 149, 316, 317, 271, 123, 28, 29,
      356, 30, 31, 367, 32, 33, 202, 323, 200, 24, 25, 27, 26, 114, 118, 73, 398, 124, 389, 19,
      42, 35, 18, 17, 101, 115, 116, 117, 19, 106, 122, 16, 15, 170, 169, 172, 173, 174, 175, 176,
      171, 14, 13, 12, 118, 95, 210, 124, 48, 105, 278, 125, 212, 368, 79, 115, 116, 117, 80, 133,
      122, 151, 390, 118, 370, 351, 124, 120, 121, 99, 131, 355, 322, 79, 115, 116, 117, 118, 133, 122,
      124, 125, 371, 372, 340, 308, 195, 79, 115, 116, 117, 264, 133, 122, 113, 110, 123, 120, 121, 112,
      125, 170, 169, 172, 173, 174, 175, 176, 171, 224, 107, 163, 104, 333, 125, 230, 120, 121, 170, 169,
      172, 173, 174, 175, 176, 171, 123, 286, 228, 302, 120, 121, 170, 169, 172, 173, 174, 175, 176, 171,
      100, 294, 157, 68, 36, 123, 170, 169, 172, 173, 174, 175, 176, 171, 165, 167, 70, 11, 10, 123,
      177, 178, 179, 180, 181, 182, 183, 168, 166, 164, 170, 169, 172, 173, 174, 175, 176, 171, 169, 172,
      173, 174, 175, 176, 171, 287, 288, 289, 290, 291, 41, 292, 293, 9, 8, 7, 6, 5, 4, 2,
      1, 0, 0, 0, 0, 0, 0, 0, 0, 0, 0, 43, 44, 45, 46, 0, 0, 0, 0, 0,
      0, 0, 0, 59, 0, 0, 65]"

definition yyPact :: "int list" where
  "yyPact =
     [335, - 1000, - 1000, 196, - 1000, - 1000, - 1000, - 1000, - 1000, - 1000, - 1000, - 1000, - 1000, - 1000, - 1000, - 1000, - 1000, - 1000, - 1000, - 1000,
      - 1000, - 1000, - 1000, - 1000, - 49, - 14, 9, 5, - 1000, 37, - 1000, - 1000, - 1000, 71, 234, - 1000, 434, 386, - 1000, - 1000,
      - 1000, 383, - 1000, - 69, 327, 426, 84, - 72, - 31, 234, - 1000, - 6, 234, - 1000, 343, - 74, 234, - 74, - 1000, 368,
      286, - 1000, 54, - 1000, - 1000, - 11, - 1000, - 1000, 413, - 1000, 252, 367, 346, 327, 203, 462, - 1000, 80, - 1000, 53,
      338, 93, 234, - 1000, 337, - 1000, - 57, 336, 379, 149, 234, 327, 389, 295, 329, 327, - 1000, 251, - 1000, - 1000,
      330, 48, 98, 518, - 1000, 42, 314, - 1000, - 1000, - 1000, 476, 285, 282, - 1000, 272, - 1000, - 1000, - 1000, - 1000, - 1000,
      - 1000, - 1000, - 1000, - 1000, - 1000, 476, - 1000, 327, 295, 418, 295, - 1000, 333, 443, 6, 326, - 1000, 377, - 77, - 1000,
      195, - 1000, 325, - 1000, - 1000, 324, - 1000, 267, - 1000, 263, 196, 16, - 1000, - 1000, - 1000, 271, 413, - 1000, - 1000, 234,
      128, 42, 42, 476, 263, 94, 476, 476, 161, 476, 476, 476, 476, 476, 476, 476, 476, - 1000, - 1000, - 1000,
      - 1000, - 1000, - 1000, - 1000, - 1000, 518, - 30, 14, 31, 518, - 1000, 230, 413, - 1000, 434, 87, 466, 253, 237, 403,
      42, - 1000, 476, 466, 466, - 1000, - 1000, 47, - 1000, - 1000, 146, 234, - 1000, - 65, - 1000, - 1000, - 1000, - 1000, - 1000, - 1000,
      - 1000, - 1000, 389, 295, 213, - 1000, - 1000, 295, 229, 562, 313, 289, 45, - 1000, - 1000, - 1000, - 1000, - 1000, 108, 466,
      - 1000, 263, 476, 476, 466, 494, - 1000, 375, 236, 525, - 1000, 79, 79, 61, 61, 61, - 1000, - 1000, 476, - 1000,
      - 1000, 12, 413, 4, 154, - 1000, 42, 389, 295, 403, 399, 401, 98, 466, 234, 321, - 1000, - 1000, 305, - 1000,
      - 1000, 203, 263, - 1000, 416, 271, 271, - 1000, - 1000, 179, 166, 201, 199, 198, 33, - 1000, 298, 151, 297, - 1000,
      466, 449, 476, - 1000, 466, - 1000, 3, - 1000, 8, - 1000, 476, 119, 140, 150, 399, - 1000, 476, 476, - 1000, - 1000,
      - 1000, - 1000, 408, 390, 562, 113, - 1000, 188, - 1000, 175, - 1000, - 1000, - 1000, - 1000, - 34, - 38, - 39, - 1000, - 1000, - 1000,
      476, 466, - 1000, - 1000, 466, 476, - 1000, 361, - 1000, - 1000, 381, 211, - 1000, 480, - 1000, 403, 42, 476, 42, - 1000,
      - 1000, 259, 242, 223, 466, 466, 350, 476, 476, 476, - 1000, - 1000, - 1000, 399, 98, 210, 98, 234, 234, 234,
      431, 466, 466, - 1000, 323, - 1, - 1000, - 8, - 10, 295, - 1000, 429, 70, - 1000, 234, - 1000, - 1000, 203, - 1000, 234,
      - 1000, 234, - 1000]"

definition yyPgo :: "int list" where
  "yyPgo =
     [0, 620, 619, 15, 618, 617, 616, 615, 614, 613, 578, 577, 610, 576, 564, 563, 230, 18, 21, 562,
      561, 560, 548, 14, 547, 535, 22, 533, 5, 20, 6, 532, 531, 17, 530, 13, 26, 4, 529, 519,
      11, 515, 1, 514, 511, 19, 506, 505, 492, 491, 10, 485, 3, 484, 2, 482, 23, 481, 9, 8,
      12, 175, 478, 472, 470, 468, 466, 0, 7, 465, 463, 462, 461, 452, 451, 443, 442, 440]"

definition yyR1 :: "int list" where
  "yyR1 =
     [0, 1, 2, 2, 2, 2, 2, 2, 2, 2, 2, 2, 2, 2, 2, 2, 2, 2, 3, 3,
      3, 4, 4, 73, 73, 5, 6, 7, 7, 7, 7, 70, 70, 71, 72, 74, 74, 75, 76, 8,
      8, 8, 9, 9, 9, 10, 11, 11, 11, 77, 12, 13, 13, 14, 14, 14, 14, 14, 15, 15,
      17, 17, 18, 18, 18, 21, 21, 19, 19, 19, 22, 22, 23, 23, 23, 23, 20, 20, 20, 24,
      24, 24, 24, 24, 24, 24, 24, 24, 25, 25, 25, 26, 26, 27, 27, 27, 27, 28, 28, 29,
      29, 30, 30, 30, 30, 30, 31, 31, 31, 31, 31, 31, 31, 31, 31, 31, 32, 32, 32, 32,
      32, 32, 32, 33, 33, 38, 38, 36, 36, 40, 37, 37, 35, 35, 35, 35, 35, 35, 35, 35,
      35, 35, 35, 35, 35, 35, 35, 35, 35, 39, 39, 41, 41, 41, 43, 46, 46, 44, 44, 45,
      47, 47, 42, 42, 42, 34, 34, 34, 34, 48, 48, 49, 49, 50, 50, 51, 51, 52, 53, 53,
      53, 54, 54, 54, 54, 55, 55, 55, 56, 56, 57, 57, 58, 58, 59, 59, 60, 60, 61, 61,
      62, 62, 16, 16, 63, 63, 63, 63, 63, 64, 64, 65, 65, 66, 66, 67, 68, 69, 69]"

definition yyR2 :: "int list" where
  "yyR2 =
     [0, 1, 1, 1, 1, 1, 1, 1, 1, 1, 1, 1, 1, 1, 1, 1, 1, 1, 4, 12,
      3, 8, 8, 6, 6, 8, 7, 3, 4, 4, 6, 1, 2, 1, 1, 4, 2, 2, 4, 5,
      8, 4, 6, 7, 4, 5, 4, 5, 5, 0, 2, 0, 2, 1, 2, 1, 1, 1, 0, 1,
      1, 3, 1, 2, 3, 1, 1, 0, 1, 2, 1, 3, 3, 3, 3, 5, 0, 1, 2, 1,
      1, 2, 3, 2, 3, 2, 2, 2, 1, 3, 1, 1, 3, 0, 5, 5, 5, 1, 3, 0,
      2, 1, 3, 3, 2, 3, 3, 3, 4, 3, 4, 5, 6, 3, 4, 2, 1, 1, 1, 1,
      1, 1, 1, 2, 1, 1, 3, 3, 1, 3, 1, 3, 1, 1, 1, 3, 3, 3, 3, 3,
      3, 3, 3, 2, 3, 4, 5, 4, 1, 1, 1, 1, 1, 1, 5, 0, 1, 1, 2, 4,
      0, 2, 1, 3, 5, 1, 1, 1, 1, 0, 3, 0, 2, 0, 3, 1, 3, 2, 0, 1,
      1, 0, 2, 4, 4, 0, 2, 4, 0, 3, 1, 3, 0, 5, 1, 3, 3, 3, 0, 2,
      0, 3, 0, 1, 1, 1, 1, 1, 1, 0, 1, 0, 1, 0, 2, 1, 0, 0, 1]"

definition yyChk :: "int list" where
  "yyChk =
     [- 1000, - 1, - 2, - 3, - 4, - 5, - 6, - 7, - 8, - 9, - 10, - 11, - 70, - 71, - 72, - 73, - 74, - 75, - 76, 5,
      6, 7, 8, 29, 94, 95, 97, 96, 83, 84, 86, 87, 89, 90, 51, 106, - 14, 38, 39, 40,
      41, - 12, - 77, - 12, - 12, - 12, - 12, 98, - 65, 100, 104, - 16, 100, 102, 98, 98, 99, 100, 85, - 12,
      - 26, 91, 31, - 67, 31, - 12, - 3, 17, - 15, 18, - 13, - 16, - 26, 9, - 59, 88, - 60, - 42, - 67, 31,
      - 62, 103, 99, - 67, 98, - 67, 31, - 61, 103, - 67, - 61, 25, - 56, 36, 80, - 69, 98, - 17, - 18, 76,
      - 21, 31, - 30, - 35, - 31, 56, 36, - 34, - 42, - 36, - 41, - 67, - 39, - 43, 20, 32, 33, 34, 21, - 40,
      74, 75, 37, 103, 24, 58, 35, 25, 29, - 26, 42, 28, - 35, 36, 62, 80, 31, 56, - 67, - 68,
      31, - 68, 101, 31, 20, 53, - 67, - 26, - 33, 24, - 3, - 57, - 42, 31, - 26, 9, 42, - 19, - 67, 19,
      80, 55, 54, - 32, 71, 56, 70, 57, 69, 73, 72, 79, 74, 75, 76, 77, 78, 62, 63, 64,
      65, 66, 67, 68, - 30, - 35, - 30, - 37, - 3, - 35, - 35, 36, 36, - 40, 36, - 46, - 35, - 26, - 59, - 29,
      10, - 60, 93, - 35, - 35, 53, - 67, 31, - 68, 20, - 66, 105, - 63, 97, 95, 28, 96, 13, 31, 31,
      31, - 68, - 56, 29, - 38, - 36, 107, 42, - 22, - 23, - 25, 36, 31, - 40, - 18, - 67, 76, - 30, - 30, - 35,
      - 36, 71, 70, 57, - 35, - 35, 21, 56, - 35, - 35, - 35, - 35, - 35, - 35, - 35, - 35, 107, 107, 42, 107,
      107, - 17, 18, - 17, - 44, - 45, 59, - 56, 29, - 29, - 50, 13, - 30, - 35, 80, 53, - 67, - 68, - 64, 101,
      - 33, - 59, 42, - 42, - 29, 42, - 24, 43, 44, 45, 46, 47, 49, 50, - 20, 31, 19, - 23, 80, - 36,
      - 35, - 35, 55, 21, - 35, 107, - 17, 107, - 47, - 45, 61, - 30, - 33, - 59, - 50, - 54, 15, 14, - 67, 31,
      31, - 36, - 48, 11, - 23, - 23, 43, 48, 43, 48, 43, 43, 43, - 27, 51, 102, 52, 31, 107, 31,
      55, - 35, 107, 82, - 35, 60, - 58, 53, - 58, - 54, - 35, - 51, - 52, - 35, - 68, - 49, 12, 14, 53, 43,
      43, 99, 99, 99, - 35, - 35, 26, 42, 92, 42, - 53, 22, 23, - 50, - 30, - 37, - 30, 36, 36, 36,
      27, - 35, - 35, - 52, - 54, - 28, - 67, - 28, - 28, 7, - 55, 16, 30, 107, 42, 107, 107, - 59, 7, 71,
      - 67, - 67, - 67]"

definition yyDef :: "int list" where
  "yyDef =
     [0, - 2, 1, 2, 3, 4, 5, 6, 7, 8, 9, 10, 11, 12, 13, 14, 15, 16, 17, 49,
      49, 49, 49, 49, 211, 202, 0, 0, 31, 0, 33, 34, 49, 0, 0, 49, 0, 53, 55, 56,
      57, 58, 51, 202, 0, 0, 0, 200, 0, 0, 212, 0, 0, 203, 0, 198, 0, 198, 32, 0,
      188, 36, 91, 37, 215, 217, 20, 54, 0, 59, 50, 0, 0, 0, 27, 0, 194, 0, 162, 215,
      0, 0, 0, 216, 0, 216, 0, 0, 0, 0, 0, 0, 0, 0, 0, 0, 218, 18, 60, 62,
      67, 215, 65, 66, 101, 0, 0, 132, 133, 134, 0, 162, 0, 148, 0, 165, 166, 167, 168, 128,
      151, 152, 153, 149, 150, 155, 52, 0, 0, 99, 0, 28, 29, 0, 0, 0, 216, 0, 213, 41,
      0, 44, 0, 46, 199, 0, 216, 188, 35, 0, 124, 0, 190, 92, 38, 0, 0, 63, 68, 0,
      0, 0, 0, 0, 0, 0, 0, 0, 0, 0, 0, 0, 0, 0, 0, 0, 0, 116, 117, 118,
      119, 120, 121, 122, 104, 0, 0, 0, 0, 130, 143, 0, 0, 115, 0, 0, 156, 188, 99, 173,
      0, 195, 0, 130, 196, 197, 163, 215, 39, 201, 0, 0, 216, 209, 204, 205, 206, 207, 208, 45,
      47, 48, 0, 0, 123, 125, 189, 0, 99, 70, 76, 0, 88, 90, 61, 69, 64, 102, 103, 106,
      107, 0, 0, 0, 109, 0, 113, 0, 135, 136, 137, 138, 139, 140, 141, 142, 105, 127, 0, 129,
      144, 0, 0, 0, 160, 157, 0, 0, 0, 173, 181, 0, 100, 30, 0, 0, 214, 42, 0, 210,
      23, 24, 0, 191, 169, 0, 0, 79, 80, 0, 0, 0, 0, 0, 93, 77, 0, 0, 0, 108,
      110, 0, 0, 114, 131, 145, 0, 147, 0, 158, 0, 0, 192, 192, 181, 26, 0, 0, 164, 216,
      43, 126, 171, 0, 71, 74, 81, 0, 83, 0, 85, 86, 87, 72, 0, 0, 0, 78, 73, 89,
      0, 111, 146, 154, 161, 0, 21, 0, 22, 25, 182, 174, 175, 178, 40, 173, 0, 0, 0, 82,
      84, 0, 0, 0, 112, 159, 0, 0, 0, 0, 177, 179, 180, 181, 172, 170, 75, 0, 0, 0,
      0, 183, 184, 176, 185, 0, 97, 0, 0, 0, 19, 0, 0, 94, 0, 95, 96, 193, 186, 0,
      98, 0, 187]"

definition yyTok1 :: "int list" where
  "yyTok1 =
     [1, 3, 3, 3, 3, 3, 3, 3, 3, 3, 3, 3, 3, 3, 3, 3, 3, 3, 3, 3,
      3, 3, 3, 3, 3, 3, 3, 3, 3, 3, 3, 3, 3, 3, 3, 3, 3, 78, 73, 3,
      36, 107, 76, 74, 42, 75, 80, 77, 3, 3, 3, 3, 3, 3, 3, 3, 3, 3, 3, 3,
      63, 62, 64, 3, 3, 3, 3, 3, 3, 3, 3, 3, 3, 3, 3, 3, 3, 3, 3, 3,
      3, 3, 3, 3, 3, 3, 3, 3, 3, 3, 3, 3, 3, 3, 79, 3, 3, 3, 3, 3,
      3, 3, 3, 3, 3, 3, 3, 3, 3, 3, 3, 3, 3, 3, 3, 3, 3, 3, 3, 3,
      3, 3, 3, 3, 72, 3, 37]"

definition yyTok2 :: "int list" where
  "yyTok2 =
     [2, 3, 4, 5, 6, 7, 8, 9, 10, 11, 12, 13, 14, 15, 16, 17, 18, 19, 20, 21,
      22, 23, 24, 25, 26, 27, 28, 29, 30, 31, 32, 33, 34, 35, 38, 39, 40, 41, 43, 44,
      45, 46, 47, 48, 49, 50, 51, 52, 53, 54, 55, 56, 57, 58, 59, 60, 61, 65, 66, 67,
      68, 69, 70, 71, 81, 82, 83, 84, 85, 86, 87, 88, 89, 90, 91, 92, 93, 94, 95, 96,
      97, 98, 99, 100, 101, 102, 103, 104, 105, 106]"

definition yyTok3 :: "int list" where
  "yyTok3 =
     [0]"

definition yyToknames :: "string list" where
  "yyToknames =
     [''$end'', ''error'', ''$unk'', ''LEX_ERROR'', ''SELECT'', ''INSERT'', ''UPDATE'', ''DELETE'',
      ''FROM'', ''WHERE'', ''GROUP'', ''HAVING'', ''ORDER'', ''BY'', ''LIMIT'', ''FOR'',
      ''ALL'', ''DISTINCT'', ''AS'', ''EXISTS'', ''NULL'', ''ASC'', ''DESC'', ''VALUES'',
      ''INTO'', ''DUPLICATE'', ''KEY'', ''DEFAULT'', ''SET'', ''LOCK'', ''ID'', ''STRING'',
      ''NUMBER'', ''VALUE_ARG'', ''COMMENT'', [CHR 0x27, CHR ''('', CHR 0x27], [CHR 0x27, CHR ''~'', CHR 0x27], ''UNION'', ''MINUS'', ''EXCEPT'',
      ''INTERSECT'', [CHR 0x27, CHR '','', CHR 0x27], ''JOIN'', ''STRAIGHT_JOIN'', ''LEFT'', ''RIGHT'', ''INNER'', ''OUTER'',
      ''CROSS'', ''NATURAL'', ''USE'', ''FORCE'', ''ON'', ''OR'', ''AND'', ''NOT'',
      ''BETWEEN'', ''CASE'', ''WHEN'', ''THEN'', ''ELSE'', [CHR 0x27, CHR ''='', CHR 0x27], [CHR 0x27, CHR ''<'', CHR 0x27], [CHR 0x27, CHR ''>'', CHR 0x27],
      ''LE'', ''GE'', ''NE'', ''NULL_SAFE_EQUAL'', ''IS'', ''LIKE'', ''IN'', [CHR 0x27, CHR ''|'', CHR 0x27],
      [CHR 0x27, CHR ''&'', CHR 0x27], [CHR 0x27, CHR ''+'', CHR 0x27], [CHR 0x27, CHR ''-'', CHR 0x27], [CHR 0x27, CHR ''*'', CHR 0x27], [CHR 0x27, CHR ''/'', CHR 0x27], [CHR 0x27, CHR ''%'', CHR 0x27], [CHR 0x27, CHR ''^'', CHR 0x27], [CHR 0x27, CHR ''.'', CHR 0x27],
      ''UNARY'', ''END'', ''BEGIN'', ''START'', ''TRANSACTION'', ''COMMIT'', ''ROLLBACK'', ''NAMES'',
      ''REPLACE'', ''ADMIN'', ''HELP'', ''OFFSET'', ''COLLATE'', ''CREATE'', ''ALTER'', ''DROP'',
      ''RENAME'', ''TABLE'', ''INDEX'', ''VIEW'', ''TO'', ''IGNORE'', ''IF'', ''UNIQUE'',
      ''USING'', ''TRUNCATE'', [CHR 0x27, CHR '')'', CHR 0x27]]"

lemmas table_defs = yyExca_def yyAct_def yyPact_def yyPgo_def yyR1_def yyR2_def yyChk_def yyDef_def yyTok1_def yyTok2_def yyTok3_def

lemma table_lengths [simp]:
  "length yyAct = 647" "length yyPact = 403" "length yyPgo = 78" "length yyR1 = 219" "length yyR2 = 219" "length yyChk = 403"
  "length yyDef = 403" "length yyTok1 = 127" "length yyTok2 = 90" "length yyTok3 = 1" "length yyToknames = 107"
  by code_simp+

end
