(* ===== verification/Sql_Types.thy ===== *)
theory Sql_Types
  imports Go_Base
begin

text \<open>
  Package \<open>sqltypes\<close> (src/sqltypes/sqltypes.go): SQL values and how a string value is
  written as a quoted, backslash-escaped SQL literal. \<open>NULL\<close> is the value with no inner
  value. The two escape tables are filled by the package's \<open>init\<close> loop, modelled as a
  fold over the 256 byte values.
\<close>

section \<open>Values\<close>

datatype inner_value =
    Numeric string
  | Fractional string
  | SqlString string

record sql_value =
  Inner :: "inner_value option"

definition MakeNumeric :: "string \<Rightarrow> sql_value" where
  "MakeNumeric b = \<lparr>Inner = Some (Numeric b)\<rparr>"

definition MakeFractional :: "string \<Rightarrow> sql_value" where
  "MakeFractional b = \<lparr>Inner = Some (Fractional b)\<rparr>"

definition MakeString :: "string \<Rightarrow> sql_value" where
  "MakeString b = \<lparr>Inner = Some (SqlString b)\<rparr>"

fun raw :: "inner_value \<Rightarrow> string" where
  "raw (Numeric n) = n"
| "raw (Fractional f) = f"
| "raw (SqlString s) = s"

definition value_Raw :: "sql_value \<Rightarrow> string option" where
  "value_Raw v = map_option raw (Inner v)"

definition value_String :: "sql_value \<Rightarrow> string" where
  "value_String v = (case Inner v of None \<Rightarrow> [] | Some i \<Rightarrow> raw i)"

definition value_ParseInt64 :: "sql_value \<Rightarrow> int res" where
  "value_ParseInt64 v =
     (case Inner v of
        None \<Rightarrow> Inl (Err (Errorf ''value is null''))
      | Some (Numeric n) \<Rightarrow> strconv_ParseInt n
      | Some _ \<Rightarrow> Inl (Err (Errorf ''value is not Numeric'')))"

definition value_ParseUint64 :: "sql_value \<Rightarrow> int res" where
  "value_ParseUint64 v =
     (case Inner v of
        None \<Rightarrow> Inl (Err (Errorf ''value is null''))
      | Some (Numeric n) \<Rightarrow>
          (case ParseUint10 n of Inl e \<Rightarrow> Inl (Err (ErrNum e n)) | Inr u \<Rightarrow> Inr u)
      | Some _ \<Rightarrow> Inl (Err (Errorf ''value is not Numeric'')))"

definition IsNull :: "sql_value \<Rightarrow> bool" where
  "IsNull v \<longleftrightarrow> Inner v = None"

definition IsNumeric :: "sql_value \<Rightarrow> bool" where
  "IsNumeric v = (case Inner v of Some (Numeric _) \<Rightarrow> True | _ \<Rightarrow> False)"

definition IsFractional :: "sql_value \<Rightarrow> bool" where
  "IsFractional v = (case Inner v of Some (Fractional _) \<Rightarrow> True | _ \<Rightarrow> False)"

definition IsString :: "sql_value \<Rightarrow> bool" where
  "IsString v = (case Inner v of Some (SqlString _) \<Rightarrow> True | _ \<Rightarrow> False)"

section \<open>The escape tables\<close>

definition DONTESCAPE :: char where
  "DONTESCAPE = CHR 0xFF"

definition encodeRef :: "char \<rightharpoonup> char" where
  "encodeRef =
     [CHR 0x00 \<mapsto> CHR ''0'', CHR 0x27 \<mapsto> CHR 0x27, CHR 0x22 \<mapsto> CHR 0x22,
      CHR 0x08 \<mapsto> CHR ''b'', CHR 0x0A \<mapsto> CHR ''n'', CHR 0x0D \<mapsto> CHR ''r'',
      CHR 0x09 \<mapsto> CHR ''t'', CHR 0x1A \<mapsto> CHR ''Z'', CHR 0x5C \<mapsto> CHR 0x5C]"

definition init_step ::
  "nat \<Rightarrow> (char \<Rightarrow> char) \<times> (char \<Rightarrow> char) \<Rightarrow> (char \<Rightarrow> char) \<times> (char \<Rightarrow> char)" where
  "init_step i m =
     (case encodeRef (char_of i) of
        None \<Rightarrow> m
      | Some to \<Rightarrow> ((fst m)(char_of i := to), (snd m)(to := char_of i)))"

definition init_maps :: "(char \<Rightarrow> char) \<times> (char \<Rightarrow> char)" where
  "init_maps = fold init_step [0..<256] (\<lambda>_. DONTESCAPE, \<lambda>_. DONTESCAPE)"

definition SqlEncodeMap :: "char \<Rightarrow> char" where
  "SqlEncodeMap = fst init_maps"

definition SqlDecodeMap :: "char \<Rightarrow> char" where
  "SqlDecodeMap = snd init_maps"

section \<open>Writing a value as SQL\<close>

fun encode_string :: "string \<Rightarrow> string" where
  "encode_string [] = []"
| "encode_string (ch # s) =
     (if SqlEncodeMap ch = DONTESCAPE then [ch] else [CHR 0x5C, SqlEncodeMap ch])
     @ encode_string s"

fun encodeSql :: "inner_value \<Rightarrow> string" where
  "encodeSql (Numeric n) = n"
| "encodeSql (Fractional f) = f"
| "encodeSql (SqlString s) = [CHR 0x27] @ encode_string s @ [CHR 0x27]"

definition EncodeSql :: "sql_value \<Rightarrow> string" where
  "EncodeSql v = (case Inner v of None \<Rightarrow> ''null'' | Some i \<Rightarrow> encodeSql i)"

section \<open>What the tables hold\<close>

lemma encodeRef_inj: "encodeRef a = Some t \<Longrightarrow> encodeRef b = Some t \<Longrightarrow> a = b"
  by (auto simp: encodeRef_def split: if_splits)

lemma encodeRef_not_DONTESCAPE: "encodeRef a = Some t \<Longrightarrow> t \<noteq> DONTESCAPE"
  by (auto simp: encodeRef_def DONTESCAPE_def split: if_splits)

lemma init_fold_enc:
  "fst (fold init_step xs m) c =
     (if c \<in> char_of ` set xs \<and> encodeRef c \<noteq> None then the (encodeRef c) else fst m c)"
proof (induction xs arbitrary: m)
  case (Cons i xs)
  then show ?case by (auto simp: init_step_def split: option.splits)
qed simp

lemma init_fold_dec:
  assumes "encodeRef c = Some t"
  shows "snd (fold init_step xs m) t = (if c \<in> char_of ` set xs then c else snd m t)"
proof (induction xs arbitrary: m)
  case (Cons i xs)
  show ?case
  proof (cases "encodeRef (char_of i)")
    case None
    with Cons assms show ?thesis by (auto simp: init_step_def)
  next
    case (Some u)
    then have "u = t \<longleftrightarrow> char_of i = c" using assms encodeRef_inj by auto
    with Some Cons show ?thesis by (auto simp: init_step_def)
  qed
qed simp

lemma all_bytes: "c \<in> char_of ` {0..<256::nat}"
proof
  show "c = char_of (of_char c :: nat)" by simp
  show "(of_char c :: nat) \<in> {0..<256}" by simp
qed

lemma SqlEncodeMap_eq [code]:
  "SqlEncodeMap c = (case encodeRef c of None \<Rightarrow> DONTESCAPE | Some t \<Rightarrow> t)"
  using all_bytes [of c]
  by (auto simp: SqlEncodeMap_def init_maps_def init_fold_enc split: option.splits)

lemma SqlDecodeMap_encodeRef: "encodeRef c = Some t \<Longrightarrow> SqlDecodeMap t = c"
  using all_bytes [of c]
  by (auto simp: SqlDecodeMap_def init_maps_def init_fold_dec)

lemma SqlEncodeMap_dont_escape_iff: "SqlEncodeMap c = DONTESCAPE \<longleftrightarrow> encodeRef c = None"
  by (auto simp: SqlEncodeMap_eq dest: encodeRef_not_DONTESCAPE split: option.splits)

text \<open>Decoding undoes encoding, byte by byte.\<close>

lemma SqlDecodeMap_SqlEncodeMap:
  "SqlEncodeMap c \<noteq> DONTESCAPE \<Longrightarrow> SqlDecodeMap (SqlEncodeMap c) = c"
  by (auto simp: SqlEncodeMap_eq SqlDecodeMap_encodeRef split: option.splits)

lemma unescaped_not_special:
  "SqlEncodeMap c = DONTESCAPE \<Longrightarrow> c \<noteq> CHR 0x27 \<and> c \<noteq> CHR 0x5C \<and> c \<noteq> CHR 0x22"
  by (auto simp: SqlEncodeMap_dont_escape_iff encodeRef_def)

lemma decoded_not_DONTESCAPE:
  assumes "SqlEncodeMap c \<noteq> DONTESCAPE"
  shows "SqlDecodeMap (SqlEncodeMap c) \<noteq> DONTESCAPE"
proof -
  from assms have "encodeRef c \<noteq> None" by (simp add: SqlEncodeMap_dont_escape_iff)
  then have "c \<noteq> DONTESCAPE" by (auto simp: encodeRef_def DONTESCAPE_def)
  with assms show ?thesis by (simp add: SqlDecodeMap_SqlEncodeMap)
qed

lemma encode_string_append: "encode_string (a @ b) = encode_string a @ encode_string b"
  by (induction a) auto

end
