(* ===== verification/Sql_Ast.thy ===== *)
theory Sql_Ast
  imports Sql_Types Sql_Keywords
begin

text \<open>
  The syntax tree of package \<open>sqlparser\<close> (src/sqlparser/ast.go), the formatting buffer
  that prints it (src/sqlparser/tracked_buffer.go) and the small tests on nodes of
  src/sqlparser/analyzer.go.

  A Go interface is the datatype of the types that implement it: \<open>ValExpr\<close>, \<open>BoolExpr\<close>,
  \<open>Expr\<close>, \<open>SelectExpr\<close>, \<open>TableExpr\<close>, \<open>SimpleTableExpr\<close>, \<open>SelectStatement\<close>,
  \<open>InsertRows\<close>, \<open>Tuple\<close> and \<open>Statement\<close>. A \<open>[]byte\<close> that the code compares with
  \<open>nil\<close> is a \<open>string option\<close>, and so is every pointer that may be \<open>nil\<close>.
  Every \<open>Format\<close> method is a call of the buffer's \<open>Fprintf\<close> with the source's own format
  string; the lemmas of the last section give its value as a concatenation.
\<close>

section \<open>The tracked buffer\<close>

text \<open>
  An argument of \<open>Fprintf\<close>: a byte, a string (or \<open>[]byte\<close>), or a node, represented by
  what its \<open>Format\<close> method appends to the buffer.
\<close>

datatype farg = FByte char | FStr string | FNode string

definition prepend :: "string \<Rightarrow> string res \<Rightarrow> string res" where
  "prepend s m = rbind m (\<lambda>t. Inr (s @ t))"

lemma prepend_cong [fundef_cong]: "s = s' \<Longrightarrow> m = m' \<Longrightarrow> prepend s m = prepend s' m'"
  by simp

definition format_verb :: "char \<Rightarrow> farg \<Rightarrow> string res" where
  "format_verb d a =
     (if d = CHR ''c'' then
        (case a of FByte b \<Rightarrow> Inr [b] | _ \<Rightarrow> Inl (Panic (PanicMsg ''unexpected type'')))
      else if d = CHR ''s'' then
        (case a of FStr s \<Rightarrow> Inr s | _ \<Rightarrow> Inl (Panic (PanicMsg ''unexpected type'')))
      else if d = CHR ''v'' then
        (case a of FNode s \<Rightarrow> Inr s | _ \<Rightarrow> Inl (Panic TypeAssertion))
      else if d = CHR ''a'' then
        (case a of FStr s \<Rightarrow> Inr s | _ \<Rightarrow> Inl (Panic TypeAssertion))
      else Inl (Panic (PanicMsg ''unexpected'')))"

definition is_verb :: "char \<Rightarrow> bool" where
  "is_verb d \<longleftrightarrow> d \<in> set ''csva''"

fun Fprintf :: "string \<Rightarrow> farg list \<Rightarrow> string res" where
  "Fprintf [] args = Inr []"
| "Fprintf [c] args = (if c \<noteq> CHR ''%'' then Inr [c] else Inl (Panic IndexOutOfRange))"
| "Fprintf (c # d # fs) args =
     (if c \<noteq> CHR ''%'' then prepend [c] (Fprintf (d # fs) args)
      else if \<not> is_verb d then Inl (Panic (PanicMsg ''unexpected''))
      else (case args of
              [] \<Rightarrow> Inl (Panic IndexOutOfRange)
            | a # as \<Rightarrow> rbind (format_verb d a) (\<lambda>s. prepend s (Fprintf fs as))))"

text \<open>What the buffer holds after the call: a panic would unwind instead of returning.\<close>

definition fpf :: "string \<Rightarrow> farg list \<Rightarrow> string" where
  "fpf f args = (case Fprintf f args of Inr s \<Rightarrow> s | Inl _ \<Rightarrow> [])"

definition WriteArg :: "string \<Rightarrow> string" where
  "WriteArg arg = arg"

section \<open>Names\<close>

record colname =
  cn_Name :: string
  cn_Qualifier :: "string option"

record tablename =
  tn_Name :: string
  tn_Qualifier :: "string option"

record indexhints =
  ih_Type :: string
  ih_Indexes :: "string list"

text \<open>Converting a possibly \<open>nil\<close> byte slice to a string.\<close>

definition nil_str :: "string option \<Rightarrow> string" where
  "nil_str q = (case q of None \<Rightarrow> [] | Some s \<Rightarrow> s)"

definition ast_escape :: "string \<Rightarrow> string" where
  "ast_escape name =
     (case keyword_id name of
        Some _ \<Rightarrow> fpf ''`%s`'' [FStr name]
      | None \<Rightarrow> fpf ''%s'' [FStr name])"

definition format_colname :: "colname \<Rightarrow> string" where
  "format_colname n =
     (case cn_Qualifier n of
        Some q \<Rightarrow> ast_escape q @ fpf ''.'' []
      | None \<Rightarrow> []) @ ast_escape (cn_Name n)"

definition format_tablename :: "tablename \<Rightarrow> string" where
  "format_tablename n =
     (case tn_Qualifier n of
        Some q \<Rightarrow> ast_escape q @ fpf ''.'' []
      | None \<Rightarrow> []) @ ast_escape (tn_Name n)"

text \<open>
  The loops that print a list with a prefix before each element: the prefix is \<open>p\<close> for
  the first element and a comma with a space afterwards.
\<close>

fun format_list :: "string \<Rightarrow> string list \<Rightarrow> string" where
  "format_list p [] = []"
| "format_list p (n # ns) = fpf ''%s%v'' [FStr p, FNode n] @ format_list '', '' ns"

fun format_hint_list :: "string \<Rightarrow> string list \<Rightarrow> string" where
  "format_hint_list p [] = []"
| "format_hint_list p (n # ns) = fpf ''%s%s'' [FStr p, FStr n] @ format_hint_list '', '' ns"

definition format_hints :: "indexhints \<Rightarrow> string" where
  "format_hints h =
     fpf '' %s index '' [FStr (ih_Type h)] @ format_hint_list ''('' (ih_Indexes h) @ fpf '')'' []"

definition format_comments :: "string list \<Rightarrow> string" where
  "format_comments cs = concat (map (\<lambda>c. fpf ''%s '' [FStr c]) cs)"

definition format_as :: "string option \<Rightarrow> string" where
  "format_as a = (case a of Some s \<Rightarrow> fpf '' as %s'' [FStr s] | None \<Rightarrow> [])"

section \<open>Nodes\<close>

text \<open>
  The nodes are parametric in \<open>'s\<close>, the type of the select statements that occur as
  subqueries; \<open>selectstmt\<close> ties the knot. The synonyms after it are the types of the code.
\<close>

datatype (plugins only: code size) 's valexpr =
    StrVal string
  | NumVal string
  | ValArg string
  | NullVal
  | ColName colname
  | ValTuple "'s valexpr list"
  | Subquery 's
  | BinaryExpr char "'s expr" "'s expr"
  | UnaryExpr char "'s expr"
  | FuncExpr string bool "'s selectexpr list"
  | CaseExpr "'s valexpr option" "('s boolexpr \<times> 's valexpr) list" "'s valexpr option"
and 's boolexpr =
    AndExpr "'s boolexpr" "'s boolexpr"
  | OrExpr "'s boolexpr" "'s boolexpr"
  | NotExpr "'s boolexpr"
  | ParenBoolExpr "'s boolexpr"
  | ComparisonExpr string "'s valexpr" "'s valexpr"
  | RangeCond string "'s valexpr" "'s valexpr" "'s valexpr"
  | NullCheck string "'s valexpr"
  | ExistsExpr 's
and 's expr = BoolE "'s boolexpr" | ValE "'s valexpr"
and 's selectexpr = StarExpr "string option" | NonStarExpr "'s expr" "string option"

datatype (plugins only: code size) 's simpletable = TableNameE tablename | SubqueryT 's
datatype (plugins only: code size) 's tableexpr =
    AliasedTableExpr "'s simpletable" "string option" "indexhints option"
  | ParenTableExpr "'s tableexpr"
  | JoinTableExpr "'s tableexpr" string "'s tableexpr" "'s boolexpr option"
datatype (plugins only: code size) 's whereclause = Where (w_Type: string) (w_Expr: "'s boolexpr")
datatype (plugins only: code size) 's orderexpr = Order "'s valexpr" string
datatype (plugins only: code size) 's limitclause = Limit (l_Offset: "'s valexpr option") (l_Rowcount: "'s valexpr")
datatype (plugins only: code size) 's selectnode =
    Select (s_Comments: "string list") (s_Distinct: string) (s_SelectExprs: "'s selectexpr list")
      (s_From: "'s tableexpr list") (s_Where: "'s whereclause option") (s_GroupBy: "'s valexpr list")
      (s_Having: "'s whereclause option") (s_OrderBy: "'s orderexpr list")
      (s_Limit: "'s limitclause option") (s_Lock: string)
datatype (plugins only: code size) selectstmt =
    SelectS "selectstmt selectnode"
  | Union string selectstmt selectstmt
  | SimpleSelect "string list" string "selectstmt selectexpr list"

type_synonym ValExpr = "selectstmt valexpr"
type_synonym BoolExpr = "selectstmt boolexpr"
type_synonym Expr = "selectstmt expr"
type_synonym SelectExpr = "selectstmt selectexpr"
type_synonym TableExpr = "selectstmt tableexpr"
type_synonym WhereClause = "selectstmt whereclause"
type_synonym OrderExpr = "selectstmt orderexpr"
type_synonym LimitClause = "selectstmt limitclause"
type_synonym SelectNode = "selectstmt selectnode"

section \<open>Format methods\<close>

definition format_strval :: "string \<Rightarrow> string" where
  "format_strval b = EncodeSql (MakeString b)"

definition format_opt :: "string \<Rightarrow> string option \<Rightarrow> string" where
  "format_opt f v = (case v of Some s \<Rightarrow> fpf f [FNode s] | None \<Rightarrow> [])"

definition format_when :: "string \<times> string \<Rightarrow> string" where
  "format_when w = fpf ''when %v then %v'' [FNode (fst w), FNode (snd w)]"

primrec
  format_val :: "('s \<Rightarrow> string) \<Rightarrow> 's valexpr \<Rightarrow> string" and
  format_bool :: "('s \<Rightarrow> string) \<Rightarrow> 's boolexpr \<Rightarrow> string" and
  format_expr :: "('s \<Rightarrow> string) \<Rightarrow> 's expr \<Rightarrow> string" and
  format_selectexpr :: "('s \<Rightarrow> string) \<Rightarrow> 's selectexpr \<Rightarrow> string"
where
  "format_val g (StrVal b) = format_strval b"
| "format_val g (NumVal b) = fpf ''%s'' [FStr b]"
| "format_val g (ValArg b) = WriteArg (tl b)"
| "format_val g NullVal = fpf ''null'' []"
| "format_val g (ColName n) = format_colname n"
| "format_val g (ValTuple vs) = fpf ''(%v)'' [FNode (format_list [] (map (format_val g) vs))]"
| "format_val g (Subquery s) = fpf ''(%v)'' [FNode (g s)]"
| "format_val g (BinaryExpr op l r) =
     fpf ''%v%c%v'' [FNode (format_expr g l), FByte op, FNode (format_expr g r)]"
| "format_val g (UnaryExpr op e) = fpf ''%c%v'' [FByte op, FNode (format_expr g e)]"
| "format_val g (FuncExpr n d es) =
     fpf ''%s(%s%v)''
       [FStr n, FStr (if d then ''distinct '' else []),
        FNode (format_list [] (map (format_selectexpr g) es))]"
| "format_val g (CaseExpr e ws el) =
     fpf ''case '' [] @ format_opt ''%v '' (map_option (format_val g) e)
     @ concat (map (\<lambda>w. fpf ''%v '' [FNode (format_when w)])
                 (map (map_prod (format_bool g) (format_val g)) ws))
     @ format_opt ''else %v '' (map_option (format_val g) el) @ fpf ''end'' []"
| "format_bool g (AndExpr l r) =
     fpf ''%v and %v'' [FNode (format_bool g l), FNode (format_bool g r)]"
| "format_bool g (OrExpr l r) =
     fpf ''%v or %v'' [FNode (format_bool g l), FNode (format_bool g r)]"
| "format_bool g (NotExpr e) = fpf ''not %v'' [FNode (format_bool g e)]"
| "format_bool g (ParenBoolExpr e) = fpf ''(%v)'' [FNode (format_bool g e)]"
| "format_bool g (ComparisonExpr op l r) =
     fpf ''%v %s %v'' [FNode (format_val g l), FStr op, FNode (format_val g r)]"
| "format_bool g (RangeCond op l f t) =
     fpf ''%v %s %v and %v''
       [FNode (format_val g l), FStr op, FNode (format_val g f), FNode (format_val g t)]"
| "format_bool g (NullCheck op e) = fpf ''%v %s'' [FNode (format_val g e), FStr op]"
| "format_bool g (ExistsExpr s) =
     fpf ''exists %v'' [FNode (fpf ''(%v)'' [FNode (g s)])]"
| "format_expr g (BoolE b) = format_bool g b"
| "format_expr g (ValE v) = format_val g v"
| "format_selectexpr g (StarExpr t) =
     (case t of Some n \<Rightarrow> fpf ''%s.'' [FStr n] | None \<Rightarrow> []) @ fpf ''*'' []"
| "format_selectexpr g (NonStarExpr e a) = fpf ''%v'' [FNode (format_expr g e)] @ format_as a"

fun format_simpletable :: "('s \<Rightarrow> string) \<Rightarrow> 's simpletable \<Rightarrow> string" where
  "format_simpletable g (TableNameE n) = format_tablename n"
| "format_simpletable g (SubqueryT s) = fpf ''(%v)'' [FNode (g s)]"

primrec format_tableexpr :: "('s \<Rightarrow> string) \<Rightarrow> 's tableexpr \<Rightarrow> string" where
  "format_tableexpr g (AliasedTableExpr e a h) =
     fpf ''%v'' [FNode (format_simpletable g e)] @ format_as a
     @ (case h of Some i \<Rightarrow> fpf ''%v'' [FNode (format_hints i)] | None \<Rightarrow> [])"
| "format_tableexpr g (ParenTableExpr e) = fpf ''(%v)'' [FNode (format_tableexpr g e)]"
| "format_tableexpr g (JoinTableExpr l j r on) =
     fpf ''%v %s %v'' [FNode (format_tableexpr g l), FStr j, FNode (format_tableexpr g r)]
     @ format_opt '' on %v'' (map_option (format_bool g) on)"

text \<open>
  \<open>Where\<close>, \<open>Limit\<close> and the lists are called through possibly \<open>nil\<close> pointers, for which
  their \<open>Format\<close> methods write nothing.
\<close>

definition format_where :: "('s \<Rightarrow> string) \<Rightarrow> 's whereclause option \<Rightarrow> string" where
  "format_where g w =
     (case w of
        None \<Rightarrow> []
      | Some n \<Rightarrow> fpf '' %s %v'' [FStr (w_Type n), FNode (format_bool g (w_Expr n))])"

fun format_order :: "('s \<Rightarrow> string) \<Rightarrow> 's orderexpr \<Rightarrow> string" where
  "format_order g (Order e d) = fpf ''%v %s'' [FNode (format_val g e), FStr d]"

definition format_limit :: "('s \<Rightarrow> string) \<Rightarrow> 's limitclause option \<Rightarrow> string" where
  "format_limit g l =
     (case l of
        None \<Rightarrow> []
      | Some n \<Rightarrow>
          fpf '' limit '' [] @ format_opt ''%v, '' (map_option (format_val g) (l_Offset n))
          @ fpf ''%v'' [FNode (format_val g (l_Rowcount n))])"

definition format_selectexprs :: "('s \<Rightarrow> string) \<Rightarrow> 's selectexpr list \<Rightarrow> string" where
  "format_selectexprs g es = format_list [] (map (format_selectexpr g) es)"

definition format_tableexprs :: "('s \<Rightarrow> string) \<Rightarrow> 's tableexpr list \<Rightarrow> string" where
  "format_tableexprs g ts = format_list [] (map (format_tableexpr g) ts)"

definition format_valexprs :: "('s \<Rightarrow> string) \<Rightarrow> 's valexpr list \<Rightarrow> string" where
  "format_valexprs g vs = format_list [] (map (format_val g) vs)"

definition format_groupby :: "('s \<Rightarrow> string) \<Rightarrow> 's valexpr list \<Rightarrow> string" where
  "format_groupby g vs = format_list '' group by '' (map (format_val g) vs)"

definition format_orderby :: "('s \<Rightarrow> string) \<Rightarrow> 's orderexpr list \<Rightarrow> string" where
  "format_orderby g os = format_list '' order by '' (map (format_order g) os)"

definition format_selectnode :: "('s \<Rightarrow> string) \<Rightarrow> 's selectnode \<Rightarrow> string" where
  "format_selectnode g n =
     fpf ''select %v%s%v from %v%v%v%v%v%v%s''
       [FNode (format_comments (s_Comments n)), FStr (s_Distinct n),
        FNode (format_selectexprs g (s_SelectExprs n)),
        FNode (format_tableexprs g (s_From n)), FNode (format_where g (s_Where n)),
        FNode (format_groupby g (s_GroupBy n)), FNode (format_where g (s_Having n)),
        FNode (format_orderby g (s_OrderBy n)), FNode (format_limit g (s_Limit n)),
        FStr (s_Lock n)]"

primrec format_selectstmt :: "selectstmt \<Rightarrow> string" where
  "format_selectstmt (SelectS n) = format_selectnode (\<lambda>s. s) (map_selectnode format_selectstmt n)"
| "format_selectstmt (Union ty l r) =
     fpf ''%v %s %v'' [FNode (format_selectstmt l), FStr ty, FNode (format_selectstmt r)]"
| "format_selectstmt (SimpleSelect cs di es) =
     fpf ''select %v%s%v''
       [FNode (format_comments cs), FStr di,
        FNode (format_selectexprs (\<lambda>s. s) (map (map_selectexpr format_selectstmt) es))]"

text \<open>\<open>sqlparser.String\<close> on the nodes the router prints.\<close>

abbreviation "fmt_val \<equiv> format_val format_selectstmt"
abbreviation "fmt_bool \<equiv> format_bool format_selectstmt"
abbreviation "fmt_expr \<equiv> format_expr format_selectstmt"
abbreviation "fmt_selectexpr \<equiv> format_selectexpr format_selectstmt"
abbreviation "fmt_tableexpr \<equiv> format_tableexpr format_selectstmt"
abbreviation "fmt_where \<equiv> format_where format_selectstmt"
abbreviation "fmt_select \<equiv> format_selectnode format_selectstmt"

end
