(* ===== verification/Tokenizer.thy ===== *)
theory Tokenizer
  imports Sql_Ast
begin

text \<open>
  The tokenizer of src/sqlparser/token.go. \<open>lastChar\<close> is the look-ahead, a \<open>uint16\<close> that is 0
  before the first read and \<open>EOFCHAR\<close> at the end of the input; \<open>InStream\<close> is what the reader has
  not delivered yet. Every scanner is a function on the tokenizer that also returns the token.
  The only panic of the file is the one of \<open>ConsumeNext\<close> at the end of the input.

  The theorems show that this panic never happens and that every scan ends and consumes input,
  so \<open>Lex\<close> always returns, and that what the printer of the syntax tree writes is scanned
  back to the same string or name.
\<close>

section \<open>State\<close>

abbreviation "EOFCHAR \<equiv> (256 :: int)"
abbreviation "bc c \<equiv> (of_char c :: int)"

record tokenizer =
  InStream :: string
  AllowComments :: bool
  ForceEOF :: bool
  lastChar :: int
  Position :: int
  errorToken :: "string option"
  LastError :: string
  posVarIndex :: int

type_synonym token = "int \<times> string option"

definition NewStringTokenizer :: "string \<Rightarrow> tokenizer" where
  "NewStringTokenizer sql =
     \<lparr>InStream = sql, AllowComments = False, ForceEOF = False, lastChar = 0, Position = 0,
      errorToken = None, LastError = [], posVarIndex = 0\<rparr>"

section \<open>Characters\<close>

definition isLetter :: "int \<Rightarrow> bool" where
  "isLetter ch \<longleftrightarrow> bc CHR ''a'' \<le> ch \<and> ch \<le> bc CHR ''z'' \<or> bc CHR ''A'' \<le> ch \<and> ch \<le> bc CHR ''Z''
     \<or> ch = bc CHR ''_'' \<or> ch = bc CHR ''@''"

definition digitVal :: "int \<Rightarrow> int" where
  "digitVal ch =
     (if bc CHR ''0'' \<le> ch \<and> ch \<le> bc CHR ''9'' then ch - bc CHR ''0''
      else if bc CHR ''a'' \<le> ch \<and> ch \<le> bc CHR ''f'' then ch - bc CHR ''a'' + 10
      else if bc CHR ''A'' \<le> ch \<and> ch \<le> bc CHR ''F'' then ch - bc CHR ''A'' + 10
      else 16)"

definition isDigit :: "int \<Rightarrow> bool" where
  "isDigit ch \<longleftrightarrow> bc CHR ''0'' \<le> ch \<and> ch \<le> bc CHR ''9''"

definition tkn_next :: "tokenizer \<Rightarrow> tokenizer" where
  "tkn_next tkn =
     (case InStream tkn of
        [] \<Rightarrow> tkn\<lparr>lastChar := EOFCHAR, Position := Position tkn + 1\<rparr>
      | c # s \<Rightarrow> tkn\<lparr>InStream := s, lastChar := bc c, Position := Position tkn + 1\<rparr>)"

definition ConsumeNext :: "string \<Rightarrow> tokenizer \<Rightarrow> (string \<times> tokenizer) res" where
  "ConsumeNext buffer tkn =
     (if lastChar tkn = EOFCHAR then Inl (Panic (PanicMsg ''unexpected EOF''))
      else Inr (buffer @ [char_of (lastChar tkn)], tkn_next tkn))"

text \<open>What is left to scan: it decreases with every character read before the end.\<close>

definition remaining :: "tokenizer \<Rightarrow> nat" where
  "remaining tkn = length (InStream tkn) + (if lastChar tkn = EOFCHAR then 0 else 1)"

lemma bc_range: "0 \<le> bc c" "bc c < 256"
proof -
  have "bc c mod 256 = bc c" by (rule of_char_mod_256)
  then show "0 \<le> bc c" "bc c < 256"
    using pos_mod_sign [of 256 "bc c"] pos_mod_bound [of 256 "bc c"] by simp_all
qed

lemma bc_eq_iff: "bc c = bc d \<longleftrightarrow> c = d"
  by (rule of_char_eq_iff)

lemma bc_not_EOF [simp]: "bc c \<noteq> EOFCHAR"
  using bc_range (2) [of c] by simp

lemma remaining_next: "lastChar tkn \<noteq> EOFCHAR \<Longrightarrow> remaining (tkn_next tkn) < remaining tkn"
  by (auto simp: remaining_def tkn_next_def split: list.splits)

lemma remaining_next_le: "remaining (tkn_next tkn) \<le> remaining tkn"
  by (auto simp: remaining_def tkn_next_def split: list.splits)

lemma ConsumeNext_remaining: "ConsumeNext b tkn = Inr (b', t) \<Longrightarrow> remaining t < remaining tkn"
  by (auto simp: ConsumeNext_def remaining_next split: if_splits)

section \<open>Scanners\<close>

function skipBlank :: "tokenizer \<Rightarrow> tokenizer" where
  "skipBlank tkn =
     (let ch = lastChar tkn in
      if ch = bc CHR '' '' \<or> ch = bc CHR 0x0A \<or> ch = bc CHR 0x0D \<or> ch = bc CHR 0x09
      then skipBlank (tkn_next tkn) else tkn)"
  by pat_completeness auto
termination
  by (relation "measure remaining") (auto intro!: remaining_next simp del: One_nat_def)

declare skipBlank.simps [simp del]

text \<open>
  The loops that collect the characters of one class, with the class as an argument. No class of
  the code contains \<open>EOFCHAR\<close> (\<open>EOFCHAR_no_class\<close> below), so the test against it never ends a loop early.
\<close>

function scan_while :: "(int \<Rightarrow> bool) \<Rightarrow> string \<Rightarrow> tokenizer \<Rightarrow> string \<times> tokenizer" where
  "scan_while P buffer tkn =
     (if P (lastChar tkn) \<and> lastChar tkn \<noteq> EOFCHAR
      then scan_while P (buffer @ [char_of (lastChar tkn)]) (tkn_next tkn) else (buffer, tkn))"
  by pat_completeness auto
termination
  by (relation "measure (\<lambda>(P, b, t). remaining t)") (auto intro: remaining_next)

declare scan_while.simps [simp del]

definition scanIdentifier :: "tokenizer \<Rightarrow> token \<times> tokenizer" where
  "scanIdentifier tkn =
     (let (buffer, t) = scan_while (\<lambda>ch. isLetter ch \<or> isDigit ch) [char_of (lastChar tkn)] (tkn_next tkn);
          lowered = to_lower buffer
      in (case keyword_id lowered of
            Some keywordId \<Rightarrow> ((keywordId, Some lowered), t)
          | None \<Rightarrow> ((tk_ID, Some buffer), t)))"

definition scanBindVar :: "tokenizer \<Rightarrow> token \<times> tokenizer" where
  "scanBindVar tkn =
     (let (buffer, t) = scan_while (\<lambda>ch. isLetter ch \<or> isDigit ch \<or> ch = bc CHR ''.'')
            [char_of (lastChar tkn)] (tkn_next tkn)
      in if length buffer = 1 then ((tk_LEX_ERROR, Some buffer), t)
         else ((tk_VALUE_ARG, Some buffer), t))"

function scanMantissa :: "int \<Rightarrow> string \<Rightarrow> tokenizer \<Rightarrow> (string \<times> tokenizer) res" where
  "scanMantissa base buffer tkn =
     (if digitVal (lastChar tkn) < base
      then rbind (ConsumeNext buffer tkn) (\<lambda>(b, t). scanMantissa base b t)
      else Inr (buffer, tkn))"
  by pat_completeness auto
termination
  by (relation "measure (\<lambda>(n, b, t). remaining t)") (auto dest: ConsumeNext_remaining)

declare scanMantissa.simps [simp del]

abbreviation is_e :: "int \<Rightarrow> bool" where
  "is_e ch \<equiv> ch = bc CHR ''e'' \<or> ch = bc CHR ''E''"

text \<open>The labels \<open>exponent\<close> and \<open>fraction\<close> of \<open>scanNumber\<close>.\<close>

definition scan_exponent :: "string \<Rightarrow> tokenizer \<Rightarrow> (token \<times> tokenizer) res" where
  "scan_exponent buffer tkn =
     rbind
       (if is_e (lastChar tkn)
        then rbind (ConsumeNext buffer tkn) (\<lambda>(b, t).
               rbind (if lastChar t = bc CHR ''+'' \<or> lastChar t = bc CHR ''-'' then ConsumeNext b t else Inr (b, t))
                 (\<lambda>(b, t). scanMantissa 10 b t))
        else Inr (buffer, tkn))
       (\<lambda>(b, t). Inr ((tk_NUMBER, Some b), t))"

definition scan_fraction :: "string \<Rightarrow> tokenizer \<Rightarrow> (token \<times> tokenizer) res" where
  "scan_fraction buffer tkn =
     rbind
       (if lastChar tkn = bc CHR ''.''
        then rbind (ConsumeNext buffer tkn) (\<lambda>(b, t). scanMantissa 10 b t)
        else Inr (buffer, tkn))
       (\<lambda>(b, t). scan_exponent b t)"

definition scan_octal :: "string \<Rightarrow> tokenizer \<Rightarrow> (token \<times> tokenizer) res" where
  "scan_octal buffer tkn =
     rbind (scanMantissa 8 buffer tkn) (\<lambda>(b, t).
       let seenDecimalDigit = (lastChar t = bc CHR ''8'' \<or> lastChar t = bc CHR ''9'') in
       rbind (if seenDecimalDigit then scanMantissa 10 b t else Inr (b, t)) (\<lambda>(b, t).
         if lastChar t = bc CHR ''.'' \<or> is_e (lastChar t) then scan_fraction b t
         else if seenDecimalDigit then Inr ((tk_LEX_ERROR, Some b), t)
         else Inr ((tk_NUMBER, Some b), t)))"

definition scanNumber :: "bool \<Rightarrow> tokenizer \<Rightarrow> (token \<times> tokenizer) res" where
  "scanNumber seenDecimalPoint tkn =
     (if seenDecimalPoint then rbind (scanMantissa 10 ''.'' tkn) (\<lambda>(b, t). scan_exponent b t)
      else if lastChar tkn = bc CHR ''0'' then
        rbind (ConsumeNext [] tkn) (\<lambda>(b, t).
          if lastChar t = bc CHR ''x'' \<or> lastChar t = bc CHR ''X''
          then rbind (ConsumeNext b t) (\<lambda>(b, t).
                 rbind (scanMantissa 16 b t) (\<lambda>(b, t). Inr ((tk_NUMBER, Some b), t)))
          else scan_octal b t)
      else rbind (scanMantissa 10 [] tkn) (\<lambda>(b, t). scan_fraction b t))"

text \<open>
  One round of the loop of \<open>scanString\<close>: it leaves the loop at the closing delimiter, fails on a
  backslash before the end of the input, or delivers a character.
\<close>

datatype string_step = SBreak | SFail | SChar int

definition scan_string_char :: "int \<Rightarrow> tokenizer \<Rightarrow> string_step \<times> tokenizer" where
  "scan_string_char delim tkn =
     (let ch = lastChar tkn; t = tkn_next tkn in
      if ch = delim then
        (if lastChar t = delim then (SChar ch, tkn_next t) else (SBreak, t))
      else if ch = bc CHR 0x5C then
        (if lastChar t = EOFCHAR then (SFail, t)
         else let decodedChar = SqlDecodeMap (char_of (lastChar t)) in
              (SChar (if decodedChar = DONTESCAPE then lastChar t else bc decodedChar), tkn_next t))
      else (SChar ch, t))"

lemma scan_string_char_remaining:
  "scan_string_char delim tkn = (SChar ch, t) \<Longrightarrow> ch \<noteq> EOFCHAR \<Longrightarrow> remaining t < remaining tkn"
  using remaining_next_le [of "tkn_next tkn"] remaining_next [of tkn]
  by (auto simp: scan_string_char_def Let_def split: if_splits)

function scan_string :: "int \<Rightarrow> int \<Rightarrow> string \<Rightarrow> tokenizer \<Rightarrow> token \<times> tokenizer" where
  "scan_string delim typ buffer tkn =
     (case scan_string_char delim tkn of
        (SBreak, t) \<Rightarrow> ((typ, Some buffer), t)
      | (SFail, t) \<Rightarrow> ((tk_LEX_ERROR, Some buffer), t)
      | (SChar ch, t) \<Rightarrow>
          if ch = EOFCHAR then ((tk_LEX_ERROR, Some buffer), t)
          else scan_string delim typ (buffer @ [char_of ch]) t)"
  by pat_completeness auto
termination
  by (relation "measure (\<lambda>(d, k, b, t). remaining t)") (auto intro: scan_string_char_remaining [OF sym])

declare scan_string.simps [simp del]

definition scanString :: "int \<Rightarrow> int \<Rightarrow> tokenizer \<Rightarrow> token \<times> tokenizer" where
  "scanString delim typ tkn = scan_string delim typ [] tkn"

function scanCommentType1 :: "string \<Rightarrow> tokenizer \<Rightarrow> (token \<times> tokenizer) res" where
  "scanCommentType1 buffer tkn =
     (if lastChar tkn = EOFCHAR then Inr ((tk_COMMENT, Some buffer), tkn)
      else if lastChar tkn = bc CHR 0x0A
      then rbind (ConsumeNext buffer tkn) (\<lambda>(b, t). Inr ((tk_COMMENT, Some b), t))
      else rbind (ConsumeNext buffer tkn) (\<lambda>(b, t). scanCommentType1 b t))"
  by pat_completeness auto
termination
  by (relation "measure (\<lambda>(b, t). remaining t)") (auto dest: ConsumeNext_remaining)

function scanCommentType2 :: "string \<Rightarrow> tokenizer \<Rightarrow> (token \<times> tokenizer) res" where
  "scanCommentType2 buffer tkn =
     (if lastChar tkn = bc CHR ''*'' then
        rbind (ConsumeNext buffer tkn) (\<lambda>(b, t).
          if lastChar t = bc CHR ''/''
          then rbind (ConsumeNext b t) (\<lambda>(b, t). Inr ((tk_COMMENT, Some b), t))
          else scanCommentType2 b t)
      else if lastChar tkn = EOFCHAR then Inr ((tk_LEX_ERROR, Some buffer), tkn)
      else rbind (ConsumeNext buffer tkn) (\<lambda>(b, t). scanCommentType2 b t))"
  by pat_completeness auto
termination
  by (relation "measure (\<lambda>(b, t). remaining t)") (auto dest: ConsumeNext_remaining)

declare scanCommentType1.simps [simp del] scanCommentType2.simps [simp del]

section \<open>Tokens\<close>

text \<open>The inner switch of \<open>Scan\<close>: \<open>ch\<close> has been read and \<open>tkn\<close> looks at the character after it.\<close>

definition scan_other :: "int \<Rightarrow> tokenizer \<Rightarrow> (token \<times> tokenizer) res" where
  "scan_other ch tkn =
     (if ch = EOFCHAR then Inr ((0, None), tkn)
      else if ch \<in> bc ` set ''=,;()+*%&|^~'' then Inr ((ch, None), tkn)
      else if ch = bc CHR ''?'' then
        Inr ((tk_VALUE_ARG, Some ('':v'' @ int_str (posVarIndex tkn + 1))),
             tkn\<lparr>posVarIndex := posVarIndex tkn + 1\<rparr>)
      else if ch = bc CHR ''.'' then
        (if isDigit (lastChar tkn) then scanNumber True tkn else Inr ((ch, None), tkn))
      else if ch = bc CHR ''/'' then
        (if lastChar tkn = bc CHR ''/'' then scanCommentType1 ''//'' (tkn_next tkn)
         else if lastChar tkn = bc CHR ''*'' then scanCommentType2 ''/*'' (tkn_next tkn)
         else Inr ((ch, None), tkn))
      else if ch = bc CHR ''-'' then
        (if lastChar tkn = bc CHR ''-'' then scanCommentType1 ''--'' (tkn_next tkn)
         else Inr ((ch, None), tkn))
      else if ch = bc CHR ''<'' then
        (if lastChar tkn = bc CHR ''>'' then Inr ((tk_NE, None), tkn_next tkn)
         else if lastChar tkn = bc CHR ''='' then
           (let t = tkn_next tkn in
            if lastChar t = bc CHR ''>'' then Inr ((tk_NULL_SAFE_EQUAL, None), tkn_next t)
            else Inr ((tk_LE, None), t))
         else Inr ((ch, None), tkn))
      else if ch = bc CHR ''>'' then
        (if lastChar tkn = bc CHR ''='' then Inr ((tk_GE, None), tkn_next tkn)
         else Inr ((ch, None), tkn))
      else if ch = bc CHR ''!'' then
        (if lastChar tkn = bc CHR ''='' then Inr ((tk_NE, None), tkn_next tkn)
         else Inr ((tk_LEX_ERROR, Some ''!''), tkn))
      else if ch = bc CHR 0x27 \<or> ch = bc CHR 0x22 then Inr (scanString ch tk_STRING tkn)
      else if ch = bc CHR 0x60 then Inr (scanString ch tk_ID tkn)
      else Inr ((tk_LEX_ERROR, Some [char_of ch]), tkn))"

definition Scan :: "tokenizer \<Rightarrow> (token \<times> tokenizer) res" where
  "Scan tkn0 =
     (if ForceEOF tkn0 then Inr ((0, None), tkn0)
      else
        let tkn1 = (if lastChar tkn0 = 0 then tkn_next tkn0 else tkn0);
            tkn = skipBlank tkn1; ch = lastChar tkn
        in if isLetter ch then Inr (scanIdentifier tkn)
           else if isDigit ch then scanNumber False tkn
           else if ch = bc CHR '':'' then Inr (scanBindVar tkn)
           else scan_other ch (tkn_next tkn))"

section \<open>Scanning always returns\<close>

lemma EOFCHAR_no_class [simp]: "\<not> isLetter EOFCHAR" "\<not> isDigit EOFCHAR" "digitVal EOFCHAR = 16"
  by (simp_all add: isLetter_def isDigit_def digitVal_def)

lemma ConsumeNext_ok: "lastChar tkn \<noteq> EOFCHAR \<Longrightarrow> ConsumeNext b tkn = Inr (b @ [char_of (lastChar tkn)], tkn_next tkn)"
  by (simp add: ConsumeNext_def)

lemma skipBlank_remaining: "remaining (skipBlank tkn) \<le> remaining tkn"
proof (induction tkn rule: skipBlank.induct)
  case (1 tkn)
  then show ?case
    using remaining_next_le [of tkn] by (subst skipBlank.simps) (auto simp: Let_def simp del: One_nat_def)
qed

lemma scan_while_remaining: "remaining (snd (scan_while P b tkn)) \<le> remaining tkn"
proof (induction P b tkn rule: scan_while.induct)
  case (1 P b tkn)
  then show ?case using remaining_next_le [of tkn] by (subst scan_while.simps) auto
qed

text \<open>\<open>returns tkn m\<close>: the scanner returns, and has not given input back.\<close>

definition returns :: "nat \<Rightarrow> ('a \<times> tokenizer) res \<Rightarrow> bool" where
  "returns n m \<longleftrightarrow> (\<exists>x t. m = Inr (x, t) \<and> remaining t \<le> n)"

lemma returns_Inr [simp]: "returns n (Inr (x, t)) \<longleftrightarrow> remaining t \<le> n"
  by (simp add: returns_def)

lemma returns_rbind:
  "returns n m \<Longrightarrow> (\<And>x t. remaining t \<le> n \<Longrightarrow> returns n (f x t)) \<Longrightarrow> returns n (rbind m (\<lambda>(x, t). f x t))"
  by (auto simp: returns_def)

lemma returns_mono: "returns n m \<Longrightarrow> n \<le> k \<Longrightarrow> returns k m"
  by (auto simp: returns_def)

lemma returns_ConsumeNext: "lastChar tkn \<noteq> EOFCHAR \<Longrightarrow> remaining tkn \<le> n \<Longrightarrow> returns n (ConsumeNext b tkn)"
  using remaining_next_le [of tkn] by (simp add: ConsumeNext_ok)

lemma returns_scanMantissa: "base \<le> 16 \<Longrightarrow> remaining tkn \<le> n \<Longrightarrow> returns n (scanMantissa base b tkn)"
proof (induction base b tkn rule: scanMantissa.induct)
  case (1 base b tkn)
  show ?case
  proof (cases "digitVal (lastChar tkn) < base")
    case True
    with 1 have "lastChar tkn \<noteq> EOFCHAR" by auto
    with 1 True remaining_next_le [of tkn] show ?thesis
      by (subst scanMantissa.simps) (simp add: ConsumeNext_ok)
  next
    case False
    with 1 show ?thesis by (subst scanMantissa.simps) simp
  qed
qed

lemma returns_scan_exponent: "remaining tkn \<le> n \<Longrightarrow> returns n (scan_exponent b tkn)"
  unfolding scan_exponent_def
  by (intro returns_rbind) (auto intro!: returns_rbind returns_ConsumeNext returns_scanMantissa)

lemma returns_scan_fraction: "remaining tkn \<le> n \<Longrightarrow> returns n (scan_fraction b tkn)"
  unfolding scan_fraction_def
  by (intro returns_rbind) (auto intro!: returns_rbind returns_ConsumeNext returns_scanMantissa returns_scan_exponent)

lemma returns_scan_octal: "remaining tkn \<le> n \<Longrightarrow> returns n (scan_octal b tkn)"
  unfolding scan_octal_def Let_def
  by (intro returns_rbind) (auto intro!: returns_scanMantissa returns_scan_fraction)

lemma returns_scanNumber: "remaining tkn \<le> n \<Longrightarrow> returns n (scanNumber p tkn)"
  unfolding scanNumber_def
  by (auto intro!: returns_rbind returns_ConsumeNext returns_scanMantissa returns_scan_octal
      returns_scan_exponent returns_scan_fraction)

lemma returns_scanCommentType1: "remaining tkn \<le> n \<Longrightarrow> returns n (scanCommentType1 b tkn)"
proof (induction b tkn rule: scanCommentType1.induct)
  case (1 b tkn)
  then show ?case
    using remaining_next_le [of tkn] by (subst scanCommentType1.simps) (auto simp: ConsumeNext_ok)
qed

lemma returns_scanCommentType2: "remaining tkn \<le> n \<Longrightarrow> returns n (scanCommentType2 b tkn)"
proof (induction b tkn rule: scanCommentType2.induct)
  case (1 b tkn)
  then show ?case
    using remaining_next_le [of tkn] remaining_next_le [of "tkn_next tkn"]
    by (subst scanCommentType2.simps) (auto simp: ConsumeNext_ok)
qed

lemma scan_string_remaining: "remaining (snd (scan_string d k b tkn)) \<le> remaining tkn"
proof (induction d k b tkn rule: scan_string.induct)
  case (1 d k b tkn)
  have "remaining (snd (scan_string_char d tkn)) \<le> remaining tkn"
    using remaining_next_le [of tkn] remaining_next_le [of "tkn_next tkn"]
    by (auto simp: scan_string_char_def Let_def)
  with 1 show ?case by (subst scan_string.simps) (auto split: prod.splits string_step.splits)
qed

lemma returns_scan_other: "returns (remaining tkn) (scan_other ch tkn)"
proof -
  have c: "returns (remaining tkn) (scanCommentType1 b (tkn_next tkn))"
    "returns (remaining tkn) (scanCommentType2 b (tkn_next tkn))" for b
    using remaining_next_le [of tkn] by (auto intro: returns_scanCommentType1 returns_scanCommentType2)
  have s: "returns (remaining tkn) (Inr (scanString d k tkn))" for d k
    using scan_string_remaining [of d k "[]" tkn] by (cases "scanString d k tkn") (simp add: scanString_def)
  show ?thesis
    using remaining_next_le [of tkn] remaining_next_le [of "tkn_next tkn"]
    by (auto simp: scan_other_def Let_def c s returns_scanNumber) (simp add: remaining_def)
qed

lemma returns_scanNumber_digit:
  assumes "isDigit (lastChar tkn)" and "remaining tkn \<le> Suc n"
  shows "returns n (scanNumber False tkn)"
proof -
  from assms(1) have e: "lastChar tkn \<noteq> EOFCHAR" by auto
  with assms(2) have n: "remaining (tkn_next tkn) \<le> n" using remaining_next [of tkn] by simp
  have "returns n (scanMantissa 10 [] tkn)"
    using assms(1) e n
    by (subst scanMantissa.simps) (simp add: ConsumeNext_ok returns_scanMantissa digitVal_def isDigit_def)
  moreover have "returns n (ConsumeNext [] tkn)" using e n by (simp add: ConsumeNext_ok)
  ultimately show ?thesis
    unfolding scanNumber_def
    by (auto intro!: returns_rbind returns_ConsumeNext returns_scanMantissa returns_scan_octal returns_scan_fraction)
qed

lemma returns_scan_while_token:
  "isLetter (lastChar tkn) \<Longrightarrow> remaining (snd (scanIdentifier tkn)) < remaining tkn"
  "lastChar tkn = bc CHR '':'' \<Longrightarrow> remaining (snd (scanBindVar tkn)) < remaining tkn"
proof -
  have r: "remaining (snd (scan_while P b (tkn_next tkn))) < remaining tkn" if "lastChar tkn \<noteq> EOFCHAR" for P b
    using scan_while_remaining [of P b "tkn_next tkn"] remaining_next [OF that] by linarith
  show "remaining (snd (scanIdentifier tkn)) < remaining tkn" if "isLetter (lastChar tkn)"
    using r [of "\<lambda>ch. isLetter ch \<or> isDigit ch" "[char_of (lastChar tkn)]"] that EOFCHAR_no_class(1)
    by (fastforce simp: scanIdentifier_def Let_def split: prod.splits option.splits)
  show "remaining (snd (scanBindVar tkn)) < remaining tkn" if "lastChar tkn = bc CHR '':''"
    using r [of "\<lambda>ch. isLetter ch \<or> isDigit ch \<or> ch = bc CHR ''.''" "[char_of (lastChar tkn)]"] that
    by (auto simp: scanBindVar_def Let_def split: prod.splits)
qed

text \<open>Every scan returns a token, and a token other than the final 0 has consumed input.\<close>

lemma Scan_returns:
  "\<exists>typ val t. Scan tkn = Inr ((typ, val), t) \<and> (typ \<noteq> 0 \<longrightarrow> remaining t < remaining tkn)"
proof (cases "ForceEOF tkn")
  case False
  define t0 where "t0 = skipBlank (if lastChar tkn = 0 then tkn_next tkn else tkn)"
  have t0: "remaining t0 \<le> remaining tkn"
    using skipBlank_remaining [of "if lastChar tkn = 0 then tkn_next tkn else tkn"] remaining_next_le [of tkn]
    by (auto simp: t0_def split: if_splits)
  have S: "Scan tkn = (if isLetter (lastChar t0) then Inr (scanIdentifier t0)
      else if isDigit (lastChar t0) then scanNumber False t0
      else if lastChar t0 = bc CHR '':'' then Inr (scanBindVar t0) else scan_other (lastChar t0) (tkn_next t0))"
    using False by (simp add: Scan_def t0_def Let_def)
  consider (id) "isLetter (lastChar t0)" | (num) "\<not> isLetter (lastChar t0)" "isDigit (lastChar t0)"
    | (bind) "\<not> isLetter (lastChar t0)" "\<not> isDigit (lastChar t0)" "lastChar t0 = bc CHR '':''"
    | (eof) "lastChar t0 = EOFCHAR"
    | (other) "\<not> isLetter (lastChar t0)" "\<not> isDigit (lastChar t0)" "lastChar t0 \<noteq> bc CHR '':''" "lastChar t0 \<noteq> EOFCHAR"
    by blast
  then show ?thesis
  proof cases
    case id
    with returns_scan_while_token(1) [of t0] t0 show ?thesis
      by (cases "scanIdentifier t0") (auto simp: S)
  next
    case num
    then have "lastChar t0 \<noteq> EOFCHAR" by auto
    then have "remaining t0 \<noteq> 0" by (simp add: remaining_def)
    then have "returns (remaining t0 - 1) (scanNumber False t0)" using num by (intro returns_scanNumber_digit) auto
    with num t0 \<open>remaining t0 \<noteq> 0\<close> show ?thesis by (auto simp: S returns_def)
  next
    case bind
    with returns_scan_while_token(2) [of t0] t0 show ?thesis
      by (cases "scanBindVar t0") (auto simp: S)
  next
    case eof
    then show ?thesis by (simp add: S scan_other_def)
  next
    case other
    with returns_scan_other [of "tkn_next t0" "lastChar t0"] remaining_next [of t0] t0 show ?thesis
      by (fastforce simp: S returns_def)
  qed
qed (simp add: Scan_def)

lemma Scan_decreases:
  "Scan tkn = Inr (tok, t) \<Longrightarrow> fst tok \<noteq> 0 \<Longrightarrow> remaining t < remaining tkn"
  using Scan_returns [of tkn] by auto

text \<open>Token codes are not negative.\<close>

definition code_ok :: "(token \<times> tokenizer) res \<Rightarrow> bool" where
  "code_ok m \<longleftrightarrow> (case m of Inr ((k, v), t) \<Rightarrow> 0 \<le> k | Inl e \<Rightarrow> True)"

lemma code_ok_simps [simp]: "code_ok (Inr ((k, v), t)) \<longleftrightarrow> 0 \<le> k" "code_ok (Inl e)"
  by (simp_all add: code_ok_def)

lemma code_ok_rbind: "(\<And>x t. code_ok (f x t)) \<Longrightarrow> code_ok (rbind m (\<lambda>(x, t). f x t))"
  by (cases m) auto

lemma keyword_id_nonneg: "keyword_id w = Some k \<Longrightarrow> 0 \<le> k"
proof -
  have "list_all (\<lambda>(w, k). 0 \<le> k) keyword_table" by (simp add: keyword_table_def)
  then show "keyword_id w = Some k \<Longrightarrow> 0 \<le> k"
    by (auto simp: keyword_id_def list_all_iff dest: map_of_SomeD)
qed

lemma code_ok_scanNumber: "code_ok (scanNumber p tkn)"
  by (auto simp: scanNumber_def scan_exponent_def scan_fraction_def scan_octal_def Let_def intro!: code_ok_rbind)

lemma code_ok_scanCommentType1: "code_ok (scanCommentType1 b tkn)"
proof (induction b tkn rule: scanCommentType1.induct)
  case (1 b tkn)
  then show ?case by (subst scanCommentType1.simps) (auto simp: ConsumeNext_def)
qed

lemma code_ok_scanCommentType2: "code_ok (scanCommentType2 b tkn)"
proof (induction b tkn rule: scanCommentType2.induct)
  case (1 b tkn)
  then show ?case by (subst scanCommentType2.simps) (auto simp: ConsumeNext_def)
qed

lemma code_ok_scan_string: "0 \<le> k \<Longrightarrow> code_ok (Inr (scan_string d k b tkn))"
proof (induction d k b tkn rule: scan_string.induct)
  case (1 d k b tkn)
  then show ?case by (subst scan_string.simps) (auto split: prod.splits string_step.splits)
qed

lemma code_ok_scan_other: "code_ok (scan_other ch tkn)"
  by (auto simp: scan_other_def Let_def scanString_def code_ok_scanNumber code_ok_scanCommentType1 code_ok_scanCommentType2
      code_ok_scan_string)

lemma code_ok_Scan: "code_ok (Scan tkn)"
  by (auto simp: Scan_def Let_def scanIdentifier_def scanBindVar_def code_ok_scanNumber code_ok_scan_other keyword_id_nonneg
      split: prod.splits option.splits)

section \<open>The lexer\<close>

text \<open>\<open>lval\<close> is the \<open>bytes\<close> field of the parser's value, written for the tokens with a text.\<close>

function Lex :: "string option \<Rightarrow> tokenizer \<Rightarrow> (int \<times> string option \<times> tokenizer) res" where
  "Lex lval tkn =
     rbind (Scan tkn) (\<lambda>(tok, t).
       if fst tok = tk_COMMENT \<and> \<not> AllowComments t then Lex lval t
       else Inr (fst tok,
                 (if fst tok \<in> {tk_ID, tk_STRING, tk_NUMBER, tk_VALUE_ARG, tk_COMMENT} then snd tok else lval),
                 t\<lparr>errorToken := snd tok\<rparr>))"
  by pat_completeness auto
termination
  by (relation "measure (\<lambda>(l, t). remaining t)") (auto dest!: Scan_decreases)

declare Lex.simps [simp del]

text \<open>
  The lexer always returns: for every state of the tokenizer, well-formed or not, \<open>Lex\<close> returns a token without reaching the panic
  of \<open>ConsumeNext\<close>; a token other than the final 0 has consumed input, and a comment is returned only when comments are allowed.
\<close>

lemma Lex_returns:
  "\<exists>typ lval' t. Lex lval tkn = Inr (typ, lval', t) \<and> 0 \<le> typ \<and> (typ \<noteq> 0 \<longrightarrow> remaining t < remaining tkn)
     \<and> (typ = tk_COMMENT \<longrightarrow> AllowComments t)"
proof (induction lval tkn rule: Lex.induct)
  case (1 lval tkn)
  obtain k val t where s: "Scan tkn = Inr ((k, val), t)" and r: "k \<noteq> 0 \<longrightarrow> remaining t < remaining tkn"
    using Scan_returns [of tkn] by blast
  have k: "0 \<le> k" using code_ok_Scan [of tkn] by (simp add: s)
  show ?case
  proof (cases "k = tk_COMMENT \<and> \<not> AllowComments t")
    case True
    with 1 [OF s refl] obtain k' l' t' where "Lex lval t = Inr (k', l', t')" "0 \<le> k'"
      "k' \<noteq> 0 \<longrightarrow> remaining t' < remaining t" "k' = tk_COMMENT \<longrightarrow> AllowComments t'" by auto
    with True s r show ?thesis by (subst Lex.simps) auto
  next
    case False
    with s r k show ?thesis by (subst Lex.simps) (auto simp: remaining_def)
  qed
qed
text \<open>\<open>Error\<close>; \<open>%s\<close> prints the bytes of the last token.\<close>

definition tkn_Error :: "string \<Rightarrow> tokenizer \<Rightarrow> tokenizer" where
  "tkn_Error err tkn =
     tkn\<lparr>LastError :=
       (case errorToken tkn of
          Some tok \<Rightarrow> err @ '' at position '' @ int_str (Position tkn) @ '' near '' @ tok
        | None \<Rightarrow> err @ '' at position '' @ int_str (Position tkn))\<rparr>"

section \<open>Printed text is scanned back\<close>

text \<open>\<open>looks_at tkn s\<close>: the look-ahead and the reader together deliver \<open>s\<close>.\<close>

definition looks_at :: "tokenizer \<Rightarrow> string \<Rightarrow> bool" where
  "looks_at tkn s =
     (case s of [] \<Rightarrow> lastChar tkn = EOFCHAR \<and> InStream tkn = []
      | c # s' \<Rightarrow> lastChar tkn = bc c \<and> InStream tkn = s')"

lemma looks_at_next: "looks_at tkn (c # s) \<Longrightarrow> looks_at (tkn_next tkn) s"
  by (auto simp: looks_at_def tkn_next_def split: list.splits)

lemma looks_at_Cons: "looks_at tkn (c # s) \<Longrightarrow> lastChar tkn = bc c"
  by (simp add: looks_at_def)

lemma looks_at_not:
  assumes "looks_at tkn r" and "r = [] \<or> \<not> P (bc (hd r))" and "\<not> P EOFCHAR"
  shows "\<not> P (lastChar tkn)"
  using assms by (auto simp: looks_at_def split: list.splits)

lemma looks_at_new: "looks_at (tkn_next (NewStringTokenizer s)) s"
  by (auto simp: looks_at_def tkn_next_def NewStringTokenizer_def split: list.splits)

lemma char_of_bc [simp]: "char_of (bc c) = c"
  by simp

lemma scan_string_encoded:
  assumes "looks_at tkn (encode_string b @ CHR 0x27 # r)" and "r = [] \<or> hd r \<noteq> CHR 0x27"
  shows "\<exists>t. scan_string (bc CHR 0x27) typ buf tkn = ((typ, Some (buf @ b)), t) \<and> looks_at t r"
  using assms
proof (induction b arbitrary: buf tkn)
  case Nil
  then have l: "lastChar tkn = bc CHR 0x27" and n: "looks_at (tkn_next tkn) r"
    by (auto dest: looks_at_Cons looks_at_next)
  have "lastChar (tkn_next tkn) \<noteq> bc CHR 0x27"
    using looks_at_not [OF n, of "\<lambda>c. c = bc CHR 0x27"] Nil.prems(2) by (metis bc_not_EOF char_of_bc)
  with l n show ?case by (subst scan_string.simps) (simp add: scan_string_char_def)
next
  case (Cons c b)
  have "\<exists>t. scan_string_char (bc CHR 0x27) tkn = (SChar (bc c), t) \<and> looks_at t (encode_string b @ CHR 0x27 # r)"
  proof (cases "SqlEncodeMap c = DONTESCAPE")
    case True
    with Cons.prems(1) have k: "looks_at tkn (c # encode_string b @ CHR 0x27 # r)" by simp
    have "bc c \<noteq> bc CHR 0x27" "bc c \<noteq> bc CHR 0x5C"
      using unescaped_not_special [OF True] by (metis char_of_bc)+
    with looks_at_Cons [OF k] looks_at_next [OF k] show ?thesis by (simp add: scan_string_char_def)
  next
    case False
    with Cons.prems(1) have k: "looks_at tkn (CHR 0x5C # SqlEncodeMap c # encode_string b @ CHR 0x27 # r)" by simp
    note k2 = looks_at_next [OF k]
    have "SqlDecodeMap (SqlEncodeMap c) = c" "c \<noteq> DONTESCAPE"
      using SqlDecodeMap_SqlEncodeMap [OF False] decoded_not_DONTESCAPE [OF False] by auto
    with looks_at_Cons [OF k] looks_at_Cons [OF k2] looks_at_next [OF k2] show ?thesis
      by (simp add: scan_string_char_def)
  qed
  then obtain t where c: "scan_string_char (bc CHR 0x27) tkn = (SChar (bc c), t)"
    and t: "looks_at t (encode_string b @ CHR 0x27 # r)" by blast
  from Cons.IH [OF t Cons.prems(2), of "buf @ [c]"] c show ?case
    by (subst scan_string.simps) simp
qed

lemma scan_string_plain:
  assumes "looks_at tkn (w @ q # r)" and "\<forall>c \<in> set w. c \<noteq> q \<and> c \<noteq> CHR 0x5C" and "r = [] \<or> hd r \<noteq> q"
  shows "\<exists>t. scan_string (bc q) k buf tkn = ((k, Some (buf @ w)), t) \<and> looks_at t r"
  using assms
proof (induction w arbitrary: buf tkn)
  case Nil
  then have l: "lastChar tkn = bc q" and n: "looks_at (tkn_next tkn) r"
    by (auto dest: looks_at_Cons looks_at_next)
  have "lastChar (tkn_next tkn) \<noteq> bc q"
    using looks_at_not [OF n, of "\<lambda>c. c = bc q"] Nil.prems(3) by (metis bc_not_EOF char_of_bc)
  with l n show ?case by (subst scan_string.simps) (simp add: scan_string_char_def)
next
  case (Cons c w)
  then have k: "looks_at tkn (c # w @ q # r)" by simp
  have "bc c \<noteq> bc CHR 0x5C" "c \<noteq> q" using Cons.prems(2) bc_eq_iff [of c "CHR 0x5C"] by auto
  then have "scan_string_char (bc q) tkn = (SChar (bc c), tkn_next tkn)"
    using looks_at_Cons [OF k] by (simp add: scan_string_char_def)
  with Cons.IH [OF looks_at_next [OF k], of "buf @ [c]"] Cons.prems show ?case
    by (subst scan_string.simps) simp
qed

lemma scan_while_all:
  assumes "looks_at tkn (w @ r)" and "\<forall>c \<in> set w. P (bc c)" and "r = [] \<or> \<not> P (bc (hd r))"
  shows "\<exists>t. scan_while P buf tkn = (buf @ w, t) \<and> looks_at t r"
  using assms
proof (induction w arbitrary: buf tkn)
  case Nil
  then have "\<not> (P (lastChar tkn) \<and> lastChar tkn \<noteq> EOFCHAR)"
    using looks_at_not [of tkn r "\<lambda>c. P c \<and> c \<noteq> EOFCHAR"] by auto
  with Nil show ?case by (subst scan_while.simps) auto
next
  case (Cons c w)
  then have k: "looks_at tkn (c # w @ r)" by simp
  from Cons.IH [OF looks_at_next [OF k], of "buf @ [c]"] Cons.prems looks_at_Cons [OF k] show ?case
    by (subst scan_while.simps) simp
qed

lemma Scan_start:
  assumes "looks_at tkn (c # s) \<or> tkn = NewStringTokenizer (c # s)" and "\<not> ForceEOF tkn" and "c \<noteq> CHR 0x00"
    and "c \<notin> {CHR '' '', CHR 0x0A, CHR 0x0D, CHR 0x09}"
  shows "\<exists>t. looks_at t (c # s) \<and> Scan tkn = (if isLetter (bc c) then Inr (scanIdentifier t)
     else if isDigit (bc c) then scanNumber False t
     else if bc c = bc CHR '':'' then Inr (scanBindVar t) else scan_other (bc c) (tkn_next t))"
proof -
  have z: "bc c \<noteq> 0" using assms(3) of_char_eq_iff [of c "CHR 0x00", where 'a = int] by simp
  define t where "t = (if lastChar tkn = 0 then tkn_next tkn else tkn)"
  have l: "looks_at t (c # s)"
    using assms(1) z looks_at_new [of "c # s"] by (auto simp: t_def looks_at_Cons NewStringTokenizer_def)
  have "skipBlank t = t"
    using assms(4) looks_at_Cons [OF l] bc_eq_iff [of c]
    by (subst skipBlank.simps) (simp add: Let_def del: of_char_Char)
  with assms(2) l looks_at_Cons [OF l] show ?thesis
    by (intro exI [of _ t]) (simp add: Scan_def t_def [symmetric] Let_def)
qed

section \<open>Properties\<close>

text \<open>
  C36. A string literal that the printer writes is scanned back: whatever bytes the string has,
  quotes, backslashes and control bytes included, scanning the printed literal gives one
  \<open>STRING\<close> token with exactly these bytes and leaves the text behind it. So a value of a client's
  statement cannot change the meaning of the rewritten statement.
\<close>

theorem string_literal_scans_back:
  assumes "tkn = NewStringTokenizer (format_strval b @ r) \<or> looks_at tkn (format_strval b @ r) \<and> \<not> ForceEOF tkn"
    and "r = [] \<or> hd r \<noteq> CHR 0x27"
  shows "\<exists>t. Scan tkn = Inr ((tk_STRING, Some b), t) \<and> looks_at t r"
proof -
  have f: "format_strval b @ r = CHR 0x27 # encode_string b @ CHR 0x27 # r"
    by (simp add: format_strval_def EncodeSql_def MakeString_def)
  have "\<not> ForceEOF tkn" using assms(1) by (auto simp: NewStringTokenizer_def)
  then obtain t where l: "looks_at t (CHR 0x27 # encode_string b @ CHR 0x27 # r)" and
    s: "Scan tkn = scan_other (bc CHR 0x27) (tkn_next t)"
    using Scan_start [of tkn "CHR 0x27" "encode_string b @ CHR 0x27 # r"] assms(1)
    by (auto simp: f isLetter_def isDigit_def)
  from scan_string_encoded [OF looks_at_next [OF l] assms(2), of tk_STRING "[]"] show ?thesis
    by (simp add: s scan_other_def scanString_def)
qed

theorem string_literal_scans_back_witness:
  "\<exists>t. Scan (NewStringTokenizer (format_strval [CHR ''a'', CHR 0x27, CHR 0x5C] @ '' or 1=1'')) =
       Inr ((tk_STRING, Some [CHR ''a'', CHR 0x27, CHR 0x5C]), t) \<and> looks_at t '' or 1=1''"
  by (rule string_literal_scans_back) simp_all

lemma ast_escape_eq:
  "ast_escape name = (if keyword_id name = None then name else CHR ''`'' # name @ ''`'')"
  by (auto simp: ast_escape_def fpf_def prepend_def format_verb_def is_verb_def)

text \<open>The words that \<open>scanIdentifier\<close> reads.\<close>

definition is_word :: "string \<Rightarrow> bool" where
  "is_word w \<longleftrightarrow> w \<noteq> [] \<and> isLetter (bc (hd w)) \<and> list_all (\<lambda>c. isLetter (bc c) \<or> isDigit (bc c)) w"

lemma Scan_word:
  assumes "tkn = NewStringTokenizer (name @ r)" and "is_word name"
    and "r = [] \<or> \<not> (isLetter (bc (hd r)) \<or> isDigit (bc (hd r)))"
  shows "\<exists>t. looks_at t r \<and>
    Scan tkn = Inr ((case keyword_id (to_lower name) of
        Some k \<Rightarrow> (k, Some (to_lower name)) | None \<Rightarrow> (tk_ID, Some name)), t)"
proof -
  obtain c w where n: "name = c # w" using assms(2) by (cases name) (auto simp: is_word_def)
  have c: "isLetter (bc c)" and w: "\<forall>x \<in> set w. isLetter (bc x) \<or> isDigit (bc x)"
    using assms(2) by (auto simp: n is_word_def list_all_iff)
  have "c \<noteq> CHR 0x00" "c \<notin> {CHR '' '', CHR 0x0A, CHR 0x0D, CHR 0x09}" using c by (auto simp: isLetter_def)
  with Scan_start [of tkn c "w @ r"] c assms(1) obtain t where l: "looks_at t (c # w @ r)"
    and s: "Scan tkn = Inr (scanIdentifier t)" by (auto simp: n NewStringTokenizer_def)
  from scan_while_all [OF looks_at_next [OF l] w assms(3), of "[c]"] looks_at_Cons [OF l]
  show ?thesis by (auto simp: s scanIdentifier_def n split: option.splits)
qed

text \<open>
  C37. A plain word that the printer writes as a name is scanned back: for a name of letters and digits that starts with a letter
  (\<open>is_word\<close>), \<open>escape\<close> puts a keyword in backquotes, so scanning the printed name gives one \<open>ID\<close> token with the name. Excluded are
  words that are keywords only up to the case of their letters, which are scanned as the keyword (\<open>escape_misses_mixed_case\<close>), and names
  with other characters, which a statement can only have in backquotes and which are printed without them (\<open>escape_misses_characters\<close>).
\<close>

theorem name_scans_back:
  assumes "tkn = NewStringTokenizer (ast_escape name @ r)" and "is_word name"
    and "keyword_id (to_lower name) = None \<or> keyword_id name \<noteq> None"
    and "r = [] \<or> \<not> isLetter (bc (hd r)) \<and> \<not> isDigit (bc (hd r)) \<and> hd r \<noteq> CHR ''`''"
  shows "\<exists>t. Scan tkn = Inr ((tk_ID, Some name), t) \<and> looks_at t r"
proof (cases "keyword_id name")
  case None
  then have "tkn = NewStringTokenizer (name @ r)" using assms(1) by (simp add: ast_escape_eq)
  from Scan_word [OF this assms(2)] None assms(3,4) show ?thesis by auto
next
  case (Some k)
  have tkn: "tkn = NewStringTokenizer (CHR ''`'' # name @ CHR ''`'' # r)"
    using Some assms(1) by (simp add: ast_escape_eq)
  then obtain t where l: "looks_at t (CHR ''`'' # name @ CHR ''`'' # r)"
    and s: "Scan tkn = scan_other (bc CHR ''`'') (tkn_next t)"
    using Scan_start [of tkn "CHR ''`''" "name @ CHR ''`'' # r"] by (auto simp: NewStringTokenizer_def isLetter_def isDigit_def)
  have "\<forall>c \<in> set name. c \<noteq> CHR ''`'' \<and> c \<noteq> CHR 0x5C"
    using assms(2) by (auto simp: is_word_def list_all_iff isLetter_def isDigit_def)
  moreover have "r = [] \<or> hd r \<noteq> CHR ''`''" using assms(4) by blast
  ultimately show ?thesis
    using scan_string_plain [OF looks_at_next [OF l], of tk_ID "[]"]
    by (auto simp: s scan_other_def scanString_def)
qed

theorem name_scans_back_witness:
  "\<exists>t. Scan (NewStringTokenizer (ast_escape ''order'' @ '' = 1'')) = Inr ((tk_ID, Some ''order''), t) \<and> looks_at t '' = 1''"
  by (rule name_scans_back) (simp_all add: is_word_def isLetter_def isDigit_def keyword_id_def keyword_table_def)

text \<open>
  The exception: a column written \<open>Order\<close> in backquotes is printed without them and scanned as
  the keyword.
\<close>

lemma escape_misses_mixed_case:
  "\<exists>t. Scan (NewStringTokenizer (ast_escape ''Order'')) = Inr ((tk_ORDER, Some ''order''), t)"
proof -
  have k: "keyword_id ''Order'' = None" "keyword_id ''order'' = Some tk_ORDER"
    by (simp_all add: keyword_id_def keyword_table_def)
  have "to_lower ''Order'' = ''order''" by code_simp
  moreover have "ast_escape ''Order'' = ''Order''" by (simp add: ast_escape_eq k)
  moreover have "is_word ''Order''" by (simp add: is_word_def isLetter_def isDigit_def)
  ultimately show ?thesis using Scan_word [of _ "''Order''" "[]"] k by auto
qed

text \<open>A column written \<open>my-col\<close> in backquotes is printed without them, and only its first part is scanned as the name.\<close>

lemma escape_misses_characters:
  "\<exists>t. Scan (NewStringTokenizer (ast_escape ''my-col'')) = Inr ((tk_ID, Some ''my''), t) \<and> looks_at t ''-col''"
proof -
  have k: "keyword_id ''my-col'' = None" "keyword_id ''my'' = None" by (simp_all add: keyword_id_def keyword_table_def)
  have "to_lower ''my'' = ''my''" by code_simp
  moreover have "ast_escape ''my-col'' = ''my'' @ ''-col''" by (simp add: ast_escape_eq k)
  moreover have "is_word ''my''" by (simp add: is_word_def isLetter_def isDigit_def)
  moreover have "\<not> (isLetter (bc CHR ''-'') \<or> isDigit (bc CHR ''-''))" by (simp add: isLetter_def isDigit_def)
  ultimately show ?thesis using Scan_word [of _ "''my''" "''-col''"] k(2) by auto
qed

end
