(* ===== verification/Sql_Stmt.thy ===== *)
theory Sql_Stmt
  imports Sql_Ast
begin

text \<open>
  The statements of src/sqlparser/ast.go with their \<open>Format\<close> methods and the limit
  rewriting, the node tests of src/sqlparser/analyzer.go, and the lemmas that give the value
  of every \<open>Format\<close> method as a concatenation (collection \<open>format_eqs\<close>).
\<close>

named_theorems format_eqs \<open>values of the Format methods\<close>

section \<open>Statements\<close>

record update_expr =
  ue_Name :: colname
  ue_Expr :: ValExpr

datatype tuple = TupleVals "ValExpr list" | TupleSubquery selectstmt

datatype insertrows = RowsSelect selectstmt | RowsValues "tuple list"

record insert_stmt =
  ins_Comments :: "string list"
  ins_Ignore :: string
  ins_Table :: tablename
  ins_Columns :: "SelectExpr list option"
  ins_Rows :: insertrows
  ins_OnDup :: "update_expr list option"

record update_stmt =
  upd_Comments :: "string list"
  upd_Table :: tablename
  upd_Exprs :: "update_expr list"
  upd_Where :: "WhereClause option"
  upd_OrderBy :: "OrderExpr list"
  upd_Limit :: "LimitClause option"

record delete_stmt =
  del_Comments :: "string list"
  del_Table :: tablename
  del_Where :: "WhereClause option"
  del_OrderBy :: "OrderExpr list"
  del_Limit :: "LimitClause option"

record replace_stmt =
  rep_Comments :: "string list"
  rep_Table :: tablename
  rep_Columns :: "SelectExpr list option"
  rep_Rows :: insertrows

record truncate_stmt =
  trunc_Comments :: "string list"
  trunc_TableOpt :: string
  trunc_Table :: tablename

record set_stmt =
  set_Comments :: "string list"
  set_Exprs :: "update_expr list"

record ddl_stmt =
  ddl_Action :: string
  ddl_Ignore :: string
  ddl_Table :: string
  ddl_NewName :: string

record admin_stmt =
  adm_Region :: tablename
  adm_Columns :: "SelectExpr list option"
  adm_Rows :: insertrows

datatype (plugins only: code size) statement =
    SelectStmt SelectNode
  | UnionStmt string selectstmt selectstmt
  | SimpleSelectStmt "string list" string "SelectExpr list"
  | InsertStmt insert_stmt
  | UpdateStmt update_stmt
  | DeleteStmt delete_stmt
  | ReplaceStmt replace_stmt
  | TruncateStmt truncate_stmt
  | SetStmt set_stmt
  | DDLStmt ddl_stmt
  | BeginStmt
  | CommitStmt
  | RollbackStmt
  | AdminStmt admin_stmt
  | AdminHelpStmt
  | UseDBStmt string

section \<open>Format methods of the statements\<close>

definition format_tuple :: "tuple \<Rightarrow> string" where
  "format_tuple t = (case t of TupleVals vs \<Rightarrow> fmt_val (ValTuple vs) | TupleSubquery s \<Rightarrow> fmt_val (Subquery s))"

definition format_values :: "tuple list \<Rightarrow> string" where
  "format_values ts = format_list ''values '' (map format_tuple ts)"

definition format_rows :: "insertrows \<Rightarrow> string" where
  "format_rows r =
     (case r of RowsSelect s \<Rightarrow> format_selectstmt s | RowsValues ts \<Rightarrow> format_values ts)"

definition format_columns :: "SelectExpr list option \<Rightarrow> string" where
  "format_columns c =
     (case c of
        None \<Rightarrow> []
      | Some es \<Rightarrow> fpf ''(%v)'' [FNode (format_selectexprs format_selectstmt es)])"

definition format_updateexpr :: "update_expr \<Rightarrow> string" where
  "format_updateexpr e =
     fpf ''%v = %v'' [FNode (format_colname (ue_Name e)), FNode (fmt_val (ue_Expr e))]"

definition format_updateexprs :: "update_expr list \<Rightarrow> string" where
  "format_updateexprs es = format_list [] (map format_updateexpr es)"

definition format_ondup :: "update_expr list option \<Rightarrow> string" where
  "format_ondup d =
     (case d of
        None \<Rightarrow> []
      | Some es \<Rightarrow> fpf '' on duplicate key update %v'' [FNode (format_updateexprs es)])"

definition format_insert :: "insert_stmt \<Rightarrow> string" where
  "format_insert n =
     fpf ''insert %v%s into %v%v %v%v''
       [FNode (format_comments (ins_Comments n)), FStr (ins_Ignore n),
        FNode (format_tablename (ins_Table n)), FNode (format_columns (ins_Columns n)),
        FNode (format_rows (ins_Rows n)), FNode (format_ondup (ins_OnDup n))]"

definition format_update :: "update_stmt \<Rightarrow> string" where
  "format_update n =
     fpf ''update %v%v set %v%v%v%v''
       [FNode (format_comments (upd_Comments n)), FNode (format_tablename (upd_Table n)),
        FNode (format_updateexprs (upd_Exprs n)), FNode (fmt_where (upd_Where n)),
        FNode (format_orderby format_selectstmt (upd_OrderBy n)),
        FNode (format_limit format_selectstmt (upd_Limit n))]"

definition format_delete :: "delete_stmt \<Rightarrow> string" where
  "format_delete n =
     fpf ''delete %vfrom %v%v%v%v''
       [FNode (format_comments (del_Comments n)), FNode (format_tablename (del_Table n)),
        FNode (fmt_where (del_Where n)),
        FNode (format_orderby format_selectstmt (del_OrderBy n)),
        FNode (format_limit format_selectstmt (del_Limit n))]"

definition format_replace :: "replace_stmt \<Rightarrow> string" where
  "format_replace n =
     fpf ''replace %vinto %v%v %v''
       [FNode (format_comments (rep_Comments n)), FNode (format_tablename (rep_Table n)),
        FNode (format_columns (rep_Columns n)), FNode (format_rows (rep_Rows n))]"

definition format_truncate :: "truncate_stmt \<Rightarrow> string" where
  "format_truncate n =
     fpf ''truncate%v%s%v''
       [FNode (format_comments (trunc_Comments n)), FStr (trunc_TableOpt n),
        FNode (format_tablename (trunc_Table n))]"

definition format_set :: "set_stmt \<Rightarrow> string" where
  "format_set n =
     fpf ''set %v%v''
       [FNode (format_comments (set_Comments n)), FNode (format_updateexprs (set_Exprs n))]"

definition format_ddl :: "ddl_stmt \<Rightarrow> string" where
  "format_ddl n =
     (if ddl_Action n = ''create'' then
        fpf ''%s table %s'' [FStr (ddl_Action n), FStr (ddl_NewName n)]
      else if ddl_Action n = ''rename'' then
        fpf ''%s %s table %s %s''
          [FStr (ddl_Action n), FStr (ddl_Ignore n), FStr (ddl_Table n), FStr (ddl_NewName n)]
      else if ddl_Action n = ''alter'' then
        fpf ''%s %s table %s'' [FStr (ddl_Action n), FStr (ddl_Ignore n), FStr (ddl_Table n)]
      else fpf ''%s table %s'' [FStr (ddl_Action n), FStr (ddl_Table n)])"

definition format_admin :: "admin_stmt \<Rightarrow> string" where
  "format_admin n =
     fpf ''admin %v%v %v''
       [FNode (format_tablename (adm_Region n)), FNode (format_columns (adm_Columns n)),
        FNode (format_rows (adm_Rows n))]"

fun format_statement :: "statement \<Rightarrow> string" where
  "format_statement (SelectStmt n) = fmt_select n"
| "format_statement (UnionStmt t l r) = format_selectstmt (Union t l r)"
| "format_statement (SimpleSelectStmt c d es) = format_selectstmt (SimpleSelect c d es)"
| "format_statement (InsertStmt n) = format_insert n"
| "format_statement (UpdateStmt n) = format_update n"
| "format_statement (DeleteStmt n) = format_delete n"
| "format_statement (ReplaceStmt n) = format_replace n"
| "format_statement (TruncateStmt n) = format_truncate n"
| "format_statement (SetStmt n) = format_set n"
| "format_statement (DDLStmt n) = format_ddl n"
| "format_statement BeginStmt = fpf ''begin'' []"
| "format_statement CommitStmt = fpf ''commit'' []"
| "format_statement RollbackStmt = fpf ''rollback'' []"
| "format_statement (AdminStmt n) = format_admin n"
| "format_statement AdminHelpStmt = fpf ''admin help'' []"
| "format_statement (UseDBStmt d) = fpf ''use %s'' [FStr d]"

section \<open>Limits\<close>

text \<open>\<open>(*Limit).RewriteLimit\<close>: the limit a shard needs so that the proxy can cut the merged rows.\<close>

definition limit_offset_num :: "ValExpr option \<Rightarrow> int res" where
  "limit_offset_num v =
     (case v of
        None \<Rightarrow> Inr 0
      | Some (NumVal o') \<Rightarrow> strconv_ParseInt o'
      | Some _ \<Rightarrow> Inl (Err (Errorf ''Limit.offset is not number'')))"

definition limit_count_num :: "ValExpr \<Rightarrow> int res" where
  "limit_count_num v =
     (case v of
        NumVal r \<Rightarrow> strconv_ParseInt r
      | _ \<Rightarrow> Inl (Err (Errorf ''Limit.RowCount is not number'')))"

definition RewriteLimit :: "LimitClause option \<Rightarrow> LimitClause option res" where
  "RewriteLimit node =
     (case node of
        None \<Rightarrow> Inr None
      | Some l \<Rightarrow>
          rbind (limit_offset_num (l_Offset l)) (\<lambda>offset.
          rbind (limit_count_num (l_Rowcount l)) (\<lambda>count.
          Inr (Some (Limit None (NumVal (int_str (wrap64 (offset + count)))))))))"

section \<open>Tests on nodes (analyzer.go)\<close>

definition StringIn :: "string \<Rightarrow> string list \<Rightarrow> bool" where
  "StringIn str values = list_ex (\<lambda>val. str = val) values"

definition GetColName :: "Expr \<Rightarrow> string" where
  "GetColName node = (case node of ValE (ColName n) \<Rightarrow> cn_Name n | _ \<Rightarrow> [])"

definition IsColName :: "ValExpr \<Rightarrow> bool" where
  "IsColName node = (case node of ColName _ \<Rightarrow> True | _ \<Rightarrow> False)"

definition IsValue :: "ValExpr \<Rightarrow> bool" where
  "IsValue node =
     (case node of StrVal _ \<Rightarrow> True | NumVal _ \<Rightarrow> True | ValArg _ \<Rightarrow> True | _ \<Rightarrow> False)"

definition HasINClause :: "BoolExpr list \<Rightarrow> bool" where
  "HasINClause conditions =
     list_ex (\<lambda>n. case n of ComparisonExpr op _ _ \<Rightarrow> op = ''in'' | _ \<Rightarrow> False) conditions"

definition IsSimpleTuple :: "ValExpr \<Rightarrow> bool" where
  "IsSimpleTuple node = (case node of ValTuple l \<Rightarrow> list_all IsValue l | _ \<Rightarrow> False)"

definition GetDBTable :: "string \<Rightarrow> string \<times> string" where
  "GetDBTable token =
     (if token = [] then ([], [])
      else (case str_splitN2 (CHR ''.'') token of
              [d, t] \<Rightarrow> (trim_set ''`'' d, trim_set ''`'' t)
            | v \<Rightarrow> ([], trim_set ''`'' (hd v))))"

definition GetInsertDBTable :: "string \<Rightarrow> string \<times> string" where
  "GetInsertDBTable token =
     (if token = [] then ([], [])
      else (case str_splitN2 (CHR ''.'') token of
              [d, t] \<Rightarrow> (trim_set ''`'' d, trim_set ''`'' (hd (str_split (CHR ''('') t)))
            | v \<Rightarrow> ([], trim_set ''`'' (hd (str_split (CHR ''('') (hd v))))))"

text \<open>\<open>GetDBName\<close> after its call of the parser: the qualifier of a DML statement's table.\<close>

definition dml_db_name :: "string \<Rightarrow> statement \<Rightarrow> string res" where
  "dml_db_name sql st =
     (case st of
        InsertStmt n \<Rightarrow> Inr (nil_str (tn_Qualifier (ins_Table n)))
      | UpdateStmt n \<Rightarrow> Inr (nil_str (tn_Qualifier (upd_Table n)))
      | DeleteStmt n \<Rightarrow> Inr (nil_str (tn_Qualifier (del_Table n)))
      | _ \<Rightarrow> Inl (Err (Errorf (''statement '' @ [CHR 0x27] @ sql @ [CHR 0x27] @ '' is not a dml''))))"

section \<open>Values of the Format methods\<close>

lemmas fprintf_defs = fpf_def prepend_def format_verb_def is_verb_def

text \<open>
  A format string and its arguments agree when every verb finds an argument of its type;
  then \<open>Fprintf\<close> returns, so the default branches of \<open>fpf\<close> are never taken.
\<close>

fun verb_arg_ok :: "char \<Rightarrow> farg \<Rightarrow> bool" where
  "verb_arg_ok d (FByte _) = (d = CHR ''c'')"
| "verb_arg_ok d (FStr _) = (d = CHR ''s'' \<or> d = CHR ''a'')"
| "verb_arg_ok d (FNode _) = (d = CHR ''v'')"

fun verbs :: "string \<Rightarrow> string" where
  "verbs [] = []"
| "verbs [c] = []"
| "verbs (c # d # fs) = (if c \<noteq> CHR ''%'' then verbs (d # fs) else d # verbs fs)"

fun no_dangling :: "string \<Rightarrow> bool" where
  "no_dangling [] = True"
| "no_dangling [c] = (c \<noteq> CHR ''%'')"
| "no_dangling (c # d # fs) = (if c \<noteq> CHR ''%'' then no_dangling (d # fs) else no_dangling fs)"

lemma format_verb_ok: "verb_arg_ok d a \<Longrightarrow> is_verb d \<and> (\<exists>s. format_verb d a = Inr s)"
  by (cases a) (auto simp: is_verb_def format_verb_def)

lemma Fprintf_returns:
  "no_dangling f \<Longrightarrow> list_all2 verb_arg_ok (verbs f) args \<Longrightarrow> \<exists>s. Fprintf f args = Inr s"
proof (induction f args rule: Fprintf.induct)
  case (3 c d fs args)
  show ?case
  proof (cases "c = CHR ''%''")
    case False
    with 3 show ?thesis by (auto simp: prepend_def rbind_eq_Inr_iff)
  next
    case True
    with "3.prems" obtain a as where args: "args = a # as" and ok: "verb_arg_ok d a"
      and rest: "list_all2 verb_arg_ok (verbs fs) as" and nd: "no_dangling fs"
      by (auto simp: list_all2_Cons1)
    from format_verb_ok [OF ok] obtain s where v: "is_verb d" and s: "format_verb d a = Inr s"
      by blast
    from "3.IH"(2) [OF _ _ args s] True v nd rest obtain t where "Fprintf fs as = Inr t" by auto
    with True v s args show ?thesis by (simp add: prepend_def)
  qed
qed auto

lemma format_names [format_eqs]:
  "ast_escape n = (if keyword_id n = None then n else ''`'' @ n @ ''`'')"
  "format_as (Some a) = '' as '' @ a"
  "format_as None = []"
  "format_comments [] = []"
  "format_comments (c # cs) = c @ '' '' @ format_comments cs"
  by (auto simp: ast_escape_def format_as_def format_comments_def fprintf_defs split: option.splits)

lemma format_list_Cons [format_eqs]: "format_list p (n # ns) = p @ n @ format_list '', '' ns"
  by (simp add: fprintf_defs)

lemma format_list_Nil [format_eqs]: "format_list p [] = []"
  by simp

lemma format_val_eqs [format_eqs]:
  "format_val g (StrVal b) = [CHR 0x27] @ encode_string b @ [CHR 0x27]"
  "format_val g (NumVal n) = n"
  "format_val g (ValArg (c # b)) = b"
  "format_val g NullVal = ''null''"
  "format_val g (ColName cn) = format_colname cn"
  "format_val g (ValTuple vs) = ''('' @ format_list [] (map (format_val g) vs) @ '')''"
  "format_val g (Subquery s) = ''('' @ g s @ '')''"
  "format_val g (BinaryExpr op l r) = format_expr g l @ [op] @ format_expr g r"
  "format_val g (UnaryExpr op e) = op # format_expr g e"
  "format_val g (FuncExpr n d es) =
     n @ ''('' @ (if d then ''distinct '' else []) @ format_selectexprs g es @ '')''"
  by (simp_all add: fprintf_defs format_strval_def EncodeSql_def MakeString_def WriteArg_def
      format_selectexprs_def)

lemma format_bool_eqs [format_eqs]:
  "format_bool g (AndExpr l r) = format_bool g l @ '' and '' @ format_bool g r"
  "format_bool g (OrExpr l r) = format_bool g l @ '' or '' @ format_bool g r"
  "format_bool g (NotExpr e) = ''not '' @ format_bool g e"
  "format_bool g (ParenBoolExpr e) = ''('' @ format_bool g e @ '')''"
  "format_bool g (ComparisonExpr op v w) = format_val g v @ '' '' @ op @ '' '' @ format_val g w"
  "format_bool g (RangeCond op v w u) =
     format_val g v @ '' '' @ op @ '' '' @ format_val g w @ '' and '' @ format_val g u"
  "format_bool g (NullCheck op v) = format_val g v @ '' '' @ op"
  "format_bool g (ExistsExpr s) = ''exists ('' @ g s @ '')''"
  by (simp_all add: fprintf_defs)

lemma format_where_eqs [format_eqs]:
  "format_where g None = []"
  "format_where g (Some (Where ty e)) = '' '' @ ty @ '' '' @ format_bool g e"
  "format_limit g None = []"
  "format_limit g (Some (Limit None c)) = '' limit '' @ format_val g c"
  "format_limit g (Some (Limit (Some off) c)) =
     '' limit '' @ format_val g off @ '', '' @ format_val g c"
  "format_order g (Order oe d) = format_val g oe @ '' '' @ d"
  by (simp_all add: format_where_def format_limit_def format_opt_def fprintf_defs)

lemma format_selectnode_eq [format_eqs]:
  "format_selectnode g n =
     ''select '' @ format_comments (s_Comments n) @ s_Distinct n
     @ format_selectexprs g (s_SelectExprs n) @ '' from '' @ format_tableexprs g (s_From n)
     @ format_where g (s_Where n) @ format_groupby g (s_GroupBy n)
     @ format_where g (s_Having n) @ format_orderby g (s_OrderBy n)
     @ format_limit g (s_Limit n) @ s_Lock n"
  by (simp add: format_selectnode_def fprintf_defs)

lemma format_dml_eqs [format_eqs]:
  "format_insert i =
     ''insert '' @ format_comments (ins_Comments i) @ ins_Ignore i @ '' into ''
     @ format_tablename (ins_Table i) @ format_columns (ins_Columns i) @ '' ''
     @ format_rows (ins_Rows i) @ format_ondup (ins_OnDup i)"
  "format_update u =
     ''update '' @ format_comments (upd_Comments u) @ format_tablename (upd_Table u) @ '' set ''
     @ format_updateexprs (upd_Exprs u) @ fmt_where (upd_Where u)
     @ format_orderby format_selectstmt (upd_OrderBy u)
     @ format_limit format_selectstmt (upd_Limit u)"
  "format_delete d =
     ''delete '' @ format_comments (del_Comments d) @ ''from '' @ format_tablename (del_Table d)
     @ fmt_where (del_Where d) @ format_orderby format_selectstmt (del_OrderBy d)
     @ format_limit format_selectstmt (del_Limit d)"
  "format_replace r =
     ''replace '' @ format_comments (rep_Comments r) @ ''into '' @ format_tablename (rep_Table r)
     @ format_columns (rep_Columns r) @ '' '' @ format_rows (rep_Rows r)"
  "format_truncate t =
     ''truncate'' @ format_comments (trunc_Comments t) @ trunc_TableOpt t
     @ format_tablename (trunc_Table t)"
  by (simp_all add: format_insert_def format_update_def format_delete_def format_replace_def
      format_truncate_def fprintf_defs)

text \<open>
  The parametric formatters commute with the mapping of the subqueries, so a select inside a
  select is printed by the same methods as one at the top.
\<close>

lemma format_map:
  fixes v :: "'a valexpr" and b :: "'a boolexpr" and e :: "'a expr" and s :: "'a selectexpr"
    and h :: "'b \<Rightarrow> string"
  shows "format_val h (map_valexpr f v) = format_val (\<lambda>x. h (f x)) v"
    and "format_bool h (map_boolexpr f b) = format_bool (\<lambda>x. h (f x)) b"
    and "format_expr h (map_expr f e) = format_expr (\<lambda>x. h (f x)) e"
    and "format_selectexpr h (map_selectexpr f s) = format_selectexpr (\<lambda>x. h (f x)) s"
proof (induction v and b and e and s)
  case (CaseExpr e ws el)
  let ?g = "\<lambda>x. h (f x)"
  have e: "map_option (format_val h) (map_option (map_valexpr f) o') = map_option (format_val ?g) o'"
    if "\<And>x. o' = Some x \<Longrightarrow> format_val h (map_valexpr f x) = format_val ?g x" for o'
    using that by (cases o') auto
  have "map_option (format_val h) (map_option (map_valexpr f) e) = map_option (format_val ?g) e"
    by (rule e, rule CaseExpr) simp
  moreover have "map_option (format_val h) (map_option (map_valexpr f) el) = map_option (format_val ?g) el"
    by (rule e, rule CaseExpr) simp
  moreover have "map (map_prod (format_bool h) (format_val h)) (map (map_prod (map_boolexpr f) (map_valexpr f)) ws)
      = map (map_prod (format_bool ?g) (format_val ?g)) ws"
    using CaseExpr(2,3) by fastforce
  ultimately show ?case by (simp del: map_map add: option.map_comp [symmetric] del: option.map_comp)
qed (auto simp: comp_def cong: map_cong)

lemma format_tableexpr_map:
  "format_tableexpr h (map_tableexpr f t) = format_tableexpr (\<lambda>x. h (f x)) t"
proof (induction t)
  case (AliasedTableExpr s a i)
  then show ?case by (cases s) auto
next
  case (JoinTableExpr l j r on)
  then show ?case by (cases on) (auto simp: format_map)
qed auto

lemma format_clause_map:
  "format_where h (map_option (map_whereclause f) w) = format_where (\<lambda>x. h (f x)) w"
  "format_limit h (map_option (map_limitclause f) l) = format_limit (\<lambda>x. h (f x)) l"
  "format_order h (map_orderexpr f od) = format_order (\<lambda>x. h (f x)) od"
proof -
  show "format_where h (map_option (map_whereclause f) w) = format_where (\<lambda>x. h (f x)) w"
    by (auto simp: format_where_def whereclause.map_sel format_map split: option.splits)
  show "format_limit h (map_option (map_limitclause f) l) = format_limit (\<lambda>x. h (f x)) l"
    by (auto simp: format_limit_def limitclause.map_sel format_map option.map_comp comp_def
        split: option.splits)
  show "format_order h (map_orderexpr f od) = format_order (\<lambda>x. h (f x)) od"
    by (cases od) (simp add: format_map)
qed

lemma format_selectnode_map:
  "format_selectnode h (map_selectnode f n) = format_selectnode (\<lambda>x. h (f x)) n"
  by (cases n)
    (simp add: format_selectnode_eq format_clause_map format_selectexprs_def format_tableexprs_def
      format_groupby_def format_orderby_def format_map format_tableexpr_map comp_def)

lemma format_selectstmt_SelectS [format_eqs]: "format_selectstmt (SelectS n) = fmt_select n"
  by (simp add: format_selectnode_map)

section \<open>Properties of the limit rewriting\<close>

lemma RewriteLimit_nums:
  assumes "RewriteLimit (Some l) = Inr l'"
  obtains off cnt where "limit_offset_num (l_Offset l) = Inr off"
    and "limit_count_num (l_Rowcount l) = Inr cnt"
    and "l' = Some (Limit None (NumVal (int_str (wrap64 (off + cnt)))))"
  using assms by (auto simp: RewriteLimit_def rbind_eq_Inr_iff)

end
