(* ===== verification/Wire.thy ===== *)
theory Wire
  imports Go_Base
begin

text \<open>
  The wire format of the MySQL protocol: length-encoded integers and strings, little-endian
  integers, the binary formats of dates and times and the password hash
  (src/mysql/util.go), packets (src/mysql/packetio.go) and column definitions
  (src/mysql/field.go).

  A \<open>uint64\<close> is an integer from 0 to \<open>MaxUint64\<close>; \<open>byte(n)\<close> is \<open>char_of n\<close>, which takes \<open>n\<close> modulo
  256; shifts and the bitwise or are those of the integers. A \<open>nil\<close> byte slice is the empty one
  where the code only looks at its contents and \<open>None\<close> where the code compares it with \<open>nil\<close>.
\<close>

unbundle bit_operations_syntax

section \<open>Little-endian integers\<close>

text \<open>
  \<open>byte(n), byte(n >> 8), ...\<close>, \<open>k\<close> bytes of it, and \<open>uint64(b[0]) | uint64(b[1]) << 8 | ...\<close>.
\<close>

fun le_bytes :: "nat \<Rightarrow> int \<Rightarrow> string" where
  "le_bytes 0 n = []"
| "le_bytes (Suc k) n = char_of n # le_bytes k (drop_bit 8 n)"

fun le_uint :: "string \<Rightarrow> int" where
  "le_uint [] = 0"
| "le_uint (c # cs) = of_char c OR push_bit 8 (le_uint cs)"

text \<open>\<open>b[i:j]\<close> and \<open>b[i:]\<close>; a bound outside the slice panics.\<close>

definition slice :: "'a list \<Rightarrow> int \<Rightarrow> int \<Rightarrow> 'a list res" where
  "slice b i j =
     (if 0 \<le> i \<and> i \<le> j \<and> j \<le> int (length b) then Inr (drop (nat i) (take (nat j) b))
      else Inl (Panic IndexOutOfRange))"

definition slice_from :: "'a list \<Rightarrow> int \<Rightarrow> 'a list res" where
  "slice_from b i = slice b i (int (length b))"

text \<open>\<open>binary.LittleEndian.Uint16(b)\<close> and its siblings: the first \<open>k\<close> bytes of \<open>b\<close>.\<close>

definition le_uint_at :: "string \<Rightarrow> int \<Rightarrow> int \<Rightarrow> int res" where
  "le_uint_at b i k = rbind (slice b i (i + k)) (\<lambda>s. Inr (le_uint s))"

definition Uint16ToBytes :: "int \<Rightarrow> string" where
  "Uint16ToBytes n = le_bytes 2 n"

definition Uint32ToBytes :: "int \<Rightarrow> string" where
  "Uint32ToBytes n = le_bytes 4 n"

definition Uint64ToBytes :: "int \<Rightarrow> string" where
  "Uint64ToBytes n = le_bytes 8 n"

lemma length_le_bytes [simp]: "length (le_bytes k n) = k"
  by (induction k arbitrary: n) auto

lemma of_char_take_bit: "(of_char (char_of n) :: int) = take_bit 8 n"
  by (simp add: take_bit_eq_mod)

lemma take_bit_split: "take_bit 8 n OR push_bit 8 (take_bit k (drop_bit 8 n)) = take_bit (8 + k) (n :: int)"
  by (rule bit_eqI) (auto simp: bit_simps)

lemma le_uint_le_bytes: "le_uint (le_bytes k n) = take_bit (8 * k) n"
proof (induction k arbitrary: n)
  case (Suc k)
  have "le_uint (le_bytes (Suc k) n) = take_bit 8 n OR push_bit 8 (take_bit (8 * k) (drop_bit 8 n))"
    by (simp only: le_bytes.simps le_uint.simps Suc of_char_take_bit)
  then show ?case by (simp add: take_bit_split)
qed simp

lemma le_uint_bounds: "0 \<le> le_uint b \<and> le_uint b < 2 ^ (8 * length b)"
proof (induction b)
  case (Cons c b)
  have c: "take_bit 8 (of_char c :: int) = of_char c" by (simp add: take_bit_eq_mod of_char_mod_256)
  have "le_uint b = take_bit (8 * length b) (le_uint b)" using Cons by (simp add: take_bit_int_eq_self)
  then have "le_uint (c # b) = take_bit (8 + 8 * length b) (le_uint (c # b))"
    by (simp add: take_bit_or c take_bit_push_bit) (metis c take_bit_take_bit min.absorb2 le_add1 add.commute)
  then show ?case by (metis length_Cons mult_Suc_right take_bit_nonnegative take_bit_int_less_exp)
qed simp

lemma slice_append: "slice (a @ b @ r) (int (length a)) (int (length a) + int (length b)) = Inr b"
  by (simp add: slice_def)

section \<open>Length-encoded integers and strings\<close>

definition LengthEncodedInt :: "string \<Rightarrow> (int \<times> bool \<times> int) res" where
  "LengthEncodedInt b =
     rbind (at_index b 0) (\<lambda>b0.
       if b0 = CHR 0xFB then Inr (0, True, 1)
       else if b0 = CHR 0xFC then rbind (le_uint_at b 1 2) (\<lambda>num. Inr (num, False, 3))
       else if b0 = CHR 0xFD then rbind (le_uint_at b 1 3) (\<lambda>num. Inr (num, False, 4))
       else if b0 = CHR 0xFE then rbind (le_uint_at b 1 8) (\<lambda>num. Inr (num, False, 9))
       else Inr (of_char b0, False, 1))"

definition PutLengthEncodedInt :: "int \<Rightarrow> string" where
  "PutLengthEncodedInt n =
     (if n \<le> 250 then le_bytes 1 n
      else if n \<le> 0xFFFF then CHR 0xFC # le_bytes 2 n
      else if n \<le> 0xFFFFFF then CHR 0xFD # le_bytes 3 n
      else CHR 0xFE # le_bytes 8 n)"

definition LengthEnodedString :: "string \<Rightarrow> (string \<times> bool \<times> int) res" where
  "LengthEnodedString b =
     rbind (LengthEncodedInt b) (\<lambda>(num, isNull, n0).
       if num < 1 then Inr ([], isNull, n0)
       else
         let n = wrap64 (n0 + wrap64 num) in
         if int (length b) \<ge> n then rbind (slice b (wrap64 (n - wrap64 num)) n) (\<lambda>v. Inr (v, False, n))
         else Inl (Err ErrEOF))"

definition SkipLengthEnodedString :: "string \<Rightarrow> int res" where
  "SkipLengthEnodedString b =
     rbind (LengthEncodedInt b) (\<lambda>(num, _, n0).
       if num < 1 then Inr n0
       else
         let n = wrap64 (n0 + wrap64 num) in
         if int (length b) \<ge> n then Inr n else Inl (Err ErrEOF))"

definition PutLengthEncodedString :: "string \<Rightarrow> string" where
  "PutLengthEncodedString b = PutLengthEncodedInt (to_uint64 (int (length b))) @ b"

lemma length_PutLengthEncodedInt: "length (PutLengthEncodedInt n) \<in> {1, 3, 4, 9}"
  by (simp add: PutLengthEncodedInt_def)

lemma le_uint_at_le_bytes:
  "length a = i \<Longrightarrow> le_uint_at (a @ le_bytes k n @ r) (int i) (int k) = Inr (take_bit (8 * k) n)"
  using slice_append [of a "le_bytes k n" r] by (auto simp: le_uint_at_def le_uint_le_bytes)

text \<open>The decoder of integers undoes the encoder and reports the number of bytes it read.\<close>

lemma LengthEncodedInt_Put:
  assumes "0 \<le> n" and "n \<le> MaxUint64"
  shows "LengthEncodedInt (PutLengthEncodedInt n @ r) = Inr (n, False, int (length (PutLengthEncodedInt n)))"
proof -
  have u: "le_uint_at (c # le_bytes k n @ r) 1 (int k) = Inr n" if "n < 2 ^ (8 * k)" for c k
    using le_uint_at_le_bytes [of "[c]" 1 k n r] that assms(1) by (simp add: take_bit_int_eq_self)
  consider "n \<le> 250" | "250 < n" "n \<le> 0xFFFF" | "0xFFFF < n" "n \<le> 0xFFFFFF" | "0xFFFFFF < n" by linarith
  then show ?thesis
  proof cases
    case 1
    then have c: "of_char (char_of n) = n" using assms(1) by simp
    then have "(of_char c :: int) = n" if "char_of n = c" for c using that by simp
    from this [of "CHR 0xFB"] this [of "CHR 0xFC"] this [of "CHR 0xFD"] this [of "CHR 0xFE"]
    have "char_of n \<notin> {CHR 0xFB, CHR 0xFC, CHR 0xFD, CHR 0xFE}" using 1 by auto
    with c show ?thesis using 1 by (simp add: PutLengthEncodedInt_def LengthEncodedInt_def at_index_def)
  next
    case 2
    with u [of 2] show ?thesis by (simp add: PutLengthEncodedInt_def LengthEncodedInt_def at_index_def)
  next
    case 3
    with u [of 3] show ?thesis by (simp add: PutLengthEncodedInt_def LengthEncodedInt_def at_index_def)
  next
    case 4
    with u [of 8] assms(2) show ?thesis
      by (simp add: PutLengthEncodedInt_def LengthEncodedInt_def at_index_def)
  qed
qed

lemma LengthEnodedString_Put:
  assumes "int (length b) + 9 \<le> MaxInt64"
  shows "LengthEnodedString (PutLengthEncodedString b @ r) =
    Inr (b, False, int (length (PutLengthEncodedString b)))"
  and "SkipLengthEnodedString (PutLengthEncodedString b @ r) = Inr (int (length (PutLengthEncodedString b)))"
proof -
  let ?p = "PutLengthEncodedInt (int (length b))"
  have p: "PutLengthEncodedString b = ?p @ b" using assms by (simp add: PutLengthEncodedString_def)
  have l: "LengthEncodedInt (?p @ b @ r) = Inr (int (length b), False, int (length ?p))"
    using assms by (intro LengthEncodedInt_Put) auto
  have 9: "length ?p \<le> 9" using length_PutLengthEncodedInt [of "int (length b)"] by auto
  then have w: "wrap64 (int (length b)) = int (length b)"
    "wrap64 (int (length ?p) + int (length b)) = int (length ?p) + int (length b)"
    "wrap64 (int (length ?p)) = int (length ?p)"
    using assms by (auto intro!: wrap64_id simp: is_int64_def)
  show "LengthEnodedString (PutLengthEncodedString b @ r) =
      Inr (b, False, int (length (PutLengthEncodedString b)))"
    using slice_append [of ?p b r] by (auto simp: p LengthEnodedString_def l w Let_def)
  show "SkipLengthEnodedString (PutLengthEncodedString b @ r) = Inr (int (length (PutLengthEncodedString b)))"
    by (auto simp: p SkipLengthEnodedString_def l w Let_def)
qed

section \<open>Dates and times of the binary protocol\<close>

definition FormatBinaryDate :: "int \<Rightarrow> string \<Rightarrow> string res" where
  "FormatBinaryDate n data =
     (if n = 0 then Inr ''0000-00-00''
      else if n = 4 then
        rbind (le_uint_at data 0 2) (\<lambda>y. rbind (at_index data 2) (\<lambda>m. rbind (at_index data 3) (\<lambda>d.
          Inr (fmt_0d 4 y @ ''-'' @ fmt_0d 2 (of_char m) @ ''-'' @ fmt_0d 2 (of_char d)))))
      else Inl (Err (Errorf (''invalid date packet length '' @ int_str n))))"

definition FormatBinaryDateTime :: "int \<Rightarrow> string \<Rightarrow> string res" where
  "FormatBinaryDateTime n data =
     (let date = rbind (le_uint_at data 0 2) (\<lambda>y. rbind (at_index data 2) (\<lambda>m. rbind (at_index data 3) (\<lambda>d.
            Inr (fmt_0d 4 y @ ''-'' @ fmt_0d 2 (of_char m) @ ''-'' @ fmt_0d 2 (of_char d)))));
          clock = rbind (at_index data 4) (\<lambda>h. rbind (at_index data 5) (\<lambda>m. rbind (at_index data 6) (\<lambda>s.
            Inr (fmt_0d 2 (of_char h) @ '':'' @ fmt_0d 2 (of_char m) @ '':'' @ fmt_0d 2 (of_char s)))))
      in if n = 0 then Inr ''0000-00-00 00:00:00''
         else if n = 4 then rbind date (\<lambda>d. Inr (d @ '' 00:00:00''))
         else if n = 7 then rbind date (\<lambda>d. rbind clock (\<lambda>c. Inr (d @ '' '' @ c)))
         else if n = 11 then rbind date (\<lambda>d. rbind clock (\<lambda>c. rbind (le_uint_at data 7 4) (\<lambda>us.
                Inr (d @ '' '' @ c @ ''.'' @ fmt_0d 6 us))))
         else Inl (Err (Errorf (''invalid datetime packet length '' @ int_str n))))"

definition FormatBinaryTime :: "int \<Rightarrow> string \<Rightarrow> string res" where
  "FormatBinaryTime n data =
     (if n = 0 then Inr ''0000-00-00''
      else rbind (at_index data 0) (\<lambda>d0.
        let sign = (if d0 = CHR 0x01 then CHR ''-'' else CHR 0x00);
            clock = rbind (at_index data 1) (\<lambda>d. rbind (at_index data 5) (\<lambda>h.
              rbind (at_index data 6) (\<lambda>m. rbind (at_index data 7) (\<lambda>s.
              Inr (fmt_0d 2 ((of_char d * 24 + of_char h) mod 2 ^ 16) @ '':'' @ fmt_0d 2 (of_char m)
                   @ '':'' @ fmt_0d 2 (of_char s))))))
        in if n = 8 then rbind clock (\<lambda>c. Inr (sign # c))
           else if n = 12 then rbind clock (\<lambda>c. rbind (le_uint_at data 8 4) (\<lambda>us.
                  Inr (sign # c @ ''.'' @ fmt_0d 6 us)))
           else Inl (Err (Errorf (''invalid time packet length '' @ int_str n)))))"

section \<open>The password hash\<close>

text \<open>\<open>crypto/sha1\<close> (FIPS 180-4): padding, message schedule, compression.\<close>

definition sha1_pad :: "string \<Rightarrow> string" where
  "sha1_pad m = m @ [CHR 0x80] @ replicate ((119 - length m mod 64) mod 64) (CHR 0x00)
     @ rev (le_bytes 8 (8 * int (length m)))"

fun be_word :: "string \<Rightarrow> 32 word" where
  "be_word s = word_of_int (le_uint (rev s))"

fun sha1_words :: "nat \<Rightarrow> string \<Rightarrow> 32 word list" where
  "sha1_words 0 s = []"
| "sha1_words (Suc n) s = be_word (take 4 s) # sha1_words n (drop 4 s)"

text \<open>The schedule is kept in reverse: \<open>w ! 2\<close> is the word three places back.\<close>

fun sha1_schedule :: "nat \<Rightarrow> 32 word list \<Rightarrow> 32 word list" where
  "sha1_schedule 0 w = rev w"
| "sha1_schedule (Suc n) w =
     sha1_schedule n (word_rotl 1 (w ! 2 XOR w ! 7 XOR w ! 13 XOR w ! 15) # w)"

type_synonym sha1_state = "32 word \<times> 32 word \<times> 32 word \<times> 32 word \<times> 32 word"

definition sha1_f :: "nat \<Rightarrow> 32 word \<Rightarrow> 32 word \<Rightarrow> 32 word \<Rightarrow> 32 word \<times> 32 word" where
  "sha1_f t b c d =
     (if t < 20 then ((b AND c) OR (NOT b AND d), 0x5A827999)
      else if t < 40 then (b XOR c XOR d, 0x6ED9EBA1)
      else if t < 60 then ((b AND c) OR (b AND d) OR (c AND d), 0x8F1BBCDC)
      else (b XOR c XOR d, 0xCA62C1D6))"

fun sha1_rounds :: "nat \<Rightarrow> 32 word list \<Rightarrow> sha1_state \<Rightarrow> sha1_state" where
  "sha1_rounds t [] s = s"
| "sha1_rounds t (w # ws) (a, b, c, d, e) =
     (case sha1_f t b c d of
        (f, k) \<Rightarrow> sha1_rounds (Suc t) ws (word_rotl 5 a + f + e + k + w, a, word_rotl 30 b, c, d))"

definition sha1_block :: "string \<Rightarrow> sha1_state \<Rightarrow> sha1_state" where
  "sha1_block blk s =
     (case s of (a, b, c, d, e) \<Rightarrow>
      (case sha1_rounds 0 (sha1_schedule 64 (rev (sha1_words 16 blk))) s of
        (a', b', c', d', e') \<Rightarrow> (a + a', b + b', c + c', d + d', e + e')))"

fun sha1_blocks :: "nat \<Rightarrow> string \<Rightarrow> sha1_state \<Rightarrow> sha1_state" where
  "sha1_blocks 0 m s = s"
| "sha1_blocks (Suc n) m s = sha1_blocks n (drop 64 m) (sha1_block (take 64 m) s)"

definition be4 :: "32 word \<Rightarrow> string" where
  "be4 w = rev (le_bytes 4 (uint w))"

definition sha1_Sum :: "string \<Rightarrow> string" where
  "sha1_Sum m =
     (let p = sha1_pad m in
      case sha1_blocks (length p div 64) p (0x67452301, 0xEFCDAB89, 0x98BADCFE, 0x10325476, 0xC3D2E1F0) of
        (a, b, c, d, e) \<Rightarrow> be4 a @ be4 b @ be4 c @ be4 d @ be4 e)"

definition byte_xor :: "char \<Rightarrow> char \<Rightarrow> char" where
  "byte_xor a b = char_of ((of_char a :: int) XOR of_char b)"

text \<open>\<open>CalcPassword\<close>; an empty password gives \<open>nil\<close>. Both hashes have 20 bytes, so \<open>stage1[i]\<close> exists.\<close>

definition CalcPassword :: "string \<Rightarrow> string \<Rightarrow> string option" where
  "CalcPassword scramble password =
     (if password = [] then None
      else
        let stage1 = sha1_Sum password; hash = sha1_Sum stage1
        in Some (map2 byte_xor (sha1_Sum (scramble @ hash)) stage1))"

lemma length_sha1_Sum [simp]: "length (sha1_Sum m) = 20"
  by (simp add: sha1_Sum_def be4_def Let_def split: prod.split)

lemma byte_xor_cancel: "byte_xor (byte_xor a b) a = b"
proof -
  have t: "take_bit 8 (of_char c :: int) = of_char c" for c by (simp add: take_bit_eq_mod of_char_mod_256)
  have "of_char (byte_xor a b) = ((of_char a :: int) XOR of_char b)"
    unfolding byte_xor_def of_char_take_bit by (simp add: take_bit_xor t)
  then have "byte_xor (byte_xor a b) a = char_of (((of_char a :: int) XOR of_char b) XOR of_char a)"
    by (simp add: byte_xor_def)
  also have "((of_char a :: int) XOR of_char b) XOR of_char a = of_char b"
    by (simp add: xor.commute [of _ "of_char a"] xor.assoc [symmetric])
  finally show ?thesis by simp
qed

lemma byte_xor_commute: "byte_xor a b = byte_xor b a"
  by (simp add: byte_xor_def xor.commute)

lemma map2_byte_xor_cancel: "length x = length y \<Longrightarrow> map2 byte_xor (map2 byte_xor x y) x = y"
  by (induction x y rule: list_induct2) (simp_all add: byte_xor_cancel)

section \<open>Properties\<close>

text \<open>
  Length-encoded integers round trip: every \<open>uint64\<close> is decoded from its encoding, in front of any
  other bytes, and the decoder reports exactly the length of the encoding, which is 1, 3, 4 or 9
  bytes. The encoding is never the one of NULL.
\<close>

theorem length_encoded_int_roundtrip:
  assumes "0 \<le> n" and "n \<le> MaxUint64"
  shows "LengthEncodedInt (PutLengthEncodedInt n @ r) = Inr (n, False, int (length (PutLengthEncodedInt n)))
    \<and> length (PutLengthEncodedInt n) \<in> {1, 3, 4, 9}"
  using LengthEncodedInt_Put [OF assms] length_PutLengthEncodedInt by blast

theorem length_encoded_int_roundtrip_witness:
  "LengthEncodedInt (PutLengthEncodedInt 65536 @ ''x'') = Inr (65536, False, 4)"
  using length_encoded_int_roundtrip [of 65536 "''x''"] by (simp add: PutLengthEncodedInt_def)

text \<open>
  Length-encoded strings round trip: a string of any bytes whose length leaves room for the header
  in an \<open>int\<close> is read back, and reading or skipping it ends exactly behind it.
\<close>

lemma length_encoded_string_roundtrip:
  assumes "int (length b) + 9 \<le> MaxInt64"
  shows "LengthEnodedString (PutLengthEncodedString b @ r) = Inr (b, False, int (length (PutLengthEncodedString b)))
    \<and> SkipLengthEnodedString (PutLengthEncodedString b @ r) = Inr (int (length (PutLengthEncodedString b)))"
  using LengthEnodedString_Put [OF assms] by blast

text \<open>A length beyond the range of \<open>int\<close> makes the decoder slice with a negative bound and panic.\<close>

lemma huge_length_panics: "LengthEnodedString (replicate 9 (CHR 0xFE)) = Inl (Panic IndexOutOfRange)"
  by code_simp

text \<open>
  The authentication token verifies: a server that stores only the double hash of the password
  recovers the single hash from the token and the scramble, and its hash is the stored one. The token
  has 20 bytes.
\<close>

lemma auth_token_verifies:
  assumes "CalcPassword scramble password = Some token"
  shows "sha1_Sum (map2 byte_xor (sha1_Sum (scramble @ sha1_Sum (sha1_Sum password))) token) = sha1_Sum (sha1_Sum password)
    \<and> length token = 20"
proof -
  let ?h = "sha1_Sum (scramble @ sha1_Sum (sha1_Sum password))"
  from assms have t: "token = map2 byte_xor ?h (sha1_Sum password)"
    by (auto simp: CalcPassword_def Let_def split: if_splits)
  have "map2 byte_xor ?h token = map2 byte_xor token ?h"
    by (simp add: t zip_commute [of ?h] byte_xor_commute split_beta comp_def)
  also have "\<dots> = sha1_Sum password" using map2_byte_xor_cancel [of ?h "sha1_Sum password"] by (simp add: t)
  finally show ?thesis by (simp add: t)
qed

end
