(* ===== verification/Sql_Parser.thy ===== *)
theory Sql_Parser
  imports Sql_Tables Tokenizer Sql_Stmt Wire
begin

text \<open>
  The generated parser (src/sqlparser/sql.go): the values of grammar symbols, the actions of the productions, the driver with its stack
  and its error recovery, and \<open>Parse\<close> of ast.go. A field of pointer or interface type may be nil and is an option. The slice \<open>yyS\<close> keeps
  what was popped, since the action of an empty production starts from what lies above the stack.
\<close>

section \<open>Values\<close>

record yySymType =
  sy_yys :: int
  sy_statement :: "statement option"
  sy_selStmt :: "selectstmt option"
  sy_byt :: char
  sy_bytes :: "string option"
  sy_bytes2 :: "string list"
  sy_str :: string
  sy_selectExprs :: "SelectExpr list"
  sy_selectExpr :: "SelectExpr option"
  sy_columns :: "SelectExpr list option"
  sy_colName :: "colname option"
  sy_tableExprs :: "TableExpr list"
  sy_tableExpr :: "TableExpr option"
  sy_smTableExpr :: "selectstmt simpletable option"
  sy_tableName :: "tablename option"
  sy_indexHints :: "indexhints option"
  sy_expr :: "Expr option"
  sy_boolExpr :: "BoolExpr option"
  sy_valExpr :: "ValExpr option"
  sy_tuple :: "tuple option"
  sy_valExprs :: "ValExpr list"
  sy_values :: "tuple list"
  sy_subquery :: "selectstmt option"
  sy_caseExpr :: "ValExpr option"
  sy_whens :: "(BoolExpr \<times> ValExpr) list"
  sy_when :: "(BoolExpr \<times> ValExpr) option"
  sy_orderBy :: "OrderExpr list"
  sy_order :: "OrderExpr option"
  sy_limit :: "LimitClause option"
  sy_insRows :: "insertrows option"
  sy_updateExprs :: "update_expr list option"
  sy_updateExpr :: "update_expr option"

definition zero_sym :: yySymType where
  "zero_sym =
     \<lparr>sy_yys = 0, sy_statement = None, sy_selStmt = None, sy_byt = CHR 0x00, sy_bytes = None, sy_bytes2 = [], sy_str = [],
      sy_selectExprs = [], sy_selectExpr = None, sy_columns = None, sy_colName = None, sy_tableExprs = [], sy_tableExpr = None,
      sy_smTableExpr = None, sy_tableName = None, sy_indexHints = None, sy_expr = None, sy_boolExpr = None, sy_valExpr = None,
      sy_tuple = None, sy_valExprs = [], sy_values = [], sy_subquery = None, sy_caseExpr = None, sy_whens = [], sy_when = None,
      sy_orderBy = [], sy_order = None, sy_limit = None, sy_insRows = None, sy_updateExprs = None, sy_updateExpr = None\<rparr>"

section \<open>Actions\<close>

text \<open>
  A node with a nil child is not a value of the syntax trees here; such an action stops with a panic. \<open>parse_total\<close> shows that none does.
\<close>

definition need :: "'a option \<Rightarrow> ('a \<Rightarrow> 'b res) \<Rightarrow> 'b res" where
  "need x f = (case x of None \<Rightarrow> Inl (Panic NilDereference) | Some v \<Rightarrow> f v)"

type_synonym yy_action = "yySymType list \<Rightarrow> yySymType \<Rightarrow> yySymType res"

fun statement_of :: "selectstmt \<Rightarrow> statement" where
  "statement_of (SelectS s) = SelectStmt s"
| "statement_of (Union t l r) = UnionStmt t l r"
| "statement_of (SimpleSelect c d e) = SimpleSelectStmt c d e"

fun tuple_expr :: "tuple \<Rightarrow> ValExpr" where
  "tuple_expr (TupleVals vs) = ValTuple vs"
| "tuple_expr (TupleSubquery s) = Subquery s"

definition NewWhere :: "string \<Rightarrow> BoolExpr option \<Rightarrow> WhereClause option" where
  "NewWhere typ e = map_option (Where typ) e"

definition nil_list :: "'a list option \<Rightarrow> 'a list" where
  "nil_list xs = (case xs of None \<Rightarrow> [] | Some ys \<Rightarrow> ys)"

definition col_expr :: "colname \<Rightarrow> SelectExpr" where
  "col_expr c = NonStarExpr (ValE (ColName c)) None"

definition assign_columns :: "update_expr list option \<Rightarrow> SelectExpr list option" where
  "assign_columns es = Some (map (\<lambda>e. col_expr (ue_Name e)) (nil_list es))"

definition assign_rows :: "update_expr list option \<Rightarrow> insertrows" where
  "assign_rows es = RowsValues [TupleVals (map ue_Expr (nil_list es))]"

definition names_expr :: "string \<Rightarrow> ValExpr \<Rightarrow> update_expr" where
  "names_expr n e = \<lparr>ue_Name = \<lparr>cn_Name = n, cn_Qualifier = None\<rparr>, ue_Expr = e\<rparr>"

definition set_statement :: "yySymType \<Rightarrow> statement \<Rightarrow> yySymType res" where
  "set_statement v s = Inr (v\<lparr>sy_statement := Some s\<rparr>)"

definition ddl :: "yySymType \<Rightarrow> string \<Rightarrow> string \<Rightarrow> string option \<Rightarrow> string option \<Rightarrow> yySymType res" where
  "ddl v action ignore table new =
     set_statement v (DDLStmt \<lparr>ddl_Action = action, ddl_Ignore = ignore, ddl_Table = nil_str table, ddl_NewName = nil_str new\<rparr>)"

definition actions_statements :: "(int \<times> yy_action) list" where
  "actions_statements =
     [(2, \<lambda>d v. need (sy_selStmt (d ! 1)) (\<lambda>s. set_statement v (statement_of s))),
      (18, \<lambda>d v. Inr (v\<lparr>sy_selStmt := Some (SimpleSelect (sy_bytes2 (d ! 2)) (sy_str (d ! 3)) (sy_selectExprs (d ! 4)))\<rparr>)),
      (19, \<lambda>d v. Inr (v\<lparr>sy_selStmt := Some (SelectS (Select (sy_bytes2 (d ! 2)) (sy_str (d ! 3)) (sy_selectExprs (d ! 4))
             (sy_tableExprs (d ! 6)) (NewWhere ''where'' (sy_boolExpr (d ! 7))) (sy_valExprs (d ! 8))
             (NewWhere ''having'' (sy_boolExpr (d ! 9))) (sy_orderBy (d ! 10)) (sy_limit (d ! 11)) (sy_str (d ! 12))))\<rparr>)),
      (20, \<lambda>d v. need (sy_selStmt (d ! 1)) (\<lambda>l. need (sy_selStmt (d ! 3)) (\<lambda>r.
             Inr (v\<lparr>sy_selStmt := Some (Union (sy_str (d ! 2)) l r)\<rparr>)))),
      (21, \<lambda>d v. need (sy_tableName (d ! 5)) (\<lambda>t. need (sy_insRows (d ! 7)) (\<lambda>rows.
             set_statement v (InsertStmt \<lparr>ins_Comments = sy_bytes2 (d ! 2), ins_Ignore = sy_str (d ! 3), ins_Table = t,
               ins_Columns = sy_columns (d ! 6), ins_Rows = rows, ins_OnDup = sy_updateExprs (d ! 8)\<rparr>)))),
      (22, \<lambda>d v. need (sy_tableName (d ! 5)) (\<lambda>t.
             set_statement v (InsertStmt \<lparr>ins_Comments = sy_bytes2 (d ! 2), ins_Ignore = sy_str (d ! 3), ins_Table = t,
               ins_Columns = assign_columns (sy_updateExprs (d ! 7)), ins_Rows = assign_rows (sy_updateExprs (d ! 7)),
               ins_OnDup = sy_updateExprs (d ! 8)\<rparr>))),
      (23, \<lambda>d v. need (sy_tableName (d ! 4)) (\<lambda>t. need (sy_insRows (d ! 6)) (\<lambda>rows.
             set_statement v (ReplaceStmt \<lparr>rep_Comments = sy_bytes2 (d ! 2), rep_Table = t, rep_Columns = sy_columns (d ! 5), rep_Rows = rows\<rparr>)))),
      (24, \<lambda>d v. need (sy_tableName (d ! 4)) (\<lambda>t.
             set_statement v (ReplaceStmt \<lparr>rep_Comments = sy_bytes2 (d ! 2), rep_Table = t,
               rep_Columns = assign_columns (sy_updateExprs (d ! 6)), rep_Rows = assign_rows (sy_updateExprs (d ! 6))\<rparr>))),
      (25, \<lambda>d v. need (sy_tableName (d ! 3)) (\<lambda>t.
             set_statement v (UpdateStmt \<lparr>upd_Comments = sy_bytes2 (d ! 2), upd_Table = t, upd_Exprs = nil_list (sy_updateExprs (d ! 5)),
               upd_Where = NewWhere ''where'' (sy_boolExpr (d ! 6)), upd_OrderBy = sy_orderBy (d ! 7), upd_Limit = sy_limit (d ! 8)\<rparr>))),
      (26, \<lambda>d v. need (sy_tableName (d ! 4)) (\<lambda>t.
             set_statement v (DeleteStmt \<lparr>del_Comments = sy_bytes2 (d ! 2), del_Table = t,
               del_Where = NewWhere ''where'' (sy_boolExpr (d ! 5)), del_OrderBy = sy_orderBy (d ! 6), del_Limit = sy_limit (d ! 7)\<rparr>))),
      (27, \<lambda>d v. set_statement v (SetStmt \<lparr>set_Comments = sy_bytes2 (d ! 2), set_Exprs = nil_list (sy_updateExprs (d ! 3))\<rparr>)),
      (28, \<lambda>d v. set_statement v (SetStmt \<lparr>set_Comments = sy_bytes2 (d ! 2), set_Exprs = [names_expr ''names'' (StrVal ''default'')]\<rparr>)),
      (29, \<lambda>d v. need (sy_valExpr (d ! 4)) (\<lambda>e.
             set_statement v (SetStmt \<lparr>set_Comments = sy_bytes2 (d ! 2), set_Exprs = [names_expr ''names'' e]\<rparr>))),
      (30, \<lambda>d v. need (sy_valExpr (d ! 4)) (\<lambda>e. need (sy_valExpr (d ! 6)) (\<lambda>c.
             set_statement v (SetStmt \<lparr>set_Comments = sy_bytes2 (d ! 2), set_Exprs = [names_expr ''names'' e, names_expr ''collate'' c]\<rparr>))))]"

definition actions_commands :: "(int \<times> yy_action) list" where
  "actions_commands =
     [(31, \<lambda>d v. set_statement v BeginStmt),
      (32, \<lambda>d v. set_statement v BeginStmt),
      (33, \<lambda>d v. set_statement v CommitStmt),
      (34, \<lambda>d v. set_statement v RollbackStmt),
      (35, \<lambda>d v. need (sy_tableName (d ! 2)) (\<lambda>t. need (sy_insRows (d ! 4)) (\<lambda>rows.
             set_statement v (AdminStmt \<lparr>adm_Region = t, adm_Columns = sy_columns (d ! 3), adm_Rows = rows\<rparr>)))),
      (36, \<lambda>d v. set_statement v AdminHelpStmt),
      (37, \<lambda>d v. set_statement v (UseDBStmt (nil_str (sy_bytes (d ! 2))))),
      (38, \<lambda>d v. need (sy_tableName (d ! 4)) (\<lambda>t.
             set_statement v (TruncateStmt \<lparr>trunc_Comments = sy_bytes2 (d ! 2), trunc_TableOpt = sy_str (d ! 3), trunc_Table = t\<rparr>))),
      (39, \<lambda>d v. ddl v ''create'' [] None (sy_bytes (d ! 4))),
      (40, \<lambda>d v. ddl v ''alter'' [] (sy_bytes (d ! 7)) (sy_bytes (d ! 7))),
      (41, \<lambda>d v. ddl v ''create'' [] None (sy_bytes (d ! 3))),
      (42, \<lambda>d v. ddl v ''alter'' (sy_str (d ! 2)) (sy_bytes (d ! 4)) (sy_bytes (d ! 4))),
      (43, \<lambda>d v. ddl v ''rename'' (sy_str (d ! 2)) (sy_bytes (d ! 4)) (sy_bytes (d ! 7))),
      (44, \<lambda>d v. ddl v ''alter'' [] (sy_bytes (d ! 3)) (sy_bytes (d ! 3))),
      (45, \<lambda>d v. ddl v ''rename'' [] (sy_bytes (d ! 3)) (sy_bytes (d ! 5))),
      (46, \<lambda>d v. ddl v ''drop'' [] (sy_bytes (d ! 4)) None),
      (47, \<lambda>d v. ddl v ''alter'' [] (sy_bytes (d ! 5)) (sy_bytes (d ! 5))),
      (48, \<lambda>d v. ddl v ''drop'' [] (sy_bytes (d ! 4)) None)]"

abbreviation set_str :: "string \<Rightarrow> yy_action" where
  "set_str s \<equiv> (\<lambda>d v. Inr (v\<lparr>sy_str := s\<rparr>))"

abbreviation set_bytes :: "string option \<Rightarrow> yySymType \<Rightarrow> yySymType res" where
  "set_bytes b v \<equiv> Inr (v\<lparr>sy_bytes := b\<rparr>)"

definition table_of :: "string option \<Rightarrow> string option \<Rightarrow> tablename" where
  "table_of q n = \<lparr>tn_Name = nil_str n, tn_Qualifier = q\<rparr>"

definition hints :: "string \<Rightarrow> yy_action" where
  "hints t d v = Inr (v\<lparr>sy_indexHints := Some \<lparr>ih_Type = t, ih_Indexes = sy_bytes2 (d ! 4)\<rparr>\<rparr>)"

definition actions_select_list :: "(int \<times> yy_action) list" where
  "actions_select_list =
     [(51, \<lambda>d v. Inr (v\<lparr>sy_bytes2 := []\<rparr>)),
      (52, \<lambda>d v. Inr (v\<lparr>sy_bytes2 := sy_bytes2 (d ! 1) @ [nil_str (sy_bytes (d ! 2))]\<rparr>)),
      (53, set_str ''union''),
      (54, set_str ''union all''),
      (55, set_str ''minus''),
      (56, set_str ''except''),
      (57, set_str ''intersect''),
      (58, set_str []),
      (59, set_str ''distinct ''),
      (60, \<lambda>d v. need (sy_selectExpr (d ! 1)) (\<lambda>e. Inr (v\<lparr>sy_selectExprs := [e]\<rparr>))),
      (61, \<lambda>d v. need (sy_selectExpr (d ! 3)) (\<lambda>e. Inr (v\<lparr>sy_selectExprs := sy_selectExprs v @ [e]\<rparr>))),
      (62, \<lambda>d v. Inr (v\<lparr>sy_selectExpr := Some (StarExpr None)\<rparr>)),
      (63, \<lambda>d v. need (sy_expr (d ! 1)) (\<lambda>e. Inr (v\<lparr>sy_selectExpr := Some (NonStarExpr e (sy_bytes (d ! 2)))\<rparr>))),
      (64, \<lambda>d v. Inr (v\<lparr>sy_selectExpr := Some (StarExpr (sy_bytes (d ! 1)))\<rparr>)),
      (65, \<lambda>d v. need (sy_boolExpr (d ! 1)) (\<lambda>e. Inr (v\<lparr>sy_expr := Some (BoolE e)\<rparr>))),
      (66, \<lambda>d v. need (sy_valExpr (d ! 1)) (\<lambda>e. Inr (v\<lparr>sy_expr := Some (ValE e)\<rparr>))),
      (67, \<lambda>d. set_bytes None),
      (68, \<lambda>d. set_bytes (sy_bytes (d ! 1))),
      (69, \<lambda>d. set_bytes (sy_bytes (d ! 2))),
      (70, \<lambda>d v. need (sy_tableExpr (d ! 1)) (\<lambda>e. Inr (v\<lparr>sy_tableExprs := [e]\<rparr>))),
      (71, \<lambda>d v. need (sy_tableExpr (d ! 3)) (\<lambda>e. Inr (v\<lparr>sy_tableExprs := sy_tableExprs v @ [e]\<rparr>))),
      (72, \<lambda>d v. need (sy_smTableExpr (d ! 1)) (\<lambda>e.
             Inr (v\<lparr>sy_tableExpr := Some (AliasedTableExpr e (sy_bytes (d ! 2)) (sy_indexHints (d ! 3)))\<rparr>))),
      (73, \<lambda>d v. need (sy_tableExpr (d ! 2)) (\<lambda>e. Inr (v\<lparr>sy_tableExpr := Some (ParenTableExpr e)\<rparr>))),
      (74, \<lambda>d v. need (sy_tableExpr (d ! 1)) (\<lambda>l. need (sy_tableExpr (d ! 3)) (\<lambda>r.
             Inr (v\<lparr>sy_tableExpr := Some (JoinTableExpr l (sy_str (d ! 2)) r None)\<rparr>)))),
      (75, \<lambda>d v. need (sy_tableExpr (d ! 1)) (\<lambda>l. need (sy_tableExpr (d ! 3)) (\<lambda>r.
             Inr (v\<lparr>sy_tableExpr := Some (JoinTableExpr l (sy_str (d ! 2)) r (sy_boolExpr (d ! 5)))\<rparr>))))]"

definition actions_tables :: "(int \<times> yy_action) list" where
  "actions_tables =
     [(76, \<lambda>d. set_bytes None),
      (77, \<lambda>d. set_bytes (sy_bytes (d ! 1))),
      (78, \<lambda>d. set_bytes (sy_bytes (d ! 2))),
      (79, set_str ''join''),
      (80, set_str ''straight_join''),
      (81, set_str ''left join''),
      (82, set_str ''left join''),
      (83, set_str ''right join''),
      (84, set_str ''right join''),
      (85, set_str ''join''),
      (86, set_str ''cross join''),
      (87, set_str ''natural join''),
      (88, \<lambda>d v. Inr (v\<lparr>sy_smTableExpr := Some (TableNameE (table_of None (sy_bytes (d ! 1))))\<rparr>)),
      (89, \<lambda>d v. Inr (v\<lparr>sy_smTableExpr := Some (TableNameE (table_of (sy_bytes (d ! 1)) (sy_bytes (d ! 3))))\<rparr>)),
      (90, \<lambda>d v. need (sy_subquery (d ! 1)) (\<lambda>s. Inr (v\<lparr>sy_smTableExpr := Some (SubqueryT s)\<rparr>))),
      (91, \<lambda>d v. Inr (v\<lparr>sy_tableName := Some (table_of None (sy_bytes (d ! 1)))\<rparr>)),
      (92, \<lambda>d v. Inr (v\<lparr>sy_tableName := Some (table_of (sy_bytes (d ! 1)) (sy_bytes (d ! 3)))\<rparr>)),
      (93, \<lambda>d v. Inr (v\<lparr>sy_indexHints := None\<rparr>)),
      (94, hints ''use''),
      (95, hints ''ignore''),
      (96, hints ''force''),
      (97, \<lambda>d v. Inr (v\<lparr>sy_bytes2 := [nil_str (sy_bytes (d ! 1))]\<rparr>)),
      (98, \<lambda>d v. Inr (v\<lparr>sy_bytes2 := sy_bytes2 (d ! 1) @ [nil_str (sy_bytes (d ! 3))]\<rparr>))]"

definition set_bool :: "yySymType \<Rightarrow> BoolExpr \<Rightarrow> yySymType res" where
  "set_bool v e = Inr (v\<lparr>sy_boolExpr := Some e\<rparr>)"

definition compare_cond :: "string \<Rightarrow> nat \<Rightarrow> yy_action" where
  "compare_cond op i d v =
     need (sy_valExpr (d ! 1)) (\<lambda>l. need (sy_valExpr (d ! i)) (\<lambda>r. set_bool v (ComparisonExpr op l r)))"

definition membership :: "string \<Rightarrow> nat \<Rightarrow> yy_action" where
  "membership op i d v =
     need (sy_valExpr (d ! 1)) (\<lambda>l. need (sy_tuple (d ! i)) (\<lambda>r. set_bool v (ComparisonExpr op l (tuple_expr r))))"

definition range_cond :: "string \<Rightarrow> nat \<Rightarrow> nat \<Rightarrow> yy_action" where
  "range_cond op i j d v =
     need (sy_valExpr (d ! 1)) (\<lambda>l. need (sy_valExpr (d ! i)) (\<lambda>f. need (sy_valExpr (d ! j)) (\<lambda>t. set_bool v (RangeCond op l f t))))"

definition actions_conditions :: "(int \<times> yy_action) list" where
  "actions_conditions =
     [(99, \<lambda>d v. Inr (v\<lparr>sy_boolExpr := None\<rparr>)),
      (100, \<lambda>d v. Inr (v\<lparr>sy_boolExpr := sy_boolExpr (d ! 2)\<rparr>)),
      (102, \<lambda>d v. need (sy_boolExpr (d ! 1)) (\<lambda>l. need (sy_boolExpr (d ! 3)) (\<lambda>r. set_bool v (AndExpr l r)))),
      (103, \<lambda>d v. need (sy_boolExpr (d ! 1)) (\<lambda>l. need (sy_boolExpr (d ! 3)) (\<lambda>r. set_bool v (OrExpr l r)))),
      (104, \<lambda>d v. need (sy_boolExpr (d ! 2)) (\<lambda>e. set_bool v (NotExpr e))),
      (105, \<lambda>d v. need (sy_boolExpr (d ! 2)) (\<lambda>e. set_bool v (ParenBoolExpr e))),
      (106, \<lambda>d v. compare_cond (sy_str (d ! 2)) 3 d v),
      (107, membership ''in'' 3),
      (108, membership ''not in'' 4),
      (109, compare_cond ''like'' 3),
      (110, compare_cond ''not like'' 4),
      (111, range_cond ''between'' 3 5),
      (112, range_cond ''not between'' 4 6),
      (113, \<lambda>d v. need (sy_valExpr (d ! 1)) (\<lambda>e. set_bool v (NullCheck ''is null'' e))),
      (114, \<lambda>d v. need (sy_valExpr (d ! 1)) (\<lambda>e. set_bool v (NullCheck ''is not null'' e))),
      (115, \<lambda>d v. need (sy_subquery (d ! 2)) (\<lambda>s. set_bool v (ExistsExpr s))),
      (116, set_str ''=''),
      (117, set_str ''<''),
      (118, set_str ''>''),
      (119, set_str ''<=''),
      (120, set_str ''>=''),
      (121, set_str ''!=''),
      (122, set_str ''<=>'')]"

definition actions_rows :: "(int \<times> yy_action) list" where
  "actions_rows =
     [(123, \<lambda>d v. Inr (v\<lparr>sy_insRows := Some (RowsValues (sy_values (d ! 2)))\<rparr>)),
      (124, \<lambda>d v. need (sy_selStmt (d ! 1)) (\<lambda>s. Inr (v\<lparr>sy_insRows := Some (RowsSelect s)\<rparr>))),
      (125, \<lambda>d v. need (sy_tuple (d ! 1)) (\<lambda>t. Inr (v\<lparr>sy_values := [t]\<rparr>))),
      (126, \<lambda>d v. need (sy_tuple (d ! 3)) (\<lambda>t. Inr (v\<lparr>sy_values := sy_values (d ! 1) @ [t]\<rparr>))),
      (127, \<lambda>d v. Inr (v\<lparr>sy_tuple := Some (TupleVals (sy_valExprs (d ! 2)))\<rparr>)),
      (128, \<lambda>d v. need (sy_subquery (d ! 1)) (\<lambda>s. Inr (v\<lparr>sy_tuple := Some (TupleSubquery s)\<rparr>))),
      (129, \<lambda>d v. need (sy_selStmt (d ! 2)) (\<lambda>s. Inr (v\<lparr>sy_subquery := Some s\<rparr>))),
      (130, \<lambda>d v. need (sy_valExpr (d ! 1)) (\<lambda>e. Inr (v\<lparr>sy_valExprs := [e]\<rparr>))),
      (131, \<lambda>d v. need (sy_valExpr (d ! 3)) (\<lambda>e. Inr (v\<lparr>sy_valExprs := sy_valExprs (d ! 1) @ [e]\<rparr>)))]"

definition set_val :: "yySymType \<Rightarrow> ValExpr \<Rightarrow> yySymType res" where
  "set_val v e = Inr (v\<lparr>sy_valExpr := Some e\<rparr>)"

definition binary :: "char \<Rightarrow> yy_action" where
  "binary op d v =
     need (sy_valExpr (d ! 1)) (\<lambda>l. need (sy_valExpr (d ! 3)) (\<lambda>r. set_val v (BinaryExpr op (ValE l) (ValE r))))"

text \<open>The sign of a number becomes part of it.\<close>

definition unary_action :: yy_action where
  "unary_action d v =
     need (sy_valExpr (d ! 2)) (\<lambda>e.
       let op = sy_byt (d ! 1) in
       set_val v (case e of
         NumVal num \<Rightarrow> if op = CHR ''-'' then NumVal (CHR ''-'' # num) else if op = CHR ''+'' then NumVal num else UnaryExpr op (ValE e)
       | _ \<Rightarrow> UnaryExpr op (ValE e)))"

definition col_of :: "string option \<Rightarrow> string option \<Rightarrow> colname" where
  "col_of q n = \<lparr>cn_Name = nil_str n, cn_Qualifier = q\<rparr>"

definition actions_values :: "(int \<times> yy_action) list" where
  "actions_values =
     [(132, \<lambda>d v. need (sy_valExpr (d ! 1)) (set_val v)),
      (133, \<lambda>d v. need (sy_colName (d ! 1)) (\<lambda>c. set_val v (ColName c))),
      (134, \<lambda>d v. need (sy_tuple (d ! 1)) (\<lambda>t. set_val v (tuple_expr t))),
      (135, binary (CHR ''&'')),
      (136, binary (CHR ''|'')),
      (137, binary (CHR ''^'')),
      (138, binary (CHR ''+'')),
      (139, binary (CHR ''-'')),
      (140, binary (CHR ''*'')),
      (141, binary (CHR ''/'')),
      (142, binary (CHR ''%'')),
      (143, unary_action),
      (144, \<lambda>d v. set_val v (FuncExpr (nil_str (sy_bytes (d ! 1))) False [])),
      (145, \<lambda>d v. set_val v (FuncExpr (nil_str (sy_bytes (d ! 1))) False (sy_selectExprs (d ! 3)))),
      (146, \<lambda>d v. set_val v (FuncExpr (nil_str (sy_bytes (d ! 1))) True (sy_selectExprs (d ! 4)))),
      (147, \<lambda>d v. set_val v (FuncExpr (nil_str (sy_bytes (d ! 1))) False (sy_selectExprs (d ! 3)))),
      (148, \<lambda>d v. need (sy_caseExpr (d ! 1)) (set_val v)),
      (149, \<lambda>d. set_bytes (Some ''if'')),
      (150, \<lambda>d. set_bytes (Some ''values'')),
      (151, \<lambda>d v. Inr (v\<lparr>sy_byt := CHR ''+''\<rparr>)),
      (152, \<lambda>d v. Inr (v\<lparr>sy_byt := CHR ''-''\<rparr>)),
      (153, \<lambda>d v. Inr (v\<lparr>sy_byt := CHR ''~''\<rparr>)),
      (154, \<lambda>d v. Inr (v\<lparr>sy_caseExpr := Some (CaseExpr (sy_valExpr (d ! 2)) (sy_whens (d ! 3)) (sy_valExpr (d ! 4)))\<rparr>))]"

definition actions_names :: "(int \<times> yy_action) list" where
  "actions_names =
     [(155, \<lambda>d v. Inr (v\<lparr>sy_valExpr := None\<rparr>)),
      (156, \<lambda>d v. Inr (v\<lparr>sy_valExpr := sy_valExpr (d ! 1)\<rparr>)),
      (157, \<lambda>d v. need (sy_when (d ! 1)) (\<lambda>w. Inr (v\<lparr>sy_whens := [w]\<rparr>))),
      (158, \<lambda>d v. need (sy_when (d ! 2)) (\<lambda>w. Inr (v\<lparr>sy_whens := sy_whens (d ! 1) @ [w]\<rparr>))),
      (159, \<lambda>d v. need (sy_boolExpr (d ! 2)) (\<lambda>c. need (sy_valExpr (d ! 4)) (\<lambda>e. Inr (v\<lparr>sy_when := Some (c, e)\<rparr>)))),
      (160, \<lambda>d v. Inr (v\<lparr>sy_valExpr := None\<rparr>)),
      (161, \<lambda>d v. Inr (v\<lparr>sy_valExpr := sy_valExpr (d ! 2)\<rparr>)),
      (162, \<lambda>d v. Inr (v\<lparr>sy_colName := Some (col_of None (sy_bytes (d ! 1)))\<rparr>)),
      (163, \<lambda>d v. Inr (v\<lparr>sy_colName := Some (col_of (sy_bytes (d ! 1)) (sy_bytes (d ! 3)))\<rparr>)),
      (164, \<lambda>d v. Inr (v\<lparr>sy_colName := Some (col_of (sy_bytes (d ! 3)) (sy_bytes (d ! 5)))\<rparr>)),
      (165, \<lambda>d v. set_val v (StrVal (nil_str (sy_bytes (d ! 1))))),
      (166, \<lambda>d v. set_val v (NumVal (nil_str (sy_bytes (d ! 1))))),
      (167, \<lambda>d v. set_val v (ValArg (nil_str (sy_bytes (d ! 1))))),
      (168, \<lambda>d v. set_val v NullVal)]"

definition actions_clauses :: "(int \<times> yy_action) list" where
  "actions_clauses =
     [(169, \<lambda>d v. Inr (v\<lparr>sy_valExprs := []\<rparr>)),
      (170, \<lambda>d v. Inr (v\<lparr>sy_valExprs := sy_valExprs (d ! 3)\<rparr>)),
      (171, \<lambda>d v. Inr (v\<lparr>sy_boolExpr := None\<rparr>)),
      (172, \<lambda>d v. Inr (v\<lparr>sy_boolExpr := sy_boolExpr (d ! 2)\<rparr>)),
      (173, \<lambda>d v. Inr (v\<lparr>sy_orderBy := []\<rparr>)),
      (174, \<lambda>d v. Inr (v\<lparr>sy_orderBy := sy_orderBy (d ! 3)\<rparr>)),
      (175, \<lambda>d v. need (sy_order (d ! 1)) (\<lambda>ord. Inr (v\<lparr>sy_orderBy := [ord]\<rparr>))),
      (176, \<lambda>d v. need (sy_order (d ! 3)) (\<lambda>ord. Inr (v\<lparr>sy_orderBy := sy_orderBy (d ! 1) @ [ord]\<rparr>))),
      (177, \<lambda>d v. need (sy_valExpr (d ! 1)) (\<lambda>e. Inr (v\<lparr>sy_order := Some (Order e (sy_str (d ! 2)))\<rparr>))),
      (178, set_str ''asc''),
      (179, set_str ''asc''),
      (180, set_str ''desc''),
      (181, \<lambda>d v. Inr (v\<lparr>sy_limit := None\<rparr>)),
      (182, \<lambda>d v. need (sy_valExpr (d ! 2)) (\<lambda>n. Inr (v\<lparr>sy_limit := Some (Limit None n)\<rparr>))),
      (183, \<lambda>d v. need (sy_valExpr (d ! 2)) (\<lambda>off. need (sy_valExpr (d ! 4)) (\<lambda>n. Inr (v\<lparr>sy_limit := Some (Limit (Some off) n)\<rparr>)))),
      (184, \<lambda>d v. need (sy_valExpr (d ! 4)) (\<lambda>off. need (sy_valExpr (d ! 2)) (\<lambda>n. Inr (v\<lparr>sy_limit := Some (Limit (Some off) n)\<rparr>)))),
      (185, set_str []),
      (186, set_str '' for update''),
      (188, \<lambda>d v. Inr (v\<lparr>sy_columns := None\<rparr>)),
      (189, \<lambda>d v. Inr (v\<lparr>sy_columns := sy_columns (d ! 2)\<rparr>)),
      (190, \<lambda>d v. need (sy_colName (d ! 1)) (\<lambda>c. Inr (v\<lparr>sy_columns := Some [col_expr c]\<rparr>))),
      (191, \<lambda>d v. need (sy_colName (d ! 3)) (\<lambda>c. Inr (v\<lparr>sy_columns := Some (nil_list (sy_columns v) @ [col_expr c])\<rparr>))),
      (192, \<lambda>d v. Inr (v\<lparr>sy_updateExprs := None\<rparr>)),
      (193, \<lambda>d v. Inr (v\<lparr>sy_updateExprs := sy_updateExprs (d ! 5)\<rparr>))]"

definition actions_options :: "(int \<times> yy_action) list" where
  "actions_options =
     [(194, \<lambda>d v. need (sy_updateExpr (d ! 1)) (\<lambda>e. Inr (v\<lparr>sy_updateExprs := Some [e]\<rparr>))),
      (195, \<lambda>d v. need (sy_updateExpr (d ! 3)) (\<lambda>e. Inr (v\<lparr>sy_updateExprs := Some (nil_list (sy_updateExprs (d ! 1)) @ [e])\<rparr>))),
      (196, \<lambda>d v. need (sy_colName (d ! 1)) (\<lambda>c. need (sy_valExpr (d ! 3)) (\<lambda>e.
              Inr (v\<lparr>sy_updateExpr := Some \<lparr>ue_Name = c, ue_Expr = e\<rparr>\<rparr>)))),
      (197, \<lambda>d v. need (sy_colName (d ! 1)) (\<lambda>c. Inr (v\<lparr>sy_updateExpr := Some \<lparr>ue_Name = c, ue_Expr = StrVal ''ON''\<rparr>\<rparr>))),
      (202, set_str []),
      (203, set_str ''ignore''),
      (215, \<lambda>d. set_bytes (map_option to_lower (sy_bytes (d ! 1)))),
      (217, set_str []),
      (218, set_str '' table '')]"

text \<open>The other productions have no action, or one that sets the value of an empty struct: the value is that of the first symbol.\<close>

definition value_actions :: "(int \<times> yy_action) list" where
  "value_actions =
     actions_statements @ actions_commands @ actions_select_list @ actions_tables @ actions_conditions @ actions_rows @
     actions_values @ actions_names @ actions_clauses @ actions_options"

definition value_action :: "int \<Rightarrow> yy_action" where
  "value_action n = (case map_of value_actions n of Some f \<Rightarrow> f | None \<Rightarrow> (\<lambda>d v. Inr v))"

section \<open>Messages and tokens\<close>

definition yyErrorVerbose :: bool where
  "yyErrorVerbose = False"

definition yyErrorMessages :: "(int \<times> int \<times> string) list" where
  "yyErrorMessages = []"

definition yyTokname :: "int \<Rightarrow> string" where
  "yyTokname c =
     (if 1 \<le> c \<and> c - 1 < int (length yyToknames) \<and> yyToknames ! nat (c - 1) \<noteq> [] then yyToknames ! nat (c - 1)
      else ''tok-'' @ int_str c)"

text \<open>
  The searches through \<open>yyExca\<close>: the entries after the pair \<open>(-1, state)\<close>, and among them the action of a token or, at a negative
  entry, the default one.
\<close>

fun exca_find :: "int \<Rightarrow> int list \<Rightarrow> int list res" where
  "exca_find s (a # b # r) = (if a = - 1 \<and> b = s then Inr r else exca_find s r)"
| "exca_find s r = Inl (Panic IndexOutOfRange)"

fun exca_act :: "int \<Rightarrow> int list \<Rightarrow> int res" where
  "exca_act token (a # b # r) = (if a < 0 \<or> a = token then Inr b else exca_act token r)"
| "exca_act token r = Inl (Panic IndexOutOfRange)"

fun exca_tokens :: "int list \<Rightarrow> (int list \<times> int) res" where
  "exca_tokens (a # b # r) =
     (if a < 0 then Inr ([], b)
      else rbind (exca_tokens r) (\<lambda>(ts, d). Inr (if a < 4 \<or> b = 0 then ts else a # ts, d)))"
| "exca_tokens r = Inl (Panic IndexOutOfRange)"

definition shiftable :: "int \<Rightarrow> int \<Rightarrow> bool" where
  "shiftable base tok \<longleftrightarrow> (let n = base + tok in 0 \<le> n \<and> n < yyLast \<and> yyChk ! nat (yyAct ! nat n) = tok)"

fun expecting :: "bool \<Rightarrow> int list \<Rightarrow> string" where
  "expecting first [] = []"
| "expecting first (tok # toks) = (if first then '', expecting '' else '' or '') @ yyTokname tok @ expecting False toks"

text \<open>At most four expected tokens are listed, and none after a default reduction.\<close>

definition yyErrorMessage :: "int \<Rightarrow> int \<Rightarrow> string res" where
  "yyErrorMessage s lookAhead =
     (if \<not> yyErrorVerbose then Inr ''syntax error''
      else case find (\<lambda>(st, tok, m). st = s \<and> tok = lookAhead) yyErrorMessages of
        Some (st, tok, m) \<Rightarrow> Inr (''syntax error: '' @ m)
      | None \<Rightarrow>
          let msg = ''syntax error: unexpected '' @ yyTokname lookAhead in
          rbind (at_index yyPact s) (\<lambda>base.
          let shifts = filter (shiftable base) (map int [4..<Suc (length yyToknames)]) in
          if length shifts > 4 then Inr msg
          else rbind (at_index yyDef s) (\<lambda>d.
            rbind (if d = - 2 then rbind (exca_find s yyExca) exca_tokens else Inr ([], 0)) (\<lambda>(toks, dflt).
              if length (shifts @ toks) > 4 \<or> dflt \<noteq> 0 then Inr msg
              else Inr (msg @ expecting True (shifts @ toks))))))"

fun tok3_search :: "int \<Rightarrow> int list \<Rightarrow> int \<Rightarrow> int res" where
  "tok3_search c (t # m # r) token = (if t = c then Inr m else tok3_search c r t)"
| "tok3_search c [t] token = (if t = c then Inl (Panic IndexOutOfRange) else Inr t)"
| "tok3_search c [] token = Inr token"

definition yy_translate :: "int \<Rightarrow> int res" where
  "yy_translate c =
     rbind (if c \<le> 0 then at_index yyTok1 0
            else if c < int (length yyTok1) then at_index yyTok1 c
            else if yyPrivate \<le> c \<and> c < yyPrivate + int (length yyTok2) then at_index yyTok2 (c - yyPrivate)
            else tok3_search c yyTok3 0)
       (\<lambda>token. if token = 0 then at_index yyTok2 1 else Inr token)"

section \<open>The driver\<close>

record yyparser =
  yyS :: "yySymType list"
  yyp :: int
  yystate :: int
  yyVAL :: yySymType
  yychar :: int
  yytoken :: int
  yylval :: yySymType
  Errflag :: int
  Nerrs :: int
  yylex :: tokenizer
  ParseTree :: "statement option"

definition yyNewParser :: "tokenizer \<Rightarrow> yyparser" where
  "yyNewParser tkn =
     \<lparr>yyS = replicate 16 zero_sym, yyp = - 1, yystate = 0, yyVAL = zero_sym, yychar = - 1, yytoken = - 1, yylval = zero_sym,
      Errflag = 0, Nerrs = 0, yylex = tkn, ParseTree = None\<rparr>"

definition yylex1 :: "yyparser \<Rightarrow> yyparser res" where
  "yylex1 p =
     rbind (Lex (sy_bytes (yylval p)) (yylex p)) (\<lambda>(c, b, tkn).
     rbind (yy_translate c) (\<lambda>token.
       Inr (p\<lparr>yychar := c, yytoken := token, yylval := (yylval p)\<lparr>sy_bytes := b\<rparr>, yylex := tkn\<rparr>)))"

definition lookahead :: "yyparser \<Rightarrow> yyparser res" where
  "lookahead p = (if yychar p < 0 then yylex1 p else Inr p)"

definition grow :: "int \<Rightarrow> yySymType list \<Rightarrow> yySymType list" where
  "grow i st = (if int (length st) \<le> i then st @ replicate (length st) zero_sym else st)"

text \<open>The label \<open>yystack\<close>: a state and a value are put onto the stack.\<close>

definition yystack :: "yyparser \<Rightarrow> yyparser res" where
  "yystack p =
     (let i = yyp p + 1; st = grow i (yyS p) in
      rbind (at_index st i) (\<lambda>_.
        Inr (p\<lparr>yyp := i, yyS := st[nat i := (yyVAL p)\<lparr>sy_yys := yystate p\<rparr>]\<rparr>)))"

datatype yyround = Ret int yyparser | Push yyparser | Again yyparser

text \<open>The actions that reach beyond the value: they set the tree, the comment and the end-of-input flags of the lexer, or reject.\<close>

definition share_mode :: "yySymType list \<Rightarrow> yyparser \<Rightarrow> yyround" where
  "share_mode d p =
     (if nil_str (sy_bytes (d ! 3)) \<noteq> ''share'' then Ret 1 (p\<lparr>yylex := tkn_Error ''expecting share'' (yylex p)\<rparr>)
      else if nil_str (sy_bytes (d ! 4)) \<noteq> ''mode'' then Ret 1 (p\<lparr>yylex := tkn_Error ''expecting mode'' (yylex p)\<rparr>)
      else Push (p\<lparr>yyVAL := (yyVAL p)\<lparr>sy_str := '' lock in share mode''\<rparr>\<rparr>))"

definition yy_act :: "int \<Rightarrow> yySymType list \<Rightarrow> yyparser \<Rightarrow> yyround res" where
  "yy_act n d p =
     (if n = 1 then Inr (Push (p\<lparr>ParseTree := sy_statement (d ! 1)\<rparr>))
      else if n = 49 then Inr (Push (p\<lparr>yylex := (yylex p)\<lparr>AllowComments := True\<rparr>\<rparr>))
      else if n = 50 then
        Inr (Push (p\<lparr>yyVAL := (yyVAL p)\<lparr>sy_bytes2 := sy_bytes2 (d ! 2)\<rparr>, yylex := (yylex p)\<lparr>AllowComments := False\<rparr>\<rparr>))
      else if n = 187 then Inr (share_mode d p)
      else if n = 216 then Inr (Push (p\<lparr>yylex := (yylex p)\<lparr>ForceEOF := True\<rparr>\<rparr>))
      else rbind (value_action n d (yyVAL p)) (\<lambda>v. Inr (Push (p\<lparr>yyVAL := v\<rparr>))))"

text \<open>The goto table: the state after the left side \<open>A\<close> in a state \<open>q\<close>.\<close>

definition yy_goto :: "int \<Rightarrow> int \<Rightarrow> int res" where
  "yy_goto A q =
     rbind (at_index yyPgo A) (\<lambda>g.
       let j = g + q + 1 in
       if yyLast \<le> j then at_index yyAct g
       else rbind (at_index yyAct j) (\<lambda>s. rbind (at_index yyChk s) (\<lambda>c. if c \<noteq> - A then at_index yyAct g else Inr s)))"

definition yy_reduce :: "int \<Rightarrow> yyparser \<Rightarrow> yyround res" where
  "yy_reduce n p =
     rbind (at_index yyR2 n) (\<lambda>k.
       let b = yyp p - k; st = grow (b + 1) (yyS p) in
       rbind (at_index st (b + 1)) (\<lambda>v.
       rbind (at_index yyR1 n) (\<lambda>A.
       rbind (at_index st b) (\<lambda>below.
       rbind (yy_goto A (sy_yys below)) (\<lambda>s.
         yy_act n (take (nat (k + 1)) (drop (nat b) st)) (p\<lparr>yyS := st, yyp := b, yyVAL := v, yystate := s\<rparr>))))))"

text \<open>Error recovery: the topmost state that shifts the error token, with the state this leads to.\<close>

fun yy_recover :: "yySymType list \<Rightarrow> nat \<Rightarrow> (int \<times> int) option res" where
  "yy_recover st 0 = Inr None"
| "yy_recover st (Suc k) =
     rbind (at_index st (int k)) (\<lambda>top.
     rbind (at_index yyPact (sy_yys top)) (\<lambda>base.
       let n = base + yyErrCode in
       if 0 \<le> n \<and> n < yyLast then
         rbind (at_index yyAct n) (\<lambda>s. rbind (at_index yyChk s) (\<lambda>c.
           if c = yyErrCode then Inr (Some (int k, s)) else yy_recover st k))
       else yy_recover st k))"

definition yy_error :: "yyparser \<Rightarrow> yyround res" where
  "yy_error p =
     (if Errflag p = 3 then
        (if yytoken p = yyEofCode then Inr (Ret 1 p) else Inr (Again (p\<lparr>yychar := - 1, yytoken := - 1\<rparr>)))
      else
        rbind (if Errflag p = 0
               then rbind (yyErrorMessage (yystate p) (yytoken p)) (\<lambda>m.
                      Inr (p\<lparr>yylex := tkn_Error m (yylex p), Nerrs := Nerrs p + 1\<rparr>))
               else Inr p) (\<lambda>p.
        rbind (yy_recover (yyS p) (nat (yyp p + 1))) (\<lambda>r.
          case r of None \<Rightarrow> Inr (Ret 1 (p\<lparr>Errflag := 3, yyp := - 1\<rparr>))
          | Some (i, s) \<Rightarrow> Inr (Push (p\<lparr>Errflag := 3, yyp := i, yystate := s\<rparr>)))))"

definition yydefault :: "yyparser \<Rightarrow> yyround res" where
  "yydefault p =
     rbind (at_index yyDef (yystate p)) (\<lambda>n.
       if n = - 2 then
         rbind (lookahead p) (\<lambda>p.
         rbind (rbind (exca_find (yystate p) yyExca) (exca_act (yytoken p))) (\<lambda>n.
           if n < 0 then Inr (Ret 0 p) else if n = 0 then yy_error p else yy_reduce n p))
       else if n = 0 then yy_error p else yy_reduce n p)"

definition yynewstate :: "yyparser \<Rightarrow> yyround res" where
  "yynewstate p =
     rbind (at_index yyPact (yystate p)) (\<lambda>base.
       if base \<le> yyFlag then yydefault p
       else rbind (lookahead p) (\<lambda>p.
         let n = base + yytoken p in
         if n < 0 \<or> yyLast \<le> n then yydefault p
         else rbind (at_index yyAct n) (\<lambda>s. rbind (at_index yyChk s) (\<lambda>c.
           if c = yytoken p
           then Inr (Push (p\<lparr>yychar := - 1, yytoken := - 1, yyVAL := yylval p, yystate := s,
                            Errflag := if 0 < Errflag p then Errflag p - 1 else Errflag p\<rparr>))
           else yydefault p))))"

text \<open>The loop through the labels \<open>yystack\<close> and \<open>yynewstate\<close>.\<close>

definition yyround_of :: "yyparser \<Rightarrow> yyround res" where
  "yyround_of p = rbind (yynewstate p) (\<lambda>r. case r of Push q \<Rightarrow> rbind (yystack q) (\<lambda>q. Inr (Again q)) | _ \<Rightarrow> Inr r)"

partial_function (option) yyloop :: "yyparser \<Rightarrow> (int \<times> yyparser) res option" where
  "yyloop p =
     (case yyround_of p of
        Inl e \<Rightarrow> Some (Inl e)
      | Inr (Ret c q) \<Rightarrow> Some (Inr (c, q))
      | Inr (Push q) \<Rightarrow> yyloop q
      | Inr (Again q) \<Rightarrow> yyloop q)"

declare yyloop.simps [code]

definition yyParse :: "tokenizer \<Rightarrow> (int \<times> yyparser) res option" where
  "yyParse tkn = (case yystack (yyNewParser tkn) of Inl e \<Rightarrow> Some (Inl e) | Inr p \<Rightarrow> yyloop p)"

text \<open>\<open>Parse\<close> of ast.go: the tree may be nil, and not returning is \<open>None\<close>.\<close>

definition Parse :: "string \<Rightarrow> statement option res option" where
  "Parse sql =
     map_option (\<lambda>r. rbind r (\<lambda>(c, p).
         if c \<noteq> 0 then Inl (Err (Errorf (LastError (yylex p)))) else Inr (ParseTree p)))
       (yyParse (NewStringTokenizer sql))"

text \<open>
  The result of \<open>Parse\<close> as its callers see it. The last case does not arise: \<open>parse_total\<close> shows that \<open>Parse\<close> returns and
  that the tree is not nil.
\<close>

definition sql_Parse :: "string \<Rightarrow> statement res" where
  "sql_Parse sql =
     (case Parse sql of
        Some (Inr (Some stmt)) \<Rightarrow> Inr stmt
      | Some (Inl e) \<Rightarrow> Inl e
      | _ \<Rightarrow> Inl (Panic NilDereference))"

end
