(* ===== verification/Sql_Grammar.thy ===== *)
theory Sql_Grammar
  imports Sql_Tables
begin

text \<open>
  The grammar of src/sqlparser/sql.y and the LR automaton behind the packed tables of src/sqlparser/sql.go. A grammar symbol is a
  number: a token is positive, a nonterminal negative. Two certificates, found by running the construction of the automaton, make the
  tables readable: the kernel items of each state, and the nonterminals that a state expects. The lemmas check, state by state, that every shift, goto and
  default reduction of the tables follows them. Three more lists of numbers bound the reductions in a row.
\<close>

section \<open>Reading a table\<close>

text \<open>
  The entries of a table as one conjunction of equations, which the simplifier uses entry by entry instead of walking along the list.
\<close>

definition entry :: "'a list \<Rightarrow> int \<Rightarrow> 'a" where
  "entry xs i = xs ! nat i"

fun indexed :: "(int \<Rightarrow> 'a) \<Rightarrow> int \<Rightarrow> 'a list \<Rightarrow> bool" where
  "indexed f i [] \<longleftrightarrow> True"
| "indexed f i (x # xs) \<longleftrightarrow> f i = x \<and> indexed f (i + 1) xs"

lemma indexed_drop: "0 \<le> i \<Longrightarrow> indexed (entry xs) i (drop (nat i) xs)"
proof (induction "length xs - nat i" arbitrary: i)
  case 0
  then show ?case by simp
next
  case (Suc k)
  then have "drop (nat i) xs = entry xs i # drop (nat (i + 1)) xs"
    by (simp add: entry_def nat_add_distrib Cons_nth_drop_Suc)
  moreover have "indexed (entry xs) (i + 1) (drop (nat (i + 1)) xs)" using Suc by (intro Suc.hyps(1)) auto
  ultimately show ?case by simp
qed

lemma indexed_entries: "xs = ys \<Longrightarrow> indexed (entry xs) 0 ys"
  using indexed_drop [of 0 xs] by simp

lemma indexed_block:
  "indexed f i (x0 # x1 # x2 # x3 # x4 # x5 # x6 # x7 # x8 # x9 # x10 # x11 # x12 # x13 # x14 # x15 # x16 # x17 # x18 # x19 # xs) \<longleftrightarrow>
     (f i = x0 \<and> f (i + 1) = x1 \<and> f (i + 2) = x2 \<and> f (i + 3) = x3 \<and> f (i + 4) = x4 \<and> f (i + 5) = x5 \<and> f (i + 6) = x6 \<and> f (i + 7) = x7 \<and> f (i + 8) = x8 \<and> f (i + 9) = x9 \<and> f (i + 10) = x10 \<and> f (i + 11) = x11 \<and> f (i + 12) = x12 \<and> f (i + 13) = x13 \<and> f (i + 14) = x14 \<and> f (i + 15) = x15 \<and> f (i + 16) = x16 \<and> f (i + 17) = x17 \<and> f (i + 18) = x18 \<and> f (i + 19) = x19) \<and> indexed f (i + 20) xs"
  by (simp add: add.assoc)

lemmas index_simps = indexed_block add_0_left numeral_plus_numeral numeral_plus_one add_num_simps simp_thms
lemmas last_index_simps = indexed.simps add_0_left one_plus_numeral numeral_plus_numeral numeral_plus_one add_num_simps simp_thms

declare indexed.simps [simp del]

lemma at_index_entry: "0 \<le> i \<Longrightarrow> i < int (length xs) \<Longrightarrow> at_index xs i = Inr (entry xs i)"
  by (simp add: at_index_def entry_def)

section \<open>The grammar\<close>

definition grammar_rhs :: "int list list" where
  "grammar_rhs =
     [[- 1, 1], [- 2], [- 3], [- 4], [- 5], [- 6], [- 7], [- 8], [- 9], [- 10], [- 11], [- 70], [- 71], [- 72], [- 73], [- 74],
      [- 75], [- 76], [5, - 12, - 15, - 17], [5, - 12, - 15, - 17, 9, - 22, - 29, - 48, - 49, - 50, - 54, - 55], [- 3, - 14, - 3],
      [6, - 12, - 16, 25, - 26, - 56, - 33, - 58], [6, - 12, - 16, 25, - 26, 29, - 59, - 58], [89, - 12, 25, - 26, - 56, - 33],
      [89, - 12, 25, - 26, 29, - 59], [7, - 12, - 26, 29, - 59, - 29, - 50, - 54], [8, - 12, 9, - 26, - 29, - 50, - 54],
      [29, - 12, - 59], [29, - 12, 88, 28], [29, - 12, 88, - 35], [29, - 12, 88, - 35, 93, - 35], [83], [84, 85], [86], [87],
      [90, - 26, - 56, - 33], [90, 91], [51, - 67], [106, - 12, - 69, - 26], [94, 98, - 62, 31, - 68],
      [94, - 65, 99, - 67, - 66, 53, 31, - 68], [94, 100, - 67, - 68], [95, - 16, 98, 31, - 63, - 68],
      [95, - 16, 98, 31, 97, - 64, 31], [95, 100, - 67, - 68], [97, 98, 31, 101, 31], [96, 98, - 61, 31], [96, 99, - 67, 53, 31],
      [96, 100, - 61, - 67, - 68], [], [- 77, - 13], [], [- 13, 35], [38], [38, 17], [39], [40], [41], [], [18], [- 18],
      [- 17, 42, - 18], [76], [- 21, - 19], [31, 80, 76], [- 30], [- 35], [], [- 67], [19, - 67], [- 23], [- 22, 42, - 23],
      [- 25, - 20, - 27], [36, - 23, 107], [- 23, - 24, - 23], [- 23, - 24, - 23, 53, - 30], [], [31], [19, 31], [43], [44],
      [45, 43], [45, 48, 43], [46, 43], [46, 48, 43], [47, 43], [49, 43], [50, 43], [31], [31, 80, 31], [- 40], [31], [31, 80, 31],
      [], [51, 99, 36, - 28, 107], [102, 99, 36, - 28, 107], [52, 99, 36, - 28, 107], [- 67], [- 28, 42, - 67], [], [10, - 30],
      [- 31], [- 30, 55, - 30], [- 30, 54, - 30], [56, - 30], [36, - 30, 107], [- 35, - 32, - 35], [- 35, 71, - 36],
      [- 35, 56, 71, - 36], [- 35, 70, - 35], [- 35, 56, 70, - 35], [- 35, 57, - 35, 55, - 35], [- 35, 56, 57, - 35, 55, - 35],
      [- 35, 69, 21], [- 35, 69, 56, 21], [20, - 40], [62], [63], [64], [65], [66], [67], [68], [24, - 38], [- 3], [- 36],
      [- 38, 42, - 36], [36, - 37, 107], [- 40], [36, - 3, 107], [- 35], [- 37, 42, - 35], [- 34], [- 42], [- 36],
      [- 35, 73, - 35], [- 35, 72, - 35], [- 35, 79, - 35], [- 35, 74, - 35], [- 35, 75, - 35], [- 35, 76, - 35], [- 35, 77, - 35],
      [- 35, 78, - 35], [- 41, - 35], [- 67, 36, 107], [- 67, 36, - 17, 107], [- 67, 36, 18, - 17, 107], [- 39, 36, - 17, 107],
      [- 43], [103], [24], [74], [75], [37], [58, - 46, - 44, - 47, 82], [], [- 35], [- 45], [- 44, - 45], [59, - 30, 60, - 35],
      [], [61, - 35], [- 67], [31, 80, - 67], [31, 80, 31, 80, - 67], [32], [33], [34], [21], [], [11, 14, - 37], [], [12, - 30],
      [], [13, 14, - 51], [- 52], [- 51, 42, - 52], [- 35, - 53], [], [22], [23], [], [15, - 35], [15, - 35, 42, - 35],
      [15, - 35, 92, - 35], [], [16, 7], [30, 71, - 67, - 67], [], [36, - 57, 107], [- 42], [- 57, 42, - 42], [],
      [53, 26, 27, 7, - 59], [- 60], [- 59, 42, - 60], [- 42, 62, - 35], [- 42, 62, 53], [], [103, 20], [], [103, 56, 20], [],
      [102], [95], [28], [96], [13], [31], [], [101], [], [104], [], [105, - 67], [31], [], [], [98]]"

section \<open>The automaton\<close>

text \<open>An item \<open>(n, d)\<close> is production \<open>n\<close> with the dot behind its first \<open>d\<close> symbols.\<close>

definition kernels :: "(int \<times> int) list list" where
  "kernels =
     [[], [(0, 1)], [(1, 1)], [(2, 1), (20, 1)], [(3, 1)], [(4, 1)], [(5, 1)], [(6, 1)], [(7, 1)], [(8, 1)], [(9, 1)], [(10, 1)],
      [(11, 1)], [(12, 1)], [(13, 1)], [(14, 1)], [(15, 1)], [(16, 1)], [(17, 1)], [(18, 1), (19, 1)], [(21, 1), (22, 1)],
      [(25, 1)], [(26, 1)], [(27, 1), (28, 1), (29, 1), (30, 1)], [(39, 1), (40, 1), (41, 1)], [(42, 1), (43, 1), (44, 1)],
      [(45, 1)], [(46, 1), (47, 1), (48, 1)], [(31, 1)], [(32, 1)], [(33, 1)], [(34, 1)], [(23, 1), (24, 1)], [(35, 1), (36, 1)],
      [(37, 1)], [(38, 1)], [(20, 2)], [(53, 1), (54, 1)], [(55, 1)], [(56, 1)], [(57, 1)], [(18, 2), (19, 2)], [(50, 1)],
      [(21, 2), (22, 2)], [(25, 2)], [(26, 2)], [(27, 2), (28, 2), (29, 2), (30, 2)], [(39, 2)], [(40, 2)], [(41, 2)], [(212, 1)],
      [(42, 2), (43, 2)], [(44, 2)], [(203, 1)], [(45, 2)], [(46, 2)], [(47, 2)], [(48, 2)], [(32, 2)], [(23, 2), (24, 2)],
      [(35, 2)], [(36, 2)], [(91, 1), (92, 1)], [(37, 2)], [(215, 1)], [(38, 2)], [(20, 1), (20, 3)], [(54, 2)],
      [(18, 3), (19, 3)], [(59, 1)], [(50, 2), (52, 1)], [(21, 3), (22, 3)], [(25, 3)], [(26, 3)], [(27, 3), (195, 1)],
      [(28, 3), (29, 3), (30, 3)], [(194, 1)], [(196, 1), (197, 1)], [(162, 1)], [(163, 1), (164, 1), (215, 1)], [(39, 3)],
      [(201, 1)], [(40, 3)], [(41, 3)], [(42, 3), (43, 3)], [(44, 3)], [(45, 3)], [(46, 3)], [(199, 1)], [(47, 3)], [(48, 3)],
      [(23, 3), (24, 3)], [(35, 3)], [(189, 1)], [(92, 2)], [(38, 3)], [(218, 1)], [(18, 4), (19, 4), (61, 1)], [(60, 1)],
      [(62, 1)], [(63, 1)], [(64, 1), (163, 1), (164, 1), (215, 1)], [(65, 1), (102, 1), (103, 1)],
      [(66, 1), (106, 1), (107, 1), (108, 1), (109, 1), (110, 1), (111, 1), (112, 1), (113, 1), (114, 1), (135, 1), (136, 1), (137, 1), (138, 1), (139, 1), (140, 1), (141, 1), (142, 1)],
      [(101, 1)], [(104, 1)], [(105, 1), (127, 1), (129, 1)], [(132, 1)], [(133, 1)], [(134, 1)], [(143, 1)],
      [(144, 1), (145, 1), (146, 1), (162, 1)], [(147, 1)], [(148, 1)], [(115, 1)], [(165, 1)], [(166, 1)], [(167, 1)], [(168, 1)],
      [(128, 1)], [(151, 1)], [(152, 1)], [(153, 1)], [(149, 1)], [(150, 1)], [(154, 1)], [(52, 2)], [(21, 4), (22, 4)], [(25, 4)],
      [(26, 4)], [(195, 2)], [(28, 4)],
      [(29, 4), (30, 4), (135, 1), (136, 1), (137, 1), (138, 1), (139, 1), (140, 1), (141, 1), (142, 1)], [(127, 1), (129, 1)],
      [(196, 2), (197, 2)], [(163, 2), (164, 2)], [(39, 4)], [(201, 2)], [(40, 4)], [(41, 4)], [(42, 4), (43, 4)], [(44, 4)],
      [(45, 4)], [(46, 4)], [(199, 2)], [(47, 4)], [(48, 4)], [(23, 4), (24, 4)], [(35, 4)], [(123, 1)], [(20, 1), (124, 1)],
      [(189, 2), (191, 1)], [(190, 1)], [(92, 3)], [(38, 4)], [(19, 5)], [(61, 2)], [(63, 2)], [(68, 1)], [(69, 1)],
      [(64, 2), (163, 2), (164, 2)], [(102, 2)], [(103, 2)], [(106, 2)], [(107, 2)], [(108, 2), (110, 2), (112, 2)], [(109, 2)],
      [(111, 2)], [(113, 2), (114, 2)], [(135, 2)], [(136, 2)], [(137, 2)], [(138, 2)], [(139, 2)], [(140, 2)], [(141, 2)],
      [(142, 2)], [(116, 1)], [(117, 1)], [(118, 1)], [(119, 1)], [(120, 1)], [(121, 1)], [(122, 1)],
      [(102, 1), (103, 1), (104, 2)],
      [(106, 1), (107, 1), (108, 1), (109, 1), (110, 1), (111, 1), (112, 1), (113, 1), (114, 1), (135, 1), (136, 1), (137, 1), (138, 1), (139, 1), (140, 1), (141, 1), (142, 1)],
      [(102, 1), (103, 1), (105, 2)], [(127, 2), (131, 1)], [(20, 1), (129, 2)],
      [(106, 1), (107, 1), (108, 1), (109, 1), (110, 1), (111, 1), (112, 1), (113, 1), (114, 1), (130, 1), (135, 1), (136, 1), (137, 1), (138, 1), (139, 1), (140, 1), (141, 1), (142, 1)],
      [(135, 1), (136, 1), (137, 1), (138, 1), (139, 1), (140, 1), (141, 1), (142, 1), (143, 2)], [(144, 2), (145, 2), (146, 2)],
      [(147, 2)], [(115, 2)], [(129, 1)], [(154, 2)],
      [(135, 1), (136, 1), (137, 1), (138, 1), (139, 1), (140, 1), (141, 1), (142, 1), (156, 1)], [(21, 5), (22, 5)],
      [(25, 5), (195, 1)], [(26, 5)], [(100, 1)], [(195, 3)], [(30, 5)],
      [(130, 1), (135, 1), (136, 1), (137, 1), (138, 1), (139, 1), (140, 1), (141, 1), (142, 1)],
      [(135, 1), (136, 1), (137, 1), (138, 1), (139, 1), (140, 1), (141, 1), (142, 1), (196, 3)], [(197, 3)], [(163, 3)],
      [(164, 3), (215, 1)], [(39, 5)], [(201, 3)], [(40, 5)], [(214, 1)], [(42, 5)], [(43, 5)], [(204, 1)], [(205, 1)], [(206, 1)],
      [(207, 1)], [(208, 1)], [(45, 5)], [(47, 5)], [(48, 5)], [(23, 5)], [(24, 5)], [(123, 2), (126, 1)], [(125, 1)], [(189, 3)],
      [(191, 2)], [(19, 6), (71, 1)], [(70, 1), (74, 1), (75, 1)], [(72, 1)], [(73, 1), (129, 1)], [(88, 1), (89, 1)], [(90, 1)],
      [(61, 3)], [(69, 2)], [(64, 3)], [(102, 1), (102, 3), (103, 1)], [(102, 1), (103, 1), (103, 3)],
      [(106, 3), (135, 1), (136, 1), (137, 1), (138, 1), (139, 1), (140, 1), (141, 1), (142, 1)], [(107, 3)], [(108, 3)],
      [(110, 3)], [(112, 3)], [(109, 3), (135, 1), (136, 1), (137, 1), (138, 1), (139, 1), (140, 1), (141, 1), (142, 1)],
      [(111, 3), (135, 1), (136, 1), (137, 1), (138, 1), (139, 1), (140, 1), (141, 1), (142, 1)], [(113, 3)], [(114, 3)],
      [(135, 1), (135, 3), (136, 1), (137, 1), (138, 1), (139, 1), (140, 1), (141, 1), (142, 1)],
      [(135, 1), (136, 1), (136, 3), (137, 1), (138, 1), (139, 1), (140, 1), (141, 1), (142, 1)],
      [(135, 1), (136, 1), (137, 1), (137, 3), (138, 1), (139, 1), (140, 1), (141, 1), (142, 1)],
      [(135, 1), (136, 1), (137, 1), (138, 1), (138, 3), (139, 1), (140, 1), (141, 1), (142, 1)],
      [(135, 1), (136, 1), (137, 1), (138, 1), (139, 1), (139, 3), (140, 1), (141, 1), (142, 1)],
      [(135, 1), (136, 1), (137, 1), (138, 1), (139, 1), (140, 1), (140, 3), (141, 1), (142, 1)],
      [(135, 1), (136, 1), (137, 1), (138, 1), (139, 1), (140, 1), (141, 1), (141, 3), (142, 1)],
      [(135, 1), (136, 1), (137, 1), (138, 1), (139, 1), (140, 1), (141, 1), (142, 1), (142, 3)], [(105, 3)], [(127, 3)],
      [(131, 2)], [(129, 3)], [(144, 3)], [(61, 1), (145, 3)], [(146, 3)], [(61, 1), (147, 3)], [(154, 3), (158, 1)], [(157, 1)],
      [(159, 1)], [(21, 6)], [(22, 6)], [(25, 6)], [(26, 6)], [(174, 1)], [(100, 2), (102, 1), (103, 1)],
      [(30, 6), (135, 1), (136, 1), (137, 1), (138, 1), (139, 1), (140, 1), (141, 1), (142, 1)], [(164, 4)], [(40, 6)], [(214, 2)],
      [(42, 6)], [(43, 6)], [(210, 1)], [(23, 6)], [(24, 6), (195, 1)], [(126, 2)], [(191, 3)], [(19, 7)], [(71, 2)],
      [(74, 2), (75, 2)], [(79, 1)], [(80, 1)], [(81, 1), (82, 1)], [(83, 1), (84, 1)], [(85, 1)], [(86, 1)], [(87, 1)], [(72, 2)],
      [(77, 1)], [(78, 1)], [(73, 2), (74, 1), (75, 1)], [(89, 2)], [(108, 4)],
      [(110, 4), (135, 1), (136, 1), (137, 1), (138, 1), (139, 1), (140, 1), (141, 1), (142, 1)],
      [(112, 4), (135, 1), (136, 1), (137, 1), (138, 1), (139, 1), (140, 1), (141, 1), (142, 1)], [(111, 4)], [(114, 4)],
      [(131, 3), (135, 1), (136, 1), (137, 1), (138, 1), (139, 1), (140, 1), (141, 1), (142, 1)], [(145, 4)], [(61, 1), (146, 4)],
      [(147, 4)], [(154, 4)], [(158, 2)], [(161, 1)], [(102, 1), (103, 1), (159, 2)], [(21, 7)], [(22, 7), (195, 1)], [(25, 7)],
      [(26, 7)], [(182, 1), (183, 1), (184, 1)], [(174, 2)], [(164, 5)], [(40, 7)], [(43, 7)], [(126, 3)], [(19, 8)], [(170, 1)],
      [(71, 3), (74, 1), (75, 1)], [(74, 1), (74, 3), (75, 1), (75, 3)], [(81, 2)], [(82, 2)], [(83, 2)], [(84, 2)], [(85, 2)],
      [(86, 2)], [(87, 2)], [(72, 3)], [(94, 1)], [(95, 1)], [(96, 1)], [(78, 2)], [(73, 3)], [(89, 3)], [(112, 5)],
      [(111, 5), (135, 1), (136, 1), (137, 1), (138, 1), (139, 1), (140, 1), (141, 1), (142, 1)], [(146, 5)], [(154, 5)],
      [(135, 1), (136, 1), (137, 1), (138, 1), (139, 1), (140, 1), (141, 1), (142, 1), (161, 2)], [(159, 3)], [(21, 8)],
      [(193, 1)], [(22, 8)], [(25, 8)],
      [(135, 1), (136, 1), (137, 1), (138, 1), (139, 1), (140, 1), (141, 1), (142, 1), (182, 2), (183, 2), (184, 2)],
      [(174, 3), (176, 1)], [(175, 1)], [(135, 1), (136, 1), (137, 1), (138, 1), (139, 1), (140, 1), (141, 1), (142, 1), (177, 1)],
      [(40, 8)], [(19, 9)], [(172, 1)], [(170, 2)], [(75, 4)], [(82, 3)], [(84, 3)], [(94, 2)], [(95, 2)], [(96, 2)],
      [(112, 6), (135, 1), (136, 1), (137, 1), (138, 1), (139, 1), (140, 1), (141, 1), (142, 1)],
      [(135, 1), (136, 1), (137, 1), (138, 1), (139, 1), (140, 1), (141, 1), (142, 1), (159, 4)], [(193, 2)], [(183, 3)],
      [(184, 3)], [(176, 2)], [(177, 2)], [(179, 1)], [(180, 1)], [(19, 10)], [(102, 1), (103, 1), (172, 2)], [(131, 1), (170, 3)],
      [(75, 5), (102, 1), (103, 1)], [(94, 3)], [(95, 3)], [(96, 3)], [(193, 3)],
      [(135, 1), (136, 1), (137, 1), (138, 1), (139, 1), (140, 1), (141, 1), (142, 1), (183, 4)],
      [(135, 1), (136, 1), (137, 1), (138, 1), (139, 1), (140, 1), (141, 1), (142, 1), (184, 4)], [(176, 3)], [(19, 11)],
      [(94, 4), (98, 1)], [(97, 1)], [(95, 4), (98, 1)], [(96, 4), (98, 1)], [(193, 4)], [(19, 12)], [(186, 1)], [(187, 1)],
      [(94, 5)], [(98, 2)], [(95, 5)], [(96, 5)], [(193, 5), (195, 1)], [(186, 2)], [(187, 2)], [(98, 3)], [(187, 3)], [(187, 4)]]"

definition nonterms :: "int list list" where
  "nonterms =
     [[0, 1, 2, 3, 4, 5, 6, 7, 8, 9, 10, 11, 70, 71, 72, 73, 74, 75, 76], [], [], [14], [], [], [], [], [], [], [], [], [], [], [],
      [], [], [], [], [12, 77], [12, 77], [12, 77], [12, 77], [12, 77], [65], [16], [], [], [], [], [], [], [12, 77], [26], [67],
      [12, 77], [3], [], [], [], [], [15], [13], [16], [26], [], [42, 59, 60, 67], [62], [], [67], [], [], [67], [], [], [61],
      [67], [61], [], [], [56], [], [], [], [], [69], [14], [], [17, 18, 21, 30, 31, 34, 35, 36, 39, 40, 41, 42, 43, 67], [], [],
      [], [], [26], [], [34, 35, 36, 39, 40, 41, 42, 43, 67], [], [], [], [], [], [], [67], [68], [], [68], [], [], [], [], [67],
      [26], [3, 33], [42, 57, 67], [], [26], [], [], [], [], [19, 67], [], [], [32], [],
      [30, 31, 34, 35, 36, 39, 40, 41, 42, 43, 67], [3, 30, 31, 34, 35, 36, 37, 39, 40, 41, 42, 43, 67], [], [], [],
      [34, 35, 36, 39, 40, 41, 42, 43, 67], [], [], [], [40], [], [], [], [], [], [], [], [], [], [],
      [34, 35, 36, 39, 40, 41, 42, 43, 46, 67], [], [26], [42, 59, 60, 67], [29], [42, 60, 67], [], [],
      [3, 34, 35, 36, 37, 39, 40, 41, 42, 43, 67], [34, 35, 36, 39, 40, 41, 42, 43, 67], [67], [68], [], [66], [], [63], [], [],
      [], [], [], [68], [56], [], [36, 38, 40], [14], [], [], [], [], [22, 23, 25, 40],
      [18, 21, 30, 31, 34, 35, 36, 39, 40, 41, 42, 43, 67], [], [], [67], [67], [30, 31, 34, 35, 36, 39, 40, 41, 42, 43, 67],
      [30, 31, 34, 35, 36, 39, 40, 41, 42, 43, 67], [34, 35, 36, 39, 40, 41, 42, 43, 67], [36, 40], [],
      [34, 35, 36, 39, 40, 41, 42, 43, 67], [34, 35, 36, 39, 40, 41, 42, 43, 67], [], [34, 35, 36, 39, 40, 41, 42, 43, 67],
      [34, 35, 36, 39, 40, 41, 42, 43, 67], [34, 35, 36, 39, 40, 41, 42, 43, 67], [34, 35, 36, 39, 40, 41, 42, 43, 67],
      [34, 35, 36, 39, 40, 41, 42, 43, 67], [34, 35, 36, 39, 40, 41, 42, 43, 67], [34, 35, 36, 39, 40, 41, 42, 43, 67],
      [34, 35, 36, 39, 40, 41, 42, 43, 67], [], [], [], [], [], [], [], [], [32], [], [], [14], [32], [],
      [17, 18, 21, 30, 31, 34, 35, 36, 39, 40, 41, 42, 43, 67], [17, 18, 21, 30, 31, 34, 35, 36, 39, 40, 41, 42, 43, 67], [], [3],
      [44, 45], [], [56], [29], [50], [30, 31, 34, 35, 36, 39, 40, 41, 42, 43, 67], [], [34, 35, 36, 39, 40, 41, 42, 43, 67], [],
      [], [], [], [], [], [], [], [67], [68], [64], [], [], [], [], [], [], [], [], [3, 33], [42, 59, 60, 67], [], [], [],
      [42, 67], [29], [24], [20], [3, 23, 25, 40], [], [], [], [], [], [], [], [], [], [36, 40],
      [34, 35, 36, 39, 40, 41, 42, 43, 67], [34, 35, 36, 39, 40, 41, 42, 43, 67], [], [], [], [], [], [], [], [], [], [], [], [],
      [], [], [34, 35, 36, 39, 40, 41, 42, 43, 67], [], [], [], [17, 18, 21, 30, 31, 34, 35, 36, 39, 40, 41, 42, 43, 67], [],
      [45, 47], [], [30, 31, 34, 35, 36, 39, 40, 41, 42, 43, 67], [3, 33], [42, 59, 60, 67], [50], [54], [], [], [], [67], [], [],
      [], [], [], [], [], [36, 40], [], [48], [23, 25, 40], [23, 25, 40], [], [], [], [], [], [], [], [27], [], [], [24], [], [],
      [], [], [34, 35, 36, 39, 40, 41, 42, 43, 67], [], [], [], [], [], [], [], [34, 35, 36, 39, 40, 41, 42, 43, 67], [], [58],
      [58], [54], [], [34, 35, 36, 39, 40, 41, 42, 43, 67], [34, 35, 36, 39, 40, 41, 42, 43, 51, 52, 67], [], [68], [], [], [49],
      [], [24], [24], [], [], [], [], [], [], [], [], [], [], [], [], [], [], [34, 35, 36, 39, 40, 41, 42, 43, 67], [], [], [], [],
      [34, 35, 36, 39, 40, 41, 42, 43, 67], [], [], [], [], [], [], [], [53], [], [50],
      [30, 31, 34, 35, 36, 39, 40, 41, 42, 43, 67], [34, 35, 36, 37, 39, 40, 41, 42, 43, 67],
      [30, 31, 34, 35, 36, 39, 40, 41, 42, 43, 67], [], [], [], [], [], [], [], [], [34, 35, 36, 39, 40, 41, 42, 43, 67],
      [34, 35, 36, 39, 40, 41, 42, 43, 67], [34, 35, 36, 39, 40, 41, 42, 43, 52, 67], [], [], [], [54], [], [], [], [28, 67],
      [28, 67], [28, 67], [], [], [], [], [55], [], [], [], [], [42, 59, 60, 67], [], [], [], [], [67], [], [], [], [], [67], [],
      [67], []]"

definition base_states :: "int list list" where
  "base_states =
     [[], [], [], [], [], [], [], [], [], [], [], [], [], [], [], [], [], [], [], [], [], [], [], [], [], [], [], [], [], [],
      [138], [], [], [55, 57], [], [47], [], [], [43], [], [], [], [213], [], [], [], [], [], [], [], [86], [], [], [], [], [], [],
      [], [24], [], [], [], [], [], [], [], [], [], [336], [335], [], [], [], [334], [], [], [48], [186], [], [], [], [], [], [],
      [], [], [], [], [], [], [], [], [], [25], [], [], [65], [388], [], [387], [], [51], [], [], [], [], [385], [], [], [], [306],
      [263], [27], [134], [], [308], [26], [], [], [261], [], [187], [], [151], [], [], [], [], [], [], [], [], [], [], [], [], [],
      [], [188], [], [294], [], [], [], [29], [], [], [], [], [105, 161, 162, 200, 266, 356, 358], [], [], [232], [], [207], [101],
      [], [], [], [], [79], [62], [], [], [], [], [], [], [253, 254, 255], [], [], [], [], [], [], [], [], [392], [33], [], [], [],
      [], [], [], [], [251, 252], [77], [], [], [], [46], [], [], [195], [], [], [], [], [], [81], [165], [], [], [],
      [102, 272, 374, 376], [], [], [], [], [], [], [], [], [], [238], [], [], [], [], [325], [], [], [], [], [], [311], [], [],
      [], [], [], [], [], [], [160], [], [], [], [], [], [], [], [], [], [], [], [312], [], [], [], [], [], [210], [], [], [89],
      [313], [297], [], [], [264], [], [], [], [], [], [], [168], [], [], [], [], [290], [], [], [], [], [], [], [], [], [329], [],
      [], [], [289], [], [], [], [], [], [], [], [], [327], [], [], [], [], [], [], [140], [3, 150], [], [293], [292], [], [291],
      [], [74, 281, 397], [], [], [], [], [], [], [375], [351], [], [224], [], [], [], [], [], [], [], [], [], [363], [], [], [],
      [], [], [228], [191], [], [], [], [34, 49, 52, 56, 82, 90, 159, 211, 274, 377, 378, 379, 394, 399, 401], [], [248], [198],
      [], [], [], [], [362], [], [], [], [], [], [], [], [], [97], [70], [197], [], [], [], [], [], [361], [], [], [],
      [149, 164, 241, 282], [], [], [], [147], [], [], [], [155, 285, 286], [114], [], [], [], [], [], [], [], [], [], [112], [],
      [], [111], [60], [], [], [231], [], [], [], [], [], [93, 128, 130, 223, 227, 268, 389], [], [298], [296], [], [], [], [], [],
      [], [278], [], [], [], [], [], [], [], [230], [106], [], [], [], [], [], [], [275], [], [384], [145], [142], [135],
      [44, 73, 91, 95, 127], [], [94], [100], [], [], [132], [], [0], [87], [84], [80], [], [], [], [], [54], [], [], [72], [], [],
      [], [366], [], [], [], [], [], [], [], [], [], [], [347], [], [], [], [], [], [71], [59], [], [], [], [], [], [], [247], [],
      [137], [], [88], [], [350], [], [41], [], [], [37], [], [], [92, 222, 267], [323], [], [], [], [], [], [], [], [],
      [270, 314, 373], [], [271], [], [199, 269, 355], [], [], [], [], [322], [], [], [], [], [68, 156, 192, 262], [], [], [284],
      [], [129], [], [], [], [], [], [], [], [45], [], [], [391], [], [380], [], [], [36, 194], [], [], [], [], [], [], [], [],
      [133], [], [], [], [], [], [301], [], [], [], [], [], [], [], [], [], [], [], [], [75], [], [], [],
      [196, 203, 204, 239, 244, 273, 300, 304, 341, 344, 364, 365, 381, 382], [], [], [], [], [], [], [], [], [],
      [110, 125, 163, 166, 167, 169, 170, 171, 172, 173, 174, 175, 176, 202, 242, 243, 258, 302, 310, 316, 317, 340, 345, 357, 367, 368, 369],
      [], [], [], [353], [], [], [], [], [], [], [], [], [], [], [], [], [], [245], [], [], [], [], [], [], [], [], [], [], [], [],
      [], [], [], [], [], [], [], [], [], [], [], [103, 185, 189], [], [], [], [], [], [], [249], [], [], [], [], [], [], [], [],
      [], [], [], [], [], [], [], [], [], [], [], [], [], [], [], [], [], [], [], [], [], [], [], [], [], [], [], [], [229, 324],
      [], [], [], [], [], [], [], [], [], [], [], [], [], [], [], [], [], [], [], [], [], [], [], [], [], [], [], [], [], [], [],
      [], [], [], [], [], [], [], [], [], [], [], [], [], [], [], [], [], [], [], [], [], [], [], [], [], [], [], [], [], [], [],
      [], [], [], [], [], [], [], [], [], [], [], [], [], [], [], [], [], [], [], [], [], []]"

definition weights :: "nat list" where
  "weights =
     [0, 0, 1, 2, 2, 2, 2, 2, 2, 2, 2, 2, 0, 0, 0, 0, 0, 0, 1, 0, 0, 2, 0, 7, 0, 8, 0, 0, 0, 0, 4, 5, 0, 0, 6, 4, 6, 0, 0, 0, 11,
      2, 6, 6, 0, 2, 0, 0, 0, 0, 0, 0, 1, 0, 0, 0, 0, 0, 0, 0, 4, 0, 0, 0, 0, 0, 0, 7, 0, 0, 2, 2, 2, 2, 2, 2, 2, 2]"

definition ranks :: "nat list" where
  "ranks =
     [0, 0, 0, 0, 0, 0, 0, 0, 0, 0, 0, 0, 0, 0, 0, 0, 0, 0, 0, 4, 4, 4, 4, 4, 1, 1, 0, 0, 0, 0, 0, 0, 4, 0, 0, 4, 0, 0, 0, 0, 0, 1,
      1, 1, 0, 0, 0, 1, 0, 0, 0, 0, 0, 0, 0, 1, 0, 1, 0, 0, 1, 0, 0, 0, 0, 1, 0, 0, 0, 0, 0, 0, 0, 0, 0, 0, 0, 0, 0, 0, 0, 0, 0, 1,
      0, 1, 0, 0, 0, 0, 0, 0, 0, 0, 0, 0, 0, 0, 0, 0, 1, 0, 0, 0, 0, 0, 0, 0, 0, 0, 0, 0, 0, 0, 0, 0, 0, 0, 0, 0, 0, 0, 0, 0, 0, 1,
      0, 0, 0, 3, 0, 0, 0, 0, 0, 0, 1, 0, 1, 0, 0, 0, 0, 0, 0, 0, 1, 1, 0, 0, 0, 0, 0, 0, 0, 0, 0, 0, 0, 0, 0, 0, 0, 0, 0, 0, 0, 0,
      0, 0, 0, 0, 0, 0, 0, 0, 0, 0, 0, 0, 0, 0, 0, 0, 0, 0, 0, 0, 0, 0, 0, 0, 0, 0, 0, 0, 0, 1, 3, 2, 0, 0, 0, 0, 0, 0, 0, 0, 0, 0,
      0, 0, 1, 1, 0, 0, 0, 0, 0, 0, 0, 0, 0, 0, 0, 0, 0, 0, 6, 0, 2, 0, 0, 0, 0, 0, 0, 0, 0, 0, 0, 0, 0, 0, 0, 0, 0, 0, 0, 0, 0, 0,
      0, 0, 0, 0, 0, 0, 0, 0, 0, 0, 0, 0, 1, 0, 0, 0, 0, 2, 1, 0, 0, 0, 0, 0, 0, 0, 0, 0, 0, 0, 0, 0, 5, 0, 0, 0, 0, 0, 0, 0, 0, 0,
      1, 0, 0, 0, 0, 0, 0, 0, 0, 0, 0, 0, 0, 0, 0, 0, 0, 0, 1, 1, 1, 0, 0, 0, 0, 1, 0, 0, 4, 0, 0, 0, 0, 0, 0, 0, 0, 0, 0, 0, 0, 0,
      0, 0, 0, 0, 0, 0, 0, 0, 0, 0, 0, 0, 0, 0, 0, 0, 0, 1, 0, 3, 0, 0, 0, 0, 0, 0, 0, 0, 0, 0, 0, 0, 0, 0, 0, 0, 0, 2, 0, 0, 0, 0,
      0, 0, 0, 0, 0, 0, 1, 0, 0, 0, 0, 0, 0, 0, 0, 0, 0, 0, 0, 0, 0, 0, 0, 0, 0]"

definition goto_ranks :: "nat list" where
  "goto_ranks =
     [0, 0, 0, 0, 0, 0, 0, 0, 0, 0, 0, 0, 1, 0, 0, 0, 0, 0, 0, 0, 1, 1, 6, 0, 0, 2, 3, 0, 0, 5, 0, 0, 0, 1, 0, 1, 0, 0, 0, 0, 0, 0,
      0, 0, 1, 0, 0, 0, 4, 3, 2, 0, 0, 0, 1, 0, 0, 0, 0, 3, 0, 0, 0, 1, 0, 0, 0, 1, 0, 0, 0, 0, 0, 0, 0, 0, 0, 1]"


lemmas table_entries =
  indexed_entries [OF yyAct_def, simplified index_simps, simplified last_index_simps]
  indexed_entries [OF yyPact_def, simplified index_simps, simplified last_index_simps]
  indexed_entries [OF yyPgo_def, simplified index_simps, simplified last_index_simps]
  indexed_entries [OF yyR1_def, simplified index_simps, simplified last_index_simps]
  indexed_entries [OF yyR2_def, simplified index_simps, simplified last_index_simps]
  indexed_entries [OF yyChk_def, simplified index_simps, simplified last_index_simps]
  indexed_entries [OF yyDef_def, simplified index_simps, simplified last_index_simps]

lemmas automaton_entries =
  indexed_entries [OF grammar_rhs_def, simplified index_simps, simplified last_index_simps]
  indexed_entries [OF kernels_def, simplified index_simps, simplified last_index_simps]
  indexed_entries [OF nonterms_def, simplified index_simps, simplified last_index_simps]
  indexed_entries [OF weights_def, simplified index_simps, simplified last_index_simps]
  indexed_entries [OF ranks_def, simplified index_simps, simplified last_index_simps]
  indexed_entries [OF goto_ranks_def, simplified index_simps, simplified last_index_simps]
  indexed_entries [OF base_states_def, simplified index_simps, simplified last_index_simps]

definition link_item :: "int \<Rightarrow> int \<times> int \<Rightarrow> bool" where
  "link_item q it \<longleftrightarrow>
     (if snd it = 1 then entry yyR1 (fst it) \<in> set (entry nonterms q) else (fst it, snd it - 1) \<in> set (entry kernels q))"

definition link :: "int \<Rightarrow> int \<Rightarrow> bool" where
  "link q s \<longleftrightarrow> list_all (link_item q) (entry kernels s)"

definition base_ok :: "int \<Rightarrow> bool" where
  "base_ok q \<longleftrightarrow> (if entry yyPact q \<le> yyFlag then True else q \<in> set (entry base_states (entry yyPact q + 107)))"

definition shift_ok :: "int \<Rightarrow> bool" where
  "shift_ok n \<longleftrightarrow>
     (let s = entry yyAct n; t = entry yyChk s in
      if t \<le> 0 then True else list_all (\<lambda>q. link q s) (entry base_states (n - t + 107)))"

definition goto_state :: "int \<Rightarrow> int \<Rightarrow> int" where
  "goto_state q A =
     (let g = entry yyPgo A; j = g + q + 1 in
      if yyLast \<le> j then entry yyAct g
      else let s = entry yyAct j in if entry yyChk s \<noteq> - A then entry yyAct g else s)"

definition weight :: "int \<Rightarrow> nat" where
  "weight X = (if 0 < X then 12 else if X < - 77 then 0 else entry weights (- X))"

definition goto_ok :: "int \<Rightarrow> int \<Rightarrow> bool" where
  "goto_ok q A \<longleftrightarrow>
     (if A = 0 then True
      else let s = goto_state q A in entry yyChk s = - A \<and> link q s \<and> entry ranks s \<le> entry goto_ranks A)"

definition gotos_ok :: "int \<Rightarrow> bool" where
  "gotos_ok q \<longleftrightarrow> list_all (goto_ok q) (entry nonterms q)"

definition default_ok :: "int \<Rightarrow> bool" where
  "default_ok s \<longleftrightarrow>
     (let n = entry yyDef s in
      if n = - 2 then s = 1 else if n = 0 then True
      else 1 \<le> n \<and> n < 219 \<and>
        (if entry yyR2 n = 0
         then entry yyR1 n \<in> set (entry nonterms s) \<and> weight (- entry yyR1 n) + entry ranks (goto_state s (entry yyR1 n)) < entry ranks s
         else (n, entry yyR2 n) \<in> set (entry kernels s)))"

definition item_ok :: "int \<Rightarrow> int \<times> int \<Rightarrow> bool" where
  "item_ok s it \<longleftrightarrow>
     1 \<le> snd it \<and> snd it \<le> int (length (entry grammar_rhs (fst it))) \<and> entry (entry grammar_rhs (fst it)) (snd it - 1) = entry yyChk s"

definition items_ok :: "int \<Rightarrow> bool" where
  "items_ok s \<longleftrightarrow> list_all (item_ok s) (entry kernels s)"

definition production_ok :: "int \<Rightarrow> bool" where
  "production_ok n \<longleftrightarrow>
     int (length (entry grammar_rhs n)) = entry yyR2 n \<and> 1 \<le> entry yyR1 n \<and> entry yyR1 n < 78 \<and> (n = 1 \<longleftrightarrow> entry yyR1 n = 1) \<and>
     (if entry yyR2 n = 0 then True
      else weight (- entry yyR1 n) + entry goto_ranks (entry yyR1 n) < sum_list (map weight (entry grammar_rhs n)))"

lemma upto_from_0 [simp]: "[0..numeral n] = (0 :: int) # [1..numeral n]" and upto_from_1 [simp]: "[1..numeral n] = (1 :: int) # [2..numeral n]"
  by (simp_all add: upto.simps)

lemma bases: "list_all base_ok [0..402]"
  by (simp add: base_ok_def table_entries automaton_entries)
lemma shifts: "list_all shift_ok [0..646]"
  by (simp add: shift_ok_def Let_def link_def link_item_def table_entries automaton_entries)

lemma gotos: "list_all gotos_ok [0..402]"
  by (simp add: gotos_ok_def goto_ok_def goto_state_def Let_def link_def link_item_def table_entries automaton_entries)

lemma defaults: "list_all default_ok [0..402]"
  by (simp add: default_ok_def goto_state_def weight_def Let_def table_entries automaton_entries)

lemma all_items: "list_all items_ok [0..402]"
  by (simp add: items_ok_def item_ok_def table_entries automaton_entries entry_def [of "_ # _"])

lemma productions: "list_all production_ok [1..218]"
  by (simp add: production_ok_def weight_def table_entries automaton_entries)

section \<open>What the checks give\<close>

abbreviation is_state :: "int \<Rightarrow> bool" where
  "is_state s \<equiv> 0 \<le> s \<and> s < 403"

lemma all_upto: "list_all P [a..b] \<Longrightarrow> a \<le> x \<Longrightarrow> x \<le> b \<Longrightarrow> P x"
  by (simp add: list_all_iff)

lemma entry_in: "list_all P xs \<Longrightarrow> 0 \<le> i \<Longrightarrow> i < int (length xs) \<Longrightarrow> P (entry xs i)"
  by (simp add: entry_def list_all_iff)

lemma Act_state: "0 \<le> n \<Longrightarrow> n < yyLast \<Longrightarrow> is_state (entry yyAct n)"
  by (rule entry_in) (simp_all add: yyAct_def)

lemma Pgo_range: "0 \<le> A \<Longrightarrow> A < 78 \<Longrightarrow> 0 \<le> entry yyPgo A \<and> entry yyPgo A < yyLast"
  by (rule entry_in) (simp_all add: yyPgo_def)

lemma no_error_shift: "is_state s \<Longrightarrow> entry yyChk s \<noteq> yyErrCode"
  by (rule entry_in) (simp_all add: yyChk_def)

lemma no_eof_shift: "is_state s \<Longrightarrow> entry yyChk s \<noteq> yyEofCode"
  by (rule entry_in) (simp_all add: yyChk_def)

lemma rank_le: "is_state s \<Longrightarrow> entry ranks s \<le> 6"
  by (rule entry_in) (simp_all add: ranks_def)

lemma goto_state_is_state: "is_state q \<Longrightarrow> 0 \<le> A \<Longrightarrow> A < 78 \<Longrightarrow> is_state (goto_state q A)"
  using Pgo_range [of A] by (auto simp: goto_state_def Let_def Act_state)

lemma shift_link:
  assumes "is_state q" "yyFlag < entry yyPact q" "0 \<le> entry yyPact q + t" "entry yyPact q + t < yyLast"
    "s = entry yyAct (entry yyPact q + t)" "entry yyChk s = t" "0 < t"
  shows "link q s"
proof -
  have "q \<in> set (entry base_states (entry yyPact q + 107))"
    using all_upto [OF bases, of q] assms(1,2) by (simp add: base_ok_def)
  moreover have "shift_ok (entry yyPact q + t)" using all_upto [OF shifts] assms(3,4) by simp
  ultimately show ?thesis using assms(5-7) by (simp add: shift_ok_def Let_def list_all_iff)
qed

lemma goto_facts:
  assumes "is_state q" "A \<in> set (entry nonterms q)" "1 \<le> A"
  shows "entry yyChk (goto_state q A) = - A" "link q (goto_state q A)" "entry ranks (goto_state q A) \<le> entry goto_ranks A"
proof -
  have "gotos_ok q" using all_upto [OF gotos] assms(1) by simp
  with assms(2,3) show "entry yyChk (goto_state q A) = - A" "link q (goto_state q A)"
    "entry ranks (goto_state q A) \<le> entry goto_ranks A"
    by (auto simp: gotos_ok_def list_all_iff goto_ok_def Let_def)
qed

lemma default_facts: "is_state s \<Longrightarrow> default_ok s"
  using all_upto [OF defaults] by simp

lemma item_facts: "is_state s \<Longrightarrow> it \<in> set (entry kernels s) \<Longrightarrow> item_ok s it"
  using all_upto [OF all_items] by (simp add: items_ok_def list_all_iff)

lemma production_facts: "1 \<le> n \<Longrightarrow> n < 219 \<Longrightarrow> production_ok n"
  using all_upto [OF productions] by simp

lemma state_0_kernel: "entry kernels 0 = []" and state_0_sym: "entry yyChk 0 = - 1000" and state_1_kernel: "entry kernels 1 = [(0, 1)]"
  and state_1_sym: "entry yyChk 1 = - 1" and state_1_simple: "entry yyPact 1 = yyFlag" and accept_sym: "entry yyR1 0 = 0"
  by (simp_all add: entry_def kernels_def yyChk_def yyPact_def yyR1_def)

lemma accept_bottom: "is_state q \<Longrightarrow> 0 \<in> set (entry nonterms q) \<Longrightarrow> q = 0"
proof (rule ccontr)
  assume q: "is_state q" "0 \<in> set (entry nonterms q)" "q \<noteq> 0"
  then obtain m where m: "nat q = Suc m" by (cases "nat q") auto
  obtain x xs where n: "nonterms = x # xs" by (simp add: nonterms_def)
  have l: "length nonterms = 403" by (simp add: nonterms_def)
  have "list_all (\<lambda>N. 0 \<notin> set N) (tl nonterms)" by (simp add: nonterms_def)
  moreover have "entry nonterms q \<in> set (tl nonterms)" using l q(1) m by (auto simp: entry_def n intro!: nth_mem)
  ultimately show False using q(2) by (auto simp: list_all_iff)
qed

section \<open>Stacks of states\<close>

text \<open>A stack of states, the topmost first: each state lies on one that explains its items, and the first state at the bottom.\<close>

fun chain :: "int list \<Rightarrow> bool" where
  "chain [] \<longleftrightarrow> False"
| "chain [s] \<longleftrightarrow> s = 0"
| "chain (s # q # ss) \<longleftrightarrow> 0 < s \<and> s < 403 \<and> link q s \<and> chain (q # ss)"

lemma chain_state: "chain (s # ss) \<Longrightarrow> is_state s"
  by (cases ss) auto

lemma chain_drop: "chain ss \<Longrightarrow> k < length ss \<Longrightarrow> chain (drop k ss)"
proof (induction ss arbitrary: k rule: chain.induct)
  case (3 s q ss)
  then show ?case by (cases k) auto
qed auto

lemma chain_states: "chain ss \<Longrightarrow> s \<in> set ss \<Longrightarrow> is_state s"
  by (induction ss rule: chain.induct) auto

text \<open>The accepting state lies directly on the first one.\<close>

lemma chain_accept:
  assumes "chain (1 # ss)"
  shows "ss = [0]"
proof -
  from assms obtain q ss' where ss: "ss = q # ss'" by (cases ss) auto
  with assms have q: "is_state q" and c: "chain (q # ss')" by (auto dest: chain_state)
  have "0 \<in> set (entry nonterms q)" using assms by (simp add: ss link_def link_item_def state_1_kernel accept_sym)
  with q have "q = 0" by (rule accept_bottom)
  with c ss show ?thesis by (cases ss') auto
qed

text \<open>
  Below the states of a right side up to the dot lies a state that expects the left side, and the symbols of these states are that part
  of the right side.
\<close>

lemma chain_pop:
  assumes "chain ss" and "(n, int d) \<in> set (entry kernels (hd ss))"
  shows "0 < d \<and> d < length ss \<and> entry yyR1 n \<in> set (entry nonterms (ss ! d)) \<and>
    map (entry yyChk) (rev (take d ss)) = take d (entry grammar_rhs n)"
  using assms
proof (induction d arbitrary: ss)
  case 0
  then obtain s ss' where ss: "ss = s # ss'" by (cases ss) auto
  with 0 chain_state [of s ss'] item_facts [of s "(n, 0)"] show ?case by (simp add: item_ok_def)
next
  case (Suc d)
  then obtain s q ss' where ss: "ss = s # q # ss'" by (cases ss rule: chain.cases) (auto simp: state_0_kernel)
  then have s: "is_state s" and l: "link q s" and c: "chain (q # ss')" using Suc.prems(1) by auto
  have it: "(n, int (Suc d)) \<in> set (entry kernels s)" using Suc.prems(2) by (simp add: ss)
  have "item_ok s (n, int (Suc d))" using item_facts [OF s it] .
  then have r: "take (Suc d) (entry grammar_rhs n) = take d (entry grammar_rhs n) @ [entry yyChk s]"
    by (simp add: item_ok_def entry_def take_Suc_conv_app_nth)
  have "link_item q (n, int (Suc d))" using l it by (auto simp: link_def list_all_iff)
  then show ?case
  proof (cases "d = 0")
    case True
    with \<open>link_item q (n, int (Suc d))\<close> r show ?thesis by (simp add: link_item_def ss)
  next
    case False
    with \<open>link_item q (n, int (Suc d))\<close> have "(n, int d) \<in> set (entry kernels q)" by (simp add: link_item_def)
    with Suc.IH [of "q # ss'"] c r show ?thesis by (auto simp: ss)
  qed
qed

end
