(* ===== verification/Sql_Typing.thy ===== *)
theory Sql_Typing
  imports Sql_Parser Sql_Grammar
begin

text \<open>
  The values of the grammar symbols (src/sqlparser/sql.go): which field of \<open>yySymType\<close> a symbol of the grammar has set, and that
  the action of every production sets it for the left side when the symbols of the right side have it. So no action uses a nil child.
\<close>

section \<open>Typed values\<close>

text \<open>
  The fields by nonterminal: \<open>command\<close> and the statements (2, 4 to 11, 70 to 76), \<open>select_statement\<close> (3), \<open>select_expression\<close> (18),
  \<open>expression\<close> (21), \<open>table_expression\<close> (23), \<open>simple_table_expression\<close> (25), \<open>dml_table_expression\<close> (26), \<open>boolean_expression\<close> and
  \<open>condition\<close> (30, 31), \<open>row_list\<close> (33), \<open>value\<close> and \<open>value_expression\<close> (34, 35), \<open>tuple\<close> (36), \<open>subquery\<close> (40), \<open>column_name\<close> (42),
  \<open>case_expression\<close> (43), \<open>when_expression\<close> (45), \<open>order\<close> (52), \<open>update_expression\<close> (60).
\<close>

definition typed :: "int \<Rightarrow> yySymType \<Rightarrow> bool" where
  "typed X v \<longleftrightarrow>
     (if X \<in> {- 2, - 4, - 5, - 6, - 7, - 8, - 9, - 10, - 11, - 70, - 71, - 72, - 73, - 74, - 75, - 76} then sy_statement v \<noteq> None
      else if X = - 3 then sy_selStmt v \<noteq> None
      else if X = - 18 then sy_selectExpr v \<noteq> None
      else if X = - 21 then sy_expr v \<noteq> None
      else if X = - 23 then sy_tableExpr v \<noteq> None
      else if X = - 25 then sy_smTableExpr v \<noteq> None
      else if X = - 26 then sy_tableName v \<noteq> None
      else if X = - 30 \<or> X = - 31 then sy_boolExpr v \<noteq> None
      else if X = - 33 then sy_insRows v \<noteq> None
      else if X = - 34 \<or> X = - 35 then sy_valExpr v \<noteq> None
      else if X = - 36 then sy_tuple v \<noteq> None
      else if X = - 40 then sy_subquery v \<noteq> None
      else if X = - 42 then sy_colName v \<noteq> None
      else if X = - 43 then sy_caseExpr v \<noteq> None
      else if X = - 45 then sy_when v \<noteq> None
      else if X = - 52 then sy_order v \<noteq> None
      else if X = - 60 then sy_updateExpr v \<noteq> None
      else True)"

lemma typed_yys [simp]: "typed X (v\<lparr>sy_yys := s\<rparr>) = typed X v"
  by (simp add: typed_def)

fun typed_args :: "int list \<Rightarrow> nat \<Rightarrow> yySymType list \<Rightarrow> bool" where
  "typed_args [] i d \<longleftrightarrow> True"
| "typed_args (X # Xs) i d \<longleftrightarrow> typed X (d ! i) \<and> typed_args Xs (i + 1) d"

definition sound_action :: "int \<times> yy_action \<Rightarrow> bool" where
  "sound_action a \<longleftrightarrow>
     (\<forall>d v. typed_args (entry grammar_rhs (fst a)) 1 d \<longrightarrow> (entry grammar_rhs (fst a) \<noteq> [] \<longrightarrow> v = d ! 1) \<longrightarrow>
       (case snd a d v of Inl e \<Rightarrow> False | Inr v' \<Rightarrow> typed (- entry yyR1 (fst a)) v'))"

lemma need_Some: "x \<noteq> None \<Longrightarrow> need x f = f (the x)"
  by (auto simp: need_def)

lemmas r1_entries = indexed_entries [OF yyR1_def, simplified index_simps, simplified last_index_simps]
lemmas rhs_entries = indexed_entries [OF grammar_rhs_def, simplified index_simps, simplified last_index_simps]

lemmas action_defs = set_statement_def ddl_def hints_def set_bool_def compare_cond_def membership_def range_cond_def
  set_val_def binary_def unary_action_def Let_def

lemmas sound_simps = sound_action_def typed_def need_Some action_defs r1_entries rhs_entries

lemma statements_sound: "list_all sound_action actions_statements"
  by (simp add: actions_statements_def sound_simps del: One_nat_def)

lemma commands_sound: "list_all sound_action actions_commands"
  by (simp add: actions_commands_def sound_simps del: One_nat_def)

lemma select_list_sound: "list_all sound_action actions_select_list"
  by (simp add: actions_select_list_def sound_simps del: One_nat_def)

lemma tables_sound: "list_all sound_action actions_tables"
  by (simp add: actions_tables_def sound_simps del: One_nat_def)

lemma conditions_sound: "list_all sound_action actions_conditions"
  by (simp add: actions_conditions_def sound_simps del: One_nat_def)

lemma rows_sound: "list_all sound_action actions_rows"
  by (simp add: actions_rows_def sound_simps del: One_nat_def)

lemma values_sound: "list_all sound_action actions_values"
  by (simp add: actions_values_def sound_simps del: One_nat_def)

lemma names_sound: "list_all sound_action actions_names"
  by (simp add: actions_names_def sound_simps del: One_nat_def)

lemma clauses_sound: "list_all sound_action actions_clauses"
  by (simp add: actions_clauses_def sound_simps del: One_nat_def)

lemma options_sound: "list_all sound_action actions_options"
  by (simp add: actions_options_def sound_simps del: One_nat_def)

lemmas groups_sound = statements_sound commands_sound select_list_sound tables_sound conditions_sound rows_sound values_sound
  names_sound clauses_sound options_sound

lemma value_actions_sound: "list_all sound_action value_actions"
  by (simp add: value_actions_def groups_sound)

text \<open>The productions without an action: their left side has the field of their first symbol.\<close>

definition plain_productions :: "int list" where
  "plain_productions = [3..17] @ [101] @ [198..201] @ [204..214]"

lemma plain_sound: "list_all (\<lambda>n. sound_action (n, \<lambda>d v. Inr v)) plain_productions"
  by (simp add: plain_productions_def sound_action_def typed_def r1_entries rhs_entries del: One_nat_def)

lemma value_actions_fst:
  "map fst value_actions = [2] @ [18..48] @ [51..100] @ [102..186] @ [188..197] @ [202, 203, 215, 217, 218]"
  by (simp add: value_actions_def actions_statements_def actions_commands_def actions_select_list_def actions_tables_def
      actions_conditions_def actions_rows_def actions_values_def actions_names_def actions_clauses_def actions_options_def)

lemma value_action_sound:
  assumes "1 \<le> n" "n < 219" "n \<notin> {1, 49, 50, 187, 216}"
  shows "sound_action (n, value_action n)"
proof (cases "map_of value_actions n")
  case None
  then have "n \<notin> set (map fst value_actions)" by (simp add: map_of_eq_None_iff)
  with assms have "n \<in> set plain_productions"
    unfolding value_actions_fst plain_productions_def by (simp del: upto_rec_numeral) arith
  with plain_sound None show ?thesis by (simp add: list_all_iff value_action_def)
next
  case (Some f)
  then have "(n, f) \<in> set value_actions" by (rule map_of_SomeD)
  with value_actions_sound Some show ?thesis by (auto simp: list_all_iff value_action_def)
qed

text \<open>The productions with an effect on the parser: the first has a statement, and no left side needs a field.\<close>

lemma effects_sound:
  assumes "n \<in> {1, 49, 50, 187, 216}"
  shows "typed (- entry yyR1 n) v" and "n = 1 \<Longrightarrow> typed_args (entry grammar_rhs n) 1 d \<Longrightarrow> sy_statement (d ! 1) \<noteq> None"
  using assms by (auto simp: typed_def r1_entries rhs_entries simp del: One_nat_def)

end
