(* ===== verification/Sql_Parser_Inv.thy ===== *)
theory Sql_Parser_Inv
  imports Sql_Typing
begin

text \<open>
  The driver of the generated parser (src/sqlparser/sql.go) on every input. The invariant describes its stack: the states follow the
  automaton, every value has the field of its symbol, and the tree is there once a command is reduced. Each round keeps it and decreases a
  measure made of the input left, the weights of the symbols on the stack and the rank of the topmost state. So the parser always returns,
  never leaves a table or the stack, and an accepted statement has a tree.
\<close>

section \<open>The stack\<close>

definition stack :: "yyparser \<Rightarrow> yySymType list" where
  "stack p = rev (take (nat (yyp p + 1)) (yyS p))"

definition states :: "yyparser \<Rightarrow> int list" where
  "states p = map sy_yys (stack p)"

definition stack_bounds :: "yyparser \<Rightarrow> bool" where
  "stack_bounds p \<longleftrightarrow> - 1 \<le> yyp p \<and> yyp p < int (length (yyS p)) \<and> yyS p \<noteq> []"

lemma grow_length: "0 < length st \<Longrightarrow> i \<le> int (length st) \<Longrightarrow> i < int (length (grow i st))"
  by (auto simp: grow_def)

lemma grow_nth: "i < length st \<Longrightarrow> grow j st ! i = st ! i"
  by (simp add: grow_def nth_append)

lemma grow_take: "k \<le> length st \<Longrightarrow> take k (grow j st) = take k st"
  by (simp add: grow_def)

lemma grow_le: "length st \<le> length (grow j st)"
  by (simp add: grow_def)

lemma stack_length: "stack_bounds p \<Longrightarrow> length (stack p) = nat (yyp p + 1)"
  by (auto simp: stack_def stack_bounds_def)

lemma stack_nth:
  assumes "stack_bounds p" "int i \<le> yyp p"
  shows "stack p ! i = yyS p ! nat (yyp p - int i)"
proof -
  have "length (take (nat (yyp p + 1)) (yyS p)) = nat (yyp p + 1)" using assms by (auto simp: stack_bounds_def)
  moreover have "nat (yyp p + 1) - Suc i = nat (yyp p - int i)" using assms(2) by linarith
  ultimately show ?thesis using assms unfolding stack_def by (subst rev_nth) (auto simp: stack_bounds_def)
qed

lemma yystack_push:
  assumes "stack_bounds p"
  obtains q st where "yystack p = Inr q" "q = p\<lparr>yyp := yyp p + 1, yyS := st\<rparr>" "stack_bounds q"
    "stack q = (yyVAL p)\<lparr>sy_yys := yystate p\<rparr> # stack p"
proof
  let ?i = "yyp p + 1" and ?st = "grow (yyp p + 1) (yyS p)"
  let ?ns = "?st[nat ?i := (yyVAL p)\<lparr>sy_yys := yystate p\<rparr>]"
  have i: "0 \<le> ?i" "?i < int (length ?st)" using assms grow_length [of "yyS p" ?i] by (auto simp: stack_bounds_def)
  then show "yystack p = Inr (p\<lparr>yyp := ?i, yyS := ?ns\<rparr>)" by (simp add: yystack_def Let_def at_index_def)
  have g: "take (nat ?i) ?st = take (nat ?i) (yyS p)" using assms by (intro grow_take) (auto simp: stack_bounds_def)
  have n: "nat (?i + 1) = Suc (nat ?i)" using i by linarith
  have "take (nat (?i + 1)) ?ns = take (nat ?i) (yyS p) @ [(yyVAL p)\<lparr>sy_yys := yystate p\<rparr>]"
    unfolding n using i g by (simp add: take_Suc_conv_app_nth)
  then show "stack (p\<lparr>yyp := ?i, yyS := ?ns\<rparr>) = (yyVAL p)\<lparr>sy_yys := yystate p\<rparr> # stack p" by (simp add: stack_def)
  show "stack_bounds (p\<lparr>yyp := ?i, yyS := ?ns\<rparr>)" using i by (auto simp: stack_bounds_def)
qed rule

section \<open>The invariant\<close>

definition parser_ok :: "yyparser \<Rightarrow> bool" where
  "parser_ok p \<longleftrightarrow>
     stack_bounds p \<and> chain (states p) \<and> yystate p = hd (states p) \<and>
     (\<forall>v \<in> set (stack p). typed (entry yyChk (sy_yys v)) v) \<and>
     Errflag p = 0 \<and> (0 \<le> yychar p \<longrightarrow> 1 \<le> yytoken p) \<and> (1 \<in> set (states p) \<longrightarrow> ParseTree p \<noteq> None)"

definition input_left :: "yyparser \<Rightarrow> nat" where
  "input_left p =
     (if yychar p < 0 then 20 * remaining (yylex p) else if yytoken p = yyEofCode then 0 else 20 * (remaining (yylex p) + 1))"

definition stack_weight :: "int list \<Rightarrow> nat" where
  "stack_weight ss = sum_list (map (\<lambda>s. weight (entry yyChk s)) ss) + entry ranks (hd ss)"

definition work_left :: "yyparser \<Rightarrow> nat" where
  "work_left p = input_left p + stack_weight (states p)"

text \<open>
  The tokens of a parse: the one that is read and not shifted yet, and the ones that a round reads.
\<close>

definition pending :: "yyparser \<Rightarrow> int list" where
  "pending p = (if yychar p < 0 then [] else [yytoken p])"

definition read_token :: "yyparser \<Rightarrow> int list" where
  "read_token p = (if yychar p < 0 then (case lookahead p of Inr q \<Rightarrow> [yytoken q] | Inl e \<Rightarrow> []) else [])"

definition default_reads :: "yyparser \<Rightarrow> int list" where
  "default_reads p = (if entry yyDef (yystate p) = - 2 then read_token p else [])"

definition round_reads :: "yyparser \<Rightarrow> int list" where
  "round_reads p = (if entry yyPact (yystate p) \<le> yyFlag then default_reads p else read_token p)"

text \<open>The moves of the automaton on stacks of states: a shift of a token, and a reduction by a production.\<close>

inductive moves :: "int list \<Rightarrow> int list \<Rightarrow> int list \<Rightarrow> bool" where
  shift: "0 < entry yyChk s \<Longrightarrow> moves ss [entry yyChk s] (s # ss)"
| reduce: "1 \<le> n \<Longrightarrow> n < 219 \<Longrightarrow> k < length ss \<Longrightarrow> map (entry yyChk) (rev (take k ss)) = entry grammar_rhs n \<Longrightarrow>
    entry yyChk s = - entry yyR1 n \<Longrightarrow> moves ss [] (s # drop k ss)"

lemma new_parser_ok:
  "\<exists>p. yystack (yyNewParser tkn) = Inr p \<and> parser_ok p \<and> states p = [0] \<and> pending p = [] \<and> yylex p = tkn"
proof -
  have b: "stack_bounds (yyNewParser tkn)" by (simp add: stack_bounds_def yyNewParser_def)
  obtain q st where q: "yystack (yyNewParser tkn) = Inr q" "q = (yyNewParser tkn)\<lparr>yyp := 0, yyS := st\<rparr>" "stack_bounds q"
    "stack q = zero_sym # stack (yyNewParser tkn)"
    by (rule yystack_push [OF b]) (auto simp: yyNewParser_def zero_sym_def)
  have "stack (yyNewParser tkn) = []" by (simp add: stack_def yyNewParser_def)
  moreover have "typed (entry yyChk 0) zero_sym" by (simp add: typed_def entry_def yyChk_def)
  moreover have "yystate q = 0" "Errflag q = 0" "yychar q = - 1" by (simp_all add: q(2) yyNewParser_def)
  moreover have "sy_yys zero_sym = 0" by (simp add: zero_sym_def)
  ultimately have "parser_ok q" using q(3,4) by (simp add: parser_ok_def states_def)
  moreover have "states q = [0]" using q(4) \<open>stack (yyNewParser tkn) = []\<close> \<open>sy_yys zero_sym = 0\<close> by (simp add: states_def)
  moreover have "pending q = []" using \<open>yychar q = - 1\<close> by (simp add: pending_def)
  moreover have "yylex q = tkn" by (simp add: q(2) yyNewParser_def)
  ultimately show ?thesis using q(1) by blast
qed

section \<open>Reading a token\<close>

lemma Tok1_positive: "0 \<le> c \<Longrightarrow> c < int (length yyTok1) \<Longrightarrow> 1 \<le> entry yyTok1 c"
  by (rule entry_in [of "\<lambda>t. 1 \<le> t"]) (simp_all add: yyTok1_def)

lemma Tok2_positive: "0 \<le> c \<Longrightarrow> c < int (length yyTok2) \<Longrightarrow> 1 \<le> entry yyTok2 c"
  by (rule entry_in [of "\<lambda>t. 1 \<le> t"]) (simp_all add: yyTok2_def)

lemma yy_translate_ok: "\<exists>t. yy_translate c = Inr t \<and> 1 \<le> t \<and> (c \<le> 0 \<longrightarrow> t = yyEofCode)"
proof -
  have u: "at_index yyTok2 1 = Inr 3" "at_index yyTok1 0 = Inr 1" by (simp_all add: at_index_def yyTok2_def yyTok1_def)
  consider "c \<le> 0" | "0 < c" "c < int (length yyTok1)" | "yyPrivate \<le> c" "c < yyPrivate + int (length yyTok2)"
    | "int (length yyTok1) \<le> c" "\<not> (yyPrivate \<le> c \<and> c < yyPrivate + int (length yyTok2))" by linarith
  then show ?thesis
  proof cases
    case 2
    with Tok1_positive [of c] show ?thesis by (simp add: yy_translate_def at_index_entry)
  next
    case 3
    with Tok2_positive [of "c - yyPrivate"] show ?thesis by (simp add: yy_translate_def at_index_entry)
  next
    case 4
    then have "tok3_search c yyTok3 0 = Inr 0" by (simp add: yyTok3_def)
    moreover have "\<not> c \<le> 0" "\<not> c < int (length yyTok1)" using 4 by simp_all
    ultimately show ?thesis using 4(2) unfolding yy_translate_def by (simp only: if_False) (simp add: u)
  qed (simp add: yy_translate_def u)
qed

lemma lookahead_ok:
  assumes "parser_ok p"
  obtains q where "lookahead p = Inr q" "parser_ok q" "input_left q \<le> input_left p" "stack q = stack p"
    "1 \<le> yytoken q" "0 \<le> yychar q" "ParseTree q = ParseTree p" "yystate q = yystate p" "pending q = pending p @ read_token p"
proof (cases "yychar p < 0")
  case False
  with assms that [of p] show ?thesis by (simp add: lookahead_def parser_ok_def pending_def read_token_def)
next
  case True
  obtain c b t where l: "Lex (sy_bytes (yylval p)) (yylex p) = Inr (c, b, t)" and c: "0 \<le> c" and
    r: "c \<noteq> 0 \<longrightarrow> remaining t < remaining (yylex p)" using Lex_returns by blast
  obtain k where k: "yy_translate c = Inr k" "1 \<le> k" "c \<le> 0 \<longrightarrow> k = yyEofCode" using yy_translate_ok by blast
  let ?q = "p\<lparr>yychar := c, yytoken := k, yylval := (yylval p)\<lparr>sy_bytes := b\<rparr>, yylex := t\<rparr>"
  have "stack ?q = stack p" by (simp add: stack_def)
  moreover have "parser_ok ?q"
    using assms k(2) by (simp add: parser_ok_def states_def stack_def stack_bounds_def)
  moreover have "input_left ?q \<le> input_left p" using True r k(3) by (auto simp: input_left_def)
  moreover have la: "lookahead p = Inr ?q" using True by (simp add: lookahead_def yylex1_def l k(1))
  moreover have "pending ?q = pending p @ read_token p" using True c by (simp add: pending_def read_token_def la)
  ultimately show ?thesis using that [of ?q] k c by simp
qed

section \<open>One round\<close>

definition push_ok :: "nat \<Rightarrow> int list \<Rightarrow> int list \<Rightarrow> yyparser \<Rightarrow> bool" where
  "push_ok m ss ts q \<longleftrightarrow>
     stack_bounds q \<and> chain (yystate q # states q) \<and> typed (entry yyChk (yystate q)) (yyVAL q) \<and>
     (\<forall>v \<in> set (stack q). typed (entry yyChk (sy_yys v)) v) \<and>
     Errflag q = 0 \<and> (0 \<le> yychar q \<longrightarrow> 1 \<le> yytoken q) \<and> (1 \<in> set (yystate q # states q) \<longrightarrow> ParseTree q \<noteq> None) \<and>
     input_left q + stack_weight (yystate q # states q) < m \<and>
     (\<exists>us. moves ss us (yystate q # states q) \<and> ts = us @ pending q)"

text \<open>What a round does on the states \<open>ss\<close>, when \<open>ts\<close> are the tokens read and not shifted: it accepts at the end of the input only.\<close>

definition accepted :: "int list \<Rightarrow> int list \<Rightarrow> yyparser \<Rightarrow> bool" where
  "accepted ss ts q \<longleftrightarrow> ParseTree q \<noteq> None \<and> hd ss = 1 \<and> ts = [yyEofCode]"

definition round_ok :: "nat \<Rightarrow> int list \<Rightarrow> int list \<Rightarrow> yyround res \<Rightarrow> bool" where
  "round_ok m ss ts r \<longleftrightarrow>
     (case r of Inr (Ret c q) \<Rightarrow> c = 0 \<longrightarrow> accepted ss ts q | Inr (Push q) \<Rightarrow> push_ok m ss ts q | _ \<Rightarrow> False)"

lemma round_ok_simps [simp]:
  "round_ok m ss ts (Inr (Ret c q)) \<longleftrightarrow> (c = 0 \<longrightarrow> accepted ss ts q)"
  "round_ok m ss ts (Inr (Push q)) \<longleftrightarrow> push_ok m ss ts q"
  by (simp_all add: round_ok_def)

lemma push_ok_stack:
  assumes "push_ok m ss ts q"
  obtains q' us where "yystack q = Inr q'" "parser_ok q'" "work_left q' < m" "moves ss us (states q')" "ts = us @ pending q'"
proof -
  have b: "stack_bounds q" using assms by (simp add: push_ok_def)
  obtain q' st where q': "yystack q = Inr q'" "q' = q\<lparr>yyp := yyp q + 1, yyS := st\<rparr>" "stack_bounds q'"
    "stack q' = (yyVAL q)\<lparr>sy_yys := yystate q\<rparr> # stack q" by (rule yystack_push [OF b])
  have s: "states q' = yystate q # states q" by (simp add: states_def q'(4))
  have "yystate q' = yystate q" "Errflag q' = Errflag q" "yychar q' = yychar q" "yytoken q' = yytoken q" "ParseTree q' = ParseTree q"
    and i: "input_left q' = input_left q"
    by (simp_all add: q'(2) input_left_def)
  then have "parser_ok q'" using assms q'(3) s by (simp add: parser_ok_def push_ok_def q'(4))
  moreover have "work_left q' < m" using assms by (simp add: work_left_def s i push_ok_def)
  moreover have "pending q' = pending q" by (simp add: q'(2) pending_def)
  with assms s obtain us where "moves ss us (states q')" "ts = us @ pending q'" unfolding push_ok_def by metis
  ultimately show ?thesis using that q'(1) by blast
qed

text \<open>No state shifts the error token, so the first error ends the parse.\<close>

lemma yy_recover_None:
  "\<forall>i < k. i < length st \<and> is_state (sy_yys (st ! i)) \<Longrightarrow> yy_recover st k = Inr None"
proof (induction k)
  case (Suc k)
  let ?n = "entry yyPact (sy_yys (st ! k)) + yyErrCode"
  from Suc have s: "k < length st" "is_state (sy_yys (st ! k))" and r: "yy_recover st k = Inr None" by auto
  have "entry yyChk (entry yyAct ?n) \<noteq> yyErrCode" "is_state (entry yyAct ?n)" if "0 \<le> ?n" "?n < yyLast"
    using no_error_shift Act_state that by blast+
  with s r show ?case
    by (simp add: at_index_entry [of "sy_yys (st ! k)" yyPact] at_index_entry [of _ yyAct] at_index_entry [of _ yyChk] Let_def)
qed simp

lemma yy_error_ok:
  assumes "parser_ok p"
  shows "round_ok m ss ts (yy_error p)"
proof -
  have b: "stack_bounds p" "Errflag p = 0" "chain (states p)" using assms by (auto simp: parser_ok_def)
  have "i < length (yyS p) \<and> is_state (sy_yys (yyS p ! i))" if "i < nat (yyp p + 1)" for i
  proof -
    have "yyS p ! i = take (nat (yyp p + 1)) (yyS p) ! i" "i < length (take (nat (yyp p + 1)) (yyS p))"
      using that b(1) by (auto simp: stack_bounds_def)
    then have "yyS p ! i \<in> set (stack p)" by (simp add: stack_def del: nth_take)
    with chain_states [OF b(3)] that b(1) show ?thesis by (auto simp: states_def stack_bounds_def)
  qed
  then have "yy_recover (yyS p) (nat (yyp p + 1)) = Inr None" by (intro yy_recover_None) blast
  with b(2) show ?thesis by (simp add: yy_error_def yyErrorMessage_def yyErrorVerbose_def)
qed

section \<open>Reductions\<close>

lemma typed_args_iff: "typed_args Xs j d \<longleftrightarrow> (\<forall>i < length Xs. typed (Xs ! i) (d ! (j + i)))"
proof (induction Xs arbitrary: j)
  case (Cons X Xs)
  then show ?case by (auto simp: less_Suc_eq_0_disj add.assoc)
qed simp

lemma yy_goto_state: "is_state q \<Longrightarrow> 0 \<le> A \<Longrightarrow> A < 78 \<Longrightarrow> yy_goto A q = Inr (goto_state q A)"
  using Pgo_range [of A] by (simp add: yy_goto_def goto_state_def at_index_entry Act_state Let_def)

definition ready :: "int \<Rightarrow> int \<Rightarrow> bool" where
  "ready s n \<longleftrightarrow>
     1 \<le> n \<and> n < 219 \<and>
     (if entry yyR2 n = 0
      then entry yyR1 n \<in> set (entry nonterms s) \<and> weight (- entry yyR1 n) + entry ranks (goto_state s (entry yyR1 n)) < entry ranks s
      else (n, entry yyR2 n) \<in> set (entry kernels s))"

text \<open>The states of the right side of a production that is ready lie on top of the stack, above a state that expects its left side.\<close>

lemma ready_states:
  assumes "chain ss" "ready (hd ss) n" "k = length (entry grammar_rhs n)"
  shows "k < length ss" "entry yyR1 n \<in> set (entry nonterms (ss ! k))" "map (entry yyChk) (rev (take k ss)) = entry grammar_rhs n"
    "entry yyR2 n = int k" "1 \<le> entry yyR1 n" "entry yyR1 n < 78"
proof -
  have n: "1 \<le> n" "n < 219" using assms(2) by (auto simp: ready_def)
  then have p: "production_ok n" by (rule production_facts)
  then show r: "entry yyR2 n = int k" "1 \<le> entry yyR1 n" "entry yyR1 n < 78" using assms(3) by (auto simp: production_ok_def)
  have "k < length ss \<and> entry yyR1 n \<in> set (entry nonterms (ss ! k)) \<and> map (entry yyChk) (rev (take k ss)) = entry grammar_rhs n"
  proof (cases "k = 0")
    case True
    with assms r show ?thesis by (cases ss) (auto simp: ready_def)
  next
    case False
    then have "(n, int k) \<in> set (entry kernels (hd ss))" using assms(2) r(1) by (simp add: ready_def)
    from chain_pop [OF assms(1) this] assms(3) show ?thesis by auto
  qed
  then show "k < length ss" "entry yyR1 n \<in> set (entry nonterms (ss ! k))" "map (entry yyChk) (rev (take k ss)) = entry grammar_rhs n"
    by auto
qed

text \<open>The stack after a reduction: the goto state above what lay below the right side.\<close>

lemma ready_goto:
  assumes "chain ss" "ready (hd ss) n" "k = length (entry grammar_rhs n)"
  defines "s \<equiv> goto_state (ss ! k) (entry yyR1 n)"
  shows "chain (s # drop k ss)" "entry yyChk s = - entry yyR1 n" "stack_weight (s # drop k ss) < stack_weight ss"
    "s = 1 \<Longrightarrow> n = 1"
proof -
  note f = ready_states [OF assms(1-3)]
  have c: "chain (drop k ss)" using chain_drop [OF assms(1)] f(1) .
  have d: "drop k ss = ss ! k # drop (Suc k) ss" using f(1) by (simp add: Cons_nth_drop_Suc)
  with c have q: "is_state (ss ! k)" using chain_state by metis
  note g = goto_facts [OF q f(2) f(5)]
  show chk: "entry yyChk s = - entry yyR1 n" using g(1) by (simp add: s_def)
  have "is_state s" using goto_state_is_state [OF q] f(5,6) by (simp add: s_def)
  moreover have "s \<noteq> 0" using chk f(6) state_0_sym by auto
  ultimately show "chain (s # drop k ss)" using c d g(2) by (simp add: s_def)
  have n: "1 \<le> n" "n < 219" using assms(2) by (auto simp: ready_def)
  note p = production_facts [OF n]
  show "n = 1" if "s = 1" using that chk state_1_sym p by (simp add: production_ok_def)
  have "sum_list (map (\<lambda>s. weight (entry yyChk s)) (take k ss)) = sum_list (map weight (entry grammar_rhs n))"
    unfolding f(3) [symmetric] by (simp add: rev_map [symmetric] comp_def)
  then have w: "sum_list (map (\<lambda>s. weight (entry yyChk s)) ss) =
      sum_list (map weight (entry grammar_rhs n)) + sum_list (map (\<lambda>s. weight (entry yyChk s)) (drop k ss))"
    by (metis append_take_drop_id map_append sum_list.append)
  show "stack_weight (s # drop k ss) < stack_weight ss"
  proof (cases "k = 0")
    case True
    with assms(2) f(4) have "weight (- entry yyR1 n) + entry ranks s < entry ranks (hd ss)"
      using f(1) by (cases ss) (auto simp: ready_def s_def)
    with True w chk assms(3) show ?thesis by (simp add: stack_weight_def)
  next
    case False
    with p f(4) have "weight (- entry yyR1 n) + entry goto_ranks (entry yyR1 n) < sum_list (map weight (entry grammar_rhs n))"
      by (simp add: production_ok_def)
    with g(3) w chk show ?thesis by (simp add: stack_weight_def s_def)
  qed
qed

lemma reduce_args:
  assumes "stack_bounds p" "k < length (stack p)" "i \<le> k"
  shows "take (k + 1) (drop (nat (yyp p - int k)) (grow j (yyS p))) ! i = stack p ! (k - i)"
proof -
  have y: "int k \<le> yyp p" "nat (yyp p) < length (yyS p)" using assms(1,2) stack_length [OF assms(1)] by (auto simp: stack_bounds_def)
  have e: "nat (yyp p - int (k - i)) = nat (yyp p - int k) + i" using y(1) assms(3) by linarith
  have "nat (yyp p - int k) + i < length (yyS p)" using y assms(3) by linarith
  moreover have "stack p ! (k - i) = yyS p ! nat (yyp p - int (k - i))" using y(1) by (intro stack_nth [OF assms(1)]) simp
  ultimately show ?thesis using assms(3) grow_le [of "yyS p" j] y unfolding e by (simp add: grow_nth)
qed

definition same_stack :: "yyparser \<Rightarrow> yyparser \<Rightarrow> bool" where
  "same_stack p q \<longleftrightarrow>
     yyS q = yyS p \<and> yyp q = yyp p \<and> yystate q = yystate p \<and> Errflag q = Errflag p \<and> yychar q = yychar p \<and> yytoken q = yytoken p \<and>
     remaining (yylex q) = remaining (yylex p)"

lemma yy_act_ok:
  assumes "1 \<le> n" "n < 219" "typed_args (entry grammar_rhs n) 1 d" "entry grammar_rhs n \<noteq> [] \<longrightarrow> yyVAL p = d ! 1"
  shows "(\<exists>q. yy_act n d p = Inr (Ret 1 q)) \<or>
    (\<exists>q. yy_act n d p = Inr (Push q) \<and> same_stack p q \<and> typed (- entry yyR1 n) (yyVAL q) \<and>
       (if n = 1 then ParseTree q \<noteq> None else ParseTree q = ParseTree p))"
proof (cases "n \<in> {1, 49, 50, 187, 216}")
  case True
  note t = effects_sound(1) [OF True] and one = effects_sound(2) [OF True]
  from True show ?thesis
    using t one assms(3) by (elim insertE) (auto simp: yy_act_def share_mode_def same_stack_def remaining_def)
next
  case False
  have "sound_action (n, value_action n)" using value_action_sound assms(1,2) False by blast
  then have "case value_action n d (yyVAL p) of Inl e \<Rightarrow> False | Inr v \<Rightarrow> typed (- entry yyR1 n) v"
    unfolding sound_action_def fst_conv snd_conv using assms(3,4) by blast
  then obtain v where "value_action n d (yyVAL p) = Inr v" "typed (- entry yyR1 n) v" by (auto split: sum.splits)
  with False show ?thesis by (simp add: yy_act_def same_stack_def)
qed

lemma yy_reduce_ok:
  assumes ok: "parser_ok p" and r: "ready (yystate p) n"
  shows "round_ok (work_left p) (states p) (pending p) (yy_reduce n p)"
proof -
  define k where "k = length (entry grammar_rhs n)"
  define b where "b = yyp p - int k"
  define st where "st = grow (b + 1) (yyS p)"
  define d where "d = take (k + 1) (drop (nat b) st)"
  have bd: "stack_bounds p" and c: "chain (states p)" and top: "yystate p = hd (states p)" using ok by (auto simp: parser_ok_def)
  have r': "ready (hd (states p)) n" using r top by simp
  note f = ready_states [OF c r' k_def] and g = ready_goto [OF c r' k_def]
  define s where "s = goto_state (states p ! k) (entry yyR1 n)"
  have n: "1 \<le> n" "n < 219" using r by (auto simp: ready_def)
  have k: "k < length (stack p)" using f(1) by (simp add: states_def)
  then have b: "0 \<le> b" "b < int (length (yyS p))" using bd stack_length [OF bd] by (auto simp: b_def stack_bounds_def)
  then have b1: "b + 1 < int (length st)" using bd grow_length [of "yyS p" "b + 1"] by (auto simp: st_def stack_bounds_def)
  have args: "d ! i = stack p ! (k - i)" if "i \<le> k" for i
    using reduce_args [OF bd k that, of "b + 1"] by (simp add: d_def b_def st_def)
  have ty: "typed_args (entry grammar_rhs n) 1 d"
    unfolding typed_args_iff
  proof (intro allI impI)
    fix i assume i: "i < length (entry grammar_rhs n)"
    then have m: "stack p ! (k - Suc i) \<in> set (stack p)" using k by (intro nth_mem) (simp add: k_def)
    have "map (entry yyChk) (rev (take k (states p))) ! i = entry yyChk (states p ! (k - Suc i))"
      using i f(1) by (simp add: rev_nth k_def)
    then have "entry grammar_rhs n ! i = entry yyChk (states p ! (k - Suc i))" by (simp add: f(3))
    also have "states p ! (k - Suc i) = sy_yys (stack p ! (k - Suc i))" using i k by (simp add: states_def k_def)
    finally show "typed (entry grammar_rhs n ! i) (d ! (1 + i))"
      using ok m args [of "Suc i"] i by (simp add: parser_ok_def k_def)
  qed
  let ?p = "p\<lparr>yyS := st, yyp := b, yyVAL := entry st (b + 1), yystate := s\<rparr>"
  have "entry st (b + 1) = d ! 1" if "entry grammar_rhs n \<noteq> []"
    using that b b1 by (simp add: entry_def d_def k_def nat_add_distrib add.commute)
  then have v: "entry grammar_rhs n \<noteq> [] \<longrightarrow> yyVAL ?p = d ! 1" by simp
  have below: "sy_yys (entry st b) = states p ! k" "is_state (states p ! k)"
  proof -
    have "entry st b = d ! 0" using b b1 by (simp add: entry_def d_def)
    then show "sy_yys (entry st b) = states p ! k" using args [of 0] k by (simp add: states_def)
    show "is_state (states p ! k)" using chain_states [OF c] f(1) by simp
  qed
  have red: "yy_reduce n p = yy_act n d ?p"
    using n b b1 below f(4-6) yy_goto_state [of "states p ! k" "entry yyR1 n"]
    by (simp add: yy_reduce_def at_index_entry Let_def b_def [symmetric] st_def [symmetric] s_def [symmetric] d_def nat_add_distrib)
  have stk: "stack ?p = drop k (stack p)"
  proof -
    have "take (nat (b + 1)) st = take (nat (b + 1)) (yyS p)" using b by (simp add: st_def grow_take)
    moreover have "nat (b + 1) = nat (yyp p + 1) - k" using b by (simp add: b_def)
    moreover have "length (take (nat (yyp p + 1)) (yyS p)) = nat (yyp p + 1)" using bd by (auto simp: stack_bounds_def)
    ultimately show ?thesis by (simp add: stack_def drop_rev del: length_take)
  qed
  from yy_act_ok [OF n ty v] show ?thesis
  proof (elim disjE exE conjE)
    fix q assume q: "yy_act n d ?p = Inr (Push q)" "same_stack ?p q" "typed (- entry yyR1 n) (yyVAL q)"
      "if n = 1 then ParseTree q \<noteq> None else ParseTree q = ParseTree ?p"
    have "stack q = drop k (stack p)" using q(2) stk by (simp add: same_stack_def stack_def)
    then have ss: "states q = drop k (states p)" and sub: "set (stack q) \<subseteq> set (stack p)"
      by (simp_all add: states_def drop_map set_drop_subset)
    have sub': "set (states q) \<subseteq> set (states p)" by (simp add: ss set_drop_subset)
    have "stack_bounds q" using q(2) b b1 by (auto simp: same_stack_def stack_bounds_def)
    moreover have "yystate q = s" "input_left q = input_left p" using q(2) by (auto simp: same_stack_def input_left_def)
    moreover have "moves (states p) [] (s # states q)"
      using moves.reduce [OF n f(1,3)] g(2) by (simp add: ss s_def)
    moreover have "pending q = pending p" using q(2) by (simp add: same_stack_def pending_def)
    ultimately have "push_ok (work_left p) (states p) (pending p) q"
      using q g ok sub sub' unfolding push_ok_def parser_ok_def work_left_def
      by (auto simp: ss s_def same_stack_def split: if_splits)
    then show ?thesis by (simp add: red q(1))
  qed (simp add: red)
qed

section \<open>The loop\<close>

lemma yydefault_ok:
  assumes ok: "parser_ok p"
  shows "round_ok (work_left p) (states p) (pending p @ default_reads p) (yydefault p)"
proof -
  have s: "is_state (yystate p)" using ok chain_states [of "states p"] by (cases "states p") (auto simp: parser_ok_def)
  then have D: "at_index yyDef (yystate p) = Inr (entry yyDef (yystate p))" by (simp add: at_index_entry)
  note d = default_facts [OF s]
  show ?thesis
  proof (cases "entry yyDef (yystate p) = - 2")
    case True
    with d have one: "yystate p = 1" by (simp add: default_ok_def)
    with ok have tree: "ParseTree p \<noteq> None" by (cases "states p") (auto simp: parser_ok_def)
    obtain q where q: "lookahead p = Inr q" "parser_ok q" "ParseTree q = ParseTree p" "yystate q = 1" "0 \<le> yychar q"
      "pending q = pending p @ read_token p"
      by (rule lookahead_ok [OF ok]) (auto simp: one)
    have "hd (states p) = 1" using ok one by (simp add: parser_ok_def)
    moreover have "pending p @ default_reads p = [yytoken q]" using q(5,6) True by (simp add: pending_def default_reads_def)
    ultimately show ?thesis using True tree q by (simp add: yydefault_def D yyExca_def yy_error_ok accepted_def)
  next
    case False
    then show ?thesis
    proof (cases "entry yyDef (yystate p) = 0")
      case True
      with ok show ?thesis by (simp add: yydefault_def D yy_error_ok)
    next
      case False
      with \<open>entry yyDef (yystate p) \<noteq> - 2\<close> d have "ready (yystate p) (entry yyDef (yystate p))"
        by (simp add: default_ok_def ready_def Let_def)
      with ok False \<open>entry yyDef (yystate p) \<noteq> - 2\<close> show ?thesis by (simp add: yydefault_def D yy_reduce_ok default_reads_def)
    qed
  qed
qed

lemma round_ok_mono: "round_ok m ss ts r \<Longrightarrow> m \<le> m' \<Longrightarrow> round_ok m' ss ts r"
  by (auto simp: round_ok_def push_ok_def split: sum.splits yyround.splits)

definition shifted :: "int \<Rightarrow> yyparser \<Rightarrow> yyparser" where
  "shifted t q = q\<lparr>yychar := - 1, yytoken := - 1, yyVAL := yylval q, yystate := t,
     Errflag := if 0 < Errflag q then Errflag q - 1 else Errflag q\<rparr>"

lemma shifted_ok:
  assumes ok: "parser_ok q" and t: "is_state t" "entry yyChk t = yytoken q" "link (yystate q) t"
    and tok: "1 \<le> yytoken q" "0 \<le> yychar q"
  shows "push_ok (work_left q) (states q) (pending q) (shifted t q)"
proof -
  have "yytoken q \<noteq> yyEofCode" using no_eof_shift [OF t(1)] t(2) by simp
  then have "input_left q = 20 * (remaining (yylex q) + 1)" using tok(2) by (simp add: input_left_def)
  moreover have "input_left (shifted t q) = 20 * remaining (yylex q)" by (simp add: input_left_def shifted_def)
  moreover have "stack_weight (t # states q) \<le> stack_weight (states q) + 18"
    using rank_le [OF t(1)] t(2) tok(1) by (simp add: stack_weight_def weight_def)
  moreover have "stack (shifted t q) = stack q" by (simp add: stack_def shifted_def)
  moreover have t01: "t \<noteq> 1" "t \<noteq> 0" using t(2) tok(1) state_1_sym state_0_sym by auto
  moreover have "chain (t # states q)" using ok t t01 by (cases "states q") (auto simp: parser_ok_def)
  moreover have "typed (yytoken q) v" for v using tok(1) by (auto simp: typed_def)
  moreover have "moves (states q) [yytoken q] (t # states q)" using moves.shift [of t "states q"] t(2) tok(1) by simp
  moreover have "pending q = [yytoken q]" "pending (shifted t q) = []" using tok(2) by (simp_all add: pending_def shifted_def)
  ultimately show ?thesis
    using ok t(2) by (simp add: push_ok_def parser_ok_def work_left_def states_def stack_bounds_def) (simp add: shifted_def)
qed

lemma yynewstate_ok:
  assumes ok: "parser_ok p"
  shows "round_ok (work_left p) (states p) (pending p @ round_reads p) (yynewstate p)"
proof -
  have s: "is_state (yystate p)" using ok chain_states [of "states p"] by (cases "states p") (auto simp: parser_ok_def)
  then have P: "at_index yyPact (yystate p) = Inr (entry yyPact (yystate p))" by (simp add: at_index_entry)
  show ?thesis
  proof (cases "entry yyPact (yystate p) \<le> yyFlag")
    case True
    with ok show ?thesis by (simp add: yynewstate_def P yydefault_ok round_reads_def)
  next
    case simple: False
    obtain q where q: "lookahead p = Inr q" "parser_ok q" "input_left q \<le> input_left p" "stack q = stack p"
      "1 \<le> yytoken q" "0 \<le> yychar q" "yystate q = yystate p" "pending q = pending p @ read_token p"
      by (rule lookahead_ok [OF ok]) blast
    have w: "work_left q \<le> work_left p" using q(3,4) by (simp add: work_left_def states_def)
    have ts: "pending p @ round_reads p = pending q" and ss: "states q = states p"
      using simple q(4,8) by (simp_all add: round_reads_def states_def)
    have "default_reads q = []" using q(6) by (simp add: default_reads_def read_token_def)
    then have def: "round_ok (work_left p) (states p) (pending q) (yydefault q)"
      using yydefault_ok [OF q(2)] round_ok_mono [OF _ w] by (simp add: ss)
    define n where "n = entry yyPact (yystate p) + yytoken q"
    show ?thesis
    proof (cases "0 \<le> n \<and> n < yyLast")
      case False
      with simple q(1) def show ?thesis by (auto simp: yynewstate_def P Let_def n_def [symmetric] ts)
    next
      case True
      define t where "t = entry yyAct n"
      have t: "is_state t" using Act_state True by (simp add: t_def)
      show ?thesis
      proof (cases "entry yyChk t = yytoken q")
        case False
        with True simple q(1) t def show ?thesis
          by (simp add: yynewstate_def P Let_def n_def [symmetric] at_index_entry t_def [symmetric] ts)
      next
        case shift: True
        have "link (yystate q) t" using shift_link [OF s _ _ _ _ shift] simple True q(5,7) by (simp add: t_def n_def)
        then have "push_ok (work_left q) (states p) (pending q) (shifted t q)" using shifted_ok [of q t] q t shift by (simp add: ss)
        then have "round_ok (work_left p) (states p) (pending q) (Inr (Push (shifted t q)))"
          using w round_ok_mono by (metis round_ok_simps(2))
        with True shift simple q(1) t show ?thesis
          by (simp add: yynewstate_def P Let_def n_def [symmetric] at_index_entry t_def [symmetric] ts shifted_def del: round_ok_simps)
      qed
    qed
  qed
qed

lemma yyround_cases:
  assumes "parser_ok p"
  obtains c q where "yyround_of p = Inr (Ret c q)" "c = 0 \<Longrightarrow> accepted (states p) (pending p @ round_reads p) q"
  | q us where "yyround_of p = Inr (Again q)" "parser_ok q" "work_left q < work_left p"
      "moves (states p) us (states q)" "pending p @ round_reads p = us @ pending q"
proof -
  have r: "round_ok (work_left p) (states p) (pending p @ round_reads p) (yynewstate p)" by (rule yynewstate_ok [OF assms])
  then consider c q where "yynewstate p = Inr (Ret c q)" "c = 0 \<longrightarrow> accepted (states p) (pending p @ round_reads p) q"
    | q where "yynewstate p = Inr (Push q)" "push_ok (work_left p) (states p) (pending p @ round_reads p) q"
    by (auto simp: round_ok_def split: sum.splits yyround.splits)
  then show ?thesis
  proof cases
    case 1
    then show ?thesis using that(1) by (simp add: yyround_of_def)
  next
    case 2
    obtain q' us where "yystack q = Inr q'" "parser_ok q'" "work_left q' < work_left p"
      "moves (states p) us (states q')" "pending p @ round_reads p = us @ pending q'" by (rule push_ok_stack [OF 2(2)])
    with 2 show ?thesis using that(2) by (simp add: yyround_of_def)
  qed
qed

lemma yyloop_returns:
  "parser_ok p \<Longrightarrow> \<exists>c q. yyloop p = Some (Inr (c, q)) \<and> (c = 0 \<longrightarrow> ParseTree q \<noteq> None)"
proof (induction "work_left p" arbitrary: p rule: less_induct)
  case less
  from less.prems show ?case
  proof (cases rule: yyround_cases)
    case 1
    then show ?thesis by (subst yyloop.simps) (auto simp: accepted_def)
  next
    case (2 q)
    from less.hyps [OF 2(3) 2(2)] 2(1) show ?thesis by (subst yyloop.simps) auto
  qed
qed

end
