(* ===== verification/Sql_Sentences.thy ===== *)
theory Sql_Sentences
  imports Sql_Parser_Inv
begin

text \<open>
  The language of the parser (src/sqlparser/sql.go): the sentences of the grammar of src/sqlparser/sql.y as derivations, the runs of the
  driver with the tokens they read, and the properties of \<open>Parse\<close>. It returns for every statement; what it accepts is a sentence of the grammar.
\<close>

section \<open>Sentences\<close>

text \<open>\<open>derives X w\<close>: the grammar symbol \<open>X\<close> derives the tokens \<open>w\<close>. The start symbol \<open>any_command\<close> is the nonterminal 1.\<close>

inductive derives :: "int \<Rightarrow> int list \<Rightarrow> bool" and derives_all :: "int list \<Rightarrow> int list \<Rightarrow> bool" where
  token: "0 < t \<Longrightarrow> derives t [t]"
| production: "1 \<le> n \<Longrightarrow> n < 219 \<Longrightarrow> derives_all (entry grammar_rhs n) w \<Longrightarrow> derives (- entry yyR1 n) w"
| none: "derives_all [] []"
| more: "derives X u \<Longrightarrow> derives_all Xs w \<Longrightarrow> derives_all (X # Xs) (u @ w)"

abbreviation sentence :: "int list \<Rightarrow> bool" where
  "sentence \<equiv> derives (- 1)"

inductive_cases derives_all_ConsE: "derives_all (X # Xs) w"

lemma derives_all_snoc: "derives_all Xs u \<Longrightarrow> derives X w \<Longrightarrow> derives_all (Xs @ [X]) (u @ w)"
proof (induction Xs arbitrary: u)
  case Nil
  then have "u = []" by (cases rule: derives_all.cases) auto
  then show ?case using more [OF Nil.prems(2) none] by simp
next
  case (Cons Y Ys)
  then obtain y ys where "u = y @ ys" "derives Y y" "derives_all Ys ys" by (auto elim: derives_all_ConsE)
  with Cons more show ?case by fastforce
qed

text \<open>The symbols of the states on a stack derive the tokens shifted so far.\<close>

inductive fringe :: "int list \<Rightarrow> int list \<Rightarrow> bool" where
  bottom: "fringe [0] []"
| above: "fringe ss w \<Longrightarrow> derives (entry yyChk s) u \<Longrightarrow> fringe (s # ss) (w @ u)"

lemma fringe_pop:
  "fringe ss w \<Longrightarrow> k < length ss \<Longrightarrow>
   \<exists>u v. w = u @ v \<and> fringe (drop k ss) u \<and> derives_all (map (entry yyChk) (rev (take k ss))) v"
proof (induction ss w arbitrary: k rule: fringe.induct)
  case bottom
  then show ?case using fringe.bottom none by auto
next
  case (above ss w s u)
  show ?case
  proof (cases k)
    case 0
    with above.hyps show ?thesis using fringe.above none by (intro exI [of _ "w @ u"] exI [of _ "[]"]) simp
  next
    case (Suc j)
    with above.prems above.IH [of j] obtain x v where "w = x @ v" "fringe (drop j ss) x"
      "derives_all (map (entry yyChk) (rev (take j ss))) v" by auto
    with derives_all_snoc [OF _ above.hyps(2)] Suc show ?thesis by (intro exI [of _ x] exI [of _ "v @ u"]) simp
  qed
qed

lemma fringe_moves: "moves ss us ss' \<Longrightarrow> fringe ss w \<Longrightarrow> fringe ss' (w @ us)"
proof (induction rule: moves.induct)
  case (shift s ss)
  then show ?case by (intro fringe.above token)
next
  case (reduce n k ss s)
  then obtain u v where w: "w = u @ v" and f: "fringe (drop k ss) u" and d: "derives_all (entry grammar_rhs n) v"
    using fringe_pop [of ss w k] by auto
  from reduce d have "derives (entry yyChk s) v" using production [of n v] by simp
  with f w show ?case using fringe.above by simp
qed

section \<open>Runs\<close>

text \<open>\<open>parses p ts (c, q)\<close>: from \<open>p\<close> the driver returns \<open>c\<close> in \<open>q\<close>, and the tokens that it read on the way are \<open>ts\<close>.\<close>

inductive parses :: "yyparser \<Rightarrow> int list \<Rightarrow> int \<times> yyparser \<Rightarrow> bool" where
  returned: "yyround_of p = Inr (Ret c q) \<Longrightarrow> parses p (round_reads p) (c, q)"
| again: "yyround_of p = Inr (Again p') \<Longrightarrow> parses p' ts r \<Longrightarrow> parses p (round_reads p @ ts) r"

lemma yyloop_parses: "parser_ok p \<Longrightarrow> yyloop p = Some (Inr r) \<Longrightarrow> \<exists>ts. parses p ts r"
proof (induction "work_left p" arbitrary: p rule: less_induct)
  case less
  from less.prems(1) show ?case
  proof (cases rule: yyround_cases)
    case (1 c q)
    with less.prems(2) have "r = (c, q)" by (subst (asm) yyloop.simps) simp
    with returned [OF 1(1)] show ?thesis by blast
  next
    case (2 q)
    with less.prems(2) have "yyloop q = Some (Inr r)" by (subst (asm) yyloop.simps) simp
    with less.hyps 2 again show ?thesis by blast
  qed
qed

lemma parses_sentence:
  "parses p ts r \<Longrightarrow> parser_ok p \<Longrightarrow> fringe (states p) w \<Longrightarrow> fst r = 0 \<Longrightarrow>
   \<exists>v. w @ pending p @ ts = v @ [yyEofCode] \<and> sentence v"
proof (induction arbitrary: w rule: parses.induct)
  case (returned p c q)
  from returned.prems(1) show ?case
  proof (cases rule: yyround_cases)
    case (1 c' q')
    with returned have a: "accepted (states p) (pending p @ round_reads p) q" by simp
    then obtain ss where "states p = 1 # ss" using returned.prems(1) by (cases "states p") (auto simp: accepted_def parser_ok_def)
    then have "states p = [1, 0]" using chain_accept [of ss] returned.prems(1) by (simp add: parser_ok_def)
    with returned.prems(2) have "sentence w"
      by (auto elim!: fringe.cases simp: state_1_sym)
    with a show ?thesis by (auto simp: accepted_def)
  qed (use returned in simp)
next
  case (again p p' ts r)
  from again.prems(1) show ?case
  proof (cases rule: yyround_cases)
    case (2 q us)
    with again have q: "q = p'" by simp
    have "fringe (states p') (w @ us)" using fringe_moves [OF 2(4) again.prems(2)] by (simp add: q)
    from again.IH [OF _ this again.prems(3)] 2(2) q obtain v where "(w @ us) @ pending p' @ ts = v @ [yyEofCode]" "sentence v" by auto
    with 2(5) q show ?thesis by (metis append.assoc)
  qed (use again in simp)
qed

section \<open>The number of rounds\<close>

text \<open>The loop of the driver, stopped after \<open>k\<close> rounds.\<close>

fun yyrun :: "nat \<Rightarrow> yyparser \<Rightarrow> (int \<times> yyparser) res option" where
  "yyrun 0 p = None"
| "yyrun (Suc k) p =
     (case yyround_of p of
        Inl e \<Rightarrow> Some (Inl e)
      | Inr (Ret c q) \<Rightarrow> Some (Inr (c, q))
      | Inr (Push q) \<Rightarrow> yyrun k q
      | Inr (Again q) \<Rightarrow> yyrun k q)"

lemma yyrun_enough: "parser_ok p \<Longrightarrow> work_left p < k \<Longrightarrow> yyrun k p = yyloop p"
proof (induction k arbitrary: p)
  case (Suc k)
  from Suc.prems(1) show ?case
  proof (cases rule: yyround_cases)
    case 1
    then show ?thesis by (subst yyloop.simps) simp
  next
    case (2 q)
    with Suc.IH [of q] Suc.prems(2) show ?thesis by (subst yyloop.simps) simp
  qed
qed simp

inductive reachable :: "tokenizer \<Rightarrow> yyparser \<Rightarrow> bool" for tkn where
  start: "yystack (yyNewParser tkn) = Inr p \<Longrightarrow> reachable tkn p"
| round: "reachable tkn p \<Longrightarrow> yyround_of p = Inr (Again q) \<Longrightarrow> reachable tkn q"

lemma reachable_ok: "reachable tkn p \<Longrightarrow> parser_ok p"
proof (induction rule: reachable.induct)
  case (start p)
  with new_parser_ok [of tkn] show ?case by auto
next
  case (round p q)
  from round.IH show ?case by (cases rule: yyround_cases) (use round in auto)
qed

section \<open>Properties\<close>

text \<open>
  C10. The parser is total and type-safe: for every statement, well-formed or not, \<open>Parse\<close> returns; it never leaves one of the packed
  tables or its stack and no action meets a nil value, so that the only failure is the syntax error of the lexer; and a statement it accepts
  has a syntax tree.
\<close>

theorem parse_total:
  "\<exists>r. Parse sql = Some r \<and> (case r of Inl e \<Rightarrow> \<exists>msg. e = Err (Errorf msg) | Inr tree \<Rightarrow> tree \<noteq> None)"
proof -
  obtain p where p: "yystack (yyNewParser (NewStringTokenizer sql)) = Inr p" "parser_ok p" using new_parser_ok by blast
  from yyloop_returns [OF p(2)] p(1) show ?thesis by (auto simp: Parse_def yyParse_def)
qed

text \<open>
  C11. The parser is sound: when \<open>Parse\<close> accepts a statement, the tokens that the lexer delivered during the parse are a sentence of
  the grammar of sql.y, followed by the end of the input, which is read before the statement is accepted. The tables of the generated
  parser do not accept anything else.
\<close>

theorem accepted_is_sentence:
  assumes "Parse sql = Some (Inr tree)"
  shows "\<exists>p q ts. yystack (yyNewParser (NewStringTokenizer sql)) = Inr p \<and> parses p (ts @ [yyEofCode]) (0, q) \<and>
    tree = ParseTree q \<and> sentence ts"
proof -
  obtain p where p: "yystack (yyNewParser (NewStringTokenizer sql)) = Inr p" "parser_ok p" "pending p = []" "states p = [0]"
    using new_parser_ok by blast
  from assms p(1) obtain q where q: "yyloop p = Some (Inr (0, q))" "tree = ParseTree q"
    by (auto simp: Parse_def yyParse_def res_simps split: if_splits)
  obtain ts where ts: "parses p ts (0, q)" using yyloop_parses [OF p(2) q(1)] by blast
  have "fringe (states p) []" using fringe.bottom by (simp add: p(4))
  from parses_sentence [OF ts p(2) this] p(3) ts p(1) q(2) show ?thesis by auto
qed

lemma parse_begin: "Parse ''begin'' = Some (Inr (Some BeginStmt))"
  by code_simp

theorem accepted_is_sentence_witness:
  "\<exists>p q ts. yystack (yyNewParser (NewStringTokenizer ''begin'')) = Inr p \<and> parses p (ts @ [yyEofCode]) (0, q) \<and>
    Some BeginStmt = ParseTree q \<and> sentence ts"
  by (rule accepted_is_sentence [OF parse_begin])

text \<open>
  C13. Parsing is linear: the driver returns after at most 20 rounds, shifts and reductions together, for each byte of the
  statement, and 20 more for its end, whatever the statement is. No statement makes the proxy parse for longer.
\<close>

theorem parse_linear:
  "\<exists>p c q. yystack (yyNewParser (NewStringTokenizer sql)) = Inr p \<and> yyrun (20 * (length sql + 1) + 1) p = Some (Inr (c, q))"
proof -
  obtain p where p: "yystack (yyNewParser (NewStringTokenizer sql)) = Inr p" "parser_ok p" "pending p = []" "states p = [0]"
    "yylex p = NewStringTokenizer sql" using new_parser_ok by blast
  have r: "entry ranks 0 = 0" by (simp add: entry_def ranks_def)
  have "yychar p < 0" using p(3) by (simp add: pending_def split: if_splits)
  then have "work_left p = 20 * (length sql + 1)"
    by (simp add: work_left_def input_left_def p(4,5) stack_weight_def weight_def state_0_sym remaining_def NewStringTokenizer_def r)
  then have "yyrun (20 * (length sql + 1) + 1) p = yyloop p" using p(2) by (intro yyrun_enough) simp_all
  with yyloop_returns [OF p(2)] p(1) show ?thesis by auto
qed

text \<open>
  C14. The parser stays inside its tables and its stack: in every state that it reaches, the stack pointer is an index of the stack, every
  state on the stack is a row of the tables and the current state is the topmost one, and the next round does not panic.
\<close>

theorem parser_within_bounds:
  assumes "reachable tkn p"
  shows "0 \<le> yyp p \<and> yyp p < int (length (yyS p)) \<and> (\<forall>i. 0 \<le> i \<and> i \<le> yyp p \<longrightarrow> is_state (sy_yys (yyS p ! nat i))) \<and>
    yystate p = sy_yys (yyS p ! nat (yyp p)) \<and> (\<exists>r. yyround_of p = Inr r)"
proof -
  have ok: "parser_ok p" using reachable_ok [OF assms] .
  then have b: "stack_bounds p" and c: "chain (states p)" by (auto simp: parser_ok_def)
  from c have "stack p \<noteq> []" by (auto simp: states_def)
  then have y: "0 \<le> yyp p" using b by (auto simp: stack_def stack_bounds_def)
  have nth: "yyS p ! nat i = stack p ! nat (yyp p - i)" if "0 \<le> i" "i \<le> yyp p" for i
    using stack_nth [OF b, of "nat (yyp p - i)"] that by simp
  have "is_state (sy_yys (yyS p ! nat i))" if "0 \<le> i" "i \<le> yyp p" for i
    using chain_states [OF c, of "states p ! nat (yyp p - i)"] nth [OF that] that stack_length [OF b] by (simp add: states_def)
  moreover have "yystate p = sy_yys (yyS p ! nat (yyp p))"
    using ok nth [of "yyp p"] y \<open>stack p \<noteq> []\<close> by (simp add: parser_ok_def states_def hd_map hd_conv_nth)
  moreover have "\<exists>r. yyround_of p = Inr r" using ok by (cases rule: yyround_cases) auto
  ultimately show ?thesis using y b by (simp add: stack_bounds_def)
qed

theorem parser_within_bounds_witness:
  "\<exists>p. reachable (NewStringTokenizer ''select'') p \<and> 0 \<le> yyp p \<and> yyp p < int (length (yyS p)) \<and> (\<exists>r. yyround_of p = Inr r)"
proof -
  obtain p where "reachable (NewStringTokenizer ''select'') p" using new_parser_ok reachable.start by blast
  with parser_within_bounds [of "NewStringTokenizer ''select''" p] show ?thesis by blast
qed

text \<open>
  C12. Every action is type-safe: when the values of the symbols of a right side have the fields of their symbols, the action of the
  production does not meet a nil value and sets the field of the left side, or rejects the statement.
\<close>

theorem action_well_typed:
  assumes "1 \<le> n" "n < 219" "typed_args (entry grammar_rhs n) 1 d" "entry grammar_rhs n \<noteq> [] \<longrightarrow> yyVAL p = d ! 1"
  shows "(\<exists>q. yy_act n d p = Inr (Ret 1 q)) \<or> (\<exists>q. yy_act n d p = Inr (Push q) \<and> typed (- entry yyR1 n) (yyVAL q))"
  using yy_act_ok [OF assms] by blast

theorem action_well_typed_witness:
  "\<exists>q. yy_act 132 [zero_sym, zero_sym\<lparr>sy_valExpr := Some NullVal\<rparr>] ((yyNewParser (NewStringTokenizer []))\<lparr>yyVAL := zero_sym\<lparr>sy_valExpr := Some NullVal\<rparr>\<rparr>)
     = Inr (Push q) \<and> sy_valExpr (yyVAL q) \<noteq> None"
proof -
  have r: "entry grammar_rhs 132 = [- 34]" "entry yyR1 132 = 35" by (simp_all add: rhs_entries r1_entries)
  have "yy_act 132 d p \<noteq> Inr (Ret 1 q)" for d p q by (auto simp: yy_act_def res_simps)
  with action_well_typed [of 132 "[zero_sym, zero_sym\<lparr>sy_valExpr := Some NullVal\<rparr>]"
      "(yyNewParser (NewStringTokenizer []))\<lparr>yyVAL := zero_sym\<lparr>sy_valExpr := Some NullVal\<rparr>\<rparr>"]
  show ?thesis by (auto simp: r typed_def)
qed

end
