(* ===== verification/Packets.thy ===== *)
theory Packets
  imports Wire
begin

text \<open>
  Packets (src/mysql/packetio.go) and column definitions (src/mysql/field.go). A connection is what the
  peer has sent and the reader not delivered yet (\<open>rb\<close>), what has been written (\<open>wb\<close>) and
  the sequence number, a \<open>uint8\<close> that wraps. \<open>net.Conn.Write\<close> is the argument \<open>wr\<close>: given what has been
  written so far and the new bytes it reports how many of them went out, or an error.

  \<open>frames\<close> is the specification: the bytes a payload has on the wire. Writing produces them, batched or
  not, and reading takes them apart again.
\<close>

section \<open>Packets\<close>

abbreviation "MaxPayloadLen \<equiv> (16777215 :: int)"

record packetio =
  rb :: string
  wb :: string
  Sequence :: "8 word"

definition NewPacketIO :: "string \<Rightarrow> packetio" where
  "NewPacketIO conn = \<lparr>rb = conn, wb = [], Sequence = 0\<rparr>"

type_synonym writer = "string \<Rightarrow> string \<Rightarrow> int option"

definition seq_byte :: "8 word \<Rightarrow> char" where
  "seq_byte s = char_of (uint s)"

function ReadPacket :: "packetio \<Rightarrow> string res \<times> packetio" where
  "ReadPacket p =
     (if length (rb p) < 4 then (Inl (Err ErrBadConn), p\<lparr>rb := []\<rparr>)
      else
        let length0 = le_uint (take 3 (rb p)); sequence = rb p ! 3; r = drop 4 (rb p) in
        if length0 < 1
        then (Inl (Err (Errorf (''invalid payload length '' @ int_str length0))), p\<lparr>rb := r\<rparr>)
        else if sequence \<noteq> seq_byte (Sequence p)
        then (Inl (Err (Errorf (''invalid sequence '' @ int_str (of_char sequence) @ '' != '' @ int_str (uint (Sequence p))))),
              p\<lparr>rb := r\<rparr>)
        else if int (length r) < length0
        then (Inl (Err ErrBadConn), p\<lparr>rb := [], Sequence := Sequence p + 1\<rparr>)
        else
          let data = take (nat length0) r; p' = p\<lparr>rb := drop (nat length0) r, Sequence := Sequence p + 1\<rparr> in
          if length0 < MaxPayloadLen then (Inr data, p')
          else (case ReadPacket p' of
                  (Inl _, q) \<Rightarrow> (Inl (Err ErrBadConn), q)
                | (Inr buf, q) \<Rightarrow> (Inr (data @ buf), q)))"
  by pat_completeness auto
termination
  by (relation "measure (\<lambda>p. length (rb p))") auto

declare ReadPacket.simps [simp del]

text \<open>One call of \<open>Write\<close> and the check of its result: true if all bytes went out.\<close>

definition conn_write :: "writer \<Rightarrow> string \<Rightarrow> packetio \<Rightarrow> bool \<times> packetio" where
  "conn_write wr data p =
     (case wr (wb p) data of
        None \<Rightarrow> (False, p)
      | Some n \<Rightarrow> (n = int (length data), p\<lparr>wb := wb p @ take (nat n) data\<rparr>))"

text \<open>\<open>data[0], data[1], data[2], data[3] = ...\<close> for a slice with at least four bytes.\<close>

definition set_header :: "int \<Rightarrow> 8 word \<Rightarrow> string \<Rightarrow> string" where
  "set_header n s data = le_bytes 3 n @ seq_byte s # drop 4 data"

lemma length_set_header [simp]: "4 \<le> length data \<Longrightarrow> length (set_header n s data) = length data"
  by (simp add: set_header_def)

function WritePacket :: "writer \<Rightarrow> string \<Rightarrow> packetio \<Rightarrow> unit res \<times> packetio" where
  "WritePacket wr data p =
     (let length0 = int (length data) - 4 in
      if length0 \<ge> MaxPayloadLen then
        let d = set_header MaxPayloadLen (Sequence p) data in
        (case conn_write wr (take (nat (4 + MaxPayloadLen)) d) p of
           (False, q) \<Rightarrow> (Inl (Err ErrBadConn), q)
         | (True, q) \<Rightarrow> WritePacket wr (drop (nat MaxPayloadLen) d) (q\<lparr>Sequence := Sequence q + 1\<rparr>))
      else if length data < 4 then (Inl (Panic IndexOutOfRange), p)
      else
        (case conn_write wr (set_header length0 (Sequence p) data) p of
           (False, q) \<Rightarrow> (Inl (Err ErrBadConn), q)
         | (True, q) \<Rightarrow> (Inr (), q\<lparr>Sequence := Sequence q + 1\<rparr>)))"
  by pat_completeness auto
termination
  by (relation "measure (\<lambda>(wr, data, p). length data)") auto

declare WritePacket.simps [simp del]

text \<open>The loop of \<open>WritePacketBatch\<close>, which appends to \<open>total\<close> instead of writing.\<close>

function batch_loop :: "string \<Rightarrow> string \<Rightarrow> packetio \<Rightarrow> string res \<times> packetio" where
  "batch_loop tot data p =
     (let length0 = int (length data) - 4 in
      if length0 \<ge> MaxPayloadLen then
        let d = set_header MaxPayloadLen (Sequence p) data in
        batch_loop (tot @ take (nat (4 + MaxPayloadLen)) d) (drop (nat MaxPayloadLen) d)
          (p\<lparr>Sequence := Sequence p + 1\<rparr>)
      else if length data < 4 then (Inl (Panic IndexOutOfRange), p)
      else (Inr (tot @ set_header length0 (Sequence p) data), p\<lparr>Sequence := Sequence p + 1\<rparr>))"
  by pat_completeness auto
termination
  by (relation "measure (\<lambda>(tot, data, p). length data)") auto

declare batch_loop.simps [simp del]

definition WritePacketBatch ::
  "writer \<Rightarrow> string \<Rightarrow> string option \<Rightarrow> bool \<Rightarrow> packetio \<Rightarrow> string res \<times> packetio" where
  "WritePacketBatch wr tot data direct p =
     (case (case data of None \<Rightarrow> (Inr tot, p) | Some d \<Rightarrow> batch_loop tot d p) of
        (Inl e, q) \<Rightarrow> (Inl e, q)
      | (Inr tot', q) \<Rightarrow>
          if direct then
            (case conn_write wr tot' q of
               (False, q') \<Rightarrow> (Inl (Err ErrBadConn), q')
             | (True, q') \<Rightarrow> (Inr tot', q'))
          else (Inr tot', q))"

section \<open>Frames\<close>

function frames :: "string \<Rightarrow> 8 word \<Rightarrow> string" where
  "frames d s =
     (if int (length d) \<ge> MaxPayloadLen
      then le_bytes 3 MaxPayloadLen @ seq_byte s # take (nat MaxPayloadLen) d @ frames (drop (nat MaxPayloadLen) d) (s + 1)
      else le_bytes 3 (int (length d)) @ seq_byte s # d)"
  by pat_completeness auto
termination
  by (relation "measure (\<lambda>(d, s). length d)") auto

declare frames.simps [simp del]

function frame_count :: "string \<Rightarrow> 8 word" where
  "frame_count d =
     (if int (length d) \<ge> MaxPayloadLen then 1 + frame_count (drop (nat MaxPayloadLen) d) else 1)"
  by pat_completeness auto
termination
  by (relation "measure length") auto

declare frame_count.simps [simp del]

definition all_written :: "writer \<Rightarrow> bool" where
  "all_written wr \<longleftrightarrow> (\<forall>w d. wr w d = Some (int (length d)))"

lemma conn_write_all [simp]: "all_written wr \<Longrightarrow> conn_write wr data p = (True, p\<lparr>wb := wb p @ data\<rparr>)"
  by (simp add: conn_write_def all_written_def)

text \<open>The header of the next chunk overwrites the end of the chunk that has been written.\<close>

lemma next_chunk:
  assumes "length h = 4" and "int (length d) \<ge> MaxPayloadLen"
  shows "take (nat (4 + MaxPayloadLen)) (set_header n s (h @ d)) = le_bytes 3 n @ seq_byte s # take (nat MaxPayloadLen) d"
    and "\<exists>h'. length h' = 4 \<and> drop (nat MaxPayloadLen) (set_header n s (h @ d)) = h' @ drop (nat MaxPayloadLen) d"
proof -
  let ?x = "set_header n s (h @ d)"
  have x: "?x = (le_bytes 3 n @ [seq_byte s]) @ d" using assms(1) by (simp add: set_header_def)
  show "take (nat (4 + MaxPayloadLen)) ?x = le_bytes 3 n @ seq_byte s # take (nat MaxPayloadLen) d"
    by (simp add: x nat_add_distrib)
  let ?M = "nat MaxPayloadLen"
  have "drop ?M ?x = drop (?M - 4) d" by (simp add: x)
  also have "\<dots> = take 4 (drop (?M - 4) d) @ drop 4 (drop (?M - 4) d)" by (rule append_take_drop_id [symmetric])
  also have "drop 4 (drop (?M - 4) d) = drop ?M d" by simp
  finally show "\<exists>h'. length h' = 4 \<and> drop ?M ?x = h' @ drop ?M d"
    using assms(2) by (intro exI [of _ "take 4 (drop (?M - 4) d)"]) simp
qed

lemma last_chunk:
  assumes "length h = 4" and "\<not> int (length d) \<ge> MaxPayloadLen"
  shows "set_header (int (length (h @ d)) - 4) s (h @ d) = frames d s"
  using assms by (subst frames.simps) (simp add: set_header_def)

lemma WritePacket_frames:
  assumes "all_written wr" and "length h = 4"
  shows "WritePacket wr (h @ d) p = (Inr (), p\<lparr>wb := wb p @ frames d (Sequence p), Sequence := Sequence p + frame_count d\<rparr>)"
  using assms(2)
proof (induction d arbitrary: h p rule: measure_induct_rule [of length])
  case (less d)
  show ?case
  proof (cases "int (length d) \<ge> MaxPayloadLen")
    case True
    let ?M = "nat MaxPayloadLen"
    obtain h' where h': "length h' = 4"
      and d: "drop ?M (set_header MaxPayloadLen (Sequence p) (h @ d)) = h' @ drop ?M d"
      using next_chunk(2) [OF less.prems True] by blast
    have "length (drop ?M d) < length d" using True by simp
    note IH = less.IH [OF this h']
    show ?thesis
      using True less.prems assms(1)
      by (subst WritePacket.simps, subst frames.simps, subst frame_count.simps)
        (simp add: Let_def next_chunk(1) [OF less.prems True, simplified] d [simplified] IH [simplified] algebra_simps)
  next
    case False
    with less.prems assms(1) last_chunk [OF less.prems False, of "Sequence p"] show ?thesis
      by (subst WritePacket.simps, subst frame_count.simps) (simp add: Let_def)
  qed
qed

lemma batch_loop_frames:
  assumes "length h = 4"
  shows "batch_loop tot (h @ d) p = (Inr (tot @ frames d (Sequence p)), p\<lparr>Sequence := Sequence p + frame_count d\<rparr>)"
  using assms
proof (induction d arbitrary: h p tot rule: measure_induct_rule [of length])
  case (less d)
  show ?case
  proof (cases "int (length d) \<ge> MaxPayloadLen")
    case True
    let ?M = "nat MaxPayloadLen"
    obtain h' where h': "length h' = 4"
      and d: "drop ?M (set_header MaxPayloadLen (Sequence p) (h @ d)) = h' @ drop ?M d"
      using next_chunk(2) [OF less.prems True] by blast
    have "length (drop ?M d) < length d" using True by simp
    note IH = less.IH [OF this h']
    show ?thesis
      using True less.prems
      by (subst batch_loop.simps, subst frames.simps, subst frame_count.simps)
        (simp add: Let_def next_chunk(1) [OF less.prems True, simplified] d [simplified] IH [simplified] algebra_simps)
  next
    case False
    with less.prems last_chunk [OF less.prems False, of "Sequence p"] show ?thesis
      by (subst batch_loop.simps, subst frame_count.simps) (simp add: Let_def)
  qed
qed

text \<open>One step of reading: a frame with a full or a short payload in front of other bytes.\<close>

lemma ReadPacket_frame:
  assumes "rb p = le_bytes 3 (int (length c)) @ seq_byte (Sequence p) # c @ r"
    and "c \<noteq> []" and "int (length c) \<le> MaxPayloadLen"
  shows "ReadPacket p =
    (let p' = p\<lparr>rb := r, Sequence := Sequence p + 1\<rparr> in
     if int (length c) < MaxPayloadLen then (Inr c, p')
     else (case ReadPacket p' of
             (Inl _, q) \<Rightarrow> (Inl (Err ErrBadConn), q)
           | (Inr buf, q) \<Rightarrow> (Inr (c @ buf), q)))"
proof -
  have "le_uint (le_bytes 3 (int (length c))) = int (length c)"
    using assms(3) by (simp add: le_uint_le_bytes take_bit_int_eq_self)
  moreover have "\<not> int (length c) < 1" using assms(2) by (cases c) auto
  ultimately show ?thesis
    by (subst ReadPacket.simps) (simp add: assms(1) nth_append Let_def)
qed

lemma ReadPacket_frames:
  assumes "rb p = frames d (Sequence p) @ r" and "int (length d) mod MaxPayloadLen \<noteq> 0"
  shows "ReadPacket p = (Inr d, p\<lparr>rb := r, Sequence := Sequence p + frame_count d\<rparr>)"
  using assms
proof (induction d arbitrary: p rule: measure_induct_rule [of length])
  case (less d)
  show ?case
  proof (cases "int (length d) \<ge> MaxPayloadLen")
    case True
    let ?M = "nat MaxPayloadLen" let ?p = "p\<lparr>rb := frames (drop ?M d) (Sequence p + 1) @ r, Sequence := Sequence p + 1\<rparr>"
    have c: "int (length (take ?M d)) = MaxPayloadLen" using True by simp
    have "rb p = le_bytes 3 (int (length (take ?M d))) @ seq_byte (Sequence p) # take ?M d
        @ frames (drop ?M d) (Sequence p + 1) @ r"
      using less.prems(1) True c by (simp add: frames.simps [of d])
    moreover have "take ?M d \<noteq> []" using True by auto
    ultimately have R: "ReadPacket p = (case ReadPacket ?p of
        (Inl _, q) \<Rightarrow> (Inl (Err ErrBadConn), q) | (Inr buf, q) \<Rightarrow> (Inr (take ?M d @ buf), q))"
      using ReadPacket_frame [of p "take ?M d" "frames (drop ?M d) (Sequence p + 1) @ r"] c by (simp add: Let_def)
    have m: "int (length (drop ?M d)) mod MaxPayloadLen \<noteq> 0"
      using less.prems(2) True by (simp add: of_nat_diff)
    have "length (drop ?M d) < length d" using True by simp
    from less.IH [OF this _ m, of ?p] R True show ?thesis
      by (subst frame_count.simps) (simp add: algebra_simps)
  next
    case False
    have "rb p = le_bytes 3 (int (length d)) @ seq_byte (Sequence p) # d @ r"
      using less.prems(1) False by (simp add: frames.simps [of d])
    moreover have "d \<noteq> []" using less.prems(2) by auto
    ultimately show ?thesis
      using ReadPacket_frame [of p d r] False by (subst frame_count.simps) simp
  qed
qed

section \<open>Column definitions\<close>

record field =
  f_Data :: "string option"
  f_Schema :: string
  f_Table :: string
  f_OrgTable :: string
  f_Name :: string
  f_OrgName :: string
  f_Charset :: int
  f_ColumnLength :: int
  f_Type :: char
  f_Flag :: int
  f_Decimal :: char
  f_DefaultValueLength :: int
  f_DefaultValue :: "string option"

text \<open>One length-encoded string of \<open>Parse\<close>: it starts at \<open>pos\<close>, and \<open>pos\<close> moves behind it.\<close>

definition string_at :: "string \<Rightarrow> int \<Rightarrow> (string \<times> int) res" where
  "string_at p pos =
     rbind (slice_from p pos) (\<lambda>s. rbind (LengthEnodedString s) (\<lambda>(v, _, n). Inr (v, pos + n)))"

definition FieldData_Parse :: "string \<Rightarrow> field res" where
  "FieldData_Parse p =
     rbind (SkipLengthEnodedString p) (\<lambda>pos.
     rbind (string_at p pos) (\<lambda>(schema, pos).
     rbind (string_at p pos) (\<lambda>(table, pos).
     rbind (string_at p pos) (\<lambda>(orgTable, pos).
     rbind (string_at p pos) (\<lambda>(name, pos).
     rbind (string_at p pos) (\<lambda>(orgName, pos0).
     let pos = pos0 + 1 in
     rbind (le_uint_at p pos 2) (\<lambda>charset.
     rbind (le_uint_at p (pos + 2) 4) (\<lambda>columnLength.
     rbind (at_index p (pos + 6)) (\<lambda>typ.
     rbind (le_uint_at p (pos + 7) 2) (\<lambda>flag.
     rbind (at_index p (pos + 9)) (\<lambda>decimal.
     let pos = pos + 12;
         f = \<lparr>f_Data = Some p, f_Schema = schema, f_Table = table, f_OrgTable = orgTable, f_Name = name,
              f_OrgName = orgName, f_Charset = charset, f_ColumnLength = columnLength, f_Type = typ,
              f_Flag = flag, f_Decimal = decimal, f_DefaultValueLength = 0, f_DefaultValue = None\<rparr>
     in if int (length p) > pos then
          rbind (slice_from p pos) (\<lambda>s. rbind (LengthEncodedInt s) (\<lambda>(dl, _, n).
            let pos = pos + n; stop = wrap64 (pos + wrap64 dl) in
            if stop > int (length p) then Inl (Err ErrMalformPacket)
            else rbind (slice p pos stop) (\<lambda>v. Inr (f\<lparr>f_DefaultValueLength := dl, f_DefaultValue := Some v\<rparr>))))
        else Inr f)))))))))))"

definition Field_Dump :: "field \<Rightarrow> string" where
  "Field_Dump f =
     (case f_Data f of
        Some d \<Rightarrow> d
      | None \<Rightarrow>
          PutLengthEncodedString ''def'' @ PutLengthEncodedString (f_Schema f) @ PutLengthEncodedString (f_Table f)
          @ PutLengthEncodedString (f_OrgTable f) @ PutLengthEncodedString (f_Name f) @ PutLengthEncodedString (f_OrgName f)
          @ CHR 0x0C # Uint16ToBytes (f_Charset f) @ Uint32ToBytes (f_ColumnLength f) @ f_Type f # Uint16ToBytes (f_Flag f)
          @ f_Decimal f # CHR 0x00 # CHR 0x00 #
          (case f_DefaultValue f of
             None \<Rightarrow> []
           | Some v \<Rightarrow> Uint64ToBytes (f_DefaultValueLength f) @ v))"

lemma string_at_Put:
  assumes "int (length b) + 9 \<le> MaxInt64" and "pos = int (length a)"
  shows "string_at (a @ PutLengthEncodedString b @ r) pos = Inr (b, pos + int (length (PutLengthEncodedString b)))"
proof -
  have "slice_from (a @ PutLengthEncodedString b @ r) pos = Inr (PutLengthEncodedString b @ r)"
    using assms(2) by (simp add: slice_from_def slice_def)
  with LengthEnodedString_Put(1) [OF assms(1), of r] show ?thesis by (simp add: string_at_def)
qed

lemma string_at_part:
  "\<exists>r. p = a @ PutLengthEncodedString b @ r \<Longrightarrow> int (length b) + 9 \<le> MaxInt64 \<Longrightarrow>
    string_at p (int (length a)) = Inr (b, int (length (a @ PutLengthEncodedString b)))"
  using string_at_Put [of b "int (length a)" a] by auto

lemma le_uint_at_part:
  "\<exists>r. p = a @ le_bytes k n @ r \<Longrightarrow> 0 \<le> n \<Longrightarrow> n < 2 ^ (8 * k) \<Longrightarrow> le_uint_at p (int (length a)) (int k) = Inr n"
  using le_uint_at_le_bytes [of a "length a" k n] by (auto simp: take_bit_int_eq_self)

lemma at_index_part: "\<exists>r. p = a @ c # r \<Longrightarrow> at_index p (int (length a)) = Inr c"
  by (auto simp: at_index_def)

text \<open>The fixed-size tail of a column definition.\<close>

definition short_field :: "field \<Rightarrow> bool" where
  "short_field f \<longleftrightarrow>
     (\<forall>s \<in> {f_Schema f, f_Table f, f_OrgTable f, f_Name f, f_OrgName f}. int (length s) + 9 \<le> MaxInt64)
     \<and> 0 \<le> f_Charset f \<and> f_Charset f < 2 ^ 16 \<and> 0 \<le> f_ColumnLength f \<and> f_ColumnLength f < 2 ^ 32
     \<and> 0 \<le> f_Flag f \<and> f_Flag f < 2 ^ 16"

lemma FieldData_Parse_Dump:
  assumes "short_field f" and "f_Data f = None" and "f_DefaultValue f = None" and "f_DefaultValueLength f = 0"
  shows "FieldData_Parse (Field_Dump f) = Inr (f\<lparr>f_Data := Some (Field_Dump f)\<rparr>)"
proof -
  define a0 where "a0 = PutLengthEncodedString ''def''"
  define a1 where "a1 = a0 @ PutLengthEncodedString (f_Schema f)"
  define a2 where "a2 = a1 @ PutLengthEncodedString (f_Table f)"
  define a3 where "a3 = a2 @ PutLengthEncodedString (f_OrgTable f)"
  define a4 where "a4 = a3 @ PutLengthEncodedString (f_Name f)"
  define a5 where "a5 = a4 @ PutLengthEncodedString (f_OrgName f)"
  define p where "p = Field_Dump f"
  note [simp] = Uint16ToBytes_def Uint32ToBytes_def
  have P: "p = PutLengthEncodedString ''def'' @ drop (length a0) p"
    "\<exists>r. p = a0 @ PutLengthEncodedString (f_Schema f) @ r" "\<exists>r. p = a1 @ PutLengthEncodedString (f_Table f) @ r"
    "\<exists>r. p = a2 @ PutLengthEncodedString (f_OrgTable f) @ r" "\<exists>r. p = a3 @ PutLengthEncodedString (f_Name f) @ r"
    "\<exists>r. p = a4 @ PutLengthEncodedString (f_OrgName f) @ r"
    "\<exists>r. p = (a5 @ [CHR 0x0C]) @ le_bytes 2 (f_Charset f) @ r"
    "\<exists>r. p = (a5 @ CHR 0x0C # le_bytes 2 (f_Charset f)) @ le_bytes 4 (f_ColumnLength f) @ r"
    "\<exists>r. p = (a5 @ CHR 0x0C # le_bytes 2 (f_Charset f) @ le_bytes 4 (f_ColumnLength f)) @ f_Type f # r"
    "\<exists>r. p = (a5 @ CHR 0x0C # le_bytes 2 (f_Charset f) @ le_bytes 4 (f_ColumnLength f) @ [f_Type f]) @ le_bytes 2 (f_Flag f) @ r"
    "\<exists>r. p = (a5 @ CHR 0x0C # le_bytes 2 (f_Charset f) @ le_bytes 4 (f_ColumnLength f) @ f_Type f # le_bytes 2 (f_Flag f)) @ f_Decimal f # r"
    and len: "int (length p) = int (length a5) + 13"
    using assms(2,3) by (simp_all add: p_def Field_Dump_def a0_def a1_def a2_def a3_def a4_def a5_def)
  have "SkipLengthEnodedString p = Inr (int (length a0))"
    using LengthEnodedString_Put(2) [of "''def''" "drop (length a0) p"] P(1) by (simp add: a0_def)
  moreover have "string_at p (int (length a0)) = Inr (f_Schema f, int (length a1))"
    "string_at p (int (length a1)) = Inr (f_Table f, int (length a2))"
    "string_at p (int (length a2)) = Inr (f_OrgTable f, int (length a3))"
    "string_at p (int (length a3)) = Inr (f_Name f, int (length a4))"
    "string_at p (int (length a4)) = Inr (f_OrgName f, int (length a5))"
    using string_at_part [OF P(2)] string_at_part [OF P(3)] string_at_part [OF P(4)] string_at_part [OF P(5)]
      string_at_part [OF P(6)] assms(1)
    unfolding short_field_def a1_def [symmetric] a2_def [symmetric] a3_def [symmetric] a4_def [symmetric] a5_def [symmetric]
    by blast+
  moreover have "le_uint_at p (int (length a5) + 1) 2 = Inr (f_Charset f)"
    "le_uint_at p (int (length a5) + 1 + 2) 4 = Inr (f_ColumnLength f)"
    "le_uint_at p (int (length a5) + 1 + 7) 2 = Inr (f_Flag f)"
    using le_uint_at_part [OF P(7)] le_uint_at_part [OF P(8)] le_uint_at_part [OF P(10)] assms(1)
    by (simp_all add: short_field_def add.commute)
  moreover have "at_index p (int (length a5) + 1 + 6) = Inr (f_Type f)"
    "at_index p (int (length a5) + 1 + 9) = Inr (f_Decimal f)"
    using at_index_part [OF P(9)] at_index_part [OF P(11)] by (simp_all add: add.commute)
  ultimately have "FieldData_Parse p = Inr (f\<lparr>f_Data := Some p\<rparr>)"
    using len assms(3,4) by (simp add: FieldData_Parse_def Let_def)
  then show ?thesis by (simp add: p_def)
qed

section \<open>Properties\<close>

text \<open>
  C40. Packets round trip. The bytes that \<open>WritePacket\<close> sends for a payload, of any length that is
  not a multiple of \<open>MaxPayloadLen\<close>, are read back by a peer with the same sequence number as the
  same payload, also when the payload is split into several packets; the peer's reader then stands
  right behind them and both sequence numbers agree again.
\<close>

theorem packet_roundtrip:
  assumes "all_written wr" and "length h = 4" and "int (length d) mod MaxPayloadLen \<noteq> 0"
  shows "\<exists>sent p'. WritePacket wr (h @ d) p = (Inr (), p') \<and> wb p' = wb p @ sent
    \<and> ReadPacket (q\<lparr>rb := sent @ r, Sequence := Sequence p\<rparr>) = (Inr d, q\<lparr>rb := r, Sequence := Sequence p'\<rparr>)"
  using WritePacket_frames [OF assms(1,2), of d p]
    ReadPacket_frames [of "q\<lparr>rb := frames d (Sequence p) @ r, Sequence := Sequence p\<rparr>" d r] assms(3) by simp

theorem packet_roundtrip_witness:
  "\<exists>sent p'. WritePacket (\<lambda>_ d. Some (int (length d))) (''....'' @ ''select 1'') (NewPacketIO []) = (Inr (), p')
    \<and> wb p' = sent
    \<and> ReadPacket \<lparr>rb = sent @ ''tail'', wb = [], Sequence = 0\<rparr> = (Inr ''select 1'', \<lparr>rb = ''tail'', wb = [], Sequence = Sequence p'\<rparr>)"
  using packet_roundtrip [of "\<lambda>_ d. Some (int (length d))" "''....''" "''select 1''" "NewPacketIO []" "''tail''" "NewPacketIO []"]
  by (simp add: all_written_def NewPacketIO_def)

lemma char_of_zero: "char_of (0 :: int) = CHR 0x00"
  by code_simp

text \<open>
  A payload whose length is a multiple of \<open>MaxPayloadLen\<close> ends in an empty packet, which
  \<open>ReadPacket\<close> refuses.
\<close>

lemma full_payload_refused:
  assumes "int (length d) = MaxPayloadLen" and "rb p = frames d (Sequence p)"
  shows "fst (ReadPacket p) = Inl (Err ErrBadConn)"
proof -
  have f: "frames [] s = [CHR 0x00, CHR 0x00, CHR 0x00, seq_byte s]" for s
    by (simp add: frames.simps numeral_3_eq_3 char_of_zero)
  have "d \<noteq> []" using assms(1) by auto
  moreover have "rb p = le_bytes 3 (int (length d)) @ seq_byte (Sequence p) # d @ frames [] (Sequence p + 1)"
    using assms by (simp add: frames.simps [of d])
  ultimately have "fst (ReadPacket p) = fst (case ReadPacket (p\<lparr>rb := frames [] (Sequence p + 1), Sequence := Sequence p + 1\<rparr>) of
      (Inl _, q) \<Rightarrow> (Inl (Err ErrBadConn), q) | (Inr buf, q) \<Rightarrow> (Inr (d @ buf), q))"
    using ReadPacket_frame [of p d "frames [] (Sequence p + 1)"] assms(1) by (simp add: Let_def)
  also have "\<dots> = Inl (Err ErrBadConn)"
    by (subst ReadPacket.simps) (simp add: f Let_def)
  finally show ?thesis .
qed

text \<open>
  Batched writing is equivalent to direct writing: collecting packets with \<open>WritePacketBatch\<close> and
  flushing them with the last one sends the collected bytes followed by exactly the bytes
  \<open>WritePacket\<close> sends, and leaves the same sequence number.
\<close>

lemma batch_equals_direct:
  assumes "all_written wr" and "length h = 4"
  shows "\<exists>sent s. WritePacket wr (h @ d) p = (Inr (), p\<lparr>wb := wb p @ sent, Sequence := s\<rparr>)
    \<and> WritePacketBatch wr tot (Some (h @ d)) False p = (Inr (tot @ sent), p\<lparr>Sequence := s\<rparr>)
    \<and> WritePacketBatch wr tot (Some (h @ d)) True p = (Inr (tot @ sent), p\<lparr>wb := wb p @ tot @ sent, Sequence := s\<rparr>)
    \<and> WritePacketBatch wr tot None True p = (Inr tot, p\<lparr>wb := wb p @ tot\<rparr>)"
  using WritePacket_frames [OF assms, of d p] batch_loop_frames [OF assms(2), of tot d p] assms(1)
  by (intro exI [of _ "frames d (Sequence p)"] exI [of _ "Sequence p + frame_count d"]) (simp add: WritePacketBatch_def)

text \<open>
  Column definitions round trip: a definition without a default value is parsed back from its
  dump with every field unchanged.
\<close>

lemma field_roundtrip:
  assumes "short_field f" and "f_Data f = None" and "f_DefaultValue f = None" and "f_DefaultValueLength f = 0"
  shows "FieldData_Parse (Field_Dump f) = Inr (f\<lparr>f_Data := Some (Field_Dump f)\<rparr>)"
  using assms by (rule FieldData_Parse_Dump)

definition sample_field :: field where
  "sample_field = \<lparr>f_Data = None, f_Schema = ''ks'', f_Table = ''t'', f_OrgTable = ''t_0001'', f_Name = ''id'',
     f_OrgName = ''id'', f_Charset = 33, f_ColumnLength = 11, f_Type = CHR 0x08, f_Flag = 32, f_Decimal = CHR 0x00,
     f_DefaultValueLength = 0, f_DefaultValue = None\<rparr>"

text \<open>With a default value the dump writes its length in eight bytes and \<open>Parse\<close> reads one.\<close>

lemma default_value_lost:
  "rbind (FieldData_Parse (Field_Dump (sample_field\<lparr>f_DefaultValueLength := 1, f_DefaultValue := Some ''7''\<rparr>)))
     (\<lambda>f. Inr (f_DefaultValue f)) = Inr (Some [CHR 0x00])"
  by code_simp

end
