(* ===== verification/Resultset.thy ===== *)
theory Resultset
  imports Packets "HOL-Library.Multiset"
begin

text \<open>
  Result sets (src/mysql/resultset.go), their order (src/mysql/resultset_sort.go) and how the proxy
  writes values as rows (src/proxy/server/conn_resultset.go). A cell is a Go interface value: nil, an
  integer, a float, a string or a byte slice.

  Floats are a type \<open>'f\<close> with the operations of Go's \<open>float64\<close> that the code uses, collected in the
  record \<open>floats\<close>; \<open>sort.Sort\<close> is an argument, a function that may call a comparison that
  panics, and \<open>is_sort\<close> states what its documentation promises.
\<close>

unbundle bit_operations_syntax

section \<open>Values\<close>

record 'f floats =
  fl_Parse :: "string \<Rightarrow> 'f res"
  fl_Format :: "'f \<Rightarrow> string"
  fl_from32 :: "int \<Rightarrow> 'f"
  fl_from64 :: "int \<Rightarrow> 'f"
  fl_zero :: 'f
  fl_add :: "'f \<Rightarrow> 'f \<Rightarrow> 'f"
  fl_less :: "'f \<Rightarrow> 'f \<Rightarrow> bool"
  fl_int :: "'f \<Rightarrow> int"
  fl_uint :: "'f \<Rightarrow> int"
  fl_of_int :: "int \<Rightarrow> 'f"

datatype 'f val = VNil | VInt int | VUint int | VFloat 'f | VStr string | VBytes string

record 'f resultset =
  rs_Fields :: "field list"
  rs_FieldNames :: "string \<rightharpoonup> int"
  rs_Values :: "'f val list list"
  rs_RowDatas :: "string list"

record 'f result =
  re_Status :: int
  re_InsertId :: int
  re_AffectedRows :: int
  re_Resultset :: "'f resultset"

section \<open>Reading cells\<close>

definition RowNumber :: "'f resultset \<Rightarrow> int" where
  "RowNumber r = int (length (rs_Values r))"

definition ColumnNumber :: "'f resultset \<Rightarrow> int" where
  "ColumnNumber r = int (length (rs_Fields r))"

definition GetValue :: "'f resultset \<Rightarrow> int \<Rightarrow> int \<Rightarrow> 'f val res" where
  "GetValue r row column =
     (if row \<ge> int (length (rs_Values r)) \<or> row < 0
      then Inl (Err (Errorf (''invalid row index '' @ int_str row)))
      else if column \<ge> int (length (rs_Fields r)) \<or> column < 0
      then Inl (Err (Errorf (''invalid column index '' @ int_str column)))
      else rbind (at_index (rs_Values r) row) (\<lambda>v. at_index v column))"

definition NameIndex :: "'f resultset \<Rightarrow> string \<Rightarrow> int res" where
  "NameIndex r name =
     (case rs_FieldNames r name of
        Some column \<Rightarrow> Inr column
      | None \<Rightarrow> Inl (Err (Errorf (''invalid field name '' @ name))))"

definition GetValueByName :: "'f resultset \<Rightarrow> int \<Rightarrow> string \<Rightarrow> 'f val res" where
  "GetValueByName r row name = rbind (NameIndex r name) (GetValue r row)"

definition rs_IsNull :: "'f resultset \<Rightarrow> int \<Rightarrow> int \<Rightarrow> bool res" where
  "rs_IsNull r row column = rbind (GetValue r row column) (\<lambda>d. Inr (case d of VNil \<Rightarrow> True | _ \<Rightarrow> False))"

definition IsNullByName :: "'f resultset \<Rightarrow> int \<Rightarrow> string \<Rightarrow> bool res" where
  "IsNullByName r row name = rbind (NameIndex r name) (rs_IsNull r row)"

definition strconv_ParseUint :: "string \<Rightarrow> int res" where
  "strconv_ParseUint s = (case ParseUint10 s of Inl e \<Rightarrow> Inl (Err (ErrNum e s)) | Inr v \<Rightarrow> Inr v)"

definition GetUint :: "'f floats \<Rightarrow> 'f resultset \<Rightarrow> int \<Rightarrow> int \<Rightarrow> int res" where
  "GetUint fo r row column =
     rbind (GetValue r row column) (\<lambda>d. case d of
       VUint v \<Rightarrow> Inr v
     | VInt v \<Rightarrow> Inr (to_uint64 v)
     | VFloat v \<Rightarrow> Inr (fl_uint fo v)
     | VStr v \<Rightarrow> strconv_ParseUint v
     | VBytes v \<Rightarrow> strconv_ParseUint v
     | VNil \<Rightarrow> Inr 0)"

definition GetInt :: "'f floats \<Rightarrow> 'f resultset \<Rightarrow> int \<Rightarrow> int \<Rightarrow> int res" where
  "GetInt fo r row column =
     rbind (GetValue r row column) (\<lambda>d. case d of
       VUint v \<Rightarrow> Inr (wrap64 v)
     | VInt v \<Rightarrow> Inr v
     | VFloat v \<Rightarrow> Inr (fl_int fo v)
     | VStr v \<Rightarrow> strconv_ParseInt v
     | VBytes v \<Rightarrow> strconv_ParseInt v
     | VNil \<Rightarrow> Inr 0)"

definition GetFloat :: "'f floats \<Rightarrow> 'f resultset \<Rightarrow> int \<Rightarrow> int \<Rightarrow> 'f res" where
  "GetFloat fo r row column =
     rbind (GetValue r row column) (\<lambda>d. case d of
       VFloat v \<Rightarrow> Inr v
     | VUint v \<Rightarrow> Inr (fl_of_int fo v)
     | VInt v \<Rightarrow> Inr (fl_of_int fo v)
     | VStr v \<Rightarrow> fl_Parse fo v
     | VBytes v \<Rightarrow> fl_Parse fo v
     | VNil \<Rightarrow> Inr (fl_zero fo))"

definition GetString :: "'f floats \<Rightarrow> 'f resultset \<Rightarrow> int \<Rightarrow> int \<Rightarrow> string res" where
  "GetString fo r row column =
     rbind (GetValue r row column) (\<lambda>d. case d of
       VStr v \<Rightarrow> Inr v
     | VBytes v \<Rightarrow> Inr v
     | VInt v \<Rightarrow> Inr (int_str v)
     | VUint v \<Rightarrow> Inr (int_str v)
     | VFloat v \<Rightarrow> Inr (fl_Format fo v)
     | VNil \<Rightarrow> Inr [])"

definition GetUintByName :: "'f floats \<Rightarrow> 'f resultset \<Rightarrow> int \<Rightarrow> string \<Rightarrow> int res" where
  "GetUintByName fo r row name = rbind (NameIndex r name) (GetUint fo r row)"

definition GetIntByName :: "'f floats \<Rightarrow> 'f resultset \<Rightarrow> int \<Rightarrow> string \<Rightarrow> int res" where
  "GetIntByName fo r row name = rbind (NameIndex r name) (GetInt fo r row)"

definition GetFloatByName :: "'f floats \<Rightarrow> 'f resultset \<Rightarrow> int \<Rightarrow> string \<Rightarrow> 'f res" where
  "GetFloatByName fo r row name = rbind (NameIndex r name) (GetFloat fo r row)"

definition GetStringByName :: "'f floats \<Rightarrow> 'f resultset \<Rightarrow> int \<Rightarrow> string \<Rightarrow> string res" where
  "GetStringByName fo r row name = rbind (NameIndex r name) (GetString fo r row)"

section \<open>Parsing rows\<close>

abbreviation "MYSQL_TYPE_DECIMAL \<equiv> CHR 0x00"
abbreviation "MYSQL_TYPE_TINY \<equiv> CHR 0x01"
abbreviation "MYSQL_TYPE_SHORT \<equiv> CHR 0x02"
abbreviation "MYSQL_TYPE_LONG \<equiv> CHR 0x03"
abbreviation "MYSQL_TYPE_FLOAT \<equiv> CHR 0x04"
abbreviation "MYSQL_TYPE_DOUBLE \<equiv> CHR 0x05"
abbreviation "MYSQL_TYPE_NULL \<equiv> CHR 0x06"
abbreviation "MYSQL_TYPE_TIMESTAMP \<equiv> CHR 0x07"
abbreviation "MYSQL_TYPE_LONGLONG \<equiv> CHR 0x08"
abbreviation "MYSQL_TYPE_INT24 \<equiv> CHR 0x09"
abbreviation "MYSQL_TYPE_DATE \<equiv> CHR 0x0A"
abbreviation "MYSQL_TYPE_TIME \<equiv> CHR 0x0B"
abbreviation "MYSQL_TYPE_DATETIME \<equiv> CHR 0x0C"
abbreviation "MYSQL_TYPE_YEAR \<equiv> CHR 0x0D"
abbreviation "MYSQL_TYPE_NEWDATE \<equiv> CHR 0x0E"
abbreviation "MYSQL_TYPE_VARCHAR \<equiv> CHR 0x0F"
abbreviation "MYSQL_TYPE_BIT \<equiv> CHR 0x10"
abbreviation "MYSQL_TYPE_NEWDECIMAL \<equiv> CHR 0xF6"
abbreviation "MYSQL_TYPE_ENUM \<equiv> CHR 0xF7"
abbreviation "MYSQL_TYPE_SET \<equiv> CHR 0xF8"
abbreviation "MYSQL_TYPE_TINY_BLOB \<equiv> CHR 0xF9"
abbreviation "MYSQL_TYPE_MEDIUM_BLOB \<equiv> CHR 0xFA"
abbreviation "MYSQL_TYPE_LONG_BLOB \<equiv> CHR 0xFB"
abbreviation "MYSQL_TYPE_BLOB \<equiv> CHR 0xFC"
abbreviation "MYSQL_TYPE_VAR_STRING \<equiv> CHR 0xFD"
abbreviation "MYSQL_TYPE_STRING \<equiv> CHR 0xFE"
abbreviation "MYSQL_TYPE_GEOMETRY \<equiv> CHR 0xFF"
abbreviation "NOT_NULL_FLAG \<equiv> (1 :: int)"
abbreviation "UNSIGNED_FLAG \<equiv> (32 :: int)"
abbreviation "BINARY_FLAG \<equiv> (128 :: int)"

definition isUnsigned :: "field \<Rightarrow> bool" where
  "isUnsigned f \<longleftrightarrow> f_Flag f AND UNSIGNED_FLAG > 0"

definition text_value :: "'f floats \<Rightarrow> field \<Rightarrow> string \<Rightarrow> 'f val res" where
  "text_value fo f v =
     (let t = f_Type f in
      if t \<in> {MYSQL_TYPE_TINY, MYSQL_TYPE_SHORT, MYSQL_TYPE_LONG, MYSQL_TYPE_INT24, MYSQL_TYPE_LONGLONG, MYSQL_TYPE_YEAR}
      then (if isUnsigned f then rbind (strconv_ParseUint v) (\<lambda>n. Inr (VUint n))
            else rbind (strconv_ParseInt v) (\<lambda>n. Inr (VInt n)))
      else if t \<in> {MYSQL_TYPE_FLOAT, MYSQL_TYPE_DOUBLE, MYSQL_TYPE_NEWDECIMAL}
      then rbind (fl_Parse fo v) (\<lambda>x. Inr (VFloat x))
      else if t \<in> {MYSQL_TYPE_VARCHAR, MYSQL_TYPE_VAR_STRING, MYSQL_TYPE_STRING, MYSQL_TYPE_DATETIME,
                   MYSQL_TYPE_DATE, MYSQL_TYPE_TIME, MYSQL_TYPE_TIMESTAMP}
      then Inr (VStr v)
      else Inr (VBytes v))"

text \<open>The loop over the columns: \<open>pos\<close> is where the next cell starts in the row \<open>p\<close>.\<close>

fun text_loop :: "'f floats \<Rightarrow> string \<Rightarrow> int \<Rightarrow> field list \<Rightarrow> 'f val list res" where
  "text_loop fo p pos [] = Inr []"
| "text_loop fo p pos (f # fs) =
     rbind (slice_from p pos) (\<lambda>s.
     rbind (LengthEnodedString s) (\<lambda>(v, isNull, n).
     rbind (if isNull then Inr VNil else text_value fo f v) (\<lambda>x.
     rbind (text_loop fo p (pos + n) fs) (\<lambda>xs. Inr (x # xs)))))"

definition ParseText :: "'f floats \<Rightarrow> string \<Rightarrow> field list \<Rightarrow> 'f val list res" where
  "ParseText fo p f = text_loop fo p 0 f"

text \<open>\<open>binary.Read\<close> into an \<open>int16\<close>, \<open>int32\<close> or \<open>int64\<close>: the two's complement reading of \<open>k\<close> bytes.\<close>

definition signed_of :: "nat \<Rightarrow> int \<Rightarrow> int" where
  "signed_of k u = (if u < 2 ^ (8 * k - 1) then u else u - 2 ^ (8 * k))"

definition binary_int :: "field \<Rightarrow> string \<Rightarrow> int \<Rightarrow> nat \<Rightarrow> ('f val \<times> int) res" where
  "binary_int f p pos k =
     rbind (le_uint_at p pos (int k)) (\<lambda>u.
       Inr (if isUnsigned f then VUint u else VInt (signed_of k u), pos + int k))"

definition binary_date ::
  "(int \<Rightarrow> string \<Rightarrow> string res) \<Rightarrow> string \<Rightarrow> int \<Rightarrow> ('f val \<times> int) res" where
  "binary_date format p pos =
     rbind (slice_from p pos) (\<lambda>s. rbind (LengthEncodedInt s) (\<lambda>(num, isNull, n).
       if isNull then Inr (VNil, pos + n)
       else rbind (slice_from p (pos + n)) (\<lambda>d. rbind (format (wrap64 num) d) (\<lambda>b.
              Inr (VBytes b, wrap64 (pos + n + wrap64 num))))))"

definition binary_value :: "'f floats \<Rightarrow> field \<Rightarrow> string \<Rightarrow> int \<Rightarrow> ('f val \<times> int) res" where
  "binary_value fo f p pos =
     (let t = f_Type f in
      if t = MYSQL_TYPE_NULL then Inr (VNil, pos)
      else if t = MYSQL_TYPE_TINY then
        rbind (at_index p pos) (\<lambda>b. Inr (if isUnsigned f then VUint (of_char b) else VInt (of_char b), pos + 1))
      else if t \<in> {MYSQL_TYPE_SHORT, MYSQL_TYPE_YEAR} then binary_int f p pos 2
      else if t \<in> {MYSQL_TYPE_INT24, MYSQL_TYPE_LONG} then binary_int f p pos 4
      else if t = MYSQL_TYPE_LONGLONG then binary_int f p pos 8
      else if t = MYSQL_TYPE_FLOAT then rbind (le_uint_at p pos 4) (\<lambda>u. Inr (VFloat (fl_from32 fo u), pos + 4))
      else if t = MYSQL_TYPE_DOUBLE then rbind (le_uint_at p pos 8) (\<lambda>u. Inr (VFloat (fl_from64 fo u), pos + 8))
      else if t \<in> {MYSQL_TYPE_DECIMAL, MYSQL_TYPE_NEWDECIMAL, MYSQL_TYPE_VARCHAR, MYSQL_TYPE_BIT, MYSQL_TYPE_ENUM,
                   MYSQL_TYPE_SET, MYSQL_TYPE_TINY_BLOB, MYSQL_TYPE_MEDIUM_BLOB, MYSQL_TYPE_LONG_BLOB, MYSQL_TYPE_BLOB,
                   MYSQL_TYPE_VAR_STRING, MYSQL_TYPE_STRING, MYSQL_TYPE_GEOMETRY}
      then rbind (slice_from p pos) (\<lambda>s. rbind (LengthEnodedString s) (\<lambda>(v, isNull, n).
             Inr (if isNull then VNil else VBytes v, pos + n)))
      else if t \<in> {MYSQL_TYPE_DATE, MYSQL_TYPE_NEWDATE} then binary_date FormatBinaryDate p pos
      else if t \<in> {MYSQL_TYPE_TIMESTAMP, MYSQL_TYPE_DATETIME} then binary_date FormatBinaryDateTime p pos
      else if t = MYSQL_TYPE_TIME then binary_date FormatBinaryTime p pos
      else Inl (Err (Errorf (''Stmt Unknown FieldType '' @ int_str (of_char t) @ '' '' @ f_Name f))))"

fun binary_loop :: "'f floats \<Rightarrow> string \<Rightarrow> string \<Rightarrow> int \<Rightarrow> int \<Rightarrow> field list \<Rightarrow> 'f val list res" where
  "binary_loop fo p bitmap i pos [] = Inr []"
| "binary_loop fo p bitmap i pos (f # fs) =
     rbind (at_index bitmap ((i + 2) div 8)) (\<lambda>b.
     rbind (if of_char b AND push_bit (nat ((i + 2) mod 8)) 1 > (0 :: int) then Inr (VNil, pos)
            else binary_value fo f p pos) (\<lambda>(x, pos').
     rbind (binary_loop fo p bitmap (i + 1) pos' fs) (\<lambda>xs. Inr (x # xs))))"

definition ParseBinary :: "'f floats \<Rightarrow> string \<Rightarrow> field list \<Rightarrow> 'f val list res" where
  "ParseBinary fo p f =
     rbind (at_index p 0) (\<lambda>b0.
       if b0 \<noteq> CHR 0x00 then Inl (Err ErrMalformPacket)
       else
         let pos = 1 + drop_bit 3 (int (length f) + 7 + 2) in
         rbind (slice p 1 pos) (\<lambda>nullBitmap. binary_loop fo p nullBitmap 0 pos f))"

definition RowData_Parse :: "'f floats \<Rightarrow> string \<Rightarrow> field list \<Rightarrow> bool \<Rightarrow> 'f val list res" where
  "RowData_Parse fo p f binary = (if binary then ParseBinary fo p f else ParseText fo p f)"

section \<open>Writing rows\<close>

definition formatValue :: "'f floats \<Rightarrow> 'f val \<Rightarrow> string" where
  "formatValue fo v =
     (case v of
        VNil \<Rightarrow> ''NULL''
      | VInt i \<Rightarrow> int_str i
      | VUint u \<Rightarrow> int_str u
      | VFloat x \<Rightarrow> fl_Format fo x
      | VBytes b \<Rightarrow> b
      | VStr s \<Rightarrow> s)"

definition formatField :: "field \<Rightarrow> 'f val \<Rightarrow> field res" where
  "formatField f v =
     (case v of
        VInt _ \<Rightarrow> Inr (f\<lparr>f_Charset := 63, f_Type := MYSQL_TYPE_LONGLONG, f_Flag := BINARY_FLAG OR NOT_NULL_FLAG\<rparr>)
      | VUint _ \<Rightarrow> Inr (f\<lparr>f_Charset := 63, f_Type := MYSQL_TYPE_LONGLONG, f_Flag := BINARY_FLAG OR NOT_NULL_FLAG OR UNSIGNED_FLAG\<rparr>)
      | VFloat _ \<Rightarrow> Inr (f\<lparr>f_Charset := 63, f_Type := MYSQL_TYPE_DOUBLE, f_Flag := BINARY_FLAG OR NOT_NULL_FLAG\<rparr>)
      | VStr _ \<Rightarrow> Inr (f\<lparr>f_Charset := 33, f_Type := MYSQL_TYPE_VAR_STRING\<rparr>)
      | VBytes _ \<Rightarrow> Inr (f\<lparr>f_Charset := 33, f_Type := MYSQL_TYPE_VAR_STRING\<rparr>)
      | VNil \<Rightarrow> Inl (Err (Errorf ''unsupport type <nil> for resultset'')))"

definition new_field :: field where
  "new_field = \<lparr>f_Data = None, f_Schema = [], f_Table = [], f_OrgTable = [], f_Name = [], f_OrgName = [],
     f_Charset = 0, f_ColumnLength = 0, f_Type = CHR 0x00, f_Flag = 0, f_Decimal = CHR 0x00,
     f_DefaultValueLength = 0, f_DefaultValue = None\<rparr>"

text \<open>
  The column definitions that the first row gives: those of the database when there are any, and new
  ones named after \<open>names\<close> otherwise. A new field is entered into \<open>FieldNames\<close> before it gets its name.
\<close>

fun row_fields ::
  "field list \<Rightarrow> string list \<Rightarrow> int \<Rightarrow> 'f val list \<Rightarrow> (string \<rightharpoonup> int) \<Rightarrow> (field list \<times> (string \<rightharpoonup> int)) res" where
  "row_fields flds names j [] fn = Inr ([], fn)"
| "row_fields flds names j (v # vs) fn =
     (if flds \<noteq> [] then
        rbind (at_index flds j) (\<lambda>f.
        rbind (row_fields flds names (j + 1) vs (fn(f_Name f \<mapsto> j))) (\<lambda>(fs, fn'). Inr (f # fs, fn')))
      else
        rbind (at_index names j) (\<lambda>name.
        rbind (formatField (new_field\<lparr>f_Name := name\<rparr>) v) (\<lambda>f.
        rbind (row_fields flds names (j + 1) vs (fn([] \<mapsto> j))) (\<lambda>(fs, fn'). Inr (f # fs, fn')))))"

definition row_bytes :: "'f floats \<Rightarrow> 'f val list \<Rightarrow> string" where
  "row_bytes fo vs = concat (map (\<lambda>v. PutLengthEncodedString (formatValue fo v)) vs)"

text \<open>The number of columns is that of \<open>names\<close>; a row of another length ends the loop over the rows with an error.\<close>

fun check_rows :: "int \<Rightarrow> int \<Rightarrow> 'f val list list \<Rightarrow> unit res" where
  "check_rows k i [] = Inr ()"
| "check_rows k i (vs # vss) =
     (if int (length vs) \<noteq> k
      then Inl (Err (Errorf (''row '' @ int_str i @ '' has '' @ int_str (int (length vs)) @ '' column not equal '' @ int_str k)))
      else check_rows k (i + 1) vss)"

text \<open>
  Without rows the code leaves the slice of fields full of \<open>nil\<close> pointers; \<open>None\<close> stands for such a
  result set, whose fields cannot be written.
\<close>

definition buildResultset ::
  "'f floats \<Rightarrow> field list \<Rightarrow> string list \<Rightarrow> 'f val list list \<Rightarrow> 'f resultset option res" where
  "buildResultset fo flds names values =
     (if flds \<noteq> [] \<and> length names \<noteq> length flds then Inl (Err ErrInvalidArgument)
      else
        case values of
          [] \<Rightarrow> Inr (if names = [] then Some \<lparr>rs_Fields = [], rs_FieldNames = Map.empty, rs_Values = [], rs_RowDatas = []\<rparr> else None)
        | vs # vss \<Rightarrow>
            rbind (check_rows (int (length names)) 0 [vs]) (\<lambda>_.
            rbind (row_fields flds names 0 vs Map.empty) (\<lambda>(fs, fn).
            rbind (check_rows (int (length names)) 1 vss) (\<lambda>_.
              Inr (Some \<lparr>rs_Fields = fs, rs_FieldNames = fn, rs_Values = values,
                         rs_RowDatas = map (row_bytes fo) values\<rparr>)))))"

section \<open>Order\<close>

definition bytes_Compare :: "string \<Rightarrow> string \<Rightarrow> int" where
  "bytes_Compare a b = (if str_less a b then -1 else if a = b then 0 else 1)"

definition cmp_with :: "('a \<Rightarrow> 'a \<Rightarrow> bool) \<Rightarrow> 'a \<Rightarrow> 'a \<Rightarrow> int" where
  "cmp_with lt v s = (if lt v s then -1 else if lt s v then 1 else 0)"

definition cmpValue :: "'f floats \<Rightarrow> 'f val \<Rightarrow> 'f val \<Rightarrow> int res" where
  "cmpValue fo v1 v2 =
     (case v1 of
        VNil \<Rightarrow> Inr (case v2 of VNil \<Rightarrow> 0 | _ \<Rightarrow> -1)
      | _ \<Rightarrow>
          (case (v1, v2) of
             (_, VNil) \<Rightarrow> Inr 1
           | (VStr v, VStr s) \<Rightarrow> Inr (bytes_Compare v s)
           | (VBytes v, VBytes s) \<Rightarrow> Inr (bytes_Compare v s)
           | (VInt v, VInt s) \<Rightarrow> Inr (cmp_with (<) v s)
           | (VUint v, VUint s) \<Rightarrow> Inr (cmp_with (<) v s)
           | (VFloat v, VFloat s) \<Rightarrow> Inr (cmp_with (fl_less fo) v s)
           | _ \<Rightarrow> Inl (Panic TypeAssertion)))"

record sort_key =
  sk_Name :: string
  sk_Direction :: string
  sk_column :: int

fun set_columns :: "'f resultset \<Rightarrow> sort_key list \<Rightarrow> sort_key list res" where
  "set_columns r [] = Inr []"
| "set_columns r (k # ks) =
     (case rs_FieldNames r (sk_Name k) of
        Some column \<Rightarrow> rbind (set_columns r ks) (\<lambda>ks'. Inr (k\<lparr>sk_column := column\<rparr> # ks'))
      | None \<Rightarrow> Inl (Err (Errorf (''key '' @ sk_Name k @ '' not in resultset fields, can not sort''))))"

fun sorter_Less :: "'f floats \<Rightarrow> sort_key list \<Rightarrow> 'f val list \<Rightarrow> 'f val list \<Rightarrow> bool res" where
  "sorter_Less fo [] v1 v2 = Inr False"
| "sorter_Less fo (k # ks) v1 v2 =
     rbind (at_index v1 (sk_column k)) (\<lambda>a.
     rbind (at_index v2 (sk_column k)) (\<lambda>b.
     rbind (cmpValue fo a b) (\<lambda>v0.
       let v = (if sk_Direction k = ''desc'' then - v0 else v0) in
       if v < 0 then Inr True else if v > 0 then Inr False else sorter_Less fo ks v1 v2)))"

text \<open>
  \<open>Sort\<close>. The values and the encoded rows are swapped together, so the sort runs on their pairs; \<open>Swap\<close>
  panics when there are fewer encoded rows than values.
\<close>

type_synonym 'a sorter = "('a \<Rightarrow> 'a \<Rightarrow> bool res) \<Rightarrow> 'a list \<Rightarrow> 'a list res"

definition rs_Sort ::
  "'f floats \<Rightarrow> ('f val list \<times> string) sorter \<Rightarrow> 'f resultset \<Rightarrow> sort_key list \<Rightarrow> 'f resultset res" where
  "rs_Sort fo go_sort r sk0 =
     rbind (set_columns r sk0) (\<lambda>sk.
       if length (rs_RowDatas r) < length (rs_Values r) then Inl (Panic IndexOutOfRange)
       else
         rbind (go_sort (\<lambda>a b. sorter_Less fo sk (fst a) (fst b)) (zip (rs_Values r) (rs_RowDatas r)))
           (\<lambda>ps. Inr (r\<lparr>rs_Values := map fst ps,
                       rs_RowDatas := map snd ps @ drop (length (rs_Values r)) (rs_RowDatas r)\<rparr>)))"

text \<open>
  What \<open>sort.Sort\<close> promises: for a comparison that returns on the elements and is a strict weak order
  there, the result is a permutation in which no element is less than an earlier one.
\<close>

definition weak_order :: "('a \<Rightarrow> 'a \<Rightarrow> bool) \<Rightarrow> 'a set \<Rightarrow> bool" where
  "weak_order lt S \<longleftrightarrow> (\<forall>a \<in> S. \<forall>b \<in> S. lt a b \<longrightarrow> \<not> lt b a)
     \<and> (\<forall>a \<in> S. \<forall>b \<in> S. \<forall>c \<in> S. \<not> lt a b \<longrightarrow> \<not> lt b c \<longrightarrow> \<not> lt a c)"

lemma weak_order_asym: "weak_order lt S \<Longrightarrow> a \<in> S \<Longrightarrow> b \<in> S \<Longrightarrow> lt a b \<Longrightarrow> \<not> lt b a"
  unfolding weak_order_def by blast

lemma weak_order_neg:
  "weak_order lt S \<Longrightarrow> a \<in> S \<Longrightarrow> b \<in> S \<Longrightarrow> c \<in> S \<Longrightarrow> \<not> lt a b \<Longrightarrow> \<not> lt b c \<Longrightarrow> \<not> lt a c"
  unfolding weak_order_def by blast

lemma weak_order_cong:
  "weak_order lt S \<Longrightarrow> (\<And>a b. a \<in> S \<Longrightarrow> b \<in> S \<Longrightarrow> lt' a b = lt a b) \<Longrightarrow> weak_order lt' S"
  unfolding weak_order_def by metis

definition is_sort :: "'a sorter \<Rightarrow> bool" where
  "is_sort go_sort \<longleftrightarrow>
     (\<forall>le lt xs. (\<forall>a \<in> set xs. \<forall>b \<in> set xs. le a b = Inr (lt a b)) \<longrightarrow> weak_order lt (set xs) \<longrightarrow>
        (\<exists>ys. go_sort le xs = Inr ys \<and> mset ys = mset xs \<and> sorted_wrt (\<lambda>a b. \<not> lt b a) ys))"

section \<open>Comparisons\<close>

text \<open>
  Three-valued comparisons on a set of elements that can be compared with each other, and the strict
  weak order they give.
\<close>

locale comparison =
  fixes S :: "'a set" and cmp :: "'a \<Rightarrow> 'a \<Rightarrow> int"
  assumes swap: "a \<in> S \<Longrightarrow> b \<in> S \<Longrightarrow> sgn (cmp b a) = - sgn (cmp a b)"
    and trans: "a \<in> S \<Longrightarrow> b \<in> S \<Longrightarrow> c \<in> S \<Longrightarrow> cmp a b \<le> 0 \<Longrightarrow> cmp b c \<le> 0 \<Longrightarrow> cmp a c \<le> 0"
begin

lemma neg_iff: "a \<in> S \<Longrightarrow> b \<in> S \<Longrightarrow> cmp b a < 0 \<longleftrightarrow> 0 < cmp a b"
  using swap [of a b] by (auto simp: sgn_if split: if_splits)

lemma weak: "weak_order (\<lambda>a b. cmp a b < 0) S"
  unfolding weak_order_def
proof (intro conjI ballI impI)
  fix a b assume "a \<in> S" "b \<in> S" "cmp a b < 0"
  then show "\<not> cmp b a < 0" using neg_iff [of a b] by linarith
next
  fix a b c assume S: "a \<in> S" "b \<in> S" "c \<in> S" and "\<not> cmp a b < 0" "\<not> cmp b c < 0"
  then have "cmp b a \<le> 0" "cmp c b \<le> 0" using neg_iff [of b a] neg_iff [of c b] by linarith+
  then have "cmp c a \<le> 0" using trans [of c b a] S by simp
  then show "\<not> cmp a c < 0" using neg_iff [of c a] S by linarith
qed

end

text \<open>Comparing by one key first and by another where the first is equal.\<close>

lemma comparison_lex:
  assumes "comparison S f" and "comparison S g"
  shows "comparison S (\<lambda>a b. if f a b \<noteq> 0 then f a b else g a b)"
proof -
  have fs: "sgn (f b a) = - sgn (f a b)" and gs: "sgn (g b a) = - sgn (g a b)"
    if "a \<in> S" "b \<in> S" for a b
    using comparison.swap [OF assms(1) that] comparison.swap [OF assms(2) that] .
  have ft: "f a c \<le> 0" if "a \<in> S" "b \<in> S" "c \<in> S" "f a b \<le> 0" "f b c \<le> 0" for a b c
    using comparison.trans [OF assms(1) that] .
  have gt: "g a c \<le> 0" if "a \<in> S" "b \<in> S" "c \<in> S" "g a b \<le> 0" "g b c \<le> 0" for a b c
    using comparison.trans [OF assms(2) that] .
  have z: "f b a = 0 \<longleftrightarrow> f a b = 0"
    and p: "f b a < 0 \<longleftrightarrow> 0 < f a b" if "a \<in> S" "b \<in> S" for a b
    using fs [OF that] by (auto simp: sgn_if split: if_splits)
  show ?thesis
  proof
    fix a b assume "a \<in> S" "b \<in> S"
    then show "sgn (if f b a \<noteq> 0 then f b a else g b a) = - sgn (if f a b \<noteq> 0 then f a b else g a b)"
      using fs [of a b] gs [of a b] z [of a b] by auto
  next
    fix a b c assume S: "a \<in> S" "b \<in> S" "c \<in> S"
      and ab: "(if f a b \<noteq> 0 then f a b else g a b) \<le> 0" and bc: "(if f b c \<noteq> 0 then f b c else g b c) \<le> 0"
    then have le: "f a b \<le> 0" "f b c \<le> 0" by (auto split: if_splits)
    then have ac: "f a c \<le> 0" using ft S by blast
    show "(if f a c \<noteq> 0 then f a c else g a c) \<le> 0"
    proof (cases "f a c = 0")
      case True
      then have "f c a = 0" using z S by blast
      then have "f b a \<le> 0" "f c b \<le> 0" using ft [of b c a] ft [of c a b] le S by simp_all
      moreover have "f a b = 0" if "f b a \<le> 0" using that p [of a b] z [of a b] le S by (cases "f b a = 0") auto
      moreover have "f b c = 0" if "f c b \<le> 0" using that p [of b c] z [of b c] le S by (cases "f c b = 0") auto
      ultimately have "f a b = 0" "f b c = 0" by blast+
      with ab bc have "g a b \<le> 0" "g b c \<le> 0" by auto
      from gt [OF S this] True show ?thesis by simp
    qed (use ac in simp)
  qed
qed

lemma comparison_neg: "comparison S f \<Longrightarrow> comparison S (\<lambda>a b. - f a b)"
proof
  assume c: "comparison S f"
  show "sgn (- f b a) = - sgn (- f a b)" if "a \<in> S" "b \<in> S" for a b
    using comparison.swap [OF c that] by simp
  show "- f a c \<le> 0" if S: "a \<in> S" "b \<in> S" "c \<in> S" and le: "- f a b \<le> 0" "- f b c \<le> 0" for a b c
  proof -
    have "f b a \<le> 0" "f c b \<le> 0" using comparison.neg_iff [OF c] S le by (metis neg_le_0_iff_le not_less)+
    then have "f c a \<le> 0" using comparison.trans [OF c, of c b a] S by simp
    then show ?thesis using comparison.neg_iff [OF c, of c a] S by linarith
  qed
qed

text \<open>A key function turns a comparison of keys into one of rows.\<close>

lemma comparison_vimage: "comparison S f \<Longrightarrow> h ` T \<subseteq> S \<Longrightarrow> comparison T (\<lambda>a b. f (h a) (h b))"
  by (rule comparison.intro) (auto intro: comparison.swap comparison.trans)

text \<open>A function that is total on the comparable elements, from one that may panic.\<close>

lemma str_less_linear: "\<not> str_less a b \<Longrightarrow> \<not> str_less b a \<Longrightarrow> a = b"
proof (induction a b rule: str_less.induct)
  case (1 a)
  then show ?case by (cases a) auto
qed (auto split: if_splits)

lemma str_less_trans: "str_less a b \<Longrightarrow> str_less b c \<Longrightarrow> str_less a c"
proof (induction a b arbitrary: c rule: str_less.induct)
  case (3 x xs y ys)
  then show ?case by (cases c) (auto split: if_splits)
qed (auto split: if_splits, metis str_less.elims(2) str_less.simps(2))

lemma weak_order_comparison: "weak_order lt S \<Longrightarrow> comparison S (cmp_with lt)"
proof (rule comparison.intro)
  assume w: "weak_order lt S"
  show "sgn (cmp_with lt b a) = - sgn (cmp_with lt a b)" if "a \<in> S" "b \<in> S" for a b
  proof -
    have "lt a b \<longrightarrow> \<not> lt b a" using weak_order_asym [OF w that] by blast
    then show ?thesis by (auto simp: cmp_with_def)
  qed
  show "cmp_with lt a c \<le> 0" if "a \<in> S" "b \<in> S" "c \<in> S" "cmp_with lt a b \<le> 0" "cmp_with lt b c \<le> 0" for a b c
  proof -
    have "lt a b \<longrightarrow> \<not> lt b a" "lt b c \<longrightarrow> \<not> lt c b"
      using weak_order_asym [OF w] that(1-3) by blast+
    then have "\<not> lt b a" "\<not> lt c b" using that(4,5) by (auto simp: cmp_with_def split: if_splits)
    then have "\<not> lt c a" using weak_order_neg [OF w] that(1-3) by blast
    then show ?thesis by (simp add: cmp_with_def)
  qed
qed

lemma weak_order_int: "weak_order ((<) :: int \<Rightarrow> int \<Rightarrow> bool) UNIV"
  by (auto simp: weak_order_def)

lemma weak_order_str: "weak_order str_less UNIV"
  unfolding weak_order_def
  using str_less_trans str_less_irrefl str_less_linear by blast

lemma bytes_Compare_eq: "bytes_Compare = cmp_with str_less"
  using str_less_irrefl str_less_linear str_less_trans by (fastforce simp: bytes_Compare_def cmp_with_def)

text \<open>The values of one column: nil or all of the same type.\<close>

fun vtype :: "'f val \<Rightarrow> nat" where
  "vtype VNil = 0" | "vtype (VInt _) = 1" | "vtype (VUint _) = 2" | "vtype (VFloat _) = 3"
| "vtype (VStr _) = 4" | "vtype (VBytes _) = 5"

definition typed :: "nat \<Rightarrow> 'f val \<Rightarrow> bool" where
  "typed t v \<longleftrightarrow> v = VNil \<or> vtype v = t"

definition float_order :: "'f floats \<Rightarrow> bool" where
  "float_order fo \<longleftrightarrow> weak_order (fl_less fo) UNIV"

definition cmp_total :: "'f floats \<Rightarrow> 'f val \<Rightarrow> 'f val \<Rightarrow> int" where
  "cmp_total fo a b = (case cmpValue fo a b of Inr v \<Rightarrow> v | Inl _ \<Rightarrow> 0)"

lemma cmpValue_typed: "typed t a \<Longrightarrow> typed t b \<Longrightarrow> cmpValue fo a b = Inr (cmp_total fo a b)"
  by (cases a; cases b) (auto simp: typed_def cmp_total_def cmpValue_def)

lemma cmp_values_comparison:
  assumes "float_order fo"
  shows "comparison {v. typed t v} (cmp_total fo)"
proof -
  note cf = weak_order_comparison [OF assms [unfolded float_order_def]]
  note ci = weak_order_comparison [OF weak_order_int]
  note cs = weak_order_comparison [OF weak_order_str]
  show ?thesis
  proof (rule comparison.intro; unfold mem_Collect_eq)
    fix a b :: "'a val" assume "typed t a" "typed t b"
    then show "sgn (cmp_total fo b a) = - sgn (cmp_total fo a b)"
      by (cases a; cases b) (auto simp: typed_def cmp_total_def cmpValue_def bytes_Compare_eq
          intro: comparison.swap [OF cf UNIV_I UNIV_I] comparison.swap [OF ci UNIV_I UNIV_I] comparison.swap [OF cs UNIV_I UNIV_I])
  next
    fix a b c :: "'a val" assume "typed t a" "typed t b" "typed t c" "cmp_total fo a b \<le> 0" "cmp_total fo b c \<le> 0"
    then show "cmp_total fo a c \<le> 0"
      by (cases a; cases b; cases c) (auto simp: typed_def cmp_total_def cmpValue_def bytes_Compare_eq
          intro: comparison.trans [OF cf UNIV_I UNIV_I UNIV_I] comparison.trans [OF ci UNIV_I UNIV_I UNIV_I]
            comparison.trans [OF cs UNIV_I UNIV_I UNIV_I])
  qed
qed

fun row_cmp :: "'f floats \<Rightarrow> sort_key list \<Rightarrow> 'f val list \<Rightarrow> 'f val list \<Rightarrow> int" where
  "row_cmp fo [] a b = 0"
| "row_cmp fo (k # ks) a b =
     (let v0 = cmp_total fo (a ! nat (sk_column k)) (b ! nat (sk_column k));
          v = (if sk_Direction k = ''desc'' then - v0 else v0)
      in if v \<noteq> 0 then v else row_cmp fo ks a b)"

definition comparable_rows :: "'f floats \<Rightarrow> (int \<Rightarrow> nat) \<Rightarrow> sort_key list \<Rightarrow> 'f val list set" where
  "comparable_rows fo ts sk =
     {row. float_order fo \<and> (\<forall>k \<in> set sk. 0 \<le> sk_column k \<and> sk_column k < int (length row)
        \<and> typed (ts (sk_column k)) (row ! nat (sk_column k)))}"

lemma comparison_mono: "comparison S f \<Longrightarrow> T \<subseteq> S \<Longrightarrow> comparison T f"
  by (rule comparison_vimage [of S f "\<lambda>x. x" T, simplified])

lemma row_comparison: "comparison (comparable_rows fo ts sk) (row_cmp fo sk)"
proof (induction sk)
  case Nil
  show ?case by (rule comparison.intro) auto
next
  case (Cons k ks)
  let ?S = "comparable_rows fo ts (k # ks)" and ?h = "\<lambda>row :: 'a val list. row ! nat (sk_column k)"
  show ?case
  proof (cases "float_order fo")
    case True
    have "comparison ?S (\<lambda>a b. cmp_total fo (?h a) (?h b))"
      by (rule comparison_vimage [OF cmp_values_comparison [OF True, of "ts (sk_column k)"]])
        (auto simp: comparable_rows_def)
    then have "comparison ?S (\<lambda>a b. if sk_Direction k = ''desc'' then - cmp_total fo (?h a) (?h b) else cmp_total fo (?h a) (?h b))"
      using comparison_neg by (cases "sk_Direction k = ''desc''") auto
    moreover have "comparison ?S (row_cmp fo ks)"
      by (rule comparison_mono [OF Cons]) (auto simp: comparable_rows_def)
    ultimately show ?thesis using comparison_lex by (fastforce simp: Let_def)
  next
    case False
    then show ?thesis by (intro comparison.intro) (auto simp: comparable_rows_def)
  qed
qed

interpretation row_order: comparison "comparable_rows fo ts sk" "row_cmp fo sk" for fo ts sk
  by (rule row_comparison)

lemma sorter_Less_row_cmp:
  "a \<in> comparable_rows fo ts sk \<Longrightarrow> b \<in> comparable_rows fo ts sk \<Longrightarrow> sorter_Less fo sk a b = Inr (row_cmp fo sk a b < 0)"
proof (induction sk)
  case (Cons k ks)
  then have "sorter_Less fo ks a b = Inr (row_cmp fo ks a b < 0)" by (auto simp: comparable_rows_def)
  moreover have "cmpValue fo (a ! nat (sk_column k)) (b ! nat (sk_column k)) =
      Inr (cmp_total fo (a ! nat (sk_column k)) (b ! nat (sk_column k)))"
    using Cons.prems by (intro cmpValue_typed [of "ts (sk_column k)"]) (auto simp: comparable_rows_def)
  ultimately show ?case using Cons.prems by (auto simp: comparable_rows_def at_index_def Let_def)
qed simp

lemma is_sortD:
  assumes "is_sort go_sort" and "\<And>a b. a \<in> set xs \<Longrightarrow> b \<in> set xs \<Longrightarrow> le a b = Inr (lt a b)" and "weak_order lt (set xs)"
  shows "\<exists>ys. go_sort le xs = Inr ys \<and> mset ys = mset xs \<and> sorted_wrt (\<lambda>a b. \<not> lt b a) ys"
  using assms unfolding is_sort_def by simp

text \<open>An instance of \<open>sort.Sort\<close>, for evaluation.\<close>

fun insert_by :: "('a \<Rightarrow> 'a \<Rightarrow> bool) \<Rightarrow> 'a \<Rightarrow> 'a list \<Rightarrow> 'a list" where
  "insert_by lt x [] = [x]"
| "insert_by lt x (y # ys) = (if lt y x then y # insert_by lt x ys else x # y # ys)"

definition insertion_sort :: "'a sorter" where
  "insertion_sort le xs = Inr (foldr (insert_by (\<lambda>a b. le a b = Inr True)) xs [])"

lemma mset_insert_by [simp]: "mset (insert_by lt x ys) = add_mset x (mset ys)"
  by (induction ys) auto

lemma set_insert_by [simp]: "set (insert_by lt x ys) = insert x (set ys)"
  by (induction ys) auto

lemma sorted_insert_by:
  assumes "weak_order lt S" and "x \<in> S" and "set ys \<subseteq> S" and "sorted_wrt (\<lambda>a b. \<not> lt b a) ys"
  shows "sorted_wrt (\<lambda>a b. \<not> lt b a) (insert_by lt x ys)"
  using assms(3,4)
proof (induction ys)
  case (Cons y ys)
  have S: "y \<in> S" "z \<in> S" if "z \<in> set ys" for z using Cons.prems(1) that by auto
  have "\<not> lt z x" if "z \<in> set ys" "\<not> lt y x" for z
    using weak_order_neg [OF assms(1), of z y x] S [OF that(1)] assms(2) Cons.prems(2) that by simp
  moreover have "\<not> lt x y" if "lt y x" using weak_order_asym [OF assms(1), of y x] Cons.prems(1) assms(2) that by simp
  ultimately show ?case using Cons by auto
qed simp

lemma is_sort_insertion_sort: "is_sort insertion_sort"
  unfolding is_sort_def
proof (intro allI impI)
  fix le :: "'a \<Rightarrow> 'a \<Rightarrow> bool res" and lt and xs :: "'a list"
  assume le: "\<forall>a \<in> set xs. \<forall>b \<in> set xs. le a b = Inr (lt a b)" and w: "weak_order lt (set xs)"
  let ?lt = "\<lambda>a b. le a b = Inr True"
  have w': "weak_order ?lt (set xs)" by (rule weak_order_cong [OF w]) (simp add: le)
  have "set ys \<subseteq> set xs \<Longrightarrow> mset (foldr (insert_by ?lt) ys []) = mset ys
      \<and> sorted_wrt (\<lambda>a b. \<not> ?lt b a) (foldr (insert_by ?lt) ys [])" for ys
  proof (induction ys)
    case (Cons y ys)
    then have m: "mset (foldr (insert_by ?lt) ys []) = mset ys" by simp
    have "set (foldr (insert_by ?lt) ys []) \<subseteq> set xs" using Cons.prems mset_eq_setD [OF m] by simp
    with Cons m sorted_insert_by [OF w'] show ?case by simp
  qed simp
  from this [of xs] le show "\<exists>ys. insertion_sort le xs = Inr ys \<and> mset ys = mset xs \<and> sorted_wrt (\<lambda>a b. \<not> lt b a) ys"
    unfolding insertion_sort_def
    by (intro exI [of _ "foldr (insert_by ?lt) xs []"]) (auto dest!: mset_eq_setD elim!: sorted_wrt_mono_rel [rotated])
qed

text \<open>Sorting keeps the rows with their encodings and orders them by the keys.\<close>

lemma rs_Sort_sorted:
  assumes "is_sort go_sort" and "set_columns r sk = Inr sk'"
    and "length (rs_RowDatas r) = length (rs_Values r)" and "set (rs_Values r) \<subseteq> comparable_rows fo ts sk'"
  shows "\<exists>r'. rs_Sort fo go_sort r sk = Inr r'
    \<and> mset (zip (rs_Values r') (rs_RowDatas r')) = mset (zip (rs_Values r) (rs_RowDatas r))
    \<and> length (rs_RowDatas r') = length (rs_Values r') \<and> sorted_wrt (\<lambda>a b. row_cmp fo sk' a b \<le> 0) (rs_Values r')"
proof -
  let ?ps = "zip (rs_Values r) (rs_RowDatas r)" and ?S = "comparable_rows fo ts sk'"
  have ps: "fst p \<in> ?S" if "p \<in> set ?ps" for p using that assms(4) set_zip_leftD [of "fst p" "snd p"] by auto
  have "weak_order (\<lambda>p q. row_cmp fo sk' (fst p) (fst q) < 0) (set ?ps)"
    using comparison.weak [OF comparison_vimage [OF row_comparison, of fst "set ?ps"]] ps by blast
  then obtain ys where ys: "go_sort (\<lambda>a b. sorter_Less fo sk' (fst a) (fst b)) ?ps = Inr ys" "mset ys = mset ?ps"
    and s: "sorted_wrt (\<lambda>a b. \<not> row_cmp fo sk' (fst b) (fst a) < 0) ys"
    using is_sortD [OF assms(1), of ?ps "\<lambda>a b. sorter_Less fo sk' (fst a) (fst b)" "\<lambda>p q. row_cmp fo sk' (fst p) (fst q) < 0"]
      sorter_Less_row_cmp ps by blast
  have "fst p \<in> ?S" if "p \<in> set ys" for p using that ps mset_eq_setD [OF ys(2)] by simp
  then have "sorted_wrt (\<lambda>a b. row_cmp fo sk' (fst a) (fst b) \<le> 0) ys"
    using s row_order.neg_iff [of _ fo ts sk'] by (elim sorted_wrt_mono_rel [rotated]) force
  moreover have "zip (map fst ys) (map snd ys) = ys" by (rule zip_map_fst_snd)
  ultimately show ?thesis
    using ys assms(2,3) by (intro exI [of _ "r\<lparr>rs_Values := map fst ys, rs_RowDatas := map snd ys\<rparr>"])
      (simp add: rs_Sort_def sorted_wrt_map)
qed

lemma set_columns_cong: "rs_FieldNames r = rs_FieldNames r' \<Longrightarrow> set_columns r sk = set_columns r' sk"
  by (induction sk) (auto split: option.splits)

section \<open>Rows written and read\<close>

lemma text_loop_row:
  assumes "list_all2 (\<lambda>f vx. text_value fo f (formatValue fo (fst vx)) = Inr (snd vx)
      \<and> int (length (formatValue fo (fst vx))) + 9 \<le> MaxInt64) fs vxs"
  shows "text_loop fo (a @ row_bytes fo (map fst vxs) @ r) (int (length a)) fs = Inr (map snd vxs)"
  using assms
proof (induction fs vxs arbitrary: a rule: list_all2_induct)
  case (Cons f fs vx vxs)
  let ?c = "PutLengthEncodedString (formatValue fo (fst vx))" and ?rest = "row_bytes fo (map fst vxs) @ r"
  have "slice_from (a @ row_bytes fo (map fst (vx # vxs)) @ r) (int (length a)) = Inr (?c @ ?rest)"
    by (simp add: slice_from_def slice_def row_bytes_def)
  moreover have "LengthEnodedString (?c @ ?rest) = Inr (formatValue fo (fst vx), False, int (length ?c))"
    using Cons.hyps(1) by (intro LengthEnodedString_Put) simp
  moreover have "text_loop fo (a @ row_bytes fo (map fst (vx # vxs)) @ r) (int (length a) + int (length ?c)) fs = Inr (map snd vxs)"
    using Cons.IH [of "a @ ?c"] by (simp add: row_bytes_def)
  ultimately show ?case using Cons.hyps(1) by simp
qed simp

text \<open>
  A cell that can be written and read back: a number in the range of its type, a float that its text
  determines, a string that fits. A byte slice is read back as a string, and nil does not come back.
\<close>

definition writable :: "'f floats \<Rightarrow> 'f val \<Rightarrow> bool" where
  "writable fo v \<longleftrightarrow> int (length (formatValue fo v)) + 9 \<le> MaxInt64 \<and>
     (case v of VNil \<Rightarrow> False | VInt i \<Rightarrow> is_int64 i | VUint u \<Rightarrow> 0 \<le> u \<and> u \<le> MaxUint64
      | VFloat x \<Rightarrow> fl_Parse fo (fl_Format fo x) = Inr x | _ \<Rightarrow> True)"

fun as_text :: "'f val \<Rightarrow> 'f val" where
  "as_text (VBytes b) = VStr b"
| "as_text v = v"

lemma text_value_formatField:
  assumes "formatField f0 v0 = Inr f" and "isUnsigned f0 = False" and "writable fo v" and "vtype v = vtype v0"
  shows "text_value fo f (formatValue fo v) = Inr (as_text v)"
proof (cases v)
  case (VUint u)
  with assms(3) have "ParseUint10 (int_str u) = Inr u"
    using ParseUint10_nat_str [of "nat u"] by (simp add: writable_def int_str_def)
  with VUint assms show ?thesis
    by (cases v0) (auto simp: formatField_def text_value_def formatValue_def isUnsigned_def strconv_ParseUint_def)
next
  case (VInt i)
  with assms strconv_ParseInt_int_str [of i] show ?thesis
    by (cases v0) (auto simp: formatField_def text_value_def formatValue_def isUnsigned_def writable_def)
qed (use assms in \<open>cases v0; auto simp: formatField_def text_value_def formatValue_def writable_def\<close>)+

lemma row_fields_new:
  assumes "row_fields [] names j vs fn = Inr (fs, fn')"
  shows "list_all2 (\<lambda>f v. \<exists>f0. formatField f0 v = Inr f \<and> \<not> isUnsigned f0) fs vs"
  using assms
proof (induction vs arbitrary: j fn fs fn')
  case (Cons v vs)
  from Cons.prems obtain name f fs' where "formatField (new_field\<lparr>f_Name := name\<rparr>) v = Inr f" "fs = f # fs'"
    "row_fields [] names (j + 1) vs (fn([] \<mapsto> j)) = Inr (fs', fn')"
    by (auto simp: rbind_eq_Inr_iff)
  moreover have "\<not> isUnsigned (new_field\<lparr>f_Name := name\<rparr>)" by (simp add: isUnsigned_def new_field_def)
  ultimately show ?case using Cons.IH by blast
qed simp

lemma built_row_parses:
  assumes "list_all2 (\<lambda>f v0. \<exists>f0. formatField f0 v0 = Inr f \<and> \<not> isUnsigned f0) fs vs0"
    and "list_all (writable fo) vs" and "map vtype vs = map vtype vs0"
  shows "ParseText fo (row_bytes fo vs) fs = Inr (map as_text vs)"
proof -
  have l: "length vs = length vs0" using arg_cong [OF assms(3), of length] by simp
  have "list_all2 (\<lambda>f vx. text_value fo f (formatValue fo (fst vx)) = Inr (snd vx)
      \<and> int (length (formatValue fo (fst vx))) + 9 \<le> MaxInt64) fs (map (\<lambda>v. (v, as_text v)) vs)"
  proof (rule list_all2_all_nthI)
    show "length fs = length (map (\<lambda>v. (v, as_text v)) vs)" using list_all2_lengthD [OF assms(1)] l by simp
    fix i assume i: "i < length fs"
    then have iv: "i < length vs" using list_all2_lengthD [OF assms(1)] l by simp
    obtain f0 where f0: "formatField f0 (vs0 ! i) = Inr (fs ! i)" "isUnsigned f0 = False"
      using list_all2_nthD [OF assms(1) i] by auto
    have w: "writable fo (vs ! i)" using assms(2) iv by (simp add: list_all_length)
    have "vtype (vs ! i) = vtype (vs0 ! i)" using arg_cong [OF assms(3), of "\<lambda>l. l ! i"] iv l by simp
    with text_value_formatField [OF f0 w] w iv
    show "text_value fo (fs ! i) (formatValue fo (fst (map (\<lambda>v. (v, as_text v)) vs ! i))) = Inr (snd (map (\<lambda>v. (v, as_text v)) vs ! i))
      \<and> int (length (formatValue fo (fst (map (\<lambda>v. (v, as_text v)) vs ! i)))) + 9 \<le> MaxInt64"
      by (simp add: writable_def)
  qed
  from text_loop_row [OF this, of "[]" "[]"] show ?thesis by (simp add: ParseText_def comp_def)
qed

section \<open>Properties\<close>

text \<open>Integers in the place of floats, for evaluation.\<close>

definition int_floats :: "int floats" where
  "int_floats = \<lparr>fl_Parse = strconv_ParseInt, fl_Format = int_str, fl_from32 = (\<lambda>u. u), fl_from64 = (\<lambda>u. u), fl_zero = 0,
     fl_add = (+), fl_less = (<), fl_int = (\<lambda>x. x), fl_uint = (\<lambda>x. x), fl_of_int = (\<lambda>x. x)\<rparr>"

definition sample_rows :: "int resultset" where
  "sample_rows = \<lparr>rs_Fields = [new_field, new_field], rs_FieldNames = [''id'' \<mapsto> 0, ''name'' \<mapsto> 1],
     rs_Values = [[VInt 2, VStr ''b''], [VNil, VStr ''a''], [VInt 7, VStr ''a'']], rs_RowDatas = [''x'', ''y'', ''z'']\<rparr>"

text \<open>
  C38. Merged rows are sorted: when the values of every sort column have one type (or are NULL),
  \<open>Sort\<close> does not panic, returns the same rows with their encodings, and orders them by the keys in
  turn, each ascending or descending, NULL first in ascending order.
\<close>

theorem sort_orders_rows:
  assumes "is_sort go_sort" and "set_columns r sk = Inr sk'"
    and "length (rs_RowDatas r) = length (rs_Values r)" and "set (rs_Values r) \<subseteq> comparable_rows fo ts sk'"
  shows "\<exists>r'. rs_Sort fo go_sort r sk = Inr r'
    \<and> mset (zip (rs_Values r') (rs_RowDatas r')) = mset (zip (rs_Values r) (rs_RowDatas r))
    \<and> sorted_wrt (\<lambda>a b. row_cmp fo sk' a b \<le> 0) (rs_Values r')"
  using rs_Sort_sorted [OF assms] by blast

theorem sort_orders_rows_witness:
  "\<exists>r'. rs_Sort int_floats insertion_sort sample_rows [\<lparr>sk_Name = ''id'', sk_Direction = ''desc'', sk_column = 0\<rparr>] = Inr r'
    \<and> mset (zip (rs_Values r') (rs_RowDatas r')) = mset (zip (rs_Values sample_rows) (rs_RowDatas sample_rows))
    \<and> sorted_wrt (\<lambda>a b. row_cmp int_floats [\<lparr>sk_Name = ''id'', sk_Direction = ''desc'', sk_column = 0\<rparr>] a b \<le> 0) (rs_Values r')"
proof (rule sort_orders_rows [OF is_sort_insertion_sort, where ts = "\<lambda>_. 1"])
  show "set (rs_Values sample_rows) \<subseteq> comparable_rows int_floats (\<lambda>_. 1) [\<lparr>sk_Name = ''id'', sk_Direction = ''desc'', sk_column = 0\<rparr>]"
    by (auto simp: sample_rows_def comparable_rows_def typed_def float_order_def int_floats_def weak_order_int)
qed (simp_all add: sample_rows_def)

text \<open>
  C39. Rows that the proxy builds are read back by a client: for rows whose columns have one type each,
  the encoded rows, parsed with the column definitions that \<open>buildResultset\<close> derived from the first row,
  give the values again, byte slices as strings.
\<close>

theorem built_rows_read_back:
  assumes "buildResultset fo [] names vals = Inr (Some rs)" and "i < length vals"
    and "list_all (writable fo) (vals ! i)" and "map vtype (vals ! i) = map vtype (hd vals)"
  shows "i < length (rs_RowDatas rs) \<and> ParseText fo (rs_RowDatas rs ! i) (rs_Fields rs) = Inr (map as_text (vals ! i))"
proof -
  obtain vs vss where v: "vals = vs # vss" using assms(2) by (cases vals) auto
  from assms(1) obtain fs fn where f: "row_fields [] names 0 vs Map.empty = Inr (fs, fn)"
    and rs: "rs_Fields rs = fs" "rs_RowDatas rs = map (row_bytes fo) vals"
    by (auto simp: v buildResultset_def rbind_eq_Inr_iff)
  from built_row_parses [OF row_fields_new [OF f] assms(3)] assms(2,4) rs show ?thesis
    by (simp add: v nth_map [of i "vs # vss", simplified])
qed

theorem built_rows_read_back_witness:
  "\<exists>rs. buildResultset int_floats [] [''n'', ''s''] [[VInt 5, VStr ''a''], [VInt (-7), VStr '''']] = Inr (Some rs)
    \<and> ParseText int_floats (rs_RowDatas rs ! 1) (rs_Fields rs) = Inr [VInt (-7), VStr '''']"
proof -
  let ?vs = "[[VInt 5, VStr ''a''], [VInt (-7), VStr '''']] :: int val list list"
  obtain rs where rs: "buildResultset int_floats [] [''n'', ''s''] ?vs = Inr (Some rs)"
    by (simp add: buildResultset_def formatField_def at_index_def)
  moreover have "list_all (writable int_floats) (?vs ! 1)" by code_simp
  ultimately show ?thesis using built_rows_read_back [OF rs, of 1] by simp
qed

text \<open>NULL is written as the four letters of its name and read back as a string.\<close>

lemma null_becomes_text:
  "ParseText int_floats (row_bytes int_floats [VNil]) [new_field\<lparr>f_Type := MYSQL_TYPE_VAR_STRING\<rparr>] = Inr [VStr ''NULL'']"
  by code_simp

end
