(* ===== verification/Merge.thy ===== *)
theory Merge
  imports Resultset Sql_Stmt
begin

text \<open>
  How the proxy merges the results of the shards of a select (src/proxy/server/conn_select.go): it
  concatenates rows or combines aggregates, groups rows by the columns that the rewriting appended, sorts
  and cuts off.

  The columns of the aggregates and the groups are Go maps: they are association lists, and \<open>mo\<close> is the
  unspecified order in which the code visits their entries. \<open>cstatus\<close> and \<open>lastInsertId\<close> are the two
  fields of the client connection that the functions read.
\<close>

unbundle bit_operations_syntax

section \<open>Aggregates\<close>

definition funcNames :: "string list" where
  "funcNames = [''sum'', ''count'', ''max'', ''min'', ''last_insert_id'']"

fun func_exprs :: "int \<Rightarrow> SelectExpr list \<Rightarrow> (int \<times> string) list" where
  "func_exprs i [] = []"
| "func_exprs i (e # es) =
     (case e of
        NonStarExpr (ValE (FuncExpr n _ _)) _ \<Rightarrow>
          (if to_lower n \<in> set funcNames then [(i, to_lower n)] else [])
      | _ \<Rightarrow> []) @ func_exprs (i + 1) es"

definition getFuncExprs :: "SelectNode \<Rightarrow> (int \<times> string) list" where
  "getFuncExprs stmt = func_exprs 0 (s_SelectExprs stmt)"

text \<open>The cells that the loops over the results and their rows visit, in this order.\<close>

definition cells :: "'f result list \<Rightarrow> int \<Rightarrow> 'f val res list" where
  "cells rs index =
     concat (map (\<lambda>r. map (\<lambda>k. GetValue (re_Resultset r) k index) [0 .. RowNumber (re_Resultset r) - 1]) rs)"

text \<open>\<open>getSumFuncExprValue\<close>: the float sum, the integer sum and whether an integer was seen.\<close>

fun sum_loop :: "'f floats \<Rightarrow> 'f val res list \<Rightarrow> 'f \<Rightarrow> int \<Rightarrow> bool \<Rightarrow> 'f val res" where
  "sum_loop fo [] sumf sumi isInt = Inr (if isInt then VInt sumi else VFloat sumf)"
| "sum_loop fo (c # cs) sumf sumi isInt =
     rbind c (\<lambda>result. case result of
       VNil \<Rightarrow> sum_loop fo cs sumf sumi isInt
     | VInt v \<Rightarrow> sum_loop fo cs sumf (wrap64 (sumi + v)) True
     | VFloat v \<Rightarrow> sum_loop fo cs (fl_add fo sumf v) sumi isInt
     | VBytes v \<Rightarrow> rbind (fl_Parse fo v) (\<lambda>tmp. sum_loop fo cs (fl_add fo sumf tmp) sumi isInt)
     | _ \<Rightarrow> Inl (Err ErrSumColumnType))"

definition getSumFuncExprValue :: "'f floats \<Rightarrow> 'f result list \<Rightarrow> int \<Rightarrow> 'f val res" where
  "getSumFuncExprValue fo rs index = sum_loop fo (cells rs index) (fl_zero fo) 0 False"

fun first_not_nil :: "'f val res list \<Rightarrow> 'f val res" where
  "first_not_nil [] = Inr VNil"
| "first_not_nil (c # cs) = rbind c (\<lambda>result. case result of VNil \<Rightarrow> first_not_nil cs | v \<Rightarrow> Inr v)"

text \<open>\<open>best\<close> is replaced by \<open>result\<close> when it is less, for the maximum, or greater, for the minimum.\<close>

definition better :: "'f floats \<Rightarrow> bool \<Rightarrow> 'f val \<Rightarrow> 'f val \<Rightarrow> 'f val res" where
  "better fo mx best result =
     (case result of
        VNil \<Rightarrow> Inr best
      | VInt v \<Rightarrow> (case best of VInt m \<Rightarrow> Inr (if (if mx then m < v else v < m) then result else best) | _ \<Rightarrow> Inl (Panic TypeAssertion))
      | VUint v \<Rightarrow> (case best of VUint m \<Rightarrow> Inr (if (if mx then m < v else v < m) then result else best) | _ \<Rightarrow> Inl (Panic TypeAssertion))
      | VFloat v \<Rightarrow> (case best of VFloat m \<Rightarrow> Inr (if (if mx then fl_less fo m v else fl_less fo v m) then result else best)
                     | _ \<Rightarrow> Inl (Panic TypeAssertion))
      | VStr v \<Rightarrow> (case best of VStr m \<Rightarrow> Inr (if (if mx then str_less m v else str_less v m) then result else best)
                   | _ \<Rightarrow> Inl (Panic TypeAssertion))
      | VBytes _ \<Rightarrow> Inr best)"

fun best_loop :: "'f floats \<Rightarrow> bool \<Rightarrow> 'f val res list \<Rightarrow> 'f val \<Rightarrow> 'f val res" where
  "best_loop fo mx [] best = Inr best"
| "best_loop fo mx (c # cs) best =
     rbind c (\<lambda>result. rbind (better fo mx best result) (\<lambda>b. best_loop fo mx cs b))"

definition getMaxFuncExprValue :: "'f floats \<Rightarrow> 'f result list \<Rightarrow> int \<Rightarrow> 'f val res" where
  "getMaxFuncExprValue fo rs index =
     (if rs = [] then Inr VNil
      else rbind (first_not_nil (cells rs index)) (best_loop fo True (cells rs index)))"

definition getMinFuncExprValue :: "'f floats \<Rightarrow> 'f result list \<Rightarrow> int \<Rightarrow> 'f val res" where
  "getMinFuncExprValue fo rs index =
     (if rs = [] then Inr VNil
      else rbind (first_not_nil (cells rs index)) (best_loop fo False (cells rs index)))"

fun count_loop :: "int res list \<Rightarrow> int \<Rightarrow> int res" where
  "count_loop [] num = Inr num"
| "count_loop (c # cs) num = rbind c (\<lambda>n. count_loop cs (wrap64 (num + n)))"

definition count_cells :: "'f floats \<Rightarrow> 'f result list \<Rightarrow> int \<Rightarrow> int res list" where
  "count_cells fo rs index =
     concat (map (\<lambda>r. map (\<lambda>k. GetInt fo (re_Resultset r) k index) [0 .. RowNumber (re_Resultset r) - 1]) rs)"

definition calFuncExprValue ::
  "'f floats \<Rightarrow> int \<Rightarrow> string \<Rightarrow> 'f result list \<Rightarrow> int \<Rightarrow> 'f val res" where
  "calFuncExprValue fo lastInsertId funcName rs index =
     (let f = to_lower funcName in
      if f = ''count'' then
        (if rs = [] then Inr VNil
         else rbind (count_loop (count_cells fo rs index) 0) (\<lambda>num. Inr (VInt num)))
      else if f = ''sum'' then getSumFuncExprValue fo rs index
      else if f = ''max'' then getMaxFuncExprValue fo rs index
      else if f = ''min'' then getMinFuncExprValue fo rs index
      else if f = ''last_insert_id'' then Inr (VInt lastInsertId)
      else if rs = [] then Inr VNil
      else first_not_nil (cells rs index))"

section \<open>Results without groups\<close>

definition set_cell :: "'a list \<Rightarrow> int \<Rightarrow> 'a \<Rightarrow> 'a list res" where
  "set_cell xs k v =
     (if 0 \<le> k \<and> k < int (length xs) then Inr (xs[nat k := v]) else Inl (Panic IndexOutOfRange))"

fun set_cells :: "'a list \<Rightarrow> (int \<times> 'a) list \<Rightarrow> 'a list res" where
  "set_cells xs [] = Inr xs"
| "set_cells xs ((k, v) # kvs) = rbind (set_cell xs k v) (\<lambda>ys. set_cells ys kvs)"

text \<open>\<open>buildFuncExprValues\<close>: one row, the first of the first result or one of nils.\<close>

definition buildFuncExprValues :: "'f result list \<Rightarrow> (int \<times> 'f val) list \<Rightarrow> 'f val list list res" where
  "buildFuncExprValues rs funcExprValues =
     rbind (at_index rs 0) (\<lambda>r0.
       rbind (set_cells
                (case rs_Values (re_Resultset r0) of
                   [] \<Rightarrow> replicate (length (rs_Fields (re_Resultset r0))) VNil
                 | row # _ \<Rightarrow> row) funcExprValues) (\<lambda>row. Inr [row]))"

definition empty_field :: "SelectExpr \<Rightarrow> field" where
  "empty_field e =
     (case e of
        StarExpr _ \<Rightarrow> new_field\<lparr>f_Name := ''*''\<rparr>
      | NonStarExpr x as' \<Rightarrow>
          (case as' of
             Some a \<Rightarrow> new_field\<lparr>f_Name := a, f_OrgName := fmt_expr x\<rparr>
           | None \<Rightarrow> new_field\<lparr>f_Name := fmt_expr x\<rparr>))"

definition newEmptyResultset :: "SelectNode \<Rightarrow> 'f resultset" where
  "newEmptyResultset stmt =
     \<lparr>rs_Fields = map empty_field (s_SelectExprs stmt), rs_FieldNames = Map.empty, rs_Values = [], rs_RowDatas = []\<rparr>"

text \<open>The values of the aggregates, in the order of the map.\<close>

definition func_values ::
  "'f floats \<Rightarrow> int \<Rightarrow> 'f result list \<Rightarrow> (int \<times> string) list \<Rightarrow> (int \<times> 'f val) list res" where
  "func_values fo lastInsertId rs fes =
     rmap (\<lambda>(index, funcName). rbind (calFuncExprValue fo lastInsertId funcName rs index) (\<lambda>v. Inr (index, v))) fes"

text \<open>
  \<open>buildFuncExprResult\<close>. The row always exists, so the branch for an empty result is never taken. A result
  set without rows but with columns is the \<open>None\<close> of \<open>buildResultset\<close>; it cannot occur with one row.
\<close>

definition buildFuncExprResult ::
  "'f floats \<Rightarrow> int \<Rightarrow> ((int \<times> string) list \<Rightarrow> (int \<times> string) list) \<Rightarrow> SelectNode \<Rightarrow> 'f result list
     \<Rightarrow> (int \<times> string) list \<Rightarrow> 'f resultset option res" where
  "buildFuncExprResult fo lastInsertId mo stmt rs funcExprs =
     rbind (at_index rs 0) (\<lambda>r0.
     rbind (func_values fo lastInsertId rs (mo funcExprs)) (\<lambda>fvs.
     rbind (buildFuncExprValues rs fvs) (\<lambda>vals.
       if vals \<noteq> [] then
         buildResultset fo (rs_Fields (re_Resultset r0)) (map f_Name (rs_Fields (re_Resultset r0))) vals
       else Inr (Some (newEmptyResultset stmt)))))"

definition or_status :: "int \<Rightarrow> 'f result list \<Rightarrow> int" where
  "or_status cstatus rs = fold (\<lambda>r s. s OR re_Status r) rs cstatus"

definition buildSelectOnlyResult ::
  "'f floats \<Rightarrow> int \<Rightarrow> int \<Rightarrow> ((int \<times> string) list \<Rightarrow> (int \<times> string) list) \<Rightarrow> 'f result list \<Rightarrow> SelectNode
     \<Rightarrow> (int \<times> 'f resultset option) res" where
  "buildSelectOnlyResult fo cstatus lastInsertId mo rs stmt =
     rbind (at_index rs 0) (\<lambda>r0.
       let funcExprs = getFuncExprs stmt in
       if funcExprs = [] then
         (if \<exists>r \<in> set (tl rs). length (rs_RowDatas (re_Resultset r)) < length (rs_Values (re_Resultset r))
          then Inl (Panic IndexOutOfRange)
          else
            let r = re_Resultset r0 in
            Inr (or_status cstatus rs,
                 Some (r\<lparr>rs_Values := rs_Values r @ concat (map (\<lambda>x. rs_Values (re_Resultset x)) (tl rs)),
                         rs_RowDatas := rs_RowDatas r @ concat (map (\<lambda>x. take (length (rs_Values (re_Resultset x)))
                           (rs_RowDatas (re_Resultset x))) (tl rs))\<rparr>)))
       else
         rbind (buildFuncExprResult fo lastInsertId mo stmt rs funcExprs) (\<lambda>r. Inr (cstatus OR re_Status r0, r)))"

section \<open>Groups\<close>

record 'f result_row =
  rr_Value :: "'f val list"
  rr_RowData :: string

definition generateMapKey :: "'f floats \<Rightarrow> 'f val list \<Rightarrow> string" where
  "generateMapKey fo groupColumns = concat (map (\<lambda>v. formatValue fo v @ ''+'') groupColumns)"

text \<open>The rows of all results, with the panic for a missing encoded row.\<close>

definition result_rows :: "'f result list \<Rightarrow> 'f result_row res list" where
  "result_rows rs =
     concat (map (\<lambda>r. map (\<lambda>i. rbind (at_index (rs_Values (re_Resultset r)) i) (\<lambda>v.
                           rbind (at_index (rs_RowDatas (re_Resultset r)) i) (\<lambda>d. Inr \<lparr>rr_Value = v, rr_RowData = d\<rparr>)))
                        [0 .. RowNumber (re_Resultset r) - 1]) rs)"

fun load_rows :: "'f floats \<Rightarrow> int \<Rightarrow> 'f result_row res list \<Rightarrow> (string \<times> 'f result_row) list \<Rightarrow> (string \<times> 'f result_row) list res" where
  "load_rows fo g [] m = Inr m"
| "load_rows fo g (row # rows) m =
     rbind row (\<lambda>x. rbind (slice_from (rr_Value x) g) (\<lambda>keySlice.
       load_rows fo g rows (AList.update (generateMapKey fo keySlice) x m)))"

definition loadResultIntoMap :: "'f floats \<Rightarrow> 'f result list \<Rightarrow> int \<Rightarrow> (string \<times> 'f result_row) list res" where
  "loadResultIntoMap fo rs g = load_rows fo g (result_rows rs) []"

text \<open>
  One row that meets a group: \<open>rt\<close> holds the new row and the row of the group, and every aggregate is
  computed over the two and stored in the row of the group.
\<close>

definition combine_rows ::
  "'f floats \<Rightarrow> int \<Rightarrow> field list \<Rightarrow> (int \<times> string) list \<Rightarrow> 'f result_row \<Rightarrow> 'f result_row \<Rightarrow> 'f result_row res" where
  "combine_rows fo lastInsertId flds fes x v =
     (let rt = \<lparr>re_Status = 0, re_InsertId = 0, re_AffectedRows = 0,
                re_Resultset = \<lparr>rs_Fields = flds, rs_FieldNames = Map.empty, rs_Values = [rr_Value x, rr_Value v],
                                rs_RowDatas = [rr_RowData x, rr_RowData v]\<rparr>\<rparr>
      in rbind (func_values fo lastInsertId [rt] fes) (\<lambda>fvs.
         rbind (set_cells (rr_Value v) fvs) (\<lambda>row. Inr (v\<lparr>rr_Value := row\<rparr>))))"

fun load_func_rows ::
  "'f floats \<Rightarrow> int \<Rightarrow> field list \<Rightarrow> (int \<times> string) list \<Rightarrow> int \<Rightarrow> 'f result_row res list
     \<Rightarrow> (string \<times> 'f result_row) list \<Rightarrow> (string \<times> 'f result_row) list res" where
  "load_func_rows fo li flds fes g [] m = Inr m"
| "load_func_rows fo li flds fes g (row # rows) m =
     rbind row (\<lambda>x. rbind (slice_from (rr_Value x) g) (\<lambda>keySlice.
       let mk = generateMapKey fo keySlice in
       rbind (case map_of m mk of Some v \<Rightarrow> combine_rows fo li flds fes x v | None \<Rightarrow> Inr x) (\<lambda>y.
         load_func_rows fo li flds fes g rows (AList.update mk y m))))"

definition loadResultWithFuncIntoMap ::
  "'f floats \<Rightarrow> int \<Rightarrow> 'f result list \<Rightarrow> int \<Rightarrow> (int \<times> string) list \<Rightarrow> (string \<times> 'f result_row) list res" where
  "loadResultWithFuncIntoMap fo lastInsertId rs g fes =
     rbind (at_index rs 0) (\<lambda>r0.
       load_func_rows fo lastInsertId (rs_Fields (re_Resultset r0)) fes g (result_rows rs) [])"

text \<open>
  \<open>mergeGroupByWithFunc\<close> and \<open>mergeGroupByWithoutFunc\<close>, which differ in the loading only; \<open>mk\<close> is the order in
  which the map of the groups is visited.
\<close>

definition merge_groups ::
  "int \<Rightarrow> ((string \<times> 'f result_row) list \<Rightarrow> (string \<times> 'f result_row) list) \<Rightarrow> 'f result list
     \<Rightarrow> (string \<times> 'f result_row) list \<Rightarrow> 'f result res" where
  "merge_groups cstatus mk rs m =
     rbind (at_index rs 0) (\<lambda>r0.
       Inr (r0\<lparr>re_Status := or_status cstatus rs,
               re_Resultset := (re_Resultset r0)\<lparr>rs_Values := map (rr_Value \<circ> snd) (mk m),
                                                 rs_RowDatas := map (rr_RowData \<circ> snd) (mk m)\<rparr>\<rparr>))"

definition buildSelectGroupByResult ::
  "'f floats \<Rightarrow> int \<Rightarrow> int \<Rightarrow> ((int \<times> string) list \<Rightarrow> (int \<times> string) list)
     \<Rightarrow> ((string \<times> 'f result_row) list \<Rightarrow> (string \<times> 'f result_row) list) \<Rightarrow> 'f result list \<Rightarrow> SelectNode
     \<Rightarrow> (int \<times> 'f resultset option) res" where
  "buildSelectGroupByResult fo cstatus lastInsertId mo mk rs stmt =
     rbind (at_index rs 0) (\<lambda>r0.
       let g = int (length (rs_Fields (re_Resultset r0))) - int (length (s_GroupBy stmt));
           funcExprs = getFuncExprs stmt
       in rbind (if funcExprs = [] then loadResultIntoMap fo rs g
                 else loadResultWithFuncIntoMap fo lastInsertId rs g (mo funcExprs)) (\<lambda>m.
          rbind (merge_groups cstatus mk rs m) (\<lambda>r.
            if rs_Values (re_Resultset r) \<noteq> [] then
              rbind (slice (rs_Fields (re_Resultset r)) 0 g) (\<lambda>flds.
              rbind (rmap (\<lambda>v. slice v 0 g) (rs_Values (re_Resultset r))) (\<lambda>vals.
              rbind (buildResultset fo flds (map f_Name flds) vals) (\<lambda>x. Inr (re_Status r, x))))
            else Inr (re_Status r, Some (newEmptyResultset stmt)))))"

section \<open>Order and limit\<close>

definition sort_keys :: "SelectNode \<Rightarrow> sort_key list" where
  "sort_keys stmt =
     map (\<lambda>o'. case o' of Order e d \<Rightarrow> \<lparr>sk_Name = fmt_val e, sk_Direction = d, sk_column = 0\<rparr>) (s_OrderBy stmt)"

definition sortSelectResult ::
  "'f floats \<Rightarrow> ('f val list \<times> string) sorter \<Rightarrow> 'f resultset \<Rightarrow> SelectNode \<Rightarrow> 'f resultset res" where
  "sortSelectResult fo go_sort r stmt =
     (if s_OrderBy stmt = [] then Inr r else rs_Sort fo go_sort r (sort_keys stmt))"

definition limitSelectResult :: "'f resultset \<Rightarrow> SelectNode \<Rightarrow> 'f resultset res" where
  "limitSelectResult r stmt =
     (case s_Limit stmt of
        None \<Rightarrow> Inr r
      | Some l \<Rightarrow>
          let invalid = (\<lambda>s. Inl (Err (Errorf (s @ format_limit format_selectstmt (Some l))))) in
          rbind (case l_Offset l of
                   None \<Rightarrow> Inr 0
                 | Some (NumVal o') \<Rightarrow> strconv_ParseInt o'
                 | Some _ \<Rightarrow> invalid ''invalid select limit '') (\<lambda>offset.
          rbind (case l_Rowcount l of
                   NumVal o' \<Rightarrow> rbind (strconv_ParseInt o') (\<lambda>count. if count < 0 then invalid ''invalid limit '' else Inr count)
                 | _ \<Rightarrow> invalid ''invalid limit '') (\<lambda>count0.
            let n = int (length (rs_Values r)) in
            if offset > n then Inr (r\<lparr>rs_Values := [], rs_RowDatas := []\<rparr>)
            else
              let count = (if wrap64 (offset + count0) > n then n - offset else count0);
                  stop = wrap64 (offset + count) in
              rbind (slice (rs_Values r) offset stop) (\<lambda>vals.
              rbind (slice (rs_RowDatas r) offset stop) (\<lambda>rows.
                Inr (r\<lparr>rs_Values := vals, rs_RowDatas := rows\<rparr>))))))"

text \<open>
  \<open>mergeSelectResult\<close> up to the writing of the result: an error of the sort is dropped and leaves the rows
  as they are, a panic is not.
\<close>

definition mergeSelectResult ::
  "'f floats \<Rightarrow> ('f val list \<times> string) sorter \<Rightarrow> int \<Rightarrow> int \<Rightarrow> ((int \<times> string) list \<Rightarrow> (int \<times> string) list)
     \<Rightarrow> ((string \<times> 'f result_row) list \<Rightarrow> (string \<times> 'f result_row) list) \<Rightarrow> 'f result list \<Rightarrow> SelectNode
     \<Rightarrow> (int \<times> 'f resultset) res" where
  "mergeSelectResult fo go_sort cstatus lastInsertId mo mk rs stmt =
     rbind (if s_GroupBy stmt = [] then buildSelectOnlyResult fo cstatus lastInsertId mo rs stmt
            else buildSelectGroupByResult fo cstatus lastInsertId mo mk rs stmt) (\<lambda>(status, r0).
       case r0 of
         None \<Rightarrow> Inl (Panic NilDereference)
       | Some r \<Rightarrow>
           rbind (case sortSelectResult fo go_sort r stmt of
                    Inl (Err _) \<Rightarrow> Inr r | Inl (Panic p) \<Rightarrow> Inl (Panic p) | Inr r' \<Rightarrow> Inr r') (\<lambda>r1.
           rbind (limitSelectResult r1 stmt) (\<lambda>r2. Inr (status, r2))))"

section \<open>The first rows of merged lists\<close>

lemma short_parts: "f \<in> set fulls \<Longrightarrow> k \<le> length (take k f) \<Longrightarrow> k \<le> length (concat (map (take k) fulls))"
  by (induction fulls) auto

context comparison begin

lemma sort_exists: "set xs \<subseteq> S \<Longrightarrow> \<exists>ys. mset ys = mset xs \<and> sorted_wrt (\<lambda>a b. cmp a b \<le> 0) ys"
proof -
  assume xs: "set xs \<subseteq> S"
  have "weak_order (\<lambda>a b. cmp a b < 0) (set xs)" using weak xs unfolding weak_order_def by (meson subsetD)
  from is_sortD [OF is_sort_insertion_sort, of xs "\<lambda>a b. Inr (cmp a b < 0)", OF refl this]
  obtain ys where ys: "mset ys = mset xs" and s: "sorted_wrt (\<lambda>a b. \<not> cmp b a < 0) ys" by blast
  have "set ys \<subseteq> S" using mset_eq_setD [OF ys] xs by simp
  then have "sorted_wrt (\<lambda>a b. cmp a b \<le> 0) ys" using s neg_iff by (elim sorted_wrt_mono_rel [rotated]) force
  with ys show ?thesis by blast
qed

text \<open>An element among the first \<open>k\<close> of a sorted list has fewer than \<open>k\<close> elements below it.\<close>

lemma few_below:
  assumes "sorted_wrt (\<lambda>a b. cmp a b \<le> 0) M" and "set M \<subseteq> S" and "y \<in> set (take k M)"
  shows "length (filter (\<lambda>z. cmp z y < 0) M) < k"
proof -
  obtain j where j: "j < k" "j < length M" "M ! j = y" using assms(3) by (auto simp: in_set_conv_nth)
  have S: "M ! i \<in> S" if "i < length M" for i using that assms(2) nth_mem by blast
  have "\<not> cmp (M ! i) y < 0" if "j \<le> i" "i < length M" for i
  proof (cases "i = j")
    case True
    then show ?thesis using swap [of y y] S j by (auto simp: sgn_if split: if_splits)
  next
    case False
    then have "cmp y (M ! i) \<le> 0" using sorted_wrt_nth_less [OF assms(1), of j i] that j by simp
    then show ?thesis using neg_iff [of y "M ! i"] S that j by auto
  qed
  then have "filter (\<lambda>z. cmp z y < 0) (drop j M) = []"
    by (auto simp: filter_empty_conv in_set_conv_nth)
  then have "filter (\<lambda>z. cmp z y < 0) M = filter (\<lambda>z. cmp z y < 0) (take j M)"
    by (metis append_Nil2 append_take_drop_id filter_append)
  then have "length (filter (\<lambda>z. cmp z y < 0) M) \<le> length (take j M)" by (metis length_filter_le)
  then show ?thesis using j by simp
qed

text \<open>
  The first \<open>k\<close> of the merged first \<open>k\<close> of each list are first \<open>k\<close> of all: they begin a sorted arrangement of
  all elements.
\<close>

text \<open>A row that its shard did not send is not before a row among the first of the merged ones.\<close>

lemma unsent_not_before:
  assumes M: "mset M = mset (concat (map (take k) fulls))" and s: "sorted_wrt (\<lambda>a b. cmp a b \<le> 0) M" and MS: "set M \<subseteq> S"
    and fulls: "\<forall>f \<in> set fulls. sorted_wrt (\<lambda>a b. cmp a b \<le> 0) f \<and> set f \<subseteq> S"
    and f: "f \<in> set fulls" "x \<in> set (drop k f)" and y: "y \<in> set (take k M)"
  shows "cmp y x \<le> 0"
proof (rule ccontr)
  assume "\<not> cmp y x \<le> 0"
  have xS: "x \<in> S" "y \<in> S" using f fulls MS y by (auto dest: in_set_dropD in_set_takeD)
  have "sorted_wrt (\<lambda>a b. cmp a b \<le> 0) (take k f @ drop k f)" using fulls f by simp
  then have ltx: "cmp z x \<le> 0" if "z \<in> set (take k f)" for z using that f unfolding sorted_wrt_append by blast
  have zS: "z \<in> S" if "z \<in> set (take k f)" for z using that fulls f by (auto dest: in_set_takeD)
  have all: "cmp z y < 0" if z: "z \<in> set (take k f)" for z
  proof (rule ccontr)
    assume "\<not> cmp z y < 0"
    then have "cmp y z \<le> 0" using neg_iff [of y z] zS [OF z] xS by linarith
    then have "cmp y x \<le> 0" using trans [of y z x] ltx [OF z] zS z xS by simp
    with \<open>\<not> cmp y x \<le> 0\<close> show False ..
  qed
  have "mset (take k f) \<subseteq># mset M"
    using f(1) unfolding M by (induction fulls) (auto intro: subset_mset.order_trans subset_mset.le_add_same_cancel2)
  then have "mset (filter (\<lambda>z. cmp z y < 0) (take k f)) \<subseteq># mset (filter (\<lambda>z. cmp z y < 0) M)"
    by (simp add: multiset_filter_mono)
  moreover have "filter (\<lambda>z. cmp z y < 0) (take k f) = take k f" using all by (simp add: filter_id_conv)
  ultimately have "length (take k f) \<le> length (filter (\<lambda>z. cmp z y < 0) M)"
    by (metis size_mset size_mset_mono)
  moreover have "length (take k f) = k" using f(2) by (auto dest: length_pos_if_in_set)
  ultimately show False using few_below [OF s MS y] by simp
qed

lemma first_of_merged:
  assumes M: "mset M = mset (concat (map (take k) fulls))" and s: "sorted_wrt (\<lambda>a b. cmp a b \<le> 0) M"
    and fulls: "\<forall>f \<in> set fulls. sorted_wrt (\<lambda>a b. cmp a b \<le> 0) f \<and> set f \<subseteq> S"
  shows "\<exists>all. mset all = mset (concat fulls) \<and> sorted_wrt (\<lambda>a b. cmp a b \<le> 0) all \<and> take k all = take k M"
proof -
  let ?rest = "drop k M @ concat (map (drop k) fulls)"
  have cs: "mset (concat fulls) = mset (concat (map (take k) fulls)) + mset (concat (map (drop k) fulls))"
    by (induction fulls) (simp_all, metis append_take_drop_id mset_append union_assoc)
  have MS: "set M \<subseteq> S"
    using mset_eq_setD [OF M] fulls by (auto dest: in_set_takeD)
  have "set ?rest \<subseteq> S" using MS fulls by (auto dest: in_set_dropD)
  from sort_exists [OF this] obtain R where R: "mset R = mset ?rest" and sR: "sorted_wrt (\<lambda>a b. cmp a b \<le> 0) R" by blast
  have le: "cmp y x \<le> 0" if y: "y \<in> set (take k M)" and x: "x \<in> set ?rest" for x y
  proof (cases "x \<in> set (drop k M)")
    case True
    have "sorted_wrt (\<lambda>a b. cmp a b \<le> 0) (take k M @ drop k M)" using s by simp
    then show ?thesis using y True unfolding sorted_wrt_append by blast
  next
    case False
    then obtain f where f: "f \<in> set fulls" "x \<in> set (drop k f)" using x by auto
    with unsent_not_before [OF M s MS fulls] y show ?thesis by blast
  qed
  have "sorted_wrt (\<lambda>a b. cmp a b \<le> 0) (take k M @ R)"
    using s sR le R mset_eq_setD [OF R] by (auto simp: sorted_wrt_append sorted_wrt_take)
  moreover have "mset (take k M @ R) = mset (concat fulls)"
    using R by (simp add: cs M [symmetric]) (metis append_take_drop_id mset_append union_assoc)
  moreover have "take k (take k M @ R) = take k M"
  proof (cases "k \<le> length M")
    case False
    moreover have "length M = length (concat (map (take k) fulls))" using M by (metis size_mset)
    ultimately have "drop k f = []" if "f \<in> set fulls" for f
      using that short_parts [of f fulls k] by (cases "k \<le> length f") simp_all
    then have "?rest = []" using False by simp
    then have "R = []" using R by (metis mset_zero_iff mset.simps(1))
    then show ?thesis by simp
  qed simp
  ultimately show ?thesis by blast
qed

end

section \<open>Merged rows\<close>

lemma limit_offset_num_Inr:
  "limit_offset_num v = Inr n \<Longrightarrow> v = None \<and> n = 0 \<or> (\<exists>s. v = Some (NumVal s) \<and> strconv_ParseInt s = Inr n)"
  by (cases v) (auto simp: limit_offset_num_def split: valexpr.splits)

lemma limit_count_num_Inr: "limit_count_num v = Inr n \<Longrightarrow> \<exists>s. v = NumVal s \<and> strconv_ParseInt s = Inr n"
  by (cases v) (auto simp: limit_count_num_def)

lemma limitSelectResult_eq:
  assumes "s_Limit stmt = Some l" and "limit_offset_num (l_Offset l) = Inr o'" and "limit_count_num (l_Rowcount l) = Inr c"
    and "0 \<le> o'" and "0 \<le> c" and "o' + c \<le> MaxInt64" and "length (rs_RowDatas r) = length (rs_Values r)"
  shows "limitSelectResult r stmt =
    Inr (r\<lparr>rs_Values := take (nat c) (drop (nat o') (rs_Values r)), rs_RowDatas := take (nat c) (drop (nat o') (rs_RowDatas r))\<rparr>)"
proof -
  let ?n = "int (length (rs_Values r))" and ?v = "rs_Values r" and ?d = "rs_RowDatas r"
  have w: "wrap64 (o' + c) = o' + c" using assms(4-6) by (intro wrap64_id) (simp add: is_int64_def)
  have L: "limitSelectResult r stmt =
    (if o' > ?n then Inr (r\<lparr>rs_Values := [], rs_RowDatas := []\<rparr>)
     else let count = (if o' + c > ?n then ?n - o' else c); stop = wrap64 (o' + count) in
          rbind (slice ?v o' stop) (\<lambda>vals. rbind (slice ?d o' stop) (\<lambda>rows. Inr (r\<lparr>rs_Values := vals, rs_RowDatas := rows\<rparr>))))"
    using limit_offset_num_Inr [OF assms(2)] limit_count_num_Inr [OF assms(3)] assms(1,5) w
    by (auto simp: limitSelectResult_def Let_def)
  consider (beyond) "o' > ?n" | (cut) "o' \<le> ?n" "o' + c > ?n" | (within) "o' \<le> ?n" "o' + c \<le> ?n" by linarith
  then show ?thesis
  proof cases
    case beyond
    then have "length ?v \<le> nat o'" by simp
    with beyond assms(7) show ?thesis by (simp add: L)
  next
    case cut
    then have "wrap64 ?n = ?n" using assms(6) by (intro wrap64_id) (simp add: is_int64_def)
    moreover have "take (nat c) (drop (nat o') ?v) = drop (nat o') ?v" "take (nat c) (drop (nat o') ?d) = drop (nat o') ?d"
      using cut assms(4,7) by simp_all
    moreover have "slice ?v o' ?n = Inr (drop (nat o') ?v)" "slice ?d o' ?n = Inr (drop (nat o') ?d)"
      using cut assms(4,7) by (simp_all add: slice_def)
    ultimately show ?thesis using cut by (simp add: L Let_def)
  next
    case within
    moreover have "slice ?v o' (o' + c) = Inr (take (nat c) (drop (nat o') ?v))" "slice ?d o' (o' + c) = Inr (take (nat c) (drop (nat o') ?d))"
      using within assms(4,5,7) by (simp_all add: slice_def drop_take nat_add_distrib)
    ultimately show ?thesis using w by (simp add: L Let_def)
  qed
qed

definition even_result :: "'f result \<Rightarrow> bool" where
  "even_result r \<longleftrightarrow> length (rs_RowDatas (re_Resultset r)) = length (rs_Values (re_Resultset r))"

lemma buildSelectOnlyResult_rows:
  assumes "getFuncExprs stmt = []" and "rs \<noteq> []" and "\<forall>r \<in> set rs. even_result r"
  shows "\<exists>status r. buildSelectOnlyResult fo cs li mo rs stmt = Inr (status, Some r)
    \<and> rs_Values r = concat (map (\<lambda>x. rs_Values (re_Resultset x)) rs)
    \<and> length (rs_RowDatas r) = length (rs_Values r) \<and> rs_FieldNames r = rs_FieldNames (re_Resultset (hd rs))"
proof -
  obtain r0 rest where rs: "rs = r0 # rest" using assms(2) by (cases rs) auto
  have e: "\<not> (\<exists>r \<in> set rest. length (rs_RowDatas (re_Resultset r)) < length (rs_Values (re_Resultset r)))"
    using assms(3) by (auto simp: rs even_result_def)
  have "length (concat (map (\<lambda>x. take (length (rs_Values (re_Resultset x))) (rs_RowDatas (re_Resultset x))) rest))
      = length (concat (map (\<lambda>x. rs_Values (re_Resultset x)) rest))"
    using assms(3) unfolding rs by (induction rest) (auto simp: even_result_def)
  then show ?thesis using assms(1,3) e by (auto simp: buildSelectOnlyResult_def rs at_index_def Let_def even_result_def)
qed

lemma sortSelectResult_sorted:
  assumes "is_sort go_sort" and "set_columns r (sort_keys stmt) = Inr sk"
    and "length (rs_RowDatas r) = length (rs_Values r)" and "set (rs_Values r) \<subseteq> comparable_rows fo ts sk"
  shows "\<exists>r'. sortSelectResult fo go_sort r stmt = Inr r' \<and> mset (rs_Values r') = mset (rs_Values r)
    \<and> length (rs_RowDatas r') = length (rs_Values r') \<and> sorted_wrt (\<lambda>a b. row_cmp fo sk a b \<le> 0) (rs_Values r')"
proof (cases "s_OrderBy stmt = []")
  case True
  then have "sk = []" using assms(2) by (simp add: sort_keys_def)
  moreover have "sorted_wrt (\<lambda>a b. row_cmp fo [] a b \<le> 0) xs" for xs by (induction xs) auto
  ultimately show ?thesis using True assms(3) by (simp add: sortSelectResult_def)
next
  case False
  from rs_Sort_sorted [OF assms] obtain r' where r': "rs_Sort fo go_sort r (sort_keys stmt) = Inr r'"
    "mset (zip (rs_Values r') (rs_RowDatas r')) = mset (zip (rs_Values r) (rs_RowDatas r))"
    "length (rs_RowDatas r') = length (rs_Values r')" "sorted_wrt (\<lambda>a b. row_cmp fo sk a b \<le> 0) (rs_Values r')" by blast
  have "mset (rs_Values r') = mset (rs_Values r)"
    using arg_cong [OF r'(2), of "image_mset fst"] r'(3) assms(3) by (simp flip: mset_map)
  with r' False show ?thesis by (simp add: sortSelectResult_def)
qed

section \<open>Properties\<close>

text \<open>
  C25. The merge of limited shard results is a correct answer to the whole query. Each shard is asked, through
  \<open>RewriteLimit\<close>, for the first \<open>offset + count\<close> of its rows in the order of the query. Whatever the full sorted
  results of the shards are, \<open>mergeSelectResult\<close> returns the rows \<open>offset\<close> to \<open>offset + count\<close> of a sorted
  arrangement of all rows of all shards.
\<close>

theorem limited_merge_is_global:
  assumes "is_sort go_sort" and "s_GroupBy stmt = []" and "getFuncExprs stmt = []" and "rs \<noteq> []"
    and "\<forall>r \<in> set rs. even_result r" and "set_columns (re_Resultset (hd rs)) (sort_keys stmt) = Inr sk"
    and "s_Limit stmt = Some l" and "limit_offset_num (l_Offset l) = Inr o'" and "limit_count_num (l_Rowcount l) = Inr c"
    and "0 \<le> o'" and "0 \<le> c" and "o' + c \<le> MaxInt64"
    and "map (\<lambda>r. rs_Values (re_Resultset r)) rs = map (take (nat (o' + c))) fulls"
    and "\<forall>f \<in> set fulls. sorted_wrt (\<lambda>a b. row_cmp fo sk a b \<le> 0) f \<and> set f \<subseteq> comparable_rows fo ts sk"
  shows "RewriteLimit (s_Limit stmt) = Inr (Some (Limit None (NumVal (int_str (o' + c)))))
    \<and> (\<exists>status r all. mergeSelectResult fo go_sort cs li mo mk rs stmt = Inr (status, r)
        \<and> mset all = mset (concat fulls) \<and> sorted_wrt (\<lambda>a b. row_cmp fo sk a b \<le> 0) all
        \<and> rs_Values r = take (nat c) (drop (nat o') all))"
proof
  have "wrap64 (o' + c) = o' + c" using assms(10-12) by (intro wrap64_id) (simp add: is_int64_def)
  then show "RewriteLimit (s_Limit stmt) = Inr (Some (Limit None (NumVal (int_str (o' + c)))))"
    using assms(7-9) by (simp add: RewriteLimit_def)
  let ?k = "nat (o' + c)"
  from buildSelectOnlyResult_rows [OF assms(3-5), of fo cs li mo] obtain status r where
    b: "buildSelectOnlyResult fo cs li mo rs stmt = Inr (status, Some r)"
    and v: "rs_Values r = concat (map (take ?k) fulls)" and e: "length (rs_RowDatas r) = length (rs_Values r)"
    and n: "rs_FieldNames r = rs_FieldNames (re_Resultset (hd rs))" by (metis assms(13))
  have "set (rs_Values r) \<subseteq> comparable_rows fo ts sk" using assms(14) by (auto simp: v dest: in_set_takeD)
  moreover have "set_columns r (sort_keys stmt) = Inr sk" using assms(6) set_columns_cong [OF n] by simp
  ultimately obtain r' where s: "sortSelectResult fo go_sort r stmt = Inr r'" "mset (rs_Values r') = mset (rs_Values r)"
    "length (rs_RowDatas r') = length (rs_Values r')" "sorted_wrt (\<lambda>a b. row_cmp fo sk a b \<le> 0) (rs_Values r')"
    using sortSelectResult_sorted [OF assms(1) _ e] by blast
  from row_order.first_of_merged [OF s(2) [unfolded v] s(4) assms(14)] obtain all where
    all: "mset all = mset (concat fulls)" "sorted_wrt (\<lambda>a b. row_cmp fo sk a b \<le> 0) all"
    and t: "take ?k all = take ?k (rs_Values r')" by blast
  have k: "?k = nat o' + nat c" using assms(10,11) by (rule nat_add_distrib)
  have "take (nat c) (drop (nat o') (rs_Values r')) = take (nat c) (drop (nat o') all)"
    using arg_cong [OF t, of "drop (nat o')"] by (simp add: k drop_take)
  with limitSelectResult_eq [OF assms(7-12) s(3)] b s all
  show "\<exists>status r all. mergeSelectResult fo go_sort cs li mo mk rs stmt = Inr (status, r)
        \<and> mset all = mset (concat fulls) \<and> sorted_wrt (\<lambda>a b. row_cmp fo sk a b \<le> 0) all
        \<and> rs_Values r = take (nat c) (drop (nat o') all)"
    by (auto simp: mergeSelectResult_def assms(2))
qed

text \<open>A limit beyond the range of \<open>int64\<close> makes the slice bounds wrap and the merge panic.\<close>

definition sample_select :: "LimitClause option \<Rightarrow> SelectNode" where
  "sample_select l =
     Select [] [] [NonStarExpr (ValE (ColName \<lparr>cn_Name = ''id'', cn_Qualifier = None\<rparr>)) None] [] None [] None
       [Order (ColName \<lparr>cn_Name = ''id'', cn_Qualifier = None\<rparr>) ''asc''] l []"

lemma huge_limit_panics:
  "rbind (limitSelectResult sample_rows (sample_select (Some (Limit (Some (NumVal ''1'')) (NumVal ''9223372036854775807'')))))
     (\<lambda>r. Inr (rs_Values r)) = Inl (Panic IndexOutOfRange)"
  by code_simp

definition sample_result :: "int list \<Rightarrow> int result" where
  "sample_result ids =
     \<lparr>re_Status = 2, re_InsertId = 0, re_AffectedRows = 0,
      re_Resultset = \<lparr>rs_Fields = [new_field\<lparr>f_Name := ''id''\<rparr>], rs_FieldNames = [''id'' \<mapsto> 0],
        rs_Values = map (\<lambda>i. [VInt i]) ids, rs_RowDatas = map int_str ids\<rparr>\<rparr>"

theorem limited_merge_is_global_witness:
  "\<exists>status r all. mergeSelectResult int_floats insertion_sort 2 0 (\<lambda>x. x) (\<lambda>x. x) [sample_result [1, 4], sample_result [2, 3]]
       (sample_select (Some (Limit (Some (NumVal ''1'')) (NumVal ''1'')))) = Inr (status, r)
     \<and> mset all = mset (concat [[[VInt 1], [VInt 4], [VInt 9]], [[VInt 2], [VInt 3]]])
     \<and> rs_Values r = take 1 (drop 1 all)"
proof -
  let ?sk = "[\<lparr>sk_Name = ''id'', sk_Direction = ''asc'', sk_column = 0\<rparr>]"
  let ?fulls = "[[[VInt 1], [VInt 4], [VInt 9]], [[VInt 2], [VInt 3]]] :: int val list list list"
  let ?stmt = "sample_select (Some (Limit (Some (NumVal ''1'')) (NumVal ''1'')))"
  have nums: "limit_offset_num (Some (NumVal ''1'')) = Inr 1" "limit_count_num (NumVal ''1'') = Inr 1" by code_simp+
  have sk: "set_columns (re_Resultset (hd [sample_result [1, 4], sample_result [2, 3]])) (sort_keys ?stmt) = Inr ?sk" by code_simp
  have gf: "s_GroupBy ?stmt = []" "getFuncExprs ?stmt = []" by code_simp+
  have fulls: "\<forall>f \<in> set ?fulls. sorted_wrt (\<lambda>a b. row_cmp int_floats ?sk a b \<le> 0) f \<and> set f \<subseteq> comparable_rows int_floats (\<lambda>_. 1) ?sk"
    by (simp add: comparable_rows_def typed_def float_order_def int_floats_def weak_order_int cmp_total_def cmpValue_def cmp_with_def)
  have takes: "map (\<lambda>r. rs_Values (re_Resultset r)) [sample_result [1, 4], sample_result [2, 3]] = map (take (nat (1 + 1))) ?fulls"
    by (simp add: sample_result_def)
  have l: "s_Limit ?stmt = Some (Limit (Some (NumVal ''1'')) (NumVal ''1''))" by (simp add: sample_select_def)
  show ?thesis
    using limited_merge_is_global [OF is_sort_insertion_sort gf _ _ sk l _ _ _ _ _ takes fulls, of 2 0 "\<lambda>x. x" "\<lambda>x. x"] nums
    by (auto simp: even_result_def sample_result_def)
qed

text \<open>The integers of a column.\<close>

fun int_cells :: "'f val list \<Rightarrow> int list" where
  "int_cells [] = []"
| "int_cells (VInt i # vs) = i # int_cells vs"
| "int_cells (_ # vs) = int_cells vs"

definition int_column :: "'f val list \<Rightarrow> bool" where
  "int_column vs \<longleftrightarrow> list_all (\<lambda>v. v = VNil \<or> vtype v = 1) vs"

lemma wrap64_add: "wrap64 (wrap64 a + b) = wrap64 (a + b)"
  by (simp add: wrap64_def) presburger

lemma wrap64_add': "wrap64 (b + wrap64 a) = wrap64 (a + b)"
  using wrap64_add [of a b] by (simp add: add.commute)

lemma sum_loop_ints:
  "int_column vs \<Longrightarrow> sum_loop fo (map Inr vs) f n b =
     Inr (if b \<or> int_cells vs \<noteq> [] then VInt (if int_cells vs = [] then n else wrap64 (n + sum_list (int_cells vs))) else VFloat f)"
proof (induction vs arbitrary: n b)
  case (Cons v vs)
  then show ?case
    by (cases v) (auto simp: int_column_def wrap64_add add.assoc)
qed (simp add: int_column_def)

lemma count_loop_ints: "count_loop (map Inr ns) n = Inr (if ns = [] then n else wrap64 (n + sum_list ns))"
  by (induction ns arbitrary: n) (auto simp: wrap64_add add.assoc)

lemma first_not_nil_ints: "int_column vs \<Longrightarrow>
   first_not_nil (map Inr vs) = Inr (case int_cells vs of [] \<Rightarrow> VNil | i # _ \<Rightarrow> VInt i)"
proof (induction vs)
  case (Cons v vs)
  then show ?case by (cases v) (auto simp: int_column_def)
qed (simp add: int_column_def)

lemma best_loop_ints: "int_column vs \<Longrightarrow>
   best_loop fo mx (map Inr vs) (VInt b) = Inr (VInt (fold (if mx then max else min) (int_cells vs) b))"
proof (induction vs arbitrary: b)
  case (Cons v vs)
  then show ?case by (cases v) (auto simp: int_column_def better_def max_def min_def)
qed simp

lemma lower_names:
  "to_lower ''sum'' = ''sum''" "to_lower ''max'' = ''max''" "to_lower ''min'' = ''min''" "to_lower ''count'' = ''count''"
  by code_simp+

lemma sum_of_cells:
  "cells rs index = map Inr vs \<Longrightarrow> int_column vs \<Longrightarrow> int_cells vs \<noteq> [] \<Longrightarrow>
    calFuncExprValue fo li ''sum'' rs index = Inr (VInt (wrap64 (sum_list (int_cells vs))))"
  using sum_loop_ints [of vs fo "fl_zero fo" 0 False] lower_names
  by (simp add: calFuncExprValue_def getSumFuncExprValue_def)

lemma fold_max_Max: "fold max xs (b :: int) = Max (set (b # xs))"
  by (rule Max.set_eq_fold [symmetric])

lemma fold_min_Min: "fold min xs (b :: int) = Min (set (b # xs))"
  by (rule Min.set_eq_fold [symmetric])

text \<open>
  The aggregate of a column of integers, with \<open>None\<close> for NULL: what a shard computes over its rows, and what the proxy has to compute
  over the rows of all shards. An aggregate without a value is NULL, except for \<open>count\<close>.
\<close>

definition nonnull :: "int option list \<Rightarrow> int list" where
  "nonnull xs = concat (map (\<lambda>x. case x of None \<Rightarrow> [] | Some i \<Rightarrow> [i]) xs)"

definition column_agg :: "string \<Rightarrow> int option list \<Rightarrow> 'f val" where
  "column_agg f xs =
     (if f = ''count'' then VInt (wrap64 (int (length (nonnull xs))))
      else if nonnull xs = [] then VNil
      else if f = ''sum'' then VInt (wrap64 (sum_list (nonnull xs)))
      else if f = ''max'' then VInt (Max (set (nonnull xs)))
      else VInt (Min (set (nonnull xs))))"

text \<open>The result of a shard: one row with the value \<open>v\<close> in the column of the aggregate.\<close>

definition answers :: "'f result \<Rightarrow> int \<Rightarrow> 'f val \<Rightarrow> bool" where
  "answers r index v \<longleftrightarrow> RowNumber (re_Resultset r) = 1 \<and> GetValue (re_Resultset r) 0 index = Inr v"

lemma nonnull_append [simp]: "nonnull (xs @ ys) = nonnull xs @ nonnull ys"
  by (simp add: nonnull_def)

lemma nonnull_Nil [simp]: "nonnull [] = []"
  by (simp add: nonnull_def)

lemma nonnull_concat: "nonnull (concat xss) = concat (map nonnull xss)"
  by (induction xss) simp_all

lemma cells_answers:
  "list_all2 (\<lambda>r xs. answers r index (column_agg f xs)) rs xss \<Longrightarrow> cells rs index = map Inr (map (column_agg f) xss)"
  by (induction rule: list_all2_induct) (simp_all add: cells_def answers_def)

lemma count_cells_answers:
  "list_all2 (\<lambda>r xs. answers r index (column_agg ''count'' xs)) rs xss \<Longrightarrow>
     count_cells fo rs index = map Inr (map (\<lambda>xs. wrap64 (int (length (nonnull xs)))) xss)"
  by (induction rule: list_all2_induct) (simp_all add: count_cells_def answers_def GetInt_def column_agg_def)

lemma int_column_aggs: "int_column (map (column_agg f) xss)"
  by (auto simp: int_column_def list_all_iff column_agg_def)

lemma int_cells_aggs:
  "f \<noteq> ''count'' \<Longrightarrow> int_cells (map (column_agg f) xss) =
     map (\<lambda>xs. if f = ''sum'' then wrap64 (sum_list (nonnull xs)) else if f = ''max'' then Max (set (nonnull xs)) else Min (set (nonnull xs)))
       (filter (\<lambda>xs. nonnull xs \<noteq> []) xss)"
  by (induction xss) (auto simp: column_agg_def)

lemma filled_columns: "filter (\<lambda>xs. nonnull xs \<noteq> []) xss = [] \<longleftrightarrow> nonnull (concat xss) = []"
  by (auto simp: nonnull_concat filter_empty_conv)

lemma sum_of_sums:
  "wrap64 (sum_list (map (\<lambda>xs. wrap64 (sum_list (nonnull xs))) (filter (\<lambda>xs. nonnull xs \<noteq> []) xss))) = wrap64 (sum_list (nonnull (concat xss)))"
proof (induction xss)
  case (Cons xs xss)
  have "wrap64 (wrap64 a + b) = wrap64 (a + c)" if "wrap64 b = wrap64 c" for a b c :: int
    using that by (metis wrap64_add wrap64_add' add.commute)
  with Cons show ?case by simp
qed simp

lemma count_of_counts:
  "wrap64 (sum_list (map (\<lambda>xs. wrap64 (int (length (nonnull xs)))) xss)) = wrap64 (int (length (nonnull (concat xss))))"
proof (induction xss)
  case (Cons xs xss)
  have "wrap64 (wrap64 a + b) = wrap64 (a + c)" if "wrap64 b = wrap64 c" for a b c :: int
    using that by (metis wrap64_add wrap64_add' add.commute)
  with Cons show ?case by simp
qed simp

lemma max_of_maxs:
  assumes "nonnull (concat xss) \<noteq> []"
  shows "Max (set (map (\<lambda>xs. Max (set (nonnull xs))) (filter (\<lambda>xs. nonnull xs \<noteq> []) xss))) = Max (set (nonnull (concat xss)))"
proof (rule Max_eqI)
  let ?m = "Max (set (nonnull (concat xss)))"
  have "?m \<in> set (nonnull (concat xss))" using assms by (intro Max_in) simp_all
  then obtain xs where xs: "xs \<in> set xss" "?m \<in> set (nonnull xs)" by (auto simp: nonnull_concat)
  have "Max (set (nonnull xs)) = ?m"
    using xs by (intro Max_eqI) (auto simp: nonnull_concat intro: Max_ge)
  moreover have "nonnull xs \<noteq> []" using xs(2) by auto
  ultimately show "?m \<in> set (map (\<lambda>xs. Max (set (nonnull xs))) (filter (\<lambda>xs. nonnull xs \<noteq> []) xss))"
    using xs(1) by (auto intro: image_eqI [of _ _ xs])
  fix y assume "y \<in> set (map (\<lambda>xs. Max (set (nonnull xs))) (filter (\<lambda>xs. nonnull xs \<noteq> []) xss))"
  then obtain xs where "xs \<in> set xss" "nonnull xs \<noteq> []" "y = Max (set (nonnull xs))" by auto
  then have "y \<in> set (nonnull xs)" "xs \<in> set xss" using Max_in [of "set (nonnull xs)"] by auto
  then show "y \<le> ?m" by (intro Max_ge) (auto simp: nonnull_concat)
qed simp

lemma min_of_mins:
  assumes "nonnull (concat xss) \<noteq> []"
  shows "Min (set (map (\<lambda>xs. Min (set (nonnull xs))) (filter (\<lambda>xs. nonnull xs \<noteq> []) xss))) = Min (set (nonnull (concat xss)))"
proof (rule Min_eqI)
  let ?m = "Min (set (nonnull (concat xss)))"
  have "?m \<in> set (nonnull (concat xss))" using assms by (intro Min_in) simp_all
  then obtain xs where xs: "xs \<in> set xss" "?m \<in> set (nonnull xs)" by (auto simp: nonnull_concat)
  have "Min (set (nonnull xs)) = ?m"
    using xs by (intro Min_eqI) (auto simp: nonnull_concat intro: Min_le)
  moreover have "nonnull xs \<noteq> []" using xs(2) by auto
  ultimately show "?m \<in> set (map (\<lambda>xs. Min (set (nonnull xs))) (filter (\<lambda>xs. nonnull xs \<noteq> []) xss))"
    using xs(1) by (auto intro: image_eqI [of _ _ xs])
  fix y assume "y \<in> set (map (\<lambda>xs. Min (set (nonnull xs))) (filter (\<lambda>xs. nonnull xs \<noteq> []) xss))"
  then obtain xs where "xs \<in> set xss" "nonnull xs \<noteq> []" "y = Min (set (nonnull xs))" by auto
  then have "y \<in> set (nonnull xs)" "xs \<in> set xss" using Min_in [of "set (nonnull xs)"] by auto
  then show "?m \<le> y" by (intro Min_le) (auto simp: nonnull_concat)
qed simp

text \<open>The three loops on a column of integers and NULLs.\<close>

lemma best_loop_nils: "int_column vs \<Longrightarrow> int_cells vs = [] \<Longrightarrow> best_loop fo mx (map Inr vs) VNil = Inr VNil"
proof (induction vs)
  case (Cons v vs)
  then show ?case by (cases v) (auto simp: int_column_def better_def)
qed simp

lemma best_of_cells:
  assumes "cells rs index = map Inr vs" and "int_column vs" and "rs \<noteq> []"
  shows "getMaxFuncExprValue fo rs index = Inr (if int_cells vs = [] then VNil else VInt (Max (set (int_cells vs))))"
    and "getMinFuncExprValue fo rs index = Inr (if int_cells vs = [] then VNil else VInt (Min (set (int_cells vs))))"
  using first_not_nil_ints [OF assms(2)] best_loop_ints [OF assms(2), of fo] best_loop_nils [OF assms(2), of fo] assms(1,3)
  by (auto simp: getMaxFuncExprValue_def getMinFuncExprValue_def fold_max_Max fold_min_Min split: list.splits)

text \<open>
  C27. Aggregates of an integer column over shards are the aggregates over all rows. When every shard answers with one row that holds its
  aggregate of its own rows, as an \<open>int64\<close> or NULL, the merged \<open>count\<close>, \<open>sum\<close>, \<open>max\<close> or \<open>min\<close> is the aggregate of the rows of all shards
  together, with sums in \<open>int64\<close> arithmetic. A \<open>sum\<close> needs at least one value that is not NULL; without one the code returns the
  number 0 (\<open>sum_of_nulls\<close>). Columns of other types are not covered: for those that arrive as bytes, such as decimals and dates, the code
  takes the first value for the greatest and the least (\<open>best_of_bytes\<close>).
\<close>

theorem aggregates_combine:
  assumes "f \<in> {''count'', ''sum'', ''max'', ''min''}" and "list_all2 (\<lambda>r xs. answers r index (column_agg f xs)) rs xss"
    and "xss \<noteq> []" and "f = ''sum'' \<longrightarrow> nonnull (concat xss) \<noteq> []"
  shows "calFuncExprValue fo li f rs index = Inr (column_agg f (concat xss))"
proof -
  have rs: "rs \<noteq> []" using assms(2,3) by auto
  note c = cells_answers [OF assms(2)] and i = int_column_aggs [of f xss] and n = filled_columns [of xss]
  consider "f = ''count''" | "f = ''sum''" | "f = ''max''" | "f = ''min''" using assms(1) by blast
  then show ?thesis
  proof cases
    case 1
    then show ?thesis using count_cells_answers [of index rs xss fo] assms(2,3) rs count_of_counts [of xss] lower_names
      by (simp add: calFuncExprValue_def column_agg_def count_loop_ints del: map_map)
  next
    case 2
    then show ?thesis using sum_of_cells [OF c i, of fo li] assms(4) n sum_of_sums [of xss]
      by (simp add: int_cells_aggs column_agg_def)
  next
    case 3
    then show ?thesis using best_of_cells(1) [OF c i rs, of fo] n max_of_maxs [of xss] lower_names
      by (simp add: calFuncExprValue_def int_cells_aggs column_agg_def)
  next
    case 4
    then show ?thesis using best_of_cells(2) [OF c i rs, of fo] n min_of_mins [of xss] lower_names
      by (simp add: calFuncExprValue_def int_cells_aggs column_agg_def)
  qed
qed

theorem aggregates_combine_witness:
  "calFuncExprValue int_floats 0 ''sum'' [sample_result [3], sample_result [5]] 0 = Inr (column_agg ''sum'' [Some 1, None, Some 2, Some 5])"
proof -
  have "answers (sample_result [3]) 0 (column_agg ''sum'' [Some 1, None, Some 2])" "answers (sample_result [5]) 0 (column_agg ''sum'' [Some 5])"
    by (simp_all add: answers_def sample_result_def column_agg_def nonnull_def wrap64_def RowNumber_def GetValue_def at_index_def)
  then show ?thesis
    using aggregates_combine [of "''sum''" 0 "[sample_result [3], sample_result [5]]" "[[Some 1, None, Some 2], [Some 5]]" int_floats 0]
    by (simp add: nonnull_def)
qed

text \<open>Where the code differs from MySQL: a sum of NULLs, and the greatest and least of columns that arrive as bytes.\<close>

definition sample_cell :: "int val \<Rightarrow> int result" where
  "sample_cell v =
     \<lparr>re_Status = 2, re_InsertId = 0, re_AffectedRows = 0,
      re_Resultset = \<lparr>rs_Fields = [new_field\<lparr>f_Name := ''id''\<rparr>], rs_FieldNames = [''id'' \<mapsto> 0], rs_Values = [[v]], rs_RowDatas = [[]]\<rparr>\<rparr>"

lemma sum_of_nulls: "calFuncExprValue int_floats 0 ''sum'' [sample_cell VNil, sample_cell VNil] 0 = Inr (VFloat 0)"
  by code_simp

lemma best_of_bytes:
  "calFuncExprValue int_floats 0 ''max'' [sample_cell (VBytes ''1.50''), sample_cell (VBytes ''9.75'')] 0 = Inr (VBytes ''1.50'')"
  "calFuncExprValue int_floats 0 ''min'' [sample_cell (VBytes ''9.75''), sample_cell (VBytes ''1.50'')] 0 = Inr (VBytes ''9.75'')"
  by code_simp+

section \<open>Groups of rows\<close>

lemma set_cells_other:
  "set_cells xs kvs = Inr ys \<Longrightarrow> int j \<notin> fst ` set kvs \<Longrightarrow> length ys = length xs \<and> ys ! j = xs ! j"
proof (induction kvs arbitrary: xs)
  case (Cons kv kvs)
  obtain k w where kv: "kv = (k, w)" by (cases kv)
  from Cons.prems(1) obtain zs where "set_cell xs k w = Inr zs" "set_cells zs kvs = Inr ys"
    by (auto simp: kv rbind_eq_Inr_iff)
  with Cons show ?case by (fastforce simp: kv set_cell_def split: if_splits)
qed simp

lemma set_cells_nth:
  "set_cells xs kvs = Inr ys \<Longrightarrow> distinct (map fst kvs) \<Longrightarrow> (int j, v) \<in> set kvs \<Longrightarrow> j < length ys \<and> ys ! j = v"
proof (induction kvs arbitrary: xs)
  case (Cons kv kvs)
  obtain k w where kv: "kv = (k, w)" by (cases kv)
  from Cons.prems(1) obtain zs where z: "set_cell xs k w = Inr zs" "set_cells zs kvs = Inr ys"
    by (auto simp: kv rbind_eq_Inr_iff)
  show ?case
  proof (cases "(int j, v) \<in> set kvs")
    case True
    with Cons.IH [OF z(2)] Cons.prems(2) show ?thesis by simp
  next
    case False
    then have k: "k = int j" "w = v" and "int j \<notin> fst ` set kvs" using Cons.prems(2,3) kv by auto
    with set_cells_other [OF z(2)] z(1) show ?thesis by (auto simp: set_cell_def split: if_splits)
  qed
qed simp

lemma func_values_nth:
  "func_values fo li rs fes = Inr fvs \<Longrightarrow> map fst fvs = map fst fes \<and>
     ((j, f) \<in> set fes \<longrightarrow> (\<exists>v. (j, v) \<in> set fvs \<and> calFuncExprValue fo li f rs j = Inr v))"
proof (induction fes arbitrary: fvs)
  case (Cons e es)
  obtain k g where e: "e = (k, g)" by (cases e)
  from Cons.prems obtain v vs where v: "calFuncExprValue fo li g rs k = Inr v" "func_values fo li rs es = Inr vs" "fvs = (k, v) # vs"
    by (auto simp: e func_values_def rbind_eq_Inr_iff)
  from Cons.IH [OF v(2)] v show ?case by (auto simp: e)
qed (simp add: func_values_def)

text \<open>An aggregate column of a row that absorbs another one.\<close>

lemma combine_rows_sum:
  assumes "combine_rows fo li flds fes x v = Inr y" and "distinct (map fst fes)" and "(int j, f) \<in> set fes"
    and "f = ''sum'' \<or> f = ''count''" and "j < length flds"
    and "j < length (rr_Value x)" "rr_Value x ! j = VInt a" and "j < length (rr_Value v)" "rr_Value v ! j = VInt b"
  shows "j < length (rr_Value y) \<and> rr_Value y ! j = VInt (wrap64 (a + b))"
proof -
  define rt where "rt = \<lparr>re_Status = 0, re_InsertId = 0, re_AffectedRows = 0,
      re_Resultset = \<lparr>rs_Fields = flds, rs_FieldNames = Map.empty, rs_Values = [rr_Value x, rr_Value v],
                      rs_RowDatas = [rr_RowData x, rr_RowData v]\<rparr>\<rparr>"
  from assms(1) obtain fvs row where f: "func_values fo li [rt] fes = Inr fvs" and s: "set_cells (rr_Value v) fvs = Inr row"
    and y: "y = v\<lparr>rr_Value := row\<rparr>" by (auto simp: combine_rows_def rt_def rbind_eq_Inr_iff Let_def)
  from func_values_nth [OF f, of "int j" f] assms(3) obtain w where w: "(int j, w) \<in> set fvs" "calFuncExprValue fo li f [rt] (int j) = Inr w"
    and d: "map fst fvs = map fst fes" by blast
  have cell: "GetValue (re_Resultset rt) 0 (int j) = Inr (VInt a)" "GetValue (re_Resultset rt) 1 (int j) = Inr (VInt b)"
    using assms(5-9) by (simp_all add: rt_def GetValue_def at_index_def)
  have up: "[0 .. RowNumber (re_Resultset rt) - 1] = [0, 1]" by (simp add: rt_def RowNumber_def upto.simps)
  have "calFuncExprValue fo li f [rt] (int j) = Inr (VInt (wrap64 (a + b)))"
  proof (cases "f = ''sum''")
    case True
    have "cells [rt] (int j) = map Inr [VInt a, VInt b]" by (simp add: cells_def up cell)
    from sum_of_cells [OF this] show ?thesis by (simp add: True int_column_def)
  next
    case False
    then have f: "f = ''count''" using assms(4) by simp
    have "count_cells fo [rt] (int j) = map Inr [a, b]" by (simp add: count_cells_def up cell GetInt_def)
    then show ?thesis
      using count_loop_ints [of "[a, b]" 0] lower_names by (simp add: f calFuncExprValue_def)
  qed
  with w have "w = VInt (wrap64 (a + b))" by simp
  with set_cells_nth [OF s _ w(1)] assms(2) d show ?thesis by (simp add: y)
qed

definition row_key :: "'f floats \<Rightarrow> int \<Rightarrow> 'f result_row \<Rightarrow> string" where
  "row_key fo g x = generateMapKey fo (drop (nat g) (rr_Value x))"

text \<open>The value of column \<open>j\<close> of a row, and its sum over the rows of a group.\<close>

definition cell_int :: "nat \<Rightarrow> 'f result_row \<Rightarrow> int \<Rightarrow> bool" where
  "cell_int j x a \<longleftrightarrow> j < length (rr_Value x) \<and> rr_Value x ! j = VInt a"

definition group_sum :: "'f floats \<Rightarrow> int \<Rightarrow> ('f result_row \<Rightarrow> int) \<Rightarrow> 'f result_row list \<Rightarrow> string \<Rightarrow> int" where
  "group_sum fo g w rows k = sum_list (map w (filter (\<lambda>x. row_key fo g x = k) rows))"

lemma load_func_rows_sum:
  assumes "load_func_rows fo li flds fes g (map Inr rows) m = Inr m'" and "0 \<le> g"
    and "distinct (map fst fes)" and "(int j, f) \<in> set fes" and "f = ''sum'' \<or> f = ''count''" and "j < length flds"
    and "\<forall>x \<in> set rows. cell_int j x (w x)" and "\<And>k y. map_of m k = Some y \<Longrightarrow> cell_int j y (wrap64 (s k))"
    and "\<And>k. map_of m k = None \<Longrightarrow> s k = 0" and "\<forall>x \<in> set rows. is_int64 (w x)" and "distinct (map fst m)"
  shows "distinct (map fst m') \<and> fst ` set m' = fst ` set m \<union> row_key fo g ` set rows
    \<and> (\<forall>k y. map_of m' k = Some y \<longrightarrow> cell_int j y (wrap64 (s k + group_sum fo g w rows k)))"
  using assms(1,7-)
proof (induction rows arbitrary: m s)
  case (Cons x rows)
  let ?k = "row_key fo g x"
  from Cons.prems(1) obtain y where y: "(case map_of m ?k of Some v \<Rightarrow> combine_rows fo li flds fes x v | None \<Rightarrow> Inr x) = Inr y"
    and rest: "load_func_rows fo li flds fes g (map Inr rows) (AList.update ?k y m) = Inr m'"
    by (auto simp: rbind_eq_Inr_iff slice_from_def slice_def row_key_def Let_def split: if_splits)
  have x: "cell_int j x (w x)" "is_int64 (w x)" using Cons.prems by auto
  have yj: "cell_int j y (wrap64 (s ?k + w x))"
  proof (cases "map_of m ?k")
    case None
    then show ?thesis using y x Cons.prems(4) by simp
  next
    case (Some v)
    then show ?thesis
      using y combine_rows_sum [OF _ assms(3-6), of fo li x v y "w x" "wrap64 (s ?k)"] x(1) Cons.prems(3) [OF Some]
      by (simp add: cell_int_def wrap64_add')
  qed
  let ?s = "s(?k := s ?k + w x)"
  have "distinct (map fst m') \<and> fst ` set m' = fst ` set (AList.update ?k y m) \<union> row_key fo g ` set rows
    \<and> (\<forall>k z. map_of m' k = Some z \<longrightarrow> cell_int j z (wrap64 (?s k + group_sum fo g w rows k)))"
  proof (rule Cons.IH [OF rest])
    show "cell_int j z (wrap64 (?s k))" if "map_of (AList.update ?k y m) k = Some z" for k z
      using that yj Cons.prems(3) [of k z] by (auto simp: update_conv' split: if_splits)
    show "?s k = 0" if "map_of (AList.update ?k y m) k = None" for k
      using that Cons.prems(4) [of k] by (auto simp: update_conv' split: if_splits)
  qed (use Cons.prems in \<open>auto simp: distinct_update\<close>)
  moreover have "?s k + group_sum fo g w rows k = s k + group_sum fo g w (x # rows) k" for k
    by (simp add: group_sum_def)
  ultimately show ?case by (simp add: dom_update insert_commute)
qed (simp add: group_sum_def)

text \<open>
  C26. Grouped aggregates: when the rows of all shards are merged by their group columns, the result has one row
  for every group key that occurs, and a \<open>sum\<close> or \<open>count\<close> column of it is the \<open>int64\<close> sum over the rows of that key
  from all shards.
\<close>

theorem grouped_sums:
  assumes "loadResultWithFuncIntoMap fo li rs g fes = Inr m" and "result_rows rs = map Inr rows" and "0 \<le> g"
    and "distinct (map fst fes)" and "(int j, f) \<in> set fes" and "f = ''sum'' \<or> f = ''count''"
    and "j < length (rs_Fields (re_Resultset (hd rs)))" and "\<forall>x \<in> set rows. cell_int j x (w x) \<and> is_int64 (w x)"
  shows "distinct (map fst m) \<and> fst ` set m = row_key fo g ` set rows
    \<and> (\<forall>k y. map_of m k = Some y \<longrightarrow> cell_int j y (wrap64 (group_sum fo g w rows k)))"
proof -
  obtain r0 rest where rs: "rs = r0 # rest" using assms(1) by (cases rs) (auto simp: loadResultWithFuncIntoMap_def at_index_def)
  have "load_func_rows fo li (rs_Fields (re_Resultset r0)) fes g (map Inr rows) [] = Inr m"
    using assms(1,2) by (simp add: rs loadResultWithFuncIntoMap_def at_index_def)
  from load_func_rows_sum [OF this assms(3-6), of w "\<lambda>_. 0"] assms(7,8) show ?thesis by (simp add: rs)
qed

definition sample_groups :: "(int \<times> string) list \<Rightarrow> int result" where
  "sample_groups ps =
     \<lparr>re_Status = 2, re_InsertId = 0, re_AffectedRows = 0,
      re_Resultset = \<lparr>rs_Fields = [new_field, new_field], rs_FieldNames = [''n'' \<mapsto> 0, ''k'' \<mapsto> 1],
        rs_Values = map (\<lambda>(n, k). [VInt n, VStr k]) ps, rs_RowDatas = map snd ps\<rparr>\<rparr>"

theorem grouped_sums_witness:
  "\<exists>m y. loadResultWithFuncIntoMap int_floats 0 [sample_groups [(2, ''a''), (3, ''b'')], sample_groups [(5, ''a'')]] 1 [(0, ''sum'')] = Inr m
     \<and> map_of m ''a+'' = Some y \<and> cell_int 0 y 7"
proof -
  let ?rs = "[sample_groups [(2, ''a''), (3, ''b'')], sample_groups [(5, ''a'')]]"
  define rows :: "int result_row list" where "rows = map (\<lambda>(n, k). \<lparr>rr_Value = [VInt n, VStr k], rr_RowData = k\<rparr>) [(2, ''a''), (3, ''b''), (5, ''a'')]"
  define w where "w = (\<lambda>x :: int result_row. case rr_Value x of VInt n # _ \<Rightarrow> n | _ \<Rightarrow> 0)"
  have r: "result_rows ?rs = map Inr rows" unfolding rows_def by code_simp
  have "isl (loadResultWithFuncIntoMap int_floats 0 ?rs 1 [(0, ''sum'')]) = False" by code_simp
  then obtain m where m: "loadResultWithFuncIntoMap int_floats 0 ?rs 1 [(0, ''sum'')] = Inr m"
    by (cases "loadResultWithFuncIntoMap int_floats 0 ?rs 1 [(0, ''sum'')]") auto
  have "\<forall>x \<in> set rows. cell_int 0 x (w x) \<and> is_int64 (w x)" by (simp add: rows_def w_def cell_int_def is_int64_def)
  from grouped_sums [OF m r _ _ _ _ _ this, where f = "''sum''"] have
    k: "fst ` set m = row_key int_floats 1 ` set rows" and
    v: "\<And>k y. map_of m k = Some y \<Longrightarrow> cell_int 0 y (wrap64 (group_sum int_floats 1 w rows k))"
    by (auto simp: sample_groups_def)
  have keys: "row_key int_floats 1 \<lparr>rr_Value = [VInt n, VStr s], rr_RowData = s\<rparr> = s @ ''+''" for n s
    by (simp add: row_key_def generateMapKey_def formatValue_def)
  have "''a+'' \<in> fst ` set m" unfolding k by (simp add: rows_def keys)
  then obtain y where y: "map_of m ''a+'' = Some y" by (auto simp: image_iff dest: weak_map_of_SomeI)
  moreover have "group_sum int_floats 1 w rows ''a+'' = 7" by (simp add: group_sum_def rows_def keys w_def)
  ultimately have "cell_int 0 y 7" using v [OF y] by (simp add: wrap64_def)
  with m y show ?thesis by blast
qed

text \<open>Different group columns can have the same key, and such groups are merged into one.\<close>

lemma group_keys_collide:
  "generateMapKey int_floats [VStr ''a+'', VStr ''b''] = generateMapKey int_floats [VStr ''a'', VStr ''+b'']"
  by code_simp

end
