(* ===== verification/Mysql_Tables.thy ===== *)
theory Mysql_Tables
  imports Go_Base
begin

text \<open>
  The tables of package mysql that the sessions read: character sets and collations
  (src/mysql/charset.go) and the SQL states of the error codes (src/mysql/state.go, with the codes of
  src/mysql/errcode.go written as numbers). A Go map literal is an association list read by \<open>map_of\<close>.
\<close>

section \<open>Character sets\<close>

definition CharsetIds :: "(string \<times> int) list" where
  "CharsetIds = [
     (''big5'', 1), (''dec8'', 3), (''cp850'', 4), (''hp8'', 6), (''koi8r'', 7), (''latin1'', 8), (''latin2'', 9),
     (''swe7'', 10), (''ascii'', 11), (''ujis'', 12), (''sjis'', 13), (''hebrew'', 16), (''tis620'', 18), (''euckr'', 19),
     (''koi8u'', 22), (''gb2312'', 24), (''greek'', 25), (''cp1250'', 26), (''gbk'', 28), (''latin5'', 30), (''armscii8'', 32),
     (''utf8'', 33), (''ucs2'', 35), (''cp866'', 36), (''keybcs2'', 37), (''macce'', 38), (''macroman'', 39), (''cp852'', 40),
     (''latin7'', 41), (''utf8mb4'', 45), (''cp1251'', 51), (''utf16'', 54), (''utf16le'', 56), (''cp1256'', 57), (''cp1257'', 59),
     (''utf32'', 60), (''binary'', 63), (''geostd8'', 92), (''cp932'', 95), (''eucjpms'', 97)]"

definition Charsets :: "(string \<times> string) list" where
  "Charsets = [
     (''big5'', ''big5_chinese_ci''), (''dec8'', ''dec8_swedish_ci''), (''cp850'', ''cp850_general_ci''), (''hp8'', ''hp8_english_ci''),
     (''koi8r'', ''koi8r_general_ci''), (''latin1'', ''latin1_swedish_ci''), (''latin2'', ''latin2_general_ci''), (''swe7'', ''swe7_swedish_ci''),
     (''ascii'', ''ascii_general_ci''), (''ujis'', ''ujis_japanese_ci''), (''sjis'', ''sjis_japanese_ci''), (''hebrew'', ''hebrew_general_ci''),
     (''tis620'', ''tis620_thai_ci''), (''euckr'', ''euckr_korean_ci''), (''koi8u'', ''koi8u_general_ci''), (''gb2312'', ''gb2312_chinese_ci''),
     (''greek'', ''greek_general_ci''), (''cp1250'', ''cp1250_general_ci''), (''gbk'', ''gbk_chinese_ci''), (''latin5'', ''latin5_turkish_ci''),
     (''armscii8'', ''armscii8_general_ci''), (''utf8'', ''utf8_general_ci''), (''ucs2'', ''ucs2_general_ci''), (''cp866'', ''cp866_general_ci''),
     (''keybcs2'', ''keybcs2_general_ci''), (''macce'', ''macce_general_ci''), (''macroman'', ''macroman_general_ci''), (''cp852'', ''cp852_general_ci''),
     (''latin7'', ''latin7_general_ci''), (''utf8mb4'', ''utf8mb4_general_ci''), (''cp1251'', ''cp1251_general_ci''), (''utf16'', ''utf16_general_ci''),
     (''utf16le'', ''utf16le_general_ci''), (''cp1256'', ''cp1256_general_ci''), (''cp1257'', ''cp1257_general_ci''), (''utf32'', ''utf32_general_ci''),
     (''binary'', ''binary''), (''geostd8'', ''geostd8_general_ci''), (''cp932'', ''cp932_japanese_ci''), (''eucjpms'', ''eucjpms_japanese_ci'')]"

definition Collations :: "(int \<times> string) list" where
  "Collations = [
     (1, ''big5_chinese_ci''), (2, ''latin2_czech_cs''), (3, ''dec8_swedish_ci''), (4, ''cp850_general_ci''), (5, ''latin1_german1_ci''),
     (6, ''hp8_english_ci''), (7, ''koi8r_general_ci''), (8, ''latin1_swedish_ci''), (9, ''latin2_general_ci''), (10, ''swe7_swedish_ci''),
     (11, ''ascii_general_ci''), (12, ''ujis_japanese_ci''), (13, ''sjis_japanese_ci''), (14, ''cp1251_bulgarian_ci''), (15, ''latin1_danish_ci''),
     (16, ''hebrew_general_ci''), (18, ''tis620_thai_ci''), (19, ''euckr_korean_ci''), (20, ''latin7_estonian_cs''), (21, ''latin2_hungarian_ci''),
     (22, ''koi8u_general_ci''), (23, ''cp1251_ukrainian_ci''), (24, ''gb2312_chinese_ci''), (25, ''greek_general_ci''), (26, ''cp1250_general_ci''),
     (27, ''latin2_croatian_ci''), (28, ''gbk_chinese_ci''), (29, ''cp1257_lithuanian_ci''), (30, ''latin5_turkish_ci''), (31, ''latin1_german2_ci''),
     (32, ''armscii8_general_ci''), (33, ''utf8_general_ci''), (34, ''cp1250_czech_cs''), (35, ''ucs2_general_ci''), (36, ''cp866_general_ci''),
     (37, ''keybcs2_general_ci''), (38, ''macce_general_ci''), (39, ''macroman_general_ci''), (40, ''cp852_general_ci''), (41, ''latin7_general_ci''),
     (42, ''latin7_general_cs''), (43, ''macce_bin''), (44, ''cp1250_croatian_ci''), (45, ''utf8mb4_general_ci''), (46, ''utf8mb4_bin''),
     (47, ''latin1_bin''), (48, ''latin1_general_ci''), (49, ''latin1_general_cs''), (50, ''cp1251_bin''), (51, ''cp1251_general_ci''),
     (52, ''cp1251_general_cs''), (53, ''macroman_bin''), (54, ''utf16_general_ci''), (55, ''utf16_bin''), (56, ''utf16le_general_ci''),
     (57, ''cp1256_general_ci''), (58, ''cp1257_bin''), (59, ''cp1257_general_ci''), (60, ''utf32_general_ci''), (61, ''utf32_bin''),
     (62, ''utf16le_bin''), (63, ''binary''), (64, ''armscii8_bin''), (65, ''ascii_bin''), (66, ''cp1250_bin''),
     (67, ''cp1256_bin''), (68, ''cp866_bin''), (69, ''dec8_bin''), (70, ''greek_bin''), (71, ''hebrew_bin''),
     (72, ''hp8_bin''), (73, ''keybcs2_bin''), (74, ''koi8r_bin''), (75, ''koi8u_bin''), (77, ''latin2_bin''),
     (78, ''latin5_bin''), (79, ''latin7_bin''), (80, ''cp850_bin''), (81, ''cp852_bin''), (82, ''swe7_bin''),
     (83, ''utf8_bin''), (84, ''big5_bin''), (85, ''euckr_bin''), (86, ''gb2312_bin''), (87, ''gbk_bin''),
     (88, ''sjis_bin''), (89, ''tis620_bin''), (90, ''ucs2_bin''), (91, ''ujis_bin''), (92, ''geostd8_general_ci''),
     (93, ''geostd8_bin''), (94, ''latin1_spanish_ci''), (95, ''cp932_japanese_ci''), (96, ''cp932_bin''), (97, ''eucjpms_japanese_ci''),
     (98, ''eucjpms_bin''), (99, ''cp1250_polish_ci''), (101, ''utf16_unicode_ci''), (102, ''utf16_icelandic_ci''), (103, ''utf16_latvian_ci''),
     (104, ''utf16_romanian_ci''), (105, ''utf16_slovenian_ci''), (106, ''utf16_polish_ci''), (107, ''utf16_estonian_ci''), (108, ''utf16_spanish_ci''),
     (109, ''utf16_swedish_ci''), (110, ''utf16_turkish_ci''), (111, ''utf16_czech_ci''), (112, ''utf16_danish_ci''), (113, ''utf16_lithuanian_ci''),
     (114, ''utf16_slovak_ci''), (115, ''utf16_spanish2_ci''), (116, ''utf16_roman_ci''), (117, ''utf16_persian_ci''), (118, ''utf16_esperanto_ci''),
     (119, ''utf16_hungarian_ci''), (120, ''utf16_sinhala_ci''), (121, ''utf16_german2_ci''), (122, ''utf16_croatian_ci''), (123, ''utf16_unicode_520_ci''),
     (124, ''utf16_vietnamese_ci''), (128, ''ucs2_unicode_ci''), (129, ''ucs2_icelandic_ci''), (130, ''ucs2_latvian_ci''), (131, ''ucs2_romanian_ci''),
     (132, ''ucs2_slovenian_ci''), (133, ''ucs2_polish_ci''), (134, ''ucs2_estonian_ci''), (135, ''ucs2_spanish_ci''), (136, ''ucs2_swedish_ci''),
     (137, ''ucs2_turkish_ci''), (138, ''ucs2_czech_ci''), (139, ''ucs2_danish_ci''), (140, ''ucs2_lithuanian_ci''), (141, ''ucs2_slovak_ci''),
     (142, ''ucs2_spanish2_ci''), (143, ''ucs2_roman_ci''), (144, ''ucs2_persian_ci''), (145, ''ucs2_esperanto_ci''), (146, ''ucs2_hungarian_ci''),
     (147, ''ucs2_sinhala_ci''), (148, ''ucs2_german2_ci''), (149, ''ucs2_croatian_ci''), (150, ''ucs2_unicode_520_ci''), (151, ''ucs2_vietnamese_ci''),
     (159, ''ucs2_general_mysql500_ci''), (160, ''utf32_unicode_ci''), (161, ''utf32_icelandic_ci''), (162, ''utf32_latvian_ci''), (163, ''utf32_romanian_ci''),
     (164, ''utf32_slovenian_ci''), (165, ''utf32_polish_ci''), (166, ''utf32_estonian_ci''), (167, ''utf32_spanish_ci''), (168, ''utf32_swedish_ci''),
     (169, ''utf32_turkish_ci''), (170, ''utf32_czech_ci''), (171, ''utf32_danish_ci''), (172, ''utf32_lithuanian_ci''), (173, ''utf32_slovak_ci''),
     (174, ''utf32_spanish2_ci''), (175, ''utf32_roman_ci''), (176, ''utf32_persian_ci''), (177, ''utf32_esperanto_ci''), (178, ''utf32_hungarian_ci''),
     (179, ''utf32_sinhala_ci''), (180, ''utf32_german2_ci''), (181, ''utf32_croatian_ci''), (182, ''utf32_unicode_520_ci''), (183, ''utf32_vietnamese_ci''),
     (192, ''utf8_unicode_ci''), (193, ''utf8_icelandic_ci''), (194, ''utf8_latvian_ci''), (195, ''utf8_romanian_ci''), (196, ''utf8_slovenian_ci''),
     (197, ''utf8_polish_ci''), (198, ''utf8_estonian_ci''), (199, ''utf8_spanish_ci''), (200, ''utf8_swedish_ci''), (201, ''utf8_turkish_ci''),
     (202, ''utf8_czech_ci''), (203, ''utf8_danish_ci''), (204, ''utf8_lithuanian_ci''), (205, ''utf8_slovak_ci''), (206, ''utf8_spanish2_ci''),
     (207, ''utf8_roman_ci''), (208, ''utf8_persian_ci''), (209, ''utf8_esperanto_ci''), (210, ''utf8_hungarian_ci''), (211, ''utf8_sinhala_ci''),
     (212, ''utf8_german2_ci''), (213, ''utf8_croatian_ci''), (214, ''utf8_unicode_520_ci''), (215, ''utf8_vietnamese_ci''), (223, ''utf8_general_mysql500_ci''),
     (224, ''utf8mb4_unicode_ci''), (225, ''utf8mb4_icelandic_ci''), (226, ''utf8mb4_latvian_ci''), (227, ''utf8mb4_romanian_ci''), (228, ''utf8mb4_slovenian_ci''),
     (229, ''utf8mb4_polish_ci''), (230, ''utf8mb4_estonian_ci''), (231, ''utf8mb4_spanish_ci''), (232, ''utf8mb4_swedish_ci''), (233, ''utf8mb4_turkish_ci''),
     (234, ''utf8mb4_czech_ci''), (235, ''utf8mb4_danish_ci''), (236, ''utf8mb4_lithuanian_ci''), (237, ''utf8mb4_slovak_ci''), (238, ''utf8mb4_spanish2_ci''),
     (239, ''utf8mb4_roman_ci''), (240, ''utf8mb4_persian_ci''), (241, ''utf8mb4_esperanto_ci''), (242, ''utf8mb4_hungarian_ci''), (243, ''utf8mb4_sinhala_ci''),
     (244, ''utf8mb4_german2_ci''), (245, ''utf8mb4_croatian_ci''), (246, ''utf8mb4_unicode_520_ci''), (247, ''utf8mb4_vietnamese_ci'')]"

definition CollationNames :: "(string \<times> int) list" where
  "CollationNames = [
     (''big5_chinese_ci'', 1), (''latin2_czech_cs'', 2), (''dec8_swedish_ci'', 3), (''cp850_general_ci'', 4), (''latin1_german1_ci'', 5),
     (''hp8_english_ci'', 6), (''koi8r_general_ci'', 7), (''latin1_swedish_ci'', 8), (''latin2_general_ci'', 9), (''swe7_swedish_ci'', 10),
     (''ascii_general_ci'', 11), (''ujis_japanese_ci'', 12), (''sjis_japanese_ci'', 13), (''cp1251_bulgarian_ci'', 14), (''latin1_danish_ci'', 15),
     (''hebrew_general_ci'', 16), (''tis620_thai_ci'', 18), (''euckr_korean_ci'', 19), (''latin7_estonian_cs'', 20), (''latin2_hungarian_ci'', 21),
     (''koi8u_general_ci'', 22), (''cp1251_ukrainian_ci'', 23), (''gb2312_chinese_ci'', 24), (''greek_general_ci'', 25), (''cp1250_general_ci'', 26),
     (''latin2_croatian_ci'', 27), (''gbk_chinese_ci'', 28), (''cp1257_lithuanian_ci'', 29), (''latin5_turkish_ci'', 30), (''latin1_german2_ci'', 31),
     (''armscii8_general_ci'', 32), (''utf8_general_ci'', 33), (''cp1250_czech_cs'', 34), (''ucs2_general_ci'', 35), (''cp866_general_ci'', 36),
     (''keybcs2_general_ci'', 37), (''macce_general_ci'', 38), (''macroman_general_ci'', 39), (''cp852_general_ci'', 40), (''latin7_general_ci'', 41),
     (''latin7_general_cs'', 42), (''macce_bin'', 43), (''cp1250_croatian_ci'', 44), (''utf8mb4_general_ci'', 45), (''utf8mb4_bin'', 46),
     (''latin1_bin'', 47), (''latin1_general_ci'', 48), (''latin1_general_cs'', 49), (''cp1251_bin'', 50), (''cp1251_general_ci'', 51),
     (''cp1251_general_cs'', 52), (''macroman_bin'', 53), (''utf16_general_ci'', 54), (''utf16_bin'', 55), (''utf16le_general_ci'', 56),
     (''cp1256_general_ci'', 57), (''cp1257_bin'', 58), (''cp1257_general_ci'', 59), (''utf32_general_ci'', 60), (''utf32_bin'', 61),
     (''utf16le_bin'', 62), (''binary'', 63), (''armscii8_bin'', 64), (''ascii_bin'', 65), (''cp1250_bin'', 66),
     (''cp1256_bin'', 67), (''cp866_bin'', 68), (''dec8_bin'', 69), (''greek_bin'', 70), (''hebrew_bin'', 71),
     (''hp8_bin'', 72), (''keybcs2_bin'', 73), (''koi8r_bin'', 74), (''koi8u_bin'', 75), (''latin2_bin'', 77),
     (''latin5_bin'', 78), (''latin7_bin'', 79), (''cp850_bin'', 80), (''cp852_bin'', 81), (''swe7_bin'', 82),
     (''utf8_bin'', 83), (''big5_bin'', 84), (''euckr_bin'', 85), (''gb2312_bin'', 86), (''gbk_bin'', 87),
     (''sjis_bin'', 88), (''tis620_bin'', 89), (''ucs2_bin'', 90), (''ujis_bin'', 91), (''geostd8_general_ci'', 92),
     (''geostd8_bin'', 93), (''latin1_spanish_ci'', 94), (''cp932_japanese_ci'', 95), (''cp932_bin'', 96), (''eucjpms_japanese_ci'', 97),
     (''eucjpms_bin'', 98), (''cp1250_polish_ci'', 99), (''utf16_unicode_ci'', 101), (''utf16_icelandic_ci'', 102), (''utf16_latvian_ci'', 103),
     (''utf16_romanian_ci'', 104), (''utf16_slovenian_ci'', 105), (''utf16_polish_ci'', 106), (''utf16_estonian_ci'', 107), (''utf16_spanish_ci'', 108),
     (''utf16_swedish_ci'', 109), (''utf16_turkish_ci'', 110), (''utf16_czech_ci'', 111), (''utf16_danish_ci'', 112), (''utf16_lithuanian_ci'', 113),
     (''utf16_slovak_ci'', 114), (''utf16_spanish2_ci'', 115), (''utf16_roman_ci'', 116), (''utf16_persian_ci'', 117), (''utf16_esperanto_ci'', 118),
     (''utf16_hungarian_ci'', 119), (''utf16_sinhala_ci'', 120), (''utf16_german2_ci'', 121), (''utf16_croatian_ci'', 122), (''utf16_unicode_520_ci'', 123),
     (''utf16_vietnamese_ci'', 124), (''ucs2_unicode_ci'', 128), (''ucs2_icelandic_ci'', 129), (''ucs2_latvian_ci'', 130), (''ucs2_romanian_ci'', 131),
     (''ucs2_slovenian_ci'', 132), (''ucs2_polish_ci'', 133), (''ucs2_estonian_ci'', 134), (''ucs2_spanish_ci'', 135), (''ucs2_swedish_ci'', 136),
     (''ucs2_turkish_ci'', 137), (''ucs2_czech_ci'', 138), (''ucs2_danish_ci'', 139), (''ucs2_lithuanian_ci'', 140), (''ucs2_slovak_ci'', 141),
     (''ucs2_spanish2_ci'', 142), (''ucs2_roman_ci'', 143), (''ucs2_persian_ci'', 144), (''ucs2_esperanto_ci'', 145), (''ucs2_hungarian_ci'', 146),
     (''ucs2_sinhala_ci'', 147), (''ucs2_german2_ci'', 148), (''ucs2_croatian_ci'', 149), (''ucs2_unicode_520_ci'', 150), (''ucs2_vietnamese_ci'', 151),
     (''ucs2_general_mysql500_ci'', 159), (''utf32_unicode_ci'', 160), (''utf32_icelandic_ci'', 161), (''utf32_latvian_ci'', 162), (''utf32_romanian_ci'', 163),
     (''utf32_slovenian_ci'', 164), (''utf32_polish_ci'', 165), (''utf32_estonian_ci'', 166), (''utf32_spanish_ci'', 167), (''utf32_swedish_ci'', 168),
     (''utf32_turkish_ci'', 169), (''utf32_czech_ci'', 170), (''utf32_danish_ci'', 171), (''utf32_lithuanian_ci'', 172), (''utf32_slovak_ci'', 173),
     (''utf32_spanish2_ci'', 174), (''utf32_roman_ci'', 175), (''utf32_persian_ci'', 176), (''utf32_esperanto_ci'', 177), (''utf32_hungarian_ci'', 178),
     (''utf32_sinhala_ci'', 179), (''utf32_german2_ci'', 180), (''utf32_croatian_ci'', 181), (''utf32_unicode_520_ci'', 182), (''utf32_vietnamese_ci'', 183),
     (''utf8_unicode_ci'', 192), (''utf8_icelandic_ci'', 193), (''utf8_latvian_ci'', 194), (''utf8_romanian_ci'', 195), (''utf8_slovenian_ci'', 196),
     (''utf8_polish_ci'', 197), (''utf8_estonian_ci'', 198), (''utf8_spanish_ci'', 199), (''utf8_swedish_ci'', 200), (''utf8_turkish_ci'', 201),
     (''utf8_czech_ci'', 202), (''utf8_danish_ci'', 203), (''utf8_lithuanian_ci'', 204), (''utf8_slovak_ci'', 205), (''utf8_spanish2_ci'', 206),
     (''utf8_roman_ci'', 207), (''utf8_persian_ci'', 208), (''utf8_esperanto_ci'', 209), (''utf8_hungarian_ci'', 210), (''utf8_sinhala_ci'', 211),
     (''utf8_german2_ci'', 212), (''utf8_croatian_ci'', 213), (''utf8_unicode_520_ci'', 214), (''utf8_vietnamese_ci'', 215), (''utf8_general_mysql500_ci'', 223),
     (''utf8mb4_unicode_ci'', 224), (''utf8mb4_icelandic_ci'', 225), (''utf8mb4_latvian_ci'', 226), (''utf8mb4_romanian_ci'', 227), (''utf8mb4_slovenian_ci'', 228),
     (''utf8mb4_polish_ci'', 229), (''utf8mb4_estonian_ci'', 230), (''utf8mb4_spanish_ci'', 231), (''utf8mb4_swedish_ci'', 232), (''utf8mb4_turkish_ci'', 233),
     (''utf8mb4_czech_ci'', 234), (''utf8mb4_danish_ci'', 235), (''utf8mb4_lithuanian_ci'', 236), (''utf8mb4_slovak_ci'', 237), (''utf8mb4_spanish2_ci'', 238),
     (''utf8mb4_roman_ci'', 239), (''utf8mb4_persian_ci'', 240), (''utf8mb4_esperanto_ci'', 241), (''utf8mb4_hungarian_ci'', 242), (''utf8mb4_sinhala_ci'', 243),
     (''utf8mb4_german2_ci'', 244), (''utf8mb4_croatian_ci'', 245), (''utf8mb4_unicode_520_ci'', 246), (''utf8mb4_vietnamese_ci'', 247)]"

definition DEFAULT_CHARSET :: string where
  "DEFAULT_CHARSET = ''utf8''"

definition DEFAULT_COLLATION_ID :: int where
  "DEFAULT_COLLATION_ID = 33"

text \<open>The two collation tables are inverse to each other, and the default character set is in every table.\<close>

lemma collation_tables_inverse: "CollationNames = map prod.swap Collations"
  by (simp add: CollationNames_def Collations_def)

lemma collation_ids_distinct: "distinct (map fst Collations)"
  by code_simp

lemma collation_name_id: "map_of Collations i = Some n \<Longrightarrow> (n, i) \<in> set CollationNames"
  by (force dest: map_of_SomeD simp: collation_tables_inverse)

lemma default_charset_known:
  "map_of CharsetIds DEFAULT_CHARSET = Some DEFAULT_COLLATION_ID"
  "map_of Collations DEFAULT_COLLATION_ID = map_of Charsets DEFAULT_CHARSET"
  by code_simp+

section \<open>Error codes\<close>

definition MySQLState :: "(int \<times> string) list" where
  "MySQLState = [
     (1022, ''23000''), (1037, ''HY001''), (1038, ''HY001''), (1040, ''08004''), (1042, ''08S01''), (1043, ''08S01''), (1044, ''42000''), (1045, ''28000''), (1046, ''3D000''),
     (1047, ''08S01''), (1048, ''23000''), (1049, ''42000''), (1050, ''42S01''), (1051, ''42S02''), (1052, ''23000''), (1053, ''08S01''), (1054, ''42S22''), (1055, ''42000''),
     (1057, ''42000''), (1056, ''42000''), (1058, ''21S01''), (1059, ''42000''), (1060, ''42S21''), (1061, ''42000''), (1062, ''23000''), (1063, ''42000''), (1064, ''42000''),
     (1065, ''42000''), (1066, ''42000''), (1067, ''42000''), (1068, ''42000''), (1069, ''42000''), (1070, ''42000''), (1071, ''42000''), (1072, ''42000''), (1073, ''42000''),
     (1074, ''42000''), (1075, ''42000''), (1080, ''08S01''), (1081, ''08S01''), (1082, ''42S12''), (1083, ''42000''), (1084, ''42000''), (1090, ''42000''), (1091, ''42000''),
     (1101, ''42000''), (1102, ''42000''), (1103, ''42000''), (1104, ''42000''), (1106, ''42000''), (1107, ''42000''), (1109, ''42S02''), (1110, ''42000''), (1112, ''42000''),
     (1113, ''42000''), (1115, ''42000''), (1118, ''42000''), (1120, ''42000''), (1121, ''42000''), (1131, ''42000''), (1132, ''42000''), (1133, ''42000''), (1136, ''21S01''),
     (1138, ''22004''), (1139, ''42000''), (1140, ''42000''), (1141, ''42000''), (1142, ''42000''), (1143, ''42000''), (1144, ''42000''), (1145, ''42000''), (1146, ''42S02''),
     (1147, ''42000''), (1148, ''42000''), (1149, ''42000''), (1152, ''08S01''), (1153, ''08S01''), (1154, ''08S01''), (1155, ''08S01''), (1156, ''08S01''), (1157, ''08S01''),
     (1158, ''08S01''), (1159, ''08S01''), (1160, ''08S01''), (1161, ''08S01''), (1162, ''42000''), (1163, ''42000''), (1164, ''42000''), (1166, ''42000''), (1167, ''42000''),
     (1169, ''23000''), (1170, ''42000''), (1171, ''42000''), (1172, ''42000''), (1173, ''42000''), (1176, ''42000''), (1177, ''42000''), (1178, ''42000''), (1179, ''25000''),
     (1184, ''08S01''), (1189, ''08S01''), (1190, ''08S01''), (1203, ''42000''), (1207, ''25000''), (1211, ''42000''), (1213, ''40001''), (1216, ''23000''), (1217, ''23000''),
     (1218, ''08S01''), (1222, ''21000''), (1226, ''42000''), (1227, ''42000''), (1230, ''42000''), (1231, ''42000''), (1232, ''42000''), (1234, ''42000''), (1235, ''42000''),
     (1239, ''42000''), (1241, ''21000''), (1242, ''21000''), (1247, ''42S22''), (1248, ''42000''), (1249, ''01000''), (1250, ''42000''), (1251, ''08004''), (1252, ''42000''),
     (1253, ''42000''), (1261, ''01000''), (1262, ''01000''), (1263, ''22004''), (1264, ''22003''), (1280, ''42000''), (1281, ''42000''), (1286, ''42000''), (1292, ''22007''),
     (1303, ''2F003''), (1304, ''42000''), (1305, ''42000''), (1308, ''42000''), (1309, ''42000''), (1310, ''42000''), (1311, ''01000''), (1312, ''0A000''), (1313, ''42000''),
     (1314, ''0A000''), (1315, ''42000''), (1316, ''42000''), (1317, ''70100''), (1318, ''42000''), (1319, ''42000''), (1320, ''42000''), (1321, ''2F005''), (1322, ''42000''),
     (1323, ''42000''), (1324, ''42000''), (1325, ''24000''), (1326, ''24000''), (1327, ''42000''), (1329, ''02000''), (1330, ''42000''), (1331, ''42000''), (1332, ''42000''),
     (1333, ''42000''), (1335, ''0A000''), (1336, ''0A000''), (1337, ''42000''), (1338, ''42000''), (1339, ''20000''), (1365, ''22012''), (1367, ''22007''), (1370, ''42000''),
     (1397, ''XAE04''), (1398, ''XAE05''), (1399, ''XAE07''), (1400, ''XAE09''), (1401, ''XAE03''), (1402, ''XA100''), (1403, ''42000''), (1406, ''22001''), (1407, ''42000''),
     (1410, ''42000''), (1413, ''42000''), (1414, ''42000''), (1415, ''0A000''), (1416, ''22003''), (1425, ''42000''), (1426, ''42000''), (1427, ''42000''), (1437, ''42000''),
     (1439, ''42000''), (1440, ''XAE08''), (1441, ''22008''), (1451, ''23000''), (1452, ''23000''), (1453, ''42000''), (1458, ''42000''), (1460, ''42000''), (1461, ''42000''),
     (1463, ''42000''), (1557, ''23000''), (1568, ''25001''), (1582, ''42000''), (1583, ''42000''), (1584, ''42000''), (1586, ''23000''), (1613, ''XA106''), (1614, ''XA102''),
     (1630, ''42000''), (1641, ''42000''), (1642, ''01000''), (1643, ''02000''), (1644, ''HY000''), (1645, ''0K000''), (1687, ''42000''), (1690, ''22003''), (1698, ''28000''),
     (1701, ''42000''), (1758, ''35000''), (1761, ''23000''), (1762, ''23000''), (1792, ''25006''), (1845, ''0A000''), (1846, ''0A000''), (1859, ''23000'')]"

definition DEFAULT_MYSQL_STATE :: string where
  "DEFAULT_MYSQL_STATE = ''HY000''"

text \<open>\<open>NewError\<close>: the state of the code, or the default state. \<open>SqlError\<close> has code, state and message.\<close>

definition NewError :: "int \<Rightarrow> string \<Rightarrow> goerr" where
  "NewError errCode message =
     SqlError errCode (case map_of MySQLState errCode of Some s \<Rightarrow> s | None \<Rightarrow> DEFAULT_MYSQL_STATE) message"

end
