(* ===== verification/Go_Act.thy ===== *)
theory Go_Act
  imports Go_Base
begin

text \<open>
  Go methods that change their receiver: an action takes the state and returns a result, which may be an error
  or a panic, with the new state. \<open>abind\<close> is a call followed by \<open>if err != nil { return err }\<close>; the state
  changes of the failed call remain.
\<close>

named_theorems act_simps \<open>equations of actions\<close>

type_synonym ('s, 'a) act = "'s \<Rightarrow> 'a res \<times> 's"

definition abind :: "('s, 'a) act \<Rightarrow> ('a \<Rightarrow> ('s, 'b) act) \<Rightarrow> ('s, 'b) act" where
  "abind m f s = (case m s of (Inl e, t) \<Rightarrow> (Inl e, t) | (Inr x, t) \<Rightarrow> f x t)"

definition aret :: "'a \<Rightarrow> ('s, 'a) act" where
  "aret x s = (Inr x, s)"

definition alift :: "'a res \<Rightarrow> ('s, 'a) act" where
  "alift r s = (r, s)"

definition aget :: "('s \<Rightarrow> 'a) \<Rightarrow> ('s, 'a) act" where
  "aget f s = (Inr (f s), s)"

definition aupd :: "('s \<Rightarrow> 's) \<Rightarrow> ('s, unit) act" where
  "aupd f s = (Inr (), f s)"

text \<open>A call whose error is handled by the caller: the handler gets the result. A panic is not an error.\<close>

definition atry :: "('s, 'a) act \<Rightarrow> (goerr + 'a \<Rightarrow> ('s, 'b) act) \<Rightarrow> ('s, 'b) act" where
  "atry m f s =
     (case m s of
        (Inl (Panic p), t) \<Rightarrow> (Inl (Panic p), t)
      | (Inl (Err e), t) \<Rightarrow> f (Inl e) t
      | (Inr x, t) \<Rightarrow> f (Inr x) t)"

lemmas act_defs = aret_def alift_def aget_def aupd_def

lemma abind_Inr [act_simps]: "m s = (Inr x, t) \<Longrightarrow> abind m f s = f x t"
  by (simp add: abind_def)

lemma abind_Inl [act_simps]: "m s = (Inl e, t) \<Longrightarrow> abind m f s = (Inl e, t)"
  by (simp add: abind_def)

lemma abind_aret [simp]: "abind (aret x) f s = f x s"
  by (simp add: abind_def aret_def)

lemma abind_aget [simp]: "abind (aget g) f s = f (g s) s"
  by (simp add: abind_def aget_def)

lemma abind_aupd [simp]: "abind (aupd g) f s = f () (g s)"
  by (simp add: abind_def aupd_def)

lemma abind_alift_Inr [simp]: "abind (alift (Inr x)) f s = f x s"
  by (simp add: abind_def alift_def)

lemma abind_alift_Inl [simp]: "abind (alift (Inl e)) f s = (Inl e, s)"
  by (simp add: abind_def alift_def)

lemma abind_cong [fundef_cong]:
  "s = s' \<Longrightarrow> m s' = m' s' \<Longrightarrow> (\<And>x t. m' s' = (Inr x, t) \<Longrightarrow> f x t = g x t) \<Longrightarrow> abind m f s = abind m' g s'"
  by (auto simp: abind_def split: prod.splits sum.splits)

lemma abind_InrE:
  assumes "abind m f s = (Inr y, u)"
  obtains x t where "m s = (Inr x, t)" and "f x t = (Inr y, u)"
  using assms by (auto simp: abind_def split: prod.splits sum.splits)

text \<open>
  An invariant of the state that an action keeps, whether it succeeds or fails.
\<close>

definition keeps :: "('s \<Rightarrow> bool) \<Rightarrow> ('s, 'a) act \<Rightarrow> bool" where
  "keeps I m \<longleftrightarrow> (\<forall>s. I s \<longrightarrow> I (snd (m s)))"

lemma keepsD: "keeps I m \<Longrightarrow> I s \<Longrightarrow> m s = (r, t) \<Longrightarrow> I t"
  by (metis keeps_def snd_conv)

lemma keeps_abind [intro]:
  assumes "keeps I m" and "\<And>x. keeps I (f x)"
  shows "keeps I (abind m f)"
  unfolding keeps_def
proof (intro allI impI)
  fix s assume s: "I s"
  obtain r t where m: "m s = (r, t)" by fastforce
  from keepsD [OF assms(1) s m] have t: "I t" .
  show "I (snd (abind m f s))"
  proof (cases r)
    case (Inr x)
    with m assms(2) [of x] t show ?thesis by (simp add: abind_def keeps_def)
  qed (simp add: abind_def m t)
qed

lemma keeps_basic [intro]: "keeps I (aret x)" "keeps I (alift r)" "keeps I (aget g)"
  by (simp_all add: keeps_def act_defs)

lemma keeps_aupd: "(\<And>s. I s \<Longrightarrow> I (g s)) \<Longrightarrow> keeps I (aupd g)"
  by (simp add: keeps_def aupd_def)

lemma keeps_cases:
  "(b \<Longrightarrow> keeps I m) \<Longrightarrow> (\<not> b \<Longrightarrow> keeps I n) \<Longrightarrow> keeps I (if b then m else n)"
  "keeps I m \<Longrightarrow> (\<And>x. keeps I (f x)) \<Longrightarrow> keeps I (case v of None \<Rightarrow> m | Some x \<Rightarrow> f x)"
  "(\<And>x. keeps I (g x)) \<Longrightarrow> (\<And>x. keeps I (h x)) \<Longrightarrow> keeps I (case u of Inl x \<Rightarrow> g x | Inr x \<Rightarrow> h x)"
  "(\<And>x y. keeps I (k x y)) \<Longrightarrow> keeps I (case p of (x, y) \<Rightarrow> k x y)"
  by (simp_all split: option.split sum.split prod.split)

lemma keeps_atry: "keeps I m \<Longrightarrow> (\<And>r. keeps I (f r)) \<Longrightarrow> keeps I (atry m f)"
  unfolding keeps_def atry_def by (auto split: prod.split sum.split fail.split)

end
