(* ===== verification/Backend_Conn.thy ===== *)
theory Backend_Conn
  imports Resultset Mysql_Tables Go_Act
begin

text \<open>
  A connection of the proxy to a MySQL server (src/backend/backend_conn.go) and its prepared statements
  (src/backend/stmt.go). The methods of \<open>Conn\<close> are actions on the record \<open>conn\<close>.

  The network is the record \<open>link\<close>: the packet reader and writer of package mysql, whether the socket is still
  open, what \<open>Write\<close> does, and the peer as a function from all the bytes written so far to the bytes that it
  sends in answer. Reading past what the peer has sent fails with the error of a broken connection: a peer that
  stays silent for ever is not modelled. \<open>net.Dial\<close> and the clock are arguments.
\<close>

unbundle bit_operations_syntax

section \<open>State\<close>

record link =
  lk_io :: packetio
  lk_open :: bool
  lk_write :: writer
  lk_answer :: "string \<Rightarrow> string"

type_synonym dialer = "string \<Rightarrow> string \<Rightarrow> link res"

record conn =
  c_conn :: bool
  c_pkg :: "link option"
  c_addr :: string
  c_user :: string
  c_password :: string
  c_db :: string
  c_capability :: int
  c_status :: int
  c_collation :: int
  c_charset :: string
  c_salt :: string
  c_pushTimestamp :: int
  c_pkgErr :: "goerr option"

text \<open>\<open>new(Conn)\<close>: \<open>c_conn\<close> says whether the field \<open>conn\<close> is set; the packet reader is set with it, and stays.\<close>

definition new_Conn :: conn where
  "new_Conn = \<lparr>c_conn = False, c_pkg = None, c_addr = [], c_user = [], c_password = [], c_db = [], c_capability = 0,
     c_status = 0, c_collation = 0, c_charset = [], c_salt = [], c_pushTimestamp = 0, c_pkgErr = None\<rparr>"

abbreviation (input) "OK_HEADER \<equiv> CHR 0x00"
abbreviation (input) "ERR_HEADER \<equiv> CHR 0xFF"
abbreviation (input) "EOF_HEADER \<equiv> CHR 0xFE"
abbreviation (input) "LocalInFile_HEADER \<equiv> CHR 0xFB"

abbreviation (input) "CLIENT_LONG_PASSWORD \<equiv> (1 :: int)"
abbreviation (input) "CLIENT_LONG_FLAG \<equiv> (4 :: int)"
abbreviation (input) "CLIENT_CONNECT_WITH_DB \<equiv> (8 :: int)"
abbreviation (input) "CLIENT_PROTOCOL_41 \<equiv> (512 :: int)"
abbreviation (input) "CLIENT_TRANSACTIONS \<equiv> (8192 :: int)"
abbreviation (input) "CLIENT_SECURE_CONNECTION \<equiv> (32768 :: int)"

abbreviation (input) "SERVER_STATUS_IN_TRANS \<equiv> (1 :: int)"
abbreviation (input) "SERVER_STATUS_AUTOCOMMIT \<equiv> (2 :: int)"

definition has_flag :: "int \<Rightarrow> int \<Rightarrow> bool" where
  "has_flag x flag \<longleftrightarrow> x AND flag > 0"

definition err_of :: "'a res \<Rightarrow> goerr option" where
  "err_of r = (case r of Inl (Err e) \<Rightarrow> Some e | _ \<Rightarrow> None)"

section \<open>Packets\<close>

text \<open>The socket is closed: nothing more is read or written.\<close>

definition shut :: "conn \<Rightarrow> conn" where
  "shut c = c\<lparr>c_pkg := map_option (\<lambda>l. l\<lparr>lk_open := False, lk_io := (lk_io l)\<lparr>rb := []\<rparr>\<rparr>) (c_pkg c)\<rparr>"

text \<open>\<open>c.conn.Close()\<close>, a call on the socket.\<close>

definition conn_Close :: "(conn, unit) act" where
  "conn_Close c = (if c_conn c then (Inr (), shut c) else (Inl (Panic NilDereference), c))"

definition Close :: "(conn, unit) act" where
  "Close c = (if c_conn c then (Inr (), (shut c)\<lparr>c_conn := False, c_salt := [], c_pkgErr := None\<rparr>) else (Inr (), c))"

definition readPacket :: "(conn, string) act" where
  "readPacket c =
     (case c_pkg c of
        None \<Rightarrow> (Inl (Panic NilDereference), c)
      | Some l \<Rightarrow>
          (case ReadPacket (lk_io l) of
             (r, io) \<Rightarrow> (r, c\<lparr>c_pkg := Some (l\<lparr>lk_io := io\<rparr>), c_pkgErr := err_of r\<rparr>)))"

definition link_write :: "link \<Rightarrow> writer" where
  "link_write l = (if lk_open l then lk_write l else (\<lambda>_ _. None))"

text \<open>After a successful write the answer of the peer is there to be read.\<close>

definition answered :: "link \<Rightarrow> link" where
  "answered l = l\<lparr>lk_io := (lk_io l)\<lparr>rb := rb (lk_io l) @ lk_answer l (wb (lk_io l))\<rparr>\<rparr>"

definition writePacket :: "string \<Rightarrow> (conn, unit) act" where
  "writePacket data c =
     (case c_pkg c of
        None \<Rightarrow> (Inl (Panic NilDereference), c)
      | Some l \<Rightarrow>
          (case WritePacket (link_write l) data (lk_io l) of
             (r, io) \<Rightarrow>
               let l' = l\<lparr>lk_io := io\<rparr> in
               (r, c\<lparr>c_pkg := Some (if r = Inr () then answered l' else l'), c_pkgErr := err_of r\<rparr>)))"

text \<open>\<open>c.pkg.Sequence = 0\<close>.\<close>

definition reset_Sequence :: "(conn, unit) act" where
  "reset_Sequence c =
     (case c_pkg c of
        None \<Rightarrow> (Inl (Panic NilDereference), c)
      | Some l \<Rightarrow> (Inr (), c\<lparr>c_pkg := Some (l\<lparr>lk_io := (lk_io l)\<lparr>Sequence := 0\<rparr>\<rparr>)\<rparr>))"

definition zeros :: "nat \<Rightarrow> string" where
  "zeros n = replicate n (CHR 0x00)"

definition writeCommand :: "char \<Rightarrow> (conn, unit) act" where
  "writeCommand command =
     abind reset_Sequence (\<lambda>_. writePacket [CHR 0x01, CHR 0x00, CHR 0x00, CHR 0x00, command])"

definition writeCommandBuf :: "char \<Rightarrow> string \<Rightarrow> (conn, unit) act" where
  "writeCommandBuf command arg = abind reset_Sequence (\<lambda>_. writePacket (zeros 4 @ command # arg))"

definition writeCommandStr :: "char \<Rightarrow> string \<Rightarrow> (conn, unit) act" where
  "writeCommandStr command arg = abind reset_Sequence (\<lambda>_. writePacket (zeros 4 @ command # arg))"

definition writeCommandUint32 :: "char \<Rightarrow> int \<Rightarrow> (conn, unit) act" where
  "writeCommandUint32 command arg =
     abind reset_Sequence (\<lambda>_.
       writePacket ([CHR 0x05, CHR 0x00, CHR 0x00, CHR 0x00, command] @ le_bytes 4 arg))"

definition writeCommandStrStr :: "char \<Rightarrow> string \<Rightarrow> string \<Rightarrow> (conn, unit) act" where
  "writeCommandStrStr command arg1 arg2 =
     abind reset_Sequence (\<lambda>_. writePacket (zeros 4 @ command # arg1 @ CHR 0x00 # arg2))"

section \<open>Replies\<close>

text \<open>A \<open>mysql.Result\<close> without result set (from an OK packet) and one with.\<close>

datatype 'f reply =
    OKResult (status: int) (insertId: int) (affectedRows: int)
  | RowsResult "'f result"

fun reply_Status :: "'f reply \<Rightarrow> int" where
  "reply_Status (OKResult st _ _) = st"
| "reply_Status (RowsResult r) = re_Status r"

definition isEOFPacket :: "string \<Rightarrow> bool res" where
  "isEOFPacket data = rbind (at_index data 0) (\<lambda>b. Inr (b = EOF_HEADER \<and> length data \<le> 5))"

definition handleOKPacket :: "string \<Rightarrow> (conn, 'f reply) act" where
  "handleOKPacket data =
     abind (alift (rbind (slice_from data 1) LengthEncodedInt)) (\<lambda>(affected, _, n1).
     abind (alift (rbind (slice_from data (1 + n1)) LengthEncodedInt)) (\<lambda>(insert, _, n2).
     let pos = 1 + n1 + n2 in
     abind (aget c_capability) (\<lambda>capability.
       if has_flag capability CLIENT_PROTOCOL_41 \<or> has_flag capability CLIENT_TRANSACTIONS then
         abind (alift (le_uint_at data pos 2)) (\<lambda>st.
         abind (aupd (\<lambda>c. c\<lparr>c_status := st\<rparr>)) (\<lambda>_. aret (OKResult st insert affected)))
       else aret (OKResult 0 insert affected))))"

definition handleErrorPacket :: "string \<Rightarrow> (conn, 'a) act" where
  "handleErrorPacket data =
     abind (alift (le_uint_at data 1 2)) (\<lambda>code.
     abind (aget c_capability) (\<lambda>capability.
       if has_flag capability CLIENT_PROTOCOL_41 then
         abind (alift (slice data 4 9)) (\<lambda>state.
         abind (alift (slice_from data 9)) (\<lambda>message. alift (Inl (Err (SqlError code state message)))))
       else
         abind (alift (slice_from data 3)) (\<lambda>message. alift (Inl (Err (SqlError code [] message))))))"

definition readOK :: "(conn, 'f reply) act" where
  "readOK =
     abind readPacket (\<lambda>data.
     abind (alift (at_index data 0)) (\<lambda>b.
       if b = OK_HEADER then handleOKPacket data
       else if b = ERR_HEADER then handleErrorPacket data
       else alift (Inl (Err (Errorf ''invalid ok packet'')))))"

text \<open>What is left to read, the measure of the reading loops.\<close>

definition unread :: "conn \<Rightarrow> nat" where
  "unread c = (case c_pkg c of None \<Rightarrow> 0 | Some l \<Rightarrow> length (rb (lk_io l)))"

lemma ReadPacket_shorter: "ReadPacket p = (Inr d, q) \<Longrightarrow> length (rb q) < length (rb p)"
proof (induction "length (rb p)" arbitrary: p d q rule: less_induct)
  case less
  let ?n = "le_uint (take 3 (rb p))" and ?r = "drop 4 (rb p)"
  let ?p = "p\<lparr>rb := drop (nat ?n) ?r, Sequence := Sequence p + 1\<rparr>"
  from less.prems have l: "4 \<le> length (rb p)"
    by (subst (asm) ReadPacket.simps) (auto split: if_splits)
  from less.prems have "rb q = rb ?p \<or> (\<exists>d'. ReadPacket ?p = (Inr d', q))"
    by (subst (asm) ReadPacket.simps) (auto simp: Let_def split: if_splits prod.splits sum.splits)
  moreover have "length (rb ?p) < length (rb p)" using l by simp
  ultimately show ?case using less.hyps [of ?p] by fastforce
qed

lemma readPacket_unread:
  assumes "readPacket c = (Inr d, c')"
  shows "unread c' < unread c"
proof (cases "c_pkg c")
  case (Some l)
  obtain r io where "ReadPacket (lk_io l) = (r, io)" by fastforce
  with Some assms ReadPacket_shorter [of "lk_io l" d io] show ?thesis
    by (auto simp: readPacket_def unread_def)
qed (use assms in \<open>simp add: readPacket_def\<close>)

text \<open>
  \<open>readResultColumns\<close>: \<open>i\<close> columns have been read into \<open>flds\<close>; a definition more than announced is an index out
  of range. The status is taken from the packet that ends the columns.
\<close>

definition eof_status :: "string \<Rightarrow> int \<Rightarrow> (conn, int) act" where
  "eof_status data st =
     abind (aget c_capability) (\<lambda>capability.
       if has_flag capability CLIENT_PROTOCOL_41 then
         abind (alift (le_uint_at data 3 2)) (\<lambda>st'.
         abind (aupd (\<lambda>c. c\<lparr>c_status := st'\<rparr>)) (\<lambda>_. aret st'))
       else aret st)"

function readResultColumns :: "int \<Rightarrow> field list \<Rightarrow> (conn, field list \<times> int) act" where
  "readResultColumns columns flds c =
     abind readPacket (\<lambda>data.
     abind (alift (isEOFPacket data)) (\<lambda>eof c1.
       if eof then
         abind (eof_status data 0) (\<lambda>st.
           if int (length flds) \<noteq> columns then alift (Inl (Err ErrMalformPacket)) else aret (flds, st)) c1
       else
         abind (alift (if int (length flds) < columns then FieldData_Parse data else Inl (Panic IndexOutOfRange))) (\<lambda>f c2.
           readResultColumns columns (flds @ [f]) c2) c1)) c"
  by pat_completeness auto
termination
  by (relation "measure (\<lambda>(columns, flds, c). unread c)")
     (auto simp: alift_def aret_def dest: readPacket_unread split: if_splits)

function read_rows :: "string list \<Rightarrow> int \<Rightarrow> (conn, string list \<times> int) act" where
  "read_rows rows st c =
     abind readPacket (\<lambda>data.
     abind (alift (isEOFPacket data)) (\<lambda>eof c1.
       if eof then abind (eof_status data st) (\<lambda>st'. aret (rows, st')) c1
       else read_rows (rows @ [data]) st c1)) c"
  by pat_completeness auto
termination
  by (relation "measure (\<lambda>(rows, st, c). unread c)")
     (auto simp: alift_def dest: readPacket_unread)

definition readResultRows :: "'f floats \<Rightarrow> field list \<Rightarrow> int \<Rightarrow> bool \<Rightarrow> (conn, string list \<times> 'f val list list \<times> int) act" where
  "readResultRows fo flds st isBinary =
     abind (read_rows [] st) (\<lambda>(rows, st').
     abind (alift (rmap (\<lambda>d. RowData_Parse fo d flds isBinary) rows)) (\<lambda>vals. aret (rows, vals, st')))"

text \<open>\<open>FieldNames\<close>: a later column with the same name wins.\<close>

fun field_names :: "int \<Rightarrow> field list \<Rightarrow> (string \<rightharpoonup> int) \<Rightarrow> (string \<rightharpoonup> int)" where
  "field_names i [] m = m"
| "field_names i (f # fs) m = field_names (i + 1) fs (m(f_Name f \<mapsto> i))"

definition readResultset :: "'f floats \<Rightarrow> string \<Rightarrow> bool \<Rightarrow> (conn, 'f reply) act" where
  "readResultset fo data binary =
     abind (alift (LengthEncodedInt data)) (\<lambda>(columns, _, n).
       if n \<noteq> int (length data) then alift (Inl (Err ErrMalformPacket))
       else if wrap64 columns < 0 then alift (Inl (Panic MakeNegativeLen))
       else
         abind (readResultColumns columns []) (\<lambda>(flds, st).
         abind (readResultRows fo flds st binary) (\<lambda>(rows, vals, st').
           aret (RowsResult \<lparr>re_Status = st', re_InsertId = 0, re_AffectedRows = 0,
             re_Resultset = \<lparr>rs_Fields = flds, rs_FieldNames = field_names 0 flds Map.empty, rs_Values = vals, rs_RowDatas = rows\<rparr>\<rparr>))))"

definition readResult :: "'f floats \<Rightarrow> bool \<Rightarrow> (conn, 'f reply) act" where
  "readResult fo binary =
     abind readPacket (\<lambda>data.
     abind (alift (at_index data 0)) (\<lambda>b.
       if b = OK_HEADER then handleOKPacket data
       else if b = ERR_HEADER then handleErrorPacket data
       else if b = LocalInFile_HEADER then alift (Inl (Err ErrMalformPacket))
       else readResultset fo data binary))"

function readUntilEOF :: "(conn, unit) act" where
  "readUntilEOF c =
     abind readPacket (\<lambda>data.
     abind (alift (isEOFPacket data)) (\<lambda>eof c1. if eof then aret () c1 else readUntilEOF c1)) c"
  by pat_completeness auto
termination
  by (relation "measure unread") (auto simp: alift_def dest: readPacket_unread)

declare readResultColumns.simps [simp del] read_rows.simps [simp del] readUntilEOF.simps [simp del]

section \<open>Commands\<close>

text \<open>A call, and what is done when it returned an error before the error is passed on.\<close>

definition on_error :: "('s, 'a) act \<Rightarrow> ('s, unit) act \<Rightarrow> ('s, 'a) act" where
  "on_error m cleanup =
     atry m (\<lambda>r. case r of Inl e \<Rightarrow> abind cleanup (\<lambda>_. alift (Inl (Err e))) | Inr x \<Rightarrow> aret x)"

definition Ping :: "int \<Rightarrow> (conn, unit) act" where
  "Ping now =
     abind (writeCommand (CHR 0x0E)) (\<lambda>_.
     abind (readOK :: (conn, unit reply) act) (\<lambda>_. aupd (\<lambda>c. c\<lparr>c_pushTimestamp := now\<rparr>)))"

definition UseDB :: "string \<Rightarrow> (conn, unit) act" where
  "UseDB dbName =
     abind (aget c_db) (\<lambda>db.
       if db = dbName \<or> dbName = [] then aret ()
       else
         abind (writeCommandStr (CHR 0x02) dbName) (\<lambda>_.
         abind (readOK :: (conn, unit reply) act) (\<lambda>_. aupd (\<lambda>c. c\<lparr>c_db := dbName\<rparr>))))"

definition conn_exec :: "'f floats \<Rightarrow> string \<Rightarrow> (conn, 'f reply) act" where
  "conn_exec fo query = abind (writeCommandStr (CHR 0x03) query) (\<lambda>_. readResult fo False)"

definition run :: "'f floats \<Rightarrow> string \<Rightarrow> (conn, unit) act" where
  "run fo query = abind (conn_exec fo query) (\<lambda>_. aret ())"

definition Begin :: "'f floats \<Rightarrow> (conn, unit) act" where
  "Begin fo = run fo ''begin''"

definition Commit :: "'f floats \<Rightarrow> (conn, unit) act" where
  "Commit fo = run fo ''commit''"

definition Rollback :: "'f floats \<Rightarrow> (conn, unit) act" where
  "Rollback fo = run fo ''rollback''"

definition SetAutoCommit :: "'f floats \<Rightarrow> int \<Rightarrow> (conn, unit) act" where
  "SetAutoCommit fo n =
     on_error (run fo (if n = 0 then ''set autocommit = 0'' else ''set autocommit = 1'')) conn_Close"

text \<open>
  \<open>SetCharset\<close>. A missing key of a map reads as zero or the empty string, and the verb \<open>%s\<close> for a number prints
  its type and value.
\<close>

definition SetCharset :: "'f floats \<Rightarrow> string \<Rightarrow> int \<Rightarrow> (conn, unit) act" where
  "SetCharset fo charset0 collation0 =
     (let charset = trim_set [CHR 0x22, CHR 0x27, CHR 0x60] charset0;
          collation = (if collation0 = 0 then
                         map_get0 (map_of CollationNames) (case map_of Charsets charset of Some n \<Rightarrow> n | None \<Rightarrow> [])
                       else collation0)
      in abind (aget (\<lambda>c. (c_charset c, c_collation c))) (\<lambda>(cs, co).
         if cs = charset \<and> co = collation then aret ()
         else if map_of CharsetIds charset = None then alift (Inl (Err (Errorf (''invalid charset '' @ charset))))
         else case map_of Collations collation of
           None \<Rightarrow> alift (Inl (Err (Errorf (''invalid collation %!s(mysql.CollationId='' @ int_str collation @ '')''))))
         | Some name \<Rightarrow>
             abind (run fo (''SET NAMES '' @ charset @ '' COLLATE '' @ name)) (\<lambda>_.
               aupd (\<lambda>c. c\<lparr>c_collation := collation, c_charset := charset\<rparr>))))"

text \<open>\<open>FieldList\<close>: the first packet is only tested for an error; the definitions are read from the next one on.\<close>

function read_fields :: "field list \<Rightarrow> (conn, field list) act" where
  "read_fields fs c =
     abind readPacket (\<lambda>data.
     abind (alift (isEOFPacket data)) (\<lambda>eof c1.
       if eof then aret fs c1
       else abind (alift (FieldData_Parse data)) (\<lambda>f c2. read_fields (fs @ [f]) c2) c1)) c"
  by pat_completeness auto
termination
  by (relation "measure (\<lambda>(fs, c). unread c)") (auto simp: alift_def dest: readPacket_unread)

declare read_fields.simps [simp del]

definition FieldList :: "string \<Rightarrow> string \<Rightarrow> (conn, field list) act" where
  "FieldList table wildcard =
     abind (writeCommandStrStr (CHR 0x04) table wildcard) (\<lambda>_.
     abind readPacket (\<lambda>data.
     abind (alift (at_index data 0)) (\<lambda>b.
       if b = ERR_HEADER then handleErrorPacket data else read_fields [])))"

definition IsAutoCommit :: "conn \<Rightarrow> bool" where
  "IsAutoCommit c = has_flag (c_status c) SERVER_STATUS_AUTOCOMMIT"

definition IsInTransaction :: "conn \<Rightarrow> bool" where
  "IsInTransaction c = has_flag (c_status c) SERVER_STATUS_IN_TRANS"

section \<open>Handshake\<close>

text \<open>\<open>bytes.IndexByte\<close>: the first position of a byte, or -1.\<close>

fun IndexByte :: "string \<Rightarrow> char \<Rightarrow> int" where
  "IndexByte [] b = - 1"
| "IndexByte (x # xs) b = (if x = b then 0 else let i = IndexByte xs b in if i < 0 then - 1 else i + 1)"

text \<open>
  \<open>readInitialHandshake\<close>: the salt has two parts; the second one, the status and the upper capability bits are
  there only in long packets. The salt is appended to what the connection has.
\<close>

definition readInitialHandshake :: "(conn, unit) act" where
  "readInitialHandshake =
     abind readPacket (\<lambda>data.
     abind (alift (at_index data 0)) (\<lambda>b.
       if b = ERR_HEADER then alift (Inl (Err (Errorf ''read initial handshake error'')))
       else if (of_char b :: int) < 10 then
         alift (Inl (Err (Errorf (''invalid protocol version '' @ int_str (of_char b) @ '', must >= 10''))))
       else
         abind (alift (slice_from data 1)) (\<lambda>d1.
         let pos = 1 + IndexByte d1 (CHR 0x00) + 1 + 4 in
         abind (alift (slice data pos (pos + 8))) (\<lambda>s1.
         abind (aupd (\<lambda>c. c\<lparr>c_salt := c_salt c @ s1\<rparr>)) (\<lambda>_.
         abind (alift (le_uint_at data (pos + 9) 2)) (\<lambda>cap.
         abind (aupd (\<lambda>c. c\<lparr>c_capability := cap\<rparr>)) (\<lambda>_.
           let pos = pos + 11 in
           if int (length data) > pos then
             abind (alift (le_uint_at data (pos + 1) 2)) (\<lambda>st.
             abind (aupd (\<lambda>c. c\<lparr>c_status := st\<rparr>)) (\<lambda>_.
             abind (alift (le_uint_at data (pos + 3) 2)) (\<lambda>up.
             abind (aupd (\<lambda>c. c\<lparr>c_capability := push_bit 16 up OR c_capability c\<rparr>)) (\<lambda>_.
             abind (alift (slice data (pos + 16) (pos + 28))) (\<lambda>s2.
               aupd (\<lambda>c. c\<lparr>c_salt := c_salt c @ s2\<rparr>))))))
           else aret ())))))))"

definition auth_packet :: "conn \<Rightarrow> int \<Rightarrow> string" where
  "auth_packet c capability =
     (let auth = (case CalcPassword (c_salt c) (c_password c) of Some t \<Rightarrow> t | None \<Rightarrow> []) in
      zeros 4 @ le_bytes 4 capability @ zeros 4 @ char_of (c_collation c) # zeros 23
        @ c_user c @ CHR 0x00 # char_of (int (length auth)) # auth
        @ (if c_db c = [] then [] else c_db c @ [CHR 0x00]))"

definition writeAuthHandshake :: "(conn, unit) act" where
  "writeAuthHandshake =
     abind (aupd (\<lambda>c. c\<lparr>c_capability :=
         let cap = (CLIENT_PROTOCOL_41 OR CLIENT_SECURE_CONNECTION OR CLIENT_LONG_PASSWORD OR CLIENT_TRANSACTIONS OR CLIENT_LONG_FLAG)
                     AND c_capability c
         in if c_db c = [] then cap else cap OR CLIENT_CONNECT_WITH_DB\<rparr>)) (\<lambda>_.
     abind (aget (\<lambda>c. auth_packet c (c_capability c))) (\<lambda>data. writePacket data))"

text \<open>
  \<open>ReConnect\<close>. An address with a slash is dialled as a unix socket; the code then asserts that the connection is a
  TCP connection, which a unix connection is not.
\<close>

definition ReConnect :: "'f floats \<Rightarrow> dialer \<Rightarrow> (conn, unit) act" where
  "ReConnect fo dial =
     abind (aupd (\<lambda>c. if c_conn c then shut c else c)) (\<lambda>_.
     abind (aget c_addr) (\<lambda>addr.
     let n = (if CHR 0x2F \<in> set addr then ''unix'' else ''tcp'') in
     abind (alift (dial n addr)) (\<lambda>l.
     abind (alift (if n = ''tcp'' then Inr () else Inl (Panic TypeAssertion))) (\<lambda>_.
     abind (aupd (\<lambda>c. c\<lparr>c_conn := True, c_pkg := Some l\<rparr>)) (\<lambda>_.
     abind (on_error readInitialHandshake conn_Close) (\<lambda>_.
     abind (on_error writeAuthHandshake conn_Close) (\<lambda>_.
     abind (on_error (readOK :: (conn, unit reply) act) conn_Close) (\<lambda>_.
     SetAutoCommit fo 1))))))))"

definition Connect :: "'f floats \<Rightarrow> dialer \<Rightarrow> string \<Rightarrow> string \<Rightarrow> string \<Rightarrow> string \<Rightarrow> (conn, unit) act" where
  "Connect fo dial addr user password db =
     abind (aupd (\<lambda>c. c\<lparr>c_addr := addr, c_user := user, c_password := password, c_db := db,
                       c_collation := DEFAULT_COLLATION_ID, c_charset := DEFAULT_CHARSET\<rparr>)) (\<lambda>_.
     ReConnect fo dial)"

end
