(* ===== verification/Backend_Stmt.thy ===== *)
theory Backend_Stmt
  imports Backend_Conn
begin

text \<open>
  Prepared statements on a backend connection (src/backend/stmt.go) and \<open>Execute\<close>. A Go argument value is tagged
  with its type; integers are given by their value and floats by the IEEE bits that \<open>math.Float32bits\<close> and
  \<open>math.Float64bits\<close> read from them.
\<close>

unbundle bit_operations_syntax

datatype arg =
    ANil
  | AInt8 int | AInt16 int | AInt32 int | AInt int | AInt64 int
  | AUint8 int | AUint16 int | AUint32 int | AUint int | AUint64 int
  | ABool bool
  | AFloat32 int | AFloat64 int
  | AString string | ABytes string
  | AOther string

record backend_stmt =
  st_id :: int
  st_params :: int
  st_columns :: int

definition Prepare :: "string \<Rightarrow> (conn, backend_stmt) act" where
  "Prepare query =
     abind (writeCommandStr (CHR 0x16) query) (\<lambda>_.
     abind readPacket (\<lambda>data.
     abind (alift (at_index data 0)) (\<lambda>b.
       if b = ERR_HEADER then handleErrorPacket data
       else if b \<noteq> OK_HEADER then alift (Inl (Err ErrMalformPacket))
       else
         abind (alift (le_uint_at data 1 4)) (\<lambda>id.
         abind (alift (le_uint_at data 5 2)) (\<lambda>cols.
         abind (alift (le_uint_at data 7 2)) (\<lambda>params.
         abind (if params > 0 then readUntilEOF else aret ()) (\<lambda>_.
         abind (if cols > 0 then readUntilEOF else aret ()) (\<lambda>_.
           aret \<lparr>st_id = id, st_params = params, st_columns = cols\<rparr>))))))))"

text \<open>
  The switch of \<open>write\<close>: the two bytes of the type and the bytes of the value. An integer is written modulo its
  width.
\<close>

fun param :: "arg \<Rightarrow> (string \<times> string) res" where
  "param (AInt8 v) = Inr ([CHR 0x01, CHR 0x00], le_bytes 1 v)"
| "param (AInt16 v) = Inr ([CHR 0x02, CHR 0x00], Uint16ToBytes (v mod 2 ^ 16))"
| "param (AInt32 v) = Inr ([CHR 0x03, CHR 0x00], Uint32ToBytes (v mod 2 ^ 32))"
| "param (AInt v) = Inr ([CHR 0x08, CHR 0x00], Uint64ToBytes (to_uint64 v))"
| "param (AInt64 v) = Inr ([CHR 0x08, CHR 0x00], Uint64ToBytes (to_uint64 v))"
| "param (AUint8 v) = Inr ([CHR 0x01, CHR 0x80], le_bytes 1 v)"
| "param (AUint16 v) = Inr ([CHR 0x02, CHR 0x80], Uint16ToBytes v)"
| "param (AUint32 v) = Inr ([CHR 0x03, CHR 0x80], Uint32ToBytes v)"
| "param (AUint v) = Inr ([CHR 0x08, CHR 0x80], Uint64ToBytes v)"
| "param (AUint64 v) = Inr ([CHR 0x08, CHR 0x80], Uint64ToBytes v)"
| "param (ABool v) = Inr ([CHR 0x01, CHR 0x00], [if v then CHR 0x01 else CHR 0x00])"
| "param (AFloat32 v) = Inr ([CHR 0x04, CHR 0x00], Uint32ToBytes v)"
| "param (AFloat64 v) = Inr ([CHR 0x05, CHR 0x00], Uint64ToBytes v)"
| "param (AString v) = Inr ([CHR 0xFE, CHR 0x00], PutLengthEncodedInt (to_uint64 (int (length v))) @ v)"
| "param (ABytes v) = Inr ([CHR 0xFE, CHR 0x00], PutLengthEncodedInt (to_uint64 (int (length v))) @ v)"
| "param (AOther ty) = Inl (Err (Errorf (''invalid argument type '' @ ty)))"
| "param ANil = Inr ([CHR 0x06, CHR 0x00], [])"

definition set_null :: "nat \<Rightarrow> string \<Rightarrow> string" where
  "set_null i bm = bm[i div 8 := char_of ((of_char (bm ! (i div 8)) :: int) OR 2 ^ (i mod 8))]"

text \<open>The loop over the arguments: null bitmap, types, values, and whether a value was bound.\<close>

fun write_args :: "nat \<Rightarrow> arg list \<Rightarrow> string \<times> string \<times> string \<times> bool \<Rightarrow> (string \<times> string \<times> string \<times> bool) res" where
  "write_args i [] acc = Inr acc"
| "write_args i (a # as) (bm, ts, vs, bound) =
     rbind (param a) (\<lambda>(t, v).
       if a = ANil then write_args (i + 1) as (set_null i bm, ts @ t, vs, bound)
       else write_args (i + 1) as (bm, ts @ t, vs @ v, True))"

definition execute_payload :: "backend_stmt \<Rightarrow> arg list \<Rightarrow> string res" where
  "execute_payload s args =
     (if int (length args) \<noteq> st_params s
      then Inl (Err (Errorf (''argument mismatch, need '' @ int_str (st_params s) @ '' but got '' @ int_str (int (length args)))))
      else rbind (write_args 0 args (zeros ((length args + 7) div 8), [], [], False)) (\<lambda>(bm, ts, vs, bound).
        Inr (CHR 0x17 # le_bytes 4 (st_id s) @ CHR 0x00 # [CHR 0x01, CHR 0x00, CHR 0x00, CHR 0x00]
          @ (if st_params s > 0 then bm @ (if bound then CHR 0x01 # ts @ vs else [CHR 0x00]) else []))))"

definition stmt_write :: "backend_stmt \<Rightarrow> arg list \<Rightarrow> (conn, unit) act" where
  "stmt_write s args =
     abind (alift (execute_payload s args)) (\<lambda>p.
     abind reset_Sequence (\<lambda>_. writePacket (zeros 4 @ p)))"

definition stmt_Execute :: "'f floats \<Rightarrow> backend_stmt \<Rightarrow> arg list \<Rightarrow> (conn, 'f reply) act" where
  "stmt_Execute fo s args = abind (stmt_write s args) (\<lambda>_. readResult fo True)"

definition stmt_Close :: "backend_stmt \<Rightarrow> (conn, unit) act" where
  "stmt_Close s = writeCommandUint32 (CHR 0x19) (st_id s)"

definition ClosePrepare :: "int \<Rightarrow> (conn, unit) act" where
  "ClosePrepare stmtId = writeCommandUint32 (CHR 0x19) stmtId"

definition Execute :: "'f floats \<Rightarrow> string \<Rightarrow> arg list \<Rightarrow> (conn, 'f reply) act" where
  "Execute fo command args =
     (if args = [] then conn_exec fo command
      else
        abind (Prepare command) (\<lambda>s.
        atry (stmt_Execute fo s args) (\<lambda>r.
        atry (stmt_Close s) (\<lambda>_. case r of Inl e \<Rightarrow> alift (Inl (Err e)) | Inr x \<Rightarrow> aret x))))"

end
