(* ===== verification/Go_Fmt.thy ===== *)
theory Go_Fmt
  imports Go_Base
begin

text \<open>
  The formatting of Go's package \<open>fmt\<close> that the log lines and the error messages use. \<open>Sprintf\<close> is for the formats the program
  itself writes, which have flags and a precision but neither a width nor an argument index, and for strings and integers as
  arguments. \<open>Sprintf_none\<close> is for a format without arguments, where the format may be any text: the logger passes a finished line
  as a format. Verbs that fit no argument are written into the text, as \<open>fmt\<close> does.
\<close>

section \<open>Runes\<close>

text \<open>\<open>utf8.DecodeRuneInString\<close>: the bytes of the first rune; a byte that starts no valid rune counts for one.\<close>

definition in_bytes :: "nat \<Rightarrow> nat \<Rightarrow> string \<Rightarrow> nat \<Rightarrow> bool" where
  "in_bytes lo hi s i \<longleftrightarrow> i < length s \<and> lo \<le> byte_of (s ! i) \<and> byte_of (s ! i) \<le> hi"

definition rune_len :: "string \<Rightarrow> nat" where
  "rune_len s =
     (if in_bytes 0xC2 0xDF s 0 \<and> in_bytes 0x80 0xBF s 1 then 2
      else if (in_bytes 0xE0 0xE0 s 0 \<and> in_bytes 0xA0 0xBF s 1 \<or> in_bytes 0xE1 0xEC s 0 \<and> in_bytes 0x80 0xBF s 1
               \<or> in_bytes 0xED 0xED s 0 \<and> in_bytes 0x80 0x9F s 1 \<or> in_bytes 0xEE 0xEF s 0 \<and> in_bytes 0x80 0xBF s 1)
              \<and> in_bytes 0x80 0xBF s 2 then 3
      else if (in_bytes 0xF0 0xF0 s 0 \<and> in_bytes 0x90 0xBF s 1 \<or> in_bytes 0xF1 0xF3 s 0 \<and> in_bytes 0x80 0xBF s 1
               \<or> in_bytes 0xF4 0xF4 s 0 \<and> in_bytes 0x80 0x8F s 1)
              \<and> in_bytes 0x80 0xBF s 2 \<and> in_bytes 0x80 0xBF s 3 then 4
      else 1)"

lemma rune_len_pos [simp]: "0 < rune_len s"
  by (simp add: rune_len_def)

text \<open>The first \<open>n\<close> runes of a text.\<close>

fun take_runes :: "nat \<Rightarrow> string \<Rightarrow> string" where
  "take_runes 0 s = []"
| "take_runes (Suc n) s = take (rune_len s) s @ take_runes n (drop (rune_len s) s)"

lemma take_runes_Nil [simp]: "take_runes n [] = []"
  by (induction n) auto

lemma rune_len_ascii: "byte_of c < 128 \<Longrightarrow> rune_len (c # s) = 1"
  by (simp add: rune_len_def in_bytes_def)

lemma take_runes_ascii: "\<forall>c \<in> set s. byte_of c < 128 \<Longrightarrow> take_runes n s = take n s"
proof (induction n s rule: take_runes.induct)
  case (2 n s)
  then show ?case
  proof (cases s)
    case (Cons c t)
    then have "rune_len s = 1" using 2 by (simp add: rune_len_ascii)
    then show ?thesis using 2 Cons by simp
  qed simp
qed simp

text \<open>The first rune as \<open>fmt\<close> writes it: a byte that is no rune becomes the replacement character.\<close>

definition first_rune :: "string \<Rightarrow> string" where
  "first_rune s =
     (if rune_len s = 1 \<and> 128 \<le> byte_of (hd s) then [CHR 0xEF, CHR 0xBF, CHR 0xBD] else take (rune_len s) s)"

section \<open>Arguments\<close>

datatype fmt_arg = FStr string | FInt int

fun arg_text :: "fmt_arg \<Rightarrow> string" where
  "arg_text (FStr s) = s"
| "arg_text (FInt i) = int_str i"

fun fmt_type :: "fmt_arg \<Rightarrow> string" where
  "fmt_type (FStr s) = ''string''"
| "fmt_type (FInt i) = ''int''"

fun print_arg :: "string \<Rightarrow> nat option \<Rightarrow> fmt_arg \<Rightarrow> string" where
  "print_arg v prec (FStr s) =
     (if v = ''s'' \<or> v = ''v'' then (case prec of None \<Rightarrow> s | Some n \<Rightarrow> take_runes n s)
      else ''%!'' @ v @ ''(string='' @ s @ '')'')"
| "print_arg v prec (FInt i) =
     (if v = ''d'' \<or> v = ''v'' then int_str i else ''%!'' @ v @ ''(int='' @ int_str i @ '')'')"

text \<open>\<open>fmt.Sprint\<close>: a space between two operands that are not strings.\<close>

fun Sprint :: "fmt_arg list \<Rightarrow> string" where
  "Sprint [] = []"
| "Sprint [a] = arg_text a"
| "Sprint (FInt i # FInt j # as) = int_str i @ '' '' @ Sprint (FInt j # as)"
| "Sprint (a # b # as) = arg_text a @ Sprint (b # as)"

section \<open>Formats with arguments\<close>

definition is_flag :: "char \<Rightarrow> bool" where
  "is_flag c \<longleftrightarrow> c \<in> set ''#0+- ''"

definition digits_value :: "string \<Rightarrow> nat" where
  "digits_value s = foldl (\<lambda>n c. 10 * n + digit_val c) 0 s"

text \<open>The precision of a verb: the text of an error, the precision, the arguments left and the format behind it.\<close>

definition precision :: "string \<Rightarrow> fmt_arg list \<Rightarrow> string \<times> nat option \<times> fmt_arg list \<times> string" where
  "precision s args =
     (if take 1 s \<noteq> ''.'' then ([], None, args, s)
      else if take 2 s = ''.*'' then
        (case args of
           FInt n # as \<Rightarrow> if 0 \<le> n \<and> n \<le> 1000000 then ([], Some (nat n), as, drop 2 s) else (''%!(BADPREC)'', None, as, drop 2 s)
         | _ \<Rightarrow> (''%!(BADPREC)'', None, tl args, drop 2 s))
      else ([], Some (digits_value (takeWhile is_digit (drop 1 s))), args, dropWhile is_digit (drop 1 s)))"

definition extra_args :: "fmt_arg list \<Rightarrow> string" where
  "extra_args args =
     (if args = [] then []
      else ''%!(EXTRA '' @ drop 2 (concat (map (\<lambda>a. '', '' @ fmt_type a @ ''='' @ arg_text a) args)) @ '')'')"

lemma precision_rest: "precision s args = (e, p, as, r) \<Longrightarrow> length r \<le> length s"
  using length_dropWhile_le [of is_digit "drop 1 s"]
  by (auto simp: precision_def split: if_splits list.splits fmt_arg.splits)

lemma precision_behind:
  "precision (dropWhile is_flag s) args = (e, p, as, v # r) \<Longrightarrow> length (drop (rune_len (v # r)) (v # r)) < Suc (length s)"
  using precision_rest [of "dropWhile is_flag s" args e p as "v # r"] length_dropWhile_le [of is_flag s] by simp

function Sprintf :: "string \<Rightarrow> fmt_arg list \<Rightarrow> string" where
  "Sprintf [] args = extra_args args"
| "Sprintf (c # s) args =
     (if c \<noteq> CHR ''%'' then c # Sprintf s args
      else case precision (dropWhile is_flag s) args of
        (e, prec, as, []) \<Rightarrow> e @ ''%!(NOVERB)'' @ extra_args as
      | (e, prec, as, v # r) \<Rightarrow>
          (let verb = first_rune (v # r); rest = drop (rune_len (v # r)) (v # r) in
           if verb = ''%'' then e @ verb @ Sprintf rest as
           else e @ (case as of [] \<Rightarrow> ''%!'' @ verb @ ''(MISSING)'' | a # _ \<Rightarrow> print_arg verb prec a) @ Sprintf rest (tl as)))"
  by pat_completeness auto
termination
  by (relation "measure (\<lambda>(s, _). length s)") (auto dest!: precision_behind [OF sym])

section \<open>Formats without arguments\<close>

text \<open>\<open>parsenum\<close>: whether there is a number, and the rest of the format; behind a number over \<open>1e6\<close> nothing is read.\<close>

definition too_large :: "string \<Rightarrow> bool" where
  "too_large ds \<longleftrightarrow> digits_value (butlast ds) > 1000000"

definition parsenum :: "string \<Rightarrow> bool \<times> string" where
  "parsenum s = (let ds = takeWhile is_digit s in if too_large ds then (False, []) else (ds \<noteq> [], dropWhile is_digit s))"

text \<open>\<open>argNumber\<close> without arguments: whether an index is well formed, whether there is none, and the rest.\<close>

definition argNumber :: "string \<Rightarrow> bool \<times> bool \<times> string" where
  "argNumber s =
     (if take 1 s \<noteq> ''['' then (False, True, s)
      else
        let ds = takeWhile (\<lambda>c. c \<noteq> CHR '']'') (drop 1 s) in
        if length s < 3 \<or> drop (1 + length ds) s = [] then (False, False, drop 1 s)
        else (ds \<noteq> [] \<and> list_all is_digit ds \<and> \<not> too_large ds, False, drop (2 + length ds) s))"

text \<open>The width, the precision and the indices of one verb: the text of errors, whether the argument number is good, and the rest.\<close>

definition verb_width :: "bool \<Rightarrow> string \<Rightarrow> string \<times> bool \<times> bool \<times> string" where
  "verb_width after s =
     (if take 1 s = ''*'' then (''%!(BADWIDTH)'', False, True, drop 1 s)
      else case parsenum s of (present, r) \<Rightarrow> ([], after, \<not> (after \<and> present), r))"

definition verb_precision :: "bool \<Rightarrow> string \<Rightarrow> string \<times> bool \<times> bool \<times> string" where
  "verb_precision after s =
     (if take 1 s \<noteq> ''.'' then ([], after, True, s)
      else case argNumber (drop 1 s) of (after', good, r) \<Rightarrow>
        if take 1 r = ''*'' then (''%!(BADPREC)'', False, \<not> after \<and> good, drop 1 r)
        else ([], after', \<not> after \<and> good, snd (parsenum r)))"

definition directive :: "string \<Rightarrow> string \<times> bool \<times> string" where
  "directive s =
     (case argNumber (dropWhile is_flag s) of (after, good, r) \<Rightarrow>
      case verb_width after r of (e1, after1, good1, r1) \<Rightarrow>
      case verb_precision after1 r1 of (e2, after2, good2, r2) \<Rightarrow>
      case (if after2 then (True, True, r2) else argNumber r2) of (after3, good3, r3) \<Rightarrow>
        (e1 @ e2, good \<and> good1 \<and> good2 \<and> good3, r3))"

lemma argNumber_rest: "argNumber s = (a, g, r) \<Longrightarrow> length r \<le> length s"
  by (auto simp: argNumber_def Let_def split: if_splits)

lemma parsenum_rest: "parsenum s = (b, r) \<Longrightarrow> length r \<le> length s"
  using length_dropWhile_le [of is_digit s] by (auto simp: parsenum_def Let_def split: if_splits)

lemma verb_width_rest: "verb_width b s = (e, a, g, r) \<Longrightarrow> length r \<le> length s"
  by (auto simp: verb_width_def split: if_splits prod.splits dest: parsenum_rest)

lemma verb_precision_rest: "verb_precision b s = (e, a, g, r) \<Longrightarrow> length r \<le> length s"
proof -
  assume a: "verb_precision b s = (e, a, g, r)"
  obtain a' g' r' where n: "argNumber (drop 1 s) = (a', g', r')" by (cases "argNumber (drop 1 s)")
  obtain q r'' where p: "parsenum r' = (q, r'')" by (cases "parsenum r'")
  have "length r'' \<le> length r'" "length r' \<le> length s" using parsenum_rest [OF p] argNumber_rest [OF n] by auto
  then show ?thesis using a n p by (auto simp: verb_precision_def split: if_splits)
qed

lemma directive_rest: "directive s = (e, g, r) \<Longrightarrow> length r \<le> length s"
proof -
  assume a: "directive s = (e, g, r)"
  obtain a0 g0 r0 where n: "argNumber (dropWhile is_flag s) = (a0, g0, r0)" by (cases "argNumber (dropWhile is_flag s)")
  obtain e1 a1 g1 r1 where w: "verb_width a0 r0 = (e1, a1, g1, r1)" by (cases "verb_width a0 r0")
  obtain e2 a2 g2 r2 where p: "verb_precision a1 r1 = (e2, a2, g2, r2)" by (cases "verb_precision a1 r1")
  obtain a3 g3 r3 where q: "argNumber r2 = (a3, g3, r3)" by (cases "argNumber r2")
  have "r = r2 \<or> r = r3" using a n w p q by (auto simp: directive_def split: if_splits)
  then show ?thesis
    using argNumber_rest [OF n] verb_width_rest [OF w] verb_precision_rest [OF p] argNumber_rest [OF q]
      length_dropWhile_le [of is_flag s] by auto
qed

lemma directive_behind: "directive s = (e, g, v # r) \<Longrightarrow> length (drop (rune_len (v # r)) (v # r)) < Suc (length s)"
  using directive_rest [of s e g "v # r"] by simp

function Sprintf_none :: "string \<Rightarrow> string" where
  "Sprintf_none [] = []"
| "Sprintf_none (c # s) =
     (if c \<noteq> CHR ''%'' then c # Sprintf_none s
      else case directive s of
        (e, good, []) \<Rightarrow> e @ ''%!(NOVERB)''
      | (e, good, v # r) \<Rightarrow>
          (let verb = first_rune (v # r); rest = drop (rune_len (v # r)) (v # r) in
           e @ (if verb = ''%'' then verb else if good then ''%!'' @ verb @ ''(MISSING)'' else ''%!'' @ verb @ ''(BADINDEX)'')
             @ Sprintf_none rest))"
  by pat_completeness auto
termination
  by (relation "measure length") (auto dest!: directive_behind [OF sym])

subsection \<open>Equations\<close>

declare Sprintf.simps(2) [simp del] Sprintf_none.simps(2) [simp del]

lemma Sprintf_char [simp]: "c \<noteq> CHR ''%'' \<Longrightarrow> Sprintf (c # s) args = c # Sprintf s args"
  by (simp add: Sprintf.simps(2))

lemma Sprintf_none_char [simp]: "c \<noteq> CHR ''%'' \<Longrightarrow> Sprintf_none (c # s) = c # Sprintf_none s"
  by (simp add: Sprintf_none.simps(2))

lemma first_rune_ascii: "byte_of c < 128 \<Longrightarrow> first_rune (c # s) = [c]"
  by (simp add: first_rune_def rune_len_ascii)

text \<open>A verb that is a letter takes the next argument.\<close>

lemma Sprintf_verb:
  assumes "97 \<le> byte_of v" "byte_of v \<le> 122"
  shows "Sprintf (CHR ''%'' # v # s) (a # as) = print_arg [v] None a @ Sprintf s as"
proof -
  have "\<not> is_flag v" "v \<noteq> CHR ''.''" "v \<noteq> CHR ''%''" using assms by (auto simp: is_flag_def)
  then have "precision (dropWhile is_flag (v # s)) (a # as) = ([], None, a # as, v # s)" by (simp add: precision_def)
  then show ?thesis using assms \<open>v \<noteq> CHR ''%''\<close>
    by (simp add: Sprintf.simps(2) first_rune_ascii rune_len_ascii)
qed

text \<open>A text without a percent sign is its own format, and a doubled one is shown as one.\<close>

lemma Sprintf_none_plain: "CHR ''%'' \<notin> set s \<Longrightarrow> Sprintf_none (s @ t) = s @ Sprintf_none t"
  by (induction s) auto

lemma directive_percent: "directive (CHR ''%'' # s) = ([], True, CHR ''%'' # s)"
  by (simp add: directive_def argNumber_def verb_width_def verb_precision_def parsenum_def Let_def is_flag_def is_digit_def
      too_large_def digits_value_def)

lemma Sprintf_none_percent [simp]: "Sprintf_none (CHR ''%'' # CHR ''%'' # s) = CHR ''%'' # Sprintf_none s"
  by (simp add: Sprintf_none.simps(2) directive_percent rune_len_ascii first_rune_ascii)

end
