(* ===== verification/Client_Wire.thy ===== *)
theory Client_Wire
  imports Backend_Stmt Go_Fmt
begin

text \<open>
  What the proxy writes to its clients and reads from them: the handshake and the packets of src/proxy/server/conn.go,
  result sets (conn_resultset.go), column lists (conn_select.go) and the packets of prepared statements
  (conn_stmt.go). The methods are actions on the record \<open>client\<close>, which the session extends.

  The backend connection of the proxy speaks the same protocol from the other side. So the two are checked against each
  other: what a \<open>ClientConn\<close> writes is what a \<open>Conn\<close> reads, and the other way round.
\<close>

unbundle bit_operations_syntax

section \<open>State\<close>

text \<open>A prepared statement of a client: \<open>s\<close> is the parsed statement.\<close>

record 'a client_stmt =
  cs_id :: int
  cs_params :: int
  cs_columns :: int
  cs_args :: "arg list"
  cs_s :: 'a
  cs_sql :: string

record client =
  cl_pkg :: packetio
  cl_wr :: writer
  cl_remote :: string
  cl_capability :: int
  cl_connectionId :: int
  cl_status :: int
  cl_collation :: int
  cl_charset :: string
  cl_user :: string
  cl_db :: string
  cl_salt :: string
  cl_closed :: bool
  cl_lastInsertId :: int
  cl_affectedRows :: int

type_synonym ('z, 'a) client_act = "('z client_scheme, 'a) act"

section \<open>Errors\<close>

text \<open>The text of an error; \<open>lib\<close> gives the texts of the errors of Go's standard library.\<close>

fun error_text :: "(goerr \<Rightarrow> string) \<Rightarrow> goerr \<Rightarrow> string" where
  "error_text lib ErrNoMasterConn = ''no master connection''"
| "error_text lib ErrNoSlaveConn = ''no slave connection''"
| "error_text lib ErrNoDefaultNode = ''no default node''"
| "error_text lib ErrNoMasterDB = ''no master database''"
| "error_text lib ErrNoSlaveDB = ''no slave database''"
| "error_text lib ErrNoDatabase = ''no database''"
| "error_text lib ErrMasterDown = ''master is down''"
| "error_text lib ErrSlaveDown = ''slave is down''"
| "error_text lib ErrDatabaseClose = ''database is close''"
| "error_text lib ErrConnIsNil = ''connection is nil''"
| "error_text lib ErrBadConn = ''connection was bad''"
| "error_text lib CoreErrBadConn = ''connection was bad''"
| "error_text lib ErrIgnoreSQL = ''ignore this sql''"
| "error_text lib ErrAddressNull = ''address is nil''"
| "error_text lib ErrInvalidArgument = ''argument is invalid''"
| "error_text lib ErrInvalidCharset = ''charset is invalid''"
| "error_text lib ErrCmdUnsupport = ''command unsupport''"
| "error_text lib ErrLocationsCount = ''locations count is not equal''"
| "error_text lib ErrNoCriteria = ''plan have no criteria''"
| "error_text lib ErrNoRouteNode = ''no route node''"
| "error_text lib ErrResultNil = ''result is nil''"
| "error_text lib ErrSumColumnType = ''sum column type error''"
| "error_text lib ErrSelectInInsert = ''select in insert not allowed''"
| "error_text lib ErrInsertInMulti = ''insert in multi node''"
| "error_text lib ErrUpdateInMulti = ''update in multi node''"
| "error_text lib ErrDeleteInMulti = ''delete in multi node''"
| "error_text lib ErrReplaceInMulti = ''replace in multi node''"
| "error_text lib ErrExecInMulti = ''exec in multi node''"
| "error_text lib ErrTransInMulti = ''transaction in multi node''"
| "error_text lib ErrNoPlan = ''statement have no plan''"
| "error_text lib ErrNoPlanRule = ''statement have no plan rule''"
| "error_text lib ErrUpdateKey = ''routing key in update expression''"
| "error_text lib ErrStmtConvert = ''statement fail to convert''"
| "error_text lib ErrExprConvert = ''expr fail to convert''"
| "error_text lib ErrConnNotEqual = ''the length of conns not equal sqls''"
| "error_text lib ErrKeyOutOfRange = ''shard key not in key range''"
| "error_text lib ErrMultiShard = ''insert or replace has multiple shard targets''"
| "error_text lib ErrIRNoColumns = ''insert or replace must specify columns''"
| "error_text lib ErrIRNoShardingKey = ''insert or replace not contain sharding key''"
| "error_text lib ErrColsLenNotMatch = ''insert or replace cols and values length not match''"
| "error_text lib ErrDateIllegal = ''date format illegal''"
| "error_text lib ErrDateRangeIllegal = ''date range format illegal''"
| "error_text lib ErrDateRangeCount = ''date range count is not equal''"
| "error_text lib ErrSlaveExist = ''slave has exist''"
| "error_text lib ErrSlaveNotExist = ''slave has not exist''"
| "error_text lib ErrBlackSqlExist = ''black sql has exist''"
| "error_text lib ErrBlackSqlNotExist = ''black sql has not exist''"
| "error_text lib ErrInsertTooComplex = ''insert is too complex''"
| "error_text lib ErrSQLNULL = ''sql is null''"
| "error_text lib ErrInternalServer = ''internal server error''"
| "error_text lib ErrMalformPacket = ''Malform packet error''"
| "error_text lib ErrEOF = ''EOF''"
| "error_text lib (Errorf s) = s"
| "error_text lib (SqlError code state message) = ''ERROR '' @ int_str code @ '' ('' @ state @ ''): '' @ message"
| "error_text lib (ErrNum k s) = lib (ErrNum k s)"
| "error_text lib (ErrTimeParse s) = lib (ErrTimeParse s)"

abbreviation (input) "ER_ACCESS_DENIED_ERROR \<equiv> (1045 :: int)"
abbreviation (input) "ER_NO_DB_ERROR \<equiv> (1046 :: int)"
abbreviation (input) "ER_UNKNOWN_ERROR \<equiv> (1105 :: int)"
abbreviation (input) "ER_WRONG_ARGUMENTS \<equiv> (1210 :: int)"
abbreviation (input) "ER_UNKNOWN_STMT_HANDLER \<equiv> (1243 :: int)"

text \<open>
  \<open>NewDefaultError\<close> with the four formats of src/mysql/errname.go that the sessions use. The format of an unknown
  statement has a precision \<open>*\<close>, for which the code passes a string: Go prints the text of a bad precision and
  then one argument too few.
\<close>

definition access_denied :: "string \<Rightarrow> string \<Rightarrow> goerr" where
  "access_denied user host =
     NewError ER_ACCESS_DENIED_ERROR
       (''Access denied for user '' @ [CHR 0x27] @ take_runes 48 user @ [CHR 0x27] @ ''@'' @ [CHR 0x27] @ take_runes 64 host @ [CHR 0x27]
        @ '' (using password: Yes)'')"

definition no_db_error :: goerr where
  "no_db_error = NewError ER_NO_DB_ERROR ''No database selected''"

definition unknown_stmt :: "string \<Rightarrow> goerr" where
  "unknown_stmt cmd =
     NewError ER_UNKNOWN_STMT_HANDLER
       (''Unknown prepared statement handler (%!(BADPREC)'' @ cmd @ '') given to %!s(MISSING)'')"

definition wrong_arguments :: "string \<Rightarrow> goerr" where
  "wrong_arguments cmd = NewError ER_WRONG_ARGUMENTS (''Incorrect arguments to '' @ cmd)"

section \<open>Packets\<close>

definition client_readPacket :: "('z, string) client_act" where
  "client_readPacket c = (case ReadPacket (cl_pkg c) of (r, p) \<Rightarrow> (r, c\<lparr>cl_pkg := p\<rparr>))"

definition client_writePacket :: "string \<Rightarrow> ('z, unit) client_act" where
  "client_writePacket data c = (case WritePacket (cl_wr c) data (cl_pkg c) of (r, p) \<Rightarrow> (r, c\<lparr>cl_pkg := p\<rparr>))"

definition writePacketBatch :: "string \<Rightarrow> string option \<Rightarrow> bool \<Rightarrow> ('z, string) client_act" where
  "writePacketBatch tot data direct c =
     (case WritePacketBatch (cl_wr c) tot data direct (cl_pkg c) of (r, p) \<Rightarrow> (r, c\<lparr>cl_pkg := p\<rparr>))"

definition DEFAULT_CAPABILITY :: int where
  "DEFAULT_CAPABILITY =
     CLIENT_LONG_PASSWORD OR CLIENT_LONG_FLAG OR CLIENT_CONNECT_WITH_DB OR CLIENT_PROTOCOL_41 OR CLIENT_TRANSACTIONS
       OR CLIENT_SECURE_CONNECTION"

definition handshake_payload :: "'z client_scheme \<Rightarrow> string \<Rightarrow> string \<Rightarrow> string" where
  "handshake_payload c s1 s2 =
     CHR 0x0A # ''5.6.20-kingshard'' @ CHR 0x00 # le_bytes 4 (cl_connectionId c) @ s1 @ CHR 0x00 # le_bytes 2 DEFAULT_CAPABILITY
       @ char_of DEFAULT_COLLATION_ID # le_bytes 2 (cl_status c) @ le_bytes 2 (drop_bit 16 DEFAULT_CAPABILITY)
       @ CHR 0x15 # zeros 10 @ s2 @ [CHR 0x00]"

definition writeInitialHandshake :: "('z, unit) client_act" where
  "writeInitialHandshake =
     abind (aget id) (\<lambda>c.
     abind (alift (slice (cl_salt c) 0 8)) (\<lambda>s1.
     abind (alift (slice_from (cl_salt c) 8)) (\<lambda>s2.
       client_writePacket (zeros 4 @ handshake_payload c s1 s2))))"

text \<open>
  \<open>readHandshakeResponse\<close>; \<open>users\<close> are the configured users with their passwords. A name without a final zero byte
  panics in the slice expression.
\<close>

definition readHandshakeResponse :: "(string \<times> string) list \<Rightarrow> ('z, unit) client_act" where
  "readHandshakeResponse users =
     abind client_readPacket (\<lambda>data.
     abind (alift (le_uint_at data 0 4)) (\<lambda>capability.
     abind (aupd (\<lambda>c. c\<lparr>cl_capability := capability\<rparr>)) (\<lambda>_.
     abind (alift (slice_from data 32)) (\<lambda>d1.
     abind (alift (slice data 32 (32 + IndexByte d1 (CHR 0x00)))) (\<lambda>user.
     abind (aupd (\<lambda>c. c\<lparr>cl_user := user\<rparr>)) (\<lambda>_.
     let pos = 32 + int (length user) + 1 in
     abind (alift (at_index data pos)) (\<lambda>authLen.
     abind (alift (slice data (pos + 1) (pos + 1 + of_char authLen))) (\<lambda>auth.
     abind (aget id) (\<lambda>c.
       case map_of users user of
         None \<Rightarrow> alift (Inl (Err (access_denied user (cl_remote c))))
       | Some password \<Rightarrow>
           if auth \<noteq> (case CalcPassword (cl_salt c) password of Some t \<Rightarrow> t | None \<Rightarrow> [])
           then alift (Inl (Err (access_denied user (cl_remote c))))
           else if has_flag capability CLIENT_CONNECT_WITH_DB then
             let pos = pos + 1 + of_char authLen in
             abind (alift (slice_from data pos)) (\<lambda>d2.
               if d2 = [] then aret ()
               else abind (alift (slice data pos (pos + IndexByte d2 (CHR 0x00)))) (\<lambda>db.
                 aupd (\<lambda>c. c\<lparr>cl_db := db\<rparr>)))
           else aupd (\<lambda>c. c\<lparr>cl_db := []\<rparr>))))))))))"

definition ok_payload :: "int \<Rightarrow> int \<Rightarrow> int \<Rightarrow> int \<Rightarrow> string" where
  "ok_payload capability st iid affected =
     OK_HEADER # PutLengthEncodedInt affected @ PutLengthEncodedInt iid
       @ (if has_flag capability CLIENT_PROTOCOL_41 then le_bytes 2 st @ zeros 2 else [])"

text \<open>\<open>writeOK\<close> with the result to report, or nil. Only the three numbers of the result are read.\<close>

definition writeOK :: "(int \<times> int \<times> int) option \<Rightarrow> ('z, unit) client_act" where
  "writeOK r =
     abind (aget id) (\<lambda>c.
       case (case r of None \<Rightarrow> (cl_status c, 0, 0) | Some x \<Rightarrow> x) of (st, iid, affected) \<Rightarrow>
         client_writePacket (zeros 4 @ ok_payload (cl_capability c) st iid affected))"

definition err_payload :: "int \<Rightarrow> int \<Rightarrow> string \<Rightarrow> string \<Rightarrow> string" where
  "err_payload capability code state message =
     ERR_HEADER # le_bytes 2 code @ (if has_flag capability CLIENT_PROTOCOL_41 then CHR 0x23 # state else []) @ message"

text \<open>Errors that are not MySQL errors are reported under one code with their text.\<close>

definition sql_error :: "(goerr \<Rightarrow> string) \<Rightarrow> goerr \<Rightarrow> int \<times> string \<times> string" where
  "sql_error lib e =
     (case (case e of SqlError code state message \<Rightarrow> e | _ \<Rightarrow> NewError ER_UNKNOWN_ERROR (error_text lib e)) of
        SqlError code state message \<Rightarrow> (code, state, message)
      | _ \<Rightarrow> (0, [], []))"

definition writeError :: "(goerr \<Rightarrow> string) \<Rightarrow> goerr \<Rightarrow> ('z, unit) client_act" where
  "writeError lib e =
     abind (aget cl_capability) (\<lambda>capability.
       case sql_error lib e of (code, state, message) \<Rightarrow>
         client_writePacket (zeros 4 @ err_payload capability code state message))"

definition eof_payload :: "int \<Rightarrow> int \<Rightarrow> string" where
  "eof_payload capability st =
     EOF_HEADER # (if has_flag capability CLIENT_PROTOCOL_41 then zeros 2 @ le_bytes 2 st else [])"

definition writeEOF :: "int \<Rightarrow> ('z, unit) client_act" where
  "writeEOF st = abind (aget cl_capability) (\<lambda>capability. client_writePacket (zeros 4 @ eof_payload capability st))"

definition writeEOFBatch :: "string \<Rightarrow> int \<Rightarrow> bool \<Rightarrow> ('z, string) client_act" where
  "writeEOFBatch tot st direct =
     abind (aget cl_capability) (\<lambda>capability. writePacketBatch tot (Some (zeros 4 @ eof_payload capability st)) direct)"

text \<open>A loop that collects one packet per element.\<close>

fun batch_all :: "string list \<Rightarrow> string \<Rightarrow> ('z, string) client_act" where
  "batch_all [] tot = aret tot"
| "batch_all (d # ds) tot = abind (writePacketBatch tot (Some (zeros 4 @ d)) False) (\<lambda>tot'. batch_all ds tot')"

definition writeResultset :: "int \<Rightarrow> 'f resultset \<Rightarrow> ('z, unit) client_act" where
  "writeResultset st r =
     abind (aupd (\<lambda>c. c\<lparr>cl_affectedRows := - 1\<rparr>)) (\<lambda>_.
     abind (writePacketBatch [] (Some (zeros 4 @ PutLengthEncodedInt (int (length (rs_Fields r))))) False) (\<lambda>t1.
     abind (batch_all (map Field_Dump (rs_Fields r)) t1) (\<lambda>t2.
     abind (writeEOFBatch t2 st False) (\<lambda>t3.
     abind (batch_all (rs_RowDatas r) t3) (\<lambda>t4.
     abind (writeEOFBatch t4 st True) (\<lambda>_. aret ()))))))"

definition writeFieldList :: "int \<Rightarrow> field list \<Rightarrow> ('z, unit) client_act" where
  "writeFieldList st fs =
     abind (aupd (\<lambda>c. c\<lparr>cl_affectedRows := - 1\<rparr>)) (\<lambda>_.
     abind (batch_all (map Field_Dump fs) []) (\<lambda>t1.
     abind (writeEOFBatch t1 st True) (\<lambda>_. aret ())))"

definition Handshake :: "(string \<times> string) list \<Rightarrow> ('z, unit) client_act" where
  "Handshake users =
     abind writeInitialHandshake (\<lambda>_.
     abind (readHandshakeResponse users) (\<lambda>_.
     abind (writeOK None) (\<lambda>_.
       aupd (\<lambda>c. c\<lparr>cl_pkg := (cl_pkg c)\<lparr>Sequence := 0\<rparr>\<rparr>))))"

section \<open>Prepared statements\<close>

definition paramFieldData :: string where
  "paramFieldData = Field_Dump (new_field\<lparr>f_Name := ''?''\<rparr>)"

definition columnFieldData :: string where
  "columnFieldData = Field_Dump new_field"

definition writePrepare :: "'a client_stmt \<Rightarrow> ('z, unit) client_act" where
  "writePrepare s =
     abind (aget cl_status) (\<lambda>st.
     abind (writePacketBatch [] (Some (zeros 4 @ CHR 0x00 # Uint32ToBytes (cs_id s) @ Uint16ToBytes (cs_columns s)
        @ Uint16ToBytes (cs_params s) @ CHR 0x00 # zeros 2)) False) (\<lambda>t1.
     abind (if cs_params s > 0
            then abind (batch_all (replicate (nat (cs_params s)) paramFieldData) t1) (\<lambda>t. writeEOFBatch t st False)
            else aret t1) (\<lambda>t2.
     abind (if cs_columns s > 0
            then abind (batch_all (replicate (nat (cs_columns s)) columnFieldData) t2) (\<lambda>t. writeEOFBatch t st False)
            else aret t2) (\<lambda>t3.
     abind (writePacketBatch t3 None True) (\<lambda>_. aret ())))))"

definition ResetParams :: "'a client_stmt \<Rightarrow> 'a client_stmt" where
  "ResetParams s = s\<lparr>cs_args := replicate (nat (cs_params s)) ANil\<rparr>"

text \<open>
  \<open>bindStmtArgs\<close>: the value of one parameter of type \<open>tp\<close> at \<open>pos\<close>, with the position behind it. The checks of the
  length come before every slice, except in \<open>LengthEnodedString\<close>.
\<close>

definition int_arg :: "string \<Rightarrow> int \<Rightarrow> int \<Rightarrow> (int \<Rightarrow> arg) \<Rightarrow> (arg \<times> int) res" where
  "int_arg vs pos n mk =
     (if int (length vs) < pos + n then Inl (Err ErrMalformPacket)
      else rbind (le_uint_at vs pos n) (\<lambda>v. Inr (mk v, pos + n)))"

definition string_types :: "char list" where
  "string_types = [CHR 0x00, CHR 0xF6, CHR 0x0F, CHR 0x10, CHR 0xF7, CHR 0xF8, CHR 0xF9, CHR 0xFA, CHR 0xFB, CHR 0xFC,
     CHR 0xFD, CHR 0xFE, CHR 0xFF, CHR 0x0A, CHR 0x0E, CHR 0x07, CHR 0x0C, CHR 0x0B]"

definition bind_value :: "char \<Rightarrow> bool \<Rightarrow> string \<Rightarrow> int \<Rightarrow> (arg \<times> int) res" where
  "bind_value tp uns vs pos =
     (if tp = CHR 0x06 then Inr (ANil, pos)
      else if tp = CHR 0x01 then int_arg vs pos 1 (if uns then AUint8 else AInt8 \<circ> signed_of 1)
      else if tp = CHR 0x02 \<or> tp = CHR 0x0D then int_arg vs pos 2 (if uns then AUint16 else AInt16 \<circ> signed_of 2)
      else if tp = CHR 0x09 \<or> tp = CHR 0x03 then int_arg vs pos 4 (if uns then AUint32 else AInt32 \<circ> signed_of 4)
      else if tp = CHR 0x08 then int_arg vs pos 8 (if uns then AUint64 else AInt64 \<circ> signed_of 8)
      else if tp = CHR 0x04 then int_arg vs pos 4 AFloat32
      else if tp = CHR 0x05 then int_arg vs pos 8 AFloat64
      else if tp \<in> set string_types then
        (if int (length vs) < pos + 1 then Inl (Err ErrMalformPacket)
         else rbind (slice_from vs pos) (\<lambda>d. rbind (LengthEnodedString d) (\<lambda>(v, isNull, n).
           Inr (if isNull then ANil else ABytes v, pos + n))))
      else Inl (Err (Errorf (''Stmt Unknown FieldType '' @ int_str (of_char tp)))))"

text \<open>The loop over \<open>i < s.params\<close>; \<open>types\<close> is empty if the client has not sent types with this execution.\<close>

fun bind_loop :: "nat \<Rightarrow> nat \<Rightarrow> string \<Rightarrow> string \<Rightarrow> string \<Rightarrow> int \<Rightarrow> ('a client_stmt, unit) act" where
  "bind_loop 0 i bm types vs pos = aret ()"
| "bind_loop (Suc k) i bm types vs pos =
     abind (alift (rbind (at_index bm (int (i div 8))) (\<lambda>b.
       if has_flag (of_char b) (2 ^ (i mod 8)) then Inr (ANil, pos)
       else rbind (at_index types (int (2 * i))) (\<lambda>tp. rbind (at_index types (int (2 * i + 1))) (\<lambda>u.
         bind_value tp (has_flag (of_char u) 128) vs pos))))) (\<lambda>(a, pos').
     abind (aget cs_args) (\<lambda>args.
     abind (alift (at_index args (int i))) (\<lambda>_.
     abind (aupd (\<lambda>s. s\<lparr>cs_args := (cs_args s)[i := a]\<rparr>)) (\<lambda>_.
       bind_loop k (i + 1) bm types vs pos'))))"

definition bindStmtArgs :: "string \<Rightarrow> string \<Rightarrow> string \<Rightarrow> ('a client_stmt, unit) act" where
  "bindStmtArgs bm types vs = abind (aget cs_params) (\<lambda>n. bind_loop (nat n) 0 bm types vs 0)"

text \<open>
  The part of \<open>handleStmtExecute\<close> that reads the packet, for the statement that the packet names: the flag, the
  null bitmap, the types and the values.
\<close>

definition read_execute :: "string \<Rightarrow> ('a client_stmt, unit) act" where
  "read_execute data =
     abind (aget cs_params) (\<lambda>params.
     abind (alift (at_index data 4)) (\<lambda>flag.
       if flag \<noteq> CHR 0x00 then
         alift (Inl (Err (NewError ER_UNKNOWN_ERROR (''unsupported flag '' @ int_str (of_char flag)))))
       else if params > 0 then
         let pos = 9 + (params + 7) div 8; len = int (length data) in
         if len < pos + 1 then alift (Inl (Err ErrMalformPacket))
         else
           abind (alift (slice data 9 pos)) (\<lambda>bm.
           abind (alift (at_index data pos)) (\<lambda>b.
             if b = CHR 0x01 then
               (if len < pos + 1 + 2 * params then alift (Inl (Err ErrMalformPacket))
                else
                  abind (alift (slice data (pos + 1) (pos + 1 + 2 * params))) (\<lambda>types.
                  abind (alift (slice_from data (pos + 1 + 2 * params))) (\<lambda>vs.
                    bindStmtArgs bm types vs)))
             else bindStmtArgs bm [] []))
       else aret ()))"

end
