(* ===== verification/Peer_Protocol.thy ===== *)
theory Peer_Protocol
  imports Client_Wire
begin

text \<open>
  The two sides of the protocol against each other. \<open>packets\<close> are the bytes of a sequence of payloads, and
  \<open>sees\<close> says that a backend connection has a sequence of payloads in front of it. With these, what the proxy writes
  to a client (\<open>writeResultset\<close>, \<open>writeOK\<close>, \<open>writeError\<close>) is read by the backend connection's \<open>readResult\<close>; the
  arguments that a statement writes are the ones that \<open>bindStmtArgs\<close> binds; and the handshakes fit together.
\<close>

unbundle bit_operations_syntax

section \<open>Packets in flight\<close>

fun packets :: "string list \<Rightarrow> 8 word \<Rightarrow> string" where
  "packets [] s = []"
| "packets (d # ds) s = frames d s @ packets ds (s + frame_count d)"

fun packets_seq :: "string list \<Rightarrow> 8 word \<Rightarrow> 8 word" where
  "packets_seq [] s = s"
| "packets_seq (d # ds) s = packets_seq ds (s + frame_count d)"

lemma packets_append: "packets (ds @ es) s = packets ds s @ packets es (packets_seq ds s)"
  and packets_seq_append: "packets_seq (ds @ es) s = packets_seq es (packets_seq ds s)"
  by (induction ds arbitrary: s) auto

definition plain_packet :: "string \<Rightarrow> bool" where
  "plain_packet d \<longleftrightarrow> int (length d) mod MaxPayloadLen \<noteq> 0 \<and> isEOFPacket d = Inr False"

lemma length_zeros [simp]: "length (zeros n) = n"
  by (simp add: zeros_def)

abbreviation seq_of :: "'z client_scheme \<Rightarrow> 8 word" where
  "seq_of c \<equiv> Sequence (cl_pkg c)"

definition with_seq :: "8 word \<Rightarrow> 'z client_scheme \<Rightarrow> 'z client_scheme" where
  "with_seq s c = c\<lparr>cl_pkg := (cl_pkg c)\<lparr>Sequence := s\<rparr>\<rparr>"

lemma with_seq_simps [simp]:
  "with_seq s (with_seq t c) = with_seq s c" "cl_capability (with_seq s c) = cl_capability c"
  "seq_of (with_seq s c) = s" "cl_wr (with_seq s c) = cl_wr c" "wb (cl_pkg (with_seq s c)) = wb (cl_pkg c)"
  by (simp_all add: with_seq_def)

lemma writePacketBatch_packets:
  "writePacketBatch tot (Some (zeros 4 @ d)) False c =
     (Inr (tot @ frames d (seq_of c)), with_seq (seq_of c + frame_count d) c)"
  by (simp add: writePacketBatch_def WritePacketBatch_def batch_loop_frames with_seq_def)

lemma batch_all_packets:
  "batch_all ds tot c = (Inr (tot @ packets ds (seq_of c)), with_seq (packets_seq ds (seq_of c)) c)"
proof (induction ds arbitrary: tot c)
  case Nil
  then show ?case by (simp add: aret_def with_seq_def)
next
  case (Cons d ds)
  then show ?case by (simp add: abind_def writePacketBatch_packets)
qed

lemma writeEOFBatch_packets:
  "writeEOFBatch tot st False c =
     (Inr (tot @ packets [eof_payload (cl_capability c) st] (seq_of c)),
      with_seq (packets_seq [eof_payload (cl_capability c) st] (seq_of c)) c)"
  by (simp add: writeEOFBatch_def writePacketBatch_packets)

lemma writeEOFBatch_flush:
  assumes "all_written (cl_wr c)"
  shows "\<exists>c'. writeEOFBatch tot st True c = (Inr (tot @ packets [eof_payload (cl_capability c) st] (seq_of c)), c')
    \<and> wb (cl_pkg c') = wb (cl_pkg c) @ tot @ packets [eof_payload (cl_capability c) st] (seq_of c)
    \<and> seq_of c' = packets_seq [eof_payload (cl_capability c) st] (seq_of c)"
  using assms by (simp add: writeEOFBatch_def writePacketBatch_def WritePacketBatch_def batch_loop_frames)

definition resultset_packets :: "int \<Rightarrow> int \<Rightarrow> 'f resultset \<Rightarrow> string list" where
  "resultset_packets capability st r =
     PutLengthEncodedInt (int (length (rs_Fields r))) # map Field_Dump (rs_Fields r) @ eof_payload capability st
       # rs_RowDatas r @ [eof_payload capability st]"

lemma writeResultset_packets:
  assumes "all_written (cl_wr c)"
  shows "\<exists>c'. writeResultset st r c = (Inr (), c')
    \<and> wb (cl_pkg c') = wb (cl_pkg c) @ packets (resultset_packets (cl_capability c) st r) (seq_of c)
    \<and> seq_of c' = packets_seq (resultset_packets (cl_capability c) st r) (seq_of c)"
proof -
  let ?c = "c\<lparr>cl_affectedRows := - 1\<rparr>"
  let ?p = "PutLengthEncodedInt (int (length (rs_Fields r))) # map Field_Dump (rs_Fields r) @ eof_payload (cl_capability c) st
       # rs_RowDatas r"
  have w: "all_written (cl_wr (with_seq s ?c))" for s using assms by simp
  show ?thesis
    using writeEOFBatch_flush [OF w [of "packets_seq ?p (seq_of c)"], of "packets ?p (seq_of c)" st]
    by (auto simp: writeResultset_def resultset_packets_def abind_Inr writePacketBatch_packets batch_all_packets
        writeEOFBatch_packets packets_append packets_seq_append aret_def)
qed

section \<open>Reading packets\<close>

definition sees :: "conn \<Rightarrow> string list \<Rightarrow> string \<Rightarrow> bool" where
  "sees b ds r \<longleftrightarrow> (\<exists>l. c_pkg b = Some l \<and> rb (lk_io l) = packets ds (Sequence (lk_io l)) @ r)"

lemma readPacket_sees:
  assumes "sees b (d # ds) r" and "int (length d) mod MaxPayloadLen \<noteq> 0"
  obtains b' where "readPacket b = (Inr d, b')" and "sees b' ds r" and "c_capability b' = c_capability b"
proof -
  from assms(1) obtain l where l: "c_pkg b = Some l"
    and r: "rb (lk_io l) = frames d (Sequence (lk_io l)) @ packets ds (Sequence (lk_io l) + frame_count d) @ r"
    by (auto simp: sees_def)
  from ReadPacket_frames [OF r assms(2)] l show ?thesis
    by (intro that [of "snd (readPacket b)"]) (auto simp: readPacket_def sees_def)
qed

lemma eof_payload_short: "int (length (eof_payload cap st)) mod MaxPayloadLen \<noteq> 0" "isEOFPacket (eof_payload cap st) = Inr True"
  by (simp_all add: eof_payload_def isEOFPacket_def at_index_def)

lemma eof_status_payload:
  assumes "has_flag (c_capability b) CLIENT_PROTOCOL_41" and "has_flag cap CLIENT_PROTOCOL_41" and "0 \<le> st" and "st < 2 ^ 16"
  shows "eof_status (eof_payload cap st) st0 b = (Inr st, b\<lparr>c_status := st\<rparr>)"
proof -
  have "le_uint_at (eof_payload cap st) 3 2 = Inr st"
    using le_uint_at_le_bytes [of "EOF_HEADER # zeros 2" 3 2 st "[]"] assms(2-4)
    by (simp add: eof_payload_def take_bit_int_eq_self)
  with assms(1) show ?thesis by (simp add: eof_status_def aret_def)
qed

lemma sees_status [simp]: "sees (b\<lparr>c_status := st\<rparr>) ds r = sees b ds r"
  by (simp add: sees_def)

lemma readResultColumns_sees:
  assumes "sees b (ds @ eof_payload cap st # es) r" and "has_flag (c_capability b) CLIENT_PROTOCOL_41"
    and "has_flag cap CLIENT_PROTOCOL_41" and "0 \<le> st" and "st < 2 ^ 16"
    and "\<forall>d \<in> set ds. plain_packet d" and "rmap FieldData_Parse ds = Inr gs"
  shows "\<exists>b'. readResultColumns (int (length fs + length ds)) fs b = (Inr (fs @ gs, st), b') \<and> sees b' es r
    \<and> c_capability b' = c_capability b"
  using assms(1,2,6,7)
proof (induction ds arbitrary: b fs gs)
  case Nil
  from readPacket_sees [of b "eof_payload cap st" es r] Nil.prems(1) eof_payload_short
  obtain b' where b: "readPacket b = (Inr (eof_payload cap st), b')" "sees b' es r" "c_capability b' = c_capability b"
    by (metis append_Nil)
  with Nil.prems(2) have "has_flag (c_capability b') CLIENT_PROTOCOL_41" by simp
  from eof_status_payload [OF this assms(3-5), of 0] b Nil.prems show ?case
    by (subst readResultColumns.simps) (simp add: abind_Inr eof_payload_short aret_def)
next
  case (Cons d ds)
  then have d: "int (length d) mod MaxPayloadLen \<noteq> 0" "isEOFPacket d = Inr False" by (auto simp: plain_packet_def)
  from readPacket_sees [of b d "ds @ eof_payload cap st # es" r] Cons.prems(1) d(1)
  obtain b' where b: "readPacket b = (Inr d, b')" "sees b' (ds @ eof_payload cap st # es) r" "c_capability b' = c_capability b"
    by (metis append_Cons)
  from Cons.prems(4) obtain g hs where g: "FieldData_Parse d = Inr g" "rmap FieldData_Parse ds = Inr hs" "gs = g # hs"
    by (auto simp: rbind_eq_Inr_iff)
  from Cons.IH [OF b(2) _ _ g(2), of "fs @ [g]"] Cons.prems(2,3) b(3)
  obtain b'' where "readResultColumns (int (length fs + length (d # ds))) (fs @ [g]) b' = (Inr (fs @ g # hs, st), b'')"
    "sees b'' es r" "c_capability b'' = c_capability b"
    by auto
  with b(1) d(2) g show ?case by (subst readResultColumns.simps) (simp add: abind_Inr)
qed

lemma read_rows_sees:
  assumes "sees b (ds @ eof_payload cap st # es) r" and "has_flag (c_capability b) CLIENT_PROTOCOL_41"
    and "has_flag cap CLIENT_PROTOCOL_41" and "0 \<le> st" and "st < 2 ^ 16" and "\<forall>d \<in> set ds. plain_packet d"
  shows "\<exists>b'. read_rows rows st0 b = (Inr (rows @ ds, st), b') \<and> sees b' es r"
  using assms(1,2,6)
proof (induction ds arbitrary: b rows)
  case Nil
  from readPacket_sees [of b "eof_payload cap st" es r] Nil.prems(1) eof_payload_short
  obtain b' where b: "readPacket b = (Inr (eof_payload cap st), b')" "sees b' es r" "c_capability b' = c_capability b"
    by (metis append_Nil)
  with Nil.prems(2) have "has_flag (c_capability b') CLIENT_PROTOCOL_41" by simp
  from eof_status_payload [OF this assms(3-5), of st0] b show ?case
    by (subst read_rows.simps) (simp add: abind_Inr eof_payload_short aret_def)
next
  case (Cons d ds)
  then have d: "int (length d) mod MaxPayloadLen \<noteq> 0" "isEOFPacket d = Inr False" by (auto simp: plain_packet_def)
  from readPacket_sees [of b d "ds @ eof_payload cap st # es" r] Cons.prems(1) d(1)
  obtain b' where b: "readPacket b = (Inr d, b')" "sees b' (ds @ eof_payload cap st # es) r" "c_capability b' = c_capability b"
    by (metis append_Cons)
  from Cons.IH [OF b(2), of "rows @ [d]"] Cons.prems(2,3) b(1,3) d(2) show ?case
    by (subst read_rows.simps) (auto simp: abind_Inr)
qed

lemma count_packet:
  assumes "1 \<le> n" and "n \<le> MaxUint64"
  obtains x where "at_index (PutLengthEncodedInt n) 0 = Inr x" and "x \<noteq> OK_HEADER" and "x \<noteq> ERR_HEADER"
    and "x \<noteq> LocalInFile_HEADER" and "int (length (PutLengthEncodedInt n)) mod MaxPayloadLen \<noteq> 0"
proof -
  have l: "int (length (PutLengthEncodedInt n)) mod MaxPayloadLen \<noteq> 0" by (auto simp: PutLengthEncodedInt_def)
  show ?thesis
  proof (cases "n \<le> 250")
    case True
    have "of_char (char_of n :: char) = n" using assms(1) True by (simp add: of_char_take_bit take_bit_int_eq_self)
    then have "char_of n = y \<Longrightarrow> n = of_char y" for y by metis
    then have "char_of n \<noteq> OK_HEADER \<and> char_of n \<noteq> ERR_HEADER \<and> char_of n \<noteq> LocalInFile_HEADER"
      using assms(1) True by fastforce
    with l True show ?thesis by (intro that [of "char_of n"]) (auto simp: PutLengthEncodedInt_def at_index_def)
  next
    case False
    with l show ?thesis
      by (intro that [of "hd (PutLengthEncodedInt n)"]) (auto simp: PutLengthEncodedInt_def at_index_def)
  qed
qed

lemma readResult_sees:
  assumes "sees b (resultset_packets cap st r) rest" and "has_flag (c_capability b) CLIENT_PROTOCOL_41"
    and "has_flag cap CLIENT_PROTOCOL_41" and "0 \<le> st" and "st < 2 ^ 16"
    and "rs_Fields r \<noteq> []" and "int (length (rs_Fields r)) \<le> MaxInt64"
    and "\<forall>d \<in> Field_Dump ` set (rs_Fields r) \<union> set (rs_RowDatas r). plain_packet d"
    and "rmap FieldData_Parse (map Field_Dump (rs_Fields r)) = Inr gs"
    and "rmap (\<lambda>d. ParseText fo d gs) (rs_RowDatas r) = Inr vals"
  shows "\<exists>b' names. readResult fo False b = (Inr (RowsResult \<lparr>re_Status = st, re_InsertId = 0, re_AffectedRows = 0,
      re_Resultset = \<lparr>rs_Fields = gs, rs_FieldNames = names, rs_Values = vals, rs_RowDatas = rs_RowDatas r\<rparr>\<rparr>), b')
    \<and> sees b' [] rest"
proof -
  let ?n = "int (length (rs_Fields r))" and ?eof = "eof_payload cap st"
  let ?cp = "PutLengthEncodedInt ?n"
  have n: "1 \<le> ?n" "?n \<le> MaxUint64" using assms(6,7) by (cases "rs_Fields r"; simp)+
  obtain x where x: "at_index ?cp 0 = Inr x" "x \<noteq> OK_HEADER" "x \<noteq> ERR_HEADER" "x \<noteq> LocalInFile_HEADER"
    "int (length ?cp) mod MaxPayloadLen \<noteq> 0"
    using count_packet [OF n] by metis
  obtain b1 where b1: "readPacket b = (Inr ?cp, b1)" "c_capability b1 = c_capability b"
    "sees b1 (map Field_Dump (rs_Fields r) @ ?eof # rs_RowDatas r @ [?eof]) rest"
    using readPacket_sees [OF assms(1) [unfolded resultset_packets_def] x(5)] by metis
  have p: "\<forall>d \<in> set (map Field_Dump (rs_Fields r)). plain_packet d" "\<forall>d \<in> set (rs_RowDatas r). plain_packet d"
    using assms(8) by auto
  have f1: "has_flag (c_capability b1) CLIENT_PROTOCOL_41" using assms(2) b1(2) by simp
  obtain b2 where b2: "readResultColumns ?n [] b1 = (Inr (gs, st), b2)" "sees b2 (rs_RowDatas r @ [?eof]) rest"
    "c_capability b2 = c_capability b1"
    using readResultColumns_sees [OF b1(3) f1 assms(3-5) p(1) assms(9), of "[]"] by auto
  have f2: "has_flag (c_capability b2) CLIENT_PROTOCOL_41" using f1 b2(3) by simp
  obtain b3 where b3: "read_rows [] st b2 = (Inr (rs_RowDatas r, st), b3)" "sees b3 [] rest"
    using read_rows_sees [OF b2(2) f2 assms(3-5) p(2), of "[]"] by auto
  have l: "LengthEncodedInt ?cp = Inr (?n, False, int (length ?cp))"
    using LengthEncodedInt_Put [of ?n "[]"] n by simp
  have w: "\<not> wrap64 ?n < 0" using assms(7) by (simp add: is_int64_def)
  show ?thesis
    using b1(1) x(1-4) l w b2(1) b3 assms(10)
    by (simp add: readResult_def readResultset_def readResultRows_def abind_Inr RowData_Parse_def aret_def)
qed

section \<open>Outcomes\<close>

lemma readResult_ok:
  assumes "sees b [ok_payload cap st iid affected] rest" and "has_flag (c_capability b) CLIENT_PROTOCOL_41"
    and "has_flag cap CLIENT_PROTOCOL_41" and "0 \<le> st" and "st < 2 ^ 16"
    and "0 \<le> iid" and "iid \<le> MaxUint64" and "0 \<le> affected" and "affected \<le> MaxUint64"
  shows "\<exists>b'. readResult fo bin b = (Inr (OKResult st iid affected), b') \<and> c_status b' = st \<and> sees b' [] rest"
proof -
  let ?p = "ok_payload cap st iid affected"
  let ?a = "PutLengthEncodedInt affected" and ?i = "PutLengthEncodedInt iid"
  have p: "?p = OK_HEADER # ?a @ ?i @ le_bytes 2 st @ zeros 2" using assms(3) by (simp add: ok_payload_def)
  have len: "length ?a \<in> {1, 3, 4, 9}" "length ?i \<in> {1, 3, 4, 9}" by (rule length_PutLengthEncodedInt)+
  then have m: "int (length ?p) mod MaxPayloadLen \<noteq> 0" by (auto simp: p)
  obtain b1 where b1: "readPacket b = (Inr ?p, b1)" "sees b1 [] rest" "c_capability b1 = c_capability b"
    using readPacket_sees [OF assms(1) m] by metis
  have 1: "rbind (slice_from ?p 1) LengthEncodedInt = Inr (affected, False, int (length ?a))"
    using LengthEncodedInt_Put [OF assms(8,9)] by (simp add: p slice_from_def slice_def)
  have 2: "rbind (slice_from ?p (1 + int (length ?a))) LengthEncodedInt = Inr (iid, False, int (length ?i))"
    using LengthEncodedInt_Put [OF assms(6,7)] by (simp add: p slice_from_def slice_def nat_add_distrib)
  have 3: "le_uint_at ?p (1 + int (length ?a) + int (length ?i)) 2 = Inr st"
    using le_uint_at_le_bytes [of "OK_HEADER # ?a @ ?i" "1 + length ?a + length ?i" 2 st "zeros 2"] assms(4,5)
    by (simp add: p take_bit_int_eq_self add.assoc)
  have 4: "at_index ?p 0 = Inr OK_HEADER" by (simp add: p at_index_def)
  have f: "has_flag (c_capability b1) CLIENT_PROTOCOL_41" using assms(2) b1(3) by simp
  show ?thesis
    using b1 1 2 3 4 f by (simp add: readResult_def handleOKPacket_def abind_Inr aret_def)
qed

lemma readResult_err:
  assumes "sees b [err_payload cap code state message] rest" and "has_flag (c_capability b) CLIENT_PROTOCOL_41"
    and "has_flag cap CLIENT_PROTOCOL_41" and "0 \<le> code" and "code < 2 ^ 16" and "length state = 5"
    and "int (length message) < MaxPayloadLen - 9"
  shows "\<exists>b'. readResult fo bin b = (Inl (Err (SqlError code state message)), b') \<and> c_pkgErr b' = None \<and> sees b' [] rest"
proof -
  let ?p = "err_payload cap code state message"
  have p: "?p = ERR_HEADER # le_bytes 2 code @ CHR 0x23 # state @ message" using assms(3) by (simp add: err_payload_def)
  have m: "int (length ?p) mod MaxPayloadLen \<noteq> 0" using assms(6,7) by (simp add: p)
  obtain b1 where b1: "readPacket b = (Inr ?p, b1)" "sees b1 [] rest" "c_capability b1 = c_capability b"
    using readPacket_sees [OF assms(1) m] by metis
  have e: "c_pkgErr b1 = None" using b1(1) by (auto simp: readPacket_def err_of_def split: option.splits prod.splits)
  have 1: "le_uint_at ?p 1 2 = Inr code"
    using le_uint_at_le_bytes [of "[ERR_HEADER]" 1 2 code "CHR 0x23 # state @ message"] assms(4,5)
    by (simp add: p take_bit_int_eq_self)
  have 2: "slice ?p 4 9 = Inr state" "slice_from ?p 9 = Inr message" using assms(6) by (simp_all add: p slice_from_def slice_def)
  have 3: "at_index ?p 0 = Inr ERR_HEADER" by (simp add: p at_index_def)
  have f: "has_flag (c_capability b1) CLIENT_PROTOCOL_41" using assms(2) b1(3) by simp
  show ?thesis
    using b1 1 2 3 f e by (simp add: readResult_def handleErrorPacket_def abind_Inr alift_def)
qed

section \<open>Arguments of prepared statements\<close>

fun received :: "arg \<Rightarrow> arg" where
  "received (AInt v) = AInt64 v"
| "received (AUint v) = AUint64 v"
| "received (ABool v) = AInt8 (if v then 1 else 0)"
| "received (AString v) = ABytes v"
| "received a = a"

fun sendable :: "arg \<Rightarrow> bool" where
  "sendable (AInt8 v) = (- (2 ^ 7) \<le> v \<and> v < 2 ^ 7)"
| "sendable (AInt16 v) = (- (2 ^ 15) \<le> v \<and> v < 2 ^ 15)"
| "sendable (AInt32 v) = (- (2 ^ 31) \<le> v \<and> v < 2 ^ 31)"
| "sendable (AInt v) = is_int64 v"
| "sendable (AInt64 v) = is_int64 v"
| "sendable (AUint8 v) = (0 \<le> v \<and> v < 2 ^ 8)"
| "sendable (AUint16 v) = (0 \<le> v \<and> v < 2 ^ 16)"
| "sendable (AUint32 v) = (0 \<le> v \<and> v < 2 ^ 32)"
| "sendable (AUint v) = (0 \<le> v \<and> v < 2 ^ 64)"
| "sendable (AUint64 v) = (0 \<le> v \<and> v < 2 ^ 64)"
| "sendable (AFloat32 v) = (0 \<le> v \<and> v < 2 ^ 32)"
| "sendable (AFloat64 v) = (0 \<le> v \<and> v < 2 ^ 64)"
| "sendable (AString v) = (int (length v) + 9 \<le> MaxInt64)"
| "sendable (ABytes v) = (int (length v) + 9 \<le> MaxInt64)"
| "sendable (AOther t) = False"
| "sendable a = True"

lemma signed_of_take_bit:
  assumes "0 < k" and "- (2 ^ (8 * k - 1)) \<le> v" and "v < 2 ^ (8 * k - 1)"
  shows "signed_of k (take_bit (8 * k) v) = v"
proof -
  have e: "(2 :: int) ^ (8 * k) = 2 * 2 ^ (8 * k - 1)" using power_Suc [of 2 "8 * k - 1"] assms(1) by simp
  show ?thesis
  proof (cases "0 \<le> v")
    case True
    then have "take_bit (8 * k) v = v" using assms(3) e by (intro take_bit_int_eq_self) simp_all
    with assms(3) show ?thesis by (simp add: signed_of_def)
  next
    case False
    have "v mod 2 ^ (8 * k) = v + 2 ^ (8 * k)"
      using False assms(2) e mod_pos_pos_trivial [of "v + 2 ^ (8 * k)" "2 ^ (8 * k)"] by simp
    then have "take_bit (8 * k) v = v + 2 ^ (8 * k)" by (simp add: take_bit_eq_mod)
    with False assms(2) e show ?thesis by (simp add: signed_of_def)
  qed
qed

lemma int_arg_le_bytes:
  assumes "vs = p @ le_bytes k v @ q"
  shows "int_arg vs (int (length p)) (int k) mk = Inr (mk (take_bit (8 * k) v), int (length p) + int k)"
  using assms le_uint_at_le_bytes [of p "length p" k v q] by (simp add: int_arg_def)

lemma has_flag_bit: "0 \<le> x \<Longrightarrow> has_flag x (2 ^ k) \<longleftrightarrow> bit x k"
  using and_exp_eq_0_iff_not_bit [of x k] by (auto simp: has_flag_def less_le)


lemma int_arg_read:
  assumes "vs = p @ le_bytes k v @ q" and "n = int k" and "pos = int (length p)"
  shows "int_arg vs pos n mk = Inr (mk (take_bit (8 * k) v), pos + n)"
  using int_arg_le_bytes [OF assms(1)] assms(2,3) by simp

lemma bind_value_types:
  "bind_value (CHR 0x01) u vs pos = int_arg vs pos 1 (if u then AUint8 else AInt8 \<circ> signed_of 1)"
  "bind_value (CHR 0x02) u vs pos = int_arg vs pos 2 (if u then AUint16 else AInt16 \<circ> signed_of 2)"
  "bind_value (CHR 0x03) u vs pos = int_arg vs pos 4 (if u then AUint32 else AInt32 \<circ> signed_of 4)"
  "bind_value (CHR 0x08) u vs pos = int_arg vs pos 8 (if u then AUint64 else AInt64 \<circ> signed_of 8)"
  "bind_value (CHR 0x04) u vs pos = int_arg vs pos 4 AFloat32"
  "bind_value (CHR 0x05) u vs pos = int_arg vs pos 8 AFloat64"
  by (simp_all add: bind_value_def)

text \<open>The number that a little-endian field of \<open>k\<close> bytes is read as, when it fits.\<close>

lemma signed_fits:
  "- (2 ^ 7) \<le> x \<Longrightarrow> x < 2 ^ 7 \<Longrightarrow> signed_of 1 (take_bit 8 x) = x"
  "- (2 ^ 15) \<le> x \<Longrightarrow> x < 2 ^ 15 \<Longrightarrow> signed_of 2 (take_bit 16 x) = x"
  "- (2 ^ 31) \<le> x \<Longrightarrow> x < 2 ^ 31 \<Longrightarrow> signed_of 4 (take_bit 32 x) = x"
  "is_int64 x \<Longrightarrow> signed_of 8 (take_bit 64 x) = x"
  using signed_of_take_bit [of 1 x] signed_of_take_bit [of 2 x] signed_of_take_bit [of 4 x] signed_of_take_bit [of 8 x]
  by (simp_all add: is_int64_def)

lemma take_bit_mod: "take_bit k (x mod 2 ^ k) = take_bit k (x :: int)"
  by (simp add: take_bit_eq_mod)

lemma bind_number:
  assumes "param a = Inr (ty, v)" and "vs = p @ v @ q" and "pos = int (length p)"
    and "v = le_bytes k x" and "n = int k" and "bind_value (ty ! 0) u vs pos = int_arg vs pos n mk"
  shows "bind_value (ty ! 0) u vs pos = Inr (mk (take_bit (8 * k) x), pos + int (length v))"
  using int_arg_read [of vs p k x q n pos mk] assms(2-6) by simp

lemma has_flag_byte: "has_flag 0 x = False" "has_flag 128 128 = True"
  by (simp_all add: has_flag_def)

lemma bind_string:
  assumes "v = PutLengthEncodedString b" and "int (length b) + 9 \<le> MaxInt64" and "vs = p @ v @ q" and "pos = int (length p)"
  shows "bind_value (CHR 0xFE) u vs pos = Inr (ABytes b, pos + int (length v))"
proof -
  have s: "slice_from vs pos = Inr (v @ q)" using assms(3,4) by (simp add: slice_from_def slice_def)
  have "0 < length v" using assms(1) length_PutLengthEncodedInt [of "to_uint64 (int (length b))"]
    by (auto simp: PutLengthEncodedString_def)
  with assms(3,4) have n: "\<not> int (length vs) < pos + 1" by (simp del: length_greater_0_conv)
  show ?thesis
    using s n assms(1) LengthEnodedString_Put(1) [OF assms(2), of q] by (simp add: bind_value_def string_types_def)
qed

lemma bind_value_param:
  assumes "param a = Inr (ty, v)" and "sendable a" and "a \<noteq> ANil" and "vs = p @ v @ q" and "pos = int (length p)"
  shows "bind_value (ty ! 0) (has_flag (of_char (ty ! 1)) 128) vs pos = Inr (received a, pos + int (length v)) \<and> length ty = 2"
proof -
  have n: "v = le_bytes k x \<Longrightarrow> bind_value (ty ! 0) u vs pos = int_arg vs pos (int k) mk
      \<Longrightarrow> bind_value (ty ! 0) u vs pos = Inr (mk (take_bit (8 * k) x), pos + int (length v))" for k x u mk
    using bind_number [OF assms(1,4,5)] by blast
  note facts = bind_value_types signed_fits signed_fits [simplified take_bit_eq_mod, simplified] has_flag_byte take_bit_mod take_bit_int_eq_self to_uint64_def
    Uint16ToBytes_def Uint32ToBytes_def Uint64ToBytes_def
  show ?thesis
  proof (cases a)
    case (AInt8 x)
    with assms(1,2) n [of 1 "x" False "AInt8 \<circ> signed_of 1"] show ?thesis
      by (auto simp: facts simp del: le_bytes.simps One_nat_def)
  next
    case (AInt16 x)
    with assms(1,2) n [of 2 "x mod 2 ^ 16" False "AInt16 \<circ> signed_of 2"] show ?thesis
      by (auto simp: facts simp del: le_bytes.simps One_nat_def)
  next
    case (AInt32 x)
    with assms(1,2) n [of 4 "x mod 2 ^ 32" False "AInt32 \<circ> signed_of 4"] show ?thesis
      by (auto simp: facts simp del: le_bytes.simps One_nat_def)
  next
    case (AInt x)
    with assms(1,2) n [of 8 "x mod 2 ^ 64" False "AInt64 \<circ> signed_of 8"] show ?thesis
      by (auto simp: facts simp del: le_bytes.simps One_nat_def)
  next
    case (AInt64 x)
    with assms(1,2) n [of 8 "x mod 2 ^ 64" False "AInt64 \<circ> signed_of 8"] show ?thesis
      by (auto simp: facts simp del: le_bytes.simps One_nat_def)
  next
    case (AUint8 x)
    with assms(1,2) n [of 1 "x" True "AUint8"] show ?thesis
      by (auto simp: facts simp del: le_bytes.simps One_nat_def)
  next
    case (AUint16 x)
    with assms(1,2) n [of 2 "x" True "AUint16"] show ?thesis
      by (auto simp: facts simp del: le_bytes.simps One_nat_def)
  next
    case (AUint32 x)
    with assms(1,2) n [of 4 "x" True "AUint32"] show ?thesis
      by (auto simp: facts simp del: le_bytes.simps One_nat_def)
  next
    case (AUint x)
    with assms(1,2) n [of 8 "x" True "AUint64"] show ?thesis
      by (auto simp: facts simp del: le_bytes.simps One_nat_def)
  next
    case (AUint64 x)
    with assms(1,2) n [of 8 "x" True "AUint64"] show ?thesis
      by (auto simp: facts simp del: le_bytes.simps One_nat_def)
  next
    case (AFloat32 x)
    with assms(1,2) n [of 4 "x" False "AFloat32"] show ?thesis
      by (auto simp: facts simp del: le_bytes.simps One_nat_def)
  next
    case (AFloat64 x)
    with assms(1,2) n [of 8 "x" False "AFloat64"] show ?thesis
      by (auto simp: facts simp del: le_bytes.simps One_nat_def)
  next
    case (ABool x)
    have "[CHR 0x01] = le_bytes 1 1" "[CHR 0x00] = le_bytes 1 0" by code_simp+
    then have "[if x then CHR 0x01 else CHR 0x00] = le_bytes 1 (if x then 1 else 0)" by (simp del: le_bytes.simps)
    with ABool assms(1,2) n [of 1 "if x then 1 else 0" False "AInt8 \<circ> signed_of 1"] signed_fits(1) [of "if x then 1 else 0"]
    show ?thesis by (auto simp: bind_value_types has_flag_byte simp del: le_bytes.simps One_nat_def)
  next
    case (AString b)
    with assms(1,2) bind_string [OF _ _ assms(4,5), of b] show ?thesis by (auto simp: PutLengthEncodedString_def)
  next
    case (ABytes b)
    with assms(1,2) bind_string [OF _ _ assms(4,5), of b] show ?thesis by (auto simp: PutLengthEncodedString_def)
  qed (use assms(2,3) in auto)
qed

text \<open>The null bitmap: the bit of an argument is set exactly if it is nil.\<close>

definition null_bit :: "string \<Rightarrow> nat \<Rightarrow> bool" where
  "null_bit bm i = has_flag (of_char (bm ! (i div 8))) (2 ^ (i mod 8))"

lemma of_char_nonneg: "0 \<le> (of_char c :: int)"
  by (metis of_char_take_bit char_of_char take_bit_nonnegative)

lemma null_bit_bit: "null_bit bm i = bit (of_char (bm ! (i div 8)) :: int) (i mod 8)"
  by (simp add: null_bit_def has_flag_bit of_char_nonneg)

lemma null_bit_set_null:
  assumes "i div 8 < length bm"
  shows "null_bit (set_null i bm) j \<longleftrightarrow> j = i \<or> null_bit bm j"
proof (cases "j div 8 = i div 8")
  case True
  have "null_bit (set_null i bm) j = bit ((of_char (bm ! (i div 8)) :: int) OR 2 ^ (i mod 8)) (j mod 8)"
    using True assms by (simp add: null_bit_bit set_null_def of_char_take_bit bit_take_bit_iff bit_or_iff del: of_char_of)
  also have "\<dots> = (null_bit bm j \<or> j mod 8 = i mod 8)"
    using True by (auto simp: null_bit_bit bit_or_iff bit_exp_iff)
  also have "j mod 8 = i mod 8 \<longleftrightarrow> j = i" using True by (metis mult_div_mod_eq)
  finally show ?thesis by blast
next
  case False
  then show ?thesis by (auto simp: null_bit_def set_null_def)
qed

lemma write_args_spec:
  assumes "write_args i as (bm, ts, vs, bound) = Inr (bm', ts', vs', bound')"
    and "i + length as \<le> 8 * length bm"
  shows "\<exists>ps. rmap param as = Inr ps \<and> ts' = ts @ concat (map fst ps) \<and> vs' = vs @ concat (map snd ps)
    \<and> length bm' = length bm \<and> bound' = (bound \<or> (\<exists>a \<in> set as. a \<noteq> ANil))
    \<and> (\<forall>j. null_bit bm' j \<longleftrightarrow> null_bit bm j \<or> i \<le> j \<and> j < i + length as \<and> as ! (j - i) = ANil)"
  using assms
proof (induction as arbitrary: i bm ts vs bound)
  case (Cons a as)
  from Cons.prems(1) obtain t v where p: "param a = Inr (t, v)" by (auto simp: rbind_eq_Inr_iff)
  let ?bm = "if a = ANil then set_null i bm else bm" and ?v = "if a = ANil then [] else v"
  have v: "?v = v" using p by auto
  have w: "write_args (Suc i) as (?bm, ts @ t, vs @ ?v, bound \<or> a \<noteq> ANil) = Inr (bm', ts', vs', bound')"
    using Cons.prems(1) p by (auto split: if_splits)
  have l: "length ?bm = length bm" by (simp add: set_null_def)
  with Cons.prems(2) have "Suc i + length as \<le> 8 * length ?bm" by simp
  from Cons.IH [OF w this] obtain ps where ps: "rmap param as = Inr ps" "ts' = (ts @ t) @ concat (map fst ps)"
    "vs' = (vs @ ?v) @ concat (map snd ps)" "length bm' = length ?bm" "bound' = ((bound \<or> a \<noteq> ANil) \<or> (\<exists>a \<in> set as. a \<noteq> ANil))"
    and n: "\<And>j. null_bit bm' j \<longleftrightarrow> null_bit ?bm j \<or> Suc i \<le> j \<and> j < Suc i + length as \<and> as ! (j - Suc i) = ANil"
    by blast
  have "null_bit ?bm j \<longleftrightarrow> null_bit bm j \<or> j = i \<and> a = ANil" for j
    using Cons.prems(2) null_bit_set_null [of i bm j] by auto
  with n have "null_bit bm' j \<longleftrightarrow> null_bit bm j \<or> i \<le> j \<and> j < i + length (a # as) \<and> (a # as) ! (j - i) = ANil" for j
    by (cases "j = i") (auto simp: nth_Cons' Suc_diff_le not_less_eq_eq)
  with p ps v l show ?case by auto
qed auto

lemma param_type_length: "param a = Inr (t, v) \<Longrightarrow> length t = 2"
  by (cases a) auto

lemma bind_loop_args:
  assumes "rmap param as = Inr ps" and "\<forall>a \<in> set as. sendable a" and "i + length as \<le> 8 * length bm"
    and "\<forall>j < length as. null_bit bm (i + j) \<longleftrightarrow> as ! j = ANil"
    and "(\<exists>a \<in> set as. a \<noteq> ANil) \<Longrightarrow> types = tpre @ concat (map fst ps) \<and> length tpre = 2 * i"
    and "vs = pre @ concat (map snd ps)" and "i + length as \<le> length (cs_args s)"
  shows "bind_loop (length as) i bm types vs (int (length pre)) s =
    (Inr (), s\<lparr>cs_args := take i (cs_args s) @ map received as @ drop (i + length as) (cs_args s)\<rparr>)"
  using assms
proof (induction as arbitrary: i ps tpre pre s)
  case Nil
  then show ?case by (simp add: aret_def)
next
  case (Cons a as)
  from Cons.prems(1) obtain t v qs where p: "param a = Inr (t, v)" "rmap param as = Inr qs" "ps = (t, v) # qs"
    by (auto simp: rbind_eq_Inr_iff)
  note t2 = param_type_length [OF p(1)]
  have b: "at_index bm (int (i div 8)) = Inr (bm ! (i div 8))" using Cons.prems(3) by (simp add: at_index_def)
  have nb: "has_flag (of_char (bm ! (i div 8))) (2 ^ (i mod 8)) \<longleftrightarrow> a = ANil"
    using Cons.prems(4) by (fastforce simp: null_bit_def)
  have val: "(if a = ANil then Inr (ANil, int (length pre))
      else rbind (at_index types (int (2 * i))) (\<lambda>tp. rbind (at_index types (int (2 * i + 1))) (\<lambda>u.
        bind_value tp (has_flag (of_char u) 128) vs (int (length pre))))) = Inr (received a, int (length (pre @ v)))"
  proof (cases "a = ANil")
    case False
    with Cons.prems(5) have ty: "types = tpre @ t @ concat (map fst qs)" "length tpre = 2 * i" by (auto simp: p(3))
    then have "2 * i + 1 < length types" "types ! (2 * i) = t ! 0" "types ! (2 * i + 1) = t ! 1"
      using t2 by (simp_all add: nth_append)
    then have "at_index types (int (2 * i)) = Inr (t ! 0)" "at_index types (int (2 * i + 1)) = Inr (t ! 1)"
      using at_index_of_nat [of "2 * i" types] at_index_of_nat [of "2 * i + 1" types] by simp_all
    with False bind_value_param [OF p(1) _ False, of vs pre "concat (map snd qs)"] Cons.prems(2,6) show ?thesis
      by (simp add: p(3))
  qed (use p in simp)
  let ?s = "s\<lparr>cs_args := (cs_args s)[i := received a]\<rparr>"
  have "bind_loop (length as) (Suc i) bm types vs (int (length (pre @ v))) ?s =
    (Inr (), ?s\<lparr>cs_args := take (Suc i) (cs_args ?s) @ map received as @ drop (Suc i + length as) (cs_args ?s)\<rparr>)"
  proof (rule Cons.IH [OF p(2), where tpre = "tpre @ t"])
    show "\<forall>j < length as. null_bit bm (Suc i + j) \<longleftrightarrow> as ! j = ANil"
      using Cons.prems(4) by (metis Suc_less_eq add_Suc add_Suc_right length_Cons nth_Cons_Suc)
    show "types = (tpre @ t) @ concat (map fst qs) \<and> length (tpre @ t) = 2 * Suc i" if "\<exists>a \<in> set as. a \<noteq> ANil"
      using Cons.prems(5) that t2 by (auto simp: p(3))
  qed (use Cons.prems(2,3,6,7) p(3) in auto)
  moreover have "i < length (cs_args s)" using Cons.prems(7) by simp
  ultimately show ?case
    using b nb val by (simp add: take_Suc_conv_app_nth drop_update_cancel)
qed

lemma null_bit_zeros: "\<not> null_bit (zeros n) i" if "i < 8 * n"
  using that by (simp add: null_bit_def zeros_def has_flag_byte)

text \<open>
  The whole packet: the bytes that \<open>write\<close> sends after the command byte are read back as the arguments.
\<close>

lemma read_execute_payload:
  assumes "execute_payload s args = Inr (cmd # data)" and "\<forall>a \<in> set args. sendable a"
    and "cs_params cs = st_params s" and "length (cs_args cs) = length args"
  shows "read_execute data cs = (Inr (), cs\<lparr>cs_args := map received args\<rparr>)"
proof -
  let ?n = "(length args + 7) div 8"
  from assms(1) obtain bm ts vs bound where l: "int (length args) = st_params s"
    and w: "write_args 0 args (zeros ?n, [], [], False) = Inr (bm, ts, vs, bound)"
    and d: "data = le_bytes 4 (st_id s) @ CHR 0x00 # [CHR 0x01, CHR 0x00, CHR 0x00, CHR 0x00]
          @ (if st_params s > 0 then bm @ (if bound then CHR 0x01 # ts @ vs else [CHR 0x00]) else [])"
    by (auto simp: execute_payload_def rbind_eq_Inr_iff split: if_splits)
  have n: "length args \<le> 8 * ?n" by linarith
  from write_args_spec [OF w] n
  obtain ps where ps: "rmap param args = Inr ps" "ts = concat (map fst ps)" "vs = concat (map snd ps)" "length bm = ?n"
    "bound = (\<exists>a \<in> set args. a \<noteq> ANil)"
    and nb': "\<And>j. null_bit bm j \<longleftrightarrow> null_bit (zeros ?n) j \<or> j < length args \<and> args ! j = ANil"
    by auto
  have nb: "null_bit bm j \<longleftrightarrow> args ! j = ANil" if "j < length args" for j
    using nb' [of j] null_bit_zeros [of j ?n] n that by simp
  have lt: "length ts = 2 * length args"
  proof -
    have "length (concat (map fst ps)) = 2 * length as" if "rmap param as = Inr ps" for as ps
      using that by (induction as arbitrary: ps) (auto simp: rbind_eq_Inr_iff dest: param_type_length)
    with ps show ?thesis by blast
  qed
  have loop: "bind_loop (length args) 0 bm types vals 0 cs = (Inr (), cs\<lparr>cs_args := map received args\<rparr>)"
    if "if bound then types = ts \<and> vals = vs else types = [] \<and> vals = []" for types vals
  proof -
    have "concat (map snd ps) = []" if "rmap param as = Inr ps" "\<forall>a \<in> set as. a = ANil" for as ps
      using that by (induction as arbitrary: ps) (auto simp: rbind_eq_Inr_iff simp del: concat_eq_Nil_conv)
    with ps(1,3,5) have z: "\<not> bound \<Longrightarrow> vs = []" by blast
    from that z have e: "vals = vs" by (auto split: if_splits)
    show ?thesis
      using bind_loop_args [OF ps(1) assms(2), of 0 bm types "[]" vs "[]" cs] n ps nb assms(4) that
      unfolding e by (auto split: if_splits)
  qed
  show ?thesis
  proof (cases "args = []")
    case True
    then show ?thesis using l assms(3,4) d by (simp add: read_execute_def at_index_def aret_def nth_append)
  next
    case False
    let ?A = "le_bytes 4 (st_id s) @ CHR 0x00 # [CHR 0x01, CHR 0x00, CHR 0x00, CHR 0x00]"
    let ?pos = "9 + int ?n"
    have p: "0 < st_params s" "(cs_params cs + 7) div 8 = int ?n" "cs_params cs = int (length args)"
      using False l assms(3) length_greater_0_conv [of args] by (linarith, simp_all add: zdiv_int l [symmetric])
    have h: "at_index data 4 = Inr (CHR 0x00)" using d p(1) by (simp add: at_index_def nth_append)
    obtain A where A: "length A = 9" "data = A @ bm @ (if bound then CHR 0x01 # ts @ vs else [CHR 0x00])"
      using d p(1) that [of ?A] by simp
    have s1: "slice data 9 ?pos = Inr bm" using slice_append [of A bm] A ps(4) by simp
    have s2: "at_index data ?pos = Inr (if bound then CHR 0x01 else CHR 0x00)"
      using at_index_part [of data "A @ bm"] A ps(4) by auto
    have len: "\<not> int (length data) < ?pos + 1" using A ps(4) by simp
    have bind: "bindStmtArgs bm types vals cs = bind_loop (length args) 0 bm types vals 0 cs" for types vals
      by (simp add: bindStmtArgs_def p(3))
    show ?thesis
    proof (cases bound)
      case True
      have dd: "data = (A @ bm @ [CHR 0x01]) @ ts @ vs" using A(2) True by simp
      have "slice data (?pos + 1) (?pos + 1 + 2 * cs_params cs) = Inr ts" "slice_from data (?pos + 1 + 2 * cs_params cs) = Inr vs"
        "\<not> int (length data) < ?pos + 1 + 2 * cs_params cs"
        using slice_append [of "A @ bm @ [CHR 0x01]" ts vs] slice_append [of "A @ bm @ [CHR 0x01] @ ts" vs "[]"] dd lt p(3) A(1) ps(4)
        by (simp_all add: slice_from_def algebra_simps)
      with True h s1 s2 len p(1,2) loop [of ts vs] bind assms(3) show ?thesis by (simp add: read_execute_def Let_def)
    next
      case bound: False
      with h s1 s2 len p(1,2) loop [of "[]" "[]"] bind assms(3) show ?thesis by (simp add: read_execute_def Let_def)
    qed
  qed
qed

section \<open>Handshake\<close>

lemma IndexByte_prefix: "b \<notin> set a \<Longrightarrow> IndexByte (a @ b # r) b = int (length a)"
  by (induction a) (auto simp: Let_def)

lemma slice_part: "p = a @ b @ r \<Longrightarrow> i = int (length a) \<Longrightarrow> j = i + int (length b) \<Longrightarrow> slice p i j = Inr b"
  using slice_append by simp

lemma slice_from_part: "p = a @ r \<Longrightarrow> i = int (length a) \<Longrightarrow> slice_from p i = Inr r"
  by (simp add: slice_from_def slice_def)

lemma le_uint_at_field:
  "p = a @ le_bytes k n @ r \<Longrightarrow> i = int (length a) \<Longrightarrow> m = int k \<Longrightarrow> 0 \<le> n \<Longrightarrow> n < 2 ^ (8 * k) \<Longrightarrow> le_uint_at p i m = Inr n"
  using le_uint_at_part by blast

lemma le_uint_at_2:
  "p = a @ le_bytes 2 n @ r \<Longrightarrow> i = int (length a) \<Longrightarrow> 0 \<le> n \<Longrightarrow> n < 65536 \<Longrightarrow> le_uint_at p i 2 = Inr n"
  using le_uint_at_field [of p a 2 n r i 2] by simp

lemma le_uint_at_4:
  "p = a @ le_bytes 4 n @ r \<Longrightarrow> i = int (length a) \<Longrightarrow> 0 \<le> n \<Longrightarrow> n < 4294967296 \<Longrightarrow> le_uint_at p i 4 = Inr n"
  using le_uint_at_field [of p a 4 n r i 4] by simp

lemma readInitialHandshake_payload:
  assumes "readPacket b = (Inr (handshake_payload c s1 s2), b1)" and "length s1 = 8" and "length s2 = 12"
    and "0 \<le> cl_status c" and "cl_status c < 2 ^ 16"
  shows "readInitialHandshake b =
    (Inr (), b1\<lparr>c_salt := c_salt b1 @ s1 @ s2, c_capability := DEFAULT_CAPABILITY, c_status := cl_status c\<rparr>)"
proof -
  let ?p = "handshake_payload c s1 s2"
  let ?v = "CHR 0x0A # ''5.6.20-kingshard''"
  let ?a = "?v @ CHR 0x00 # le_bytes 4 (cl_connectionId c)"
  let ?d = "le_bytes 2 DEFAULT_CAPABILITY @ [char_of DEFAULT_COLLATION_ID]"
  let ?e = "le_bytes 2 (cl_status c) @ le_bytes 2 (drop_bit 16 DEFAULT_CAPABILITY)"
  have d: "DEFAULT_CAPABILITY = 41485" by code_simp
  note pd = handshake_payload_def
  have h: "at_index ?p 0 = Inr (CHR 0x0A)" by (simp add: pd at_index_def)
  have t: "slice_from ?p 1 = Inr (tl ?p)" by (simp add: pd slice_from_def slice_def)
  have i: "IndexByte (tl ?p) (CHR 0x00) = 16"
    using IndexByte_prefix [of "CHR 0x00" "''5.6.20-kingshard''"] by (simp add: pd)
  have 1: "slice ?p 22 30 = Inr s1"
    using assms(2) by (intro slice_part [of _ ?a s1]) (simp_all add: pd)
  have 2: "le_uint_at ?p 31 2 = Inr 41485"
    using assms(2) by (intro le_uint_at_2 [of _ "?a @ s1 @ [CHR 0x00]"]) (simp_all add: pd d)
  have 3: "le_uint_at ?p 34 2 = Inr (cl_status c)"
    using assms(2,4,5) by (intro le_uint_at_2 [of _ "?a @ s1 @ CHR 0x00 # ?d"]) (simp_all add: pd)
  have 4: "le_uint_at ?p 36 2 = Inr 0"
    using assms(2) by (intro le_uint_at_2 [of _ "?a @ s1 @ CHR 0x00 # ?d @ le_bytes 2 (cl_status c)"]) (simp_all add: pd d)
  have 5: "slice ?p 49 61 = Inr s2"
    using assms(2,3) by (intro slice_part [of _ "?a @ s1 @ CHR 0x00 # ?d @ ?e @ CHR 0x15 # zeros 10" s2]) (simp_all add: pd)
  have 6: "int (length ?p) > 33" using assms(2,3) by (simp add: pd)
  show ?thesis
    using assms(1) h t i 1 2 3 4 5 6 d
    by (simp add: readInitialHandshake_def abind_Inr Let_def aupd_def)
qed

lemma length_CalcPassword: "CalcPassword s w = Some t \<Longrightarrow> length t = 20"
  by (auto simp: CalcPassword_def Let_def split: if_splits)

lemma readHandshakeResponse_payload:
  assumes "ReadPacket (cl_pkg c) = (Inr (drop 4 (auth_packet b cap)), p)" and "0 \<le> cap" and "cap < 2 ^ 32"
    and "CHR 0x00 \<notin> set (c_user b)" and "CHR 0x00 \<notin> set (c_db b)" and "has_flag cap CLIENT_CONNECT_WITH_DB = (c_db b \<noteq> [])"
  defines "c1 \<equiv> c\<lparr>cl_pkg := p, cl_capability := cap, cl_user := c_user b\<rparr>"
  shows "readHandshakeResponse users c =
    (case map_of users (c_user b) of
       Some pw \<Rightarrow>
         if CalcPassword (cl_salt c) pw = CalcPassword (c_salt b) (c_password b) then (Inr (), c1\<lparr>cl_db := c_db b\<rparr>)
         else (Inl (Err (access_denied (c_user b) (cl_remote c))), c1)
     | None \<Rightarrow> (Inl (Err (access_denied (c_user b) (cl_remote c))), c1))"
proof -
  let ?p = "drop 4 (auth_packet b cap)"
  let ?auth = "case CalcPassword (c_salt b) (c_password b) of Some t \<Rightarrow> t | None \<Rightarrow> []"
  let ?h = "le_bytes 4 cap @ zeros 4 @ char_of (c_collation b) # zeros 23"
  let ?n = "int (length (c_user b))"
  let ?db = "if c_db b = [] then [] else c_db b @ [CHR 0x00]"
  have pd: "?p = ?h @ c_user b @ CHR 0x00 # char_of (int (length ?auth)) # ?auth @ ?db"
    by (simp add: auth_packet_def Let_def)
  note tok = length_CalcPassword
  then have al: "length ?auth \<in> {0, 20}" by (auto split: option.splits)
  then have lc: "of_char (char_of (int (length ?auth))) = int (length ?auth)"
    by (elim insertE) (simp_all del: length_0_conv)
  have 1: "le_uint_at ?p 0 4 = Inr cap" using assms(2,3) by (intro le_uint_at_4 [of _ "[]"]) (simp_all add: pd)
  have 2: "slice_from ?p 32 = Inr (c_user b @ CHR 0x00 # char_of (int (length ?auth)) # ?auth @ ?db)"
    by (intro slice_from_part [of _ ?h]) (simp_all add: pd)
  have 3: "slice ?p 32 (32 + ?n) = Inr (c_user b)" by (intro slice_part [of _ ?h]) (simp_all add: pd)
  have 4: "at_index ?p (33 + ?n) = Inr (char_of (int (length ?auth)))"
    using at_index_part [of ?p "?h @ c_user b @ [CHR 0x00]"] by (simp add: pd)
  have 5: "slice ?p (34 + ?n) (34 + ?n + int (length ?auth)) = Inr ?auth"
    by (intro slice_part [of _ "?h @ c_user b @ [CHR 0x00, char_of (int (length ?auth))]"]) (simp_all add: pd)
  have 6: "slice_from ?p (34 + ?n + int (length ?auth)) = Inr ?db"
    by (intro slice_from_part [of _ "?h @ c_user b @ CHR 0x00 # char_of (int (length ?auth)) # ?auth"]) (simp_all add: pd)
  have 7: "slice ?p (34 + ?n + int (length ?auth)) (34 + ?n + int (length ?auth) + int (length (c_db b))) = Inr (c_db b)"
    if "c_db b \<noteq> []"
    using that by (intro slice_part [of _ "?h @ c_user b @ CHR 0x00 # char_of (int (length ?auth)) # ?auth"]) (simp_all add: pd)
  have eq: "?auth = (case CalcPassword s w of Some t \<Rightarrow> t | None \<Rightarrow> []) \<longleftrightarrow> CalcPassword s w = CalcPassword (c_salt b) (c_password b)" for s w
    using tok [of s w] tok [of "c_salt b" "c_password b"] by (fastforce split: option.splits)
  show ?thesis
    using assms(1,4-6) 1 2 3 4 5 6 7 lc eq IndexByte_prefix [of "CHR 0x00" "c_user b"] IndexByte_prefix [of "CHR 0x00" "c_db b" "[]"]
    by (auto simp: readHandshakeResponse_def client_readPacket_def abind_Inr c1_def Let_def aupd_def alift_def aret_def algebra_simps
        split: option.splits)
qed

section \<open>Results\<close>

lemma rmap_map: "rmap f (map g xs) = rmap (f \<circ> g) xs"
  by (induction xs) simp_all

text \<open>Column definitions that arrive: those that were read from a server, and short ones that the proxy made up.\<close>

definition sendable_field :: "field \<Rightarrow> bool" where
  "sendable_field f \<longleftrightarrow>
     (case f_Data f of
        Some p \<Rightarrow> FieldData_Parse p = Inr f
      | None \<Rightarrow> short_field f \<and> f_DefaultValue f = None \<and> f_DefaultValueLength f = 0)"

definition received_field :: "field \<Rightarrow> field" where
  "received_field f = f\<lparr>f_Data := Some (Field_Dump f)\<rparr>"

lemma sendable_field_parses: "sendable_field f \<Longrightarrow> FieldData_Parse (Field_Dump f) = Inr (received_field f)"
  by (cases "f_Data f")
     (auto simp: sendable_field_def received_field_def FieldData_Parse_Dump, auto simp: Field_Dump_def)

text \<open>
  C31. Result sets travel. The packets that the proxy writes for a result set with \<open>writeResultset\<close>, put in front of a
  backend connection with the same sequence number, are read by \<open>readResult\<close> as a result set with the same columns,
  encoded rows, values and status.
\<close>

theorem resultset_travels:
  assumes "all_written (cl_wr c)" and "c_pkg b = Some l" and "Sequence (lk_io l) = Sequence (cl_pkg c)"
    and "has_flag (cl_capability c) CLIENT_PROTOCOL_41" and "has_flag (c_capability b) CLIENT_PROTOCOL_41"
    and "0 \<le> st" and "st < 2 ^ 16" and "rs_Fields r \<noteq> []" and "int (length (rs_Fields r)) \<le> MaxInt64"
    and "\<forall>f \<in> set (rs_Fields r). sendable_field f \<and> plain_packet (Field_Dump f)" and "\<forall>d \<in> set (rs_RowDatas r). plain_packet d"
    and "rmap (\<lambda>d. ParseText fo d (map received_field (rs_Fields r))) (rs_RowDatas r) = Inr vals"
  shows "\<exists>c' sent b' names. writeResultset st r c = (Inr (), c') \<and> wb (cl_pkg c') = wb (cl_pkg c) @ sent
    \<and> readResult fo False (b\<lparr>c_pkg := Some (l\<lparr>lk_io := (lk_io l)\<lparr>rb := sent @ rest\<rparr>\<rparr>)\<rparr>) =
        (Inr (RowsResult \<lparr>re_Status = st, re_InsertId = 0, re_AffectedRows = 0,
           re_Resultset = \<lparr>rs_Fields = map received_field (rs_Fields r), rs_FieldNames = names,
                            rs_Values = vals, rs_RowDatas = rs_RowDatas r\<rparr>\<rparr>), b')
    \<and> sees b' [] rest"
proof -
  let ?ps = "resultset_packets (cl_capability c) st r"
  let ?b = "b\<lparr>c_pkg := Some (l\<lparr>lk_io := (lk_io l)\<lparr>rb := packets ?ps (Sequence (cl_pkg c)) @ rest\<rparr>\<rparr>)\<rparr>"
  have s: "sees ?b ?ps rest" using assms(3) by (simp add: sees_def)
  have f: "has_flag (c_capability ?b) CLIENT_PROTOCOL_41" using assms(5) by simp
  have p: "\<forall>d \<in> Field_Dump ` set (rs_Fields r) \<union> set (rs_RowDatas r). plain_packet d" using assms(10,11) by blast
  have g: "rmap FieldData_Parse (map Field_Dump (rs_Fields r)) = Inr (map received_field (rs_Fields r))"
    using assms(10) by (auto simp: rmap_map intro!: rmap_total sendable_field_parses)
  from readResult_sees [OF s f assms(4,6-9) p g assms(12)] writeResultset_packets [OF assms(1), of st r]
  show ?thesis by blast
qed

definition sample_client :: client where
  "sample_client = \<lparr>cl_pkg = NewPacketIO [], cl_wr = (\<lambda>_ d. Some (int (length d))), cl_remote = ''10.0.0.1:4000'',
     cl_capability = 41485, cl_connectionId = 10001, cl_status = 2, cl_collation = 33, cl_charset = ''utf8'', cl_user = [],
     cl_db = [], cl_salt = ''0123456789abcdefghij'', cl_closed = False, cl_lastInsertId = 0, cl_affectedRows = 0\<rparr>"

definition sample_link :: "string \<Rightarrow> link" where
  "sample_link bytes = \<lparr>lk_io = NewPacketIO bytes, lk_open = True, lk_write = (\<lambda>_ d. Some (int (length d))), lk_answer = (\<lambda>_. [])\<rparr>"

definition sample_conn :: "link \<Rightarrow> conn" where
  "sample_conn l = new_Conn\<lparr>c_conn := True, c_pkg := Some l, c_user := ''app'', c_password := ''secret'', c_db := ''ks'',
     c_capability := 41485, c_collation := 33\<rparr>"

definition sample_answer :: "int resultset" where
  "sample_answer = \<lparr>rs_Fields = [sample_field], rs_FieldNames = Map.empty, rs_Values = [], rs_RowDatas = [PutLengthEncodedString ''42'']\<rparr>"

lemma sample_written: "all_written (cl_wr sample_client)"
  by (simp add: all_written_def sample_client_def)

lemma sample_flags: "has_flag (cl_capability sample_client) CLIENT_PROTOCOL_41" "has_flag (c_capability (sample_conn l)) CLIENT_PROTOCOL_41"
  by (simp_all add: has_flag_def sample_client_def sample_conn_def)

theorem resultset_travels_witness:
  "\<exists>c' sent b' names. writeResultset 2 sample_answer sample_client = (Inr (), c')
    \<and> readResult int_floats False (sample_conn (sample_link sent)) =
        (Inr (RowsResult \<lparr>re_Status = 2, re_InsertId = 0, re_AffectedRows = 0,
           re_Resultset = \<lparr>rs_Fields = [received_field sample_field], rs_FieldNames = names,
                            rs_Values = [[VUint 42]], rs_RowDatas = [PutLengthEncodedString ''42'']\<rparr>\<rparr>), b')"
proof -
  have f: "\<forall>f \<in> set (rs_Fields sample_answer). sendable_field f \<and> plain_packet (Field_Dump f)"
    and d: "\<forall>d \<in> set (rs_RowDatas sample_answer). plain_packet d"
    and v: "rmap (\<lambda>d. ParseText int_floats d (map received_field (rs_Fields sample_answer))) (rs_RowDatas sample_answer) = Inr [[VUint 42]]"
    by code_simp+
  have "Sequence (lk_io (sample_link [])) = Sequence (cl_pkg sample_client)" "rs_Fields sample_answer \<noteq> []"
    "int (length (rs_Fields sample_answer)) \<le> MaxInt64" "c_pkg (sample_conn (sample_link [])) = Some (sample_link [])"
    by (simp_all add: sample_link_def sample_client_def NewPacketIO_def sample_answer_def sample_conn_def)
  note h = this
  from resultset_travels [OF sample_written h(4,1) sample_flags _ _ h(2,3) f d v, of 2 "[]"]
  obtain c' sent b' names where w: "writeResultset 2 sample_answer sample_client = (Inr (), c')"
    and r: "readResult int_floats False ((sample_conn (sample_link []))\<lparr>c_pkg := Some ((sample_link [])\<lparr>lk_io := (lk_io (sample_link []))\<lparr>rb := sent\<rparr>\<rparr>)\<rparr>) =
        (Inr (RowsResult \<lparr>re_Status = 2, re_InsertId = 0, re_AffectedRows = 0,
           re_Resultset = \<lparr>rs_Fields = map received_field (rs_Fields sample_answer), rs_FieldNames = names,
                            rs_Values = [[VUint 42]], rs_RowDatas = rs_RowDatas sample_answer\<rparr>\<rparr>), b')"
    by auto
  have "(sample_conn (sample_link []))\<lparr>c_pkg := Some ((sample_link [])\<lparr>lk_io := (lk_io (sample_link []))\<lparr>rb := sent\<rparr>\<rparr>)\<rparr>
      = sample_conn (sample_link sent)"
    by (simp add: sample_conn_def sample_link_def NewPacketIO_def)
  with w r show ?thesis by (auto simp: sample_answer_def)
qed

text \<open>
  C32. Outcomes travel. An OK packet that the proxy writes is read with its status, insert id and number of rows; an
  error is read as a MySQL error with its code, state and message, where an error that is not one of MySQL has code 1105,
  state HY000 and the text of the error. In both cases the connection is not marked as broken.
\<close>

theorem outcome_travels:
  assumes "all_written (cl_wr c)" and "c_pkg b = Some l" and "Sequence (lk_io l) = Sequence (cl_pkg c)"
    and "has_flag (cl_capability c) CLIENT_PROTOCOL_41" and "has_flag (c_capability b) CLIENT_PROTOCOL_41"
    and "0 \<le> st" and "st < 2 ^ 16" and "0 \<le> iid" and "iid \<le> MaxUint64" and "0 \<le> affected" and "affected \<le> MaxUint64"
    and "sql_error lib e = (code, state, message)" and "0 \<le> code" and "code < 2 ^ 16" and "length state = 5"
    and "int (length message) < MaxPayloadLen - 9"
  shows "(\<exists>c' sent b'. writeOK (Some (st, iid, affected)) c = (Inr (), c') \<and> wb (cl_pkg c') = wb (cl_pkg c) @ sent
      \<and> readResult fo bin (b\<lparr>c_pkg := Some (l\<lparr>lk_io := (lk_io l)\<lparr>rb := sent\<rparr>\<rparr>)\<rparr>) = (Inr (OKResult st iid affected), b')
      \<and> c_status b' = st)
    \<and> (\<exists>c' sent b'. writeError lib e c = (Inr (), c') \<and> wb (cl_pkg c') = wb (cl_pkg c) @ sent
      \<and> readResult fo bin (b\<lparr>c_pkg := Some (l\<lparr>lk_io := (lk_io l)\<lparr>rb := sent\<rparr>\<rparr>)\<rparr>) = (Inl (Err (SqlError code state message)), b')
      \<and> c_pkgErr b' = None)"
proof -
  let ?b = "\<lambda>d. b\<lparr>c_pkg := Some (l\<lparr>lk_io := (lk_io l)\<lparr>rb := packets [d] (Sequence (cl_pkg c))\<rparr>\<rparr>)\<rparr>"
  have s: "sees (?b d) [d] []" for d using assms(3) by (simp add: sees_def)
  have f: "has_flag (c_capability (?b d)) CLIENT_PROTOCOL_41" for d using assms(5) by simp
  have w: "client_writePacket (zeros 4 @ d) c = (Inr (), c\<lparr>cl_pkg := (cl_pkg c)\<lparr>wb := wb (cl_pkg c) @ packets [d] (Sequence (cl_pkg c)),
      Sequence := Sequence (cl_pkg c) + frame_count d\<rparr>\<rparr>)" for d
    using WritePacket_frames [OF assms(1), of "zeros 4" d "cl_pkg c"] by (simp add: client_writePacket_def)
  show ?thesis
    using readResult_ok [OF s f assms(4,6-11)] readResult_err [OF s f assms(4,13-16)]
    by (fastforce simp: writeOK_def writeError_def assms(12) w)
qed

theorem outcome_travels_witness:
  "(\<exists>sent b'. readResult int_floats False (sample_conn (sample_link sent)) = (Inr (OKResult 2 7 1), b'))
    \<and> (\<exists>sent b'. readResult int_floats False (sample_conn (sample_link sent)) =
         (Inl (Err (SqlError 1105 ''HY000'' ''no route node'')), b'))"
proof -
  have e: "sql_error (\<lambda>_. []) ErrNoRouteNode = (1105, ''HY000'', ''no route node'')" by code_simp
  have h: "Sequence (lk_io (sample_link [])) = Sequence (cl_pkg sample_client)" "c_pkg (sample_conn (sample_link [])) = Some (sample_link [])"
    by (simp_all add: sample_link_def sample_client_def NewPacketIO_def sample_conn_def)
  have eq: "(sample_conn (sample_link []))\<lparr>c_pkg := Some ((sample_link [])\<lparr>lk_io := (lk_io (sample_link []))\<lparr>rb := sent\<rparr>\<rparr>)\<rparr>
      = sample_conn (sample_link sent)" for sent
    by (simp add: sample_conn_def sample_link_def NewPacketIO_def)
  from outcome_travels [OF sample_written h(2,1) sample_flags _ _ _ _ _ _ e, of 2 7 1 int_floats False] show ?thesis
    by (auto simp: eq)
qed

section \<open>Statements\<close>

lemma sendable_param: "sendable a \<Longrightarrow> \<exists>t v. param a = Inr (t, v)"
  by (cases a) auto

lemma write_args_total: "\<forall>a \<in> set as. sendable a \<Longrightarrow> \<exists>x. write_args i as acc = Inr x"
proof (induction as arbitrary: i acc)
  case (Cons a as)
  moreover obtain bm ts vs bound where "acc = (bm, ts, vs, bound)" by (cases acc) auto
  moreover obtain t v where "param a = Inr (t, v)" using sendable_param Cons.prems by fastforce
  ultimately show ?case by simp
qed (metis surj_pair write_args.simps(1))

text \<open>
  C33. Arguments travel. For arguments that fit their types, \<open>write\<close> sends an execute command, and the proxy's
  \<open>handleStmtExecute\<close> reads from it the statement id and, with \<open>bindStmtArgs\<close>, all arguments: nil as nil, integers
  with their value at the width of their type, strings as byte slices and booleans as small integers.
\<close>

theorem arguments_travel:
  assumes "int (length args) = st_params s" and "\<forall>a \<in> set args. sendable a" and "0 \<le> st_id s" and "st_id s < 2 ^ 32"
    and "cs_params cs = st_params s" and "length (cs_args cs) = length args"
  shows "\<exists>data. execute_payload s args = Inr (CHR 0x17 # data) \<and> le_uint_at data 0 4 = Inr (st_id s)
    \<and> read_execute data cs = (Inr (), cs\<lparr>cs_args := map received args\<rparr>)"
proof -
  obtain x where "write_args 0 args (zeros ((length args + 7) div 8), [], [], False) = Inr x"
    using write_args_total [OF assms(2)] by blast
  with assms(1) obtain r where r: "execute_payload s args = Inr (CHR 0x17 # le_bytes 4 (st_id s) @ r)"
    by (cases x) (auto simp: execute_payload_def)
  moreover have "le_uint_at (le_bytes 4 (st_id s) @ r) 0 4 = Inr (st_id s)"
    using le_uint_at_4 [of _ "[]" "st_id s" r 0] assms(3,4) by simp
  ultimately show ?thesis using read_execute_payload [OF _ assms(2,5,6)] by blast
qed

theorem arguments_travel_witness:
  "\<exists>data. execute_payload \<lparr>st_id = 5, st_params = 3, st_columns = 0\<rparr> [AInt (- 7), ANil, AString ''x''] = Inr (CHR 0x17 # data)
    \<and> read_execute data \<lparr>cs_id = 5, cs_params = 3, cs_columns = 0, cs_args = [ANil, ANil, ANil], cs_s = (), cs_sql = []\<rparr> =
        (Inr (), \<lparr>cs_id = 5, cs_params = 3, cs_columns = 0, cs_args = [AInt64 (- 7), ANil, ABytes ''x''], cs_s = (), cs_sql = []\<rparr>)"
  using arguments_travel [of "[AInt (- 7), ANil, AString ''x'']" "\<lparr>st_id = 5, st_params = 3, st_columns = 0\<rparr>"
      "\<lparr>cs_id = 5, cs_params = 3, cs_columns = 0, cs_args = [ANil, ANil, ANil], cs_s = (), cs_sql = []\<rparr>"]
  by (auto simp: is_int64_def)

text \<open>
  A client may execute a statement again without repeating the types of its parameters, the flag is then 0. The proxy does
  not keep the types: it panics at the first parameter that is not NULL.
\<close>

lemma reexecution_panics:
  "fst (read_execute (le_bytes 4 5 @ zeros 1 @ le_bytes 4 1 @ zeros 1 @ zeros 1)
     \<lparr>cs_id = 5, cs_params = 1, cs_columns = 0, cs_args = [ANil], cs_s = (), cs_sql = []\<rparr>) = Inl (Panic IndexOutOfRange)"
  by code_simp

section \<open>Login\<close>

text \<open>
  C34. The handshakes fit together and decide the login. From the packet that \<open>writeInitialHandshake\<close> sends, a backend
  connection learns the proxy's salt; the proxy accepts the response that \<open>writeAuthHandshake\<close> then sends if and only if
  the user is configured and the token belongs to the user's password, and takes over user and database. Otherwise access
  is denied.
\<close>

theorem login_decided:
  assumes "readPacket b = (Inr (handshake_payload c (take 8 (cl_salt c)) (drop 8 (cl_salt c))), b1)" and "c_salt b1 = []"
    and "length (cl_salt c) = 20" and "0 \<le> cl_status c" and "cl_status c < 2 ^ 16"
    and "CHR 0x00 \<notin> set (c_user b1)" and "CHR 0x00 \<notin> set (c_db b1)"
    and "ReadPacket p = (Inr (drop 4 (auth_packet b2 (c_capability b2))), p')"
    and "b2 = b1\<lparr>c_salt := cl_salt c, c_status := cl_status c, c_capability := (if c_db b1 = [] then 41477 else 41485)\<rparr>"
  shows "\<exists>b'. readInitialHandshake b = (Inr (), b') \<and> writeAuthHandshake b' = writePacket (auth_packet b2 (c_capability b2)) b2
    \<and> (case map_of users (c_user b1) of
         None \<Rightarrow> fst (readHandshakeResponse users (c\<lparr>cl_pkg := p\<rparr>)) = Inl (Err (access_denied (c_user b1) (cl_remote c)))
       | Some pw \<Rightarrow>
           if CalcPassword (cl_salt c) pw = CalcPassword (cl_salt c) (c_password b1)
           then \<exists>c'. readHandshakeResponse users (c\<lparr>cl_pkg := p\<rparr>) = (Inr (), c') \<and> cl_user c' = c_user b1 \<and> cl_db c' = c_db b1
           else fst (readHandshakeResponse users (c\<lparr>cl_pkg := p\<rparr>)) = Inl (Err (access_denied (c_user b1) (cl_remote c))))"
proof -
  let ?b = "b1\<lparr>c_salt := cl_salt c, c_capability := DEFAULT_CAPABILITY, c_status := cl_status c\<rparr>"
  have d: "DEFAULT_CAPABILITY = 41485" by code_simp
  have m: "(512 :: int) OR 32768 OR 1 OR 8192 OR 4 = 41477" "(41477 :: int) AND 41485 = 41477" "(41477 :: int) OR 8 = 41485"
    by simp_all
  have i: "readInitialHandshake b = (Inr (), ?b)"
    using readInitialHandshake_payload [OF assms(1)] assms(2-5) by simp
  have a: "writeAuthHandshake ?b = writePacket (auth_packet b2 (c_capability b2)) b2"
    using assms(9) by (simp add: writeAuthHandshake_def d)
  have f: "has_flag (c_capability b2) CLIENT_CONNECT_WITH_DB = (c_db b2 \<noteq> [])" "0 \<le> c_capability b2" "c_capability b2 < 2 ^ 32"
    "c_user b2 = c_user b1" "c_db b2 = c_db b1" "c_password b2 = c_password b1" "c_salt b2 = cl_salt c"
    using assms(9) by (auto simp: has_flag_def)
  have r: "ReadPacket (cl_pkg (c\<lparr>cl_pkg := p\<rparr>)) = (Inr (drop 4 (auth_packet b2 (c_capability b2))), p')"
    using assms(8) by simp
  note resp = readHandshakeResponse_payload [OF r f(2,3) _ _ f(1)]
  show ?thesis
    using i a resp [of users] assms(6,7) f(4-7) by (auto split: option.splits)
qed

theorem login_decided_witness:
  "\<exists>p c'. readHandshakeResponse [(''app'', ''secret'')] (sample_client\<lparr>cl_pkg := p\<rparr>) = (Inr (), c')
    \<and> cl_user c' = ''app'' \<and> cl_db c' = ''ks''"
proof -
  let ?hp = "handshake_payload sample_client (take 8 (cl_salt sample_client)) (drop 8 (cl_salt sample_client))"
  let ?io = "NewPacketIO (frames ?hp 0)"
  let ?io' = "?io\<lparr>rb := [], Sequence := Sequence ?io + frame_count ?hp\<rparr>"
  let ?b1 = "(sample_conn (sample_link (frames ?hp 0)))\<lparr>c_pkg := Some ((sample_link (frames ?hp 0))\<lparr>lk_io := ?io'\<rparr>), c_pkgErr := None\<rparr>"
  let ?b2 = "?b1\<lparr>c_salt := cl_salt sample_client, c_status := cl_status sample_client, c_capability := (if c_db ?b1 = [] then 41477 else 41485)\<rparr>"
  let ?ap = "drop 4 (auth_packet ?b2 (c_capability ?b2))"
  have "int (length ?hp) mod MaxPayloadLen \<noteq> 0" by (simp add: handshake_payload_def sample_client_def)
  then have "ReadPacket ?io = (Inr ?hp, ?io')" using ReadPacket_frames [of ?io ?hp "[]"] by (simp add: NewPacketIO_def)
  then have r: "readPacket (sample_conn (sample_link (frames ?hp 0))) = (Inr ?hp, ?b1)"
    by (simp add: readPacket_def sample_conn_def sample_link_def err_of_def)
  have "int (length ?ap) mod MaxPayloadLen \<noteq> 0"
    using length_CalcPassword [of "c_salt ?b2" "c_password ?b2"] by (auto simp: auth_packet_def Let_def sample_conn_def split: option.splits)
  then have a: "ReadPacket (NewPacketIO (frames ?ap 0)) = (Inr ?ap, (NewPacketIO (frames ?ap 0))\<lparr>rb := [], Sequence := frame_count ?ap\<rparr>)"
    using ReadPacket_frames [of "NewPacketIO (frames ?ap 0)" ?ap "[]"] by (simp add: NewPacketIO_def)
  have h: "c_salt ?b1 = []" "length (cl_salt sample_client) = 20" "0 \<le> cl_status sample_client" "cl_status sample_client < 2 ^ 16"
    "CHR 0x00 \<notin> set (c_user ?b1)" "CHR 0x00 \<notin> set (c_db ?b1)" "c_user ?b1 = ''app''" "c_db ?b1 = ''ks''" "c_password ?b1 = ''secret''"
    by (simp_all add: sample_conn_def new_Conn_def sample_client_def)
  from login_decided [OF r h(1-6) a refl, of "[(''app'', ''secret'')]"] show ?thesis
    unfolding h(7-9) by auto
qed

section \<open>Column lists and addresses\<close>

text \<open>
  \<open>FieldList\<close> reads a first packet only to test it for an error. But the server sends the definition of the first column in
  it: the first column is lost.
\<close>

lemma field_list_drops_first:
  "fst (FieldList ''t'' [] (sample_conn ((sample_link [])\<lparr>lk_answer := (\<lambda>_.
     packets [Field_Dump sample_field, Field_Dump (sample_field\<lparr>f_Name := ''b''\<rparr>), eof_payload 41485 2] 1)\<rparr>))) =
   Inr [received_field (sample_field\<lparr>f_Name := ''b''\<rparr>)]"
  by code_simp

text \<open>An address with a slash is dialled as a unix socket, and then the assertion that it is a TCP connection fails.\<close>

lemma unix_address_panics:
  assumes "CHR 0x2F \<in> set addr" and "dial ''unix'' addr = Inr l"
  shows "fst (Connect fo dial addr user password db new_Conn) = Inl (Panic TypeAssertion)"
  using assms by (simp add: Connect_def ReConnect_def new_Conn_def)

end
