(* ===== verification/Pool.thy ===== *)
theory Pool
  imports Backend_Conn
begin

text \<open>
  The pool of connections to one database server (src/backend/db.go). A buffered channel is the list of the
  connections in it, with capacity \<open>maxConnNum\<close>; a nil channel is \<open>None\<close>. \<open>cacheConns\<close> holds open connections and
  \<open>idleConns\<close> permits for new ones.

  The operations are functions of the database record. \<open>dial k\<close> is what the \<open>k\<close>-th \<open>net.Dial\<close> of an operation gives and
  \<open>now\<close> is the clock, read once per operation. \<open>PopConn\<close> may have to wait for a connection: it then has no result, \<open>None\<close>.
  The functions are the operations of one goroutine that is not interrupted; how goroutines interleave inside of them is in \<open>Pool_Steps\<close>.
\<close>

section \<open>State\<close>

abbreviation (input) "Up \<equiv> (0 :: int)"
abbreviation (input) "Down \<equiv> (1 :: int)"
abbreviation (input) "ManualDown \<equiv> (2 :: int)"
abbreviation (input) "Unknown \<equiv> (3 :: int)"

record db =
  db_addr :: string
  db_user :: string
  db_password :: string
  db_db :: string
  db_state :: int
  db_maxConnNum :: int
  db_InitConnNum :: int
  db_idleConns :: "conn list option"
  db_cacheConns :: "conn list option"
  db_checkConn :: "conn option"
  db_lastPing :: int
  db_pushConnCount :: int
  db_popConnCount :: int

definition inc_push :: "db \<Rightarrow> db" where
  "inc_push db = db\<lparr>db_pushConnCount := wrap64 (db_pushConnCount db + 1)\<rparr>"

definition inc_pop :: "db \<Rightarrow> db" where
  "inc_pop db = db\<lparr>db_popConnCount := wrap64 (db_popConnCount db + 1)\<rparr>"

text \<open>A send in a \<open>select\<close> with a default: it is dropped if the channel is full or nil.\<close>

definition try_send :: "int \<Rightarrow> conn list option \<Rightarrow> conn \<Rightarrow> conn list option" where
  "try_send capacity ch co =
     (case ch of None \<Rightarrow> None | Some xs \<Rightarrow> Some (if int (length xs) < capacity then xs @ [co] else xs))"

definition send_idle :: "conn \<Rightarrow> db \<Rightarrow> db" where
  "send_idle co db = db\<lparr>db_idleConns := try_send (db_maxConnNum db) (db_idleConns db) co\<rparr>"

section \<open>Operations\<close>

definition newConn :: "'f floats \<Rightarrow> dialer \<Rightarrow> int \<Rightarrow> db \<Rightarrow> conn res" where
  "newConn fo dial now db =
     (case Connect fo dial (db_addr db) (db_user db) (db_password db) (db_db db) new_Conn of
        (Inl e, _) \<Rightarrow> Inl e
      | (Inr _, co) \<Rightarrow> Inr (co\<lparr>c_pushTimestamp := now\<rparr>))"

definition addIdleConn :: "db \<Rightarrow> db" where
  "addIdleConn db = send_idle new_Conn db"

text \<open>\<open>co.Close()\<close>, which never fails.\<close>

definition closed :: "conn \<Rightarrow> conn" where
  "closed co = snd (Close co)"

definition closeConnNotAdd :: "conn option \<Rightarrow> db \<Rightarrow> db" where
  "closeConnNotAdd co db = (case co of Some c \<Rightarrow> send_idle (closed c) db | None \<Rightarrow> addIdleConn db)"

definition closeConn :: "conn option \<Rightarrow> db \<Rightarrow> db" where
  "closeConn co db = closeConnNotAdd co (inc_push db)"

definition db_Close :: "db \<Rightarrow> db" where
  "db_Close db =
     (let db' = db\<lparr>db_idleConns := None, db_cacheConns := None\<rparr> in
      case (db_cacheConns db, db_idleConns db) of
        (Some cache, Some _) \<Rightarrow> fold (\<lambda>co. closeConn (Some co)) cache db'
      | _ \<Rightarrow> db')"

definition Open :: "'f floats \<Rightarrow> (nat \<Rightarrow> dialer) \<Rightarrow> int \<Rightarrow> string \<Rightarrow> string \<Rightarrow> string \<Rightarrow> string \<Rightarrow> int \<Rightarrow> db res" where
  "Open fo dial now addr user password dbName maxConnNum =
     (let mx = (if 0 < maxConnNum then maxConnNum else 1024);
          init = (if 0 < maxConnNum then (if mx < 16 then mx else mx div 4) else 16);
          db0 = \<lparr>db_addr = addr, db_user = user, db_password = password, db_db = dbName, db_state = 0, db_maxConnNum = mx,
                 db_InitConnNum = init, db_idleConns = None, db_cacheConns = None, db_checkConn = None, db_lastPing = 0,
                 db_pushConnCount = 0, db_popConnCount = 0\<rparr>
      in rbind (newConn fo (dial 0) now db0) (\<lambda>check.
         rbind (rmap (\<lambda>i. newConn fo (dial (i + 1)) now db0) [0..<nat init]) (\<lambda>cs.
           Inr (db0\<lparr>db_checkConn := Some check, db_state := Unknown, db_cacheConns := Some cs,
                    db_idleConns := Some (replicate (nat (mx - init)) new_Conn), db_lastPing := now,
                    db_pushConnCount := wrap64 mx\<rparr>))))"

definition State :: "db \<Rightarrow> string" where
  "State db =
     (if db_state db = Up then ''up'' else if db_state db = Down \<or> db_state db = ManualDown then ''down''
      else if db_state db = Unknown then ''unknow'' else [])"

text \<open>\<open>Ping\<close> of a database uses its own connection, which it opens again after a failure.\<close>

definition db_Ping :: "'f floats \<Rightarrow> dialer \<Rightarrow> int \<Rightarrow> db \<Rightarrow> unit res \<times> db" where
  "db_Ping fo dial now db =
     (case (case db_checkConn db of Some co \<Rightarrow> Inr co | None \<Rightarrow> newConn fo dial now db) of
        Inl e \<Rightarrow> (Inl e, db)
      | Inr co \<Rightarrow>
          (case Ping now co of
             (Inr _, co') \<Rightarrow> (Inr (), db\<lparr>db_checkConn := Some co'\<rparr>)
           | (Inl (Err e), co') \<Rightarrow> (Inl (Err e), db\<lparr>db_checkConn := None\<rparr>)
           | (Inl (Panic p), co') \<Rightarrow> (Inl (Panic p), db\<lparr>db_checkConn := Some co'\<rparr>)))"

text \<open>
  \<open>tryReuse\<close> makes a connection fit for its next user: no transaction, autocommit on, the default character set.
\<close>

definition tryReuse :: "'f floats \<Rightarrow> (conn, unit) act" where
  "tryReuse fo =
     abind (aget IsInTransaction) (\<lambda>tx.
     abind (if tx then Rollback fo else aret ()) (\<lambda>_.
     abind (aget IsAutoCommit) (\<lambda>auto.
     abind (if auto then aret () else run fo ''set autocommit = 1'') (\<lambda>_.
     abind (aget c_charset) (\<lambda>charset.
       if charset = DEFAULT_CHARSET then aret () else SetCharset fo DEFAULT_CHARSET DEFAULT_COLLATION_ID)))))"

abbreviation (input) "PingPeroid \<equiv> (4 :: int)"

text \<open>A connection that was idle for long is pinged; one that does not answer goes back as a permit.\<close>

definition checked :: "int \<Rightarrow> conn \<Rightarrow> unit res \<times> conn" where
  "checked now co = (if PingPeroid < now - c_pushTimestamp co then Ping now co else (Inr (), co))"

function GetConnFromCache :: "int \<Rightarrow> db \<Rightarrow> conn option res \<times> db" where
  "GetConnFromCache now db =
     (case db_cacheConns db of
        None \<Rightarrow> (Inr None, db)
      | Some [] \<Rightarrow> (Inr None, db)
      | Some (co # rest) \<Rightarrow>
          let db1 = inc_pop (db\<lparr>db_cacheConns := Some rest\<rparr>) in
          (case checked now co of
             (Inr _, co') \<Rightarrow> (Inr (Some co'), db1)
           | (Inl (Panic p), co') \<Rightarrow> (Inl (Panic p), db1)
           | (Inl (Err e), co') \<Rightarrow> GetConnFromCache now (closeConn (Some co') db1)))"
  by pat_completeness auto
termination
  by (relation "measure (\<lambda>(now, db). case db_cacheConns db of None \<Rightarrow> 0 | Some xs \<Rightarrow> length xs)")
     (auto simp: inc_pop_def closeConn_def closeConnNotAdd_def inc_push_def send_idle_def)

declare GetConnFromCache.simps [simp del]

text \<open>
  The \<open>select\<close> of \<open>GetConnFromIdle\<close>: with both channels ready, \<open>pick\<close> says whether the permit is taken. A permit is replaced
  by a new connection; if there is none, the permit goes back.
\<close>

definition take_idle :: "'f floats \<Rightarrow> dialer \<Rightarrow> int \<Rightarrow> conn list \<Rightarrow> db \<Rightarrow> conn res \<times> db" where
  "take_idle fo dial now idle db =
     (let db1 = inc_pop (db\<lparr>db_idleConns := Some idle\<rparr>) in
      case newConn fo dial now db of
        Inl (Panic p) \<Rightarrow> (Inl (Panic p), db1)
      | Inl (Err e) \<Rightarrow> (Inl (Err e), closeConn None db1)
      | Inr co \<Rightarrow>
          (case Ping now co of
             (Inr _, co') \<Rightarrow> (Inr co', db1)
           | (Inl (Panic p), co') \<Rightarrow> (Inl (Panic p), db1)
           | (Inl (Err e), co') \<Rightarrow> (Inl (Err CoreErrBadConn), closeConn (Some co') db1)))"

definition take_cached :: "int \<Rightarrow> conn \<Rightarrow> conn list \<Rightarrow> db \<Rightarrow> conn res \<times> db" where
  "take_cached now co rest db =
     (let db1 = inc_pop (db\<lparr>db_cacheConns := Some rest\<rparr>) in
      case checked now co of
        (Inr _, co') \<Rightarrow> (Inr co', db1)
      | (Inl (Panic p), co') \<Rightarrow> (Inl (Panic p), db1)
      | (Inl (Err e), co') \<Rightarrow> (Inl (Err CoreErrBadConn), closeConn (Some co') db1))"

definition GetConnFromIdle :: "'f floats \<Rightarrow> dialer \<Rightarrow> int \<Rightarrow> bool \<Rightarrow> db \<Rightarrow> (conn res \<times> db) option" where
  "GetConnFromIdle fo dial now pick db =
     (case (db_idleConns db, db_cacheConns db) of
        (Some (_ # idle), Some (co # rest)) \<Rightarrow> Some (if pick then take_idle fo dial now idle db else take_cached now co rest db)
      | (Some (_ # idle), _) \<Rightarrow> Some (take_idle fo dial now idle db)
      | (_, Some (co # rest)) \<Rightarrow> Some (take_cached now co rest db)
      | _ \<Rightarrow> None)"

definition PopConn :: "'f floats \<Rightarrow> dialer \<Rightarrow> int \<Rightarrow> bool \<Rightarrow> db \<Rightarrow> (conn res \<times> db) option" where
  "PopConn fo dial now pick db =
     (if db_cacheConns db = None \<or> db_idleConns db = None then Some (Inl (Err ErrDatabaseClose), db)
      else
        let got = (case GetConnFromCache now db of
                     (Inl e, db1) \<Rightarrow> Some (Inl e, db1)
                   | (Inr (Some co), db1) \<Rightarrow> Some (Inr co, db1)
                   | (Inr None, db1) \<Rightarrow> GetConnFromIdle fo dial now pick db1)
        in case got of
             None \<Rightarrow> None
           | Some (Inl e, db1) \<Rightarrow> Some (Inl e, db1)
           | Some (Inr co, db1) \<Rightarrow>
               (case tryReuse fo co of
                  (Inr _, co') \<Rightarrow> Some (Inr co', db1)
                | (Inl (Panic p), co') \<Rightarrow> Some (Inl (Panic p), db1)
                | (Inl (Err e), co') \<Rightarrow> Some (Inl (Err e), closeConn (Some co') db1)))"

definition PushConn :: "int \<Rightarrow> conn option \<Rightarrow> goerr option \<Rightarrow> db \<Rightarrow> db" where
  "PushConn now co err db =
     (let db1 = inc_push db in
      case co of
        None \<Rightarrow> addIdleConn db1
      | Some c \<Rightarrow>
          (case db_cacheConns db1 of
             None \<Rightarrow> db1
           | Some cache \<Rightarrow>
               if err \<noteq> None then closeConnNotAdd (Some c) db1
               else if int (length cache) < db_maxConnNum db1
               then db1\<lparr>db_cacheConns := Some (cache @ [c\<lparr>c_pushTimestamp := now\<rparr>])\<rparr>
               else closeConnNotAdd (Some (c\<lparr>c_pushTimestamp := now\<rparr>)) db1))"

text \<open>\<open>BackendConn.Close\<close>: a connection whose last packet failed is not kept.\<close>

definition BackendConn_Close :: "int \<Rightarrow> conn \<Rightarrow> db \<Rightarrow> db" where
  "BackendConn_Close now co db =
     (if c_pkgErr co \<noteq> None then closeConn (Some co) db else PushConn now (Some co) None db)"

section \<open>A pool with one connection\<close>

definition sample_ok :: "8 word \<Rightarrow> string" where
  "sample_ok s = frames (zeros 3 @ le_bytes 2 2 @ zeros 2) s"

text \<open>A server that greets, accepts every login and answers every command with OK.\<close>

definition sample_server :: link where
  "sample_server = \<lparr>lk_io = NewPacketIO (frames (CHR 0x0A # zeros 14 @ le_bytes 2 512) 0), lk_open = True,
     lk_write = (\<lambda>_ d. Some (int (length d))), lk_answer = (\<lambda>sent. sample_ok (if length sent < 40 then 2 else 1))\<rparr>"

definition sample_pool :: "db res" where
  "sample_pool = Open int_floats (\<lambda>_ _ _. Inr sample_server) 0 ''db1:3306'' ''u'' [] [] 1"

definition sample_pop :: "(conn res \<times> db) option" where
  "sample_pop = PopConn int_floats (\<lambda>_ _. Inr sample_server) 0 True (projr sample_pool)"

lemma returned: "(case y of Inl _ \<Rightarrow> False | Inr _ \<Rightarrow> True) \<Longrightarrow> y = Inr (projr y)"
  by (cases y) simp_all

end
