(* ===== verification/Pool_Steps.thy ===== *)
theory Pool_Steps
  imports Pool
begin

text \<open>
  How goroutines interleave in the pool of src/backend/db.go. A call of \<open>PopConn\<close>, of \<open>closeConn\<close> or of \<open>PushConn\<close> is in a phase, and
  \<open>call_step\<close> takes it from one access to a channel, a counter or a field of the database to the next: in \<open>GetConnFromCache\<close>
  the test of the length and the receive are two steps, and so are a receive and the counting of it, or the look at the channel and the
  send. \<open>pool_step\<close> lets any of the calls under way take a step. \<open>PopConn\<close> of the previous theory is a run of such steps
  without interruption.
\<close>

section \<open>Phases of a call\<close>

text \<open>
  \<open>GetConnFromCache\<close>: \<open>Looking\<close> before the test of the loop, \<open>Receiving\<close> before the receive, \<open>Received\<close> before the counter, \<open>Testing\<close> before the ping.
  \<open>GetConnFromIdle\<close>: \<open>Selecting\<close> before the \<open>select\<close>, \<open>GotPermit\<close> and \<open>Selected\<close> before the counter, \<open>Dialling\<close>, \<open>TestingNew\<close> and \<open>TestingSelected\<close> behind it.
  \<open>Reusing\<close> is \<open>tryReuse\<close>. \<open>Closing\<close> and \<open>Counted\<close> are \<open>closeConn\<close> and \<open>closeConnNotAdd\<close>, with what goes on behind it: the caller's caller, the loop of
  \<open>GetConnFromCache\<close> or that of \<open>Close\<close>; \<open>SendingIdle\<close> has got the channel. \<open>Pushing\<close>, \<open>PushCounted\<close> and \<open>SendingCache\<close> are \<open>PushConn\<close>. \<open>Shutting\<close> and \<open>Draining\<close> are \<open>Close\<close>, once it has
  taken the channels away.
\<close>

datatype behind = Return | Again | Drain

datatype phase =
    Looking | Receiving | Received "conn option" | Testing conn
  | Selecting | GotPermit | Dialling | TestingNew conn | Selected "conn option" | TestingSelected conn
  | Reusing conn
  | Closing "conn option" behind | Counted "conn option" behind | SendingIdle conn behind
  | Pushing conn | PushCounted conn | SendingCache conn
  | Shutting | Draining

text \<open>
  The pool: the database, its two channels after \<open>Close\<close> has taken them out of it and whether they are closed, the calls under way, the connections
  that are lent out, and the number of those lost in a call that panicked.
\<close>

record pool =
  pl_db :: db
  pl_cache :: "conn list"
  pl_idle :: "conn list"
  pl_cacheClosed :: bool
  pl_idleClosed :: bool
  pl_calls :: "phase list"
  pl_lent :: "conn list"
  pl_lost :: nat

definition pool_of :: "db \<Rightarrow> pool" where
  "pool_of db =
     \<lparr>pl_db = db, pl_cache = [], pl_idle = [], pl_cacheClosed = False, pl_idleClosed = False, pl_calls = [], pl_lent = [], pl_lost = 0\<rparr>"

text \<open>The channels that a call has, which are those of the database or, behind \<open>Close\<close>, those that it has taken away.\<close>

definition cache_chan :: "pool \<Rightarrow> conn list" where
  "cache_chan p = (case db_cacheConns (pl_db p) of Some c \<Rightarrow> c | None \<Rightarrow> pl_cache p)"

definition idle_chan :: "pool \<Rightarrow> conn list" where
  "idle_chan p = (case db_idleConns (pl_db p) of Some i \<Rightarrow> i | None \<Rightarrow> pl_idle p)"

definition set_cache :: "conn list \<Rightarrow> pool \<Rightarrow> pool" where
  "set_cache c p =
     (case db_cacheConns (pl_db p) of Some _ \<Rightarrow> p\<lparr>pl_db := (pl_db p)\<lparr>db_cacheConns := Some c\<rparr>\<rparr> | None \<Rightarrow> p\<lparr>pl_cache := c\<rparr>)"

definition set_idle :: "conn list \<Rightarrow> pool \<Rightarrow> pool" where
  "set_idle i p =
     (case db_idleConns (pl_db p) of Some _ \<Rightarrow> p\<lparr>pl_db := (pl_db p)\<lparr>db_idleConns := Some i\<rparr>\<rparr> | None \<Rightarrow> p\<lparr>pl_idle := i\<rparr>)"

definition count_pop :: "pool \<Rightarrow> pool" where
  "count_pop p = p\<lparr>pl_db := inc_pop (pl_db p)\<rparr>"

definition count_push :: "pool \<Rightarrow> pool" where
  "count_push p = p\<lparr>pl_db := inc_push (pl_db p)\<rparr>"

definition lose :: "pool \<Rightarrow> pool" where
  "lose p = p\<lparr>pl_lost := Suc (pl_lost p)\<rparr>"

text \<open>Where a call goes on behind \<open>closeConn\<close>, and the connection that \<open>closeConnNotAdd\<close> and \<open>addIdleConn\<close> send.\<close>

fun resume :: "behind \<Rightarrow> phase option" where
  "resume Return = None"
| "resume Again = Some Looking"
| "resume Drain = Some Draining"

definition permit :: "conn option \<Rightarrow> conn" where
  "permit co = (case co of Some c \<Rightarrow> closed c | None \<Rightarrow> new_Conn)"

definition room :: "conn list \<Rightarrow> pool \<Rightarrow> bool" where
  "room ch p \<longleftrightarrow> int (length ch) < db_maxConnNum (pl_db p)"

section \<open>Steps\<close>

text \<open>
  One step of a call: its next phase, or none when it returns or panics. A receive from a closed channel that is empty gives nil, and a send into a
  closed channel panics.
\<close>

inductive call_step :: "'f floats \<Rightarrow> phase \<times> pool \<Rightarrow> phase option \<times> pool \<Rightarrow> bool" for fo :: "'f floats" where
  look_full: "cache_chan p \<noteq> [] \<Longrightarrow> call_step fo (Looking, p) (Some Receiving, p)"
| look_empty: "cache_chan p = [] \<Longrightarrow> call_step fo (Looking, p) (Some Selecting, p)"
| receive: "cache_chan p = co # c \<Longrightarrow> call_step fo (Receiving, p) (Some (Received (Some co)), set_cache c p)"
| receive_nil: "cache_chan p = [] \<Longrightarrow> pl_cacheClosed p \<Longrightarrow> call_step fo (Receiving, p) (Some (Received None), p)"
| received: "call_step fo (Received (Some co), p) (Some (Testing co), count_pop p)"
| received_nil: "call_step fo (Received None, p) (Some Looking, count_pop p)"
| test_ok: "checked now co = (Inr u, co') \<Longrightarrow> call_step fo (Testing co, p) (Some (Reusing co'), p)"
| test_error: "checked now co = (Inl (Err e), co') \<Longrightarrow> call_step fo (Testing co, p) (Some (Closing (Some co') Again), p)"
| test_panic: "checked now co = (Inl (Panic x), co') \<Longrightarrow> call_step fo (Testing co, p) (None, lose p)"
| select_idle: "idle_chan p = co # i \<Longrightarrow> call_step fo (Selecting, p) (Some GotPermit, set_idle i p)"
| select_idle_nil: "idle_chan p = [] \<Longrightarrow> pl_idleClosed p \<Longrightarrow> call_step fo (Selecting, p) (Some GotPermit, p)"
| select_cache: "cache_chan p = co # c \<Longrightarrow> call_step fo (Selecting, p) (Some (Selected (Some co)), set_cache c p)"
| select_cache_nil: "cache_chan p = [] \<Longrightarrow> pl_cacheClosed p \<Longrightarrow> call_step fo (Selecting, p) (Some (Selected None), p)"
| got_permit: "call_step fo (GotPermit, p) (Some Dialling, count_pop p)"
| dial_ok: "newConn fo dial now (pl_db p) = Inr co \<Longrightarrow> call_step fo (Dialling, p) (Some (TestingNew co), p)"
| dial_error: "newConn fo dial now (pl_db p) = Inl (Err e) \<Longrightarrow> call_step fo (Dialling, p) (Some (Closing None Return), p)"
| dial_panic: "newConn fo dial now (pl_db p) = Inl (Panic x) \<Longrightarrow> call_step fo (Dialling, p) (None, lose p)"
| new_ok: "Ping now co = (Inr u, co') \<Longrightarrow> call_step fo (TestingNew co, p) (Some (Reusing co'), p)"
| new_error: "Ping now co = (Inl (Err e), co') \<Longrightarrow> call_step fo (TestingNew co, p) (Some (Closing (Some co') Return), p)"
| new_panic: "Ping now co = (Inl (Panic x), co') \<Longrightarrow> call_step fo (TestingNew co, p) (None, lose p)"
| selected: "call_step fo (Selected (Some co), p) (Some (TestingSelected co), count_pop p)"
| selected_nil: "call_step fo (Selected None, p) (None, count_pop p)"
| selected_ok: "checked now co = (Inr u, co') \<Longrightarrow> call_step fo (TestingSelected co, p) (Some (Reusing co'), p)"
| selected_error: "checked now co = (Inl (Err e), co') \<Longrightarrow> call_step fo (TestingSelected co, p) (Some (Closing (Some co') Return), p)"
| selected_panic: "checked now co = (Inl (Panic x), co') \<Longrightarrow> call_step fo (TestingSelected co, p) (None, lose p)"
| reuse_ok: "tryReuse fo co = (Inr u, co') \<Longrightarrow> call_step fo (Reusing co, p) (None, p\<lparr>pl_lent := co' # pl_lent p\<rparr>)"
| reuse_error: "tryReuse fo co = (Inl (Err e), co') \<Longrightarrow> call_step fo (Reusing co, p) (Some (Closing (Some co') Return), p)"
| reuse_panic: "tryReuse fo co = (Inl (Panic x), co') \<Longrightarrow> call_step fo (Reusing co, p) (None, lose p)"
| closing: "call_step fo (Closing co k, p) (Some (Counted co k), count_push p)"
| no_idle: "db_idleConns (pl_db p) = None \<Longrightarrow> call_step fo (Counted co k, p) (resume k, p)"
| get_idle: "db_idleConns (pl_db p) \<noteq> None \<Longrightarrow> call_step fo (Counted co k, p) (Some (SendingIdle (permit co) k), p)"
| send_idle: "\<not> pl_idleClosed p \<Longrightarrow>
    call_step fo (SendingIdle co k, p) (resume k, if room (idle_chan p) p then set_idle (idle_chan p @ [co]) p else p)"
| send_idle_panic: "pl_idleClosed p \<Longrightarrow> call_step fo (SendingIdle co k, p) (None, lose p)"
| pushing: "call_step fo (Pushing co, p) (Some (PushCounted co), count_push p)"
| no_cache: "db_cacheConns (pl_db p) = None \<Longrightarrow> call_step fo (PushCounted co, p) (None, p)"
| get_cache: "db_cacheConns (pl_db p) \<noteq> None \<Longrightarrow> call_step fo (PushCounted co, p) (Some (SendingCache (co\<lparr>c_pushTimestamp := now\<rparr>)), p)"
| send_cache: "\<not> pl_cacheClosed p \<Longrightarrow> room (cache_chan p) p \<Longrightarrow> call_step fo (SendingCache co, p) (None, set_cache (cache_chan p @ [co]) p)"
| cache_full: "\<not> pl_cacheClosed p \<Longrightarrow> \<not> room (cache_chan p) p \<Longrightarrow> call_step fo (SendingCache co, p) (Some (Counted (Some co) Return), p)"
| send_cache_panic: "pl_cacheClosed p \<Longrightarrow> call_step fo (SendingCache co, p) (None, lose p)"
| shut: "db_cacheConns (pl_db p) = None \<Longrightarrow> call_step fo (Shutting, p) (Some Draining, p\<lparr>pl_cacheClosed := True\<rparr>)"
| drain: "db_cacheConns (pl_db p) = None \<Longrightarrow> cache_chan p = co # c \<Longrightarrow> call_step fo (Draining, p) (Some (Closing (Some co) Drain), set_cache c p)"
| drained: "db_cacheConns (pl_db p) = None \<Longrightarrow> cache_chan p = [] \<Longrightarrow> call_step fo (Draining, p) (None, p\<lparr>pl_idleClosed := True\<rparr>)"

inductive_cases call_stepE: "call_step fo (ph, p) (r, q)"

text \<open>
  The pool: a call of \<open>PopConn\<close> starts when the database is open; a borrower works with its connection and gives it back (\<open>BackendConn.Close\<close>); the
  checker pings the database and sets its state; \<open>Close\<close> takes the channels away; and any call under way takes a step.
\<close>

inductive pool_step :: "'f floats \<Rightarrow> pool \<Rightarrow> pool \<Rightarrow> bool" for fo :: "'f floats" where
  pop: "db_cacheConns (pl_db p) \<noteq> None \<Longrightarrow> db_idleConns (pl_db p) \<noteq> None \<Longrightarrow> pool_step fo p (p\<lparr>pl_calls := Looking # pl_calls p\<rparr>)"
| run: "pl_calls p = cs @ ph # ds \<Longrightarrow> call_step fo (ph, p) (r, q) \<Longrightarrow>
    pool_step fo p (q\<lparr>pl_calls := cs @ (case r of None \<Rightarrow> [] | Some x \<Rightarrow> [x]) @ ds\<rparr>)"
| work: "pl_lent p = l1 @ co # l2 \<Longrightarrow> pool_step fo p (p\<lparr>pl_lent := l1 @ co' # l2\<rparr>)"
| give_back: "pl_lent p = l1 @ co # l2 \<Longrightarrow>
    pool_step fo p (p\<lparr>pl_lent := l1 @ l2, pl_calls := (if c_pkgErr co \<noteq> None then Closing (Some co) Return else Pushing co) # pl_calls p\<rparr>)"
| ping: "pool_step fo p (p\<lparr>pl_db := snd (db_Ping fo dial now (pl_db p))\<rparr>)"
| state: "pool_step fo p (p\<lparr>pl_db := (pl_db p)\<lparr>db_state := st, db_lastPing := t\<rparr>\<rparr>)"
| close: "db_cacheConns (pl_db p) = Some c \<Longrightarrow> db_idleConns (pl_db p) = Some i \<Longrightarrow>
    pool_step fo p (p\<lparr>pl_db := (pl_db p)\<lparr>db_cacheConns := None, db_idleConns := None\<rparr>, pl_cache := c, pl_idle := i,
                     pl_calls := Shutting # pl_calls p\<rparr>)"

section \<open>What a call holds\<close>

text \<open>
  The connections or permits a call has in its hands, and how many of the accesses it has made to a channel, or is going to make, are on the other side
  of the counter. A call of \<open>Close\<close> is there only when the pool has been closed.
\<close>

fun held :: "phase \<Rightarrow> nat" where
  "held Looking = 0"
| "held Receiving = 0"
| "held (Received co) = (case co of None \<Rightarrow> 0 | Some _ \<Rightarrow> 1)"
| "held Selecting = 0"
| "held (Selected co) = (case co of None \<Rightarrow> 0 | Some _ \<Rightarrow> 1)"
| "held Shutting = 0"
| "held Draining = 0"
| "held _ = 1"

fun uncounted :: "phase \<Rightarrow> nat" where
  "uncounted (Received _) = 1"
| "uncounted GotPermit = 1"
| "uncounted (Selected _) = 1"
| "uncounted (Counted _ _) = 1"
| "uncounted (SendingIdle _ _) = 1"
| "uncounted (PushCounted _) = 1"
| "uncounted (SendingCache _) = 1"
| "uncounted _ = 0"

fun shuts :: "phase \<Rightarrow> bool" where
  "shuts Shutting = True"
| "shuts Draining = True"
| "shuts (Closing _ k) = (k = Drain)"
| "shuts (Counted _ k) = (k = Drain)"
| "shuts (SendingIdle _ k) = (k = Drain)"
| "shuts _ = False"

fun in_next :: "(phase \<Rightarrow> nat) \<Rightarrow> phase option \<Rightarrow> nat" where
  "in_next f None = 0"
| "in_next f (Some ph) = f ph"

definition stored :: "pool \<Rightarrow> nat" where
  "stored p = length (idle_chan p) + length (cache_chan p)"

definition balanced :: "db \<Rightarrow> nat \<Rightarrow> bool" where
  "balanced db k \<longleftrightarrow> (db_pushConnCount db - db_popConnCount db) mod 2 ^ 64 = int k mod 2 ^ 64"

definition is_open :: "pool \<Rightarrow> bool" where
  "is_open p \<longleftrightarrow> db_cacheConns (pl_db p) \<noteq> None \<and> db_idleConns (pl_db p) \<noteq> None \<and> \<not> pl_cacheClosed p \<and> \<not> pl_idleClosed p"

lemma wrap64_mod: "wrap64 x mod 2 ^ 64 = x mod 2 ^ 64"
  by (simp add: wrap64_def mod_diff_left_eq)

lemma balanced_pop: "balanced db (Suc k) \<Longrightarrow> balanced (inc_pop db) k"
proof -
  assume b: "balanced db (Suc k)"
  have "(db_pushConnCount db - wrap64 (db_popConnCount db + 1)) mod 2 ^ 64 = (db_pushConnCount db - db_popConnCount db - 1) mod 2 ^ 64"
    by (metis (no_types, opaque_lifting) diff_diff_eq mod_diff_right_eq wrap64_mod)
  also have "\<dots> = (int (Suc k) - 1) mod 2 ^ 64" using b unfolding balanced_def by (metis mod_diff_left_eq)
  finally show ?thesis by (simp add: balanced_def inc_pop_def)
qed

lemma balanced_push: "balanced db k \<Longrightarrow> balanced (inc_push db) (Suc k)"
proof -
  assume b: "balanced db k"
  have "(wrap64 (db_pushConnCount db + 1) - db_popConnCount db) mod 2 ^ 64 = (db_pushConnCount db - db_popConnCount db + 1) mod 2 ^ 64"
    by (metis (no_types, opaque_lifting) add_diff_eq diff_add_eq mod_diff_left_eq wrap64_mod)
  also have "\<dots> = (int k + 1) mod 2 ^ 64" using b unfolding balanced_def by (metis mod_add_left_eq)
  finally show ?thesis by (simp add: balanced_def inc_push_def add.commute)
qed

lemma balanced_same:
  "db_pushConnCount db' = db_pushConnCount db \<Longrightarrow> db_popConnCount db' = db_popConnCount db \<Longrightarrow> balanced db' k = balanced db k"
  by (simp add: balanced_def)

text \<open>What the accesses do with an open pool.\<close>

lemma chan_simps [simp]:
  assumes "is_open p"
  shows "cache_chan (set_cache c p) = c" "idle_chan (set_cache c p) = idle_chan p" "is_open (set_cache c p)"
    and "cache_chan (set_idle c p) = cache_chan p" "idle_chan (set_idle c p) = c" "is_open (set_idle c p)"
    and "balanced (pl_db (set_cache c p)) = balanced (pl_db p)" "balanced (pl_db (set_idle c p)) = balanced (pl_db p)"
  using assms by (auto simp: is_open_def cache_chan_def idle_chan_def set_cache_def set_idle_def balanced_def fun_eq_iff)

lemma count_simps [simp]:
  "cache_chan (count_pop p) = cache_chan p" "idle_chan (count_pop p) = idle_chan p" "is_open (count_pop p) = is_open p"
  "cache_chan (count_push p) = cache_chan p" "idle_chan (count_push p) = idle_chan p" "is_open (count_push p) = is_open p"
  "cache_chan (lose p) = cache_chan p" "idle_chan (lose p) = idle_chan p" "is_open (lose p) = is_open p"
  "pl_db (count_pop p) = inc_pop (pl_db p)" "pl_db (count_push p) = inc_push (pl_db p)" "pl_db (lose p) = pl_db p"
  "pl_lost (lose p) = Suc (pl_lost p)" "pl_lent (lose p) = pl_lent p"
  "pl_lost (count_pop p) = pl_lost p" "pl_lent (count_pop p) = pl_lent p"
  "pl_lost (count_push p) = pl_lost p" "pl_lent (count_push p) = pl_lent p"
  by (simp_all add: cache_chan_def idle_chan_def count_pop_def count_push_def inc_pop_def inc_push_def lose_def is_open_def cong: option.case_cong)

lemma set_simps [simp]:
  "pl_lent (set_cache c p) = pl_lent p" "pl_lost (set_cache c p) = pl_lost p" "pl_lent (set_idle c p) = pl_lent p"
  "pl_lost (set_idle c p) = pl_lost p" "db_maxConnNum (pl_db (set_cache c p)) = db_maxConnNum (pl_db p)"
  "db_maxConnNum (pl_db (set_idle c p)) = db_maxConnNum (pl_db p)"
  "db_maxConnNum (inc_pop db) = db_maxConnNum db" "db_maxConnNum (inc_push db) = db_maxConnNum db"
  by (simp_all add: set_cache_def set_idle_def inc_pop_def inc_push_def split: option.splits)

lemma lent_simps [simp]:
  "cache_chan (p\<lparr>pl_lent := l\<rparr>) = cache_chan p" "idle_chan (p\<lparr>pl_lent := l\<rparr>) = idle_chan p" "is_open (p\<lparr>pl_lent := l\<rparr>) = is_open p"
  "cache_chan (p\<lparr>pl_calls := cs\<rparr>) = cache_chan p" "idle_chan (p\<lparr>pl_calls := cs\<rparr>) = idle_chan p" "is_open (p\<lparr>pl_calls := cs\<rparr>) = is_open p"
  by (simp_all add: cache_chan_def idle_chan_def is_open_def cong: option.case_cong)

lemma is_openD:
  assumes "is_open p"
  shows "db_cacheConns (pl_db p) \<noteq> None" "db_idleConns (pl_db p) \<noteq> None" "pl_cacheClosed p = False" "pl_idleClosed p = False"
  using assms by (simp_all add: is_open_def)

lemma resume_plain [simp]: "in_next held (resume k) = 0" "in_next uncounted (resume k) = 0" "resume k = Some x \<Longrightarrow> shuts x = (k = Drain)"
  by (cases k; simp)+

text \<open>A step neither makes nor loses connections, as long as they fit into the channels.\<close>

definition total :: "pool \<Rightarrow> phase option \<Rightarrow> nat" where
  "total p r = stored p + length (pl_lent p) + pl_lost p + in_next held r"

lemma call_step_keeps:
  assumes "call_step fo (ph, p) (r, q)" and "is_open p" and "\<not> shuts ph" and "int (stored p + held ph) \<le> db_maxConnNum (pl_db p)"
  shows "is_open q \<and> total q r = total p (Some ph) \<and> (\<forall>x. r = Some x \<longrightarrow> \<not> shuts x)"
  using assms by (elim call_stepE; hypsubst) (simp_all add: is_openD total_def stored_def room_def)

lemma call_step_balanced:
  assumes "call_step fo (ph, p) (r, q)" and "is_open p" and "\<not> shuts ph" and "int (stored p + held ph) \<le> db_maxConnNum (pl_db p)"
    and "balanced (pl_db p) (stored p + uncounted ph + n)"
  shows "balanced (pl_db q) (stored q + in_next uncounted r + n)"
  using assms by (elim call_stepE; hypsubst)
    (simp_all add: is_openD stored_def room_def balanced_pop balanced_push del: of_nat_add)

lemma call_step_frame:
  assumes "call_step fo (ph, p) (r, q)"
  shows "pl_calls q = pl_calls p \<and> db_maxConnNum (pl_db q) = db_maxConnNum (pl_db p)
    \<and> (db_cacheConns (pl_db q) = None \<longleftrightarrow> db_cacheConns (pl_db p) = None) \<and> (db_idleConns (pl_db q) = None \<longleftrightarrow> db_idleConns (pl_db p) = None)"
  using assms by (elim call_stepE; hypsubst)
    (simp_all add: set_cache_def set_idle_def count_pop_def count_push_def lose_def inc_pop_def inc_push_def split: option.splits)

section \<open>The invariant\<close>

abbreviation in_calls :: "(phase \<Rightarrow> nat) \<Rightarrow> pool \<Rightarrow> nat" where
  "in_calls f p \<equiv> sum_list (map f (pl_calls p))"

definition pool_inv :: "int \<Rightarrow> pool \<Rightarrow> bool" where
  "pool_inv mx p \<longleftrightarrow> db_maxConnNum (pl_db p) = mx \<and> (db_idleConns (pl_db p) = None \<longleftrightarrow> db_cacheConns (pl_db p) = None)
     \<and> (db_cacheConns (pl_db p) \<noteq> None \<longrightarrow> is_open p \<and> (\<forall>ph \<in> set (pl_calls p). \<not> shuts ph)
          \<and> int (stored p + length (pl_lent p) + pl_lost p + in_calls held p) = mx \<and> balanced (pl_db p) (stored p + in_calls uncounted p))"

lemma pool_inv_closed: "db_cacheConns (pl_db p) = None \<Longrightarrow> pool_inv mx p \<longleftrightarrow> db_maxConnNum (pl_db p) = mx \<and> db_idleConns (pl_db p) = None"
  by (auto simp: pool_inv_def)

lemma pool_inv_open:
  "is_open p \<Longrightarrow> pool_inv mx p \<longleftrightarrow> db_maxConnNum (pl_db p) = mx \<and> (\<forall>ph \<in> set (pl_calls p). \<not> shuts ph)
     \<and> int (stored p + length (pl_lent p) + pl_lost p + in_calls held p) = mx \<and> balanced (pl_db p) (stored p + in_calls uncounted p)"
  by (auto simp: pool_inv_def is_open_def)

lemma pool_inv_cases:
  assumes "pool_inv mx p"
  obtains "is_open p" | "db_cacheConns (pl_db p) = None" and "db_idleConns (pl_db p) = None"
  using assms by (auto simp: pool_inv_def)

lemma stored_simps [simp]: "stored (p\<lparr>pl_lent := l\<rparr>) = stored p" "stored (p\<lparr>pl_calls := cs\<rparr>) = stored p"
  by (simp_all add: stored_def)

lemma pool_inv_run:
  assumes "pool_inv mx p" and "pl_calls p = cs @ ph # ds" and "call_step fo (ph, p) (r, q)"
  shows "pool_inv mx (q\<lparr>pl_calls := cs @ (case r of None \<Rightarrow> [] | Some x \<Rightarrow> [x]) @ ds\<rparr>)"
  using assms(1)
proof (cases rule: pool_inv_cases)
  case 1
  let ?n = "sum_list (map uncounted cs) + sum_list (map uncounted ds)"
  note f = call_step_frame [OF assms(3)]
  from assms(1,2) 1 have i: "\<not> shuts ph" "int (stored p + held ph) \<le> db_maxConnNum (pl_db p)" "db_maxConnNum (pl_db p) = mx"
    "balanced (pl_db p) (stored p + uncounted ph + ?n)" "\<forall>ph \<in> set cs \<union> set ds. \<not> shuts ph"
    "int (stored p + length (pl_lent p) + pl_lost p + (sum_list (map held cs) + held ph + sum_list (map held ds))) = mx"
    by (auto simp: pool_inv_open ac_simps)
  note k = call_step_keeps [OF assms(3) 1 i(1,2)]
  note b = call_step_balanced [OF assms(3) 1 i(1,2,4)]
  from k have o: "is_open (q\<lparr>pl_calls := l\<rparr>)" for l by simp
  from k b f i(3,5,6) show ?thesis by (cases r) (auto simp: pool_inv_open [OF o] total_def ac_simps)
next
  case 2
  with assms(1) call_step_frame [OF assms(3)] show ?thesis by (simp add: pool_inv_closed)
qed

lemma pool_inv_other:
  assumes "pool_inv mx p" and "db_idleConns db = db_idleConns (pl_db p)" and "db_cacheConns db = db_cacheConns (pl_db p)"
    and "db_maxConnNum db = db_maxConnNum (pl_db p)" and "db_pushConnCount db = db_pushConnCount (pl_db p)"
    and "db_popConnCount db = db_popConnCount (pl_db p)"
  shows "pool_inv mx (p\<lparr>pl_db := db\<rparr>)"
proof -
  have "is_open (p\<lparr>pl_db := db\<rparr>) = is_open p" "stored (p\<lparr>pl_db := db\<rparr>) = stored p"
    using assms(2,3) by (simp_all add: is_open_def stored_def cache_chan_def idle_chan_def cong: option.case_cong)
  with assms show ?thesis by (simp add: pool_inv_def balanced_same [of db "pl_db p"])
qed

lemma db_Ping_keeps:
  "db_idleConns (snd (db_Ping fo dial now db)) = db_idleConns db" "db_cacheConns (snd (db_Ping fo dial now db)) = db_cacheConns db"
  "db_maxConnNum (snd (db_Ping fo dial now db)) = db_maxConnNum db"
  "db_pushConnCount (snd (db_Ping fo dial now db)) = db_pushConnCount db"
  "db_popConnCount (snd (db_Ping fo dial now db)) = db_popConnCount db"
  by (simp_all add: db_Ping_def split: sum.splits option.splits prod.splits fail.splits)

lemma pool_inv_lent:
  assumes "pool_inv mx p" and "length l + in_next held r = length (pl_lent p)" and "in_next uncounted r = 0" and "\<forall>x. r = Some x \<longrightarrow> \<not> shuts x"
  shows "pool_inv mx (p\<lparr>pl_lent := l, pl_calls := (case r of None \<Rightarrow> [] | Some x \<Rightarrow> [x]) @ pl_calls p\<rparr>)"
  using assms(1)
proof (cases rule: pool_inv_cases)
  case 1
  then have o: "is_open (p\<lparr>pl_lent := l, pl_calls := c\<rparr>)" for c by simp
  from assms 1 show ?thesis by (cases r) (auto simp: pool_inv_open [OF o] pool_inv_open ac_simps)
next
  case 2
  with assms(1) show ?thesis by (simp add: pool_inv_closed)
qed

lemma pool_inv_step: "pool_step fo p q \<Longrightarrow> pool_inv mx p \<Longrightarrow> pool_inv mx q"
proof (induction rule: pool_step.induct)
  case (pop p)
  then show ?case using pool_inv_lent [of mx p "pl_lent p" "Some Looking"] by simp
next
  case (run p cs ph ds r q)
  then show ?case using pool_inv_run by blast
next
  case (work p l1 co l2 co')
  then show ?case using pool_inv_lent [of mx p "l1 @ co' # l2" None] by simp
next
  case (give_back p l1 co l2)
  then show ?case
    using pool_inv_lent [of mx p "l1 @ l2" "Some (if c_pkgErr co \<noteq> None then Closing (Some co) Return else Pushing co)"] by simp
next
  case (ping p dial now)
  then show ?case by (intro pool_inv_other) (simp_all add: db_Ping_keeps)
next
  case (state p st t)
  then show ?case by (intro pool_inv_other) simp_all
next
  case (close p c i)
  then show ?case by (simp add: pool_inv_def)
qed

lemma pool_inv_steps: "(pool_step fo)\<^sup>*\<^sup>* p q \<Longrightarrow> pool_inv mx p \<Longrightarrow> pool_inv mx q"
  by (induction rule: rtranclp_induct) (auto intro: pool_inv_step)

lemma pool_inv_Open:
  assumes "Open fo dial now addr user password dbName maxConnNum = Inr db"
  shows "pool_inv (db_maxConnNum db) (pool_of db)"
proof -
  define mx where "mx = (if 0 < maxConnNum then maxConnNum else 1024)"
  define init where "init = (if 0 < maxConnNum then (if mx < 16 then mx else mx div 4) else 16)"
  have i: "0 \<le> init" "init \<le> mx" by (auto simp: init_def mx_def)
  from assms obtain cs :: "conn list" where m: "db_maxConnNum db = mx" and "length cs = nat init"
    and "db_cacheConns db = Some cs" and "db_idleConns db = Some (replicate (nat (mx - init)) new_Conn)"
    and "db_pushConnCount db = wrap64 mx" and "db_popConnCount db = 0"
    unfolding Open_def mx_def [symmetric] Let_def init_def [symmetric]
    by (auto simp: rbind_eq_Inr_iff rmap_Inr_list_all2 dest!: list_all2_lengthD)
  with i show ?thesis
    by (simp add: pool_inv_def pool_of_def is_open_def stored_def cache_chan_def idle_chan_def balanced_def wrap64_mod [simplified])
qed

section \<open>Waiting\<close>

lemma checked_cases:
  fixes x :: "'a res \<times> 'b"
  obtains u where "fst x = Inr u" | e where "fst x = Inl (Err e)" | y where "fst x = Inl (Panic y)"
  by (cases "fst x") (metis fail.exhaust)+

lemma call_waits:
  assumes "is_open p" and "\<not> shuts ph"
  shows "(\<forall>r q. \<not> call_step fo (ph, p) (r, q)) \<longleftrightarrow>
    ph = Receiving \<and> cache_chan p = [] \<or> ph = Selecting \<and> idle_chan p = [] \<and> cache_chan p = []"
    (is "?stuck \<longleftrightarrow> ?waits")
proof
  have e: "fst x = a \<Longrightarrow> x = (a, snd x)" for x :: "unit res \<times> conn" and a by auto
  have "\<exists>r q. call_step fo (ph, p) (r, q)" if "\<not> ?waits"
  proof (cases ph)
    case Looking
    then show ?thesis using call_step.look_full call_step.look_empty by blast
  next
    case Receiving
    with that show ?thesis by (cases "cache_chan p") (blast intro: call_step.intros)+
  next
    case (Received co)
    then show ?thesis by (cases co) (blast intro: call_step.intros)+
  next
    case (Testing co)
    then show ?thesis by (cases "checked 0 co" rule: checked_cases) (metis e call_step.test_ok call_step.test_error call_step.test_panic)+
  next
    case Selecting
    with that show ?thesis by (cases "cache_chan p"; cases "idle_chan p") (blast intro: call_step.intros)+
  next
    case Dialling
    show ?thesis
    proof (cases "newConn fo (\<lambda>_ _. Inl (Err CoreErrBadConn)) 0 (pl_db p)")
      case (Inl x)
      with Dialling show ?thesis by (cases x) (blast intro: call_step.intros)+
    qed (use Dialling in \<open>blast intro: call_step.intros\<close>)
  next
    case (TestingNew co)
    then show ?thesis by (cases "Ping 0 co" rule: checked_cases) (metis e call_step.new_ok call_step.new_error call_step.new_panic)+
  next
    case (Selected co)
    then show ?thesis by (cases co) (blast intro: call_step.intros)+
  next
    case (TestingSelected co)
    then show ?thesis
      by (cases "checked 0 co" rule: checked_cases) (metis e call_step.selected_ok call_step.selected_error call_step.selected_panic)+
  next
    case (Reusing co)
    then show ?thesis
      by (cases "tryReuse fo co" rule: checked_cases) (metis e call_step.reuse_ok call_step.reuse_error call_step.reuse_panic)+
  next
    case (Counted co k)
    then show ?thesis using call_step.get_idle is_openD [OF assms(1)] by blast
  next
    case (SendingIdle co k)
    then show ?thesis using call_step.send_idle is_openD [OF assms(1)] by blast
  next
    case (SendingCache co)
    then show ?thesis using call_step.send_cache call_step.cache_full is_openD [OF assms(1)] by blast
  next
    case (PushCounted co)
    then show ?thesis using call_step.get_cache [of p fo co 0] is_openD [OF assms(1)] by blast
  qed (use assms(2) call_step.closing call_step.pushing call_step.got_permit in \<open>simp_all, blast+\<close>)
  then show "?stuck \<Longrightarrow> ?waits" by blast
  show "?waits \<Longrightarrow> ?stuck" using assms(1) by (auto elim!: call_stepE simp: is_openD)
qed

section \<open>Uninterrupted calls\<close>

text \<open>A pool in which the call at the head of the list runs; only the database changes, and at the end the connections lent out or lost.\<close>

definition at :: "pool \<Rightarrow> db \<Rightarrow> phase list \<Rightarrow> pool" where
  "at p db cs = p\<lparr>pl_db := db, pl_calls := cs\<rparr>"

lemma at_simps [simp]:
  "pl_db (at p db cs) = db" "pl_calls (at p db cs) = cs" "pl_cacheClosed (at p db cs) = pl_cacheClosed p" "pl_lent (at p db cs) = pl_lent p"
  "pl_idleClosed (at p db cs) = pl_idleClosed p" "(at p db cs)\<lparr>pl_calls := ds\<rparr> = at p db ds" "count_pop (at p db cs) = at p (inc_pop db) cs"
  "count_push (at p db cs) = at p (inc_push db) cs" "lose (at p db cs) = at (lose p) db cs"
  "(at p db cs)\<lparr>pl_lent := l\<rparr> = at (p\<lparr>pl_lent := l\<rparr>) db cs"
  "db_cacheConns db = Some c \<Longrightarrow> cache_chan (at p db cs) = c" "db_idleConns db = Some i \<Longrightarrow> idle_chan (at p db cs) = i"
  "db_cacheConns db = Some c \<Longrightarrow> set_cache c' (at p db cs) = at p (db\<lparr>db_cacheConns := Some c'\<rparr>) cs"
  "db_idleConns db = Some i \<Longrightarrow> set_idle i' (at p db cs) = at p (db\<lparr>db_idleConns := Some i'\<rparr>) cs"
  "is_open p \<Longrightarrow> at p (pl_db p) (pl_calls p) = p"
  by (simp_all add: at_def count_pop_def count_push_def lose_def cache_chan_def idle_chan_def set_cache_def set_idle_def)

lemma at_run:
  assumes "call_step fo (ph, at p db (ph # ds)) (r, at q db' (ph # ds))" and "cs = (case r of None \<Rightarrow> [] | Some x \<Rightarrow> [x]) @ ds"
  shows "(pool_step fo)\<^sup>*\<^sup>* (at p db (ph # ds)) (at q db' cs)"
  using pool_step.run [of "at p db (ph # ds)" "[]" ph ds, OF _ assms(1)] assms(2) by auto

lemma at_then:
  assumes "call_step fo (ph, at p db (ph # ds)) (Some x, at q db' (ph # ds))" and "(pool_step fo)\<^sup>*\<^sup>* (at q db' (x # ds)) p'"
  shows "(pool_step fo)\<^sup>*\<^sup>* (at p db (ph # ds)) p'"
  using at_run [OF assms(1) refl] assms(2) by simp

lemma send_idle_open:
  "db_idleConns db = Some i \<Longrightarrow> send_idle co db = (if int (length i) < db_maxConnNum db then db\<lparr>db_idleConns := Some (i @ [co])\<rparr> else db)"
  by (cases db) (simp add: send_idle_def try_send_def)

lemma inc_keeps [simp]:
  "db_idleConns (inc_push db) = db_idleConns db" "db_cacheConns (inc_push db) = db_cacheConns db"
  "db_idleConns (inc_pop db) = db_idleConns db" "db_cacheConns (inc_pop db) = db_cacheConns db"
  by (simp_all add: inc_push_def inc_pop_def)

lemma close_runs:
  assumes "db_idleConns db = Some i" and "pl_idleClosed p = False"
  shows "(pool_step fo)\<^sup>*\<^sup>* (at p db (Closing co k # ds)) (at p (closeConn co db) ((case resume k of None \<Rightarrow> [] | Some x \<Rightarrow> [x]) @ ds))"
proof (rule at_then [OF _ at_then])
  show "call_step fo (Closing co k, at p db (Closing co k # ds)) (Some (Counted co k), at p (inc_push db) (Closing co k # ds))"
    using call_step.closing [of fo co k "at p db (Closing co k # ds)"] by simp
  show "call_step fo (Counted co k, at p (inc_push db) (Counted co k # ds)) (Some (SendingIdle (permit co) k), at p (inc_push db) (Counted co k # ds))"
    using call_step.get_idle [of "at p (inc_push db) (Counted co k # ds)"] assms(1) by simp
  have "closeConn co db = send_idle (permit co) (inc_push db)"
    by (simp add: closeConn_def closeConnNotAdd_def addIdleConn_def permit_def split: option.splits)
  then show "(pool_step fo)\<^sup>*\<^sup>* (at p (inc_push db) (SendingIdle (permit co) k # ds)) (at p (closeConn co db) ((case resume k of None \<Rightarrow> [] | Some x \<Rightarrow> [x]) @ ds))"
    using call_step.send_idle [of "at p (inc_push db) (SendingIdle (permit co) k # ds)" fo "permit co" k] assms
    by (intro at_run [OF _ refl]) (simp add: send_idle_open room_def split: if_splits)
qed

lemma closeConn_keeps [simp]:
  "db_cacheConns (closeConn co db) = db_cacheConns db" "db_idleConns (closeConn co db) = None \<longleftrightarrow> db_idleConns db = None"
  by (simp_all add: closeConn_def closeConnNotAdd_def addIdleConn_def send_idle_def try_send_def inc_push_def split: option.splits)

text \<open>\<open>GetConnFromCache\<close> runs to its result: a connection to be made fit for use, the \<open>select\<close>, or a panic.\<close>

fun got :: "conn option res \<Rightarrow> pool \<Rightarrow> db \<Rightarrow> phase list \<Rightarrow> pool" where
  "got (Inr None) p db ds = at p db (Selecting # ds)"
| "got (Inr (Some co)) p db ds = at p db (Reusing co # ds)"
| "got (Inl (Panic x)) p db ds = at (lose p) db ds"
| "got (Inl (Err e)) p db ds = at p db ds"

lemma GetConnFromCache_runs:
  assumes "db_idleConns db = Some i" and "db_cacheConns db = Some c" and "pl_cacheClosed p = False" and "pl_idleClosed p = False"
    and "GetConnFromCache now db = (r, db')"
  shows "(pool_step fo)\<^sup>*\<^sup>* (at p db (Looking # ds)) (got r p db' ds)
    \<and> (\<forall>e. r \<noteq> Inl (Err e)) \<and> db_idleConns db' \<noteq> None \<and> db_cacheConns db' \<noteq> None"
  using assms
proof (induction c arbitrary: db i)
  case Nil
  have "call_step fo (Looking, at p db (Looking # ds)) (Some Selecting, at p db (Looking # ds))"
    using Nil by (intro call_step.look_empty) simp
  from Nil at_run [OF this refl] show ?case by (subst (asm) GetConnFromCache.simps) auto
next
  case (Cons co c)
  let ?db = "inc_pop (db\<lparr>db_cacheConns := Some c\<rparr>)"
  have 1: "call_step fo (Looking, at p db (Looking # ds)) (Some Receiving, at p db (Looking # ds))"
    using Cons.prems by (intro call_step.look_full) simp
  have 2: "call_step fo (Receiving, at p db (Receiving # ds)) (Some (Received (Some co)), at p (db\<lparr>db_cacheConns := Some c\<rparr>) (Receiving # ds))"
    using Cons.prems call_step.receive [of "at p db (Receiving # ds)" co c fo] by simp
  have 3: "call_step fo (Received (Some co), at p (db\<lparr>db_cacheConns := Some c\<rparr>) (Received (Some co) # ds))
      (Some (Testing co), at p ?db (Received (Some co) # ds))"
    using call_step.received [of fo co "at p (db\<lparr>db_cacheConns := Some c\<rparr>) (Received (Some co) # ds)"] by simp
  note run = at_then [OF 1 at_then [OF 2 at_then [OF 3]]]
  obtain y co' where y: "checked now co = (y, co')" by fastforce
  consider u where "y = Inr u" | e where "y = Inl (Err e)" | x where "y = Inl (Panic x)" by (cases y) (metis fail.exhaust)+
  then show ?case
  proof cases
    case 1
    with y have "call_step fo (Testing co, at p ?db (Testing co # ds)) (Some (Reusing co'), at p ?db (Testing co # ds))"
      by (auto intro: call_step.test_ok)
    from run [OF at_run [OF this refl]] 1 y Cons.prems show ?thesis by (subst (asm) GetConnFromCache.simps) auto
  next
    case 2
    with y have "call_step fo (Testing co, at p ?db (Testing co # ds)) (Some (Closing (Some co') Again), at p ?db (Testing co # ds))"
      by (auto intro: call_step.test_error)
    note close = run [OF at_then [OF this close_runs [of ?db i p fo "Some co'" Again ds]]]
    obtain j where j: "db_idleConns (closeConn (Some co') ?db) = Some j" using Cons.prems(1) by (cases "db_idleConns (closeConn (Some co') ?db)") simp_all
    have "GetConnFromCache now (closeConn (Some co') ?db) = (r, db')"
      using 2 y Cons.prems by (subst (asm) GetConnFromCache.simps) auto
    with Cons.IH [OF j _ Cons.prems(3,4)] close Cons.prems(1,4) show ?thesis by auto
  next
    case 3
    with y have "call_step fo (Testing co, at p ?db (Testing co # ds)) (None, at (lose p) ?db (Testing co # ds))"
      using call_step.test_panic [of now co x co' fo "at p ?db (Testing co # ds)"] by simp
    from run [OF at_run [OF this refl]] 3 y Cons.prems show ?thesis by (subst (asm) GetConnFromCache.simps) auto
  qed
qed

lemma newConn_same: "newConn fo dial now (inc_pop (db\<lparr>db_idleConns := x\<rparr>)) = newConn fo dial now db"
  by (simp add: newConn_def inc_pop_def)

text \<open>The two branches of the \<open>select\<close>, each of which ends with a connection to be made fit for use, an error or a panic.\<close>

lemma take_idle_runs:
  assumes "db_idleConns db = Some (co # i)" and "pl_idleClosed p = False" and "take_idle fo dial now i db = (r, db')"
  shows "(pool_step fo)\<^sup>*\<^sup>* (at p db (Selecting # ds)) (got (map_sum id Some r) p db' ds)"
proof -
  let ?db = "inc_pop (db\<lparr>db_idleConns := Some i\<rparr>)"
  have 1: "call_step fo (Selecting, at p db (Selecting # ds)) (Some GotPermit, at p (db\<lparr>db_idleConns := Some i\<rparr>) (Selecting # ds))"
    using assms(1) call_step.select_idle [of "at p db (Selecting # ds)" co i fo] by simp
  have 2: "call_step fo (GotPermit, at p (db\<lparr>db_idleConns := Some i\<rparr>) (GotPermit # ds)) (Some Dialling, at p ?db (GotPermit # ds))"
    using call_step.got_permit [of fo "at p (db\<lparr>db_idleConns := Some i\<rparr>) (GotPermit # ds)"] by simp
  note run = at_then [OF 1 at_then [OF 2]]
  note dial = call_step.dial_ok [of fo dial now "at p ?db (Dialling # ds)"] call_step.dial_error [of fo dial now "at p ?db (Dialling # ds)"]
    call_step.dial_panic [of fo dial now "at p ?db (Dialling # ds)"]
  note close = close_runs [of ?db i p fo _ Return ds, simplified resume.simps option.case append.simps, OF _ assms(2)]
  show ?thesis
  proof (cases "newConn fo dial now db")
    case (Inl e)
    show ?thesis
    proof (cases e)
      case (Err x)
      then have "call_step fo (Dialling, at p ?db (Dialling # ds)) (Some (Closing None Return), at p ?db (Dialling # ds))"
        using Inl dial(2) by (simp add: newConn_same)
      moreover have "(r, db') = (Inl (Err x), closeConn None ?db)" unfolding assms(3) [symmetric] using Inl Err by (simp add: take_idle_def)
      ultimately show ?thesis using run [OF at_then [OF _ close]] by simp
    next
      case (Panic x)
      then have "call_step fo (Dialling, at p ?db (Dialling # ds)) (None, at (lose p) ?db (Dialling # ds))"
        using Inl dial(3) by (simp add: newConn_same)
      moreover have "(r, db') = (Inl (Panic x), ?db)" unfolding assms(3) [symmetric] using Inl Panic by (simp add: take_idle_def)
      ultimately show ?thesis using run [OF at_run [where r = None]] by fastforce
    qed
  next
    case (Inr c)
    let ?at = "at p ?db (TestingNew c # ds)"
    have 3: "call_step fo (Dialling, at p ?db (Dialling # ds)) (Some (TestingNew c), at p ?db (Dialling # ds))"
      using Inr dial(1) by (simp add: newConn_same)
    note go = run [OF at_then [OF 3]]
    obtain y c' where y: "Ping now c = (y, c')" by fastforce
    consider u where "y = Inr u" | e where "y = Inl (Err e)" | x where "y = Inl (Panic x)" by (cases y) (metis fail.exhaust)+
    then show ?thesis
    proof cases
      case 1
      with y call_step.new_ok [of now c "()" c' fo ?at] have "call_step fo (TestingNew c, ?at) (Some (Reusing c'), ?at)" by simp
      from go [OF at_run [OF this refl]] 1 y Inr assms(3) show ?thesis by (auto simp: take_idle_def)
    next
      case 2
      with y call_step.new_error [of now c e c' fo ?at] have "call_step fo (TestingNew c, ?at) (Some (Closing (Some c') Return), ?at)" by simp
      from go [OF at_then [OF this close]] 2 y Inr assms(3) show ?thesis by (auto simp: take_idle_def)
    next
      case 3
      with y call_step.new_panic [of now c x c' fo ?at] have "call_step fo (TestingNew c, ?at) (None, at (lose p) ?db (TestingNew c # ds))" by simp
      from go [OF at_run [OF this refl]] 3 y Inr assms(3) show ?thesis by (auto simp: take_idle_def)
    qed
  qed
qed

lemma take_cached_runs:
  assumes "db_idleConns db = Some i" and "db_cacheConns db = Some (co # c)" and "pl_idleClosed p = False" and "take_cached now co c db = (r, db')"
  shows "(pool_step fo)\<^sup>*\<^sup>* (at p db (Selecting # ds)) (got (map_sum id Some r) p db' ds)"
proof -
  let ?db = "inc_pop (db\<lparr>db_cacheConns := Some c\<rparr>)" and ?at = "\<lambda>db ph. at p db (ph # ds)"
  let ?sel = "?at (db\<lparr>db_cacheConns := Some c\<rparr>) (Selected (Some co))" and ?tst = "?at ?db (TestingSelected co)"
  have 1: "call_step fo (Selecting, ?at db Selecting) (Some (Selected (Some co)), ?at (db\<lparr>db_cacheConns := Some c\<rparr>) Selecting)"
    using assms(2) call_step.select_cache [of "?at db Selecting" co c fo] by simp
  have 2: "call_step fo (Selected (Some co), ?sel) (Some (TestingSelected co), ?at ?db (Selected (Some co)))"
    using call_step.selected [of fo co ?sel] by simp
  note go = at_then [OF 1 at_then [OF 2]]
  note close = close_runs [of ?db i p fo _ Return ds, simplified resume.simps option.case append.simps, OF _ assms(3)]
  obtain y c' where y: "checked now co = (y, c')" by fastforce
  consider u where "y = Inr u" | e where "y = Inl (Err e)" | x where "y = Inl (Panic x)" by (cases y) (metis fail.exhaust)+
  then show ?thesis
  proof cases
    case 1
    with y call_step.selected_ok [of now co "()" c' fo ?tst] have "call_step fo (TestingSelected co, ?tst) (Some (Reusing c'), ?tst)" by simp
    from go [OF at_run [OF this refl]] 1 y assms(4) show ?thesis by (auto simp: take_cached_def)
  next
    case 2
    with y call_step.selected_error [of now co e c' fo ?tst] have "call_step fo (TestingSelected co, ?tst) (Some (Closing (Some c') Return), ?tst)" by simp
    from go [OF at_then [OF this close]] 2 y assms(1,4) show ?thesis by (auto simp: take_cached_def)
  next
    case 3
    with y call_step.selected_panic [of now co x c' fo ?tst]
    have "call_step fo (TestingSelected co, ?tst) (None, at (lose p) ?db (TestingSelected co # ds))" by simp
    from go [OF at_run [OF this refl]] 3 y assms(4) show ?thesis by (auto simp: take_cached_def)
  qed
qed

lemma GetConnFromIdle_runs:
  assumes "db_idleConns db = Some i" and "db_cacheConns db = Some c" and "pl_idleClosed p = False"
    and "GetConnFromIdle fo dial now pick db = Some (r, db')"
  shows "(pool_step fo)\<^sup>*\<^sup>* (at p db (Selecting # ds)) (got (map_sum id Some r) p db' ds)"
  using assms take_idle_runs [of db _ _ p fo dial now r db'] take_cached_runs [of db i _ _ p now r db']
  by (auto simp: GetConnFromIdle_def split: list.splits if_splits)

fun popped :: "conn res \<Rightarrow> pool \<Rightarrow> pool" where
  "popped (Inr co) p = p\<lparr>pl_lent := co # pl_lent p\<rparr>"
| "popped (Inl (Err e)) p = p"
| "popped (Inl (Panic x)) p = lose p"

lemma got_connection_runs:
  assumes "db_idleConns db \<noteq> None" and "pl_idleClosed p = False" and "tryReuse fo co = (u, co')"
  shows "(pool_step fo)\<^sup>*\<^sup>* (at p db (Reusing co # ds))
    (case u of Inr _ \<Rightarrow> popped (Inr co') (at p db ds) | Inl (Panic x) \<Rightarrow> popped (Inl (Panic x)) (at p db ds)
       | Inl (Err e) \<Rightarrow> popped (Inl (Err e)) (at p (closeConn (Some co') db) ds))"
proof -
  let ?at = "at p db (Reusing co # ds)"
  obtain i where i: "db_idleConns db = Some i" using assms(1) by blast
  consider "u = Inr ()" | e where "u = Inl (Err e)" | x where "u = Inl (Panic x)" by (cases u) (auto intro: fail.exhaust)
  then show ?thesis
  proof cases
    case 1
    then have "call_step fo (Reusing co, ?at) (None, at (p\<lparr>pl_lent := co' # pl_lent p\<rparr>) db (Reusing co # ds))"
      using call_step.reuse_ok [of fo co "()" co' ?at] assms(3) by simp
    from at_run [OF this refl] 1 show ?thesis by simp
  next
    case 2
    then have "call_step fo (Reusing co, ?at) (Some (Closing (Some co') Return), ?at)"
      using call_step.reuse_error [of fo co e co' ?at] assms(3) by simp
    from at_then [OF this close_runs [OF i assms(2)]] 2 show ?thesis by simp
  next
    case 3
    then have "call_step fo (Reusing co, ?at) (None, at (lose p) db (Reusing co # ds))"
      using call_step.reuse_panic [of fo co x co' ?at] assms(3) by simp
    from at_run [OF this refl] 3 show ?thesis by simp
  qed
qed

text \<open>A connection from the cache or from the \<open>select\<close>, before it is made fit for use.\<close>

definition first_conn :: "'f floats \<Rightarrow> dialer \<Rightarrow> int \<Rightarrow> bool \<Rightarrow> db \<Rightarrow> (conn res \<times> db) option" where
  "first_conn fo dial now pick db =
     (case GetConnFromCache now db of
        (Inl e, db1) \<Rightarrow> Some (Inl e, db1)
      | (Inr (Some co), db1) \<Rightarrow> Some (Inr co, db1)
      | (Inr None, db1) \<Rightarrow> GetConnFromIdle fo dial now pick db1)"

lemma take_keeps:
  "db_idleConns (snd (take_idle fo dial now i db)) \<noteq> None" "db_idleConns (snd (take_cached now co c db)) = None \<longleftrightarrow> db_idleConns db = None"
  by (simp_all add: take_idle_def take_cached_def Let_def del: not_None_eq split: sum.splits fail.splits prod.splits)

lemma first_conn_runs:
  assumes "db_idleConns db = Some i" and "db_cacheConns db = Some c" and "pl_cacheClosed p = False" and "pl_idleClosed p = False"
    and "first_conn fo dial now pick db = Some (y, db')"
  shows "(pool_step fo)\<^sup>*\<^sup>* (at p db (Looking # ds)) (got (map_sum id Some y) p db' ds) \<and> db_idleConns db' \<noteq> None"
proof -
  obtain x db1 where x: "GetConnFromCache now db = (x, db1)" by fastforce
  note run = GetConnFromCache_runs [OF assms(1-4) x, of fo ds]
  then obtain j d where jd: "db_idleConns db1 = Some j" "db_cacheConns db1 = Some d" by blast
  show ?thesis
  proof (cases "x = Inr None")
    case True
    then have g: "GetConnFromIdle fo dial now pick db1 = Some (y, db')" using assms(5) x by (simp add: first_conn_def)
    have "db_idleConns db' \<noteq> None"
      using g jd take_keeps(1) [of fo dial now _ db1] take_keeps(2) [of now _ _ db1]
      by (auto simp: GetConnFromIdle_def split: list.splits if_splits) (metis option.distinct(1) snd_conv)+
    moreover have "(pool_step fo)\<^sup>*\<^sup>* (at p db (Looking # ds)) (at p db1 (Selecting # ds))" using run True by simp
    ultimately show ?thesis using GetConnFromIdle_runs [OF jd assms(4) g, of ds] by (meson rtranclp_trans)
  next
    case False
    with run assms(5) x show ?thesis by (auto simp: first_conn_def split: sum.splits option.splits)
  qed
qed

lemma PopConn_runs:
  assumes "is_open p" and "PopConn fo dial now pick (pl_db p) = Some (r, db')"
  shows "(pool_step fo)\<^sup>*\<^sup>* p (popped r (p\<lparr>pl_db := db'\<rparr>))"
proof -
  let ?db = "pl_db p" and ?ds = "pl_calls p"
  from assms(1) obtain i c where ic: "db_idleConns ?db = Some i" "db_cacheConns ?db = Some c" by (auto simp: is_open_def)
  have at: "p\<lparr>pl_db := db\<rparr> = at p db ?ds" for db by (simp add: at_def)
  have start: "(pool_step fo)\<^sup>*\<^sup>* p (at p ?db (Looking # ?ds))"
    using pool_step.pop [of p fo] ic by (simp add: at_def r_into_rtranclp)
  from assms(2) ic obtain y db1 where y: "first_conn fo dial now pick ?db = Some (y, db1)"
    by (auto simp: PopConn_def first_conn_def [symmetric] Let_def split: option.splits)
  from first_conn_runs [OF ic _ _ y, of p ?ds] is_openD [OF assms(1)]
  have run: "(pool_step fo)\<^sup>*\<^sup>* p (got (map_sum id Some y) p db1 ?ds)" and o: "db_idleConns db1 \<noteq> None"
    using start by (auto intro: rtranclp_trans)
  show ?thesis
  proof (cases y)
    case (Inl e)
    have "Some (r, db') = Some (Inl e, db1)" unfolding assms(2) [symmetric] using Inl y ic by (simp add: PopConn_def first_conn_def [symmetric])
    with Inl run show ?thesis unfolding at by (cases e) auto
  next
    case (Inr co)
    obtain u co' where u: "tryReuse fo co = (u, co')" by fastforce
    have "Some (r, db') = Some (case u of Inr _ \<Rightarrow> (Inr co', db1) | Inl (Panic p) \<Rightarrow> (Inl (Panic p), db1) | Inl (Err e) \<Rightarrow> (Inl (Err e), closeConn (Some co') db1))"
      unfolding assms(2) [symmetric] using Inr y ic u by (simp add: PopConn_def first_conn_def [symmetric] split: sum.splits fail.splits)
    with got_connection_runs [OF o _ u, of p ?ds] is_openD [OF assms(1)] Inr run show ?thesis
      unfolding at by (cases u) (auto split: fail.splits intro: rtranclp_trans)
  qed
qed



text \<open>\<open>Close\<close> takes the channels away, closes the cache, empties it and closes the other channel.\<close>

lemma drain_runs:
  assumes "db_idleConns db = None" and "db_cacheConns db = None" and "pl_cache p = c"
  shows "(pool_step fo)\<^sup>*\<^sup>* (at p db (Draining # ds))
    (at (p\<lparr>pl_cache := [], pl_idleClosed := True\<rparr>) (fold (\<lambda>co. closeConn (Some co)) c db) ds)"
  using assms
proof (induction c arbitrary: p db)
  case Nil
  let ?at = "at p db (Draining # ds)"
  have "call_step fo (Draining, ?at) (None, at (p\<lparr>pl_cache := [], pl_idleClosed := True\<rparr>) db (Draining # ds))"
    using call_step.drained [of ?at fo] Nil by (cases p) (simp add: cache_chan_def at_def)
  from at_run [OF this refl] show ?case by simp
next
  case (Cons co c)
  let ?q = "p\<lparr>pl_cache := c\<rparr>" and ?k = "Closing (Some co) Drain"
  have 1: "call_step fo (Draining, at p db (Draining # ds)) (Some ?k, at ?q db (Draining # ds))"
    using call_step.drain [of "at p db (Draining # ds)" co c fo] Cons.prems by (cases p) (simp add: cache_chan_def set_cache_def at_def)
  have 2: "call_step fo (?k, at ?q db (?k # ds)) (Some (Counted (Some co) Drain), at ?q (inc_push db) (?k # ds))"
    using call_step.closing [of fo "Some co" Drain "at ?q db (?k # ds)"] by simp
  have 3: "call_step fo (Counted (Some co) Drain, at ?q (inc_push db) (Counted (Some co) Drain # ds))
      (Some Draining, at ?q (inc_push db) (Counted (Some co) Drain # ds))"
    using call_step.no_idle [of "at ?q (inc_push db) (Counted (Some co) Drain # ds)" fo "Some co" Drain] Cons.prems(1) by simp
  have "closeConn (Some co) db = inc_push db"
    using Cons.prems(1) by (cases db) (simp add: closeConn_def closeConnNotAdd_def send_idle_def try_send_def inc_push_def)
  with at_then [OF 1 at_then [OF 2 at_then [OF 3 Cons.IH [of "inc_push db" ?q]]]] Cons.prems show ?case by simp
qed

lemma Close_runs:
  assumes "is_open p"
  shows "\<exists>q. (pool_step fo)\<^sup>*\<^sup>* p q \<and> pl_db q = db_Close (pl_db p) \<and> pl_calls q = pl_calls p \<and> pl_lent q = pl_lent p
    \<and> pl_cacheClosed q \<and> pl_idleClosed q"
proof -
  from assms obtain i c where ic: "db_idleConns (pl_db p) = Some i" "db_cacheConns (pl_db p) = Some c" by (auto simp: is_open_def)
  let ?db = "(pl_db p)\<lparr>db_cacheConns := None, db_idleConns := None\<rparr>" and ?p = "p\<lparr>pl_cache := c, pl_idle := i\<rparr>"
  let ?q = "?p\<lparr>pl_cacheClosed := True\<rparr>"
  have 1: "pool_step fo p (at ?p ?db (Shutting # pl_calls p))" using pool_step.close [OF ic(2,1), of fo] by (cases p) (simp add: at_def)
  have 2: "call_step fo (Shutting, at ?p ?db (Shutting # pl_calls p)) (Some Draining, at ?q ?db (Shutting # pl_calls p))"
    using call_step.shut [of "at ?p ?db (Shutting # pl_calls p)" fo] by (cases p) (simp add: at_def)
  have "(pool_step fo)\<^sup>*\<^sup>* p (at (?q\<lparr>pl_cache := [], pl_idleClosed := True\<rparr>) (fold (\<lambda>co. closeConn (Some co)) c ?db) (pl_calls p))"
    using 1 at_then [OF 2 drain_runs] by (auto intro: converse_rtranclp_into_rtranclp)
  moreover have "fold (\<lambda>co. closeConn (Some co)) c ?db = db_Close (pl_db p)"
    using ic by (cases "pl_db p") (simp add: db_Close_def)
  ultimately show ?thesis by (intro exI conjI) (assumption, simp_all)
qed

section \<open>Properties\<close>

lemma pool_of_db: "pl_db (pool_of db) = db"
  by (simp add: pool_of_def)

lemma sample_opened: "Open int_floats (\<lambda>_ _ _. Inr sample_server) 0 ''db1:3306'' ''u'' [] [] 1 = Inr (projr sample_pool)"
proof -
  have "case sample_pool of Inl _ \<Rightarrow> False | Inr _ \<Rightarrow> True" by code_simp
  from returned [OF this] show ?thesis by (metis sample_pool_def)
qed

lemma sample_open: "is_open (pool_of (projr sample_pool))"
proof -
  have "db_cacheConns (projr sample_pool) \<noteq> None" by code_simp
  then show ?thesis using pool_inv_Open [OF sample_opened] by (simp add: pool_inv_def pool_of_def)
qed

lemma sample_popped: "\<exists>co db. sample_pop = Some (Inr co, db) \<and> db_idleConns db = Some [] \<and> db_cacheConns db = Some []"
proof -
  have "case sample_pop of Some (Inr co, db) \<Rightarrow> map_option length (db_idleConns db) = Some 0 \<and> map_option length (db_cacheConns db) = Some 0
    | _ \<Rightarrow> False" by code_simp
  then show ?thesis by (auto split: option.splits prod.splits sum.splits)
qed

text \<open>
  C28. Connections are conserved, however goroutines interleave between their accesses to the pool. While the pool is open, the connections and
  permits in its channels, those in the hands of calls under way, those lent out and those lost in a call that panicked add up to \<open>maxConnNum\<close>,
  so that never more than \<open>maxConnNum\<close> are out; the counters differ by what is in the channels and by the accesses that calls have still to count
  or to make; no send finds its channel full, so that no \<open>select\<close> drops a connection; and a call waits exactly before the receive of
  \<open>GetConnFromCache\<close> with an empty cache, or before the \<open>select\<close> of \<open>GetConnFromIdle\<close> with both channels empty. If all calls under way wait
  and one of them waits in the \<open>select\<close>, every connection is lent out or lost. A receive may wait although there are permits: \<open>cache_race\<close>.
\<close>

theorem pool_conserves:
  assumes "Open fo dial now addr user password dbName maxConnNum = Inr db0"
    and "(pool_step fo)\<^sup>*\<^sup>* (pool_of db0) p" and "db_idleConns (pl_db p) = Some i" and "db_cacheConns (pl_db p) = Some c"
  shows "int (length i + length c + in_calls held p + length (pl_lent p) + pl_lost p) = db_maxConnNum db0
    \<and> (db_pushConnCount (pl_db p) - db_popConnCount (pl_db p)) mod 2 ^ 64 = int (length i + length c + in_calls uncounted p) mod 2 ^ 64
    \<and> (\<forall>co k. SendingIdle co k \<in> set (pl_calls p) \<longrightarrow> int (length i) < db_maxConnNum db0)
    \<and> (\<forall>co. SendingCache co \<in> set (pl_calls p) \<longrightarrow> int (length c) < db_maxConnNum db0)
    \<and> (\<forall>ph \<in> set (pl_calls p). (\<forall>r q. \<not> call_step fo (ph, p) (r, q)) \<longleftrightarrow> ph = Receiving \<and> c = [] \<or> ph = Selecting \<and> i = [] \<and> c = [])
    \<and> ((\<forall>ph \<in> set (pl_calls p). \<forall>r q. \<not> call_step fo (ph, p) (r, q)) \<and> Selecting \<in> set (pl_calls p)
        \<longrightarrow> int (length (pl_lent p) + pl_lost p) = db_maxConnNum db0)"
proof -
  have inv: "pool_inv (db_maxConnNum db0) p" using pool_inv_steps [OF assms(2) pool_inv_Open [OF assms(1)]] .
  then have o: "is_open p" using assms(4) by (simp add: pool_inv_def)
  have ch: "idle_chan p = i" "cache_chan p = c" using assms(3,4) by (simp_all add: idle_chan_def cache_chan_def)
  from inv have h: "\<forall>ph \<in> set (pl_calls p). \<not> shuts ph"
    "int (stored p + length (pl_lent p) + pl_lost p + in_calls held p) = db_maxConnNum db0" "balanced (pl_db p) (stored p + in_calls uncounted p)"
    by (simp_all add: pool_inv_open [OF o])
  have one: "held ph \<le> in_calls held p" if "ph \<in> set (pl_calls p)" for ph using that by (simp add: member_le_sum_list)
  have w: "(\<forall>r q. \<not> call_step fo (ph, p) (r, q)) \<longleftrightarrow> ph = Receiving \<and> c = [] \<or> ph = Selecting \<and> i = [] \<and> c = []"
    if "ph \<in> set (pl_calls p)" for ph
    using call_waits [OF o, of ph fo] h(1) that ch by simp
  have z: "in_calls held p = 0" if "\<forall>ph \<in> set (pl_calls p). \<forall>r q. \<not> call_step fo (ph, p) (r, q)"
    using that w by (auto simp: sum_list_eq_0_iff)
  have s: "int (length i + length c + in_calls held p + length (pl_lent p) + pl_lost p) = db_maxConnNum db0"
    "(db_pushConnCount (pl_db p) - db_popConnCount (pl_db p)) mod 2 ^ 64 = int (length i + length c + in_calls uncounted p) mod 2 ^ 64"
    using h(2,3) ch by (auto simp: stored_def balanced_def)
  have "int (length i) < db_maxConnNum db0 \<and> int (length c) < db_maxConnNum db0" if "ph \<in> set (pl_calls p)" "held ph = 1" for ph
    using one [OF that(1)] that(2) s(1) by linarith
  then have "(\<forall>co k. SendingIdle co k \<in> set (pl_calls p) \<longrightarrow> int (length i) < db_maxConnNum db0)
    \<and> (\<forall>co. SendingCache co \<in> set (pl_calls p) \<longrightarrow> int (length c) < db_maxConnNum db0)" by auto
  moreover have "int (length (pl_lent p) + pl_lost p) = db_maxConnNum db0"
    if "\<forall>ph \<in> set (pl_calls p). \<forall>r q. \<not> call_step fo (ph, p) (r, q)" "Selecting \<in> set (pl_calls p)"
    using z [OF that(1)] w [OF that(2)] that s(1) by (simp del: sum_list_eq_0_iff)
  ultimately show ?thesis using s w by blast
qed

theorem pool_conserves_witness:
  "\<exists>p co. (pool_step int_floats)\<^sup>*\<^sup>* (pool_of (projr sample_pool)) p \<and> pl_calls p = [] \<and> pl_lent p = [co] \<and> pl_lost p = 0
    \<and> db_idleConns (pl_db p) = Some [] \<and> db_cacheConns (pl_db p) = Some []
    \<and> int (0 + 0 + in_calls held p + length [co] + 0) = db_maxConnNum (projr sample_pool)"
proof -
  obtain co db where p: "sample_pop = Some (Inr co, db)" "db_idleConns db = Some []" "db_cacheConns db = Some []"
    using sample_popped by blast
  let ?p = "popped (Inr co) ((pool_of (projr sample_pool))\<lparr>pl_db := db\<rparr>)"
  have s: "(pool_step int_floats)\<^sup>*\<^sup>* (pool_of (projr sample_pool)) ?p"
    using PopConn_runs [OF sample_open] p(1) unfolding sample_pop_def by (simp only: pool_of_db)
  have c: "db_idleConns (pl_db ?p) = Some []" "db_cacheConns (pl_db ?p) = Some []" using p(2,3) by simp_all
  have d: "pl_calls ?p = []" "pl_lent ?p = [co]" "pl_lost ?p = 0" by (simp_all add: pool_of_def)
  from pool_conserves [OF sample_opened s c] have "int (0 + 0 + in_calls held ?p + length [co] + 0) = db_maxConnNum (projr sample_pool)"
    by (simp add: pool_of_def)
  with s c d show ?thesis by blast
qed



section \<open>Races\<close>

text \<open>
  Two calls that see the same connection in the cache: one gets it, and the other waits for it although the pool has permits for new ones.
\<close>

lemma cache_race:
  assumes "is_open p" and "cache_chan p = [co]" and "pl_calls p = []"
  shows "\<exists>q. (pool_step fo)\<^sup>*\<^sup>* p q \<and> pl_calls q = [Received (Some co), Receiving] \<and> idle_chan q = idle_chan p
    \<and> (\<forall>r s. \<not> call_step fo (Receiving, q) (r, s))"
proof -
  let ?c = "\<lambda>cs. p\<lparr>pl_calls := cs\<rparr>"
  define q where "q = (set_cache [] (?c [Receiving, Receiving]))\<lparr>pl_calls := [Received (Some co), Receiving]\<rparr>"
  note o = is_openD [OF assms(1)]
  have "pool_step fo p (?c [Looking])" using pool_step.pop [of p fo] o assms(3) by simp
  moreover have "pool_step fo (?c [Looking]) (?c [Looking, Looking])" using pool_step.pop [of "?c [Looking]" fo] o by simp
  moreover have "pool_step fo (?c [Looking, Looking]) (?c [Receiving, Looking])"
    using pool_step.run [of "?c [Looking, Looking]" "[]" Looking "[Looking]" fo, OF _ call_step.look_full] assms(2) by simp
  moreover have "pool_step fo (?c [Receiving, Looking]) (?c [Receiving, Receiving])"
    using pool_step.run [of "?c [Receiving, Looking]" "[Receiving]" Looking "[]" fo, OF _ call_step.look_full] assms(2) by simp
  moreover have "pool_step fo (?c [Receiving, Receiving]) q" unfolding q_def
    using pool_step.run [of "?c [Receiving, Receiving]" "[]" Receiving "[Receiving]" fo, OF _ call_step.receive] assms(2) by simp
  ultimately have "(pool_step fo)\<^sup>*\<^sup>* p q"
    by (meson converse_rtranclp_into_rtranclp rtranclp.rtrancl_refl)
  moreover have "is_open q" "cache_chan q = []" "idle_chan q = idle_chan p" "pl_calls q = [Received (Some co), Receiving]"
    using assms(1) by (simp_all add: q_def)
  ultimately show ?thesis using call_waits [of q Receiving fo] by (intro exI [of _ q]) simp
qed

text \<open>\<open>Close\<close> between the look at the channel and the send of \<open>PushConn\<close>: the send panics.\<close>

lemma close_race:
  assumes "is_open p" and "pl_lent p = l1 @ co # l2" and "c_pkgErr co = None" and "pl_calls p = []"
  shows "\<exists>q co'. (pool_step fo)\<^sup>*\<^sup>* p q \<and> SendingCache co' \<in> set (pl_calls q) \<and> call_step fo (SendingCache co', q) (None, lose q)"
proof -
  from assms(1) obtain i c where ic: "db_idleConns (pl_db p) = Some i" "db_cacheConns (pl_db p) = Some c" by (auto simp: is_open_def)
  let ?q = "p\<lparr>pl_lent := l1 @ l2\<rparr>" and ?co = "co\<lparr>c_pushTimestamp := 0\<rparr>" and ?db = "inc_push (pl_db p)"
  have 0: "pool_step fo p (at ?q (pl_db p) [Pushing co])"
    using pool_step.give_back [OF assms(2), of fo] assms(3,4) by (simp add: at_def)
  have 1: "call_step fo (Pushing co, at ?q (pl_db p) [Pushing co]) (Some (PushCounted co), at ?q ?db [Pushing co])"
    using call_step.pushing [of fo co "at ?q (pl_db p) [Pushing co]"] by simp
  have 2: "call_step fo (PushCounted co, at ?q ?db [PushCounted co]) (Some (SendingCache ?co), at ?q ?db [PushCounted co])"
    using call_step.get_cache [of "at ?q ?db [PushCounted co]" fo co 0] ic by simp
  have "is_open (at ?q ?db [SendingCache ?co])" using assms(1) by (simp add: is_open_def)
  from Close_runs [OF this, of fo] obtain q where q: "(pool_step fo)\<^sup>*\<^sup>* (at ?q ?db [SendingCache ?co]) q" "pl_calls q = [SendingCache ?co]" "pl_cacheClosed q"
    by auto
  have "(pool_step fo)\<^sup>*\<^sup>* p q" using 0 at_then [OF 1 at_then [OF 2 q(1)]] by (rule converse_rtranclp_into_rtranclp)
  moreover have "call_step fo (SendingCache ?co, q) (None, lose q)" using call_step.send_cache_panic [OF q(3)] .
  ultimately show ?thesis using q(2) by (intro exI [of _ q] exI [of _ ?co]) simp
qed

end
