(* ===== verification/Node.thy ===== *)
theory Node
  imports Pool
begin

text \<open>
  A node (src/backend/node.go): a master, its slaves and the weighted round robin over the slaves (src/backend/balancer.go).

  The databases are shared objects that several pointers name: \<open>n_dbs\<close> is the store, a pointer is an index into it or \<open>None\<close> for nil.
  The methods are actions on the record \<open>node\<close>. \<open>draw i\<close> is the \<open>i\<close>-th result of \<open>rand.Intn\<close>, \<open>dial k\<close> gives the connections of the
  \<open>k\<close>-th database that an operation opens or pings, and \<open>now\<close> is the clock.
\<close>

section \<open>State\<close>

record node_config =
  nc_Name :: string
  nc_DownAfterNoAlive :: int
  nc_MaxConnNum :: int
  nc_User :: string
  nc_Password :: string
  nc_Master :: string
  nc_Slave :: string

record node =
  n_Cfg :: node_config
  n_dbs :: "db list"
  n_Master :: "nat option"
  n_Slave :: "nat option list option"
  n_LastSlaveIndex :: int
  n_RoundRobinQ :: "int list"
  n_SlaveWeights :: "int list"
  n_DownAfterNoAlive :: int
  n_Online :: bool

text \<open>The slice \<open>n.Slave\<close>; ranging over nil is ranging over nothing.\<close>

definition slaves :: "node \<Rightarrow> nat option list" where
  "slaves n = (case n_Slave n of Some s \<Rightarrow> s | None \<Rightarrow> [])"

definition deref :: "nat option \<Rightarrow> (node, db) act" where
  "deref p n = (case p of Some i \<Rightarrow> if i < length (n_dbs n) then (Inr (n_dbs n ! i), n) else (Inl (Panic NilDereference), n)
     | None \<Rightarrow> (Inl (Panic NilDereference), n))"

definition store :: "nat option \<Rightarrow> db \<Rightarrow> (node, unit) act" where
  "store p d n = (case p of Some i \<Rightarrow> (Inr (), n\<lparr>n_dbs := (n_dbs n)[i := d]\<rparr>) | None \<Rightarrow> (Inl (Panic NilDereference), n))"

definition alloc :: "db \<Rightarrow> (node, nat option) act" where
  "alloc d n = (Inr (Some (length (n_dbs n))), n\<lparr>n_dbs := n_dbs n @ [d]\<rparr>)"

section \<open>Balancer\<close>

text \<open>The inner loop of \<open>Gcd\<close>: whether \<open>m\<close> divides all numbers; it stops at the first that it does not divide.\<close>

fun is_common :: "int list \<Rightarrow> int \<Rightarrow> bool res" where
  "is_common [] m = Inr True"
| "is_common (a # as) m = rbind (go_mod a m) (\<lambda>r. if r \<noteq> 0 then Inr False else is_common as m)"

function gcd_loop :: "int list \<Rightarrow> int \<Rightarrow> int res" where
  "gcd_loop ary m =
     (case is_common ary m of
        Inl e \<Rightarrow> Inl e
      | Inr True \<Rightarrow> Inr m
      | Inr False \<Rightarrow> if m - 1 < 1 then Inr (m - 1) else gcd_loop ary (m - 1))"
  by pat_completeness auto
termination
  by (relation "measure (\<lambda>(ary, m). nat m)") auto

declare gcd_loop.simps [simp del]

definition node_Gcd :: "int list \<Rightarrow> int res" where
  "node_Gcd ary = (case ary of [] \<Rightarrow> Inl (Panic IndexOutOfRange) | a # as \<Rightarrow> gcd_loop ary (fold min ary a))"

fun queue_of :: "int \<Rightarrow> int list \<Rightarrow> int list" where
  "queue_of index [] = []"
| "queue_of index (k # ks) = replicate (nat k) index @ queue_of (index + 1) ks"

definition swap :: "int list \<Rightarrow> int \<Rightarrow> int \<Rightarrow> int list res" where
  "swap q x other =
     rbind (at_index q x) (\<lambda>temp. rbind (at_index q other) (\<lambda>o'. Inr ((q[nat x := o'])[nat other := temp])))"

fun shuffle :: "(nat \<Rightarrow> int) \<Rightarrow> int \<Rightarrow> nat list \<Rightarrow> int list \<Rightarrow> int list res" where
  "shuffle draw sm [] q = Inr q"
| "shuffle draw sm (i # is) q =
     rbind (go_mod sm (draw i + 1)) (\<lambda>other. rbind (swap q (draw i) other) (\<lambda>q'. shuffle draw sm is q'))"

definition InitBalancer :: "(nat \<Rightarrow> int) \<Rightarrow> (node, unit) act" where
  "InitBalancer draw =
     abind (aupd (\<lambda>n. n\<lparr>n_LastSlaveIndex := 0\<rparr>)) (\<lambda>_.
     abind (aget n_SlaveWeights) (\<lambda>ws.
     abind (alift (node_Gcd ws)) (\<lambda>g.
     abind (alift (rmap (\<lambda>w. go_div w g) ws)) (\<lambda>ks.
     let sm = foldl (\<lambda>s k. wrap64 (s + k)) 0 ks in
     abind (alift (if sm < 0 then Inl (Panic MakeNegativeLen) else Inr ())) (\<lambda>_.
     abind (aupd (\<lambda>n. n\<lparr>n_RoundRobinQ := queue_of 0 ks\<rparr>)) (\<lambda>_.
       if 1 < length ws then
         abind (alift (shuffle draw sm [0..<nat sm] (queue_of 0 ks))) (\<lambda>q.
           aupd (\<lambda>n. n\<lparr>n_RoundRobinQ := q\<rparr>))
       else aret ()))))))"

definition GetNextSlave :: "(node, nat option) act" where
  "GetNextSlave =
     abind (aget id) (\<lambda>n.
     let q = n_RoundRobinQ n; queueLen = int (length q) in
     if queueLen = 0 then alift (Inl (Err ErrNoDatabase))
     else if queueLen = 1 then alift (rbind (at_index q 0) (at_index (slaves n)))
     else
       abind (alift (go_mod (n_LastSlaveIndex n) queueLen)) (\<lambda>lastIndex.
       abind (aupd (\<lambda>n. n\<lparr>n_LastSlaveIndex := lastIndex\<rparr>)) (\<lambda>_.
       abind (alift (at_index q lastIndex)) (\<lambda>index.
         if int (length (slaves n)) \<le> index then alift (Inl (Err ErrNoDatabase))
         else
           abind (alift (at_index (slaves n) index)) (\<lambda>db.
           abind (alift (go_mod (lastIndex + 1) queueLen)) (\<lambda>nextIndex.
           abind (aupd (\<lambda>n. n\<lparr>n_LastSlaveIndex := nextIndex\<rparr>)) (\<lambda>_. aret db)))))))"

section \<open>Databases of a node\<close>

definition OpenDB :: "'f floats \<Rightarrow> (nat \<Rightarrow> dialer) \<Rightarrow> int \<Rightarrow> string \<Rightarrow> (node, nat option) act" where
  "OpenDB fo dial now addr =
     abind (aget n_Cfg) (\<lambda>cfg.
     abind (alift (Open fo dial now addr (nc_User cfg) (nc_Password cfg) [] (nc_MaxConnNum cfg))) alloc)"

text \<open>\<open>UpDB\<close>: a database that does not answer is closed and marked down, and not returned.\<close>

definition UpDB :: "'f floats \<Rightarrow> (nat \<Rightarrow> dialer) \<Rightarrow> int \<Rightarrow> string \<Rightarrow> (node, nat option) act" where
  "UpDB fo dial now addr =
     abind (OpenDB fo dial now addr) (\<lambda>p.
     abind (deref p) (\<lambda>d.
       case db_Ping fo (dial 0) now d of
         (Inl (Err e), d') \<Rightarrow>
           abind (store p ((db_Close d')\<lparr>db_state := Down\<rparr>)) (\<lambda>_. alift (Inl (Err e)))
       | (Inl (Panic x), d') \<Rightarrow> alift (Inl (Panic x))
       | (Inr _, d') \<Rightarrow> abind (store p (d'\<lparr>db_state := Up\<rparr>)) (\<lambda>_. aret p)))"

definition UpMaster :: "'f floats \<Rightarrow> (nat \<Rightarrow> dialer) \<Rightarrow> int \<Rightarrow> string \<Rightarrow> (node, unit) act" where
  "UpMaster fo dial now addr =
     abind (UpDB fo dial now addr) (\<lambda>p. aupd (\<lambda>n. n\<lparr>n_Master := p\<rparr>))"

text \<open>The position of the first slave with an address; a nil slave before it panics.\<close>

fun find_slave :: "string \<Rightarrow> nat \<Rightarrow> nat option list \<Rightarrow> (node, nat option) act" where
  "find_slave addr k [] = aret None"
| "find_slave addr k (p # ps) =
     abind (deref p) (\<lambda>d. if db_addr d = addr then aret (Some k) else find_slave addr (k + 1) ps)"

text \<open>
  \<open>UpSlave\<close> goes on after an error of \<open>UpDB\<close>, with a nil database: it replaces the slave of that address, or is appended.
\<close>

definition UpSlave :: "'f floats \<Rightarrow> (nat \<Rightarrow> dialer) \<Rightarrow> int \<Rightarrow> string \<Rightarrow> (node, unit) act" where
  "UpSlave fo dial now addr =
     atry (UpDB fo dial now addr) (\<lambda>r.
     let p = (case r of Inl _ \<Rightarrow> None | Inr p \<Rightarrow> p) in
     abind (aget slaves) (\<lambda>ss.
     abind (find_slave addr 0 ss) (\<lambda>k.
       case k of
         Some i \<Rightarrow> aupd (\<lambda>n. n\<lparr>n_Slave := Some (ss[i := p])\<rparr>)
       | None \<Rightarrow>
           abind (aupd (\<lambda>n. n\<lparr>n_Slave := Some (ss @ [p])\<rparr>)) (\<lambda>_.
             case r of Inl e \<Rightarrow> alift (Inl (Err e)) | Inr _ \<Rightarrow> aret ()))))"

definition DownMaster :: "string \<Rightarrow> int \<Rightarrow> (node, unit) act" where
  "DownMaster addr state =
     abind (aget n_Master) (\<lambda>m.
       if m = None then alift (Inl (Err ErrNoMasterDB))
       else abind (deref m) (\<lambda>d.
         if db_addr d \<noteq> addr then alift (Inl (Err ErrNoMasterDB))
         else store m ((db_Close d)\<lparr>db_state := state\<rparr>)))"

definition DownSlave :: "string \<Rightarrow> int \<Rightarrow> (node, unit) act" where
  "DownSlave addr state =
     abind (aget n_Slave) (\<lambda>s.
       case s of
         None \<Rightarrow> alift (Inl (Err ErrNoSlaveDB))
       | Some ss \<Rightarrow>
           abind (find_slave addr 0 ss) (\<lambda>k.
             case k of
               None \<Rightarrow> aret ()
             | Some i \<Rightarrow> abind (deref (ss ! i)) (\<lambda>d. store (ss ! i) ((db_Close d)\<lparr>db_state := state\<rparr>))))"

text \<open>The address and the weight of an entry \<open>addr@weight\<close>.\<close>

definition addr_of :: "string \<Rightarrow> string" where
  "addr_of s = hd (str_split (CHR ''@'') s)"

definition weight_of :: "string \<Rightarrow> int res" where
  "weight_of s =
     (case str_split (CHR ''@'') s of [_, w] \<Rightarrow> strconv_Atoi w | _ \<Rightarrow> Inr 1)"

fun slave_exists :: "string \<Rightarrow> nat option list \<Rightarrow> (node, bool) act" where
  "slave_exists addr [] = aret False"
| "slave_exists addr (p # ps) =
     abind (deref p) (\<lambda>d. if addr_of (db_addr d) = addr_of addr then aret True else slave_exists addr ps)"

text \<open>\<open>AddSlave\<close>: the weight is appended before the database is opened.\<close>

definition AddSlave :: "'f floats \<Rightarrow> (nat \<Rightarrow> dialer) \<Rightarrow> (nat \<Rightarrow> int) \<Rightarrow> int \<Rightarrow> string \<Rightarrow> (node, unit) act" where
  "AddSlave fo dial draw now addr =
     (if addr = [] then alift (Inl (Err ErrAddressNull))
      else
        abind (aget slaves) (\<lambda>ss.
        abind (slave_exists addr ss) (\<lambda>ex.
          if ex then alift (Inl (Err ErrSlaveExist))
          else
            abind (alift (weight_of addr)) (\<lambda>w.
            abind (aupd (\<lambda>n. n\<lparr>n_SlaveWeights := n_SlaveWeights n @ [w]\<rparr>)) (\<lambda>_.
            abind (OpenDB fo dial now (addr_of addr)) (\<lambda>p.
            abind (aupd (\<lambda>n. n\<lparr>n_Slave := Some (ss @ [p])\<rparr>)) (\<lambda>_.
              InitBalancer draw)))))))"

text \<open>The loop of \<open>DeleteSlave\<close> that keeps the other slaves, with the weights at their positions.\<close>

fun keep_slaves :: "string \<Rightarrow> int list \<Rightarrow> int \<Rightarrow> nat option list \<Rightarrow> (node, nat option list \<times> int list) act" where
  "keep_slaves addr ws i [] = aret ([], [])"
| "keep_slaves addr ws i (p # ps) =
     abind (deref p) (\<lambda>d.
       if db_addr d = addr then keep_slaves addr ws (i + 1) ps
       else
         abind (alift (at_index ws i)) (\<lambda>w.
         abind (keep_slaves addr ws (i + 1) ps) (\<lambda>(s, sw). aret (p # s, w # sw))))"

definition DeleteSlave :: "(nat \<Rightarrow> int) \<Rightarrow> string \<Rightarrow> (node, unit) act" where
  "DeleteSlave draw addr =
     abind (aget slaves) (\<lambda>ss.
       if ss = [] then alift (Inl (Err ErrNoSlaveDB))
       else
         abind (find_slave addr 0 ss) (\<lambda>k.
           if k = None then alift (Inl (Err ErrSlaveNotExist))
           else if length ss = 1 then aupd (\<lambda>n. n\<lparr>n_Slave := None, n_SlaveWeights := [], n_RoundRobinQ := []\<rparr>)
           else
             abind (aget n_SlaveWeights) (\<lambda>ws.
             abind (keep_slaves addr ws 0 ss) (\<lambda>(s, sw).
             abind (aupd (\<lambda>n. n\<lparr>n_Slave := Some s, n_SlaveWeights := sw\<rparr>)) (\<lambda>_.
               InitBalancer draw)))))"

definition ParseMaster :: "'f floats \<Rightarrow> (nat \<Rightarrow> dialer) \<Rightarrow> int \<Rightarrow> string \<Rightarrow> (node, unit) act" where
  "ParseMaster fo dial now masterStr =
     (if masterStr = [] then alift (Inl (Err ErrNoMasterDB))
      else
        atry (OpenDB fo dial now masterStr) (\<lambda>r.
          case r of
            Inl e \<Rightarrow> abind (aupd (\<lambda>n. n\<lparr>n_Master := None\<rparr>)) (\<lambda>_. alift (Inl (Err e)))
          | Inr p \<Rightarrow> aupd (\<lambda>n. n\<lparr>n_Master := p\<rparr>)))"

fun parse_slaves :: "'f floats \<Rightarrow> (nat \<Rightarrow> nat \<Rightarrow> dialer) \<Rightarrow> int \<Rightarrow> nat \<Rightarrow> string list \<Rightarrow> (node, unit) act" where
  "parse_slaves fo dial now k [] = aret ()"
| "parse_slaves fo dial now k (s # ss) =
     abind (alift (weight_of s)) (\<lambda>w.
     abind (aupd (\<lambda>n. n\<lparr>n_SlaveWeights := n_SlaveWeights n @ [w]\<rparr>)) (\<lambda>_.
     abind (OpenDB fo (dial k) now (addr_of s)) (\<lambda>p.
     abind (aupd (\<lambda>n. n\<lparr>n_Slave := Some (slaves n @ [p])\<rparr>)) (\<lambda>_.
       parse_slaves fo dial now (k + 1) ss))))"

definition ParseSlave :: "'f floats \<Rightarrow> (nat \<Rightarrow> nat \<Rightarrow> dialer) \<Rightarrow> (nat \<Rightarrow> int) \<Rightarrow> int \<Rightarrow> string \<Rightarrow> (node, unit) act" where
  "ParseSlave fo dial draw now slaveStr =
     (if slaveStr = [] then aret ()
      else
        abind (aupd (\<lambda>n. n\<lparr>n_Slave := Some [], n_SlaveWeights := []\<rparr>)) (\<lambda>_.
        abind (parse_slaves fo dial now 0 (str_split (CHR '','') (trim_set '','' slaveStr))) (\<lambda>_.
          InitBalancer draw)))"

section \<open>Connections and checks\<close>

text \<open>
  A \<open>BackendConn\<close>: a connection, until it is given back, and the database that it is from. \<open>GetConn\<close> of a database is a step of
  the node: \<open>None\<close> means that the call waits for a connection.
\<close>

record backend_conn =
  bk_Conn :: "conn option"
  bk_db :: "nat option"

definition GetConn :: "'f floats \<Rightarrow> dialer \<Rightarrow> int \<Rightarrow> bool \<Rightarrow> nat option \<Rightarrow> node \<Rightarrow> (backend_conn res \<times> node) option" where
  "GetConn fo dial now pick p n =
     (case deref p n of
        (Inl e, n') \<Rightarrow> Some (Inl e, n')
      | (Inr d, n') \<Rightarrow>
          (case PopConn fo dial now pick d of
             None \<Rightarrow> None
           | Some (r, d') \<Rightarrow> Some (rbind r (\<lambda>co. Inr \<lparr>bk_Conn = Some co, bk_db = p\<rparr>), snd (store p d' n'))))"

definition GetMasterConn :: "'f floats \<Rightarrow> dialer \<Rightarrow> int \<Rightarrow> bool \<Rightarrow> node \<Rightarrow> (backend_conn res \<times> node) option" where
  "GetMasterConn fo dial now pick n =
     (case n_Master n of
        None \<Rightarrow> Some (Inl (Err ErrNoMasterConn), n)
      | Some _ \<Rightarrow>
          (case deref (n_Master n) n of
             (Inl e, n') \<Rightarrow> Some (Inl e, n')
           | (Inr d, n') \<Rightarrow>
               if db_state d = Down then Some (Inl (Err ErrMasterDown), n')
               else GetConn fo dial now pick (n_Master n) n'))"

definition GetSlaveConn :: "'f floats \<Rightarrow> dialer \<Rightarrow> int \<Rightarrow> bool \<Rightarrow> node \<Rightarrow> (backend_conn res \<times> node) option" where
  "GetSlaveConn fo dial now pick n =
     (case GetNextSlave n of
        (Inl e, n') \<Rightarrow> Some (Inl e, n')
      | (Inr None, n') \<Rightarrow> Some (Inl (Err ErrNoSlaveDB), n')
      | (Inr (Some i), n') \<Rightarrow>
          (case deref (Some i) n' of
             (Inl e, n'') \<Rightarrow> Some (Inl e, n'')
           | (Inr d, n'') \<Rightarrow>
               if db_state d = Down then Some (Inl (Err ErrSlaveDown), n'')
               else GetConn fo dial now pick (Some i) n''))"

text \<open>A database after a successful ping, and the test for one that has not answered for too long.\<close>

definition alive :: "int \<Rightarrow> db \<Rightarrow> db" where
  "alive now d = (let d1 = d\<lparr>db_lastPing := now\<rparr> in if db_state d1 = ManualDown then d1 else d1\<lparr>db_state := Up\<rparr>)"

definition silent :: "int \<Rightarrow> node \<Rightarrow> db \<Rightarrow> bool" where
  "silent now n d \<longleftrightarrow> 0 < n_DownAfterNoAlive n \<and> n_DownAfterNoAlive n div 10 ^ 9 < now - db_lastPing d"

text \<open>
  \<open>checkMaster\<close>. The pointer \<open>db\<close> is read once: after \<open>UpMaster\<close> it is the old database that is marked as alive.
\<close>

definition checkMaster :: "'f floats \<Rightarrow> (nat \<Rightarrow> dialer) \<Rightarrow> int \<Rightarrow> (node, unit) act" where
  "checkMaster fo dial now =
     abind (aget n_Master) (\<lambda>m.
       if m = None then aret ()
       else
         abind (deref m) (\<lambda>d.
           case db_Ping fo (dial 0) now d of
             (Inl (Panic x), d') \<Rightarrow> alift (Inl (Panic x))
           | (Inl (Err e), d') \<Rightarrow>
               abind (store m d') (\<lambda>_.
               abind (aget id) (\<lambda>n.
                 if silent now n d' then atry (DownMaster (db_addr d') Down) (\<lambda>_. aret ()) else aret ()))
           | (Inr _, d') \<Rightarrow>
               abind (store m d') (\<lambda>_.
                 if db_state d' = Down then
                   atry (UpMaster fo dial now (db_addr d')) (\<lambda>r.
                     case r of Inl e \<Rightarrow> aret () | Inr _ \<Rightarrow> abind (deref m) (\<lambda>d2. store m (alive now d2)))
                 else store m (alive now d'))))"

fun check_slaves :: "'f floats \<Rightarrow> (nat \<Rightarrow> nat \<Rightarrow> dialer) \<Rightarrow> int \<Rightarrow> nat \<Rightarrow> nat option list \<Rightarrow> (node, unit) act" where
  "check_slaves fo dial now k [] = aret ()"
| "check_slaves fo dial now k (p # ps) =
     abind (deref p) (\<lambda>d.
     abind (case db_Ping fo (dial k 0) now d of
              (Inl (Panic x), d') \<Rightarrow> alift (Inl (Panic x))
            | (Inl (Err e), d') \<Rightarrow>
                abind (store p d') (\<lambda>_.
                abind (aget id) (\<lambda>n.
                  if silent now n d' then atry (DownSlave (db_addr d') Down) (\<lambda>_. aret ()) else aret ()))
            | (Inr _, d') \<Rightarrow>
                abind (store p d') (\<lambda>_.
                abind (if db_state d' = Down then atry (UpSlave fo (dial k) now (db_addr d')) (\<lambda>_. aret ()) else aret ()) (\<lambda>_.
                abind (deref p) (\<lambda>d2. store p (alive now d2))))) (\<lambda>_.
     check_slaves fo dial now (k + 1) ps))"

definition checkSlave :: "'f floats \<Rightarrow> (nat \<Rightarrow> nat \<Rightarrow> dialer) \<Rightarrow> int \<Rightarrow> (node, unit) act" where
  "checkSlave fo dial now = abind (aget slaves) (check_slaves fo dial now 0)"

section \<open>The greatest common divisor\<close>

lemma is_common_dvd:
  assumes "0 < m" and "\<forall>a \<in> set as. 0 < a"
  shows "is_common as m = Inr (\<forall>a \<in> set as. m dvd a)"
  using assms by (induction as) (auto simp: dvd_eq_mod_eq_0)

lemma gcd_loop_greatest:
  assumes "0 < m" and "\<forall>a \<in> set ary. 0 < a"
  shows "\<exists>g. gcd_loop ary m = Inr g \<and> 0 < g \<and> (\<forall>a \<in> set ary. g dvd a) \<and> (\<forall>d. d \<le> m \<longrightarrow> (\<forall>a \<in> set ary. d dvd a) \<longrightarrow> d \<le> g)"
  using assms(1)
proof (induction "nat m" arbitrary: m)
  case (Suc k)
  note c = is_common_dvd [OF Suc.prems assms(2)]
  show ?case
  proof (cases "\<forall>a \<in> set ary. m dvd a")
    case True
    then show ?thesis using c Suc.prems by (subst gcd_loop.simps) auto
  next
    case False
    then have "m \<noteq> 1" by auto
    then have m: "0 < m - 1" using Suc.prems by simp
    moreover have "k = nat (m - 1)" using Suc.hyps(2) by simp
    ultimately obtain g where g: "gcd_loop ary (m - 1) = Inr g" "0 < g" "\<forall>a \<in> set ary. g dvd a"
      "\<forall>d. d \<le> m - 1 \<longrightarrow> (\<forall>a \<in> set ary. d dvd a) \<longrightarrow> d \<le> g"
      using Suc.hyps(1) by blast
    have "d \<le> g" if "d \<le> m" "\<forall>a \<in> set ary. d dvd a" for d
      using g(4) that False by (cases "d = m") auto
    moreover have "is_common ary m = Inr False" using c False by simp
    ultimately show ?thesis using g m by (subst gcd_loop.simps) auto
  qed
qed simp

lemma least_weight: "fold min as a = Min (set (a # as))" for a :: int
proof (induction as arbitrary: a)
  case (Cons b as)
  then show ?case by (cases "as = []") (simp_all add: min.assoc min.commute min.left_commute)
qed simp

lemma node_Gcd_eq:
  assumes "ws \<noteq> []" and "\<forall>w \<in> set ws. 0 < w"
  shows "node_Gcd ws = Inr (Gcd (set ws))"
proof -
  obtain w ws' where w: "ws = w # ws'" using assms(1) by (cases ws) auto
  let ?m = "Min (set ws)"
  have m: "?m \<in> set ws" using w by (intro Min_in) auto
  have "0 < ?m" using assms(2) m by blast
  then obtain g where g: "gcd_loop ws ?m = Inr g" "0 < g" "\<forall>a \<in> set ws. g dvd a" "\<forall>d. d \<le> ?m \<longrightarrow> (\<forall>a \<in> set ws. d dvd a) \<longrightarrow> d \<le> g"
    using gcd_loop_greatest assms(2) by blast
  have d: "\<forall>a \<in> set ws. Gcd (set ws) dvd a" by simp
  with m \<open>0 < ?m\<close> have "Gcd (set ws) \<le> ?m" by (metis zdvd_imp_le)
  with d g(4) have 1: "Gcd (set ws) \<le> g" by blast
  have "g dvd Gcd (set ws)" using g(3) by (simp add: Gcd_greatest)
  moreover have "0 < Gcd (set ws)" using m \<open>0 < ?m\<close> d by (metis Gcd_0_iff Gcd_int_greater_eq_0 assms(2) less_irrefl order_le_less singletonD subsetD)
  ultimately have "g \<le> Gcd (set ws)" by (rule zdvd_imp_le)
  with 1 have "g = Gcd (set ws)" by simp
  moreover have "fold min ws w = ?m" using w least_weight [of ws w] by simp
  ultimately show ?thesis using w g(1) by (simp add: node_Gcd_def)
qed

section \<open>The queue\<close>

lemma count_queue_of: "count_list (queue_of i ks) (i + int j) = (if j < length ks then nat (ks ! j) else 0)"
proof (induction ks arbitrary: i j)
  case (Cons k ks)
  have z: "count_list (replicate n a) b = (if a = b then n else 0)" for n and a b :: int by (induction n) auto
  have r: "x \<in> set (queue_of i' ks') \<Longrightarrow> i' \<le> x" for x i' ks' by (induction ks' arbitrary: i') fastforce+
  show ?case
  proof (cases j)
    case 0
    have "count_list (queue_of (i + 1) ks) i = 0" using r [of i "i + 1" ks] by (auto simp: count_list_0_iff)
    then show ?thesis using 0 z by simp
  next
    case (Suc j')
    with Cons.IH [of "i + 1" j'] z show ?thesis by (simp add: algebra_simps)
  qed
qed simp

lemma queue_of_range: "x \<in> set (queue_of i ks) \<Longrightarrow> i \<le> x \<and> x < i + int (length ks)"
  by (induction ks arbitrary: i) (fastforce split: if_splits)+

lemma length_queue_of: "\<forall>k \<in> set ks. 0 \<le> k \<Longrightarrow> int (length (queue_of i ks)) = sum_list ks"
  by (induction ks arbitrary: i) auto

lemma shuffle_perm:
  assumes "\<forall>i \<in> set is. 0 \<le> draw i \<and> draw i < sm" and "int (length q) = sm"
  shows "\<exists>q'. shuffle draw sm is q = Inr q' \<and> mset q' = mset q"
  using assms
proof (induction "is" arbitrary: q)
  case (Cons i js)
  let ?x = "draw i" and ?o = "sm mod (draw i + 1)"
  have x: "0 \<le> ?x" "?x < sm" "0 \<le> ?o" "?o < ?x + 1" using Cons.prems pos_mod_bound [of "?x + 1" sm] by auto
  let ?q = "q[nat ?x := q ! nat ?o, nat ?o := q ! nat ?x]"
  have s: "swap q ?x ?o = Inr ?q" using x Cons.prems(2) by (simp add: swap_def at_index_def)
  have m: "mset ?q = mset q" using x Cons.prems(2) by (intro mset_swap) auto
  obtain q' where "shuffle draw sm js ?q = Inr q'" "mset q' = mset ?q"
    using Cons.IH [of ?q] Cons.prems by auto
  with s m x show ?case by simp
qed simp

section \<open>Round robin\<close>

lemma GetNextSlave_eq:
  assumes "n_RoundRobinQ n = q" and "n_LastSlaveIndex n = int j" and "j < length q"
    and "\<forall>x \<in> set q. 0 \<le> x \<and> x < int (length (slaves n))"
  shows "GetNextSlave n = (Inr (slaves n ! nat (q ! j)), n\<lparr>n_LastSlaveIndex := int ((j + 1) mod length q)\<rparr>)"
proof -
  have x: "at_index (slaves n) (q ! j) = Inr (slaves n ! nat (q ! j))" "q ! j < int (length (slaves n))"
    using assms(3,4) by (auto simp: at_index_def)
  have i: "at_index q (int j) = Inr (q ! j)" using assms(3) by simp
  show ?thesis
  proof (cases "length q = 1")
    case True
    then have "q \<noteq> []" by auto
    with True assms(1-3) x i show ?thesis by (simp add: GetNextSlave_def alift_def)
  next
    case False
    have m: "go_mod (int j) (int (length q)) = Inr (int j)" "go_mod (int j + 1) (int (length q)) = Inr (int ((j + 1) mod length q))"
      using assms(3) by (simp_all add: zmod_int go_mod_pos [of "int j" "int (length q)"] go_mod_pos [of "int j + 1" "int (length q)"]
          length_greater_0_conv [symmetric] add.commute del: length_greater_0_conv)
    have "q \<noteq> []" using assms(3) by auto
    with False assms(1-3) x i m show ?thesis
      by (simp add: GetNextSlave_def aret_def Let_def)
  qed
qed

fun next_slaves :: "nat \<Rightarrow> (node, nat option list) act" where
  "next_slaves 0 = aret []"
| "next_slaves (Suc k) = abind GetNextSlave (\<lambda>p. abind (next_slaves k) (\<lambda>ps. aret (p # ps)))"

lemma next_slaves_eq:
  assumes "n_RoundRobinQ n = q" and "n_LastSlaveIndex n = int j" and "j < length q"
    and "\<forall>x \<in> set q. 0 \<le> x \<and> x < int (length (slaves n))"
  shows "\<exists>m. next_slaves k n = (Inr (map (\<lambda>t. slaves n ! nat (q ! ((j + t) mod length q))) [0..<k]), m)"
  using assms
proof (induction k arbitrary: n j)
  case (Suc k)
  let ?n = "n\<lparr>n_LastSlaveIndex := int ((j + 1) mod length q)\<rparr>"
  have s: "slaves ?n = slaves n" by (simp add: slaves_def)
  obtain m where m: "next_slaves k ?n = (Inr (map (\<lambda>t. slaves n ! nat (q ! (((j + 1) mod length q + t) mod length q))) [0..<k]), m)"
    using Suc.IH [of ?n "(j + 1) mod length q", unfolded s] Suc.prems mod_less_divisor [of "length q" "Suc j"]
    by (auto simp: length_greater_0_conv [symmetric] simp del: length_greater_0_conv mod_less_divisor)
  have e: "map (\<lambda>t. slaves n ! nat (q ! ((j + t) mod length q))) [0..<Suc k] =
      slaves n ! nat (q ! j) # map (\<lambda>t. slaves n ! nat (q ! (((j + 1) mod length q + t) mod length q))) [0..<k]"
    using Suc.prems(3) by (simp add: map_upt_Suc mod_add_left_eq del: upt_Suc)
  show ?case
    using GetNextSlave_eq [OF Suc.prems] m by (simp only: e) (simp add: abind_Inr aret_def)
qed (simp add: aret_def)

lemma mset_rotate1: "mset (rotate1 xs) = mset xs"
  by (cases xs) simp_all

text \<open>A full round, starting anywhere, visits every position of the queue once.\<close>

lemma full_round:
  assumes "q \<noteq> []"
  shows "mset (map (\<lambda>t. f (q ! ((k + t) mod length q))) [0..<length q]) = mset (map f q)"
proof -
  have "map (\<lambda>t. f (q ! ((k + t) mod length q))) [0..<length q] = map f (rotate k q)"
    by (rule nth_equalityI) (simp_all add: nth_rotate add.commute)
  moreover have "mset (rotate k q) = mset q" by (induction k) (simp_all add: mset_rotate1)
  ultimately show ?thesis by (metis mset_map)
qed

lemma foldl_wrap64_bounded:
  assumes "\<forall>x \<in> set ks. 0 \<le> x" and "0 \<le> a" and "a + sum_list ks \<le> MaxInt64"
  shows "foldl (\<lambda>s x. wrap64 (s + x)) a ks = a + sum_list ks"
  using assms
proof (induction ks arbitrary: a)
  case (Cons k ks)
  moreover have "0 \<le> sum_list ks" using Cons.prems(1) by (intro sum_list_nonneg) simp
  ultimately show ?case by (simp add: is_int64_def add.assoc)
qed simp

lemma InitBalancer_queue:
  assumes "n_SlaveWeights n = ws" and "ws \<noteq> []" and "\<forall>w \<in> set ws. 0 < w" and "sum_list ws \<le> MaxInt64"
    and "ks = map (\<lambda>w. w div Gcd (set ws)) ws" and "\<forall>i. 0 \<le> draw i \<and> draw i < sum_list ks"
  shows "\<exists>q. InitBalancer draw n = (Inr (), n\<lparr>n_LastSlaveIndex := 0, n_RoundRobinQ := q\<rparr>) \<and> mset q = mset (queue_of 0 ks)"
proof -
  let ?g = "Gcd (set ws)"
  have g: "0 < ?g" using assms(2,3) by (metis Gcd_0_iff Gcd_int_greater_eq_0 last_in_set less_irrefl order_le_less singletonD subsetD)
  have d: "rmap (\<lambda>w. go_div w ?g) ws = Inr ks" using assms(3,5) g by (auto intro!: rmap_total simp: less_imp_le)
  have k: "0 \<le> w div ?g \<and> w div ?g \<le> w" if "w \<in> set ws" for w
    using that assms(3) g zdiv_mono2 [of w 1 ?g] by (auto simp: pos_imp_zdiv_nonneg_iff less_imp_le)
  have ks: "\<forall>x \<in> set ks. 0 \<le> x" using k assms(5) by auto
  have "sum_list (map (\<lambda>w. w div ?g) ws) \<le> sum_list (map (\<lambda>w. w) ws)" using k by (intro sum_list_mono) blast
  then have "sum_list ks \<le> sum_list ws" using assms(5) by simp
  then have "sum_list ks \<le> MaxInt64" using assms(4) by simp
  then have f: "foldl (\<lambda>s x. wrap64 (s + x)) 0 ks = sum_list ks" using ks foldl_wrap64_bounded by simp
  have nn: "0 \<le> sum_list ks" using ks by (intro sum_list_nonneg) simp
  obtain q where q: "shuffle draw (sum_list ks) [0..<nat (sum_list ks)] (queue_of 0 ks) = Inr q" "mset q = mset (queue_of 0 ks)"
    using shuffle_perm [of "[0..<nat (sum_list ks)]" draw "sum_list ks" "queue_of 0 ks"] assms(6) length_queue_of [OF ks] by auto
  show ?thesis
    using assms(1) node_Gcd_eq [OF assms(2,3)] d f nn q
    by (auto simp: InitBalancer_def Let_def aupd_def aret_def)
qed

lemma count_distinct_nth:
  assumes "distinct ss" and "i < length ss" and "\<forall>x \<in> set q. 0 \<le> x \<and> x < int (length ss)"
  shows "count_list (map (\<lambda>x. ss ! nat x) q) (ss ! i) = count_list q (int i)"
  using assms(3)
proof (induction q)
  case (Cons x q)
  then have "ss ! nat x = ss ! i \<longleftrightarrow> x = int i" using assms(1,2) nth_eq_iff_index_eq by fastforce
  with Cons show ?case by simp
qed simp

lemma count_list_mset: "mset xs = mset ys \<Longrightarrow> count_list xs x = count_list ys x"
  by (metis count_mset)

text \<open>
  C35. Slaves are chosen by weight. After \<open>InitBalancer\<close>, whatever the random numbers are, the calls of \<open>GetNextSlave\<close> go round: in every
  full round of consecutive calls, after any number \<open>k\<close> of earlier calls, each slave is returned as often as its weight divided by the
  greatest common divisor of the weights.
\<close>

theorem slaves_by_weight:
  assumes "n_SlaveWeights n = ws" and "ws \<noteq> []" and "\<forall>w \<in> set ws. 0 < w" and "sum_list ws \<le> MaxInt64"
    and "n_Slave n = Some ss" and "length ss = length ws" and "distinct ss"
    and "\<forall>i. 0 \<le> draw i \<and> draw i < (\<Sum>w\<leftarrow>ws. w div Gcd (set ws))"
  shows "\<exists>n' rs m. InitBalancer draw n = (Inr (), n') \<and> next_slaves (k + nat (\<Sum>w\<leftarrow>ws. w div Gcd (set ws))) n' = (Inr rs, m)
    \<and> (\<forall>i < length ws. count_list (drop k rs) (ss ! i) = nat (ws ! i div Gcd (set ws)))"
proof -
  let ?ks = "map (\<lambda>w. w div Gcd (set ws)) ws"
  have ks: "\<forall>x \<in> set ?ks. 0 \<le> x" using assms(3) by (auto simp: div_int_pos_iff less_imp_le)
  obtain q where q: "InitBalancer draw n = (Inr (), n\<lparr>n_LastSlaveIndex := 0, n_RoundRobinQ := q\<rparr>)" "mset q = mset (queue_of 0 ?ks)"
    using InitBalancer_queue [OF assms(1-4) refl assms(8)] by blast
  let ?n = "n\<lparr>n_LastSlaveIndex := 0, n_RoundRobinQ := q\<rparr>"
  have s: "slaves ?n = ss" using assms(5) by (simp add: slaves_def)
  have l: "int (length q) = sum_list ?ks" using length_queue_of [OF ks, of 0] mset_eq_length [OF q(2)] by simp
  moreover have "0 < sum_list ?ks" using assms(8) order_le_less_trans by blast
  ultimately have q0: "q \<noteq> []" by auto
  have r: "\<forall>x \<in> set q. 0 \<le> x \<and> x < int (length ss)"
    using queue_of_range [of _ 0 ?ks] assms(6) mset_eq_setD [OF q(2)] by auto
  let ?f = "\<lambda>x. ss ! nat x"
  obtain m where m: "next_slaves (k + length q) ?n = (Inr (map (\<lambda>t. ?f (q ! (t mod length q))) [0..<k + length q]), m)"
    using next_slaves_eq [of ?n q 0 "k + length q"] q0 r s by auto
  have "drop k (map (\<lambda>t. ?f (q ! (t mod length q))) [0..<k + length q]) = map (\<lambda>t. ?f (q ! ((k + t) mod length q))) [0..<length q]"
    by (rule nth_equalityI) simp_all
  then have d: "mset (drop k (map (\<lambda>t. ?f (q ! (t mod length q))) [0..<k + length q])) = mset (map ?f q)"
    using full_round [OF q0, of ?f k] by simp
  have c: "count_list (drop k (map (\<lambda>t. ?f (q ! (t mod length q))) [0..<k + length q])) (ss ! i) = nat (ws ! i div Gcd (set ws))"
    if "i < length ws" for i
    using count_list_mset [OF d, of "ss ! i"] count_distinct_nth [OF assms(7) _ r, of i] assms(6) that
      count_list_mset [OF q(2), of "int i"] count_queue_of [of 0 ?ks i] by simp
  from q(1) m c l show ?thesis by (metis nat_int)
qed

definition sample_node :: node where
  "sample_node = \<lparr>n_Cfg = \<lparr>nc_Name = ''node1'', nc_DownAfterNoAlive = 32, nc_MaxConnNum = 8, nc_User = ''u'', nc_Password = [],
       nc_Master = ''m:3306'', nc_Slave = ''a:3306@2,b:3306@4''\<rparr>,
     n_dbs = [], n_Master = None, n_Slave = Some [Some 1, Some 2], n_LastSlaveIndex = 0, n_RoundRobinQ = [], n_SlaveWeights = [2, 4],
     n_DownAfterNoAlive = 0, n_Online = True\<rparr>"

theorem slaves_by_weight_witness:
  "\<exists>n' rs m. InitBalancer (\<lambda>_. 1) sample_node = (Inr (), n') \<and> next_slaves (5 + 3) n' = (Inr rs, m)
    \<and> count_list (drop 5 rs) (Some 1) = 1 \<and> count_list (drop 5 rs) (Some 2) = 2"
proof -
  have "Gcd (set [2, 4 :: int]) = 2" by simp
  then show ?thesis
    using slaves_by_weight [of sample_node "[2, 4]" "[Some 1, Some 2]" "\<lambda>_. 1" 5]
    by (fastforce simp: sample_node_def less_Suc_eq numeral_2_eq_2)
qed

section \<open>Failures\<close>

text \<open>
  When a slave cannot be brought up, \<open>UpSlave\<close> puts nil in its place and returns no error. The next operation that looks at the
  addresses of the slaves panics.
\<close>

lemma up_slave_stores_nil:
  assumes "UpDB fo dial now addr n = (Inl (Err e), n1)" and "find_slave addr 0 (slaves n1) n1 = (Inr (Some i), n1)"
  shows "UpSlave fo dial now addr n = (Inr (), n1\<lparr>n_Slave := Some ((slaves n1)[i := None])\<rparr>)"
  using assms by (simp add: UpSlave_def atry_def abind_Inr Let_def aupd_def)

lemma nil_slave_panics:
  assumes "n_Slave n = Some (None # ss)"
  shows "fst (DownSlave addr st n) = Inl (Panic NilDereference)" "addr' \<noteq> [] \<Longrightarrow> fst (AddSlave fo dial draw now addr' n) = Inl (Panic NilDereference)"
  using assms by (simp_all add: DownSlave_def AddSlave_def slaves_def deref_def abind_Inl)

text \<open>When the database of a new slave cannot be opened, its weight stays: the weights no longer belong to the slaves.\<close>

lemma failed_add_keeps_weight:
  assumes "addr \<noteq> []" and "slave_exists addr (slaves n) n = (Inr False, n)" and "weight_of addr = Inr w"
    and "Open fo dial now (addr_of addr) (nc_User (n_Cfg n)) (nc_Password (n_Cfg n)) [] (nc_MaxConnNum (n_Cfg n)) = Inl (Err e)"
  shows "AddSlave fo dial draw now addr n = (Inl (Err e), n\<lparr>n_SlaveWeights := n_SlaveWeights n @ [w]\<rparr>)"
  using assms by (simp add: AddSlave_def OpenDB_def abind_Inr abind_Inl)

text \<open>A weight of zero, which the configuration allows, panics at the start.\<close>

lemma zero_weight_panics: "node_Gcd [2, 0] = Inl (Panic DivideByZero)"
  by code_simp

end
