(* ===== verification/Go_Step.thy ===== *)
theory Go_Step
  imports Go_Act
begin

text \<open>
  Goroutines that take connections from a pool may wait, and a panic in a goroutine without \<open>recover\<close> ends the process. A step
  is an action with these two further outcomes. Deferred calls and \<open>recover\<close> are combinators of steps, and a rule for each of
  them carries invariants through the handlers.
\<close>

datatype ('s, 'a) outcome = Done "'a res" 's | Waits | Crashes panic

type_synonym ('s, 'a) step = "'s \<Rightarrow> ('s, 'a) outcome"

definition sact :: "('s, 'a) act \<Rightarrow> ('s, 'a) step" where
  "sact m s = (case m s of (r, t) \<Rightarrow> Done r t)"

definition sbind :: "('s, 'a) step \<Rightarrow> ('a \<Rightarrow> ('s, 'b) step) \<Rightarrow> ('s, 'b) step" where
  "sbind m f s =
     (case m s of
        Done (Inr x) t \<Rightarrow> f x t
      | Done (Inl e) t \<Rightarrow> Done (Inl e) t
      | Waits \<Rightarrow> Waits
      | Crashes p \<Rightarrow> Crashes p)"

definition sret :: "'a \<Rightarrow> ('s, 'a) step" where
  "sret x s = Done (Inr x) s"

definition sfail :: "goerr \<Rightarrow> ('s, 'a) step" where
  "sfail e s = Done (Inl (Err e)) s"

definition slift :: "'a res \<Rightarrow> ('s, 'a) step" where
  "slift r s = Done r s"

definition sget :: "('s \<Rightarrow> 'a) \<Rightarrow> ('s, 'a) step" where
  "sget f s = Done (Inr (f s)) s"

definition supd :: "('s \<Rightarrow> 's) \<Rightarrow> ('s, unit) step" where
  "supd f s = Done (Inr ()) (f s)"

text \<open>A call whose error the caller handles.\<close>

definition stry :: "('s, 'a) step \<Rightarrow> (goerr + 'a \<Rightarrow> ('s, 'b) step) \<Rightarrow> ('s, 'b) step" where
  "stry m f s =
     (case m s of
        Done (Inr x) t \<Rightarrow> f (Inr x) t
      | Done (Inl (Err e)) t \<Rightarrow> f (Inl e) t
      | Done (Inl (Panic p)) t \<Rightarrow> Done (Inl (Panic p)) t
      | Waits \<Rightarrow> Waits
      | Crashes p \<Rightarrow> Crashes p)"

text \<open>\<open>defer d; m\<close>: the deferred call runs after \<open>m\<close> in every case, its own result is dropped.\<close>

definition sdefer :: "('s, unit) step \<Rightarrow> ('s, 'a) step \<Rightarrow> ('s, 'a) step" where
  "sdefer d m s =
     (case m s of
        Done r t \<Rightarrow>
          (case d t of
             Done (Inl (Panic p)) u \<Rightarrow> Done (Inl (Panic p)) u
           | Done _ u \<Rightarrow> Done r u
           | Waits \<Rightarrow> Waits
           | Crashes p \<Rightarrow> Crashes p)
      | Waits \<Rightarrow> Waits
      | Crashes p \<Rightarrow> Crashes p)"

text \<open>A deferred function with \<open>recover\<close> that turns a panic into an error.\<close>

definition srecover :: "goerr \<Rightarrow> ('s, 'a) step \<Rightarrow> ('s, 'a) step" where
  "srecover e m s = (case m s of Done (Inl (Panic p)) t \<Rightarrow> Done (Inl (Err e)) t | x \<Rightarrow> x)"

lemmas step_defs = sret_def sfail_def slift_def sget_def supd_def sact_def

lemma sbind_sret [simp]: "sbind (sret x) f s = f x s"
  by (simp add: sbind_def sret_def)

lemma sbind_sget [simp]: "sbind (sget g) f s = f (g s) s"
  by (simp add: sbind_def sget_def)

lemma sbind_supd [simp]: "sbind (supd g) f s = f () (g s)"
  by (simp add: sbind_def supd_def)

lemma sbind_slift [simp]: "sbind (slift (Inr x)) f s = f x s" "sbind (slift (Inl e)) f s = Done (Inl e) s"
  by (simp_all add: sbind_def slift_def)

lemma sbind_Done: "m s = Done (Inr x) t \<Longrightarrow> sbind m f s = f x t"
  by (simp add: sbind_def)

lemma sbind_cong [fundef_cong]:
  "s = s' \<Longrightarrow> m s' = m' s' \<Longrightarrow> (\<And>x t. m' s' = Done (Inr x) t \<Longrightarrow> f x t = g x t) \<Longrightarrow> sbind m f s = sbind m' g s'"
  by (auto simp: sbind_def split: outcome.splits sum.splits)

lemma sbind_DoneE:
  assumes "sbind m f s = Done r u"
  obtains (stops) e where "m s = Done (Inl e) u" "r = Inl e" | (goes) x t where "m s = Done (Inr x) t" "f x t = Done r u"
  using assms by (auto simp: sbind_def split: outcome.splits sum.splits)

section \<open>Triples\<close>

text \<open>
  \<open>triple P m Q\<close>: from a state with \<open>P\<close>, the step \<open>m\<close> ends, if it ends, with a result and a state that satisfy \<open>Q\<close>.
\<close>

definition triple :: "('s \<Rightarrow> bool) \<Rightarrow> ('s, 'a) step \<Rightarrow> ('a res \<Rightarrow> 's \<Rightarrow> bool) \<Rightarrow> bool" where
  "triple P m Q \<longleftrightarrow> (\<forall>s. P s \<longrightarrow> (case m s of Done r t \<Rightarrow> Q r t | _ \<Rightarrow> True))"

lemma tripleI: "(\<And>s r t. P s \<Longrightarrow> m s = Done r t \<Longrightarrow> Q r t) \<Longrightarrow> triple P m Q"
  by (auto simp: triple_def split: outcome.splits)

lemma tripleD: "triple P m Q \<Longrightarrow> P s \<Longrightarrow> m s = Done r t \<Longrightarrow> Q r t"
  by (fastforce simp: triple_def)

lemma triple_conseq: "triple P m Q \<Longrightarrow> (\<And>s. P' s \<Longrightarrow> P s) \<Longrightarrow> (\<And>r s. Q r s \<Longrightarrow> Q' r s) \<Longrightarrow> triple P' m Q'"
  by (metis tripleI tripleD)

lemma triple_sbind:
  assumes "triple P m R" and "\<And>x. triple (R (Inr x)) (f x) Q" and "\<And>e s. R (Inl e) s \<Longrightarrow> Q (Inl e) s"
  shows "triple P (sbind m f) Q"
proof (rule tripleI)
  fix s r u assume s: "P s" and b: "sbind m f s = Done r u"
  from b show "Q r u"
  proof (cases rule: sbind_DoneE)
    case (stops e)
    with tripleD [OF assms(1) s stops(1)] assms(3) show ?thesis by simp
  next
    case (goes x t)
    from tripleD [OF assms(1) s goes(1)] have "R (Inr x) t" .
    with tripleD [OF assms(2)] goes(2) show ?thesis by blast
  qed
qed

lemma triple_stry:
  assumes "triple P m R" and "\<And>x. triple (R (Inr x)) (f (Inr x)) Q" and "\<And>e. triple (R (Inl (Err e))) (f (Inl e)) Q"
    and "\<And>p s. R (Inl (Panic p)) s \<Longrightarrow> Q (Inl (Panic p)) s"
  shows "triple P (stry m f) Q"
proof (rule tripleI)
  fix s r u assume s: "P s" and b: "stry m f s = Done r u"
  show "Q r u"
  proof (cases "m s")
    case (Done r' t)
    note m = tripleD [OF assms(1) s Done]
    show ?thesis
    proof (cases r')
      case (Inr x)
      with b Done m tripleD [OF assms(2)] show ?thesis by (simp add: stry_def)
    next
      case (Inl e)
      show ?thesis
      proof (cases e)
        case (Err e')
        with b Done m Inl tripleD [OF assms(3)] show ?thesis by (simp add: stry_def)
      next
        case (Panic p)
        with b Done m Inl assms(4) show ?thesis by (auto simp: stry_def)
      qed
    qed
  qed (use b in \<open>simp_all add: stry_def\<close>)
qed

lemma triple_sdefer:
  assumes "triple P m R" and "\<And>r. triple (R r) d (\<lambda>r' t. case r' of Inl (Panic p) \<Rightarrow> Q (Inl (Panic p)) t | _ \<Rightarrow> Q r t)"
  shows "triple P (sdefer d m) Q"
proof (rule tripleI)
  fix s r u assume s: "P s" and b: "sdefer d m s = Done r u"
  obtain r' t where m: "m s = Done r' t" using b by (auto simp: sdefer_def split: outcome.splits)
  from tripleD [OF assms(1) s m] have t: "R r' t" .
  obtain q v where d: "d t = Done q v" using b m by (auto simp: sdefer_def split: outcome.splits)
  from tripleD [OF assms(2) t d] b m d show "Q r u"
    by (auto simp: sdefer_def split: sum.splits fail.splits)
qed

lemma triple_srecover:
  assumes "triple P m (\<lambda>r t. case r of Inl (Panic p) \<Rightarrow> Q (Inl (Err e)) t | _ \<Rightarrow> Q r t)"
  shows "triple P (srecover e m) Q"
proof (rule tripleI)
  fix s r u assume s: "P s" and b: "srecover e m s = Done r u"
  from b obtain r' where m: "m s = Done r' u" by (auto simp: srecover_def split: outcome.splits sum.splits fail.splits)
  from tripleD [OF assms s m] b m show "Q r u"
    by (auto simp: srecover_def split: sum.splits fail.splits)
qed

lemma triple_basic:
  "triple (\<lambda>s. Q (Inr x) s) (sret x) Q" "triple (\<lambda>s. Q (Inl (Err e)) s) (sfail e) Q" "triple (\<lambda>s. Q r s) (slift r) Q"
  "triple (\<lambda>s. Q (Inr (g s)) s) (sget g) Q" "triple (\<lambda>s. Q (Inr ()) (h s)) (supd h) Q"
  by (simp_all add: triple_def step_defs)

section \<open>Invariants\<close>

text \<open>A step keeps an invariant if the state has it again whenever the step ends, whatever the result.\<close>

definition skeeps :: "('s \<Rightarrow> bool) \<Rightarrow> ('s, 'a) step \<Rightarrow> bool" where
  "skeeps I m \<longleftrightarrow> triple I m (\<lambda>_. I)"

named_theorems skeep \<open>steps that keep invariants\<close>

lemma skeepsD: "skeeps I m \<Longrightarrow> I s \<Longrightarrow> m s = Done r t \<Longrightarrow> I t"
  unfolding skeeps_def by (rule tripleD)

lemma skeeps_sbind [skeep]: "skeeps I m \<Longrightarrow> (\<And>x. skeeps I (f x)) \<Longrightarrow> skeeps I (sbind m f)"
  unfolding skeeps_def by (rule triple_sbind) auto

lemma skeeps_stry [skeep]: "skeeps I m \<Longrightarrow> (\<And>r. skeeps I (f r)) \<Longrightarrow> skeeps I (stry m f)"
  unfolding skeeps_def by (rule triple_stry) auto

lemma skeeps_sdefer [skeep]: "skeeps I d \<Longrightarrow> skeeps I m \<Longrightarrow> skeeps I (sdefer d m)"
  unfolding skeeps_def by (rule triple_sdefer) (auto elim!: triple_conseq split: sum.splits fail.splits)

lemma skeeps_srecover [skeep]: "skeeps I m \<Longrightarrow> skeeps I (srecover e m)"
  unfolding skeeps_def by (rule triple_srecover) (auto elim!: triple_conseq split: sum.splits fail.splits)

lemma skeeps_basic [skeep]: "skeeps I (sret x)" "skeeps I (sfail e)" "skeeps I (slift r)" "skeeps I (sget g)"
  by (simp_all add: skeeps_def triple_def step_defs)

lemma skeeps_supd: "(\<And>s. I s \<Longrightarrow> I (g s)) \<Longrightarrow> skeeps I (supd g)"
  by (simp add: skeeps_def triple_def supd_def)

lemma skeeps_sact: "keeps I m \<Longrightarrow> skeeps I (sact m)"
  by (auto simp: skeeps_def triple_def sact_def keeps_def split: prod.splits)

lemma skeeps_if [skeep]: "(b \<Longrightarrow> skeeps I m) \<Longrightarrow> (\<not> b \<Longrightarrow> skeeps I n) \<Longrightarrow> skeeps I (if b then m else n)"
  by simp

lemma skeeps_option [skeep]:
  "skeeps I m \<Longrightarrow> (\<And>x. skeeps I (f x)) \<Longrightarrow> skeeps I (case v of None \<Rightarrow> m | Some x \<Rightarrow> f x)"
  by (cases v) auto

lemma skeeps_sum [skeep]:
  "(\<And>x. skeeps I (f x)) \<Longrightarrow> (\<And>x. skeeps I (g x)) \<Longrightarrow> skeeps I (case v of Inl x \<Rightarrow> f x | Inr x \<Rightarrow> g x)"
  by (cases v) auto

lemma skeeps_prod [skeep]: "(\<And>x y. skeeps I (f x y)) \<Longrightarrow> skeeps I (case v of (x, y) \<Rightarrow> f x y)"
  by (cases v) auto

section \<open>Parts of the state\<close>

text \<open>Steps that leave a part \<open>f\<close> of the state as it is.\<close>

definition preserves :: "('s \<Rightarrow> 'v) \<Rightarrow> ('s, 'a) step \<Rightarrow> bool" where
  "preserves f m \<longleftrightarrow> (\<forall>s r t. m s = Done r t \<longrightarrow> f t = f s)"

named_theorems preserving \<open>compositions of steps that preserve a part of the state\<close>

lemma preservesI: "(\<And>s r t. m s = Done r t \<Longrightarrow> f t = f s) \<Longrightarrow> preserves f m"
  by (simp add: preserves_def)

lemma preservesD: "preserves f m \<Longrightarrow> m s = Done r t \<Longrightarrow> f t = f s"
  unfolding preserves_def by blast

lemma preserves_skeeps: "preserves f m \<longleftrightarrow> (\<forall>v. skeeps (\<lambda>s. f s = v) m)"
proof
  assume "preserves f m"
  then show "\<forall>v. skeeps (\<lambda>s. f s = v) m" unfolding skeeps_def by (auto intro: tripleI dest: preservesD)
next
  assume k: "\<forall>v. skeeps (\<lambda>s. f s = v) m"
  show "preserves f m"
  proof (rule preservesI)
    fix s r t assume "m s = Done r t"
    from skeepsD [OF k [rule_format, of "f s"] refl this] show "f t = f s" .
  qed
qed

lemma preserves_compose [preserving]:
  "preserves p m \<Longrightarrow> (\<And>x. preserves p (f x)) \<Longrightarrow> preserves p (sbind m f)"
  "preserves p m \<Longrightarrow> (\<And>r. preserves p (g r)) \<Longrightarrow> preserves p (stry m g)"
  "preserves p d \<Longrightarrow> preserves p m \<Longrightarrow> preserves p (sdefer d m)"
  "preserves p m \<Longrightarrow> preserves p (srecover e m)"
  by (simp_all add: preserves_skeeps skeep)

lemma preserves_basic [preserving]: "preserves p (sret x)" "preserves p (sfail e)" "preserves p (slift r)" "preserves p (sget g)"
  by (simp_all add: preserves_skeeps skeep)

lemma preserves_cases [preserving]:
  "(b \<Longrightarrow> preserves p m) \<Longrightarrow> (\<not> b \<Longrightarrow> preserves p n) \<Longrightarrow> preserves p (if b then m else n)"
  "preserves p m \<Longrightarrow> (\<And>x. preserves p (f x)) \<Longrightarrow> preserves p (case v of None \<Rightarrow> m | Some x \<Rightarrow> f x)"
  "(\<And>x. preserves p (g x)) \<Longrightarrow> (\<And>x. preserves p (h x)) \<Longrightarrow> preserves p (case u of Inl x \<Rightarrow> g x | Inr x \<Rightarrow> h x)"
  "(\<And>x y. preserves p (k x y)) \<Longrightarrow> preserves p (case q of (x, y) \<Rightarrow> k x y)"
  by (simp_all split: option.split sum.split prod.split)

lemma preserves_supd: "(\<And>s. p (g s) = p s) \<Longrightarrow> preserves p (supd g)"
  by (simp add: preserves_def supd_def)

lemma preserves_sact: "(\<And>v. keeps (\<lambda>s. p s = v) m) \<Longrightarrow> preserves p (sact m)"
  by (simp add: preserves_skeeps skeeps_sact)

section \<open>Success\<close>

text \<open>
  \<open>yields P m Q\<close>: from a state with \<open>P\<close>, a call of \<open>m\<close> that returns a value without an error ends in \<open>Q\<close>.
\<close>

definition yields :: "('s \<Rightarrow> bool) \<Rightarrow> ('s, 'a) step \<Rightarrow> ('a \<Rightarrow> 's \<Rightarrow> bool) \<Rightarrow> bool" where
  "yields P m Q \<longleftrightarrow> triple P m (\<lambda>r t. case r of Inr x \<Rightarrow> Q x t | Inl _ \<Rightarrow> True)"

lemma yieldsI: "(\<And>s x t. P s \<Longrightarrow> m s = Done (Inr x) t \<Longrightarrow> Q x t) \<Longrightarrow> yields P m Q"
  unfolding yields_def by (rule tripleI) (auto split: sum.splits)

lemma yieldsD: "yields P m Q \<Longrightarrow> P s \<Longrightarrow> m s = Done (Inr x) t \<Longrightarrow> Q x t"
  unfolding yields_def by (drule (2) tripleD) simp

lemma yields_conseq: "yields P m Q \<Longrightarrow> (\<And>s. P' s \<Longrightarrow> P s) \<Longrightarrow> (\<And>x s. Q x s \<Longrightarrow> Q' x s) \<Longrightarrow> yields P' m Q'"
  by (metis yieldsI yieldsD)

lemma yields_skeeps: "skeeps I m \<Longrightarrow> yields I m (\<lambda>_. I)"
  by (rule yieldsI) (rule skeepsD)

lemma yields_sbind: "yields P m R \<Longrightarrow> (\<And>x. yields (R x) (f x) Q) \<Longrightarrow> yields P (sbind m f) Q"
  by (rule yieldsI) (auto elim!: sbind_DoneE dest: yieldsD)

text \<open>An error that the caller turns into its own needs no state; one that it survives needs the invariant.\<close>

lemma yields_stry:
  "yields P m R \<Longrightarrow> (\<And>x. yields (R x) (f (Inr x)) Q) \<Longrightarrow> (\<And>e. yields (\<lambda>_. True) (f (Inl e)) Q) \<Longrightarrow> yields P (stry m f) Q"
  by (rule yieldsI) (fastforce simp: stry_def split: outcome.splits sum.splits fail.splits dest: yieldsD)

lemma yields_stry_keeps: "skeeps I m \<Longrightarrow> (\<And>r. yields I (f r) Q) \<Longrightarrow> yields I (stry m f) Q"
  by (rule yieldsI) (fastforce simp: stry_def split: outcome.splits sum.splits fail.splits dest: yieldsD skeepsD)

lemma yields_sdefer:
  assumes "yields P m R" and "\<And>x. triple (R x) d (\<lambda>_. Q x)"
  shows "yields P (sdefer d m) Q"
proof (rule yieldsI)
  fix s x u assume s: "P s" and b: "sdefer d m s = Done (Inr x) u"
  then obtain t q where "m s = Done (Inr x) t" "d t = Done q u"
    by (auto simp: sdefer_def split: outcome.splits sum.splits fail.splits)
  with assms s show "Q x u" by (blast dest: yieldsD tripleD)
qed

lemma yields_basic:
  "yields (\<lambda>s. Q x s) (sret x) Q" "yields P (sfail e) Q" "yields P (slift (Inl f)) Q" "yields (\<lambda>s. \<forall>x. r = Inr x \<longrightarrow> Q x s) (slift r) Q"
  "yields (\<lambda>s. Q (g s) s) (sget g) Q" "yields (\<lambda>s. Q () (h s)) (supd h) Q"
  by (auto intro!: yieldsI simp: step_defs)

lemma yields_srecover: "yields P m Q \<Longrightarrow> yields P (srecover e m) Q"
  by (rule yieldsI) (fastforce simp: srecover_def split: outcome.splits sum.splits fail.splits dest: yieldsD)

lemma yields_option: "(v = None \<Longrightarrow> yields P m Q) \<Longrightarrow> (\<And>x. v = Some x \<Longrightarrow> yields P (f x) Q) \<Longrightarrow> yields P (case v of None \<Rightarrow> m | Some x \<Rightarrow> f x) Q"
  by (cases v) auto

lemma yields_sum: "(\<And>x. v = Inl x \<Longrightarrow> yields P (f x) Q) \<Longrightarrow> (\<And>x. v = Inr x \<Longrightarrow> yields P (g x) Q) \<Longrightarrow> yields P (case v of Inl x \<Rightarrow> f x | Inr x \<Rightarrow> g x) Q"
  by (cases v) auto

lemma yields_prod: "(\<And>x y. v = (x, y) \<Longrightarrow> yields P (f x y) Q) \<Longrightarrow> yields P (case v of (x, y) \<Rightarrow> f x y) Q"
  by (cases v) auto

lemma yields_if: "(b \<Longrightarrow> yields P m Q) \<Longrightarrow> (\<not> b \<Longrightarrow> yields P n Q) \<Longrightarrow> yields P (if b then m else n) Q"
  by simp

lemma yields_sget: "(\<And>s. P s \<Longrightarrow> yields (\<lambda>t. P t \<and> g t = g s) (f (g s)) Q) \<Longrightarrow> yields P (sbind (sget g) f) Q"
  by (rule yieldsI) (auto dest: yieldsD)

lemma yields_stry_triple:
  "triple P m R \<Longrightarrow> (\<And>x. yields (R (Inr x)) (f (Inr x)) Q) \<Longrightarrow> (\<And>e. yields (R (Inl (Err e))) (f (Inl e)) Q) \<Longrightarrow> yields P (stry m f) Q"
  unfolding yields_def by (rule triple_stry) auto

lemma yields_weak_pre: "yields P m Q \<Longrightarrow> (\<And>s. P' s \<Longrightarrow> P s) \<Longrightarrow> yields P' m Q"
  by (rule yields_conseq)

lemma yields_sret: "(\<And>s. P s \<Longrightarrow> Q x s) \<Longrightarrow> yields P (sret x) Q"
  by (rule yieldsI) (simp add: sret_def)

text \<open>A step settles if it ends in \<open>Q\<close> unless it panics.\<close>

definition settles :: "('s \<Rightarrow> bool) \<Rightarrow> ('s, 'a) step \<Rightarrow> ('s \<Rightarrow> bool) \<Rightarrow> bool" where
  "settles P m Q \<longleftrightarrow> triple P m (\<lambda>r t. (\<exists>p. r = Inl (Panic p)) \<or> Q t)"

lemma yields_settles: "settles P m Q \<Longrightarrow> yields P m (\<lambda>_. Q)"
  unfolding settles_def by (rule yieldsI) (drule (2) tripleD, simp)

lemma yields_stry_settles: "settles P m R \<Longrightarrow> (\<And>r. yields R (f r) Q) \<Longrightarrow> yields P (stry m f) Q"
  unfolding settles_def by (rule yieldsI) (fastforce simp: stry_def split: outcome.splits sum.splits fail.splits dest: yieldsD tripleD)

end
