(* ===== verification/Fingerprint.thy ===== *)
theory Fingerprint
  imports Wire
begin

text \<open>
  Fingerprints of statements (src/mysql/sql_fingerprint.go), by which the blacklist knows a statement: values are replaced
  by a question mark, white space and comments are dropped and letters are lower case. \<open>GetFingerprint\<close> is a state machine
  that reads the statement byte by byte and copies parts of it into a buffer of fixed length.

  The loop of the source ranges over runes. Every test of the code is for an ASCII character, and the bytes of a longer
  rune are all treated as letters, so that the model reads bytes.
\<close>

unbundle bit_operations_syntax

section \<open>State\<close>

datatype fp_state =
    FUnknown | InWord | InNumber | InSpace | InOp | OpOrNumber | InQuote | SubOrOLC | InDash | InOLC | DivOrMLC
  | MlcOrMySQLCode | InMLC | InValues | MoreValuesOrUnknown | OrderBy | OnDupeKeyUpdate | InNumberInWord

record fingerprint =
  fp_prevWord :: string
  fp_f :: string
  fp_fi :: int
  fp_pr :: char
  fp_s :: fp_state
  fp_sqlState :: fp_state
  fp_quoteChar :: char
  fp_cpFrom :: int
  fp_cpTo :: int
  fp_addSpace :: bool
  fp_escape :: bool
  fp_parOpen :: int
  fp_parOpenTotal :: int
  fp_valueNo :: int
  fp_firstPar :: int

text \<open>The end of a part of the loop body: go on with the next part, \<open>continue\<close> with the next rune, or \<open>return\<close>.\<close>

datatype fp_next = Goes fingerprint | Continues fingerprint | Returns string

definition ReplaceNumbersInWords :: bool where
  "ReplaceNumbersInWords = False"

definition fp_isSpace :: "char \<Rightarrow> bool" where
  "fp_isSpace r \<longleftrightarrow> r \<in> {CHR 0x20, CHR 0x09, CHR 0x0D, CHR 0x0A}"

definition wordIn :: "string \<Rightarrow> string list \<Rightarrow> bool" where
  "wordIn q words \<longleftrightarrow> to_lower q \<in> set words"

text \<open>\<open>copy(f[fi:fi+n], w); fi += n\<close> with \<open>n\<close> the length of \<open>w\<close>; a single byte is stored in the same way.\<close>

definition fp_put :: "string \<Rightarrow> fingerprint \<Rightarrow> fingerprint res" where
  "fp_put w p =
     (let i = fp_fi p; n = int (length w) in
      if 0 \<le> i \<and> i + n \<le> int (length (fp_f p))
      then Inr (p\<lparr>fp_f := take (nat i) (fp_f p) @ w @ drop (nat (i + n)) (fp_f p), fp_fi := i + n\<rparr>)
      else Inl (Panic IndexOutOfRange))"

section \<open>Parts that are skipped\<close>

definition fp_quote :: "int \<Rightarrow> char \<Rightarrow> fingerprint \<Rightarrow> fp_next res" where
  "fp_quote qi r p =
     (if r \<noteq> fp_quoteChar p then Inr (Continues (p\<lparr>fp_escape := \<not> fp_escape p \<and> r = CHR 0x5C\<rparr>))
      else if fp_escape p then Inr (Continues (p\<lparr>fp_escape := False\<rparr>))
      else
        let p = p\<lparr>fp_escape := False, fp_cpFrom := qi + 1\<rparr> in
        if fp_sqlState p = InValues then Inr (Continues (p\<lparr>fp_s := InValues\<rparr>))
        else rbind (fp_put ''?'' p) (\<lambda>p. Inr (Continues (p\<lparr>fp_s := FUnknown\<rparr>))))"

definition fp_number_in_word :: "int \<Rightarrow> char \<Rightarrow> fingerprint \<Rightarrow> fp_next res" where
  "fp_number_in_word qi r p =
     (if is_digit r then Inr (Continues p)
      else rbind (fp_put ''?'' p) (\<lambda>p.
        Inr (Goes (p\<lparr>fp_cpFrom := qi, fp_s := (if fp_isSpace r then FUnknown else InWord)\<rparr>))))"

definition fp_number :: "int \<Rightarrow> char \<Rightarrow> fingerprint \<Rightarrow> fp_next res" where
  "fp_number qi r p =
     (let b = byte_of r in
      if is_digit r \<or> 97 \<le> b \<and> b \<le> 102 \<or> 65 \<le> b \<and> b \<le> 70 \<or> r = CHR ''.'' \<or> r = CHR ''x'' \<or> r = CHR ''-'' then Inr (Continues p)
      else if 103 \<le> b \<and> b \<le> 122 \<or> 71 \<le> b \<and> b \<le> 90 \<or> r = CHR ''_'' then Inr (Goes (p\<lparr>fp_cpTo := qi, fp_s := InWord\<rparr>))
      else rbind (fp_put ''?'' p) (\<lambda>p. Inr (Goes (p\<lparr>fp_cpFrom := qi, fp_cpTo := qi, fp_s := FUnknown\<rparr>))))"

text \<open>The end of a parenthesis of values: the first one of a list is written as \<open>(?+)\<close>.\<close>

definition fp_values_end :: "int \<Rightarrow> char \<Rightarrow> fingerprint \<Rightarrow> fp_next res" where
  "fp_values_end qi r p =
     (if fp_parOpen p > 0 then Inr (Continues p)
      else if fp_parOpenTotal p = 0 then Inr (Continues (p\<lparr>fp_s := InWord\<rparr>))
      else
        let p = p\<lparr>fp_valueNo := fp_valueNo p + 1\<rparr> in
        rbind (if fp_valueNo p = 1
               then rbind (fp_put (if qi - fp_firstPar p > 1 then ''(?+)'' else ''()'') p) (\<lambda>p. Inr (p\<lparr>fp_firstPar := 0\<rparr>))
               else Inr p) (\<lambda>p.
          Inr (Continues (p\<lparr>fp_s := MoreValuesOrUnknown, fp_pr := r, fp_cpFrom := qi + 1, fp_parOpenTotal := 0\<rparr>))))"

definition fp_values :: "int \<Rightarrow> char \<Rightarrow> fingerprint \<Rightarrow> fp_next res" where
  "fp_values qi r p =
     (if r = CHR '')'' then fp_values_end qi r (p\<lparr>fp_parOpen := fp_parOpen p - 1, fp_parOpenTotal := fp_parOpenTotal p + 1\<rparr>)
      else if r = CHR ''('' then
        let p = p\<lparr>fp_parOpen := fp_parOpen p + 1\<rparr> in
        fp_values_end qi r (if fp_parOpen p = 1 then p\<lparr>fp_firstPar := qi\<rparr> else p)
      else if r = CHR 0x27 \<or> r = CHR 0x22 then Inr (Continues (p\<lparr>fp_s := InQuote, fp_quoteChar := r\<rparr>))
      else if fp_isSpace r then Inr (Continues p)
      else fp_values_end qi r p)"

definition fp_skip :: "int \<Rightarrow> char \<Rightarrow> fingerprint \<Rightarrow> fp_next res" where
  "fp_skip qi r p =
     (if fp_s p = InQuote then fp_quote qi r p
      else if fp_s p = InNumberInWord then fp_number_in_word qi r p
      else if fp_s p = InNumber then fp_number qi r p
      else if fp_s p = InValues then fp_values qi r p
      else if fp_s p = InMLC then
        Inr (Continues (if fp_pr p = CHR ''*'' \<and> r = CHR ''/'' then p\<lparr>fp_s := FUnknown\<rparr> else p))
      else if fp_s p = MlcOrMySQLCode then
        Inr (if r \<noteq> CHR ''!'' then Continues (p\<lparr>fp_s := InMLC\<rparr>) else Goes (p\<lparr>fp_s := InWord\<rparr>))
      else if fp_s p = InOLC then Inr (Continues (if r = CHR 0x0A then p\<lparr>fp_s := FUnknown\<rparr> else p))
      else if fp_isSpace r \<and> fp_isSpace (fp_pr p) then Inr (Continues (p\<lparr>fp_cpFrom := qi + 1, fp_pr := r\<rparr>))
      else Inr (Goes p))"

section \<open>Changes of state\<close>

definition fp_digit :: "int \<Rightarrow> fingerprint \<Rightarrow> fingerprint" where
  "fp_digit qi p =
     (if fp_s p = OpOrNumber then p\<lparr>fp_cpTo := qi - 1, fp_s := InNumber\<rparr>
      else if fp_s p = InWord then
        (if fp_pr p = CHR ''('' \<or> fp_pr p = CHR '','' then p\<lparr>fp_cpTo := qi, fp_s := InNumber\<rparr>
         else if ReplaceNumbersInWords then p\<lparr>fp_s := InNumberInWord, fp_cpTo := qi\<rparr>
         else p)
      else p\<lparr>fp_cpTo := qi, fp_s := InNumber\<rparr>)"

text \<open>A space after a word. \<open>word[len(word)-1]\<close> is only read for words that are not empty.\<close>

definition fp_word_end :: "string \<Rightarrow> int \<Rightarrow> fingerprint \<Rightarrow> fp_next res" where
  "fp_word_end q qi p =
     rbind (slice q (fp_cpFrom p) qi) (\<lambda>w.
       let word = to_lower w;
           done = (\<lambda>p. Inr (Goes (p\<lparr>fp_s := InSpace, fp_cpTo := qi, fp_addSpace := True\<rparr>))) in
       if word = ''use'' \<and> fp_prevWord p = [] then Inr (Returns ''use ?'')
       else if word = ''null'' \<and> fp_prevWord p \<noteq> ''is'' \<and> fp_prevWord p \<noteq> ''not'' \<or> word = ''null,'' then
         rbind (fp_put (''?'' @ (if last word = CHR '','' then '','' else []) @ '' '') p) (\<lambda>p. done (p\<lparr>fp_cpFrom := qi + 1\<rparr>))
       else if fp_prevWord p = ''order'' \<and> word = ''by'' then done (p\<lparr>fp_sqlState := OrderBy\<rparr>)
       else if fp_sqlState p = OrderBy \<and> wordIn word [''asc'', ''asc,'', ''asc ''] then
         let p = p\<lparr>fp_cpFrom := qi\<rparr> in
         if last word = CHR '','' then rbind (fp_put '', '' (p\<lparr>fp_fi := fp_fi p - 1\<rparr>)) done else done p
       else if fp_prevWord p = ''key'' \<and> word = ''update'' then done (p\<lparr>fp_sqlState := OnDupeKeyUpdate\<rparr>)
       else done p)"

definition fp_space :: "string \<Rightarrow> int \<Rightarrow> fingerprint \<Rightarrow> fp_next res" where
  "fp_space q qi p =
     (if fp_s p = FUnknown then
        (if fp_fi p > 0 then
           rbind (at_index (fp_f p) (fp_fi p - 1)) (\<lambda>c.
             if fp_isSpace c then Inr (Goes p)
             else rbind (fp_put '' '' p) (\<lambda>p. Inr (Goes (p\<lparr>fp_cpFrom := qi + 1\<rparr>))))
         else Inr (Goes p))
      else if fp_s p = InDash then
        (let p = p\<lparr>fp_s := InOLC\<rparr> in Inr (Goes (if fp_cpTo p > 2 then p\<lparr>fp_cpTo := qi - 2, fp_addSpace := True\<rparr> else p)))
      else if fp_s p = MoreValuesOrUnknown then
        (if fp_valueNo p = 1 then rbind (fp_put '' '' p) (\<lambda>p. Inr (Goes p)) else Inr (Goes p))
      else fp_word_end q qi p)"

definition fp_begin_quote :: "int \<Rightarrow> char \<Rightarrow> fingerprint \<Rightarrow> fingerprint" where
  "fp_begin_quote qi r p =
     (if fp_pr p \<noteq> CHR 0x5C \<and> fp_s p \<noteq> InQuote
      then p\<lparr>fp_s := InQuote, fp_quoteChar := r, fp_cpTo := (if fp_pr p = CHR ''x'' \<or> fp_pr p = CHR ''b'' then - 2 else qi)\<rparr>
      else p)"

definition fp_open :: "string \<Rightarrow> int \<Rightarrow> fingerprint \<Rightarrow> fp_next res" where
  "fp_open q qi p =
     (let values = [''value'', ''values'', ''in''];
          begin_values = Inr (Goes (p\<lparr>fp_s := InValues, fp_sqlState := InValues, fp_parOpen := 1, fp_firstPar := qi,
            fp_cpTo := (if fp_valueNo p = 0 then qi else fp_cpTo p)\<rparr>));
          random = Inr (Goes (if fp_s p \<noteq> InWord then p\<lparr>fp_valueNo := 0, fp_cpFrom := qi, fp_s := InWord\<rparr> else p)) in
      if fp_prevWord p = ''call'' then rbind (slice q (fp_cpFrom p) qi) (\<lambda>w. Inr (Returns (''call '' @ w)))
      else if fp_sqlState p = OnDupeKeyUpdate then random
      else if (fp_s p = InSpace \<or> fp_s p = MoreValuesOrUnknown) \<and> fp_prevWord p \<in> set values then begin_values
      else rbind (slice q (fp_cpFrom p) qi) (\<lambda>w. if wordIn w values then begin_values else random))"

definition fp_random :: "int \<Rightarrow> fingerprint \<Rightarrow> fingerprint" where
  "fp_random qi p =
     (if fp_s p \<noteq> InWord \<and> fp_s p \<noteq> InOp
      then p\<lparr>fp_valueNo := 0, fp_cpFrom := qi, fp_sqlState := (if fp_sqlState p = InValues then FUnknown else fp_sqlState p), fp_s := InWord\<rparr>
      else p\<lparr>fp_s := InWord\<rparr>)"

definition fp_change :: "string \<Rightarrow> int \<Rightarrow> char \<Rightarrow> fingerprint \<Rightarrow> fp_next res" where
  "fp_change q qi r p =
     (if is_digit r then Inr (Goes (fp_digit qi p))
      else if fp_isSpace r then fp_space q qi p
      else if r = CHR 0x27 \<or> r = CHR 0x22 then Inr (Goes (fp_begin_quote qi r p))
      else if r \<in> set ''=<>!'' then
        Inr (Goes ((if fp_s p \<noteq> InWord \<and> fp_s p \<noteq> InOp then p\<lparr>fp_cpFrom := qi\<rparr> else p)\<lparr>fp_s := InOp\<rparr>))
      else if r = CHR ''/'' then Inr (Goes (p\<lparr>fp_s := DivOrMLC\<rparr>))
      else if r = CHR ''*'' \<and> fp_s p = DivOrMLC then Inr (Goes (p\<lparr>fp_s := MlcOrMySQLCode\<rparr>))
      else if r = CHR ''+'' then Inr (Goes (p\<lparr>fp_s := OpOrNumber\<rparr>))
      else if r = CHR ''-'' then Inr (Goes (p\<lparr>fp_s := (if fp_pr p = CHR ''-'' then InDash else OpOrNumber)\<rparr>))
      else if r = CHR ''.'' then
        Inr (Goes (if fp_s p = InNumber \<or> fp_s p = InOp then p\<lparr>fp_s := InNumber, fp_cpTo := qi\<rparr> else p))
      else if r = CHR ''('' then fp_open q qi p
      else if r = CHR '','' \<and> fp_s p = MoreValuesOrUnknown then Inr (Goes p)
      else if r = CHR '':'' \<and> fp_prevWord p = ''administrator'' then Inr (Returns (butlast q))
      else if r = CHR ''#'' then Inr (Goes (p\<lparr>fp_s := InOLC\<rparr>))
      else Inr (Goes (fp_random qi p)))"

section \<open>The loop\<close>

definition fp_copy :: "string \<Rightarrow> fingerprint \<Rightarrow> fingerprint res" where
  "fp_copy q p =
     (if fp_cpTo p > fp_cpFrom p then
        rbind (slice q (fp_cpFrom p) (fp_cpTo p)) (\<lambda>w.
        rbind (fp_put (to_lower w) (p\<lparr>fp_prevWord := to_lower w\<rparr>)) (\<lambda>p.
          let p = p\<lparr>fp_cpFrom := fp_cpTo p\<rparr> in
          if wordIn (fp_prevWord p) [''in'', ''value'', ''values''] \<and> fp_sqlState p \<noteq> OnDupeKeyUpdate
          then Inr (p\<lparr>fp_addSpace := False, fp_s := InValues, fp_sqlState := InValues\<rparr>)
          else if fp_addSpace p
          then rbind (fp_put '' '' p) (\<lambda>p. Inr (p\<lparr>fp_cpFrom := fp_cpFrom p + 1, fp_addSpace := False\<rparr>))
          else Inr p))
      else Inr p)"

fun fp_finish :: "string \<Rightarrow> string" where
  "fp_finish f = rev (dropWhile fp_isSpace (rev f))"

fun fp_loop :: "string \<Rightarrow> int \<Rightarrow> string \<Rightarrow> fingerprint \<Rightarrow> string res" where
  "fp_loop q qi [] p = rbind (slice (fp_f p) 0 (fp_fi p)) (\<lambda>f. Inr (fp_finish f))"
| "fp_loop q qi (r # rs) p =
     rbind (fp_skip qi r p) (\<lambda>n.
       case n of
         Returns s \<Rightarrow> Inr s
       | Continues p \<Rightarrow> fp_loop q (qi + 1) rs p
       | Goes p \<Rightarrow>
           rbind (fp_change q qi r p) (\<lambda>n.
             case n of
               Returns s \<Rightarrow> Inr s
             | Continues p \<Rightarrow> fp_loop q (qi + 1) rs p
             | Goes p \<Rightarrow> rbind (fp_copy q p) (\<lambda>p. fp_loop q (qi + 1) rs (p\<lparr>fp_pr := r\<rparr>))))"

definition GetFingerprint :: "string \<Rightarrow> string res" where
  "GetFingerprint q0 =
     (let q = q0 @ '' '' in
      fp_loop q 0 q
        \<lparr>fp_prevWord = [], fp_f = replicate (length q) (CHR 0x00), fp_fi = 0, fp_pr = CHR 0x00, fp_s = FUnknown,
         fp_sqlState = FUnknown, fp_quoteChar = CHR 0x00, fp_cpFrom = 0, fp_cpTo = 0, fp_addSpace = False, fp_escape = False,
         fp_parOpen = 0, fp_parOpenTotal = 0, fp_valueNo = 0, fp_firstPar = 0\<rparr>)"

section \<open>MD5\<close>

definition md5_K :: "32 word list" where
  "md5_K =
   [0xd76aa478, 0xe8c7b756, 0x242070db, 0xc1bdceee, 0xf57c0faf, 0x4787c62a, 0xa8304613, 0xfd469501,
    0x698098d8, 0x8b44f7af, 0xffff5bb1, 0x895cd7be, 0x6b901122, 0xfd987193, 0xa679438e, 0x49b40821,
    0xf61e2562, 0xc040b340, 0x265e5a51, 0xe9b6c7aa, 0xd62f105d, 0x02441453, 0xd8a1e681, 0xe7d3fbc8,
    0x21e1cde6, 0xc33707d6, 0xf4d50d87, 0x455a14ed, 0xa9e3e905, 0xfcefa3f8, 0x676f02d9, 0x8d2a4c8a,
    0xfffa3942, 0x8771f681, 0x6d9d6122, 0xfde5380c, 0xa4beea44, 0x4bdecfa9, 0xf6bb4b60, 0xbebfbc70,
    0x289b7ec6, 0xeaa127fa, 0xd4ef3085, 0x04881d05, 0xd9d4d039, 0xe6db99e5, 0x1fa27cf8, 0xc4ac5665,
    0xf4292244, 0x432aff97, 0xab9423a7, 0xfc93a039, 0x655b59c3, 0x8f0ccc92, 0xffeff47d, 0x85845dd1,
    0x6fa87e4f, 0xfe2ce6e0, 0xa3014314, 0x4e0811a1, 0xf7537e82, 0xbd3af235, 0x2ad7d2bb, 0xeb86d391]"

definition md5_shift :: "nat \<Rightarrow> nat" where
  "md5_shift i =
     (if i < 16 then [7, 12, 17, 22] else if i < 32 then [5, 9, 14, 20] else if i < 48 then [4, 11, 16, 23] else [6, 10, 15, 21])
       ! (i mod 4)"

type_synonym md5_state = "32 word \<times> 32 word \<times> 32 word \<times> 32 word"

fun md5_round :: "32 word list \<Rightarrow> nat \<Rightarrow> md5_state \<Rightarrow> md5_state" where
  "md5_round m i (a, b, c, d) =
     (let (f, g) = (if i < 16 then ((b AND c) OR (NOT b AND d), i)
                    else if i < 32 then ((d AND b) OR (NOT d AND c), (5 * i + 1) mod 16)
                    else if i < 48 then (b XOR c XOR d, (3 * i + 5) mod 16)
                    else (c XOR (b OR NOT d), (7 * i) mod 16))
      in (d, b + word_rotl (md5_shift i) (f + a + md5_K ! i + m ! g), b, c))"

definition md5_block :: "string \<Rightarrow> md5_state \<Rightarrow> md5_state" where
  "md5_block blk s =
     (case (s, fold (md5_round (map (\<lambda>i. word_of_int (le_uint (take 4 (drop (4 * i) blk)))) [0..<16])) [0..<64] s) of
        ((a, b, c, d), (a', b', c', d')) \<Rightarrow> (a + a', b + b', c + c', d + d'))"

fun md5_blocks :: "nat \<Rightarrow> string \<Rightarrow> md5_state \<Rightarrow> md5_state" where
  "md5_blocks 0 m s = s"
| "md5_blocks (Suc n) m s = md5_blocks n (drop 64 m) (md5_block (take 64 m) s)"

definition md5_Sum :: "string \<Rightarrow> string" where
  "md5_Sum m =
     (let p = m @ [CHR 0x80] @ replicate ((119 - length m mod 64) mod 64) (CHR 0x00) @ le_bytes 8 (8 * int (length m)) in
      case md5_blocks (length p div 64) p (0x67452301, 0xEFCDAB89, 0x98BADCFE, 0x10325476) of
        (a, b, c, d) \<Rightarrow> concat (map (\<lambda>w. le_bytes 4 (uint w)) [a, b, c, d]))"

text \<open>The verb \<open>%x\<close> for a byte slice.\<close>

definition hex_digits :: "char \<Rightarrow> string" where
  "hex_digits c = (let b = (of_char c :: nat) in [''0123456789abcdef'' ! (b div 16), ''0123456789abcdef'' ! (b mod 16)])"

definition GetMd5 :: "string \<Rightarrow> string" where
  "GetMd5 fingerPrint = concat (map hex_digits (md5_Sum fingerPrint))"

text \<open>
  The buffer has the length of the statement and one space, but a list of values of one character becomes longer: the space behind it has
  no room.
\<close>

lemma fingerprint_panics: "GetFingerprint ''insert into t values(1)'' = Inl (Panic IndexOutOfRange)"
  by code_simp

end
