(* ===== verification/Index_Lists.thy ===== *)
theory Index_Lists
  imports Go_Base
begin

text \<open>
  The operations on lists of table indexes of src/proxy/router/planbuilder.go: the interval
  builders (\<open>makeList\<close>, \<open>makeLeList\<close>, \<open>makeGeList\<close>, \<open>makeLtList\<close>, \<open>makeGtList\<close>,
  \<open>makeBetweenList\<close>), the set operations on sorted lists (\<open>interList\<close>, \<open>unionList\<close>,
  \<open>differentList\<close>) and the duplicate removal \<open>cleanList\<close>.

  A loop that advances an index into a slice is a recursion on the rest of the slice.
  The locale \<open>index_algebra\<close> states what the clients of the set operations rely on; its
  interpretation proves it for the three functions of the code.
\<close>

type_synonym indexs = "int list"

abbreviation asc :: "indexs \<Rightarrow> bool" where
  "asc l \<equiv> sorted_wrt (<) l"

section \<open>Operations\<close>

definition makeList :: "int \<Rightarrow> int \<Rightarrow> indexs res" where
  "makeList start end' =
     (if end' < start then Inl (Panic MakeNegativeLen) else Inr [start..end' - 1])"

text \<open>The loops of the next four functions look for the position of a value.\<close>

fun find_pos :: "int \<Rightarrow> indexs \<Rightarrow> nat option" where
  "find_pos value [] = None"
| "find_pos value (v # vs) = (if v = value then Some 0 else map_option Suc (find_pos value vs))"

definition makeLeList :: "int \<Rightarrow> indexs \<Rightarrow> indexs" where
  "makeLeList value indexes =
     (case find_pos value indexes of Some k \<Rightarrow> take (k + 1) indexes | None \<Rightarrow> [])"

definition makeGeList :: "int \<Rightarrow> indexs \<Rightarrow> indexs" where
  "makeGeList value indexes =
     (case find_pos value indexes of Some k \<Rightarrow> drop k indexes | None \<Rightarrow> [])"

definition makeLtList :: "int \<Rightarrow> indexs \<Rightarrow> indexs" where
  "makeLtList value indexes =
     (case find_pos value indexes of Some k \<Rightarrow> take k indexes | None \<Rightarrow> [])"

definition makeGtList :: "int \<Rightarrow> indexs \<Rightarrow> indexs" where
  "makeGtList value indexes =
     (case find_pos value indexes of Some k \<Rightarrow> drop (k + 1) indexes | None \<Rightarrow> [])"

text \<open>
  \<open>makeBetweenList\<close>'s loop: \<open>k\<close> is the loop index, \<open>si\<close> is \<open>Some startIndex\<close> once
  \<open>SetStart\<close> holds. The result is a slice of the whole list.
\<close>

fun betweenLoop :: "int \<Rightarrow> int \<Rightarrow> indexs \<Rightarrow> nat \<Rightarrow> nat option \<Rightarrow> indexs \<Rightarrow> indexs" where
  "betweenLoop s e all k si [] = []"
| "betweenLoop s e all k si (v # vs) =
     (let si' = (if v = s then Some k else si) in
      if v = e then
        (case si' of
           Some i \<Rightarrow> drop i (take (Suc k) all)
         | None \<Rightarrow> betweenLoop s e all (Suc k) si' vs)
      else betweenLoop s e all (Suc k) si' vs)"

definition makeBetweenList :: "int \<Rightarrow> int \<Rightarrow> indexs \<Rightarrow> indexs" where
  "makeBetweenList start end' indexes =
     (if end' < start then betweenLoop end' start indexes 0 None indexes
      else betweenLoop start end' indexes 0 None indexes)"

fun interLoop :: "indexs \<Rightarrow> indexs \<Rightarrow> indexs" where
  "interLoop [] l2 = []"
| "interLoop l1 [] = []"
| "interLoop (x # l1) (y # l2) =
     (if x = y then x # interLoop l1 l2
      else if x < y then interLoop l1 (y # l2)
      else interLoop (x # l1) l2)"

definition interList :: "indexs \<Rightarrow> indexs \<Rightarrow> indexs" where
  "interList l1 l2 = (if l1 = [] \<or> l2 = [] then [] else interLoop l1 l2)"

fun unionLoop :: "indexs \<Rightarrow> indexs \<Rightarrow> indexs" where
  "unionLoop [] l2 = l2"
| "unionLoop l1 [] = l1"
| "unionLoop (x # l1) (y # l2) =
     (if x < y then x # unionLoop l1 (y # l2)
      else if x > y then y # unionLoop (x # l1) l2
      else x # unionLoop l1 l2)"

definition unionList :: "indexs \<Rightarrow> indexs \<Rightarrow> indexs" where
  "unionList l1 l2 = (if l1 = [] then l2 else if l2 = [] then l1 else unionLoop l1 l2)"

fun differentLoop :: "indexs \<Rightarrow> indexs \<Rightarrow> indexs" where
  "differentLoop [] l2 = []"
| "differentLoop l1 [] = l1"
| "differentLoop (x # l1) (y # l2) =
     (if x < y then x # differentLoop l1 (y # l2)
      else if x > y then differentLoop (x # l1) l2
      else differentLoop l1 l2)"

definition differentList :: "indexs \<Rightarrow> indexs \<Rightarrow> indexs" where
  "differentList l1 l2 = (if l1 = [] then [] else if l2 = [] then l1 else differentLoop l1 l2)"

text \<open>\<open>cleanList\<close> collects the keys of a map, in the map's iteration order \<open>mo\<close>.\<close>

definition cleanList :: "(indexs \<Rightarrow> indexs) \<Rightarrow> indexs \<Rightarrow> indexs" where
  "cleanList mo l = mo (remdups l)"

section \<open>The interval builders\<close>

lemma asc_upto: "asc [i..j]"
proof (induction i j rule: upto.induct)
  case (1 i j)
  show ?case
  proof (cases "i \<le> j")
    case True
    with 1 have "asc [i + 1..j]" by blast
    with True show ?thesis by (simp add: upto.simps [of i j])
  next
    case False
    then show ?thesis by simp
  qed
qed

lemma makeList_Inr [route_intros]:
  "start \<le> end' \<Longrightarrow> \<exists>l. makeList start end' = Inr l \<and> set l = {start..<end'} \<and> asc l"
  by (auto simp: makeList_def asc_upto)

lemma makeList_InrD:
  "makeList start end' = Inr l \<Longrightarrow> set l = {start..<end'} \<and> asc l"
  by (auto simp: makeList_def asc_upto split: if_splits)

lemma find_pos_None_iff: "find_pos v l = None \<longleftrightarrow> v \<notin> set l"
  by (induction l) auto

lemma find_pos_mem: "v \<in> set l \<Longrightarrow> \<exists>k. find_pos v l = Some k"
  using find_pos_None_iff [of v l] by auto

lemma make_lists_Nil [simp]:
  "makeLeList v [] = []" "makeGeList v [] = []" "makeLtList v [] = []" "makeGtList v [] = []"
  by (simp_all add: makeLeList_def makeGeList_def makeLtList_def makeGtList_def)

lemma make_lists_Cons [simp]:
  "makeLeList w (v # vs) =
     (if v = w then [v] else if w \<in> set vs then v # makeLeList w vs else [])"
  "makeGeList w (v # vs) = (if v = w then v # vs else makeGeList w vs)"
  "makeLtList w (v # vs) =
     (if v = w then [] else if w \<in> set vs then v # makeLtList w vs else [])"
  "makeGtList w (v # vs) = (if v = w then vs else makeGtList w vs)"
  using find_pos_mem [of w vs] find_pos_None_iff [of w vs]
  by (auto simp: makeLeList_def makeGeList_def makeLtList_def makeGtList_def split: option.splits)

lemma set_makeLeList:
  "asc l \<Longrightarrow> set (makeLeList v l) = (if v \<in> set l then {x \<in> set l. x \<le> v} else {})"
  by (induction l) (auto split: if_splits)

lemma set_makeGeList:
  "asc l \<Longrightarrow> set (makeGeList v l) = (if v \<in> set l then {x \<in> set l. x \<ge> v} else {})"
  by (induction l) (auto split: if_splits)

lemma set_makeLtList:
  "asc l \<Longrightarrow> set (makeLtList v l) = (if v \<in> set l then {x \<in> set l. x < v} else {})"
  by (induction l) (auto split: if_splits)

lemma set_makeGtList:
  "asc l \<Longrightarrow> set (makeGtList v l) = (if v \<in> set l then {x \<in> set l. x > v} else {})"
  by (induction l) (auto split: if_splits)

lemma asc_makeLeList: "asc l \<Longrightarrow> asc (makeLeList v l)"
  by (induction l) (auto simp: set_makeLeList)

lemma asc_makeGeList: "asc l \<Longrightarrow> asc (makeGeList v l)"
  by (induction l) auto

lemma asc_makeLtList: "asc l \<Longrightarrow> asc (makeLtList v l)"
  by (induction l) (auto simp: set_makeLtList)

lemma asc_makeGtList: "asc l \<Longrightarrow> asc (makeGtList v l)"
  by (induction l) auto

lemma filter_ge_drop:
  "asc l \<Longrightarrow> i < length l \<Longrightarrow> filter (\<lambda>x. l ! i \<le> x) l = drop i l"
proof (induction l arbitrary: i)
  case (Cons y ys)
  show ?case
  proof (cases i)
    case 0
    with Cons.prems show ?thesis by (auto simp: filter_id_conv)
  next
    case (Suc j)
    with Cons.prems have "y < ys ! j" by simp
    then have "\<not> ys ! j \<le> y" by simp
    with Suc Cons show ?thesis by simp
  qed
qed simp

lemma betweenLoop_none: "e \<notin> set rest \<Longrightarrow> betweenLoop s e all k si rest = []"
  by (induction rest arbitrary: k si) (auto simp: Let_def)

lemma betweenLoop_eq:
  assumes "asc (pre @ rest)" and "s \<le> e" and "e \<notin> set pre"
    and "case si of None \<Rightarrow> s \<notin> set pre | Some i \<Rightarrow> i < length pre \<and> pre ! i = s"
  shows "betweenLoop s e (pre @ rest) (length pre) si rest =
    (if s \<in> set pre \<union> set rest \<and> e \<in> set rest
     then filter (\<lambda>x. s \<le> x \<and> x \<le> e) (pre @ rest) else [])"
  using assms
proof (induction rest arbitrary: pre si)
  case (Cons v vs)
  define si' where "si' = (if v = s then Some (length pre) else si)"
  have si': "case si' of None \<Rightarrow> s \<notin> set (pre @ [v]) | Some i \<Rightarrow> i < length (pre @ [v]) \<and> (pre @ [v]) ! i = s"
    using Cons.prems(4) by (auto simp: si'_def nth_append split: option.splits)
  show ?case
  proof (cases "v = e")
    case False
    have "betweenLoop s e ((pre @ [v]) @ vs) (length (pre @ [v])) si' vs =
      (if s \<in> set (pre @ [v]) \<union> set vs \<and> e \<in> set vs
       then filter (\<lambda>x. s \<le> x \<and> x \<le> e) ((pre @ [v]) @ vs) else [])"
      using Cons.prems False si' by (intro Cons.IH) auto
    with False show ?thesis by (simp add: si'_def Let_def)
  next
    case True
    have big: "\<forall>x \<in> set vs. e < x" and small: "\<forall>x \<in> set pre. x < e"
      using Cons.prems(1) True by (auto simp: sorted_wrt_append)
    show ?thesis
    proof (cases si')
      case None
      then have "s \<notin> set pre \<union> set (v # vs)" using si' Cons.prems(2) True big by auto
      moreover have "e \<notin> set vs" using big by auto
      ultimately show ?thesis using True None by (simp add: si'_def Let_def betweenLoop_none)
    next
      case (Some i)
      then have i: "i < length (pre @ [v])" "(pre @ [v]) ! i = s" using si' by auto
      have "s \<in> set (pre @ [v])" using i nth_mem by metis
      then have mem: "s \<in> set pre \<union> set (v # vs)" by auto
      have "filter (\<lambda>x. s \<le> x \<and> x \<le> e) (pre @ v # vs) = filter (\<lambda>x. s \<le> x) (pre @ [v])"
      proof -
        have "filter (\<lambda>x. s \<le> x \<and> x \<le> e) vs = []" using big by (auto simp: filter_empty_conv)
        moreover have "filter (\<lambda>x. s \<le> x \<and> x \<le> e) pre = filter (\<lambda>x. s \<le> x) pre"
          using small by (intro filter_cong) auto
        ultimately show ?thesis using True Cons.prems(2) by simp
      qed
      also have "\<dots> = drop i (pre @ [v])"
        using filter_ge_drop [of "pre @ [v]" i] i Cons.prems(1) by (auto simp: sorted_wrt_append)
      finally show ?thesis using True Some mem by (simp add: si'_def Let_def)
    qed
  qed
qed simp

lemma makeBetweenList_eq:
  "asc l \<Longrightarrow> s \<le> e \<Longrightarrow> makeBetweenList s e l =
     (if s \<in> set l \<and> e \<in> set l then filter (\<lambda>x. s \<le> x \<and> x \<le> e) l else [])"
  using betweenLoop_eq [of "[]" l s e None] by (simp add: makeBetweenList_def)

lemma asc_makeBetweenList: "asc l \<Longrightarrow> s \<le> e \<Longrightarrow> asc (makeBetweenList s e l)"
  by (simp add: makeBetweenList_eq sorted_wrt_filter)

section \<open>The set operations\<close>

lemma asc_Cons_not_mem: "asc (y # l) \<Longrightarrow> x < y \<Longrightarrow> x \<notin> set (y # l)"
  by auto

lemma set_interLoop: "asc l1 \<Longrightarrow> asc l2 \<Longrightarrow> set (interLoop l1 l2) = set l1 \<inter> set l2"
proof (induction l1 l2 rule: interLoop.induct)
  case (3 x l1 y l2)
  show ?case
  proof (cases x y rule: linorder_cases)
    case less
    with 3 asc_Cons_not_mem [of y l2 x] show ?thesis by auto
  next
    case equal
    with 3 show ?thesis by auto
  next
    case greater
    with 3 asc_Cons_not_mem [of x l1 y] show ?thesis by auto
  qed
qed auto

lemma asc_interLoop: "asc l1 \<Longrightarrow> asc l2 \<Longrightarrow> asc (interLoop l1 l2)"
  by (induction l1 l2 rule: interLoop.induct) (auto simp: set_interLoop)

lemma set_unionLoop: "set (unionLoop l1 l2) = set l1 \<union> set l2"
  by (induction l1 l2 rule: unionLoop.induct) auto

lemma asc_unionLoop: "asc l1 \<Longrightarrow> asc l2 \<Longrightarrow> asc (unionLoop l1 l2)"
  by (induction l1 l2 rule: unionLoop.induct) (auto simp: set_unionLoop)

lemma set_differentLoop: "asc l1 \<Longrightarrow> asc l2 \<Longrightarrow> set (differentLoop l1 l2) = set l1 - set l2"
proof (induction l1 l2 rule: differentLoop.induct)
  case (3 x l1 y l2)
  show ?case
  proof (cases x y rule: linorder_cases)
    case less
    with 3 asc_Cons_not_mem [of y l2 x] show ?thesis by auto
  next
    case equal
    with 3 show ?thesis by auto
  next
    case greater
    with 3 asc_Cons_not_mem [of x l1 y] show ?thesis by auto
  qed
qed auto

lemma asc_differentLoop: "asc l1 \<Longrightarrow> asc l2 \<Longrightarrow> asc (differentLoop l1 l2)"
  by (induction l1 l2 rule: differentLoop.induct) (auto simp: set_differentLoop)

text \<open>
  What a client of the three operations relies on: on ascending lists they are the operations
  on sets, and they return ascending lists.
\<close>

locale index_algebra =
  fixes inter :: "indexs \<Rightarrow> indexs \<Rightarrow> indexs"
    and uni :: "indexs \<Rightarrow> indexs \<Rightarrow> indexs"
    and diff :: "indexs \<Rightarrow> indexs \<Rightarrow> indexs"
  assumes set_inter: "asc a \<Longrightarrow> asc b \<Longrightarrow> set (inter a b) = set a \<inter> set b"
    and set_uni: "asc a \<Longrightarrow> asc b \<Longrightarrow> set (uni a b) = set a \<union> set b"
    and set_diff: "asc a \<Longrightarrow> asc b \<Longrightarrow> set (diff a b) = set a - set b"
    and asc_inter: "asc a \<Longrightarrow> asc b \<Longrightarrow> asc (inter a b)"
    and asc_uni: "asc a \<Longrightarrow> asc b \<Longrightarrow> asc (uni a b)"
    and asc_diff: "asc a \<Longrightarrow> asc b \<Longrightarrow> asc (diff a b)"
begin

text \<open>An ascending list is determined by its elements, so the algebra of sets carries over.\<close>

lemma inter_canonical:
  "asc a \<Longrightarrow> asc b \<Longrightarrow> inter a b = sorted_list_of_set (set a \<inter> set b)"
  by (metis asc_inter set_inter sorted_list_of_set.idem_if_sorted_distinct strict_sorted_iff)

lemma uni_canonical:
  "asc a \<Longrightarrow> asc b \<Longrightarrow> uni a b = sorted_list_of_set (set a \<union> set b)"
  by (metis asc_uni set_uni sorted_list_of_set.idem_if_sorted_distinct strict_sorted_iff)

lemma diff_canonical:
  "asc a \<Longrightarrow> asc b \<Longrightarrow> diff a b = sorted_list_of_set (set a - set b)"
  by (metis asc_diff set_diff sorted_list_of_set.idem_if_sorted_distinct strict_sorted_iff)

lemma inter_commute: "asc a \<Longrightarrow> asc b \<Longrightarrow> inter a b = inter b a"
  by (simp add: inter_canonical Int_commute)

lemma uni_commute: "asc a \<Longrightarrow> asc b \<Longrightarrow> uni a b = uni b a"
  by (simp add: uni_canonical Un_commute)

lemma diff_diff: "asc a \<Longrightarrow> asc b \<Longrightarrow> diff a (diff a b) = inter a b"
  by (simp add: diff_canonical [OF _ asc_diff] inter_canonical set_diff Diff_Diff_Int)

end

interpretation il: index_algebra interList unionList differentList
proof unfold_locales
  fix a b :: indexs
  assume a: "asc a" and b: "asc b"
  show "set (interList a b) = set a \<inter> set b" using a b by (auto simp: interList_def set_interLoop)
  show "set (unionList a b) = set a \<union> set b" by (auto simp: unionList_def set_unionLoop)
  show "set (differentList a b) = set a - set b"
    using a b by (auto simp: differentList_def set_differentLoop)
  show "asc (interList a b)" using a b by (auto simp: interList_def asc_interLoop)
  show "asc (unionList a b)" using a b by (auto simp: unionList_def asc_unionLoop)
  show "asc (differentList a b)" using a b by (auto simp: differentList_def asc_differentLoop)
qed

lemma set_cleanList: "map_order mo \<Longrightarrow> set (cleanList mo l) = set l"
  by (simp add: cleanList_def map_orderD)

lemma distinct_cleanList: "map_order mo \<Longrightarrow> distinct (cleanList mo l)"
  by (simp add: cleanList_def map_orderD)

section \<open>Properties\<close>

text \<open>
  C21. On ascending lists \<open>interList\<close>, \<open>unionList\<close> and \<open>differentList\<close> are intersection, union
  and difference, and their results are ascending without duplicates, so a condition built from
  \<open>and\<close>, \<open>or\<close> and \<open>not in\<close> never visits a table twice.
\<close>

theorem index_set_operations:
  assumes "asc a" and "asc b"
  shows "interList a b = sorted_list_of_set (set a \<inter> set b)
    \<and> unionList a b = sorted_list_of_set (set a \<union> set b)
    \<and> differentList a b = sorted_list_of_set (set a - set b)"
  using assms by (simp add: il.inter_canonical il.uni_canonical il.diff_canonical)

theorem index_set_operations_witness:
  "interList [1, 2, 3] [2, 3, 5] = sorted_list_of_set {2, 3}
   \<and> unionList [1, 2, 3] [2, 3, 5] = sorted_list_of_set {1, 2, 3, 5}
   \<and> differentList [1, 2, 3] [2, 3, 5] = sorted_list_of_set {1 :: int}"
  using index_set_operations [of "[1, 2, 3]" "[2, 3, 5]"]
  by (simp add: insert_commute Int_insert_left insert_Diff_if)

text \<open>
  \<open>makeBetweenList\<close> returns the sub-tables between two configured tables, in whichever order
  the bounds are given, and nothing at all when one of the bounds is not a configured table.
\<close>

theorem between_list_spec:
  assumes "asc indexes"
  shows "makeBetweenList start end' indexes =
    (if start \<in> set indexes \<and> end' \<in> set indexes
     then filter (\<lambda>x. min start end' \<le> x \<and> x \<le> max start end') indexes else [])"
proof (cases "end' < start")
  case True
  then have "makeBetweenList start end' indexes = makeBetweenList end' start indexes"
    by (simp add: makeBetweenList_def)
  with True assms show ?thesis by (simp add: makeBetweenList_eq min_def max_def conj_commute)
next
  case False
  with assms show ?thesis by (simp add: makeBetweenList_eq min_def max_def)
qed

theorem between_list_spec_witness:
  "makeBetweenList 201603 201512 [201511, 201512, 201601, 201603, 201604] =
     filter (\<lambda>x. 201512 \<le> x \<and> x \<le> 201603) [201511, 201512, 201601, 201603, 201604]"
  using between_list_spec [of "[201511, 201512, 201601, 201603, 201604]" 201603 201512]
  by (simp add: min_def max_def)

text \<open>
  The four one-sided builders return the sub-tables below or above a configured table, with
  or without it, and nothing for a table that is not configured.
\<close>

theorem one_sided_lists:
  assumes "asc l"
  shows "set (makeLeList v l) = (if v \<in> set l then {x \<in> set l. x \<le> v} else {})
    \<and> set (makeLtList v l) = (if v \<in> set l then {x \<in> set l. x < v} else {})
    \<and> set (makeGeList v l) = (if v \<in> set l then {x \<in> set l. x \<ge> v} else {})
    \<and> set (makeGtList v l) = (if v \<in> set l then {x \<in> set l. x > v} else {})
    \<and> asc (makeLeList v l) \<and> asc (makeLtList v l) \<and> asc (makeGeList v l) \<and> asc (makeGtList v l)"
  using assms
  by (simp add: set_makeLeList set_makeLtList set_makeGeList set_makeGtList
      asc_makeLeList asc_makeLtList asc_makeGeList asc_makeGtList)

theorem one_sided_lists_witness:
  "set (makeLeList 5 [2, 5, 9]) = (if (5 :: int) \<in> set [2, 5, 9] then {x \<in> set [2, 5, 9]. x \<le> 5} else {})"
  by (rule one_sided_lists [of "[2, 5, 9]" 5, THEN conjunct1]) simp

end
