(* ===== verification/Shard_Key.thy ===== *)
theory Shard_Key
  imports Index_Lists
begin

text \<open>
  Keys and shards: src/proxy/router/numkey.go and src/proxy/router/shard.go.

  \<^item> \<open>key\<close> is the dynamic type and value of the \<open>interface{}\<close> that the planner passes;
    \<open>EncodeValue\<close>, \<open>HashValue\<close> and \<open>NumValue\<close> are the code's type switches on it.
  \<^item> \<open>shard\<close> has one constructor per implementation of the interface \<open>Shard\<close>;
    \<open>FindForKey\<close> dispatches to the code of each.
  \<^item> The parsers of the configured ranges: \<open>ParseNumSharding\<close>, \<open>ParseDayRange\<close>,
    \<open>ParseMonthRange\<close>, \<open>ParseYearRange\<close>.
  \<^item> \<open>time.Unix\<close> yields a local date, which depends on the time zone of the process: it is
    the parameter \<open>loc\<close>, from a Unix time to year, month and day. \<open>time.Parse\<close>,
    \<open>Time.Sub\<close> and \<open>Time.Add\<close> on the UTC dates of \<open>ParseDayRange\<close> are the proleptic
    Gregorian calendar.
\<close>

section \<open>Keys\<close>

datatype (plugins only: code size) key =
    KInt int
  | KUint64 int
  | KInt64 int
  | KStr string
  | KBytes string
  | KOther string

abbreviation "unexpected_key t \<equiv> Panic (KeyError (''Unexpected key variable type '' @ t))"

fun be_bytes :: "nat \<Rightarrow> int \<Rightarrow> string" where
  "be_bytes 0 v = []"
| "be_bytes (Suc n) v = be_bytes n (v div 256) @ [char_of (nat (v mod 256))]"

definition Uint64Key_String :: "int \<Rightarrow> string" where
  "Uint64Key_String i = be_bytes 8 i"

definition type_name :: "key \<Rightarrow> string" where
  "type_name k =
     (case k of
        KInt _ \<Rightarrow> ''int'' | KUint64 _ \<Rightarrow> ''uint64'' | KInt64 _ \<Rightarrow> ''int64''
      | KStr _ \<Rightarrow> ''string'' | KBytes _ \<Rightarrow> ''[]uint8'' | KOther t \<Rightarrow> t)"

definition EncodeValue :: "key \<Rightarrow> string res" where
  "EncodeValue value =
     (case value of
        KInt v \<Rightarrow> Inr (Uint64Key_String (to_uint64 v))
      | KUint64 v \<Rightarrow> Inr (Uint64Key_String v)
      | KInt64 v \<Rightarrow> Inr (Uint64Key_String (to_uint64 v))
      | KStr s \<Rightarrow> Inr s
      | KBytes s \<Rightarrow> Inr s
      | KOther t \<Rightarrow> Inl (unexpected_key t))"

text \<open>\<open>crc32.ChecksumIEEE\<close>: the reflected polynomial, one bit at a time.\<close>

unbundle bit_operations_syntax

definition crc32_bit :: "32 word \<Rightarrow> 32 word" where
  "crc32_bit c = (if bit c 0 then drop_bit 1 c XOR 0xEDB88320 else drop_bit 1 c)"

definition crc32_byte :: "32 word \<Rightarrow> char \<Rightarrow> 32 word" where
  "crc32_byte c b = (crc32_bit ^^ 8) (c XOR of_nat (byte_of b))"

definition crc32_ChecksumIEEE :: "string \<Rightarrow> int" where
  "crc32_ChecksumIEEE s = uint (NOT (foldl crc32_byte (NOT 0) s))"

definition HashValue :: "key \<Rightarrow> int res" where
  "HashValue value =
     (case value of
        KInt v \<Rightarrow> Inr (to_uint64 v)
      | KUint64 v \<Rightarrow> Inr v
      | KInt64 v \<Rightarrow> Inr (to_uint64 v)
      | KStr s \<Rightarrow>
          (case ParseUint10 s of
             Inl _ \<Rightarrow> Inr (crc32_ChecksumIEEE s)
           | Inr v \<Rightarrow> Inr v)
      | KBytes s \<Rightarrow> Inr (crc32_ChecksumIEEE s)
      | KOther t \<Rightarrow> Inl (unexpected_key t))"

text \<open>
  With an error \<open>ParseInt\<close> also returns a number: zero for a syntax error, the nearest
  \<open>int64\<close> for a range error. The panic message contains it.
\<close>

definition ParseInt_err_value :: "num_err \<Rightarrow> string \<Rightarrow> int" where
  "ParseInt_err_value e s =
     (case e of
        NSyntax \<Rightarrow> 0
      | NRange \<Rightarrow> if hd s = CHR ''-'' then MinInt64 else MaxInt64)"

definition num_or_panic :: "string \<Rightarrow> int res" where
  "num_or_panic s =
     (case ParseInt10 s of
        Inl e \<Rightarrow> Inl (Panic (KeyError (''invalid num format '' @ int_str (ParseInt_err_value e s))))
      | Inr v \<Rightarrow> Inr v)"

definition NumValue :: "key \<Rightarrow> int res" where
  "NumValue value =
     (case value of
        KInt v \<Rightarrow> Inr v
      | KUint64 v \<Rightarrow> Inr (wrap64 v)
      | KInt64 v \<Rightarrow> Inr v
      | KStr s \<Rightarrow> num_or_panic s
      | KBytes s \<Rightarrow> num_or_panic s
      | KOther t \<Rightarrow> Inl (unexpected_key t))"

section \<open>Numeric ranges\<close>

record numkeyrange =
  kr_Start :: int
  kr_End :: int

abbreviation "MinNumKey \<equiv> MinInt64"
abbreviation "MaxNumKey \<equiv> MaxInt64"

definition kr_MapKey :: "numkeyrange \<Rightarrow> string" where
  "kr_MapKey kr = int_str (kr_Start kr) @ ''-'' @ int_str (kr_End kr)"

definition kr_Contains :: "numkeyrange \<Rightarrow> int \<Rightarrow> bool" where
  "kr_Contains kr i \<longleftrightarrow> kr_Start kr \<le> i \<and> (kr_End kr = MaxNumKey \<or> i < kr_End kr)"

definition kr_String :: "numkeyrange \<Rightarrow> string" where
  "kr_String kr = ''{Start: '' @ int_str (kr_Start kr) @ '', End: '' @ int_str (kr_End kr) @ ''}''"

definition ParseNumSharding :: "int list \<Rightarrow> int \<Rightarrow> numkeyrange list res" where
  "ParseNumSharding Locations TableRowLimit =
     (let tableCount = foldl (\<lambda>c n. wrap64 (c + n)) 0 Locations in
      if tableCount < 0 then Inl (Panic MakeNegativeLen)
      else Inr (map (\<lambda>i. \<lparr>kr_Start = wrap64 (i * TableRowLimit),
                         kr_End = wrap64 ((i + 1) * TableRowLimit)\<rparr>)
                 [0..tableCount - 1]))"

section \<open>Dates\<close>

text \<open>Years, months and days of the proleptic Gregorian calendar, from year 0.\<close>

type_synonym date = "nat \<times> nat \<times> nat"

definition leap :: "nat \<Rightarrow> bool" where
  "leap y \<longleftrightarrow> 4 dvd y \<and> (\<not> 100 dvd y \<or> 400 dvd y)"

definition days_in :: "nat \<Rightarrow> nat \<Rightarrow> nat" where
  "days_in y m =
     (if m = 2 then (if leap y then 29 else 28)
      else if m = 4 \<or> m = 6 \<or> m = 9 \<or> m = 11 then 30 else 31)"

definition valid_date :: "date \<Rightarrow> bool" where
  "valid_date d \<longleftrightarrow>
     (case d of (y, m, dd) \<Rightarrow> 1 \<le> m \<and> m \<le> 12 \<and> 1 \<le> dd \<and> dd \<le> days_in y m)"

definition next_day :: "date \<Rightarrow> date" where
  "next_day d =
     (case d of (y, m, dd) \<Rightarrow>
        if dd < days_in y m then (y, m, dd + 1)
        else if m < 12 then (y, m + 1, 1)
        else (y + 1, 1, 1))"

definition days_before_month :: "nat \<Rightarrow> nat \<Rightarrow> nat" where
  "days_before_month y m = sum_list (map (days_in y) [1..<m])"

definition day_number :: "date \<Rightarrow> nat" where
  "day_number d =
     (case d of (y, m, dd) \<Rightarrow>
        365 * y + (y + 3) div 4 + (y + 399) div 400 - (y + 99) div 100
        + days_before_month y m + dd)"

text \<open>\<open>time.Parse("20060102", s)\<close> on a string of eight bytes.\<close>

definition digits_nat :: "string \<Rightarrow> nat" where
  "digits_nat s = foldl (\<lambda>n c. n * 10 + digit_val c) 0 s"

definition time_Parse_day :: "string \<Rightarrow> date res" where
  "time_Parse_day s =
     (let d = (digits_nat (take 4 s), digits_nat (take 2 (drop 4 s)), digits_nat (drop 6 s)) in
      if length s = 8 \<and> list_all is_digit s \<and> valid_date d then Inr d
      else Inl (Err (ErrTimeParse s)))"

definition date_Format_day :: "date \<Rightarrow> string" where
  "date_Format_day d =
     (case d of (y, m, dd) \<Rightarrow> fmt_0d 4 (int y) @ fmt_0d 2 (int m) @ fmt_0d 2 (int dd))"

text \<open>
  \<open>end.Sub(begin)\<close> is at most \<open>maxDuration\<close>, \<open>2 ^ 63 - 1\<close> nanoseconds, which is
  between 106751 and 106752 days.
\<close>

definition sub_days :: "date \<Rightarrow> date \<Rightarrow> nat" where
  "sub_days e b = min (day_number e - day_number b) 106751"

fun day_loop :: "nat \<Rightarrow> date \<Rightarrow> int list res" where
  "day_loop 0 d = rbind (strconv_Atoi (date_Format_day d)) (\<lambda>n. Inr [n])"
| "day_loop (Suc k) d =
     rbind (strconv_Atoi (date_Format_day d)) (\<lambda>n.
     rbind (day_loop k (next_day d)) (\<lambda>ns. Inr (n # ns)))"

text \<open>The beginning that the three parsers share: one date, or two dates in order.\<close>

definition single_date :: "nat \<Rightarrow> string \<Rightarrow> int list res" where
  "single_date dateLength s =
     (if length s \<noteq> dateLength then Inl (Err ErrDateRangeIllegal)
      else rbind (strconv_Atoi s) (\<lambda>n. Inr [n]))"

definition swap_dates :: "string \<Rightarrow> string \<Rightarrow> string \<times> string" where
  "swap_dates a b = (if str_less b a then (b, a) else (a, b))"

definition ParseDayRange :: "string \<Rightarrow> int list res" where
  "ParseDayRange dateRange =
     (case str_splitN2 (CHR ''-'') dateRange of
        [s] \<Rightarrow> single_date 8 s
      | [a, b] \<Rightarrow>
          if length a \<noteq> 8 \<or> length b \<noteq> 8 then Inl (Err ErrDateRangeIllegal)
          else
            (let (lo, hi) = swap_dates a b in
             rbind (time_Parse_day lo) (\<lambda>begin'.
             rbind (time_Parse_day hi) (\<lambda>end'.
               day_loop (sub_days end' begin') begin')))
      | _ \<Rightarrow> Inl (Err ErrDateRangeIllegal))"

fun month_loop :: "nat \<Rightarrow> int \<Rightarrow> int \<Rightarrow> int list" where
  "month_loop 0 monthTmp beginYear = []"
| "month_loop (Suc k) monthTmp beginYear =
     (let (m, y) = (if 12 < monthTmp then (monthTmp mod 12, beginYear + 1)
                    else (monthTmp, beginYear))
      in (y * 100 + m) # month_loop k (m + 1) y)"

definition ParseMonthRange :: "string \<Rightarrow> int list res" where
  "ParseMonthRange dateRange =
     (case str_splitN2 (CHR ''-'') dateRange of
        [s] \<Rightarrow> single_date 6 s
      | [a, b] \<Rightarrow>
          if length a \<noteq> 6 \<or> length b \<noteq> 6 then Inl (Err ErrDateRangeIllegal)
          else
            (let (lo, hi) = swap_dates a b in
             rbind (strconv_Atoi (take 4 lo)) (\<lambda>beginYear.
             rbind (strconv_Atoi (drop 4 lo)) (\<lambda>beginMonth.
             rbind (strconv_Atoi (take 4 hi)) (\<lambda>endYear.
             rbind (strconv_Atoi (drop 4 hi)) (\<lambda>endMonth.
               Inr (month_loop (nat ((endYear - beginYear) * 12 + endMonth - beginMonth + 1))
                      beginMonth beginYear))))))
      | _ \<Rightarrow> Inl (Err ErrDateRangeIllegal))"

text \<open>
  The loop of \<open>ParseYearRange\<close> does not end when the last year is the largest \<open>int\<close>:
  it appends until the memory is exhausted.
\<close>

definition ParseYearRange :: "string \<Rightarrow> int list res" where
  "ParseYearRange dateRange =
     (case str_splitN2 (CHR ''-'') dateRange of
        [s] \<Rightarrow> single_date 4 s
      | [a, b] \<Rightarrow>
          (let (lo, hi) = swap_dates a b in
           rbind (strconv_Atoi lo) (\<lambda>beginYear.
           rbind (strconv_Atoi hi) (\<lambda>endYear.
             if endYear = MaxInt64 then Inl (Panic (PanicMsg ''out of memory''))
             else Inr [beginYear..endYear])))
      | _ \<Rightarrow> Inl (Err ErrDateRangeIllegal))"

section \<open>Shards\<close>

datatype (plugins only: code size) shard =
    HashShard int
  | NumRangeShard "numkeyrange list"
  | DateYearShard
  | DateMonthShard
  | DateDayShard
  | DefaultShard

text \<open>The local date of a Unix time: a year, a month from 1 to 12 and a day from 1 to 31.\<close>

type_synonym local_date = "int \<Rightarrow> int \<times> nat \<times> nat"

text \<open>\<open>appendInt\<close> of package \<open>time\<close>: the width does not count the sign.\<close>

definition appendInt :: "nat \<Rightarrow> int \<Rightarrow> string" where
  "appendInt w x =
     (if x < 0 then CHR ''-'' # zero_pad w (nat_str (nat (- x))) else zero_pad w (nat_str (nat x)))"

definition Format_date :: "int \<times> nat \<times> nat \<Rightarrow> string" where
  "Format_date d =
     (case d of (y, m, dd) \<Rightarrow> appendInt 4 y @ ''-'' @ appendInt 2 (int m) @ ''-'' @ appendInt 2 (int dd))"

text \<open>\<open>s[i:j]\<close> panics when \<open>j\<close> is beyond the string.\<close>

definition str_slice :: "string \<Rightarrow> nat \<Rightarrow> nat \<Rightarrow> string res" where
  "str_slice s i j =
     (if i \<le> j \<and> j \<le> length s then Inr (drop i (take j s)) else Inl (Panic IndexOutOfRange))"

definition HashShard_FindForKey :: "int \<Rightarrow> key \<Rightarrow> int res" where
  "HashShard_FindForKey ShardNum k =
     rbind (HashValue k) (\<lambda>h.
       if to_uint64 ShardNum = 0 then Inl (Panic DivideByZero)
       else Inr (wrap64 (h mod to_uint64 ShardNum)))"

fun range_loop :: "nat \<Rightarrow> numkeyrange list \<Rightarrow> int \<Rightarrow> int res" where
  "range_loop i [] v = Inl (Err ErrKeyOutOfRange)"
| "range_loop i (r # rs) v = (if kr_Contains r v then Inr (int i) else range_loop (Suc i) rs v)"

definition NumRangeShard_FindForKey :: "numkeyrange list \<Rightarrow> key \<Rightarrow> int res" where
  "NumRangeShard_FindForKey Shards k = rbind (NumValue k) (range_loop 0 Shards)"

definition EqualStart :: "numkeyrange list \<Rightarrow> key \<Rightarrow> int \<Rightarrow> bool res" where
  "EqualStart Shards k index =
     rbind (NumValue k) (\<lambda>v. rbind (at_index Shards index) (\<lambda>r. Inr (kr_Start r = v)))"

definition EqualStop :: "numkeyrange list \<Rightarrow> key \<Rightarrow> int \<Rightarrow> bool res" where
  "EqualStop Shards k index =
     rbind (NumValue k) (\<lambda>v. rbind (at_index Shards index) (\<lambda>r. Inr (kr_End r = v)))"

definition DateYearShard_FindForKey :: "local_date \<Rightarrow> key \<Rightarrow> int res" where
  "DateYearShard_FindForKey loc k =
     (case k of
        KInt v \<Rightarrow> Inr (fst (loc v))
      | KUint64 v \<Rightarrow> Inr (fst (loc (wrap64 v)))
      | KInt64 v \<Rightarrow> Inr (fst (loc v))
      | KStr s \<Rightarrow> rbind (str_slice s 0 4) num_or_panic
      | KBytes _ \<Rightarrow> Inl (unexpected_key (type_name k))
      | KOther t \<Rightarrow> Inl (unexpected_key t))"

definition year_month :: "string \<Rightarrow> string res" where
  "year_month s =
     rbind (str_slice s 0 4) (\<lambda>y. rbind (str_slice s 5 7) (\<lambda>m. Inr (y @ m)))"

definition year_month_day :: "string \<Rightarrow> string res" where
  "year_month_day s =
     rbind (year_month s) (\<lambda>ym. rbind (str_slice s 8 10) (\<lambda>d. Inr (ym @ d)))"

text \<open>
  The month and the day shard have the same code up to the parts \<open>pick\<close> of the date they
  keep.
\<close>

definition date_of_time :: "(string \<Rightarrow> string res) \<Rightarrow> local_date \<Rightarrow> int \<Rightarrow> int res" where
  "date_of_time pick loc v = rbind (pick (Format_date (loc v))) strconv_Atoi"

definition date_of_string :: "(string \<Rightarrow> string res) \<Rightarrow> string \<Rightarrow> int res" where
  "date_of_string pick s =
     (if length s < 10 then Inl (Err (Errorf (''invalid date format '' @ s)))
      else
        rbind (pick s) (\<lambda>t.
          case ParseInt10 t of
            Inl _ \<Rightarrow> Inl (Err (Errorf (''invalid date format '' @ s)))
          | Inr v \<Rightarrow> Inr v))"

definition DateShard_FindForKey :: "(string \<Rightarrow> string res) \<Rightarrow> local_date \<Rightarrow> key \<Rightarrow> int res" where
  "DateShard_FindForKey pick loc k =
     (case k of
        KInt v \<Rightarrow> date_of_time pick loc v
      | KUint64 v \<Rightarrow> date_of_time pick loc (wrap64 v)
      | KInt64 v \<Rightarrow> date_of_time pick loc v
      | KStr s \<Rightarrow> date_of_string pick s
      | KBytes _ \<Rightarrow> Inl (unexpected_key (type_name k))
      | KOther t \<Rightarrow> Inl (unexpected_key t))"

definition DateMonthShard_FindForKey :: "local_date \<Rightarrow> key \<Rightarrow> int res" where
  "DateMonthShard_FindForKey = DateShard_FindForKey year_month"

definition DateDayShard_FindForKey :: "local_date \<Rightarrow> key \<Rightarrow> int res" where
  "DateDayShard_FindForKey = DateShard_FindForKey year_month_day"

fun FindForKey :: "local_date \<Rightarrow> shard \<Rightarrow> key \<Rightarrow> int res" where
  "FindForKey loc (HashShard n) k = HashShard_FindForKey n k"
| "FindForKey loc (NumRangeShard rs) k = NumRangeShard_FindForKey rs k"
| "FindForKey loc DateYearShard k = DateYearShard_FindForKey loc k"
| "FindForKey loc DateMonthShard k = DateMonthShard_FindForKey loc k"
| "FindForKey loc DateDayShard k = DateDayShard_FindForKey loc k"
| "FindForKey loc DefaultShard k = Inr 0"

section \<open>Digits\<close>

lemma digits_nat_Nil [simp]: "digits_nat [] = 0"
  by (simp add: digits_nat_def)

lemma digits_foldl:
  "foldl (\<lambda>n c. n * 10 + digit_val c) a s = a * 10 ^ length s + digits_nat s"
proof (induction s arbitrary: a)
  case (Cons c s)
  have "foldl (\<lambda>n c. n * 10 + digit_val c) a (c # s) = (a * 10 + digit_val c) * 10 ^ length s + digits_nat s"
    by (simp add: Cons.IH)
  moreover have "digits_nat (c # s) = digit_val c * 10 ^ length s + digits_nat s"
    using Cons.IH [of "digit_val c"] by (simp add: digits_nat_def)
  ultimately show ?case by (simp add: algebra_simps)
qed (simp add: digits_nat_def)

lemma digits_nat_Cons: "digits_nat (c # s) = digit_val c * 10 ^ length s + digits_nat s"
  using digits_foldl [of "digit_val c" s] by (simp add: digits_nat_def)

lemma digits_nat_append: "digits_nat (a @ b) = digits_nat a * 10 ^ length b + digits_nat b"
  using digits_foldl [of "digits_nat a" b] by (simp add: digits_nat_def)

lemma digits_nat_lt: "list_all is_digit s \<Longrightarrow> digits_nat s < 10 ^ length s"
proof (induction s)
  case (Cons c s)
  then have "digit_val c \<le> 9" and "digits_nat s < 10 ^ length s"
    by (auto simp: is_digit_def digit_val_def)
  then have "digit_val c * 10 ^ length s + digits_nat s < 9 * 10 ^ length s + 10 ^ length s"
    by (intro add_le_less_mono mult_le_mono1)
  then show ?case by (simp add: digits_nat_Cons)
qed simp

lemma digits_nat_replicate_0 [simp]: "digits_nat (replicate k (CHR ''0'') @ s) = digits_nat s"
  by (induction k) (simp_all add: digits_nat_Cons digit_val_def)

lemma digits_nat_nat_str [simp]: "digits_nat (nat_str n) = n"
proof (induction n rule: nat_str.induct)
  case (1 n)
  then show ?case
    by (cases "n < 10") (simp_all add: nat_str.simps [of n] digits_nat_append digits_nat_Cons)
qed

lemma length_nat_str: "n < 10 ^ w \<Longrightarrow> 0 < w \<Longrightarrow> length (nat_str n) \<le> w"
proof (induction w arbitrary: n)
  case (Suc w)
  show ?case
  proof (cases "n < 10")
    case False
    then have "w \<noteq> 0" using Suc.prems by (cases w) auto
    moreover have "n div 10 < 10 ^ w" using Suc.prems by (simp add: less_mult_imp_div_less mult.commute)
    ultimately show ?thesis using Suc.IH [of "n div 10"] False by (simp add: nat_str.simps [of n])
  qed (simp add: nat_str.simps [of n])
qed simp

lemma fmt_0d_nat: "fmt_0d w (int n) = zero_pad w (nat_str n)"
  by (simp add: fmt_0d_def)

lemma zero_pad_digits: "list_all is_digit (zero_pad w (nat_str n))"
  by (auto simp: zero_pad_def list_all_iff is_digit_def dest: nat_str_digits)

lemma length_zero_pad: "n < 10 ^ w \<Longrightarrow> 0 < w \<Longrightarrow> length (zero_pad w (nat_str n)) = w"
  using length_nat_str [of n w] by (simp add: zero_pad_def)

lemma digits_zero_pad: "digits_nat (zero_pad w (nat_str n)) = n"
  by (simp add: zero_pad_def)

lemma parse_digits_all:
  assumes "list_all is_digit s" and "a * 10 ^ length s + int (digits_nat s) \<le> mx" and "0 \<le> a"
  shows "parse_digits mx a s = Inr (a * 10 ^ length s + int (digits_nat s))"
  using assms
proof (induction s arbitrary: a)
  case (Cons c s)
  let ?a = "a * 10 + int (digit_val c)"
  have eq: "?a * 10 ^ length s + int (digits_nat s) =
      a * 10 ^ length (c # s) + int (digits_nat (c # s))"
    by (simp add: digits_nat_Cons algebra_simps)
  have "?a * 1 \<le> ?a * 10 ^ length s" using Cons.prems(3) by (intro mult_left_mono) auto
  moreover have "0 \<le> int (digits_nat s)" by simp
  ultimately have "?a \<le> mx" using Cons.prems(2) unfolding eq [symmetric] mult_1_right by linarith
  with Cons eq show ?case by (simp add: Let_def)
qed simp

lemma ParseInt10_digits:
  assumes "list_all is_digit s" and "s \<noteq> []" and "length s \<le> 18"
  shows "ParseInt10 s = Inr (int (digits_nat s))"
proof -
  have "digits_nat s < 10 ^ length s" using assms by (simp add: digits_nat_lt)
  also have "\<dots> \<le> 10 ^ 18" using assms by (intro power_increasing) auto
  finally have lt: "digits_nat s < 10 ^ 18" .
  have "parse_digits MaxUint64 0 s = Inr (int (digits_nat s))"
    using parse_digits_all [of s 0 MaxUint64] assms(1) lt by simp
  moreover have "is_digit (hd s)" using assms by (cases s) auto
  then have "hd s \<noteq> CHR ''-''" "hd s \<noteq> CHR ''+''" using not_digit_sign by metis+
  ultimately show ?thesis using assms lt by (simp add: ParseInt10_def ParseUint10_def)
qed

lemma strconv_Atoi_digits:
  "list_all is_digit s \<Longrightarrow> s \<noteq> [] \<Longrightarrow> length s \<le> 18 \<Longrightarrow> strconv_Atoi s = Inr (int (digits_nat s))"
  by (simp add: strconv_ParseInt_def ParseInt10_digits)

section \<open>The calendar\<close>

lemma ceil_div_step:
  "0 < k \<Longrightarrow> (Suc y + (k - 1)) div k = (y + (k - 1)) div k + (if k dvd y then 1 else 0)" for k :: nat
proof -
  assume k: "0 < k"
  then have "(Suc y + (k - 1)) div k = y div k + 1" by (simp add: div_add_self2)
  moreover have "(y + (k - 1)) div k = y div k + (if k dvd y then 0 else 1)"
  proof (cases "k dvd y")
    case True
    then obtain q where "y = k * q" by (elim dvdE)
    then show ?thesis using True k div_mult_self2 [of k "k - 1" q] by (simp add: add.commute)
  next
    case False
    then have "y mod k \<noteq> 0" by (simp add: dvd_eq_mod_eq_0)
    have "y mod k < k" using k by simp
    then have "y mod k + (k - 1) < k + k" "k \<le> y mod k + (k - 1)"
      using \<open>y mod k \<noteq> 0\<close> by linarith+
    then have "(y mod k + (k - 1)) div k = 1" by (intro div_nat_eqI) simp_all
    moreover have "(y + (k - 1)) div k = y div k + (y mod k + (k - 1)) div k"
      using div_mult_self1 [of k "y mod k + (k - 1)" "y div k"] k by (simp add: algebra_simps)
    ultimately show ?thesis using False by simp
  qed
  ultimately show ?thesis by simp
qed

definition year_start :: "nat \<Rightarrow> nat" where
  "year_start y = 365 * y + (y + 3) div 4 + (y + 399) div 400 - (y + 99) div 100"

lemma year_start_Suc: "year_start (Suc y) = year_start y + (if leap y then 366 else 365)"
proof -
  have c4: "(Suc y + 3) div 4 = (y + 3) div 4 + (if 4 dvd y then 1 else 0)"
    using ceil_div_step [of 4 y] by (simp only: zero_less_numeral diff_numeral_simps) simp
  have c100: "(Suc y + 99) div 100 = (y + 99) div 100 + (if 100 dvd y then 1 else 0)"
    using ceil_div_step [of 100 y] by (simp only: zero_less_numeral diff_numeral_simps) simp
  have c400: "(Suc y + 399) div 400 = (y + 399) div 400 + (if 400 dvd y then 1 else 0)"
    using ceil_div_step [of 400 y] by (simp only: zero_less_numeral diff_numeral_simps) simp
  have le: "(y + 99) div 100 \<le> 365 * y" by (cases y) auto
  have "100 dvd y \<Longrightarrow> 4 dvd y" using dvd_trans [of 4 100 y] by simp
  moreover have "400 dvd y \<Longrightarrow> 100 dvd y" using dvd_trans [of 100 400 y] by simp
  moreover obtain a b c where "(y + 3) div 4 = a" "(y + 99) div 100 = b" "(y + 399) div 400 = c"
    by blast
  ultimately show ?thesis
    using le unfolding year_start_def leap_def c4 c100 c400
    by (cases "400 dvd y"; cases "100 dvd y"; cases "4 dvd y") simp_all
qed

lemma days_before_month_Suc:
  "1 \<le> m \<Longrightarrow> days_before_month y (Suc m) = days_before_month y m + days_in y m"
  by (simp add: days_before_month_def)

lemma days_before_month_1 [simp]: "days_before_month y (Suc 0) = 0"
  by (simp add: days_before_month_def)

lemma days_before_month_12:
  "days_before_month y 12 + 31 = (if leap y then 366 else 365)"
  by (simp add: days_before_month_def days_in_def upt_rec)

lemma days_before_month_mono: "m \<le> m' \<Longrightarrow> days_before_month y m \<le> days_before_month y m'"
proof (induction m' rule: dec_induct)
  case (step n)
  then show ?case by (cases "n = 0") (auto simp: days_before_month_Suc days_before_month_def)
qed simp

lemma day_number_eq: "day_number (y, m, d) = year_start y + days_before_month y m + d"
  by (simp add: day_number_def year_start_def)

lemma next_day_valid: "valid_date d \<Longrightarrow> valid_date (next_day d)"
  by (auto simp: valid_date_def next_day_def days_in_def split: if_splits)

lemma day_number_next_day: "valid_date d \<Longrightarrow> day_number (next_day d) = day_number d + 1"
proof -
  assume v: "valid_date d"
  obtain y m dd where d: "d = (y, m, dd)" by (cases d) auto
  have md: "1 \<le> m" "m \<le> 12" "dd \<le> days_in y m" using v by (auto simp: valid_date_def d)
  consider "dd < days_in y m" | "dd = days_in y m" "m < 12" | "dd = days_in y m" "m = 12"
    using md by linarith
  then show ?thesis
  proof cases
    case 3
    then have "dd = 31" by (simp add: days_in_def)
    with 3 d days_before_month_12 [of y] show ?thesis
      by (simp add: next_day_def day_number_eq year_start_Suc)
  qed (use md in \<open>auto simp: d next_day_def day_number_eq days_before_month_Suc\<close>)
qed

text \<open>The number by which a table of a day rule is named.\<close>

definition date_num :: "date \<Rightarrow> int" where
  "date_num d = (case d of (y, m, dd) \<Rightarrow> int (y * 10000 + m * 100 + dd))"

lemma days_in_le: "days_in y m \<le> 31"
  by (simp add: days_in_def)

lemma day_in_year: "valid_date (y, m, d) \<Longrightarrow> year_start y < day_number (y, m, d) \<and> day_number (y, m, d) \<le> year_start (Suc y)"
proof -
  assume v: "valid_date (y, m, d)"
  then have "m \<le> 12" "1 \<le> m" "1 \<le> d" "d \<le> days_in y m" by (auto simp: valid_date_def)
  then have "days_before_month y m + d \<le> days_before_month y (Suc 12)"
    using days_before_month_mono [of "Suc m" "Suc 12" y] by (simp add: days_before_month_Suc)
  also have "\<dots> = (if leap y then 366 else 365)"
    using days_before_month_12 [of y] by (simp only: days_before_month_Suc) (simp add: days_in_def)
  finally show ?thesis using \<open>1 \<le> d\<close> by (auto simp: day_number_eq year_start_Suc)
qed

lemma year_start_mono: "y \<le> y' \<Longrightarrow> year_start y \<le> year_start y'"
  by (rule lift_Suc_mono_le [of year_start]) (simp_all add: year_start_Suc)

text \<open>The order of the table numbers is the order of the days.\<close>

lemma day_number_less:
  assumes a: "valid_date a" and b: "valid_date b" and less: "date_num a < date_num b"
  shows "day_number a < day_number b"
proof -
  obtain y m d where a': "a = (y, m, d)" by (cases a) auto
  obtain y' m' d' where b': "b = (y', m', d')" by (cases b) auto
  have bounds: "m \<le> 12" "m' \<le> 12" "1 \<le> m" "1 \<le> m'" "1 \<le> d'" "d \<le> days_in y m" "d' \<le> days_in y' m'"
    using a b by (auto simp: a' b' valid_date_def)
  have d31: "d \<le> 31" "d' \<le> 31" using bounds days_in_le [of y m] days_in_le [of y' m'] by auto
  have l: "y * 10000 + m * 100 + d < y' * 10000 + m' * 100 + d'"
    using less unfolding a' b' date_num_def by (simp only: prod.case of_nat_less_iff)
  have yy: "y \<le> y'" using l bounds d31 by linarith
  have mm: "m \<le> m'" if "y = y'" using l bounds d31 that by linarith
  consider "y < y'" | "y = y'" "m < m'" | "y = y'" "m = m'" "d < d'"
    using l yy mm by fastforce
  then show ?thesis
  proof cases
    case 1
    then show ?thesis
      using day_in_year [of y m d] day_in_year [of y' m' d'] year_start_mono [of "Suc y" y'] a b
      by (simp add: a' b')
  next
    case 2
    then show ?thesis
      using days_before_month_mono [of "Suc m" m' y] bounds
      by (simp add: a' b' day_number_eq days_before_month_Suc)
  qed (simp add: a' b' day_number_eq)
qed

lemma date_num_le:
  "valid_date a \<Longrightarrow> valid_date b \<Longrightarrow> day_number a \<le> day_number b \<Longrightarrow> date_num a \<le> date_num b"
  using day_number_less [of b a] by linarith

lemma date_num_inject: "valid_date a \<Longrightarrow> valid_date b \<Longrightarrow> date_num a = date_num b \<Longrightarrow> a = b"
proof -
  assume v: "valid_date a" "valid_date b" and e: "date_num a = date_num b"
  obtain y m d where a: "a = (y, m, d)" by (cases a) auto
  obtain y' m' d' where b: "b = (y', m', d')" by (cases b) auto
  have l: "y * 10000 + m * 100 + d = y' * 10000 + m' * 100 + d'"
    using e unfolding a b date_num_def by (simp only: prod.case of_nat_eq_iff)
  have "m \<le> 12" "m' \<le> 12" "d \<le> 31" "d' \<le> 31"
    using v days_in_le [of y m] days_in_le [of y' m'] by (auto simp: a b valid_date_def)
  with l have "y = y'" by linarith
  moreover from this l \<open>d \<le> 31\<close> \<open>d' \<le> 31\<close> have "m = m'" by linarith
  ultimately show ?thesis using l by (simp add: a b)
qed

lemma Atoi_date_Format_day:
  assumes "valid_date (y, m, d)" and "y < 10000"
  shows "strconv_Atoi (date_Format_day (y, m, d)) = Inr (date_num (y, m, d))"
proof -
  have md: "m < 100" "d < 100" using assms days_in_le [of y m] by (auto simp: valid_date_def)
  let ?s = "date_Format_day (y, m, d)"
  have s: "?s = zero_pad 4 (nat_str y) @ zero_pad 2 (nat_str m) @ zero_pad 2 (nat_str d)"
    by (simp add: date_Format_day_def fmt_0d_nat)
  have len: "length (zero_pad 4 (nat_str y)) = 4" "length (zero_pad 2 (nat_str m)) = 2"
    "length (zero_pad 2 (nat_str d)) = 2"
    using length_zero_pad [of y 4] length_zero_pad [of m 2] length_zero_pad [of d 2] md assms
    by simp_all
  have "strconv_Atoi ?s = Inr (int (digits_nat ?s))"
    using len by (intro strconv_Atoi_digits) (auto simp: s zero_pad_digits)
  also have "digits_nat ?s = y * 10000 + m * 100 + d"
    unfolding s digits_nat_append digits_zero_pad length_append len by simp
  finally show ?thesis by (simp add: date_num_def)
qed

lemma next_day_pow:
  "valid_date d \<Longrightarrow> valid_date ((next_day ^^ i) d) \<and> day_number ((next_day ^^ i) d) = day_number d + i"
  by (induction i) (auto simp: next_day_valid day_number_next_day)

lemma day_loop_eq:
  assumes "valid_date d" and "valid_date e" and "date_num e < 100000000"
    and "day_number d + k \<le> day_number e"
  shows "day_loop k d = Inr (map (\<lambda>i. date_num ((next_day ^^ i) d)) [0..<Suc k])"
  using assms
proof (induction k arbitrary: d)
  case 0
  have le: "date_num d \<le> date_num e" using 0 by (intro date_num_le) auto
  obtain y m dd where d: "d = (y, m, dd)" by (cases d) auto
  have "y < 10000" using le 0 by (simp add: d date_num_def)
  with 0 show ?case by (simp add: d Atoi_date_Format_day)
next
  case (Suc k)
  have le: "date_num d \<le> date_num e" using Suc.prems by (intro date_num_le) auto
  obtain y m dd where d: "d = (y, m, dd)" by (cases d) auto
  have "y < 10000" using le Suc.prems by (simp add: d date_num_def)
  then have "strconv_Atoi (date_Format_day d) = Inr (date_num d)"
    using Suc.prems by (simp add: d Atoi_date_Format_day)
  moreover have "day_loop k (next_day d) =
      Inr (map (\<lambda>i. date_num ((next_day ^^ i) (next_day d))) [0..<Suc k])"
    using Suc.prems by (intro Suc.IH) (simp_all add: next_day_valid day_number_next_day)
  moreover have "map (\<lambda>i. date_num ((next_day ^^ i) d)) [0..<Suc (Suc k)] =
      date_num d # map (\<lambda>i. date_num ((next_day ^^ i) (next_day d))) [0..<Suc k]"
    by (simp add: map_upt_Suc funpow_swap1 del: upt_Suc)
  ultimately show ?case by simp
qed

text \<open>
  The loop of \<open>ParseDayRange\<close> yields exactly the days of its interval, each once and in
  order, as long as the interval is not longer than a \<open>time.Duration\<close>.
\<close>

lemma day_loop_days:
  assumes b: "valid_date b" and e: "valid_date e" and y: "date_num e < 100000000"
    and le: "day_number b \<le> day_number e" and short: "day_number e \<le> day_number b + 106751"
  shows "\<exists>l. day_loop (sub_days e b) b = Inr l \<and> asc l \<and>
    set l = date_num ` {d. valid_date d \<and> day_number b \<le> day_number d \<and> day_number d \<le> day_number e}"
proof -
  let ?k = "sub_days e b" and ?f = "\<lambda>i. date_num ((next_day ^^ i) b)"
  let ?D = "{d. valid_date d \<and> day_number b \<le> day_number d \<and> day_number d \<le> day_number e}"
  have k: "day_number b + ?k = day_number e" using le short by (simp add: sub_days_def)
  have pow: "valid_date ((next_day ^^ i) b)" "day_number ((next_day ^^ i) b) = day_number b + i" for i
    using next_day_pow [OF b] by auto
  have inj: "c = d" if "valid_date c" "valid_date d" "day_number c = day_number d" for c d
  proof -
    have "date_num c = date_num d" using that date_num_le [of c d] date_num_le [of d c] by simp
    with that show ?thesis by (intro date_num_inject)
  qed
  have less: "?f i < ?f j" if "i < j" for i j
  proof -
    have "?f i \<le> ?f j" using that pow by (intro date_num_le) auto
    moreover have "?f i \<noteq> ?f j" using that pow date_num_inject by (metis add_left_cancel less_irrefl)
    ultimately show ?thesis by linarith
  qed
  have asc: "asc (map ?f [0..<Suc ?k])"
    by (auto simp: sorted_wrt_map sorted_wrt_iff_nth_less less simp del: upt_Suc)
  have "?f ` {0..<Suc ?k} = date_num ` ?D"
  proof (intro equalityI subsetI)
    fix x assume "x \<in> ?f ` {0..<Suc ?k}"
    then show "x \<in> date_num ` ?D" using pow k by auto
  next
    fix x assume "x \<in> date_num ` ?D"
    then obtain d where d: "valid_date d" "day_number b \<le> day_number d" "day_number d \<le> day_number e"
      and x: "x = date_num d" by auto
    let ?i = "day_number d - day_number b"
    have "d = (next_day ^^ ?i) b" using d pow by (intro inj) auto
    moreover have "?i < Suc ?k" using d k by linarith
    ultimately show "x \<in> ?f ` {0..<Suc ?k}" using x by (auto intro!: image_eqI [of _ _ ?i])
  qed
  moreover have "day_loop ?k b = Inr (map ?f [0..<Suc ?k])"
    using b e y k by (intro day_loop_eq) auto
  ultimately show ?thesis using asc by (auto simp del: upt_Suc)
qed

section \<open>The range parsers\<close>

lemma str_less_append:
  "length a = length b \<Longrightarrow> str_less (a @ x) (b @ y) \<longleftrightarrow> str_less a b \<or> a = b \<and> str_less x y"
  by (induction a b rule: list_induct2) auto

lemma str_less_digits:
  assumes "length a = length b" and "list_all is_digit a" and "list_all is_digit b"
  shows "str_less a b \<longleftrightarrow> digits_nat a < digits_nat b"
  using assms
proof (induction a b rule: list_induct2)
  case (Cons x a y b)
  then have da: "digits_nat a < 10 ^ length a" and db: "digits_nat b < 10 ^ length a"
    by (auto dest: digits_nat_lt)
  have carry: "p * 10 ^ n + u < q * 10 ^ n + v" if "p < q" "u < 10 ^ n" for p q u v n :: nat
  proof -
    have "p * 10 ^ n + u < (p + 1) * 10 ^ n" using that by simp
    also have "\<dots> \<le> q * 10 ^ n" using that by (intro mult_le_mono1) simp
    finally show ?thesis by simp
  qed
  have bytes: "byte_of x = digit_val x + 48" "byte_of y = digit_val y + 48"
    using Cons.prems by (simp_all add: is_digit_def digit_val_def)
  have xy: "byte_of x < (byte_of y :: nat) \<longleftrightarrow> digit_val x < digit_val y"
    "byte_of x = (byte_of y :: nat) \<longleftrightarrow> digit_val x = digit_val y"
    unfolding bytes by simp_all
  consider "digit_val x < digit_val y" | "digit_val x = digit_val y" | "digit_val y < digit_val x"
    by linarith
  then show ?case
  proof cases
    case 1
    with carry [OF 1 da] xy show ?thesis using Cons.hyps by (simp add: digits_nat_Cons)
  next
    case 2
    with Cons xy show ?thesis by (simp add: digits_nat_Cons)
  next
    case 3
    with carry [OF 3 db, of "digits_nat a"] xy show ?thesis using Cons.hyps by (simp add: digits_nat_Cons)
  qed
qed simp

lemma time_Parse_dayD:
  assumes "time_Parse_day s = Inr d"
  shows "length s = 8" and "list_all is_digit s" and "valid_date d" and "date_num d = int (digits_nat s)"
    and "date_num d < 100000000"
proof -
  from assms have l: "length s = 8" and g: "list_all is_digit s" and v: "valid_date d"
    and d: "d = (digits_nat (take 4 s), digits_nat (take 2 (drop 4 s)), digits_nat (drop 6 s))"
    by (auto simp: time_Parse_day_def Let_def split: if_splits)
  show "length s = 8" "list_all is_digit s" "valid_date d" by fact+
  have "s = take 4 s @ take 2 (drop 4 s) @ drop 6 s"
    using append_take_drop_id [of 4 s] append_take_drop_id [of 2 "drop 4 s"] by simp
  then have "digits_nat s = digits_nat (take 4 s) * 10 ^ length (take 2 (drop 4 s) @ drop 6 s)
      + (digits_nat (take 2 (drop 4 s)) * 10 ^ length (drop 6 s) + digits_nat (drop 6 s))"
    by (metis digits_nat_append)
  with l show n: "date_num d = int (digits_nat s)" by (simp add: d date_num_def)
  show "date_num d < 100000000" using digits_nat_lt [OF g] l n by simp
qed

lemma no_dash_digits: "list_all is_digit s \<Longrightarrow> CHR ''-'' \<notin> set s"
  using not_digit_sign by (auto simp: list_all_iff)

lemma ParseDayRange_days:
  assumes a: "time_Parse_day a = Inr d1" and b: "time_Parse_day b = Inr d2"
    and short: "day_number d1 \<le> day_number d2 + 106751" "day_number d2 \<le> day_number d1 + 106751"
  defines "lo \<equiv> min (day_number d1) (day_number d2)" and "hi \<equiv> max (day_number d1) (day_number d2)"
  shows "\<exists>l. ParseDayRange (a @ ''-'' @ b) = Inr l \<and> asc l \<and>
    set l = date_num ` {d. valid_date d \<and> lo \<le> day_number d \<and> day_number d \<le> hi}"
proof -
  note A = time_Parse_dayD [OF a] and B = time_Parse_dayD [OF b]
  have split: "str_splitN2 (CHR ''-'') (a @ CHR ''-'' # b) = [a, b]"
    using A by (simp add: str_splitN2_sep no_dash_digits)
  have swap: "str_less b a \<longleftrightarrow> date_num d2 < date_num d1"
    using A B by (simp add: str_less_digits)
  show ?thesis
  proof (cases "date_num d2 < date_num d1")
    case True
    then have "day_number d2 < day_number d1" using A B by (intro day_number_less) auto
    with True A B short show ?thesis
      using day_loop_days [of d2 d1] swap a b
      by (simp add: ParseDayRange_def split swap_dates_def lo_def hi_def)
  next
    case False
    then have "day_number d1 \<le> day_number d2" using A B day_number_less [of d2 d1] 
      by (metis date_num_le date_num_inject le_cases order_antisym not_le_imp_less)
    with False A B short show ?thesis
      using day_loop_days [of d1 d2] swap a b
      by (simp add: ParseDayRange_def split swap_dates_def lo_def hi_def)
  qed
qed

text \<open>Months counted from year 0, and the number by which a table of a month rule is named.\<close>

definition month_num :: "int \<Rightarrow> int" where
  "month_num t = t div 12 * 100 + t mod 12 + 1"

lemma month_num_mono: "s < t \<Longrightarrow> month_num s < month_num t"
proof -
  assume st: "s < t"
  have m: "s = s div 12 * 12 + s mod 12" "t = t div 12 * 12 + t mod 12"
    "0 \<le> s mod 12" "s mod 12 < 12" "0 \<le> t mod 12" "t mod 12 < 12" by simp_all
  have "s div 12 \<le> t div 12" using st by (intro zdiv_mono1) auto
  then consider "s div 12 + 1 \<le> t div 12" | "s div 12 = t div 12" by linarith
  then show ?thesis using st m unfolding month_num_def by cases linarith+
qed

lemma month_num_split: "0 \<le> m \<Longrightarrow> m < 12 \<Longrightarrow> month_num (y * 12 + m) = y * 100 + m + 1"
  by (simp add: month_num_def)

lemma month_loop_eq:
  "1 \<le> m \<Longrightarrow> m \<le> 13 \<Longrightarrow>
   month_loop k m y = map month_num [y * 12 + m - 1 .. y * 12 + m - 2 + int k]"
proof (induction k arbitrary: m y)
  case (Suc k)
  define m' y' where "m' = (if 12 < m then m mod 12 else m)" and "y' = (if 12 < m then y + 1 else y)"
  have m13: "m = 13 \<or> m \<le> 12" using Suc.prems by linarith
  have eq: "y' * 12 + m' = y * 12 + m" "1 \<le> m'" "m' \<le> 12"
    using Suc.prems m13 by (auto simp: m'_def y'_def)
  have "month_loop (Suc k) m y = (y' * 100 + m') # month_loop k (m' + 1) y'"
    by (simp add: m'_def y'_def)
  also have "y' * 100 + m' = month_num (y * 12 + m - 1)"
    using month_num_split [of "m' - 1" y'] eq by (simp add: algebra_simps)
  also have "month_loop k (m' + 1) y' = map month_num [y * 12 + m .. y * 12 + m - 1 + int k]"
  proof -
    have "y' * 12 + (m' + 1) - 1 = y * 12 + m" "y' * 12 + (m' + 1) - 2 + int k = y * 12 + m - 1 + int k"
      using eq(1) by linarith+
    then show ?thesis using Suc.IH [of "m' + 1" y'] eq(2,3) by (simp only:)
  qed
  also have "month_num (y * 12 + m - 1) # \<dots> = map month_num [y * 12 + m - 1 .. y * 12 + m - 2 + int (Suc k)]"
    by (subst upto_rec1 [of "y * 12 + m - 1"]) (simp_all add: algebra_simps)
  finally show ?case .
qed simp

lemma asc_map_month_num: "asc (map month_num [i..j])"
  unfolding sorted_wrt_map using asc_upto [of i j]
  by (rule sorted_wrt_mono_rel [rotated]) (rule month_num_mono)


text \<open>Six digits, the last two of them a month.\<close>

definition wf_month :: "string \<Rightarrow> bool" where
  "wf_month s \<longleftrightarrow>
     length s = 6 \<and> list_all is_digit s \<and> 1 \<le> digits_nat (drop 4 s) \<and> digits_nat (drop 4 s) \<le> 12"

definition month_index :: "string \<Rightarrow> int" where
  "month_index s = int (digits_nat (take 4 s)) * 12 + int (digits_nat (drop 4 s)) - 1"

lemma wf_month_parts:
  assumes "wf_month s"
  shows "strconv_Atoi (take 4 s) = Inr (int (digits_nat (take 4 s)))"
    and "strconv_Atoi (drop 4 s) = Inr (int (digits_nat (drop 4 s)))"
    and "digits_nat s = digits_nat (take 4 s) * 100 + digits_nat (drop 4 s)"
proof -
  have s: "list_all is_digit (take 4 s)" "list_all is_digit (drop 4 s)" "length s = 6"
    using assms by (auto simp: wf_month_def list_all_iff dest: in_set_takeD in_set_dropD)
  then show "strconv_Atoi (take 4 s) = Inr (int (digits_nat (take 4 s)))"
    "strconv_Atoi (drop 4 s) = Inr (int (digits_nat (drop 4 s)))"
    by (auto intro!: strconv_Atoi_digits)
  show "digits_nat s = digits_nat (take 4 s) * 100 + digits_nat (drop 4 s)"
    using digits_nat_append [of "take 4 s" "drop 4 s"] s by simp
qed

lemma ParseMonthRange_ordered:
  assumes a: "wf_month a" and b: "wf_month b" and le: "month_index a \<le> month_index b"
  shows "rbind (strconv_Atoi (take 4 a)) (\<lambda>beginYear.
         rbind (strconv_Atoi (drop 4 a)) (\<lambda>beginMonth.
         rbind (strconv_Atoi (take 4 b)) (\<lambda>endYear.
         rbind (strconv_Atoi (drop 4 b)) (\<lambda>endMonth.
           Inr (month_loop (nat ((endYear - beginYear) * 12 + endMonth - beginMonth + 1))
                  beginMonth beginYear)))))
    = Inr (map month_num [month_index a .. month_index b])"
proof -
  let ?y = "int (digits_nat (take 4 a))" and ?m = "int (digits_nat (drop 4 a))"
  have m: "1 \<le> ?m" "?m \<le> 13" using a by (auto simp: wf_month_def)
  let ?n = "(int (digits_nat (take 4 b)) - ?y) * 12 + int (digits_nat (drop 4 b)) - ?m + 1"
  have "?n = month_index b - month_index a + 1" by (simp add: month_index_def)
  then have "?y * 12 + ?m - 2 + int (nat ?n) = month_index b" using le by (simp add: month_index_def)
  then have "month_loop (nat ?n) ?m ?y = map month_num [month_index a .. month_index b]"
    unfolding month_index_def [of a] using month_loop_eq [OF m, of "nat ?n" ?y] by (simp only:)
  then show ?thesis
    by (simp only: wf_month_parts(1,2) [OF a] wf_month_parts(1,2) [OF b] rbind_Inr)
qed

lemma ParseMonthRange_months:
  assumes a: "wf_month a" and b: "wf_month b"
  shows "ParseMonthRange (a @ ''-'' @ b) =
    Inr (map month_num [min (month_index a) (month_index b) .. max (month_index a) (month_index b)])"
proof -
  have split: "str_splitN2 (CHR ''-'') (a @ CHR ''-'' # b) = [a, b]"
    using a by (simp add: str_splitN2_sep no_dash_digits wf_month_def)
  have "str_less b a \<longleftrightarrow> digits_nat b < digits_nat a"
    using a b by (intro str_less_digits) (auto simp: wf_month_def)
  also have "\<dots> \<longleftrightarrow> month_index b < month_index a"
  proof -
    have m: "1 \<le> digits_nat (drop 4 a)" "digits_nat (drop 4 a) \<le> 12"
      "1 \<le> digits_nat (drop 4 b)" "digits_nat (drop 4 b) \<le> 12"
      using a b by (auto simp: wf_month_def)
    show ?thesis
      unfolding wf_month_parts(3) [OF a] wf_month_parts(3) [OF b] month_index_def
      using m by (cases "digits_nat (take 4 a)" "digits_nat (take 4 b)" rule: linorder_cases) auto
  qed
  finally have swap: "str_less b a \<longleftrightarrow> month_index b < month_index a" .
  have len: "length a = 6" "length b = 6" using a b by (auto simp: wf_month_def)
  show ?thesis
    using ParseMonthRange_ordered [OF a b] ParseMonthRange_ordered [OF b a]
    by (cases "month_index b < month_index a")
       (simp_all add: ParseMonthRange_def split swap swap_dates_def len)
qed

lemma ParseYearRange_years:
  assumes "length a = 4" "list_all is_digit a" "length b = 4" "list_all is_digit b"
  shows "ParseYearRange (a @ ''-'' @ b) =
    Inr [min (int (digits_nat a)) (int (digits_nat b)) .. max (int (digits_nat a)) (int (digits_nat b))]"
proof -
  have split: "str_splitN2 (CHR ''-'') (a @ CHR ''-'' # b) = [a, b]"
    using assms by (simp add: str_splitN2_sep no_dash_digits)
  have swap: "str_less b a \<longleftrightarrow> digits_nat b < digits_nat a"
    using assms by (intro str_less_digits) auto
  have atoi: "strconv_Atoi a = Inr (int (digits_nat a))" "strconv_Atoi b = Inr (int (digits_nat b))"
    using assms by (auto intro!: strconv_Atoi_digits)
  have lt: "digits_nat a < 10000" "digits_nat b < 10000"
    using assms digits_nat_lt [of a] digits_nat_lt [of b] by auto
  show ?thesis
    using atoi lt
    by (cases "digits_nat b < digits_nat a")
       (simp_all add: ParseYearRange_def split swap swap_dates_def)
qed

section \<open>Finding the table of a key\<close>

lemma foldl_wrap64_sum:
  "\<lbrakk>\<forall>n \<in> set ns. 0 \<le> n; 0 \<le> c; c + sum_list ns \<le> MaxInt64\<rbrakk>
   \<Longrightarrow> foldl (\<lambda>c n. wrap64 (c + n)) c ns = c + sum_list ns"
proof (induction ns arbitrary: c)
  case (Cons n ns)
  have "0 \<le> sum_list ns" using Cons.prems by (intro sum_list_nonneg) auto
  then have "wrap64 (c + n) = c + n" using Cons.prems by (intro wrap64_id) (auto simp: is_int64_def)
  with Cons show ?case by (simp add: algebra_simps)
qed simp

lemma ParseNumSharding_eq:
  assumes ns: "\<forall>n \<in> set ns. 0 \<le> n" and L: "0 < L" and fit: "sum_list ns * L \<le> MaxInt64"
  shows "ParseNumSharding ns L =
    Inr (map (\<lambda>i. \<lparr>kr_Start = i * L, kr_End = (i + 1) * L\<rparr>) [0..sum_list ns - 1])"
proof -
  have nn: "0 \<le> sum_list ns" using ns by (intro sum_list_nonneg) auto
  have "sum_list ns * 1 \<le> sum_list ns * L" using nn L by (intro mult_left_mono) auto
  then have "sum_list ns \<le> MaxInt64" using fit by linarith
  then have cnt: "foldl (\<lambda>c n. wrap64 (c + n)) 0 ns = sum_list ns"
    using foldl_wrap64_sum [OF ns, of 0] by simp
  have w: "wrap64 (i * L) = i * L" if "0 \<le> i" "i \<le> sum_list ns" for i
  proof -
    have "0 \<le> i * L" "i * L \<le> sum_list ns * L" using that L by (auto intro: mult_right_mono)
    with fit show ?thesis by (intro wrap64_id) (auto simp: is_int64_def)
  qed
  show ?thesis using nn by (auto simp: ParseNumSharding_def cnt w)
qed

lemma range_loop_first:
  "\<lbrakk>j < length rs; kr_Contains (rs ! j) v; \<And>j'. j' < j \<Longrightarrow> \<not> kr_Contains (rs ! j') v\<rbrakk>
   \<Longrightarrow> range_loop i rs v = Inr (int (i + j))"
proof (induction rs arbitrary: i j)
  case (Cons r rs)
  show ?case
  proof (cases j)
    case 0
    with Cons.prems show ?thesis by simp
  next
    case (Suc k)
    have "\<not> kr_Contains r v" using Cons.prems(3) [of 0] Suc by simp
    moreover have "range_loop (Suc i) rs v = Inr (int (Suc i + k))"
      using Cons.prems Suc by (intro Cons.IH) fastforce+
    ultimately show ?thesis using Suc by simp
  qed
qed simp

lemma range_loop_none: "(\<And>r. r \<in> set rs \<Longrightarrow> \<not> kr_Contains r v) \<Longrightarrow> range_loop i rs v = Inl (Err ErrKeyOutOfRange)"
  by (induction rs arbitrary: i) auto

lemma quotient_iff: "0 < L \<Longrightarrow> i * L \<le> v \<and> v < (i + 1) * L \<longleftrightarrow> i = v div L" for L :: int
proof
  assume L: "0 < L" and iv: "i * L \<le> v \<and> v < (i + 1) * L"
  have "v div L = i"
    using iv by (intro int_div_pos_eq [of v L i "v - i * L"]) (auto simp: algebra_simps)
  then show "i = v div L" by simp
next
  assume L: "0 < L" and i: "i = v div L"
  have "v = v div L * L + v mod L" "0 \<le> v mod L" "v mod L < L" using L by simp_all
  then show "i * L \<le> v \<and> v < (i + 1) * L" unfolding i ring_distribs mult_1_left by linarith
qed

lemma quotient_less: "0 < L \<Longrightarrow> v div L < n \<longleftrightarrow> v < n * L" for L :: int
proof -
  assume L: "0 < L"
  have v: "v div L * L \<le> v" "v < (v div L + 1) * L" using quotient_iff [OF L, of "v div L" v] by auto
  show ?thesis
  proof
    assume "v div L < n"
    then have "(v div L + 1) * L \<le> n * L" using L by (intro mult_right_mono) auto
    with v show "v < n * L" by linarith
  next
    assume "v < n * L"
    with v(1) have "v div L * L < n * L" by linarith
    with L show "v div L < n" by simp
  qed
qed

text \<open>
  The shards of \<open>ParseNumSharding\<close> cut the keys into intervals of \<open>L\<close> keys each: the
  table of a key is its quotient by \<open>L\<close>, and the keys outside have no table.
\<close>

lemma range_shard_div:
  assumes L: "0 < L" and n: "0 \<le> n" and fit: "n * L < MaxInt64"
  shows "range_loop 0 (map (\<lambda>i. \<lparr>kr_Start = i * L, kr_End = (i + 1) * L\<rparr>) [0..n - 1]) v =
    (if 0 \<le> v \<and> v < n * L then Inr (v div L) else Inl (Err ErrKeyOutOfRange))"
proof -
  let ?rs = "map (\<lambda>i. \<lparr>kr_Start = i * L, kr_End = (i + 1) * L\<rparr>) [0..n - 1]"
  have C: "kr_Contains \<lparr>kr_Start = i * L, kr_End = (i + 1) * L\<rparr> v \<longleftrightarrow> i = v div L" if "0 \<le> i" "i < n" for i
  proof -
    have "(i + 1) * L \<le> n * L" using that L by (intro mult_right_mono) auto
    then have "(i + 1) * L \<noteq> MaxInt64" using fit by linarith
    then have "kr_Contains \<lparr>kr_Start = i * L, kr_End = (i + 1) * L\<rparr> v \<longleftrightarrow> i * L \<le> v \<and> v < (i + 1) * L"
      by (simp add: kr_Contains_def)
    also have "\<dots> \<longleftrightarrow> i = v div L"
      by (rule quotient_iff [OF L])
    finally show ?thesis .
  qed
  show ?thesis
  proof (cases "0 \<le> v \<and> v < n * L")
    case True
    have q: "0 \<le> v div L" "v div L < n"
      using True L by (auto simp: pos_imp_zdiv_nonneg_iff quotient_less)
    have nth: "[0..n - 1] ! j = int j" if "j < nat n" for j using that by simp
    have "range_loop 0 ?rs v = Inr (int (0 + nat (v div L)))"
      using q C nth by (intro range_loop_first) auto
    then show ?thesis using True q by simp
  next
    case False
    have "\<not> kr_Contains r v" if r: "r \<in> set ?rs" for r
    proof -
      obtain i where i: "0 \<le> i" "i < n" and r': "r = \<lparr>kr_Start = i * L, kr_End = (i + 1) * L\<rparr>" using r by auto
      have "i \<noteq> v div L"
        using False i L by (auto simp: pos_imp_zdiv_nonneg_iff quotient_less not_less)
      with i show ?thesis by (simp only: r' C not_False_eq_True)
    qed
    then have "range_loop 0 ?rs v = Inl (Err ErrKeyOutOfRange)" by (rule range_loop_none)
    then show ?thesis using False by (simp only: if_False)
  qed
qed

lemma HashShard_FindForKey_eq:
  "HashValue k = Inr h \<Longrightarrow> 0 < n \<Longrightarrow> n \<le> MaxInt64 \<Longrightarrow> HashShard_FindForKey n k = Inr (h mod n)"
proof -
  assume h: "HashValue k = Inr h" and n: "0 < n" "n \<le> MaxInt64"
  have "0 \<le> h mod n" "h mod n < n" using n by auto
  then have "is_int64 (h mod n)" using n unfolding is_int64_def by linarith
  with h n show ?thesis by (simp add: HashShard_FindForKey_def)
qed

text \<open>A quoted and an unquoted number hash alike, unless it is negative.\<close>

lemma HashValue_quoted:
  "0 \<le> v \<Longrightarrow> v \<le> MaxInt64 \<Longrightarrow> HashValue (KStr (int_str v)) = HashValue (KInt64 v)"
  using ParseUint10_nat_str [of "nat v"] by (simp add: HashValue_def int_str_def)

lemma NumValue_quoted: "is_int64 v \<Longrightarrow> NumValue (KStr (int_str v)) = NumValue (KInt64 v)"
  by (simp add: NumValue_def num_or_panic_def ParseInt10_int_str)

text \<open>
  Dates written \<open>YYYY-MM-DD\<close>, with anything after them (a time of day): the table number
  of a day rule, and those of the month and the year rule as quotients of it.
\<close>

definition wf_datestr :: "string \<Rightarrow> bool" where
  "wf_datestr s \<longleftrightarrow>
     10 \<le> length s \<and> list_all is_digit (take 4 s) \<and> s ! 4 = CHR ''-''
     \<and> list_all is_digit (take 2 (drop 5 s)) \<and> s ! 7 = CHR ''-''
     \<and> list_all is_digit (take 2 (drop 8 s))"

definition datestr_digits :: "string \<Rightarrow> string" where
  "datestr_digits s = take 4 s @ take 2 (drop 5 s) @ take 2 (drop 8 s)"

definition datestr_num :: "string \<Rightarrow> int" where
  "datestr_num s = int (digits_nat (datestr_digits s))"

lemma datestr_num_code [code]:
  "datestr_num s = foldl (\<lambda>n c. n * 10 + int (digit_val c)) 0 (datestr_digits s)"
proof -
  have "int (foldl (\<lambda>n c. n * 10 + digit_val c) a cs) = foldl (\<lambda>n c. n * 10 + int (digit_val c)) (int a) cs"
    for a :: nat and cs by (induction cs arbitrary: a) (auto simp: algebra_simps)
  from this [of 0] show ?thesis by (simp add: datestr_num_def digits_nat_def)
qed

lemma datestr_split:
  assumes "wf_datestr s"
  shows "s = take 4 s @ ''-'' @ take 2 (drop 5 s) @ ''-'' @ take 2 (drop 8 s) @ drop 10 s"
proof -
  have l: "10 \<le> length s" and c: "s ! 4 = CHR ''-''" "s ! 7 = CHR ''-''" using assms by (auto simp: wf_datestr_def)
  have "drop 4 s = s ! 4 # drop 5 s" "drop 7 s = s ! 7 # drop 8 s"
    using l Cons_nth_drop_Suc [of 4 s] Cons_nth_drop_Suc [of 7 s] by simp_all
  moreover have "drop 5 s = take 2 (drop 5 s) @ drop 7 s" "drop 8 s = take 2 (drop 8 s) @ drop 10 s"
    using append_take_drop_id [of 2 "drop 5 s"] append_take_drop_id [of 2 "drop 8 s"] by simp_all
  ultimately show ?thesis using c append_take_drop_id [of 4 s]
    by (metis append_Cons append_Nil append.assoc)
qed

lemma datestr_digits_ok:
  "wf_datestr s \<Longrightarrow> list_all is_digit (datestr_digits s) \<and> length (datestr_digits s) = 8"
  by (auto simp: wf_datestr_def datestr_digits_def)

text \<open>On such strings the lexicographic order never runs against the order of the tables.\<close>

lemma datestr_num_mono:
  assumes a: "wf_datestr a" and b: "wf_datestr b" and le: "\<not> str_less b a"
  shows "datestr_num a \<le> datestr_num b"
proof (rule ccontr)
  assume "\<not> datestr_num a \<le> datestr_num b"
  then have "digits_nat (datestr_digits b) < digits_nat (datestr_digits a)" by (simp add: datestr_num_def)
  then have "str_less (datestr_digits b) (datestr_digits a)"
    using datestr_digits_ok [OF a] datestr_digits_ok [OF b] by (simp add: str_less_digits)
  moreover have "10 \<le> length a" "10 \<le> length b" using a b by (auto simp: wf_datestr_def)
  ultimately have "str_less b a"
    by (subst datestr_split [OF a], subst datestr_split [OF b])
       (auto simp: datestr_digits_def str_less_append)
  with le show False by blast
qed

lemma str_slice_Inr: "i \<le> j \<Longrightarrow> j \<le> length s \<Longrightarrow> str_slice s i j = Inr (take (j - i) (drop i s))"
  by (simp add: str_slice_def drop_take)

lemma DateDay_datestr:
  assumes "wf_datestr s"
  shows "FindForKey loc DateDayShard (KStr s) = Inr (datestr_num s)"
proof -
  have "10 \<le> length s" using assms by (simp add: wf_datestr_def)
  then have "year_month_day s = Inr (datestr_digits s)"
    by (simp add: year_month_day_def year_month_def str_slice_Inr datestr_digits_def)
  moreover have "ParseInt10 (datestr_digits s) = Inr (datestr_num s)"
    using datestr_digits_ok [OF assms] unfolding datestr_num_def by (intro ParseInt10_digits) auto
  ultimately show ?thesis using \<open>10 \<le> length s\<close>
    by (simp add: DateDayShard_FindForKey_def DateShard_FindForKey_def date_of_string_def)
qed

lemma DateMonth_datestr:
  assumes "wf_datestr s"
  shows "FindForKey loc DateMonthShard (KStr s) = Inr (datestr_num s div 100)"
proof -
  have l: "10 \<le> length s" and d: "list_all is_digit (take 2 (drop 8 s))"
    and m: "list_all is_digit (take 4 s @ take 2 (drop 5 s))"
    using assms by (auto simp: wf_datestr_def)
  have "digits_nat (datestr_digits s) = digits_nat (take 4 s @ take 2 (drop 5 s)) * 100 + digits_nat (take 2 (drop 8 s))"
    using l digits_nat_append [of "take 4 s @ take 2 (drop 5 s)" "take 2 (drop 8 s)"] by (simp add: datestr_digits_def)
  moreover have "digits_nat (take 2 (drop 8 s)) < 100" using digits_nat_lt [OF d] l by simp
  ultimately have q: "datestr_num s div 100 = int (digits_nat (take 4 s @ take 2 (drop 5 s)))"
    by (simp add: datestr_num_def)
  have "ParseInt10 (take 4 s @ take 2 (drop 5 s)) = Inr (datestr_num s div 100)"
    using l m unfolding q by (intro ParseInt10_digits) auto
  then show ?thesis using l
    by (simp add: DateMonthShard_FindForKey_def DateShard_FindForKey_def date_of_string_def
        year_month_def str_slice_Inr)
qed

lemma DateYear_datestr:
  assumes "wf_datestr s"
  shows "FindForKey loc DateYearShard (KStr s) = Inr (datestr_num s div 10000)"
proof -
  have l: "10 \<le> length s" and y: "list_all is_digit (take 4 s)"
    and d: "list_all is_digit (take 2 (drop 5 s) @ take 2 (drop 8 s))"
    using assms by (auto simp: wf_datestr_def)
  have "digits_nat (datestr_digits s) = digits_nat (take 4 s) * 10000 + digits_nat (take 2 (drop 5 s) @ take 2 (drop 8 s))"
    using l digits_nat_append [of "take 4 s" "take 2 (drop 5 s) @ take 2 (drop 8 s)"] by (simp add: datestr_digits_def)
  moreover have "digits_nat (take 2 (drop 5 s) @ take 2 (drop 8 s)) < 10000" using digits_nat_lt [OF d] l by simp
  ultimately have q: "datestr_num s div 10000 = int (digits_nat (take 4 s))"
    by (simp add: datestr_num_def)
  have "ParseInt10 (take 4 s) = Inr (datestr_num s div 10000)"
    using l y unfolding q by (intro ParseInt10_digits) auto
  then show ?thesis using l
    by (simp add: DateYearShard_FindForKey_def num_or_panic_def str_slice_Inr)
qed

section \<open>Properties\<close>

text \<open>
  C22. The ranges of \<open>ParseNumSharding\<close> partition the keys: a key from 0 to the last table's end
  belongs to exactly one table, its quotient by the row limit, and every other key is reported
  out of range.
\<close>

theorem range_shards_partition:
  assumes "\<forall>n \<in> set locations. 0 \<le> n" and "0 < limit" and "sum_list locations * limit < MaxInt64"
    and "NumValue k = Inr v"
  shows "rbind (ParseNumSharding locations limit) (\<lambda>rs. NumRangeShard_FindForKey rs k) =
    (if 0 \<le> v \<and> v < sum_list locations * limit then Inr (v div limit) else Inl (Err ErrKeyOutOfRange))"
proof -
  have "0 \<le> sum_list locations" using assms(1) by (intro sum_list_nonneg) auto
  then show ?thesis
    using ParseNumSharding_eq [OF assms(1,2)] range_shard_div [OF assms(2), of "sum_list locations" v] assms(3,4)
    by (simp add: NumRangeShard_FindForKey_def)
qed

theorem range_shards_partition_witness:
  "rbind (ParseNumSharding [2, 2] 100) (\<lambda>rs. NumRangeShard_FindForKey rs (KStr ''399'')) = Inr 3"
proof -
  have "NumValue (KStr ''399'') = Inr 399" by code_simp
  from range_shards_partition [of "[2, 2]" 100, OF _ _ _ this] show ?thesis by simp
qed

text \<open>
  C24. \<open>ParseDayRange\<close> lists every calendar day between two dates, in either order of the dates,
  each exactly once and in ascending order, as long as the dates are at most 106751 days apart.
\<close>

theorem day_range_complete:
  assumes "time_Parse_day a = Inr d1" and "time_Parse_day b = Inr d2"
    and "day_number d1 \<le> day_number d2 + 106751" and "day_number d2 \<le> day_number d1 + 106751"
  shows "\<exists>l. ParseDayRange (a @ ''-'' @ b) = Inr l \<and> asc l \<and>
    set l = date_num ` {d. valid_date d \<and> min (day_number d1) (day_number d2) \<le> day_number d
                            \<and> day_number d \<le> max (day_number d1) (day_number d2)}"
  using assms by (rule ParseDayRange_days)

theorem day_range_complete_witness:
  "\<exists>l. ParseDayRange ''20160301-20160227'' = Inr l \<and> asc l \<and>
    set l = date_num ` {d. valid_date d \<and> day_number (2016, 2, 27) \<le> day_number d \<and> day_number d \<le> day_number (2016, 3, 1)}"
proof -
  note defs = time_Parse_day_def digits_nat_def is_digit_def digit_val_def valid_date_def days_in_def leap_def
  have a: "time_Parse_day ''20160301'' = Inr (2016, 3, 1)" by (simp add: defs)
  have b: "time_Parse_day ''20160227'' = Inr (2016, 2, 27)" by (simp add: defs)
  have "days_before_month 2016 3 = days_before_month 2016 2 + 29"
    using days_before_month_Suc [of 2 2016] by (simp add: days_in_def leap_def)
  then have n: "day_number (2016, 3, 1) = day_number (2016, 2, 27) + 3" by (simp add: day_number_def)
  from day_range_complete [OF a b] n show ?thesis by simp
qed

text \<open>
  \<open>ParseMonthRange\<close> lists every month between two well-formed months, in either order,
  ascending, also across the ends of years.
\<close>

theorem month_range_complete:
  assumes "wf_month a" and "wf_month b"
  shows "ParseMonthRange (a @ ''-'' @ b) =
      Inr (map month_num [min (month_index a) (month_index b) .. max (month_index a) (month_index b)])
    \<and> asc (map month_num [min (month_index a) (month_index b) .. max (month_index a) (month_index b)])"
  using ParseMonthRange_months [OF assms] by (simp add: asc_map_month_num)

theorem month_range_complete_witness:
  "ParseMonthRange ''201602-201511'' = Inr (map month_num [24190 .. 24193])
    \<and> asc (map month_num [24190 .. 24193])"
proof -
  note defs = wf_month_def month_index_def digits_nat_def is_digit_def digit_val_def
  have w: "wf_month ''201602''" "wf_month ''201511''" by (simp_all add: defs)
  have i: "month_index ''201602'' = 24193" "month_index ''201511'' = 24190" by (simp_all add: defs)
  from month_range_complete [OF w] show ?thesis by (simp only: i) simp
qed

text \<open>
  \<open>ParseYearRange\<close> lists every year between two four-digit years, in either order.
\<close>

theorem year_range_complete:
  assumes "length a = 4" and "list_all is_digit a" and "length b = 4" and "list_all is_digit b"
  shows "ParseYearRange (a @ ''-'' @ b) =
    Inr [min (int (digits_nat a)) (int (digits_nat b)) .. max (int (digits_nat a)) (int (digits_nat b))]"
  using assms by (rule ParseYearRange_years)

theorem year_range_complete_witness: "ParseYearRange ''2016-2013'' = Inr [2013..2016]"
  using year_range_complete [of "''2016''" "''2013''"]
  by (simp add: is_digit_def digits_nat_def digit_val_def)

text \<open>
  A hash shard sends every key it can hash to one of its tables, and a number that fits an
  \<open>int64\<close> goes to the same table whether it is written with quotes or without.
\<close>

lemma hash_shard_total:
  assumes "0 < n" and "n \<le> MaxInt64" and "HashValue k = Inr h"
  shows "HashShard_FindForKey n k = Inr (h mod n) \<and> 0 \<le> h mod n \<and> h mod n < n
    \<and> (0 \<le> v \<and> v \<le> MaxInt64 \<longrightarrow> HashShard_FindForKey n (KStr (int_str v)) = HashShard_FindForKey n (KInt64 v))"
  using HashShard_FindForKey_eq [OF assms(3,1,2)] HashValue_quoted [of v] assms(1)
  by (auto simp: HashShard_FindForKey_def)

text \<open>
  C23. The date shards respect the order of dates: of two dates written \<open>YYYY-MM-DD...\<close>, the
  one that is not later as a string never has the later table.
\<close>

theorem date_shards_ordered:
  assumes "wf_datestr a" and "wf_datestr b" and "\<not> str_less b a"
    and "s \<in> {DateYearShard, DateMonthShard, DateDayShard}"
  shows "\<exists>i j. FindForKey loc s (KStr a) = Inr i \<and> FindForKey loc s (KStr b) = Inr j \<and> i \<le> j"
  using assms datestr_num_mono [OF assms(1-3)]
    zdiv_mono1 [of "datestr_num a" "datestr_num b" 100] zdiv_mono1 [of "datestr_num a" "datestr_num b" 10000]
    DateDay_datestr [of _ loc] DateMonth_datestr [of _ loc] DateYear_datestr [of _ loc]
  by auto

theorem date_shards_ordered_witness:
  "\<exists>i j. FindForKey (\<lambda>_. (1970, 1, 1)) DateMonthShard (KStr ''2015-12-31 23:59:59'') = Inr i
     \<and> FindForKey (\<lambda>_. (1970, 1, 1)) DateMonthShard (KStr ''2016-01-01'') = Inr j \<and> i \<le> j"
  by (rule date_shards_ordered [of "''2015-12-31 23:59:59''" "''2016-01-01''"])
     (simp_all add: wf_datestr_def is_digit_def)

end
