(* ===== verification/Rules.thy ===== *)
theory Rules
  imports Shard_Key Sql_Stmt
begin

text \<open>
  Sharding rules and the router: the first half of src/proxy/router/router.go and the schema
  part of src/config/config.go.

  \<open>parseRule\<close> turns one entry of the configuration into a rule: the list of its sub-tables,
  the node of each of them and the shard that finds the table of a key. \<open>NewRouter\<close> collects
  the rules by database and table, \<open>GetRule\<close> looks one up.

  \<open>TableToNode\<close>, of which the code takes the length, is an association list without
  duplicate keys; the maps that are only looked up are functions.
\<close>

section \<open>Data\<close>

record shard_config =
  cfg_DB :: string
  cfg_Table :: string
  cfg_Key :: string
  cfg_Nodes :: "string list"
  cfg_Locations :: "int list"
  cfg_Type :: string
  cfg_TableRowLimit :: int
  cfg_DateRange :: "string list"

record schema_config =
  sch_User :: string
  sch_Nodes :: "string list"
  sch_Default :: string
  sch_ShardRule :: "shard_config list"

abbreviation "DefaultRuleType \<equiv> ''default''"
abbreviation "HashRuleType \<equiv> ''hash''"
abbreviation "RangeRuleType \<equiv> ''range''"
abbreviation "DateYearRuleType \<equiv> ''date_year''"
abbreviation "DateMonthRuleType \<equiv> ''date_month''"
abbreviation "DateDayRuleType \<equiv> ''date_day''"

record rule =
  r_DB :: string
  r_Table :: string
  r_Key :: string
  r_Type :: string
  r_Nodes :: "string list"
  r_SubTableIndexs :: indexs
  r_TableToNode :: "(int \<times> int) list"
  r_Shard :: shard

record router =
  rt_Rules :: "(string \<times> (string \<times> rule) list) list"
  rt_DefaultRule :: rule
  rt_Nodes :: "string list"

section \<open>Rules\<close>

definition NewDefaultRule :: "string \<Rightarrow> rule" where
  "NewDefaultRule node =
     \<lparr>r_DB = [], r_Table = [], r_Key = [], r_Type = DefaultRuleType, r_Nodes = [node],
      r_SubTableIndexs = [], r_TableToNode = [], r_Shard = DefaultShard\<rparr>"

definition node_of_table :: "rule \<Rightarrow> int \<Rightarrow> int" where
  "node_of_table r tx = map_get0 (map_of (r_TableToNode r)) tx"

definition FindNode :: "local_date \<Rightarrow> rule \<Rightarrow> key \<Rightarrow> string res" where
  "FindNode loc r k =
     rbind (FindForKey loc (r_Shard r) k) (\<lambda>tableIndex.
       at_index (r_Nodes r) (node_of_table r tableIndex))"

definition FindNodeIndex :: "local_date \<Rightarrow> rule \<Rightarrow> key \<Rightarrow> int res" where
  "FindNodeIndex loc r k =
     rbind (FindForKey loc (r_Shard r) k) (\<lambda>tableIndex. Inr (node_of_table r tableIndex))"

definition FindTableIndex :: "local_date \<Rightarrow> rule \<Rightarrow> key \<Rightarrow> int res" where
  "FindTableIndex loc r k = FindForKey loc (r_Shard r) k"

definition checkUpdateExprs :: "rule \<Rightarrow> update_expr list \<Rightarrow> unit res" where
  "checkUpdateExprs r exprs =
     (if r_Type r = DefaultRuleType then Inr ()
      else if length (r_Nodes r) = 1 then Inr ()
      else if list_ex (\<lambda>e. cn_Name (ue_Name e) = r_Key r) exprs then Inl (Err ErrUpdateKey)
      else Inr ())"

definition includeNode :: "string list \<Rightarrow> string \<Rightarrow> bool" where
  "includeNode nodes node = list_ex (\<lambda>n. n = node) nodes"

text \<open>The two statements that enter a sub-table \<open>v\<close> of node \<open>i\<close> into a rule.\<close>

type_synonym tables = "indexs \<times> (int \<times> int) list"

definition add_table :: "int \<Rightarrow> tables \<Rightarrow> int \<Rightarrow> tables" where
  "add_table i t v = (fst t @ [v], AList.update v i (snd t))"

text \<open>The loops of \<open>parseRule\<close>; \<open>i\<close> is the index of the node.\<close>

fun locations_loop :: "int \<Rightarrow> int \<Rightarrow> int list \<Rightarrow> tables \<Rightarrow> tables" where
  "locations_loop i sumTables [] t = t"
| "locations_loop i sumTables (n # ns) t =
     locations_loop (i + 1) (wrap64 (sumTables + n)) ns
       (foldl (add_table i) t (map (\<lambda>j. wrap64 (j + sumTables)) [0..n - 1]))"

definition date_in_order :: "indexs \<Rightarrow> int list \<Rightarrow> unit res" where
  "date_in_order subs numbers =
     (if subs = [] then Inr ()
      else rbind (at_index numbers 0) (\<lambda>first.
        if last subs \<ge> first then Inl (Err ErrDateIllegal) else Inr ()))"

fun dates_loop :: "(string \<Rightarrow> int list res) \<Rightarrow> int \<Rightarrow> string list \<Rightarrow> tables \<Rightarrow> tables res" where
  "dates_loop parse i [] t = Inr t"
| "dates_loop parse i (d # ds) t =
     rbind (parse d) (\<lambda>numbers.
     rbind (date_in_order (fst t) numbers) (\<lambda>_.
       dates_loop parse (i + 1) ds (foldl (add_table i) t numbers)))"

definition date_tables :: "(string \<Rightarrow> int list res) \<Rightarrow> shard_config \<Rightarrow> tables res" where
  "date_tables parse cfg =
     (if length (cfg_DateRange cfg) \<noteq> length (cfg_Nodes cfg) then Inl (Err ErrDateRangeCount)
      else dates_loop parse 0 (cfg_DateRange cfg) ([], []))"

definition rule_tables :: "shard_config \<Rightarrow> tables res" where
  "rule_tables cfg =
     (if cfg_Type cfg = HashRuleType \<or> cfg_Type cfg = RangeRuleType then
        (if length (cfg_Locations cfg) \<noteq> length (cfg_Nodes cfg) then Inl (Err ErrLocationsCount)
         else Inr (locations_loop 0 0 (cfg_Locations cfg) ([], [])))
      else if cfg_Type cfg = DateDayRuleType then date_tables ParseDayRange cfg
      else if cfg_Type cfg = DateMonthRuleType then date_tables ParseMonthRange cfg
      else if cfg_Type cfg = DateYearRuleType then date_tables ParseYearRange cfg
      else Inr ([], []))"

definition parseShard :: "rule \<Rightarrow> shard_config \<Rightarrow> shard res" where
  "parseShard r cfg =
     (if r_Type r = HashRuleType then Inr (HashShard (int (length (r_TableToNode r))))
      else if r_Type r = RangeRuleType then
        rbind (ParseNumSharding (cfg_Locations cfg) (cfg_TableRowLimit cfg)) (\<lambda>rs.
          if length rs \<noteq> length (r_TableToNode r) then
            Inl (Err (Errorf (''range space '' @ nat_str (length rs) @ '' not equal tables ''
                              @ nat_str (length (r_TableToNode r)))))
          else Inr (NumRangeShard rs))
      else if r_Type r = DateDayRuleType then Inr DateDayShard
      else if r_Type r = DateMonthRuleType then Inr DateMonthShard
      else if r_Type r = DateYearRuleType then Inr DateYearShard
      else Inr DefaultShard)"

definition parseRule :: "shard_config \<Rightarrow> rule res" where
  "parseRule cfg =
     rbind (rule_tables cfg) (\<lambda>t.
     let r = \<lparr>r_DB = cfg_DB cfg, r_Table = cfg_Table cfg, r_Key = to_lower (cfg_Key cfg),
              r_Type = cfg_Type cfg, r_Nodes = cfg_Nodes cfg, r_SubTableIndexs = fst t,
              r_TableToNode = snd t, r_Shard = DefaultShard\<rparr>
     in rbind (parseShard r cfg) (\<lambda>s. Inr (r\<lparr>r_Shard := s\<rparr>)))"

section \<open>The router\<close>

fun strings_Join :: "string list \<Rightarrow> string \<Rightarrow> string" where
  "strings_Join [] sep = []"
| "strings_Join [s] sep = s"
| "strings_Join (s # t # ss) sep = s @ sep @ strings_Join (t # ss) sep"

fun check_nodes :: "string list \<Rightarrow> shard_config \<Rightarrow> string list \<Rightarrow> unit res" where
  "check_nodes nodes cfg [] = Inr ()"
| "check_nodes nodes cfg (n # ns) =
     (if \<not> includeNode nodes n then
        Inl (Err (Errorf (''shard table['' @ cfg_Table cfg @ ''] node['' @ n
          @ ''] not in the schema.nodes list:['' @ strings_Join (cfg_Nodes cfg) '','' @ '']'')))
      else check_nodes nodes cfg ns)"

definition add_rule :: "rule \<Rightarrow> router \<Rightarrow> router res" where
  "add_rule r rt =
     (case map_of (rt_Rules rt) (r_DB r) of
        Some m \<Rightarrow>
          (case map_of m (r_Table r) of
             Some _ \<Rightarrow> Inl (Err (Errorf (''table '' @ r_Table r @ '' rule in '' @ r_DB r @ '' duplicate'')))
           | None \<Rightarrow> Inr (rt\<lparr>rt_Rules := AList.update (r_DB r) (AList.update (r_Table r) r m) (rt_Rules rt)\<rparr>))
      | None \<Rightarrow> Inr (rt\<lparr>rt_Rules := AList.update (r_DB r) [(r_Table r, r)] (rt_Rules rt)\<rparr>))"

fun rules_loop :: "shard_config list \<Rightarrow> router \<Rightarrow> router res" where
  "rules_loop [] rt = Inr rt"
| "rules_loop (cfg # cfgs) rt =
     rbind (check_nodes (rt_Nodes rt) cfg (cfg_Nodes cfg)) (\<lambda>_.
     rbind (parseRule cfg) (\<lambda>r.
       if r_Type r = DefaultRuleType then
         Inl (Err (Errorf ''[default-rule] duplicate, must only one''))
       else rbind (add_rule r rt) (rules_loop cfgs)))"

definition NewRouter :: "schema_config \<Rightarrow> router res" where
  "NewRouter cfg =
     (if \<not> includeNode (sch_Nodes cfg) (sch_Default cfg) then
        Inl (Err (Errorf (''default node['' @ sch_Default cfg @ ''] not in the nodes list'')))
      else
        rules_loop (sch_ShardRule cfg)
          \<lparr>rt_Rules = [], rt_DefaultRule = NewDefaultRule (sch_Default cfg),
           rt_Nodes = sch_Nodes cfg\<rparr>)"

text \<open>
  A table name may carry its database. Without a rule, the default rule is returned, after
  its database is set in the router.
\<close>

definition lookup_rule :: "router \<Rightarrow> string \<Rightarrow> string \<Rightarrow> rule option" where
  "lookup_rule rt db table = (case map_of (rt_Rules rt) db of None \<Rightarrow> None | Some m \<Rightarrow> map_of m table)"

definition GetRule :: "router \<Rightarrow> string \<Rightarrow> string \<Rightarrow> rule \<times> router" where
  "GetRule rt db table =
     (let (db', table') =
        (case str_split (CHR ''.'') table of
           [a, b] \<Rightarrow> (trim_set ''`'' a, trim_set ''`'' b)
         | _ \<Rightarrow> (db, table))
      in case lookup_rule rt db' table' of
           Some r \<Rightarrow> (r, rt)
         | None \<Rightarrow>
             let d = (rt_DefaultRule rt)\<lparr>r_DB := db'\<rparr>
             in (d, rt\<lparr>rt_DefaultRule := d\<rparr>))"

section \<open>Tables of a rule\<close>

text \<open>
  The invariant of the loops: the sub-tables are ascending, the map has exactly one entry for
  each of them, in the same order, and every node index is below \<open>N\<close>.
\<close>

definition tables_ok :: "int \<Rightarrow> tables \<Rightarrow> bool" where
  "tables_ok N t \<longleftrightarrow>
     asc (fst t) \<and> map fst (snd t) = fst t \<and> list_all (\<lambda>p. 0 \<le> snd p \<and> snd p < N) (snd t)"

lemma asc_le_last: "asc l \<Longrightarrow> x \<in> set l \<Longrightarrow> x \<le> last l"
  by (induction l) (auto intro: less_imp_le)

lemma asc_hd_le: "asc l \<Longrightarrow> x \<in> set l \<Longrightarrow> hd l \<le> x"
  by (cases l) auto

lemma asc_append_iff:
  "a \<noteq> [] \<Longrightarrow> b \<noteq> [] \<Longrightarrow> asc (a @ b) \<longleftrightarrow> asc a \<and> asc b \<and> last a < hd b"
  unfolding sorted_wrt_append
  by (meson asc_hd_le asc_le_last hd_in_set last_in_set le_less_trans less_le_trans)

lemma map_shift_upto: "map (\<lambda>j. j + s) [a..b] = [a + s..b + s]" for a b s :: int
proof (induction a b rule: upto.induct)
  case (1 a b)
  then show ?case
    by (cases "a \<le> b") (simp_all add: upto.simps [of a b] upto.simps [of "a + s" "b + s"] algebra_simps)
qed

lemma AList_update_fresh: "k \<notin> fst ` set al \<Longrightarrow> AList.update k v al = al @ [(k, v)]"
  by (induction al) auto

lemma foldl_add_table:
  assumes "asc (fst t @ vs)" and "map fst (snd t) = fst t"
  shows "foldl (add_table i) t vs = (fst t @ vs, snd t @ map (\<lambda>v. (v, i)) vs)"
  using assms
proof (induction vs arbitrary: t)
  case (Cons v vs)
  have "v \<notin> fst ` set (snd t)"
    using Cons.prems by (auto simp: sorted_wrt_append simp flip: set_map)
  then have "add_table i t v = (fst t @ [v], snd t @ [(v, i)])"
    by (simp add: add_table_def AList_update_fresh)
  with Cons show ?case by simp
qed simp

lemma tables_ok_add:
  "tables_ok N t \<Longrightarrow> asc (fst t @ vs) \<Longrightarrow> 0 \<le> i \<Longrightarrow> i < N \<Longrightarrow> tables_ok N (foldl (add_table i) t vs)"
  by (simp add: foldl_add_table tables_ok_def list_all_iff o_def ball_Un)

lemma locations_loop_ok:
  assumes "\<forall>n \<in> set ns. 0 \<le> n" and "0 \<le> s" and "s + sum_list ns \<le> MaxInt64"
    and "tables_ok N t" and "fst t = [0..s - 1]" and "0 \<le> i" and "i + int (length ns) \<le> N"
  shows "tables_ok N (locations_loop i s ns t) \<and> fst (locations_loop i s ns t) = [0..s + sum_list ns - 1]"
  using assms
proof (induction ns arbitrary: i s t)
  case (Cons n ns)
  let ?vs = "map (\<lambda>j. wrap64 (j + s)) [0..n - 1]"
  have n: "0 \<le> n" "0 \<le> sum_list ns" using Cons.prems(1) by (auto intro: sum_list_nonneg)
  have "?vs = map (\<lambda>j. j + s) [0..n - 1]"
    using Cons.prems n by (intro map_cong refl wrap64_id) (auto simp: is_int64_def)
  also have "\<dots> = [s..s + n - 1]" by (simp add: map_shift_upto algebra_simps)
  finally have vs: "?vs = [s..s + n - 1]" .
  have all: "fst t @ ?vs = [0..s + n - 1]"
    using Cons.prems n upto_split1 [of 0 s "s + n - 1"] by (cases "n = 0") (simp_all add: vs)
  have w: "wrap64 (s + n) = s + n" using Cons.prems n by (intro wrap64_id) (simp add: is_int64_def)
  let ?t = "foldl (add_table i) t ?vs"
  have "tables_ok N ?t" using Cons.prems all by (intro tables_ok_add) (simp_all add: asc_upto)
  moreover have "fst ?t = [0..s + n - 1]"
    using Cons.prems all by (subst foldl_add_table) (simp_all add: asc_upto tables_ok_def)
  ultimately have "tables_ok N (locations_loop (i + 1) (s + n) ns ?t) \<and>
      fst (locations_loop (i + 1) (s + n) ns ?t) = [0..s + n + sum_list ns - 1]"
    using Cons.prems n by (intro Cons.IH) auto
  then show ?case by (simp add: w add.assoc)
qed simp

lemma dates_loop_ok:
  assumes "\<And>d l. parse d = Inr l \<Longrightarrow> asc l"
    and "tables_ok N t" and "0 \<le> i" and "i + int (length ds) \<le> N" and "dates_loop parse i ds t = Inr t'"
  shows "tables_ok N t'"
  using assms(2-)
proof (induction ds arbitrary: i t)
  case (Cons d ds)
  from Cons.prems obtain nums where p: "parse d = Inr nums" and o: "date_in_order (fst t) nums = Inr ()"
    and rest: "dates_loop parse (i + 1) ds (foldl (add_table i) t nums) = Inr t'"
    by (auto simp: rbind_eq_Inr_iff)
  have "asc (fst t @ nums)"
  proof (cases "fst t = []")
    case False
    with o have "nums \<noteq> []" and lt: "last (fst t) < hd nums"
      by (auto simp: date_in_order_def rbind_eq_Inr_iff at_index_Inr_iff hd_conv_nth split: if_splits)
    with Cons.prems(1) False assms(1) p show ?thesis by (auto simp: asc_append_iff tables_ok_def)
  qed (use assms(1) p in auto)
  then have "tables_ok N (foldl (add_table i) t nums)"
    using Cons.prems by (intro tables_ok_add) auto
  then show ?case using Cons.prems rest by (intro Cons.IH) auto
qed simp

section \<open>The lists of the date parsers\<close>

lemma single_date_asc: "single_date n s = Inr l \<Longrightarrow> asc l"
  by (auto simp: single_date_def rbind_eq_Inr_iff split: if_splits)

lemma day_loop_asc:
  assumes b: "valid_date b" and e: "valid_date e" "date_num e < 100000000"
    and le: "day_number b \<le> day_number e" and l: "day_loop (sub_days e b) b = Inr l"
  shows "asc l"
proof -
  let ?f = "\<lambda>i. date_num ((next_day ^^ i) b)"
  have "day_number b + sub_days e b \<le> day_number e" using le by (simp add: sub_days_def)
  then have l': "l = map ?f [0..<Suc (sub_days e b)]" using day_loop_eq [OF b e] l by simp
  have "?f i < ?f j" if "i < j" for i j
  proof -
    have v: "valid_date ((next_day ^^ k) b)" "day_number ((next_day ^^ k) b) = day_number b + k" for k
      using next_day_pow [OF b] by auto
    have "?f i \<le> ?f j" using that v by (intro date_num_le) auto
    moreover have "?f i \<noteq> ?f j" using that v date_num_inject by (metis add_left_cancel less_irrefl)
    ultimately show ?thesis by linarith
  qed
  then show ?thesis by (auto simp: l' sorted_wrt_map sorted_wrt_iff_nth_less simp del: upt_Suc)
qed

lemma ParseDayRange_asc: "ParseDayRange s = Inr l \<Longrightarrow> asc l"
proof (induction "str_splitN2 (CHR ''-'') s" rule: remdups_adj.induct)
  case (2 x)
  then show ?case by (auto simp: ParseDayRange_def single_date_asc simp flip: 2(1))
next
  case (3 x y zs)
  show ?case
  proof (cases zs)
    case Nil
    obtain lo hi where sw: "swap_dates x y = (lo, hi)" by (cases "swap_dates x y")
    from 3 Nil sw obtain b e where b: "time_Parse_day lo = Inr b" and e: "time_Parse_day hi = Inr e"
      and l: "day_loop (sub_days e b) b = Inr l"
      by (auto simp: ParseDayRange_def rbind_eq_Inr_iff simp flip: 3(3) split: if_splits)
    note B = time_Parse_dayD [OF b] and E = time_Parse_dayD [OF e]
    have "\<not> str_less hi lo" using sw str_less_digits [of x y] str_less_digits [of y x] B E
      by (auto simp: swap_dates_def str_less_digits split: if_splits)
    then have "date_num b \<le> date_num e" using B E by (simp add: str_less_digits)
    then have "day_number b \<le> day_number e"
      using day_number_less [of b e] date_num_inject [of b e] B E by fastforce
    then show ?thesis using day_loop_asc [of b e l] B E l by blast
  next
    case (Cons a as)
    with 3 show ?thesis by (simp add: ParseDayRange_def flip: 3(3))
  qed
qed (simp add: ParseDayRange_def)

lemma month_loop_lower:
  "m \<le> 13 \<Longrightarrow> x \<in> set (month_loop k m y) \<Longrightarrow> y * 100 + m \<le> x"
proof (induction k arbitrary: m y)
  case (Suc k)
  consider "m \<le> 12" | "m = 13" using Suc.prems by linarith
  then show ?case
  proof cases
    case 1
    then show ?thesis using Suc.prems Suc.IH [of "m + 1" y] by auto
  next
    case 2
    then show ?thesis using Suc.prems Suc.IH [of 2 "y + 1"] by auto
  qed
qed simp

lemma month_loop_asc: "asc (month_loop k m y)"
proof (induction k arbitrary: m y)
  case (Suc k)
  define m' y' where "m' = (if 12 < m then m mod 12 else m)" and "y' = (if 12 < m then y + 1 else y)"
  have "m' \<le> 12" by (auto simp: m'_def intro: order.strict_implies_order pos_mod_bound)
  then have "\<forall>x \<in> set (month_loop k (m' + 1) y'). y' * 100 + m' < x"
    using month_loop_lower [of "m' + 1" _ k y'] by fastforce
  moreover have "month_loop (Suc k) m y = (y' * 100 + m') # month_loop k (m' + 1) y'"
    by (simp add: m'_def y'_def)
  ultimately show ?case using Suc.IH by simp
qed simp

lemma ParseMonthRange_asc: "ParseMonthRange s = Inr l \<Longrightarrow> asc l"
  by (auto simp: ParseMonthRange_def rbind_eq_Inr_iff month_loop_asc single_date_asc
      split: list.splits if_splits prod.splits)

lemma ParseYearRange_asc: "ParseYearRange s = Inr l \<Longrightarrow> asc l"
  by (auto simp: ParseYearRange_def rbind_eq_Inr_iff asc_upto single_date_asc
      split: list.splits if_splits prod.splits)

section \<open>Well-formed rules\<close>

definition wf_rule :: "rule \<Rightarrow> bool" where
  "wf_rule r \<longleftrightarrow> tables_ok (int (length (r_Nodes r))) (r_SubTableIndexs r, r_TableToNode r)"

text \<open>What \<open>parseRule\<close> needs of the configured table counts of a hash or range rule.\<close>

definition locations_fit :: "shard_config \<Rightarrow> bool" where
  "locations_fit cfg \<longleftrightarrow>
     list_all (\<lambda>n. 0 \<le> n) (cfg_Locations cfg) \<and> sum_list (cfg_Locations cfg) \<le> MaxInt64"

lemma parseRuleE:
  assumes "parseRule cfg = Inr r"
  obtains t s where "rule_tables cfg = Inr t" and
    "r = \<lparr>r_DB = cfg_DB cfg, r_Table = cfg_Table cfg, r_Key = to_lower (cfg_Key cfg),
          r_Type = cfg_Type cfg, r_Nodes = cfg_Nodes cfg, r_SubTableIndexs = fst t,
          r_TableToNode = snd t, r_Shard = s\<rparr>"
    and "parseShard (r\<lparr>r_Shard := DefaultShard\<rparr>) cfg = Inr s"
  using assms by (auto simp: parseRule_def rbind_eq_Inr_iff Let_def)

lemma tables_ok_Nil: "tables_ok N ([], [])"
  by (simp add: tables_ok_def)

lemma date_tables_ok:
  "(\<And>d l. parse d = Inr l \<Longrightarrow> asc l) \<Longrightarrow> date_tables parse cfg = Inr t
   \<Longrightarrow> tables_ok (int (length (cfg_Nodes cfg))) t"
  using dates_loop_ok [of parse "int (length (cfg_Nodes cfg))" "([], [])" 0 "cfg_DateRange cfg" t]
  by (auto simp: date_tables_def tables_ok_Nil split: if_splits)

lemma location_tables:
  assumes "cfg_Type cfg = HashRuleType \<or> cfg_Type cfg = RangeRuleType" and "locations_fit cfg"
    and "rule_tables cfg = Inr t"
  shows "tables_ok (int (length (cfg_Nodes cfg))) t \<and> fst t = [0..sum_list (cfg_Locations cfg) - 1]"
proof -
  have len: "length (cfg_Locations cfg) = length (cfg_Nodes cfg)"
    and t: "t = locations_loop 0 0 (cfg_Locations cfg) ([], [])"
    using assms(1,3) by (auto simp: rule_tables_def split: if_splits)
  show ?thesis
    using assms(2) len
      locations_loop_ok [of "cfg_Locations cfg" 0 "int (length (cfg_Nodes cfg))" "([], [])" 0]
    by (simp add: t locations_fit_def tables_ok_Nil list_all_iff)
qed

lemma parseRule_wf_rule:
  assumes "parseRule cfg = Inr r"
    and "cfg_Type cfg = HashRuleType \<or> cfg_Type cfg = RangeRuleType \<Longrightarrow> locations_fit cfg"
  shows "wf_rule r"
proof -
  from assms(1) obtain t s where t: "rule_tables cfg = Inr t" and
    r: "r_SubTableIndexs r = fst t" "r_TableToNode r = snd t" "r_Nodes r = cfg_Nodes cfg"
    by (elim parseRuleE) auto
  have "tables_ok (int (length (cfg_Nodes cfg))) t"
  proof (cases "cfg_Type cfg = HashRuleType \<or> cfg_Type cfg = RangeRuleType")
    case True
    with location_tables [OF True assms(2) [OF True] t] show ?thesis by blast
  next
    case False
    with t show ?thesis
      by (auto simp: rule_tables_def tables_ok_Nil split: if_splits
          intro: date_tables_ok ParseDayRange_asc ParseMonthRange_asc ParseYearRange_asc)
  qed
  then show ?thesis by (simp add: wf_rule_def r)
qed

lemma wf_ruleD:
  assumes "wf_rule r"
  shows "asc (r_SubTableIndexs r)" and "map fst (r_TableToNode r) = r_SubTableIndexs r"
    and "t \<in> set (r_SubTableIndexs r) \<Longrightarrow> 0 \<le> node_of_table r t \<and> node_of_table r t < int (length (r_Nodes r))"
proof -
  show "asc (r_SubTableIndexs r)" and m: "map fst (r_TableToNode r) = r_SubTableIndexs r"
    using assms by (simp_all add: wf_rule_def tables_ok_def)
  assume "t \<in> set (r_SubTableIndexs r)"
  then obtain n where n: "map_of (r_TableToNode r) t = Some n"
    by (metis m list.set_map map_of_eq_None_iff not_None_eq)
  then have "(t, n) \<in> set (r_TableToNode r)" by (rule map_of_SomeD)
  with assms n show "0 \<le> node_of_table r t \<and> node_of_table r t < int (length (r_Nodes r))"
    by (auto simp: wf_rule_def tables_ok_def list_all_iff node_of_table_def)
qed

text \<open>The shard of a hash rule and of a range rule fits the sub-tables.\<close>

lemma hash_rule_shard:
  assumes "parseRule cfg = Inr r" and "cfg_Type cfg = HashRuleType" and "locations_fit cfg"
  defines "n \<equiv> sum_list (cfg_Locations cfg)"
  shows "r_SubTableIndexs r = [0..n - 1]" and "r_Shard r = HashShard n"
proof -
  from assms(1) obtain t s where t: "rule_tables cfg = Inr t" and
    r: "r_SubTableIndexs r = fst t" "r_TableToNode r = snd t" "r_Type r = cfg_Type cfg" "r_Shard r = s"
    and s: "parseShard (r\<lparr>r_Shard := DefaultShard\<rparr>) cfg = Inr s"
    by (elim parseRuleE) auto
  have ok: "tables_ok (int (length (cfg_Nodes cfg))) t" and f: "fst t = [0..n - 1]"
    using location_tables [OF _ assms(3) t] assms(2) by (auto simp: n_def)
  show "r_SubTableIndexs r = [0..n - 1]" using f r by simp
  have "0 \<le> n" using assms(3) unfolding n_def
    by (intro sum_list_nonneg) (auto simp: locations_fit_def list_all_iff)
  moreover have "length (snd t) = nat n"
    using ok f by (metis (no_types, lifting) diff_add_cancel diff_zero length_map length_upto tables_ok_def)
  ultimately show "r_Shard r = HashShard n" using s r assms(2) by (simp add: parseShard_def)
qed

lemma range_rule_shard:
  assumes "parseRule cfg = Inr r" and "cfg_Type cfg = RangeRuleType" and "locations_fit cfg"
    and "0 < cfg_TableRowLimit cfg" and "sum_list (cfg_Locations cfg) * cfg_TableRowLimit cfg \<le> MaxInt64"
  defines "n \<equiv> sum_list (cfg_Locations cfg)" and "L \<equiv> cfg_TableRowLimit cfg"
  shows "r_SubTableIndexs r = [0..n - 1]"
    and "r_Shard r = NumRangeShard (map (\<lambda>i. \<lparr>kr_Start = i * L, kr_End = (i + 1) * L\<rparr>) [0..n - 1])"
proof -
  from assms(1) obtain t s where t: "rule_tables cfg = Inr t" and
    r: "r_SubTableIndexs r = fst t" "r_Type r = cfg_Type cfg" "r_Shard r = s"
    and s: "parseShard (r\<lparr>r_Shard := DefaultShard\<rparr>) cfg = Inr s"
    by (elim parseRuleE) auto
  show "r_SubTableIndexs r = [0..n - 1]"
    using location_tables [OF _ assms(3) t] assms(2) r by (auto simp: n_def)
  have "\<forall>n \<in> set (cfg_Locations cfg). 0 \<le> n" using assms(3) by (simp add: locations_fit_def list_all_iff)
  then show "r_Shard r = NumRangeShard (map (\<lambda>i. \<lparr>kr_Start = i * L, kr_End = (i + 1) * L\<rparr>) [0..n - 1])"
    using s r assms(2) ParseNumSharding_eq [OF _ assms(4,5)]
    by (auto simp: parseShard_def n_def L_def split: if_splits)
qed

section \<open>Building and asking the router\<close>

lemma check_nodes_Inr: "check_nodes nodes cfg ns = Inr u \<longleftrightarrow> set ns \<subseteq> set nodes"
  by (induction ns) (auto simp: includeNode_def list_ex_iff)

lemma lookup_add_rule:
  assumes "add_rule r rt = Inr rt'"
  shows "lookup_rule rt' db tb =
      (if db = r_DB r \<and> tb = r_Table r then Some r else lookup_rule rt db tb)"
    and "lookup_rule rt (r_DB r) (r_Table r) = None"
    and "rt_Nodes rt' = rt_Nodes rt" and "rt_DefaultRule rt' = rt_DefaultRule rt"
  using assms by (auto simp: add_rule_def lookup_rule_def update_conv' split: option.splits if_splits)

lemma parseRule_names:
  "parseRule cfg = Inr r \<Longrightarrow> r_DB r = cfg_DB cfg \<and> r_Table r = cfg_Table cfg \<and> r_Nodes r = cfg_Nodes cfg
     \<and> r_Type r = cfg_Type cfg \<and> r_Key r = to_lower (cfg_Key cfg)"
  by (elim parseRuleE) simp

text \<open>The rules of the configuration that a lookup may find.\<close>

definition rule_for :: "shard_config list \<Rightarrow> string \<Rightarrow> string \<Rightarrow> rule \<Rightarrow> bool" where
  "rule_for cfgs db tb r \<longleftrightarrow>
     (\<exists>cfg \<in> set cfgs. cfg_DB cfg = db \<and> cfg_Table cfg = tb \<and> parseRule cfg = Inr r)"

lemma rules_loop_lookup:
  assumes "rules_loop cfgs rt = Inr rt'"
  shows "lookup_rule rt' db tb = Some r \<longleftrightarrow> lookup_rule rt db tb = Some r \<or> rule_for cfgs db tb r"
    and "rt_Nodes rt' = rt_Nodes rt" and "rt_DefaultRule rt' = rt_DefaultRule rt"
    and "\<forall>cfg \<in> set cfgs. set (cfg_Nodes cfg) \<subseteq> set (rt_Nodes rt) \<and> cfg_Type cfg \<noteq> DefaultRuleType
           \<and> (\<exists>r. parseRule cfg = Inr r) \<and> lookup_rule rt (cfg_DB cfg) (cfg_Table cfg) = None"
    and "distinct (map (\<lambda>cfg. (cfg_DB cfg, cfg_Table cfg)) cfgs)"
  using assms
proof (induction cfgs arbitrary: rt)
  case (Cons cfg cfgs)
  {
    case 1
    from 1 obtain q rt1 where q: "parseRule cfg = Inr q" and a: "add_rule q rt = Inr rt1"
      and l: "rules_loop cfgs rt1 = Inr rt'"
      by (auto simp: rbind_eq_Inr_iff split: if_splits)
    note names = parseRule_names [OF q] and add = lookup_add_rule [OF a]
    have "lookup_rule rt' db tb = Some r \<longleftrightarrow> lookup_rule rt1 db tb = Some r \<or> rule_for cfgs db tb r"
      using Cons.IH(1) [OF l] .
    then show ?case
      using add(1,2) names q by (auto simp: rule_for_def)
  next
    case 2
    then show ?case
      by (auto simp: rbind_eq_Inr_iff split: if_splits dest!: Cons.IH(2) lookup_add_rule(3))
  next
    case 3
    then show ?case
      by (auto simp: rbind_eq_Inr_iff split: if_splits dest!: Cons.IH(3) lookup_add_rule(4))
  next
    case 4
    from 4 obtain q rt1 where n: "set (cfg_Nodes cfg) \<subseteq> set (rt_Nodes rt)" and q: "parseRule cfg = Inr q"
      and ty: "r_Type q \<noteq> DefaultRuleType" and a: "add_rule q rt = Inr rt1"
      and l: "rules_loop cfgs rt1 = Inr rt'"
      by (auto simp: rbind_eq_Inr_iff check_nodes_Inr split: if_splits)
    show ?case
      using n q ty Cons.IH(4) [OF l] lookup_add_rule [OF a] parseRule_names [OF q]
      by (auto split: if_splits)
  next
    case 5
    from 5 obtain q rt1 where q: "parseRule cfg = Inr q" and a: "add_rule q rt = Inr rt1"
      and l: "rules_loop cfgs rt1 = Inr rt'"
      by (auto simp: rbind_eq_Inr_iff split: if_splits)
    have "lookup_rule rt1 (cfg_DB cfg) (cfg_Table cfg) = Some q"
      using lookup_add_rule [OF a] parseRule_names [OF q] by simp
    then show ?case using Cons.IH(4,5) [OF l] by fastforce
  }
qed (simp_all add: rule_for_def)

lemma NewRouterE:
  assumes "NewRouter cfg = Inr rt"
  shows "sch_Default cfg \<in> set (sch_Nodes cfg)"
    and "lookup_rule rt db tb = Some r \<longleftrightarrow> rule_for (sch_ShardRule cfg) db tb r"
    and "rt_Nodes rt = sch_Nodes cfg" and "rt_DefaultRule rt = NewDefaultRule (sch_Default cfg)"
    and "\<forall>c \<in> set (sch_ShardRule cfg). set (cfg_Nodes c) \<subseteq> set (sch_Nodes cfg) \<and> cfg_Type c \<noteq> DefaultRuleType"
    and "distinct (map (\<lambda>c. (cfg_DB c, cfg_Table c)) (sch_ShardRule cfg))"
proof -
  let ?rt = "\<lparr>rt_Rules = [], rt_DefaultRule = NewDefaultRule (sch_Default cfg), rt_Nodes = sch_Nodes cfg\<rparr>"
  have d: "includeNode (sch_Nodes cfg) (sch_Default cfg)" and l: "rules_loop (sch_ShardRule cfg) ?rt = Inr rt"
    using assms by (auto simp: NewRouter_def split: if_splits)
  show "sch_Default cfg \<in> set (sch_Nodes cfg)" using d by (auto simp: includeNode_def list_ex_iff)
  have "lookup_rule ?rt db tb = None" by (simp add: lookup_rule_def)
  then show "lookup_rule rt db tb = Some r \<longleftrightarrow> rule_for (sch_ShardRule cfg) db tb r"
    using rules_loop_lookup(1) [OF l] by simp
  show "rt_Nodes rt = sch_Nodes cfg" "rt_DefaultRule rt = NewDefaultRule (sch_Default cfg)"
    "\<forall>c \<in> set (sch_ShardRule cfg). set (cfg_Nodes c) \<subseteq> set (sch_Nodes cfg) \<and> cfg_Type c \<noteq> DefaultRuleType"
    "distinct (map (\<lambda>c. (cfg_DB c, cfg_Table c)) (sch_ShardRule cfg))"
    using rules_loop_lookup(2-5) [OF l] by auto
qed

lemma GetRule_eq:
  "CHR ''.'' \<notin> set table \<Longrightarrow> GetRule rt db table =
     (case lookup_rule rt db table of
        Some r \<Rightarrow> (r, rt)
      | None \<Rightarrow> ((rt_DefaultRule rt)\<lparr>r_DB := db\<rparr>, rt\<lparr>rt_DefaultRule := (rt_DefaultRule rt)\<lparr>r_DB := db\<rparr>\<rparr>))"
  by (simp add: GetRule_def str_split_no_sep Let_def split: option.splits)

lemma GetRule_qualified:
  assumes "CHR ''.'' \<notin> set d" "CHR ''.'' \<notin> set t" "CHR ''`'' \<notin> set d" "CHR ''`'' \<notin> set t"
  shows "GetRule rt db (''`'' @ d @ ''`.`'' @ t @ ''`'') = GetRule rt d t"
    and "GetRule rt db (d @ ''.'' @ t) = GetRule rt d t"
proof -
  have sp: "str_split (CHR ''.'') (a @ CHR ''.'' # b) = [a, b]"
    if "CHR ''.'' \<notin> set a" "CHR ''.'' \<notin> set b" for a b
    using that by (induction a) (auto simp: str_split_no_sep)
  have trim: "trim_set ''`'' (CHR ''`'' # x @ ''`'') = x" "trim_set ''`'' x = x" if "CHR ''`'' \<notin> set x" for x
  proof -
    have k: "dropWhile (\<lambda>c. c = CHR ''`'') y = y" if "CHR ''`'' \<notin> set y" for y
      using that by (cases y) auto
    show "trim_set ''`'' x = x" using that by (intro trim_set_id) auto
    show "trim_set ''`'' (CHR ''`'' # x @ ''`'') = x"
    proof (cases x)
      case (Cons y ys)
      have "dropWhile (\<lambda>c. c = CHR ''`'') (rev x) = rev x" using that by (intro k) simp
      moreover have "y \<noteq> CHR ''`''" using that Cons by auto
      ultimately show ?thesis by (simp add: trim_set_def Cons)
    qed (simp add: trim_set_def)
  qed
  show "GetRule rt db (''`'' @ d @ ''`.`'' @ t @ ''`'') = GetRule rt d t"
    using assms sp [of "CHR ''`'' # d @ ''`''" "CHR ''`'' # t @ ''`''"] trim [of d] trim [of t]
    by (simp add: GetRule_def str_split_no_sep)
  show "GetRule rt db (d @ ''.'' @ t) = GetRule rt d t"
    using assms sp [of d t] trim [of d] trim [of t] by (simp add: GetRule_def str_split_no_sep)
qed

section \<open>Layout of the tables\<close>

lemma map_of_const: "map_of (map (\<lambda>v. (v, i)) vs) x = (if x \<in> set vs then Some i else None)"
  by (induction vs) auto

lemma locations_loop_nodes:
  assumes "\<forall>n \<in> set ns. 0 \<le> n" and "0 \<le> s" and "s + sum_list ns \<le> MaxInt64"
    and "map fst (snd t) = fst t" and "fst t = [0..s - 1]"
  shows "\<exists>al. snd (locations_loop i s ns t) = snd t @ al \<and>
    (\<forall>j < length ns. \<forall>x. s + sum_list (take j ns) \<le> x \<and> x < s + sum_list (take (Suc j) ns)
       \<longrightarrow> map_of al x = Some (i + int j))"
  using assms
proof (induction ns arbitrary: i s t)
  case (Cons n ns)
  let ?vs = "map (\<lambda>j. wrap64 (j + s)) [0..n - 1]"
  have n: "0 \<le> n" "0 \<le> sum_list ns" using Cons.prems(1) by (auto intro: sum_list_nonneg)
  have "?vs = map (\<lambda>j. j + s) [0..n - 1]"
    using Cons.prems n by (intro map_cong refl wrap64_id) (auto simp: is_int64_def)
  also have "\<dots> = [s..s + n - 1]" by (simp add: map_shift_upto algebra_simps)
  finally have vs: "?vs = [s..s + n - 1]" .
  have all: "fst t @ ?vs = [0..s + n - 1]"
    using Cons.prems n upto_split1 [of 0 s "s + n - 1"] by (cases "n = 0") (simp_all add: vs)
  have w: "wrap64 (s + n) = s + n" using Cons.prems n by (intro wrap64_id) (simp add: is_int64_def)
  let ?t = "foldl (add_table i) t ?vs"
  have t: "?t = (fst t @ ?vs, snd t @ map (\<lambda>v. (v, i)) ?vs)"
    using Cons.prems all by (intro foldl_add_table) (simp_all add: asc_upto)
  have "\<exists>al. snd (locations_loop (i + 1) (s + n) ns ?t) = snd ?t @ al \<and>
      (\<forall>j < length ns. \<forall>x. s + n + sum_list (take j ns) \<le> x \<and> x < s + n + sum_list (take (Suc j) ns)
         \<longrightarrow> map_of al x = Some (i + 1 + int j))"
    using Cons.prems n all by (intro Cons.IH) (simp_all add: t o_def)
  then obtain al where al: "snd (locations_loop (i + 1) (s + n) ns ?t) = snd ?t @ al"
    and m: "\<And>j x. j < length ns \<Longrightarrow> s + n + sum_list (take j ns) \<le> x \<Longrightarrow> x < s + n + sum_list (take (Suc j) ns)
      \<Longrightarrow> map_of al x = Some (i + 1 + int j)" by blast
  let ?al = "map (\<lambda>v. (v, i)) ?vs @ al"
  have "map_of ?al x = Some (i + int j)"
    if j: "j < length (n # ns)" and x: "s + sum_list (take j (n # ns)) \<le> x" "x < s + sum_list (take (Suc j) (n # ns))" for j x
  proof (cases j)
    case 0
    then have "x \<in> set ?vs" using x by (simp add: vs)
    then show ?thesis using 0 unfolding map_of_append map_add_def map_of_const by simp
  next
    case (Suc k)
    have "0 \<le> sum_list (take k ns)"
      using Cons.prems(1) by (intro sum_list_nonneg) (auto dest: in_set_takeD)
    then have "x \<notin> set ?vs" using x Suc by (simp add: vs)
    moreover have "map_of al x = Some (i + 1 + int k)" using x Suc j by (intro m) (simp_all add: add.assoc)
    ultimately show ?thesis using Suc unfolding map_of_append map_add_def map_of_const by simp
  qed
  then show ?case using al t w by (intro exI [of _ ?al]) auto
qed auto

section \<open>Properties\<close>

text \<open>
  C18. Every rule that \<open>parseRule\<close> accepts is well-formed: its sub-tables are ascending without
  duplicates, \<open>TableToNode\<close> has exactly one entry for each of them, and every entry is the
  index of one of the rule's nodes. For hash and range rules the configured table counts must
  not be negative and their sum must fit an \<open>int\<close>.
\<close>

theorem parsed_rule_well_formed:
  assumes "parseRule cfg = Inr r"
    and "cfg_Type cfg = HashRuleType \<or> cfg_Type cfg = RangeRuleType \<longrightarrow> locations_fit cfg"
  shows "asc (r_SubTableIndexs r) \<and> map fst (r_TableToNode r) = r_SubTableIndexs r
    \<and> (\<forall>t \<in> set (r_SubTableIndexs r). 0 \<le> node_of_table r t \<and> node_of_table r t < int (length (r_Nodes r)))"
proof -
  have "wf_rule r" using assms by (intro parseRule_wf_rule) auto
  then show ?thesis using wf_ruleD by blast
qed

definition example_cfg :: shard_config where
  "example_cfg =
     \<lparr>cfg_DB = ''ks'', cfg_Table = ''t'', cfg_Key = ''Id'', cfg_Nodes = [''n1'', ''n2''],
      cfg_Locations = [2, 3], cfg_Type = ''hash'', cfg_TableRowLimit = 0, cfg_DateRange = []\<rparr>"

definition example_rule :: rule where
  "example_rule =
     \<lparr>r_DB = ''ks'', r_Table = ''t'', r_Key = ''id'', r_Type = ''hash'', r_Nodes = [''n1'', ''n2''],
      r_SubTableIndexs = [0, 1, 2, 3, 4], r_TableToNode = [(0, 0), (1, 0), (2, 1), (3, 1), (4, 1)],
      r_Shard = HashShard 5\<rparr>"

lemma example_parse: "parseRule example_cfg = Inr example_rule"
  by code_simp

lemma example_fit: "locations_fit example_cfg"
  by code_simp

theorem parsed_rule_well_formed_witness:
  "asc (r_SubTableIndexs example_rule) \<and> map fst (r_TableToNode example_rule) = r_SubTableIndexs example_rule
    \<and> 0 \<le> node_of_table example_rule 4 \<and> node_of_table example_rule 4 < int (length (r_Nodes example_rule))"
proof -
  have "4 \<in> set (r_SubTableIndexs example_rule)" by (simp add: example_rule_def)
  then show ?thesis using parsed_rule_well_formed [OF example_parse] example_fit by blast
qed

text \<open>
  The tables of a hash or range rule are numbered through its nodes: the node with index \<open>i\<close>
  has the tables from the sum of the counts before it up to the sum that includes it.
\<close>

lemma tables_of_nodes:
  assumes "parseRule cfg = Inr r" and "cfg_Type cfg = HashRuleType \<or> cfg_Type cfg = RangeRuleType"
    and "locations_fit cfg" and "i < length (cfg_Locations cfg)"
    and "sum_list (take i (cfg_Locations cfg)) \<le> t" and "t < sum_list (take (Suc i) (cfg_Locations cfg))"
  shows "node_of_table r t = int i"
proof -
  from assms(1) obtain tb s where tb: "rule_tables cfg = Inr tb" and r: "r_TableToNode r = snd tb"
    by (elim parseRuleE) auto
  have "tb = locations_loop 0 0 (cfg_Locations cfg) ([], [])"
    using tb assms(2) by (auto simp: rule_tables_def split: if_splits)
  then have "map_of (r_TableToNode r) t = Some (int i)"
    using locations_loop_nodes [of "cfg_Locations cfg" 0 "([], [])" 0] assms(3-6)
    by (auto simp: r locations_fit_def list_all_iff)
  then show ?thesis by (simp add: node_of_table_def)
qed

text \<open>
  C19. A router holds exactly the configured rules: a lookup finds the rule parsed from the
  entry with that database and table and nothing else; no table is configured twice, the nodes of
  every rule are nodes of the schema, no entry is a default rule, and the default node is a node
  of the schema.
\<close>

theorem router_holds_configuration:
  assumes "NewRouter cfg = Inr rt"
  shows "(lookup_rule rt db tb = Some r \<longleftrightarrow>
       (\<exists>c \<in> set (sch_ShardRule cfg). cfg_DB c = db \<and> cfg_Table c = tb \<and> parseRule c = Inr r))
    \<and> distinct (map (\<lambda>c. (cfg_DB c, cfg_Table c)) (sch_ShardRule cfg))
    \<and> (\<forall>c \<in> set (sch_ShardRule cfg). set (cfg_Nodes c) \<subseteq> set (rt_Nodes rt) \<and> cfg_Type c \<noteq> DefaultRuleType)
    \<and> r_Nodes (rt_DefaultRule rt) = [sch_Default cfg] \<and> sch_Default cfg \<in> set (rt_Nodes rt)"
  using NewRouterE [OF assms] by (simp add: rule_for_def NewDefaultRule_def)

theorem router_holds_configuration_witness:
  "\<exists>rt. NewRouter \<lparr>sch_User = ''u'', sch_Nodes = [''n1'', ''n2''], sch_Default = ''n1'', sch_ShardRule = [example_cfg]\<rparr> = Inr rt
     \<and> lookup_rule rt ''ks'' ''t'' = Some example_rule \<and> lookup_rule rt ''ks'' ''u'' = None"
proof -
  let ?c = "\<lparr>sch_User = ''u'', sch_Nodes = [''n1'', ''n2''], sch_Default = ''n1'', sch_ShardRule = [example_cfg]\<rparr>"
  have "isl (NewRouter ?c) = False" by code_simp
  then obtain rt where rt: "NewRouter ?c = Inr rt" by (cases "NewRouter ?c") auto
  have names: "cfg_DB example_cfg = ''ks''" "cfg_Table example_cfg = ''t''" by (simp_all add: example_cfg_def)
  have "lookup_rule rt ''ks'' ''t'' = Some example_rule"
    using router_holds_configuration [OF rt, of "''ks''" "''t''" example_rule] example_parse names by simp
  moreover have "lookup_rule rt ''ks'' ''u'' = Some r \<Longrightarrow> False" for r
    using router_holds_configuration [OF rt, of "''ks''" "''u''" r] names by simp
  ultimately show ?thesis using rt by (metis not_None_eq)
qed

text \<open>
  \<open>GetRule\<close> finds the rule of a table however its database is given: with the table name,
  plain or in backquotes, or apart from it; a table without a rule gets the default rule, whose
  database is set to the one asked for.
\<close>

lemma rule_of_qualified_table:
  assumes "CHR ''.'' \<notin> set d" "CHR ''.'' \<notin> set t" "CHR ''`'' \<notin> set d" "CHR ''`'' \<notin> set t"
  shows "GetRule rt db (''`'' @ d @ ''`.`'' @ t @ ''`'') = GetRule rt d t
    \<and> GetRule rt db (d @ ''.'' @ t) = GetRule rt d t
    \<and> (case lookup_rule rt d t of
         Some r \<Rightarrow> GetRule rt d t = (r, rt)
       | None \<Rightarrow> fst (GetRule rt d t) = (rt_DefaultRule rt)\<lparr>r_DB := d\<rparr>
                 \<and> rt_DefaultRule (snd (GetRule rt d t)) = (rt_DefaultRule rt)\<lparr>r_DB := d\<rparr>
                 \<and> rt_Rules (snd (GetRule rt d t)) = rt_Rules rt)"
  using GetRule_qualified [OF assms] GetRule_eq [OF assms(2)] by (auto split: option.splits)

text \<open>
  \<open>checkUpdateExprs\<close> for a rule with several nodes: what passes assigns no column that is written exactly like the key. A rule with
  one node lets every assignment pass, although it may have several tables, and so does a key in other letters.
\<close>

lemma checked_update_keeps_key:
  assumes "checkUpdateExprs r exprs = Inr ()" and "r_Type r \<noteq> DefaultRuleType" and "length (r_Nodes r) \<noteq> 1"
  shows "\<forall>e \<in> set exprs. cn_Name (ue_Name e) \<noteq> r_Key r"
  using assms by (auto simp: checkUpdateExprs_def list_ex_iff split: if_splits)

lemma update_check_gaps:
  "checkUpdateExprs example_rule [\<lparr>ue_Name = \<lparr>cn_Name = ''ID'', cn_Qualifier = None\<rparr>, ue_Expr = NumVal ''1''\<rparr>] = Inr ()"
  "checkUpdateExprs (example_rule\<lparr>r_Nodes := [''n1'']\<rparr>) [\<lparr>ue_Name = \<lparr>cn_Name = ''id'', cn_Qualifier = None\<rparr>, ue_Expr = NumVal ''1''\<rparr>] = Inr ()"
  by (simp_all add: checkUpdateExprs_def example_rule_def)

lemma GetRule_nodes: "GetRule rt d t = (rule, rt') \<Longrightarrow> rt_Nodes rt' = rt_Nodes rt"
  by (auto simp: GetRule_def Let_def split: option.splits list.splits prod.splits)

text \<open>
  The node of a table, by the rule's own list of nodes, which is what \<open>FindNode\<close> returns for a key of the table. The
  index of the node is one of the list for every table of a well-formed rule, and 0, Go's value of a missing entry, for any other one.
\<close>

definition rule_node :: "rule \<Rightarrow> int \<Rightarrow> string res" where
  "rule_node r t = at_index (r_Nodes r) (node_of_table r t)"

lemma FindNode_rule_node: "FindTableIndex loc r k = Inr t \<Longrightarrow> FindNode loc r k = rule_node r t"
  by (simp add: FindNode_def FindTableIndex_def rule_node_def)

lemma node_index_bounds:
  assumes "wf_rule r" and "r_Nodes r \<noteq> []"
  shows "0 \<le> node_of_table r t \<and> node_of_table r t < int (length (r_Nodes r))"
proof (cases "t \<in> set (r_SubTableIndexs r)")
  case False
  then have "map_of (r_TableToNode r) t = None"
    using wf_ruleD(2) [OF assms(1)] by (metis list.set_map map_of_eq_None_iff)
  then show ?thesis using assms(2) by (simp add: node_of_table_def map_get0_def)
qed (rule wf_ruleD(3) [OF assms(1)])

end
