(* ===== verification/Server.thy ===== *)
theory Server
  imports Fingerprint Node Rules
begin

text \<open>
  The proxy server (src/proxy/server/server.go): its configuration, users, nodes and schemas, the list of addresses that
  may connect (src/proxy/server/util.go) and the blacklist of statements, with the operations that change them at run
  time and the reload of the configuration.

  Nodes are shared objects: \<open>sv_store\<close> holds all that were made, a pointer is an index into it, and the maps of the
  source are association lists. \<open>files\<close> gives the contents of files; what \<open>net.Dial\<close> gives, the clock and the random
  numbers are arguments. Log files are left out, and so are the addresses of the web interface in the configuration.
\<close>

unbundle bit_operations_syntax

section \<open>Addresses\<close>

text \<open>
  \<open>net.ParseIP\<close>, \<open>net.ParseCIDR\<close> and \<open>net.SplitHostPort\<close>. An address is the list of its bytes, of which an IPv4 address has 16 with a
  fixed prefix; nil is the empty list.
\<close>

definition v4_prefix :: "int list" where
  "v4_prefix = replicate 10 0 @ [255, 255]"

definition To4 :: "int list \<Rightarrow> int list" where
  "To4 ip = (if length ip = 4 then ip else if length ip = 16 \<and> take 12 ip = v4_prefix then drop 12 ip else [])"

definition parse_decimal :: "int \<Rightarrow> string \<Rightarrow> int option" where
  "parse_decimal mx s =
     (if s \<noteq> [] \<and> list_all is_digit s \<and> foldl (\<lambda>n c. 10 * n + (int (byte_of c) - 48)) 0 s \<le> mx
      then Some (foldl (\<lambda>n c. 10 * n + (int (byte_of c) - 48)) 0 s) else None)"

definition parse_v4 :: "string \<Rightarrow> int list option" where
  "parse_v4 s =
     (case map (parse_decimal 255) (str_split (CHR ''.'') s) of
        [Some a, Some b, Some c, Some d] \<Rightarrow> Some [a, b, c, d]
      | _ \<Rightarrow> None)"

definition hex_val :: "char \<Rightarrow> int option" where
  "hex_val c =
     (let b = int (byte_of c) in
      if is_digit c then Some (b - 48) else if 97 \<le> b \<and> b \<le> 102 then Some (b - 87) else if 65 \<le> b \<and> b \<le> 70 then Some (b - 55) else None)"

definition parse_group :: "string \<Rightarrow> int list option" where
  "parse_group s =
     (if s \<noteq> [] \<and> list_all (\<lambda>c. hex_val c \<noteq> None) s \<and> foldl (\<lambda>n c. 16 * n + the (hex_val c)) 0 s \<le> 0xFFFF
      then let n = foldl (\<lambda>n c. 16 * n + the (hex_val c)) 0 s in Some [n div 256, n mod 256] else None)"

text \<open>The groups of an IPv6 address; the last one may be an IPv4 address.\<close>

fun parse_groups :: "string list \<Rightarrow> int list option" where
  "parse_groups [] = Some []"
| "parse_groups [s] = (if CHR ''.'' \<in> set s then parse_v4 s else parse_group s)"
| "parse_groups (s # t # ss) =
     (case (parse_group s, parse_groups (t # ss)) of (Some a, Some b) \<Rightarrow> Some (a @ b) | _ \<Rightarrow> None)"

definition groups_of :: "string \<Rightarrow> int list option" where
  "groups_of s = (if s = [] then Some [] else parse_groups (str_split (CHR '':'') s))"

text \<open>The parts before and behind the first two adjacent colons.\<close>

fun split_ellipsis :: "string \<Rightarrow> string \<Rightarrow> (string \<times> string) option" where
  "split_ellipsis a (x # y # s) =
     (if x = CHR '':'' \<and> y = CHR '':'' then Some (rev a, s) else split_ellipsis (x # a) (y # s))"
| "split_ellipsis a _ = None"

definition parse_v6 :: "string \<Rightarrow> int list option" where
  "parse_v6 s =
     (case split_ellipsis [] s of
        None \<Rightarrow> (case groups_of s of Some b \<Rightarrow> if length b = 16 then Some b else None | None \<Rightarrow> None)
      | Some (l, r) \<Rightarrow>
          (case (if CHR ''.'' \<in> set l then None else groups_of l, groups_of r) of
             (Some a, Some b) \<Rightarrow>
               if length a + length b < 16 then Some (a @ replicate (16 - length a - length b) 0 @ b) else None
           | _ \<Rightarrow> None))"

definition ParseIP :: "string \<Rightarrow> int list option" where
  "ParseIP s =
     (case List.find (\<lambda>c. c = CHR ''.'' \<or> c = CHR '':'') s of
        None \<Rightarrow> None
      | Some c \<Rightarrow> if c = CHR ''.'' then map_option (\<lambda>b. v4_prefix @ b) (parse_v4 s) else parse_v6 s)"

text \<open>The bytes of a mask with \<open>n\<close> leading ones.\<close>

fun mask_bytes :: "nat \<Rightarrow> nat \<Rightarrow> int list" where
  "mask_bytes 0 n = []"
| "mask_bytes (Suc k) n = (if n \<ge> 8 then 255 # mask_bytes k (n - 8) else (256 - 2 ^ (8 - n)) # mask_bytes k 0)"

definition ParseCIDR :: "string \<Rightarrow> (int list \<times> int list \<times> int list) option" where
  "ParseCIDR s =
     (case str_splitN2 (CHR ''/'') s of
        [addr, m] \<Rightarrow>
          (case (case List.find (\<lambda>c. c = CHR ''.'' \<or> c = CHR '':'') addr of
                   Some c \<Rightarrow> if c = CHR ''.'' then parse_v4 addr else parse_v6 addr
                 | None \<Rightarrow> None) of
             None \<Rightarrow> None
           | Some ip \<Rightarrow>
               (case parse_decimal (8 * int (length ip)) m of
                  None \<Rightarrow> None
                | Some n \<Rightarrow>
                    let mask = mask_bytes (length ip) (nat n) in
                    Some (if length ip = 4 then v4_prefix @ ip else ip, map2 (AND) ip mask, mask)))
      | _ \<Rightarrow> None)"

definition ipnet_Contains :: "int list \<Rightarrow> int list \<Rightarrow> int list \<Rightarrow> bool" where
  "ipnet_Contains nn m ip =
     (let x = (if To4 ip \<noteq> [] then To4 ip else ip) in length x = length nn \<and> map2 (AND) nn m = map2 (AND) x m)"

definition ip_Equal :: "int list \<Rightarrow> int list \<Rightarrow> bool" where
  "ip_Equal a b \<longleftrightarrow> (if length a = length b then a = b else To4 a \<noteq> [] \<and> To4 a = To4 b)"

text \<open>The host of \<open>host:port\<close> or \<open>[host]:port\<close>; the empty string when the address is not of these forms.\<close>

definition SplitHost :: "string \<Rightarrow> string" where
  "SplitHost s =
     (let colon = CHR '':''; port = takeWhile (\<lambda>c. c \<noteq> colon) (rev s); host = rev (drop (length port + 1) (rev s)) in
      if colon \<notin> set s then []
      else if host \<noteq> [] \<and> hd host = CHR ''['' then
        (if last host = CHR '']'' \<and> CHR ''['' \<notin> set (tl host) \<and> CHR '']'' \<notin> set (butlast host) then tl (butlast host) else [])
      else if colon \<in> set host \<or> CHR ''['' \<in> set s \<or> CHR '']'' \<in> set s then []
      else host)"

record ipinfo =
  ip_info :: string
  ip_isIPNet :: bool
  ip_ip :: "int list"
  ip_ipNet :: "int list \<times> int list"

definition ParseIPInfo :: "string \<Rightarrow> ipinfo res" where
  "ParseIPInfo v =
     (case ParseCIDR v of
        Some (ip, nn, m) \<Rightarrow> Inr \<lparr>ip_info = v, ip_isIPNet = True, ip_ip = ip, ip_ipNet = (nn, m)\<rparr>
      | None \<Rightarrow>
          (case ParseIP v of
             Some ip \<Rightarrow> Inr \<lparr>ip_info = v, ip_isIPNet = False, ip_ip = ip, ip_ipNet = ([], [])\<rparr>
           | None \<Rightarrow> Inl (Err (Errorf ''invalid ip address''))))"

definition ip_Match :: "ipinfo \<Rightarrow> int list \<Rightarrow> bool" where
  "ip_Match t ip = (if ip_isIPNet t then ipnet_Contains (fst (ip_ipNet t)) (snd (ip_ipNet t)) ip else ip_Equal (ip_ip t) ip)"

section \<open>State\<close>

record config =
  cf_Addr :: string
  cf_UserList :: "(string \<times> string) list"
  cf_WebAddr :: string
  cf_WebUser :: string
  cf_WebPassword :: string
  cf_LogPath :: string
  cf_LogLevel :: string
  cf_LogSql :: string
  cf_SlowLogTime :: int
  cf_AllowIps :: string
  cf_BlsFile :: string
  cf_Charset :: string
  cf_Nodes :: "node_config list"
  cf_SchemaList :: "schema_config list"

record schema =
  sc_nodes :: "(string \<times> nat) list"
  sc_rule :: router

record blacklist =
  bl_sqls :: "(string \<times> string) list"
  bl_sqlsLen :: int

text \<open>The counters (src/proxy/server/counter.go). \<open>SlowLogTotal\<close> depends on execution times and stays as it is.\<close>

record counter =
  ct_OldClientQPS :: int
  ct_OldErrLogTotal :: int
  ct_OldSlowLogTotal :: int
  ct_ClientConns :: int
  ct_ClientQPS :: int
  ct_ErrLogTotal :: int
  ct_SlowLogTotal :: int

definition IncrClientConns :: "counter \<Rightarrow> counter" where
  "IncrClientConns c = c\<lparr>ct_ClientConns := wrap64 (ct_ClientConns c + 1)\<rparr>"

definition DecrClientConns :: "counter \<Rightarrow> counter" where
  "DecrClientConns c = c\<lparr>ct_ClientConns := wrap64 (ct_ClientConns c - 1)\<rparr>"

definition IncrClientQPS :: "counter \<Rightarrow> counter" where
  "IncrClientQPS c = c\<lparr>ct_ClientQPS := wrap64 (ct_ClientQPS c + 1)\<rparr>"

definition IncrErrLogTotal :: "counter \<Rightarrow> counter" where
  "IncrErrLogTotal c = c\<lparr>ct_ErrLogTotal := wrap64 (ct_ErrLogTotal c + 1)\<rparr>"

definition FlushCounter :: "counter \<Rightarrow> counter" where
  "FlushCounter c =
     c\<lparr>ct_OldClientQPS := ct_ClientQPS c, ct_OldErrLogTotal := ct_ErrLogTotal c, ct_OldSlowLogTotal := ct_SlowLogTotal c, ct_ClientQPS := 0\<rparr>"

abbreviation (input) "Offline \<equiv> (0 :: int)"
abbreviation (input) "Online \<equiv> (1 :: int)"

text \<open>
  The two-element arrays of the source with an index to the current element are lists of length two. \<open>sv_charset\<close> and
  \<open>sv_collation\<close> are the global defaults of package mysql that \<open>NewServer\<close> sets.
\<close>

record server =
  sv_cfg :: config
  sv_addr :: string
  sv_users :: "(string \<times> string) list"
  sv_statusIndex :: nat
  sv_status :: "int list"
  sv_logSqlIndex :: nat
  sv_logSql :: "string list"
  sv_slowLogTimeIndex :: nat
  sv_slowLogTime :: "int list"
  sv_blacklistSqlsIndex :: nat
  sv_blacklistSqls :: "blacklist list"
  sv_allowipsIndex :: bool
  sv_allowips :: "ipinfo list list"
  sv_counter :: counter
  sv_store :: "node list"
  sv_nodes :: "(string \<times> nat) list"
  sv_schemas :: "(string \<times> schema) list"
  sv_running :: bool
  sv_configVer :: int
  sv_charset :: string
  sv_collation :: int

text \<open>\<open>BoolIndex.Get\<close> and the current elements.\<close>

definition BoolIndex_Get :: "bool \<Rightarrow> nat \<times> nat" where
  "BoolIndex_Get index = (if index then (1, 0) else (0, 1))"

definition current_ips :: "server \<Rightarrow> ipinfo list" where
  "current_ips s = sv_allowips s ! fst (BoolIndex_Get (sv_allowipsIndex s))"

definition current_blacklist :: "server \<Rightarrow> blacklist" where
  "current_blacklist s = sv_blacklistSqls s ! sv_blacklistSqlsIndex s"

text \<open>The index of the other element of a pair, as the code computes it.\<close>

definition other_index :: "nat \<Rightarrow> nat" where
  "other_index i = (if i = 0 then 1 else 0)"

definition server_Status :: "server \<Rightarrow> string" where
  "server_Status s =
     (let st = sv_status s ! sv_statusIndex s in
      if st = Online then ''online'' else if st = Offline then ''offline'' else ''unknown'')"

section \<open>Start\<close>

definition TrimSpace :: "string \<Rightarrow> string" where
  "TrimSpace s = trim_set [CHR 0x20, CHR 0x09, CHR 0x0A, CHR 0x0B, CHR 0x0C, CHR 0x0D] s"

text \<open>Entries of the list of addresses that cannot be parsed are skipped.\<close>

definition parseAllowIps :: "string \<Rightarrow> ipinfo list" where
  "parseAllowIps s =
     (if s = [] then []
      else concat (map (\<lambda>x. case ParseIPInfo (TrimSpace x) of Inr ip \<Rightarrow> [ip] | Inl _ \<Rightarrow> []) (str_split (CHR '','') s)))"

fun add_black_lines :: "string list \<Rightarrow> (string \<times> string) list \<Rightarrow> (string \<times> string) list res" where
  "add_black_lines [] m = Inr m"
| "add_black_lines (l # ls) m =
     (let l = (if ls = [] then l else TrimSpace l) in
      if l = [] then add_black_lines ls m
      else rbind (GetFingerprint l) (\<lambda>fp. add_black_lines ls (AList.update (GetMd5 fp) fp m)))"

definition parseBlackListSqls :: "(string \<Rightarrow> string res) \<Rightarrow> string \<Rightarrow> blacklist res" where
  "parseBlackListSqls files path =
     (if path = [] then Inr \<lparr>bl_sqls = [], bl_sqlsLen = 0\<rparr>
      else
        rbind (files path) (\<lambda>text.
        rbind (add_black_lines (str_split (CHR 0x0A) text) []) (\<lambda>m. Inr \<lparr>bl_sqls = m, bl_sqlsLen = int (length m)\<rparr>)))"

text \<open>
  \<open>dial 0\<close> is for the master of a node and \<open>dial (i + 1)\<close> for its \<open>i\<close>-th slave. A panic of the balancer is one of the server.
\<close>

definition parseNode ::
  "'f floats \<Rightarrow> (nat \<Rightarrow> nat \<Rightarrow> dialer) \<Rightarrow> (nat \<Rightarrow> int) \<Rightarrow> int \<Rightarrow> node_config \<Rightarrow> node res" where
  "parseNode fo dial draw now cfg =
     (case abind (ParseMaster fo (dial 0) now (nc_Master cfg)) (\<lambda>_. ParseSlave fo (\<lambda>i. dial (i + 1)) draw now (nc_Slave cfg))
             \<lparr>n_Cfg = cfg, n_dbs = [], n_Master = None, n_Slave = None, n_LastSlaveIndex = 0, n_RoundRobinQ = [],
              n_SlaveWeights = [], n_DownAfterNoAlive = wrap64 (nc_DownAfterNoAlive cfg * 10 ^ 9), n_Online = False\<rparr> of
        (Inl e, _) \<Rightarrow> Inl e
      | (Inr _, n) \<Rightarrow> Inr (n\<lparr>n_Online := True\<rparr>))"

text \<open>The nodes of a configuration: their map, with pointers from \<open>base\<close> on, and the new part of the store.\<close>

fun parseNodes ::
  "'f floats \<Rightarrow> (nat \<Rightarrow> nat \<Rightarrow> nat \<Rightarrow> dialer) \<Rightarrow> (nat \<Rightarrow> nat \<Rightarrow> int) \<Rightarrow> int \<Rightarrow> nat \<Rightarrow> nat \<Rightarrow> node_config list
     \<Rightarrow> (string \<times> nat) list \<Rightarrow> ((string \<times> nat) list \<times> node list) res" where
  "parseNodes fo dial draw now base k [] m = Inr (m, [])"
| "parseNodes fo dial draw now base k (v # vs) m =
     (if map_of m (nc_Name v) \<noteq> None then Inl (Err (Errorf (''duplicate node ['' @ nc_Name v @ '']'')))
      else
        rbind (parseNode fo (dial k) (draw k) now v) (\<lambda>n.
        rbind (parseNodes fo dial draw now base (k + 1) vs (m @ [(nc_Name v, base + k)])) (\<lambda>(m', ns). Inr (m', n # ns))))"

fun schema_nodes :: "(string \<times> nat) list \<Rightarrow> string list \<Rightarrow> (string \<times> nat) list \<Rightarrow> (string \<times> nat) list res" where
  "schema_nodes all [] m = Inr m"
| "schema_nodes all (n # ns) m =
     (case map_of all n of
        None \<Rightarrow> Inl (Err (Errorf (''schema node ['' @ n @ ''] config is not exists'')))
      | Some p \<Rightarrow>
          if map_of m n \<noteq> None then Inl (Err (Errorf (''schema node ['' @ n @ ''] duplicate'')))
          else schema_nodes all ns (m @ [(n, p)]))"

fun parseSchemaList :: "schema_config list \<Rightarrow> (string \<times> nat) list \<Rightarrow> (string \<times> schema) list \<Rightarrow> (string \<times> schema) list res" where
  "parseSchemaList [] all m = Inr m"
| "parseSchemaList (c # cs) all m =
     (if sch_Nodes c = [] then Inl (Err (Errorf ''schema must have a node''))
      else
        rbind (schema_nodes all (sch_Nodes c) []) (\<lambda>nodes.
        rbind (NewRouter c) (\<lambda>rule.
          parseSchemaList cs all (AList.update (sch_User c) \<lparr>sc_nodes = nodes, sc_rule = rule\<rparr> m))))"

definition users_of :: "(string \<times> string) list \<Rightarrow> (string \<times> string) list" where
  "users_of us = foldl (\<lambda>m (u, p). AList.update u p m) [] us"

text \<open>The first user without a schema, in the order \<open>mo\<close> in which Go ranges over the map of users.\<close>

definition check_users ::
  "((string \<times> string) list \<Rightarrow> (string \<times> string) list) \<Rightarrow> (string \<times> string) list \<Rightarrow> (string \<times> schema) list \<Rightarrow> unit res" where
  "check_users mo users schemas =
     (case List.find (\<lambda>(u, _). map_of schemas u = None) (mo users) of
        Some (u, _) \<Rightarrow> Inl (Err (Errorf (''user ['' @ u @ ''] must have a schema'')))
      | None \<Rightarrow> Inr ())"

text \<open>The parts of a configuration that \<open>NewServer\<close> and \<open>UpdateConfig\<close> parse alike, in the same order.\<close>

definition parse_config ::
  "'f floats \<Rightarrow> (nat \<Rightarrow> nat \<Rightarrow> nat \<Rightarrow> dialer) \<Rightarrow> (nat \<Rightarrow> nat \<Rightarrow> int) \<Rightarrow> int \<Rightarrow> (string \<Rightarrow> string res)
     \<Rightarrow> ((string \<times> string) list \<Rightarrow> (string \<times> string) list) \<Rightarrow> nat \<Rightarrow> config
     \<Rightarrow> (blacklist \<times> ipinfo list \<times> (string \<times> nat) list \<times> node list \<times> (string \<times> schema) list \<times> (string \<times> string) list) res" where
  "parse_config fo dial draw now files mo base cfg =
     rbind (parseBlackListSqls files (cf_BlsFile cfg)) (\<lambda>bs.
     rbind (parseNodes fo dial draw now base 0 (cf_Nodes cfg) []) (\<lambda>(nodes, ns).
     rbind (parseSchemaList (cf_SchemaList cfg) nodes []) (\<lambda>schemas.
     rbind (check_users mo (users_of (cf_UserList cfg)) schemas) (\<lambda>_.
       Inr (bs, parseAllowIps (cf_AllowIps cfg), nodes, ns, schemas, users_of (cf_UserList cfg))))))"

definition NewServer ::
  "'f floats \<Rightarrow> (nat \<Rightarrow> nat \<Rightarrow> nat \<Rightarrow> dialer) \<Rightarrow> (nat \<Rightarrow> nat \<Rightarrow> int) \<Rightarrow> int \<Rightarrow> (string \<Rightarrow> string res)
     \<Rightarrow> ((string \<times> string) list \<Rightarrow> (string \<times> string) list) \<Rightarrow> (string \<Rightarrow> unit res) \<Rightarrow> config \<Rightarrow> server res" where
  "NewServer fo dial draw now files mo listen cfg0 =
     (let cfg = (if cf_Charset cfg0 = [] then cfg0\<lparr>cf_Charset := DEFAULT_CHARSET\<rparr> else cfg0) in
      case map_of CharsetIds (cf_Charset cfg) of
        None \<Rightarrow> Inl (Err ErrInvalidCharset)
      | Some cid \<Rightarrow>
          rbind (parse_config fo dial draw now files mo 0 cfg) (\<lambda>(bs, ips, nodes, ns, schemas, users).
          rbind (listen (cf_Addr cfg)) (\<lambda>_.
            Inr \<lparr>sv_cfg = cfg, sv_addr = cf_Addr cfg, sv_users = users, sv_statusIndex = 0, sv_status = [Online, 0],
                 sv_logSqlIndex = 0, sv_logSql = [cf_LogSql cfg, []], sv_slowLogTimeIndex = 0,
                 sv_slowLogTime = [cf_SlowLogTime cfg, 0], sv_blacklistSqlsIndex = 0, sv_blacklistSqls = [bs, bs],
                 sv_allowipsIndex = False, sv_allowips = [ips, ips],
                 sv_counter = \<lparr>ct_OldClientQPS = 0, ct_OldErrLogTotal = 0, ct_OldSlowLogTotal = 0, ct_ClientConns = 0, ct_ClientQPS = 0,
                   ct_ErrLogTotal = 0, ct_SlowLogTotal = 0\<rparr>, sv_store = ns, sv_nodes = nodes, sv_schemas = schemas,
                 sv_running = False, sv_configVer = 0, sv_charset = cf_Charset cfg, sv_collation = cid\<rparr>)))"

section \<open>Changes at run time\<close>

text \<open>The proxy's commands are actions on the server. A change of a pair writes the other element and then moves the index.\<close>

definition ChangeProxy :: "string \<Rightarrow> (server, unit) act" where
  "ChangeProxy v =
     (case map_of [(''online'', Online), (''offline'', Offline)] v of
        None \<Rightarrow> alift (Inl (Err ErrCmdUnsupport))
      | Some st \<Rightarrow> aupd (\<lambda>s. let i = other_index (sv_statusIndex s) in s\<lparr>sv_status := (sv_status s)[i := st], sv_statusIndex := i\<rparr>))"

definition ChangeLogSql :: "string \<Rightarrow> (server, unit) act" where
  "ChangeLogSql v0 =
     (let v = to_lower v0 in
      if v \<noteq> ''on'' \<and> v \<noteq> ''off'' then alift (Inl (Err ErrCmdUnsupport))
      else aupd (\<lambda>s. let i = other_index (sv_logSqlIndex s) in
             s\<lparr>sv_logSql := (sv_logSql s)[i := v], sv_logSqlIndex := i, sv_cfg := (sv_cfg s)\<lparr>cf_LogSql := v\<rparr>\<rparr>))"

definition ChangeSlowLogTime :: "string \<Rightarrow> (server, unit) act" where
  "ChangeSlowLogTime v =
     abind (alift (strconv_Atoi v)) (\<lambda>tmp.
       aupd (\<lambda>s. let i = other_index (sv_slowLogTimeIndex s) in
         s\<lparr>sv_slowLogTime := (sv_slowLogTime s)[i := tmp], sv_slowLogTimeIndex := i, sv_cfg := (sv_cfg s)\<lparr>cf_SlowLogTime := tmp\<rparr>\<rparr>))"

definition AddAllowIP :: "string \<Rightarrow> (server, unit) act" where
  "AddAllowIP v =
     abind (alift (ParseIPInfo v)) (\<lambda>ip.
     abind (aget current_ips) (\<lambda>ips.
       if list_ex (\<lambda>old. ip_info ip = ip_info old) ips then aret ()
       else aupd (\<lambda>s.
         let another = snd (BoolIndex_Get (sv_allowipsIndex s)); cfg = sv_cfg s in
         s\<lparr>sv_allowips := (sv_allowips s)[another := ips @ [ip]], sv_allowipsIndex := \<not> sv_allowipsIndex s,
           sv_cfg := cfg\<lparr>cf_AllowIps := (if cf_AllowIps cfg = [] then v else cf_AllowIps cfg @ '','' @ v)\<rparr>\<rparr>)))"

text \<open>
  \<open>DelAllowIP\<close> moves the tail of the list in place: the two slices share their array, so that the old one is left with the last
  entry twice.
\<close>

fun find_index :: "('a \<Rightarrow> bool) \<Rightarrow> 'a list \<Rightarrow> nat option" where
  "find_index P [] = None"
| "find_index P (x # xs) = (if P x then Some 0 else map_option Suc (find_index P xs))"

definition remove_nth :: "nat \<Rightarrow> 'a list \<Rightarrow> 'a list" where
  "remove_nth i xs = take i xs @ drop (Suc i) xs"

definition DelAllowIP :: "string \<Rightarrow> (server, unit) act" where
  "DelAllowIP v =
     aupd (\<lambda>s.
       let (current, another) = BoolIndex_Get (sv_allowipsIndex s); ips = sv_allowips s ! current; cfg = sv_cfg s in
       case find_index (\<lambda>ip. v = ip_info ip) ips of
         None \<Rightarrow> s\<lparr>sv_allowips := (sv_allowips s)[another := ips]\<rparr>
       | Some i \<Rightarrow>
           let vec = str_split (CHR '','') (cf_AllowIps cfg); rest = remove_nth i ips in
           s\<lparr>sv_allowips := (sv_allowips s)[current := rest @ [last ips], another := rest],
             sv_allowipsIndex := \<not> sv_allowipsIndex s,
             sv_cfg := (case find_index (\<lambda>ip. ip = v) vec of
                          None \<Rightarrow> cfg
                        | Some j \<Rightarrow> cfg\<lparr>cf_AllowIps := trim_set '','' (strings_Join (remove_nth j vec) '','')\<rparr>)\<rparr>)"

definition GetAllBlackSqls :: "((string \<times> string) list \<Rightarrow> (string \<times> string) list) \<Rightarrow> server \<Rightarrow> string list" where
  "GetAllBlackSqls mo s = map snd (mo (bl_sqls (current_blacklist s)))"

text \<open>
  \<open>AddBlackSql\<close> and \<open>DelBlackSql\<close> let both elements of the pair point to the current list, change it and move the index.
\<close>

definition change_blacklist :: "(blacklist \<Rightarrow> blacklist) \<Rightarrow> server \<Rightarrow> server" where
  "change_blacklist f s =
     (let b = f (current_blacklist s) in
      s\<lparr>sv_blacklistSqls := [b, b], sv_blacklistSqlsIndex := other_index (sv_blacklistSqlsIndex s)\<rparr>)"

definition AddBlackSql :: "string \<Rightarrow> (server, unit) act" where
  "AddBlackSql v0 =
     (let v = TrimSpace v0 in
      abind (alift (GetFingerprint v)) (\<lambda>fp.
      abind (aget current_blacklist) (\<lambda>b.
        if map_of (bl_sqls b) (GetMd5 fp) \<noteq> None then alift (Inl (Err ErrBlackSqlExist))
        else aupd (change_blacklist (\<lambda>b. b\<lparr>bl_sqls := AList.update (GetMd5 fp) v (bl_sqls b), bl_sqlsLen := bl_sqlsLen b + 1\<rparr>)))))"

definition DelBlackSql :: "string \<Rightarrow> (server, unit) act" where
  "DelBlackSql v0 =
     (let v = TrimSpace v0 in
      abind (alift (GetFingerprint v)) (\<lambda>fp.
      abind (aget current_blacklist) (\<lambda>b.
        if map_of (bl_sqls b) (GetMd5 fp) = None then alift (Inl (Err ErrBlackSqlNotExist))
        else aupd (change_blacklist (\<lambda>b. b\<lparr>bl_sqls := AList.delete (GetMd5 fp) (bl_sqls b), bl_sqlsLen := bl_sqlsLen b - 1\<rparr>)))))"

text \<open>What \<open>saveBlackSql\<close> writes to the file, if there is one.\<close>

definition saveBlackSql :: "((string \<times> string) list \<Rightarrow> (string \<times> string) list) \<Rightarrow> server \<Rightarrow> (string \<times> string) option" where
  "saveBlackSql mo s =
     (if cf_BlsFile (sv_cfg s) = [] then None
      else Some (cf_BlsFile (sv_cfg s), concat (map (\<lambda>v. v @ [CHR 0x0A]) (GetAllBlackSqls mo s))))"

definition GetNode :: "server \<Rightarrow> string \<Rightarrow> nat option" where
  "GetNode s name = map_of (sv_nodes s) name"

definition GetSchema :: "server \<Rightarrow> string \<Rightarrow> schema option" where
  "GetSchema s user = map_of (sv_schemas s) user"

definition GetAllowIps :: "server \<Rightarrow> string list" where
  "GetAllowIps s = filter (\<lambda>i. i \<noteq> []) (map ip_info (current_ips s))"

definition GetSlowLogTime :: "server \<Rightarrow> int" where
  "GetSlowLogTime s = sv_slowLogTime s ! sv_slowLogTimeIndex s"

text \<open>A method call on the node that a pointer names.\<close>

definition at_node :: "nat \<Rightarrow> (node, 'a) act \<Rightarrow> (server, 'a) act" where
  "at_node p m s =
     (if p < length (sv_store s)
      then (case m (sv_store s ! p) of (r, n) \<Rightarrow> (r, s\<lparr>sv_store := (sv_store s)[p := n]\<rparr>))
      else (Inl (Panic NilDereference), s))"

definition on_node :: "string \<Rightarrow> string \<Rightarrow> string \<Rightarrow> (node, unit) act \<Rightarrow> (server, unit) act" where
  "on_node before behind name m =
     abind (aget (\<lambda>s. GetNode s name)) (\<lambda>p.
       case p of
         None \<Rightarrow> alift (Inl (Err (Errorf (before @ name @ behind))))
       | Some i \<Rightarrow> at_node i m)"

definition set_slaves :: "string \<Rightarrow> (string \<Rightarrow> string) \<Rightarrow> (server, unit) act" where
  "set_slaves name f =
     aupd (\<lambda>s. s\<lparr>sv_cfg := (sv_cfg s)\<lparr>cf_Nodes := map (\<lambda>c. if nc_Name c = name then c\<lparr>nc_Slave := f (nc_Slave c)\<rparr> else c)
       (cf_Nodes (sv_cfg s))\<rparr>\<rparr>)"

definition server_DeleteSlave :: "(nat \<Rightarrow> int) \<Rightarrow> string \<Rightarrow> string \<Rightarrow> (server, unit) act" where
  "server_DeleteSlave draw name addr0 =
     (let addr = addr_of addr0 in
      abind (on_node ''invalid node '' [] name (DeleteSlave draw addr)) (\<lambda>_.
        set_slaves name (\<lambda>sl. strings_Join (filter (\<lambda>v. addr_of v \<noteq> addr) (str_split (CHR '','') sl)) '','')))"

definition server_AddSlave :: "'f floats \<Rightarrow> (nat \<Rightarrow> dialer) \<Rightarrow> (nat \<Rightarrow> int) \<Rightarrow> int \<Rightarrow> string \<Rightarrow> string \<Rightarrow> (server, unit) act" where
  "server_AddSlave fo dial draw now name addr =
     abind (on_node ''invalid node '' [] name (AddSlave fo dial draw now addr)) (\<lambda>_.
       set_slaves name (\<lambda>sl. strings_Join (str_split (CHR '','') sl @ [addr]) '',''))"

definition server_UpMaster :: "'f floats \<Rightarrow> (nat \<Rightarrow> dialer) \<Rightarrow> int \<Rightarrow> string \<Rightarrow> string \<Rightarrow> (server, unit) act" where
  "server_UpMaster fo dial now name addr = on_node ''invalid node '' [] name (UpMaster fo dial now addr)"

definition server_UpSlave :: "'f floats \<Rightarrow> (nat \<Rightarrow> dialer) \<Rightarrow> int \<Rightarrow> string \<Rightarrow> string \<Rightarrow> (server, unit) act" where
  "server_UpSlave fo dial now name addr = on_node ''invalid node '' [] name (UpSlave fo dial now addr)"

definition server_DownMaster :: "string \<Rightarrow> string \<Rightarrow> (server, unit) act" where
  "server_DownMaster name addr = on_node ''invalid node '' [] name (DownMaster addr ManualDown)"

definition server_DownSlave :: "string \<Rightarrow> string \<Rightarrow> (server, unit) act" where
  "server_DownSlave name addr = on_node ''invalid node ['' ''].'' name (DownSlave addr ManualDown)"

text \<open>
  \<open>UpdateConfig\<close>: errors, and panics that its \<open>recover\<close> stops, leave the server as it was. The new nodes are added to the store,
  the old ones go offline.
\<close>

definition UpdateConfig ::
  "'f floats \<Rightarrow> (nat \<Rightarrow> nat \<Rightarrow> nat \<Rightarrow> dialer) \<Rightarrow> (nat \<Rightarrow> nat \<Rightarrow> int) \<Rightarrow> int \<Rightarrow> (string \<Rightarrow> string res)
     \<Rightarrow> ((string \<times> string) list \<Rightarrow> (string \<times> string) list) \<Rightarrow> config \<Rightarrow> server \<Rightarrow> server" where
  "UpdateConfig fo dial draw now files mo newCfg s =
     (case parse_config fo dial draw now files mo (length (sv_store s)) newCfg of
        Inl _ \<Rightarrow> s
      | Inr (bs, ips, nodes, ns, schemas, users) \<Rightarrow>
          let b = other_index (sv_blacklistSqlsIndex s); another = snd (BoolIndex_Get (sv_allowipsIndex s));
              s1 = s\<lparr>sv_cfg := newCfg, sv_blacklistSqls := (sv_blacklistSqls s)[b := bs], sv_blacklistSqlsIndex := b,
                     sv_allowips := (sv_allowips s)[another := ips], sv_allowipsIndex := \<not> sv_allowipsIndex s, sv_users := users\<rparr>;
              s2 = snd (ChangeSlowLogTime (int_str (cf_SlowLogTime newCfg)) s1);
              old = map snd (sv_nodes s)
          in s2\<lparr>sv_store := map (\<lambda>i. if i \<in> set old then (sv_store s ! i)\<lparr>n_Online := False\<rparr> else sv_store s ! i) [0..<length (sv_store s)] @ ns,
                sv_nodes := nodes, sv_schemas := schemas, sv_configVer := (sv_configVer s + 1) mod 2 ^ 32\<rparr>)"

text \<open>The monitoring data: one entry for the address of every database; a nil master or slave panics.\<close>

definition ConnCount :: "db \<Rightarrow> int \<times> int \<times> int \<times> int" where
  "ConnCount d =
     (let len = (\<lambda>c. case c of None \<Rightarrow> 0 | Some xs \<Rightarrow> int (length xs)) in
      (len (db_idleConns d), len (db_cacheConns d), db_pushConnCount d, db_popConnCount d))"

definition monitor_entry :: "node \<Rightarrow> string \<Rightarrow> nat option \<Rightarrow> (string \<times> (string \<times> string) list) res" where
  "monitor_entry n ty p =
     rbind (fst (deref p n)) (\<lambda>d.
       case ConnCount d of (idle, cache, push, pop) \<Rightarrow>
         Inr (db_addr d, [(''idleConn'', int_str idle), (''cacheConns'', int_str cache), (''pushConnCount'', int_str push),
           (''popConnCount'', int_str pop), (''maxConn'', int_str (nc_MaxConnNum (n_Cfg n))), (''type'', ty)]))"

definition GetMonitorData ::
  "((string \<times> nat) list \<Rightarrow> (string \<times> nat) list) \<Rightarrow> server \<Rightarrow> (string \<times> (string \<times> string) list) list res" where
  "GetMonitorData mo s =
     rbind (rmap (\<lambda>(_, i). let n = sv_store s ! i in
       rmap (\<lambda>(ty, p). monitor_entry n ty p) ((''master'', n_Master n) # map (\<lambda>p. (''slave'', p)) (slaves n))) (mo (sv_nodes s))) (\<lambda>es.
     Inr (foldl (\<lambda>m (a, e). AList.update a e m) [] (concat es)))"

end
