(* ===== verification/Plan.thy ===== *)
theory Plan
  imports Rules
begin

text \<open>
  The planner of src/proxy/router/planbuilder.go: from a condition on the sharding key, or
  from the rows of an insert, to the tables and nodes that a statement has to visit.

  \<open>getValueType\<close> clears the qualifier of the column it looks at, so it returns the new
  expression, and \<open>getTableIndexByBoolExpr\<close> returns the new condition together with the
  table indexes and the plan. The plan's pointer \<open>InRightToReplace\<close> to a comparison of the
  condition is the path to it from the root of the condition.

  Maps that the code iterates over are association lists without duplicate keys; the
  iteration order is the parameter \<open>mo\<close> where it can be observed.
\<close>

datatype node_kind = EID_NODE | VALUE_NODE | LIST_NODE | OTHER_NODE

datatype dir = GoLeft | GoRight | GoIn

datatype criteria = CritBool BoolExpr | CritValues "tuple list" | CritOther

record plan =
  p_Rule :: rule
  p_Criteria :: "criteria option"
  p_KeyIndex :: int
  p_Rows :: "(int \<times> tuple list) list"
  p_SubTableValueGroups :: "(int \<times> ValExpr list) list"
  p_InRightToReplace :: "dir list option"
  p_RouteTableIndexs :: indexs
  p_RouteNodeIndexs :: indexs
  p_RewrittenSqls :: "(string \<times> string list) list"

definition new_plan :: "rule \<Rightarrow> plan" where
  "new_plan r =
     \<lparr>p_Rule = r, p_Criteria = None, p_KeyIndex = 0, p_Rows = [], p_SubTableValueGroups = [],
      p_InRightToReplace = None, p_RouteTableIndexs = [], p_RouteNodeIndexs = [], p_RewrittenSqls = []\<rparr>"

section \<open>Replacing the values of an IN\<close>

fun subexpr :: "dir list \<Rightarrow> BoolExpr \<Rightarrow> BoolExpr option" where
  "subexpr [] e = Some e"
| "subexpr (GoLeft # p) (AndExpr l r) = subexpr p l"
| "subexpr (GoRight # p) (AndExpr l r) = subexpr p r"
| "subexpr (GoLeft # p) (OrExpr l r) = subexpr p l"
| "subexpr (GoRight # p) (OrExpr l r) = subexpr p r"
| "subexpr (GoIn # p) (ParenBoolExpr e) = subexpr p e"
| "subexpr (d # p) e = None"

fun set_right :: "dir list \<Rightarrow> ValExpr \<Rightarrow> BoolExpr \<Rightarrow> BoolExpr" where
  "set_right [] v (ComparisonExpr op l r) = ComparisonExpr op l v"
| "set_right (GoLeft # p) v (AndExpr l r) = AndExpr (set_right p v l) r"
| "set_right (GoRight # p) v (AndExpr l r) = AndExpr l (set_right p v r)"
| "set_right (GoLeft # p) v (OrExpr l r) = OrExpr (set_right p v l) r"
| "set_right (GoRight # p) v (OrExpr l r) = OrExpr l (set_right p v r)"
| "set_right (GoIn # p) v (ParenBoolExpr e) = ParenBoolExpr (set_right p v e)"
| "set_right p v e = e"

text \<open>
  \<open>rewriteWhereIn\<close> on the condition that the plan points into; the callers put the old
  right-hand side back after printing, so they work on the value returned here.
\<close>

definition rewriteWhereIn :: "plan \<Rightarrow> int \<Rightarrow> BoolExpr \<Rightarrow> BoolExpr" where
  "rewriteWhereIn plan tableIndex e =
     (case (p_InRightToReplace plan, map_of (p_SubTableValueGroups plan) tableIndex) of
        (Some p, Some vs) \<Rightarrow> set_right p (ValTuple vs) e
      | _ \<Rightarrow> e)"

definition notList :: "plan \<Rightarrow> indexs \<Rightarrow> indexs" where
  "notList plan l = differentList (r_SubTableIndexs (p_Rule plan)) l"

section \<open>Values and their tables\<close>

definition strip_qualifier :: "rule \<Rightarrow> colname \<Rightarrow> colname" where
  "strip_qualifier r n = (if nil_str (cn_Qualifier n) = r_Table r then n\<lparr>cn_Qualifier := None\<rparr> else n)"

fun getValueType :: "rule \<Rightarrow> ValExpr \<Rightarrow> node_kind \<times> ValExpr"
  and tupleType :: "rule \<Rightarrow> ValExpr list \<Rightarrow> bool \<times> ValExpr list"
where
  "getValueType r (ColName n) =
     ((if to_lower (cn_Name n) = r_Key r then EID_NODE else OTHER_NODE),
      ColName (strip_qualifier r n))"
| "getValueType r (ValTuple vs) =
     (let (ok, vs') = tupleType r vs in ((if ok then LIST_NODE else OTHER_NODE), ValTuple vs'))"
| "getValueType r (StrVal s) = (VALUE_NODE, StrVal s)"
| "getValueType r (NumVal s) = (VALUE_NODE, NumVal s)"
| "getValueType r (ValArg s) = (VALUE_NODE, ValArg s)"
| "getValueType r v = (OTHER_NODE, v)"
| "tupleType r [] = (True, [])"
| "tupleType r (v # vs) =
     (let (k, v') = getValueType r v in
      if k \<noteq> VALUE_NODE then (False, v' # vs)
      else let (ok, vs') = tupleType r vs in (ok, v' # vs'))"

definition num_error :: "num_err \<Rightarrow> string \<Rightarrow> string" where
  "num_error e s =
     ''strconv.ParseInt: parsing '' @ [CHR 0x22] @ s @ [CHR 0x22] @ '': ''
     @ (case e of NSyntax \<Rightarrow> ''invalid syntax'' | NRange \<Rightarrow> ''value out of range'')"

fun getBoundValue :: "ValExpr \<Rightarrow> key res" where
  "getBoundValue (ValTuple [v]) = getBoundValue v"
| "getBoundValue (ValTuple vs) = Inl (Panic (ParserError ''tuples not allowed as insert values''))"
| "getBoundValue (StrVal s) = Inr (KStr s)"
| "getBoundValue (NumVal s) =
     (case ParseInt10 s of
        Inl e \<Rightarrow> Inl (Panic (ParserError (num_error e s)))
      | Inr v \<Rightarrow> Inr (KInt64 v))"
| "getBoundValue v = Inl (Panic (PanicMsg ''Unexpected token''))"

definition getTableIndexByValue :: "local_date \<Rightarrow> plan \<Rightarrow> ValExpr \<Rightarrow> int res" where
  "getTableIndexByValue loc plan v = rbind (getBoundValue v) (FindTableIndex loc (p_Rule plan))"

definition adjustShardIndex :: "plan \<Rightarrow> ValExpr \<Rightarrow> int \<Rightarrow> int res" where
  "adjustShardIndex plan v index =
     rbind (getBoundValue v) (\<lambda>value.
       case r_Shard (p_Rule plan) of
         NumRangeShard rs \<Rightarrow>
           rbind (EqualStart rs value index) (\<lambda>eq.
             if eq then
               (if index - 1 < 0 then Inl (Panic (ParserError ''invalid range sharding''))
                else Inr (index - 1))
             else Inr index)
       | _ \<Rightarrow> Inr index)"

fun tuple_groups ::
  "local_date \<Rightarrow> plan \<Rightarrow> ValExpr list \<Rightarrow> (int \<times> ValExpr list) list \<Rightarrow> (int \<times> ValExpr list) list res"
where
  "tuple_groups loc plan [] shardset = Inr shardset"
| "tuple_groups loc plan (n # ns) shardset =
     rbind (getTableIndexByValue loc plan n) (\<lambda>index.
       tuple_groups loc plan ns (map_append shardset index n))"

definition getTableIndexsByTuple :: "local_date \<Rightarrow> plan \<Rightarrow> ValExpr \<Rightarrow> (indexs \<times> plan) res" where
  "getTableIndexsByTuple loc plan v =
     rbind (case v of ValTuple ns \<Rightarrow> tuple_groups loc plan ns [] | _ \<Rightarrow> Inr []) (\<lambda>shardset.
       Inr (sort (map fst shardset), plan\<lparr>p_SubTableValueGroups := shardset\<rparr>))"

section \<open>Conditions\<close>

text \<open>
  In the next three functions \<open>keep\<close> returns an index list and leaves the plan alone, and
  \<open>key_side\<close> is the value compared with the key, whichever side it is on.
\<close>

definition keep :: "plan \<Rightarrow> indexs \<Rightarrow> (indexs \<times> plan) res" where
  "keep plan l = Inr (l, plan)"

definition is_eid :: "plan \<Rightarrow> ValExpr \<Rightarrow> bool" where
  "is_eid plan v \<longleftrightarrow> fst (getValueType (p_Rule plan) v) = EID_NODE"

definition key_side :: "plan \<Rightarrow> ValExpr \<Rightarrow> ValExpr \<Rightarrow> ValExpr" where
  "key_side plan l r = (if is_eid plan l then r else l)"

definition getHashShardTableIndex :: "local_date \<Rightarrow> plan \<Rightarrow> BoolExpr \<Rightarrow> (indexs \<times> plan) res" where
  "getHashShardTableIndex loc plan expr =
     (let subs = r_SubTableIndexs (p_Rule plan) in
      case expr of
        ComparisonExpr op l r \<Rightarrow>
          if op = ''='' \<or> op = ''<=>'' then
            rbind (getTableIndexByValue loc plan (key_side plan l r)) (\<lambda>index. keep plan [index])
          else if op \<in> {''<'', ''<='', ''>'', ''>='', ''not in''} then keep plan subs
          else if op = ''in'' then getTableIndexsByTuple loc plan r
          else keep plan (p_RouteTableIndexs plan)
      | _ \<Rightarrow> keep plan subs)"

definition getRangeShardTableIndex :: "local_date \<Rightarrow> plan \<Rightarrow> BoolExpr \<Rightarrow> (indexs \<times> plan) res" where
  "getRangeShardTableIndex loc plan expr =
     (let subs = r_SubTableIndexs (p_Rule plan); n = int (length subs) in
      case expr of
        ComparisonExpr op l r \<Rightarrow>
          if op = ''='' \<or> op = ''<=>'' then
            rbind (getTableIndexByValue loc plan (key_side plan l r)) (\<lambda>index. keep plan [index])
          else if op = ''<'' \<or> op = ''<='' then
            (if is_eid plan l then
               rbind (getTableIndexByValue loc plan r) (\<lambda>index.
               rbind (if op = ''<'' then adjustShardIndex plan r index else Inr index) (\<lambda>index.
               rbind (makeList 0 (index + 1)) (keep plan)))
             else
               rbind (getTableIndexByValue loc plan l) (\<lambda>index.
               rbind (makeList index n) (keep plan)))
          else if op = ''>'' \<or> op = ''>='' then
            (if is_eid plan l then
               rbind (getTableIndexByValue loc plan r) (\<lambda>index.
               rbind (makeList index n) (keep plan))
             else
               rbind (getTableIndexByValue loc plan l) (\<lambda>index.
               rbind (if op = ''>'' then adjustShardIndex plan l index else Inr index) (\<lambda>index.
               rbind (makeList 0 (index + 1)) (keep plan))))
          else if op = ''in'' then getTableIndexsByTuple loc plan r
          else if op = ''not in'' then keep plan subs
          else keep plan (p_RouteTableIndexs plan)
      | RangeCond op l from to \<Rightarrow>
          rbind (getTableIndexByValue loc plan from) (\<lambda>start.
          rbind (getTableIndexByValue loc plan to) (\<lambda>last'.
            if op = ''between'' then
              rbind (makeList (min start last') (max start last' + 1)) (keep plan)
            else
              rbind (if last' < start then adjustShardIndex plan to last'
                     else adjustShardIndex plan from start) (\<lambda>s.
              rbind (makeList 0 (s + 1)) (\<lambda>l1.
              rbind (makeList (max start last') n) (\<lambda>l2.
                keep plan (unionList l1 l2))))))
      | _ \<Rightarrow> keep plan subs)"

definition getDateShardTableIndex :: "local_date \<Rightarrow> plan \<Rightarrow> BoolExpr \<Rightarrow> (indexs \<times> plan) res" where
  "getDateShardTableIndex loc plan expr =
     (let subs = r_SubTableIndexs (p_Rule plan) in
      case expr of
        ComparisonExpr op l r \<Rightarrow>
          if op = ''='' \<or> op = ''<=>'' then
            rbind (getTableIndexByValue loc plan (key_side plan l r)) (\<lambda>index. keep plan [index])
          else if op = ''<'' \<or> op = ''<='' then
            (if is_eid plan l then
               rbind (getTableIndexByValue loc plan r) (\<lambda>index. keep plan (makeLeList index subs))
             else
               rbind (getTableIndexByValue loc plan l) (\<lambda>index. keep plan (makeGeList index subs)))
          else if op = ''>'' \<or> op = ''>='' then
            (if is_eid plan l then
               rbind (getTableIndexByValue loc plan r) (\<lambda>index. keep plan (makeGeList index subs))
             else
               rbind (getTableIndexByValue loc plan l) (\<lambda>index. keep plan (makeLeList index subs)))
          else if op = ''in'' then getTableIndexsByTuple loc plan r
          else if op = ''not in'' then
            rbind (getTableIndexsByTuple loc plan r) (\<lambda>(l, plan'). keep plan' (notList plan' l))
          else keep plan (p_RouteTableIndexs plan)
      | RangeCond op l from to \<Rightarrow>
          rbind (getTableIndexByValue loc plan from) (\<lambda>start.
          rbind (getTableIndexByValue loc plan to) (\<lambda>last'.
            let l = makeBetweenList (min start last') (max start last') subs in
            if op = ''between'' then keep plan l else keep plan (notList plan l)))
      | _ \<Rightarrow> keep plan subs)"

definition getTableIndexs :: "local_date \<Rightarrow> plan \<Rightarrow> BoolExpr \<Rightarrow> (indexs \<times> plan) res" where
  "getTableIndexs loc plan expr =
     (let t = r_Type (p_Rule plan) in
      if t = HashRuleType then getHashShardTableIndex loc plan expr
      else if t = RangeRuleType then getRangeShardTableIndex loc plan expr
      else if t \<in> {DateYearRuleType, DateMonthRuleType, DateDayRuleType}
        then getDateShardTableIndex loc plan expr
      else keep plan (r_SubTableIndexs (p_Rule plan)))"

text \<open>\<open>with_expr\<close> adds the rewritten node to the result of \<open>getTableIndexs\<close>.\<close>

definition with_expr :: "BoolExpr \<Rightarrow> (indexs \<times> plan) res \<Rightarrow> (indexs \<times> BoolExpr \<times> plan) res" where
  "with_expr e m = rbind m (\<lambda>(l, p). Inr (l, e, p))"

abbreviation "comparison_ops \<equiv> [''='', ''<'', ''>'', ''<='', ''>='', ''<=>'']"

fun getTableIndexByBoolExpr ::
  "local_date \<Rightarrow> dir list \<Rightarrow> BoolExpr \<Rightarrow> plan \<Rightarrow> (indexs \<times> BoolExpr \<times> plan) res"
where
  "getTableIndexByBoolExpr loc path (AndExpr l r) plan =
     rbind (getTableIndexByBoolExpr loc (path @ [GoLeft]) l plan) (\<lambda>(left, l', plan1).
     rbind (getTableIndexByBoolExpr loc (path @ [GoRight]) r plan1) (\<lambda>(right, r', plan2).
       Inr (interList left right, AndExpr l' r', plan2)))"
| "getTableIndexByBoolExpr loc path (OrExpr l r) plan =
     rbind (getTableIndexByBoolExpr loc (path @ [GoLeft]) l plan) (\<lambda>(left, l', plan1).
     rbind (getTableIndexByBoolExpr loc (path @ [GoRight]) r plan1) (\<lambda>(right, r', plan2).
       Inr (unionList left right, OrExpr l' r', plan2)))"
| "getTableIndexByBoolExpr loc path (ParenBoolExpr e) plan =
     rbind (getTableIndexByBoolExpr loc (path @ [GoIn]) e plan) (\<lambda>(l, e', plan1).
       Inr (l, ParenBoolExpr e', plan1))"
| "getTableIndexByBoolExpr loc path (ComparisonExpr op l r) plan =
     (let subs = r_SubTableIndexs (p_Rule plan) in
      if StringIn op comparison_ops then
        (let (left, l') = getValueType (p_Rule plan) l;
             (right, r') = getValueType (p_Rule plan) r;
             node = ComparisonExpr op l' r'
         in if (left = EID_NODE \<and> right = VALUE_NODE) \<or> (left = VALUE_NODE \<and> right = EID_NODE)
            then with_expr node (getTableIndexs loc plan node)
            else Inr (subs, node, plan))
      else if StringIn op [''in'', ''not in''] then
        (let (left, l') = getValueType (p_Rule plan) l;
             (right, r') = getValueType (p_Rule plan) r;
             node = ComparisonExpr op l' r'
         in if left = EID_NODE \<and> right = LIST_NODE
            then with_expr node
                   (getTableIndexs loc
                     (if to_lower op = ''in'' then plan\<lparr>p_InRightToReplace := Some path\<rparr> else plan) node)
            else Inr (subs, node, plan))
      else Inr (subs, ComparisonExpr op l r, plan))"
| "getTableIndexByBoolExpr loc path (RangeCond op l from to) plan =
     (let subs = r_SubTableIndexs (p_Rule plan);
          (left, l') = getValueType (p_Rule plan) l;
          (kfrom, from') = getValueType (p_Rule plan) from;
          (kto, to') = getValueType (p_Rule plan) to;
          node = RangeCond op l' from' to'
      in if left = EID_NODE \<and> kfrom = VALUE_NODE \<and> kto = VALUE_NODE
         then with_expr node (getTableIndexs loc plan node)
         else Inr (subs, node, plan))"
| "getTableIndexByBoolExpr loc path e plan = Inr (r_SubTableIndexs (p_Rule plan), e, plan)"

section \<open>Rows of an insert\<close>

fun checkValuesType :: "plan \<Rightarrow> tuple list \<Rightarrow> tuple list res" where
  "checkValuesType plan [] = Inr []"
| "checkValuesType plan (TupleVals vs # ts) =
     rbind (at_index vs 0) (\<lambda>v.
     let (k, v') = getValueType (p_Rule plan) v in
     if k \<noteq> VALUE_NODE then Inl (Err ErrInsertTooComplex)
     else rbind (checkValuesType plan ts) (\<lambda>ts'. Inr (TupleVals (v' # tl vs) # ts')))"
| "checkValuesType plan (TupleSubquery s # ts) = Inl (Err ErrInsertTooComplex)"

type_synonym insert_rows = "indexs \<times> (int \<times> tuple list) list"

fun insert_loop :: "local_date \<Rightarrow> plan \<Rightarrow> tuple list \<Rightarrow> insert_rows \<Rightarrow> insert_rows res" where
  "insert_loop loc plan [] acc = Inr acc"
| "insert_loop loc plan (TupleVals vs # ts) (tableIndexs, rows) =
     (if int (length vs) < p_KeyIndex plan + 1 then Inl (Err ErrColsLenNotMatch)
      else
        rbind (at_index vs (p_KeyIndex plan)) (\<lambda>v.
        rbind (getTableIndexByValue loc plan v) (\<lambda>tableIndex.
          insert_loop loc plan ts
            (tableIndexs @ [tableIndex], map_append rows tableIndex (TupleVals vs)))))"
| "insert_loop loc plan (TupleSubquery s # ts) acc = Inl (Panic TypeAssertion)"

definition getInsertTableIndex ::
  "(indexs \<Rightarrow> indexs) \<Rightarrow> local_date \<Rightarrow> plan \<Rightarrow> tuple list \<Rightarrow> (indexs \<times> plan) res"
where
  "getInsertTableIndex mo loc plan vals =
     rbind (insert_loop loc plan vals ([], [])) (\<lambda>(tableIndexs, rows).
       Inr (cleanList mo tableIndexs,
            plan\<lparr>p_Rows := foldl (\<lambda>m (k, v). AList.update k v m) (p_Rows plan) rows\<rparr>))"

fun key_column :: "string \<Rightarrow> int \<Rightarrow> SelectExpr list \<Rightarrow> int res" where
  "key_column k i [] = Inr (- 1)"
| "key_column k i (c # cs) =
     (case c of
        NonStarExpr (ValE (ColName n)) _ \<Rightarrow>
          if to_lower (cn_Name n) = k then Inr i else key_column k (i + 1) cs
      | _ \<Rightarrow> Inl (Panic TypeAssertion))"

definition GetIRKeyIndex :: "plan \<Rightarrow> SelectExpr list \<Rightarrow> plan res" where
  "GetIRKeyIndex plan cols =
     rbind (key_column (r_Key (p_Rule plan)) 0 cols) (\<lambda>i.
       if i = - 1 then Inl (Err ErrIRNoShardingKey) else Inr (plan\<lparr>p_KeyIndex := i\<rparr>))"

section \<open>Routes\<close>

definition TindexsToNindexs :: "(indexs \<Rightarrow> indexs) \<Rightarrow> plan \<Rightarrow> indexs \<Rightarrow> indexs" where
  "TindexsToNindexs mo plan tableIndexs =
     cleanList mo (map (node_of_table (p_Rule plan)) tableIndexs)"

text \<open>The rewritten condition replaces the plan's criteria, which is the statement's own tree.\<close>

definition calRouteIndexs :: "(indexs \<Rightarrow> indexs) \<Rightarrow> local_date \<Rightarrow> plan \<Rightarrow> plan res" where
  "calRouteIndexs mo loc plan =
     (if r_Type (p_Rule plan) = DefaultRuleType then Inr (plan\<lparr>p_RouteNodeIndexs := [0]\<rparr>)
      else
        (case p_Criteria plan of
           None \<Rightarrow> Inl (Err ErrNoCriteria)
         | Some (CritValues vals) \<Rightarrow>
             rbind (getInsertTableIndex mo loc plan vals) (\<lambda>(l, plan').
               Inr (plan'\<lparr>p_RouteTableIndexs := l, p_RouteNodeIndexs := TindexsToNindexs mo plan' l\<rparr>))
         | Some (CritBool e) \<Rightarrow>
             rbind (getTableIndexByBoolExpr loc [] e plan) (\<lambda>(l, e', plan').
               Inr (plan'\<lparr>p_Criteria := Some (CritBool e'), p_RouteTableIndexs := l,
                          p_RouteNodeIndexs := TindexsToNindexs mo plan' l\<rparr>))
         | Some CritOther \<Rightarrow>
             rbind (makeList 0 (int (length (r_Nodes (p_Rule plan))))) (\<lambda>ns.
               Inr (plan\<lparr>p_RouteTableIndexs := r_SubTableIndexs (p_Rule plan),
                         p_RouteNodeIndexs := ns\<rparr>))))"

end
