(* ===== verification/Route_Sound.thy ===== *)
theory Route_Sound
  imports Plan
begin

text \<open>
  Soundness of the routes: the tables that the planner computes for a condition include the
  table of every row that satisfies it.

  \<open>key_cond\<close> is what a condition says about a row whose sharding key is \<open>k\<close>. Conjunction,
  disjunction and parentheses have their meaning; a comparison, an \<open>IN\<close> or a \<open>BETWEEN\<close> of the
  key column with literals compares \<open>k\<close> with their values; every other node (other columns,
  subqueries, \<open>NOT\<close>, \<open>LIKE\<close>, \<open>IS NULL\<close>) is an arbitrary truth value, given by \<open>ev\<close>.
  A column with the name of the sharding key stands for the key of this table, as it does for
  the code, which ignores the qualifiers of other tables.

  The locales state what the proofs need of the values of keys: \<open>le\<close> is their order,
  \<open>lit\<close> the value of a literal, \<open>tab\<close> the table of a key. They are interpreted for the
  integer keys of the range and the hash shard and for the dates of the date shards.
\<close>

section \<open>What a condition says about the key\<close>

abbreviation kind :: "rule \<Rightarrow> ValExpr \<Rightarrow> node_kind" where
  "kind r v \<equiv> fst (getValueType r v)"

definition same_key :: "('k \<Rightarrow> 'k \<Rightarrow> bool) \<Rightarrow> 'k \<Rightarrow> 'k \<Rightarrow> bool" where
  "same_key le a b \<longleftrightarrow> le a b \<and> le b a"

definition cmp_key :: "('k \<Rightarrow> 'k \<Rightarrow> bool) \<Rightarrow> string \<Rightarrow> 'k \<Rightarrow> 'k \<Rightarrow> bool" where
  "cmp_key le op k a =
     (if op = ''<'' then \<not> le a k
      else if op = ''<='' then le k a
      else if op = ''>'' then \<not> le k a
      else if op = ''>='' then le a k
      else same_key le k a)"

definition flip_op :: "string \<Rightarrow> string" where
  "flip_op op =
     (if op = ''<'' then ''>'' else if op = ''<='' then ''>=''
      else if op = ''>'' then ''<'' else if op = ''>='' then ''<='' else op)"

definition tuple_items :: "ValExpr \<Rightarrow> ValExpr list" where
  "tuple_items v = (case v of ValTuple vs \<Rightarrow> vs | _ \<Rightarrow> [])"

definition in_key :: "('k \<Rightarrow> 'k \<Rightarrow> bool) \<Rightarrow> (ValExpr \<Rightarrow> 'k option) \<Rightarrow> 'k \<Rightarrow> ValExpr \<Rightarrow> bool" where
  "in_key le lit k v =
     list_ex (\<lambda>x. case lit x of None \<Rightarrow> False | Some a \<Rightarrow> same_key le k a) (tuple_items v)"

text \<open>The three forms of a condition on the key.\<close>

definition cmp_atom :: "rule \<Rightarrow> string \<Rightarrow> ValExpr \<Rightarrow> ValExpr \<Rightarrow> bool" where
  "cmp_atom r op l x \<longleftrightarrow>
     StringIn op comparison_ops \<and>
     (kind r l = EID_NODE \<and> kind r x = VALUE_NODE \<or> kind r l = VALUE_NODE \<and> kind r x = EID_NODE)"

definition in_atom :: "rule \<Rightarrow> string \<Rightarrow> ValExpr \<Rightarrow> ValExpr \<Rightarrow> bool" where
  "in_atom r op l x \<longleftrightarrow>
     StringIn op [''in'', ''not in''] \<and> kind r l = EID_NODE \<and> kind r x = LIST_NODE"

definition between_atom :: "rule \<Rightarrow> ValExpr \<Rightarrow> ValExpr \<Rightarrow> ValExpr \<Rightarrow> bool" where
  "between_atom r l from to \<longleftrightarrow>
     kind r l = EID_NODE \<and> kind r from = VALUE_NODE \<and> kind r to = VALUE_NODE"

fun key_cond ::
  "rule \<Rightarrow> ('k \<Rightarrow> 'k \<Rightarrow> bool) \<Rightarrow> (ValExpr \<Rightarrow> 'k option) \<Rightarrow> (BoolExpr \<Rightarrow> bool) \<Rightarrow> 'k \<Rightarrow> BoolExpr \<Rightarrow> bool"
where
  "key_cond r le lit ev k (AndExpr l x) = (key_cond r le lit ev k l \<and> key_cond r le lit ev k x)"
| "key_cond r le lit ev k (OrExpr l x) = (key_cond r le lit ev k l \<or> key_cond r le lit ev k x)"
| "key_cond r le lit ev k (ParenBoolExpr e) = key_cond r le lit ev k e"
| "key_cond r le lit ev k (ComparisonExpr op l x) =
     (if cmp_atom r op l x then
        (if kind r l = EID_NODE
         then (case lit x of Some a \<Rightarrow> cmp_key le op k a | None \<Rightarrow> ev (ComparisonExpr op l x))
         else (case lit l of Some a \<Rightarrow> cmp_key le (flip_op op) k a | None \<Rightarrow> ev (ComparisonExpr op l x)))
      else if in_atom r op l x then
        (if op = ''in'' then in_key le lit k x else \<not> in_key le lit k x)
      else ev (ComparisonExpr op l x))"
| "key_cond r le lit ev k (RangeCond op l from to) =
     (if between_atom r l from to then
        (case (lit from, lit to) of
           (Some a, Some b) \<Rightarrow> if op = ''between'' then le a k \<and> le k b else \<not> (le a k \<and> le k b)
         | _ \<Rightarrow> ev (RangeCond op l from to))
      else ev (RangeCond op l from to))"
| "key_cond r le lit ev k e = ev e"

text \<open>
  A property \<open>P\<close> of the atoms of a condition. It carries what a soundness statement requires
  of the literals and operators that occur.
\<close>

fun atoms_ok ::
  "rule \<Rightarrow> (string \<Rightarrow> ValExpr \<Rightarrow> bool) \<Rightarrow> (string \<Rightarrow> ValExpr list \<Rightarrow> bool) \<Rightarrow>
   (string \<Rightarrow> ValExpr \<Rightarrow> ValExpr \<Rightarrow> bool) \<Rightarrow> BoolExpr \<Rightarrow> bool"
where
  "atoms_ok r C I B (AndExpr l x) = (atoms_ok r C I B l \<and> atoms_ok r C I B x)"
| "atoms_ok r C I B (OrExpr l x) = (atoms_ok r C I B l \<and> atoms_ok r C I B x)"
| "atoms_ok r C I B (ParenBoolExpr e) = atoms_ok r C I B e"
| "atoms_ok r C I B (ComparisonExpr op l x) =
     (if cmp_atom r op l x then (if kind r l = EID_NODE then C op x else C (flip_op op) l)
      else if in_atom r op l x then I op (tuple_items x)
      else True)"
| "atoms_ok r C I B (RangeCond op l from to) =
     (if between_atom r l from to then B op from to else True)"
| "atoms_ok r C I B e = True"

section \<open>Stripping qualifiers\<close>

lemma getValueType_strip:
  "kind r (snd (getValueType r v)) = kind r v"
  "fst (tupleType r (snd (tupleType r vs))) = fst (tupleType r vs)"
  by (induction v and vs rule: getValueType_tupleType.induct)
     (auto simp: strip_qualifier_def split: prod.splits if_splits)

lemma getValueType_value: "kind r v = VALUE_NODE \<Longrightarrow> snd (getValueType r v) = v"
  by (cases v) (auto split: prod.splits if_splits)

lemma tupleType_values: "fst (tupleType r vs) \<Longrightarrow> snd (tupleType r vs) = vs"
proof (induction vs)
  case (Cons v vs)
  then show ?case using getValueType_value [of r v] by (auto split: prod.splits if_splits)
qed simp

lemma getValueType_list:
  "kind r v = LIST_NODE \<Longrightarrow> snd (getValueType r v) = v"
proof (cases v)
  case (ValTuple vs)
  moreover assume "kind r v = LIST_NODE"
  ultimately show ?thesis using tupleType_values [of r vs] by (auto split: prod.splits if_splits)
qed (auto split: prod.splits if_splits)

lemma kind_list_tuple: "kind r v = LIST_NODE \<Longrightarrow> v = ValTuple (tuple_items v)"
  by (cases v) (auto simp: tuple_items_def split: prod.splits if_splits)

text \<open>What the planner does with each kind of node, in terms of the atoms.\<close>

lemma route_cmp_atom:
  assumes "cmp_atom r op l x" and "p_Rule plan = r"
  shows "getTableIndexByBoolExpr loc path (ComparisonExpr op l x) plan =
    (let e = ComparisonExpr op (snd (getValueType r l)) (snd (getValueType r x)) in
     with_expr e (getTableIndexs loc plan e))"
  using assms by (auto simp: cmp_atom_def Let_def split: prod.splits)

lemma route_in_atom:
  assumes "in_atom r op l x" and "p_Rule plan = r"
  shows "getTableIndexByBoolExpr loc path (ComparisonExpr op l x) plan =
    (let e = ComparisonExpr op (snd (getValueType r l)) x in
     with_expr e (getTableIndexs loc
       (if op = ''in'' then plan\<lparr>p_InRightToReplace := Some path\<rparr> else plan) e))"
proof -
  have op: "op = ''in'' \<or> op = ''not in''" using assms by (auto simp: in_atom_def StringIn_def)
  obtain l' where l: "getValueType r l = (EID_NODE, l')"
    using assms by (cases "getValueType r l") (simp add: in_atom_def)
  have x: "getValueType r x = (LIST_NODE, x)"
    using assms getValueType_list [of r x] by (cases "getValueType r x") (simp add: in_atom_def)
  have low: "to_lower ''in'' = ''in''" "to_lower ''not in'' \<noteq> ''in''" by code_simp+
  show ?thesis
    using op
  proof
    assume "op = ''in''"
    then show ?thesis using assms(2) by (simp add: l x low StringIn_def)
  next
    assume "op = ''not in''"
    then show ?thesis using assms(2) by (simp add: l x low StringIn_def)
  qed
qed

lemma route_between_atom:
  assumes "between_atom r l from to" and "p_Rule plan = r"
  shows "getTableIndexByBoolExpr loc path (RangeCond op l from to) plan =
    (let e = RangeCond op (snd (getValueType r l)) from to in with_expr e (getTableIndexs loc plan e))"
proof -
  have "snd (getValueType r from) = from" "snd (getValueType r to) = to"
    using assms by (auto simp: between_atom_def intro: getValueType_value)
  then show ?thesis using assms by (auto simp: between_atom_def Let_def split: prod.splits)
qed

lemma route_other_cmp:
  assumes "\<not> cmp_atom r op l x" "\<not> in_atom r op l x" and "p_Rule plan = r"
  shows "\<exists>e. getTableIndexByBoolExpr loc path (ComparisonExpr op l x) plan = Inr (r_SubTableIndexs r, e, plan)"
  using assms by (auto simp: cmp_atom_def in_atom_def Let_def split: prod.splits)

lemma route_other_between:
  assumes "\<not> between_atom r l from to" and "p_Rule plan = r"
  shows "\<exists>e. getTableIndexByBoolExpr loc path (RangeCond op l from to) plan = Inr (r_SubTableIndexs r, e, plan)"
  using assms by (auto simp: between_atom_def Let_def split: prod.splits)

section \<open>From the atoms to the conditions\<close>

fun is_connective :: "BoolExpr \<Rightarrow> bool" where
  "is_connective (AndExpr a b) = True"
| "is_connective (OrExpr a b) = True"
| "is_connective (ParenBoolExpr a) = True"
| "is_connective e = False"

lemma bool_tree_induct [case_names And Or Paren Leaf]:
  fixes e :: BoolExpr
  assumes "\<And>a b. P a \<Longrightarrow> P b \<Longrightarrow> P (AndExpr a b)" and "\<And>a b. P a \<Longrightarrow> P b \<Longrightarrow> P (OrExpr a b)"
    and "\<And>a. P a \<Longrightarrow> P (ParenBoolExpr a)" and "\<And>e. \<not> is_connective e \<Longrightarrow> P e"
  shows "P e"
proof (induction e rule: measure_induct_rule [of size])
  case (less e)
  then show ?case using assms by (cases e rule: is_connective.cases) auto
qed

fun key_atom :: "rule \<Rightarrow> BoolExpr \<Rightarrow> bool" where
  "key_atom r (ComparisonExpr op l x) = (cmp_atom r op l x \<or> in_atom r op l x)"
| "key_atom r (RangeCond op l from to) = between_atom r l from to"
| "key_atom r e = False"

lemma key_atom_cases:
  assumes "key_atom r e"
  obtains (left) op l v where "e = ComparisonExpr op l v" "op \<in> set comparison_ops"
      "kind r l = EID_NODE" "kind r v = VALUE_NODE"
    | (right) op l v where "e = ComparisonExpr op v l" "op \<in> set comparison_ops"
      "kind r l = EID_NODE" "kind r v = VALUE_NODE"
    | (isin) op l vs where "e = ComparisonExpr op l (ValTuple vs)" "op = ''in'' \<or> op = ''not in''"
      "kind r l = EID_NODE" "kind r (ValTuple vs) = LIST_NODE"
    | (between) op l lo hi where "e = RangeCond op l lo hi"
      "kind r l = EID_NODE" "kind r lo = VALUE_NODE" "kind r hi = VALUE_NODE"
proof (cases e)
  case (ComparisonExpr op l x)
  with assms consider "cmp_atom r op l x" | "in_atom r op l x" by auto
  then show ?thesis
  proof cases
    case 1
    then show ?thesis using that(1) [of op l x] that(2) [of op l x] ComparisonExpr
      by (auto simp: cmp_atom_def StringIn_def list_ex_iff)
  next
    case 2
    then show ?thesis using that(3) [of op l "tuple_items x"] ComparisonExpr kind_list_tuple [of r x]
      by (auto simp: in_atom_def StringIn_def list_ex_iff)
  qed
next
  case (RangeCond op l lo hi)
  with assms show ?thesis using that(4) by (auto simp: between_atom_def)
qed (use assms in auto)

text \<open>A literal on the left is the flipped comparison with the literal on the right.\<close>

lemma flip_op_ops: "op \<in> set comparison_ops \<Longrightarrow> flip_op op \<in> set comparison_ops"
  by (auto simp: flip_op_def)

lemma getTableIndexs_flip:
  assumes "op \<in> set comparison_ops" and "kind (p_Rule plan) l = EID_NODE" and "kind (p_Rule plan) v = VALUE_NODE"
  shows "getTableIndexs loc plan (ComparisonExpr op v l) = getTableIndexs loc plan (ComparisonExpr (flip_op op) l v)"
  using assms
  by (auto simp: getTableIndexs_def getHashShardTableIndex_def getRangeShardTableIndex_def
      getDateShardTableIndex_def flip_op_def key_side_def is_eid_def Let_def)

text \<open>
  The contract between a kind of shard and the planner: for the atoms of a condition the
  shard's routine returns an ascending list that contains the table of every row satisfying
  the atom. \<open>ok\<close> says which rules are meant, \<open>valid\<close> which keys a row may have, and
  \<open>mk\<close> gives the form in which an insert presents a key: a row is in the table that the
  shard finds for it. \<open>C\<close>, \<open>I\<close> and \<open>B\<close> are the literals and operators for which the
  contract holds.
\<close>

locale sound_routing =
  fixes loc :: local_date
    and ok :: "rule \<Rightarrow> bool"
    and valid :: "'k \<Rightarrow> bool"
    and mk :: "'k \<Rightarrow> key"
    and le :: "'k \<Rightarrow> 'k \<Rightarrow> bool"
    and lit :: "ValExpr \<Rightarrow> 'k option"
    and C :: "rule \<Rightarrow> string \<Rightarrow> ValExpr \<Rightarrow> bool"
    and I :: "rule \<Rightarrow> string \<Rightarrow> ValExpr list \<Rightarrow> bool"
    and B :: "rule \<Rightarrow> string \<Rightarrow> ValExpr \<Rightarrow> ValExpr \<Rightarrow> bool"
  assumes subs_asc: "ok r \<Longrightarrow> asc (r_SubTableIndexs r)"
    and cmp_asc: "\<lbrakk>ok (p_Rule plan); op \<in> set comparison_ops; kind (p_Rule plan) l = EID_NODE;
      getTableIndexs loc plan (ComparisonExpr op l v) = Inr (idx, plan')\<rbrakk> \<Longrightarrow> asc idx \<and> p_Rule plan' = p_Rule plan"
    and in_asc: "\<lbrakk>ok (p_Rule plan); op = ''in'' \<or> op = ''not in'';
      getTableIndexs loc plan (ComparisonExpr op l (ValTuple vs)) = Inr (idx, plan')\<rbrakk>
      \<Longrightarrow> asc idx \<and> p_Rule plan' = p_Rule plan"
    and between_asc: "\<lbrakk>ok (p_Rule plan); getTableIndexs loc plan (RangeCond op l lo hi) = Inr (idx, plan')\<rbrakk>
      \<Longrightarrow> asc idx \<and> p_Rule plan' = p_Rule plan"
    and cmp_sound: "\<lbrakk>ok (p_Rule plan); op \<in> set comparison_ops; kind (p_Rule plan) l = EID_NODE;
      getTableIndexs loc plan (ComparisonExpr op l v) = Inr (idx, plan'); C (p_Rule plan) op v;
      valid k; FindTableIndex loc (p_Rule plan) (mk k) = Inr t; t \<in> set (r_SubTableIndexs (p_Rule plan));
      case lit v of Some a \<Rightarrow> cmp_key le op k a | None \<Rightarrow> True\<rbrakk> \<Longrightarrow> t \<in> set idx"
    and in_sound: "\<lbrakk>ok (p_Rule plan); op = ''in'' \<or> op = ''not in'';
      getTableIndexs loc plan (ComparisonExpr op l (ValTuple vs)) = Inr (idx, plan'); I (p_Rule plan) op vs;
      valid k; FindTableIndex loc (p_Rule plan) (mk k) = Inr t; t \<in> set (r_SubTableIndexs (p_Rule plan));
      op = ''in'' \<longleftrightarrow> in_key le lit k (ValTuple vs)\<rbrakk> \<Longrightarrow> t \<in> set idx"
    and between_sound: "\<lbrakk>ok (p_Rule plan);
      getTableIndexs loc plan (RangeCond op l lo hi) = Inr (idx, plan'); B (p_Rule plan) op lo hi;
      valid k; FindTableIndex loc (p_Rule plan) (mk k) = Inr t; t \<in> set (r_SubTableIndexs (p_Rule plan));
      case (lit lo, lit hi) of (Some a, Some b) \<Rightarrow> (op = ''between'') = (le a k \<and> le k b) | _ \<Rightarrow> True\<rbrakk>
      \<Longrightarrow> t \<in> set idx"
begin

abbreviation "supported r \<equiv> atoms_ok r (C r) (I r) (B r)"

lemma atom_asc:
  assumes ok: "ok (p_Rule plan)" and at: "key_atom (p_Rule plan) e"
    and g: "getTableIndexs loc plan e = Inr (idx, plan')"
  shows "asc idx \<and> p_Rule plan' = p_Rule plan"
  using at
proof (cases rule: key_atom_cases)
  case (left op l v)
  with cmp_asc [OF ok] g show ?thesis by blast
next
  case (right op l v)
  with g have "getTableIndexs loc plan (ComparisonExpr (flip_op op) l v) = Inr (idx, plan')"
    by (simp add: getTableIndexs_flip)
  with right cmp_asc [OF ok flip_op_ops] show ?thesis by blast
next
  case (isin op l vs)
  with in_asc [OF ok] g show ?thesis by blast
next
  case (between op l lo hi)
  with between_asc [OF ok] g show ?thesis by blast
qed

lemma atom_sound:
  assumes ok: "ok (p_Rule plan)" and at: "key_atom (p_Rule plan) e"
    and g: "getTableIndexs loc plan e = Inr (idx, plan')" and s: "supported (p_Rule plan) e"
    and k: "valid k" "FindTableIndex loc (p_Rule plan) (mk k) = Inr t" "t \<in> set (r_SubTableIndexs (p_Rule plan))"
    and c: "key_cond (p_Rule plan) le lit ev k e"
  shows "t \<in> set idx"
  using at
proof (cases rule: key_atom_cases)
  case (left op l v)
  then have a: "cmp_atom (p_Rule plan) op l v" by (auto simp: cmp_atom_def StringIn_def)
  from cmp_sound [OF ok left(2,3) g [unfolded left(1)] _ k] s c a left show ?thesis
    by (auto split: option.splits)
next
  case (right op l v)
  then have a: "cmp_atom (p_Rule plan) op v l" by (auto simp: cmp_atom_def StringIn_def)
  have "getTableIndexs loc plan (ComparisonExpr (flip_op op) l v) = Inr (idx, plan')"
    using g right by (simp add: getTableIndexs_flip)
  from cmp_sound [OF ok flip_op_ops [OF right(2)] right(3) this _ k] s c a right show ?thesis
    by (auto split: option.splits)
next
  case (isin op l vs)
  then have a: "in_atom (p_Rule plan) op l (ValTuple vs)" "\<not> cmp_atom (p_Rule plan) op l (ValTuple vs)"
    by (auto simp: cmp_atom_def in_atom_def StringIn_def)
  from in_sound [OF ok isin(2) g [unfolded isin(1)] _ k] s c a isin show ?thesis
    by (auto simp: tuple_items_def split: if_splits)
next
  case (between op l lo hi)
  then have a: "between_atom (p_Rule plan) l lo hi" by (simp add: between_atom_def)
  from between_sound [OF ok g [unfolded between(1)] _ k] s c a between show ?thesis
    by (auto split: option.splits if_splits)
qed

text \<open>The atom that reaches the shard has its qualifiers stripped; nothing else changes.\<close>

lemma atom_node:
  assumes "key_atom r e" and "p_Rule plan = r"
    and "getTableIndexByBoolExpr loc path e plan = Inr (idx, e', plan')"
  obtains plan1 plan2 where "p_Rule plan1 = r" "p_Rule plan' = p_Rule plan2" "key_atom r e'"
    "getTableIndexs loc plan1 e' = Inr (idx, plan2)"
    "supported r e' = supported r e"
    "\<And>ev k. key_cond r le lit ev k e = key_cond r le lit (\<lambda>_. ev e) k e'"
proof (cases e)
  case (ComparisonExpr op l x)
  let ?l = "snd (getValueType r l)" and ?x = "snd (getValueType r x)"
  let ?p = "if in_atom r op l x \<and> op = ''in'' then plan\<lparr>p_InRightToReplace := Some path\<rparr> else plan"
  have kinds: "kind r ?l = kind r l" "kind r ?x = kind r x" by (simp_all add: getValueType_strip)
  have atoms: "cmp_atom r op ?l ?x = cmp_atom r op l x" "in_atom r op ?l ?x = in_atom r op l x"
    by (simp_all add: cmp_atom_def in_atom_def kinds)
  have excl: "\<not> (cmp_atom r op l x \<and> in_atom r op l x)"
    by (auto simp: cmp_atom_def in_atom_def StringIn_def)
  have vals: "kind r l = VALUE_NODE \<Longrightarrow> ?l = l" "kind r x = VALUE_NODE \<or> kind r x = LIST_NODE \<Longrightarrow> ?x = x"
    by (auto intro: getValueType_value getValueType_list)
  have a: "cmp_atom r op l x \<or> in_atom r op l x" using assms(1) ComparisonExpr by simp
  have "getTableIndexByBoolExpr loc path e plan =
      with_expr (ComparisonExpr op ?l ?x) (getTableIndexs loc ?p (ComparisonExpr op ?l ?x))"
    using a
  proof
    assume c: "cmp_atom r op l x"
    with excl have "?p = plan" by simp
    with c show ?thesis using route_cmp_atom [OF c assms(2)] by (simp only: ComparisonExpr Let_def)
  next
    assume i: "in_atom r op l x"
    then have "?x = x" using vals(2) by (simp add: in_atom_def)
    with i show ?thesis using route_in_atom [OF i assms(2)] by (simp only: ComparisonExpr Let_def simp_thms)
  qed
  with assms(3) obtain plan2 where "e' = ComparisonExpr op ?l ?x" "plan' = plan2"
    "getTableIndexs loc ?p (ComparisonExpr op ?l ?x) = Inr (idx, plan2)"
    by (auto simp: with_expr_def rbind_eq_Inr_iff)
  moreover have "supported r (ComparisonExpr op ?l ?x) = supported r e"
    using vals by (auto simp: ComparisonExpr atoms kinds cmp_atom_def in_atom_def)
  moreover have "key_cond r le lit ev k e = key_cond r le lit (\<lambda>_. ev e) k (ComparisonExpr op ?l ?x)" for ev k
    using a vals by (auto simp: ComparisonExpr atoms kinds cmp_atom_def in_atom_def split: option.splits)
  ultimately show ?thesis using a atoms assms(2) by (intro that [of ?p plan2]) auto
next
  case (RangeCond op l lo hi)
  let ?e = "RangeCond op (snd (getValueType r l)) lo hi"
  have a: "between_atom r l lo hi" using assms(1) RangeCond by simp
  then have a': "between_atom r (snd (getValueType r l)) lo hi"
    by (simp add: between_atom_def getValueType_strip)
  have "getTableIndexByBoolExpr loc path e plan = with_expr ?e (getTableIndexs loc plan ?e)"
    using route_between_atom [OF a assms(2)] by (simp add: RangeCond Let_def)
  with assms(3) have "e' = ?e" "getTableIndexs loc plan ?e = Inr (idx, plan')"
    by (auto simp: with_expr_def rbind_eq_Inr_iff)
  then show ?thesis using a a' assms(2)
    by (intro that [of plan plan']) (auto simp: RangeCond split: option.splits)
qed (use assms(1) in auto)

lemma non_atom:
  assumes "\<not> is_connective e" and "\<not> key_atom r e" and "p_Rule plan = r"
  shows "\<exists>e'. getTableIndexByBoolExpr loc path e plan = Inr (r_SubTableIndexs r, e', plan)"
  using assms route_other_cmp [of r] route_other_between [of r] by (cases e) auto

lemma route_asc:
  assumes "getTableIndexByBoolExpr loc path e plan = Inr (idx, e', plan')" and "ok r" and "p_Rule plan = r"
  shows "asc idx \<and> p_Rule plan' = r"
  using assms(1,3)
proof (induction e arbitrary: path plan idx e' plan' rule: bool_tree_induct)
  case (Leaf e)
  show ?case
  proof (cases "key_atom r e")
    case True
    from True Leaf.prems(2,1) obtain plan1 plan2 where "p_Rule plan1 = r" "p_Rule plan' = p_Rule plan2"
      "key_atom r e'" "getTableIndexs loc plan1 e' = Inr (idx, plan2)"
      by (rule atom_node)
    with assms(2) show ?thesis using atom_asc [of plan1 e' idx plan2] by simp
  next
    case False
    with non_atom [OF Leaf.hyps False Leaf.prems(2), of path] Leaf.prems assms(2) show ?thesis
      by (auto simp: subs_asc)
  qed
next
  case (And a b)
  from And.prems(1) obtain la a' p1 lb b' p2 where
    a: "getTableIndexByBoolExpr loc (path @ [GoLeft]) a plan = Inr (la, a', p1)" and
    b: "getTableIndexByBoolExpr loc (path @ [GoRight]) b p1 = Inr (lb, b', p2)" and
    r: "idx = interList la lb" "plan' = p2"
    by (auto simp: rbind_eq_Inr_iff)
  from And.IH(1) [OF a And.prems(2)] have la: "asc la" "p_Rule p1 = r" by auto
  with And.IH(2) [OF b] show ?case by (simp add: r il.asc_inter)
next
  case (Or a b)
  from Or.prems(1) obtain la a' p1 lb b' p2 where
    a: "getTableIndexByBoolExpr loc (path @ [GoLeft]) a plan = Inr (la, a', p1)" and
    b: "getTableIndexByBoolExpr loc (path @ [GoRight]) b p1 = Inr (lb, b', p2)" and
    r: "idx = unionList la lb" "plan' = p2"
    by (auto simp: rbind_eq_Inr_iff)
  from Or.IH(1) [OF a Or.prems(2)] have la: "asc la" "p_Rule p1 = r" by auto
  with Or.IH(2) [OF b] show ?case by (simp add: r il.asc_uni)
next
  case (Paren a)
  then show ?case by (auto simp: rbind_eq_Inr_iff)
qed

theorem route_sound:
  assumes "getTableIndexByBoolExpr loc path e plan = Inr (idx, e', plan')" and "ok r" and "p_Rule plan = r"
    and "supported r e" and "valid k" and t: "FindTableIndex loc r (mk k) = Inr t" "t \<in> set (r_SubTableIndexs r)"
    and "key_cond r le lit ev k e"
  shows "t \<in> set idx"
  using assms(1,3,4,8)
proof (induction e arbitrary: path plan idx e' plan' rule: bool_tree_induct)
  case (Leaf e)
  show ?case
  proof (cases "key_atom r e")
    case True
    from True Leaf.prems(2,1) obtain plan1 plan2 where p1: "p_Rule plan1 = r" and at: "key_atom r e'"
      and g: "getTableIndexs loc plan1 e' = Inr (idx, plan2)" and s: "supported r e' = supported r e"
      and c: "\<And>ev k. key_cond r le lit ev k e = key_cond r le lit (\<lambda>_. ev e) k e'"
      by (rule atom_node) blast
    show ?thesis
      using atom_sound [of plan1 e' idx plan2 k t "\<lambda>_. ev e"] assms(2,5) t p1 at g s c Leaf.prems by simp
  next
    case False
    with non_atom [OF Leaf.hyps False Leaf.prems(2), of path] Leaf.prems t show ?thesis by auto
  qed
next
  case (And a b)
  from And.prems(1) obtain la a' p1 lb b' p2 where
    a: "getTableIndexByBoolExpr loc (path @ [GoLeft]) a plan = Inr (la, a', p1)" and
    b: "getTableIndexByBoolExpr loc (path @ [GoRight]) b p1 = Inr (lb, b', p2)" and
    r: "idx = interList la lb"
    by (auto simp: rbind_eq_Inr_iff)
  have la: "asc la" "p_Rule p1 = r" using route_asc [OF a assms(2) And.prems(2)] by auto
  have lb: "asc lb" using route_asc [OF b assms(2) la(2)] by auto
  have "t \<in> set la" "t \<in> set lb" using And.IH(1) [OF a And.prems(2)] And.IH(2) [OF b la(2)] And.prems by auto
  with la lb show ?case by (simp add: r il.set_inter)
next
  case (Or a b)
  from Or.prems(1) obtain la a' p1 lb b' p2 where
    a: "getTableIndexByBoolExpr loc (path @ [GoLeft]) a plan = Inr (la, a', p1)" and
    b: "getTableIndexByBoolExpr loc (path @ [GoRight]) b p1 = Inr (lb, b', p2)" and
    r: "idx = unionList la lb"
    by (auto simp: rbind_eq_Inr_iff)
  have la: "asc la" "p_Rule p1 = r" using route_asc [OF a assms(2) Or.prems(2)] by auto
  have lb: "asc lb" using route_asc [OF b assms(2) la(2)] by auto
  have "t \<in> set la \<or> t \<in> set lb" using Or.IH(1) [OF a Or.prems(2)] Or.IH(2) [OF b la(2)] Or.prems by auto
  with la lb show ?case by (simp add: r il.set_uni)
next
  case (Paren a)
  then show ?case by (auto simp: rbind_eq_Inr_iff)
qed

end

section \<open>Lists of values\<close>

lemma tuple_groups_keys:
  assumes "tuple_groups loc plan ns s = Inr s'" and "distinct (map fst s)"
  shows "distinct (map fst s')"
    and "fst ` set s' = fst ` set s \<union> {t. \<exists>v \<in> set ns. getTableIndexByValue loc plan v = Inr t}"
    and "\<forall>v \<in> set ns. \<exists>t. getTableIndexByValue loc plan v = Inr t"
    and "map_list s' t = map_list s t @ filter (\<lambda>v. getTableIndexByValue loc plan v = Inr t) ns"
  using assms
proof (induction ns arbitrary: s)
  case (Cons n ns)
  {
    case 1
    then show ?case by (auto simp: rbind_eq_Inr_iff distinct_map_append dest: Cons.IH(1))
  next
    case 2
    then obtain t where t: "getTableIndexByValue loc plan n = Inr t"
      and s1: "tuple_groups loc plan ns (map_append s t n) = Inr s'"
      by (auto simp: rbind_eq_Inr_iff)
    have "distinct (map fst (map_append s t n))" using 2 by (simp add: distinct_map_append)
    from Cons.IH(2) [OF s1 this] show ?case using t by (auto simp: keys_map_append)
  next
    case 3
    then show ?case by (auto simp: rbind_eq_Inr_iff distinct_map_append dest!: Cons.IH(3))
  next
    case 4
    then obtain u where u: "getTableIndexByValue loc plan n = Inr u"
      and s1: "tuple_groups loc plan ns (map_append s u n) = Inr s'"
      by (auto simp: rbind_eq_Inr_iff)
    have "distinct (map fst (map_append s u n))" using 4 by (simp add: distinct_map_append)
    from Cons.IH(4) [OF s1 this] show ?case using u by (simp add: map_list_append)
  }
qed auto

lemma byTuple:
  assumes "getTableIndexsByTuple loc plan (ValTuple ns) = Inr (idx, plan')"
  shows "asc idx" and "p_Rule plan' = p_Rule plan"
    and "v \<in> set ns \<Longrightarrow> \<exists>t \<in> set idx. getTableIndexByValue loc plan v = Inr t"
    and "t \<in> set idx \<Longrightarrow> \<exists>v \<in> set ns. getTableIndexByValue loc plan v = Inr t"
proof -
  from assms obtain s where s: "tuple_groups loc plan ns [] = Inr s" and i: "idx = sort (map fst s)"
    and p: "plan' = plan\<lparr>p_SubTableValueGroups := s\<rparr>"
    by (auto simp: getTableIndexsByTuple_def rbind_eq_Inr_iff)
  note k = tuple_groups_keys [OF s]
  show "asc idx" using k(1) by (simp add: i strict_sorted_iff)
  show "p_Rule plan' = p_Rule plan" by (simp add: p)
  show "v \<in> set ns \<Longrightarrow> \<exists>t \<in> set idx. getTableIndexByValue loc plan v = Inr t"
    using k(2,3) by (force simp: i)
  show "t \<in> set idx \<Longrightarrow> \<exists>v \<in> set ns. getTableIndexByValue loc plan v = Inr t"
    using k(2) by (force simp: i)
qed

section \<open>Hash rules\<close>

fun hash_lit :: "ValExpr \<Rightarrow> int option" where
  "hash_lit v =
     (case getBoundValue v of
        Inr (KInt64 a) \<Rightarrow> Some a
      | Inr (KStr s) \<Rightarrow> (case ParseUint10 s of Inr u \<Rightarrow> Some u | Inl _ \<Rightarrow> None)
      | _ \<Rightarrow> None)"

definition hash_ok :: "rule \<Rightarrow> bool" where
  "hash_ok r \<longleftrightarrow> r_Type r = HashRuleType \<and> asc (r_SubTableIndexs r)
     \<and> (case r_Shard r of HashShard n \<Rightarrow> 0 < n \<and> n \<le> MaxInt64 | _ \<Rightarrow> False)"

declare hash_lit.simps [simp del]

lemma getBoundValue_kinds:
  "getBoundValue v = Inr k \<Longrightarrow> (\<exists>a. k = KInt64 a) \<or> (\<exists>s. k = KStr s)"
  by (induction v rule: getBoundValue.induct) (auto split: sum.splits)

text \<open>A literal and an inserted key with the same value go to the same table.\<close>

lemma hash_lit_table:
  assumes "hash_lit v = Some a" and "hash_ok (p_Rule plan)"
  shows "getTableIndexByValue loc plan v = FindTableIndex loc (p_Rule plan) (KInt64 a)"
proof -
  have range: "0 \<le> u \<Longrightarrow> u \<le> MaxUint64 \<Longrightarrow> to_uint64 u = u" for u by simp
  obtain k where k: "getBoundValue v = Inr k"
    using assms(1) by (cases "getBoundValue v") (auto simp: hash_lit.simps)
  with getBoundValue_kinds consider (int) b where "k = KInt64 b" | (str) s where "k = KStr s" by blast
  then have "HashValue k = HashValue (KInt64 a)"
  proof cases
    case int
    then show ?thesis using assms(1) k by (simp add: hash_lit.simps)
  next
    case str
    then have "ParseUint10 s = Inr a" using assms(1) k by (auto simp: hash_lit.simps split: sum.splits)
    with ParseUint10_range [OF this] show ?thesis by (simp add: str HashValue_def range)
  qed
  moreover obtain n where "r_Shard (p_Rule plan) = HashShard n"
    using assms(2) by (auto simp: hash_ok_def split: shard.splits)
  ultimately show ?thesis
    using k by (simp add: getTableIndexByValue_def FindTableIndex_def HashShard_FindForKey_def)
qed

abbreviation "hash_C \<equiv> \<lambda>(r :: rule) op v. hash_lit v \<noteq> None"
abbreviation "hash_I \<equiv> \<lambda>(r :: rule) (op :: string) vs. list_all (\<lambda>v. hash_lit v \<noteq> None) vs"
abbreviation "hash_B \<equiv> \<lambda>(r :: rule) (op :: string) (from :: ValExpr) (to :: ValExpr). True"

lemma hash_getTableIndexs:
  "hash_ok (p_Rule plan) \<Longrightarrow> getTableIndexs loc plan e = getHashShardTableIndex loc plan e"
  by (simp add: getTableIndexs_def hash_ok_def)

lemma hash_subs_asc:
  assumes "hash_ok r"
  shows "asc (r_SubTableIndexs r)"
proof -
  from assms show ?thesis by (simp add: hash_ok_def)
qed

lemma hash_cmp_asc:
  assumes ok: "hash_ok (p_Rule plan)" and op: "op \<in> set comparison_ops"
    and g: "getTableIndexs loc plan (ComparisonExpr op l v) = Inr (idx, plan')"
  shows "asc idx \<and> p_Rule plan' = p_Rule plan"
proof -
  from assms show ?thesis
    by (auto simp: hash_getTableIndexs getHashShardTableIndex_def keep_def rbind_eq_Inr_iff hash_ok_def)
qed

lemma hash_in_asc:
  assumes ok: "hash_ok (p_Rule plan)" and op: "op = ''in'' \<or> op = ''not in''"
    and g: "getTableIndexs loc plan (ComparisonExpr op l (ValTuple vs)) = Inr (idx, plan')"
  shows "asc idx \<and> p_Rule plan' = p_Rule plan"
proof -
  from assms show ?thesis
    by (auto simp: hash_getTableIndexs getHashShardTableIndex_def keep_def hash_ok_def dest: byTuple)
qed

lemma hash_between_asc:
  assumes ok: "hash_ok (p_Rule plan)" and g: "getTableIndexs loc plan (RangeCond op l lo hi) = Inr (idx, plan')"
  shows "asc idx \<and> p_Rule plan' = p_Rule plan"
proof -
  from assms show ?thesis
    by (auto simp: hash_getTableIndexs getHashShardTableIndex_def keep_def hash_ok_def)
qed

lemma hash_cmp_reaches:
  fixes k t :: int
  assumes ok: "hash_ok (p_Rule plan)" and op: "op \<in> set comparison_ops"
    and eid: "kind (p_Rule plan) l = EID_NODE"
    and g: "getTableIndexs loc plan (ComparisonExpr op l v) = Inr (idx, plan')" and C: "hash_lit v \<noteq> None"
    and t: "FindTableIndex loc (p_Rule plan) (KInt64 k) = Inr t" "t \<in> set (r_SubTableIndexs (p_Rule plan))"
    and c: "case hash_lit v of Some a \<Rightarrow> cmp_key (\<le>) op k a | None \<Rightarrow> True"
  shows "t \<in> set idx"
proof -
  from C obtain a where a: "hash_lit v = Some a" by blast
  then show ?thesis
    using op g t c eid hash_lit_table [OF a ok, of loc]
    by (auto simp: hash_getTableIndexs [OF ok] getHashShardTableIndex_def keep_def rbind_eq_Inr_iff
        cmp_key_def same_key_def key_side_def is_eid_def)
qed

lemma hash_in_reaches:
  fixes k t :: int
  assumes ok: "hash_ok (p_Rule plan)" and op: "op = ''in'' \<or> op = ''not in''"
    and g: "getTableIndexs loc plan (ComparisonExpr op l (ValTuple vs)) = Inr (idx, plan')"
    and t: "FindTableIndex loc (p_Rule plan) (KInt64 k) = Inr t" "t \<in> set (r_SubTableIndexs (p_Rule plan))"
    and c: "(op = ''in'') = in_key (\<le>) hash_lit k (ValTuple vs)"
  shows "t \<in> set idx"
proof -
  show ?thesis
    using op
  proof
    assume i: "op = ''in''"
    with c obtain v where v: "v \<in> set vs" "hash_lit v = Some k"
      by (auto simp: in_key_def tuple_items_def list_ex_iff same_key_def split: option.splits)
    from g i ok have "getTableIndexsByTuple loc plan (ValTuple vs) = Inr (idx, plan')"
      by (simp add: hash_getTableIndexs getHashShardTableIndex_def)
    from byTuple(3) [OF this v(1)] show ?thesis
      using hash_lit_table [OF v(2) ok, of loc] t by auto
  next
    assume "op = ''not in''"
    with g ok t show ?thesis by (auto simp: hash_getTableIndexs getHashShardTableIndex_def keep_def)
  qed
qed

lemma hash_between_reaches:
  fixes k t :: int
  assumes ok: "hash_ok (p_Rule plan)" and g: "getTableIndexs loc plan (RangeCond op l lo hi) = Inr (idx, plan')"
    and t: "t \<in> set (r_SubTableIndexs (p_Rule plan))"
  shows "t \<in> set idx"
proof -
  from assms show ?thesis by (auto simp: hash_getTableIndexs getHashShardTableIndex_def keep_def)
qed

lemmas hash_laws = hash_subs_asc hash_cmp_asc hash_in_asc hash_between_asc hash_cmp_reaches hash_in_reaches hash_between_reaches

interpretation hash_routing: sound_routing loc hash_ok "\<lambda>_. True" KInt64 "(\<le>)" hash_lit hash_C hash_I hash_B
  for loc
  by unfold_locales (rule hash_laws; assumption)+

section \<open>Range rules\<close>

abbreviation num_ranges :: "int \<Rightarrow> int \<Rightarrow> numkeyrange list" where
  "num_ranges n L \<equiv> map (\<lambda>i. \<lparr>kr_Start = i * L, kr_End = (i + 1) * L\<rparr>) [0..n - 1]"

definition range_rule :: "int \<Rightarrow> int \<Rightarrow> rule \<Rightarrow> bool" where
  "range_rule n L r \<longleftrightarrow>
     r_Type r = RangeRuleType \<and> 0 < L \<and> 0 \<le> n \<and> n * L < MaxInt64
     \<and> r_SubTableIndexs r = [0..n - 1] \<and> r_Shard r = NumRangeShard (num_ranges n L)"

definition range_ok :: "rule \<Rightarrow> bool" where
  "range_ok r \<longleftrightarrow> (\<exists>n L. range_rule n L r)"

definition range_lit :: "ValExpr \<Rightarrow> int option" where
  "range_lit v =
     (case rbind (getBoundValue v) NumValue of Inr a \<Rightarrow> Some a | Inl _ \<Rightarrow> None)"

lemma range_value:
  assumes "range_rule n L (p_Rule plan)" and "getTableIndexByValue loc plan v = Inr t"
  shows "\<exists>a. range_lit v = Some a \<and> 0 \<le> a \<and> a < n * L \<and> t = a div L"
proof -
  have r: "0 < L" "0 \<le> n" "n * L < MaxInt64" "r_Shard (p_Rule plan) = NumRangeShard (num_ranges n L)"
    using assms(1) by (auto simp: range_rule_def)
  from assms(2) obtain k a where k: "getBoundValue v = Inr k" "NumValue k = Inr a"
    "range_loop 0 (num_ranges n L) a = Inr t"
    by (auto simp: getTableIndexByValue_def FindTableIndex_def r NumRangeShard_FindForKey_def rbind_eq_Inr_iff)
  with range_shard_div [OF r(1-3), of a] show ?thesis by (auto simp: range_lit_def split: if_splits)
qed

lemma range_key:
  assumes "range_rule n L r" and "FindTableIndex loc r (KInt64 k) = Inr t"
  shows "0 \<le> k \<and> k < n * L \<and> t = k div L"
proof -
  have r: "0 < L" "0 \<le> n" "n * L < MaxInt64" "r_Shard r = NumRangeShard (num_ranges n L)"
    using assms(1) by (auto simp: range_rule_def)
  with assms(2) range_shard_div [OF r(1-3), of k] show ?thesis
    by (auto simp: FindTableIndex_def NumRangeShard_FindForKey_def NumValue_def split: if_splits)
qed

text \<open>Below the first key of a table, the last table with smaller keys is the one before it.\<close>

lemma range_adjust:
  assumes "range_rule n L (p_Rule plan)" and "adjustShardIndex plan v (a div L) = Inr s"
    and "range_lit v = Some a" and "0 \<le> a" "a < n * L"
  shows "s = (if a = a div L * L then a div L - 1 else a div L) \<and> 0 \<le> s"
proof -
  have L: "0 < L" and sh: "r_Shard (p_Rule plan) = NumRangeShard (num_ranges n L)"
    using assms(1) by (auto simp: range_rule_def)
  have q: "0 \<le> a div L" "a div L < n" using assms L by (auto simp: pos_imp_zdiv_nonneg_iff quotient_less)
  then have "at_index (num_ranges n L) (a div L) = Inr \<lparr>kr_Start = a div L * L, kr_End = (a div L + 1) * L\<rparr>"
    by (simp add: at_index_def)
  moreover obtain key where "getBoundValue v = Inr key" "NumValue key = Inr a"
    using assms(3) by (auto simp: range_lit_def rbind_eq_Inr_iff split: sum.splits)
  ultimately show ?thesis using assms(2) q
    by (auto simp: adjustShardIndex_def sh EqualStart_def split: if_splits)
qed

lemma below_boundary: "0 < L \<Longrightarrow> k < a \<Longrightarrow> k div L \<le> (if a = a div L * L then a div L - 1 else a div L)" for k a L :: int
proof (cases "a = a div L * L")
  case True
  moreover assume "0 < L" "k < a"
  ultimately have "k div L < a div L" by (simp add: quotient_less)
  with True show ?thesis by simp
next
  case False
  moreover assume "0 < L" "k < a"
  ultimately show ?thesis by (simp add: zdiv_mono1)
qed

abbreviation "range_C \<equiv> \<lambda>(r :: rule) (op :: string) (v :: ValExpr). True"
abbreviation "range_I \<equiv> \<lambda>(r :: rule) (op :: string) (vs :: ValExpr list). True"

definition range_B :: "rule \<Rightarrow> string \<Rightarrow> ValExpr \<Rightarrow> ValExpr \<Rightarrow> bool" where
  "range_B r op lo hi \<longleftrightarrow>
     op = ''between'' \<or> (case (range_lit lo, range_lit hi) of (Some a, Some b) \<Rightarrow> a \<le> b | _ \<Rightarrow> True)"

lemma range_getTableIndexs:
  "range_rule n L (p_Rule plan) \<Longrightarrow> getTableIndexs loc plan e = getRangeShardTableIndex loc plan e"
  by (simp add: getTableIndexs_def range_rule_def)

lemma range_cmp_sound:
  assumes r: "range_rule n L (p_Rule plan)" and op: "op \<in> set comparison_ops"
    and eid: "kind (p_Rule plan) l = EID_NODE"
    and g: "getRangeShardTableIndex loc plan (ComparisonExpr op l v) = Inr (idx, plan')"
    and t: "FindTableIndex loc (p_Rule plan) (KInt64 k) = Inr t"
    and c: "case range_lit v of Some a \<Rightarrow> cmp_key (\<le>) op k a | None \<Rightarrow> True"
  shows "t \<in> set idx"
proof -
  have L: "0 < L" and subs: "r_SubTableIndexs (p_Rule plan) = [0..n - 1]" and n: "0 \<le> n"
    using r by (auto simp: range_rule_def)
  obtain i where i: "getTableIndexByValue loc plan v = Inr i"
    using op g eid
    by (auto simp: getRangeShardTableIndex_def rbind_eq_Inr_iff key_side_def is_eid_def)
  with range_value [OF r i] obtain a where a: "range_lit v = Some a" "0 \<le> a" "a < n * L" "i = a div L" by blast
  have k: "0 \<le> k" "k < n * L" "t = k div L" using range_key [OF r t] by auto
  have tn: "0 \<le> t" "t < n" using k L by (auto simp: pos_imp_zdiv_nonneg_iff quotient_less)
  have adj: "t \<le> s" if "adjustShardIndex plan v i = Inr s" "k < a" for s
    using range_adjust [OF r, of v a s] that a below_boundary [OF L, of k a] k by auto
  have mono: "x \<le> y \<Longrightarrow> x div L \<le> y div L" for x y using L by (rule zdiv_mono1 [rotated])
  have e: "is_eid plan l" using eid by (simp add: is_eid_def)
  from c a(1) have c': "cmp_key (\<le>) op k a" by simp
  from op consider (eq) "op = ''='' \<or> op = ''<=>''" | (lt) "op = ''<''" | (le) "op = ''<=''"
    | (gt) "op = ''>'' \<or> op = ''>=''" by auto
  then show ?thesis
  proof cases
    case eq
    then have "idx = [i]" using g i e by (auto simp: getRangeShardTableIndex_def key_side_def keep_def)
    moreover have "k = a" using eq c' by (auto simp: cmp_key_def same_key_def)
    ultimately show ?thesis using a(4) k(3) by simp
  next
    case lt
    then have "k < a" using c' by (simp add: cmp_key_def)
    moreover obtain s where s: "adjustShardIndex plan v i = Inr s" and m: "makeList 0 (s + 1) = Inr idx"
      using lt g i e by (auto simp: getRangeShardTableIndex_def keep_def rbind_eq_Inr_iff)
    ultimately show ?thesis using adj [OF s] tn makeList_InrD [OF m] by simp
  next
    case le
    then have "t \<le> i" using c' mono [of k a] a(4) k(3) by (simp add: cmp_key_def)
    moreover have m: "makeList 0 (i + 1) = Inr idx"
      using le g i e by (auto simp: getRangeShardTableIndex_def keep_def rbind_eq_Inr_iff)
    ultimately show ?thesis using tn makeList_InrD [OF m] by simp
  next
    case gt
    then have "i \<le> t" using c' mono [of a k] a(4) k(3) by (auto simp: cmp_key_def)
    moreover have m: "makeList i n = Inr idx"
      using gt g i e n by (auto simp: getRangeShardTableIndex_def keep_def rbind_eq_Inr_iff subs)
    ultimately show ?thesis using tn makeList_InrD [OF m] by simp
  qed
qed

lemma range_between_sound:
  assumes r: "range_rule n L (p_Rule plan)"
    and g: "getRangeShardTableIndex loc plan (RangeCond op l lo hi) = Inr (idx, plan')"
    and b: "range_B (p_Rule plan) op lo hi"
    and t: "FindTableIndex loc (p_Rule plan) (KInt64 k) = Inr t"
    and c: "case (range_lit lo, range_lit hi) of (Some a, Some b) \<Rightarrow> (op = ''between'') = (a \<le> k \<and> k \<le> b) | _ \<Rightarrow> True"
  shows "t \<in> set idx"
proof -
  have L: "0 < L" and subs: "r_SubTableIndexs (p_Rule plan) = [0..n - 1]" and n: "0 \<le> n"
    using r by (auto simp: range_rule_def)
  obtain i j where i: "getTableIndexByValue loc plan lo = Inr i" and j: "getTableIndexByValue loc plan hi = Inr j"
    using g by (auto simp: getRangeShardTableIndex_def rbind_eq_Inr_iff Let_def)
  with range_value [OF r i] range_value [OF r j] obtain a b' where
    a: "range_lit lo = Some a" "0 \<le> a" "a < n * L" "i = a div L" and
    b': "range_lit hi = Some b'" "0 \<le> b'" "b' < n * L" "j = b' div L" by blast
  have k: "0 \<le> k" "k < n * L" "t = k div L" using range_key [OF r t] by auto
  have tn: "0 \<le> t" "t < n" using k L by (auto simp: pos_imp_zdiv_nonneg_iff quotient_less)
  have adj: "t \<le> s" if "adjustShardIndex plan lo i = Inr s" "k < a" for s
    using range_adjust [OF r, of lo a s] that a below_boundary [OF L, of k a] k by auto
  have mono: "x \<le> y \<Longrightarrow> x div L \<le> y div L" for x y using L by (rule zdiv_mono1 [rotated])
  show ?thesis
  proof (cases "op = ''between''")
    case True
    with c a b' have "a \<le> k" "k \<le> b'" by auto
    then have "i \<le> t" "t \<le> j" using a b' k mono by auto
    moreover have m: "makeList (min i j) (max i j + 1) = Inr idx"
      using True g i j by (auto simp: getRangeShardTableIndex_def rbind_eq_Inr_iff keep_def Let_def)
    ultimately show ?thesis using makeList_InrD [OF m] by simp
  next
    case False
    with b a b' have ab: "a \<le> b'" by (simp add: range_B_def)
    then have ij: "i \<le> j" using a b' mono by auto
    from False g i j ij obtain s l1 l2 where s: "adjustShardIndex plan lo i = Inr s"
      and l1: "makeList 0 (s + 1) = Inr l1" and l2: "makeList j n = Inr l2" and idx: "idx = unionList l1 l2"
      using n by (auto simp: getRangeShardTableIndex_def rbind_eq_Inr_iff keep_def Let_def subs max_def)
    note m1 = makeList_InrD [OF l1] and m2 = makeList_InrD [OF l2]
    have "\<not> (a \<le> k \<and> k \<le> b')" using c False a(1) b'(1) by simp
    then consider "k < a" | "b' < k" by linarith
    then have "t \<in> set l1 \<or> t \<in> set l2"
    proof cases
      case 1
      with adj [OF s] tn m1 show ?thesis by simp
    next
      case 2
      then have "j \<le> t" using mono [of b' k] b' k by simp
      with tn m2 show ?thesis by simp
    qed
    then show ?thesis using m1 m2 by (simp add: idx il.set_uni)
  qed
qed

lemma range_subs_asc:
  assumes "range_ok r"
  shows "asc (r_SubTableIndexs r)"
proof -
  from assms show ?thesis by (auto simp: range_ok_def range_rule_def asc_upto)
qed

lemma range_cmp_asc:
  assumes "range_ok (p_Rule plan)" and op: "op \<in> set comparison_ops"
    and g: "getTableIndexs loc plan (ComparisonExpr op l v) = Inr (idx, plan')"
  shows "asc idx \<and> p_Rule plan' = p_Rule plan"
proof -
  from assms obtain n L where "range_rule n L (p_Rule plan)" by (auto simp: range_ok_def)
  then show ?thesis
    using op g by (auto simp: range_getTableIndexs getRangeShardTableIndex_def keep_def rbind_eq_Inr_iff
        dest!: makeList_InrD split: if_splits)
qed

lemma range_in_asc:
  assumes "range_ok (p_Rule plan)" and op: "op = ''in'' \<or> op = ''not in''"
    and g: "getTableIndexs loc plan (ComparisonExpr op l (ValTuple vs)) = Inr (idx, plan')"
  shows "asc idx \<and> p_Rule plan' = p_Rule plan"
proof -
  from assms obtain n L where r: "range_rule n L (p_Rule plan)" by (auto simp: range_ok_def)
  then have "asc (r_SubTableIndexs (p_Rule plan))" by (simp add: range_rule_def asc_upto)
  with r show ?thesis
    using op g by (auto simp: range_getTableIndexs getRangeShardTableIndex_def keep_def dest: byTuple)
qed

lemma range_between_asc:
  assumes "range_ok (p_Rule plan)" and g: "getTableIndexs loc plan (RangeCond op l lo hi) = Inr (idx, plan')"
  shows "asc idx \<and> p_Rule plan' = p_Rule plan"
proof -
  from assms obtain n L where "range_rule n L (p_Rule plan)" by (auto simp: range_ok_def)
  then show ?thesis
    using g by (auto simp: range_getTableIndexs getRangeShardTableIndex_def keep_def rbind_eq_Inr_iff Let_def
        intro!: il.asc_uni dest!: makeList_InrD split: if_splits)
qed

lemma range_cmp_reaches:
  fixes k t :: int
  assumes "range_ok (p_Rule plan)" and op: "op \<in> set comparison_ops"
    and eid: "kind (p_Rule plan) l = EID_NODE"
    and g: "getTableIndexs loc plan (ComparisonExpr op l v) = Inr (idx, plan')"
    and t: "FindTableIndex loc (p_Rule plan) (KInt64 k) = Inr t"
    and c: "case range_lit v of Some a \<Rightarrow> cmp_key (\<le>) op k a | None \<Rightarrow> True"
  shows "t \<in> set idx"
proof -
  from assms obtain n L where r: "range_rule n L (p_Rule plan)" by (auto simp: range_ok_def)
  with range_cmp_sound [OF r op eid _ t c] g show ?thesis by (simp add: range_getTableIndexs)
qed

lemma range_in_reaches:
  fixes k t :: int
  assumes "range_ok (p_Rule plan)" and op: "op = ''in'' \<or> op = ''not in''"
    and g: "getTableIndexs loc plan (ComparisonExpr op l (ValTuple vs)) = Inr (idx, plan')"
    and t: "FindTableIndex loc (p_Rule plan) (KInt64 k) = Inr t" "t \<in> set (r_SubTableIndexs (p_Rule plan))"
    and c: "(op = ''in'') = in_key (\<le>) range_lit k (ValTuple vs)"
  shows "t \<in> set idx"
proof -
  from assms obtain n L where r: "range_rule n L (p_Rule plan)" by (auto simp: range_ok_def)
  show ?thesis
    using op
  proof
    assume i: "op = ''in''"
    with c obtain v where v: "v \<in> set vs" "range_lit v = Some k"
      by (auto simp: in_key_def tuple_items_def list_ex_iff same_key_def split: option.splits)
    from g i r have "getTableIndexsByTuple loc plan (ValTuple vs) = Inr (idx, plan')"
      by (simp add: range_getTableIndexs getRangeShardTableIndex_def)
    from byTuple(3) [OF this v(1)] obtain s where "s \<in> set idx" "getTableIndexByValue loc plan v = Inr s" by blast
    with range_value [OF r, of loc v s] range_key [OF r t(1)] v show ?thesis by auto
  next
    assume "op = ''not in''"
    with g r t show ?thesis by (auto simp: range_getTableIndexs getRangeShardTableIndex_def keep_def)
  qed
qed

lemma range_between_reaches:
  fixes k t :: int
  assumes "range_ok (p_Rule plan)" and g: "getTableIndexs loc plan (RangeCond op l lo hi) = Inr (idx, plan')"
    and b: "range_B (p_Rule plan) op lo hi" and t: "FindTableIndex loc (p_Rule plan) (KInt64 k) = Inr t"
    and c: "case (range_lit lo, range_lit hi) of (Some a, Some b) \<Rightarrow> (op = ''between'') = (a \<le> k \<and> k \<le> b) | _ \<Rightarrow> True"
  shows "t \<in> set idx"
proof -
  from assms obtain n L where r: "range_rule n L (p_Rule plan)" by (auto simp: range_ok_def)
  with range_between_sound [OF r _ b t c] g show ?thesis by (simp add: range_getTableIndexs)
qed

lemmas range_laws = range_subs_asc range_cmp_asc range_in_asc range_between_asc range_cmp_reaches range_in_reaches range_between_reaches

interpretation range_routing: sound_routing loc range_ok "\<lambda>_. True" KInt64 "(\<le>)" range_lit range_C range_I range_B
  for loc
  by unfold_locales (rule range_laws; assumption)+

section \<open>Date rules\<close>

text \<open>
  Dates and times are written \<open>YYYY-MM-DD\<close> or \<open>YYYY-MM-DD hh:mm:ss\<close>. They are compared as
  strings, a date without a time being its midnight.
\<close>

definition pad_time :: "string \<Rightarrow> string" where
  "pad_time s = (if length s = 10 then s @ '' 00:00:00'' else s)"

definition date_le :: "string \<Rightarrow> string \<Rightarrow> bool" where
  "date_le a b \<longleftrightarrow> \<not> str_less (pad_time b) (pad_time a)"

definition date_lit :: "ValExpr \<Rightarrow> string option" where
  "date_lit v =
     (case getBoundValue v of Inr (KStr s) \<Rightarrow> if wf_datestr s then Some s else None | _ \<Rightarrow> None)"

definition date_unit :: "rule \<Rightarrow> int" where
  "date_unit r = (case r_Shard r of DateDayShard \<Rightarrow> 1 | DateMonthShard \<Rightarrow> 100 | _ \<Rightarrow> 10000)"

definition date_ok :: "rule \<Rightarrow> bool" where
  "date_ok r \<longleftrightarrow> asc (r_SubTableIndexs r)
     \<and> (r_Type r, r_Shard r) \<in> {(DateYearRuleType, DateYearShard), (DateMonthRuleType, DateMonthShard),
          (DateDayRuleType, DateDayShard)}"

definition configured :: "rule \<Rightarrow> ValExpr \<Rightarrow> bool" where
  "configured r v =
     (case date_lit v of None \<Rightarrow> False | Some s \<Rightarrow> datestr_num s div date_unit r \<in> set (r_SubTableIndexs r))"

definition date_C :: "rule \<Rightarrow> string \<Rightarrow> ValExpr \<Rightarrow> bool" where
  "date_C r op v \<longleftrightarrow> date_lit v \<noteq> None \<and> (op = ''='' \<or> op = ''<=>'' \<or> configured r v)"

definition date_I :: "rule \<Rightarrow> string \<Rightarrow> ValExpr list \<Rightarrow> bool" where
  "date_I r op vs \<longleftrightarrow> op = ''in'' \<and> list_all (\<lambda>v. date_lit v \<noteq> None) vs"

definition date_B :: "rule \<Rightarrow> string \<Rightarrow> ValExpr \<Rightarrow> ValExpr \<Rightarrow> bool" where
  "date_B r op lo hi \<longleftrightarrow> op = ''between'' \<and> configured r lo \<and> configured r hi"

lemma date_key:
  "date_ok r \<Longrightarrow> wf_datestr s \<Longrightarrow> FindTableIndex loc r (KStr s) = Inr (datestr_num s div date_unit r)"
  using DateDay_datestr [of s loc] DateMonth_datestr [of s loc] DateYear_datestr [of s loc]
  by (auto simp: date_ok_def FindTableIndex_def date_unit_def)

lemma date_lit_SomeD: "date_lit v = Some s \<Longrightarrow> getBoundValue v = Inr (KStr s) \<and> wf_datestr s"
  by (auto simp: date_lit_def split: sum.splits key.splits if_splits)

lemma date_value:
  "date_ok (p_Rule plan) \<Longrightarrow> date_lit v = Some s \<Longrightarrow>
   getTableIndexByValue loc plan v = Inr (datestr_num s div date_unit (p_Rule plan))"
  by (auto simp: getTableIndexByValue_def date_key dest!: date_lit_SomeD)

lemma pad_time_ok: "wf_datestr s \<Longrightarrow> wf_datestr (pad_time s) \<and> datestr_num (pad_time s) = datestr_num s"
  by (auto simp: pad_time_def wf_datestr_def datestr_num_def datestr_digits_def nth_append)

lemma date_le_mono:
  assumes "wf_datestr a" "wf_datestr b" "date_le a b"
  shows "datestr_num a div date_unit r \<le> datestr_num b div date_unit r"
proof -
  have "datestr_num a \<le> datestr_num b"
    using assms pad_time_ok [of a] pad_time_ok [of b] datestr_num_mono [of "pad_time a" "pad_time b"]
    by (simp add: date_le_def)
  then show ?thesis by (intro zdiv_mono1) (auto simp: date_unit_def split: shard.splits)
qed

lemma str_less_asym: "str_less a b \<Longrightarrow> \<not> str_less b a"
  by (induction a b rule: str_less.induct) (auto split: if_splits)

lemma date_le_total: "date_le a b \<or> date_le b a"
  unfolding date_le_def using str_less_asym by blast

lemma date_getTableIndexs:
  "date_ok (p_Rule plan) \<Longrightarrow> getTableIndexs loc plan e = getDateShardTableIndex loc plan e"
  by (auto simp: getTableIndexs_def date_ok_def)

lemma date_cmp_sound:
  assumes ok: "date_ok (p_Rule plan)" and op: "op \<in> set comparison_ops"
    and eid: "kind (p_Rule plan) l = EID_NODE"
    and g: "getDateShardTableIndex loc plan (ComparisonExpr op l v) = Inr (idx, plan')"
    and C: "date_C (p_Rule plan) op v" and wf: "wf_datestr k"
    and t: "FindTableIndex loc (p_Rule plan) (KStr k) = Inr t" "t \<in> set (r_SubTableIndexs (p_Rule plan))"
    and c: "case date_lit v of Some a \<Rightarrow> cmp_key date_le op k a | None \<Rightarrow> True"
  shows "t \<in> set idx"
proof -
  let ?u = "date_unit (p_Rule plan)" and ?subs = "r_SubTableIndexs (p_Rule plan)"
  have asc: "asc ?subs" using ok by (simp add: date_ok_def)
  obtain a where a: "date_lit v = Some a" using C by (auto simp: date_C_def)
  have wa: "wf_datestr a" using date_lit_SomeD [OF a] by blast
  let ?i = "datestr_num a div ?u"
  have i: "getTableIndexByValue loc plan v = Inr ?i" using ok a by (rule date_value)
  have tk: "t = datestr_num k div ?u" using date_key [OF ok wf] t by simp
  have mono: "date_le k a \<Longrightarrow> t \<le> ?i" "date_le a k \<Longrightarrow> ?i \<le> t"
    unfolding tk using wf wa by (auto intro: date_le_mono)
  have e: "is_eid plan l" using eid by (simp add: is_eid_def)
  from c a have c': "cmp_key date_le op k a" by simp
  from op consider (eq) "op = ''='' \<or> op = ''<=>''" | (lt) "op = ''<'' \<or> op = ''<=''"
    | (gt) "op = ''>'' \<or> op = ''>=''" by auto
  then show ?thesis
  proof cases
    case eq
    then have "idx = [?i]" using g i e by (auto simp: getDateShardTableIndex_def key_side_def keep_def)
    moreover have "t = ?i" using eq c' mono by (auto simp: cmp_key_def same_key_def)
    ultimately show ?thesis by simp
  next
    case lt
    then have "date_le k a" using c' date_le_total [of k a] by (auto simp: cmp_key_def)
    moreover have "idx = makeLeList ?i ?subs"
      using lt g i e by (auto simp: getDateShardTableIndex_def keep_def)
    moreover have "?i \<in> set ?subs" using C lt a by (auto simp: date_C_def configured_def)
    ultimately show ?thesis using t mono asc by (simp add: set_makeLeList)
  next
    case gt
    then have "date_le a k" using c' date_le_total [of k a] by (auto simp: cmp_key_def)
    moreover have "idx = makeGeList ?i ?subs"
      using gt g i e by (auto simp: getDateShardTableIndex_def keep_def)
    moreover have "?i \<in> set ?subs" using C gt a by (auto simp: date_C_def configured_def)
    ultimately show ?thesis using t mono asc by (simp add: set_makeGeList)
  qed
qed

lemma date_subs_asc:
  assumes "date_ok r"
  shows "asc (r_SubTableIndexs r)"
proof -
  from assms show ?thesis by (simp add: date_ok_def)
qed

lemma date_cmp_asc:
  assumes ok: "date_ok (p_Rule plan)" and op: "op \<in> set comparison_ops"
    and g: "getTableIndexs loc plan (ComparisonExpr op l v) = Inr (idx, plan')"
  shows "asc idx \<and> p_Rule plan' = p_Rule plan"
proof -
  have a: "asc (r_SubTableIndexs (p_Rule plan))" using ok by (simp add: date_ok_def)
  from op consider "op = ''='' \<or> op = ''<=>''" | "op = ''<'' \<or> op = ''<=''" | "op = ''>'' \<or> op = ''>=''" by auto
  then show ?thesis
    using g a unfolding date_getTableIndexs [OF ok] getDateShardTableIndex_def keep_def Let_def
    by cases (auto simp: rbind_eq_Inr_iff asc_makeLeList asc_makeGeList split: if_splits)
qed

lemma date_in_asc:
  assumes ok: "date_ok (p_Rule plan)" and op: "op = ''in'' \<or> op = ''not in''"
    and g: "getTableIndexs loc plan (ComparisonExpr op l (ValTuple vs)) = Inr (idx, plan')"
  shows "asc idx \<and> p_Rule plan' = p_Rule plan"
proof -
  have a: "asc (r_SubTableIndexs (p_Rule plan))" using ok by (simp add: date_ok_def)
  show ?thesis
    using op
  proof
    assume "op = ''in''"
    then show ?thesis
      using ok g by (auto simp: date_getTableIndexs getDateShardTableIndex_def dest: byTuple)
  next
    assume "op = ''not in''"
    then obtain l p where l: "getTableIndexsByTuple loc plan (ValTuple vs) = Inr (l, p)"
      and i: "idx = notList p l" "plan' = p"
      using ok g by (auto simp: date_getTableIndexs getDateShardTableIndex_def keep_def rbind_eq_Inr_iff)
    show ?thesis using byTuple(1,2) [OF l] a by (simp add: i notList_def il.asc_diff)
  qed
qed

lemma date_between_asc:
  assumes ok: "date_ok (p_Rule plan)" and g: "getTableIndexs loc plan (RangeCond op l lo hi) = Inr (idx, plan')"
  shows "asc idx \<and> p_Rule plan' = p_Rule plan"
proof -
  have a: "asc (r_SubTableIndexs (p_Rule plan))" using ok by (simp add: date_ok_def)
  have "asc (makeBetweenList (min i j) (max i j) (r_SubTableIndexs (p_Rule plan)))" for i j
    using a by (intro asc_makeBetweenList) auto
  then show ?thesis
    using ok g a by (auto simp: date_getTableIndexs getDateShardTableIndex_def keep_def rbind_eq_Inr_iff Let_def
        notList_def il.asc_diff split: if_splits)
qed

lemma date_cmp_reaches:
  assumes ok: "date_ok (p_Rule plan)" and op: "op \<in> set comparison_ops"
    and eid: "kind (p_Rule plan) l = EID_NODE"
    and g: "getTableIndexs loc plan (ComparisonExpr op l v) = Inr (idx, plan')"
    and C: "date_C (p_Rule plan) op v" and wf: "wf_datestr k"
    and t: "FindTableIndex loc (p_Rule plan) (KStr k) = Inr t" "t \<in> set (r_SubTableIndexs (p_Rule plan))"
    and c: "case date_lit v of Some a \<Rightarrow> cmp_key date_le op k a | None \<Rightarrow> True"
  shows "t \<in> set idx"
proof -
  from date_cmp_sound [OF ok op eid _ C wf t c] g ok show ?thesis by (simp add: date_getTableIndexs)
qed

lemma date_in_reaches:
  assumes ok: "date_ok (p_Rule plan)"
    and g: "getTableIndexs loc plan (ComparisonExpr op l (ValTuple vs)) = Inr (idx, plan')"
    and I: "date_I (p_Rule plan) op vs" and wf: "wf_datestr k"
    and t: "FindTableIndex loc (p_Rule plan) (KStr k) = Inr t"
    and c: "(op = ''in'') = in_key date_le date_lit k (ValTuple vs)"
  shows "t \<in> set idx"
proof -
  from I have i: "op = ''in''" by (simp add: date_I_def)
  with c obtain v a where v: "v \<in> set vs" "date_lit v = Some a" "date_le k a" "date_le a k"
    by (auto simp: in_key_def tuple_items_def list_ex_iff same_key_def split: option.splits)
  have wa: "wf_datestr a" using date_lit_SomeD [OF v(2)] by blast
  have "datestr_num k div date_unit (p_Rule plan) = datestr_num a div date_unit (p_Rule plan)"
    using date_le_mono [OF wf wa v(3)] date_le_mono [OF wa wf v(4)] by (simp add: order_antisym)
  with date_key [OF ok wf, of loc] date_value [OF ok v(2), of loc] t
  have "getTableIndexByValue loc plan v = Inr t" by simp
  moreover from g i ok have "getTableIndexsByTuple loc plan (ValTuple vs) = Inr (idx, plan')"
    by (simp add: date_getTableIndexs getDateShardTableIndex_def)
  ultimately show ?thesis using byTuple(3) [OF _ v(1)] by fastforce
qed

lemma date_between_reaches:
  assumes ok: "date_ok (p_Rule plan)" and g: "getTableIndexs loc plan (RangeCond op l lo hi) = Inr (idx, plan')"
    and B: "date_B (p_Rule plan) op lo hi" and wf: "wf_datestr k"
    and t: "FindTableIndex loc (p_Rule plan) (KStr k) = Inr t" "t \<in> set (r_SubTableIndexs (p_Rule plan))"
    and c: "case (date_lit lo, date_lit hi) of (Some a, Some b) \<Rightarrow> (op = ''between'') = (date_le a k \<and> date_le k b) | _ \<Rightarrow> True"
  shows "t \<in> set idx"
proof -
  let ?u = "date_unit (p_Rule plan)" and ?subs = "r_SubTableIndexs (p_Rule plan)"
  from B obtain a b where a: "date_lit lo = Some a" "datestr_num a div ?u \<in> set ?subs"
    and b: "date_lit hi = Some b" "datestr_num b div ?u \<in> set ?subs" and op: "op = ''between''"
    by (auto simp: date_B_def configured_def split: option.splits)
  have w: "wf_datestr a" "wf_datestr b" using date_lit_SomeD [OF a(1)] date_lit_SomeD [OF b(1)] by auto
  have "date_le a k" "date_le k b" using c a b op by auto
  then have m: "datestr_num a div ?u \<le> t" "t \<le> datestr_num b div ?u"
    using date_le_mono [OF w(1) wf] date_le_mono [OF wf w(2)] date_key [OF ok wf, of loc] t by auto
  have "idx = makeBetweenList (datestr_num a div ?u) (datestr_num b div ?u) ?subs"
    using g ok op date_value [OF ok a(1), of loc] date_value [OF ok b(1), of loc] m
    by (auto simp: date_getTableIndexs getDateShardTableIndex_def keep_def Let_def min_def max_def)
  moreover have "asc ?subs" using ok by (simp add: date_ok_def)
  ultimately show ?thesis using m a b t by (simp add: makeBetweenList_eq)
qed

lemmas date_laws = date_subs_asc date_cmp_asc date_in_asc date_between_asc date_cmp_reaches date_in_reaches date_between_reaches

interpretation date_routing: sound_routing loc date_ok wf_datestr KStr date_le date_lit date_C date_I date_B
  for loc
  by unfold_locales (rule date_laws; assumption)+

section \<open>Rules from the configuration\<close>

text \<open>What \<open>parseRule\<close> accepts gives rules of the three kinds.\<close>

definition range_supported :: "rule \<Rightarrow> BoolExpr \<Rightarrow> bool" where
  "range_supported r e = atoms_ok r (\<lambda>_ _. True) (\<lambda>_ _. True) (range_B r) e"

definition hash_supported :: "rule \<Rightarrow> BoolExpr \<Rightarrow> bool" where
  "hash_supported r e =
     atoms_ok r (\<lambda>_ v. hash_lit v \<noteq> None) (\<lambda>_ vs. list_all (\<lambda>v. hash_lit v \<noteq> None) vs) (\<lambda>_ _ _. True) e"

definition date_supported :: "rule \<Rightarrow> BoolExpr \<Rightarrow> bool" where
  "date_supported r e = atoms_ok r (date_C r) (date_I r) (date_B r) e"

definition range_config :: "shard_config \<Rightarrow> bool" where
  "range_config cfg \<longleftrightarrow>
     cfg_Type cfg = RangeRuleType \<and> locations_fit cfg \<and> 0 < cfg_TableRowLimit cfg
     \<and> sum_list (cfg_Locations cfg) * cfg_TableRowLimit cfg < MaxInt64"

definition hash_config :: "shard_config \<Rightarrow> bool" where
  "hash_config cfg \<longleftrightarrow>
     cfg_Type cfg = HashRuleType \<and> locations_fit cfg \<and> 0 < sum_list (cfg_Locations cfg)"

definition date_config :: "shard_config \<Rightarrow> bool" where
  "date_config cfg \<longleftrightarrow> cfg_Type cfg \<in> {DateYearRuleType, DateMonthRuleType, DateDayRuleType}"

lemma locations_nonneg: "locations_fit cfg \<Longrightarrow> 0 \<le> sum_list (cfg_Locations cfg)"
  by (intro sum_list_nonneg) (auto simp: locations_fit_def list_all_iff)

lemma range_config_rule:
  assumes "parseRule cfg = Inr r" and "range_config cfg"
  shows "range_rule (sum_list (cfg_Locations cfg)) (cfg_TableRowLimit cfg) r"
  using range_rule_shard [OF assms(1)] parseRule_names [OF assms(1)] assms(2) locations_nonneg [of cfg]
  by (auto simp: range_rule_def range_config_def)

lemma range_config_ok: "parseRule cfg = Inr r \<Longrightarrow> range_config cfg \<Longrightarrow> range_ok r"
  using range_config_rule by (auto simp: range_ok_def)

lemma hash_config_ok: "parseRule cfg = Inr r \<Longrightarrow> hash_config cfg \<Longrightarrow> hash_ok r"
  using hash_rule_shard [of cfg r] parseRule_names [of cfg r]
  by (auto simp: hash_ok_def hash_config_def locations_fit_def asc_upto)

lemma date_config_ok:
  assumes "parseRule cfg = Inr r" and "date_config cfg"
  shows "date_ok r"
proof -
  have "wf_rule r" using assms by (intro parseRule_wf_rule [of cfg]) (auto simp: date_config_def)
  then have "asc (r_SubTableIndexs r)" by (rule wf_ruleD)
  moreover obtain s where "r_Shard r = s" "parseShard (r\<lparr>r_Shard := DefaultShard\<rparr>) cfg = Inr s"
    using assms(1) by (elim parseRuleE) auto
  ultimately show ?thesis using assms(2) parseRule_names [OF assms(1)]
    by (auto simp: date_ok_def date_config_def parseShard_def)
qed

text \<open>Routes of configured rules contain the table of every row that satisfies the condition.\<close>

lemma range_rows_routed:
  assumes "parseRule cfg = Inr r" and "range_config cfg"
    and "getTableIndexByBoolExpr loc path e plan = Inr (idx, e', plan')" and "p_Rule plan = r"
    and "range_supported r e"
    and "FindTableIndex loc r (KInt64 k) = Inr t" and "key_cond r (\<le>) range_lit ev k e"
  shows "t \<in> set idx"
proof -
  have rr: "range_rule (sum_list (cfg_Locations cfg)) (cfg_TableRowLimit cfg) r"
    using assms(1,2) by (rule range_config_rule)
  have "t \<in> set (r_SubTableIndexs r)"
    using rr range_key [OF rr assms(6)] by (auto simp: range_rule_def quotient_less pos_imp_zdiv_nonneg_iff)
  then show ?thesis
    using range_routing.route_sound [OF assms(3) range_config_ok [OF assms(1,2)] assms(4)] assms(5-7)
    by (simp add: range_supported_def)
qed

lemma hash_rows_routed:
  assumes "parseRule cfg = Inr r" and "hash_config cfg"
    and "getTableIndexByBoolExpr loc path e plan = Inr (idx, e', plan')" and "p_Rule plan = r"
    and "hash_supported r e"
    and "FindTableIndex loc r (KInt64 k) = Inr t" and "key_cond r (\<le>) hash_lit ev k e"
  shows "t \<in> set idx"
proof -
  have sh: "r_SubTableIndexs r = [0..sum_list (cfg_Locations cfg) - 1]" "r_Shard r = HashShard (sum_list (cfg_Locations cfg))"
    using hash_rule_shard [OF assms(1)] assms(2) by (auto simp: hash_config_def)
  have n: "0 < sum_list (cfg_Locations cfg)" "sum_list (cfg_Locations cfg) \<le> MaxInt64"
    using assms(2) by (auto simp: hash_config_def locations_fit_def)
  have "t = to_uint64 k mod sum_list (cfg_Locations cfg)"
    using assms(6) HashShard_FindForKey_eq [OF _ n, of "KInt64 k" "to_uint64 k"]
    by (simp add: FindTableIndex_def sh HashValue_def)
  then have "t \<in> set (r_SubTableIndexs r)" using n by (simp add: sh)
  then show ?thesis
    using hash_routing.route_sound [OF assms(3) hash_config_ok [OF assms(1,2)] assms(4)] assms(5-7)
    by (simp add: hash_supported_def)
qed

lemma date_rows_routed:
  assumes "parseRule cfg = Inr r" and "date_config cfg"
    and "getTableIndexByBoolExpr loc path e plan = Inr (idx, e', plan')" and "p_Rule plan = r"
    and "date_supported r e" and "wf_datestr k"
    and "FindTableIndex loc r (KStr k) = Inr t" and "t \<in> set (r_SubTableIndexs r)"
    and "key_cond r date_le date_lit ev k e"
  shows "t \<in> set idx"
  using date_routing.route_sound [OF assms(3) date_config_ok [OF assms(1,2)] assms(4)] assms(5-9)
  by (simp add: date_supported_def)

text \<open>A table that holds a row satisfying the condition, for any of the three kinds of rule.\<close>

definition int_row :: "local_date \<Rightarrow> (ValExpr \<Rightarrow> int option) \<Rightarrow> rule \<Rightarrow> BoolExpr \<Rightarrow> int \<Rightarrow> bool" where
  "int_row loc lit r e t \<longleftrightarrow>
     (\<exists>k ev. FindTableIndex loc r (KInt64 k) = Inr t \<and> key_cond r (\<le>) lit ev k e)"

definition date_row :: "local_date \<Rightarrow> rule \<Rightarrow> BoolExpr \<Rightarrow> int \<Rightarrow> bool" where
  "date_row loc r e t \<longleftrightarrow>
     t \<in> set (r_SubTableIndexs r) \<and>
     (\<exists>k ev. wf_datestr k \<and> FindTableIndex loc r (KStr k) = Inr t \<and> key_cond r date_le date_lit ev k e)"

definition matching_row :: "local_date \<Rightarrow> shard_config \<Rightarrow> rule \<Rightarrow> BoolExpr \<Rightarrow> int \<Rightarrow> bool" where
  "matching_row loc cfg r e t \<longleftrightarrow>
     range_config cfg \<and> range_supported r e \<and> int_row loc range_lit r e t
     \<or> hash_config cfg \<and> hash_supported r e \<and> int_row loc hash_lit r e t
     \<or> date_config cfg \<and> date_supported r e \<and> date_row loc r e t"

lemma matching_row_routed:
  assumes "parseRule cfg = Inr r" and "matching_row loc cfg r e t"
    and "getTableIndexByBoolExpr loc path e plan = Inr (idx, e', plan')" and "p_Rule plan = r"
  shows "t \<in> set idx"
  using assms(2) range_rows_routed [OF assms(1) _ assms(3,4)] hash_rows_routed [OF assms(1) _ assms(3,4)]
    date_rows_routed [OF assms(1) _ assms(3,4)]
  unfolding matching_row_def int_row_def date_row_def by blast

lemma matching_row_type: "parseRule cfg = Inr r \<Longrightarrow> matching_row loc cfg r e t \<Longrightarrow> r_Type r \<noteq> DefaultRuleType"
  using parseRule_names [of cfg r]
  by (auto simp: matching_row_def range_config_def hash_config_def date_config_def)

lemma matching_row_wf: "parseRule cfg = Inr r \<Longrightarrow> matching_row loc cfg r e t \<Longrightarrow> wf_rule r"
  by (rule parseRule_wf_rule) (auto simp: matching_row_def range_config_def hash_config_def date_config_def)

end
