(* ===== verification/Build_Plan.thy ===== *)
theory Build_Plan
  imports Route_Sound
begin

text \<open>
  The second half of src/proxy/router/router.go: \<open>BuildPlan\<close> chooses the rule of a
  statement, lets the planner compute the tables and nodes, and writes one SQL text per
  table, collected by node in \<open>RewrittenSqls\<close>.

  \<open>GetRule\<close> may change the router's default rule, so the functions return the router
  next to the result. The printing of a rewritten select changes the statement's tree and puts
  it back afterwards; here the changed parts are values.
\<close>

section \<open>Writing SQL\<close>

text \<open>
  The loop that the six generators share: \<open>sql_of\<close> is the text for one table. \<open>whole\<close> is
  the unchanged statement, sent to the first node of the router when there are no tables.
\<close>

fun sqls_loop ::
  "router \<Rightarrow> plan \<Rightarrow> (int \<Rightarrow> string) \<Rightarrow> indexs \<Rightarrow> (string \<times> string list) list \<Rightarrow> (string \<times> string list) list res"
where
  "sqls_loop r plan sql_of [] sqls = Inr sqls"
| "sqls_loop r plan sql_of (tableIndex # ts) sqls =
     rbind (at_index (rt_Nodes r) (node_of_table (p_Rule plan) tableIndex)) (\<lambda>nodeName.
       sqls_loop r plan sql_of ts (map_append sqls nodeName (sql_of tableIndex)))"

definition generate_sqls :: "router \<Rightarrow> plan \<Rightarrow> string \<Rightarrow> (int \<Rightarrow> string) \<Rightarrow> plan res" where
  "generate_sqls r plan whole sql_of =
     (if p_RouteNodeIndexs plan = [] then Inl (Err ErrNoRouteNode)
      else
        rbind (if p_RouteTableIndexs plan = [] then
                 rbind (at_index (rt_Nodes r) 0) (\<lambda>nodeName. Inr [(nodeName, [whole])])
               else sqls_loop r plan sql_of (p_RouteTableIndexs plan) [])
          (\<lambda>sqls. Inr (plan\<lparr>p_RewrittenSqls := sqls\<rparr>)))"

definition table_suffix :: "int \<Rightarrow> string" where
  "table_suffix tableIndex = ''_'' @ fmt_0d 4 tableIndex"

section \<open>Select\<close>

definition resetQualifier :: "string \<Rightarrow> int \<Rightarrow> ValExpr \<Rightarrow> ValExpr" where
  "resetQualifier ruleTable tableIndex ve =
     (case ve of
        ColName n \<Rightarrow>
          if nil_str (cn_Qualifier n) = ruleTable
          then ColName (n\<lparr>cn_Qualifier := Some (nil_str (cn_Qualifier n) @ table_suffix tableIndex)\<rparr>)
          else ve
      | _ \<Rightarrow> ve)"

fun rewriteWhereQualifier :: "string \<Rightarrow> int \<Rightarrow> BoolExpr \<Rightarrow> BoolExpr" where
  "rewriteWhereQualifier t i (AndExpr l r) = AndExpr (rewriteWhereQualifier t i l) (rewriteWhereQualifier t i r)"
| "rewriteWhereQualifier t i (ComparisonExpr op l r) =
     ComparisonExpr op (resetQualifier t i l) (resetQualifier t i r)"
| "rewriteWhereQualifier t i (NotExpr e) = NotExpr (rewriteWhereQualifier t i e)"
| "rewriteWhereQualifier t i (ParenBoolExpr e) = ParenBoolExpr (rewriteWhereQualifier t i e)"
| "rewriteWhereQualifier t i (OrExpr l r) = OrExpr (rewriteWhereQualifier t i l) (rewriteWhereQualifier t i r)"
| "rewriteWhereQualifier t i e = e"

definition rewrite_select_expr :: "string \<Rightarrow> int \<Rightarrow> SelectExpr \<Rightarrow> string" where
  "rewrite_select_expr ruleTable tableIndex e =
     (case e of
        StarExpr t \<Rightarrow>
          if nil_str t = ruleTable then ruleTable @ table_suffix tableIndex @ ''.*'' else fmt_selectexpr e
      | NonStarExpr (ValE (ColName n)) as' \<Rightarrow>
          (if nil_str (cn_Qualifier n) = ruleTable
           then ruleTable @ table_suffix tableIndex @ ''.'' @ cn_Name n
           else format_colname n)
          @ (case as' of Some a \<Rightarrow> fpf '' as %s'' [FStr a] | None \<Rightarrow> [])
      | _ \<Rightarrow> fmt_selectexpr e)"

fun rewrite_select_exprs :: "string \<Rightarrow> int \<Rightarrow> string \<Rightarrow> SelectExpr list \<Rightarrow> string" where
  "rewrite_select_exprs ruleTable tableIndex prefix [] = []"
| "rewrite_select_exprs ruleTable tableIndex prefix (e # es) =
     prefix @ rewrite_select_expr ruleTable tableIndex e
     @ rewrite_select_exprs ruleTable tableIndex '', '' es"

definition rewrite_aliased :: "int \<Rightarrow> selectstmt simpletable \<Rightarrow> string option \<Rightarrow> string" where
  "rewrite_aliased tableIndex e as' =
     format_simpletable format_selectstmt e @ table_suffix tableIndex
     @ (if nil_str as' \<noteq> [] then '' as '' @ nil_str as' else [])"

definition rewrite_from :: "int \<Rightarrow> TableExpr \<Rightarrow> string" where
  "rewrite_from tableIndex f =
     (case f of
        AliasedTableExpr e as' _ \<Rightarrow> rewrite_aliased tableIndex e as'
      | JoinTableExpr l j r on \<Rightarrow>
          (case l of
             AliasedTableExpr e as' _ \<Rightarrow> rewrite_aliased tableIndex e as'
           | _ \<Rightarrow> fmt_tableexpr l @ table_suffix tableIndex)
          @ fpf '' %s %v'' [FStr j, FNode (fmt_tableexpr r)]
          @ (case on of Some c \<Rightarrow> fpf '' on %v'' [FNode (fmt_bool c)] | None \<Rightarrow> [])
      | _ \<Rightarrow> fmt_tableexpr f @ table_suffix tableIndex)"

definition rewrite_order :: "string \<Rightarrow> int \<Rightarrow> OrderExpr \<Rightarrow> OrderExpr" where
  "rewrite_order ruleTable tableIndex o' =
     (case o' of Order e d \<Rightarrow> Order (resetQualifier ruleTable tableIndex e) d)"

definition rewrite_where :: "plan \<Rightarrow> int \<Rightarrow> WhereClause option \<Rightarrow> WhereClause option" where
  "rewrite_where plan tableIndex w =
     map_option (\<lambda>n. Where (w_Type n)
       (rewriteWhereQualifier (r_Table (p_Rule plan)) tableIndex (rewriteWhereIn plan tableIndex (w_Expr n)))) w"

definition rewriteSelectSql :: "plan \<Rightarrow> SelectNode \<Rightarrow> int \<Rightarrow> string" where
  "rewriteSelectSql plan node tableIndex =
     (let t = r_Table (p_Rule plan);
          newLimit = (case RewriteLimit (s_Limit node) of Inr l \<Rightarrow> l | Inl _ \<Rightarrow> s_Limit node)
      in fpf ''select %v%s'' [FNode (format_comments (s_Comments node)), FStr (s_Distinct node)]
         @ rewrite_select_exprs t tableIndex [] (s_SelectExprs node)
         @ concat (map (\<lambda>n. fpf ''%s%v'' [FStr '','', FNode (fmt_val n)]) (s_GroupBy node))
         @ fpf '' from '' []
         @ (case s_From node of [] \<Rightarrow> [] | f # _ \<Rightarrow> rewrite_from tableIndex f)
         @ concat (map (\<lambda>f. fpf ''%s%v'' [FStr '', '', FNode (fmt_tableexpr f)]) (tl (s_From node)))
         @ fpf ''%v%v%v%v%v%s''
             [FNode (fmt_where (rewrite_where plan tableIndex (s_Where node))),
              FNode (format_groupby format_selectstmt (s_GroupBy node)), FNode (fmt_where (s_Having node)),
              FNode (format_orderby format_selectstmt (map (rewrite_order t tableIndex) (s_OrderBy node))),
              FNode (format_limit format_selectstmt newLimit), FStr (s_Lock node)])"

definition generateSelectSql :: "router \<Rightarrow> plan \<Rightarrow> SelectNode \<Rightarrow> plan res" where
  "generateSelectSql r plan node = generate_sqls r plan (fmt_select node) (rewriteSelectSql plan node)"

text \<open>The name under which the rule of a select is looked up: its first table.\<close>

definition select_table :: "SelectNode \<Rightarrow> string res" where
  "select_table stmt =
     rbind (at_index (s_From stmt) 0) (\<lambda>v.
       Inr (case v of
              AliasedTableExpr e _ _ \<Rightarrow> format_simpletable format_selectstmt e
            | JoinTableExpr l _ _ _ \<Rightarrow>
                (case l of
                   AliasedTableExpr e _ _ \<Rightarrow> format_simpletable format_selectstmt e
                 | _ \<Rightarrow> fmt_tableexpr v)
            | _ \<Rightarrow> fmt_tableexpr v))"

text \<open>
  The part that select, update and delete share: the route of the where clause, or all
  tables without one. The condition in the result is the statement's, with the qualifiers that
  the planner removed.
\<close>

definition all_tables :: "plan \<Rightarrow> plan res" where
  "all_tables plan =
     rbind (makeList 0 (int (length (r_Nodes (p_Rule plan))))) (\<lambda>ns.
       Inr (plan\<lparr>p_RouteTableIndexs := r_SubTableIndexs (p_Rule plan), p_RouteNodeIndexs := ns\<rparr>))"

definition check_tables :: "plan \<Rightarrow> plan res" where
  "check_tables plan =
     (if r_Type (p_Rule plan) \<noteq> DefaultRuleType \<and> p_RouteTableIndexs plan = []
      then Inl (Err ErrNoCriteria) else Inr plan)"

definition route_where ::
  "(indexs \<Rightarrow> indexs) \<Rightarrow> local_date \<Rightarrow> plan \<Rightarrow> WhereClause option \<Rightarrow> (plan \<times> WhereClause option) res"
where
  "route_where mo loc plan w =
     rbind (case w of
              Some n \<Rightarrow> calRouteIndexs mo loc (plan\<lparr>p_Criteria := Some (CritBool (w_Expr n))\<rparr>)
            | None \<Rightarrow> all_tables plan)
       (\<lambda>plan1. rbind (check_tables plan1) (\<lambda>plan2.
          Inr (plan2,
               (case (w, p_Criteria plan2) of
                  (Some n, Some (CritBool e)) \<Rightarrow> Some (Where (w_Type n) e)
                | _ \<Rightarrow> w))))"

definition buildSelectPlan ::
  "(indexs \<Rightarrow> indexs) \<Rightarrow> local_date \<Rightarrow> router \<Rightarrow> string \<Rightarrow> SelectNode \<Rightarrow> router \<times> plan res"
where
  "buildSelectPlan mo loc r db stmt =
     (case select_table stmt of
        Inl e \<Rightarrow> (r, Inl e)
      | Inr tableName \<Rightarrow>
          let (rule, r') = GetRule r db tableName in
          (r', rbind (route_where mo loc (new_plan rule) (s_Where stmt)) (\<lambda>(plan, w).
                 generateSelectSql r' plan
                   (Select (s_Comments stmt) (s_Distinct stmt) (s_SelectExprs stmt) (s_From stmt) w
                      (s_GroupBy stmt) (s_Having stmt) (s_OrderBy stmt) (s_Limit stmt) (s_Lock stmt)))))"

section \<open>Update, delete, truncate\<close>

definition update_sql :: "update_stmt \<Rightarrow> int \<Rightarrow> string" where
  "update_sql node tableIndex =
     fpf ''update %v%v'' [FNode (format_comments (upd_Comments node)), FNode (format_tablename (upd_Table node))]
     @ table_suffix tableIndex
     @ fpf '' set %v%v%v%v''
         [FNode (format_updateexprs (upd_Exprs node)), FNode (fmt_where (upd_Where node)),
          FNode (format_orderby format_selectstmt (upd_OrderBy node)),
          FNode (format_limit format_selectstmt (upd_Limit node))]"

definition generateUpdateSql :: "router \<Rightarrow> plan \<Rightarrow> update_stmt \<Rightarrow> plan res" where
  "generateUpdateSql r plan node = generate_sqls r plan (format_update node) (update_sql node)"

definition buildUpdatePlan ::
  "(indexs \<Rightarrow> indexs) \<Rightarrow> local_date \<Rightarrow> router \<Rightarrow> string \<Rightarrow> update_stmt \<Rightarrow> router \<times> plan res"
where
  "buildUpdatePlan mo loc r db stmt =
     (let (rule, r') = GetRule r db (format_tablename (upd_Table stmt)) in
      (r', rbind (checkUpdateExprs rule (upd_Exprs stmt)) (\<lambda>_.
             rbind (route_where mo loc (new_plan rule) (upd_Where stmt)) (\<lambda>(plan, w).
               generateUpdateSql r' plan (stmt\<lparr>upd_Where := w\<rparr>)))))"

definition delete_sql :: "delete_stmt \<Rightarrow> int \<Rightarrow> string" where
  "delete_sql node tableIndex =
     fpf ''delete %vfrom %v''
       [FNode (format_comments (del_Comments node)), FNode (format_tablename (del_Table node))]
     @ table_suffix tableIndex
     @ fpf ''%v%v%v''
         [FNode (fmt_where (del_Where node)), FNode (format_orderby format_selectstmt (del_OrderBy node)),
          FNode (format_limit format_selectstmt (del_Limit node))]"

definition generateDeleteSql :: "router \<Rightarrow> plan \<Rightarrow> delete_stmt \<Rightarrow> plan res" where
  "generateDeleteSql r plan node = generate_sqls r plan (format_delete node) (delete_sql node)"

definition buildDeletePlan ::
  "(indexs \<Rightarrow> indexs) \<Rightarrow> local_date \<Rightarrow> router \<Rightarrow> string \<Rightarrow> delete_stmt \<Rightarrow> router \<times> plan res"
where
  "buildDeletePlan mo loc r db stmt =
     (let (rule, r') = GetRule r db (format_tablename (del_Table stmt)) in
      (r', rbind (route_where mo loc (new_plan rule) (del_Where stmt)) (\<lambda>(plan, w).
             generateDeleteSql r' plan (stmt\<lparr>del_Where := w\<rparr>))))"

definition truncate_sql :: "truncate_stmt \<Rightarrow> int \<Rightarrow> string" where
  "truncate_sql node tableIndex =
     fpf ''truncate %v%s%v''
       [FNode (format_comments (trunc_Comments node)), FStr (trunc_TableOpt node),
        FNode (format_tablename (trunc_Table node))]
     @ table_suffix tableIndex"

definition generateTruncateSql :: "router \<Rightarrow> plan \<Rightarrow> truncate_stmt \<Rightarrow> plan res" where
  "generateTruncateSql r plan node = generate_sqls r plan (format_truncate node) (truncate_sql node)"

definition buildTruncatePlan :: "router \<Rightarrow> string \<Rightarrow> truncate_stmt \<Rightarrow> router \<times> plan res" where
  "buildTruncatePlan r db stmt =
     (let (rule, r') = GetRule r db (format_tablename (trunc_Table stmt)) in
      (r', rbind (all_tables (new_plan rule)) (\<lambda>plan.
             rbind (check_tables plan) (\<lambda>plan. generateTruncateSql r' plan stmt))))"

section \<open>Insert and replace\<close>

definition insert_sql :: "plan \<Rightarrow> insert_stmt \<Rightarrow> int \<Rightarrow> string" where
  "insert_sql plan node tableIndex =
     fpf ''insert %v%s into %v''
       [FNode (format_comments (ins_Comments node)), FStr (ins_Ignore node),
        FNode (format_tablename (ins_Table node))]
     @ table_suffix tableIndex
     @ fpf ''%v %v%v''
         [FNode (format_columns (ins_Columns node)), FNode (format_values (map_list (p_Rows plan) tableIndex)),
          FNode (format_ondup (ins_OnDup node))]"

definition generateInsertSql :: "router \<Rightarrow> plan \<Rightarrow> insert_stmt \<Rightarrow> plan res" where
  "generateInsertSql r plan node = generate_sqls r plan (format_insert node) (insert_sql plan node)"

definition replace_sql :: "plan \<Rightarrow> replace_stmt \<Rightarrow> int \<Rightarrow> string" where
  "replace_sql plan node tableIndex =
     fpf ''replace %vinto %v''
       [FNode (format_comments (rep_Comments node)), FNode (format_tablename (rep_Table node))]
     @ table_suffix tableIndex
     @ fpf ''%v %v''
         [FNode (format_columns (rep_Columns node)), FNode (format_values (map_list (p_Rows plan) tableIndex))]"

definition generateReplaceSql :: "router \<Rightarrow> plan \<Rightarrow> replace_stmt \<Rightarrow> plan res" where
  "generateReplaceSql r plan node = generate_sqls r plan (format_replace node) (replace_sql plan node)"

text \<open>The route of the rows, after the checks on them.\<close>

definition route_rows ::
  "(indexs \<Rightarrow> indexs) \<Rightarrow> local_date \<Rightarrow> plan \<Rightarrow> tuple list \<Rightarrow> plan res"
where
  "route_rows mo loc plan vals =
     rbind (checkValuesType plan vals) (\<lambda>vals'.
       calRouteIndexs mo loc (plan\<lparr>p_Criteria := Some (CritValues vals')\<rparr>))"

definition buildInsertPlan ::
  "(indexs \<Rightarrow> indexs) \<Rightarrow> local_date \<Rightarrow> router \<Rightarrow> string \<Rightarrow> insert_stmt \<Rightarrow> router \<times> plan res"
where
  "buildInsertPlan mo loc r db stmt =
     (case (ins_Rows stmt, ins_Columns stmt) of
        (RowsSelect _, _) \<Rightarrow> (r, Inl (Err ErrSelectInInsert))
      | (_, None) \<Rightarrow> (r, Inl (Err ErrIRNoColumns))
      | (RowsValues vals, Some cols) \<Rightarrow>
          let (rule, r') = GetRule r db (format_tablename (ins_Table stmt)) in
          (r', rbind (GetIRKeyIndex (new_plan rule) cols) (\<lambda>plan.
                 rbind (case ins_OnDup stmt of None \<Rightarrow> Inr () | Some es \<Rightarrow> checkUpdateExprs rule es) (\<lambda>_.
                 rbind (route_rows mo loc plan vals) (\<lambda>plan'.
                   generateInsertSql r' plan' stmt)))))"

definition buildReplacePlan ::
  "(indexs \<Rightarrow> indexs) \<Rightarrow> local_date \<Rightarrow> router \<Rightarrow> string \<Rightarrow> replace_stmt \<Rightarrow> router \<times> plan res"
where
  "buildReplacePlan mo loc r db stmt =
     (case (rep_Rows stmt, rep_Columns stmt) of
        (RowsSelect _, _) \<Rightarrow> (r, Inl (Panic (ParserError ''select in replace not allowed'')))
      | (_, None) \<Rightarrow> (r, Inl (Err ErrIRNoColumns))
      | (RowsValues vals, Some cols) \<Rightarrow>
          let (rule, r') = GetRule r db (format_tablename (rep_Table stmt)) in
          (r', rbind (GetIRKeyIndex (new_plan rule) cols) (\<lambda>plan.
                 rbind (route_rows mo loc plan vals) (\<lambda>plan'.
                   generateReplaceSql r' plan' stmt))))"

fun BuildPlan ::
  "(indexs \<Rightarrow> indexs) \<Rightarrow> local_date \<Rightarrow> router \<Rightarrow> string \<Rightarrow> statement \<Rightarrow> router \<times> plan res"
where
  "BuildPlan mo loc r db (InsertStmt s) = buildInsertPlan mo loc r db s"
| "BuildPlan mo loc r db (ReplaceStmt s) = buildReplacePlan mo loc r db s"
| "BuildPlan mo loc r db (SelectStmt s) = buildSelectPlan mo loc r db s"
| "BuildPlan mo loc r db (UpdateStmt s) = buildUpdatePlan mo loc r db s"
| "BuildPlan mo loc r db (DeleteStmt s) = buildDeletePlan mo loc r db s"
| "BuildPlan mo loc r db (TruncateStmt s) = buildTruncatePlan r db s"
| "BuildPlan mo loc r db _ = (r, Inl (Err ErrNoPlan))"

section \<open>One text per table\<close>

text \<open>
  The node under which the generators put the text for a table: they take the index that the rule has for the table, which counts the
  rule's own nodes, as an index into the nodes of the router. The two agree when the rule's nodes are the first ones of the router, in the
  same order (\<open>nodes_aligned\<close>); \<open>rule_node\<close> is the node that the rule means.
\<close>

definition sent_node :: "router \<Rightarrow> plan \<Rightarrow> int \<Rightarrow> string res" where
  "sent_node r plan t = at_index (rt_Nodes r) (node_of_table (p_Rule plan) t)"

definition nodes_aligned :: "router \<Rightarrow> rule \<Rightarrow> bool" where
  "nodes_aligned r rule \<longleftrightarrow> r_Nodes rule \<noteq> [] \<and> take (length (r_Nodes rule)) (rt_Nodes r) = r_Nodes rule"

lemma sent_node_rule_node:
  assumes "wf_rule rule" and "nodes_aligned r rule" and "p_Rule plan = rule"
  shows "sent_node r plan t = rule_node rule t"
proof -
  let ?i = "node_of_table rule t"
  have i: "0 \<le> ?i" "?i < int (length (r_Nodes rule))"
    using node_index_bounds [OF assms(1)] assms(2) by (auto simp: nodes_aligned_def)
  have l: "length (r_Nodes rule) \<le> length (rt_Nodes r)"
    using assms(2) by (metis nodes_aligned_def length_take min.cobounded1)
  have "rt_Nodes r ! nat ?i = take (length (r_Nodes rule)) (rt_Nodes r) ! nat ?i" using i by simp
  then have "rt_Nodes r ! nat ?i = r_Nodes rule ! nat ?i" using assms(2) by (simp add: nodes_aligned_def)
  then show ?thesis using i l assms(3) by (simp add: sent_node_def rule_node_def at_index_def)
qed

lemma nodes_aligned_GetRule: "GetRule r d t = (rule, r1) \<Longrightarrow> nodes_aligned r1 rule = nodes_aligned r rule"
  by (simp add: nodes_aligned_def GetRule_nodes)

lemma sqls_loop_spec:
  assumes "sqls_loop r plan f ts sqls = Inr sqls'"
  shows "map_list sqls' n = map_list sqls n @ map f (filter (\<lambda>t. sent_node r plan t = Inr n) ts)"
    and "\<forall>t \<in> set ts. \<exists>n. sent_node r plan t = Inr n"
    and "fst ` set sqls' = fst ` set sqls \<union> {n. \<exists>t \<in> set ts. sent_node r plan t = Inr n}"
    and "distinct (map fst sqls) \<Longrightarrow> distinct (map fst sqls')"
  using assms
proof (induction ts arbitrary: sqls)
  case (Cons t ts)
  {
    case 1
    then obtain m where "sent_node r plan t = Inr m" "sqls_loop r plan f ts (map_append sqls m (f t)) = Inr sqls'"
      by (auto simp: rbind_eq_Inr_iff sent_node_def)
    with Cons.IH(1) show ?case by (simp add: map_list_append)
  next
    case 2
    then show ?case by (auto simp: rbind_eq_Inr_iff sent_node_def [of r plan t] dest!: Cons.IH(2))
  next
    case 3
    then obtain m where "sent_node r plan t = Inr m" "sqls_loop r plan f ts (map_append sqls m (f t)) = Inr sqls'"
      by (auto simp: rbind_eq_Inr_iff sent_node_def)
    with Cons.IH(3) show ?case by (auto simp: keys_map_append)
  next
    case 4
    then obtain m where m: "sqls_loop r plan f ts (map_append sqls m (f t)) = Inr sqls'"
      by (auto simp: rbind_eq_Inr_iff)
    show ?case using Cons.IH(4) [OF distinct_map_append m] 4(1) by blast
  }
qed auto

lemma sqls_loop_total:
  "\<forall>t \<in> set ts. 0 \<le> node_of_table (p_Rule plan) t \<and> node_of_table (p_Rule plan) t < int (length (rt_Nodes r))
   \<Longrightarrow> \<exists>sqls'. sqls_loop r plan f ts sqls = Inr sqls'"
  by (induction ts arbitrary: sqls) (auto simp: rbind_eq_Inr_iff at_index_def)

lemma generate_sqls_tables:
  assumes "generate_sqls r plan whole f = Inr plan'" and "p_RouteTableIndexs plan \<noteq> []"
  shows "map_list (p_RewrittenSqls plan') n =
      map f (filter (\<lambda>t. sent_node r plan t = Inr n) (p_RouteTableIndexs plan))"
    and "\<forall>t \<in> set (p_RouteTableIndexs plan). \<exists>n. sent_node r plan t = Inr n \<and> f t \<in> set (map_list (p_RewrittenSqls plan') n)"
    and "plan' = plan\<lparr>p_RewrittenSqls := p_RewrittenSqls plan'\<rparr>"
proof -
  from assms obtain s where s: "sqls_loop r plan f (p_RouteTableIndexs plan) [] = Inr s"
    and p: "plan' = plan\<lparr>p_RewrittenSqls := s\<rparr>"
    by (auto simp: generate_sqls_def rbind_eq_Inr_iff split: if_splits)
  show eq: "map_list (p_RewrittenSqls plan') n =
      map f (filter (\<lambda>t. sent_node r plan t = Inr n) (p_RouteTableIndexs plan))" for n
    using sqls_loop_spec(1) [OF s] by (simp add: p)
  show "\<forall>t \<in> set (p_RouteTableIndexs plan). \<exists>n. sent_node r plan t = Inr n \<and> f t \<in> set (map_list (p_RewrittenSqls plan') n)"
    using sqls_loop_spec(2) [OF s] by (auto simp: eq)
  show "plan' = plan\<lparr>p_RewrittenSqls := p_RewrittenSqls plan'\<rparr>" by (simp add: p)
qed

section \<open>Rows of an insert\<close>

definition row_table :: "local_date \<Rightarrow> plan \<Rightarrow> tuple \<Rightarrow> int res" where
  "row_table loc plan row =
     (case row of
        TupleVals vs \<Rightarrow> rbind (at_index vs (p_KeyIndex plan)) (getTableIndexByValue loc plan)
      | TupleSubquery _ \<Rightarrow> Inl (Panic TypeAssertion))"

lemma map_append_fold:
  "map_list (foldl (\<lambda>m x. map_append m (f x) x) m xs) t = map_list m t @ filter (\<lambda>x. f x = t) xs"
  "fst ` set (foldl (\<lambda>m x. map_append m (f x) x) m xs) = fst ` set m \<union> f ` set xs"
  "distinct (map fst m) \<Longrightarrow> distinct (map fst (foldl (\<lambda>m x. map_append m (f x) x) m xs))"
  by (induction xs arbitrary: m) (auto simp: map_list_append keys_map_append distinct_map_append)

definition table_of_row :: "local_date \<Rightarrow> plan \<Rightarrow> tuple \<Rightarrow> int" where
  "table_of_row loc plan row = (case row_table loc plan row of Inr t \<Rightarrow> t | Inl _ \<Rightarrow> 0)"

lemma insert_loop_eq:
  assumes "insert_loop loc plan vals (is, m) = Inr acc'"
  shows "\<forall>row \<in> set vals. row_table loc plan row = Inr (table_of_row loc plan row)"
    and "acc' = (is @ map (table_of_row loc plan) vals,
                 foldl (\<lambda>m row. map_append m (table_of_row loc plan row) row) m vals)"
  using assms
proof (induction vals arbitrary: "is" m)
  case (Cons row vals)
  have step: "\<exists>u. row_table loc plan row = Inr u \<and> u = table_of_row loc plan row \<and>
      insert_loop loc plan vals (is @ [u], map_append m u row) = Inr acc'"
    if "insert_loop loc plan (row # vals) (is, m) = Inr acc'" for "is" m
    using that by (cases row) (auto simp: row_table_def table_of_row_def rbind_eq_Inr_iff split: if_splits)
  {
    case 1
    then show ?case using step [OF 1] Cons.IH(1) by auto
  next
    case 2
    then show ?case
      using step [OF 2] Cons.IH(2) [of "is @ [table_of_row loc plan row]" "map_append m (table_of_row loc plan row) row"]
      by auto
  }
qed auto

text \<open>
  The rows are distributed over the tables: the tables of the route are those of the rows, and
  a table receives exactly the rows with its keys, in their order.
\<close>

lemma getInsertTableIndex_spec:
  assumes "getInsertTableIndex mo loc plan vals = Inr (l, plan')" and mo: "map_order mo" and "p_Rows plan = []"
  shows "set l = {t. \<exists>row \<in> set vals. row_table loc plan row = Inr t}"
    and "distinct l"
    and "\<forall>row \<in> set vals. \<exists>t \<in> set l. row_table loc plan row = Inr t"
    and "map_list (p_Rows plan') t = filter (\<lambda>row. row_table loc plan row = Inr t) vals"
    and "p_Rule plan' = p_Rule plan"
proof -
  let ?f = "table_of_row loc plan"
  let ?m = "foldl (\<lambda>m row. map_append m (?f row) row) [] vals"
  from assms(1) obtain acc where a: "insert_loop loc plan vals ([], []) = Inr acc"
    and l: "l = cleanList mo (fst acc)"
    and p: "plan' = plan\<lparr>p_Rows := foldl (\<lambda>m (k, v). AList.update k v m) [] (snd acc)\<rparr>"
    using assms(3) by (auto simp: getInsertTableIndex_def rbind_eq_Inr_iff)
  note eq = insert_loop_eq [OF a]
  have upd: "map_of (foldl (\<lambda>m (k, v). AList.update k v m) al xs) = map_of al ++ map_of (rev xs)"
    for al xs :: "(int \<times> tuple list) list"
    by (induction xs arbitrary: al) (auto simp: update_conv' map_add_def fun_eq_iff split: option.splits)
  have dist: "distinct (map fst (snd acc))" using eq(2) map_append_fold(3) [of "[]" ?f vals] by simp
  have "map_of (rev (snd acc)) = map_of (snd acc)"
    using dist by (intro ext) (metis distinct_rev map_of_eqI map_of_inject_set rev_map set_rev)
  then have rows: "map_list (p_Rows plan') u = map_list (snd acc) u" for u
    using upd [of "[]" "snd acc"] by (simp add: p map_list_def)
  show "map_list (p_Rows plan') t = filter (\<lambda>row. row_table loc plan row = Inr t) vals"
    unfolding rows eq(2) snd_conv map_append_fold(1) map_list_Nil append_Nil
    using eq(1) by (intro filter_cong) auto
  show s: "set l = {t. \<exists>row \<in> set vals. row_table loc plan row = Inr t}"
    using eq by (auto simp: l set_cleanList [OF mo])
  show "distinct l" by (simp add: l distinct_cleanList [OF mo])
  show "\<forall>row \<in> set vals. \<exists>t \<in> set l. row_table loc plan row = Inr t"
    using eq(1) by (auto simp: s)
  show "p_Rule plan' = p_Rule plan" by (simp add: p)
qed

section \<open>Plans of statements with a condition\<close>

lemma calRouteIndexs_bool:
  assumes "calRouteIndexs mo loc plan = Inr plan'" and "p_Criteria plan = Some (CritBool e)"
    and "r_Type (p_Rule plan) \<noteq> DefaultRuleType"
  obtains idx e' p1 where "getTableIndexByBoolExpr loc [] e plan = Inr (idx, e', p1)"
    and "plan' = p1\<lparr>p_Criteria := Some (CritBool e'), p_RouteTableIndexs := idx,
                    p_RouteNodeIndexs := TindexsToNindexs mo p1 idx\<rparr>"
  using assms by (auto simp: calRouteIndexs_def rbind_eq_Inr_iff)

lemma set_TindexsToNindexs:
  "map_order mo \<Longrightarrow> set (TindexsToNindexs mo plan ts) = node_of_table (p_Rule plan) ` set ts"
  by (simp add: TindexsToNindexs_def set_cleanList)

text \<open>
  A plan that \<open>route_where\<close> returns for a where clause: its tables are those of the planner,
  there is at least one, and the where clause is the planner's.
\<close>

lemma route_where_some:
  assumes "route_where mo loc (new_plan rule) (Some w) = Inr (plan, w')" and "r_Type rule \<noteq> DefaultRuleType"
  obtains idx e' p1 where
    "getTableIndexByBoolExpr loc [] (w_Expr w) ((new_plan rule)\<lparr>p_Criteria := Some (CritBool (w_Expr w))\<rparr>) = Inr (idx, e', p1)"
    "plan = p1\<lparr>p_Criteria := Some (CritBool e'), p_RouteTableIndexs := idx,
              p_RouteNodeIndexs := TindexsToNindexs mo p1 idx\<rparr>"
    "idx \<noteq> [] \<or> r_Type (p_Rule p1) = DefaultRuleType" "w' = Some (Where (w_Type w) e')"
proof -
  let ?p = "(new_plan rule)\<lparr>p_Criteria := Some (CritBool (w_Expr w))\<rparr>"
  from assms(1) obtain p2 where c: "calRouteIndexs mo loc ?p = Inr p2" and k: "check_tables p2 = Inr plan"
    and w': "w' = (case p_Criteria plan of Some (CritBool e) \<Rightarrow> Some (Where (w_Type w) e) | _ \<Rightarrow> Some w)"
    by (auto simp: route_where_def rbind_eq_Inr_iff split: option.splits criteria.splits)
  have p2: "p2 = plan" using k by (auto simp: check_tables_def split: if_splits)
  have "p_Criteria ?p = Some (CritBool (w_Expr w))" "r_Type (p_Rule ?p) \<noteq> DefaultRuleType"
    using assms(2) by (simp_all add: new_plan_def)
  from calRouteIndexs_bool [OF c this] obtain idx e' p1 where
    g: "getTableIndexByBoolExpr loc [] (w_Expr w) ?p = Inr (idx, e', p1)" and
    pl: "p2 = p1\<lparr>p_Criteria := Some (CritBool e'), p_RouteTableIndexs := idx,
                 p_RouteNodeIndexs := TindexsToNindexs mo p1 idx\<rparr>" .
  show thesis
    using g pl k w' p2 by (intro that [of idx e' p1]) (auto simp: check_tables_def split: if_splits)
qed

text \<open>The planner changes nothing of the plan but the groups and the pointer to the \<open>IN\<close>.\<close>

definition only_groups :: "plan \<Rightarrow> (indexs \<times> plan) res \<Rightarrow> bool" where
  "only_groups plan m \<longleftrightarrow> (\<forall>idx p. m = Inr (idx, p) \<longrightarrow> (\<exists>g. p = plan\<lparr>p_SubTableValueGroups := g\<rparr>))"

lemma only_groups_intros:
  "only_groups plan (keep plan l)"
  "only_groups plan (getTableIndexsByTuple loc plan v)"
  "(\<And>x. only_groups plan (f x)) \<Longrightarrow> only_groups plan (rbind m f)"
  "only_groups plan (rbind (getTableIndexsByTuple loc plan v) (\<lambda>(l, p). keep p (notList p l)))"
  by (auto simp: only_groups_def keep_def getTableIndexsByTuple_def rbind_eq_Inr_iff
      intro: exI [of _ "p_SubTableValueGroups plan"])

lemma getTableIndexs_only_groups: "only_groups plan (getTableIndexs loc plan e)"
  unfolding getTableIndexs_def getHashShardTableIndex_def getRangeShardTableIndex_def getDateShardTableIndex_def
    Let_def
  by (cases e) (auto intro!: only_groups_intros)

lemma route_plan:
  assumes "getTableIndexByBoolExpr loc path e plan = Inr (idx, e', plan')"
  shows "\<exists>g q. plan' = plan\<lparr>p_SubTableValueGroups := g, p_InRightToReplace := q\<rparr>"
  using assms
proof (induction e arbitrary: path plan idx e' plan' rule: bool_tree_induct)
  case (And a b)
  from And.prems obtain la a' p1 lb b' where
    a: "getTableIndexByBoolExpr loc (path @ [GoLeft]) a plan = Inr (la, a', p1)" and
    b: "getTableIndexByBoolExpr loc (path @ [GoRight]) b p1 = Inr (lb, b', plan')"
    by (auto simp: rbind_eq_Inr_iff)
  from And.IH(1) [OF a] And.IH(2) [OF b] show ?case by force
next
  case (Or a b)
  from Or.prems obtain la a' p1 lb b' where
    a: "getTableIndexByBoolExpr loc (path @ [GoLeft]) a plan = Inr (la, a', p1)" and
    b: "getTableIndexByBoolExpr loc (path @ [GoRight]) b p1 = Inr (lb, b', plan')"
    by (auto simp: rbind_eq_Inr_iff)
  from Or.IH(1) [OF a] Or.IH(2) [OF b] show ?case by force
next
  case (Paren a)
  then show ?case by (auto simp: rbind_eq_Inr_iff)
next
  case (Leaf e)
  have same: "\<exists>g q. p = p\<lparr>p_SubTableValueGroups := g, p_InRightToReplace := q\<rparr>" for p :: plan
    by (intro exI [of _ "p_SubTableValueGroups p"] exI [of _ "p_InRightToReplace p"]) simp
  have get: "\<exists>g q. p' = plan\<lparr>p_SubTableValueGroups := g, p_InRightToReplace := q\<rparr>"
    if "getTableIndexs loc p x = Inr (i, p')" and "p = plan \<or> p = plan\<lparr>p_InRightToReplace := Some path\<rparr>" for p x i p'
  proof -
    from that(1) getTableIndexs_only_groups [of p loc x] obtain g where g: "p' = p\<lparr>p_SubTableValueGroups := g\<rparr>"
      by (auto simp: only_groups_def)
    from that(2) show ?thesis
    proof
      assume "p = plan"
      then show ?thesis by (intro exI [of _ g] exI [of _ "p_InRightToReplace plan"]) (simp add: g)
    next
      assume "p = plan\<lparr>p_InRightToReplace := Some path\<rparr>"
      then show ?thesis by (intro exI [of _ g] exI [of _ "Some path"]) (simp add: g)
    qed
  qed
  show ?case
    using Leaf
    by (cases e) (auto simp: with_expr_def rbind_eq_Inr_iff Let_def intro: same get split: prod.splits if_splits)
qed

lemma route_rule: "getTableIndexByBoolExpr loc path e plan = Inr (idx, e', plan') \<Longrightarrow> p_Rule plan' = p_Rule plan"
  by (drule route_plan) auto

text \<open>
  What the select, update and delete plans have in common: \<open>whole\<close> is the statement's text
  and \<open>f\<close> the text for one table, both for the plan and where clause of the route.
\<close>

lemma where_plan:
  assumes "rbind (route_where mo loc (new_plan rule) (Some w)) (\<lambda>(p, w'). generate_sqls r p (whole w') (f p w')) = Inr plan"
    and "r_Type rule \<noteq> DefaultRuleType"
  obtains e' p1 where
    "getTableIndexByBoolExpr loc [] (w_Expr w) ((new_plan rule)\<lparr>p_Criteria := Some (CritBool (w_Expr w))\<rparr>) =
       Inr (p_RouteTableIndexs plan, e', p1)"
    "p_Rule plan = rule" "p_Criteria plan = Some (CritBool e')"
    "p_SubTableValueGroups plan = p_SubTableValueGroups p1" "p_InRightToReplace plan = p_InRightToReplace p1"
    "p_RouteNodeIndexs plan = TindexsToNindexs mo plan (p_RouteTableIndexs plan)"
    "\<And>n. map_list (p_RewrittenSqls plan) n =
       map (f (plan\<lparr>p_RewrittenSqls := []\<rparr>) (Some (Where (w_Type w) e')))
         (filter (\<lambda>t. sent_node r plan t = Inr n) (p_RouteTableIndexs plan))"
    "\<And>t. t \<in> set (p_RouteTableIndexs plan) \<Longrightarrow> \<exists>n. sent_node r plan t = Inr n"
    "p_RouteTableIndexs plan \<noteq> []"
proof -
  let ?p = "(new_plan rule)\<lparr>p_Criteria := Some (CritBool (w_Expr w))\<rparr>"
  from assms(1) obtain p w' where rw: "route_where mo loc (new_plan rule) (Some w) = Inr (p, w')"
    and g: "generate_sqls r p (whole w') (f p w') = Inr plan"
    by (auto simp: rbind_eq_Inr_iff)
  from route_where_some [OF rw assms(2)] obtain idx e' p1 where
    e: "getTableIndexByBoolExpr loc [] (w_Expr w) ?p = Inr (idx, e', p1)" and
    p: "p = p1\<lparr>p_Criteria := Some (CritBool e'), p_RouteTableIndexs := idx,
              p_RouteNodeIndexs := TindexsToNindexs mo p1 idx\<rparr>" and
    ne: "idx \<noteq> [] \<or> r_Type (p_Rule p1) = DefaultRuleType" and w': "w' = Some (Where (w_Type w) e')" .
  have rule: "p_Rule p1 = rule" using route_rule [OF e] by (simp add: new_plan_def)
  then have ne': "p_RouteTableIndexs p \<noteq> []" using ne assms(2) by (simp add: p)
  have "p_RewrittenSqls p1 = []" using route_plan [OF e] by (auto simp: new_plan_def)
  then have pr: "p_RewrittenSqls p = []" by (simp add: p)
  obtain s where pl: "plan = p\<lparr>p_RewrittenSqls := s\<rparr>" using generate_sqls_tables(3) [OF g ne'] by blast
  have p0: "plan\<lparr>p_RewrittenSqls := []\<rparr> = p" unfolding pl using pr by (cases p) simp
  have node: "sent_node r plan t = sent_node r p t" for t
    by (simp add: sent_node_def pl)
  have fields: "p_RouteTableIndexs plan = idx" "p_Rule plan = rule" "p_Criteria plan = Some (CritBool e')"
    "p_SubTableValueGroups plan = p_SubTableValueGroups p1" "p_InRightToReplace plan = p_InRightToReplace p1"
    "p_RouteNodeIndexs plan = TindexsToNindexs mo plan idx" "p_RouteTableIndexs p = idx"
    using rule by (simp_all add: pl p TindexsToNindexs_def)
  have sql: "map_list (p_RewrittenSqls plan) n =
      map (f (plan\<lparr>p_RewrittenSqls := []\<rparr>) (Some (Where (w_Type w) e')))
        (filter (\<lambda>t. sent_node r plan t = Inr n) idx)" for n
    unfolding p0 node using generate_sqls_tables(1) [OF g ne', of n] by (simp only: w' fields(7))
  have tn: "\<exists>n. sent_node r plan t = Inr n" if "t \<in> set idx" for t
    unfolding node using generate_sqls_tables(2) [OF g ne'] that by (auto simp: fields(7))
  show thesis
    using that [of e' p1] e fields sql tn ne' unfolding fields(1,7) by blast
qed

lemma select_plan_route:
  assumes b: "buildSelectPlan mo loc r db stmt = (r', Inr plan)"
    and "select_table stmt = Inr tn" "GetRule r db tn = (rule, r1)"
    and "s_Where stmt = Some w" "r_Type rule \<noteq> DefaultRuleType"
  obtains e' p1 node where
    "getTableIndexByBoolExpr loc [] (w_Expr w) ((new_plan rule)\<lparr>p_Criteria := Some (CritBool (w_Expr w))\<rparr>) =
       Inr (p_RouteTableIndexs plan, e', p1)"
    "p_Rule plan = rule" "p_RouteNodeIndexs plan = TindexsToNindexs mo plan (p_RouteTableIndexs plan)"
    "s_Where node = Some (Where (w_Type w) e')"
    "\<And>n. map_list (p_RewrittenSqls plan) n =
       map (rewriteSelectSql (plan\<lparr>p_RewrittenSqls := []\<rparr>) node)
         (filter (\<lambda>t. sent_node r' plan t = Inr n) (p_RouteTableIndexs plan))"
    "\<And>t. t \<in> set (p_RouteTableIndexs plan) \<Longrightarrow> \<exists>n. sent_node r' plan t = Inr n"
proof -
  let ?node = "\<lambda>w. Select (s_Comments stmt) (s_Distinct stmt) (s_SelectExprs stmt) (s_From stmt) w
      (s_GroupBy stmt) (s_Having stmt) (s_OrderBy stmt) (s_Limit stmt) (s_Lock stmt)"
  from b assms(2-4) have "rbind (route_where mo loc (new_plan rule) (Some w))
      (\<lambda>(p, w'). generate_sqls r' p (fmt_select (?node w')) (rewriteSelectSql p (?node w'))) = Inr plan"
    by (auto simp: buildSelectPlan_def generateSelectSql_def)
  from where_plan [OF this assms(5)] that [of _ _ "?node (Some (Where (w_Type w) _))"] show thesis
    by (metis selectnode.sel(5))
qed

lemma update_plan_route:
  assumes b: "buildUpdatePlan mo loc r db stmt = (r', Inr plan)"
    and "GetRule r db (format_tablename (upd_Table stmt)) = (rule, r1)"
    and "upd_Where stmt = Some w" "r_Type rule \<noteq> DefaultRuleType"
  obtains e' p1 where
    "getTableIndexByBoolExpr loc [] (w_Expr w) ((new_plan rule)\<lparr>p_Criteria := Some (CritBool (w_Expr w))\<rparr>) =
       Inr (p_RouteTableIndexs plan, e', p1)"
    "p_Rule plan = rule" "checkUpdateExprs rule (upd_Exprs stmt) = Inr ()"
    "\<And>n. map_list (p_RewrittenSqls plan) n =
       map (update_sql (stmt\<lparr>upd_Where := Some (Where (w_Type w) e')\<rparr>))
         (filter (\<lambda>t. sent_node r' plan t = Inr n) (p_RouteTableIndexs plan))"
    "\<And>t. t \<in> set (p_RouteTableIndexs plan) \<Longrightarrow> \<exists>n. sent_node r' plan t = Inr n"
proof -
  from b assms(2,3) have u: "checkUpdateExprs rule (upd_Exprs stmt) = Inr ()" and
    g: "rbind (route_where mo loc (new_plan rule) (Some w))
      (\<lambda>(p, w'). generate_sqls r' p (format_update (stmt\<lparr>upd_Where := w'\<rparr>)) (update_sql (stmt\<lparr>upd_Where := w'\<rparr>))) = Inr plan"
    by (auto simp: buildUpdatePlan_def generateUpdateSql_def rbind_eq_Inr_iff)
  from where_plan [OF g assms(4)] that u show thesis by metis
qed

lemma delete_plan_route:
  assumes b: "buildDeletePlan mo loc r db stmt = (r', Inr plan)"
    and "GetRule r db (format_tablename (del_Table stmt)) = (rule, r1)"
    and "del_Where stmt = Some w" "r_Type rule \<noteq> DefaultRuleType"
  obtains e' p1 where
    "getTableIndexByBoolExpr loc [] (w_Expr w) ((new_plan rule)\<lparr>p_Criteria := Some (CritBool (w_Expr w))\<rparr>) =
       Inr (p_RouteTableIndexs plan, e', p1)"
    "p_Rule plan = rule"
    "\<And>n. map_list (p_RewrittenSqls plan) n =
       map (delete_sql (stmt\<lparr>del_Where := Some (Where (w_Type w) e')\<rparr>))
         (filter (\<lambda>t. sent_node r' plan t = Inr n) (p_RouteTableIndexs plan))"
    "\<And>t. t \<in> set (p_RouteTableIndexs plan) \<Longrightarrow> \<exists>n. sent_node r' plan t = Inr n"
proof -
  from b assms(2,3) have
    g: "rbind (route_where mo loc (new_plan rule) (Some w))
      (\<lambda>(p, w'). generate_sqls r' p (format_delete (stmt\<lparr>del_Where := w'\<rparr>)) (delete_sql (stmt\<lparr>del_Where := w'\<rparr>))) = Inr plan"
    by (auto simp: buildDeletePlan_def generateDeleteSql_def)
  from where_plan [OF g assms(4)] that show thesis by metis
qed

section \<open>Values of an IN\<close>

text \<open>The pointer of a plan leads to an \<open>IN\<close> on the key in the condition that was planned.\<close>

lemma getTableIndexs_in_right:
  "getTableIndexs loc plan e = Inr (idx, plan') \<Longrightarrow> p_InRightToReplace plan' = p_InRightToReplace plan"
  using getTableIndexs_only_groups [of plan loc e] by (auto simp: only_groups_def)

lemma in_path:
  assumes "getTableIndexByBoolExpr loc path e plan = Inr (idx, e', plan')" and "p_Rule plan = r"
  shows "p_InRightToReplace plan' = p_InRightToReplace plan \<or>
    (\<exists>q l vs. p_InRightToReplace plan' = Some (path @ q) \<and> kind r l = EID_NODE
       \<and> subexpr q e' = Some (ComparisonExpr ''in'' l (ValTuple vs)))"
  using assms
proof (induction e arbitrary: path plan idx e' plan' rule: bool_tree_induct)
  case (And a b)
  from And.prems obtain la a' p1 lb b' where
    a: "getTableIndexByBoolExpr loc (path @ [GoLeft]) a plan = Inr (la, a', p1)" and
    b: "getTableIndexByBoolExpr loc (path @ [GoRight]) b p1 = Inr (lb, b', plan')" and e': "e' = AndExpr a' b'"
    by (auto simp: rbind_eq_Inr_iff)
  have r1: "p_Rule p1 = r" using route_rule [OF a] And.prems by simp
  from And.IH(1) [OF a And.prems(2)] And.IH(2) [OF b r1] show ?case
    unfolding e' by (metis append.assoc append_Cons append_Nil subexpr.simps(2,3))
next
  case (Or a b)
  from Or.prems obtain la a' p1 lb b' where
    a: "getTableIndexByBoolExpr loc (path @ [GoLeft]) a plan = Inr (la, a', p1)" and
    b: "getTableIndexByBoolExpr loc (path @ [GoRight]) b p1 = Inr (lb, b', plan')" and e': "e' = OrExpr a' b'"
    by (auto simp: rbind_eq_Inr_iff)
  have r1: "p_Rule p1 = r" using route_rule [OF a] Or.prems by simp
  from Or.IH(1) [OF a Or.prems(2)] Or.IH(2) [OF b r1] show ?case
    unfolding e' by (metis append.assoc append_Cons append_Nil subexpr.simps(4,5))
next
  case (Paren a)
  from Paren.prems obtain a' where
    a: "getTableIndexByBoolExpr loc (path @ [GoIn]) a plan = Inr (idx, a', plan')" and e': "e' = ParenBoolExpr a'"
    by (auto simp: rbind_eq_Inr_iff)
  from Paren.IH [OF a Paren.prems(2)] show ?case
    unfolding e' by (metis append.assoc append_Cons append_Nil subexpr.simps(6))
next
  case (Leaf e)
  show ?case
  proof (cases e)
    case (ComparisonExpr op l x)
    show ?thesis
    proof (cases "in_atom r op l x")
      case True
      let ?e = "ComparisonExpr op (snd (getValueType r l)) x"
      let ?p = "if op = ''in'' then plan\<lparr>p_InRightToReplace := Some path\<rparr> else plan"
      from Leaf.prems route_in_atom [OF True, of plan] have e': "e' = ?e" and
        g: "getTableIndexs loc ?p ?e = Inr (idx, plan')"
        by (auto simp: ComparisonExpr with_expr_def rbind_eq_Inr_iff Let_def simp del: getTableIndexByBoolExpr.simps)
      have x: "x = ValTuple (tuple_items x)" and k: "kind r (snd (getValueType r l)) = EID_NODE"
        using True kind_list_tuple [of r x] by (auto simp: in_atom_def getValueType_strip)
      have "p_InRightToReplace plan' = p_InRightToReplace ?p" by (rule getTableIndexs_in_right [OF g])
      then show ?thesis using x k by (auto simp: e' split: if_splits)
    next
      case False
      show ?thesis
      proof (cases "cmp_atom r op l x")
        case True
        with Leaf.prems route_cmp_atom [OF True, of plan] show ?thesis
          by (auto simp: ComparisonExpr with_expr_def rbind_eq_Inr_iff Let_def getTableIndexs_in_right
              simp del: getTableIndexByBoolExpr.simps)
      next
        case nc: False
        with Leaf.prems route_other_cmp [OF nc False, of plan loc path] show ?thesis
          by (auto simp: ComparisonExpr simp del: getTableIndexByBoolExpr.simps)
      qed
    qed
  next
    case (RangeCond op l lo hi)
    with Leaf.prems show ?thesis
      by (auto simp: with_expr_def rbind_eq_Inr_iff Let_def getTableIndexs_in_right split: prod.splits if_splits)
  qed (use Leaf in auto)
qed

text \<open>The groups of an \<open>IN\<close> list: a table gets the values that belong to it, in their order.\<close>

lemma byTuple_groups:
  assumes "getTableIndexsByTuple loc plan (ValTuple vs) = Inr (idx, plan')"
  shows "map_list (p_SubTableValueGroups plan') t = filter (\<lambda>v. getTableIndexByValue loc plan v = Inr t) vs"
    and "t \<in> set idx \<Longrightarrow> map_of (p_SubTableValueGroups plan') t = Some (filter (\<lambda>v. getTableIndexByValue loc plan v = Inr t) vs)"
proof -
  from assms obtain s where s: "tuple_groups loc plan vs [] = Inr s" and i: "idx = sort (map fst s)"
    and p: "plan' = plan\<lparr>p_SubTableValueGroups := s\<rparr>"
    by (auto simp: getTableIndexsByTuple_def rbind_eq_Inr_iff)
  show ml: "map_list (p_SubTableValueGroups plan') t = filter (\<lambda>v. getTableIndexByValue loc plan v = Inr t) vs"
    using tuple_groups_keys(4) [OF s] by (simp add: p)
  assume "t \<in> set idx"
  then have "t \<in> fst ` set s" by (simp add: i)
  then obtain l where "map_of s t = Some l" by (metis map_of_eq_None_iff option.exhaust)
  with ml show "map_of (p_SubTableValueGroups plan') t = Some (filter (\<lambda>v. getTableIndexByValue loc plan v = Inr t) vs)"
    by (simp add: map_list_def p)
qed

section \<open>Conditions of the generated statements\<close>

text \<open>
  The condition in the generated statements is the original one without the qualifiers of the
  rule's table at the places the planner looked at.
\<close>

fun strip_cond :: "rule \<Rightarrow> BoolExpr \<Rightarrow> BoolExpr" where
  "strip_cond r (AndExpr a b) = AndExpr (strip_cond r a) (strip_cond r b)"
| "strip_cond r (OrExpr a b) = OrExpr (strip_cond r a) (strip_cond r b)"
| "strip_cond r (ParenBoolExpr a) = ParenBoolExpr (strip_cond r a)"
| "strip_cond r (ComparisonExpr op l x) =
     (if op \<in> set comparison_ops \<or> op = ''in'' \<or> op = ''not in''
      then ComparisonExpr op (snd (getValueType r l)) (snd (getValueType r x)) else ComparisonExpr op l x)"
| "strip_cond r (RangeCond op l lo hi) =
     RangeCond op (snd (getValueType r l)) (snd (getValueType r lo)) (snd (getValueType r hi))"
| "strip_cond r e = e"

lemma route_strip:
  assumes "getTableIndexByBoolExpr loc path e plan = Inr (idx, e', plan')" and "p_Rule plan = r"
  shows "e' = strip_cond r e"
  using assms
proof (induction e arbitrary: path plan idx e' plan' rule: bool_tree_induct)
  case (And a b)
  from And.prems obtain la a' p1 lb b' where
    a: "getTableIndexByBoolExpr loc (path @ [GoLeft]) a plan = Inr (la, a', p1)" and
    b: "getTableIndexByBoolExpr loc (path @ [GoRight]) b p1 = Inr (lb, b', plan')" and e': "e' = AndExpr a' b'"
    by (auto simp: rbind_eq_Inr_iff)
  show ?case using And.IH(1) [OF a And.prems(2)] And.IH(2) [OF b] route_rule [OF a] And.prems(2) by (simp add: e')
next
  case (Or a b)
  from Or.prems obtain la a' p1 lb b' where
    a: "getTableIndexByBoolExpr loc (path @ [GoLeft]) a plan = Inr (la, a', p1)" and
    b: "getTableIndexByBoolExpr loc (path @ [GoRight]) b p1 = Inr (lb, b', plan')" and e': "e' = OrExpr a' b'"
    by (auto simp: rbind_eq_Inr_iff)
  show ?case using Or.IH(1) [OF a Or.prems(2)] Or.IH(2) [OF b] route_rule [OF a] Or.prems(2) by (simp add: e')
next
  case (Paren a)
  then show ?case by (auto simp: rbind_eq_Inr_iff)
next
  case (Leaf e)
  then show ?case
    by (cases e) (auto simp: with_expr_def rbind_eq_Inr_iff StringIn_def Let_def split: prod.splits if_splits)
qed

text \<open>The rows of an insert are checked and distributed over their tables.\<close>

lemma checkValuesType_length: "checkValuesType plan vals = Inr rows \<Longrightarrow> length rows = length vals"
proof (induction vals arbitrary: rows)
  case (Cons row vals)
  then obtain vs v where "row = TupleVals vs" "at_index vs 0 = Inr v" by (cases row) (auto simp: rbind_eq_Inr_iff)
  with Cons show ?case by (cases "getValueType (p_Rule plan) v") (auto simp: rbind_eq_Inr_iff split: if_splits)
qed simp

lemma route_rows_spec:
  assumes "route_rows mo loc plan0 vals = Inr plan" and "map_order mo" and "r_Type (p_Rule plan0) \<noteq> DefaultRuleType" and "p_Rows plan0 = []"
  obtains rows where "checkValuesType plan0 vals = Inr rows"
    and "set (p_RouteTableIndexs plan) = {t. \<exists>row \<in> set rows. row_table loc plan0 row = Inr t}" and "distinct (p_RouteTableIndexs plan)"
    and "\<forall>row \<in> set rows. \<exists>t \<in> set (p_RouteTableIndexs plan). row_table loc plan0 row = Inr t"
    and "\<And>t. map_list (p_Rows plan) t = filter (\<lambda>row. row_table loc plan0 row = Inr t) rows"
    and "p_Rule plan = p_Rule plan0"
proof -
  from assms(1) obtain rows where c: "checkValuesType plan0 vals = Inr rows"
    and r: "calRouteIndexs mo loc (plan0\<lparr>p_Criteria := Some (CritValues rows)\<rparr>) = Inr plan" (is "calRouteIndexs _ _ ?p = _")
    by (auto simp: route_rows_def rbind_eq_Inr_iff)
  from r assms(3) obtain l p1 where g: "getInsertTableIndex mo loc ?p rows = Inr (l, p1)"
    and p: "plan = p1\<lparr>p_RouteTableIndexs := l, p_RouteNodeIndexs := TindexsToNindexs mo p1 l\<rparr>"
    by (auto simp: calRouteIndexs_def rbind_eq_Inr_iff)
  have "getTableIndexByValue loc ?p = getTableIndexByValue loc plan0" by (rule ext) (simp add: getTableIndexByValue_def)
  then have t: "row_table loc ?p row = row_table loc plan0 row" for row
    by (simp add: row_table_def split: tuple.split)
  note s = getInsertTableIndex_spec [OF g assms(2), simplified, OF assms(4), unfolded t]
  show thesis by (rule that [OF c]) (use s in \<open>simp_all add: p\<close>)
qed

end
