(* ===== verification/Session.thy ===== *)
theory Session
  imports Go_Step Server Client_Wire Merge Build_Plan Sql_Parser
begin

text \<open>
  The session of a client: transactions (src/proxy/server/conn_tx.go), the connections to the nodes and the execution of
  planned statements (conn_query.go, conn_select.go), the choice of a database (conn_use.go), session variables (conn_set.go)
  and prepared statements (conn_stmt.go).

  Connections that a session has taken from a pool are objects with an identity: the map \<open>txConns\<close> and the map of a
  statement hold the same connection in a transaction. \<open>se_conns\<close> is the store of these connections, each with the node that
  it is from, and a pointer is an index into it. The maps of the source are association lists.

  The goroutines of other clients work on the same server. What they do before the \<open>k\<close>-th access of this session to a pool is the
  function \<open>w_others w k\<close>, about which nothing is assumed.
\<close>

unbundle bit_operations_syntax

section \<open>State\<close>

record session = client +
  se_proxy :: server
  se_schema :: "schema option"
  se_txConns :: "(nat \<times> nat) list"
  se_conns :: "(nat \<times> backend_conn) list"
  se_stmtId :: int
  se_stmts :: "(int \<times> statement client_stmt) list"
  se_configVer :: int
  se_tick :: nat

text \<open>
  What is outside the session: floating-point numbers, network, random numbers, clock, the choices of \<open>select\<close> between
  channels, other goroutines, the local time zone, Go's sort, the orders in which Go ranges over maps, files and the
  texts of library errors. The first argument of a function is the number of the access to the pools.
\<close>

record 'f world =
  w_fo :: "'f floats"
  w_dial :: "nat \<Rightarrow> nat \<Rightarrow> dialer"
  w_draw :: "nat \<Rightarrow> nat \<Rightarrow> int"
  w_now :: "nat \<Rightarrow> int"
  w_pick :: "nat \<Rightarrow> bool"
  w_others :: "nat \<Rightarrow> server \<Rightarrow> server"
  w_loc :: local_date
  w_sort :: "('f val list \<times> string) sorter"
  w_indexs :: "indexs \<Rightarrow> indexs"
  w_funcs :: "(int \<times> string) list \<Rightarrow> (int \<times> string) list"
  w_groups :: "(string \<times> 'f result_row) list \<Rightarrow> (string \<times> 'f result_row) list"
  w_conns :: "(string \<times> nat) list \<Rightarrow> (string \<times> nat) list"
  w_txConns :: "(nat \<times> nat) list \<Rightarrow> (nat \<times> nat) list"
  w_strings :: "(string \<times> string) list \<Rightarrow> (string \<times> string) list"
  w_nodes :: "(string \<times> nat) list \<Rightarrow> (string \<times> nat) list"
  w_files :: "string \<Rightarrow> string res"
  w_cwd :: "string res"
  w_writeConfig :: "config \<Rightarrow> unit res"
  w_writeFile :: "string \<Rightarrow> string \<Rightarrow> unit res"
  w_unix :: "int \<Rightarrow> string"
  w_lib :: "goerr \<Rightarrow> string"

type_synonym 'a sess = "(session, 'a) step"

section \<open>Connections of a session\<close>

text \<open>The next access to the pools: other goroutines come first.\<close>

definition next_access :: "'f world \<Rightarrow> session \<Rightarrow> session" where
  "next_access w s = s\<lparr>se_proxy := w_others w (se_tick s) (se_proxy s), se_tick := Suc (se_tick s)\<rparr>"

text \<open>\<open>n.GetMasterConn()\<close> and \<open>n.GetSlaveConn()\<close>: the new connection is put into the store.\<close>

definition take_conn ::
  "'f world \<Rightarrow> ('f floats \<Rightarrow> dialer \<Rightarrow> int \<Rightarrow> bool \<Rightarrow> node \<Rightarrow> (backend_conn res \<times> node) option) \<Rightarrow> nat option \<Rightarrow> nat sess" where
  "take_conn w get n s =
     (let k = se_tick s; s1 = next_access w s; sv = se_proxy s1 in
      case n of
        None \<Rightarrow> Done (Inl (Panic NilDereference)) s1
      | Some i \<Rightarrow>
          if length (sv_store sv) \<le> i then Done (Inl (Panic NilDereference)) s1
          else
            case get (w_fo w) (w_dial w k 0) (w_now w k) (w_pick w k) (sv_store sv ! i) of
              None \<Rightarrow> Waits
            | Some (r, nd) \<Rightarrow>
                let s2 = s1\<lparr>se_proxy := sv\<lparr>sv_store := (sv_store sv)[i := nd]\<rparr>\<rparr> in
                (case r of
                   Inl e \<Rightarrow> Done (Inl e) s2
                 | Inr co \<Rightarrow> Done (Inr (length (se_conns s2))) (s2\<lparr>se_conns := se_conns s2 @ [(i, co)]\<rparr>)))"

text \<open>A method call on a connection; after \<open>Close\<close> there is none, and the call panics.\<close>

definition on_conn :: "nat \<Rightarrow> (conn, 'a) act \<Rightarrow> 'a sess" where
  "on_conn h m s =
     (if length (se_conns s) \<le> h then Done (Inl (Panic NilDereference)) s
      else
        case se_conns s ! h of (i, b) \<Rightarrow>
          (case bk_Conn b of
             None \<Rightarrow> Done (Inl (Panic NilDereference)) s
           | Some co \<Rightarrow> (case m co of (r, co') \<Rightarrow> Done r (s\<lparr>se_conns := (se_conns s)[h := (i, b\<lparr>bk_Conn := Some co'\<rparr>)]\<rparr>))))"

text \<open>\<open>co.Close()\<close> of a connection that may be nil: it goes back to its database once.\<close>

definition give_back :: "'f world \<Rightarrow> nat option \<Rightarrow> unit sess" where
  "give_back w co s =
     (case co of
        None \<Rightarrow> Done (Inr ()) s
      | Some h \<Rightarrow>
          if length (se_conns s) \<le> h then Done (Inr ()) s
          else
            case se_conns s ! h of (i, b) \<Rightarrow>
              (case bk_Conn b of
                 None \<Rightarrow> Done (Inr ()) s
               | Some c \<Rightarrow>
                   let s1 = next_access w s;
                       push = abind (deref (bk_db b)) (\<lambda>d. store (bk_db b) (BackendConn_Close (w_now w (se_tick s)) c d)) in
                   Done (Inr ()) (s1\<lparr>se_proxy := snd (at_node i push (se_proxy s1)),
                     se_conns := (se_conns s1)[h := (i, b\<lparr>bk_Conn := None\<rparr>)]\<rparr>)))"

section \<open>Transactions\<close>

definition isAutoCommit :: "'z client_scheme \<Rightarrow> bool" where
  "isAutoCommit c = has_flag (cl_status c) SERVER_STATUS_AUTOCOMMIT"

definition isInTransaction :: "'z client_scheme \<Rightarrow> bool" where
  "isInTransaction c \<longleftrightarrow> has_flag (cl_status c) SERVER_STATUS_IN_TRANS \<or> \<not> isAutoCommit c"

definition set_flag :: "int \<Rightarrow> session \<Rightarrow> session" where
  "set_flag flag s = s\<lparr>cl_status := cl_status s OR flag\<rparr>"

definition clear_flag :: "int \<Rightarrow> session \<Rightarrow> session" where
  "clear_flag flag s = s\<lparr>cl_status := cl_status s AND NOT flag\<rparr>"

fun begin_all :: "'f world \<Rightarrow> (nat \<times> nat) list \<Rightarrow> unit sess" where
  "begin_all w [] = sret ()"
| "begin_all w ((n, h) # cs) = sbind (on_conn h (Begin (w_fo w))) (\<lambda>_. begin_all w cs)"

definition handleBegin :: "'f world \<Rightarrow> unit sess" where
  "handleBegin w =
     sbind (sget se_txConns) (\<lambda>tx.
     sbind (begin_all w (w_txConns w tx)) (\<lambda>_.
     sbind (supd (set_flag SERVER_STATUS_IN_TRANS)) (\<lambda>_. sact (writeOK None))))"

text \<open>The loops of \<open>commit\<close> and \<open>rollback\<close>: every connection is ended and given back; the last error is the result.\<close>

fun end_all :: "'f world \<Rightarrow> (conn, unit) act \<Rightarrow> (nat \<times> nat) list \<Rightarrow> goerr option \<Rightarrow> goerr option sess" where
  "end_all w m [] err = sret err"
| "end_all w m ((n, h) # cs) err =
     stry (on_conn h m) (\<lambda>r.
     sbind (give_back w (Some h)) (\<lambda>_. end_all w m cs (case r of Inl e \<Rightarrow> Some e | Inr _ \<Rightarrow> err)))"

definition end_tx :: "'f world \<Rightarrow> (conn, unit) act \<Rightarrow> unit sess" where
  "end_tx w m =
     sbind (supd (clear_flag SERVER_STATUS_IN_TRANS)) (\<lambda>_.
     sbind (sget se_txConns) (\<lambda>tx.
     sbind (end_all w m (w_txConns w tx) None) (\<lambda>err.
     sbind (supd (\<lambda>s. s\<lparr>se_txConns := []\<rparr>)) (\<lambda>_.
       case err of None \<Rightarrow> sret () | Some e \<Rightarrow> sfail e))))"

definition commit :: "'f world \<Rightarrow> unit sess" where
  "commit w = end_tx w (Commit (w_fo w))"

definition rollback :: "'f world \<Rightarrow> unit sess" where
  "rollback w = end_tx w (Rollback (w_fo w))"

definition handleCommit :: "'f world \<Rightarrow> unit sess" where
  "handleCommit w = sbind (commit w) (\<lambda>_. sact (writeOK None))"

definition handleRollback :: "'f world \<Rightarrow> unit sess" where
  "handleRollback w = sbind (rollback w) (\<lambda>_. sact (writeOK None))"

section \<open>Connections of a statement\<close>

text \<open>The results \<open>(co, err)\<close> of a call that returns a connection: with an error there may be a connection or not.\<close>

definition attempt :: "nat sess \<Rightarrow> (nat option \<times> goerr option) sess" where
  "attempt m = stry m (\<lambda>r. case r of Inl e \<Rightarrow> sret (None, Some e) | Inr h \<Rightarrow> sret (Some h, None))"

definition choose_conn :: "'f world \<Rightarrow> nat option \<Rightarrow> bool \<Rightarrow> (nat option \<times> goerr option) sess" where
  "choose_conn w n fromSlave =
     sbind (sget id) (\<lambda>s.
       if \<not> isInTransaction s then
         (if fromSlave then
            stry (take_conn w GetSlaveConn n) (\<lambda>r.
              case r of Inl e \<Rightarrow> attempt (take_conn w GetMasterConn n) | Inr h \<Rightarrow> sret (Some h, None))
          else attempt (take_conn w GetMasterConn n))
       else
         case (case n of None \<Rightarrow> None | Some i \<Rightarrow> map_of (se_txConns s) i) of
           Some h \<Rightarrow> sret (Some h, None)
         | None \<Rightarrow>
             sbind (attempt (take_conn w GetMasterConn n)) (\<lambda>(co, err).
               case co of
                 None \<Rightarrow> sret (None, err)
               | Some h \<Rightarrow>
                   stry (on_conn h (if \<not> isAutoCommit s then SetAutoCommit (w_fo w) 0 else Begin (w_fo w))) (\<lambda>r.
                     case r of
                       Inl e \<Rightarrow> sret (Some h, Some e)
                     | Inr _ \<Rightarrow> sbind (supd (\<lambda>s. s\<lparr>se_txConns := se_txConns s @ [(the n, h)]\<rparr>)) (\<lambda>_. sret (Some h, None)))))"

definition getBackendConn :: "'f world \<Rightarrow> nat option \<Rightarrow> bool \<Rightarrow> (nat option \<times> goerr option) sess" where
  "getBackendConn w n fromSlave =
     sbind (choose_conn w n fromSlave) (\<lambda>(co, err).
       case (err, co) of
         (Some e, _) \<Rightarrow> sret (co, Some e)
       | (None, None) \<Rightarrow> slift (Inl (Panic NilDereference))
       | (None, Some h) \<Rightarrow>
           sbind (sget id) (\<lambda>s.
           stry (on_conn h (UseDB (cl_db s))) (\<lambda>r.
             case r of
               Inl e \<Rightarrow> sbind (supd (\<lambda>s. s\<lparr>cl_db := []\<rparr>)) (\<lambda>_. sret (co, Some e))
             | Inr _ \<Rightarrow>
                 stry (on_conn h (SetCharset (w_fo w) (cl_charset s) (cl_collation s))) (\<lambda>r.
                   case r of Inl e \<Rightarrow> sret (co, Some e) | Inr _ \<Rightarrow> sret (co, None)))))"

definition node_name :: "session \<Rightarrow> nat option \<Rightarrow> string" where
  "node_name s n = (case n of None \<Rightarrow> [] | Some i \<Rightarrow> nc_Name (n_Cfg (sv_store (se_proxy s) ! i)))"

text \<open>The loop of \<open>getShardConns\<close>: it stops at the first error, and the connection of the failed call is not in the map.\<close>

fun shard_conns ::
  "'f world \<Rightarrow> bool \<Rightarrow> nat option list \<Rightarrow> (string \<times> nat) list \<Rightarrow> ((string \<times> nat) list \<times> goerr option) sess" where
  "shard_conns w fromSlave [] conns = sret (conns, None)"
| "shard_conns w fromSlave (n # ns) conns =
     sbind (getBackendConn w n fromSlave) (\<lambda>(co, err).
       case (err, co) of
         (None, Some h) \<Rightarrow>
           sbind (sget (\<lambda>s. node_name s n)) (\<lambda>name. shard_conns w fromSlave ns (AList.update name h conns))
       | _ \<Rightarrow> sret (conns, err))"

definition getShardConns :: "'f world \<Rightarrow> bool \<Rightarrow> plan \<Rightarrow> ((string \<times> nat) list option \<times> goerr option) sess" where
  "getShardConns w fromSlave plan =
     (if p_RouteNodeIndexs plan = [] then sret (None, Some ErrNoRouteNode)
      else
        sbind (slift (rmap (at_index (r_Nodes (p_Rule plan))) (p_RouteNodeIndexs plan))) (\<lambda>names.
        sbind (sget id) (\<lambda>s.
          let nodes = map (GetNode (se_proxy s)) names in
          if isInTransaction s \<and> (1 < length nodes
               \<or> length (se_txConns s) = 1 \<and> (case hd nodes of None \<Rightarrow> None | Some i \<Rightarrow> map_of (se_txConns s) i) = None)
          then sret (None, Some ErrTransInMulti)
          else sbind (shard_conns w fromSlave nodes []) (\<lambda>(conns, err). sret (Some conns, err)))))"

section \<open>Execution\<close>

definition executeInNode :: "'f world \<Rightarrow> nat \<Rightarrow> string \<Rightarrow> arg list \<Rightarrow> 'f reply sess" where
  "executeInNode w h sql args = on_conn h (Execute (w_fo w) sql args)"

text \<open>
  The goroutine of one connection: it executes its statements in order and stores a result or an error for each. A panic in
  it ends the process.
\<close>

definition crash :: "'a sess \<Rightarrow> 'a sess" where
  "crash m s = (case m s of Done (Inl (Panic p)) t \<Rightarrow> Crashes p | x \<Rightarrow> x)"

fun exec_sqls :: "'f world \<Rightarrow> nat \<Rightarrow> arg list \<Rightarrow> string list \<Rightarrow> (goerr + 'f reply) list sess" where
  "exec_sqls w h args [] = sret []"
| "exec_sqls w h args (v # vs) =
     stry (on_conn h (Execute (w_fo w) v args)) (\<lambda>r. sbind (exec_sqls w h args vs) (\<lambda>rs. sret (r # rs)))"

text \<open>
  The goroutines of a statement use different connections, so that the order in which they run is not observable. The order
  of the results is that of the map of connections.
\<close>

fun exec_nodes ::
  "'f world \<Rightarrow> (string \<times> nat) list \<Rightarrow> (string \<times> string list) list \<Rightarrow> arg list \<Rightarrow> (goerr + 'f reply) list sess" where
  "exec_nodes w [] sqls args = sret []"
| "exec_nodes w ((name, h) # conns) sqls args =
     sbind (crash (exec_sqls w h args (map_list sqls name))) (\<lambda>rs.
     sbind (exec_nodes w conns sqls args) (\<lambda>rs'. sret (rs @ rs')))"

text \<open>The first error of the results; slots that no goroutine filled are nil.\<close>

fun collect :: "(goerr + 'f reply) list \<Rightarrow> goerr + 'f reply list" where
  "collect [] = Inr []"
| "collect (Inl e # rs) = Inl e"
| "collect (Inr r # rs) = (case collect rs of Inl e \<Rightarrow> Inl e | Inr xs \<Rightarrow> Inr (r # xs))"

definition executeInMultiNodes ::
  "'f world \<Rightarrow> (string \<times> nat) list \<Rightarrow> (string \<times> string list) list \<Rightarrow> arg list \<Rightarrow> 'f reply option list sess" where
  "executeInMultiNodes w conns sqls args =
     (if length conns \<noteq> length sqls then sfail ErrConnNotEqual
      else if conns = [] then sfail ErrNoPlan
      else
        sbind (exec_nodes w (w_conns w conns) sqls args) (\<lambda>rs.
          let resultCount = sum_list (map (\<lambda>(_, s). length s) sqls) in
          case collect rs of
            Inl e \<Rightarrow> sfail e
          | Inr xs \<Rightarrow> sret (map Some xs @ replicate (resultCount - length xs) None)))"

text \<open>\<open>c.closeConn\<close> and \<open>c.closeShardConns\<close>; in a transaction the connections are kept.\<close>

definition client_closeConn :: "'f world \<Rightarrow> nat option \<Rightarrow> bool \<Rightarrow> unit sess" where
  "client_closeConn w co rlb =
     sbind (sget isInTransaction) (\<lambda>tx.
       if tx then sret ()
       else sdefer (give_back w co)
         (if rlb then (case co of None \<Rightarrow> slift (Inl (Panic NilDereference))
                               | Some h \<Rightarrow> stry (on_conn h (Rollback (w_fo w))) (\<lambda>_. sret ()))
          else sret ()))"

fun close_all :: "'f world \<Rightarrow> bool \<Rightarrow> (string \<times> nat) list \<Rightarrow> unit sess" where
  "close_all w rlb [] = sret ()"
| "close_all w rlb ((name, h) # conns) =
     sbind (if rlb then stry (on_conn h (Rollback (w_fo w))) (\<lambda>_. sret ()) else sret ()) (\<lambda>_.
     sbind (give_back w (Some h)) (\<lambda>_. close_all w rlb conns))"

definition closeShardConns :: "'f world \<Rightarrow> (string \<times> nat) list \<Rightarrow> bool \<Rightarrow> unit sess" where
  "closeShardConns w conns rlb =
     sbind (sget isInTransaction) (\<lambda>tx. if tx then sret () else close_all w rlb (w_conns w conns))"

section \<open>Outcomes of writing statements\<close>

definition reply_numbers :: "'f reply \<Rightarrow> int \<times> int \<times> int" where
  "reply_numbers r =
     (case r of OKResult st i a \<Rightarrow> (st, i, a) | RowsResult x \<Rightarrow> (re_Status x, re_InsertId x, re_AffectedRows x))"

fun merge_exec :: "'f reply option list \<Rightarrow> int \<times> int \<times> int \<Rightarrow> (int \<times> int \<times> int) res" where
  "merge_exec [] x = Inr x"
| "merge_exec (None # rs) x = Inl (Panic NilDereference)"
| "merge_exec (Some r # rs) (st, i, a) =
     (case reply_numbers r of (st', i', a') \<Rightarrow>
        merge_exec rs (st OR st', if i = 0 then i' else if i > i' then i' else i, (a + a') mod 2 ^ 64))"

definition mergeExecResult :: "'f reply option list \<Rightarrow> unit sess" where
  "mergeExecResult rs =
     sbind (slift (merge_exec rs (0, 0, 0))) (\<lambda>(st, i, a).
     sbind (if i > 0 then supd (\<lambda>s. s\<lparr>cl_lastInsertId := wrap64 i\<rparr>) else sret ()) (\<lambda>_.
     sbind (supd (\<lambda>s. s\<lparr>cl_affectedRows := wrap64 a\<rparr>)) (\<lambda>_. sact (writeOK (Some (st, i, a))))))"

text \<open>\<open>c.schema.rule.BuildPlan\<close>: the schema may be nil, and the plan may change the default rule of the router.\<close>

definition build_plan :: "'f world \<Rightarrow> statement \<Rightarrow> plan sess" where
  "build_plan w stmt =
     sbind (sget id) (\<lambda>s.
       case se_schema s of
         None \<Rightarrow> slift (Inl (Panic NilDereference))
       | Some sc \<Rightarrow>
           (case BuildPlan (w_indexs w) (w_loc w) (sc_rule sc) (cl_db s) stmt of
              (r', p) \<Rightarrow> sbind (supd (\<lambda>s. s\<lparr>se_schema := Some (sc\<lparr>sc_rule := r'\<rparr>)\<rparr>)) (\<lambda>_. slift p)))"

text \<open>
  \<open>handleExec\<close>. The arguments of the deferred call are evaluated where it is deferred: it rolls back only after an error of
  \<open>getShardConns\<close>.
\<close>

definition handleExec :: "'f world \<Rightarrow> statement \<Rightarrow> arg list \<Rightarrow> unit sess" where
  "handleExec w stmt args =
     sbind (build_plan w stmt) (\<lambda>plan.
     sbind (getShardConns w False plan) (\<lambda>(conns, err).
       sdefer (closeShardConns w (case conns of None \<Rightarrow> [] | Some c \<Rightarrow> c) (err \<noteq> None))
         (case err of
            Some e \<Rightarrow> sfail e
          | None \<Rightarrow>
              (case conns of
                 None \<Rightarrow> sact (writeOK None)
               | Some c \<Rightarrow> sbind (executeInMultiNodes w c (p_RewrittenSqls plan) args) mergeExecResult))))"

section \<open>Queries\<close>

text \<open>A result without rows, where the code reads rows, is a nil pointer.\<close>

fun all_rows :: "'f reply option list \<Rightarrow> 'f result list res" where
  "all_rows [] = Inr []"
| "all_rows (Some (RowsResult r) # rs) = rbind (all_rows rs) (\<lambda>xs. Inr (r # xs))"
| "all_rows (_ # rs) = Inl (Panic NilDereference)"

definition merge_and_write :: "'f world \<Rightarrow> 'f reply option list \<Rightarrow> SelectNode \<Rightarrow> unit sess" where
  "merge_and_write w rs stmt =
     sbind (slift (all_rows rs)) (\<lambda>xs.
     sbind (sget id) (\<lambda>s.
     sbind (slift (mergeSelectResult (w_fo w) (w_sort w) (cl_status s) (cl_lastInsertId s) (w_funcs w) (w_groups w) xs stmt)) (\<lambda>(st, r).
       sact (writeResultset st r))))"

definition handleSelect :: "'f world \<Rightarrow> SelectNode \<Rightarrow> arg list \<Rightarrow> unit sess" where
  "handleSelect w stmt args =
     sbind (build_plan w (SelectStmt stmt)) (\<lambda>plan.
     sbind (getShardConns w (case s_Comments stmt of c # _ \<Rightarrow> to_lower c \<noteq> ''/*master*/'' | [] \<Rightarrow> True) plan) (\<lambda>(conns, err).
       case err of
         Some e \<Rightarrow> sfail e
       | None \<Rightarrow>
           (case conns of
              None \<Rightarrow> sbind (sget cl_status) (\<lambda>st. sact (writeResultset st (newEmptyResultset stmt :: 'f resultset)))
            | Some c \<Rightarrow>
                stry (executeInMultiNodes w c (p_RewrittenSqls plan) args) (\<lambda>rs.
                sbind (closeShardConns w c False) (\<lambda>_.
                  case rs of Inl e \<Rightarrow> sfail e | Inr xs \<Rightarrow> merge_and_write w xs stmt)))))"

text \<open>\<open>handleSimpleSelect\<close>; an expression that is not a plain one is a nil pointer.\<close>

definition handleSimpleSelect :: "'f world \<Rightarrow> SelectExpr list \<Rightarrow> unit sess" where
  "handleSimpleSelect w exprs =
     sbind (slift (at_index exprs 0)) (\<lambda>e.
       case e of
         NonStarExpr x as \<Rightarrow>
           sbind (sget id) (\<lambda>s.
           sbind (slift (case buildResultset (w_fo w) [] [case as of Some (c # n) \<Rightarrow> c # n | _ \<Rightarrow> ''last_insert_id()'']
                           [[VStr (int_str (cl_lastInsertId s))]] of
                           Inr (Some r) \<Rightarrow> Inr r | Inl (Panic p) \<Rightarrow> Inl (Panic p) | _ \<Rightarrow> Inl (Panic NilDereference))) (\<lambda>r.
             sact (writeResultset (cl_status s) (r :: 'f resultset))))
       | _ \<Rightarrow> slift (Inl (Panic NilDereference)))"

text \<open>The calls that take one connection to a node, defer its return and go on without an error.\<close>

definition with_conn :: "'f world \<Rightarrow> nat option \<Rightarrow> bool \<Rightarrow> (goerr \<Rightarrow> goerr) \<Rightarrow> (nat \<Rightarrow> 'a sess) \<Rightarrow> 'a sess" where
  "with_conn w n fromSlave wrap f =
     sbind (getBackendConn w n fromSlave) (\<lambda>(co, err).
       sdefer (client_closeConn w co False)
         (case (err, co) of
            (Some e, _) \<Rightarrow> sfail (wrap e)
          | (None, Some h) \<Rightarrow> f h
          | (None, None) \<Rightarrow> slift (Inl (Panic NilDereference))))"

text \<open>\<open>co.UseDB(c.db)\<close> with the reset of the client's database after an error.\<close>

definition use_db :: "nat \<Rightarrow> string \<Rightarrow> (goerr \<Rightarrow> goerr) \<Rightarrow> unit sess" where
  "use_db h db wrap =
     stry (on_conn h (UseDB db)) (\<lambda>r.
       case r of Inl e \<Rightarrow> sbind (supd (\<lambda>s. s\<lparr>cl_db := []\<rparr>)) (\<lambda>_. sfail (wrap e)) | Inr _ \<Rightarrow> sret ())"

definition handleFieldList :: "'f world \<Rightarrow> string \<Rightarrow> unit sess" where
  "handleFieldList w data =
     (let index = IndexByte data (CHR 0x00) in
      sbind (slift (slice data 0 index)) (\<lambda>table.
      sbind (slift (slice_from data (index + 1))) (\<lambda>wildcard.
      sbind (sget id) (\<lambda>s.
        case se_schema s of
          None \<Rightarrow> sfail no_db_error
        | Some sc \<Rightarrow>
            (case GetRule (sc_rule sc) (cl_db s) table of
               (rule, r') \<Rightarrow>
                 sbind (supd (\<lambda>s. s\<lparr>se_schema := Some (sc\<lparr>sc_rule := r'\<rparr>)\<rparr>)) (\<lambda>_.
                 sbind (slift (at_index (r_Nodes rule) 0)) (\<lambda>nodeName.
                   with_conn w (GetNode (se_proxy s) nodeName) False id (\<lambda>h.
                     sbind (sget cl_db) (\<lambda>db.
                     sbind (use_db h db id) (\<lambda>_.
                     sbind (on_conn h (FieldList table wildcard)) (\<lambda>fs.
                     sbind (sget cl_status) (\<lambda>st. sact (writeFieldList st fs)))))))))))))"

section \<open>Database and session variables\<close>

definition handleUseDB :: "'f world \<Rightarrow> string \<Rightarrow> unit sess" where
  "handleUseDB w dbName =
     (if dbName = [] then sfail (Errorf ''must have database, the length of dbName is zero'')
      else
        sbind (sget id) (\<lambda>s.
          case se_schema s of
            None \<Rightarrow> sfail no_db_error
          | Some sc \<Rightarrow>
              sbind (slift (at_index (r_Nodes (rt_DefaultRule (sc_rule sc))) 0)) (\<lambda>nodeName.
                with_conn w (GetNode (se_proxy s) nodeName) True id (\<lambda>h.
                  sbind (use_db h dbName id) (\<lambda>_.
                  sbind (supd (\<lambda>s. s\<lparr>cl_db := dbName\<rparr>)) (\<lambda>_. sact (writeOK None)))))))"

text \<open>The loop of \<open>SET autocommit = 1\<close>: it stops at the first error, after which the other connections are not given back.\<close>

fun autocommit_all :: "'f world \<Rightarrow> (nat \<times> nat) list \<Rightarrow> unit sess" where
  "autocommit_all w [] = sret ()"
| "autocommit_all w ((n, h) # cs) =
     stry (on_conn h (SetAutoCommit (w_fo w) 1)) (\<lambda>r.
     sbind (give_back w (Some h)) (\<lambda>_.
       case r of
         Inl e \<Rightarrow> sbind (supd (\<lambda>s. s\<lparr>se_txConns := []\<rparr>)) (\<lambda>_. sfail (Errorf (''set autocommit error, '' @ error_text (w_lib w) e)))
       | Inr _ \<Rightarrow> autocommit_all w cs))"

definition quotes :: string where
  "quotes = [CHR 0x27, CHR 0x60, CHR 0x22]"

definition handleSetAutoCommit :: "'f world \<Rightarrow> ValExpr \<Rightarrow> unit sess" where
  "handleSetAutoCommit w val =
     (let flag = trim_set quotes (fmt_val val) in
      if (flag = ''0'' \<or> flag = ''1'') \<and> (case val of NumVal _ \<Rightarrow> False | _ \<Rightarrow> True) then sfail (Errorf ''set autocommit error'')
      else if to_upper flag = ''1'' \<or> to_upper flag = ''ON'' then
        sbind (supd (set_flag SERVER_STATUS_AUTOCOMMIT)) (\<lambda>_.
        sbind (supd (\<lambda>s. if has_flag (cl_status s) SERVER_STATUS_IN_TRANS then clear_flag SERVER_STATUS_IN_TRANS s else s)) (\<lambda>_.
        sbind (sget se_txConns) (\<lambda>tx.
        sbind (autocommit_all w (w_txConns w tx)) (\<lambda>_.
        sbind (supd (\<lambda>s. s\<lparr>se_txConns := []\<rparr>)) (\<lambda>_. sact (writeOK None))))))
      else if to_upper flag = ''0'' \<or> to_upper flag = ''OFF'' then
        sbind (supd (clear_flag SERVER_STATUS_AUTOCOMMIT)) (\<lambda>_. sact (writeOK None))
      else sfail (Errorf (''invalid autocommit flag '' @ flag)))"

definition handleSetNames :: "ValExpr \<Rightarrow> ValExpr option \<Rightarrow> unit sess" where
  "handleSetNames ch ci =
     (let charset = to_lower (trim_set quotes (fmt_val ch)) in
      if charset = ''null'' then sact (writeOK None)
      else
        sbind (sget se_proxy) (\<lambda>sv.
        sbind (case ci of
                 None \<Rightarrow>
                   (let charset = (if charset = ''default'' then sv_charset sv else charset) in
                    case map_of CharsetIds charset of
                      None \<Rightarrow> sfail (Errorf (''invalid charset '' @ charset))
                    | Some cid \<Rightarrow> sret (charset, cid))
               | Some c \<Rightarrow>
                   (let collate = to_lower (trim_set quotes (fmt_val c)) in
                    case map_of CollationNames collate of
                      None \<Rightarrow> sfail (Errorf (''invalid collation '' @ collate))
                    | Some cid \<Rightarrow> sret (charset, cid))) (\<lambda>(charset, cid).
        sbind (supd (\<lambda>s. s\<lparr>cl_charset := charset, cl_collation := cid\<rparr>)) (\<lambda>_. sact (writeOK None)))))"

definition autocommit_names :: "string list" where
  "autocommit_names = [''AUTOCOMMIT'', ''@@AUTOCOMMIT'', ''@@SESSION.AUTOCOMMIT'']"

definition charset_names :: "string list" where
  "charset_names =
     [''NAMES'', ''CHARACTER_SET_RESULTS'', ''@@CHARACTER_SET_RESULTS'', ''@@SESSION.CHARACTER_SET_RESULTS'',
      ''CHARACTER_SET_CLIENT'', ''@@CHARACTER_SET_CLIENT'', ''@@SESSION.CHARACTER_SET_CLIENT'',
      ''CHARACTER_SET_CONNECTION'', ''@@CHARACTER_SET_CONNECTION'', ''@@SESSION.CHARACTER_SET_CONNECTION'']"

definition handleSet :: "'f world \<Rightarrow> set_stmt \<Rightarrow> unit sess" where
  "handleSet w stmt =
     (case set_Exprs stmt of
        e # es \<Rightarrow>
          if 2 \<le> length es then sfail (Errorf (''must set one item once, not '' @ format_set stmt))
          else
            let k = to_upper (cn_Name (ue_Name e)) in
            if k \<in> set autocommit_names then handleSetAutoCommit w (ue_Expr e)
            else if k \<in> set charset_names then
              handleSetNames (ue_Expr e) (case es of e2 # _ \<Rightarrow> Some (ue_Expr e2) | [] \<Rightarrow> None)
            else sact (writeOK None)
      | [] \<Rightarrow> sfail (Errorf (''must set one item once, not '' @ format_set stmt)))"

section \<open>Prepared statements\<close>

text \<open>The verb \<open>%T\<close> for statements and arguments.\<close>

fun statement_type :: "statement \<Rightarrow> string" where
  "statement_type (SelectStmt _) = ''*sqlparser.Select''"
| "statement_type (UnionStmt _ _ _) = ''*sqlparser.Union''"
| "statement_type (SimpleSelectStmt _ _ _) = ''*sqlparser.SimpleSelect''"
| "statement_type (InsertStmt _) = ''*sqlparser.Insert''"
| "statement_type (UpdateStmt _) = ''*sqlparser.Update''"
| "statement_type (DeleteStmt _) = ''*sqlparser.Delete''"
| "statement_type (ReplaceStmt _) = ''*sqlparser.Replace''"
| "statement_type (TruncateStmt _) = ''*sqlparser.Truncate''"
| "statement_type (SetStmt _) = ''*sqlparser.Set''"
| "statement_type (DDLStmt _) = ''*sqlparser.DDL''"
| "statement_type BeginStmt = ''*sqlparser.Begin''"
| "statement_type CommitStmt = ''*sqlparser.Commit''"
| "statement_type RollbackStmt = ''*sqlparser.Rollback''"
| "statement_type (AdminStmt _) = ''*sqlparser.Admin''"
| "statement_type AdminHelpStmt = ''*sqlparser.AdminHelp''"
| "statement_type (UseDBStmt _) = ''*sqlparser.UseDB''"

fun arg_type :: "arg \<Rightarrow> string" where
  "arg_type ANil = ''<nil>''"
| "arg_type (AInt8 _) = ''int8''"
| "arg_type (AInt16 _) = ''int16''"
| "arg_type (AInt32 _) = ''int32''"
| "arg_type (AInt _) = ''int''"
| "arg_type (AInt64 _) = ''int64''"
| "arg_type (AUint8 _) = ''uint8''"
| "arg_type (AUint16 _) = ''uint16''"
| "arg_type (AUint32 _) = ''uint32''"
| "arg_type (AUint _) = ''uint''"
| "arg_type (AUint64 _) = ''uint64''"
| "arg_type (ABool _) = ''bool''"
| "arg_type (AFloat32 _) = ''float32''"
| "arg_type (AFloat64 _) = ''float64''"
| "arg_type (AString _) = ''string''"
| "arg_type (ABytes _) = ''[]uint8''"
| "arg_type (AOther t) = t"

definition prepare_error :: "'f world \<Rightarrow> goerr \<Rightarrow> goerr" where
  "prepare_error w e = Errorf (''prepare error '' @ error_text (w_lib w) e)"

definition trim_right :: "char \<Rightarrow> string \<Rightarrow> string" where
  "trim_right c s = rev (dropWhile (\<lambda>x. x = c) (rev s))"

definition handleStmtPrepare :: "'f world \<Rightarrow> string \<Rightarrow> unit sess" where
  "handleStmtPrepare w sql0 =
     (let sql = trim_right (CHR '';'') sql0 in
      sbind (sget id) (\<lambda>s.
        case se_schema s of
          None \<Rightarrow> sfail no_db_error
        | Some sc \<Rightarrow>
            stry (slift (sql_Parse sql)) (\<lambda>r.
              case r of
                Inl e \<Rightarrow> sfail (Errorf (''parse sql '' @ [CHR 0x22] @ sql @ [CHR 0x22] @ '' error''))
              | Inr stmt \<Rightarrow>
                  sbind (slift (at_index (r_Nodes (rt_DefaultRule (sc_rule sc))) 0)) (\<lambda>nodeName.
                  with_conn w (GetNode (se_proxy s) nodeName) False (prepare_error w) (\<lambda>h.
                    sbind (sget cl_db) (\<lambda>db.
                    sbind (use_db h db (prepare_error w)) (\<lambda>_.
                    stry (on_conn h (Prepare sql)) (\<lambda>r.
                      case r of
                        Inl e \<Rightarrow> sfail (prepare_error w e)
                      | Inr t \<Rightarrow>
                          sbind (sget se_stmtId) (\<lambda>i.
                          let cs = \<lparr>cs_id = i, cs_params = st_params t, cs_columns = st_columns t, cs_args = [], cs_s = stmt, cs_sql = sql\<rparr> in
                          sbind (supd (\<lambda>s. s\<lparr>se_stmtId := (i + 1) mod 2 ^ 32\<rparr>)) (\<lambda>_.
                          sbind (sact (writePrepare cs)) (\<lambda>_.
                          sbind (supd (\<lambda>s. s\<lparr>se_stmts := AList.update i (ResetParams cs) (se_stmts s)\<rparr>)) (\<lambda>_.
                            on_conn h (ClosePrepare (st_id t))))))))))))))"

definition write_reply :: "SelectNode option \<Rightarrow> int \<Rightarrow> 'f reply \<Rightarrow> unit sess" where
  "write_reply stmt st r =
     (case r of
        RowsResult x \<Rightarrow> sact (writeResultset st (re_Resultset x))
      | OKResult _ _ _ \<Rightarrow>
          (case stmt of
             Some sel \<Rightarrow> sact (writeResultset st (newEmptyResultset sel :: 'f resultset))
           | None \<Rightarrow> sact (writeOK (Some (reply_numbers r)))))"

text \<open>The node of the default rule.\<close>

definition default_node :: "session \<Rightarrow> nat option res" where
  "default_node s =
     (case se_schema s of
        None \<Rightarrow> Inl (Panic NilDereference)
      | Some sc \<Rightarrow>
          (case r_Nodes (rt_DefaultRule (sc_rule sc)) of
             [] \<Rightarrow> Inl (Err ErrNoDefaultNode)
           | n # _ \<Rightarrow> Inr (GetNode (se_proxy s) n)))"

definition handlePrepareSelect :: "'f world \<Rightarrow> SelectNode \<Rightarrow> string \<Rightarrow> arg list \<Rightarrow> unit sess" where
  "handlePrepareSelect w stmt sql args =
     sbind (sget default_node) (\<lambda>n. sbind (slift n) (\<lambda>node.
       with_conn w node True id (\<lambda>h.
         sbind (executeInNode w h sql args) (\<lambda>r.
         sbind (sget cl_status) (\<lambda>st. write_reply (Some stmt) (st OR reply_Status r) r)))))"

definition handlePrepareExec :: "'f world \<Rightarrow> string \<Rightarrow> arg list \<Rightarrow> unit sess" where
  "handlePrepareExec w sql args =
     sbind (sget default_node) (\<lambda>n. sbind (slift n) (\<lambda>node.
       with_conn w node False id (\<lambda>h.
         stry (executeInNode w h sql args) (\<lambda>r.
         sbind (client_closeConn w (Some h) False) (\<lambda>_.
           case r of
             Inl e \<Rightarrow> sfail e
           | Inr x \<Rightarrow> sbind (sget cl_status) (\<lambda>st. write_reply None (st OR reply_Status x) x))))))"

text \<open>An action on the prepared statement with an id, which is a shared object of the map.\<close>

definition on_stmt :: "int \<Rightarrow> (statement client_stmt, 'a) act \<Rightarrow> 'a sess" where
  "on_stmt i m s =
     (case map_of (se_stmts s) i of
        None \<Rightarrow> Done (Inl (Panic NilDereference)) s
      | Some cs \<Rightarrow> (case m cs of (r, cs') \<Rightarrow> Done r (s\<lparr>se_stmts := AList.update i cs' (se_stmts s)\<rparr>)))"

definition with_stmt :: "string \<Rightarrow> string \<Rightarrow> (int \<Rightarrow> statement client_stmt \<Rightarrow> 'a sess) \<Rightarrow> 'a sess" where
  "with_stmt data cmd f =
     sbind (slift (le_uint_at data 0 4)) (\<lambda>i.
     sbind (sget se_stmts) (\<lambda>m.
       case map_of m i of None \<Rightarrow> sfail (unknown_stmt cmd) | Some cs \<Rightarrow> f i cs))"

definition handleStmtExecute :: "'f world \<Rightarrow> string \<Rightarrow> unit sess" where
  "handleStmtExecute w data =
     (if length data < 9 then sfail ErrMalformPacket
      else
        with_stmt data ''stmt_execute'' (\<lambda>i cs.
          sbind (on_stmt i (read_execute data)) (\<lambda>_.
          sbind (sget (\<lambda>s. map_of (se_stmts s) i)) (\<lambda>cs'.
          let args = cs_args (the cs'); sql = cs_sql cs in
          stry (case cs_s cs of
                  SelectStmt sel \<Rightarrow> handlePrepareSelect w sel sql args
                | InsertStmt _ \<Rightarrow> handlePrepareExec w sql args
                | UpdateStmt _ \<Rightarrow> handlePrepareExec w sql args
                | DeleteStmt _ \<Rightarrow> handlePrepareExec w sql args
                | ReplaceStmt _ \<Rightarrow> handlePrepareExec w sql args
                | x \<Rightarrow> sfail (Errorf (''command '' @ statement_type x @ '' not supported now''))) (\<lambda>r.
          sbind (on_stmt i (aupd ResetParams)) (\<lambda>_.
            case r of Inl e \<Rightarrow> sfail e | Inr _ \<Rightarrow> sret ()))))))"

definition handleStmtSendLongData :: "string \<Rightarrow> unit sess" where
  "handleStmtSendLongData data =
     (if length data < 6 then sfail ErrMalformPacket
      else
        with_stmt data ''stmt_send_longdata'' (\<lambda>i cs.
          sbind (slift (le_uint_at data 4 2)) (\<lambda>paramId.
            if paramId \<ge> cs_params cs mod 2 ^ 16 then sfail (wrong_arguments ''stmt_send_longdata'')
            else
              sbind (slift (at_index (cs_args cs) paramId)) (\<lambda>a.
                case a of
                  ANil \<Rightarrow> on_stmt i (aupd (\<lambda>c. c\<lparr>cs_args := (cs_args c)[nat paramId := ABytes (drop 6 data)]\<rparr>))
                | ABytes b \<Rightarrow> on_stmt i (aupd (\<lambda>c. c\<lparr>cs_args := (cs_args c)[nat paramId := ABytes (b @ drop 6 data)]\<rparr>))
                | _ \<Rightarrow> sfail (Errorf (''invalid param long data type '' @ arg_type a))))))"

definition handleStmtReset :: "string \<Rightarrow> unit sess" where
  "handleStmtReset data =
     (if length data < 4 then sfail ErrMalformPacket
      else with_stmt data ''stmt_reset'' (\<lambda>i cs. sbind (on_stmt i (aupd ResetParams)) (\<lambda>_. sact (writeOK None))))"

definition handleStmtClose :: "string \<Rightarrow> unit sess" where
  "handleStmtClose data =
     (if length data < 4 then sret ()
      else sbind (slift (le_uint_at data 0 4)) (\<lambda>i. supd (\<lambda>s. s\<lparr>se_stmts := AList.delete i (se_stmts s)\<rparr>)))"

end
