(* ===== verification/Preshard.thy ===== *)
theory Preshard
  imports Session
begin

text \<open>
  The work on a statement before it is parsed (src/proxy/server/conn_preshard.go): a statement on the blacklist is refused; from
  the words of the others the proxy finds out whether the statement is on a sharded table. If not, it is sent unchanged to one
  node, the default one or the one that a comment names.
\<close>

record execute_db =
  ex_node :: "nat option"
  ex_slave :: bool
  ex_sql :: string

definition new_execute :: "string \<Rightarrow> bool \<Rightarrow> execute_db" where
  "new_execute sql slave = \<lparr>ex_node = None, ex_slave = slave, ex_sql = sql\<rparr>"

section \<open>Words\<close>

definition IsSqlSep :: "char \<Rightarrow> bool" where
  "IsSqlSep r \<longleftrightarrow> r \<in> set [CHR 0x20, CHR '','', CHR 0x09, CHR ''/'', CHR 0x0A, CHR 0x0D]"

text \<open>\<open>strings.FieldsFunc\<close>: the maximal parts without separators; \<open>word\<close> is the one being read, in reverse.\<close>

fun fields_func :: "(char \<Rightarrow> bool) \<Rightarrow> string \<Rightarrow> string \<Rightarrow> string list" where
  "fields_func sep word [] = (if word = [] then [] else [rev word])"
| "fields_func sep word (c # s) =
     (if sep c then (if word = [] then fields_func sep [] s else rev word # fields_func sep [] s)
      else fields_func sep (c # word) s)"

definition sql_tokens :: "string \<Rightarrow> string list" where
  "sql_tokens sql = fields_func IsSqlSep [] sql"

definition isBlacklistSql :: "string \<Rightarrow> bool sess" where
  "isBlacklistSql sql =
     sbind (slift (GetFingerprint sql)) (\<lambda>fp.
       sget (\<lambda>s. map_of (bl_sqls (current_blacklist (se_proxy s))) (GetMd5 fp) \<noteq> None))"

section \<open>The node of a statement\<close>

text \<open>
  \<open>router.GetRule(db, table) != router.DefaultRule\<close>: no other rule has the type of the default rule. The database is the one in
  front of the table, or that of the client.
\<close>

definition is_sharded :: "string \<times> string \<Rightarrow> bool sess" where
  "is_sharded dt =
     sbind (sget id) (\<lambda>s.
       case se_schema s of
         None \<Rightarrow> slift (Inl (Panic NilDereference))
       | Some sc \<Rightarrow>
           (case GetRule (sc_rule sc) (if fst dt \<noteq> [] then fst dt else cl_db s) (snd dt) of
              (rule, r') \<Rightarrow>
                sbind (supd (\<lambda>s. s\<lparr>se_schema := Some (sc\<lparr>sc_rule := r'\<rparr>)\<rparr>)) (\<lambda>_. sret (r_Type rule \<noteq> DefaultRuleType))))"

definition has_rules :: "bool sess" where
  "has_rules =
     sbind (sget se_schema) (\<lambda>sc.
       case sc of None \<Rightarrow> slift (Inl (Panic NilDereference)) | Some x \<Rightarrow> sret (rt_Rules (sc_rule x) \<noteq> []))"

text \<open>A comment in front of the statement names a node of the schema.\<close>

definition hinted_node :: "string list \<Rightarrow> nat option sess" where
  "hinted_node tokens =
     sbind (sget se_schema) (\<lambda>sc.
       case sc of
         None \<Rightarrow> slift (Inl (Panic NilDereference))
       | Some x \<Rightarrow>
           sbind (slift (at_index tokens 0)) (\<lambda>t.
           sbind (slift (at_index t 0)) (\<lambda>c. sret (if c = CHR ''*'' then map_of (sc_nodes x) (trim_set ''*'' t) else None))))"

definition setExecuteNode :: "string list \<Rightarrow> execute_db \<Rightarrow> execute_db sess" where
  "setExecuteNode tokens ex =
     sbind (if 2 \<le> length tokens \<and> hd (hd tokens) = CHR ''*'' then
              sbind (hinted_node tokens) (\<lambda>n.
                sret (ex\<lparr>ex_node := (if n = None then ex_node ex else n),
                         ex_slave := (if to_lower (tokens ! 1) = ''select'' then True else ex_slave ex)\<rparr>))
            else sret ex) (\<lambda>ex.
       if ex_node ex = None then
         sbind (sget default_node) (\<lambda>n. sbind (slift n) (\<lambda>node. sret (ex\<lparr>ex_node := node\<rparr>)))
       else sret ex)"

definition exec_at :: "string list \<Rightarrow> execute_db \<Rightarrow> execute_db option sess" where
  "exec_at tokens ex = sbind (setExecuteNode tokens ex) (\<lambda>ex. sret (Some ex))"

text \<open>
  The loop of \<open>getSelectExecDB\<close>: whether the statement needs the parser, because the first table behind \<open>from\<close> is sharded, or
  because it asks for the last insert id.
\<close>

fun select_needs_plan :: "string list \<Rightarrow> bool sess" where
  "select_needs_plan [] = sret False"
| "select_needs_plan (t # ts) =
     (case (to_lower t = ''from'', ts) of
        (True, table # _) \<Rightarrow> is_sharded (GetDBTable table)
      | _ \<Rightarrow> if to_lower t = ''last_insert_id()'' then sret True else select_needs_plan ts)"

definition getSelectExecDB :: "string \<Rightarrow> string list \<Rightarrow> execute_db option sess" where
  "getSelectExecDB sql tokens =
     sbind has_rules (\<lambda>rules.
     sbind (if rules then select_needs_plan (tl tokens) else sret False) (\<lambda>plan.
       if plan then sret None
       else exec_at tokens (new_execute sql (\<not> (2 < length tokens \<and> to_lower (tokens ! 1) = ''*master*'')))))"

text \<open>The loops that look for the table behind a word.\<close>

fun table_behind :: "string \<Rightarrow> (string \<Rightarrow> string \<times> string) \<Rightarrow> string list \<Rightarrow> bool sess" where
  "table_behind word split [] = sret False"
| "table_behind word split (t # ts) =
     (case (to_lower t = word, ts) of
        (True, table # _) \<Rightarrow> is_sharded (split table)
      | _ \<Rightarrow> table_behind word split ts)"

definition unless_sharded :: "bool sess \<Rightarrow> string \<Rightarrow> string list \<Rightarrow> execute_db option sess" where
  "unless_sharded sharded sql tokens =
     sbind has_rules (\<lambda>rules.
     sbind (if rules then sharded else sret False) (\<lambda>plan.
       if plan then sret None else exec_at tokens (new_execute sql False)))"

definition getDeleteExecDB :: "string \<Rightarrow> string list \<Rightarrow> execute_db option sess" where
  "getDeleteExecDB sql tokens = unless_sharded (table_behind ''from'' GetDBTable (tl tokens)) sql tokens"

definition getInsertOrReplaceExecDB :: "string \<Rightarrow> string list \<Rightarrow> execute_db option sess" where
  "getInsertOrReplaceExecDB sql tokens = unless_sharded (table_behind ''into'' GetInsertDBTable tokens) sql tokens"

text \<open>The table of an update stands before \<open>set\<close>; \<open>prev\<close> is the word before the one that is looked at.\<close>

fun table_before_set :: "string option \<Rightarrow> string list \<Rightarrow> bool sess" where
  "table_before_set prev [] = sret False"
| "table_before_set prev (t # ts) =
     (if to_lower t = ''set'' then
        (case prev of None \<Rightarrow> slift (Inl (Panic IndexOutOfRange)) | Some table \<Rightarrow> is_sharded (GetDBTable table))
      else table_before_set (Some t) ts)"

definition getUpdateExecDB :: "string \<Rightarrow> string list \<Rightarrow> execute_db option sess" where
  "getUpdateExecDB sql tokens = unless_sharded (table_before_set None tokens) sql tokens"

definition SET_KEY_WORDS :: "string list" where
  "SET_KEY_WORDS =
     [''names'', ''character_set_results'', ''@@character_set_results'', ''@@session.character_set_results'',
      ''character_set_client'', ''@@character_set_client'', ''@@session.character_set_client'',
      ''character_set_connection'', ''@@character_set_connection'', ''@@session.character_set_connection'',
      ''autocommit'', ''@@autocommit'', ''@@session.autocommit'']"

definition getSetExecDB :: "string \<Rightarrow> string list \<Rightarrow> execute_db option sess" where
  "getSetExecDB sql tokens =
     (if 2 \<le> length tokens then
        let words = str_split (CHR '' '') (hd (str_split (CHR ''='') sql)) in
        sbind (slift (at_index words 1)) (\<lambda>second.
          if to_lower second \<in> set SET_KEY_WORDS then sret None
          else if 3 \<le> length words \<and> (to_lower second = ''transaction'' \<or> to_lower (words ! 2) = ''transaction'')
          then sfail ErrIgnoreSQL
          else exec_at tokens (new_execute sql False))
      else exec_at tokens (new_execute sql False))"

text \<open>
  \<open>handleShowColumns\<close> lower-cases the words as it goes. For a sharded table it asks the first sub-table on its node; the database of
  the rule is the one of the client, or the word behind a second \<open>from\<close>.
\<close>

definition show_columns_of :: "string list \<Rightarrow> nat \<Rightarrow> execute_db \<Rightarrow> execute_db option sess" where
  "show_columns_of tokens i ex =
     (let table = snd (GetDBTable (tokens ! (i + 2))) in
      sbind (sget id) (\<lambda>s.
        case se_schema s of
          None \<Rightarrow> slift (Inl (Panic NilDereference))
        | Some sc \<Rightarrow>
            (case GetRule (sc_rule sc) (if i + 4 < length tokens then trim_set ''`'' (tokens ! (i + 4)) else cl_db s) table of
               (rule, r') \<Rightarrow>
                 sbind (supd (\<lambda>s. s\<lparr>se_schema := Some (sc\<lparr>sc_rule := r'\<rparr>)\<rparr>)) (\<lambda>_.
                   case (r_Type rule \<noteq> DefaultRuleType, r_SubTableIndexs rule) of
                     (True, tableIndex # _) \<Rightarrow>
                       sbind (slift (at_index (r_Nodes rule) (node_of_table rule tableIndex))) (\<lambda>nodeName.
                         sret (Some (ex\<lparr>ex_sql := strings_Join (tokens[i + 2 := table @ ''_'' @ fmt_0d 4 tableIndex]) '' '',
                                        ex_node := map_of (sc_nodes sc) nodeName\<rparr>)))
                   | _ \<Rightarrow> sret None))))"

fun handleShowColumns :: "nat \<Rightarrow> nat \<Rightarrow> string list \<Rightarrow> execute_db \<Rightarrow> (execute_db \<times> string list) sess" where
  "handleShowColumns 0 i tokens ex = sret (ex, tokens)"
| "handleShowColumns (Suc k) i tokens ex =
     (let tokens = tokens[i := to_lower (tokens ! i)] in
      if (tokens ! i = ''fields'' \<or> tokens ! i = ''columns'') \<and> i + 2 < length tokens \<and> to_lower (tokens ! (i + 1)) = ''from'' then
        sbind (show_columns_of tokens i ex) (\<lambda>r.
          case r of Some ex' \<Rightarrow> sret (ex', tokens) | None \<Rightarrow> handleShowColumns k (i + 1) tokens ex)
      else handleShowColumns k (i + 1) tokens ex)"

definition getShowExecDB :: "string \<Rightarrow> string list \<Rightarrow> execute_db option sess" where
  "getShowExecDB sql tokens =
     sbind (handleShowColumns (length tokens) 0 tokens (new_execute sql True)) (\<lambda>(ex, tokens). exec_at tokens ex)"

definition getTruncateExecDB :: "string \<Rightarrow> string list \<Rightarrow> execute_db option sess" where
  "getTruncateExecDB sql tokens =
     unless_sharded (if 2 \<le> length tokens then is_sharded (GetDBTable (last tokens)) else sret False) sql tokens"

definition GetExecDB :: "string list \<Rightarrow> string \<Rightarrow> execute_db option sess" where
  "GetExecDB tokens sql =
     (let t = to_lower (hd tokens) in
      if t = ''select'' then getSelectExecDB sql tokens
      else if t = ''delete'' then getDeleteExecDB sql tokens
      else if t = ''insert'' \<or> t = ''replace'' then getInsertOrReplaceExecDB sql tokens
      else if t = ''update'' then getUpdateExecDB sql tokens
      else if t = ''set'' then getSetExecDB sql tokens
      else if t = ''show'' then getShowExecDB sql tokens
      else if t = ''truncate'' then getTruncateExecDB sql tokens
      else if t \<in> set [''begin'', ''commit'', ''rollback'', ''admin'', ''use'', ''start'', ''transaction''] then sret None
      else exec_at tokens (new_execute sql False))"

definition GetTransExecDB :: "string list \<Rightarrow> string \<Rightarrow> execute_db option sess" where
  "GetTransExecDB tokens sql =
     sbind (if 2 \<le> length tokens \<and> hd (hd tokens) = CHR ''*'' then hinted_node tokens else sret None) (\<lambda>n.
       case n of
         None \<Rightarrow> GetExecDB tokens sql
       | Some i \<Rightarrow>
           sbind (sget se_txConns) (\<lambda>tx.
             if length tx = 1 \<and> map_of tx i = None then sfail ErrTransInMulti
             else sret (Some ((new_execute sql False)\<lparr>ex_node := n\<rparr>))))"

section \<open>Statements that are not planned\<close>

text \<open>
  \<open>preHandleShard\<close> returns whether the statement is done. The connection is given back by a deferred call; an error of the write
  comes after it.
\<close>

definition exec_unplanned :: "'f world \<Rightarrow> execute_db \<Rightarrow> bool sess" where
  "exec_unplanned w ex =
     with_conn w (ex_node ex) (ex_slave ex) id (\<lambda>h.
       sbind (executeInNode w h (ex_sql ex) []) (\<lambda>r.
       sbind (supd (\<lambda>s. case reply_numbers r of (_, i, a) \<Rightarrow> s\<lparr>cl_lastInsertId := wrap64 i, cl_affectedRows := wrap64 a\<rparr>)) (\<lambda>_.
       sbind (sget cl_status) (\<lambda>st.
       sbind (write_reply None st r) (\<lambda>_. sret True)))))"

definition preHandleShard :: "'f world \<Rightarrow> string \<Rightarrow> bool sess" where
  "preHandleShard w sql =
     (if sql = [] then sfail ErrCmdUnsupport
      else
        sbind (sget (\<lambda>s. bl_sqlsLen (current_blacklist (se_proxy s)))) (\<lambda>len.
        sbind (if len \<noteq> 0 then isBlacklistSql sql else sret False) (\<lambda>black.
          if black then sfail (NewError ER_UNKNOWN_ERROR ''sql in blacklist.'')
          else
            let tokens = sql_tokens sql in
            if tokens = [] then sfail ErrCmdUnsupport
            else
              sbind (sget isInTransaction) (\<lambda>tx.
              stry (if tx then GetTransExecDB tokens sql else GetExecDB tokens sql) (\<lambda>r.
                case r of
                  Inl e \<Rightarrow> if e = ErrIgnoreSQL then sbind (sact (writeOK None)) (\<lambda>_. sret True) else sfail e
                | Inr None \<Rightarrow> sret False
                | Inr (Some ex) \<Rightarrow> exec_unplanned w ex)))))"

end
