(* ===== verification/Admin.thy ===== *)
theory Admin
  imports Preshard
begin

text \<open>
  The commands of the administrator (src/proxy/server/conn_admin.go): \<open>admin node(...)\<close> and \<open>admin server(...)\<close> change and show the
  nodes, the lists of addresses and statements, and the settings of the server.
\<close>

section \<open>Commands on nodes\<close>

text \<open>An action on the server; the operations on nodes are accesses like those to the pools.\<close>

definition on_server :: "(server, 'a) act \<Rightarrow> 'a sess" where
  "on_server m s = (case m (se_proxy s) of (r, sv) \<Rightarrow> Done r (s\<lparr>se_proxy := sv\<rparr>))"

definition node_access :: "'f world \<Rightarrow> (nat \<Rightarrow> (server, unit) act) \<Rightarrow> unit sess" where
  "node_access w m = sbind (sget se_tick) (\<lambda>k. sbind (supd (next_access w)) (\<lambda>_. on_server (m k)))"

definition AddDatabase :: "'f world \<Rightarrow> string \<Rightarrow> string \<Rightarrow> string \<Rightarrow> unit sess" where
  "AddDatabase w nodeName role addr =
     (if role \<noteq> ''slave'' then sfail ErrCmdUnsupport
      else node_access w (\<lambda>k. server_AddSlave (w_fo w) (w_dial w k) (w_draw w k) (w_now w k) nodeName addr))"

definition DeleteDatabase :: "'f world \<Rightarrow> string \<Rightarrow> string \<Rightarrow> string \<Rightarrow> unit sess" where
  "DeleteDatabase w nodeName role addr =
     (if role \<noteq> ''slave'' then sfail ErrCmdUnsupport else node_access w (\<lambda>k. server_DeleteSlave (w_draw w k) nodeName addr))"

definition UpDatabase :: "'f world \<Rightarrow> string \<Rightarrow> string \<Rightarrow> string \<Rightarrow> unit sess" where
  "UpDatabase w nodeName role addr =
     (if role = ''master'' then node_access w (\<lambda>k. server_UpMaster (w_fo w) (w_dial w k) (w_now w k) nodeName addr)
      else if role = ''slave'' then node_access w (\<lambda>k. server_UpSlave (w_fo w) (w_dial w k) (w_now w k) nodeName addr)
      else sfail ErrCmdUnsupport)"

definition DownDatabase :: "'f world \<Rightarrow> string \<Rightarrow> string \<Rightarrow> string \<Rightarrow> unit sess" where
  "DownDatabase w nodeName role addr =
     (if role = ''master'' then node_access w (\<lambda>k. server_DownMaster nodeName addr)
      else if role = ''slave'' then node_access w (\<lambda>k. server_DownSlave nodeName addr)
      else sfail ErrCmdUnsupport)"

text \<open>The values of the first row; other rows than a list of values fail a type assertion.\<close>

definition first_row :: "insertrows \<Rightarrow> ValExpr list res" where
  "first_row rows =
     (case rows of
        RowsSelect _ \<Rightarrow> Inl (Panic TypeAssertion)
      | RowsValues [] \<Rightarrow> Inl (Err ErrCmdUnsupport)
      | RowsValues (TupleSubquery _ # _) \<Rightarrow> Inl (Panic TypeAssertion)
      | RowsValues (TupleVals vs # _) \<Rightarrow> Inr vs)"

definition unquoted :: "ValExpr \<Rightarrow> string" where
  "unquoted v = trim_set [CHR 0x27] (fmt_val v)"

definition handleNodeCmd :: "'f world \<Rightarrow> insertrows \<Rightarrow> unit sess" where
  "handleNodeCmd w rows =
     sbind (slift (first_row rows)) (\<lambda>vs.
       case map unquoted vs of
         [opt, nodeName, role, addr] \<Rightarrow>
           (let o' = to_lower opt in
            if o' = ''add'' then AddDatabase w nodeName role addr
            else if o' = ''del'' then DeleteDatabase w nodeName role addr
            else if o' = ''up'' then UpDatabase w nodeName role addr
            else if o' = ''down'' then DownDatabase w nodeName role addr
            else sfail ErrCmdUnsupport)
       | _ \<Rightarrow> sfail ErrCmdUnsupport)"

section \<open>Reports\<close>

definition report :: "'f world \<Rightarrow> string list \<Rightarrow> string list list \<Rightarrow> 'f resultset option sess" where
  "report w names rows = slift (buildResultset (w_fo w) [] names (map (map VStr) rows))"

definition the_schema :: "schema sess" where
  "the_schema = sbind (sget se_schema) (\<lambda>sc. case sc of None \<Rightarrow> slift (Inl (Panic NilDereference)) | Some x \<Rightarrow> sret x)"

definition handleShowProxyConfig :: "'f world \<Rightarrow> 'f resultset option sess" where
  "handleShowProxyConfig w =
     sbind the_schema (\<lambda>sc.
     sbind (sget se_proxy) (\<lambda>sv.
       let cfg = sv_cfg sv; ct = sv_counter sv in
       report w [''Key'', ''Value'']
         [[''Addr'', cf_Addr cfg],
          [''User_List'', strings_Join (map fst (w_strings w (sv_users sv))) '',''],
          [''LogPath'', cf_LogPath cfg],
          [''LogLevel'', cf_LogLevel cfg],
          [''LogSql'', sv_logSql sv ! sv_logSqlIndex sv],
          [''SlowLogTime'', int_str (GetSlowLogTime sv)],
          [''Nodes_Count'', int_str (int (length (sv_nodes sv)))],
          [''Nodes_List'', strings_Join (map fst (w_nodes w (sc_nodes sc))) '',''],
          [''ClientConns'', int_str (ct_ClientConns ct)],
          [''ClientQPS'', int_str (ct_OldClientQPS ct)],
          [''ErrLogTotal'', int_str (ct_OldErrLogTotal ct)],
          [''SlowLogTotal'', int_str (ct_OldSlowLogTotal ct)]]))"

definition db_row :: "'f world \<Rightarrow> string \<Rightarrow> node \<Rightarrow> string \<Rightarrow> nat option \<Rightarrow> string list res" where
  "db_row w name n ty p =
     rbind (fst (deref p n)) (\<lambda>d.
       case ConnCount d of (idle, cache, push, pop) \<Rightarrow>
         Inr [name, db_addr d, ty, State d, w_unix w (db_lastPing d), int_str (nc_MaxConnNum (n_Cfg n)), int_str idle,
              int_str cache, int_str push, int_str pop])"

definition node_rows :: "'f world \<Rightarrow> server \<Rightarrow> string \<times> nat \<Rightarrow> string list list res" where
  "node_rows w sv p =
     (let n = sv_store sv ! snd p in
      rbind (db_row w (fst p) n ''master'' (n_Master n)) (\<lambda>m.
      rbind (rmap (db_row w (fst p) n ''slave'') (filter (\<lambda>x. x \<noteq> None) (slaves n))) (\<lambda>ss. Inr (m # ss))))"

definition handleShowNodeConfig :: "'f world \<Rightarrow> 'f resultset option sess" where
  "handleShowNodeConfig w =
     sbind the_schema (\<lambda>sc.
     sbind (sget se_proxy) (\<lambda>sv.
     sbind (slift (rmap (node_rows w sv) (w_nodes w (sc_nodes sc)))) (\<lambda>rows.
       report w [''Node'', ''Address'', ''Type'', ''State'', ''LastPing'', ''MaxConn'', ''IdleConn'', ''CacheConns'',
         ''PushConnCount'', ''PopConnCount''] (concat rows))))"

text \<open>The default rule is that of the session's schema, also in the rows of other users.\<close>

definition handleShowSchemaConfig :: "'f world \<Rightarrow> 'f resultset option sess" where
  "handleShowSchemaConfig w =
     sbind (sget (\<lambda>s. cf_SchemaList (sv_cfg (se_proxy s)))) (\<lambda>cfgs.
     sbind (if cfgs = [] then sret [] else sbind the_schema (\<lambda>sc.
       let d = rt_DefaultRule (sc_rule sc) in
       sret (concat (map (\<lambda>c.
         [sch_User c, r_DB d, r_Table d, r_Type d, r_Key d, strings_Join (r_Nodes d) '', '', [], ''0'']
         # map (\<lambda>r. [sch_User c, cfg_DB r, cfg_Table r, cfg_Type r, cfg_Key r, strings_Join (cfg_Nodes r) '', '',
                     strings_Join (map int_str (cfg_Locations r)) '', '', int_str (cfg_TableRowLimit r)]) (sch_ShardRule c)) cfgs)))) (\<lambda>rows.
       report w [''User'', ''DB'', ''Table'', ''Type'', ''Key'', ''Nodes_List'', ''Locations'', ''TableRowLimit''] rows))"

definition or_empty :: "string list list \<Rightarrow> string list list" where
  "or_empty rows = (if rows = [] then [[[]]] else rows)"

definition handleShowAllowIPConfig :: "'f world \<Rightarrow> 'f resultset option sess" where
  "handleShowAllowIPConfig w =
     sbind (sget (\<lambda>s. GetAllowIps (se_proxy s))) (\<lambda>ips. report w [''AllowIP''] (or_empty (map (\<lambda>i. [i]) ips)))"

definition handleShowProxyStatus :: "'f world \<Rightarrow> 'f resultset option sess" where
  "handleShowProxyStatus w = sbind (sget (\<lambda>s. server_Status (se_proxy s))) (\<lambda>st. report w [''status''] [[st]])"

definition handleShowBlackSqlConfig :: "'f world \<Rightarrow> 'f resultset option sess" where
  "handleShowBlackSqlConfig w =
     sbind (sget (\<lambda>s. GetAllBlackSqls (w_strings w) (se_proxy s))) (\<lambda>bs.
       report w [''BlackListSql''] (or_empty (map (\<lambda>b. [b]) bs)))"

definition handleAdminShow :: "'f world \<Rightarrow> string \<Rightarrow> string \<Rightarrow> 'f resultset option sess" where
  "handleAdminShow w k v =
     (if k = ''proxy'' \<and> v = ''config'' then handleShowProxyConfig w
      else if k = ''proxy'' \<and> v = ''status'' then handleShowProxyStatus w
      else if k = ''node'' \<and> v = ''config'' then handleShowNodeConfig w
      else if k = ''schema'' \<and> v = ''config'' then handleShowSchemaConfig w
      else if k = ''allow_ip'' \<and> v = ''config'' then handleShowAllowIPConfig w
      else if k = ''black_sql'' \<and> v = ''config'' then handleShowBlackSqlConfig w
      else sfail ErrCmdUnsupport)"

section \<open>Changes\<close>

definition handleAdminChange :: "string \<Rightarrow> string \<Rightarrow> unit sess" where
  "handleAdminChange k v =
     (if v = [] then sfail ErrCmdUnsupport
      else if k = ''log_sql'' then on_server (ChangeLogSql v)
      else if k = ''slow_log_time'' then on_server (ChangeSlowLogTime v)
      else if k = ''proxy'' then on_server (ChangeProxy v)
      else sfail ErrCmdUnsupport)"

definition handleAdminAdd :: "string \<Rightarrow> string \<Rightarrow> unit sess" where
  "handleAdminAdd k v =
     (if v = [] then sfail ErrCmdUnsupport
      else if k = ''allow_ip'' then on_server (AddAllowIP (TrimSpace v))
      else if k = ''black_sql'' then on_server (AddBlackSql (TrimSpace v))
      else sfail ErrCmdUnsupport)"

definition handleAdminDelete :: "string \<Rightarrow> string \<Rightarrow> unit sess" where
  "handleAdminDelete k v =
     (if v = [] then sfail ErrCmdUnsupport
      else if k = ''allow_ip'' then on_server (DelAllowIP (TrimSpace v))
      else if k = ''black_sql'' then on_server (DelBlackSql (TrimSpace v))
      else sfail ErrCmdUnsupport)"

definition SaveProxyConfig :: "'f world \<Rightarrow> server \<Rightarrow> unit res" where
  "SaveProxyConfig w sv =
     rbind (w_writeConfig w (sv_cfg sv)) (\<lambda>_.
       case saveBlackSql (w_strings w) sv of None \<Rightarrow> Inr () | Some (path, text) \<Rightarrow> w_writeFile w path text)"

definition handleAdminSave :: "'f world \<Rightarrow> string \<Rightarrow> string \<Rightarrow> unit sess" where
  "handleAdminSave w k v =
     (if k = ''proxy'' \<and> v = ''config'' then sbind (sget (\<lambda>s. SaveProxyConfig w (se_proxy s))) slift else sfail ErrCmdUnsupport)"

definition handleServerCmd :: "'f world \<Rightarrow> insertrows \<Rightarrow> 'f resultset option sess" where
  "handleServerCmd w rows =
     sbind (slift (first_row rows)) (\<lambda>vs.
       case map unquoted vs of
         [opt, k, v] \<Rightarrow>
           (let o' = to_lower opt; done = (\<lambda>m. sbind m (\<lambda>_. sret None)) in
            if o' = ''show'' then handleAdminShow w k v
            else if o' = ''change'' then done (handleAdminChange k v)
            else if o' = ''add'' then done (handleAdminAdd k v)
            else if o' = ''del'' then done (handleAdminDelete k v)
            else if o' = ''save'' then done (handleAdminSave w k v)
            else sfail ErrCmdUnsupport)
       | _ \<Rightarrow> sfail ErrCmdUnsupport)"

section \<open>Dispatch of the commands\<close>

text \<open>The given columns must be those of the command in their order; more columns than those panic.\<close>

fun columns_match :: "string list \<Rightarrow> string list \<Rightarrow> unit res" where
  "columns_match [] cmd = Inr ()"
| "columns_match (c # cs) [] = Inl (Panic IndexOutOfRange)"
| "columns_match (c # cs) (d # ds) = (if c \<noteq> d then Inl (Err ErrCmdUnsupport) else columns_match cs ds)"

definition checkCmdOrder :: "string \<Rightarrow> SelectExpr list option \<Rightarrow> unit res" where
  "checkCmdOrder region columns =
     (let cs = (case columns of None \<Rightarrow> [] | Some es \<Rightarrow> map (format_selectexpr format_selectstmt) es) in
      if region = ''node'' then columns_match cs [''opt'', ''node'', ''k'', ''v'']
      else if region = ''server'' then columns_match cs [''opt'', ''k'', ''v'']
      else Inl (Err ErrCmdUnsupport))"

definition handleAdmin :: "'f world \<Rightarrow> admin_stmt \<Rightarrow> unit sess" where
  "handleAdmin w admin =
     (let region = format_tablename (adm_Region admin) in
      sbind (slift (checkCmdOrder region (adm_Columns admin))) (\<lambda>_.
      sbind (if to_lower region = ''node'' then sbind (handleNodeCmd w (adm_Rows admin)) (\<lambda>_. sret None)
             else if to_lower region = ''server'' then handleServerCmd w (adm_Rows admin)
             else sfail (Errorf (''admin '' @ region @ '' not supported now''))) (\<lambda>result.
        case result of
          Some r \<Rightarrow> sbind (sget cl_status) (\<lambda>st. sact (writeResultset st r))
        | None \<Rightarrow> sact (writeOK None))))"

definition help_row :: "string \<Rightarrow> string list list" where
  "help_row line =
     (case str_splitN2 (CHR ''|'') (TrimSpace line) of [a, b] \<Rightarrow> [[TrimSpace a, TrimSpace b]] | _ \<Rightarrow> [])"

text \<open>\<open>handleAdminHelp\<close>: the last line of the help file counts only if it ends with a newline.\<close>

definition handleAdminHelp :: "'f world \<Rightarrow> unit sess" where
  "handleAdminHelp w =
     sbind (slift (w_cwd w)) (\<lambda>cwd.
     sbind (slift (w_files w (cwd @ ''/doc/KingDoc/command_help''))) (\<lambda>text.
     sbind (report w [''command'', ''description''] (concat (map help_row (butlast (str_split (CHR 0x0A) text))))) (\<lambda>r.
     sbind (sget cl_status) (\<lambda>st.
       case r of None \<Rightarrow> slift (Inl (Panic NilDereference)) | Some x \<Rightarrow> sact (writeResultset st x)))))"

end
