(* ===== verification/Server_Inv.thy ===== *)
theory Server_Inv
  imports Server "HOL-Library.Sublist"
begin

text \<open>
  What stays true of a server: the map of nodes leads to nodes of these names, rules name every node once, every user has a
  schema. A server that is built from a configuration has these properties, and reloads and the commands of the
  administrator keep them. Operations on a node keep its configuration.
\<close>

section \<open>Invariant\<close>

definition store_names :: "server \<Rightarrow> string list" where
  "store_names sv = map (\<lambda>n. nc_Name (n_Cfg n)) (sv_store sv)"

definition named :: "(string \<times> nat) list \<Rightarrow> server \<Rightarrow> bool" where
  "named K sv \<longleftrightarrow> list_all (\<lambda>(name, i). i < length (sv_store sv) \<and> store_names sv ! i = name) K"

definition nodes_once :: "router \<Rightarrow> bool" where
  "nodes_once r \<longleftrightarrow>
     list_all (\<lambda>(_, m). list_all (\<lambda>(_, rule). distinct (r_Nodes rule)) m) (rt_Rules r) \<and> distinct (r_Nodes (rt_DefaultRule r))"

definition server_ok :: "server \<Rightarrow> bool" where
  "server_ok sv \<longleftrightarrow> named (sv_nodes sv) sv \<and> list_all (\<lambda>(_, sc). nodes_once (sc_rule sc)) (sv_schemas sv)"

definition rules_once :: "config \<Rightarrow> bool" where
  "rules_once cfg \<longleftrightarrow> list_all (\<lambda>sc. list_all (\<lambda>c. distinct (cfg_Nodes c)) (sch_ShardRule sc)) (cf_SchemaList cfg)"

definition users_served :: "server \<Rightarrow> bool" where
  "users_served sv \<longleftrightarrow> list_all (\<lambda>(u, _). GetSchema sv u \<noteq> None) (sv_users sv)"

section \<open>Nodes\<close>

lemma Cfg_updates:
  "keeps (\<lambda>n. n_Cfg n = c) (deref p)" "keeps (\<lambda>n. n_Cfg n = c) (store p d)" "keeps (\<lambda>n. n_Cfg n = c) (alloc d)"
  "keeps (\<lambda>n. n_Cfg n = c) (aupd (\<lambda>n. n\<lparr>n_Master := q\<rparr>))" "keeps (\<lambda>n. n_Cfg n = c) (aupd (\<lambda>n. n\<lparr>n_Slave := f n\<rparr>))"
  "keeps (\<lambda>n. n_Cfg n = c) (aupd (\<lambda>n. n\<lparr>n_SlaveWeights := ws n\<rparr>))" "keeps (\<lambda>n. n_Cfg n = c) (aupd (\<lambda>n. n\<lparr>n_Slave := f n, n_SlaveWeights := ws n\<rparr>))"
  "keeps (\<lambda>n. n_Cfg n = c) (aupd (\<lambda>n. n\<lparr>n_Slave := f n, n_SlaveWeights := ws n, n_RoundRobinQ := rq n\<rparr>))"
  by (auto simp: keeps_def deref_def store_def alloc_def aupd_def split: option.split)

lemma Cfg_loops:
  "keeps (\<lambda>n. n_Cfg n = c) (find_slave addr k ps)" "keeps (\<lambda>n. n_Cfg n = c) (slave_exists addr ps)" "keeps (\<lambda>n. n_Cfg n = c) (keep_slaves addr ws i ps)"
proof -
  show "keeps (\<lambda>n. n_Cfg n = c) (find_slave addr k ps)" by (induction ps arbitrary: k) (auto intro!: keeps_abind keeps_basic keeps_cases Cfg_updates)
  show "keeps (\<lambda>n. n_Cfg n = c) (slave_exists addr ps)" by (induction ps) (auto intro!: keeps_abind keeps_basic keeps_cases Cfg_updates)
  show "keeps (\<lambda>n. n_Cfg n = c) (keep_slaves addr ws i ps)" by (induction ps arbitrary: i) (auto intro!: keeps_abind keeps_basic keeps_cases Cfg_updates)
qed

lemma Cfg_balancer: "keeps (\<lambda>n. n_Cfg n = c) (InitBalancer draw)"
  by (auto simp: keeps_def InitBalancer_def abind_def act_defs Let_def split: sum.split prod.split)

lemma Cfg_opens: "keeps (\<lambda>n. n_Cfg n = c) (OpenDB fo dial now addr)" "keeps (\<lambda>n. n_Cfg n = c) (UpDB fo dial now addr)"
proof -
  show o: "keeps (\<lambda>n. n_Cfg n = c) (OpenDB fo dial now addr)" unfolding OpenDB_def by (intro keeps_abind keeps_basic Cfg_updates)
  show "keeps (\<lambda>n. n_Cfg n = c) (UpDB fo dial now addr)" unfolding UpDB_def
    by (intro keeps_abind o Cfg_updates) (auto intro!: keeps_abind keeps_basic Cfg_updates split: prod.split sum.split fail.split)
qed

lemmas Cfg_rules = keeps_abind keeps_basic keeps_cases keeps_atry Cfg_updates Cfg_loops Cfg_balancer Cfg_opens

lemma Cfg_operations:
  "keeps (\<lambda>n. n_Cfg n = c) (UpMaster fo dial now addr)" "keeps (\<lambda>n. n_Cfg n = c) (UpSlave fo dial now addr)"
  "keeps (\<lambda>n. n_Cfg n = c) (DownMaster addr st)" "keeps (\<lambda>n. n_Cfg n = c) (DownSlave addr st)"
  "keeps (\<lambda>n. n_Cfg n = c) (AddSlave fo dial draw now addr)" "keeps (\<lambda>n. n_Cfg n = c) (DeleteSlave draw addr)"
  unfolding UpMaster_def UpSlave_def DownMaster_def DownSlave_def AddSlave_def DeleteSlave_def Let_def
  by (intro Cfg_rules)+

lemma GetNextSlave_Cfg: "GetNextSlave n = (r, n') \<Longrightarrow> n_Cfg n' = n_Cfg n"
  by (auto simp: GetNextSlave_def abind_def aget_def aupd_def aret_def alift_def Let_def split: prod.splits sum.splits if_splits list.splits option.splits)

text \<open>
  What a session relies on when it asks a node for a connection: the node keeps its configuration, and a returned connection is
  open.
\<close>

locale lender =
  fixes get :: "'f floats \<Rightarrow> dialer \<Rightarrow> int \<Rightarrow> bool \<Rightarrow> node \<Rightarrow> (backend_conn res \<times> node) option"
  assumes lender_Cfg: "get fo dial now pick n = Some (r, n') \<Longrightarrow> n_Cfg n' = n_Cfg n"
    and lender_open: "get fo dial now pick n = Some (Inr co, n') \<Longrightarrow> bk_Conn co \<noteq> None"

lemma GetConn_open:
  "GetConn fo dial now pick p n = Some (r, n') \<Longrightarrow> n_Cfg n' = n_Cfg n \<and> (\<forall>co. r = Inr co \<longrightarrow> bk_Conn co \<noteq> None)"
  by (auto simp: GetConn_def deref_def store_def rbind_eq_Inr_iff split: option.splits if_splits sum.splits prod.splits)

interpretation master: lender GetMasterConn
  by unfold_locales (auto simp: GetMasterConn_def deref_def dest!: GetConn_open split: option.splits if_splits sum.splits prod.splits)

interpretation slave: lender GetSlaveConn
  by unfold_locales (auto simp: GetSlaveConn_def deref_def dest!: GetConn_open GetNextSlave_Cfg split: option.splits if_splits sum.splits prod.splits)

section \<open>Servers\<close>

lemma named_mono:
  assumes "named K sv" and "prefix (store_names sv) (store_names sv')"
  shows "named K sv'"
proof -
  obtain ys where ys: "store_names sv' = store_names sv @ ys" using assms(2) by (auto simp: prefix_def)
  have "length (sv_store sv) = length (store_names sv)" "length (sv_store sv') = length (store_names sv')"
    by (simp_all add: store_names_def)
  with assms(1) ys show ?thesis by (auto simp: named_def list_all_iff nth_append)
qed

lemma server_ok_names:
  assumes "server_ok sv" and "prefix (store_names sv) (store_names sv')" and "sv_nodes sv' = sv_nodes sv" and "sv_schemas sv' = sv_schemas sv"
  shows "server_ok sv'"
  using assms by (auto simp: server_ok_def intro: named_mono)

lemma prefix_store_update:
  "i < length (sv_store sv) \<Longrightarrow> n_Cfg nd = n_Cfg (sv_store sv ! i) \<Longrightarrow> prefix (store_names sv) (store_names (sv\<lparr>sv_store := (sv_store sv)[i := nd]\<rparr>))"
  by (simp add: store_names_def map_update list_update_same_conv [THEN iffD2])

lemma GetNode_named: "server_ok sv \<Longrightarrow> GetNode sv name = Some i \<Longrightarrow> named [(name, i)] sv"
  by (auto simp: server_ok_def named_def list_all_iff GetNode_def dest: map_of_SomeD)

lemma at_node_names:
  assumes "\<And>n. n_Cfg (snd (m n)) = n_Cfg n"
  shows "prefix (store_names sv) (store_names (snd (at_node i m sv)))" "sv_nodes (snd (at_node i m sv)) = sv_nodes sv"
    "sv_schemas (snd (at_node i m sv)) = sv_schemas sv"
  using assms by (auto simp: at_node_def prefix_store_update split: prod.split) (metis prefix_store_update snd_conv)+

lemma keeps_server_fields:
  assumes "\<And>sv. sv_store (g sv) = sv_store sv \<and> sv_nodes (g sv) = sv_nodes sv \<and> sv_schemas (g sv) = sv_schemas sv"
  shows "keeps server_ok (aupd g)"
  using assms by (intro keeps_aupd) (simp add: server_ok_def named_def store_names_def)

lemma keeps_settings:
  "keeps server_ok (ChangeProxy v)" "keeps server_ok (ChangeLogSql v)" "keeps server_ok (ChangeSlowLogTime v)"
  "keeps server_ok (AddAllowIP v)" "keeps server_ok (DelAllowIP v)" "keeps server_ok (AddBlackSql v)" "keeps server_ok (DelBlackSql v)"
  "keeps server_ok (set_slaves name f)"
  unfolding ChangeProxy_def ChangeLogSql_def ChangeSlowLogTime_def AddAllowIP_def DelAllowIP_def AddBlackSql_def DelBlackSql_def Let_def set_slaves_def
  by (intro keeps_abind keeps_basic keeps_server_fields keeps_cases; simp add: change_blacklist_def Let_def split: option.split prod.split)+

lemma keeps_on_node:
  assumes "\<And>c. keeps (\<lambda>n. n_Cfg n = c) m"
  shows "keeps server_ok (on_node before behind name m)"
proof -
  have "n_Cfg (snd (m n)) = n_Cfg n" for n using assms [of "n_Cfg n"] by (simp add: keeps_def)
  note n = at_node_names [of m, OF this]
  have "keeps server_ok (at_node i m)" for i
    unfolding keeps_def using n by (blast intro: server_ok_names)
  then show ?thesis unfolding on_node_def
    by (intro keeps_abind keeps_basic) (auto split: option.split)
qed

lemma keeps_node_commands:
  "keeps server_ok (server_AddSlave fo dial draw now name addr)" "keeps server_ok (server_DeleteSlave draw name addr)"
  "keeps server_ok (server_UpMaster fo dial now name addr)" "keeps server_ok (server_UpSlave fo dial now name addr)"
  "keeps server_ok (server_DownMaster name addr)" "keeps server_ok (server_DownSlave name addr)"
  unfolding server_AddSlave_def server_DeleteSlave_def server_UpMaster_def server_UpSlave_def server_DownMaster_def server_DownSlave_def Let_def
  by (intro keeps_abind keeps_on_node Cfg_operations keeps_settings)+

lemma nodes_once_rule:
  assumes "nodes_once r" and "GetRule r db table = (rule, r')"
  shows "distinct (r_Nodes rule)" and "nodes_once r'"
  using assms
  by (auto simp: GetRule_def nodes_once_def lookup_rule_def list_all_iff Let_def dest!: map_of_SomeD
      split: prod.splits option.splits list.splits)

lemma set_AList_update: "set (AList.update k v m) \<subseteq> insert (k, v) (set m)"
  by (induction m) auto

lemma add_rule_once:
  assumes "add_rule r rt = Inr rt'" and "nodes_once rt" and "distinct (r_Nodes r)"
  shows "nodes_once rt'"
proof -
  let ?P = "\<lambda>(_, m). list_all (\<lambda>(_, rule). distinct (r_Nodes rule)) m"
  have upd: "list_all ?P (AList.update db m (rt_Rules rt))" if "?P (db, m)" for db m
    using assms(2) that set_AList_update [of db m "rt_Rules rt"] by (fastforce simp: nodes_once_def list_all_iff)
  have "list_all (\<lambda>(_, rule). distinct (r_Nodes rule)) (AList.update (r_Table r) r m)" if "map_of (rt_Rules rt) (r_DB r) = Some m" for m
    using assms(2,3) that set_AList_update [of "r_Table r" r m] by (fastforce simp: nodes_once_def list_all_iff dest: map_of_SomeD)
  with upd assms show ?thesis
    by (auto simp: add_rule_def nodes_once_def split: option.splits)
qed

lemma rules_loop_once:
  "rules_loop cfgs rt = Inr rt' \<Longrightarrow> nodes_once rt \<Longrightarrow> list_all (\<lambda>c. distinct (cfg_Nodes c)) cfgs \<Longrightarrow> nodes_once rt'"
proof (induction cfgs arbitrary: rt)
  case (Cons cfg cfgs)
  then obtain q rt1 where "parseRule cfg = Inr q" "add_rule q rt = Inr rt1" "rules_loop cfgs rt1 = Inr rt'"
    by (auto simp: rbind_eq_Inr_iff split: if_splits)
  with Cons parseRule_names [of cfg q] add_rule_once [of q rt rt1] show ?case by simp
qed simp

lemma NewRouter_once:
  assumes "NewRouter cfg = Inr rt" and "list_all (\<lambda>c. distinct (cfg_Nodes c)) (sch_ShardRule cfg)"
  shows "nodes_once rt"
proof -
  let ?rt = "\<lparr>rt_Rules = [], rt_DefaultRule = NewDefaultRule (sch_Default cfg), rt_Nodes = sch_Nodes cfg\<rparr>"
  have "rules_loop (sch_ShardRule cfg) ?rt = Inr rt" using assms(1) by (auto simp: NewRouter_def split: if_splits)
  then show ?thesis by (rule rules_loop_once) (use assms(2) in \<open>simp_all add: nodes_once_def NewDefaultRule_def\<close>)
qed

lemma parseSchemaList_once:
  "parseSchemaList cs nodes m = Inr m' \<Longrightarrow> list_all (\<lambda>(_, sc). nodes_once (sc_rule sc)) m
    \<Longrightarrow> list_all (\<lambda>sc. list_all (\<lambda>c. distinct (cfg_Nodes c)) (sch_ShardRule sc)) cs \<Longrightarrow> list_all (\<lambda>(_, sc). nodes_once (sc_rule sc)) m'"
proof (induction cs arbitrary: m)
  case (Cons c cs)
  then obtain ns rule where n: "NewRouter c = Inr rule"
    "parseSchemaList cs nodes (AList.update (sch_User c) \<lparr>sc_nodes = ns, sc_rule = rule\<rparr> m) = Inr m'"
    by (auto simp: rbind_eq_Inr_iff split: if_splits)
  have "list_all (\<lambda>(_, sc). nodes_once (sc_rule sc)) (AList.update (sch_User c) \<lparr>sc_nodes = ns, sc_rule = rule\<rparr> m)"
    using Cons.prems(2,3) NewRouter_once [OF n(1)] set_AList_update [of "sch_User c" _ m] by (fastforce simp: list_all_iff)
  with Cons.IH [OF n(2)] Cons.prems(3) show ?case by simp
qed simp

lemma parseNode_Cfg: "parseNode fo dial draw now cfg = Inr n \<Longrightarrow> n_Cfg n = cfg"
proof -
  have s: "keeps (\<lambda>n. n_Cfg n = c) (parse_slaves fo d now k ss)" for c d k ss
    by (induction ss arbitrary: k) (auto intro!: Cfg_rules)
  have k: "keeps (\<lambda>n. n_Cfg n = c) (abind (ParseMaster fo (dial 0) now a) (\<lambda>_. ParseSlave fo (\<lambda>i. dial (i + 1)) draw now b))" for a b c
    unfolding ParseMaster_def ParseSlave_def by (intro Cfg_rules s)
  assume "parseNode fo dial draw now cfg = Inr n"
  then obtain t n0 where "abind (ParseMaster fo (dial 0) now (nc_Master cfg)) (\<lambda>_. ParseSlave fo (\<lambda>i. dial (i + 1)) draw now (nc_Slave cfg)) n0 = (Inr (), t)"
      "n = t\<lparr>n_Online := True\<rparr>" "n_Cfg n0 = cfg"
    unfolding parseNode_def by (auto split: prod.splits sum.splits)
  from keepsD [OF k this(3,1)] this(2) show ?thesis by simp
qed

lemma parseNodes_names:
  "parseNodes fo dial draw now base k vs m = Inr (m', ns) \<Longrightarrow>
     map (\<lambda>n. nc_Name (n_Cfg n)) ns = map nc_Name vs \<and> m' = m @ zip (map nc_Name vs) [base + k..<base + k + length vs]"
proof (induction vs arbitrary: k m m' ns)
  case (Cons v vs)
  then obtain n ns' where n: "parseNode fo (dial k) (draw k) now v = Inr n" "ns = n # ns'"
    "parseNodes fo dial draw now base (k + 1) vs (m @ [(nc_Name v, base + k)]) = Inr (m', ns')"
    by (auto simp: rbind_eq_Inr_iff split: if_splits prod.splits)
  have "[base + k..<base + k + length (v # vs)] = (base + k) # [base + (k + 1)..<base + (k + 1) + length vs]" by (subst upt_conv_Cons) simp_all
  with Cons.IH [OF n(3)] parseNode_Cfg [OF n(1)] n(2) show ?case by simp
qed simp

lemma parse_configE:
  assumes "parse_config fo dial draw now files mo base cfg = Inr (bs, ips, nodes, ns, schemas, users)" and "map_order mo" and "rules_once cfg"
  shows "map (\<lambda>n. nc_Name (n_Cfg n)) ns = map nc_Name (cf_Nodes cfg)" and "nodes = zip (map nc_Name (cf_Nodes cfg)) [base..<base + length (cf_Nodes cfg)]"
    and "list_all (\<lambda>(_, sc). nodes_once (sc_rule sc)) schemas" and "list_all (\<lambda>(u, _). map_of schemas u \<noteq> None) users"
proof -
  from assms(1) have p: "parseNodes fo dial draw now base 0 (cf_Nodes cfg) [] = Inr (nodes, ns)"
    and s: "parseSchemaList (cf_SchemaList cfg) nodes [] = Inr schemas" and c: "check_users mo users schemas = Inr ()"
    and u: "users = users_of (cf_UserList cfg)"
    by (auto simp: parse_config_def rbind_eq_Inr_iff)
  from parseNodes_names [OF p] show "map (\<lambda>n. nc_Name (n_Cfg n)) ns = map nc_Name (cf_Nodes cfg)"
    "nodes = zip (map nc_Name (cf_Nodes cfg)) [base..<base + length (cf_Nodes cfg)]" by simp_all
  from parseSchemaList_once [OF s] assms(3) show "list_all (\<lambda>(_, sc). nodes_once (sc_rule sc)) schemas" by (simp add: rules_once_def)
  have "distinct (map fst (foldl (\<lambda>m (u, p). AList.update u p m) m us))" if "distinct (map fst m)" for m :: "(string \<times> string) list" and us
    using that by (induction us arbitrary: m) (auto simp: distinct_update split: prod.split)
  then have "distinct users" unfolding u users_of_def by (simp add: distinct_map)
  then have "set (mo users) = set users" using assms(2) by (simp add: map_orderD)
  with c show "list_all (\<lambda>(u, _). map_of schemas u \<noteq> None) users"
    by (auto simp: check_users_def find_None_iff list_all_iff split: option.splits)
qed

lemma named_store: "store_names sv = old @ names \<Longrightarrow> length old = base \<Longrightarrow> named (zip names [base..<base + length names]) sv"
proof -
  assume n: "store_names sv = old @ names" and l: "length old = base"
  then have "length (sv_store sv) = base + length names" by (metis length_append length_map store_names_def)
  with n l show ?thesis by (auto simp: named_def list_all_iff in_set_zip nth_append)
qed

lemma NewServer_ok:
  assumes "NewServer fo dial draw now files mo listen cfg = Inr sv" and "map_order mo" and "rules_once cfg"
  shows "server_ok sv" and "users_served sv"
proof -
  let ?cfg = "if cf_Charset cfg = [] then cfg\<lparr>cf_Charset := DEFAULT_CHARSET\<rparr> else cfg"
  have once: "rules_once ?cfg" using assms(3) by (simp add: rules_once_def)
  from assms(1) obtain bs ips nodes ns schemas users
    where p: "parse_config fo dial draw now files mo 0 ?cfg = Inr (bs, ips, nodes, ns, schemas, users)"
      and s: "sv_store sv = ns" "sv_nodes sv = nodes" "sv_schemas sv = schemas" "sv_users sv = users"
    unfolding NewServer_def Let_def by (auto simp: rbind_eq_Inr_iff split: option.splits)
  note e = parse_configE [OF p assms(2) once]
  have "named nodes sv" unfolding e(2)
    using named_store [of sv "[]" "map nc_Name (cf_Nodes ?cfg)" 0] e(1) s(1) by (simp add: store_names_def)
  with e(3,4) s show "server_ok sv" "users_served sv"
    by (simp_all add: server_ok_def users_served_def GetSchema_def)
qed

lemma UpdateConfig_ok:
  assumes "server_ok sv" and "users_served sv" and "map_order mo" and "rules_once cfg"
  shows "server_ok (UpdateConfig fo dial draw now files mo cfg sv)" and "users_served (UpdateConfig fo dial draw now files mo cfg sv)"
    and "prefix (store_names sv) (store_names (UpdateConfig fo dial draw now files mo cfg sv))"
proof -
  let ?new = "UpdateConfig fo dial draw now files mo cfg sv"
  have "server_ok ?new \<and> users_served ?new \<and> prefix (store_names sv) (store_names ?new)"
  proof (cases "parse_config fo dial draw now files mo (length (sv_store sv)) cfg")
    case (Inl e)
    with assms show ?thesis by (simp add: UpdateConfig_def)
  next
    case (Inr x)
    obtain bs ips nodes ns schemas users where x: "x = (bs, ips, nodes, ns, schemas, users)" by (cases x) auto
    note e = parse_configE [OF Inr [unfolded x] assms(3,4)]
    have slow: "sv_store (snd (ChangeSlowLogTime v s)) = sv_store s" "sv_users (snd (ChangeSlowLogTime v s)) = sv_users s" for v s
      by (auto simp: ChangeSlowLogTime_def abind_def act_defs Let_def split: sum.split)
    have st: "store_names ?new = store_names sv @ map nc_Name (cf_Nodes cfg)"
      using e(1) by (simp add: UpdateConfig_def Inr x Let_def store_names_def) (auto intro!: nth_equalityI)
    have f: "sv_nodes ?new = nodes" "sv_schemas ?new = schemas" "sv_users ?new = users"
      by (simp_all add: UpdateConfig_def Inr x Let_def slow)
    have "named nodes ?new" unfolding e(2)
      using named_store [OF st] by (simp add: store_names_def)
    with e(3,4) f st show ?thesis by (simp add: server_ok_def users_served_def GetSchema_def)
  qed
  then show "server_ok ?new" "users_served ?new" "prefix (store_names sv) (store_names ?new)" by blast+
qed

end
