(* ===== verification/Server_Runs.thy ===== *)
theory Server_Runs
  imports Server_Inv
begin

text \<open>
  The server while it is administered: settings are pairs of an old and a new value with an index to the current one, which the
  code changes in turn, and a reload replaces nodes, schemas and users. The invariant holds after every sequence of such changes.
\<close>

section \<open>Settings\<close>

definition blacklist_ok :: "blacklist \<Rightarrow> bool" where
  "blacklist_ok b \<longleftrightarrow> bl_sqlsLen b = int (length (bl_sqls b)) \<and> distinct (map fst (bl_sqls b))"

definition settings_ok :: "server \<Rightarrow> bool" where
  "settings_ok sv \<longleftrightarrow>
     length (sv_status sv) = 2 \<and> sv_statusIndex sv < 2 \<and> length (sv_logSql sv) = 2 \<and> sv_logSqlIndex sv < 2
     \<and> length (sv_slowLogTime sv) = 2 \<and> sv_slowLogTimeIndex sv < 2 \<and> length (sv_allowips sv) = 2
     \<and> length (sv_blacklistSqls sv) = 2 \<and> sv_blacklistSqlsIndex sv < 2 \<and> list_all blacklist_ok (sv_blacklistSqls sv)"

lemma other_index_less [simp]: "other_index i < 2"
  by (simp add: other_index_def)

lemma current_blacklist_ok: "settings_ok sv \<Longrightarrow> blacklist_ok (current_blacklist sv)"
  by (auto simp: settings_ok_def current_blacklist_def list_all_length)

lemma update_new: "map_of m k = None \<Longrightarrow> AList.update k v m = m @ [(k, v)]"
  by (induction m) (auto split: if_splits)

lemma delete_old: "distinct (map fst m) \<Longrightarrow> map_of m k \<noteq> None \<Longrightarrow> Suc (length (AList.delete k m)) = length m"
proof (induction m)
  case (Cons p m)
  have "k \<notin> fst ` set m \<Longrightarrow> AList.delete k m = m" by (simp add: delete_idem)
  with Cons show ?case by (cases "fst p = k") auto
qed simp

lemma blacklist_add:
  "blacklist_ok b \<Longrightarrow> map_of (bl_sqls b) k = None \<Longrightarrow> blacklist_ok (b\<lparr>bl_sqls := AList.update k v (bl_sqls b), bl_sqlsLen := bl_sqlsLen b + 1\<rparr>)"
  by (auto simp: blacklist_ok_def update_new map_of_eq_None_iff)

lemma blacklist_delete:
  assumes "blacklist_ok b" and "map_of (bl_sqls b) k \<noteq> None"
  shows "blacklist_ok (b\<lparr>bl_sqls := AList.delete k (bl_sqls b), bl_sqlsLen := bl_sqlsLen b - 1\<rparr>)"
  using assms delete_old [of "bl_sqls b" k, symmetric] by (simp add: blacklist_ok_def distinct_delete)

lemma keeps_settings_ok:
  "keeps settings_ok (ChangeProxy v)" "keeps settings_ok (ChangeLogSql v)" "keeps settings_ok (ChangeSlowLogTime v)"
  "keeps settings_ok (AddAllowIP v)" "keeps settings_ok (DelAllowIP v)" "keeps settings_ok (set_slaves name f)"
  unfolding ChangeProxy_def ChangeLogSql_def ChangeSlowLogTime_def AddAllowIP_def DelAllowIP_def set_slaves_def Let_def
  by (intro keeps_abind keeps_basic keeps_aupd keeps_cases; simp add: settings_ok_def split: option.split prod.split)+

lemma change_settings_ok: "settings_ok sv \<Longrightarrow> blacklist_ok (f (current_blacklist sv)) \<Longrightarrow> settings_ok (change_blacklist f sv)"
  by (simp add: settings_ok_def change_blacklist_def Let_def)

lemma keeps_blacklist: "keeps settings_ok (AddBlackSql v)" "keeps settings_ok (DelBlackSql v)"
  by (auto simp: keeps_def AddBlackSql_def DelBlackSql_def Let_def abind_def act_defs
      intro!: change_settings_ok blacklist_add blacklist_delete current_blacklist_ok split: sum.splits)

lemma current_changed [simp]: "current_blacklist (change_blacklist f sv) = f (current_blacklist sv)"
  by (simp add: current_blacklist_def change_blacklist_def Let_def other_index_def)

lemma AddBlackSql_listed:
  assumes "AddBlackSql v sv = (r, sv')" and "GetFingerprint (TrimSpace v) = Inr fp"
  shows "map_of (bl_sqls (current_blacklist sv')) (GetMd5 fp) \<noteq> None"
  using assms by (auto simp: AddBlackSql_def Let_def act_defs update_conv split: if_splits)

lemma DelBlackSql_unlisted:
  assumes "map_of (bl_sqls (current_blacklist sv)) (GetMd5 fp) \<noteq> None" and "GetFingerprint (TrimSpace v) = Inr fp"
  obtains sv' where "DelBlackSql v sv = (Inr (), sv')" and "map_of (bl_sqls (current_blacklist sv')) = (map_of (bl_sqls (current_blacklist sv)))(GetMd5 fp := None)"
  using assms by (simp add: DelBlackSql_def Let_def act_defs AList.delete_conv')

lemma keeps_node_settings:
  "keeps settings_ok (server_AddSlave fo dial draw now name addr)" "keeps settings_ok (server_DeleteSlave draw name addr)"
  "keeps settings_ok (server_UpMaster fo dial now name addr)" "keeps settings_ok (server_UpSlave fo dial now name addr)"
  "keeps settings_ok (server_DownMaster name addr)" "keeps settings_ok (server_DownSlave name addr)"
proof -
  have "keeps settings_ok (at_node i m)" for i and m :: "(node, unit) act"
    by (simp add: keeps_def at_node_def settings_ok_def split: prod.split)
  then have n: "keeps settings_ok (on_node b e x m)" for b e x m
    unfolding on_node_def by (intro keeps_abind keeps_basic keeps_cases)
  show "keeps settings_ok (server_AddSlave fo dial draw now name addr)" "keeps settings_ok (server_DeleteSlave draw name addr)"
    "keeps settings_ok (server_UpMaster fo dial now name addr)" "keeps settings_ok (server_UpSlave fo dial now name addr)"
    "keeps settings_ok (server_DownMaster name addr)" "keeps settings_ok (server_DownSlave name addr)"
    unfolding server_AddSlave_def server_DeleteSlave_def server_UpMaster_def server_UpSlave_def server_DownMaster_def server_DownSlave_def Let_def
    by (intro keeps_abind n keeps_settings_ok)+
qed

section \<open>Start and reload\<close>

lemma add_black_lines_distinct: "add_black_lines ls m = Inr m' \<Longrightarrow> distinct (map fst m) \<Longrightarrow> distinct (map fst m')"
  by (induction ls m rule: add_black_lines.induct) (auto simp: Let_def rbind_eq_Inr_iff distinct_update split: if_splits)

lemma parse_blacklist_ok: "parseBlackListSqls files path = Inr b \<Longrightarrow> blacklist_ok b"
  by (auto simp: parseBlackListSqls_def blacklist_ok_def rbind_eq_Inr_iff dest: add_black_lines_distinct split: if_splits)

lemma parse_config_blacklist: "parse_config fo dial draw now files mo base cfg = Inr (bs, x) \<Longrightarrow> blacklist_ok bs"
  by (auto simp: parse_config_def rbind_eq_Inr_iff dest: parse_blacklist_ok)

lemma NewServer_settings: "NewServer fo dial draw now files mo listen cfg = Inr sv \<Longrightarrow> settings_ok sv"
  by (auto simp: NewServer_def Let_def rbind_eq_Inr_iff settings_ok_def dest: parse_config_blacklist split: option.splits)

lemma UpdateConfig_settings:
  assumes "settings_ok sv"
  shows "settings_ok (UpdateConfig fo dial draw now files mo cfg sv)"
proof (cases "parse_config fo dial draw now files mo (length (sv_store sv)) cfg")
  case (Inr x)
  obtain bs ips nodes ns schemas users where x: "x = (bs, ips, nodes, ns, schemas, users)" by (cases x) auto
  let ?b = "other_index (sv_blacklistSqlsIndex sv)" and ?i = "snd (BoolIndex_Get (sv_allowipsIndex sv))"
  let ?s = "sv\<lparr>sv_cfg := cfg, sv_blacklistSqls := (sv_blacklistSqls sv)[?b := bs], sv_blacklistSqlsIndex := ?b,
    sv_allowips := (sv_allowips sv)[?i := ips], sv_allowipsIndex := \<not> sv_allowipsIndex sv, sv_users := users\<rparr>"
  have "settings_ok ?s" using assms parse_config_blacklist [OF Inr [unfolded x]]
    by (auto simp: settings_ok_def list_all_iff dest!: set_update_subset_insert [THEN subsetD])
  with keeps_settings_ok(3) have "settings_ok (snd (ChangeSlowLogTime (int_str (cf_SlowLogTime cfg)) ?s))" by (simp add: keeps_def)
  then show ?thesis by (simp add: UpdateConfig_def Inr x Let_def settings_ok_def)
qed (use assms in \<open>simp add: UpdateConfig_def\<close>)

section \<open>Histories\<close>

text \<open>What the administrator does with a server: settings, commands on nodes, whether they succeed or not, and reloads.\<close>

inductive administers :: "'f floats \<Rightarrow> ((string \<times> string) list \<Rightarrow> (string \<times> string) list) \<Rightarrow> server \<Rightarrow> server \<Rightarrow> bool" for fo mo where
  start: "administers fo mo s s"
| setting: "administers fo mo s t \<Longrightarrow>
    m \<in> {ChangeProxy v, ChangeLogSql v, ChangeSlowLogTime v, AddAllowIP v, DelAllowIP v, AddBlackSql v, DelBlackSql v}
    \<Longrightarrow> m t = (r, u) \<Longrightarrow> administers fo mo s u"
| node: "administers fo mo s t \<Longrightarrow>
    m \<in> {server_AddSlave fo dial draw now name addr, server_DeleteSlave draw name addr, server_UpMaster fo dial now name addr,
      server_UpSlave fo dial now name addr, server_DownMaster name addr, server_DownSlave name addr}
    \<Longrightarrow> m t = (r, u) \<Longrightarrow> administers fo mo s u"
| reload: "administers fo mo s t \<Longrightarrow> rules_once cfg \<Longrightarrow> administers fo mo s (UpdateConfig fo dial' draw' now files mo cfg t)"

text \<open>Users and schemas change only in a reload, and nodes of the store keep their names.\<close>

definition stays :: "(string \<times> string) list \<Rightarrow> (string \<times> schema) list \<Rightarrow> string list \<Rightarrow> server \<Rightarrow> bool" where
  "stays users schemas names sv \<longleftrightarrow> sv_users sv = users \<and> sv_schemas sv = schemas \<and> prefix names (store_names sv)"

definition extends :: "server \<Rightarrow> server \<Rightarrow> bool" where
  "extends sv0 sv \<longleftrightarrow> server_ok sv \<and> settings_ok sv \<and> users_served sv \<and> prefix (store_names sv0) (store_names sv)"

lemma keeps_stays:
  "keeps (stays us sc ns) (ChangeProxy v)" "keeps (stays us sc ns) (ChangeLogSql v)" "keeps (stays us sc ns) (ChangeSlowLogTime v)"
  "keeps (stays us sc ns) (AddAllowIP v)" "keeps (stays us sc ns) (DelAllowIP v)" "keeps (stays us sc ns) (AddBlackSql v)"
  "keeps (stays us sc ns) (DelBlackSql v)" "keeps (stays us sc ns) (set_slaves name f)"
  unfolding ChangeProxy_def ChangeLogSql_def ChangeSlowLogTime_def AddAllowIP_def DelAllowIP_def AddBlackSql_def DelBlackSql_def Let_def set_slaves_def
  by (intro keeps_abind keeps_basic keeps_aupd keeps_cases; simp add: stays_def store_names_def change_blacklist_def Let_def split: option.split prod.split)+

lemma keeps_stays_on_node:
  assumes "\<And>c. keeps (\<lambda>n. n_Cfg n = c) m"
  shows "keeps (stays us sc ns) (on_node before behind name m)"
proof -
  have "n_Cfg (snd (m n)) = n_Cfg n" for n using assms [of "n_Cfg n"] by (simp add: keeps_def)
  note n = at_node_names [of m, OF this]
  have "sv_users (snd (at_node i m sv)) = sv_users sv" for i sv by (simp add: at_node_def split: prod.split)
  with n have "keeps (stays us sc ns) (at_node i m)" for i
    unfolding keeps_def stays_def by (auto intro: prefix_order.trans)
  then show ?thesis unfolding on_node_def by (intro keeps_abind keeps_basic keeps_cases)
qed

lemma keeps_stays_commands:
  "keeps (stays us sc ns) (server_AddSlave fo dial draw now name addr)" "keeps (stays us sc ns) (server_DeleteSlave draw name addr)"
  "keeps (stays us sc ns) (server_UpMaster fo dial now name addr)" "keeps (stays us sc ns) (server_UpSlave fo dial now name addr)"
  "keeps (stays us sc ns) (server_DownMaster name addr)" "keeps (stays us sc ns) (server_DownSlave name addr)"
  unfolding server_AddSlave_def server_DeleteSlave_def server_UpMaster_def server_UpSlave_def server_DownMaster_def server_DownSlave_def Let_def
  by (intro keeps_abind keeps_stays_on_node Cfg_operations keeps_stays)+

lemma keeps_extends:
  assumes "keeps server_ok m" and "keeps settings_ok m" and "\<And>us sc ns. keeps (stays us sc ns) m"
  shows "keeps (extends sv0) m"
  unfolding keeps_def
proof (intro allI impI)
  fix sv assume sv: "extends sv0 sv"
  let ?t = "snd (m sv)"
  have "stays (sv_users sv) (sv_schemas sv) (store_names sv) ?t"
    using assms(3) [of "sv_users sv" "sv_schemas sv" "store_names sv"] by (simp add: keeps_def stays_def)
  with sv assms(1,2) show "extends sv0 ?t"
    by (auto simp: extends_def stays_def keeps_def users_served_def GetSchema_def intro: prefix_order.trans)
qed

lemma administers_extends:
  assumes "administers fo mo sv0 sv" and "map_order mo" and "extends sv0 sv0"
  shows "extends sv0 sv"
  using assms
proof induction
  case (setting s t m v r u)
  then have "keeps (extends s) m" by (auto intro!: keeps_extends keeps_settings keeps_settings_ok keeps_blacklist keeps_stays)
  with setting show ?case by (blast dest: keepsD)
next
  case (node s t m dial draw now name addr r u)
  then have "keeps (extends s) m" by (auto intro!: keeps_extends keeps_node_commands keeps_node_settings keeps_stays_commands)
  with node show ?case by (blast dest: keepsD)
next
  case (reload s t cfg dial' draw' now files)
  then show ?case
    using UpdateConfig_ok [of t mo cfg fo dial' draw' now files] UpdateConfig_settings
    by (auto simp: extends_def intro: prefix_order.trans)
qed


lemma NewServer_extends:
  assumes "NewServer fo dial draw now files mo listen cfg = Inr sv" and "map_order mo" and "rules_once cfg"
  shows "extends sv sv"
  using NewServer_ok [OF assms] NewServer_settings [OF assms(1)] by (simp add: extends_def)

lemma extends_lookups:
  assumes "extends sv0 sv"
  shows "(u, p) \<in> set (sv_users sv) \<Longrightarrow> GetSchema sv u \<noteq> None"
    and "GetNode sv n = Some i \<Longrightarrow> i < length (sv_store sv) \<and> nc_Name (n_Cfg (sv_store sv ! i)) = n"
  using assms GetNode_named [of sv n i]
  by (auto simp: extends_def users_served_def list_all_iff named_def store_names_def)

end
