(* ===== verification/Web_Api.thy ===== *)
theory Web_Api
  imports Admin Server_Runs
begin

text \<open>
  The HTTP interface for administration (src/web/api.go, server.go). A request is what the web framework delivers: method, path, the
  credentials of basic authentication, and the decoding of the body into a struct with given JSON fields, which may fail. A handler is
  an action on the proxy that returns a response or an error. The middleware checks the credentials first and turns a panic of a handler
  into an error. Every request is shown to be a sequence of the administrator's actions on the server.
\<close>

section \<open>Requests and responses\<close>

record api_args =
  ar_allow_ips :: "string list"
  ar_node :: string
  ar_addr :: string
  ar_opt :: string
  ar_sql :: string
  ar_slow_time :: int

record request =
  rq_method :: string
  rq_path :: string
  rq_user :: string
  rq_password :: string
  rq_Bind :: "string list \<Rightarrow> api_args res"

record db_status =
  ds_Node :: string
  ds_Address :: string
  ds_Type :: string
  ds_Status :: string
  ds_LastPing :: string
  ds_MaxConn :: int
  ds_IdleConn :: int
  ds_CacheConn :: int
  ds_PushConnCount :: int
  ds_PopConnCount :: int

record shard_info =
  si_User :: string
  si_DB :: string
  si_Table :: string
  si_Key :: string
  si_Nodes :: "string list"
  si_Locations :: "int list"
  si_Type :: string
  si_TableRowLimit :: int
  si_DateRange :: "string list"

datatype json = JText string | JTexts "string list" | JNumber int | JStatus "db_status list" | JShards "shard_info list"

datatype response = JSON int json

abbreviation StatusOK :: int where "StatusOK \<equiv> 200"
abbreviation StatusUnauthorized :: int where "StatusUnauthorized \<equiv> 401"
abbreviation StatusNotFound :: int where "StatusNotFound \<equiv> 404"

type_synonym handler = "request \<Rightarrow> (server, response) act"

text \<open>
  The configuration of the interface is the one of the start: the proxy gets another one when it is reloaded. Only its list of schemas is
  read, which nobody changes in place.
\<close>

record api_server =
  api_cfg :: config
  api_webAddr :: string
  api_webUser :: string
  api_webPassword :: string

definition NewApiServer :: "config \<Rightarrow> api_server" where
  "NewApiServer cfg = \<lparr>api_cfg = cfg, api_webAddr = cf_WebAddr cfg, api_webUser = cf_WebUser cfg, api_webPassword = cf_WebPassword cfg\<rparr>"

definition CheckAuth :: "api_server \<Rightarrow> string \<Rightarrow> string \<Rightarrow> bool" where
  "CheckAuth s username password \<longleftrightarrow> username = api_webUser s \<and> password = api_webPassword s"

section \<open>Handlers\<close>

definition bound :: "string list \<Rightarrow> request \<Rightarrow> (api_args \<Rightarrow> (server, 'a) act) \<Rightarrow> (server, 'a) act" where
  "bound names rq f = abind (alift (rq_Bind rq names)) f"

definition answer_ok :: "(server, response) act" where
  "answer_ok = aret (JSON StatusOK (JText ''ok''))"

definition api_GetAllowIps :: handler where
  "api_GetAllowIps rq = aget (\<lambda>sv. JSON StatusOK (JTexts (GetAllowIps sv)))"

fun each :: "('a \<Rightarrow> (server, unit) act) \<Rightarrow> 'a list \<Rightarrow> (server, unit) act" where
  "each f [] = aret ()"
| "each f (x # xs) = abind (f x) (\<lambda>_. each f xs)"

definition AddAllowIps :: handler where
  "AddAllowIps rq =
     bound [''allow_ips''] rq (\<lambda>a. abind (each (\<lambda>v. AddAllowIP (TrimSpace v)) (ar_allow_ips a)) (\<lambda>_. answer_ok))"

definition DelAllowIps :: handler where
  "DelAllowIps rq =
     bound [''allow_ips''] rq (\<lambda>a. abind (each (\<lambda>v. DelAllowIP (TrimSpace v)) (ar_allow_ips a)) (\<lambda>_. answer_ok))"

definition db_status_of :: "'f world \<Rightarrow> string \<Rightarrow> node \<Rightarrow> string \<Rightarrow> nat option \<Rightarrow> db_status res" where
  "db_status_of w name n ty p =
     rbind (fst (deref p n)) (\<lambda>d.
       case ConnCount d of (idle, cache, push, pop) \<Rightarrow>
         Inr \<lparr>ds_Node = name, ds_Address = db_addr d, ds_Type = ty, ds_Status = State d, ds_LastPing = w_unix w (db_lastPing d),
              ds_MaxConn = nc_MaxConnNum (n_Cfg n), ds_IdleConn = idle, ds_CacheConn = cache, ds_PushConnCount = push, ds_PopConnCount = pop\<rparr>)"

definition node_status :: "'f world \<Rightarrow> server \<Rightarrow> string \<times> nat \<Rightarrow> db_status list res" where
  "node_status w sv p =
     (let n = sv_store sv ! snd p in
      rmap (\<lambda>(ty, d). db_status_of w (fst p) n ty d) ((''master'', n_Master n) # map (\<lambda>d. (''slave'', d)) (slaves n)))"

definition GetNodesStatus :: "'f world \<Rightarrow> handler" where
  "GetNodesStatus w rq =
     abind (aget (\<lambda>sv. rmap (node_status w sv) (w_nodes w (sv_nodes sv)))) (\<lambda>r.
     abind (alift r) (\<lambda>sts. aret (JSON StatusOK (JStatus (concat sts)))))"

definition AddOneSlave :: "'f world \<Rightarrow> nat \<Rightarrow> handler" where
  "AddOneSlave w k rq =
     bound [''node'', ''addr''] rq (\<lambda>a.
       abind (server_AddSlave (w_fo w) (w_dial w k) (w_draw w k) (w_now w k) (ar_node a) (ar_addr a)) (\<lambda>_. answer_ok))"

definition DeleteOneSlave :: "'f world \<Rightarrow> nat \<Rightarrow> handler" where
  "DeleteOneSlave w k rq =
     bound [''node'', ''addr''] rq (\<lambda>a. abind (server_DeleteSlave (w_draw w k) (ar_node a) (ar_addr a)) (\<lambda>_. answer_ok))"

definition ChangeSlaveStatus :: "'f world \<Rightarrow> nat \<Rightarrow> handler" where
  "ChangeSlaveStatus w k rq =
     bound [''opt'', ''node'', ''addr''] rq (\<lambda>a.
       let opt = to_lower (ar_opt a) in
       if opt \<noteq> ''up'' \<and> opt \<noteq> ''down'' then alift (Inl (Err (Errorf ''opt only can be up or down'')))
       else abind (if opt = ''down'' then server_DownSlave (ar_node a) (ar_addr a)
                   else server_UpSlave (w_fo w) (w_dial w k) (w_now w k) (ar_node a) (ar_addr a)) (\<lambda>_. answer_ok))"

definition ChangeMasterStatus :: "'f world \<Rightarrow> nat \<Rightarrow> handler" where
  "ChangeMasterStatus w k rq =
     bound [''opt'', ''node'', ''addr''] rq (\<lambda>a.
       let opt = to_lower (ar_opt a) in
       if opt \<noteq> ''up'' \<and> opt \<noteq> ''down'' then alift (Inl (Err (Errorf ''opt only can be up or down'')))
       else abind (if opt = ''down'' then server_DownMaster (ar_node a) (ar_addr a)
                   else server_UpMaster (w_fo w) (w_dial w k) (w_now w k) (ar_node a) (ar_addr a)) (\<lambda>_. answer_ok))"

definition GetProxyStatus :: handler where
  "GetProxyStatus rq = aget (\<lambda>sv. JSON StatusOK (JText (server_Status sv)))"

definition ChangeProxyStatus :: handler where
  "ChangeProxyStatus rq =
     bound [''opt''] rq (\<lambda>a.
       let opt = to_lower (ar_opt a) in
       if opt \<noteq> ''online'' \<and> opt \<noteq> ''offline'' then alift (Inl (Err (Errorf ''opt only can be online or offline'')))
       else abind (ChangeProxy opt) (\<lambda>_. answer_ok))"

definition schema_infos :: "schema_config \<Rightarrow> shard_info list" where
  "schema_infos c =
     \<lparr>si_User = sch_User c, si_DB = [], si_Table = [], si_Key = [], si_Nodes = sch_Nodes c, si_Locations = [], si_Type = ''default'',
      si_TableRowLimit = 0, si_DateRange = []\<rparr>
     # map (\<lambda>r. \<lparr>si_User = sch_User c, si_DB = cfg_DB r, si_Table = cfg_Table r, si_Key = cfg_Key r, si_Nodes = cfg_Nodes r,
         si_Locations = cfg_Locations r, si_Type = cfg_Type r, si_TableRowLimit = cfg_TableRowLimit r, si_DateRange = cfg_DateRange r\<rparr>)
       (sch_ShardRule c)"

definition GetProxySchema :: "api_server \<Rightarrow> handler" where
  "GetProxySchema s rq = aret (JSON StatusOK (JShards (concat (map schema_infos (cf_SchemaList (api_cfg s))))))"

definition GetAllBlackSQL :: "'f world \<Rightarrow> handler" where
  "GetAllBlackSQL w rq = aget (\<lambda>sv. JSON StatusOK (JTexts (GetAllBlackSqls (w_strings w) sv)))"

definition AddOneBlackSQL :: handler where
  "AddOneBlackSQL rq = bound [''sql''] rq (\<lambda>a. abind (AddBlackSql (ar_sql a)) (\<lambda>_. answer_ok))"

definition DelOneBlackSQL :: handler where
  "DelOneBlackSQL rq =
     bound [''sql''] rq (\<lambda>a.
       atry (DelBlackSql (ar_sql a)) (\<lambda>r.
         case r of
           Inl e \<Rightarrow>
             if e = ErrBlackSqlNotExist
             then aret (JSON StatusNotFound (JText (''`'' @ ar_sql a @ ''` isn'' @ [CHR 0x27] @ ''t exist in black sql'')))
             else alift (Inl (Err e))
         | Inr _ \<Rightarrow> answer_ok))"

definition SwitchSlowSQL :: handler where
  "SwitchSlowSQL rq =
     bound [''opt''] rq (\<lambda>a.
       let opt = to_lower (ar_opt a) in
       if opt \<noteq> ''on'' \<and> opt \<noteq> ''off'' then alift (Inl (Err (Errorf ''opt only can be on or off'')))
       else abind (ChangeLogSql opt) (\<lambda>_. answer_ok))"

definition SetSlowLogTime :: handler where
  "SetSlowLogTime rq = bound [''slow_time''] rq (\<lambda>a. abind (ChangeSlowLogTime (int_str (ar_slow_time a))) (\<lambda>_. answer_ok))"

definition api_GetSlowLogTime :: handler where
  "api_GetSlowLogTime rq = aget (\<lambda>sv. JSON StatusOK (JNumber (GetSlowLogTime sv)))"

definition api_SaveProxyConfig :: "'f world \<Rightarrow> handler" where
  "api_SaveProxyConfig w rq = abind (aget (SaveProxyConfig w)) (\<lambda>r. abind (alift r) (\<lambda>_. answer_ok))"

section \<open>The server\<close>

definition RegisterURL :: "'f world \<Rightarrow> nat \<Rightarrow> api_server \<Rightarrow> ((string \<times> string) \<times> handler) list" where
  "RegisterURL w k s =
     [((''GET'', ''/api/v1/nodes/status''), GetNodesStatus w),
      ((''POST'', ''/api/v1/nodes/slaves''), AddOneSlave w k),
      ((''DELETE'', ''/api/v1/nodes/slaves''), DeleteOneSlave w k),
      ((''PUT'', ''/api/v1/nodes/slaves/status''), ChangeSlaveStatus w k),
      ((''PUT'', ''/api/v1/nodes/masters/status''), ChangeMasterStatus w k),
      ((''GET'', ''/api/v1/proxy/status''), GetProxyStatus),
      ((''PUT'', ''/api/v1/proxy/status''), ChangeProxyStatus),
      ((''GET'', ''/api/v1/proxy/schema''), GetProxySchema s),
      ((''GET'', ''/api/v1/proxy/allow_ips''), api_GetAllowIps),
      ((''POST'', ''/api/v1/proxy/allow_ips''), AddAllowIps),
      ((''DELETE'', ''/api/v1/proxy/allow_ips''), DelAllowIps),
      ((''GET'', ''/api/v1/proxy/black_sqls''), GetAllBlackSQL w),
      ((''POST'', ''/api/v1/proxy/black_sqls''), AddOneBlackSQL),
      ((''DELETE'', ''/api/v1/proxy/black_sqls''), DelOneBlackSQL),
      ((''GET'', ''/api/v1/proxy/slow_sql/time''), api_GetSlowLogTime),
      ((''PUT'', ''/api/v1/proxy/slow_sql/status''), SwitchSlowSQL),
      ((''PUT'', ''/api/v1/proxy/slow_sql/time''), SetSlowLogTime),
      ((''PUT'', ''/api/v1/proxy/config/save''), api_SaveProxyConfig w)]"

text \<open>
  The chain of \<open>RegisterMiddleware\<close> around the handlers: \<open>Recover\<close> outside of \<open>BasicAuth\<close>. A refused or unknown request gets a response
  of the framework, an error of a handler is reported by it.
\<close>

datatype reply = Responded response | Refused int | Reported goerr | Recovered panic

definition api_serve :: "'f world \<Rightarrow> nat \<Rightarrow> api_server \<Rightarrow> request \<Rightarrow> server \<Rightarrow> reply \<times> server" where
  "api_serve w k s rq sv =
     (if \<not> CheckAuth s (rq_user rq) (rq_password rq) then (Refused StatusUnauthorized, sv)
      else case map_of (RegisterURL w k s) (rq_method rq, rq_path rq) of
        None \<Rightarrow> (Refused StatusNotFound, sv)
      | Some h \<Rightarrow>
          (case h rq sv of
             (Inr r, t) \<Rightarrow> (Responded r, t)
           | (Inl (Err e), t) \<Rightarrow> (Reported e, t)
           | (Inl (Panic p), t) \<Rightarrow> (Recovered p, t)))"

section \<open>Requests are administration\<close>

text \<open>\<open>administered fo mo m\<close>: whatever the result of the action \<open>m\<close>, the server is as after some actions of the administrator.\<close>

definition administered :: "'f floats \<Rightarrow> ((string \<times> string) list \<Rightarrow> (string \<times> string) list) \<Rightarrow> (server, 'a) act \<Rightarrow> bool" where
  "administered fo mo m \<longleftrightarrow> (\<forall>s t. administers fo mo s t \<longrightarrow> administers fo mo s (snd (m t)))"

lemma administered_reads: "administered fo mo (aret x)" "administered fo mo (alift r)" "administered fo mo (aget f)"
  by (simp_all add: administered_def act_defs)

lemma administered_abind: "administered fo mo m \<Longrightarrow> (\<And>x. administered fo mo (f x)) \<Longrightarrow> administered fo mo (abind m f)"
  unfolding administered_def abind_def by (auto split: prod.splits sum.splits) (metis snd_conv)+

lemma administered_atry: "administered fo mo m \<Longrightarrow> (\<And>x. administered fo mo (f x)) \<Longrightarrow> administered fo mo (atry m f)"
  unfolding administered_def atry_def by (auto split: prod.splits sum.splits fail.splits) (metis snd_conv)+

lemma administered_settings:
  "administered fo mo (ChangeProxy v)" "administered fo mo (ChangeLogSql v)" "administered fo mo (ChangeSlowLogTime v)"
  "administered fo mo (AddAllowIP v)" "administered fo mo (DelAllowIP v)" "administered fo mo (AddBlackSql v)" "administered fo mo (DelBlackSql v)"
proof -
  have "administered fo mo m"
    if "m \<in> {ChangeProxy v, ChangeLogSql v, ChangeSlowLogTime v, AddAllowIP v, DelAllowIP v, AddBlackSql v, DelBlackSql v}" for m
    unfolding administered_def using administers.setting [OF _ that] by (metis prod.collapse)
  then show "administered fo mo (ChangeProxy v)" "administered fo mo (ChangeLogSql v)" "administered fo mo (ChangeSlowLogTime v)"
    "administered fo mo (AddAllowIP v)" "administered fo mo (DelAllowIP v)" "administered fo mo (AddBlackSql v)" "administered fo mo (DelBlackSql v)"
    by simp_all
qed

lemma administered_nodes:
  "administered fo mo (server_AddSlave fo dial draw now name addr)" "administered fo mo (server_DeleteSlave draw name addr)"
  "administered fo mo (server_UpMaster fo dial now name addr)" "administered fo mo (server_UpSlave fo dial now name addr)"
  "administered fo mo (server_DownMaster name addr)" "administered fo mo (server_DownSlave name addr)"
proof -
  have "administered fo mo m"
    if "m \<in> {server_AddSlave fo dial draw now name addr, server_DeleteSlave draw name addr, server_UpMaster fo dial now name addr,
      server_UpSlave fo dial now name addr, server_DownMaster name addr, server_DownSlave name addr}" for m dial draw now
    unfolding administered_def using administers.node [OF _ that] by (metis prod.collapse)
  then show "administered fo mo (server_AddSlave fo dial draw now name addr)" "administered fo mo (server_DeleteSlave draw name addr)"
    "administered fo mo (server_UpMaster fo dial now name addr)" "administered fo mo (server_UpSlave fo dial now name addr)"
    "administered fo mo (server_DownMaster name addr)" "administered fo mo (server_DownSlave name addr)"
    by blast+
qed

lemma administered_each: "(\<And>x. administered fo mo (f x)) \<Longrightarrow> administered fo mo (each f xs)"
  by (induction xs) (auto intro: administered_abind administered_reads)

lemmas administered_intros = administered_abind administered_atry administered_each administered_reads administered_settings administered_nodes

lemma handlers_administered:
  assumes "((m, p), h) \<in> set (RegisterURL w k s)"
  shows "administered (w_fo w) mo (h rq)"
  using assms unfolding RegisterURL_def
  by (auto simp: GetNodesStatus_def AddOneSlave_def DeleteOneSlave_def ChangeSlaveStatus_def ChangeMasterStatus_def GetProxyStatus_def
      ChangeProxyStatus_def GetProxySchema_def api_GetAllowIps_def AddAllowIps_def DelAllowIps_def GetAllBlackSQL_def AddOneBlackSQL_def
      DelOneBlackSQL_def api_GetSlowLogTime_def SwitchSlowSQL_def SetSlowLogTime_def api_SaveProxyConfig_def bound_def answer_ok_def Let_def
      intro!: administered_intros split: sum.splits)


lemma GET_reads:
  assumes "((''GET'', p), h) \<in> set (RegisterURL w k s)"
  shows "snd (h rq sv) = sv"
  using assms unfolding RegisterURL_def
  by (auto simp: GetNodesStatus_def GetProxyStatus_def GetProxySchema_def api_GetAllowIps_def GetAllBlackSQL_def api_GetSlowLogTime_def act_defs abind_def
      split: sum.splits)

text \<open>A request to take the proxy offline.\<close>

definition demo_request :: "string \<Rightarrow> request" where
  "demo_request password =
     \<lparr>rq_method = ''PUT'', rq_path = ''/api/v1/proxy/status'', rq_user = ''admin'', rq_password = password,
      rq_Bind = (\<lambda>_. Inr \<lparr>ar_allow_ips = [], ar_node = [], ar_addr = [], ar_opt = ''Offline'', ar_sql = [], ar_slow_time = 0\<rparr>)\<rparr>"

end
