(* ===== verification/Log_Files.thy ===== *)
theory Log_Files
  imports Go_Base "HOL-Library.Sublist"
begin

text \<open>
  The handlers of the logger (src/core/golog/handler.go and filehandler.go) over a disk: a stream, nothing at all, one file, a file
  that is rotated by its size, and a file that is rotated by time. The contract of a handler, that what it keeps is an end of what
  it was given, is the locale \<open>log_handler\<close>, which each of them interprets; the size-rotated file refines a list of chunks.
\<close>

section \<open>Disk\<close>

text \<open>
  The files of the disk by name, and the names that cannot be opened or renamed. \<open>os.Mkdir\<close>, whose error the code ignores, is a
  reason among others for a name to be refused or not, so that it has no state of its own here.
\<close>

record disk =
  dk_files :: "string \<Rightarrow> string option"
  dk_denied :: "string \<Rightarrow> bool"

definition content :: "disk \<Rightarrow> string \<Rightarrow> string" where
  "content d n = (case dk_files d n of None \<Rightarrow> [] | Some s \<Rightarrow> s)"

datatype open_flag = O_CREATE | O_WRONLY | O_RDWR | O_APPEND | O_TRUNC

text \<open>A \<open>*os.File\<close>: \<open>nil\<close>, a closed one, or an open one with its flags and its offset.\<close>

datatype fd = NilFd | ClosedFd | OpenFd string "open_flag list" nat

definition OpenFile :: "string \<Rightarrow> open_flag list \<Rightarrow> disk \<Rightarrow> fd res \<times> disk" where
  "OpenFile n fl d =
     (if dk_denied d n \<or> dk_files d n = None \<and> O_CREATE \<notin> set fl then (Inl (Err (Errorf (''open '' @ n))), d)
      else (Inr (OpenFd n fl 0),
            d\<lparr>dk_files := (dk_files d)(n := Some (if O_TRUNC \<in> set fl then [] else content d n))\<rparr>))"

definition write_at :: "nat \<Rightarrow> string \<Rightarrow> string \<Rightarrow> string" where
  "write_at off p s = take off s @ replicate (off - length s) (CHR 0x00) @ p @ drop (off + length p) s"

definition file_Write :: "fd \<Rightarrow> string \<Rightarrow> disk \<Rightarrow> int res \<times> fd \<times> disk" where
  "file_Write f p d =
     (case f of
        OpenFd n fl off \<Rightarrow>
          if O_WRONLY \<notin> set fl \<and> O_RDWR \<notin> set fl then (Inl (Err (Errorf (''write '' @ n))), f, d)
          else
            let o1 = (if O_APPEND \<in> set fl then length (content d n) else off) in
            (Inr (int (length p)), OpenFd n fl (o1 + length p), d\<lparr>dk_files := (dk_files d)(n := Some (write_at o1 p (content d n)))\<rparr>)
      | _ \<Rightarrow> (Inl (Err (Errorf ''invalid argument'')), f, d))"

definition file_Close :: "fd \<Rightarrow> unit res \<times> fd" where
  "file_Close f = (case f of OpenFd n fl off \<Rightarrow> (Inr (), ClosedFd) | _ \<Rightarrow> (Inl (Err (Errorf ''invalid argument'')), f))"

definition file_Size :: "fd \<Rightarrow> disk \<Rightarrow> int option" where
  "file_Size f d = (case f of OpenFd n fl off \<Rightarrow> Some (int (length (content d n))) | _ \<Rightarrow> None)"

definition Rename :: "string \<Rightarrow> string \<Rightarrow> disk \<Rightarrow> unit res \<times> disk" where
  "Rename a b d =
     (if dk_denied d a \<or> dk_denied d b \<or> dk_files d a = None then (Inl (Err (Errorf (''rename '' @ a))), d)
      else (Inr (), d\<lparr>dk_files := (dk_files d)(a := None, b := dk_files d a)\<rparr>))"

abbreviation append_flags :: "open_flag list" where
  "append_flags \<equiv> [O_CREATE, O_WRONLY, O_APPEND]"

text \<open>The file a call of \<open>OpenFile\<close> returns when its error is ignored.\<close>

definition opened :: "fd res \<Rightarrow> fd" where
  "opened r = (case r of Inl e \<Rightarrow> NilFd | Inr f \<Rightarrow> f)"

lemma write_at_end [simp]: "write_at (length s) p s = s @ p"
  by (simp add: write_at_def)

lemma content_upd [simp]: "content (d\<lparr>dk_files := (dk_files d)(n := Some s)\<rparr>) m = (if m = n then s else content d m)"
  by (simp add: content_def)

section \<open>Handlers\<close>

text \<open>\<open>StreamHandler\<close> writes to an \<open>io.Writer\<close>, here the text written so far; \<open>NullHandler\<close> writes nothing.\<close>

record stream_handler =
  sh_w :: string

definition NewStreamHandler :: "string \<Rightarrow> stream_handler res" where
  "NewStreamHandler w = Inr \<lparr>sh_w = w\<rparr>"

definition stream_Write :: "stream_handler \<Rightarrow> string \<Rightarrow> int res \<times> stream_handler" where
  "stream_Write h b = (Inr (int (length b)), h\<lparr>sh_w := sh_w h @ b\<rparr>)"

definition stream_Close :: "stream_handler \<Rightarrow> unit res" where
  "stream_Close h = Inr ()"

definition null_Write :: "unit \<Rightarrow> string \<Rightarrow> int res \<times> unit" where
  "null_Write h b = (Inr (int (length b)), h)"

definition null_Close :: "unit \<Rightarrow> unit res" where
  "null_Close h = Inr ()"

record file_handler =
  fh_fd :: fd

definition NewFileHandler :: "string \<Rightarrow> open_flag list \<Rightarrow> disk \<Rightarrow> file_handler res \<times> disk" where
  "NewFileHandler fileName flag d =
     (case OpenFile fileName flag d of (r, d1) \<Rightarrow> (rbind r (\<lambda>f. Inr \<lparr>fh_fd = f\<rparr>), d1))"

definition file_handler_Write :: "file_handler \<times> disk \<Rightarrow> string \<Rightarrow> int res \<times> file_handler \<times> disk" where
  "file_handler_Write hs b =
     (case hs of (h, d) \<Rightarrow> case file_Write (fh_fd h) b d of (r, f, d1) \<Rightarrow> (r, h\<lparr>fh_fd := f\<rparr>, d1))"

definition file_handler_Close :: "file_handler \<Rightarrow> unit res \<times> file_handler" where
  "file_handler_Close h = (case file_Close (fh_fd h) of (r, f) \<Rightarrow> (r, h\<lparr>fh_fd := f\<rparr>))"

section \<open>Rotation by size\<close>

record rotating =
  rh_fd :: fd
  rh_fileName :: string
  rh_maxBytes :: int
  rh_backupCount :: int

definition backup :: "string \<Rightarrow> int \<Rightarrow> string" where
  "backup n i = n @ ''.'' @ int_str i"

definition NewRotatingFileHandler :: "string \<Rightarrow> int \<Rightarrow> int \<Rightarrow> disk \<Rightarrow> rotating res \<times> disk" where
  "NewRotatingFileHandler fileName maxBytes backupCount d =
     (if maxBytes \<le> 0 then (Inl (Err (Errorf ''invalid max bytes'')), d)
      else case OpenFile fileName append_flags d of (r, d1) \<Rightarrow>
        (rbind r (\<lambda>f. Inr \<lparr>rh_fd = f, rh_fileName = fileName, rh_maxBytes = maxBytes, rh_backupCount = backupCount\<rparr>), d1))"

text \<open>The loop of \<open>doRollover\<close>, from the last backup but one down to the first.\<close>

fun shift_backups :: "string \<Rightarrow> nat \<Rightarrow> disk \<Rightarrow> disk" where
  "shift_backups n 0 d = d"
| "shift_backups n (Suc i) d = shift_backups n i (snd (Rename (backup n (int (Suc i))) (backup n (int (Suc i) + 1)) d))"

definition doRollover :: "rotating \<times> disk \<Rightarrow> rotating \<times> disk" where
  "doRollover hs =
     (case hs of (h, d) \<Rightarrow>
      case file_Size (rh_fd h) d of
        None \<Rightarrow> (h, d)
      | Some sz \<Rightarrow>
          if rh_maxBytes h \<le> 0 then (h, d)
          else if sz < rh_maxBytes h then (h, d)
          else if rh_backupCount h > 0 then
            let n = rh_fileName h;
                d1 = shift_backups n (nat (rh_backupCount h - 1)) d;
                d2 = snd (Rename n (backup n 1) d1) in
            (case OpenFile n append_flags d2 of (r, d3) \<Rightarrow> (h\<lparr>rh_fd := opened r\<rparr>, d3))
          else (h, d))"

definition rotating_Write :: "rotating \<times> disk \<Rightarrow> string \<Rightarrow> int res \<times> rotating \<times> disk" where
  "rotating_Write hs p =
     (case doRollover hs of (h, d) \<Rightarrow> case file_Write (rh_fd h) p d of (r, f, d1) \<Rightarrow> (r, h\<lparr>rh_fd := f\<rparr>, d1))"

definition rotating_Close :: "rotating \<Rightarrow> unit res \<times> rotating" where
  "rotating_Close h =
     (if rh_fd h \<noteq> NilFd then (case file_Close (rh_fd h) of (r, f) \<Rightarrow> (r, h\<lparr>rh_fd := f\<rparr>)) else (Inr (), h))"

section \<open>Rotation by time\<close>

text \<open>A reading of the clock: the Unix time and the local date and time.\<close>

record clock =
  ck_unix :: int
  ck_year :: int
  ck_month :: int
  ck_day :: int
  ck_hour :: int
  ck_minute :: int
  ck_second :: int

definition fmt_date :: "string \<Rightarrow> clock \<Rightarrow> string" where
  "fmt_date sep t = fmt_0d 4 (ck_year t) @ sep @ fmt_0d 2 (ck_month t) @ sep @ fmt_0d 2 (ck_day t)"

text \<open>\<open>Time.Format\<close> for the layouts of the package, which are named by what they show.\<close>

datatype when_rotate = WhenSecond | WhenMinute | WhenHour | WhenDay

definition fmt_suffix :: "when_rotate \<Rightarrow> clock \<Rightarrow> string" where
  "fmt_suffix w t =
     fmt_date ''-'' t @
     (case w of
        WhenDay \<Rightarrow> []
      | WhenHour \<Rightarrow> ''_'' @ fmt_0d 2 (ck_hour t)
      | WhenMinute \<Rightarrow> ''_'' @ fmt_0d 2 (ck_hour t) @ ''-'' @ fmt_0d 2 (ck_minute t)
      | WhenSecond \<Rightarrow> ''_'' @ fmt_0d 2 (ck_hour t) @ ''-'' @ fmt_0d 2 (ck_minute t) @ ''-'' @ fmt_0d 2 (ck_second t))"

record time_rotating =
  th_fd :: fd
  th_baseName :: string
  th_interval :: int
  th_suffix :: when_rotate
  th_rolloverAt :: int

definition when_of :: "int \<Rightarrow> (int \<times> when_rotate) option" where
  "when_of w =
     (if w = 0 then Some (1, WhenSecond) else if w = 1 then Some (60, WhenMinute)
      else if w = 2 then Some (3600, WhenHour) else if w = 3 then Some (3600 * 24, WhenDay) else None)"

text \<open>\<open>modTime\<close> is the time the file system gives for the opened file.\<close>

definition NewTimeRotatingFileHandler :: "string \<Rightarrow> int \<Rightarrow> int \<Rightarrow> int \<Rightarrow> disk \<Rightarrow> time_rotating res \<times> disk" where
  "NewTimeRotatingFileHandler baseName w interval modTime d =
     (case when_of w of
        None \<Rightarrow> (Inl (Err (Errorf (''invalid when_rotate: '' @ int_str w))), d)
      | Some (secs, layout) \<Rightarrow>
          let iv = wrap64 (secs * interval) in
          case OpenFile baseName append_flags d of (r, d1) \<Rightarrow>
            (rbind r (\<lambda>f. Inr \<lparr>th_fd = f, th_baseName = baseName, th_interval = iv, th_suffix = layout,
                              th_rolloverAt = wrap64 (modTime + iv)\<rparr>), d1))"

text \<open>The clock is read twice: \<open>now\<close> decides and names the backup, \<open>later\<close> starts the next interval.\<close>

definition time_doRollover :: "clock \<Rightarrow> clock \<Rightarrow> time_rotating \<times> disk \<Rightarrow> (time_rotating \<times> disk) res" where
  "time_doRollover now later hs =
     (case hs of (h, d) \<Rightarrow>
        if th_rolloverAt h \<le> ck_unix now then
          (case Rename (th_baseName h) (th_baseName h @ fmt_suffix (th_suffix h) now) d of
             (Inl e, d1) \<Rightarrow> Inl (Panic (PanicMsg ''rename''))
           | (Inr _, d1) \<Rightarrow>
               (case OpenFile (th_baseName h) append_flags d1 of (r, d2) \<Rightarrow>
                  Inr (h\<lparr>th_fd := opened r, th_rolloverAt := wrap64 (ck_unix later + th_interval h)\<rparr>, d2)))
        else Inr (h, d))"

definition time_Write :: "clock \<Rightarrow> clock \<Rightarrow> time_rotating \<times> disk \<Rightarrow> string \<Rightarrow> (int res \<times> time_rotating \<times> disk) res" where
  "time_Write now later hs b =
     rbind (time_doRollover now later hs) (\<lambda>(h, d).
       case file_Write (th_fd h) b d of (r, f, d1) \<Rightarrow> Inr (r, h\<lparr>th_fd := f\<rparr>, d1))"

definition time_Close :: "time_rotating \<Rightarrow> unit res \<times> time_rotating" where
  "time_Close h = (case file_Close (th_fd h) of (r, f) \<Rightarrow> (r, h\<lparr>th_fd := f\<rparr>))"


section \<open>What a handler keeps\<close>

text \<open>
  The contract of the interface \<open>Handler\<close>: in a state of the handler's invariant a write succeeds, keeps the invariant, and what the
  handler keeps is an end of what it kept before and the new text.
\<close>

locale log_handler =
  fixes hwrite :: "'h \<Rightarrow> string \<Rightarrow> int res \<times> 'h"
    and hinv :: "'h \<Rightarrow> bool"
    and hkept :: "'h \<Rightarrow> string"
  assumes hwrite_ok: "hinv h \<Longrightarrow> fst (hwrite h p) = Inr (int (length p)) \<and> hinv (snd (hwrite h p))"
    and hwrite_kept: "hinv h \<Longrightarrow> suffix (hkept (snd (hwrite h p))) (hkept h @ p)"
begin

lemma hwrites_inv: "hinv h \<Longrightarrow> hinv (foldl (\<lambda>h p. snd (hwrite h p)) h ms)"
  by (induction ms arbitrary: h) (simp_all add: hwrite_ok)

lemma hwrites_kept: "hinv h \<Longrightarrow> suffix (hkept (foldl (\<lambda>h p. snd (hwrite h p)) h ms)) (hkept h @ concat ms)"
proof (induction ms arbitrary: h)
  case (Cons p ms)
  have "hinv (snd (hwrite h p))" using hwrite_ok [OF Cons.prems, of p] by blast
  then have "suffix (hkept (foldl (\<lambda>h p. snd (hwrite h p)) h (p # ms))) (hkept (snd (hwrite h p)) @ concat ms)"
    using Cons.IH by simp
  moreover have "suffix (hkept (snd (hwrite h p)) @ concat ms) ((hkept h @ p) @ concat ms)"
    using hwrite_kept [OF Cons.prems, of p] by (auto simp: suffix_def)
  ultimately show ?case by (simp add: suffix_order.order_trans)
qed simp

end

interpretation stream: log_handler stream_Write "\<lambda>h. True" sh_w
  by unfold_locales (simp_all add: stream_Write_def)

interpretation nullh: log_handler null_Write "\<lambda>h. True" "\<lambda>h. []"
  by unfold_locales (simp_all add: null_Write_def)

text \<open>A file that was opened for appending.\<close>

definition append_fd :: "string \<Rightarrow> fd \<Rightarrow> disk \<Rightarrow> bool" where
  "append_fd n f d \<longleftrightarrow> dk_files d n \<noteq> None \<and> (case f of OpenFd m fl off \<Rightarrow> m = n \<and> fl = append_flags | _ \<Rightarrow> False)"

lemma append_fdE:
  assumes "append_fd n f d"
  obtains off s where "f = OpenFd n append_flags off" "dk_files d n = Some s"
  using assms by (auto simp: append_fd_def split: fd.splits)

lemma append_fd_Write:
  assumes "append_fd n f d"
  obtains f' where "file_Write f p d = (Inr (int (length p)), f', d\<lparr>dk_files := (dk_files d)(n := Some (content d n @ p))\<rparr>)"
    and "append_fd n f' (d\<lparr>dk_files := (dk_files d)(n := Some (content d n @ p))\<rparr>)"
  using assms by (elim append_fdE) (auto simp: file_Write_def append_fd_def)

definition file_ok :: "string \<Rightarrow> file_handler \<times> disk \<Rightarrow> bool" where
  "file_ok n hs \<longleftrightarrow> append_fd n (fh_fd (fst hs)) (snd hs)"

lemma file_handler_Write_ok:
  assumes "file_ok n hs"
  shows "fst (file_handler_Write hs p) = Inr (int (length p)) \<and> file_ok n (snd (file_handler_Write hs p))
         \<and> content (snd (snd (file_handler_Write hs p))) n = content (snd hs) n @ p"
proof -
  obtain h d where hs: "hs = (h, d)" by (cases hs)
  have "append_fd n (fh_fd h) d" using assms by (simp add: hs file_ok_def)
  then obtain f where "file_Write (fh_fd h) p d = (Inr (int (length p)), f, d\<lparr>dk_files := (dk_files d)(n := Some (content d n @ p))\<rparr>)"
    "append_fd n f (d\<lparr>dk_files := (dk_files d)(n := Some (content d n @ p))\<rparr>)" by (rule append_fd_Write)
  then show ?thesis by (simp add: hs file_handler_Write_def file_ok_def)
qed

interpretation appended: log_handler file_handler_Write "file_ok n" "\<lambda>hs. content (snd hs) n"
  by unfold_locales (simp_all add: file_handler_Write_ok)


section \<open>The size-rotated log\<close>

text \<open>
  The log as a list of chunks, the newest first: the current file and the backups. A write into a full current chunk moves the chunks
  on by one, drops the oldest and starts an empty one.
\<close>

definition chunk_roll :: "int \<Rightarrow> string list \<Rightarrow> string list" where
  "chunk_roll mx cs = (if mx \<le> int (length (hd cs)) \<and> tl cs \<noteq> [] then [] # butlast cs else cs)"

definition chunk_write :: "int \<Rightarrow> string list \<Rightarrow> string \<Rightarrow> string list" where
  "chunk_write mx cs p = (hd (chunk_roll mx cs) @ p) # tl (chunk_roll mx cs)"

definition chunk_text :: "string list \<Rightarrow> string" where
  "chunk_text cs = concat (rev cs)"

text \<open>The chunks of a handler, by the names of its files.\<close>

definition chunk_name :: "string \<Rightarrow> nat \<Rightarrow> string" where
  "chunk_name n j = (if j = 0 then n else backup n (int j))"

definition chunks :: "rotating \<times> disk \<Rightarrow> string list" where
  "chunks hs = map (\<lambda>j. content (snd hs) (chunk_name (rh_fileName (fst hs)) j)) [0..<Suc (nat (rh_backupCount (fst hs)))]"

text \<open>No backup is missing before a later one, and the names of the log may be used.\<close>

definition no_gaps :: "string \<Rightarrow> nat \<Rightarrow> disk \<Rightarrow> bool" where
  "no_gaps n k d \<longleftrightarrow> (\<forall>i. 0 < i \<and> i \<le> k \<longrightarrow> dk_files d (chunk_name n i) = None \<longrightarrow> dk_files d (chunk_name n (Suc i)) = None)"

definition all_granted :: "string \<Rightarrow> disk \<Rightarrow> bool" where
  "all_granted n d \<longleftrightarrow> (\<forall>i. \<not> dk_denied d (chunk_name n i))"

definition rotating_ok :: "rotating \<times> disk \<Rightarrow> bool" where
  "rotating_ok hs \<longleftrightarrow>
     0 < rh_maxBytes (fst hs) \<and> append_fd (rh_fileName (fst hs)) (rh_fd (fst hs)) (snd hs)
     \<and> all_granted (rh_fileName (fst hs)) (snd hs)
     \<and> no_gaps (rh_fileName (fst hs)) (nat (rh_backupCount (fst hs)) - 1) (snd hs)"

lemma nat_str_inject [simp]: "nat_str m = nat_str n \<longleftrightarrow> m = n"
proof
  assume e: "nat_str m = nat_str n"
  have "parse_digits (int (max m n)) 0 (nat_str m) = Inr (int m)" "parse_digits (int (max m n)) 0 (nat_str n) = Inr (int n)"
    by (intro parse_digits_nat_str; simp)+
  then show "m = n" unfolding e by simp
qed simp

lemma chunk_name_inject [simp]: "chunk_name n i = chunk_name n j \<longleftrightarrow> i = j"
  by (auto simp: chunk_name_def backup_def int_str_def)

lemma chunk_name_0 [simp]: "chunk_name n 0 = n"
  by (simp add: chunk_name_def)

lemma chunk_name_eq_base [simp]: "chunk_name n i = n \<longleftrightarrow> i = 0" "n = chunk_name n i \<longleftrightarrow> i = 0"
  using chunk_name_inject [of n i 0] by auto

text \<open>One renaming, and the loop, in terms of the numbers of the files.\<close>

lemma Rename_chunk:
  assumes "all_granted n d" "dk_files d (chunk_name n i) = None \<Longrightarrow> dk_files d (chunk_name n (Suc i)) = None"
  shows "dk_files (snd (Rename (chunk_name n i) (chunk_name n (Suc i)) d)) (chunk_name n j) =
           (if j = Suc i then dk_files d (chunk_name n i) else if j = i then None else dk_files d (chunk_name n j))"
    and "all_granted n (snd (Rename (chunk_name n i) (chunk_name n (Suc i)) d))"
  using assms by (auto simp: Rename_def all_granted_def)

lemma shift_backups_at:
  assumes "all_granted n d" "no_gaps n k d"
  shows "dk_files (shift_backups n k d) (chunk_name n j) =
           (if 1 < j \<and> j \<le> Suc k then dk_files d (chunk_name n (j - 1))
            else if j = 1 \<and> 0 < k then None else dk_files d (chunk_name n j))
         \<and> all_granted n (shift_backups n k d)"
  using assms
proof (induction k arbitrary: d)
  case (Suc k)
  define d' where "d' = snd (Rename (chunk_name n (Suc k)) (chunk_name n (Suc (Suc k))) d)"
  have e: "shift_backups n (Suc k) d = shift_backups n k d'"
    by (simp add: d'_def chunk_name_def add.commute)
  have g: "dk_files d (chunk_name n (Suc k)) = None \<Longrightarrow> dk_files d (chunk_name n (Suc (Suc k))) = None"
    using Suc.prems(2) by (simp add: no_gaps_def)
  have f: "dk_files d' (chunk_name n i) =
      (if i = Suc (Suc k) then dk_files d (chunk_name n (Suc k)) else if i = Suc k then None else dk_files d (chunk_name n i))" for i
    unfolding d'_def by (rule Rename_chunk [OF Suc.prems(1) g])
  have a: "all_granted n d'" unfolding d'_def by (rule Rename_chunk [OF Suc.prems(1) g])
  have "no_gaps n k d'" using Suc.prems(2) by (auto simp: no_gaps_def f)
  note IH = Suc.IH [OF a this]
  show ?case unfolding e using IH by (auto simp: f)
qed auto


text \<open>A log that is full is rolled over, any other stays.\<close>

lemma doRollover_stays:
  assumes "rotating_ok (h, d)" "\<not> (rh_maxBytes h \<le> int (length (content d (rh_fileName h))) \<and> 0 < rh_backupCount h)"
  shows "doRollover (h, d) = (h, d)"
  using assms by (auto simp: doRollover_def rotating_ok_def file_Size_def elim!: append_fdE split: if_splits)

lemma doRollover_rolls:
  fixes h :: rotating and d :: disk
  defines "n \<equiv> rh_fileName h"
  assumes "rotating_ok (h, d)" "rh_maxBytes h \<le> int (length (content d n))" "0 < rh_backupCount h"
  shows "\<exists>f d'. doRollover (h, d) = (h\<lparr>rh_fd := f\<rparr>, d') \<and> append_fd n f d' \<and> all_granted n d'
           \<and> (\<forall>j \<le> nat (rh_backupCount h).
                dk_files d' (chunk_name n j) = (if j = 0 then Some [] else dk_files d (chunk_name n (j - 1))))"
proof -
  define k where "k = nat (rh_backupCount h) - 1"
  have k: "nat (rh_backupCount h - 1) = k" by (simp add: k_def nat_diff_distrib)
  have ok: "0 < rh_maxBytes h" "append_fd n (rh_fd h) d" "all_granted n d" "no_gaps n k d"
    using assms(2) by (simp_all add: rotating_ok_def n_def k_def)
  obtain off s where f: "rh_fd h = OpenFd n append_flags off" "dk_files d n = Some s" using ok(2) by (rule append_fdE)
  define d1 where "d1 = shift_backups n k d"
  define d2 where "d2 = snd (Rename n (backup n 1) d1)"
  define d3 where "d3 = d2\<lparr>dk_files := (dk_files d2)(n := Some [])\<rparr>"
  note s1 = shift_backups_at [OF ok(3,4), folded d1_def]
  have b: "dk_files d1 n = Some s" using s1 [of 0] f(2) by simp
  have r: "d2 = snd (Rename (chunk_name n 0) (chunk_name n (Suc 0)) d1)" by (simp add: d2_def chunk_name_def)
  have s2: "dk_files d2 (chunk_name n j) =
      (if j = Suc 0 then dk_files d1 n else if j = 0 then None else dk_files d1 (chunk_name n j))" for j
    using Rename_chunk(1) [of n d1 0 j] s1 [of 0] b by (simp add: r)
  have g: "all_granted n d2" unfolding r using Rename_chunk(2) [of n d1 0] s1 [of 0] b by simp
  have o: "OpenFile n append_flags d2 = (Inr (OpenFd n append_flags 0), d3)"
    using s2 [of 0] g [unfolded all_granted_def, rule_format, of 0] by (simp add: OpenFile_def d3_def content_def)
  have "doRollover (h, d) = (h\<lparr>rh_fd := OpenFd n append_flags 0\<rparr>, d3)"
    using assms(3,4) ok(1) f(1)
    by (simp add: doRollover_def file_Size_def Let_def k o opened_def flip: n_def d1_def d2_def)
  moreover have "append_fd n (OpenFd n append_flags 0) d3" "all_granted n d3"
    using g by (simp_all add: append_fd_def d3_def all_granted_def)
  moreover have "dk_files d3 (chunk_name n j) = (if j = 0 then Some [] else dk_files d (chunk_name n (j - 1)))"
    if "j \<le> nat (rh_backupCount h)" for j
    using that s1 [of j] s2 [of j] b f(2) by (auto simp: d3_def k_def)
  ultimately show ?thesis by blast
qed

lemma chunks_unfold:
  "chunks (h, d) = content d (rh_fileName h) # map (\<lambda>j. content d (chunk_name (rh_fileName h) (Suc j))) [0..<nat (rh_backupCount h)]"
  by (simp add: chunks_def upt_conv_Cons map_Suc_upt [symmetric] comp_def del: upt_Suc map_Suc_upt)

lemma chunks_butlast: "butlast (chunks (h, d)) = map (\<lambda>j. content d (chunk_name (rh_fileName h) j)) [0..<nat (rh_backupCount h)]"
  by (simp add: chunks_def map_butlast [symmetric])

definition same_log :: "rotating \<Rightarrow> rotating \<Rightarrow> bool" where
  "same_log h h' \<longleftrightarrow> rh_fileName h' = rh_fileName h \<and> rh_maxBytes h' = rh_maxBytes h \<and> rh_backupCount h' = rh_backupCount h"

lemma doRollover_refines:
  assumes "rotating_ok (h, d)" "doRollover (h, d) = (h', d')"
  shows "rotating_ok (h', d') \<and> chunks (h', d') = chunk_roll (rh_maxBytes h) (chunks (h, d)) \<and> same_log h h'"
proof (cases "rh_maxBytes h \<le> int (length (content d (rh_fileName h))) \<and> 0 < rh_backupCount h")
  case False
  then have "h' = h" "d' = d" using doRollover_stays [OF assms(1)] assms(2) by auto
  moreover have "chunk_roll (rh_maxBytes h) (chunks (h, d)) = chunks (h, d)"
    using False by (auto simp: chunk_roll_def chunks_unfold)
  ultimately show ?thesis using assms(1) by (simp add: same_log_def)
next
  case True
  let ?n = "rh_fileName h" let ?b = "nat (rh_backupCount h)"
  obtain f where e: "h' = h\<lparr>rh_fd := f\<rparr>" "append_fd ?n f d'" "all_granted ?n d'"
    and at: "\<And>j. j \<le> ?b \<Longrightarrow> dk_files d' (chunk_name ?n j) = (if j = 0 then Some [] else dk_files d (chunk_name ?n (j - 1)))"
    using doRollover_rolls [OF assms(1)] True assms(2) by auto
  have c: "content d' (chunk_name ?n j) = (if j = 0 then [] else content d (chunk_name ?n (j - 1)))" if "j \<le> ?b" for j
    using at [OF that] by (simp add: content_def)
  have n: "no_gaps ?n (?b - 1) d" "dk_files d ?n \<noteq> None"
    using assms(1) by (auto simp: rotating_ok_def append_fd_def)
  have "no_gaps ?n (?b - 1) d'"
    unfolding no_gaps_def
  proof (intro allI impI, elim conjE)
    fix i assume i: "0 < i" "i \<le> ?b - 1" "dk_files d' (chunk_name ?n i) = None"
    then have "dk_files d (chunk_name ?n (i - 1)) = None" using at [of i] by simp
    moreover from this have "i - 1 \<noteq> 0" using n(2) by (metis chunk_name_0)
    ultimately have "dk_files d (chunk_name ?n i) = None" using n(1) i by (auto simp: no_gaps_def dest!: spec [of _ "i - 1"])
    then show "dk_files d' (chunk_name ?n (Suc i)) = None" using at [of "Suc i"] i by simp
  qed
  then have "rotating_ok (h', d')" using assms(1) e by (simp add: rotating_ok_def)
  moreover have "chunks (h', d') = [] # butlast (chunks (h, d))"
    using c [of 0] by (auto simp: chunks_unfold [of "h\<lparr>rh_fd := f\<rparr>"] chunks_butlast e(1) c)
  moreover have "chunk_roll (rh_maxBytes h) (chunks (h, d)) = [] # butlast (chunks (h, d))"
    using True by (simp add: chunk_roll_def chunks_unfold)
  ultimately show ?thesis by (simp add: same_log_def e(1))
qed

lemma rotating_Write_refines:
  assumes "rotating_ok (h, d)" "rotating_Write (h, d) p = (r, h', d')"
  shows "r = Inr (int (length p)) \<and> rotating_ok (h', d') \<and> chunks (h', d') = chunk_write (rh_maxBytes h) (chunks (h, d)) p \<and> same_log h h'"
proof -
  obtain h1 d1 where ro: "doRollover (h, d) = (h1, d1)" by (cases "doRollover (h, d)")
  note R = doRollover_refines [OF assms(1) ro]
  let ?n = "rh_fileName h1"
  have a: "append_fd ?n (rh_fd h1) d1" using R by (simp add: rotating_ok_def)
  then obtain f where w: "file_Write (rh_fd h1) p d1 = (Inr (int (length p)), f, d1\<lparr>dk_files := (dk_files d1)(?n := Some (content d1 ?n @ p))\<rparr>)"
    and f: "append_fd ?n f (d1\<lparr>dk_files := (dk_files d1)(?n := Some (content d1 ?n @ p))\<rparr>)" by (rule append_fd_Write)
  have e: "r = Inr (int (length p))" "h' = h1\<lparr>rh_fd := f\<rparr>" "d' = d1\<lparr>dk_files := (dk_files d1)(?n := Some (content d1 ?n @ p))\<rparr>"
    using assms(2) by (simp_all add: rotating_Write_def ro w)
  have "rotating_ok (h', d')" using R f by (auto simp: e rotating_ok_def all_granted_def no_gaps_def append_fd_def)
  moreover have "chunks (h', d') = (content d1 ?n @ p) # tl (chunks (h1, d1))" by (simp add: e chunks_unfold)
  moreover have "hd (chunks (h1, d1)) = content d1 ?n" by (simp add: chunks_unfold)
  ultimately show ?thesis using R by (simp add: e(1,2) chunk_write_def same_log_def)
qed

text \<open>
  The chunks of a log that started empty: behind the current chunk come full ones and then unused ones, so that a roll drops text only
  when every backup is full; no chunk is longer than the limit and the longest write.
\<close>

definition chunks_filled :: "int \<Rightarrow> string list \<Rightarrow> bool" where
  "chunks_filled mx cs \<longleftrightarrow>
     (\<exists>c fs k. cs = c # fs @ replicate k [] \<and> (\<forall>f \<in> set fs. mx \<le> int (length f)))"

definition chunks_short :: "int \<Rightarrow> int \<Rightarrow> string list \<Rightarrow> bool" where
  "chunks_short mx l cs \<longleftrightarrow> (\<forall>c \<in> set cs. int (length c) < mx + l)"

lemma chunk_write_length [simp]: "cs \<noteq> [] \<Longrightarrow> length (chunk_write mx cs p) = length cs"
  by (auto simp: chunk_write_def chunk_roll_def neq_Nil_conv)

lemma chunk_text_long: "\<forall>f \<in> set fs. mx \<le> int (length f) \<Longrightarrow> int (length fs) * mx \<le> int (length (concat (rev fs)))"
  by (induction fs) (auto simp: algebra_simps)

lemma chunk_text_short: "chunks_short mx l cs \<Longrightarrow> 0 < mx + l \<Longrightarrow> int (length (chunk_text cs)) \<le> int (length cs) * (mx + l)"
  by (induction cs) (auto simp: chunk_text_def chunks_short_def algebra_simps)

lemma chunk_write_short:
  assumes "chunks_short mx l cs" "cs \<noteq> []" "0 < mx" "int (length p) \<le> l" "tl cs \<noteq> []"
  shows "chunks_short mx l (chunk_write mx cs p)"
  using assms by (cases cs) (auto simp: chunks_short_def chunk_write_def chunk_roll_def dest: in_set_butlastD)

lemma chunk_write_cases:
  assumes "chunks_filled mx cs"
  shows "chunks_filled mx (chunk_write mx cs p)"
    and "suffix (chunk_text (chunk_write mx cs p)) (chunk_text cs @ p)"
    and "chunk_text (chunk_write mx cs p) = chunk_text cs @ p
         \<or> int (length cs - 1) * mx \<le> int (length (chunk_text (chunk_write mx cs p)))"
proof -
  obtain c fs k where cs: "cs = c # fs @ replicate k []" "\<forall>f \<in> set fs. mx \<le> int (length f)"
    using assms by (auto simp: chunks_filled_def)
  consider (stay) "\<not> (mx \<le> int (length c) \<and> tl cs \<noteq> [])" | (unused) m where "k = Suc m" "mx \<le> int (length c)"
    | (full) gs g where "k = 0" "fs = gs @ [g]" "mx \<le> int (length c)"
    by (cases k; cases fs rule: rev_cases) (auto simp: cs(1))
  then have *: "chunks_filled mx (chunk_write mx cs p) \<and> suffix (chunk_text (chunk_write mx cs p)) (chunk_text cs @ p)
         \<and> (chunk_text (chunk_write mx cs p) = chunk_text cs @ p
            \<or> int (length cs - 1) * mx \<le> int (length (chunk_text (chunk_write mx cs p))))"
  proof cases
    case stay
    then have "chunk_write mx cs p = (c @ p) # fs @ replicate k []" by (auto simp: chunk_write_def chunk_roll_def cs(1))
    then show ?thesis using cs by (auto simp: chunks_filled_def chunk_text_def)
  next
    case unused
    then have w: "chunk_write mx cs p = p # (c # fs) @ replicate m []"
      by (simp add: chunk_write_def chunk_roll_def cs(1) butlast_append replicate_append_same [symmetric] del: replicate.simps(2) add: replicate_Suc)
    moreover have "\<forall>f \<in> set (c # fs). mx \<le> int (length f)" using cs(2) unused by simp
    ultimately have "chunks_filled mx (chunk_write mx cs p)" unfolding chunks_filled_def by blast
    then show ?thesis using w unused by (simp add: chunk_text_def cs(1))
  next
    case full
    then have w: "chunk_write mx cs p = p # c # gs" by (simp add: chunk_write_def chunk_roll_def cs(1) butlast_append)
    have f: "\<forall>f \<in> set (c # gs). mx \<le> int (length f)" using cs(2) full by simp
    then have "int (length (c # gs)) * mx \<le> int (length (concat (rev (c # gs))))" by (rule chunk_text_long)
    then have "int (length cs - 1) * mx \<le> int (length (chunk_text (chunk_write mx cs p)))"
      unfolding w using full by (simp add: chunk_text_def cs(1))
    moreover have "suffix (chunk_text (chunk_write mx cs p)) (chunk_text cs @ p)"
      unfolding w using full by (simp add: chunk_text_def cs(1) suffix_def)
    moreover have "chunks_filled mx (chunk_write mx cs p)"
      unfolding w chunks_filled_def using f by (intro exI [of _ p] exI [of _ "c # gs"] exI [of _ "0 :: nat"]) simp
    ultimately show ?thesis by blast
  qed
  show "chunks_filled mx (chunk_write mx cs p)" using * by blast
  show "suffix (chunk_text (chunk_write mx cs p)) (chunk_text cs @ p)" using * by blast
  show "chunk_text (chunk_write mx cs p) = chunk_text cs @ p
         \<or> int (length cs - 1) * mx \<le> int (length (chunk_text (chunk_write mx cs p)))" using * by blast
qed

section \<open>The tail of the log\<close>

definition rotating_writes :: "rotating \<times> disk \<Rightarrow> string list \<Rightarrow> rotating \<times> disk" where
  "rotating_writes hs ms = foldl (\<lambda>hs p. snd (rotating_Write hs p)) hs ms"

definition rotating_inv :: "rotating \<times> disk \<Rightarrow> bool" where
  "rotating_inv hs \<longleftrightarrow> rotating_ok hs \<and> chunks_filled (rh_maxBytes (fst hs)) (chunks hs)"

lemma rotating_Write_step:
  assumes "rotating_inv hs"
  shows "fst (rotating_Write hs p) = Inr (int (length p)) \<and> rotating_inv (snd (rotating_Write hs p))
         \<and> chunks (snd (rotating_Write hs p)) = chunk_write (rh_maxBytes (fst hs)) (chunks hs) p
         \<and> same_log (fst hs) (fst (snd (rotating_Write hs p)))"
proof -
  obtain h d where hs: "hs = (h, d)" by (cases hs)
  obtain r h' d' where w: "rotating_Write hs p = (r, h', d')" by (cases "rotating_Write hs p")
  have ok: "rotating_ok (h, d)" "chunks_filled (rh_maxBytes h) (chunks (h, d))" using assms by (simp_all add: hs rotating_inv_def)
  note R = rotating_Write_refines [OF ok(1) w [unfolded hs]]
  have "chunks_filled (rh_maxBytes h) (chunks (h', d'))" using R chunk_write_cases(1) [OF ok(2)] by simp
  then show ?thesis using R w by (simp add: hs rotating_inv_def same_log_def)
qed

interpretation rotated: log_handler rotating_Write rotating_inv "\<lambda>hs. chunk_text (chunks hs)"
proof
  fix hs :: "rotating \<times> disk" and p
  assume i: "rotating_inv hs"
  show "fst (rotating_Write hs p) = Inr (int (length p)) \<and> rotating_inv (snd (rotating_Write hs p))"
    using rotating_Write_step [OF i, of p] by blast
  show "suffix (chunk_text (chunks (snd (rotating_Write hs p)))) (chunk_text (chunks hs) @ p)"
    using rotating_Write_step [OF i, of p] chunk_write_cases(2) i by (simp add: rotating_inv_def)
qed

text \<open>What a log keeps of a text \<open>t\<close> that was written to it by writes of at most \<open>l\<close> bytes.\<close>

definition keeps_tail :: "int \<Rightarrow> string \<Rightarrow> rotating \<times> disk \<Rightarrow> bool" where
  "keeps_tail l t hs \<longleftrightarrow>
     rotating_inv hs \<and> chunks_short (rh_maxBytes (fst hs)) l (chunks hs)
     \<and> (chunk_text (chunks hs) = t \<or> rh_backupCount (fst hs) * rh_maxBytes (fst hs) \<le> int (length (chunk_text (chunks hs))))"

lemma chunks_length: "0 < rh_backupCount (fst hs) \<Longrightarrow> int (length (chunks hs)) = rh_backupCount (fst hs) + 1"
  by (simp add: chunks_def)

lemma keeps_tail_step:
  assumes "keeps_tail l t hs" "int (length p) \<le> l" "0 < rh_backupCount (fst hs)"
  shows "keeps_tail l (t @ p) (snd (rotating_Write hs p))"
proof -
  let ?m = "rh_maxBytes (fst hs)" let ?cs = "chunks hs" let ?hs = "snd (rotating_Write hs p)"
  have inv: "rotating_inv hs" and short: "chunks_short ?m l ?cs"
    and kept: "chunk_text ?cs = t \<or> rh_backupCount (fst hs) * ?m \<le> int (length (chunk_text ?cs))"
    using assms(1) by (auto simp: keeps_tail_def)
  note S = rotating_Write_step [OF inv, of p]
  have len: "int (length ?cs - 1) = rh_backupCount (fst hs)" "?cs \<noteq> []" "tl ?cs \<noteq> []"
    using chunks_length [OF assms(3)] assms(3) by (auto simp: tl_Nil)
  have "0 < ?m" using inv by (simp add: rotating_inv_def rotating_ok_def)
  then have "chunks_short ?m l (chunk_write ?m ?cs p)" using chunk_write_short short len assms(2) by blast
  moreover have "chunk_text (chunk_write ?m ?cs p) = t @ p
      \<or> rh_backupCount (fst hs) * ?m \<le> int (length (chunk_text (chunk_write ?m ?cs p)))"
    using chunk_write_cases(3) [of ?m ?cs p] kept inv len(1) by (auto simp: rotating_inv_def)
  ultimately show ?thesis using S by (simp add: keeps_tail_def same_log_def)
qed

lemma keeps_tail_writes:
  assumes "keeps_tail l t hs" "\<forall>m \<in> set ms. int (length m) \<le> l" "0 < rh_backupCount (fst hs)"
  shows "keeps_tail l (t @ concat ms) (rotating_writes hs ms) \<and> same_log (fst hs) (fst (rotating_writes hs ms))"
  using assms
proof (induction ms arbitrary: t hs)
  case Nil
  then show ?case by (simp add: rotating_writes_def same_log_def)
next
  case (Cons m ms)
  have k: "keeps_tail l (t @ m) (snd (rotating_Write hs m))" using keeps_tail_step Cons.prems by simp
  have s: "same_log (fst hs) (fst (snd (rotating_Write hs m)))"
    using rotating_Write_step Cons.prems(1) by (simp add: keeps_tail_def)
  show ?case using Cons.IH [OF k] Cons.prems s by (simp add: rotating_writes_def same_log_def)
qed

text \<open>A new log on a disk that has no file of its name.\<close>

lemma rotating_log_starts_empty:
  assumes "NewRotatingFileHandler n mx bc d = (Inr h, d1)" "\<And>j. dk_files d (chunk_name n j) = None"
  shows "chunk_text (chunks (h, d1)) = []"
proof -
  have h: "rh_fileName h = n" and d1: "d1 = d\<lparr>dk_files := (dk_files d)(n := Some [])\<rparr>"
    using assms(1) assms(2) [of 0] by (auto simp: NewRotatingFileHandler_def OpenFile_def content_def split: if_splits)
  show ?thesis unfolding chunks_unfold h d1 chunk_text_def using assms(2) by (simp add: content_def)
qed

lemma new_log_keeps_tail:
  assumes "NewRotatingFileHandler n mx bc d = (Inr h, d1)" "\<And>j. dk_files d (chunk_name n j) = None" "all_granted n d" "0 < bc" "0 \<le> l"
  shows "keeps_tail l [] (h, d1) \<and> rh_fileName h = n \<and> rh_maxBytes h = mx \<and> rh_backupCount h = bc"
proof -
  have mx: "0 < mx" and h: "h = \<lparr>rh_fd = OpenFd n append_flags 0, rh_fileName = n, rh_maxBytes = mx, rh_backupCount = bc\<rparr>"
    and d1: "d1 = d\<lparr>dk_files := (dk_files d)(n := Some [])\<rparr>"
    using assms(1) assms(2) [of 0] by (auto simp: NewRotatingFileHandler_def OpenFile_def content_def split: if_splits)
  have cs: "chunks (h, d1) = replicate (Suc (nat bc)) []"
    unfolding h d1 chunks_unfold using assms(2) by (simp add: content_def map_replicate_const)
  have "rotating_ok (h, d1)"
    using mx assms(2,3) by (simp add: rotating_ok_def h d1 append_fd_def all_granted_def no_gaps_def)
  moreover have "chunks_filled mx (chunks (h, d1))"
    unfolding cs chunks_filled_def by (intro exI [of _ "[]"] exI [of _ "nat bc"]) simp
  moreover have "chunks_short mx l (chunks (h, d1))" "chunk_text (chunks (h, d1)) = []"
    using mx assms(5) by (simp_all add: cs chunks_short_def chunk_text_def)
  moreover have "rh_fileName h = n" "rh_maxBytes h = mx" "rh_backupCount h = bc" by (simp_all add: h)
  ultimately show ?thesis by (simp add: keeps_tail_def rotating_inv_def)
qed

text \<open>
  C30. The log keeps the tail of what was written to it, within its space. On a disk without files of its name, a handler that
  \<open>NewRotatingFileHandler\<close> opened with \<open>bc\<close> backups of \<open>mx\<close> bytes takes any sequence of writes of at most \<open>l\<close> bytes each. Its files, read
  from the oldest backup to the current file, are then an end of the concatenated writes; they hold everything or at least
  the last \<open>bc * mx\<close> bytes, and never more than \<open>(bc + 1) * (mx + l)\<close> bytes.
\<close>

theorem rotating_log_keeps_tail:
  assumes "NewRotatingFileHandler n mx bc d = (Inr h, d1)" "\<forall>j. dk_files d (chunk_name n j) = None" "all_granted n d"
    and "0 < bc" "0 \<le> l" "\<forall>m \<in> set ms. int (length m) \<le> l"
  shows "suffix (chunk_text (chunks (rotating_writes (h, d1) ms))) (concat ms)
         \<and> min (int (length (concat ms))) (bc * mx) \<le> int (length (chunk_text (chunks (rotating_writes (h, d1) ms))))
         \<and> int (length (chunk_text (chunks (rotating_writes (h, d1) ms)))) \<le> (bc + 1) * (mx + l)"
proof -
  have new: "keeps_tail l [] (h, d1)" "rh_maxBytes h = mx" "rh_backupCount h = bc"
    using new_log_keeps_tail [of n mx bc d h d1 l] assms by simp_all
  let ?hs = "rotating_writes (h, d1) ms"
  have k: "keeps_tail l (concat ms) ?hs" and s: "same_log h (fst ?hs)"
    using keeps_tail_writes [OF new(1) assms(6)] new(3) assms(4) by simp_all
  have "suffix (chunk_text (chunks ?hs)) (chunk_text (chunks (h, d1)) @ concat ms)"
    using rotated.hwrites_kept [of "(h, d1)" ms] new(1) by (simp add: rotating_writes_def keeps_tail_def)
  moreover have "chunk_text (chunks (h, d1)) = []"
    using rotating_log_starts_empty [OF assms(1)] assms(2) by simp
  moreover have "0 < mx" using new(1,2) by (simp add: keeps_tail_def rotating_inv_def rotating_ok_def)
  moreover have "int (length (chunks ?hs)) = bc + 1" using chunks_length [of ?hs] s new(3) assms(4) by (simp add: same_log_def)
  ultimately show ?thesis
    using k s new(2,3) assms(5) chunk_text_short [of mx l "chunks ?hs"] by (auto simp: keeps_tail_def same_log_def)
qed

definition demo_disk :: disk where
  "demo_disk = \<lparr>dk_files = (\<lambda>n. None), dk_denied = (\<lambda>n. False)\<rparr>"

definition demo_log :: "rotating \<times> disk" where
  "demo_log =
     (\<lparr>rh_fd = OpenFd ''sys.log'' append_flags 0, rh_fileName = ''sys.log'', rh_maxBytes = 4, rh_backupCount = 1\<rparr>,
      demo_disk\<lparr>dk_files := (dk_files demo_disk)(''sys.log'' := Some [])\<rparr>)"

text \<open>Three writes of up to five bytes to a log with one backup of four bytes: the first of them is dropped.\<close>

theorem rotating_log_keeps_tail_witness:
  "suffix (chunk_text (chunks (rotating_writes demo_log [''abcd'', ''efghi'', ''jk'']))) ''abcdefghijk''
   \<and> 4 \<le> int (length (chunk_text (chunks (rotating_writes demo_log [''abcd'', ''efghi'', ''jk'']))))
   \<and> int (length (chunk_text (chunks (rotating_writes demo_log [''abcd'', ''efghi'', ''jk''])))) \<le> 18
   \<and> chunks (rotating_writes demo_log [''abcd'', ''efghi'', ''jk'']) = [''jk'', ''efghi'']"
proof -
  have n: "NewRotatingFileHandler ''sys.log'' 4 1 demo_disk = (Inr (fst demo_log), snd demo_log)"
    by (simp add: NewRotatingFileHandler_def OpenFile_def demo_log_def demo_disk_def content_def)
  have "suffix (chunk_text (chunks (rotating_writes demo_log [''abcd'', ''efghi'', ''jk'']))) (concat [''abcd'', ''efghi'', ''jk''])
     \<and> min (int (length (concat [''abcd'', ''efghi'', ''jk'']))) (1 * 4)
         \<le> int (length (chunk_text (chunks (rotating_writes demo_log [''abcd'', ''efghi'', ''jk'']))))
     \<and> int (length (chunk_text (chunks (rotating_writes demo_log [''abcd'', ''efghi'', ''jk''])))) \<le> (1 + 1) * (4 + 5)"
    by (rule rotating_log_keeps_tail [OF n, unfolded prod.collapse])
      (simp_all add: demo_disk_def all_granted_def)
  moreover have "chunks (rotating_writes demo_log [''abcd'', ''efghi'', ''jk'']) = [''jk'', ''efghi'']"
    by code_simp
  ultimately show ?thesis by simp
qed

section \<open>The time-rotated log\<close>

text \<open>
  A write either goes to the end of the file, or, once the time has come, moves the file to a name with the time and starts the file
  anew; the next rollover is then a full interval away.
\<close>

lemma time_doRollover_cases:
  fixes h :: time_rotating and d :: disk
  defines "n \<equiv> th_baseName h"
  assumes "append_fd n (th_fd h) d" "\<And>m. \<not> dk_denied d m"
  shows "\<exists>h1 d1. time_doRollover now later (h, d) = Inr (h1, d1) \<and> append_fd n (th_fd h1) d1
           \<and> (if th_rolloverAt h \<le> ck_unix now
              then content d1 n = [] \<and> content d1 (n @ fmt_suffix (th_suffix h) now) = content d n
                \<and> th_rolloverAt h1 = wrap64 (ck_unix later + th_interval h)
              else d1 = d \<and> h1 = h)"
proof (cases "th_rolloverAt h \<le> ck_unix now")
  case True
  obtain s where s: "dk_files d n = Some s" using assms(2) by (rule append_fdE)
  let ?b = "n @ fmt_suffix (th_suffix h) now"
  let ?d = "d\<lparr>dk_files := (dk_files d)(n := None, ?b := Some s, n := Some [])\<rparr>"
  have ne: "?b \<noteq> n" by (simp add: fmt_suffix_def fmt_date_def fmt_0d_def zero_pad_def)
  have "Rename n ?b d = (Inr (), d\<lparr>dk_files := (dk_files d)(n := None, ?b := Some s)\<rparr>)" using assms(3) s by (simp add: Rename_def)
  moreover have "OpenFile n append_flags (d\<lparr>dk_files := (dk_files d)(n := None, ?b := Some s)\<rparr>) = (Inr (OpenFd n append_flags 0), ?d)"
    using assms(3) ne by (simp add: OpenFile_def content_def)
  ultimately have "time_doRollover now later (h, d) =
      Inr (h\<lparr>th_fd := OpenFd n append_flags 0, th_rolloverAt := wrap64 (ck_unix later + th_interval h)\<rparr>, ?d)"
    using True by (simp add: time_doRollover_def opened_def flip: n_def)
  moreover have "append_fd n (OpenFd n append_flags 0) ?d" by (simp add: append_fd_def)
  moreover have "content ?d n = []" "content ?d ?b = content d n" using ne s by (simp_all add: content_def)
  ultimately show ?thesis using True by simp
next
  case False
  then show ?thesis using assms(2) by (simp add: time_doRollover_def)
qed

lemma time_Write_cases:
  fixes h :: time_rotating and d :: disk
  defines "n \<equiv> th_baseName h"
  assumes "append_fd n (th_fd h) d" "\<And>m. \<not> dk_denied d m"
  shows "\<exists>h' d'. time_Write now later (h, d) b = Inr (Inr (int (length b)), h', d') \<and> append_fd n (th_fd h') d'
           \<and> (if th_rolloverAt h \<le> ck_unix now
              then content d' n = b \<and> content d' (n @ fmt_suffix (th_suffix h) now) = content d n
                \<and> th_rolloverAt h' = wrap64 (ck_unix later + th_interval h)
              else content d' n = content d n @ b \<and> th_rolloverAt h' = th_rolloverAt h)"
proof -
  obtain h1 d1 where ro: "time_doRollover now later (h, d) = Inr (h1, d1)" "append_fd n (th_fd h1) d1"
    and c: "if th_rolloverAt h \<le> ck_unix now
            then content d1 n = [] \<and> content d1 (n @ fmt_suffix (th_suffix h) now) = content d n
              \<and> th_rolloverAt h1 = wrap64 (ck_unix later + th_interval h)
            else d1 = d \<and> h1 = h"
    using time_doRollover_cases [of h d now later] assms by auto
  obtain f where w: "file_Write (th_fd h1) b d1 = (Inr (int (length b)), f, d1\<lparr>dk_files := (dk_files d1)(n := Some (content d1 n @ b))\<rparr>)"
    "append_fd n f (d1\<lparr>dk_files := (dk_files d1)(n := Some (content d1 n @ b))\<rparr>)" using ro(2) by (rule append_fd_Write)
  have "n @ fmt_suffix (th_suffix h) now \<noteq> n" by (simp add: fmt_suffix_def fmt_date_def fmt_0d_def zero_pad_def)
  then show ?thesis using ro c w by (auto simp: time_Write_def split: if_splits)
qed

end
