(* ===== verification/Golog.thy ===== *)
theory Golog
  imports Go_Fmt Log_Files
begin

text \<open>
  The logger (src/core/golog/log.go): the lines it writes, and its goroutines. Callers take a buffer from a pool, append the parts of a
  line to it and send it into a channel; one goroutine takes the buffers out, passes them to the handler and puts them back. Buffers
  are addresses of a store, so that a buffer in two places would be seen. The steps interleave in any order.
\<close>

section \<open>Lines\<close>

abbreviation (input) "LevelTrace \<equiv> (0 :: int)"
abbreviation (input) "LevelDebug \<equiv> (1 :: int)"
abbreviation (input) "LevelInfo \<equiv> (2 :: int)"
abbreviation (input) "LevelWarn \<equiv> (3 :: int)"
abbreviation (input) "LevelError \<equiv> (4 :: int)"
abbreviation (input) "LevelFatal \<equiv> (5 :: int)"

abbreviation (input) "Ltime \<equiv> (1 :: int)"
abbreviation (input) "Lfile \<equiv> (2 :: int)"
abbreviation (input) "Llevel \<equiv> (4 :: int)"

definition LevelName :: "string list" where
  "LevelName = [''TRACE'', ''DEBUG'', ''INFO'', ''WARN'', ''ERROR'', ''FATAL'']"

abbreviation (input) "maxBufPoolSize \<equiv> (16 :: nat)"

text \<open>Whether a flag is set (\<open>l.flag & f > 0\<close>).\<close>

definition has_flag :: "int \<Rightarrow> int \<Rightarrow> bool" where
  "has_flag flag f \<longleftrightarrow> 0 < and flag f"

text \<open>\<open>now.Format(TimeFormat)\<close>.\<close>

definition fmt_time :: "clock \<Rightarrow> string" where
  "fmt_time t =
     fmt_date ''/'' t @ '' '' @ fmt_0d 2 (ck_hour t) @ '':'' @ fmt_0d 2 (ck_minute t) @ '':'' @ fmt_0d 2 (ck_second t)"

text \<open>The loop over the file name of the caller: what is behind the last slash, unless the slash is the first byte.\<close>

definition base_name :: "string \<Rightarrow> string" where
  "base_name file =
     (let r = takeWhile (\<lambda>c. c \<noteq> CHR ''/'') (rev file) in
      if length r + 1 < length file then rev r else file)"

text \<open>The end of \<open>Output\<close> and \<open>OutputSql\<close>: the text, and a newline unless it has one. An empty text is an index out of range.\<close>

definition line_end :: "string \<Rightarrow> string list res" where
  "line_end s =
     (if s = [] then Inl (Panic IndexOutOfRange)
      else Inr (s # (if last s \<noteq> CHR 0x0A then [[CHR 0x0A]] else [])))"

text \<open>
  The parts that \<open>Output\<close> appends to its buffer; \<open>caller\<close> is what \<open>runtime.Caller\<close> gives. Nothing is written below the level of the
  logger.
\<close>

definition Output_parts :: "int \<Rightarrow> int \<Rightarrow> int \<Rightarrow> clock \<Rightarrow> (string \<times> int) option \<Rightarrow> string \<Rightarrow> string list option res" where
  "Output_parts l_level l_flag level now caller format =
     (if l_level > level then Inr None
      else
        let t = (if has_flag l_flag Ltime then [fmt_time now, '' - ''] else []) in
        rbind (if has_flag l_flag Llevel then rbind (at_index LevelName level) (\<lambda>n. Inr [n, '' - '']) else Inr []) (\<lambda>n.
        let f = (if has_flag l_flag Lfile then
                   case caller of
                     None \<Rightarrow> [''???'', '':['', int_str 0, ''] - '']
                   | Some (file, line) \<Rightarrow> [base_name file, '':['', int_str line, ''] - '']
                 else []) in
        rbind (line_end (Sprintf_none format)) (\<lambda>e. Inr (Some (t @ n @ f @ e)))))"

text \<open>\<open>OutputSql\<close>, which has no level; \<open>s\<close> is the formatted text.\<close>

definition OutputSql_parts :: "int \<Rightarrow> clock \<Rightarrow> string \<Rightarrow> string \<Rightarrow> string list res" where
  "OutputSql_parts l_flag now state s =
     (let t = (if has_flag l_flag Ltime then [fmt_time now, '' - ''] else []);
          n = (if has_flag l_flag Llevel then [state, '' - ''] else []) in
      rbind (line_end s) (\<lambda>e. Inr (t @ n @ e)))"

fun escape :: "bool \<Rightarrow> string \<Rightarrow> string" where
  "escape filterEqual [] = []"
| "escape filterEqual (r # s) =
     (if r = CHR ''|'' then []
      else if r = CHR ''%'' then ''%%''
      else if r = CHR ''='' then (if filterEqual then [] else ''='')
      else [r]) @ escape filterEqual s"

text \<open>The loop over the pairs of arguments, and the argument that is left over.\<close>

fun args_text :: "fmt_arg list \<Rightarrow> string" where
  "args_text [] = []"
| "args_text [a] = escape False (Sprintf ''%v'' [a])"
| "args_text (a # b # as) =
     escape False (Sprintf ''%v=%v'' [a, b]) @ (if as \<noteq> [] then ''|'' else []) @ args_text as"

definition output_content :: "string \<Rightarrow> string \<Rightarrow> string \<Rightarrow> int \<Rightarrow> fmt_arg list \<Rightarrow> string" where
  "output_content module method msg reqId args =
     Sprintf (''[%s] '' @ CHR 0x22 # ''%s'' @ CHR 0x22 # '' '' @ CHR 0x22 # ''%s'' @ CHR 0x22 # '' '' @ CHR 0x22 # ''%s'' @ CHR 0x22 # '' conn_id=%d'')
       [FStr module, FStr method, FStr msg, FStr (args_text args), FInt reqId]"

definition log_output ::
  "int \<Rightarrow> int \<Rightarrow> int \<Rightarrow> clock \<Rightarrow> (string \<times> int) option \<Rightarrow> string \<Rightarrow> string \<Rightarrow> string \<Rightarrow> int \<Rightarrow> fmt_arg list \<Rightarrow> string list option res"
where
  "log_output l_level l_flag level now caller module method msg reqId args =
     (if level < l_level then Inr None
      else Output_parts l_level l_flag level now caller (output_content module method msg reqId args))"

text \<open>\<open>Logger.Write\<close>, which the web server calls with its access log, and the calls by level.\<close>

definition logger_Write :: "int \<Rightarrow> int \<Rightarrow> clock \<Rightarrow> (string \<times> int) option \<Rightarrow> string \<Rightarrow> string list option res \<times> int" where
  "logger_Write l_level l_flag now caller p =
     (log_output l_level l_flag LevelInfo now caller ''web'' ''api'' p 0 [], int (length p))"

definition log_Trace where "log_Trace lv fl = log_output lv fl LevelTrace"
definition log_Debug where "log_Debug lv fl = log_output lv fl LevelDebug"
definition log_Info where "log_Info lv fl = log_output lv fl LevelInfo"
definition log_Warn where "log_Warn lv fl = log_output lv fl LevelWarn"
definition log_Error where "log_Error lv fl = log_output lv fl LevelError"
definition log_Fatal where "log_Fatal lv fl = log_output lv fl LevelFatal"

text \<open>\<open>setLogLevel\<close> of the main program and of the server.\<close>

definition setLogLevel :: "string \<Rightarrow> int" where
  "setLogLevel level =
     (let l = to_lower level in
      if l = ''debug'' then LevelDebug else if l = ''info'' then LevelInfo else if l = ''warn'' then LevelWarn
      else if l = ''error'' then LevelError else LevelError)"

subsection \<open>What a line shows\<close>

lemma Sprintf_none_escape: "Sprintf_none (escape False s @ t) = filter (\<lambda>c. c \<noteq> CHR ''|'') s @ Sprintf_none t"
  by (induction s) auto

text \<open>The arguments as they are meant to be shown: pairs with an equals sign, separated by bars, which occur nowhere else.\<close>

fun args_shown :: "fmt_arg list \<Rightarrow> string" where
  "args_shown [] = []"
| "args_shown [a] = filter (\<lambda>c. c \<noteq> CHR ''|'') (arg_text a)"
| "args_shown (a # b # as) =
     filter (\<lambda>c. c \<noteq> CHR ''|'') (arg_text a @ ''='' @ arg_text b) @ (if as \<noteq> [] then ''|'' else []) @ args_shown as"

lemma Sprintf_v: "Sprintf ''%v'' [a] = arg_text a"
  by (cases a) (simp_all add: Sprintf_verb extra_args_def)

lemma Sprintf_vv: "Sprintf ''%v=%v'' [a, b] = arg_text a @ ''='' @ arg_text b"
  by (cases a; cases b) (simp_all add: Sprintf_verb extra_args_def)

lemma Sprintf_none_args: "Sprintf_none (args_text args @ t) = args_shown args @ Sprintf_none t"
  by (induction args arbitrary: t rule: args_text.induct)
    (simp_all add: Sprintf_v Sprintf_vv Sprintf_none_escape Sprintf_none_plain)


lemma output_content_eq:
  "output_content module method msg reqId args =
     ''['' @ module @ ''] '' @ CHR 0x22 # method @ CHR 0x22 # '' '' @ CHR 0x22 # msg @ CHR 0x22 # '' '' @ CHR 0x22 # args_text args
       @ CHR 0x22 # '' conn_id='' @ int_str reqId"
  by (simp add: output_content_def Sprintf_verb extra_args_def)

lemma int_str_plain: "CHR ''%'' \<notin> set (int_str i)"
  using nat_str_digits [of "CHR ''%''"] by (auto simp: int_str_def is_digit_def)

lemma int_str_last_digit: "int_str i \<noteq> [] \<and> is_digit (last (int_str i))"
  using nat_str_digits [OF last_in_set [OF nat_str_nonempty]] by (simp add: int_str_def)

lemma output_line_shows:
  assumes "CHR ''%'' \<notin> set module" "CHR ''%'' \<notin> set method" "CHR ''%'' \<notin> set msg"
  shows "Sprintf_none (output_content module method msg reqId args) =
     ''['' @ module @ ''] '' @ CHR 0x22 # method @ CHR 0x22 # '' '' @ CHR 0x22 # msg @ CHR 0x22 # '' '' @ CHR 0x22 # args_shown args
       @ CHR 0x22 # '' conn_id='' @ int_str reqId"
  using assms Sprintf_none_plain [OF int_str_plain, of reqId "[]"]
  by (simp add: output_content_eq Sprintf_none_plain Sprintf_none_args)

text \<open>A percent sign in the message is read as a verb: the message is not what is shown.\<close>

lemma output_message_garbled:
  "Sprintf_none (output_content ''web'' ''api'' ''GET /a%20b'' 0 []) =
     ''[web] '' @ CHR 0x22 # ''api'' @ CHR 0x22 # '' '' @ CHR 0x22 # ''GET /a%!b(MISSING)'' @ CHR 0x22 # '' '' @ CHR 0x22 # CHR 0x22 # '' conn_id=0''"
proof -
  have "int_str 0 = ''0''" by code_simp
  then show ?thesis
    by (simp add: output_content_eq Sprintf_none.simps(2) directive_def argNumber_def verb_width_def verb_precision_def parsenum_def Let_def
        is_flag_def is_digit_def too_large_def digits_value_def digit_val_def rune_len_ascii first_rune_ascii)
qed

section \<open>Goroutines\<close>

text \<open>
  The logger: \<open>lg_mem\<close> is the store of the buffers, \<open>lg_bufs\<close> the pool, \<open>lg_msg\<close> the channel of capacity 1024, \<open>lg_quit\<close> whether the
  channel \<open>quit\<close> is closed, and \<open>lg_fresh\<close> the next address that was never used.
\<close>

record logger =
  lg_level :: int
  lg_flag :: int
  lg_mem :: "nat \<Rightarrow> string"
  lg_bufs :: "nat list"
  lg_msg :: "nat list"
  lg_fresh :: nat
  lg_quit :: bool
  lg_closed :: bool

definition New :: "int \<Rightarrow> logger" where
  "New flag =
     \<lparr>lg_level = LevelInfo, lg_flag = flag, lg_mem = (\<lambda>_. []), lg_bufs = [], lg_msg = [], lg_fresh = 0,
      lg_quit = False, lg_closed = False\<rparr>"

definition NewDefault :: logger where
  "NewDefault = New (or Ltime (or Lfile Llevel))"

definition popBuf :: "logger \<Rightarrow> nat \<times> logger" where
  "popBuf l =
     (if lg_bufs l = [] then (lg_fresh l, l\<lparr>lg_mem := (lg_mem l)(lg_fresh l := []), lg_fresh := lg_fresh l + 1\<rparr>)
      else (last (lg_bufs l), l\<lparr>lg_bufs := butlast (lg_bufs l)\<rparr>))"

definition putBuf :: "nat \<Rightarrow> logger \<Rightarrow> logger" where
  "putBuf b l =
     (if length (lg_bufs l) < maxBufPoolSize then l\<lparr>lg_mem := (lg_mem l)(b := []), lg_bufs := lg_bufs l @ [b]\<rparr> else l)"

definition SetLevel :: "int \<Rightarrow> logger \<Rightarrow> logger" where
  "SetLevel level l = l\<lparr>lg_level := level\<rparr>"

text \<open>
  The goroutines around a logger: the calls under way, each with its buffer, the parts it has still to append and its whole line; the
  buffer \<open>run\<close> has in hand, and whether the handler has got it; whether \<open>run\<close> has not returned yet, and whether the handler is closed;
  what the handler was given; and, for the statements only, the lines that were sent.
\<close>

record log_state =
  ls_log :: logger
  ls_calls :: "(nat \<times> string list \<times> string) list"
  ls_hand :: "(nat \<times> bool) option"
  ls_running :: bool
  ls_hclosed :: bool
  ls_out :: "string list"
  ls_sent :: "string list"

definition log_init :: "int \<Rightarrow> log_state" where
  "log_init flag =
     \<lparr>ls_log = New flag, ls_calls = [], ls_hand = None, ls_running = True, ls_hclosed = False, ls_out = [], ls_sent = []\<rparr>"

text \<open>
  The steps. \<open>starts\<close>, \<open>appends\<close> and \<open>sends\<close> are those of \<open>Output\<close> and \<open>OutputSql\<close>, which wait while the channel is full; \<open>receives\<close>, \<open>writes\<close>,
  \<open>puts\<close> and \<open>returns\<close> are those of \<open>run\<close>; \<open>closes\<close> closes \<open>quit\<close> and \<open>finishes\<close> is the rest of \<open>Close\<close> once \<open>run\<close> has returned.
\<close>

inductive log_step :: "log_state \<Rightarrow> log_state \<Rightarrow> bool" where
  starts: "popBuf (ls_log s) = (b, l) \<Longrightarrow>
     log_step s (s\<lparr>ls_log := l, ls_calls := (b, ps, concat ps) # ls_calls s\<rparr>)"
| appends: "ls_calls s = cs @ (b, p # ps, w) # ds \<Longrightarrow>
     log_step s (s\<lparr>ls_log := (ls_log s)\<lparr>lg_mem := (lg_mem (ls_log s))(b := lg_mem (ls_log s) b @ p)\<rparr>,
                   ls_calls := cs @ (b, ps, w) # ds\<rparr>)"
| sends: "ls_calls s = cs @ (b, [], w) # ds \<Longrightarrow> length (lg_msg (ls_log s)) < 1024 \<Longrightarrow>
     log_step s (s\<lparr>ls_log := (ls_log s)\<lparr>lg_msg := lg_msg (ls_log s) @ [b]\<rparr>, ls_calls := cs @ ds, ls_sent := ls_sent s @ [w]\<rparr>)"
| receives: "ls_running s \<Longrightarrow> ls_hand s = None \<Longrightarrow> lg_msg (ls_log s) = b # q \<Longrightarrow>
     log_step s (s\<lparr>ls_log := (ls_log s)\<lparr>lg_msg := q\<rparr>, ls_hand := Some (b, False)\<rparr>)"
| writes: "ls_hand s = Some (b, False) \<Longrightarrow>
     log_step s (s\<lparr>ls_hand := Some (b, True), ls_out := ls_out s @ [lg_mem (ls_log s) b]\<rparr>)"
| puts: "ls_hand s = Some (b, True) \<Longrightarrow>
     log_step s (s\<lparr>ls_log := putBuf b (ls_log s), ls_hand := None\<rparr>)"
| returns: "ls_running s \<Longrightarrow> ls_hand s = None \<Longrightarrow> lg_quit (ls_log s) \<Longrightarrow> lg_msg (ls_log s) = [] \<Longrightarrow>
     log_step s (s\<lparr>ls_running := False\<rparr>)"
| closes: "\<not> lg_closed (ls_log s) \<Longrightarrow>
     log_step s (s\<lparr>ls_log := (ls_log s)\<lparr>lg_closed := True, lg_quit := True\<rparr>\<rparr>)"
| finishes: "lg_closed (ls_log s) \<Longrightarrow> \<not> ls_running s \<Longrightarrow> log_step s (s\<lparr>ls_hclosed := True\<rparr>)"
| sets_level: "log_step s (s\<lparr>ls_log := SetLevel v (ls_log s)\<rparr>)"

inductive log_reach :: "int \<Rightarrow> log_state \<Rightarrow> bool" for flag where
  log_start: "log_reach flag (log_init flag)"
| log_next: "log_reach flag s \<Longrightarrow> log_step s t \<Longrightarrow> log_reach flag t"

subsection \<open>The invariant\<close>

text \<open>The buffer that \<open>run\<close> has in hand, and its text while the handler has not got it.\<close>

fun hand_buf :: "(nat \<times> bool) option \<Rightarrow> nat list" where
  "hand_buf None = []"
| "hand_buf (Some (b, w)) = [b]"

fun hand_text :: "(nat \<Rightarrow> string) \<Rightarrow> (nat \<times> bool) option \<Rightarrow> string list" where
  "hand_text m None = []"
| "hand_text m (Some (b, w)) = (if w then [] else [m b])"

lemma hand_text_cong: "(\<And>b. b \<in> set (hand_buf h) \<Longrightarrow> m b = m' b) \<Longrightarrow> hand_text m h = hand_text m' h"
  by (cases h) auto

text \<open>A call under way has in its buffer what it has still to complete to its line.\<close>

definition calls_ok :: "(nat \<Rightarrow> string) \<Rightarrow> (nat \<times> string list \<times> string) list \<Rightarrow> bool" where
  "calls_ok m cs \<longleftrightarrow> (\<forall>c \<in> set cs. m (fst c) @ concat (fst (snd c)) = snd (snd c))"

lemma calls_ok_simps [simp]:
  "calls_ok m []" "calls_ok m ((b, ps, w) # cs) \<longleftrightarrow> m b @ concat ps = w \<and> calls_ok m cs"
  "calls_ok m (cs @ ds) \<longleftrightarrow> calls_ok m cs \<and> calls_ok m ds"
  by (auto simp: calls_ok_def)

lemma calls_ok_upd [simp]: "b \<notin> fst ` set cs \<Longrightarrow> calls_ok (m(b := x)) cs \<longleftrightarrow> calls_ok m cs"
  by (auto simp: calls_ok_def)

text \<open>The buffers in use: each is in one place only.\<close>

definition in_use :: "log_state \<Rightarrow> nat list" where
  "in_use s = lg_bufs (ls_log s) @ map fst (ls_calls s) @ lg_msg (ls_log s) @ hand_buf (ls_hand s)"

text \<open>The lines that were sent and not yet given to the handler.\<close>

definition pending :: "log_state \<Rightarrow> string list" where
  "pending s = hand_text (lg_mem (ls_log s)) (ls_hand s) @ map (lg_mem (ls_log s)) (lg_msg (ls_log s))"

definition log_inv :: "log_state \<Rightarrow> bool" where
  "log_inv s \<longleftrightarrow>
     distinct (in_use s) \<and> (\<forall>b \<in> set (in_use s). b < lg_fresh (ls_log s))
     \<and> length (lg_bufs (ls_log s)) \<le> maxBufPoolSize \<and> length (lg_msg (ls_log s)) \<le> 1024
     \<and> (\<forall>b \<in> set (lg_bufs (ls_log s)). lg_mem (ls_log s) b = [])
     \<and> calls_ok (lg_mem (ls_log s)) (ls_calls s)
     \<and> ls_sent s = ls_out s @ pending s
     \<and> (\<not> ls_running s \<longrightarrow> ls_hand s = None)"

lemma log_inv_init: "log_inv (log_init flag)"
  by (simp add: log_inv_def log_init_def New_def in_use_def pending_def)

lemma log_inv_step: "log_step s t \<Longrightarrow> log_inv s \<Longrightarrow> log_inv t"
proof (induction rule: log_step.induct)
  case (starts s b l ps)
  show ?case
  proof (cases "lg_bufs (ls_log s)" rule: rev_cases)
    case Nil
    let ?l = "ls_log s" let ?f = "lg_fresh ?l" let ?m = "(lg_mem ?l)(?f := [])"
    have b: "b = ?f" "l = ?l\<lparr>lg_mem := ?m, lg_fresh := ?f + 1\<rparr>" using starts(1) Nil by (auto simp: popBuf_def)
    have old: "\<forall>c \<in> set (in_use s). c < ?f" using starts(2) by (simp add: log_inv_def)
    then have same: "\<forall>c \<in> set (in_use s). ?m c = lg_mem ?l c" by auto
    have "?f \<notin> fst ` set (ls_calls s)" using old by (auto simp: in_use_def)
    then have calls: "calls_ok ?m (ls_calls s)" using starts(2) by (simp add: log_inv_def)
    have "pending (s\<lparr>ls_log := l, ls_calls := (b, ps, concat ps) # ls_calls s\<rparr>) = pending s"
      using same by (auto simp: pending_def in_use_def b(2) intro!: hand_text_cong)
    moreover have "set (in_use (s\<lparr>ls_log := l, ls_calls := (b, ps, concat ps) # ls_calls s\<rparr>)) = insert ?f (set (in_use s))"
      "distinct (in_use (s\<lparr>ls_log := l, ls_calls := (b, ps, concat ps) # ls_calls s\<rparr>))"
      using starts(2) old Nil by (auto simp: log_inv_def in_use_def b)
    ultimately show ?thesis using starts(2) old calls Nil unfolding log_inv_def by (simp add: b less_Suc_eq)
  next
    case (snoc bs b')
    have b: "b = b'" "l = (ls_log s)\<lparr>lg_bufs := bs\<rparr>" using starts(1) snoc by (auto simp: popBuf_def)
    let ?t = "s\<lparr>ls_log := l, ls_calls := (b, ps, concat ps) # ls_calls s\<rparr>"
    have "pending ?t = pending s" by (simp add: pending_def b(2))
    moreover have "set (in_use ?t) = set (in_use s)" by (simp add: in_use_def b snoc insert_commute)
    moreover have "distinct (in_use ?t)" using starts(2) by (auto simp: log_inv_def in_use_def b snoc)
    ultimately show ?thesis using starts(2) unfolding log_inv_def by (simp add: b snoc)
  qed
next
  case (appends s cs b p ps w ds)
  let ?l = "ls_log s" let ?m = "(lg_mem ?l)(b := lg_mem ?l b @ p)"
  have "hand_text ?m (ls_hand s) = hand_text (lg_mem ?l) (ls_hand s)"
    using appends by (intro hand_text_cong) (auto simp: log_inv_def in_use_def)
  then show ?case using appends by (auto simp: log_inv_def in_use_def pending_def)
next
  case (sends s cs b w ds)
  then show ?case
    by (auto simp: log_inv_def in_use_def pending_def)
next
  case (receives s b q)
  then show ?case by (auto simp: log_inv_def in_use_def pending_def)
next
  case (writes s b)
  then show ?case by (auto simp: log_inv_def in_use_def pending_def)
next
  case (puts s b)
  then show ?case by (auto simp: log_inv_def in_use_def pending_def putBuf_def)
next
  case (returns s)
  then show ?case by (auto simp: log_inv_def in_use_def pending_def)
next
  case (closes s)
  then show ?case by (auto simp: log_inv_def in_use_def pending_def)
next
  case (finishes s)
  then show ?case by (auto simp: log_inv_def in_use_def pending_def)
next
  case (sets_level s v)
  then show ?case by (auto simp: log_inv_def in_use_def pending_def SetLevel_def)
qed

lemma log_reach_inv: "log_reach flag s \<Longrightarrow> log_inv s"
  by (induction rule: log_reach.induct) (auto intro: log_inv_init log_inv_step)

text \<open>Once \<open>run\<close> has returned, nothing is written any more, and a full channel stays full: calls then wait for ever.\<close>

lemma stopped_step: "log_step s t \<Longrightarrow> log_inv s \<Longrightarrow> \<not> ls_running s \<Longrightarrow> \<not> ls_running t \<and> ls_out t = ls_out s
    \<and> length (lg_msg (ls_log s)) \<le> length (lg_msg (ls_log t))"
  by (induction rule: log_step.induct) (auto simp: log_inv_def popBuf_def putBuf_def SetLevel_def split: if_splits)

lemma stopped_stays:
  assumes "rtranclp log_step s t" "log_inv s" "\<not> ls_running s"
  shows "log_inv t \<and> \<not> ls_running t \<and> ls_out t = ls_out s \<and> length (lg_msg (ls_log s)) \<le> length (lg_msg (ls_log t))"
  using assms
proof (induction rule: rtranclp_induct)
  case (step t u)
  then have "log_inv t" "\<not> ls_running t" by auto
  then show ?case using stopped_step [OF step.hyps(2)] log_inv_step [OF step.hyps(2)] step.IH step.prems by auto
qed simp

lemma run_returns: "log_step s t \<Longrightarrow> log_inv s \<Longrightarrow> ls_running s \<Longrightarrow> \<not> ls_running t \<Longrightarrow> ls_out t = ls_sent t"
  by (induction rule: log_step.induct) (auto simp: log_inv_def pending_def)

section \<open>Properties\<close>

text \<open>
  C29. The logger writes whole lines in the order in which they were sent and loses none. In every state that the goroutines of a
  logger reach, the handler was given exactly the first of the lines that were sent, each of them complete, and the others wait in
  the channel or in the hand of \<open>run\<close>; no buffer is in two places; the pool has at most 16 buffers and the channel at most 1024; and
  when \<open>run\<close> returns, after \<open>Close\<close>, every line that was sent is written.
\<close>

theorem log_lines_in_order:
  assumes "log_reach flag s"
  shows "ls_sent s = ls_out s @ pending s \<and> distinct (in_use s)
         \<and> length (lg_bufs (ls_log s)) \<le> 16 \<and> length (lg_msg (ls_log s)) \<le> 1024
         \<and> (\<forall>t. log_step s t \<longrightarrow> ls_running s \<longrightarrow> \<not> ls_running t \<longrightarrow> ls_out t = ls_sent t)"
  using log_reach_inv [OF assms] run_returns by (auto simp: log_inv_def)

text \<open>A line that is sent and closed behind: \<open>run\<close> returns with the line written.\<close>

definition demo_run :: log_state where
  "demo_run =
     \<lparr>ls_log = \<lparr>lg_level = 2, lg_flag = 7, lg_mem = (\<lambda>_. []), lg_bufs = [0], lg_msg = [], lg_fresh = 1, lg_quit = True, lg_closed = True\<rparr>,
      ls_calls = [], ls_hand = None, ls_running = True, ls_hclosed = False, ls_out = [''up''], ls_sent = [''up'']\<rparr>"

lemma demo_run_reached: "log_reach 7 demo_run"
proof -
  let ?c = "\<lambda>m ps. (log_init 7)\<lparr>ls_log := (New 7)\<lparr>lg_mem := (\<lambda>_. [])(0 := m), lg_fresh := 1\<rparr>, ls_calls := [(0, ps, ''up'')]\<rparr>"
  let ?s = "\<lambda>q. (New 7)\<lparr>lg_mem := (\<lambda>_. [])(0 := ''up''), lg_msg := q, lg_fresh := 1\<rparr>"
  have empty: "(\<lambda>_. [])(0 := []) = (\<lambda>_ :: nat. [] :: string)" by auto
  have "log_reach 7 (?c [] [''up''])"
    using log_next [OF log_start starts [of _ _ _ "[''up'']"]] by (simp add: log_init_def New_def popBuf_def)
  from log_next [OF this appends [of _ "[]" 0 "''up''" "[]" "''up''" "[]"]]
  have "log_reach 7 (?c ''up'' [])" by (simp add: log_init_def New_def)
  from log_next [OF this sends [of _ "[]" 0 "''up''" "[]"]]
  have "log_reach 7 ((log_init 7)\<lparr>ls_log := ?s [0], ls_sent := [''up'']\<rparr>)" by (simp add: log_init_def New_def)
  from log_next [OF this receives [of _ 0 "[]"]]
  have "log_reach 7 ((log_init 7)\<lparr>ls_log := ?s [], ls_hand := Some (0, False), ls_sent := [''up'']\<rparr>)" by (simp add: log_init_def New_def)
  from log_next [OF this writes [of _ 0]]
  have "log_reach 7 ((log_init 7)\<lparr>ls_log := ?s [], ls_hand := Some (0, True), ls_out := [''up''], ls_sent := [''up'']\<rparr>)"
    by (simp add: log_init_def New_def)
  from log_next [OF this puts [of _ 0]]
  have "log_reach 7 ((log_init 7)\<lparr>ls_log := (New 7)\<lparr>lg_bufs := [0], lg_fresh := 1\<rparr>, ls_out := [''up''], ls_sent := [''up'']\<rparr>)"
    by (simp add: log_init_def New_def putBuf_def empty)
  from log_next [OF this closes] show ?thesis by (simp add: log_init_def New_def demo_run_def)
qed

theorem log_lines_in_order_witness:
  "ls_sent demo_run = ls_out demo_run @ pending demo_run \<and> length (lg_bufs (ls_log demo_run)) \<le> 16
   \<and> ls_out (demo_run\<lparr>ls_running := False\<rparr>) = [''up'']"
proof -
  have "log_step demo_run (demo_run\<lparr>ls_running := False\<rparr>)" by (rule returns) (simp_all add: demo_run_def)
  then show ?thesis using log_lines_in_order [OF demo_run_reached] by (simp add: demo_run_def)
qed

text \<open>
  A log line shows what was logged. With the flags that the main program sets, at a level that is logged, and for a
  module, a method and a message without a percent sign, the parts that are appended make up the line with the time, the level, the
  file and line of the caller, and then the module, the method, the message, the arguments and the connection; the arguments may
  hold any text, of which only the bars are dropped.
\<close>

lemma log_line_shows:
  assumes "0 \<le> level" "level < 6" "l_level \<le> level"
    and "CHR ''%'' \<notin> set module" "CHR ''%'' \<notin> set method" "CHR ''%'' \<notin> set msg"
  shows "\<exists>ps. log_output l_level 7 level now (Some (file, line)) module method msg reqId args = Inr (Some ps)
          \<and> concat ps = fmt_time now @ '' - '' @ LevelName ! nat level @ '' - '' @ base_name file @ '':['' @ int_str line @ ''] - ''
              @ ''['' @ module @ ''] '' @ CHR 0x22 # method @ CHR 0x22 # '' '' @ CHR 0x22 # msg @ CHR 0x22 # '' '' @ CHR 0x22 # args_shown args
              @ CHR 0x22 # '' conn_id='' @ int_str reqId @ [CHR 0x0A]"
proof -
  have f: "has_flag 7 1" "has_flag 7 2" "has_flag 7 4" by (simp_all add: has_flag_def)
  have l: "at_index LevelName level = Inr (LevelName ! nat level)"
    using assms(1,2) at_index_of_nat [of "nat level" LevelName] by (simp add: LevelName_def)
  have n: "last (int_str reqId) \<noteq> CHR 0x0A" "int_str reqId \<noteq> []"
    using int_str_last_digit [of reqId] by (auto simp: is_digit_def)
  show ?thesis using assms(3) n
    by (simp add: log_output_def Output_parts_def f l output_line_shows [OF assms(4-6)] line_end_def)
qed

end
