(* ===== verification/Mysql_Errors.thy ===== *)
theory Mysql_Errors
  imports Client_Wire
begin

text \<open>
  The error codes of MySQL (src/mysql/errcode.go) with their names, the message format of each code (src/mysql/errname.go), and
  \<open>NewDefaultError\<close> (src/mysql/error.go), which fills the format with \<open>fmt.Sprintf\<close>. The lists are cut into pieces of at most 145 entries.
\<close>

section \<open>Codes\<close>

definition err_codes_1 :: "(string \<times> int) list" where
  "err_codes_1 =
     [(''ER_ERROR_FIRST'', 1000), (''ER_HASHCHK'', 1000), (''ER_NISAMCHK'', 1001), (''ER_NO'', 1002), (''ER_YES'', 1003),
      (''ER_CANT_CREATE_FILE'', 1004), (''ER_CANT_CREATE_TABLE'', 1005), (''ER_CANT_CREATE_DB'', 1006), (''ER_DB_CREATE_EXISTS'', 1007),
      (''ER_DB_DROP_EXISTS'', 1008), (''ER_DB_DROP_DELETE'', 1009), (''ER_DB_DROP_RMDIR'', 1010), (''ER_CANT_DELETE_FILE'', 1011),
      (''ER_CANT_FIND_SYSTEM_REC'', 1012), (''ER_CANT_GET_STAT'', 1013), (''ER_CANT_GET_WD'', 1014), (''ER_CANT_LOCK'', 1015),
      (''ER_CANT_OPEN_FILE'', 1016), (''ER_FILE_NOT_FOUND'', 1017), (''ER_CANT_READ_DIR'', 1018), (''ER_CANT_SET_WD'', 1019),
      (''ER_CHECKREAD'', 1020), (''ER_DISK_FULL'', 1021), (''ER_DUP_KEY'', 1022), (''ER_ERROR_ON_CLOSE'', 1023),
      (''ER_ERROR_ON_READ'', 1024), (''ER_ERROR_ON_RENAME'', 1025), (''ER_ERROR_ON_WRITE'', 1026), (''ER_FILE_USED'', 1027),
      (''ER_FILSORT_ABORT'', 1028), (''ER_FORM_NOT_FOUND'', 1029), (''ER_GET_ERRNO'', 1030), (''ER_ILLEGAL_HA'', 1031),
      (''ER_KEY_NOT_FOUND'', 1032), (''ER_NOT_FORM_FILE'', 1033), (''ER_NOT_KEYFILE'', 1034), (''ER_OLD_KEYFILE'', 1035),
      (''ER_OPEN_AS_READONLY'', 1036), (''ER_OUTOFMEMORY'', 1037), (''ER_OUT_OF_SORTMEMORY'', 1038), (''ER_UNEXPECTED_EOF'', 1039),
      (''ER_CON_COUNT_ERROR'', 1040), (''ER_OUT_OF_RESOURCES'', 1041), (''ER_BAD_HOST_ERROR'', 1042), (''ER_HANDSHAKE_ERROR'', 1043),
      (''ER_DBACCESS_DENIED_ERROR'', 1044), (''ER_ACCESS_DENIED_ERROR'', 1045), (''ER_NO_DB_ERROR'', 1046),
      (''ER_UNKNOWN_COM_ERROR'', 1047), (''ER_BAD_NULL_ERROR'', 1048), (''ER_BAD_DB_ERROR'', 1049), (''ER_TABLE_EXISTS_ERROR'', 1050),
      (''ER_BAD_TABLE_ERROR'', 1051), (''ER_NON_UNIQ_ERROR'', 1052), (''ER_SERVER_SHUTDOWN'', 1053), (''ER_BAD_FIELD_ERROR'', 1054),
      (''ER_WRONG_FIELD_WITH_GROUP'', 1055), (''ER_WRONG_GROUP_FIELD'', 1056), (''ER_WRONG_SUM_SELECT'', 1057),
      (''ER_WRONG_VALUE_COUNT'', 1058), (''ER_TOO_LONG_IDENT'', 1059), (''ER_DUP_FIELDNAME'', 1060), (''ER_DUP_KEYNAME'', 1061),
      (''ER_DUP_ENTRY'', 1062), (''ER_WRONG_FIELD_SPEC'', 1063), (''ER_PARSE_ERROR'', 1064), (''ER_EMPTY_QUERY'', 1065),
      (''ER_NONUNIQ_TABLE'', 1066), (''ER_INVALID_DEFAULT'', 1067), (''ER_MULTIPLE_PRI_KEY'', 1068), (''ER_TOO_MANY_KEYS'', 1069),
      (''ER_TOO_MANY_KEY_PARTS'', 1070), (''ER_TOO_LONG_KEY'', 1071), (''ER_KEY_COLUMN_DOES_NOT_EXITS'', 1072),
      (''ER_BLOB_USED_AS_KEY'', 1073), (''ER_TOO_BIG_FIELDLENGTH'', 1074), (''ER_WRONG_AUTO_KEY'', 1075), (''ER_READY'', 1076),
      (''ER_NORMAL_SHUTDOWN'', 1077), (''ER_GOT_SIGNAL'', 1078), (''ER_SHUTDOWN_COMPLETE'', 1079), (''ER_FORCING_CLOSE'', 1080),
      (''ER_IPSOCK_ERROR'', 1081), (''ER_NO_SUCH_INDEX'', 1082), (''ER_WRONG_FIELD_TERMINATORS'', 1083),
      (''ER_BLOBS_AND_NO_TERMINATED'', 1084), (''ER_TEXTFILE_NOT_READABLE'', 1085), (''ER_FILE_EXISTS_ERROR'', 1086),
      (''ER_LOAD_INFO'', 1087), (''ER_ALTER_INFO'', 1088), (''ER_WRONG_SUB_KEY'', 1089), (''ER_CANT_REMOVE_ALL_FIELDS'', 1090),
      (''ER_CANT_DROP_FIELD_OR_KEY'', 1091), (''ER_INSERT_INFO'', 1092), (''ER_UPDATE_TABLE_USED'', 1093), (''ER_NO_SUCH_THREAD'', 1094),
      (''ER_KILL_DENIED_ERROR'', 1095), (''ER_NO_TABLES_USED'', 1096), (''ER_TOO_BIG_SET'', 1097), (''ER_NO_UNIQUE_LOGFILE'', 1098),
      (''ER_TABLE_NOT_LOCKED_FOR_WRITE'', 1099), (''ER_TABLE_NOT_LOCKED'', 1100), (''ER_BLOB_CANT_HAVE_DEFAULT'', 1101),
      (''ER_WRONG_DB_NAME'', 1102), (''ER_WRONG_TABLE_NAME'', 1103), (''ER_TOO_BIG_SELECT'', 1104), (''ER_UNKNOWN_ERROR'', 1105),
      (''ER_UNKNOWN_PROCEDURE'', 1106), (''ER_WRONG_PARAMCOUNT_TO_PROCEDURE'', 1107), (''ER_WRONG_PARAMETERS_TO_PROCEDURE'', 1108),
      (''ER_UNKNOWN_TABLE'', 1109), (''ER_FIELD_SPECIFIED_TWICE'', 1110), (''ER_INVALID_GROUP_FUNC_USE'', 1111),
      (''ER_UNSUPPORTED_EXTENSION'', 1112), (''ER_TABLE_MUST_HAVE_COLUMNS'', 1113), (''ER_RECORD_FILE_FULL'', 1114),
      (''ER_UNKNOWN_CHARACTER_SET'', 1115), (''ER_TOO_MANY_TABLES'', 1116), (''ER_TOO_MANY_FIELDS'', 1117), (''ER_TOO_BIG_ROWSIZE'', 1118),
      (''ER_STACK_OVERRUN'', 1119), (''ER_WRONG_OUTER_JOIN'', 1120), (''ER_NULL_COLUMN_IN_INDEX'', 1121), (''ER_CANT_FIND_UDF'', 1122),
      (''ER_CANT_INITIALIZE_UDF'', 1123), (''ER_UDF_NO_PATHS'', 1124), (''ER_UDF_EXISTS'', 1125), (''ER_CANT_OPEN_LIBRARY'', 1126),
      (''ER_CANT_FIND_DL_ENTRY'', 1127), (''ER_FUNCTION_NOT_DEFINED'', 1128), (''ER_HOST_IS_BLOCKED'', 1129),
      (''ER_HOST_NOT_PRIVILEGED'', 1130), (''ER_PASSWORD_ANONYMOUS_USER'', 1131), (''ER_PASSWORD_NOT_ALLOWED'', 1132),
      (''ER_PASSWORD_NO_MATCH'', 1133), (''ER_UPDATE_INFO'', 1134), (''ER_CANT_CREATE_THREAD'', 1135),
      (''ER_WRONG_VALUE_COUNT_ON_ROW'', 1136), (''ER_CANT_REOPEN_TABLE'', 1137), (''ER_INVALID_USE_OF_NULL'', 1138),
      (''ER_REGEXP_ERROR'', 1139), (''ER_MIX_OF_GROUP_FUNC_AND_FIELDS'', 1140), (''ER_NONEXISTING_GRANT'', 1141),
      (''ER_TABLEACCESS_DENIED_ERROR'', 1142), (''ER_COLUMNACCESS_DENIED_ERROR'', 1143)]"

definition err_codes_2 :: "(string \<times> int) list" where
  "err_codes_2 =
     [(''ER_ILLEGAL_GRANT_FOR_TABLE'', 1144), (''ER_GRANT_WRONG_HOST_OR_USER'', 1145), (''ER_NO_SUCH_TABLE'', 1146),
      (''ER_NONEXISTING_TABLE_GRANT'', 1147), (''ER_NOT_ALLOWED_COMMAND'', 1148), (''ER_SYNTAX_ERROR'', 1149),
      (''ER_DELAYED_CANT_CHANGE_LOCK'', 1150), (''ER_TOO_MANY_DELAYED_THREADS'', 1151), (''ER_ABORTING_CONNECTION'', 1152),
      (''ER_NET_PACKET_TOO_LARGE'', 1153), (''ER_NET_READ_ERROR_FROM_PIPE'', 1154), (''ER_NET_FCNTL_ERROR'', 1155),
      (''ER_NET_PACKETS_OUT_OF_ORDER'', 1156), (''ER_NET_UNCOMPRESS_ERROR'', 1157), (''ER_NET_READ_ERROR'', 1158),
      (''ER_NET_READ_INTERRUPTED'', 1159), (''ER_NET_ERROR_ON_WRITE'', 1160), (''ER_NET_WRITE_INTERRUPTED'', 1161),
      (''ER_TOO_LONG_STRING'', 1162), (''ER_TABLE_CANT_HANDLE_BLOB'', 1163), (''ER_TABLE_CANT_HANDLE_AUTO_INCREMENT'', 1164),
      (''ER_DELAYED_INSERT_TABLE_LOCKED'', 1165), (''ER_WRONG_COLUMN_NAME'', 1166), (''ER_WRONG_KEY_COLUMN'', 1167),
      (''ER_WRONG_MRG_TABLE'', 1168), (''ER_DUP_UNIQUE'', 1169), (''ER_BLOB_KEY_WITHOUT_LENGTH'', 1170),
      (''ER_PRIMARY_CANT_HAVE_NULL'', 1171), (''ER_TOO_MANY_ROWS'', 1172), (''ER_REQUIRES_PRIMARY_KEY'', 1173),
      (''ER_NO_RAID_COMPILED'', 1174), (''ER_UPDATE_WITHOUT_KEY_IN_SAFE_MODE'', 1175), (''ER_KEY_DOES_NOT_EXITS'', 1176),
      (''ER_CHECK_NO_SUCH_TABLE'', 1177), (''ER_CHECK_NOT_IMPLEMENTED'', 1178), (''ER_CANT_DO_THIS_DURING_AN_TRANSACTION'', 1179),
      (''ER_ERROR_DURING_COMMIT'', 1180), (''ER_ERROR_DURING_ROLLBACK'', 1181), (''ER_ERROR_DURING_FLUSH_LOGS'', 1182),
      (''ER_ERROR_DURING_CHECKPOINT'', 1183), (''ER_NEW_ABORTING_CONNECTION'', 1184), (''ER_DUMP_NOT_IMPLEMENTED'', 1185),
      (''ER_FLUSH_MASTER_BINLOG_CLOSED'', 1186), (''ER_INDEX_REBUILD'', 1187), (''ER_MASTER'', 1188), (''ER_MASTER_NET_READ'', 1189),
      (''ER_MASTER_NET_WRITE'', 1190), (''ER_FT_MATCHING_KEY_NOT_FOUND'', 1191), (''ER_LOCK_OR_ACTIVE_TRANSACTION'', 1192),
      (''ER_UNKNOWN_SYSTEM_VARIABLE'', 1193), (''ER_CRASHED_ON_USAGE'', 1194), (''ER_CRASHED_ON_REPAIR'', 1195),
      (''ER_WARNING_NOT_COMPLETE_ROLLBACK'', 1196), (''ER_TRANS_CACHE_FULL'', 1197), (''ER_SLAVE_MUST_STOP'', 1198),
      (''ER_SLAVE_NOT_RUNNING'', 1199), (''ER_BAD_SLAVE'', 1200), (''ER_MASTER_INFO'', 1201), (''ER_SLAVE_THREAD'', 1202),
      (''ER_TOO_MANY_USER_CONNECTIONS'', 1203), (''ER_SET_CONSTANTS_ONLY'', 1204), (''ER_LOCK_WAIT_TIMEOUT'', 1205),
      (''ER_LOCK_TABLE_FULL'', 1206), (''ER_READ_ONLY_TRANSACTION'', 1207), (''ER_DROP_DB_WITH_READ_LOCK'', 1208),
      (''ER_CREATE_DB_WITH_READ_LOCK'', 1209), (''ER_WRONG_ARGUMENTS'', 1210), (''ER_NO_PERMISSION_TO_CREATE_USER'', 1211),
      (''ER_UNION_TABLES_IN_DIFFERENT_DIR'', 1212), (''ER_LOCK_DEADLOCK'', 1213), (''ER_TABLE_CANT_HANDLE_FT'', 1214),
      (''ER_CANNOT_ADD_FOREIGN'', 1215), (''ER_NO_REFERENCED_ROW'', 1216), (''ER_ROW_IS_REFERENCED'', 1217),
      (''ER_CONNECT_TO_MASTER'', 1218), (''ER_QUERY_ON_MASTER'', 1219), (''ER_ERROR_WHEN_EXECUTING_COMMAND'', 1220),
      (''ER_WRONG_USAGE'', 1221), (''ER_WRONG_NUMBER_OF_COLUMNS_IN_SELECT'', 1222), (''ER_CANT_UPDATE_WITH_READLOCK'', 1223),
      (''ER_MIXING_NOT_ALLOWED'', 1224), (''ER_DUP_ARGUMENT'', 1225), (''ER_USER_LIMIT_REACHED'', 1226),
      (''ER_SPECIFIC_ACCESS_DENIED_ERROR'', 1227), (''ER_LOCAL_VARIABLE'', 1228), (''ER_GLOBAL_VARIABLE'', 1229),
      (''ER_NO_DEFAULT'', 1230), (''ER_WRONG_VALUE_FOR_VAR'', 1231), (''ER_WRONG_TYPE_FOR_VAR'', 1232), (''ER_VAR_CANT_BE_READ'', 1233),
      (''ER_CANT_USE_OPTION_HERE'', 1234), (''ER_NOT_SUPPORTED_YET'', 1235), (''ER_MASTER_FATAL_ERROR_READING_BINLOG'', 1236),
      (''ER_SLAVE_IGNORED_TABLE'', 1237), (''ER_INCORRECT_GLOBAL_LOCAL_VAR'', 1238), (''ER_WRONG_FK_DEF'', 1239),
      (''ER_KEY_REF_DO_NOT_MATCH_TABLE_REF'', 1240), (''ER_OPERAND_COLUMNS'', 1241), (''ER_SUBQUERY_NO_1_ROW'', 1242),
      (''ER_UNKNOWN_STMT_HANDLER'', 1243), (''ER_CORRUPT_HELP_DB'', 1244), (''ER_CYCLIC_REFERENCE'', 1245), (''ER_AUTO_CONVERT'', 1246),
      (''ER_ILLEGAL_REFERENCE'', 1247), (''ER_DERIVED_MUST_HAVE_ALIAS'', 1248), (''ER_SELECT_REDUCED'', 1249),
      (''ER_TABLENAME_NOT_ALLOWED_HERE'', 1250), (''ER_NOT_SUPPORTED_AUTH_MODE'', 1251), (''ER_SPATIAL_CANT_HAVE_NULL'', 1252),
      (''ER_COLLATION_CHARSET_MISMATCH'', 1253), (''ER_SLAVE_WAS_RUNNING'', 1254), (''ER_SLAVE_WAS_NOT_RUNNING'', 1255),
      (''ER_TOO_BIG_FOR_UNCOMPRESS'', 1256), (''ER_ZLIB_Z_MEM_ERROR'', 1257), (''ER_ZLIB_Z_BUF_ERROR'', 1258),
      (''ER_ZLIB_Z_DATA_ERROR'', 1259), (''ER_CUT_VALUE_GROUP_CONCAT'', 1260), (''ER_WARN_TOO_FEW_RECORDS'', 1261),
      (''ER_WARN_TOO_MANY_RECORDS'', 1262), (''ER_WARN_NULL_TO_NOTNULL'', 1263), (''ER_WARN_DATA_OUT_OF_RANGE'', 1264),
      (''WARN_DATA_TRUNCATED'', 1265), (''ER_WARN_USING_OTHER_HANDLER'', 1266), (''ER_CANT_AGGREGATE_2COLLATIONS'', 1267),
      (''ER_DROP_USER'', 1268), (''ER_REVOKE_GRANTS'', 1269), (''ER_CANT_AGGREGATE_3COLLATIONS'', 1270),
      (''ER_CANT_AGGREGATE_NCOLLATIONS'', 1271), (''ER_VARIABLE_IS_NOT_STRUCT'', 1272), (''ER_UNKNOWN_COLLATION'', 1273),
      (''ER_SLAVE_IGNORED_SSL_PARAMS'', 1274), (''ER_SERVER_IS_IN_SECURE_AUTH_MODE'', 1275), (''ER_WARN_FIELD_RESOLVED'', 1276),
      (''ER_BAD_SLAVE_UNTIL_COND'', 1277), (''ER_MISSING_SKIP_SLAVE'', 1278), (''ER_UNTIL_COND_IGNORED'', 1279),
      (''ER_WRONG_NAME_FOR_INDEX'', 1280), (''ER_WRONG_NAME_FOR_CATALOG'', 1281), (''ER_WARN_QC_RESIZE'', 1282),
      (''ER_BAD_FT_COLUMN'', 1283), (''ER_UNKNOWN_KEY_CACHE'', 1284), (''ER_WARN_HOSTNAME_WONT_WORK'', 1285),
      (''ER_UNKNOWN_STORAGE_ENGINE'', 1286), (''ER_WARN_DEPRECATED_SYNTAX'', 1287), (''ER_NON_UPDATABLE_TABLE'', 1288)]"

definition err_codes_3 :: "(string \<times> int) list" where
  "err_codes_3 =
     [(''ER_FEATURE_DISABLED'', 1289), (''ER_OPTION_PREVENTS_STATEMENT'', 1290), (''ER_DUPLICATED_VALUE_IN_TYPE'', 1291),
      (''ER_TRUNCATED_WRONG_VALUE'', 1292), (''ER_TOO_MUCH_AUTO_TIMESTAMP_COLS'', 1293), (''ER_INVALID_ON_UPDATE'', 1294),
      (''ER_UNSUPPORTED_PS'', 1295), (''ER_GET_ERRMSG'', 1296), (''ER_GET_TEMPORARY_ERRMSG'', 1297), (''ER_UNKNOWN_TIME_ZONE'', 1298),
      (''ER_WARN_INVALID_TIMESTAMP'', 1299), (''ER_INVALID_CHARACTER_STRING'', 1300), (''ER_WARN_ALLOWED_PACKET_OVERFLOWED'', 1301),
      (''ER_CONFLICTING_DECLARATIONS'', 1302), (''ER_SP_NO_RECURSIVE_CREATE'', 1303), (''ER_SP_ALREADY_EXISTS'', 1304),
      (''ER_SP_DOES_NOT_EXIST'', 1305), (''ER_SP_DROP_FAILED'', 1306), (''ER_SP_STORE_FAILED'', 1307), (''ER_SP_LILABEL_MISMATCH'', 1308),
      (''ER_SP_LABEL_REDEFINE'', 1309), (''ER_SP_LABEL_MISMATCH'', 1310), (''ER_SP_UNINIT_VAR'', 1311), (''ER_SP_BADSELECT'', 1312),
      (''ER_SP_BADRETURN'', 1313), (''ER_SP_BADSTATEMENT'', 1314), (''ER_UPDATE_LOG_DEPRECATED_IGNORED'', 1315),
      (''ER_UPDATE_LOG_DEPRECATED_TRANSLATED'', 1316), (''ER_QUERY_INTERRUPTED'', 1317), (''ER_SP_WRONG_NO_OF_ARGS'', 1318),
      (''ER_SP_COND_MISMATCH'', 1319), (''ER_SP_NORETURN'', 1320), (''ER_SP_NORETURNEND'', 1321), (''ER_SP_BAD_CURSOR_QUERY'', 1322),
      (''ER_SP_BAD_CURSOR_SELECT'', 1323), (''ER_SP_CURSOR_MISMATCH'', 1324), (''ER_SP_CURSOR_ALREADY_OPEN'', 1325),
      (''ER_SP_CURSOR_NOT_OPEN'', 1326), (''ER_SP_UNDECLARED_VAR'', 1327), (''ER_SP_WRONG_NO_OF_FETCH_ARGS'', 1328),
      (''ER_SP_FETCH_NO_DATA'', 1329), (''ER_SP_DUP_PARAM'', 1330), (''ER_SP_DUP_VAR'', 1331), (''ER_SP_DUP_COND'', 1332),
      (''ER_SP_DUP_CURS'', 1333), (''ER_SP_CANT_ALTER'', 1334), (''ER_SP_SUBSELECT_NYI'', 1335),
      (''ER_STMT_NOT_ALLOWED_IN_SF_OR_TRG'', 1336), (''ER_SP_VARCOND_AFTER_CURSHNDLR'', 1337), (''ER_SP_CURSOR_AFTER_HANDLER'', 1338),
      (''ER_SP_CASE_NOT_FOUND'', 1339), (''ER_FPARSER_TOO_BIG_FILE'', 1340), (''ER_FPARSER_BAD_HEADER'', 1341),
      (''ER_FPARSER_EOF_IN_COMMENT'', 1342), (''ER_FPARSER_ERROR_IN_PARAMETER'', 1343), (''ER_FPARSER_EOF_IN_UNKNOWN_PARAMETER'', 1344),
      (''ER_VIEW_NO_EXPLAIN'', 1345), (''ER_FRM_UNKNOWN_TYPE'', 1346), (''ER_WRONG_OBJECT'', 1347), (''ER_NONUPDATEABLE_COLUMN'', 1348),
      (''ER_VIEW_SELECT_DERIVED'', 1349), (''ER_VIEW_SELECT_CLAUSE'', 1350), (''ER_VIEW_SELECT_VARIABLE'', 1351),
      (''ER_VIEW_SELECT_TMPTABLE'', 1352), (''ER_VIEW_WRONG_LIST'', 1353), (''ER_WARN_VIEW_MERGE'', 1354),
      (''ER_WARN_VIEW_WITHOUT_KEY'', 1355), (''ER_VIEW_INVALID'', 1356), (''ER_SP_NO_DROP_SP'', 1357), (''ER_SP_GOTO_IN_HNDLR'', 1358),
      (''ER_TRG_ALREADY_EXISTS'', 1359), (''ER_TRG_DOES_NOT_EXIST'', 1360), (''ER_TRG_ON_VIEW_OR_TEMP_TABLE'', 1361),
      (''ER_TRG_CANT_CHANGE_ROW'', 1362), (''ER_TRG_NO_SUCH_ROW_IN_TRG'', 1363), (''ER_NO_DEFAULT_FOR_FIELD'', 1364),
      (''ER_DIVISION_BY_ZERO'', 1365), (''ER_TRUNCATED_WRONG_VALUE_FOR_FIELD'', 1366), (''ER_ILLEGAL_VALUE_FOR_TYPE'', 1367),
      (''ER_VIEW_NONUPD_CHECK'', 1368), (''ER_VIEW_CHECK_FAILED'', 1369), (''ER_PROCACCESS_DENIED_ERROR'', 1370),
      (''ER_RELAY_LOG_FAIL'', 1371), (''ER_PASSWD_LENGTH'', 1372), (''ER_UNKNOWN_TARGET_BINLOG'', 1373),
      (''ER_IO_ERR_LOG_INDEX_READ'', 1374), (''ER_BINLOG_PURGE_PROHIBITED'', 1375), (''ER_FSEEK_FAIL'', 1376),
      (''ER_BINLOG_PURGE_FATAL_ERR'', 1377), (''ER_LOG_IN_USE'', 1378), (''ER_LOG_PURGE_UNKNOWN_ERR'', 1379),
      (''ER_RELAY_LOG_INIT'', 1380), (''ER_NO_BINARY_LOGGING'', 1381), (''ER_RESERVED_SYNTAX'', 1382), (''ER_WSAS_FAILED'', 1383),
      (''ER_DIFF_GROUPS_PROC'', 1384), (''ER_NO_GROUP_FOR_PROC'', 1385), (''ER_ORDER_WITH_PROC'', 1386),
      (''ER_LOGGING_PROHIBIT_CHANGING_OF'', 1387), (''ER_NO_FILE_MAPPING'', 1388), (''ER_WRONG_MAGIC'', 1389),
      (''ER_PS_MANY_PARAM'', 1390), (''ER_KEY_PART_0'', 1391), (''ER_VIEW_CHECKSUM'', 1392), (''ER_VIEW_MULTIUPDATE'', 1393),
      (''ER_VIEW_NO_INSERT_FIELD_LIST'', 1394), (''ER_VIEW_DELETE_MERGE_VIEW'', 1395), (''ER_CANNOT_USER'', 1396),
      (''ER_XAER_NOTA'', 1397), (''ER_XAER_INVAL'', 1398), (''ER_XAER_RMFAIL'', 1399), (''ER_XAER_OUTSIDE'', 1400),
      (''ER_XAER_RMERR'', 1401), (''ER_XA_RBROLLBACK'', 1402), (''ER_NONEXISTING_PROC_GRANT'', 1403), (''ER_PROC_AUTO_GRANT_FAIL'', 1404),
      (''ER_PROC_AUTO_REVOKE_FAIL'', 1405), (''ER_DATA_TOO_LONG'', 1406), (''ER_SP_BAD_SQLSTATE'', 1407), (''ER_STARTUP'', 1408),
      (''ER_LOAD_FROM_FIXED_SIZE_ROWS_TO_VAR'', 1409), (''ER_CANT_CREATE_USER_WITH_GRANT'', 1410), (''ER_WRONG_VALUE_FOR_TYPE'', 1411),
      (''ER_TABLE_DEF_CHANGED'', 1412), (''ER_SP_DUP_HANDLER'', 1413), (''ER_SP_NOT_VAR_ARG'', 1414), (''ER_SP_NO_RETSET'', 1415),
      (''ER_CANT_CREATE_GEOMETRY_OBJECT'', 1416), (''ER_FAILED_ROUTINE_BREAK_BINLOG'', 1417), (''ER_BINLOG_UNSAFE_ROUTINE'', 1418),
      (''ER_BINLOG_CREATE_ROUTINE_NEED_SUPER'', 1419), (''ER_EXEC_STMT_WITH_OPEN_CURSOR'', 1420), (''ER_STMT_HAS_NO_OPEN_CURSOR'', 1421),
      (''ER_COMMIT_NOT_ALLOWED_IN_SF_OR_TRG'', 1422), (''ER_NO_DEFAULT_FOR_VIEW_FIELD'', 1423), (''ER_SP_NO_RECURSION'', 1424),
      (''ER_TOO_BIG_SCALE'', 1425), (''ER_TOO_BIG_PRECISION'', 1426), (''ER_M_BIGGER_THAN_D'', 1427),
      (''ER_WRONG_LOCK_OF_SYSTEM_TABLE'', 1428), (''ER_CONNECT_TO_FOREIGN_DATA_SOURCE'', 1429),
      (''ER_QUERY_ON_FOREIGN_DATA_SOURCE'', 1430), (''ER_FOREIGN_DATA_SOURCE_DOESNT_EXIST'', 1431),
      (''ER_FOREIGN_DATA_STRING_INVALID_CANT_CREATE'', 1432), (''ER_FOREIGN_DATA_STRING_INVALID'', 1433)]"

definition err_codes_4 :: "(string \<times> int) list" where
  "err_codes_4 =
     [(''ER_CANT_CREATE_FEDERATED_TABLE'', 1434), (''ER_TRG_IN_WRONG_SCHEMA'', 1435), (''ER_STACK_OVERRUN_NEED_MORE'', 1436),
      (''ER_TOO_LONG_BODY'', 1437), (''ER_WARN_CANT_DROP_DEFAULT_KEYCACHE'', 1438), (''ER_TOO_BIG_DISPLAYWIDTH'', 1439),
      (''ER_XAER_DUPID'', 1440), (''ER_DATETIME_FUNCTION_OVERFLOW'', 1441), (''ER_CANT_UPDATE_USED_TABLE_IN_SF_OR_TRG'', 1442),
      (''ER_VIEW_PREVENT_UPDATE'', 1443), (''ER_PS_NO_RECURSION'', 1444), (''ER_SP_CANT_SET_AUTOCOMMIT'', 1445),
      (''ER_MALFORMED_DEFINER'', 1446), (''ER_VIEW_FRM_NO_USER'', 1447), (''ER_VIEW_OTHER_USER'', 1448), (''ER_NO_SUCH_USER'', 1449),
      (''ER_FORBID_SCHEMA_CHANGE'', 1450), (''ER_ROW_IS_REFERENCED_2'', 1451), (''ER_NO_REFERENCED_ROW_2'', 1452),
      (''ER_SP_BAD_VAR_SHADOW'', 1453), (''ER_TRG_NO_DEFINER'', 1454), (''ER_OLD_FILE_FORMAT'', 1455), (''ER_SP_RECURSION_LIMIT'', 1456),
      (''ER_SP_PROC_TABLE_CORRUPT'', 1457), (''ER_SP_WRONG_NAME'', 1458), (''ER_TABLE_NEEDS_UPGRADE'', 1459),
      (''ER_SP_NO_AGGREGATE'', 1460), (''ER_MAX_PREPARED_STMT_COUNT_REACHED'', 1461), (''ER_VIEW_RECURSIVE'', 1462),
      (''ER_NON_GROUPING_FIELD_USED'', 1463), (''ER_TABLE_CANT_HANDLE_SPKEYS'', 1464), (''ER_NO_TRIGGERS_ON_SYSTEM_SCHEMA'', 1465),
      (''ER_REMOVED_SPACES'', 1466), (''ER_AUTOINC_READ_FAILED'', 1467), (''ER_USERNAME'', 1468), (''ER_HOSTNAME'', 1469),
      (''ER_WRONG_STRING_LENGTH'', 1470), (''ER_NON_INSERTABLE_TABLE'', 1471), (''ER_ADMIN_WRONG_MRG_TABLE'', 1472),
      (''ER_TOO_HIGH_LEVEL_OF_NESTING_FOR_SELECT'', 1473), (''ER_NAME_BECOMES_EMPTY'', 1474), (''ER_AMBIGUOUS_FIELD_TERM'', 1475),
      (''ER_FOREIGN_SERVER_EXISTS'', 1476), (''ER_FOREIGN_SERVER_DOESNT_EXIST'', 1477), (''ER_ILLEGAL_HA_CREATE_OPTION'', 1478),
      (''ER_PARTITION_REQUIRES_VALUES_ERROR'', 1479), (''ER_PARTITION_WRONG_VALUES_ERROR'', 1480), (''ER_PARTITION_MAXVALUE_ERROR'', 1481),
      (''ER_PARTITION_SUBPARTITION_ERROR'', 1482), (''ER_PARTITION_SUBPART_MIX_ERROR'', 1483),
      (''ER_PARTITION_WRONG_NO_PART_ERROR'', 1484), (''ER_PARTITION_WRONG_NO_SUBPART_ERROR'', 1485),
      (''ER_WRONG_EXPR_IN_PARTITION_FUNC_ERROR'', 1486), (''ER_NO_CONST_EXPR_IN_RANGE_OR_LIST_ERROR'', 1487),
      (''ER_FIELD_NOT_FOUND_PART_ERROR'', 1488), (''ER_LIST_OF_FIELDS_ONLY_IN_HASH_ERROR'', 1489),
      (''ER_INCONSISTENT_PARTITION_INFO_ERROR'', 1490), (''ER_PARTITION_FUNC_NOT_ALLOWED_ERROR'', 1491),
      (''ER_PARTITIONS_MUST_BE_DEFINED_ERROR'', 1492), (''ER_RANGE_NOT_INCREASING_ERROR'', 1493),
      (''ER_INCONSISTENT_TYPE_OF_FUNCTIONS_ERROR'', 1494), (''ER_MULTIPLE_DEF_CONST_IN_LIST_PART_ERROR'', 1495),
      (''ER_PARTITION_ENTRY_ERROR'', 1496), (''ER_MIX_HANDLER_ERROR'', 1497), (''ER_PARTITION_NOT_DEFINED_ERROR'', 1498),
      (''ER_TOO_MANY_PARTITIONS_ERROR'', 1499), (''ER_SUBPARTITION_ERROR'', 1500), (''ER_CANT_CREATE_HANDLER_FILE'', 1501),
      (''ER_BLOB_FIELD_IN_PART_FUNC_ERROR'', 1502), (''ER_UNIQUE_KEY_NEED_ALL_FIELDS_IN_PF'', 1503), (''ER_NO_PARTS_ERROR'', 1504),
      (''ER_PARTITION_MGMT_ON_NONPARTITIONED'', 1505), (''ER_FOREIGN_KEY_ON_PARTITIONED'', 1506),
      (''ER_DROP_PARTITION_NON_EXISTENT'', 1507), (''ER_DROP_LAST_PARTITION'', 1508), (''ER_COALESCE_ONLY_ON_HASH_PARTITION'', 1509),
      (''ER_REORG_HASH_ONLY_ON_SAME_NO'', 1510), (''ER_REORG_NO_PARAM_ERROR'', 1511), (''ER_ONLY_ON_RANGE_LIST_PARTITION'', 1512),
      (''ER_ADD_PARTITION_SUBPART_ERROR'', 1513), (''ER_ADD_PARTITION_NO_NEW_PARTITION'', 1514),
      (''ER_COALESCE_PARTITION_NO_PARTITION'', 1515), (''ER_REORG_PARTITION_NOT_EXIST'', 1516), (''ER_SAME_NAME_PARTITION'', 1517),
      (''ER_NO_BINLOG_ERROR'', 1518), (''ER_CONSECUTIVE_REORG_PARTITIONS'', 1519), (''ER_REORG_OUTSIDE_RANGE'', 1520),
      (''ER_PARTITION_FUNCTION_FAILURE'', 1521), (''ER_PART_STATE_ERROR'', 1522), (''ER_LIMITED_PART_RANGE'', 1523),
      (''ER_PLUGIN_IS_NOT_LOADED'', 1524), (''ER_WRONG_VALUE'', 1525), (''ER_NO_PARTITION_FOR_GIVEN_VALUE'', 1526),
      (''ER_FILEGROUP_OPTION_ONLY_ONCE'', 1527), (''ER_CREATE_FILEGROUP_FAILED'', 1528), (''ER_DROP_FILEGROUP_FAILED'', 1529),
      (''ER_TABLESPACE_AUTO_EXTEND_ERROR'', 1530), (''ER_WRONG_SIZE_NUMBER'', 1531), (''ER_SIZE_OVERFLOW_ERROR'', 1532),
      (''ER_ALTER_FILEGROUP_FAILED'', 1533), (''ER_BINLOG_ROW_LOGGING_FAILED'', 1534), (''ER_BINLOG_ROW_WRONG_TABLE_DEF'', 1535),
      (''ER_BINLOG_ROW_RBR_TO_SBR'', 1536), (''ER_EVENT_ALREADY_EXISTS'', 1537), (''ER_EVENT_STORE_FAILED'', 1538),
      (''ER_EVENT_DOES_NOT_EXIST'', 1539), (''ER_EVENT_CANT_ALTER'', 1540), (''ER_EVENT_DROP_FAILED'', 1541),
      (''ER_EVENT_INTERVAL_NOT_POSITIVE_OR_TOO_BIG'', 1542), (''ER_EVENT_ENDS_BEFORE_STARTS'', 1543),
      (''ER_EVENT_EXEC_TIME_IN_THE_PAST'', 1544), (''ER_EVENT_OPEN_TABLE_FAILED'', 1545), (''ER_EVENT_NEITHER_M_EXPR_NOR_M_AT'', 1546),
      (''ER_OBSOLETE_COL_COUNT_DOESNT_MATCH_CORRUPTED'', 1547), (''ER_OBSOLETE_CANNOT_LOAD_FROM_TABLE'', 1548),
      (''ER_EVENT_CANNOT_DELETE'', 1549), (''ER_EVENT_COMPILE_ERROR'', 1550), (''ER_EVENT_SAME_NAME'', 1551),
      (''ER_EVENT_DATA_TOO_LONG'', 1552), (''ER_DROP_INDEX_FK'', 1553), (''ER_WARN_DEPRECATED_SYNTAX_WITH_VER'', 1554),
      (''ER_CANT_WRITE_LOCK_LOG_TABLE'', 1555), (''ER_CANT_LOCK_LOG_TABLE'', 1556), (''ER_FOREIGN_DUPLICATE_KEY_OLD_UNUSED'', 1557),
      (''ER_COL_COUNT_DOESNT_MATCH_PLEASE_UPDATE'', 1558), (''ER_TEMP_TABLE_PREVENTS_SWITCH_OUT_OF_RBR'', 1559),
      (''ER_STORED_FUNCTION_PREVENTS_SWITCH_BINLOG_FORMAT'', 1560), (''ER_NDB_CANT_SWITCH_BINLOG_FORMAT'', 1561),
      (''ER_PARTITION_NO_TEMPORARY'', 1562), (''ER_PARTITION_CONST_DOMAIN_ERROR'', 1563), (''ER_PARTITION_FUNCTION_IS_NOT_ALLOWED'', 1564),
      (''ER_DDL_LOG_ERROR'', 1565), (''ER_NULL_IN_VALUES_LESS_THAN'', 1566), (''ER_WRONG_PARTITION_NAME'', 1567),
      (''ER_CANT_CHANGE_TX_CHARACTERISTICS'', 1568), (''ER_DUP_ENTRY_AUTOINCREMENT_CASE'', 1569), (''ER_EVENT_MODIFY_QUEUE_ERROR'', 1570),
      (''ER_EVENT_SET_VAR_ERROR'', 1571), (''ER_PARTITION_MERGE_ERROR'', 1572), (''ER_CANT_ACTIVATE_LOG'', 1573),
      (''ER_RBR_NOT_AVAILABLE'', 1574), (''ER_BASE64_DECODE_ERROR'', 1575), (''ER_EVENT_RECURSION_FORBIDDEN'', 1576),
      (''ER_EVENTS_DB_ERROR'', 1577), (''ER_ONLY_INTEGERS_ALLOWED'', 1578)]"

definition err_codes_5 :: "(string \<times> int) list" where
  "err_codes_5 =
     [(''ER_UNSUPORTED_LOG_ENGINE'', 1579), (''ER_BAD_LOG_STATEMENT'', 1580), (''ER_CANT_RENAME_LOG_TABLE'', 1581),
      (''ER_WRONG_PARAMCOUNT_TO_NATIVE_FCT'', 1582), (''ER_WRONG_PARAMETERS_TO_NATIVE_FCT'', 1583),
      (''ER_WRONG_PARAMETERS_TO_STORED_FCT'', 1584), (''ER_NATIVE_FCT_NAME_COLLISION'', 1585), (''ER_DUP_ENTRY_WITH_KEY_NAME'', 1586),
      (''ER_BINLOG_PURGE_EMFILE'', 1587), (''ER_EVENT_CANNOT_CREATE_IN_THE_PAST'', 1588), (''ER_EVENT_CANNOT_ALTER_IN_THE_PAST'', 1589),
      (''ER_SLAVE_INCIDENT'', 1590), (''ER_NO_PARTITION_FOR_GIVEN_VALUE_SILENT'', 1591), (''ER_BINLOG_UNSAFE_STATEMENT'', 1592),
      (''ER_SLAVE_FATAL_ERROR'', 1593), (''ER_SLAVE_RELAY_LOG_READ_FAILURE'', 1594), (''ER_SLAVE_RELAY_LOG_WRITE_FAILURE'', 1595),
      (''ER_SLAVE_CREATE_EVENT_FAILURE'', 1596), (''ER_SLAVE_MASTER_COM_FAILURE'', 1597), (''ER_BINLOG_LOGGING_IMPOSSIBLE'', 1598),
      (''ER_VIEW_NO_CREATION_CTX'', 1599), (''ER_VIEW_INVALID_CREATION_CTX'', 1600), (''ER_SR_INVALID_CREATION_CTX'', 1601),
      (''ER_TRG_CORRUPTED_FILE'', 1602), (''ER_TRG_NO_CREATION_CTX'', 1603), (''ER_TRG_INVALID_CREATION_CTX'', 1604),
      (''ER_EVENT_INVALID_CREATION_CTX'', 1605), (''ER_TRG_CANT_OPEN_TABLE'', 1606), (''ER_CANT_CREATE_SROUTINE'', 1607),
      (''ER_NEVER_USED'', 1608), (''ER_NO_FORMAT_DESCRIPTION_EVENT_BEFORE_BINLOG_STATEMENT'', 1609), (''ER_SLAVE_CORRUPT_EVENT'', 1610),
      (''ER_LOAD_DATA_INVALID_COLUMN'', 1611), (''ER_LOG_PURGE_NO_FILE'', 1612), (''ER_XA_RBTIMEOUT'', 1613), (''ER_XA_RBDEADLOCK'', 1614),
      (''ER_NEED_REPREPARE'', 1615), (''ER_DELAYED_NOT_SUPPORTED'', 1616), (''WARN_NO_MASTER_INFO'', 1617),
      (''WARN_OPTION_IGNORED'', 1618), (''WARN_PLUGIN_DELETE_BUILTIN'', 1619), (''WARN_PLUGIN_BUSY'', 1620),
      (''ER_VARIABLE_IS_READONLY'', 1621), (''ER_WARN_ENGINE_TRANSACTION_ROLLBACK'', 1622), (''ER_SLAVE_HEARTBEAT_FAILURE'', 1623),
      (''ER_SLAVE_HEARTBEAT_VALUE_OUT_OF_RANGE'', 1624), (''ER_NDB_REPLICATION_SCHEMA_ERROR'', 1625),
      (''ER_CONFLICT_FN_PARSE_ERROR'', 1626), (''ER_EXCEPTIONS_WRITE_ERROR'', 1627), (''ER_TOO_LONG_TABLE_COMMENT'', 1628),
      (''ER_TOO_LONG_FIELD_COMMENT'', 1629), (''ER_FUNC_INEXISTENT_NAME_COLLISION'', 1630), (''ER_DATABASE_NAME'', 1631),
      (''ER_TABLE_NAME'', 1632), (''ER_PARTITION_NAME'', 1633), (''ER_SUBPARTITION_NAME'', 1634), (''ER_TEMPORARY_NAME'', 1635),
      (''ER_RENAMED_NAME'', 1636), (''ER_TOO_MANY_CONCURRENT_TRXS'', 1637), (''WARN_NON_ASCII_SEPARATOR_NOT_IMPLEMENTED'', 1638),
      (''ER_DEBUG_SYNC_TIMEOUT'', 1639), (''ER_DEBUG_SYNC_HIT_LIMIT'', 1640), (''ER_DUP_SIGNAL_SET'', 1641), (''ER_SIGNAL_WARN'', 1642),
      (''ER_SIGNAL_NOT_FOUND'', 1643), (''ER_SIGNAL_EXCEPTION'', 1644), (''ER_RESIGNAL_WITHOUT_ACTIVE_HANDLER'', 1645),
      (''ER_SIGNAL_BAD_CONDITION_TYPE'', 1646), (''WARN_COND_ITEM_TRUNCATED'', 1647), (''ER_COND_ITEM_TOO_LONG'', 1648),
      (''ER_UNKNOWN_LOCALE'', 1649), (''ER_SLAVE_IGNORE_SERVER_IDS'', 1650), (''ER_QUERY_CACHE_DISABLED'', 1651),
      (''ER_SAME_NAME_PARTITION_FIELD'', 1652), (''ER_PARTITION_COLUMN_LIST_ERROR'', 1653), (''ER_WRONG_TYPE_COLUMN_VALUE_ERROR'', 1654),
      (''ER_TOO_MANY_PARTITION_FUNC_FIELDS_ERROR'', 1655), (''ER_MAXVALUE_IN_VALUES_IN'', 1656), (''ER_TOO_MANY_VALUES_ERROR'', 1657),
      (''ER_ROW_SINGLE_PARTITION_FIELD_ERROR'', 1658), (''ER_FIELD_TYPE_NOT_ALLOWED_AS_PARTITION_FIELD'', 1659),
      (''ER_PARTITION_FIELDS_TOO_LONG'', 1660), (''ER_BINLOG_ROW_ENGINE_AND_STMT_ENGINE'', 1661),
      (''ER_BINLOG_ROW_MODE_AND_STMT_ENGINE'', 1662), (''ER_BINLOG_UNSAFE_AND_STMT_ENGINE'', 1663),
      (''ER_BINLOG_ROW_INJECTION_AND_STMT_ENGINE'', 1664), (''ER_BINLOG_STMT_MODE_AND_ROW_ENGINE'', 1665),
      (''ER_BINLOG_ROW_INJECTION_AND_STMT_MODE'', 1666), (''ER_BINLOG_MULTIPLE_ENGINES_AND_SELF_LOGGING_ENGINE'', 1667),
      (''ER_BINLOG_UNSAFE_LIMIT'', 1668), (''ER_BINLOG_UNSAFE_INSERT_DELAYED'', 1669), (''ER_BINLOG_UNSAFE_SYSTEM_TABLE'', 1670),
      (''ER_BINLOG_UNSAFE_AUTOINC_COLUMNS'', 1671), (''ER_BINLOG_UNSAFE_UDF'', 1672), (''ER_BINLOG_UNSAFE_SYSTEM_VARIABLE'', 1673),
      (''ER_BINLOG_UNSAFE_SYSTEM_FUNCTION'', 1674), (''ER_BINLOG_UNSAFE_NONTRANS_AFTER_TRANS'', 1675),
      (''ER_MESSAGE_AND_STATEMENT'', 1676), (''ER_SLAVE_CONVERSION_FAILED'', 1677), (''ER_SLAVE_CANT_CREATE_CONVERSION'', 1678),
      (''ER_INSIDE_TRANSACTION_PREVENTS_SWITCH_BINLOG_FORMAT'', 1679), (''ER_PATH_LENGTH'', 1680),
      (''ER_WARN_DEPRECATED_SYNTAX_NO_REPLACEMENT'', 1681), (''ER_WRONG_NATIVE_TABLE_STRUCTURE'', 1682),
      (''ER_WRONG_PERFSCHEMA_USAGE'', 1683), (''ER_WARN_I_S_SKIPPED_TABLE'', 1684),
      (''ER_INSIDE_TRANSACTION_PREVENTS_SWITCH_BINLOG_DIRECT'', 1685), (''ER_STORED_FUNCTION_PREVENTS_SWITCH_BINLOG_DIRECT'', 1686),
      (''ER_SPATIAL_MUST_HAVE_GEOM_COL'', 1687), (''ER_TOO_LONG_INDEX_COMMENT'', 1688), (''ER_LOCK_ABORTED'', 1689),
      (''ER_DATA_OUT_OF_RANGE'', 1690), (''ER_WRONG_SPVAR_TYPE_IN_LIMIT'', 1691),
      (''ER_BINLOG_UNSAFE_MULTIPLE_ENGINES_AND_SELF_LOGGING_ENGINE'', 1692), (''ER_BINLOG_UNSAFE_MIXED_STATEMENT'', 1693),
      (''ER_INSIDE_TRANSACTION_PREVENTS_SWITCH_SQL_LOG_BIN'', 1694), (''ER_STORED_FUNCTION_PREVENTS_SWITCH_SQL_LOG_BIN'', 1695),
      (''ER_FAILED_READ_FROM_PAR_FILE'', 1696), (''ER_VALUES_IS_NOT_INT_TYPE_ERROR'', 1697),
      (''ER_ACCESS_DENIED_NO_PASSWORD_ERROR'', 1698), (''ER_SET_PASSWORD_AUTH_PLUGIN'', 1699), (''ER_GRANT_PLUGIN_USER_EXISTS'', 1700),
      (''ER_TRUNCATE_ILLEGAL_FK'', 1701), (''ER_PLUGIN_IS_PERMANENT'', 1702), (''ER_SLAVE_HEARTBEAT_VALUE_OUT_OF_RANGE_MIN'', 1703),
      (''ER_SLAVE_HEARTBEAT_VALUE_OUT_OF_RANGE_MAX'', 1704), (''ER_STMT_CACHE_FULL'', 1705), (''ER_MULTI_UPDATE_KEY_CONFLICT'', 1706),
      (''ER_TABLE_NEEDS_REBUILD'', 1707), (''WARN_OPTION_BELOW_LIMIT'', 1708), (''ER_INDEX_COLUMN_TOO_LONG'', 1709),
      (''ER_ERROR_IN_TRIGGER_BODY'', 1710), (''ER_ERROR_IN_UNKNOWN_TRIGGER_BODY'', 1711), (''ER_INDEX_CORRUPT'', 1712),
      (''ER_UNDO_RECORD_TOO_BIG'', 1713), (''ER_BINLOG_UNSAFE_INSERT_IGNORE_SELECT'', 1714),
      (''ER_BINLOG_UNSAFE_INSERT_SELECT_UPDATE'', 1715), (''ER_BINLOG_UNSAFE_REPLACE_SELECT'', 1716),
      (''ER_BINLOG_UNSAFE_CREATE_IGNORE_SELECT'', 1717), (''ER_BINLOG_UNSAFE_CREATE_REPLACE_SELECT'', 1718),
      (''ER_BINLOG_UNSAFE_UPDATE_IGNORE'', 1719), (''ER_PLUGIN_NO_UNINSTALL'', 1720), (''ER_PLUGIN_NO_INSTALL'', 1721),
      (''ER_BINLOG_UNSAFE_WRITE_AUTOINC_SELECT'', 1722), (''ER_BINLOG_UNSAFE_CREATE_SELECT_AUTOINC'', 1723)]"

definition err_codes_6 :: "(string \<times> int) list" where
  "err_codes_6 =
     [(''ER_BINLOG_UNSAFE_INSERT_TWO_KEYS'', 1724), (''ER_TABLE_IN_FK_CHECK'', 1725), (''ER_UNSUPPORTED_ENGINE'', 1726),
      (''ER_BINLOG_UNSAFE_AUTOINC_NOT_FIRST'', 1727), (''ER_CANNOT_LOAD_FROM_TABLE_V2'', 1728),
      (''ER_MASTER_DELAY_VALUE_OUT_OF_RANGE'', 1729), (''ER_ONLY_FD_AND_RBR_EVENTS_ALLOWED_IN_BINLOG_STATEMENT'', 1730),
      (''ER_PARTITION_EXCHANGE_DIFFERENT_OPTION'', 1731), (''ER_PARTITION_EXCHANGE_PART_TABLE'', 1732),
      (''ER_PARTITION_EXCHANGE_TEMP_TABLE'', 1733), (''ER_PARTITION_INSTEAD_OF_SUBPARTITION'', 1734), (''ER_UNKNOWN_PARTITION'', 1735),
      (''ER_TABLES_DIFFERENT_METADATA'', 1736), (''ER_ROW_DOES_NOT_MATCH_PARTITION'', 1737),
      (''ER_BINLOG_CACHE_SIZE_GREATER_THAN_MAX'', 1738), (''ER_WARN_INDEX_NOT_APPLICABLE'', 1739),
      (''ER_PARTITION_EXCHANGE_FOREIGN_KEY'', 1740), (''ER_NO_SUCH_KEY_VALUE'', 1741), (''ER_RPL_INFO_DATA_TOO_LONG'', 1742),
      (''ER_NETWORK_READ_EVENT_CHECKSUM_FAILURE'', 1743), (''ER_BINLOG_READ_EVENT_CHECKSUM_FAILURE'', 1744),
      (''ER_BINLOG_STMT_CACHE_SIZE_GREATER_THAN_MAX'', 1745), (''ER_CANT_UPDATE_TABLE_IN_CREATE_TABLE_SELECT'', 1746),
      (''ER_PARTITION_CLAUSE_ON_NONPARTITIONED'', 1747), (''ER_ROW_DOES_NOT_MATCH_GIVEN_PARTITION_SET'', 1748),
      (''ER_NO_SUCH_PARTITION__UNUSED'', 1749), (''ER_CHANGE_RPL_INFO_REPOSITORY_FAILURE'', 1750),
      (''ER_WARNING_NOT_COMPLETE_ROLLBACK_WITH_CREATED_TEMP_TABLE'', 1751),
      (''ER_WARNING_NOT_COMPLETE_ROLLBACK_WITH_DROPPED_TEMP_TABLE'', 1752), (''ER_MTS_FEATURE_IS_NOT_SUPPORTED'', 1753),
      (''ER_MTS_UPDATED_DBS_GREATER_MAX'', 1754), (''ER_MTS_CANT_PARALLEL'', 1755), (''ER_MTS_INCONSISTENT_DATA'', 1756),
      (''ER_FULLTEXT_NOT_SUPPORTED_WITH_PARTITIONING'', 1757), (''ER_DA_INVALID_CONDITION_NUMBER'', 1758),
      (''ER_INSECURE_PLAIN_TEXT'', 1759), (''ER_INSECURE_CHANGE_MASTER'', 1760), (''ER_FOREIGN_DUPLICATE_KEY_WITH_CHILD_INFO'', 1761),
      (''ER_FOREIGN_DUPLICATE_KEY_WITHOUT_CHILD_INFO'', 1762), (''ER_SQLTHREAD_WITH_SECURE_SLAVE'', 1763), (''ER_TABLE_HAS_NO_FT'', 1764),
      (''ER_VARIABLE_NOT_SETTABLE_IN_SF_OR_TRIGGER'', 1765), (''ER_VARIABLE_NOT_SETTABLE_IN_TRANSACTION'', 1766),
      (''ER_GTID_NEXT_IS_NOT_IN_GTID_NEXT_LIST'', 1767), (''ER_CANT_CHANGE_GTID_NEXT_IN_TRANSACTION_WHEN_GTID_NEXT_LIST_IS_NULL'', 1768),
      (''ER_SET_STATEMENT_CANNOT_INVOKE_FUNCTION'', 1769), (''ER_GTID_NEXT_CANT_BE_AUTOMATIC_IF_GTID_NEXT_LIST_IS_NON_NULL'', 1770),
      (''ER_SKIPPING_LOGGED_TRANSACTION'', 1771), (''ER_MALFORMED_GTID_SET_SPECIFICATION'', 1772),
      (''ER_MALFORMED_GTID_SET_ENCODING'', 1773), (''ER_MALFORMED_GTID_SPECIFICATION'', 1774), (''ER_GNO_EXHAUSTED'', 1775),
      (''ER_BAD_SLAVE_AUTO_POSITION'', 1776), (''ER_AUTO_POSITION_REQUIRES_GTID_MODE_ON'', 1777),
      (''ER_CANT_DO_IMPLICIT_COMMIT_IN_TRX_WHEN_GTID_NEXT_IS_SET'', 1778),
      (''ER_GTID_MODE_2_OR_3_REQUIRES_ENFORCE_GTID_CONSISTENCY_ON'', 1779), (''ER_GTID_MODE_REQUIRES_BINLOG'', 1780),
      (''ER_CANT_SET_GTID_NEXT_TO_GTID_WHEN_GTID_MODE_IS_OFF'', 1781), (''ER_CANT_SET_GTID_NEXT_TO_ANONYMOUS_WHEN_GTID_MODE_IS_ON'', 1782),
      (''ER_CANT_SET_GTID_NEXT_LIST_TO_NON_NULL_WHEN_GTID_MODE_IS_OFF'', 1783), (''ER_FOUND_GTID_EVENT_WHEN_GTID_MODE_IS_OFF'', 1784),
      (''ER_GTID_UNSAFE_NON_TRANSACTIONAL_TABLE'', 1785), (''ER_GTID_UNSAFE_CREATE_SELECT'', 1786),
      (''ER_GTID_UNSAFE_CREATE_DROP_TEMPORARY_TABLE_IN_TRANSACTION'', 1787), (''ER_GTID_MODE_CAN_ONLY_CHANGE_ONE_STEP_AT_A_TIME'', 1788),
      (''ER_MASTER_HAS_PURGED_REQUIRED_GTIDS'', 1789), (''ER_CANT_SET_GTID_NEXT_WHEN_OWNING_GTID'', 1790),
      (''ER_UNKNOWN_EXPLAIN_FORMAT'', 1791), (''ER_CANT_EXECUTE_IN_READ_ONLY_TRANSACTION'', 1792),
      (''ER_TOO_LONG_TABLE_PARTITION_COMMENT'', 1793), (''ER_SLAVE_CONFIGURATION'', 1794), (''ER_INNODB_FT_LIMIT'', 1795),
      (''ER_INNODB_NO_FT_TEMP_TABLE'', 1796), (''ER_INNODB_FT_WRONG_DOCID_COLUMN'', 1797), (''ER_INNODB_FT_WRONG_DOCID_INDEX'', 1798),
      (''ER_INNODB_ONLINE_LOG_TOO_BIG'', 1799), (''ER_UNKNOWN_ALTER_ALGORITHM'', 1800), (''ER_UNKNOWN_ALTER_LOCK'', 1801),
      (''ER_MTS_CHANGE_MASTER_CANT_RUN_WITH_GAPS'', 1802), (''ER_MTS_RECOVERY_FAILURE'', 1803), (''ER_MTS_RESET_WORKERS'', 1804),
      (''ER_COL_COUNT_DOESNT_MATCH_CORRUPTED_V2'', 1805), (''ER_SLAVE_SILENT_RETRY_TRANSACTION'', 1806),
      (''ER_DISCARD_FK_CHECKS_RUNNING'', 1807), (''ER_TABLE_SCHEMA_MISMATCH'', 1808), (''ER_TABLE_IN_SYSTEM_TABLESPACE'', 1809),
      (''ER_IO_READ_ERROR'', 1810), (''ER_IO_WRITE_ERROR'', 1811), (''ER_TABLESPACE_MISSING'', 1812), (''ER_TABLESPACE_EXISTS'', 1813),
      (''ER_TABLESPACE_DISCARDED'', 1814), (''ER_INTERNAL_ERROR'', 1815), (''ER_INNODB_IMPORT_ERROR'', 1816),
      (''ER_INNODB_INDEX_CORRUPT'', 1817), (''ER_INVALID_YEAR_COLUMN_LENGTH'', 1818), (''ER_NOT_VALID_PASSWORD'', 1819),
      (''ER_MUST_CHANGE_PASSWORD'', 1820), (''ER_FK_NO_INDEX_CHILD'', 1821), (''ER_FK_NO_INDEX_PARENT'', 1822),
      (''ER_FK_FAIL_ADD_SYSTEM'', 1823), (''ER_FK_CANNOT_OPEN_PARENT'', 1824), (''ER_FK_INCORRECT_OPTION'', 1825),
      (''ER_FK_DUP_NAME'', 1826), (''ER_PASSWORD_FORMAT'', 1827), (''ER_FK_COLUMN_CANNOT_DROP'', 1828),
      (''ER_FK_COLUMN_CANNOT_DROP_CHILD'', 1829), (''ER_FK_COLUMN_NOT_NULL'', 1830), (''ER_DUP_INDEX'', 1831),
      (''ER_FK_COLUMN_CANNOT_CHANGE'', 1832), (''ER_FK_COLUMN_CANNOT_CHANGE_CHILD'', 1833), (''ER_FK_CANNOT_DELETE_PARENT'', 1834),
      (''ER_MALFORMED_PACKET'', 1835), (''ER_READ_ONLY_MODE'', 1836), (''ER_GTID_NEXT_TYPE_UNDEFINED_GROUP'', 1837),
      (''ER_VARIABLE_NOT_SETTABLE_IN_SP'', 1838), (''ER_CANT_SET_GTID_PURGED_WHEN_GTID_MODE_IS_OFF'', 1839),
      (''ER_CANT_SET_GTID_PURGED_WHEN_GTID_EXECUTED_IS_NOT_EMPTY'', 1840),
      (''ER_CANT_SET_GTID_PURGED_WHEN_OWNED_GTIDS_IS_NOT_EMPTY'', 1841), (''ER_GTID_PURGED_WAS_CHANGED'', 1842),
      (''ER_GTID_EXECUTED_WAS_CHANGED'', 1843), (''ER_BINLOG_STMT_MODE_AND_NO_REPL_TABLES'', 1844),
      (''ER_ALTER_OPERATION_NOT_SUPPORTED'', 1845), (''ER_ALTER_OPERATION_NOT_SUPPORTED_REASON'', 1846),
      (''ER_ALTER_OPERATION_NOT_SUPPORTED_REASON_COPY'', 1847), (''ER_ALTER_OPERATION_NOT_SUPPORTED_REASON_PARTITION'', 1848),
      (''ER_ALTER_OPERATION_NOT_SUPPORTED_REASON_FK_RENAME'', 1849), (''ER_ALTER_OPERATION_NOT_SUPPORTED_REASON_COLUMN_TYPE'', 1850),
      (''ER_ALTER_OPERATION_NOT_SUPPORTED_REASON_FK_CHECK'', 1851), (''ER_ALTER_OPERATION_NOT_SUPPORTED_REASON_IGNORE'', 1852),
      (''ER_ALTER_OPERATION_NOT_SUPPORTED_REASON_NOPK'', 1853), (''ER_ALTER_OPERATION_NOT_SUPPORTED_REASON_AUTOINC'', 1854),
      (''ER_ALTER_OPERATION_NOT_SUPPORTED_REASON_HIDDEN_FTS'', 1855), (''ER_ALTER_OPERATION_NOT_SUPPORTED_REASON_CHANGE_FTS'', 1856),
      (''ER_ALTER_OPERATION_NOT_SUPPORTED_REASON_FTS'', 1857), (''ER_SQL_SLAVE_SKIP_COUNTER_NOT_SETTABLE_IN_GTID_MODE'', 1858),
      (''ER_DUP_UNKNOWN_IN_INDEX'', 1859), (''ER_IDENT_CAUSES_TOO_LONG_PATH'', 1860),
      (''ER_ALTER_OPERATION_NOT_SUPPORTED_REASON_NOT_NULL'', 1861), (''ER_MUST_CHANGE_PASSWORD_LOGIN'', 1862),
      (''ER_ROW_IN_WRONG_PARTITION'', 1863), (''ER_ERROR_LAST'', 1863)]"

definition err_codes :: "(string \<times> int) list" where
  "err_codes = err_codes_1 @ err_codes_2 @ err_codes_3 @ err_codes_4 @ err_codes_5 @ err_codes_6"

section \<open>Messages\<close>

definition err_names_1 :: "(int \<times> string) list" where
  "err_names_1 =
     [(1000, ''hashchk''), (1001, ''isamchk''), (1002, ''NO''), (1003, ''YES''),
      (1004, ''Can'' @ [CHR 0x27] @ ''t create file '' @ [CHR 0x27] @ ''%-.200s'' @ [CHR 0x27] @ '' (errno: %d - %s)''),
      (1005, ''Can'' @ [CHR 0x27] @ ''t create table '' @ [CHR 0x27] @ ''%-.200s'' @ [CHR 0x27] @ '' (errno: %d)''),
      (1006, ''Can'' @ [CHR 0x27] @ ''t create database '' @ [CHR 0x27] @ ''%-.192s'' @ [CHR 0x27] @ '' (errno: %d)''),
      (1007, ''Can'' @ [CHR 0x27] @ ''t create database '' @ [CHR 0x27] @ ''%-.192s'' @ [CHR 0x27] @ ''; database exists''),
      (1008, ''Can'' @ [CHR 0x27] @ ''t drop database '' @ [CHR 0x27] @ ''%-.192s'' @ [CHR 0x27] @ ''; database doesn'' @ [CHR 0x27] @ ''t exist''),
      (1009, ''Error dropping database (can'' @ [CHR 0x27] @ ''t delete '' @ [CHR 0x27] @ ''%-.192s'' @ [CHR 0x27] @ '', errno: %d)''),
      (1010, ''Error dropping database (can'' @ [CHR 0x27] @ ''t rmdir '' @ [CHR 0x27] @ ''%-.192s'' @ [CHR 0x27] @ '', errno: %d)''),
      (1011, ''Error on delete of '' @ [CHR 0x27] @ ''%-.192s'' @ [CHR 0x27] @ '' (errno: %d - %s)''),
      (1012, ''Can'' @ [CHR 0x27] @ ''t read record in system table''),
      (1013, ''Can'' @ [CHR 0x27] @ ''t get status of '' @ [CHR 0x27] @ ''%-.200s'' @ [CHR 0x27] @ '' (errno: %d - %s)''),
      (1014, ''Can'' @ [CHR 0x27] @ ''t get working directory (errno: %d - %s)''),
      (1015, ''Can'' @ [CHR 0x27] @ ''t lock file (errno: %d - %s)''),
      (1016, ''Can'' @ [CHR 0x27] @ ''t open file: '' @ [CHR 0x27] @ ''%-.200s'' @ [CHR 0x27] @ '' (errno: %d - %s)''),
      (1017, ''Can'' @ [CHR 0x27] @ ''t find file: '' @ [CHR 0x27] @ ''%-.200s'' @ [CHR 0x27] @ '' (errno: %d - %s)''),
      (1018, ''Can'' @ [CHR 0x27] @ ''t read dir of '' @ [CHR 0x27] @ ''%-.192s'' @ [CHR 0x27] @ '' (errno: %d - %s)''),
      (1019, ''Can'' @ [CHR 0x27] @ ''t change dir to '' @ [CHR 0x27] @ ''%-.192s'' @ [CHR 0x27] @ '' (errno: %d - %s)''),
      (1020, ''Record has changed since last read in table '' @ [CHR 0x27] @ ''%-.192s'' @ [CHR 0x27]),
      (1021, ''Disk full (%s); waiting for someone to free some space... (errno: %d - %s)''),
      (1022, ''Can'' @ [CHR 0x27] @ ''t write; duplicate key in table '' @ [CHR 0x27] @ ''%-.192s'' @ [CHR 0x27]),
      (1023, ''Error on close of '' @ [CHR 0x27] @ ''%-.192s'' @ [CHR 0x27] @ '' (errno: %d - %s)''),
      (1024, ''Error reading file '' @ [CHR 0x27] @ ''%-.200s'' @ [CHR 0x27] @ '' (errno: %d - %s)''),
      (1025, ''Error on rename of '' @ [CHR 0x27] @ ''%-.210s'' @ [CHR 0x27] @ '' to '' @ [CHR 0x27] @ ''%-.210s'' @ [CHR 0x27] @ '' (errno: %d - %s)''),
      (1026, ''Error writing file '' @ [CHR 0x27] @ ''%-.200s'' @ [CHR 0x27] @ '' (errno: %d - %s)''),
      (1027, [CHR 0x27] @ ''%-.192s'' @ [CHR 0x27] @ '' is locked against change''), (1028, ''Sort aborted''),
      (1029, ''View '' @ [CHR 0x27] @ ''%-.192s'' @ [CHR 0x27] @ '' doesn'' @ [CHR 0x27] @ ''t exist for '' @ [CHR 0x27] @ ''%-.192s'' @ [CHR 0x27]),
      (1030, ''Got error %d from storage engine''),
      (1031, ''Table storage engine for '' @ [CHR 0x27] @ ''%-.192s'' @ [CHR 0x27] @ '' doesn'' @ [CHR 0x27] @ ''t have this option''),
      (1032, ''Can'' @ [CHR 0x27] @ ''t find record in '' @ [CHR 0x27] @ ''%-.192s'' @ [CHR 0x27]),
      (1033, ''Incorrect information in file: '' @ [CHR 0x27] @ ''%-.200s'' @ [CHR 0x27]),
      (1034, ''Incorrect key file for table '' @ [CHR 0x27] @ ''%-.200s'' @ [CHR 0x27] @ ''; try to repair it''),
      (1035, ''Old key file for table '' @ [CHR 0x27] @ ''%-.192s'' @ [CHR 0x27] @ ''; repair it!''),
      (1036, ''Table '' @ [CHR 0x27] @ ''%-.192s'' @ [CHR 0x27] @ '' is read only''),
      (1037, ''Out of memory; restart server and try again (needed %d bytes)''),
      (1038, ''Out of sort memory, consider increasing server sort buffer size''),
      (1039, ''Unexpected EOF found when reading file '' @ [CHR 0x27] @ ''%-.192s'' @ [CHR 0x27] @ '' (errno: %d - %s)''),
      (1040, ''Too many connections''),
      (1041, ''Out of memory; check if mysqld or some other process uses all available memory; if not, you may have to use '' @ [CHR 0x27] @ ''ulimit'' @ [CHR 0x27] @ '' to allow mysqld to use more memory or you can add more swap space''),
      (1042, ''Can'' @ [CHR 0x27] @ ''t get hostname for your address''), (1043, ''Bad handshake''),
      (1044, ''Access denied for user '' @ [CHR 0x27] @ ''%-.48s'' @ [CHR 0x27] @ ''@'' @ [CHR 0x27] @ ''%-.64s'' @ [CHR 0x27] @ '' to database '' @ [CHR 0x27] @ ''%-.192s'' @ [CHR 0x27]),
      (1045, ''Access denied for user '' @ [CHR 0x27] @ ''%-.48s'' @ [CHR 0x27] @ ''@'' @ [CHR 0x27] @ ''%-.64s'' @ [CHR 0x27] @ '' (using password: %s)''),
      (1046, ''No database selected''), (1047, ''Unknown command''),
      (1048, ''Column '' @ [CHR 0x27] @ ''%-.192s'' @ [CHR 0x27] @ '' cannot be null''),
      (1049, ''Unknown database '' @ [CHR 0x27] @ ''%-.192s'' @ [CHR 0x27]),
      (1050, ''Table '' @ [CHR 0x27] @ ''%-.192s'' @ [CHR 0x27] @ '' already exists''),
      (1051, ''Unknown table '' @ [CHR 0x27] @ ''%-.100s'' @ [CHR 0x27]),
      (1052, ''Column '' @ [CHR 0x27] @ ''%-.192s'' @ [CHR 0x27] @ '' in %-.192s is ambiguous''), (1053, ''Server shutdown in progress''),
      (1054, ''Unknown column '' @ [CHR 0x27] @ ''%-.192s'' @ [CHR 0x27] @ '' in '' @ [CHR 0x27] @ ''%-.192s'' @ [CHR 0x27]),
      (1055, [CHR 0x27] @ ''%-.192s'' @ [CHR 0x27] @ '' isn'' @ [CHR 0x27] @ ''t in GROUP BY''),
      (1056, ''Can'' @ [CHR 0x27] @ ''t group on '' @ [CHR 0x27] @ ''%-.192s'' @ [CHR 0x27]),
      (1057, ''Statement has sum functions and columns in same statement''),
      (1058, ''Column count doesn'' @ [CHR 0x27] @ ''t match value count''),
      (1059, ''Identifier name '' @ [CHR 0x27] @ ''%-.100s'' @ [CHR 0x27] @ '' is too long''),
      (1060, ''Duplicate column name '' @ [CHR 0x27] @ ''%-.192s'' @ [CHR 0x27]),
      (1061, ''Duplicate key name '' @ [CHR 0x27] @ ''%-.192s'' @ [CHR 0x27]),
      (1062, ''Duplicate entry '' @ [CHR 0x27] @ ''%-.192s'' @ [CHR 0x27] @ '' for key %d''),
      (1063, ''Incorrect column specifier for column '' @ [CHR 0x27] @ ''%-.192s'' @ [CHR 0x27]),
      (1064, ''%s near '' @ [CHR 0x27] @ ''%-.80s'' @ [CHR 0x27] @ '' at line %d''), (1065, ''Query was empty''),
      (1066, ''Not unique table/alias: '' @ [CHR 0x27] @ ''%-.192s'' @ [CHR 0x27]),
      (1067, ''Invalid default value for '' @ [CHR 0x27] @ ''%-.192s'' @ [CHR 0x27]), (1068, ''Multiple primary key defined''),
      (1069, ''Too many keys specified; max %d keys allowed''), (1070, ''Too many key parts specified; max %d parts allowed''),
      (1071, ''Specified key was too long; max key length is %d bytes''),
      (1072, ''Key column '' @ [CHR 0x27] @ ''%-.192s'' @ [CHR 0x27] @ '' doesn'' @ [CHR 0x27] @ ''t exist in table''),
      (1073, ''BLOB column '' @ [CHR 0x27] @ ''%-.192s'' @ [CHR 0x27] @ '' can'' @ [CHR 0x27] @ ''t be used in key specification with the used table type''),
      (1074, ''Column length too big for column '' @ [CHR 0x27] @ ''%-.192s'' @ [CHR 0x27] @ '' (max = %lu); use BLOB or TEXT instead''),
      (1075, ''Incorrect table definition; there can be only one auto column and it must be defined as a key''),
      (1076, ''%s: ready for connections.'' @ [CHR 0x0A] @ ''Version: '' @ [CHR 0x27] @ ''%s'' @ [CHR 0x27] @ ''  socket: '' @ [CHR 0x27] @ ''%s'' @ [CHR 0x27] @ ''  port: %d''),
      (1077, ''%s: Normal shutdown'' @ [CHR 0x0A]), (1078, ''%s: Got signal %d. Aborting!'' @ [CHR 0x0A]),
      (1079, ''%s: Shutdown complete'' @ [CHR 0x0A]),
      (1080, ''%s: Forcing close of thread %ld  user: '' @ [CHR 0x27] @ ''%-.48s'' @ [CHR 0x27] @ [CHR 0x0A]),
      (1081, ''Can'' @ [CHR 0x27] @ ''t create IP socket''),
      (1082, ''Table '' @ [CHR 0x27] @ ''%-.192s'' @ [CHR 0x27] @ '' has no index like the one used in CREATE INDEX; recreate the table''),
      (1083, ''Field separator argument is not what is expected; check the manual''),
      (1084, ''You can'' @ [CHR 0x27] @ ''t use fixed rowlength with BLOBs; please use '' @ [CHR 0x27] @ ''fields terminated by'' @ [CHR 0x27]),
      (1085, ''The file '' @ [CHR 0x27] @ ''%-.128s'' @ [CHR 0x27] @ '' must be in the database directory or be readable by all''),
      (1086, ''File '' @ [CHR 0x27] @ ''%-.200s'' @ [CHR 0x27] @ '' already exists''),
      (1087, ''Records: %ld  Deleted: %ld  Skipped: %ld  Warnings: %ld''), (1088, ''Records: %ld  Duplicates: %ld''),
      (1089, ''Incorrect prefix key; the used key part isn'' @ [CHR 0x27] @ ''t a string, the used length is longer than the key part, or the storage engine doesn'' @ [CHR 0x27] @ ''t support unique prefix keys''),
      (1090, ''You can'' @ [CHR 0x27] @ ''t delete all columns with ALTER TABLE; use DROP TABLE instead''),
      (1091, ''Can'' @ [CHR 0x27] @ ''t DROP '' @ [CHR 0x27] @ ''%-.192s'' @ [CHR 0x27] @ ''; check that column/key exists''),
      (1092, ''Records: %ld  Duplicates: %ld  Warnings: %ld''),
      (1093, ''You can'' @ [CHR 0x27] @ ''t specify target table '' @ [CHR 0x27] @ ''%-.192s'' @ [CHR 0x27] @ '' for update in FROM clause''),
      (1094, ''Unknown thread id: %lu''), (1095, ''You are not owner of thread %lu''), (1096, ''No tables used''),
      (1097, ''Too many strings for column %-.192s and SET''),
      (1098, ''Can'' @ [CHR 0x27] @ ''t generate a unique log-filename %-.200s.(1-999)'' @ [CHR 0x0A]),
      (1099, ''Table '' @ [CHR 0x27] @ ''%-.192s'' @ [CHR 0x27] @ '' was locked with a READ lock and can'' @ [CHR 0x27] @ ''t be updated''),
      (1100, ''Table '' @ [CHR 0x27] @ ''%-.192s'' @ [CHR 0x27] @ '' was not locked with LOCK TABLES''),
      (1101, ''BLOB/TEXT column '' @ [CHR 0x27] @ ''%-.192s'' @ [CHR 0x27] @ '' can'' @ [CHR 0x27] @ ''t have a default value''),
      (1102, ''Incorrect database name '' @ [CHR 0x27] @ ''%-.100s'' @ [CHR 0x27]),
      (1103, ''Incorrect table name '' @ [CHR 0x27] @ ''%-.100s'' @ [CHR 0x27]),
      (1104, ''The SELECT would examine more than MAX_JOIN_SIZE rows; check your WHERE and use SET SQL_BIG_SELECTS=1 or SET MAX_JOIN_SIZE=# if the SELECT is okay''),
      (1105, ''Unknown error''), (1106, ''Unknown procedure '' @ [CHR 0x27] @ ''%-.192s'' @ [CHR 0x27]),
      (1107, ''Incorrect parameter count to procedure '' @ [CHR 0x27] @ ''%-.192s'' @ [CHR 0x27]),
      (1108, ''Incorrect parameters to procedure '' @ [CHR 0x27] @ ''%-.192s'' @ [CHR 0x27]),
      (1109, ''Unknown table '' @ [CHR 0x27] @ ''%-.192s'' @ [CHR 0x27] @ '' in %-.32s''),
      (1110, ''Column '' @ [CHR 0x27] @ ''%-.192s'' @ [CHR 0x27] @ '' specified twice''), (1111, ''Invalid use of group function''),
      (1112, ''Table '' @ [CHR 0x27] @ ''%-.192s'' @ [CHR 0x27] @ '' uses an extension that doesn'' @ [CHR 0x27] @ ''t exist in this MySQL version''),
      (1113, ''A table must have at least 1 column''), (1114, ''The table '' @ [CHR 0x27] @ ''%-.192s'' @ [CHR 0x27] @ '' is full''),
      (1115, ''Unknown character set: '' @ [CHR 0x27] @ ''%-.64s'' @ [CHR 0x27]),
      (1116, ''Too many tables; MySQL can only use %d tables in a join''), (1117, ''Too many columns''),
      (1118, ''Row size too large. The maximum row size for the used table type, not counting BLOBs, is %ld. This includes storage overhead, check the manual. You have to change some columns to TEXT or BLOBs''),
      (1119, ''Thread stack overrun:  Used: %ld of a %ld stack.  Use '' @ [CHR 0x27] @ ''mysqld --thread_stack=#'' @ [CHR 0x27] @ '' to specify a bigger stack if needed''),
      (1120, ''Cross dependency found in OUTER JOIN; examine your ON conditions''),
      (1121, ''Table handler doesn'' @ [CHR 0x27] @ ''t support NULL in given index. Please change column '' @ [CHR 0x27] @ ''%-.192s'' @ [CHR 0x27] @ '' to be NOT NULL or use another handler''),
      (1122, ''Can'' @ [CHR 0x27] @ ''t load function '' @ [CHR 0x27] @ ''%-.192s'' @ [CHR 0x27]),
      (1123, ''Can'' @ [CHR 0x27] @ ''t initialize function '' @ [CHR 0x27] @ ''%-.192s'' @ [CHR 0x27] @ ''; %-.80s''),
      (1124, ''No paths allowed for shared library''), (1125, ''Function '' @ [CHR 0x27] @ ''%-.192s'' @ [CHR 0x27] @ '' already exists''),
      (1126, ''Can'' @ [CHR 0x27] @ ''t open shared library '' @ [CHR 0x27] @ ''%-.192s'' @ [CHR 0x27] @ '' (errno: %d %-.128s)''),
      (1127, ''Can'' @ [CHR 0x27] @ ''t find symbol '' @ [CHR 0x27] @ ''%-.128s'' @ [CHR 0x27] @ '' in library''),
      (1128, ''Function '' @ [CHR 0x27] @ ''%-.192s'' @ [CHR 0x27] @ '' is not defined''),
      (1129, ''Host '' @ [CHR 0x27] @ ''%-.64s'' @ [CHR 0x27] @ '' is blocked because of many connection errors; unblock with '' @ [CHR 0x27] @ ''mysqladmin flush-hosts'' @ [CHR 0x27]),
      (1130, ''Host '' @ [CHR 0x27] @ ''%-.64s'' @ [CHR 0x27] @ '' is not allowed to connect to this MySQL server''),
      (1131, ''You are using MySQL as an anonymous user and anonymous users are not allowed to change passwords''),
      (1132, ''You must have privileges to update tables in the mysql database to be able to change passwords for others''),
      (1133, ''Can'' @ [CHR 0x27] @ ''t find any matching row in the user table''),
      (1134, ''Rows matched: %ld  Changed: %ld  Warnings: %ld''),
      (1135, ''Can'' @ [CHR 0x27] @ ''t create a new thread (errno %d); if you are not out of available memory, you can consult the manual for a possible OS-dependent bug''),
      (1136, ''Column count doesn'' @ [CHR 0x27] @ ''t match value count at row %ld''),
      (1137, ''Can'' @ [CHR 0x27] @ ''t reopen table: '' @ [CHR 0x27] @ ''%-.192s'' @ [CHR 0x27]), (1138, ''Invalid use of NULL value''),
      (1139, ''Got error '' @ [CHR 0x27] @ ''%-.64s'' @ [CHR 0x27] @ '' from regexp''),
      (1140, ''Mixing of GROUP columns (MIN(),MAX(),COUNT(),...) with no GROUP columns is illegal if there is no GROUP BY clause''),
      (1141, ''There is no such grant defined for user '' @ [CHR 0x27] @ ''%-.48s'' @ [CHR 0x27] @ '' on host '' @ [CHR 0x27] @ ''%-.64s'' @ [CHR 0x27]),
      (1142, ''%-.128s command denied to user '' @ [CHR 0x27] @ ''%-.48s'' @ [CHR 0x27] @ ''@'' @ [CHR 0x27] @ ''%-.64s'' @ [CHR 0x27] @ '' for table '' @ [CHR 0x27] @ ''%-.64s'' @ [CHR 0x27]),
      (1143, ''%-.16s command denied to user '' @ [CHR 0x27] @ ''%-.48s'' @ [CHR 0x27] @ ''@'' @ [CHR 0x27] @ ''%-.64s'' @ [CHR 0x27] @ '' for column '' @ [CHR 0x27] @ ''%-.192s'' @ [CHR 0x27] @ '' in table '' @ [CHR 0x27] @ ''%-.192s'' @ [CHR 0x27]),
      (1144, ''Illegal GRANT/REVOKE command; please consult the manual to see which privileges can be used'')]"

definition err_names_2 :: "(int \<times> string) list" where
  "err_names_2 =
     [(1145, ''The host or user argument to GRANT is too long''),
      (1146, ''Table '' @ [CHR 0x27] @ ''%-.192s.%-.192s'' @ [CHR 0x27] @ '' doesn'' @ [CHR 0x27] @ ''t exist''),
      (1147, ''There is no such grant defined for user '' @ [CHR 0x27] @ ''%-.48s'' @ [CHR 0x27] @ '' on host '' @ [CHR 0x27] @ ''%-.64s'' @ [CHR 0x27] @ '' on table '' @ [CHR 0x27] @ ''%-.192s'' @ [CHR 0x27]),
      (1148, ''The used command is not allowed with this MySQL version''),
      (1149, ''You have an error in your SQL syntax; check the manual that corresponds to your MySQL server version for the right syntax to use''),
      (1150, ''Delayed insert thread couldn'' @ [CHR 0x27] @ ''t get requested lock for table %-.192s''),
      (1151, ''Too many delayed threads in use''),
      (1152, ''Aborted connection %ld to db: '' @ [CHR 0x27] @ ''%-.192s'' @ [CHR 0x27] @ '' user: '' @ [CHR 0x27] @ ''%-.48s'' @ [CHR 0x27] @ '' (%-.64s)''),
      (1153, ''Got a packet bigger than '' @ [CHR 0x27] @ ''max_allowed_packet'' @ [CHR 0x27] @ '' bytes''),
      (1154, ''Got a read error from the connection pipe''), (1155, ''Got an error from fcntl()''), (1156, ''Got packets out of order''),
      (1157, ''Couldn'' @ [CHR 0x27] @ ''t uncompress communication packet''), (1158, ''Got an error reading communication packets''),
      (1159, ''Got timeout reading communication packets''), (1160, ''Got an error writing communication packets''),
      (1161, ''Got timeout writing communication packets''),
      (1162, ''Result string is longer than '' @ [CHR 0x27] @ ''max_allowed_packet'' @ [CHR 0x27] @ '' bytes''),
      (1163, ''The used table type doesn'' @ [CHR 0x27] @ ''t support BLOB/TEXT columns''),
      (1164, ''The used table type doesn'' @ [CHR 0x27] @ ''t support AUTO_INCREMENT columns''),
      (1165, ''INSERT DELAYED can'' @ [CHR 0x27] @ ''t be used with table '' @ [CHR 0x27] @ ''%-.192s'' @ [CHR 0x27] @ '' because it is locked with LOCK TABLES''),
      (1166, ''Incorrect column name '' @ [CHR 0x27] @ ''%-.100s'' @ [CHR 0x27]),
      (1167, ''The used storage engine can'' @ [CHR 0x27] @ ''t index column '' @ [CHR 0x27] @ ''%-.192s'' @ [CHR 0x27]),
      (1168, ''Unable to open underlying table which is differently defined or of non-MyISAM type or doesn'' @ [CHR 0x27] @ ''t exist''),
      (1169, ''Can'' @ [CHR 0x27] @ ''t write, because of unique constraint, to table '' @ [CHR 0x27] @ ''%-.192s'' @ [CHR 0x27]),
      (1170, ''BLOB/TEXT column '' @ [CHR 0x27] @ ''%-.192s'' @ [CHR 0x27] @ '' used in key specification without a key length''),
      (1171, ''All parts of a PRIMARY KEY must be NOT NULL; if you need NULL in a key, use UNIQUE instead''),
      (1172, ''Result consisted of more than one row''), (1173, ''This table type requires a primary key''),
      (1174, ''This version of MySQL is not compiled with RAID support''),
      (1175, ''You are using safe update mode and you tried to update a table without a WHERE that uses a KEY column''),
      (1176, ''Key '' @ [CHR 0x27] @ ''%-.192s'' @ [CHR 0x27] @ '' doesn'' @ [CHR 0x27] @ ''t exist in table '' @ [CHR 0x27] @ ''%-.192s'' @ [CHR 0x27]),
      (1177, ''Can'' @ [CHR 0x27] @ ''t open table''), (1178, ''The storage engine for the table doesn'' @ [CHR 0x27] @ ''t support %s''),
      (1179, ''You are not allowed to execute this command in a transaction''), (1180, ''Got error %d during COMMIT''),
      (1181, ''Got error %d during ROLLBACK''), (1182, ''Got error %d during FLUSH_LOGS''), (1183, ''Got error %d during CHECKPOINT''),
      (1184, ''Aborted connection %ld to db: '' @ [CHR 0x27] @ ''%-.192s'' @ [CHR 0x27] @ '' user: '' @ [CHR 0x27] @ ''%-.48s'' @ [CHR 0x27] @ '' host: '' @ [CHR 0x27] @ ''%-.64s'' @ [CHR 0x27] @ '' (%-.64s)''),
      (1185, ''The storage engine for the table does not support binary table dump''), (1186, ''Binlog closed, cannot RESET MASTER''),
      (1187, ''Failed rebuilding the index of  dumped table '' @ [CHR 0x27] @ ''%-.192s'' @ [CHR 0x27]),
      (1188, ''Error from master: '' @ [CHR 0x27] @ ''%-.64s'' @ [CHR 0x27]), (1189, ''Net error reading from master''),
      (1190, ''Net error writing to master''), (1191, ''Can'' @ [CHR 0x27] @ ''t find FULLTEXT index matching the column list''),
      (1192, ''Can'' @ [CHR 0x27] @ ''t execute the given command because you have active locked tables or an active transaction''),
      (1193, ''Unknown system variable '' @ [CHR 0x27] @ ''%-.64s'' @ [CHR 0x27]),
      (1194, ''Table '' @ [CHR 0x27] @ ''%-.192s'' @ [CHR 0x27] @ '' is marked as crashed and should be repaired''),
      (1195, ''Table '' @ [CHR 0x27] @ ''%-.192s'' @ [CHR 0x27] @ '' is marked as crashed and last (automatic?) repair failed''),
      (1196, ''Some non-transactional changed tables couldn'' @ [CHR 0x27] @ ''t be rolled back''),
      (1197, ''Multi-statement transaction required more than '' @ [CHR 0x27] @ ''max_binlog_cache_size'' @ [CHR 0x27] @ '' bytes of storage; increase this mysqld variable and try again''),
      (1198, ''This operation cannot be performed with a running slave; run STOP SLAVE first''),
      (1199, ''This operation requires a running slave; configure slave and do START SLAVE''),
      (1200, ''The server is not configured as slave; fix in config file or with CHANGE MASTER TO''),
      (1201, ''Could not initialize master info structure; more error messages can be found in the MySQL error log''),
      (1202, ''Could not create slave thread; check system resources''),
      (1203, ''User %-.64s already has more than '' @ [CHR 0x27] @ ''max_user_connections'' @ [CHR 0x27] @ '' active connections''),
      (1204, ''You may only use constant expressions with SET''), (1205, ''Lock wait timeout exceeded; try restarting transaction''),
      (1206, ''The total number of locks exceeds the lock table size''),
      (1207, ''Update locks cannot be acquired during a READ UNCOMMITTED transaction''),
      (1208, ''DROP DATABASE not allowed while thread is holding global read lock''),
      (1209, ''CREATE DATABASE not allowed while thread is holding global read lock''), (1210, ''Incorrect arguments to %s''),
      (1211, [CHR 0x27] @ ''%-.48s'' @ [CHR 0x27] @ ''@'' @ [CHR 0x27] @ ''%-.64s'' @ [CHR 0x27] @ '' is not allowed to create new users''),
      (1212, ''Incorrect table definition; all MERGE tables must be in the same database''),
      (1213, ''Deadlock found when trying to get lock; try restarting transaction''),
      (1214, ''The used table type doesn'' @ [CHR 0x27] @ ''t support FULLTEXT indexes''), (1215, ''Cannot add foreign key constraint''),
      (1216, ''Cannot add or update a child row: a foreign key constraint fails''),
      (1217, ''Cannot delete or update a parent row: a foreign key constraint fails''), (1218, ''Error connecting to master: %-.128s''),
      (1219, ''Error running query on master: %-.128s''), (1220, ''Error when executing command %s: %-.128s''),
      (1221, ''Incorrect usage of %s and %s''), (1222, ''The used SELECT statements have a different number of columns''),
      (1223, ''Can'' @ [CHR 0x27] @ ''t execute the query because you have a conflicting read lock''),
      (1224, ''Mixing of transactional and non-transactional tables is disabled''),
      (1225, ''Option '' @ [CHR 0x27] @ ''%s'' @ [CHR 0x27] @ '' used twice in statement''),
      (1226, ''User '' @ [CHR 0x27] @ ''%-.64s'' @ [CHR 0x27] @ '' has exceeded the '' @ [CHR 0x27] @ ''%s'' @ [CHR 0x27] @ '' resource (current value: %ld)''),
      (1227, ''Access denied; you need (at least one of) the %-.128s privilege(s) for this operation''),
      (1228, ''Variable '' @ [CHR 0x27] @ ''%-.64s'' @ [CHR 0x27] @ '' is a SESSION variable and can'' @ [CHR 0x27] @ ''t be used with SET GLOBAL''),
      (1229, ''Variable '' @ [CHR 0x27] @ ''%-.64s'' @ [CHR 0x27] @ '' is a GLOBAL variable and should be set with SET GLOBAL''),
      (1230, ''Variable '' @ [CHR 0x27] @ ''%-.64s'' @ [CHR 0x27] @ '' doesn'' @ [CHR 0x27] @ ''t have a default value''),
      (1231, ''Variable '' @ [CHR 0x27] @ ''%-.64s'' @ [CHR 0x27] @ '' can'' @ [CHR 0x27] @ ''t be set to the value of '' @ [CHR 0x27] @ ''%-.200s'' @ [CHR 0x27]),
      (1232, ''Incorrect argument type to variable '' @ [CHR 0x27] @ ''%-.64s'' @ [CHR 0x27]),
      (1233, ''Variable '' @ [CHR 0x27] @ ''%-.64s'' @ [CHR 0x27] @ '' can only be set, not read''),
      (1234, ''Incorrect usage/placement of '' @ [CHR 0x27] @ ''%s'' @ [CHR 0x27]),
      (1235, ''This version of MySQL doesn'' @ [CHR 0x27] @ ''t yet support '' @ [CHR 0x27] @ ''%s'' @ [CHR 0x27]),
      (1236, ''Got fatal error %d from master when reading data from binary log: '' @ [CHR 0x27] @ ''%-.320s'' @ [CHR 0x27]),
      (1237, ''Slave SQL thread ignored the query because of replicate-*-table rules''),
      (1238, ''Variable '' @ [CHR 0x27] @ ''%-.192s'' @ [CHR 0x27] @ '' is a %s variable''),
      (1239, ''Incorrect foreign key definition for '' @ [CHR 0x27] @ ''%-.192s'' @ [CHR 0x27] @ '': %s''),
      (1240, ''Key reference and table reference don'' @ [CHR 0x27] @ ''t match''), (1241, ''Operand should contain %d column(s)''),
      (1242, ''Subquery returns more than 1 row''), (1243, ''Unknown prepared statement handler (%.*s) given to %s''),
      (1244, ''Help database is corrupt or does not exist''), (1245, ''Cyclic reference on subqueries''),
      (1246, ''Converting column '' @ [CHR 0x27] @ ''%s'' @ [CHR 0x27] @ '' from %s to %s''),
      (1247, ''Reference '' @ [CHR 0x27] @ ''%-.64s'' @ [CHR 0x27] @ '' not supported (%s)''),
      (1248, ''Every derived table must have its own alias''), (1249, ''Select %u was reduced during optimization''),
      (1250, ''Table '' @ [CHR 0x27] @ ''%-.192s'' @ [CHR 0x27] @ '' from one of the SELECTs cannot be used in %-.32s''),
      (1251, ''Client does not support authentication protocol requested by server; consider upgrading MySQL client''),
      (1252, ''All parts of a SPATIAL index must be NOT NULL''),
      (1253, ''COLLATION '' @ [CHR 0x27] @ ''%s'' @ [CHR 0x27] @ '' is not valid for CHARACTER SET '' @ [CHR 0x27] @ ''%s'' @ [CHR 0x27]),
      (1254, ''Slave is already running''), (1255, ''Slave already has been stopped''),
      (1256, ''Uncompressed data size too large; the maximum size is %d (probably, length of uncompressed data was corrupted)''),
      (1257, ''ZLIB: Not enough memory''),
      (1258, ''ZLIB: Not enough room in the output buffer (probably, length of uncompressed data was corrupted)''),
      (1259, ''ZLIB: Input data corrupted''), (1260, ''Row %u was cut by GROUP_CONCAT()''),
      (1261, ''Row %ld doesn'' @ [CHR 0x27] @ ''t contain data for all columns''),
      (1262, ''Row %ld was truncated; it contained more data than there were input columns''),
      (1263, ''Column set to default value; NULL supplied to NOT NULL column '' @ [CHR 0x27] @ ''%s'' @ [CHR 0x27] @ '' at row %ld''),
      (1264, ''Out of range value for column '' @ [CHR 0x27] @ ''%s'' @ [CHR 0x27] @ '' at row %ld''),
      (1265, ''Data truncated for column '' @ [CHR 0x27] @ ''%s'' @ [CHR 0x27] @ '' at row %ld''),
      (1266, ''Using storage engine %s for table '' @ [CHR 0x27] @ ''%s'' @ [CHR 0x27]),
      (1267, ''Illegal mix of collations (%s,%s) and (%s,%s) for operation '' @ [CHR 0x27] @ ''%s'' @ [CHR 0x27]),
      (1268, ''Cannot drop one or more of the requested users''),
      (1269, ''Can'' @ [CHR 0x27] @ ''t revoke all privileges for one or more of the requested users''),
      (1270, ''Illegal mix of collations (%s,%s), (%s,%s), (%s,%s) for operation '' @ [CHR 0x27] @ ''%s'' @ [CHR 0x27]),
      (1271, ''Illegal mix of collations for operation '' @ [CHR 0x27] @ ''%s'' @ [CHR 0x27]),
      (1272, ''Variable '' @ [CHR 0x27] @ ''%-.64s'' @ [CHR 0x27] @ '' is not a variable component (can'' @ [CHR 0x27] @ ''t be used as XXXX.variable_name)''),
      (1273, ''Unknown collation: '' @ [CHR 0x27] @ ''%-.64s'' @ [CHR 0x27]),
      (1274, ''SSL parameters in CHANGE MASTER are ignored because this MySQL slave was compiled without SSL support; they can be used later if MySQL slave with SSL is started''),
      (1275, ''Server is running in --secure-auth mode, but '' @ [CHR 0x27] @ ''%s'' @ [CHR 0x27] @ ''@'' @ [CHR 0x27] @ ''%s'' @ [CHR 0x27] @ '' has a password in the old format; please change the password to the new format''),
      (1276, ''Field or reference '' @ [CHR 0x27] @ ''%-.192s%s%-.192s%s%-.192s'' @ [CHR 0x27] @ '' of SELECT #%d was resolved in SELECT #%d''),
      (1277, ''Incorrect parameter or combination of parameters for START SLAVE UNTIL''),
      (1278, ''It is recommended to use --skip-slave-start when doing step-by-step replication with START SLAVE UNTIL; otherwise, you will get problems if you get an unexpected slave'' @ [CHR 0x27] @ ''s mysqld restart''),
      (1279, ''SQL thread is not to be started so UNTIL options are ignored''),
      (1280, ''Incorrect index name '' @ [CHR 0x27] @ ''%-.100s'' @ [CHR 0x27]),
      (1281, ''Incorrect catalog name '' @ [CHR 0x27] @ ''%-.100s'' @ [CHR 0x27]),
      (1282, ''Query cache failed to set size %lu; new query cache size is %lu''),
      (1283, ''Column '' @ [CHR 0x27] @ ''%-.192s'' @ [CHR 0x27] @ '' cannot be part of FULLTEXT index''),
      (1284, ''Unknown key cache '' @ [CHR 0x27] @ ''%-.100s'' @ [CHR 0x27]),
      (1285, ''MySQL is started in --skip-name-resolve mode; you must restart it without this switch for this grant to work''),
      (1286, ''Unknown storage engine '' @ [CHR 0x27] @ ''%s'' @ [CHR 0x27]),
      (1287, [CHR 0x27] @ ''%s'' @ [CHR 0x27] @ '' is deprecated and will be removed in a future release. Please use %s instead''),
      (1288, ''The target table %-.100s of the %s is not updatable''),
      (1289, ''The '' @ [CHR 0x27] @ ''%s'' @ [CHR 0x27] @ '' feature is disabled; you need MySQL built with '' @ [CHR 0x27] @ ''%s'' @ [CHR 0x27] @ '' to have it working'')]"

definition err_names_3 :: "(int \<times> string) list" where
  "err_names_3 =
     [(1290, ''The MySQL server is running with the %s option so it cannot execute this statement''),
      (1291, ''Column '' @ [CHR 0x27] @ ''%-.100s'' @ [CHR 0x27] @ '' has duplicated value '' @ [CHR 0x27] @ ''%-.64s'' @ [CHR 0x27] @ '' in %s''),
      (1292, ''Truncated incorrect %-.32s value: '' @ [CHR 0x27] @ ''%-.128s'' @ [CHR 0x27]),
      (1293, ''Incorrect table definition; there can be only one TIMESTAMP column with CURRENT_TIMESTAMP in DEFAULT or ON UPDATE clause''),
      (1294, ''Invalid ON UPDATE clause for '' @ [CHR 0x27] @ ''%-.192s'' @ [CHR 0x27] @ '' column''),
      (1295, ''This command is not supported in the prepared statement protocol yet''),
      (1296, ''Got error %d '' @ [CHR 0x27] @ ''%-.100s'' @ [CHR 0x27] @ '' from %s''),
      (1297, ''Got temporary error %d '' @ [CHR 0x27] @ ''%-.100s'' @ [CHR 0x27] @ '' from %s''),
      (1298, ''Unknown or incorrect time zone: '' @ [CHR 0x27] @ ''%-.64s'' @ [CHR 0x27]),
      (1299, ''Invalid TIMESTAMP value in column '' @ [CHR 0x27] @ ''%s'' @ [CHR 0x27] @ '' at row %ld''),
      (1300, ''Invalid %s character string: '' @ [CHR 0x27] @ ''%.64s'' @ [CHR 0x27]),
      (1301, ''Result of %s() was larger than max_allowed_packet (%ld) - truncated''),
      (1302, ''Conflicting declarations: '' @ [CHR 0x27] @ ''%s%s'' @ [CHR 0x27] @ '' and '' @ [CHR 0x27] @ ''%s%s'' @ [CHR 0x27]),
      (1303, ''Can'' @ [CHR 0x27] @ ''t create a %s from within another stored routine''), (1304, ''%s %s already exists''),
      (1305, ''%s %s does not exist''), (1306, ''Failed to DROP %s %s''), (1307, ''Failed to CREATE %s %s''),
      (1308, ''%s with no matching label: %s''), (1309, ''Redefining label %s''), (1310, ''End-label %s without match''),
      (1311, ''Referring to uninitialized variable %s''),
      (1312, ''PROCEDURE %s can'' @ [CHR 0x27] @ ''t return a result set in the given context''),
      (1313, ''RETURN is only allowed in a FUNCTION''), (1314, ''%s is not allowed in stored procedures''),
      (1315, ''The update log is deprecated and replaced by the binary log; SET SQL_LOG_UPDATE has been ignored.''),
      (1316, ''The update log is deprecated and replaced by the binary log; SET SQL_LOG_UPDATE has been translated to SET SQL_LOG_BIN.''),
      (1317, ''Query execution was interrupted''), (1318, ''Incorrect number of arguments for %s %s; expected %u, got %u''),
      (1319, ''Undefined CONDITION: %s''), (1320, ''No RETURN found in FUNCTION %s''), (1321, ''FUNCTION %s ended without RETURN''),
      (1322, ''Cursor statement must be a SELECT''), (1323, ''Cursor SELECT must not have INTO''), (1324, ''Undefined CURSOR: %s''),
      (1325, ''Cursor is already open''), (1326, ''Cursor is not open''), (1327, ''Undeclared variable: %s''),
      (1328, ''Incorrect number of FETCH variables''), (1329, ''No data - zero rows fetched, selected, or processed''),
      (1330, ''Duplicate parameter: %s''), (1331, ''Duplicate variable: %s''), (1332, ''Duplicate condition: %s''),
      (1333, ''Duplicate cursor: %s''), (1334, ''Failed to ALTER %s %s''), (1335, ''Subquery value not supported''),
      (1336, ''%s is not allowed in stored function or trigger''),
      (1337, ''Variable or condition declaration after cursor or handler declaration''),
      (1338, ''Cursor declaration after handler declaration''), (1339, ''Case not found for CASE statement''),
      (1340, ''Configuration file '' @ [CHR 0x27] @ ''%-.192s'' @ [CHR 0x27] @ '' is too big''),
      (1341, ''Malformed file type header in file '' @ [CHR 0x27] @ ''%-.192s'' @ [CHR 0x27]),
      (1342, ''Unexpected end of file while parsing comment '' @ [CHR 0x27] @ ''%-.200s'' @ [CHR 0x27]),
      (1343, ''Error while parsing parameter '' @ [CHR 0x27] @ ''%-.192s'' @ [CHR 0x27] @ '' (line: '' @ [CHR 0x27] @ ''%-.192s'' @ [CHR 0x27] @ '')''),
      (1344, ''Unexpected end of file while skipping unknown parameter '' @ [CHR 0x27] @ ''%-.192s'' @ [CHR 0x27]),
      (1345, ''EXPLAIN/SHOW can not be issued; lacking privileges for underlying table''),
      (1346, ''File '' @ [CHR 0x27] @ ''%-.192s'' @ [CHR 0x27] @ '' has unknown type '' @ [CHR 0x27] @ ''%-.64s'' @ [CHR 0x27] @ '' in its header''),
      (1347, [CHR 0x27] @ ''%-.192s.%-.192s'' @ [CHR 0x27] @ '' is not %s''),
      (1348, ''Column '' @ [CHR 0x27] @ ''%-.192s'' @ [CHR 0x27] @ '' is not updatable''),
      (1349, ''View'' @ [CHR 0x27] @ ''s SELECT contains a subquery in the FROM clause''),
      (1350, ''View'' @ [CHR 0x27] @ ''s SELECT contains a '' @ [CHR 0x27] @ ''%s'' @ [CHR 0x27] @ '' clause''),
      (1351, ''View'' @ [CHR 0x27] @ ''s SELECT contains a variable or parameter''),
      (1352, ''View'' @ [CHR 0x27] @ ''s SELECT refers to a temporary table '' @ [CHR 0x27] @ ''%-.192s'' @ [CHR 0x27]),
      (1353, ''View'' @ [CHR 0x27] @ ''s SELECT and view'' @ [CHR 0x27] @ ''s field list have different column counts''),
      (1354, ''View merge algorithm can'' @ [CHR 0x27] @ ''t be used here for now (assumed undefined algorithm)''),
      (1355, ''View being updated does not have complete key of underlying table in it''),
      (1356, ''View '' @ [CHR 0x27] @ ''%-.192s.%-.192s'' @ [CHR 0x27] @ '' references invalid table(s) or column(s) or function(s) or definer/invoker of view lack rights to use them''),
      (1357, ''Can'' @ [CHR 0x27] @ ''t drop or alter a %s from within another stored routine''),
      (1358, ''GOTO is not allowed in a stored procedure handler''), (1359, ''Trigger already exists''),
      (1360, ''Trigger does not exist''),
      (1361, ''Trigger'' @ [CHR 0x27] @ ''s '' @ [CHR 0x27] @ ''%-.192s'' @ [CHR 0x27] @ '' is view or temporary table''),
      (1362, ''Updating of %s row is not allowed in %strigger''), (1363, ''There is no %s row in %s trigger''),
      (1364, ''Field '' @ [CHR 0x27] @ ''%-.192s'' @ [CHR 0x27] @ '' doesn'' @ [CHR 0x27] @ ''t have a default value''),
      (1365, ''Division by 0''),
      (1366, ''Incorrect %-.32s value: '' @ [CHR 0x27] @ ''%-.128s'' @ [CHR 0x27] @ '' for column '' @ [CHR 0x27] @ ''%.192s'' @ [CHR 0x27] @ '' at row %ld''),
      (1367, ''Illegal %s '' @ [CHR 0x27] @ ''%-.192s'' @ [CHR 0x27] @ '' value found during parsing''),
      (1368, ''CHECK OPTION on non-updatable view '' @ [CHR 0x27] @ ''%-.192s.%-.192s'' @ [CHR 0x27]),
      (1369, ''CHECK OPTION failed '' @ [CHR 0x27] @ ''%-.192s.%-.192s'' @ [CHR 0x27]),
      (1370, ''%-.16s command denied to user '' @ [CHR 0x27] @ ''%-.48s'' @ [CHR 0x27] @ ''@'' @ [CHR 0x27] @ ''%-.64s'' @ [CHR 0x27] @ '' for routine '' @ [CHR 0x27] @ ''%-.192s'' @ [CHR 0x27]),
      (1371, ''Failed purging old relay logs: %s''), (1372, ''Password hash should be a %d-digit hexadecimal number''),
      (1373, ''Target log not found in binlog index''), (1374, ''I/O error reading log index file''),
      (1375, ''Server configuration does not permit binlog purge''), (1376, ''Failed on fseek()''),
      (1377, ''Fatal error during log purge''), (1378, ''A purgeable log is in use, will not purge''),
      (1379, ''Unknown error during log purge''), (1380, ''Failed initializing relay log position: %s''),
      (1381, ''You are not using binary logging''),
      (1382, ''The '' @ [CHR 0x27] @ ''%-.64s'' @ [CHR 0x27] @ '' syntax is reserved for purposes internal to the MySQL server''),
      (1383, ''WSAStartup Failed''), (1384, ''Can'' @ [CHR 0x27] @ ''t handle procedures with different groups yet''),
      (1385, ''Select must have a group with this procedure''), (1386, ''Can'' @ [CHR 0x27] @ ''t use ORDER clause with this procedure''),
      (1387, ''Binary logging and replication forbid changing the global server %s''),
      (1388, ''Can'' @ [CHR 0x27] @ ''t map file: %-.200s, errno: %d''), (1389, ''Wrong magic in %-.64s''),
      (1390, ''Prepared statement contains too many placeholders''),
      (1391, ''Key part '' @ [CHR 0x27] @ ''%-.192s'' @ [CHR 0x27] @ '' length cannot be 0''), (1392, ''View text checksum failed''),
      (1393, ''Can not modify more than one base table through a join view '' @ [CHR 0x27] @ ''%-.192s.%-.192s'' @ [CHR 0x27]),
      (1394, ''Can not insert into join view '' @ [CHR 0x27] @ ''%-.192s.%-.192s'' @ [CHR 0x27] @ '' without fields list''),
      (1395, ''Can not delete from join view '' @ [CHR 0x27] @ ''%-.192s.%-.192s'' @ [CHR 0x27]),
      (1396, ''Operation %s failed for %.256s''), (1397, ''XAER_NOTA: Unknown XID''),
      (1398, ''XAER_INVAL: Invalid arguments (or unsupported command)''),
      (1399, ''XAER_RMFAIL: The command cannot be executed when global transaction is in the  %.64s state''),
      (1400, ''XAER_OUTSIDE: Some work is done outside global transaction''),
      (1401, ''XAER_RMERR: Fatal error occurred in the transaction branch - check your data for consistency''),
      (1402, ''XA_RBROLLBACK: Transaction branch was rolled back''),
      (1403, ''There is no such grant defined for user '' @ [CHR 0x27] @ ''%-.48s'' @ [CHR 0x27] @ '' on host '' @ [CHR 0x27] @ ''%-.64s'' @ [CHR 0x27] @ '' on routine '' @ [CHR 0x27] @ ''%-.192s'' @ [CHR 0x27]),
      (1404, ''Failed to grant EXECUTE and ALTER ROUTINE privileges''), (1405, ''Failed to revoke all privileges to dropped routine''),
      (1406, ''Data too long for column '' @ [CHR 0x27] @ ''%s'' @ [CHR 0x27] @ '' at row %ld''),
      (1407, ''Bad SQLSTATE: '' @ [CHR 0x27] @ ''%s'' @ [CHR 0x27]),
      (1408, ''%s: ready for connections.'' @ [CHR 0x0A] @ ''Version: '' @ [CHR 0x27] @ ''%s'' @ [CHR 0x27] @ ''  socket: '' @ [CHR 0x27] @ ''%s'' @ [CHR 0x27] @ ''  port: %d  %s''),
      (1409, ''Can'' @ [CHR 0x27] @ ''t load value from file with fixed size rows to variable''),
      (1410, ''You are not allowed to create a user with GRANT''),
      (1411, ''Incorrect %-.32s value: '' @ [CHR 0x27] @ ''%-.128s'' @ [CHR 0x27] @ '' for function %-.32s''),
      (1412, ''Table definition has changed, please retry transaction''), (1413, ''Duplicate handler declared in the same block''),
      (1414, ''OUT or INOUT argument %d for routine %s is not a variable or NEW pseudo-variable in BEFORE trigger''),
      (1415, ''Not allowed to return a result set from a %s''),
      (1416, ''Cannot get geometry object from data you send to the GEOMETRY field''),
      (1417, ''A routine failed and has neither NO SQL nor READS SQL DATA in its declaration and binary logging is enabled; if non-transactional tables were updated, the binary log will miss their changes''),
      (1418, ''This function has none of DETERMINISTIC, NO SQL, or READS SQL DATA in its declaration and binary logging is enabled (you *might* want to use the less safe log_bin_trust_function_creators variable)''),
      (1419, ''You do not have the SUPER privilege and binary logging is enabled (you *might* want to use the less safe log_bin_trust_function_creators variable)''),
      (1420, ''You can'' @ [CHR 0x27] @ ''t execute a prepared statement which has an open cursor associated with it. Reset the statement to re-execute it.''),
      (1421, ''The statement (%lu) has no open cursor.''),
      (1422, ''Explicit or implicit commit is not allowed in stored function or trigger.''),
      (1423, ''Field of view '' @ [CHR 0x27] @ ''%-.192s.%-.192s'' @ [CHR 0x27] @ '' underlying table doesn'' @ [CHR 0x27] @ ''t have a default value''),
      (1424, ''Recursive stored functions and triggers are not allowed.''),
      (1425, ''Too big scale %d specified for column '' @ [CHR 0x27] @ ''%-.192s'' @ [CHR 0x27] @ ''. Maximum is %lu.''),
      (1426, ''Too big precision %d specified for column '' @ [CHR 0x27] @ ''%-.192s'' @ [CHR 0x27] @ ''. Maximum is %lu.''),
      (1427, ''For float(M,D), double(M,D) or decimal(M,D), M must be >= D (column '' @ [CHR 0x27] @ ''%-.192s'' @ [CHR 0x27] @ '').''),
      (1428, ''You can'' @ [CHR 0x27] @ ''t combine write-locking of system tables with other tables or lock types''),
      (1429, ''Unable to connect to foreign data source: %.64s''),
      (1430, ''There was a problem processing the query on the foreign data source. Data source error: %-.64s''),
      (1431, ''The foreign data source you are trying to reference does not exist. Data source error:  %-.64s''),
      (1432, ''Can'' @ [CHR 0x27] @ ''t create federated table. The data source connection string '' @ [CHR 0x27] @ ''%-.64s'' @ [CHR 0x27] @ '' is not in the correct format''),
      (1433, ''The data source connection string '' @ [CHR 0x27] @ ''%-.64s'' @ [CHR 0x27] @ '' is not in the correct format''),
      (1434, ''Can'' @ [CHR 0x27] @ ''t create federated table. Foreign data src error:  %-.64s'')]"

definition err_names_4 :: "(int \<times> string) list" where
  "err_names_4 =
     [(1435, ''Trigger in wrong schema''),
      (1436, ''Thread stack overrun:  %ld bytes used of a %ld byte stack, and %ld bytes needed.  Use '' @ [CHR 0x27] @ ''mysqld --thread_stack=#'' @ [CHR 0x27] @ '' to specify a bigger stack.''),
      (1437, ''Routine body for '' @ [CHR 0x27] @ ''%-.100s'' @ [CHR 0x27] @ '' is too long''), (1438, ''Cannot drop default keycache''),
      (1439, ''Display width out of range for column '' @ [CHR 0x27] @ ''%-.192s'' @ [CHR 0x27] @ '' (max = %lu)''),
      (1440, ''XAER_DUPID: The XID already exists''), (1441, ''Datetime function: %-.32s field overflow''),
      (1442, ''Can'' @ [CHR 0x27] @ ''t update table '' @ [CHR 0x27] @ ''%-.192s'' @ [CHR 0x27] @ '' in stored function/trigger because it is already used by statement which invoked this stored function/trigger.''),
      (1443, ''The definition of table '' @ [CHR 0x27] @ ''%-.192s'' @ [CHR 0x27] @ '' prevents operation %.192s on table '' @ [CHR 0x27] @ ''%-.192s'' @ [CHR 0x27] @ ''.''),
      (1444, ''The prepared statement contains a stored routine call that refers to that same statement. It'' @ [CHR 0x27] @ ''s not allowed to execute a prepared statement in such a recursive manner''),
      (1445, ''Not allowed to set autocommit from a stored function or trigger''), (1446, ''Definer is not fully qualified''),
      (1447, ''View '' @ [CHR 0x27] @ ''%-.192s'' @ [CHR 0x27] @ ''.'' @ [CHR 0x27] @ ''%-.192s'' @ [CHR 0x27] @ '' has no definer information (old table format). Current user is used as definer. Please recreate the view!''),
      (1448, ''You need the SUPER privilege for creation view with '' @ [CHR 0x27] @ ''%-.192s'' @ [CHR 0x27] @ ''@'' @ [CHR 0x27] @ ''%-.192s'' @ [CHR 0x27] @ '' definer''),
      (1449, ''The user specified as a definer ('' @ [CHR 0x27] @ ''%-.64s'' @ [CHR 0x27] @ ''@'' @ [CHR 0x27] @ ''%-.64s'' @ [CHR 0x27] @ '') does not exist''),
      (1450, ''Changing schema from '' @ [CHR 0x27] @ ''%-.192s'' @ [CHR 0x27] @ '' to '' @ [CHR 0x27] @ ''%-.192s'' @ [CHR 0x27] @ '' is not allowed.''),
      (1451, ''Cannot delete or update a parent row: a foreign key constraint fails (%.192s)''),
      (1452, ''Cannot add or update a child row: a foreign key constraint fails (%.192s)''),
      (1453, ''Variable '' @ [CHR 0x27] @ ''%-.64s'' @ [CHR 0x27] @ '' must be quoted with `...`, or renamed''),
      (1454, ''No definer attribute for trigger '' @ [CHR 0x27] @ ''%-.192s'' @ [CHR 0x27] @ ''.'' @ [CHR 0x27] @ ''%-.192s'' @ [CHR 0x27] @ ''. The trigger will be activated under the authorization of the invoker, which may have insufficient privileges. Please recreate the trigger.''),
      (1455, [CHR 0x27] @ ''%-.192s'' @ [CHR 0x27] @ '' has an old format, you should re-create the '' @ [CHR 0x27] @ ''%s'' @ [CHR 0x27] @ '' object(s)''),
      (1456, ''Recursive limit %d (as set by the max_sp_recursion_depth variable) was exceeded for routine %.192s''),
      (1457, ''Failed to load routine %-.192s. The table mysql.proc is missing, corrupt, or contains bad data (internal code %d)''),
      (1458, ''Incorrect routine name '' @ [CHR 0x27] @ ''%-.192s'' @ [CHR 0x27]),
      (1459, ''Table upgrade required. Please do '' @ [CHR 0x22] @ ''REPAIR TABLE `%-.32s`'' @ [CHR 0x22] @ '' or dump/reload to fix it!''),
      (1460, ''AGGREGATE is not supported for stored functions''),
      (1461, ''Can'' @ [CHR 0x27] @ ''t create more than max_prepared_stmt_count statements (current value: %lu)''),
      (1462, ''`%-.192s`.`%-.192s` contains view recursion''),
      (1463, ''Non-grouping field '' @ [CHR 0x27] @ ''%-.192s'' @ [CHR 0x27] @ '' is used in %-.64s clause''),
      (1464, ''The used table type doesn'' @ [CHR 0x27] @ ''t support SPATIAL indexes''),
      (1465, ''Triggers can not be created on system tables''),
      (1466, ''Leading spaces are removed from name '' @ [CHR 0x27] @ ''%s'' @ [CHR 0x27]),
      (1467, ''Failed to read auto-increment value from storage engine''), (1468, ''user name''), (1469, ''host name''),
      (1470, ''String '' @ [CHR 0x27] @ ''%-.70s'' @ [CHR 0x27] @ '' is too long for %s (should be no longer than %d)''),
      (1471, ''The target table %-.100s of the %s is not insertable-into''),
      (1472, ''Table '' @ [CHR 0x27] @ ''%-.64s'' @ [CHR 0x27] @ '' is differently defined or of non-MyISAM type or doesn'' @ [CHR 0x27] @ ''t exist''),
      (1473, ''Too high level of nesting for select''),
      (1474, ''Name '' @ [CHR 0x27] @ ''%-.64s'' @ [CHR 0x27] @ '' has become '' @ [CHR 0x27] @ [CHR 0x27]),
      (1475, ''First character of the FIELDS TERMINATED string is ambiguous; please use non-optional and non-empty FIELDS ENCLOSED BY''),
      (1476, ''The foreign server, %s, you are trying to create already exists.''),
      (1477, ''The foreign server name you are trying to reference does not exist. Data source error:  %-.64s''),
      (1478, ''Table storage engine '' @ [CHR 0x27] @ ''%-.64s'' @ [CHR 0x27] @ '' does not support the create option '' @ [CHR 0x27] @ ''%.64s'' @ [CHR 0x27]),
      (1479, ''Syntax error: %-.64s PARTITIONING requires definition of VALUES %-.64s for each partition''),
      (1480, ''Only %-.64s PARTITIONING can use VALUES %-.64s in partition definition''),
      (1481, ''MAXVALUE can only be used in last partition definition''), (1482, ''Subpartitions can only be hash partitions and by key''),
      (1483, ''Must define subpartitions on all partitions if on one partition''),
      (1484, ''Wrong number of partitions defined, mismatch with previous setting''),
      (1485, ''Wrong number of subpartitions defined, mismatch with previous setting''),
      (1486, ''Constant, random or timezone-dependent expressions in (sub)partitioning function are not allowed''),
      (1487, ''Expression in RANGE/LIST VALUES must be constant''),
      (1488, ''Field in list of fields for partition function not found in table''),
      (1489, ''List of fields is only allowed in KEY partitions''),
      (1490, ''The partition info in the frm file is not consistent with what can be written into the frm file''),
      (1491, ''The %-.192s function returns the wrong type''), (1492, ''For %-.64s partitions each partition must be defined''),
      (1493, ''VALUES LESS THAN value must be strictly increasing for each partition''),
      (1494, ''VALUES value must be of same type as partition function''),
      (1495, ''Multiple definition of same constant in list partitioning''), (1496, ''Partitioning can not be used stand-alone in query''),
      (1497, ''The mix of handlers in the partitions is not allowed in this version of MySQL''),
      (1498, ''For the partitioned engine it is necessary to define all %-.64s''),
      (1499, ''Too many partitions (including subpartitions) were defined''),
      (1500, ''It is only possible to mix RANGE/LIST partitioning with HASH/KEY partitioning for subpartitioning''),
      (1501, ''Failed to create specific handler file''), (1502, ''A BLOB field is not allowed in partition function''),
      (1503, ''A %-.192s must include all columns in the table'' @ [CHR 0x27] @ ''s partitioning function''),
      (1504, ''Number of %-.64s = 0 is not an allowed value''),
      (1505, ''Partition management on a not partitioned table is not possible''),
      (1506, ''Foreign key clause is not yet supported in conjunction with partitioning''),
      (1507, ''Error in list of partitions to %-.64s''), (1508, ''Cannot remove all partitions, use DROP TABLE instead''),
      (1509, ''COALESCE PARTITION can only be used on HASH/KEY partitions''),
      (1510, ''REORGANIZE PARTITION can only be used to reorganize partitions not to change their numbers''),
      (1511, ''REORGANIZE PARTITION without parameters can only be used on auto-partitioned tables using HASH PARTITIONs''),
      (1512, ''%-.64s PARTITION can only be used on RANGE/LIST partitions''),
      (1513, ''Trying to Add partition(s) with wrong number of subpartitions''), (1514, ''At least one partition must be added''),
      (1515, ''At least one partition must be coalesced''), (1516, ''More partitions to reorganize than there are partitions''),
      (1517, ''Duplicate partition name %-.192s''), (1518, ''It is not allowed to shut off binlog on this command''),
      (1519, ''When reorganizing a set of partitions they must be in consecutive order''),
      (1520, ''Reorganize of range partitions cannot change total ranges except for last partition where it can extend the range''),
      (1521, ''Partition function not supported in this version for this handler''),
      (1522, ''Partition state cannot be defined from CREATE/ALTER TABLE''),
      (1523, ''The %-.64s handler only supports 32 bit integers in VALUES''),
      (1524, ''Plugin '' @ [CHR 0x27] @ ''%-.192s'' @ [CHR 0x27] @ '' is not loaded''),
      (1525, ''Incorrect %-.32s value: '' @ [CHR 0x27] @ ''%-.128s'' @ [CHR 0x27]), (1526, ''Table has no partition for value %-.64s''),
      (1527, ''It is not allowed to specify %s more than once''), (1528, ''Failed to create %s''), (1529, ''Failed to drop %s''),
      (1530, ''The handler doesn'' @ [CHR 0x27] @ ''t support autoextend of tablespaces''),
      (1531, ''A size parameter was incorrectly specified, either number or on the form 10M''),
      (1532, ''The size number was correct but we don'' @ [CHR 0x27] @ ''t allow the digit part to be more than 2 billion''),
      (1533, ''Failed to alter: %s''), (1534, ''Writing one row to the row-based binary log failed''),
      (1535, ''Table definition on master and slave does not match: %s''),
      (1536, ''Slave running with --log-slave-updates must use row-based binary logging to be able to replicate row-based binary log events''),
      (1537, ''Event '' @ [CHR 0x27] @ ''%-.192s'' @ [CHR 0x27] @ '' already exists''),
      (1538, ''Failed to store event %s. Error code %d from storage engine.''),
      (1539, ''Unknown event '' @ [CHR 0x27] @ ''%-.192s'' @ [CHR 0x27]),
      (1540, ''Failed to alter event '' @ [CHR 0x27] @ ''%-.192s'' @ [CHR 0x27]), (1541, ''Failed to drop %s''),
      (1542, ''INTERVAL is either not positive or too big''), (1543, ''ENDS is either invalid or before STARTS''),
      (1544, ''Event execution time is in the past. Event has been disabled''), (1545, ''Failed to open mysql.event''),
      (1546, ''No datetime expression provided''),
      (1547, ''Column count of mysql.%s is wrong. Expected %d, found %d. The table is probably corrupted''),
      (1548, ''Cannot load from mysql.%s. The table is probably corrupted''), (1549, ''Failed to delete the event from mysql.event''),
      (1550, ''Error during compilation of event'' @ [CHR 0x27] @ ''s body''), (1551, ''Same old and new event name''),
      (1552, ''Data for column '' @ [CHR 0x27] @ ''%s'' @ [CHR 0x27] @ '' too long''),
      (1553, ''Cannot drop index '' @ [CHR 0x27] @ ''%-.192s'' @ [CHR 0x27] @ '': needed in a foreign key constraint''),
      (1554, ''The syntax '' @ [CHR 0x27] @ ''%s'' @ [CHR 0x27] @ '' is deprecated and will be removed in MySQL %s. Please use %s instead''),
      (1555, ''You can'' @ [CHR 0x27] @ ''t write-lock a log table. Only read access is possible''),
      (1556, ''You can'' @ [CHR 0x27] @ ''t use locks with log tables.''),
      (1557, ''Upholding foreign key constraints for table '' @ [CHR 0x27] @ ''%.192s'' @ [CHR 0x27] @ '', entry '' @ [CHR 0x27] @ ''%-.192s'' @ [CHR 0x27] @ '', key %d would lead to a duplicate entry''),
      (1558, ''Column count of mysql.%s is wrong. Expected %d, found %d. Created with MySQL %d, now running %d. Please use mysql_upgrade to fix this error.''),
      (1559, ''Cannot switch out of the row-based binary log format when the session has open temporary tables''),
      (1560, ''Cannot change the binary logging format inside a stored function or trigger''),
      (1561, ''The NDB cluster engine does not support changing the binlog format on the fly yet''),
      (1562, ''Cannot create temporary table with partitions''), (1563, ''Partition constant is out of partition function domain''),
      (1564, ''This partition function is not allowed''), (1565, ''Error in DDL log''),
      (1566, ''Not allowed to use NULL value in VALUES LESS THAN''), (1567, ''Incorrect partition name''),
      (1568, ''Transaction characteristics can'' @ [CHR 0x27] @ ''t be changed while a transaction is in progress''),
      (1569, ''ALTER TABLE causes auto_increment resequencing, resulting in duplicate entry '' @ [CHR 0x27] @ ''%-.192s'' @ [CHR 0x27] @ '' for key '' @ [CHR 0x27] @ ''%-.192s'' @ [CHR 0x27]),
      (1570, ''Internal scheduler error %d''), (1571, ''Error during starting/stopping of the scheduler. Error code %u''),
      (1572, ''Engine cannot be used in partitioned tables''),
      (1573, ''Cannot activate '' @ [CHR 0x27] @ ''%-.64s'' @ [CHR 0x27] @ '' log''),
      (1574, ''The server was not built with row-based replication''), (1575, ''Decoding of base64 string failed''),
      (1576, ''Recursion of EVENT DDL statements is forbidden when body is present''),
      (1577, ''Cannot proceed because system tables used by Event Scheduler were found damaged at server start''),
      (1578, ''Only integers allowed as number here''), (1579, ''This storage engine cannot be used for log tables'' @ [CHR 0x22])]"

definition err_names_5 :: "(int \<times> string) list" where
  "err_names_5 =
     [(1580, ''You cannot '' @ [CHR 0x27] @ ''%s'' @ [CHR 0x27] @ '' a log table if logging is enabled''),
      (1581, ''Cannot rename '' @ [CHR 0x27] @ ''%s'' @ [CHR 0x27] @ ''. When logging enabled, rename to/from log table must rename two tables: the log table to an archive table and another table back to '' @ [CHR 0x27] @ ''%s'' @ [CHR 0x27]),
      (1582, ''Incorrect parameter count in the call to native function '' @ [CHR 0x27] @ ''%-.192s'' @ [CHR 0x27]),
      (1583, ''Incorrect parameters in the call to native function '' @ [CHR 0x27] @ ''%-.192s'' @ [CHR 0x27]),
      (1584, ''Incorrect parameters in the call to stored function '' @ [CHR 0x27] @ ''%-.192s'' @ [CHR 0x27]),
      (1585, ''This function '' @ [CHR 0x27] @ ''%-.192s'' @ [CHR 0x27] @ '' has the same name as a native function''),
      (1586, ''Duplicate entry '' @ [CHR 0x27] @ ''%-.64s'' @ [CHR 0x27] @ '' for key '' @ [CHR 0x27] @ ''%-.192s'' @ [CHR 0x27]),
      (1587, ''Too many files opened, please execute the command again''),
      (1588, ''Event execution time is in the past and ON COMPLETION NOT PRESERVE is set. The event was dropped immediately after creation.''),
      (1589, ''Event execution time is in the past and ON COMPLETION NOT PRESERVE is set. The event was not changed. Specify a time in the future.''),
      (1590, ''The incident %s occured on the master. Message: %-.64s''), (1591, ''Table has no partition for some existing values''),
      (1592, ''Unsafe statement written to the binary log using statement format since BINLOG_FORMAT = STATEMENT. %s''),
      (1593, ''Fatal error: %s''), (1594, ''Relay log read failure: %s''), (1595, ''Relay log write failure: %s''),
      (1596, ''Failed to create %s''), (1597, ''Master command %s failed: %s''), (1598, ''Binary logging not possible. Message: %s''),
      (1599, ''View `%-.64s`.`%-.64s` has no creation context''),
      (1600, ''Creation context of view `%-.64s`.`%-.64s'' @ [CHR 0x27] @ '' is invalid''),
      (1601, ''Creation context of stored routine `%-.64s`.`%-.64s` is invalid''),
      (1602, ''Corrupted TRG file for table `%-.64s`.`%-.64s`''),
      (1603, ''Triggers for table `%-.64s`.`%-.64s` have no creation context''),
      (1604, ''Trigger creation context of table `%-.64s`.`%-.64s` is invalid''),
      (1605, ''Creation context of event `%-.64s`.`%-.64s` is invalid''), (1606, ''Cannot open table for trigger `%-.64s`.`%-.64s`''),
      (1607, ''Cannot create stored routine `%-.64s`. Check warnings''), (1608, ''Ambiguous slave modes combination. %s''),
      (1609, ''The BINLOG statement of type `%s` was not preceded by a format description BINLOG statement.''),
      (1610, ''Corrupted replication event was detected''), (1611, ''Invalid column reference (%-.64s) in LOAD DATA''),
      (1612, ''Being purged log %s was not found''), (1613, ''XA_RBTIMEOUT: Transaction branch was rolled back: took too long''),
      (1614, ''XA_RBDEADLOCK: Transaction branch was rolled back: deadlock was detected''),
      (1615, ''Prepared statement needs to be re-prepared''),
      (1616, ''DELAYED option not supported for table '' @ [CHR 0x27] @ ''%-.192s'' @ [CHR 0x27]),
      (1617, ''The master info structure does not exist''), (1618, ''<%-.64s> option ignored''),
      (1619, ''Built-in plugins cannot be deleted''), (1620, ''Plugin is busy and will be uninstalled on shutdown''),
      (1621, ''%s variable '' @ [CHR 0x27] @ ''%s'' @ [CHR 0x27] @ '' is read-only. Use SET %s to assign the value''),
      (1622, ''Storage engine %s does not support rollback for this statement. Transaction rolled back and must be restarted''),
      (1623, ''Unexpected master'' @ [CHR 0x27] @ ''s heartbeat data: %s''),
      (1624, ''The requested value for the heartbeat period is either negative or exceeds the maximum allowed (%s seconds).''),
      (1625, ''Bad schema for mysql.ndb_replication table. Message: %-.64s''),
      (1626, ''Error in parsing conflict function. Message: %-.64s''),
      (1627, ''Write to exceptions table failed. Message: %-.128s'' @ [CHR 0x22]),
      (1628, ''Comment for table '' @ [CHR 0x27] @ ''%-.64s'' @ [CHR 0x27] @ '' is too long (max = %lu)''),
      (1629, ''Comment for field '' @ [CHR 0x27] @ ''%-.64s'' @ [CHR 0x27] @ '' is too long (max = %lu)''),
      (1630, ''FUNCTION %s does not exist. Check the '' @ [CHR 0x27] @ ''Function Name Parsing and Resolution'' @ [CHR 0x27] @ '' section in the Reference Manual''),
      (1631, ''Database''), (1632, ''Table''), (1633, ''Partition''), (1634, ''Subpartition''), (1635, ''Temporary''), (1636, ''Renamed''),
      (1637, ''Too many active concurrent transactions''), (1638, ''Non-ASCII separator arguments are not fully supported''),
      (1639, ''debug sync point wait timed out''), (1640, ''debug sync point hit limit reached''),
      (1641, ''Duplicate condition information item '' @ [CHR 0x27] @ ''%s'' @ [CHR 0x27]),
      (1642, ''Unhandled user-defined warning condition''), (1643, ''Unhandled user-defined not found condition''),
      (1644, ''Unhandled user-defined exception condition''), (1645, ''RESIGNAL when handler not active''),
      (1646, ''SIGNAL/RESIGNAL can only use a CONDITION defined with SQLSTATE''),
      (1647, ''Data truncated for condition item '' @ [CHR 0x27] @ ''%s'' @ [CHR 0x27]),
      (1648, ''Data too long for condition item '' @ [CHR 0x27] @ ''%s'' @ [CHR 0x27]),
      (1649, ''Unknown locale: '' @ [CHR 0x27] @ ''%-.64s'' @ [CHR 0x27]),
      (1650, ''The requested server id %d clashes with the slave startup option --replicate-same-server-id''),
      (1651, ''Query cache is disabled; restart the server with query_cache_type=1 to enable it''),
      (1652, ''Duplicate partition field name '' @ [CHR 0x27] @ ''%-.192s'' @ [CHR 0x27]),
      (1653, ''Inconsistency in usage of column lists for partitioning''), (1654, ''Partition column values of incorrect type''),
      (1655, ''Too many fields in '' @ [CHR 0x27] @ ''%-.192s'' @ [CHR 0x27]), (1656, ''Cannot use MAXVALUE as value in VALUES IN''),
      (1657, ''Cannot have more than one value for this type of %-.64s partitioning''),
      (1658, ''Row expressions in VALUES IN only allowed for multi-field column partitioning''),
      (1659, ''Field '' @ [CHR 0x27] @ ''%-.192s'' @ [CHR 0x27] @ '' is of a not allowed type for this type of partitioning''),
      (1660, ''The total length of the partitioning fields is too large''),
      (1661, ''Cannot execute statement: impossible to write to binary log since both row-incapable engines and statement-incapable engines are involved.''),
      (1662, ''Cannot execute statement: impossible to write to binary log since BINLOG_FORMAT = ROW and at least one table uses a storage engine limited to statement-based logging.''),
      (1663, ''Cannot execute statement: impossible to write to binary log since statement is unsafe, storage engine is limited to statement-based logging, and BINLOG_FORMAT = MIXED. %s''),
      (1664, ''Cannot execute statement: impossible to write to binary log since statement is in row format and at least one table uses a storage engine limited to statement-based logging.''),
      (1665, ''Cannot execute statement: impossible to write to binary log since BINLOG_FORMAT = STATEMENT and at least one table uses a storage engine limited to row-based logging.%s''),
      (1666, ''Cannot execute statement: impossible to write to binary log since statement is in row format and BINLOG_FORMAT = STATEMENT.''),
      (1667, ''Cannot execute statement: impossible to write to binary log since more than one engine is involved and at least one engine is self-logging.''),
      (1668, ''The statement is unsafe because it uses a LIMIT clause. This is unsafe because the set of rows included cannot be predicted.''),
      (1669, ''The statement is unsafe because it uses INSERT DELAYED. This is unsafe because the times when rows are inserted cannot be predicted.''),
      (1670, ''The statement is unsafe because it uses the general log, slow query log, or performance_schema table(s). This is unsafe because system tables may differ on slaves.''),
      (1671, ''Statement is unsafe because it invokes a trigger or a stored function that inserts into an AUTO_INCREMENT column. Inserted values cannot be logged correctly.''),
      (1672, ''Statement is unsafe because it uses a UDF which may not return the same value on the slave.''),
      (1673, ''Statement is unsafe because it uses a system variable that may have a different value on the slave.''),
      (1674, ''Statement is unsafe because it uses a system function that may return a different value on the slave.''),
      (1675, ''Statement is unsafe because it accesses a non-transactional table after accessing a transactional table within the same transaction.''),
      (1676, ''%s Statement: %s''),
      (1677, ''Column %d of table '' @ [CHR 0x27] @ ''%-.192s.%-.192s'' @ [CHR 0x27] @ '' cannot be converted from type '' @ [CHR 0x27] @ ''%-.32s'' @ [CHR 0x27] @ '' to type '' @ [CHR 0x27] @ ''%-.32s'' @ [CHR 0x27]),
      (1678, ''Can'' @ [CHR 0x27] @ ''t create conversion table for table '' @ [CHR 0x27] @ ''%-.192s.%-.192s'' @ [CHR 0x27]),
      (1679, ''Cannot modify @@session.binlog_format inside a transaction''), (1680, ''The path specified for %.64s is too long.''),
      (1681, [CHR 0x27] @ ''%s'' @ [CHR 0x27] @ '' is deprecated and will be removed in a future release.''),
      (1682, ''Native table '' @ [CHR 0x27] @ ''%-.64s'' @ [CHR 0x27] @ ''.'' @ [CHR 0x27] @ ''%-.64s'' @ [CHR 0x27] @ '' has the wrong structure''),
      (1683, ''Invalid performance_schema usage.''),
      (1684, ''Table '' @ [CHR 0x27] @ ''%s'' @ [CHR 0x27] @ ''.'' @ [CHR 0x27] @ ''%s'' @ [CHR 0x27] @ '' was skipped since its definition is being modified by concurrent DDL statement''),
      (1685, ''Cannot modify @@session.binlog_direct_non_transactional_updates inside a transaction''),
      (1686, ''Cannot change the binlog direct flag inside a stored function or trigger''),
      (1687, ''A SPATIAL index may only contain a geometrical type column''),
      (1688, ''Comment for index '' @ [CHR 0x27] @ ''%-.64s'' @ [CHR 0x27] @ '' is too long (max = %lu)''),
      (1689, ''Wait on a lock was aborted due to a pending exclusive lock''),
      (1690, ''%s value is out of range in '' @ [CHR 0x27] @ ''%s'' @ [CHR 0x27]),
      (1691, ''A variable of a non-integer based type in LIMIT clause''),
      (1692, ''Mixing self-logging and non-self-logging engines in a statement is unsafe.''),
      (1693, ''Statement accesses nontransactional table as well as transactional or temporary table, and writes to any of them.''),
      (1694, ''Cannot modify @@session.sql_log_bin inside a transaction''),
      (1695, ''Cannot change the sql_log_bin inside a stored function or trigger''), (1696, ''Failed to read from the .par file''),
      (1697, ''VALUES value for partition '' @ [CHR 0x27] @ ''%-.64s'' @ [CHR 0x27] @ '' must have type INT''),
      (1698, ''Access denied for user '' @ [CHR 0x27] @ ''%-.48s'' @ [CHR 0x27] @ ''@'' @ [CHR 0x27] @ ''%-.64s'' @ [CHR 0x27]),
      (1699, ''SET PASSWORD has no significance for users authenticating via plugins''),
      (1700, ''GRANT with IDENTIFIED WITH is illegal because the user %-.*s already exists''),
      (1701, ''Cannot truncate a table referenced in a foreign key constraint (%.192s)''),
      (1702, ''Plugin '' @ [CHR 0x27] @ ''%s'' @ [CHR 0x27] @ '' is force_plus_permanent and can not be unloaded''),
      (1703, ''The requested value for the heartbeat period is less than 1 millisecond. The value is reset to 0, meaning that heartbeating will effectively be disabled.''),
      (1704, ''The requested value for the heartbeat period exceeds the value of `slave_net_timeout'' @ [CHR 0x27] @ '' seconds. A sensible value for the period should be less than the timeout.''),
      (1705, ''Multi-row statements required more than '' @ [CHR 0x27] @ ''max_binlog_stmt_cache_size'' @ [CHR 0x27] @ '' bytes of storage; increase this mysqld variable and try again''),
      (1706, ''Primary key/partition key update is not allowed since the table is updated both as '' @ [CHR 0x27] @ ''%-.192s'' @ [CHR 0x27] @ '' and '' @ [CHR 0x27] @ ''%-.192s'' @ [CHR 0x27] @ ''.''),
      (1707, ''Table rebuild required. Please do '' @ [CHR 0x22] @ ''ALTER TABLE `%-.32s` FORCE'' @ [CHR 0x22] @ '' or dump/reload to fix it!''),
      (1708, ''The value of '' @ [CHR 0x27] @ ''%s'' @ [CHR 0x27] @ '' should be no less than the value of '' @ [CHR 0x27] @ ''%s'' @ [CHR 0x27]),
      (1709, ''Index column size too large. The maximum column size is %lu bytes.''),
      (1710, ''Trigger '' @ [CHR 0x27] @ ''%-.64s'' @ [CHR 0x27] @ '' has an error in its body: '' @ [CHR 0x27] @ ''%-.256s'' @ [CHR 0x27]),
      (1711, ''Unknown trigger has an error in its body: '' @ [CHR 0x27] @ ''%-.256s'' @ [CHR 0x27]), (1712, ''Index %s is corrupted''),
      (1713, ''Undo log record is too big.''),
      (1714, ''INSERT IGNORE... SELECT is unsafe because the order in which rows are retrieved by the SELECT determines which (if any) rows are ignored. This order cannot be predicted and may differ on master and the slave.''),
      (1715, ''INSERT... SELECT... ON DUPLICATE KEY UPDATE is unsafe because the order in which rows are retrieved by the SELECT determines which (if any) rows are updated. This order cannot be predicted and may differ on master and the slave.''),
      (1716, ''REPLACE... SELECT is unsafe because the order in which rows are retrieved by the SELECT determines which (if any) rows are replaced. This order cannot be predicted and may differ on master and the slave.''),
      (1717, ''CREATE... IGNORE SELECT is unsafe because the order in which rows are retrieved by the SELECT determines which (if any) rows are ignored. This order cannot be predicted and may differ on master and the slave.''),
      (1718, ''CREATE... REPLACE SELECT is unsafe because the order in which rows are retrieved by the SELECT determines which (if any) rows are replaced. This order cannot be predicted and may differ on master and the slave.''),
      (1719, ''UPDATE IGNORE is unsafe because the order in which rows are updated determines which (if any) rows are ignored. This order cannot be predicted and may differ on master and the slave.''),
      (1720, ''Plugin '' @ [CHR 0x27] @ ''%s'' @ [CHR 0x27] @ '' is marked as not dynamically uninstallable. You have to stop the server to uninstall it.''),
      (1721, ''Plugin '' @ [CHR 0x27] @ ''%s'' @ [CHR 0x27] @ '' is marked as not dynamically installable. You have to stop the server to install it.''),
      (1722, ''Statements writing to a table with an auto-increment column after selecting from another table are unsafe because the order in which rows are retrieved determines what (if any) rows will be written. This order cannot be predicted and may differ on master and the slave.''),
      (1723, ''CREATE TABLE... SELECT...  on a table with an auto-increment column is unsafe because the order in which rows are retrieved by the SELECT determines which (if any) rows are inserted. This order cannot be predicted and may differ on master and the slave.''),
      (1724, ''INSERT... ON DUPLICATE KEY UPDATE  on a table with more than one UNIQUE KEY is unsafe'')]"

definition err_names_6 :: "(int \<times> string) list" where
  "err_names_6 =
     [(1725, ''Table is being used in foreign key check.''),
      (1726, ''Storage engine '' @ [CHR 0x27] @ ''%s'' @ [CHR 0x27] @ '' does not support system tables. [%s.%s]''),
      (1727, ''INSERT into autoincrement field which is not the first part in the composed primary key is unsafe.''),
      (1728, ''Cannot load from %s.%s. The table is probably corrupted''),
      (1729, ''The requested value %u for the master delay exceeds the maximum %u''),
      (1730, ''Only Format_description_log_event and row events are allowed in BINLOG statements (but %s was provided)''),
      (1731, ''Non matching attribute '' @ [CHR 0x27] @ ''%-.64s'' @ [CHR 0x27] @ '' between partition and table''),
      (1732, ''Table to exchange with partition is partitioned: '' @ [CHR 0x27] @ ''%-.64s'' @ [CHR 0x27]),
      (1733, ''Table to exchange with partition is temporary: '' @ [CHR 0x27] @ ''%-.64s'' @ [CHR 0x27]),
      (1734, ''Subpartitioned table, use subpartition instead of partition''),
      (1735, ''Unknown partition '' @ [CHR 0x27] @ ''%-.64s'' @ [CHR 0x27] @ '' in table '' @ [CHR 0x27] @ ''%-.64s'' @ [CHR 0x27]),
      (1736, ''Tables have different definitions''), (1737, ''Found a row that does not match the partition''),
      (1738, ''Option binlog_cache_size (%lu) is greater than max_binlog_cache_size (%lu); setting binlog_cache_size equal to max_binlog_cache_size.''),
      (1739, ''Cannot use %-.64s access on index '' @ [CHR 0x27] @ ''%-.64s'' @ [CHR 0x27] @ '' due to type or collation conversion on field '' @ [CHR 0x27] @ ''%-.64s'' @ [CHR 0x27]),
      (1740, ''Table to exchange with partition has foreign key references: '' @ [CHR 0x27] @ ''%-.64s'' @ [CHR 0x27]),
      (1741, ''Key value '' @ [CHR 0x27] @ ''%-.192s'' @ [CHR 0x27] @ '' was not found in table '' @ [CHR 0x27] @ ''%-.192s.%-.192s'' @ [CHR 0x27]),
      (1742, ''Data for column '' @ [CHR 0x27] @ ''%s'' @ [CHR 0x27] @ '' too long''),
      (1743, ''Replication event checksum verification failed while reading from network.''),
      (1744, ''Replication event checksum verification failed while reading from a log file.''),
      (1745, ''Option binlog_stmt_cache_size (%lu) is greater than max_binlog_stmt_cache_size (%lu); setting binlog_stmt_cache_size equal to max_binlog_stmt_cache_size.''),
      (1746, ''Can'' @ [CHR 0x27] @ ''t update table '' @ [CHR 0x27] @ ''%-.192s'' @ [CHR 0x27] @ '' while '' @ [CHR 0x27] @ ''%-.192s'' @ [CHR 0x27] @ '' is being created.''),
      (1747, ''PARTITION () clause on non partitioned table''), (1748, ''Found a row not matching the given partition set''),
      (1749, ''partition '' @ [CHR 0x27] @ ''%-.64s'' @ [CHR 0x27] @ '' doesn'' @ [CHR 0x27] @ ''t exist''),
      (1750, ''Failure while changing the type of replication repository: %s.''),
      (1751, ''The creation of some temporary tables could not be rolled back.''),
      (1752, ''Some temporary tables were dropped, but these operations could not be rolled back.''),
      (1753, ''%s is not supported in multi-threaded slave mode. %s''),
      (1754, ''The number of modified databases exceeds the maximum %d; the database names will not be included in the replication event metadata.''),
      (1755, ''Cannot execute the current event group in the parallel mode. Encountered event %s, relay-log name %s, position %s which prevents execution of this event group in parallel mode. Reason: %s.''),
      (1756, ''%s''), (1757, ''FULLTEXT index is not supported for partitioned tables.''), (1758, ''Invalid condition number''),
      (1759, ''Sending passwords in plain text without SSL/TLS is extremely insecure.''),
      (1760, ''Storing MySQL user name or password information in the master.info repository is not secure and is therefore not recommended. Please see the MySQL Manual for more about this issue and possible alternatives.''),
      (1761, ''Foreign key constraint for table '' @ [CHR 0x27] @ ''%.192s'' @ [CHR 0x27] @ '', record '' @ [CHR 0x27] @ ''%-.192s'' @ [CHR 0x27] @ '' would lead to a duplicate entry in table '' @ [CHR 0x27] @ ''%.192s'' @ [CHR 0x27] @ '', key '' @ [CHR 0x27] @ ''%.192s'' @ [CHR 0x27]),
      (1762, ''Foreign key constraint for table '' @ [CHR 0x27] @ ''%.192s'' @ [CHR 0x27] @ '', record '' @ [CHR 0x27] @ ''%-.192s'' @ [CHR 0x27] @ '' would lead to a duplicate entry in a child table''),
      (1763, ''Setting authentication options is not possible when only the Slave SQL Thread is being started.''),
      (1764, ''The table does not have FULLTEXT index to support this query''),
      (1765, ''The system variable %.200s cannot be set in stored functions or triggers.''),
      (1766, ''The system variable %.200s cannot be set when there is an ongoing transaction.''),
      (1767, ''The system variable @@SESSION.GTID_NEXT has the value %.200s, which is not listed in @@SESSION.GTID_NEXT_LIST.''),
      (1768, ''When @@SESSION.GTID_NEXT_LIST == NULL, the system variable @@SESSION.GTID_NEXT cannot change inside a transaction.''),
      (1769, ''The statement '' @ [CHR 0x27] @ ''SET %.200s'' @ [CHR 0x27] @ '' cannot invoke a stored function.''),
      (1770, ''The system variable @@SESSION.GTID_NEXT cannot be '' @ [CHR 0x27] @ ''AUTOMATIC'' @ [CHR 0x27] @ '' when @@SESSION.GTID_NEXT_LIST is non-NULL.''),
      (1771, ''Skipping transaction %.200s because it has already been executed and logged.''),
      (1772, ''Malformed GTID set specification '' @ [CHR 0x27] @ ''%.200s'' @ [CHR 0x27] @ ''.''),
      (1773, ''Malformed GTID set encoding.''), (1774, ''Malformed GTID specification '' @ [CHR 0x27] @ ''%.200s'' @ [CHR 0x27] @ ''.''),
      (1775, ''Impossible to generate Global Transaction Identifier: the integer component reached the maximal value. Restart the server with a new server_uuid.''),
      (1776, ''Parameters MASTER_LOG_FILE, MASTER_LOG_POS, RELAY_LOG_FILE and RELAY_LOG_POS cannot be set when MASTER_AUTO_POSITION is active.''),
      (1777, ''CHANGE MASTER TO MASTER_AUTO_POSITION = 1 can only be executed when @@GLOBAL.GTID_MODE = ON.''),
      (1778, ''Cannot execute statements with implicit commit inside a transaction when @@SESSION.GTID_NEXT != AUTOMATIC or @@SESSION.GTID_NEXT_LIST != NULL.''),
      (1779, ''@@GLOBAL.GTID_MODE = ON or UPGRADE_STEP_2 requires @@GLOBAL.ENFORCE_GTID_CONSISTENCY = 1.''),
      (1780, ''@@GLOBAL.GTID_MODE = ON or UPGRADE_STEP_1 or UPGRADE_STEP_2 requires --log-bin and --log-slave-updates.''),
      (1781, ''@@SESSION.GTID_NEXT cannot be set to UUID:NUMBER when @@GLOBAL.GTID_MODE = OFF.''),
      (1782, ''@@SESSION.GTID_NEXT cannot be set to ANONYMOUS when @@GLOBAL.GTID_MODE = ON.''),
      (1783, ''@@SESSION.GTID_NEXT_LIST cannot be set to a non-NULL value when @@GLOBAL.GTID_MODE = OFF.''),
      (1784, ''Found a Gtid_log_event or Previous_gtids_log_event when @@GLOBAL.GTID_MODE = OFF.''),
      (1785, ''When @@GLOBAL.ENFORCE_GTID_CONSISTENCY = 1, updates to non-transactional tables can only be done in either autocommitted statements or single-statement transactions, and never in the same statement as updates to transactional tables.''),
      (1786, ''CREATE TABLE ... SELECT is forbidden when @@GLOBAL.ENFORCE_GTID_CONSISTENCY = 1.''),
      (1787, ''When @@GLOBAL.ENFORCE_GTID_CONSISTENCY = 1, the statements CREATE TEMPORARY TABLE and DROP TEMPORARY TABLE can be executed in a non-transactional context only, and require that AUTOCOMMIT = 1.''),
      (1788, ''The value of @@GLOBAL.GTID_MODE can only change one step at a time: OFF <-> UPGRADE_STEP_1 <-> UPGRADE_STEP_2 <-> ON. Also note that this value must be stepped up or down simultaneously on all servers; see the Manual for instructions.''),
      (1789, ''The slave is connecting using CHANGE MASTER TO MASTER_AUTO_POSITION = 1, but the master has purged binary logs containing GTIDs that the slave requires.''),
      (1790, ''@@SESSION.GTID_NEXT cannot be changed by a client that owns a GTID. The client owns %s. Ownership is released on COMMIT or ROLLBACK.''),
      (1791, ''Unknown EXPLAIN format name: '' @ [CHR 0x27] @ ''%s'' @ [CHR 0x27]),
      (1792, ''Cannot execute statement in a READ ONLY transaction.''),
      (1793, ''Comment for table partition '' @ [CHR 0x27] @ ''%-.64s'' @ [CHR 0x27] @ '' is too long (max = %lu)''),
      (1794, ''Slave is not configured or failed to initialize properly. You must at least set --server-id to enable either a master or a slave. Additional error messages can be found in the MySQL error log.''),
      (1795, ''InnoDB presently supports one FULLTEXT index creation at a time''),
      (1796, ''Cannot create FULLTEXT index on temporary InnoDB table''),
      (1797, ''Column '' @ [CHR 0x27] @ ''%-.192s'' @ [CHR 0x27] @ '' is of wrong type for an InnoDB FULLTEXT index''),
      (1798, ''Index '' @ [CHR 0x27] @ ''%-.192s'' @ [CHR 0x27] @ '' is of wrong type for an InnoDB FULLTEXT index''),
      (1799, ''Creating index '' @ [CHR 0x27] @ ''%-.192s'' @ [CHR 0x27] @ '' required more than '' @ [CHR 0x27] @ ''innodb_online_alter_log_max_size'' @ [CHR 0x27] @ '' bytes of modification log. Please try again.''),
      (1800, ''Unknown ALGORITHM '' @ [CHR 0x27] @ ''%s'' @ [CHR 0x27]), (1801, ''Unknown LOCK type '' @ [CHR 0x27] @ ''%s'' @ [CHR 0x27]),
      (1802, ''CHANGE MASTER cannot be executed when the slave was stopped with an error or killed in MTS mode. Consider using RESET SLAVE or START SLAVE UNTIL.''),
      (1803, ''Cannot recover after SLAVE errored out in parallel execution mode. Additional error messages can be found in the MySQL error log.''),
      (1804, ''Cannot clean up worker info tables. Additional error messages can be found in the MySQL error log.''),
      (1805, ''Column count of %s.%s is wrong. Expected %d, found %d. The table is probably corrupted''),
      (1806, ''Slave must silently retry current transaction''),
      (1807, ''There is a foreign key check running on table '' @ [CHR 0x27] @ ''%-.192s'' @ [CHR 0x27] @ ''. Cannot discard the table.''),
      (1808, ''Schema mismatch (%s)''), (1809, ''Table '' @ [CHR 0x27] @ ''%-.192s'' @ [CHR 0x27] @ '' in system tablespace''),
      (1810, ''IO Read error: (%lu, %s) %s''), (1811, ''IO Write error: (%lu, %s) %s''),
      (1812, ''Tablespace is missing for table '' @ [CHR 0x27] @ ''%-.192s'' @ [CHR 0x27]),
      (1813, ''Tablespace for table '' @ [CHR 0x27] @ ''%-.192s'' @ [CHR 0x27] @ '' exists. Please DISCARD the tablespace before IMPORT.''),
      (1814, ''Tablespace has been discarded for table '' @ [CHR 0x27] @ ''%-.192s'' @ [CHR 0x27]), (1815, ''Internal error: %s''),
      (1816, ''ALTER TABLE '' @ [CHR 0x27] @ ''%-.192s'' @ [CHR 0x27] @ '' IMPORT TABLESPACE failed with error %lu : '' @ [CHR 0x27] @ ''%s'' @ [CHR 0x27]),
      (1817, ''Index corrupt: %s''), (1818, ''YEAR(%lu) column type is deprecated. Creating YEAR(4) column instead.''),
      (1819, ''Your password does not satisfy the current policy requirements''),
      (1820, ''You must SET PASSWORD before executing this statement''),
      (1821, ''Failed to add the foreign key constaint. Missing index for constraint '' @ [CHR 0x27] @ ''%s'' @ [CHR 0x27] @ '' in the foreign table '' @ [CHR 0x27] @ ''%s'' @ [CHR 0x27]),
      (1822, ''Failed to add the foreign key constaint. Missing index for constraint '' @ [CHR 0x27] @ ''%s'' @ [CHR 0x27] @ '' in the referenced table '' @ [CHR 0x27] @ ''%s'' @ [CHR 0x27]),
      (1823, ''Failed to add the foreign key constraint '' @ [CHR 0x27] @ ''%s'' @ [CHR 0x27] @ '' to system tables''),
      (1824, ''Failed to open the referenced table '' @ [CHR 0x27] @ ''%s'' @ [CHR 0x27]),
      (1825, ''Failed to add the foreign key constraint on table '' @ [CHR 0x27] @ ''%s'' @ [CHR 0x27] @ ''. Incorrect options in FOREIGN KEY constraint '' @ [CHR 0x27] @ ''%s'' @ [CHR 0x27]),
      (1826, ''Duplicate foreign key constraint name '' @ [CHR 0x27] @ ''%s'' @ [CHR 0x27]),
      (1827, ''The password hash doesn'' @ [CHR 0x27] @ ''t have the expected format. Check if the correct password algorithm is being used with the PASSWORD() function.''),
      (1828, ''Cannot drop column '' @ [CHR 0x27] @ ''%-.192s'' @ [CHR 0x27] @ '': needed in a foreign key constraint '' @ [CHR 0x27] @ ''%-.192s'' @ [CHR 0x27]),
      (1829, ''Cannot drop column '' @ [CHR 0x27] @ ''%-.192s'' @ [CHR 0x27] @ '': needed in a foreign key constraint '' @ [CHR 0x27] @ ''%-.192s'' @ [CHR 0x27] @ '' of table '' @ [CHR 0x27] @ ''%-.192s'' @ [CHR 0x27]),
      (1830, ''Column '' @ [CHR 0x27] @ ''%-.192s'' @ [CHR 0x27] @ '' cannot be NOT NULL: needed in a foreign key constraint '' @ [CHR 0x27] @ ''%-.192s'' @ [CHR 0x27] @ '' SET NULL''),
      (1831, ''Duplicate index '' @ [CHR 0x27] @ ''%-.64s'' @ [CHR 0x27] @ '' defined on the table '' @ [CHR 0x27] @ ''%-.64s.%-.64s'' @ [CHR 0x27] @ ''. This is deprecated and will be disallowed in a future release.''),
      (1832, ''Cannot change column '' @ [CHR 0x27] @ ''%-.192s'' @ [CHR 0x27] @ '': used in a foreign key constraint '' @ [CHR 0x27] @ ''%-.192s'' @ [CHR 0x27]),
      (1833, ''Cannot change column '' @ [CHR 0x27] @ ''%-.192s'' @ [CHR 0x27] @ '': used in a foreign key constraint '' @ [CHR 0x27] @ ''%-.192s'' @ [CHR 0x27] @ '' of table '' @ [CHR 0x27] @ ''%-.192s'' @ [CHR 0x27]),
      (1834, ''Cannot delete rows from table which is parent in a foreign key constraint '' @ [CHR 0x27] @ ''%-.192s'' @ [CHR 0x27] @ '' of table '' @ [CHR 0x27] @ ''%-.192s'' @ [CHR 0x27]),
      (1835, ''Malformed communication packet.''), (1836, ''Running in read-only mode''),
      (1837, ''When @@SESSION.GTID_NEXT is set to a GTID, you must explicitly set it again after a COMMIT or ROLLBACK. If you see this error message in the slave SQL thread, it means that a table in the current transaction is transactional on the master and non-transactional on the slave. In a client connection, it means that you executed SET @@SESSION.GTID_NEXT before a transaction and forgot to set @@SESSION.GTID_NEXT to a different identifier or to '' @ [CHR 0x27] @ ''AUTOMATIC'' @ [CHR 0x27] @ '' after COMMIT or ROLLBACK. Current @@SESSION.GTID_NEXT is '' @ [CHR 0x27] @ ''%s'' @ [CHR 0x27] @ ''.''),
      (1838, ''The system variable %.200s cannot be set in stored procedures.''),
      (1839, ''@@GLOBAL.GTID_PURGED can only be set when @@GLOBAL.GTID_MODE = ON.''),
      (1840, ''@@GLOBAL.GTID_PURGED can only be set when @@GLOBAL.GTID_EXECUTED is empty.''),
      (1841, ''@@GLOBAL.GTID_PURGED can only be set when there are no ongoing transactions (not even in other clients).''),
      (1842, ''@@GLOBAL.GTID_PURGED was changed from '' @ [CHR 0x27] @ ''%s'' @ [CHR 0x27] @ '' to '' @ [CHR 0x27] @ ''%s'' @ [CHR 0x27] @ ''.''),
      (1843, ''@@GLOBAL.GTID_EXECUTED was changed from '' @ [CHR 0x27] @ ''%s'' @ [CHR 0x27] @ '' to '' @ [CHR 0x27] @ ''%s'' @ [CHR 0x27] @ ''.''),
      (1844, ''Cannot execute statement: impossible to write to binary log since BINLOG_FORMAT = STATEMENT, and both replicated and non replicated tables are written to.''),
      (1845, ''%s is not supported for this operation. Try %s.''), (1846, ''%s is not supported. Reason: %s. Try %s.''),
      (1847, ''COPY algorithm requires a lock''), (1848, ''Partition specific operations do not yet support LOCK/ALGORITHM''),
      (1849, ''Columns participating in a foreign key are renamed''), (1850, ''Cannot change column type INPLACE''),
      (1851, ''Adding foreign keys needs foreign_key_checks=OFF''),
      (1852, ''Creating unique indexes with IGNORE requires COPY algorithm to remove duplicate rows''),
      (1853, ''Dropping a primary key is not allowed without also adding a new primary key''),
      (1854, ''Adding an auto-increment column requires a lock''), (1855, ''Cannot replace hidden FTS_DOC_ID with a user-visible one''),
      (1856, ''Cannot drop or rename FTS_DOC_ID''), (1857, ''Fulltext index creation requires a lock''),
      (1858, ''sql_slave_skip_counter can not be set when the server is running with @@GLOBAL.GTID_MODE = ON. Instead, for each transaction that you want to skip, generate an empty transaction with the same GTID as the transaction''),
      (1859, ''Duplicate entry for key '' @ [CHR 0x27] @ ''%-.192s'' @ [CHR 0x27]),
      (1860, ''Long database name and identifier for object resulted in path length exceeding %d characters. Path: '' @ [CHR 0x27] @ ''%s'' @ [CHR 0x27] @ ''.''),
      (1861, ''cannot silently convert NULL values, as required in this SQL_MODE''),
      (1862, ''Your password has expired. To log in you must change it using a client that supports expired passwords.''),
      (1863, ''Found a row in wrong partition %s'')]"

definition MySQLErrName :: "(int \<times> string) list" where
  "MySQLErrName = err_names_1 @ err_names_2 @ err_names_3 @ err_names_4 @ err_names_5 @ err_names_6"

section \<open>Errors\<close>

definition NewDefaultError :: "int \<Rightarrow> fmt_arg list \<Rightarrow> goerr" where
  "NewDefaultError errCode args =
     SqlError errCode (case map_of MySQLState errCode of Some s \<Rightarrow> s | None \<Rightarrow> DEFAULT_MYSQL_STATE)
       (case map_of MySQLErrName errCode of Some format \<Rightarrow> Sprintf format args | None \<Rightarrow> Sprint args)"

section \<open>The tables fit together\<close>

text \<open>The codes are the numbers from 1000 to 1863, and each of them has exactly one message.\<close>

lemma err_names_1_codes: "map fst err_names_1 = [1000..1144]"
  unfolding err_names_1_def list.map fst_conv by simp

lemma err_names_2_codes: "map fst err_names_2 = [1145..1289]"
  unfolding err_names_2_def list.map fst_conv by simp

lemma err_names_3_codes: "map fst err_names_3 = [1290..1434]"
  unfolding err_names_3_def list.map fst_conv by simp

lemma err_names_4_codes: "map fst err_names_4 = [1435..1579]"
  unfolding err_names_4_def list.map fst_conv by simp

lemma err_names_5_codes: "map fst err_names_5 = [1580..1724]"
  unfolding err_names_5_def list.map fst_conv by simp

lemma err_names_6_codes: "map fst err_names_6 = [1725..1863]"
  unfolding err_names_6_def list.map fst_conv by simp

lemmas err_names_codes = err_names_1_codes err_names_2_codes err_names_3_codes err_names_4_codes err_names_5_codes err_names_6_codes

lemma upto_join: "i \<le> j \<Longrightarrow> j \<le> k \<Longrightarrow> m = j + 1 \<Longrightarrow> [i..j] @ [m..k] = [i..k]"
  using upto_split2 [of i j k] by simp

lemma messages_of_codes: "map fst MySQLErrName = [1000..1863]"
proof -
  have "[1725..1863 :: int] = [1725..1863]" ..
  moreover have "[1580..1724] @ [1725..1863] = [1580..1863 :: int]" "[1435..1579] @ [1580..1863] = [1435..1863 :: int]"
    "[1290..1434] @ [1435..1863] = [1290..1863 :: int]" "[1145..1289] @ [1290..1863] = [1145..1863 :: int]"
    "[1000..1144] @ [1145..1863] = [1000..1863 :: int]"
    by (rule upto_join; simp)+
  ultimately show ?thesis unfolding MySQLErrName_def map_append err_names_codes by (simp only:)
qed

lemma err_codes_1_numbers: "map snd err_codes_1 = 1000 # [1000..1143]"
  unfolding err_codes_1_def list.map snd_conv by simp

lemma err_codes_2_numbers: "map snd err_codes_2 = [1144..1288]"
  unfolding err_codes_2_def list.map snd_conv by simp

lemma err_codes_3_numbers: "map snd err_codes_3 = [1289..1433]"
  unfolding err_codes_3_def list.map snd_conv by simp

lemma err_codes_4_numbers: "map snd err_codes_4 = [1434..1578]"
  unfolding err_codes_4_def list.map snd_conv by simp

lemma err_codes_5_numbers: "map snd err_codes_5 = [1579..1723]"
  unfolding err_codes_5_def list.map snd_conv by simp

lemma err_codes_6_numbers: "map snd err_codes_6 = [1724..1863] @ [1863]"
  unfolding err_codes_6_def list.map snd_conv by simp

lemmas err_codes_numbers = err_codes_1_numbers err_codes_2_numbers err_codes_3_numbers err_codes_4_numbers err_codes_5_numbers err_codes_6_numbers

lemma numbers_of_codes: "set (map snd err_codes) = {1000..1863}"
proof -
  have "set (map snd err_codes) = {1000} \<union> {1000..1143} \<union> {1144..1288} \<union> {1289..1433} \<union> {1434..1578} \<union> {1579..1723} \<union> {1724..1863} \<union> {1863}"
    unfolding err_codes_def map_append err_codes_numbers set_append list.set set_upto by auto
  also have "\<dots> = {1000..1863}" by auto
  finally show ?thesis .
qed

text \<open>Every named code has a message, and every message belongs to a named code.\<close>

lemma codes_have_messages: "map_of MySQLErrName c \<noteq> None \<longleftrightarrow> c \<in> set (map snd err_codes)"
proof -
  have "map_of MySQLErrName c \<noteq> None \<longleftrightarrow> c \<in> set (map fst MySQLErrName)" by (simp add: map_of_eq_None_iff)
  then show ?thesis by (simp only: messages_of_codes numbers_of_codes set_upto)
qed

lemma message_of_code: "map_of MySQLErrName c = Some m" if "(c, m) \<in> set err_names_1 \<or> (c, m) \<in> set err_names_2"
proof (rule map_of_is_SomeI)
  show "distinct (map fst MySQLErrName)" by (simp only: messages_of_codes distinct_upto)
  show "(c, m) \<in> set MySQLErrName" using that by (auto simp only: MySQLErrName_def set_append)
qed

text \<open>The errors that the sessions return are these formats with their arguments.\<close>

lemma format_access_denied:
  "map_of MySQLErrName 1045 =
     Some (''Access denied for user '' @ [CHR 0x27] @ ''%-.48s'' @ [CHR 0x27] @ ''@'' @ [CHR 0x27] @ ''%-.64s'' @ [CHR 0x27] @ '' (using password: %s)'')"
  by (rule message_of_code, rule disjI1, unfold err_names_1_def) (rule list.set_intros(1) | rule list.set_intros(2))+

lemma format_no_db: "map_of MySQLErrName 1046 = Some ''No database selected''"
  by (rule message_of_code, rule disjI1, unfold err_names_1_def) (rule list.set_intros(1) | rule list.set_intros(2))+

lemma format_wrong_arguments: "map_of MySQLErrName 1210 = Some ''Incorrect arguments to %s''"
  by (rule message_of_code, rule disjI2, unfold err_names_2_def) (rule list.set_intros(1) | rule list.set_intros(2))+

lemma format_unknown_stmt: "map_of MySQLErrName 1243 = Some ''Unknown prepared statement handler (%.*s) given to %s''"
  by (rule message_of_code, rule disjI2, unfold err_names_2_def) (rule list.set_intros(1) | rule list.set_intros(2))+

lemma NewDefaultError_message:
  "map_of MySQLErrName c = Some m \<Longrightarrow> NewDefaultError c args = NewError c (Sprintf m args)"
  by (simp add: NewDefaultError_def NewError_def)

lemma no_db_error_default: "no_db_error = NewDefaultError ER_NO_DB_ERROR []"
  by (simp add: NewDefaultError_message [OF format_no_db] no_db_error_def extra_args_def)

lemma wrong_arguments_default: "wrong_arguments cmd = NewDefaultError ER_WRONG_ARGUMENTS [FStr cmd]"
  by (simp add: NewDefaultError_message [OF format_wrong_arguments] wrong_arguments_def Sprintf_verb extra_args_def)

lemmas sprintf_simps = Sprintf.simps(2) precision_def is_flag_def is_digit_def digits_value_def digit_val_def first_rune_ascii rune_len_ascii extra_args_def

lemma unknown_stmt_default: "unknown_stmt cmd = NewDefaultError ER_UNKNOWN_STMT_HANDLER [FStr sid, FStr cmd]"
  by (simp add: NewDefaultError_message [OF format_unknown_stmt] unknown_stmt_def sprintf_simps)

lemma access_denied_default: "access_denied user host = NewDefaultError ER_ACCESS_DENIED_ERROR [FStr user, FStr host, FStr ''Yes'']"
  by (simp add: NewDefaultError_message [OF format_access_denied] access_denied_def sprintf_simps)

text \<open>Formats with verbs of C, such as the one of an unknown thread, are not formats of Go: the number is not shown as meant.\<close>

lemma format_no_such_thread: "map_of MySQLErrName 1094 = Some ''Unknown thread id: %lu''"
  by (rule message_of_code, rule disjI1, unfold err_names_1_def) (rule list.set_intros(1) | rule list.set_intros(2))+

lemma c_verb_garbled: "NewDefaultError 1094 [FInt i] = NewError 1094 (''Unknown thread id: %!l(int='' @ int_str i @ '')u'')"
  by (simp add: NewDefaultError_message [OF format_no_such_thread] Sprintf_verb extra_args_def)

end
