(* ===== verification/Dispatch.thy ===== *)
theory Dispatch
  imports Admin
begin

text \<open>
  The life of a session (src/proxy/server/conn.go, server.go): a client connects, is admitted by its address and its password, and
  sends commands until it quits or the connection breaks. \<open>handleQuery\<close> is in conn_query.go.
\<close>

section \<open>Commands\<close>

definition not_supported :: "statement \<Rightarrow> goerr" where
  "not_supported stmt = Errorf (''statement '' @ statement_type stmt @ '' not support now'')"

definition run_statement :: "'f world \<Rightarrow> statement \<Rightarrow> unit sess" where
  "run_statement w stmt =
     (case stmt of
        SelectStmt sel \<Rightarrow> handleSelect w sel []
      | InsertStmt _ \<Rightarrow> handleExec w stmt []
      | UpdateStmt _ \<Rightarrow> handleExec w stmt []
      | DeleteStmt _ \<Rightarrow> handleExec w stmt []
      | ReplaceStmt _ \<Rightarrow> handleExec w stmt []
      | TruncateStmt _ \<Rightarrow> handleExec w stmt []
      | SetStmt st \<Rightarrow> handleSet w st
      | BeginStmt \<Rightarrow> handleBegin w
      | CommitStmt \<Rightarrow> handleCommit w
      | RollbackStmt \<Rightarrow> handleRollback w
      | AdminStmt a \<Rightarrow> sbind (sget cl_user) (\<lambda>u. if u = ''root'' then handleAdmin w a else sfail (not_supported stmt))
      | AdminHelpStmt \<Rightarrow> sbind (sget cl_user) (\<lambda>u. if u = ''root'' then handleAdminHelp w else sfail (not_supported stmt))
      | UseDBStmt db \<Rightarrow> handleUseDB w db
      | SimpleSelectStmt _ _ es \<Rightarrow> handleSimpleSelect w es
      | _ \<Rightarrow> sfail (not_supported stmt))"

definition handleQuery :: "'f world \<Rightarrow> string \<Rightarrow> unit sess" where
  "handleQuery w sql0 =
     srecover ErrInternalServer
       (let sql = trim_right (CHR '';'') sql0 in
        sbind (preHandleShard w sql) (\<lambda>handled.
          if handled then sret () else sbind (slift (sql_Parse sql)) (run_statement w)))"

definition client_Close :: "unit sess" where
  "client_Close = supd (\<lambda>s. s\<lparr>cl_closed := True\<rparr>)"

definition count :: "(counter \<Rightarrow> counter) \<Rightarrow> unit sess" where
  "count f = supd (\<lambda>s. s\<lparr>se_proxy := (se_proxy s)\<lparr>sv_counter := f (sv_counter (se_proxy s))\<rparr>\<rparr>)"

text \<open>The error of \<open>handleRollback\<close> at the end of a session is dropped.\<close>

definition dispatch :: "'f world \<Rightarrow> string \<Rightarrow> unit sess" where
  "dispatch w packet =
     sbind (count IncrClientQPS) (\<lambda>_.
     sbind (slift (at_index packet 0)) (\<lambda>c.
       let data = tl packet; cmd = byte_of c in
       if cmd = 1 then stry (handleRollback w) (\<lambda>_. client_Close)
       else if cmd = 3 then handleQuery w data
       else if cmd = 14 then sact (writeOK None)
       else if cmd = 2 then handleUseDB w data
       else if cmd = 4 then handleFieldList w data
       else if cmd = 22 then handleStmtPrepare w data
       else if cmd = 23 then handleStmtExecute w data
       else if cmd = 25 then handleStmtClose data
       else if cmd = 24 then handleStmtSendLongData data
       else if cmd = 26 then handleStmtReset data
       else if cmd = 27 then sact (writeEOF 0)
       else sfail (NewError ER_UNKNOWN_ERROR (''command '' @ int_str (int cmd) @ '' not supported now''))))"

section \<open>The loop of a session\<close>

definition reloadConfig :: "unit sess" where
  "reloadConfig =
     sbind (supd (\<lambda>s. s\<lparr>se_schema := GetSchema (se_proxy s) (cl_user s)\<rparr>)) (\<lambda>_.
     sbind (sget id) (\<lambda>s.
       if se_schema s = None then sfail (Errorf (''schema of user ['' @ cl_user s @ ''] is null or user is deleted''))
       else sret ()))"

text \<open>An error that is only logged.\<close>

definition ignore :: "unit sess \<Rightarrow> unit sess" where
  "ignore m = stry m (\<lambda>_. sret ())"

definition reload_if_changed :: "'f world \<Rightarrow> bool sess" where
  "reload_if_changed w =
     sbind (sget id) (\<lambda>s.
       if se_configVer s = sv_configVer (se_proxy s) then sret True
       else
         stry reloadConfig (\<lambda>r.
           case r of
             Inl e \<Rightarrow> sbind (ignore (sact (writeError (w_lib w) e))) (\<lambda>_. sret False)
           | Inr _ \<Rightarrow> sbind (supd (\<lambda>s. s\<lparr>se_configVer := sv_configVer (se_proxy s)\<rparr>)) (\<lambda>_. sret True)))"

text \<open>One turn of the loop; the result says whether the loop goes on.\<close>

definition run_once :: "'f world \<Rightarrow> bool sess" where
  "run_once w =
     stry (sact client_readPacket) (\<lambda>r.
       case r of
         Inl e \<Rightarrow> sret False
       | Inr data \<Rightarrow>
           sbind (reload_if_changed w) (\<lambda>ok.
             if \<not> ok then sret False
             else
               stry (dispatch w data) (\<lambda>r.
               sbind (case r of
                        Inr _ \<Rightarrow> sret ()
                      | Inl e \<Rightarrow>
                          sbind (count IncrErrLogTotal) (\<lambda>_.
                          sbind (ignore (sact (writeError (w_lib w) e))) (\<lambda>_.
                            if e = ErrBadConn then client_Close else sret ()))) (\<lambda>_.
               sbind (sget cl_closed) (\<lambda>closed.
                 if closed then sret False
                 else sbind (supd (\<lambda>s. s\<lparr>cl_pkg := (cl_pkg s)\<lparr>Sequence := 0\<rparr>\<rparr>)) (\<lambda>_. sret True))))))"

definition goes_on :: "(session, bool) outcome \<Rightarrow> session option" where
  "goes_on x = (case x of Done (Inr b) t \<Rightarrow> if b then Some t else None | _ \<Rightarrow> None)"

partial_function (option) run_loop :: "'f world \<Rightarrow> session \<Rightarrow> (session, bool) outcome option" where
  "run_loop w s = (case goes_on (run_once w s) of Some t \<Rightarrow> run_loop w t | None \<Rightarrow> Some (run_once w s))"

text \<open>The deferred calls of \<open>Run\<close>: the connections of a transaction are given back, the client is closed and a panic is logged.\<close>

fun give_back_all :: "'f world \<Rightarrow> (nat \<times> nat) list \<Rightarrow> unit sess" where
  "give_back_all w [] = sret ()"
| "give_back_all w ((n, h) # cs) = sbind (give_back w (Some h)) (\<lambda>_. give_back_all w cs)"

definition clean :: "'f world \<Rightarrow> unit sess" where
  "clean w = sbind (sget se_txConns) (\<lambda>tx. give_back_all w (w_txConns w tx))"

definition Run :: "'f world \<Rightarrow> session \<Rightarrow> (session, unit) outcome option" where
  "Run w s =
     map_option (\<lambda>x. case x of
         Done r t \<Rightarrow> (case clean w t of Done _ u \<Rightarrow> Done (Inr ()) (u\<lparr>cl_closed := True\<rparr>) | Waits \<Rightarrow> Waits | Crashes p \<Rightarrow> Crashes p)
       | Waits \<Rightarrow> Waits
       | Crashes p \<Rightarrow> Crashes p) (run_loop w s)"

section \<open>Admission\<close>

definition newClientConn :: "server \<Rightarrow> string \<Rightarrow> string \<Rightarrow> writer \<Rightarrow> string \<Rightarrow> int \<Rightarrow> session" where
  "newClientConn sv remote input wr salt connId =
     \<lparr>cl_pkg = \<lparr>rb = input, wb = [], Sequence = 0\<rparr>, cl_wr = wr, cl_remote = remote, cl_capability = 0, cl_connectionId = connId,
      cl_status = SERVER_STATUS_AUTOCOMMIT, cl_collation = sv_collation sv, cl_charset = sv_charset sv, cl_user = [], cl_db = [],
      cl_salt = salt, cl_closed = False, cl_lastInsertId = 0, cl_affectedRows = 0, se_proxy = sv, se_schema = None,
      se_txConns = [], se_conns = [], se_stmtId = 0, se_stmts = [], se_configVer = sv_configVer sv, se_tick = 0\<rparr>"

definition IsAllowConnect :: "session \<Rightarrow> bool" where
  "IsAllowConnect c =
     (let ip = (case ParseIP (SplitHost (cl_remote c)) of Some x \<Rightarrow> x | None \<Rightarrow> []); ips = current_ips (se_proxy c) in
      ips = [] \<or> list_ex (\<lambda>i. ip_Match i ip) ips)"

text \<open>\<open>onConn\<close> up to the loop: the session is admitted, or an error was written and the session is closed.\<close>

definition admit :: "'f world \<Rightarrow> bool sess" where
  "admit w =
     sbind (count IncrClientConns) (\<lambda>_.
     sbind (sget id) (\<lambda>c.
       if \<not> IsAllowConnect c then
         sbind (ignore (sact (writeError (w_lib w) (NewError ER_ACCESS_DENIED_ERROR ''ip address access denied by kingshard.'')))) (\<lambda>_.
         sbind client_Close (\<lambda>_. sret False))
       else
         stry (sact (Handshake (sv_users (se_proxy c)))) (\<lambda>r.
           case r of
             Inl e \<Rightarrow> sbind (ignore (sact (writeError (w_lib w) e))) (\<lambda>_. sbind client_Close (\<lambda>_. sret False))
           | Inr _ \<Rightarrow> sbind (supd (\<lambda>s. s\<lparr>se_schema := GetSchema (se_proxy s) (cl_user s)\<rparr>)) (\<lambda>_. sret True))))"

definition onConn :: "'f world \<Rightarrow> session \<Rightarrow> (session, unit) outcome option" where
  "onConn w c =
     (let finish = (\<lambda>t. case (sbind client_Close (\<lambda>_. count DecrClientConns)) t of x \<Rightarrow> x) in
      case admit w c of
        Done (Inr True) t \<Rightarrow>
          map_option (\<lambda>x. case x of Done r u \<Rightarrow> finish u | Waits \<Rightarrow> Waits | Crashes p \<Rightarrow> Crashes p) (Run w t)
      | Done _ t \<Rightarrow> Some (finish t)
      | Waits \<Rightarrow> Some Waits
      | Crashes p \<Rightarrow> Some (Crashes p))"

end
