(* ===== verification/Session_Parts.thy ===== *)
theory Session_Parts
  imports Dispatch
begin

text \<open>
  Most steps of a command change little of a session. The locale \<open>session_part\<close> says of a part of the session that it does not depend
  on what such steps change, and derives that they preserve it. It is interpreted on the connections that a
  session holds and on the input that it has not read.
\<close>

section \<open>Writing\<close>

lemma conn_write_rb: "conn_write wr d p = (b, q) \<Longrightarrow> rb q = rb p"
  by (auto simp: conn_write_def split: option.splits)

lemma WritePacket_rb: "WritePacket wr d p = (r, q) \<Longrightarrow> rb q = rb p"
proof (induction "length d" arbitrary: d p rule: less_induct)
  case less
  let ?h = "set_header MaxPayloadLen (Sequence p) d"
  show ?case
  proof (cases "int (length d) - 4 \<ge> MaxPayloadLen")
    case True
    obtain b q' where w: "conn_write wr (take (nat (4 + MaxPayloadLen)) ?h) p = (b, q')" by force
    have l: "length (drop (nat MaxPayloadLen) ?h) < length d" using True by simp
    from less.prems True w have "b = False \<and> q = q' \<or> WritePacket wr (drop (nat MaxPayloadLen) ?h) (q'\<lparr>Sequence := Sequence q' + 1\<rparr>) = (r, q)"
      by (subst (asm) WritePacket.simps) (simp add: Let_def split: bool.splits)
    with less.hyps [OF l] conn_write_rb [OF w] show ?thesis by auto
  next
    case False
    with less.prems show ?thesis
      by (subst (asm) WritePacket.simps) (auto simp: Let_def dest: conn_write_rb split: if_splits prod.splits bool.splits)
  qed
qed

lemma batch_loop_rb: "batch_loop t d p = (r, q) \<Longrightarrow> rb q = rb p"
proof (induction "length d" arbitrary: t d p rule: less_induct)
  case less
  show ?case
  proof (cases "int (length d) - 4 \<ge> MaxPayloadLen")
    case True
    have l: "length (drop (nat MaxPayloadLen) (set_header MaxPayloadLen (Sequence p) d)) < length d" using True by simp
    from less.prems True less.hyps [OF l] show ?thesis
      by (subst (asm) batch_loop.simps) (auto simp: Let_def)
  next
    case False
    with less.prems show ?thesis by (subst (asm) batch_loop.simps) (auto simp: Let_def split: if_splits)
  qed
qed

lemma WritePacketBatch_rb: "WritePacketBatch wr t d b p = (r, q) \<Longrightarrow> rb q = rb p"
  by (auto simp: WritePacketBatch_def dest!: batch_loop_rb dest: conn_write_rb split: option.splits prod.splits sum.splits if_splits bool.splits)

section \<open>Steps\<close>

locale session_part =
  fixes part :: "session \<Rightarrow> 'v"
  assumes part_pkg: "rb p = rb (cl_pkg s) \<Longrightarrow> part (s\<lparr>cl_pkg := p\<rparr>) = part s"
    and part_client: "part (s\<lparr>cl_db := x\<rparr>) = part s" "part (s\<lparr>cl_lastInsertId := i\<rparr>) = part s" "part (s\<lparr>cl_affectedRows := i\<rparr>) = part s"
      "part (s\<lparr>cl_charset := x\<rparr>) = part s" "part (s\<lparr>cl_collation := i\<rparr>) = part s" "part (s\<lparr>cl_closed := b\<rparr>) = part s"
    and part_stmts: "part (s\<lparr>se_stmtId := i\<rparr>) = part s" "part (s\<lparr>se_stmts := m\<rparr>) = part s"
    and part_conn: "h < length (se_conns s) \<Longrightarrow> bk_Conn (snd (se_conns s ! h)) \<noteq> None \<Longrightarrow> bk_Conn bk \<noteq> None
      \<Longrightarrow> part (s\<lparr>se_conns := (se_conns s)[h := (n, bk)]\<rparr>) = part s"
begin

lemma preserves_fields:
  "preserves part (supd (\<lambda>s. s\<lparr>cl_db := x\<rparr>))" "preserves part (supd (\<lambda>s. s\<lparr>cl_lastInsertId := i\<rparr>))"
  "preserves part (supd (\<lambda>s. s\<lparr>cl_affectedRows := i\<rparr>))" "preserves part (supd (\<lambda>s. s\<lparr>cl_lastInsertId := i, cl_affectedRows := j\<rparr>))"
  "preserves part (supd (\<lambda>s. s\<lparr>cl_charset := x, cl_collation := i\<rparr>))" "preserves part (supd (\<lambda>s. s\<lparr>se_stmtId := i\<rparr>))"
  "preserves part (supd (\<lambda>s. s\<lparr>se_stmts := f s\<rparr>))" "preserves part (supd (\<lambda>s. s\<lparr>cl_closed := b\<rparr>))"
  by (rule preserves_supd; simp add: part_client part_stmts)+

lemma keeps_client_writePacket: "keeps (\<lambda>s. part s = v) (client_writePacket d)"
  by (auto simp: keeps_def client_writePacket_def part_pkg dest: WritePacket_rb split: prod.splits)

lemma keeps_writePacketBatch: "keeps (\<lambda>s. part s = v) (writePacketBatch t d b)"
  by (auto simp: keeps_def writePacketBatch_def part_pkg dest: WritePacketBatch_rb split: prod.splits)

lemma keeps_batch_all: "keeps (\<lambda>s. part s = v) (batch_all ds t)"
  by (induction ds arbitrary: t) (auto intro!: keeps_abind keeps_writePacketBatch keeps_basic)

lemma keeps_affected: "keeps (\<lambda>s. part s = v) (aupd (\<lambda>s. s\<lparr>cl_affectedRows := x\<rparr>))"
  by (rule keeps_aupd) (simp add: part_client)

lemmas keeps_client = keeps_client_writePacket keeps_writePacketBatch keeps_batch_all keeps_affected keeps_abind keeps_basic

lemma keeps_writes:
  "keeps (\<lambda>s. part s = v) (writeOK r)" "keeps (\<lambda>s. part s = v) (writeError lib e)" "keeps (\<lambda>s. part s = v) (writeEOF st)"
  "keeps (\<lambda>s. part s = v) (writeResultset st rs)" "keeps (\<lambda>s. part s = v) (writeFieldList st fs)" "keeps (\<lambda>s. part s = v) (writePrepare cs)"
  unfolding writeOK_def writeError_def writeEOF_def writeResultset_def writeFieldList_def writePrepare_def writeEOFBatch_def
  by (auto intro!: keeps_client split: prod.splits)

lemmas preserves_writes = keeps_writes [THEN preserves_sact]

lemma preserves_on_conn: "preserves part (on_conn h m)"
  by (auto intro!: preservesI part_conn simp: on_conn_def split: if_splits prod.splits option.splits)

lemma preserves_on_stmt: "preserves part (on_stmt i m)"
  by (auto intro!: preservesI simp: on_stmt_def part_stmts split: option.splits prod.splits)

lemma preserves_crash: "preserves part m \<Longrightarrow> preserves part (crash m)"
  by (auto intro!: preservesI dest: preservesD simp: crash_def split: outcome.splits sum.splits fail.splits)

lemmas preserves_steps = preserves_fields preserves_writes preserves_on_conn preserves_on_stmt

lemma preserves_begin_all: "preserves part (begin_all w cs)"
  by (induction cs) (auto intro!: preserving preserves_steps)

lemma preserves_exec_sqls: "preserves part (exec_sqls w h args vs)"
  by (induction vs) (auto intro!: preserving preserves_steps)

lemma preserves_exec_nodes: "preserves part (exec_nodes w conns sqls args)"
  by (induction conns) (auto intro!: preserving preserves_crash preserves_exec_sqls)

lemma preserves_executions:
  "preserves part (executeInMultiNodes w conns sqls args)" "preserves part (executeInNode w h sql args)"
  "preserves part (mergeExecResult rs)" "preserves part (merge_and_write w rs' stmt)"
  unfolding executeInMultiNodes_def executeInNode_def mergeExecResult_def merge_and_write_def Let_def
  by (intro preserving preserves_exec_nodes preserves_steps)+

lemma preserves_writers: "preserves part (use_db h db wrap)" "preserves part (write_reply stmt st r)"
  unfolding use_db_def write_reply_def by (auto intro!: preserving preserves_steps split: reply.split)

lemma preserves_reports:
  "preserves part (report w names rows)" "preserves part the_schema" "preserves part (handleAdminShow w k v)" "preserves part (handleAdminSave w k v)"
proof -
  show r: "preserves part (report w names rows)" for names rows unfolding report_def by (intro preserving)
  show t: "preserves part the_schema" unfolding the_schema_def by (intro preserving)
  show "preserves part (handleAdminShow w k v)"
    unfolding handleAdminShow_def handleShowProxyConfig_def handleShowProxyStatus_def handleShowNodeConfig_def handleShowSchemaConfig_def
      handleShowAllowIPConfig_def handleShowBlackSqlConfig_def Let_def by (intro preserving r t)
  show "preserves part (handleAdminSave w k v)" unfolding handleAdminSave_def by (intro preserving)
qed

end

end
