(* ===== verification/Session_Ends.thy ===== *)
theory Session_Ends
  imports Session_Parts
begin

text \<open>
  The end of a session: a turn of the loop that goes on has read a packet, and nothing but the reading of packets consumes the
  input of the client. A finite input ends the loop, after which the client is closed.
\<close>

section \<open>Commands read no input\<close>

definition pending_input :: "session \<Rightarrow> string" where
  "pending_input s = rb (cl_pkg s)"

interpretation reader: session_part pending_input
  by unfold_locales (simp_all add: pending_input_def)

named_theorems unread_steps \<open>steps that read nothing from the client\<close>

lemma unread_fields [unread_steps]:
  "preserves pending_input (supd (\<lambda>s. s\<lparr>se_schema := f s\<rparr>))" "preserves pending_input (supd (\<lambda>s. s\<lparr>se_txConns := g s\<rparr>))"
  "preserves pending_input (supd (set_flag i))" "preserves pending_input (supd (clear_flag i))" "preserves pending_input (supd (next_access w))"
  "preserves pending_input (supd (\<lambda>s. if b s then clear_flag i s else s))" "preserves pending_input (supd (\<lambda>s. s\<lparr>se_configVer := h s\<rparr>))"
  "preserves pending_input (supd (\<lambda>s. s\<lparr>cl_pkg := (cl_pkg s)\<lparr>Sequence := 0\<rparr>\<rparr>))"
  by (rule preserves_supd; simp add: pending_input_def set_flag_def clear_flag_def next_access_def)+

lemma unread_access [unread_steps]:
  "preserves pending_input (take_conn w get n)" "preserves pending_input (give_back w co)" "preserves pending_input (on_server m)" "preserves pending_input (count f)"
proof -
  show "preserves pending_input (take_conn w get n)"
    by (auto intro!: preservesI simp: pending_input_def take_conn_def Let_def next_access_def split: option.splits if_splits sum.splits)
  show "preserves pending_input (give_back w co)"
    by (auto intro!: preservesI simp: pending_input_def give_back_def Let_def next_access_def split: option.splits if_splits prod.splits)
  show "preserves pending_input (on_server m)" by (auto intro!: preservesI simp: pending_input_def on_server_def split: prod.splits)
  show "preserves pending_input (count f)" unfolding count_def by (rule preserves_supd) (simp add: pending_input_def)
qed

lemmas unread_parts [unread_steps] =
  preserves_basic [where p = pending_input] reader.preserves_steps reader.preserves_begin_all reader.preserves_exec_sqls
  reader.preserves_exec_nodes reader.preserves_executions reader.preserves_writers reader.preserves_reports

lemma unread_loops [unread_steps]:
  "preserves pending_input (end_all w m cs err)" "preserves pending_input (close_all w rlb hs)" "preserves pending_input (autocommit_all w cs)"
  "preserves pending_input (give_back_all w cs)"
proof -
  show "preserves pending_input (end_all w m cs err)" by (induction cs arbitrary: err) (auto intro!: preserving unread_steps)
  show "preserves pending_input (close_all w rlb hs)" by (induction hs) (auto intro!: preserving unread_steps)
  show "preserves pending_input (autocommit_all w cs)" by (induction cs) (auto intro!: preserving unread_steps)
  show "preserves pending_input (give_back_all w cs)" by (induction cs) (auto intro!: preserving unread_steps)
qed

lemma unread_conns [unread_steps]:
  "preserves pending_input (getBackendConn w n fromSlave)" "preserves pending_input (client_closeConn w co rlb)" "preserves pending_input (closeShardConns w hs rlb)"
  unfolding getBackendConn_def choose_conn_def attempt_def client_closeConn_def closeShardConns_def by (intro preserving unread_steps)+

lemma unread_shard_conns [unread_steps]: "preserves pending_input (shard_conns w fromSlave ns conns)"
  by (induction ns arbitrary: conns) (auto intro!: preserving unread_steps)

lemma unread_planned [unread_steps]:
  "preserves pending_input (getShardConns w fromSlave plan)" "preserves pending_input (build_plan w stmt)"
  unfolding getShardConns_def build_plan_def Let_def by (intro preserving unread_steps)+

lemma unread_with_conn [unread_steps]: "(\<And>h. preserves pending_input (f h)) \<Longrightarrow> preserves pending_input (with_conn w n fromSlave wrap f)"
  unfolding with_conn_def by (intro preserving unread_steps)

lemma unread_with_stmt [unread_steps]: "(\<And>i cs. preserves pending_input (f i cs)) \<Longrightarrow> preserves pending_input (with_stmt data cmd f)"
  unfolding with_stmt_def by (intro preserving unread_steps)

section \<open>Statements\<close>

lemma unread_handlers [unread_steps]:
  "preserves pending_input (handleBegin w)" "preserves pending_input (handleCommit w)" "preserves pending_input (handleRollback w)"
  "preserves pending_input (handleExec w stmt args)" "preserves pending_input (handleSelect w sel args)" "preserves pending_input (handleSimpleSelect w es)"
  "preserves pending_input (handleFieldList w data)" "preserves pending_input (handleUseDB w db)"
proof -
  show "preserves pending_input (handleBegin w)" "preserves pending_input (handleCommit w)" "preserves pending_input (handleRollback w)"
    unfolding handleBegin_def handleCommit_def handleRollback_def commit_def rollback_def end_tx_def by (intro preserving unread_steps)+
  show "preserves pending_input (handleExec w stmt args)" unfolding handleExec_def by (intro preserving unread_steps)
  show "preserves pending_input (handleSelect w sel args)" unfolding handleSelect_def by (intro preserving unread_steps)
  show "preserves pending_input (handleSimpleSelect w es)"
    unfolding handleSimpleSelect_def by (auto intro!: preserving unread_steps split: selectexpr.split)
  show "preserves pending_input (handleFieldList w data)" "preserves pending_input (handleUseDB w db)"
    unfolding handleFieldList_def handleUseDB_def Let_def by (intro preserving unread_steps)+
qed

lemma unread_handleSet [unread_steps]: "preserves pending_input (handleSet w st)"
proof -
  have "preserves pending_input (handleSetNames ch ci)" for ch ci unfolding handleSetNames_def Let_def by (intro preserving unread_steps)
  moreover have "preserves pending_input (handleSetAutoCommit w v)" for v unfolding handleSetAutoCommit_def Let_def by (intro preserving unread_steps)
  ultimately show ?thesis unfolding handleSet_def Let_def by (auto intro!: preserving unread_steps split: list.split)
qed

lemma unread_prepared [unread_steps]:
  "preserves pending_input (handleStmtPrepare w sql)" "preserves pending_input (handlePrepareSelect w sel sql args)" "preserves pending_input (handlePrepareExec w sql args)"
  unfolding handleStmtPrepare_def handlePrepareSelect_def handlePrepareExec_def Let_def by (intro preserving unread_steps)+

lemma unread_stmts [unread_steps]:
  "preserves pending_input (handleStmtExecute w data)" "preserves pending_input (handleStmtSendLongData data)" "preserves pending_input (handleStmtReset data)"
  "preserves pending_input (handleStmtClose data)"
  unfolding handleStmtExecute_def handleStmtSendLongData_def handleStmtReset_def handleStmtClose_def Let_def
  by (intro preserving unread_steps; auto intro!: preserving unread_steps split: statement.split arg.split)+

lemma unread_tables [unread_steps]:
  "preserves pending_input (is_sharded dt)" "preserves pending_input (select_needs_plan ts)" "preserves pending_input (table_behind word split ts)"
  "preserves pending_input (table_before_set prev ts)"
proof -
  show s: "preserves pending_input (is_sharded dt)" for dt unfolding is_sharded_def Let_def by (intro preserving unread_steps)
  show "preserves pending_input (select_needs_plan ts)" by (induction ts) (auto intro!: preserving unread_steps s split: list.split bool.split)
  show "preserves pending_input (table_behind word split ts)" by (induction ts) (auto intro!: preserving unread_steps s split: list.split bool.split)
  show "preserves pending_input (table_before_set prev ts)" by (induction ts arbitrary: prev) (auto intro!: preserving unread_steps s)
qed

lemma unread_nodes [unread_steps]: "preserves pending_input has_rules" "preserves pending_input (hinted_node tokens)" "preserves pending_input (setExecuteNode tokens ex)"
  "preserves pending_input (exec_at tokens ex)"
  unfolding exec_at_def setExecuteNode_def has_rules_def hinted_node_def by (intro preserving unread_steps)+

lemma unread_show_columns [unread_steps]: "preserves pending_input (handleShowColumns k i tokens ex)"
proof (induction k arbitrary: i tokens)
  case (Suc k)
  have "preserves pending_input (show_columns_of tokens i ex)" for tokens i
    unfolding show_columns_of_def Let_def by (auto intro!: preserving unread_steps split: list.split bool.split)
  with Suc show ?case by (auto intro!: preserving unread_steps simp: Let_def)
qed (simp add: preserving unread_steps)

lemma unread_exec_db [unread_steps]: "preserves pending_input (GetExecDB tokens sql)"
  unfolding GetExecDB_def getSelectExecDB_def getDeleteExecDB_def getInsertOrReplaceExecDB_def getUpdateExecDB_def getSetExecDB_def
    getShowExecDB_def getTruncateExecDB_def unless_sharded_def Let_def
  by (intro preserving unread_steps)

lemma unread_trans_exec_db [unread_steps]: "preserves pending_input (GetTransExecDB tokens sql)"
  unfolding GetTransExecDB_def by (intro preserving unread_steps)

lemma unread_exec_unplanned [unread_steps]: "preserves pending_input (exec_unplanned w ex)"
  unfolding exec_unplanned_def
  by (intro preserving unread_steps) (auto intro!: preserves_supd simp: pending_input_def split: prod.split)

lemma unread_preHandleShard [unread_steps]: "preserves pending_input (preHandleShard w sql)"
  unfolding preHandleShard_def isBlacklistSql_def Let_def by (intro preserving unread_steps)

section \<open>Administration\<close>

lemma unread_node_commands [unread_steps]:
  "preserves pending_input (AddDatabase w n r a)" "preserves pending_input (DeleteDatabase w n r a)" "preserves pending_input (UpDatabase w n r a)"
  "preserves pending_input (DownDatabase w n r a)"
  unfolding AddDatabase_def DeleteDatabase_def UpDatabase_def DownDatabase_def node_access_def by (intro preserving unread_steps)+

lemma unread_settings [unread_steps]:
  "preserves pending_input (handleAdminChange k v)" "preserves pending_input (handleAdminAdd k v)" "preserves pending_input (handleAdminDelete k v)"
  unfolding handleAdminChange_def handleAdminAdd_def handleAdminDelete_def by (intro preserving unread_steps)+

lemma unread_commands [unread_steps]: "preserves pending_input (handleNodeCmd w rows)" "preserves pending_input (handleServerCmd w rows)"
  unfolding handleNodeCmd_def handleServerCmd_def Let_def
  by (rule preserves_compose(1), rule unread_steps, auto intro!: preserving unread_steps split: list.split)+

lemma unread_admin [unread_steps]: "preserves pending_input (handleAdmin w a)" "preserves pending_input (handleAdminHelp w)"
  unfolding handleAdmin_def handleAdminHelp_def Let_def by (intro preserving unread_steps)+

section \<open>The loop\<close>

lemma unread_dispatch [unread_steps]: "preserves pending_input (dispatch w packet)"
proof -
  have run: "preserves pending_input (run_statement w stmt)" for stmt
    unfolding run_statement_def by (auto split: statement.split intro!: preserving unread_steps)
  show ?thesis unfolding dispatch_def handleQuery_def client_Close_def Let_def by (intro preserving unread_steps run)
qed

lemma unread_reload [unread_steps]: "preserves pending_input (reload_if_changed w)"
  unfolding reload_if_changed_def reloadConfig_def ignore_def by (intro preserving unread_steps)






end
