(* ===== verification/Fixtures.thy ===== *)
theory Fixtures
  imports Build_Plan
begin

text \<open>
  Concrete configurations, statements and rows on which the properties are evaluated, and
  the values the model computes for them.
\<close>

definition demo_loc :: local_date where
  "demo_loc = (\<lambda>_. (2016, 3, 5))"

definition demo_col :: "string \<Rightarrow> ValExpr" where
  "demo_col n = ColName \<lparr>cn_Name = n, cn_Qualifier = None\<rparr>"

definition demo_table :: "string \<Rightarrow> tablename" where
  "demo_table n = \<lparr>tn_Name = n, tn_Qualifier = None\<rparr>"

abbreviation rule_or_default :: "shard_config \<Rightarrow> rule" where
  "rule_or_default cfg \<equiv> (case parseRule cfg of Inr r \<Rightarrow> r | Inl _ \<Rightarrow> NewDefaultRule [])"

definition demo_range_cfg :: shard_config where
  "demo_range_cfg =
     \<lparr>cfg_DB = ''ks'', cfg_Table = ''t'', cfg_Key = ''ID'', cfg_Nodes = [''node1'', ''node2''],
      cfg_Locations = [2, 2], cfg_Type = ''range'', cfg_TableRowLimit = 100, cfg_DateRange = []\<rparr>"

definition demo_hash_cfg :: shard_config where
  "demo_hash_cfg =
     \<lparr>cfg_DB = ''ks'', cfg_Table = ''h'', cfg_Key = ''id'', cfg_Nodes = [''node1'', ''node2''],
      cfg_Locations = [2, 2], cfg_Type = ''hash'', cfg_TableRowLimit = 0, cfg_DateRange = []\<rparr>"

definition demo_month_cfg :: shard_config where
  "demo_month_cfg =
     \<lparr>cfg_DB = ''ks'', cfg_Table = ''d'', cfg_Key = ''day'', cfg_Nodes = [''node1'', ''node2''],
      cfg_Locations = [], cfg_Type = ''date_month'', cfg_TableRowLimit = 0,
      cfg_DateRange = [''201511-201602'', ''201606'']\<rparr>"

definition demo_schema :: schema_config where
  "demo_schema =
     \<lparr>sch_User = ''u'', sch_Nodes = [''node1'', ''node2''], sch_Default = ''node1'',
      sch_ShardRule = [demo_range_cfg, demo_hash_cfg, demo_month_cfg]\<rparr>"

definition "demo_range_rule = rule_or_default demo_range_cfg"
definition "demo_hash_rule = rule_or_default demo_hash_cfg"
definition "demo_month_rule = rule_or_default demo_month_cfg"

definition demo_router :: router where
  "demo_router = (case NewRouter demo_schema of Inr rt \<Rightarrow> rt
     | Inl _ \<Rightarrow> \<lparr>rt_Rules = [], rt_DefaultRule = NewDefaultRule [], rt_Nodes = []\<rparr>)"

text \<open>\<open>id > 150 and (id < 300 or name = 'x')\<close>\<close>

definition demo_range_cond :: BoolExpr where
  "demo_range_cond =
     AndExpr (ComparisonExpr ''>'' (demo_col ''id'') (NumVal ''150''))
       (ParenBoolExpr (OrExpr (ComparisonExpr ''<'' (demo_col ''id'') (NumVal ''300''))
          (ComparisonExpr ''='' (demo_col ''name'') (StrVal ''x''))))"

text \<open>\<open>id = 6 or id in (3, '11')\<close>\<close>

definition demo_hash_cond :: BoolExpr where
  "demo_hash_cond =
     OrExpr (ComparisonExpr ''='' (demo_col ''id'') (NumVal ''6''))
       (ComparisonExpr ''in'' (demo_col ''id'') (ValTuple [NumVal ''3'', StrVal ''11'']))"

text \<open>\<open>day >= '2016-02-03' and day between '2015-12-28' and '2016-02-10 12:00:00'\<close>\<close>

definition demo_date_cond :: BoolExpr where
  "demo_date_cond =
     AndExpr (ComparisonExpr ''>='' (demo_col ''day'') (StrVal ''2016-02-03''))
       (RangeCond ''between'' (demo_col ''day'') (StrVal ''2015-12-28'') (StrVal ''2016-02-10 12:00:00''))"

text \<open>The routes that the model computes for them.\<close>

definition route :: "rule \<Rightarrow> BoolExpr \<Rightarrow> indexs res" where
  "route r e = rbind (getTableIndexByBoolExpr demo_loc [] e (new_plan r)) (\<lambda>(l, _). Inr l)"

lemma routeE:
  assumes "route r e = Inr l"
  obtains e' plan' where "getTableIndexByBoolExpr demo_loc [] e (new_plan r) = Inr (l, e', plan')"
  using assms by (auto simp: route_def rbind_eq_Inr_iff)

lemma demo_range_parse: "parseRule demo_range_cfg = Inr demo_range_rule"
  by code_simp

lemma demo_hash_parse: "parseRule demo_hash_cfg = Inr demo_hash_rule"
  by code_simp

lemma demo_month_parse: "parseRule demo_month_cfg = Inr demo_month_rule"
  by code_simp

lemma demo_range_config: "range_config demo_range_cfg"
  by code_simp

lemma demo_hash_config: "hash_config demo_hash_cfg"
  by code_simp

lemma demo_date_config: "date_config demo_month_cfg"
  by code_simp

lemma demo_range_route: "route demo_range_rule demo_range_cond = Inr [1, 2, 3]"
  by code_simp

lemma demo_hash_route: "route demo_hash_rule demo_hash_cond = Inr [2, 3]"
  by code_simp

lemma demo_date_route: "route demo_month_rule demo_date_cond = Inr [201602]"
  by code_simp

lemma demo_rule_of_plan [simp]: "p_Rule (new_plan r) = r"
  by (simp add: new_plan_def)

text \<open>\<open>select * from t where id > 150 and (id < 300 or name = 'x') limit 10, 5\<close>, and an update and a
  delete with the same condition.\<close>

definition demo_select :: SelectNode where
  "demo_select =
     Select [] [] [StarExpr None] [AliasedTableExpr (TableNameE (demo_table ''t'')) None None]
       (Some (Where ''where'' demo_range_cond)) [] None [] (Some (Limit (Some (NumVal ''10'')) (NumVal ''5''))) []"

definition demo_update :: update_stmt where
  "demo_update =
     \<lparr>upd_Comments = [], upd_Table = demo_table ''t'',
      upd_Exprs = [\<lparr>ue_Name = \<lparr>cn_Name = ''name'', cn_Qualifier = None\<rparr>, ue_Expr = StrVal ''y''\<rparr>],
      upd_Where = Some (Where ''where'' demo_range_cond), upd_OrderBy = [], upd_Limit = None\<rparr>"

definition demo_delete :: delete_stmt where
  "demo_delete =
     \<lparr>del_Comments = [], del_Table = demo_table ''t'',
      del_Where = Some (Where ''where'' demo_range_cond), del_OrderBy = [], del_Limit = None\<rparr>"

text \<open>\<open>insert into t(name, id) values ('a', 150), ('b', 7), ('c', 199)\<close>\<close>

definition demo_rows :: "tuple list" where
  "demo_rows = map TupleVals [[StrVal ''a'', NumVal ''150''], [StrVal ''b'', NumVal ''7''], [StrVal ''c'', NumVal ''199'']]"

definition demo_insert :: insert_stmt where
  "demo_insert =
     \<lparr>ins_Comments = [], ins_Ignore = [], ins_Table = demo_table ''t'',
      ins_Columns = Some [NonStarExpr (ValE (demo_col ''name'')) None, NonStarExpr (ValE (demo_col ''id'')) None],
      ins_Rows = RowsValues demo_rows, ins_OnDup = None\<rparr>"

definition "demo_plan_of m = (case snd m of Inr p \<Rightarrow> p | Inl _ \<Rightarrow> new_plan (NewDefaultRule []))"
  for m :: "router \<times> plan res"

definition "demo_select_plan = demo_plan_of (buildSelectPlan (\<lambda>xs. xs) demo_loc demo_router ''ks'' demo_select)"
definition "demo_update_plan = demo_plan_of (buildUpdatePlan (\<lambda>xs. xs) demo_loc demo_router ''ks'' demo_update)"
definition "demo_delete_plan = demo_plan_of (buildDeletePlan (\<lambda>xs. xs) demo_loc demo_router ''ks'' demo_delete)"
definition "demo_insert_plan = demo_plan_of (buildInsertPlan (\<lambda>xs. xs) demo_loc demo_router ''ks'' demo_insert)"

lemma demo_plan_of_eq: "isl (snd m) = False \<Longrightarrow> m = (fst m, Inr (demo_plan_of m))"
  by (cases m) (auto simp: demo_plan_of_def split: sum.splits)

lemma demo_select_built:
  "buildSelectPlan (\<lambda>xs. xs) demo_loc demo_router ''ks'' demo_select =
     (fst (buildSelectPlan (\<lambda>xs. xs) demo_loc demo_router ''ks'' demo_select), Inr demo_select_plan)"
  unfolding demo_select_plan_def by (rule demo_plan_of_eq) code_simp

lemma demo_update_built:
  "buildUpdatePlan (\<lambda>xs. xs) demo_loc demo_router ''ks'' demo_update =
     (fst (buildUpdatePlan (\<lambda>xs. xs) demo_loc demo_router ''ks'' demo_update), Inr demo_update_plan)"
  unfolding demo_update_plan_def by (rule demo_plan_of_eq) code_simp

lemma demo_delete_built:
  "buildDeletePlan (\<lambda>xs. xs) demo_loc demo_router ''ks'' demo_delete =
     (fst (buildDeletePlan (\<lambda>xs. xs) demo_loc demo_router ''ks'' demo_delete), Inr demo_delete_plan)"
  unfolding demo_delete_plan_def by (rule demo_plan_of_eq) code_simp

lemma demo_insert_built:
  "buildInsertPlan (\<lambda>xs. xs) demo_loc demo_router ''ks'' demo_insert =
     (fst (buildInsertPlan (\<lambda>xs. xs) demo_loc demo_router ''ks'' demo_insert), Inr demo_insert_plan)"
  unfolding demo_insert_plan_def by (rule demo_plan_of_eq) code_simp

lemma demo_rule_found:
  "GetRule demo_router ''ks'' (format_tablename (demo_table ''t'')) =
     (demo_range_rule, snd (GetRule demo_router ''ks'' (format_tablename (demo_table ''t''))))"
proof -
  have "fst (GetRule demo_router ''ks'' (format_tablename (demo_table ''t''))) = demo_range_rule" by code_simp
  then show ?thesis by (metis prod.collapse)
qed

lemma demo_matching_row: "matching_row demo_loc demo_range_cfg demo_range_rule demo_range_cond 2"
proof -
  have "range_config demo_range_cfg" "range_supported demo_range_rule demo_range_cond" by code_simp+
  moreover have "FindTableIndex demo_loc demo_range_rule (KInt64 250) = Inr 2" by code_simp
  moreover have "key_cond demo_range_rule (\<le>) range_lit (\<lambda>_. True) 250 demo_range_cond" by code_simp
  ultimately show ?thesis unfolding matching_row_def int_row_def by blast
qed

text \<open>
  Conditions on a date key that lose tables: the months of a \<open>NOT IN\<close> and of a \<open>NOT BETWEEN\<close> are left out as a whole, although other days
  of them satisfy the condition, and a bound in a month without a table selects no table at all.
\<close>

definition demo_date_gaps :: "(BoolExpr \<times> indexs) list" where
  "demo_date_gaps =
     [(ComparisonExpr ''not in'' (demo_col ''day'') (ValTuple [StrVal ''2016-02-10'']), [201511, 201512, 201601, 201606]),
      (RangeCond ''not between'' (demo_col ''day'') (StrVal ''2016-01-10'') (StrVal ''2016-02-10''), [201511, 201512, 201606]),
      (ComparisonExpr ''<'' (demo_col ''day'') (StrVal ''2016-03-01''), [])]"

lemma date_conditions_lose_tables:
  "list_all (\<lambda>(e, l). route demo_month_rule e = Inr l \<and> key_cond demo_month_rule date_le date_lit (\<lambda>_. True) ''2016-02-11'' e
       \<and> FindTableIndex demo_loc demo_month_rule (KStr ''2016-02-11'') = Inr 201602 \<and> 201602 \<notin> set l) demo_date_gaps"
  by code_simp

text \<open>A rule on the second node of a schema: its tables belong to this node, and its statements are sent to the first one.\<close>

definition demo_late_cfg :: shard_config where
  "demo_late_cfg = demo_range_cfg\<lparr>cfg_Nodes := [''node2''], cfg_Locations := [4]\<rparr>"

definition demo_late_router :: "router res" where
  "demo_late_router = NewRouter (demo_schema\<lparr>sch_ShardRule := [demo_late_cfg]\<rparr>)"

lemma late_rule_misrouted:
  "case demo_late_router of Inl _ \<Rightarrow> False
   | Inr rt \<Rightarrow> (case snd (buildSelectPlan (\<lambda>xs. xs) demo_loc rt ''ks'' demo_select) of Inl _ \<Rightarrow> False
       | Inr plan \<Rightarrow> map fst (p_RewrittenSqls plan) = [''node1''] \<and> rule_node (p_Rule plan) 2 = Inr ''node2''
                     \<and> \<not> nodes_aligned rt (p_Rule plan))"
  by code_simp

lemma demo_aligned: "nodes_aligned demo_router demo_range_rule"
  by code_simp

end
