(* ===== verification/Ownership.thy ===== *)
theory Ownership
  imports Server_Inv Session_Parts
begin

text \<open>
  Who owns the connections that a session has taken from the pools. Between two commands a session holds exactly the
  connections of its transaction, and none outside of a transaction.
\<close>

section \<open>What a session holds\<close>

definition open_conns :: "session \<Rightarrow> nat list" where
  "open_conns s = filter (\<lambda>h. bk_Conn (snd (se_conns s ! h)) \<noteq> None) [0..<length (se_conns s)]"

definition tx_handles :: "session \<Rightarrow> nat set" where
  "tx_handles s = snd ` set (se_txConns s)"

definition others_ok :: "'f world \<Rightarrow> bool" where
  "others_ok w \<longleftrightarrow>
     (\<forall>k sv. server_ok sv \<longrightarrow> server_ok (w_others w k sv) \<and> prefix (store_names sv) (store_names (w_others w k sv)))"

definition schema_ok :: "schema option \<Rightarrow> bool" where
  "schema_ok sc \<longleftrightarrow> (case sc of None \<Rightarrow> True | Some x \<Rightarrow> nodes_once (sc_rule x))"

text \<open>
  In a command: \<open>tx\<close> says whether the session is in a transaction, \<open>H\<close> are the connections of the statement, which in a transaction belong to it, \<open>X\<close> those just taken, and \<open>K\<close>
  pointers to nodes with their names.
\<close>

definition own :: "bool \<Rightarrow> nat set \<Rightarrow> nat set \<Rightarrow> (string \<times> nat) list \<Rightarrow> session \<Rightarrow> bool" where
  "own tx X H K s \<longleftrightarrow>
     isInTransaction s = tx
     \<and> (if tx then set (open_conns s) = tx_handles s \<union> X \<and> H \<subseteq> tx_handles s
      else se_txConns s = [] \<and> set (open_conns s) = H \<union> X)
     \<and> distinct (map fst (se_txConns s)) \<and> server_ok (se_proxy s) \<and> schema_ok (se_schema s) \<and> named K (se_proxy s)"

section \<open>Steps\<close>

lemma open_conns_update:
  assumes "h < length (se_conns s)"
  shows "set (open_conns (s\<lparr>se_conns := (se_conns s)[h := (i, b)]\<rparr>)) = (if bk_Conn b = None then set (open_conns s) - {h} else insert h (set (open_conns s)))"
  using assms by (auto simp: open_conns_def nth_list_update split: if_splits)

lemma open_conns_append:
  "set (open_conns (s\<lparr>se_conns := se_conns s @ [(i, b)]\<rparr>)) = (if bk_Conn b = None then set (open_conns s) else insert (length (se_conns s)) (set (open_conns s)))"
  by (auto simp: open_conns_def nth_append split: if_splits)

lemma open_conns_less: "h \<in> set (open_conns s) \<longleftrightarrow> h < length (se_conns s) \<and> bk_Conn (snd (se_conns s ! h)) \<noteq> None"
  by (auto simp: open_conns_def)

lemma open_conns_cong: "se_conns s = se_conns t \<Longrightarrow> open_conns s = open_conns t"
  by (simp add: open_conns_def)

definition view :: "session \<Rightarrow> nat set \<times> (nat \<times> nat) list \<times> int \<times> server \<times> schema option" where
  "view s = (set (open_conns s), se_txConns s, cl_status s, se_proxy s, se_schema s)"

lemma own_view: "own tx X H K s \<Longrightarrow> view t = view s \<Longrightarrow> own tx X H K t"
  by (auto simp: own_def view_def tx_handles_def isInTransaction_def isAutoCommit_def split: if_splits)

text \<open>Steps that leave all of this alone.\<close>

abbreviation quiet :: "'a sess \<Rightarrow> bool" where
  "quiet m \<equiv> preserves view m"

lemma quiet_keeps: "quiet m \<Longrightarrow> skeeps (own tx X H K) m"
  unfolding skeeps_def by (rule tripleI) (blast intro: own_view dest: preservesD)

lemma view_fields [simp]:
  "view (s\<lparr>cl_pkg := p\<rparr>) = view s" "view (s\<lparr>cl_wr := wr\<rparr>) = view s" "view (s\<lparr>cl_db := x\<rparr>) = view s"
  "view (s\<lparr>cl_affectedRows := i\<rparr>) = view s" "view (s\<lparr>cl_lastInsertId := i\<rparr>) = view s" "view (s\<lparr>cl_charset := x\<rparr>) = view s"
  "view (s\<lparr>cl_collation := i\<rparr>) = view s" "view (s\<lparr>cl_closed := b\<rparr>) = view s" "view (s\<lparr>se_stmtId := i\<rparr>) = view s"
  "view (s\<lparr>se_stmts := m\<rparr>) = view s" "view (s\<lparr>se_tick := k\<rparr>) = view s" "view (s\<lparr>se_configVer := i\<rparr>) = view s"
  "view (s\<lparr>cl_capability := i\<rparr>) = view s" "view (s\<lparr>cl_user := x\<rparr>) = view s"
  by (simp_all add: view_def open_conns_def)

named_theorems quiets \<open>steps that leave connections, server and schema alone\<close>

interpretation holdings: session_part view
  by unfold_locales (auto simp: view_def open_conns_update open_conns_less)

lemmas quiet_steps [quiets] =
  preserves_basic [where p = view] holdings.preserves_steps holdings.preserves_begin_all holdings.preserves_exec_sqls
  holdings.preserves_exec_nodes holdings.preserves_executions holdings.preserves_writers holdings.preserves_reports


section \<open>Taking and giving back\<close>

lemma own_next_access: "others_ok w \<Longrightarrow> own tx X H K s \<Longrightarrow> own tx X H K (next_access w s)"
  unfolding own_def next_access_def others_ok_def
  by (auto simp: tx_handles_def isInTransaction_def isAutoCommit_def open_conns_def intro: named_mono split: if_splits)

lemma own_proxy:
  assumes "own tx X H K s" and "prefix (store_names (se_proxy s)) (store_names sv)" and "sv_nodes sv = sv_nodes (se_proxy s)"
    and "sv_schemas sv = sv_schemas (se_proxy s)"
  shows "own tx X H K (s\<lparr>se_proxy := sv\<rparr>)"
  using assms unfolding own_def
  by (auto simp: tx_handles_def isInTransaction_def isAutoCommit_def open_conns_def intro: named_mono server_ok_names split: if_splits)

lemma own_append:
  "own tx X H K s \<Longrightarrow> bk_Conn co \<noteq> None \<Longrightarrow> own tx (insert (length (se_conns s)) X) H K (s\<lparr>se_conns := se_conns s @ [(i, co)]\<rparr>)"
  unfolding own_def by (auto simp: open_conns_append tx_handles_def isInTransaction_def isAutoCommit_def split: if_splits)

context lender
begin

lemma take_conn_owned:
  assumes "others_ok w"
  shows "triple (own tx X H K) (take_conn w get n) (\<lambda>r t. case r of Inl _ \<Rightarrow> own tx X H K t | Inr h \<Rightarrow> own tx (insert h X) H K t \<and> n \<noteq> None)"
proof (rule tripleI)
  fix s r t assume s: "own tx X H K s" and t: "take_conn w get n s = Done r t"
  let ?s1 = "next_access w s"
  have s1: "own tx X H K ?s1" using assms(1) s by (rule own_next_access)
  show "case r of Inl _ \<Rightarrow> own tx X H K t | Inr h \<Rightarrow> own tx (insert h X) H K t \<and> n \<noteq> None"
  proof (cases "n = None \<or> length (sv_store (se_proxy ?s1)) \<le> the n")
    case True
    with t s1 show ?thesis by (auto simp: take_conn_def Let_def split: option.splits if_splits)
  next
    case False
    then obtain i where i: "n = Some i" "i < length (sv_store (se_proxy ?s1))" by auto
    let ?get = "get (w_fo w) (w_dial w (se_tick s) 0) (w_now w (se_tick s)) (w_pick w (se_tick s)) (sv_store (se_proxy ?s1) ! i)"
    obtain r' nd where g: "?get = Some (r', nd)"
      using t i by (auto simp: take_conn_def Let_def split: option.splits if_splits)
    let ?s2 = "?s1\<lparr>se_proxy := (se_proxy ?s1)\<lparr>sv_store := (sv_store (se_proxy ?s1))[i := nd]\<rparr>\<rparr>"
    from g have c: "n_Cfg nd = n_Cfg (sv_store (se_proxy ?s1) ! i)" "\<And>co. r' = Inr co \<Longrightarrow> bk_Conn co \<noteq> None"
      using lender_Cfg lender_open by blast+
    have s2: "own tx X H K ?s2" by (rule own_proxy [OF s1]) (use prefix_store_update [OF i(2) c(1)] in simp_all)
    show ?thesis
    proof (cases r')
      case (Inl e)
      with t i g s2 show ?thesis by (auto simp: take_conn_def Let_def)
    next
      case (Inr co)
      with t i g own_append [OF s2 c(2) [OF Inr], of i] show ?thesis by (auto simp: take_conn_def Let_def)
    qed
  qed
qed

lemma attempt_taken:
  assumes "others_ok w"
  shows "yields (own tx {} H K) (attempt (take_conn w get n)) (\<lambda>p s. case p of (Some h, None) \<Rightarrow> own tx {h} H K s \<and> n \<noteq> None | (None, Some _) \<Rightarrow> True | _ \<Rightarrow> False)"
  unfolding attempt_def
  by (rule yieldsI) (auto simp: stry_def step_defs dest: tripleD [OF take_conn_owned [OF assms]] split: outcome.splits sum.splits fail.splits)

end

lemma push_Cfg: "n_Cfg (snd (abind (deref p) (\<lambda>d. store p (f d)) n)) = n_Cfg n"
  by (auto simp: abind_def deref_def store_def split: option.splits)

text \<open>\<open>Close\<close> of a connection that is open, closed or nil.\<close>

abbreviation give_node :: "'f world \<Rightarrow> session \<Rightarrow> backend_conn \<Rightarrow> conn \<Rightarrow> (node, unit) act" where
  "give_node w s b c \<equiv> abind (deref (bk_db b)) (\<lambda>d. store (bk_db b) (BackendConn_Close (w_now w (se_tick s)) c d))"

lemma give_back_cases:
  assumes "give_back w co s = Done r t"
  obtains (nothing) "r = Inr ()" "t = s" "set_option co \<inter> set (open_conns s) = {}"
  | (push) h i b c where "co = Some h" "h < length (se_conns s)" "r = Inr ()"
      "t = (next_access w s)\<lparr>se_proxy := snd (at_node i (give_node w s b c) (se_proxy (next_access w s))),
        se_conns := (se_conns (next_access w s))[h := (i, b\<lparr>bk_Conn := None\<rparr>)]\<rparr>"
proof (cases "set_option co \<inter> set (open_conns s) = {}")
  case True
  then have "co = None \<or> length (se_conns s) \<le> the co \<or> bk_Conn (snd (se_conns s ! the co)) = None"
    by (cases co) (auto simp: open_conns_less)
  then have "give_back w co s = Done (Inr ()) s"
    by (cases co; cases "se_conns s ! the co") (auto simp: give_back_def)
  with assms have "r = Inr ()" "t = s" by simp_all
  then show ?thesis using True by (rule nothing)
next
  case False
  then obtain h where h: "co = Some h" "h < length (se_conns s)" "bk_Conn (snd (se_conns s ! h)) \<noteq> None"
    by (auto simp: open_conns_less)
  then obtain i b c where b: "se_conns s ! h = (i, b)" "bk_Conn b = Some c" by (cases "se_conns s ! h") auto
  have "Done r t = give_back w (Some h) s" using assms h by simp
  with h b push [of h i b c] show ?thesis by (simp add: give_back_def Let_def)
qed

lemma give_node_ok:
  assumes "others_ok w" and "server_ok (se_proxy s)"
  shows "server_ok (snd (at_node i (give_node w s b c) (se_proxy (next_access w s))))"
    and "prefix (store_names (se_proxy s)) (store_names (snd (at_node i (give_node w s b c) (se_proxy (next_access w s)))))"
proof -
  let ?sv = "se_proxy (next_access w s)" and ?push = "give_node w s b c"
  have n: "prefix (store_names ?sv) (store_names (snd (at_node i ?push ?sv)))" "sv_nodes (snd (at_node i ?push ?sv)) = sv_nodes ?sv"
    "sv_schemas (snd (at_node i ?push ?sv)) = sv_schemas ?sv" by (rule at_node_names, rule push_Cfg)+
  have "server_ok ?sv" "prefix (store_names (se_proxy s)) (store_names ?sv)"
    using assms by (simp_all add: others_ok_def next_access_def)
  with n show "server_ok (snd (at_node i ?push ?sv))" "prefix (store_names (se_proxy s)) (store_names (snd (at_node i ?push ?sv)))"
    by (auto intro: server_ok_names prefix_order.trans)
qed

lemma give_back_effect:
  assumes "others_ok w" and "give_back w co s = Done r t"
  shows "r = Inr ()" and "set (open_conns t) = set (open_conns s) - set_option co" and "se_txConns t = se_txConns s"
    and "cl_status t = cl_status s" and "se_schema t = se_schema s"
    and "server_ok (se_proxy s) \<Longrightarrow> server_ok (se_proxy t) \<and> prefix (store_names (se_proxy s)) (store_names (se_proxy t))"
proof -
  have "r = Inr () \<and> set (open_conns t) = set (open_conns s) - set_option co \<and> se_txConns t = se_txConns s
    \<and> cl_status t = cl_status s \<and> se_schema t = se_schema s
    \<and> (server_ok (se_proxy s) \<longrightarrow> server_ok (se_proxy t) \<and> prefix (store_names (se_proxy s)) (store_names (se_proxy t)))"
    using assms(2)
  proof (cases rule: give_back_cases)
    case (push h i b c)
    have "open_conns t = open_conns (s\<lparr>se_conns := (se_conns s)[h := (i, b\<lparr>bk_Conn := None\<rparr>)]\<rparr>)"
      using push by (simp add: next_access_def open_conns_def)
    then have "set (open_conns t) = set (open_conns s) - {h}" using push by (simp add: open_conns_update)
    with push give_node_ok [OF assms(1)] show ?thesis by (simp add: next_access_def)
  qed auto
  then show "r = Inr ()" "set (open_conns t) = set (open_conns s) - set_option co" "se_txConns t = se_txConns s"
    "cl_status t = cl_status s" "se_schema t = se_schema s"
    "server_ok (se_proxy s) \<Longrightarrow> server_ok (se_proxy t) \<and> prefix (store_names (se_proxy s)) (store_names (se_proxy t))" by blast+
qed

text \<open>Outside of a transaction a statement gives its connections back; in a transaction they are kept.\<close>

lemma give_back_owned:
  assumes "others_ok w" and "\<not> tx"
  shows "triple (own tx X H K) (give_back w co) (\<lambda>_. own tx (X - set_option co) (H - set_option co) K)"
proof (rule tripleI)
  fix s r t assume s: "own tx X H K s" and t: "give_back w co s = Done r t"
  note e = give_back_effect [OF assms(1) t]
  from s assms(2) e show "own tx (X - set_option co) (H - set_option co) K t"
    by (auto simp: own_def isInTransaction_def isAutoCommit_def intro: named_mono)
qed

section \<open>The end of a transaction\<close>

text \<open>While the connections of a transaction are given back, only those still to come are open.\<close>

definition ending :: "(nat \<times> nat) list \<Rightarrow> session \<Rightarrow> bool" where
  "ending L s \<longleftrightarrow> set (open_conns s) \<subseteq> snd ` set L \<and> server_ok (se_proxy s) \<and> schema_ok (se_schema s)"

lemma ending_view: "ending L s \<Longrightarrow> view t = view s \<Longrightarrow> ending L t"
  by (simp add: ending_def view_def)

lemma quiet_ending: "quiet m \<Longrightarrow> skeeps (ending L) m"
  unfolding skeeps_def by (rule tripleI) (blast intro: ending_view dest: preservesD)

lemma give_back_ending: "others_ok w \<Longrightarrow> triple (ending ((n, h) # L)) (give_back w (Some h)) (\<lambda>_. ending L)"
  by (rule tripleI, frule (1) give_back_effect(2), frule (1) give_back_effect(5), drule (1) give_back_effect(6)) (auto simp: ending_def)

lemma end_all_ending:
  assumes "others_ok w"
  shows "yields (ending L) (end_all w m L err) (\<lambda>_. ending [])"
proof (induction L arbitrary: err)
  case Nil
  show ?case by (auto intro: yields_skeeps skeep)
next
  case (Cons p L)
  obtain n h where p: "p = (n, h)" by force
  show ?case unfolding p end_all.simps
    by (intro yields_stry_keeps quiet_ending quiets yields_sbind [OF _ Cons.IH] yieldsI)
       (use give_back_ending [OF assms] in \<open>blast dest: tripleD\<close>)
qed

lemma give_back_ok: "give_back w co s = Done r t \<Longrightarrow> r = Inr ()"
  by (auto simp: give_back_def Let_def split: option.splits if_splits prod.splits)

lemma end_all_panics: "end_all w m L err s = Done (Inl e) t \<Longrightarrow> \<exists>p. e = Panic p"
proof (induction L arbitrary: err s)
  case (Cons p L)
  then show ?case
    by (cases p) (auto simp: stry_def split: outcome.splits sum.splits fail.splits elim!: sbind_DoneE dest: give_back_ok)
qed (simp add: sret_def)

lemma ending_own:
  assumes "ending [] s" and "se_txConns s = []"
  shows "own (isInTransaction s) {} {} [] s"
  using assms by (auto simp: own_def ending_def tx_handles_def named_def)

text \<open>The invariant of a session between two commands.\<close>

definition session_ok :: "session \<Rightarrow> bool" where
  "session_ok s \<longleftrightarrow> set (open_conns s) = tx_handles s \<and> (isInTransaction s \<or> se_txConns s = []) \<and> distinct (map fst (se_txConns s))
     \<and> server_ok (se_proxy s) \<and> schema_ok (se_schema s)"

lemma session_ok_own: "session_ok s \<longleftrightarrow> own (isInTransaction s) {} {} [] s"
  by (auto simp: session_ok_def own_def named_def tx_handles_def)

definition orders_ok :: "'f world \<Rightarrow> bool" where
  "orders_ok w \<longleftrightarrow> map_order (w_txConns w) \<and> map_order (w_conns w) \<and> map_order (w_indexs w)"

lemma session_ok_ending:
  assumes "session_ok s" and "orders_ok w"
  shows "ending (w_txConns w (se_txConns s)) s"
proof -
  have "distinct (se_txConns s)" using assms(1) by (auto simp: session_ok_own own_def distinct_map)
  with assms(2) have "set (w_txConns w (se_txConns s)) = set (se_txConns s)"
    by (auto simp: orders_ok_def map_orderD)
  with assms(1) show ?thesis by (auto simp: session_ok_own own_def ending_def tx_handles_def split: if_splits)
qed

lemma end_tx_settles:
  assumes "others_ok w" "orders_ok w"
  shows "settles session_ok (end_tx w m) session_ok"
  unfolding settles_def
proof (rule tripleI)
  fix s r u assume s: "session_ok s" and u: "end_tx w m s = Done r u"
  let ?s1 = "clear_flag SERVER_STATUS_IN_TRANS s"
  have "ending (w_txConns w (se_txConns s)) ?s1"
    using session_ok_ending [OF s assms(2)] by (simp add: ending_def clear_flag_def open_conns_def)
  then have e: "yields (\<lambda>t. t = ?s1) (end_all w m (w_txConns w (se_txConns s)) None) (\<lambda>_. ending [])"
    using end_all_ending [OF assms(1)] by (blast intro: yields_conseq)
  have tx: "se_txConns ?s1 = se_txConns s" by (simp add: clear_flag_def)
  from u tx consider p where "r = Inl (Panic p)" | err t where "end_all w m (w_txConns w (se_txConns s)) None ?s1 = Done (Inr err) t" "u = t\<lparr>se_txConns := []\<rparr>"
    | e where "r = Inl e" "end_all w m (w_txConns w (se_txConns s)) None ?s1 = Done (Inl e) u"
    by (auto simp: end_tx_def step_defs elim!: sbind_DoneE split: option.splits)
  then show "(\<exists>p. r = Inl (Panic p)) \<or> session_ok u"
  proof cases
    case (2 err t)
    with e have "ending [] t" by (blast dest: yieldsD)
    then have "ending [] u" using 2 by (simp add: ending_def open_conns_def)
    with 2 show ?thesis by (simp add: session_ok_own ending_own)
  next
    case (3 e)
    with end_all_panics have "\<exists>p. e = Panic p" by blast
    with 3 show ?thesis by blast
  qed auto
qed

lemma own_session_ok: "own tx {} {} K s \<Longrightarrow> session_ok s"
  by (auto simp: session_ok_def own_def tx_handles_def split: if_splits)

text \<open>A command is kept if it ends with the invariant, unless it returns an error.\<close>

definition kept :: "'a sess \<Rightarrow> bool" where
  "kept m \<longleftrightarrow> yields session_ok m (\<lambda>_. session_ok)"

lemma keptI: "(\<And>tx. yields (own tx {} {} []) m (\<lambda>_. session_ok)) \<Longrightarrow> kept m"
  unfolding kept_def by (rule yieldsI) (metis session_ok_own yieldsD)

lemma keptD: "kept m \<Longrightarrow> yields (own tx {} {} K) m (\<lambda>_. session_ok)"
  unfolding kept_def by (erule yields_conseq) (auto intro: own_session_ok)

lemma quiet_session: "quiet m \<Longrightarrow> skeeps session_ok m"
  unfolding skeeps_def
  by (rule tripleI, drule (1) preservesD) (auto simp: session_ok_def view_def tx_handles_def isInTransaction_def isAutoCommit_def)

named_theorems kept_rules \<open>compositions of commands\<close>
named_theorems kepts \<open>commands that keep the invariant\<close>

lemma kept_quiet: "quiet m \<Longrightarrow> kept m"
  unfolding kept_def by (rule yields_skeeps) (rule quiet_session)

lemma kept_sbind [kept_rules]: "kept m \<Longrightarrow> (\<And>x. kept (f x)) \<Longrightarrow> kept (sbind m f)"
  unfolding kept_def by (rule yields_sbind)

lemma kept_stry_fails: "kept m \<Longrightarrow> (\<And>x. kept (f (Inr x))) \<Longrightarrow> (\<And>e. yields (\<lambda>_. True) (f (Inl e)) (\<lambda>_. session_ok)) \<Longrightarrow> kept (stry m f)"
  unfolding kept_def by (rule yields_stry)

lemma kept_srecover [kept_rules]: "kept m \<Longrightarrow> kept (srecover e m)"
  unfolding kept_def by (rule yields_srecover)

lemma kept_cases [kept_rules]:
  "(b \<Longrightarrow> kept m) \<Longrightarrow> (\<not> b \<Longrightarrow> kept n) \<Longrightarrow> kept (if b then m else n)"
  "kept m \<Longrightarrow> (\<And>x. kept (f x)) \<Longrightarrow> kept (case v of None \<Rightarrow> m | Some x \<Rightarrow> f x)"
  "(\<And>x. kept (g x)) \<Longrightarrow> (\<And>x. kept (h x)) \<Longrightarrow> kept (case u of Inl x \<Rightarrow> g x | Inr x \<Rightarrow> h x)"
  "(\<And>x y. kept (k x y)) \<Longrightarrow> kept (case p of (x, y) \<Rightarrow> k x y)"
  by (simp_all split: option.split sum.split prod.split)

section \<open>Transactions\<close>

lemma has_flag_in_trans: "has_flag (st OR SERVER_STATUS_IN_TRANS) SERVER_STATUS_IN_TRANS"
  by (auto simp: has_flag_def and_one_eq or_one_eq odd_iff_mod_2_eq_one)

lemma has_flag_cleared: "\<not> has_flag (st AND NOT flag) flag"
proof -
  have "st AND NOT flag AND flag = 0" by (rule bit_eqI) (auto simp: bit_simps)
  then show ?thesis by (simp add: has_flag_def and.assoc)
qed

lemma isInTransaction_set: "isInTransaction (set_flag SERVER_STATUS_IN_TRANS s)" "isInTransaction (clear_flag SERVER_STATUS_AUTOCOMMIT s)"
  using has_flag_in_trans has_flag_cleared [of "cl_status s" 2]
  by (simp_all add: isInTransaction_def isAutoCommit_def set_flag_def clear_flag_def)

lemma session_ok_status: "session_ok s \<Longrightarrow> isInTransaction (s\<lparr>cl_status := st\<rparr>) \<or> se_txConns s = [] \<Longrightarrow> session_ok (s\<lparr>cl_status := st\<rparr>)"
  by (simp add: session_ok_def tx_handles_def open_conns_def)

lemma kept_flags [kepts]: "kept (supd (set_flag SERVER_STATUS_IN_TRANS))" "kept (supd (clear_flag SERVER_STATUS_AUTOCOMMIT))"
  using isInTransaction_set
  by (auto simp: kept_def supd_def set_flag_def clear_flag_def intro!: yieldsI session_ok_status)

lemma kept_begin [kepts]: "kept (handleBegin w)"
  unfolding handleBegin_def by (intro kept_rules kepts quiets [THEN kept_quiet])

lemma kept_end [kepts]:
  assumes "others_ok w" "orders_ok w"
  shows "kept (handleCommit w)" "kept (handleRollback w)"
proof -
  have "kept (end_tx w m)" for m unfolding kept_def by (rule yields_settles, rule end_tx_settles, rule assms(1), rule assms(2))
  then show "kept (handleCommit w)" "kept (handleRollback w)"
    unfolding handleCommit_def handleRollback_def commit_def rollback_def by (blast intro: kept_sbind kept_quiet quiets)+
qed

lemma autocommit_all_ending:
  assumes "others_ok w"
  shows "yields (ending L) (autocommit_all w L) (\<lambda>_. ending [])"
proof (induction L)
  case Nil
  show ?case by (auto intro: yields_skeeps skeep)
next
  case (Cons p L)
  obtain n h where p: "p = (n, h)" by force
  have g: "yields (ending ((n, h) # L)) (give_back w (Some h)) (\<lambda>_. ending L)"
    using give_back_ending [OF assms] by (blast intro: yieldsI dest: tripleD)
  show ?case unfolding p autocommit_all.simps
    by (intro yields_stry_keeps quiet_ending quiets yields_sbind [OF g] yields_sum Cons.IH)
       (auto intro!: yieldsI simp: step_defs)
qed

lemma kept_autocommit [kepts]:
  assumes "others_ok w" "orders_ok w"
  shows "kept (handleSetAutoCommit w val)"
proof -
  let ?on = "sbind (supd (set_flag SERVER_STATUS_AUTOCOMMIT)) (\<lambda>_.
        sbind (supd (\<lambda>s. if has_flag (cl_status s) SERVER_STATUS_IN_TRANS then clear_flag SERVER_STATUS_IN_TRANS s else s)) (\<lambda>_.
        sbind (sget se_txConns) (\<lambda>tx.
        sbind (autocommit_all w (w_txConns w tx)) (\<lambda>_.
        sbind (supd (\<lambda>s. s\<lparr>se_txConns := []\<rparr>)) (\<lambda>_. sact (writeOK None))))))"
  have "kept ?on" unfolding kept_def
  proof (rule yieldsI)
    fix s x u assume s: "session_ok s" and u: "?on s = Done (Inr x) u"
    let ?f = "\<lambda>s. if has_flag (cl_status s) SERVER_STATUS_IN_TRANS then clear_flag SERVER_STATUS_IN_TRANS s else s"
    let ?s1 = "?f (set_flag SERVER_STATUS_AUTOCOMMIT s)"
    have tx: "se_txConns ?s1 = se_txConns s" by (simp add: set_flag_def clear_flag_def)
    have "ending (w_txConns w (se_txConns s)) ?s1"
      using session_ok_ending [OF s assms(2)] by (simp add: ending_def clear_flag_def set_flag_def open_conns_def)
    note e = yieldsD [OF autocommit_all_ending [OF assms(1)] this]
    from u tx obtain t where c: "autocommit_all w (w_txConns w (se_txConns s)) ?s1 = Done (Inr ()) t"
        and t: "sact (writeOK None) (t\<lparr>se_txConns := []\<rparr>) = Done (Inr x) u"
      by (auto simp: supd_def [of "se_txConns_update _"] elim!: sbind_DoneE)
    from e [OF c] have "ending [] (t\<lparr>se_txConns := []\<rparr>)" by (simp add: ending_def open_conns_def)
    then have "session_ok (t\<lparr>se_txConns := []\<rparr>)" by (simp add: session_ok_own ending_own)
    from skeepsD [OF quiet_session [OF holdings.preserves_writes(1)] this t] show "session_ok u" .
  qed
  then show ?thesis unfolding handleSetAutoCommit_def Let_def
    by (intro kept_cases; (assumption | intro kept_sbind kept_flags quiets [THEN kept_quiet]))
qed

section \<open>The connection of a statement\<close>

lemma own_quiet: "quiet m \<Longrightarrow> yields (own tx X H K) m (\<lambda>_. own tx X H K)"
  by (rule yields_skeeps) (rule quiet_keeps)

text \<open>A connection just taken belongs to the statement, or to the transaction after it has been entered there.\<close>

lemma own_taken: "own False {h} H K s \<Longrightarrow> own False {} (insert h H) K s"
  by (simp add: own_def)

lemma own_entered:
  assumes "own True {h} H K s" and "map_of (se_txConns s) i = None"
  shows "own True {} (insert h H) K (s\<lparr>se_txConns := se_txConns s @ [(i, h)]\<rparr>)"
  using assms by (auto simp: own_def tx_handles_def isInTransaction_def isAutoCommit_def open_conns_def map_of_eq_None_iff)

lemma own_known: "own True {} H K s \<Longrightarrow> map_of (se_txConns s) i = Some h \<Longrightarrow> own True {} (insert h H) K s"
  by (force simp: own_def tx_handles_def dest: map_of_SomeD)

definition got_conn :: "bool \<Rightarrow> nat set \<Rightarrow> (string \<times> nat) list \<Rightarrow> nat option \<times> goerr option \<Rightarrow> session \<Rightarrow> bool" where
  "got_conn tx H K p s \<longleftrightarrow> (case p of (Some h, None) \<Rightarrow> own tx {} (insert h H) K s | (None, None) \<Rightarrow> own tx {} H K s | _ \<Rightarrow> True)"

lemma take_conn_tx: "take_conn w get n s = Done r t \<Longrightarrow> se_txConns t = se_txConns s"
  by (auto simp: take_conn_def Let_def next_access_def split: option.splits if_splits prod.splits sum.splits)

lemma on_conn_tx: "on_conn h m s = Done r t \<Longrightarrow> se_txConns t = se_txConns s"
  using preservesD [OF holdings.preserves_on_conn] by (fastforce simp: view_def)

text \<open>In a transaction: a new connection is entered once \<open>Begin\<close> or \<open>SetAutoCommit\<close> succeeded.\<close>

lemma enter_taken:
  assumes "others_ok w" and i: "map_of L (the n) = None"
  shows "yields (\<lambda>s. own True {} H K s \<and> se_txConns s = L)
    (sbind (attempt (take_conn w GetMasterConn n)) (\<lambda>(co, err).
       case co of
         None \<Rightarrow> sret (None, err)
       | Some h \<Rightarrow>
           stry (on_conn h m) (\<lambda>r.
             case r of
               Inl e \<Rightarrow> sret (Some h, Some e)
             | Inr _ \<Rightarrow> sbind (supd (\<lambda>s. s\<lparr>se_txConns := se_txConns s @ [(the n, h)]\<rparr>)) (\<lambda>_. sret (Some h, None))))) (got_conn True H K)"
  (is "yields _ (sbind ?take ?enter) _")
proof (rule yields_sbind)
  let ?taken = "\<lambda>p s. case p of (Some h, None) \<Rightarrow> own True {h} H K s \<and> se_txConns s = L | (None, Some _) \<Rightarrow> True | _ \<Rightarrow> False"
  have t: "own True {h} H K t \<and> se_txConns t = se_txConns s" if "take_conn w GetMasterConn n s = Done (Inr h) t" "own True {} H K s" for s h t
    using tripleD [OF master.take_conn_owned [OF assms(1)] that(2,1)] take_conn_tx [OF that(1)] by simp
  show "yields (\<lambda>s. own True {} H K s \<and> se_txConns s = L) ?take ?taken"
    unfolding attempt_def
    by (rule yieldsI) (auto simp: stry_def step_defs dest: t
      split: outcome.splits sum.splits fail.splits)
  have h: "yields (\<lambda>s. own True {h} H K s \<and> se_txConns s = L) (?enter (Some h, None)) (got_conn True H K)" for h
  proof -
    have e: "yields (\<lambda>s. own True {h} H K s \<and> se_txConns s = L) (supd (\<lambda>s. s\<lparr>se_txConns := se_txConns s @ [(the n, h)]\<rparr>)) (\<lambda>_. own True {} (insert h H) K)"
      by (rule yieldsI) (use i in \<open>auto simp: supd_def intro: own_entered\<close>)
    have c: "skeeps (\<lambda>s. own True {h} H K s \<and> se_txConns s = L) (on_conn h m)"
      unfolding skeeps_def
      by (rule tripleI) (auto simp: on_conn_tx elim: skeepsD [OF quiet_keeps [OF holdings.preserves_on_conn]])
    show ?thesis
      by (simp, intro yields_stry_keeps c yields_sum yields_sbind [OF e]) (auto intro!: yieldsI simp: step_defs got_conn_def)
  qed
  show "yields (?taken p) (?enter p) (got_conn True H K)" for p
    using h by (cases p; cases "fst p"; cases "snd p") (auto intro!: yieldsI simp: step_defs got_conn_def)
qed

lemma attempt_master:
  assumes "others_ok w"
  shows "yields (own False {} H K) (attempt (take_conn w GetMasterConn n)) (got_conn False H K)"
  by (rule yields_conseq [OF master.attempt_taken [OF assms]])
     (auto simp: got_conn_def intro: own_taken split: option.splits)

lemma attempt_slave:
  assumes "others_ok w"
  shows "yields (own False {} H K) (stry (take_conn w GetSlaveConn n) (\<lambda>r.
    case r of Inl e \<Rightarrow> attempt (take_conn w GetMasterConn n) | Inr h \<Rightarrow> sret (Some h, None))) (got_conn False H K)"
  by (rule yields_stry_triple [OF slave.take_conn_owned [OF assms]])
     (auto simp: got_conn_def intro!: yields_sret own_taken attempt_master assms)

lemma choose_conn_owned:
  assumes "others_ok w"
  shows "yields (own tx {} H K) (choose_conn w n fromSlave) (got_conn tx H K)"
  unfolding choose_conn_def
proof (rule yields_sget, unfold id_apply, goal_cases)
  case (1 s)
  then have tx: "isInTransaction s = tx" by (simp add: own_def)
  show ?case
  proof (cases tx)
    case False
    with tx have "tx = False" "isInTransaction s = False" by simp_all
    then show ?thesis
      by (simp only: not_False_eq_True if_True) (intro yields_if; rule yields_weak_pre, rule attempt_slave attempt_master, simp_all add: assms)
  next
    case True
    show ?thesis
    proof (cases "case n of None \<Rightarrow> None | Some i \<Rightarrow> map_of (se_txConns s) i")
      case (Some h)
      with True tx 1 show ?thesis by (auto intro!: yieldsI simp: step_defs got_conn_def intro: own_known split: option.splits)
    next
      case None
      show ?thesis
      proof (cases "n = None")
        case True
        then show ?thesis using \<open>tx\<close> tx
          by (auto intro!: yieldsI simp: sbind_def attempt_def stry_def take_conn_def Let_def)
      next
        case False
        with None have "map_of (se_txConns s) (the n) = None" by auto
        with None True tx show ?thesis
          by (simp only: not_True_eq_False if_False option.case(1)) (rule yields_weak_pre, rule enter_taken [OF assms], simp_all)
      qed
    qed
  qed
qed

lemma getBackendConn_owned:
  assumes "others_ok w"
  shows "yields (own tx {} H K) (getBackendConn w n fromSlave) (\<lambda>p s. got_conn tx H K p s \<and> p \<noteq> (None, None))"
  unfolding getBackendConn_def
proof (rule yields_sbind [OF choose_conn_owned [OF assms]], rule yields_prod, hypsubst)
  fix co :: "nat option" and err :: "goerr option"
  let ?use = "\<lambda>h. sbind (sget id) (\<lambda>s.
           stry (on_conn h (UseDB (cl_db s))) (\<lambda>r.
             case r of
               Inl e \<Rightarrow> sbind (supd (\<lambda>s. s\<lparr>cl_db := []\<rparr>)) (\<lambda>_. sret (co, Some e))
             | Inr _ \<Rightarrow>
                 stry (on_conn h (SetCharset (w_fo w) (cl_charset s) (cl_collation s))) (\<lambda>r.
                   case r of Inl e \<Rightarrow> sret (co, Some e) | Inr _ \<Rightarrow> sret (co, None))))"
  show "yields (got_conn tx H K (co, err)) (case (err, co) of
         (Some e, _) \<Rightarrow> sret (co, Some e)
       | (None, None) \<Rightarrow> slift (Inl (Panic NilDereference))
       | (None, Some h) \<Rightarrow> ?use h) (\<lambda>p s. got_conn tx H K p s \<and> p \<noteq> (None, None))"
  proof (cases "err = None \<and> co \<noteq> None")
    case False
    then show ?thesis by (cases err; cases co) (auto intro!: yieldsI simp: step_defs got_conn_def)
  next
    case True
    then obtain h where h: "co = Some h" "err = None" by auto
    have k: "skeeps (own tx {} (insert h H) K) (?use h)" by (intro skeep quiets [THEN quiet_keeps])
    have f: "fst p = co" if "?use h s = Done (Inr p) t" for s p t
      using that by (auto simp: stry_def step_defs elim!: sbind_DoneE split: outcome.splits sum.splits fail.splits)
    have "yields (own tx {} (insert h H) K) (?use h) (\<lambda>p s. got_conn tx H K p s \<and> p \<noteq> (None, None))"
    proof (rule yieldsI)
      fix s p t assume "own tx {} (insert h H) K s" and u: "?use h s = Done (Inr p) t"
      from skeepsD [OF k this] f [OF u] h(1) show "got_conn tx H K p t \<and> p \<noteq> (None, None)"
        by (cases p) (auto simp: got_conn_def split: option.splits)
    qed
    moreover have "got_conn tx H K (co, err) = own tx {} (insert h H) K" using h by (simp add: got_conn_def fun_eq_iff)
    ultimately show ?thesis using h(2) by (simp only: h(1) prod.case option.case)
  qed
qed

section \<open>Closing\<close>

lemma own_tx_fewer: "own True X H K s \<Longrightarrow> H' \<subseteq> H \<Longrightarrow> own True X H' K s"
  by (auto simp: own_def)

lemma own_fewer_names: "own tx X H K s \<Longrightarrow> set K' \<subseteq> set K \<Longrightarrow> own tx X H K' s"
  by (auto simp: own_def named_def list_all_iff)

lemma closeConn_owned:
  assumes "others_ok w"
  shows "triple (own tx {} H K) (client_closeConn w co False) (\<lambda>_. own tx {} (H - set_option co) K)"
proof (rule tripleI)
  fix s r t assume s: "own tx {} H K s" and t: "client_closeConn w co False s = Done r t"
  from s have tx: "isInTransaction s = tx" by (simp add: own_def)
  show "own tx {} (H - set_option co) K t"
  proof (cases tx)
    case True
    with t tx s show ?thesis by (auto simp: client_closeConn_def step_defs intro: own_tx_fewer)
  next
    case False
    with t tx obtain q where "give_back w co s = Done q t"
      by (auto simp: client_closeConn_def sdefer_def step_defs split: outcome.splits sum.splits fail.splits)
    from tripleD [OF give_back_owned [OF assms False] s this] show ?thesis by simp
  qed
qed

lemma close_all_owned:
  assumes "others_ok w"
  shows "triple (own False {} H K) (close_all w False conns) (\<lambda>_. own False {} (H - snd ` set conns) K)"
proof (induction conns arbitrary: H)
  case Nil
  show ?case by (rule tripleI) (simp add: step_defs)
next
  case (Cons c conns)
  obtain name h where c: "c = (name, h)" by force
  have g: "triple (own False {} H K) (give_back w (Some h)) (\<lambda>_. own False {} (H - {h}) K)"
    using give_back_owned [OF assms, of False "{}" H K "Some h"] by simp
  show ?case
  proof (rule tripleI)
    fix s r u assume s: "own False {} H K s" and u: "close_all w False (c # conns) s = Done r u"
    from u c obtain t where t: "give_back w (Some h) s = Done (Inr ()) t" "close_all w False conns t = Done r u"
      by (auto elim!: sbind_DoneE dest: give_back_ok)
    have "H - snd ` set (c # conns) = H - {h} - snd ` set conns" using c by auto
    with tripleD [OF Cons.IH tripleD [OF g s t(1)] t(2)] show "own False {} (H - snd ` set (c # conns)) K u" by simp
  qed
qed

lemma closeShardConns_owned:
  assumes "others_ok w" "orders_ok w" "distinct conns"
  shows "triple (own tx {} (snd ` set conns) K) (closeShardConns w conns False) (\<lambda>_. own tx {} {} K)"
proof (rule tripleI)
  fix s r t assume s: "own tx {} (snd ` set conns) K s" and t: "closeShardConns w conns False s = Done r t"
  from s have tx: "isInTransaction s = tx" by (simp add: own_def)
  have "set (w_conns w conns) = set conns" using assms by (simp add: orders_ok_def map_orderD)
  with t tx s tripleD [OF close_all_owned [OF assms(1)], of "snd ` set conns" K s "w_conns w conns" r t] show "own tx {} {} K t"
    by (cases tx) (auto simp: closeShardConns_def step_defs intro: own_tx_fewer)
qed

text \<open>A statement on one connection.\<close>

lemma with_conn_owned:
  assumes "others_ok w" and "\<And>h. yields (own tx {} {h} []) (f h) (\<lambda>_ s. own tx {} {h} [] s \<or> own tx {} {} [] s)"
  shows "yields (own tx {} {} []) (with_conn w n fromSlave wrap f) (\<lambda>_. own tx {} {} [])"
  unfolding with_conn_def
proof (rule yields_sbind [OF getBackendConn_owned [OF assms(1)]], rule yields_prod, hypsubst)
  fix co :: "nat option" and err :: "goerr option"
  have d: "triple (\<lambda>s. own tx {} {h} [] s \<or> own tx {} {} [] s) (client_closeConn w (Some h) False) (\<lambda>_. own tx {} {} [])" for h
    by (rule tripleI) (auto dest: tripleD [OF closeConn_owned [OF assms(1)]])
  show "yields (\<lambda>s. got_conn tx {} [] (co, err) s \<and> (co, err) \<noteq> (None, None))
    (sdefer (client_closeConn w co False) (case (err, co) of
            (Some e, _) \<Rightarrow> sfail (wrap e)
          | (None, Some h) \<Rightarrow> f h
          | (None, None) \<Rightarrow> slift (Inl (Panic NilDereference)))) (\<lambda>_. own tx {} {} [])"
  proof (cases "err = None \<and> co \<noteq> None")
    case False
    then show ?thesis by (cases err; cases co) (auto intro!: yieldsI simp: step_defs sdefer_def split: outcome.splits sum.splits fail.splits)
  next
    case True
    then obtain h where h: "co = Some h" "err = None" by auto
    have "yields (own tx {} {h} []) (sdefer (client_closeConn w (Some h) False) (f h)) (\<lambda>_. own tx {} {} [])"
      by (rule yields_sdefer [OF assms(2) d])
    with h show ?thesis by (simp add: got_conn_def)
  qed
qed

lemma kept_with_conn:
  assumes "others_ok w" and "\<And>h. quiet (f h)"
  shows "kept (with_conn w n fromSlave wrap f)"
proof (rule keptI)
  fix tx
  have "yields (own tx {} {h} []) (f h) (\<lambda>_ s. own tx {} {h} [] s \<or> own tx {} {} [] s)" for h
    by (rule yields_conseq [OF own_quiet [OF assms(2)]]) auto
  then show "yields (own tx {} {} []) (with_conn w n fromSlave wrap f) (\<lambda>_. session_ok)"
    by (auto intro: yields_conseq [OF with_conn_owned [OF assms(1)]] own_session_ok)
qed

section \<open>The connections of a plan\<close>

lemma getBackendConn_None: "getBackendConn w None fromSlave s \<noteq> Done (Inr p) t"
  by (simp add: getBackendConn_def choose_conn_def attempt_def take_conn_def stry_def sbind_def sget_def Let_def split: outcome.splits)

lemma node_name_named: "own tx X H K s \<Longrightarrow> (name, i) \<in> set K \<Longrightarrow> node_name s (Some i) = name"
  by (auto simp: own_def named_def list_all_iff node_name_def store_names_def)

definition got_conns :: "bool \<Rightarrow> (string \<times> nat) list \<times> goerr option \<Rightarrow> session \<Rightarrow> bool" where
  "got_conns tx p s \<longleftrightarrow> (snd p = None \<longrightarrow> distinct (map fst (fst p)) \<and> own tx {} (snd ` set (fst p)) [] s)"

lemma shard_conns_owned:
  assumes "others_ok w"
  shows "list_all2 (\<lambda>n name. \<forall>i. n = Some i \<longrightarrow> (name, i) \<in> set K) ns names \<Longrightarrow> distinct names \<Longrightarrow> set names \<inter> fst ` set conns = {}
    \<Longrightarrow> distinct (map fst conns)
    \<Longrightarrow> yields (own tx {} (snd ` set conns) K) (shard_conns w fromSlave ns conns) (got_conns tx)"
proof (induction ns names arbitrary: conns rule: list_all2_induct)
  case Nil
  then show ?case by (auto intro!: yields_sret simp: got_conns_def intro: own_fewer_names [where K = K])
next
  case (Cons n ns name names)
  show ?case
  proof (cases n)
    case None
    then show ?thesis by (auto intro!: yieldsI elim!: sbind_DoneE simp: getBackendConn_None)
  next
    case (Some i)
    with Cons.hyps have K: "(name, i) \<in> set K" by simp
    have next': "yields (own tx {} (insert h (snd ` set conns)) K)
      (sbind (sget (\<lambda>s. node_name s n)) (\<lambda>name. shard_conns w fromSlave ns (AList.update name h conns))) (got_conns tx)" for h
    proof (rule yields_sget)
      fix s assume "own tx {} (insert h (snd ` set conns)) K s"
      then have name: "node_name s n = name" using K Some by (simp add: node_name_named)
      have fresh: "AList.update name h conns = conns @ [(name, h)]" using Cons.prems by (intro AList_update_fresh) auto
      have "yields (own tx {} (snd ` set (conns @ [(name, h)])) K) (shard_conns w fromSlave ns (conns @ [(name, h)])) (got_conns tx)"
        by (rule Cons.IH) (use Cons.prems in auto)
      then show "yields (\<lambda>t. own tx {} (insert h (snd ` set conns)) K t \<and> node_name t n = node_name s n)
        (shard_conns w fromSlave ns (AList.update (node_name s n) h conns)) (got_conns tx)"
        unfolding name fresh by (rule yields_weak_pre) simp
    qed
    show ?thesis unfolding shard_conns.simps
    proof (rule yields_sbind [OF getBackendConn_owned [OF assms]], rule yields_prod, hypsubst)
      fix co :: "nat option" and err :: "goerr option"
      show "yields (\<lambda>s. got_conn tx (snd ` set conns) K (co, err) s \<and> (co, err) \<noteq> (None, None)) (case (err, co) of
           (None, Some h) \<Rightarrow>
             sbind (sget (\<lambda>s. node_name s n)) (\<lambda>name. shard_conns w fromSlave ns (AList.update name h conns))
         | _ \<Rightarrow> sret (conns, err)) (got_conns tx)"
        using next' by (cases err; cases co) (auto intro!: yields_sret simp: got_conns_def got_conn_def)
    qed
  qed
qed

end
