(* ===== verification/Session_Inv.thy ===== *)
theory Session_Inv
  imports Ownership
begin

text \<open>
  Every command that succeeds leaves the session with the connections of its transaction and no others: the plans, the handlers,
  the commands of the administrator, the dispatch and the life of a session.
\<close>

section \<open>Plans\<close>

text \<open>A plan names every node once.\<close>

definition plan_ok :: "plan \<Rightarrow> bool" where
  "plan_ok plan \<longleftrightarrow> distinct (p_RouteNodeIndexs plan) \<and> distinct (r_Nodes (p_Rule plan))"

lemma plan_names_distinct:
  assumes "plan_ok plan" and "rmap (at_index (r_Nodes (p_Rule plan))) (p_RouteNodeIndexs plan) = Inr names"
  shows "distinct names"
proof -
  let ?ns = "r_Nodes (p_Rule plan)" and ?is = "p_RouteNodeIndexs plan"
  from assms(2) have r: "list_all2 (\<lambda>i n. at_index ?ns i = Inr n) ?is names" by (simp add: rmap_Inr_list_all2)
  then have l: "length names = length ?is" by (simp add: list_all2_lengthD)
  show ?thesis unfolding distinct_conv_nth
  proof (intro allI impI notI)
    fix a b assume ab: "a < length names" "b < length names" "a \<noteq> b" "names ! a = names ! b"
    from r ab l have "at_index ?ns (?is ! a) = Inr (names ! a)" "at_index ?ns (?is ! b) = Inr (names ! b)"
      by (simp_all add: list_all2_conv_all_nth)
    with assms(1) ab(4) have "?is ! a = ?is ! b"
      by (auto simp: plan_ok_def at_index_Inr_iff nth_eq_iff_index_eq)
    with assms(1) ab l show False by (simp add: plan_ok_def nth_eq_iff_index_eq)
  qed
qed

lemma getShardConns_owned:
  assumes "others_ok w" and "plan_ok plan"
  shows "yields (own tx {} {} []) (getShardConns w fromSlave plan)
    (\<lambda>(conns, err) s. err = None \<longrightarrow> (\<exists>c. conns = Some c \<and> distinct (map fst c) \<and> own tx {} (snd ` set c) [] s))"
  (is "yields _ _ ?Q")
proof (cases "p_RouteNodeIndexs plan = []")
  case True
  then show ?thesis by (auto intro!: yields_sret simp: getShardConns_def)
next
  case False
  let ?names = "rmap (at_index (r_Nodes (p_Rule plan))) (p_RouteNodeIndexs plan)"
  let ?K = "\<lambda>s names. concat (map (\<lambda>name. case GetNode (se_proxy s) name of None \<Rightarrow> [] | Some i \<Rightarrow> [(name, i)]) names)"
  show ?thesis
  proof (cases ?names)
    case (Inl e)
    with False show ?thesis by (auto intro!: yieldsI simp: getShardConns_def)
  next
    case (Inr names)
    have shards: "yields (\<lambda>t. own tx {} {} [] t \<and> t = s) (sbind (shard_conns w fromSlave (map (GetNode (se_proxy s)) names) []) (\<lambda>(conns, err). sret (Some conns, err))) ?Q"
      if s: "own tx {} {} [] s" for s
    proof -
      have "own tx {} {} (?K s names) s"
        using s by (auto simp: own_def named_def list_all_iff split: option.splits dest!: GetNode_named)
      moreover have "list_all2 (\<lambda>n name. \<forall>i. n = Some i \<longrightarrow> (name, i) \<in> set (?K s names)) (map (GetNode (se_proxy s)) names) names"
        by (force simp: list_all2_conv_all_nth in_set_conv_nth split: option.splits)
      then have "yields (own tx {} {} (?K s names)) (shard_conns w fromSlave (map (GetNode (se_proxy s)) names) []) (got_conns tx)"
        using shard_conns_owned [OF assms(1), of "?K s names" _ names "[]" tx] plan_names_distinct [OF assms(2) Inr] by simp
      ultimately have "yields (\<lambda>t. own tx {} {} [] t \<and> t = s) (shard_conns w fromSlave (map (GetNode (se_proxy s)) names) []) (got_conns tx)"
        by (auto elim: yields_weak_pre)
      then show ?thesis by (rule yields_sbind) (auto intro!: yields_prod yields_sret simp: got_conns_def)
    qed
    have lift: "sbind (slift (Inr names)) f = f names" for f :: "string list \<Rightarrow> ((string \<times> nat) list option \<times> goerr option) sess"
      by (rule ext) simp
    show ?thesis unfolding getShardConns_def Inr lift
      by (rule yields_if, simp add: False, rule yields_sget, unfold Let_def id_apply,
          rule yields_if, auto intro!: yields_sret shards)
  qed
qed

lemma generate_sqls_plan:
  "generate_sqls r plan whole f = Inr plan' \<Longrightarrow> p_RouteNodeIndexs plan' = p_RouteNodeIndexs plan \<and> p_Rule plan' = p_Rule plan"
  by (auto simp: generate_sqls_def rbind_eq_Inr_iff split: if_splits)

lemma plan_ok_generate: "plan_ok plan \<Longrightarrow> generate_sqls r plan whole f = Inr plan' \<Longrightarrow> plan_ok plan'"
  by (drule generate_sqls_plan) (simp add: plan_ok_def)

lemma all_tables_ok: "distinct (r_Nodes (p_Rule plan)) \<Longrightarrow> all_tables plan = Inr plan' \<Longrightarrow> plan_ok plan'"
  by (auto simp: all_tables_def plan_ok_def rbind_eq_Inr_iff makeList_def split: if_splits)

lemma calRouteIndexs_ok:
  assumes "distinct (r_Nodes (p_Rule plan))" and "calRouteIndexs mo loc plan = Inr plan'" and "map_order mo"
  shows "plan_ok plan'"
proof -
  have ins: "p_Rule p' = p_Rule p" if "getInsertTableIndex mo loc p vals = Inr (l, p')" for p vals l p'
    using that by (auto simp: getInsertTableIndex_def rbind_eq_Inr_iff)
  from assms show ?thesis
    by (auto simp: calRouteIndexs_def plan_ok_def rbind_eq_Inr_iff makeList_def TindexsToNindexs_def distinct_cleanList
        dest: ins route_rule split: if_splits option.splits criteria.splits)
qed

lemma route_where_ok:
  assumes "distinct (r_Nodes (p_Rule plan))" and "route_where mo loc plan wh = Inr (plan', wh')" and "map_order mo"
  shows "plan_ok plan'"
  using assms
  by (auto simp: route_where_def check_tables_def rbind_eq_Inr_iff split: option.splits if_splits
      intro: calRouteIndexs_ok all_tables_ok dest: calRouteIndexs_ok [rotated] all_tables_ok [rotated])

lemma BuildPlan_ok:
  assumes "nodes_once r" and "map_order mo" and "BuildPlan mo loc r db stmt = (r', p)"
  shows "nodes_once r' \<and> (\<forall>plan. p = Inr plan \<longrightarrow> plan_ok plan)"
proof -
  have g: "nodes_once r'' \<and> distinct (r_Nodes rule)" if "GetRule r d t = (rule, r'')" for d t rule r''
    using nodes_once_rule [OF assms(1) that] by simp
  have new: "p_Rule (new_plan rule) = rule" for rule by (simp add: new_plan_def)
  have wh: "plan_ok plan'" if "distinct (r_Nodes rule)" "route_where mo loc (new_plan rule) x = Inr (plan', y)" for rule x plan' y
    using route_where_ok [OF _ that(2) assms(2)] that(1) new by simp
  have rows: "plan_ok plan'" if "distinct (r_Nodes rule)" "GetIRKeyIndex (new_plan rule) cols = Inr plan" "route_rows mo loc plan vals = Inr plan'"
    for rule cols plan vals plan'
  proof -
    have p: "p_Rule plan = rule" using that(2) new by (auto simp: GetIRKeyIndex_def rbind_eq_Inr_iff split: if_splits)
    from that(3) obtain vs where "calRouteIndexs mo loc (plan\<lparr>p_Criteria := Some (CritValues vs)\<rparr>) = Inr plan'"
      by (auto simp: route_rows_def rbind_eq_Inr_iff)
    from calRouteIndexs_ok [OF _ this assms(2)] that(1) p show ?thesis by simp
  qed
  have all: "plan_ok plan'" if "distinct (r_Nodes rule)" "all_tables (new_plan rule) = Inr plan" "check_tables plan = Inr plan'" for rule plan plan'
    using all_tables_ok [OF _ that(2)] that new by (auto simp: check_tables_def split: if_splits)
  note gens = generateSelectSql_def generateUpdateSql_def generateDeleteSql_def generateTruncateSql_def generateInsertSql_def generateReplaceSql_def
  show ?thesis
  proof (cases stmt)
    case (SelectStmt s)
    with assms(1,3) show ?thesis
      by (auto simp: buildSelectPlan_def gens rbind_eq_Inr_iff dest!: g intro: plan_ok_generate [OF wh] split: sum.splits prod.splits)
  next
    case (UpdateStmt s)
    with assms(3) show ?thesis
      by (auto simp: buildUpdatePlan_def gens rbind_eq_Inr_iff dest!: g intro: plan_ok_generate [OF wh] split: prod.splits)
  next
    case (DeleteStmt s)
    with assms(3) show ?thesis
      by (auto simp: buildDeletePlan_def gens rbind_eq_Inr_iff dest!: g intro: plan_ok_generate [OF wh] split: prod.splits)
  next
    case (TruncateStmt s)
    with assms(3) show ?thesis
      by (auto simp: buildTruncatePlan_def gens rbind_eq_Inr_iff dest!: g intro: plan_ok_generate [OF all] split: prod.splits)
  next
    case (InsertStmt s)
    with assms(1,3) show ?thesis
      by (auto simp: buildInsertPlan_def gens rbind_eq_Inr_iff dest!: g intro: plan_ok_generate [OF rows] split: prod.splits insertrows.splits option.splits)
  next
    case (ReplaceStmt s)
    with assms(1,3) show ?thesis
      by (auto simp: buildReplacePlan_def gens rbind_eq_Inr_iff dest!: g intro: plan_ok_generate [OF rows] split: prod.splits insertrows.splits option.splits)
  qed (use assms(1,3) in auto)
qed

lemma own_schema: "own tx X H K s \<Longrightarrow> schema_ok sc \<Longrightarrow> own tx X H K (s\<lparr>se_schema := sc\<rparr>)"
  using open_conns_cong [of "s\<lparr>se_schema := sc\<rparr>" s]
  by (auto simp: own_def tx_handles_def isInTransaction_def isAutoCommit_def split: if_splits)

lemma build_plan_owned:
  assumes "orders_ok w"
  shows "yields (own tx {} {} K) (build_plan w stmt) (\<lambda>plan s. own tx {} {} K s \<and> plan_ok plan)"
  unfolding build_plan_def
proof (rule yields_sget, unfold id_apply, rule yields_option)
  fix s sc assume s: "own tx {} {} K s" and sc: "se_schema s = Some sc"
  then have r: "nodes_once (sc_rule sc)" by (simp add: own_def schema_ok_def)
  obtain r' p where p: "BuildPlan (w_indexs w) (w_loc w) (sc_rule sc) (cl_db s) stmt = (r', p)" by force
  from BuildPlan_ok [OF r _ p] assms have ok: "nodes_once r'" "\<And>plan. p = Inr plan \<Longrightarrow> plan_ok plan" by (auto simp: orders_ok_def)
  then show "yields (\<lambda>t. own tx {} {} K t \<and> t = s) (case BuildPlan (w_indexs w) (w_loc w) (sc_rule sc) (cl_db s) stmt of
              (r', p) \<Rightarrow> sbind (supd (\<lambda>s. s\<lparr>se_schema := Some (sc\<lparr>sc_rule := r'\<rparr>)\<rparr>)) (\<lambda>_. slift p)) (\<lambda>plan s. own tx {} {} K s \<and> plan_ok plan)"
    unfolding p by (auto intro!: yieldsI own_schema simp: step_defs schema_ok_def)
qed (auto intro!: yieldsI simp: step_defs)

text \<open>The common part of \<open>handleExec\<close> and \<open>handleSelect\<close>; their ends give the connections back.\<close>

lemma kept_planned:
  assumes "others_ok w" "orders_ok w"
    and run: "\<And>tx plan c. distinct (map fst c) \<Longrightarrow> yields (own tx {} (snd ` set c) []) (go plan (Some c) None) (\<lambda>_. session_ok)"
    and err: "\<And>plan conns e. yields (\<lambda>_. True) (go plan conns (Some e)) (\<lambda>_. session_ok)"
  shows "kept (sbind (build_plan w stmt) (\<lambda>plan. sbind (getShardConns w fromSlave plan) (\<lambda>(conns, err). go plan conns err)))"
proof (rule keptI, rule yields_sbind [OF build_plan_owned [OF assms(2)]])
  fix tx and plan :: plan
  let ?Q = "\<lambda>(conns, err) s. err = None \<longrightarrow> (\<exists>c. conns = Some c \<and> distinct (map fst c) \<and> own tx {} (snd ` set c) [] s)"
  have r: "yields (?Q (conns, e)) (go plan conns e) (\<lambda>_. session_ok)" for conns and e :: "goerr option"
  proof (cases e)
    case None
    then show ?thesis by (auto intro!: yieldsI dest: yieldsD [OF run])
  next
    case (Some x)
    show ?thesis unfolding Some by (rule yields_weak_pre [OF err]) simp
  qed
  show "yields (\<lambda>s. own tx {} {} [] s \<and> plan_ok plan) (sbind (getShardConns w fromSlave plan) (\<lambda>(conns, err). go plan conns err)) (\<lambda>_. session_ok)"
  proof (cases "plan_ok plan")
    case True
    have g: "yields (\<lambda>s. own tx {} {} [] s \<and> plan_ok plan) (getShardConns w fromSlave plan) ?Q"
      by (rule yields_weak_pre [OF getShardConns_owned [OF assms(1) True]]) simp
    show ?thesis by (rule yields_sbind [OF g]) (use r in \<open>auto split: prod.split\<close>)
  qed (auto intro: yieldsI)
qed

lemma closeShardConns_ok:
  assumes "others_ok w" "orders_ok w" "distinct (map fst c)"
  shows "triple (own tx {} (snd ` set c) []) (closeShardConns w c False) (\<lambda>_. session_ok)"
  using assms by (intro triple_conseq [OF closeShardConns_owned]) (auto simp: distinct_map intro: own_session_ok)

lemma kept_handleExec [kepts]:
  assumes "others_ok w" "orders_ok w"
  shows "kept (handleExec w stmt args)"
  unfolding handleExec_def
proof (rule kept_planned [OF assms])
  fix tx and plan :: plan and c :: "(string \<times> nat) list" assume "distinct (map fst c)"
  note d = closeShardConns_ok [OF assms this]
  have "yields (own tx {} (snd ` set c) []) (sdefer (closeShardConns w c False) (sbind (executeInMultiNodes w c (p_RewrittenSqls plan) args) mergeExecResult)) (\<lambda>_. session_ok)"
    by (rule yields_sdefer [OF own_quiet d]) (intro preserving quiets)
  then show "yields (own tx {} (snd ` set c) []) (sdefer (closeShardConns w (case Some c of None \<Rightarrow> [] | Some c \<Rightarrow> c) (None \<noteq> None))
         (case None of
            Some e \<Rightarrow> sfail e
          | None \<Rightarrow>
              (case Some c of
                 None \<Rightarrow> sact (writeOK None)
               | Some c \<Rightarrow> sbind (executeInMultiNodes w c (p_RewrittenSqls plan) args) mergeExecResult))) (\<lambda>_. session_ok)" by simp
qed (auto intro!: yieldsI simp: sdefer_def step_defs split: outcome.splits sum.splits fail.splits option.splits)

lemma kept_handleSelect [kepts]:
  assumes "others_ok w" "orders_ok w"
  shows "kept (handleSelect w stmt args)"
  unfolding handleSelect_def
proof (rule kept_planned [OF assms])
  fix tx and plan :: plan and c :: "(string \<times> nat) list" assume d: "distinct (map fst c)"
  have q: "yields session_ok (case rs of Inl e \<Rightarrow> sfail e | Inr xs \<Rightarrow> merge_and_write w xs stmt) (\<lambda>_. session_ok)" for rs
    by (rule yields_skeeps [OF quiet_session]) (intro preserving quiets)
  have c: "yields (own tx {} (snd ` set c) []) (closeShardConns w c False) (\<lambda>_. session_ok)"
    by (rule yieldsI) (rule tripleD [OF closeShardConns_ok [OF assms d]])
  have "yields (own tx {} (snd ` set c) []) (stry (executeInMultiNodes w c (p_RewrittenSqls plan) args) (\<lambda>rs.
                sbind (closeShardConns w c False) (\<lambda>_.
                  case rs of Inl e \<Rightarrow> sfail e | Inr xs \<Rightarrow> merge_and_write w xs stmt))) (\<lambda>_. session_ok)"
    by (rule yields_stry_keeps [OF quiet_keeps [OF holdings.preserves_executions(1)]], rule yields_sbind [OF c], rule q)
  then show "yields (own tx {} (snd ` set c) []) (case None of
         Some e \<Rightarrow> sfail e
       | None \<Rightarrow>
           (case Some c of
              None \<Rightarrow> sbind (sget cl_status) (\<lambda>st. sact (writeResultset st (newEmptyResultset stmt :: 'a resultset)))
            | Some c \<Rightarrow>
                stry (executeInMultiNodes w c (p_RewrittenSqls plan) args) (\<lambda>rs.
                sbind (closeShardConns w c False) (\<lambda>_.
                  case rs of Inl e \<Rightarrow> sfail e | Inr xs \<Rightarrow> merge_and_write w xs stmt)))) (\<lambda>_. session_ok)" by simp
qed (auto intro!: yieldsI simp: step_defs)

section \<open>Handlers\<close>

lemma kept_sget: "(\<And>s. session_ok s \<Longrightarrow> kept (f (g s))) \<Longrightarrow> kept (sbind (sget g) f)"
  unfolding kept_def by (rule yields_sget, rule yields_weak_pre) blast+

lemma kept_stry_quiet: "quiet m \<Longrightarrow> (\<And>r. kept (f r)) \<Longrightarrow> kept (stry m f)"
  unfolding kept_def by (rule yields_stry_keeps) (rule quiet_session)

lemma kept_skeeps: "skeeps session_ok m \<Longrightarrow> kept m"
  unfolding kept_def by (rule yields_skeeps)

lemma skeeps_sget: "(\<And>s. session_ok s \<Longrightarrow> skeeps session_ok (f (g s))) \<Longrightarrow> skeeps session_ok (sbind (sget g) f)"
  unfolding skeeps_def by (rule tripleI) (auto dest: tripleD)

text \<open>Looking up a rule may change the default rule of the schema, but not its nodes.\<close>

lemma session_ok_rule:
  assumes "session_ok s" and "se_schema s = Some sc" and "GetRule (sc_rule sc) db table = (rule, r')"
  shows "skeeps session_ok (supd (\<lambda>s. s\<lparr>se_schema := Some (sc\<lparr>sc_rule := r'\<rparr>)\<rparr>))"
proof -
  have "nodes_once (sc_rule sc)" using assms(1,2) by (auto simp: session_ok_def schema_ok_def)
  then have "nodes_once r'" using assms(3) nodes_once_rule(2) by blast
  then show ?thesis
    by (intro skeeps_supd) (auto simp: session_ok_def tx_handles_def open_conns_def schema_ok_def isInTransaction_def isAutoCommit_def)
qed

lemma skeeps_rule:
  assumes "skeeps session_ok m" and "\<And>s sc rule. skeeps session_ok (f s sc rule)"
  shows "skeeps session_ok (sbind (sget id) (\<lambda>s. case se_schema s of None \<Rightarrow> m
     | Some sc \<Rightarrow> (case GetRule (sc_rule sc) (d s sc) t of (rule, r') \<Rightarrow>
         sbind (supd (\<lambda>s. s\<lparr>se_schema := Some (sc\<lparr>sc_rule := r'\<rparr>)\<rparr>)) (\<lambda>_. f s sc rule))))"
  by (rule skeeps_sget) (auto split: option.split prod.split intro!: assms skeeps_sbind dest: session_ok_rule)

lemma kept_rule:
  assumes "kept m" and "\<And>s sc rule. kept (f s sc rule)"
  shows "kept (sbind (sget id) (\<lambda>s. case se_schema s of None \<Rightarrow> m
     | Some sc \<Rightarrow> (case GetRule (sc_rule sc) (d s) t of (rule, r') \<Rightarrow>
         sbind (supd (\<lambda>s. s\<lparr>se_schema := Some (sc\<lparr>sc_rule := r'\<rparr>)\<rparr>)) (\<lambda>_. f s sc rule))))"
  by (rule kept_sget) (auto split: option.split prod.split intro!: assms kept_sbind dest: session_ok_rule [THEN kept_skeeps])

lemma kept_handleFieldList [kepts]:
  assumes "others_ok w"
  shows "kept (handleFieldList w data)"
  unfolding handleFieldList_def Let_def
  by (intro kept_sbind kept_rule quiets [THEN kept_quiet] kept_with_conn [OF assms]) (auto intro!: quiets preserving)

lemma kept_handleUseDB [kepts]:
  assumes "others_ok w"
  shows "kept (handleUseDB w db)"
  unfolding handleUseDB_def
  by (intro kept_rules quiets [THEN kept_quiet] kept_with_conn [OF assms]) (auto intro!: quiets preserving)

lemma kept_handleSimpleSelect [kepts]: "kept (handleSimpleSelect w es)"
  unfolding handleSimpleSelect_def
  by (rule kept_quiet) (auto intro!: quiets preserving split: selectexpr.split)

lemma kept_handleSet [kepts]:
  assumes "others_ok w" "orders_ok w"
  shows "kept (handleSet w stmt)"
proof -
  have "kept (handleSetNames ch ci)" for ch ci
    unfolding handleSetNames_def Let_def by (rule kept_quiet) (auto intro!: quiets preserving)
  then show ?thesis unfolding handleSet_def Let_def
    by (auto intro!: quiets [THEN kept_quiet] kept_autocommit assms split: list.split)
qed

lemma kept_handleStmtPrepare [kepts]:
  assumes "others_ok w"
  shows "kept (handleStmtPrepare w sql)"
  unfolding handleStmtPrepare_def Let_def
  by (intro kept_rules kept_stry_quiet quiets quiets [THEN kept_quiet] kept_with_conn [OF assms]) (auto intro!: quiets preserving)

lemma kept_handlePrepareSelect [kepts]:
  assumes "others_ok w"
  shows "kept (handlePrepareSelect w stmt sql args)"
  unfolding handlePrepareSelect_def
  by (intro kept_rules quiets [THEN kept_quiet] kept_with_conn [OF assms]) (auto intro!: quiets preserving)

lemma kept_handlePrepareExec [kepts]:
  assumes "others_ok w"
  shows "kept (handlePrepareExec w sql args)"
  unfolding handlePrepareExec_def
proof (intro kept_sbind quiets [THEN kept_quiet])
  fix n and node :: "nat option"
  let ?f = "\<lambda>h. stry (executeInNode w h sql args) (\<lambda>r.
         sbind (client_closeConn w (Some h) False) (\<lambda>_.
           case r of
             Inl e \<Rightarrow> sfail e
           | Inr x \<Rightarrow> sbind (sget cl_status) (\<lambda>st. write_reply None (st OR reply_Status x) x)))"
  show "kept (with_conn w node False id ?f)"
  proof (rule keptI, rule yields_conseq [OF with_conn_owned [OF assms]])
    fix tx h
    have c: "yields (own tx {} {h} []) (client_closeConn w (Some h) False) (\<lambda>_. own tx {} {} [])"
      using tripleD [OF closeConn_owned [OF assms], of tx "{h}" "[]"] by (auto intro!: yieldsI) fastforce
    have q: "yields (own tx {} {} []) (case r of Inl e \<Rightarrow> sfail e
        | Inr x \<Rightarrow> sbind (sget cl_status) (\<lambda>st. write_reply None (st OR reply_Status x) x)) (\<lambda>_. own tx {} {} [])" for r :: "goerr + 'a reply"
      by (rule own_quiet) (intro quiets preserving)
    have "yields (own tx {} {h} []) (?f h) (\<lambda>_. own tx {} {} [])"
      by (rule yields_stry_keeps [OF quiet_keeps [OF holdings.preserves_executions(2)]], rule yields_sbind [OF c], rule q)
    then show "yields (own tx {} {h} []) (?f h) (\<lambda>_ s. own tx {} {h} [] s \<or> own tx {} {} [] s)"
      by (rule yields_conseq) auto
  qed (auto intro: own_session_ok)
qed

lemma kept_with_stmt: "(\<And>i cs. kept (f i cs)) \<Longrightarrow> kept (with_stmt data cmd f)"
  unfolding with_stmt_def by (intro kept_rules quiets [THEN kept_quiet])

lemma kept_handleStmtExecute [kepts]:
  assumes "others_ok w"
  shows "kept (handleStmtExecute w data)"
  unfolding handleStmtExecute_def Let_def
proof (intro kept_cases kept_with_stmt kept_sbind quiets [THEN kept_quiet])
  fix i and cs :: "statement client_stmt" and args
  let ?m = "case cs_s cs of
                  SelectStmt sel \<Rightarrow> handlePrepareSelect w sel (cs_sql cs) args
                | InsertStmt _ \<Rightarrow> handlePrepareExec w (cs_sql cs) args
                | UpdateStmt _ \<Rightarrow> handlePrepareExec w (cs_sql cs) args
                | DeleteStmt _ \<Rightarrow> handlePrepareExec w (cs_sql cs) args
                | ReplaceStmt _ \<Rightarrow> handlePrepareExec w (cs_sql cs) args
                | x \<Rightarrow> sfail (Errorf (''command '' @ statement_type x @ '' not supported now''))"
  have "kept ?m" by (auto intro!: kepts assms quiets [THEN kept_quiet] split: statement.split)
  then show "kept (stry ?m (\<lambda>r. sbind (on_stmt i (aupd ResetParams)) (\<lambda>_. case r of Inl e \<Rightarrow> sfail e | Inr _ \<Rightarrow> sret ())))"
    by (rule kept_stry_fails) (auto intro!: kept_rules quiets [THEN kept_quiet] yieldsI elim!: sbind_DoneE simp: step_defs)
qed

lemma kept_stmt_data [kepts]: "kept (handleStmtSendLongData data)" "kept (handleStmtReset data)" "kept (handleStmtClose data)"
  unfolding handleStmtSendLongData_def handleStmtReset_def handleStmtClose_def
  by (intro kept_with_stmt kept_rules kept_quiet; auto intro!: quiets preserving split: arg.split)+

section \<open>Statements before planning\<close>

lemmas skeeps_quiet = quiets [THEN quiet_session]

lemma skeeps_is_sharded [skeep]: "skeeps session_ok (is_sharded dt)"
  unfolding is_sharded_def by (rule skeeps_rule) (intro skeep)+

lemma skeeps_tables [skeep]:
  "skeeps session_ok (select_needs_plan ts)" "skeeps session_ok (table_behind word split ts)" "skeeps session_ok (table_before_set prev ts)"
proof -
  show "skeeps session_ok (select_needs_plan ts)" by (induction ts) (auto intro!: skeep split: list.split bool.split)
  show "skeeps session_ok (table_behind word split ts)" by (induction ts) (auto intro!: skeep split: list.split bool.split)
  show "skeeps session_ok (table_before_set prev ts)" by (induction ts arbitrary: prev) (auto intro!: skeep)
qed

lemma skeeps_nodes [skeep]: "skeeps session_ok has_rules" "skeeps session_ok (hinted_node tokens)" "skeeps session_ok (setExecuteNode tokens ex)"
  "skeeps session_ok (exec_at tokens ex)"
  unfolding exec_at_def setExecuteNode_def has_rules_def hinted_node_def by (intro skeep)+

lemma skeeps_show_columns [skeep]: "skeeps session_ok (handleShowColumns k i tokens ex)"
proof (induction k arbitrary: i tokens)
  case (Suc k)
  have "skeeps session_ok (show_columns_of tokens i ex)" for tokens i
    unfolding show_columns_of_def Let_def
    by (rule skeeps_rule) (auto intro!: skeep split: list.split bool.split)
  with Suc show ?case by (auto intro!: skeep simp: Let_def)
qed (simp add: skeep)

lemma skeeps_exec_db [skeep]: "skeeps session_ok (GetExecDB tokens sql)"
  unfolding GetExecDB_def getSelectExecDB_def getDeleteExecDB_def getInsertOrReplaceExecDB_def getUpdateExecDB_def getSetExecDB_def
    getShowExecDB_def getTruncateExecDB_def unless_sharded_def Let_def
  by (intro skeep)

lemma skeeps_trans_exec_db [skeep]: "skeeps session_ok (GetTransExecDB tokens sql)"
  unfolding GetTransExecDB_def by (intro skeep)

lemma kept_exec_unplanned:
  assumes "others_ok w"
  shows "kept (exec_unplanned w ex)"
  unfolding exec_unplanned_def
  by (rule kept_with_conn [OF assms]) (auto intro!: quiets preserving preserves_supd split: prod.split)

lemma kept_stry_keeps: "skeeps session_ok m \<Longrightarrow> (\<And>r. kept (f r)) \<Longrightarrow> kept (stry m f)"
  unfolding kept_def by (rule yields_stry_keeps)

lemma kept_preHandleShard [kepts]:
  assumes "others_ok w"
  shows "kept (preHandleShard w sql)"
  unfolding preHandleShard_def isBlacklistSql_def Let_def
  by (intro kept_rules kept_stry_keeps skeep quiets [THEN kept_quiet] kept_exec_unplanned [OF assms])

section \<open>Administration\<close>

lemma session_ok_proxy: "session_ok s \<Longrightarrow> server_ok sv \<Longrightarrow> session_ok (s\<lparr>se_proxy := sv\<rparr>)"
  by (simp add: session_ok_def tx_handles_def open_conns_def isInTransaction_def isAutoCommit_def)

lemma skeeps_on_server:
  assumes "keeps server_ok m"
  shows "skeeps session_ok (on_server m)"
  unfolding skeeps_def
proof (rule tripleI)
  fix s r t assume s: "session_ok s" and t: "on_server m s = Done r t"
  obtain q sv where m: "m (se_proxy s) = (q, sv)" by force
  from s have "server_ok (se_proxy s)" by (simp add: session_ok_def)
  from keepsD [OF assms this m] s t m show "session_ok t" by (auto simp: on_server_def intro: session_ok_proxy)
qed

lemma skeeps_next_access: "others_ok w \<Longrightarrow> skeeps session_ok (supd (next_access w))"
  by (rule skeeps_supd) (auto simp: session_ok_own dest: own_next_access intro: own_session_ok [unfolded session_ok_own])

lemma skeeps_node_access: "others_ok w \<Longrightarrow> (\<And>k. keeps server_ok (m k)) \<Longrightarrow> skeeps session_ok (node_access w m)"
  unfolding node_access_def by (intro skeep skeeps_next_access skeeps_on_server)

lemma kept_handleAdmin [kepts]:
  assumes "others_ok w"
  shows "kept (handleAdmin w a)"
proof -
  have node: "kept (handleNodeCmd w rows)" for rows
    unfolding handleNodeCmd_def AddDatabase_def DeleteDatabase_def UpDatabase_def DownDatabase_def Let_def
    by (intro kept_sbind quiets [THEN kept_quiet])
       (auto intro!: kept_rules quiets [THEN kept_quiet] kept_skeeps skeeps_node_access assms keeps_node_commands split: list.split)
  have change: "kept (handleAdminChange k v)" "kept (handleAdminAdd k v)" "kept (handleAdminDelete k v)" for k v
    unfolding handleAdminChange_def handleAdminAdd_def handleAdminDelete_def
    by (intro kept_rules quiets [THEN kept_quiet] kept_skeeps skeeps_on_server keeps_settings)+
  have server: "kept (handleServerCmd w rows)" for rows
    unfolding handleServerCmd_def Let_def
    by (intro kept_sbind quiets [THEN kept_quiet]) (auto intro!: kept_rules quiets [THEN kept_quiet] change split: list.split)
  show ?thesis unfolding handleAdmin_def Let_def by (intro kept_rules quiets [THEN kept_quiet] node server)
qed

lemma kept_handleAdminHelp [kepts]: "kept (handleAdminHelp w)"
  unfolding handleAdminHelp_def by (rule kept_quiet) (intro quiets preserving)

section \<open>Sessions\<close>

lemma settles_rollback:
  assumes "others_ok w" "orders_ok w"
  shows "settles session_ok (handleRollback w) session_ok"
  unfolding settles_def handleRollback_def rollback_def
proof (rule triple_sbind [OF end_tx_settles [OF assms, unfolded settles_def]])
  show "triple (\<lambda>t. (\<exists>p. Inr x = Inl (Panic p)) \<or> session_ok t) (sact (writeOK None)) (\<lambda>r t. (\<exists>p. r = Inl (Panic p)) \<or> session_ok t)" for x :: unit
    by (rule tripleI) (auto dest: skeepsD [OF quiet_session [OF holdings.preserves_writes(1)]])
qed auto

lemma skeeps_count [skeep]: "skeeps session_ok (count f)"
  unfolding count_def
  by (rule skeeps_supd) (rule session_ok_proxy, assumption, simp add: session_ok_def server_ok_def named_def store_names_def)

lemma kept_run_statement [kepts]:
  assumes "others_ok w" "orders_ok w"
  shows "kept (run_statement w stmt)"
  unfolding run_statement_def
  by (auto split: statement.split intro!: kept_rules kepts assms quiets [THEN kept_quiet])

lemma kept_handleQuery [kepts]:
  assumes "others_ok w" "orders_ok w"
  shows "kept (handleQuery w sql)"
  unfolding handleQuery_def Let_def
  by (intro kept_rules kept_preHandleShard assms quiets [THEN kept_quiet] kept_run_statement)

lemma kept_dispatch:
  assumes "others_ok w" "orders_ok w"
  shows "kept (dispatch w packet)"
proof -
  have "kept (stry (handleRollback w) (\<lambda>_. client_Close))"
    unfolding kept_def client_Close_def
    by (rule yields_stry_settles [OF settles_rollback [OF assms]], rule yields_skeeps, rule quiet_session, rule quiets)
  then show ?thesis unfolding dispatch_def Let_def
    by (intro kept_sbind kept_skeeps [OF skeeps_count] quiets [THEN kept_quiet] kept_cases)
       (auto intro!: kepts assms quiets [THEN kept_quiet])
qed

lemma schema_ok_GetSchema: "server_ok sv \<Longrightarrow> schema_ok (GetSchema sv u)"
  by (auto simp: server_ok_def schema_ok_def GetSchema_def list_all_iff split: option.split dest!: map_of_SomeD)

lemma skeeps_get_schema [skeep]: "skeeps session_ok (supd (\<lambda>s. s\<lparr>se_schema := GetSchema (se_proxy s) (cl_user s)\<rparr>))"
  by (rule skeeps_supd) (simp add: session_ok_def schema_ok_GetSchema tx_handles_def open_conns_def isInTransaction_def isAutoCommit_def)

lemma kept_reload: "kept (reload_if_changed w)"
proof -
  have "skeeps session_ok reloadConfig" unfolding reloadConfig_def by (intro skeep)
  then show ?thesis unfolding reload_if_changed_def ignore_def
    by (intro kept_rules kept_stry_keeps quiets [THEN kept_quiet] preserving quiets kept_quiet [OF preserves_supd]) (auto intro!: quiet_session quiets)
qed

text \<open>
  What happens to a session whose commands succeed: a command, a reload of the configuration, and what other goroutines do in
  between.
\<close>

inductive serves :: "'f world \<Rightarrow> session \<Rightarrow> session \<Rightarrow> bool" for w where
  start: "serves w s s"
| command: "serves w s t \<Longrightarrow> dispatch w packet t = Done (Inr ()) u \<Longrightarrow> serves w s u"
| reload: "serves w s t \<Longrightarrow> reload_if_changed w t = Done (Inr b) u \<Longrightarrow> serves w s u"
| others: "serves w s t \<Longrightarrow> serves w s (next_access w t)"

lemma serves_ok:
  assumes "serves w s t" and "others_ok w" "orders_ok w" and "session_ok s"
  shows "session_ok t"
  using assms
proof induction
  case (command s t packet u)
  then show ?case using kept_dispatch by (auto simp: kept_def dest: yieldsD)
next
  case (reload s t b u)
  then show ?case using kept_reload by (auto simp: kept_def dest: yieldsD)
next
  case (others s t)
  then show ?case using skeepsD [OF skeeps_next_access] by (fastforce simp: supd_def)
qed

lemma give_back_all_done:
  assumes "others_ok w"
  shows "ending L s \<Longrightarrow> \<exists>t. give_back_all w L s = Done (Inr ()) t \<and> ending [] t"
proof (induction L arbitrary: s)
  case (Cons p L)
  obtain n h where p: "p = (n, h)" by force
  have "\<exists>t. give_back w (Some h) s = Done (Inr ()) t"
    by (cases "se_conns s ! h") (simp add: give_back_def Let_def split: option.split)
  then obtain t where t: "give_back w (Some h) s = Done (Inr ()) t" by blast
  from Cons.IH [OF tripleD [OF give_back_ending [OF assms] Cons.prems [unfolded p] t]] p t show ?case by (simp add: sbind_Done)
qed (simp add: step_defs)

lemma clean_closes:
  assumes "session_ok s" "others_ok w" "orders_ok w"
  shows "\<exists>t. clean w s = Done (Inr ()) t \<and> open_conns t = []"
  using give_back_all_done [OF assms(2) session_ok_ending [OF assms(1,3)]] by (auto simp: clean_def ending_def)

text \<open>A client that was admitted.\<close>

lemma keeps_handshake: "keeps (\<lambda>s. view s = v) (Handshake users)"
  unfolding Handshake_def
proof (intro keeps_abind holdings.keeps_client holdings.keeps_writes(1) keeps_aupd)
  show "keeps (\<lambda>s. view s = v) writeInitialHandshake"
    unfolding writeInitialHandshake_def by (auto intro!: holdings.keeps_client split: prod.split)
  show "keeps (\<lambda>s. view s = v) (readHandshakeResponse users)"
    unfolding readHandshakeResponse_def Let_def
    by (intro keeps_abind keeps_basic keeps_cases keeps_aupd) (auto simp: client_readPacket_def keeps_def split: prod.split)
qed simp

lemma admitted_session_ok:
  assumes "server_ok sv" and "admit w (newClientConn sv remote input wr salt connId) = Done (Inr b) s"
  shows "session_ok s"
proof -
  let ?s0 = "newClientConn sv remote input wr salt connId"
  have "session_ok ?s0" using assms(1)
    by (simp add: session_ok_def newClientConn_def open_conns_def tx_handles_def schema_ok_def)
  moreover have "skeeps session_ok (admit w)"
    unfolding admit_def ignore_def client_Close_def
    by (intro skeep) (auto intro!: quiet_session quiets preserves_sact keeps_handshake)
  ultimately show ?thesis using assms(2) by (blast dest: skeepsD)
qed

end
