(* ===== verification/Session_Fixtures.thy ===== *)
theory Session_Fixtures
  imports Fixtures Session_Inv
begin

text \<open>
  A server that is started from a configuration with two nodes, a world around it and a session, on which the properties of sessions are evaluated.
\<close>

definition demo_node :: "string \<Rightarrow> node_config" where
  "demo_node n = \<lparr>nc_Name = n, nc_DownAfterNoAlive = 32, nc_MaxConnNum = 1, nc_User = ''u'', nc_Password = [], nc_Master = n @ '':3306'', nc_Slave = []\<rparr>"

definition demo_config :: config where
  "demo_config = \<lparr>cf_Addr = ''0.0.0.0:9696'', cf_UserList = [(''u'', ''p'')], cf_WebAddr = ''0.0.0.0:9797'', cf_WebUser = ''admin'', cf_WebPassword = ''secret'', cf_LogPath = [], cf_LogLevel = ''debug'', cf_LogSql = ''on'',
     cf_SlowLogTime = 100, cf_AllowIps = ''127.0.0.1'', cf_BlsFile = [], cf_Charset = [], cf_Nodes = [demo_node ''node1'', demo_node ''node2''],
     cf_SchemaList = [demo_schema]\<rparr>"

abbreviation demo_dial :: dialer where
  "demo_dial \<equiv> (\<lambda>_ _. Inr sample_server)"

definition demo_start :: "server res" where
  "demo_start = NewServer int_floats (\<lambda>_ _ _. demo_dial) (\<lambda>_ _. 0) 0 (\<lambda>_. Inl (Err (Errorf ''no file''))) (\<lambda>xs. xs) (\<lambda>_. Inr ()) demo_config"

definition demo_server :: server where
  "demo_server = projr demo_start"

lemma demo_started: "demo_start = Inr demo_server"
proof -
  have "case demo_start of Inl _ \<Rightarrow> False | Inr _ \<Rightarrow> True" by code_simp
  then show ?thesis unfolding demo_server_def by (rule returned)
qed

definition demo_world :: "int world" where
  "demo_world = \<lparr>w_fo = int_floats, w_dial = (\<lambda>_ _. demo_dial), w_draw = (\<lambda>_ _. 0), w_now = (\<lambda>_. 0), w_pick = (\<lambda>_. True), w_others = (\<lambda>_ sv. sv),
     w_loc = demo_loc, w_sort = (\<lambda>_ xs. Inr xs), w_indexs = (\<lambda>xs. xs), w_funcs = (\<lambda>xs. xs), w_groups = (\<lambda>xs. xs), w_conns = (\<lambda>xs. xs), w_txConns = (\<lambda>xs. xs),
     w_strings = (\<lambda>xs. xs), w_nodes = (\<lambda>xs. xs), w_files = (\<lambda>_. Inl (Err (Errorf ''no file''))), w_cwd = Inr [],
     w_writeConfig = (\<lambda>_. Inr ()), w_writeFile = (\<lambda>_ _. Inr ()), w_unix = (\<lambda>_. []), w_lib = (\<lambda>_. [])\<rparr>"

definition demo_session :: session where
  "demo_session = (newClientConn demo_server ''127.0.0.1:5000'' [] (\<lambda>_ d. Some (int (length d))) [] 1)
     \<lparr>cl_user := ''u'', cl_db := ''ks'', se_schema := GetSchema demo_server ''u''\<rparr>"

lemma succeeded: "(case x of Done (Inr _) t \<Rightarrow> P t | _ \<Rightarrow> False) \<Longrightarrow> \<exists>t. x = Done (Inr ()) t \<and> P t"
proof (cases x)
  case (Done r t)
  assume "case x of Done (Inr _) t \<Rightarrow> P t | _ \<Rightarrow> False"
  with Done show ?thesis by (cases r) simp_all
qed simp_all

text \<open>The session begins a transaction and changes a table that is not sharded, for which it takes a connection to the default node.\<close>

definition demo_transaction :: "(session, unit) outcome" where
  "demo_transaction = sbind (dispatch demo_world (CHR 0x03 # ''begin'')) (\<lambda>_. dispatch demo_world (CHR 0x03 # ''delete from z'')) demo_session"

lemma demo_transaction_done: "case demo_transaction of Done (Inr _) t \<Rightarrow> se_txConns t = [(0, 0)] | _ \<Rightarrow> False"
  by code_simp

lemma demo_world_ok: "others_ok demo_world" "orders_ok demo_world"
  by (simp_all add: demo_world_def others_ok_def orders_ok_def map_order_id)

lemma demo_server_ok: "server_ok demo_server" "users_served demo_server"
proof -
  have "rules_once demo_config" by code_simp
  with demo_started [unfolded demo_start_def] map_order_id show "server_ok demo_server" "users_served demo_server"
    by (rule NewServer_ok)+
qed

lemma demo_session_ok: "session_ok demo_session"
  using demo_server_ok(1) schema_ok_GetSchema
  by (simp add: session_ok_def demo_session_def newClientConn_def open_conns_def tx_handles_def)

end
