(* ===== verification/Spec2Isabelle.thy ===== *)
theory Spec2Isabelle
  imports Sql_Sentences Merge Peer_Protocol Pool_Steps Node Web_Api Golog Mysql_Errors Session_Ends Session_Fixtures
begin

text \<open>
  kingshard is a MySQL proxy that distributes the rows of large tables over several MySQL servers. A client speaks the
  MySQL protocol to the proxy; the proxy parses its statement, computes from the where condition or the inserted rows
  which sub-tables can hold the rows, rewrites the statement for each of them, runs the rewritten statements on the nodes
  of these sub-tables and merges the results. This development models these parts from the Go sources under src/ and
  shows what makes them correct. All definitions are functions that can be evaluated; errors and panics are values of the
  result type \<open>'a res\<close>, every \<open>return err\<close> and every index out of range is a branch.

  \<^bold>\<open>Foundations.\<close> \<open>Go_Base\<close>: results, machine integers, strings, maps and \<open>strconv\<close> as the code uses them.
  \<open>Go_Act\<close>: methods that change their receiver, as actions on a state. \<open>Mysql_Tables\<close>: character sets, collations and
  error states (src/mysql/charset.go, state.go, error.go).

  \<^bold>\<open>SQL\<close> (src/sqlparser, src/sqltypes). \<open>Sql_Types\<close>: values and their encoding. \<open>Sql_Keywords\<close>, \<open>Tokenizer\<close>: token.go;
  the scanner always returns, and what the printer writes for strings and names is scanned back. \<open>Sql_Ast\<close>, \<open>Sql_Stmt\<close>: the
  syntax tree of ast.go with the printer and the rewriting of limits.

  \<^bold>\<open>The parser\<close> (src/sqlparser/sql.go, generated from sql.y). \<open>Sql_Tables\<close>: the packed tables. \<open>Sql_Parser\<close>: the values of grammar symbols,
  the actions of the 218 productions, the driver with its stack, and \<open>Parse\<close>; the loop of the driver is a partial function.
  \<open>Sql_Grammar\<close>: the right sides of sql.y and a certificate for the tables, the LR items of each of the 403 states and
  the nonterminals it expects, which the simplifier checks against every shift, goto and reduction. \<open>Sql_Typing\<close>: the action of each
  production finds the fields it reads and sets the field of its left side. \<open>Sql_Parser_Inv\<close>: the invariant of the stack and a
  measure that every round decreases. \<open>Sql_Sentences\<close>: derivations of the grammar; the parser returns on every input, within 20 rounds for
  each byte, never leaves its tables and accepts only sentences of the grammar.

  \<^bold>\<open>Routing\<close> (src/proxy/router). \<open>Index_Lists\<close>: the lists of table numbers in planbuilder.go; the locale \<open>index_algebra\<close> states
  the laws of the set operations and is interpreted by them. \<open>Shard_Key\<close>: shard.go and numkey.go, hash, range and date
  shards and the parsers of their ranges. \<open>Rules\<close>: the rules and the router that router.go builds from a configuration.
  \<open>Plan\<close>: the rest of planbuilder.go, from a condition to a list of tables. \<open>Route_Sound\<close>: the locale \<open>sound_routing\<close> assumes that
  single comparisons with the key are routed soundly and derives it for conditions; it is interpreted for range,
  hash and date rules. \<open>Build_Plan\<close>: the plan builders and the generators of rewritten SQL. \<open>Fixtures\<close>: a configuration and
  statements on which the properties are evaluated. The properties of this theory say that the tables and the
  rewritten statements reach every row that a statement concerns: on the node that the rule has for a table (\<open>rule_node\<close>, as \<open>FindNode\<close>), for rules
  whose nodes are the first ones of their schema (\<open>nodes_aligned\<close>), because the generators take the rule's index of a node as one of the
  schema; and for the conditions that the code routes soundly.

  \<^bold>\<open>Protocol\<close> (src/mysql). \<open>Wire\<close>: length-encoded data and the authentication token (util.go). \<open>Packets\<close>: packets, batches and
  column definitions (packetio.go, field.go). \<open>Resultset\<close>: rows, values and their order (resultset.go,
  resultset_sort.go, part of src/proxy/server/conn_resultset.go); the locale \<open>comparison\<close> states what a comparison of rows
  promises and is interpreted by the one of \<open>Sort\<close>. \<open>Merge\<close>: merging, grouping, aggregates and limits of
  src/proxy/server/conn_select.go; the merge of limited shard results is a window of a sorted arrangement of all rows.

  \<^bold>\<open>Backends\<close> (src/backend). \<open>Backend_Conn\<close>, \<open>Backend_Stmt\<close>: a connection to a MySQL server, with the server as a function from the bytes
  it was sent to the bytes it answers. \<open>Client_Wire\<close>: the proxy's side towards its clients (src/proxy/server/conn.go,
  conn_stmt.go). \<open>Mysql_Errors\<close>: the error codes and message formats of errcode.go and errname.go, which fit each other, and that the
  errors of the sessions are these formats with their arguments. \<open>Peer_Protocol\<close>: what one side writes the other one reads: result sets, outcomes, arguments, logins. \<open>Pool\<close>: the pool of
  connections of db.go, with its operations as functions, which is how nodes and sessions use them. \<open>Pool_Steps\<close>: the same operations as phases
  of calls that interleave at every access to a channel, a counter or a field, a step relation with an invariant; the functions are
  runs without interruption, and two races of the code are shown. \<open>Node\<close>: master and slaves, health checks and the weighted round robin.

  \<^bold>\<open>The proxy\<close> (src/proxy/server). \<open>Fingerprint\<close>: src/mysql/sql_fingerprint.go, the form of a statement that the blacklist is compared
  with. \<open>Server\<close>: the state that all clients share, built from a configuration (server.go, util.go, counter.go), its
  changes at run time and its reload. \<open>Go_Step\<close>: steps that may wait for a connection or end the process, with deferred calls
  and \<open>recover\<close>, and rules that carry invariants through them. \<open>Session\<close>: the state of a client and its handlers (conn_tx.go,
  conn_query.go, conn_select.go, conn_use.go, conn_set.go, conn_stmt.go). \<open>Preshard\<close>: the way of a statement that needs no plan
  (conn_preshard.go). \<open>Admin\<close>: the admin commands (conn_admin.go). \<open>Dispatch\<close>: one command, the loop of a session and the admission of a
  client (conn.go, server.go). Connections that a session has taken are objects in a store, because a transaction and a
  statement may share them; what other clients do in between is a function \<open>w_others\<close>.

  \<^bold>\<open>Invariants of the proxy.\<close> \<open>Server_Inv\<close>: the map of nodes, the rules and the users of a server fit together from the start on and after a
  reload; the locale \<open>lender\<close> states what a node promises that lends a connection and is interpreted by \<open>GetMasterConn\<close> and \<open>GetSlaveConn\<close>.
  \<open>Server_Runs\<close>: the pairs of settings and the blacklist, and all histories of administration as a step relation. \<open>Session_Parts\<close>: the locale
  \<open>session_part\<close> says of a part of the session that writing, calls on connections and bookkeeping do not concern it, and derives that
  the handlers made of them preserve it; it is interpreted on what a session holds (\<open>Ownership\<close>) and on the input it has not read
  (\<open>Session_Ends\<close>). \<open>Ownership\<close>, \<open>Session_Inv\<close>: every taken connection belongs to the transaction or to the statement at work, through
  all handlers and orders of successful commands. \<open>Session_Ends\<close>: the loop of a session ends with its input. \<open>Session_Fixtures\<close>: a
  server and a session on which these properties are evaluated.

  \<^bold>\<open>The web interface\<close> (src/web). \<open>Web_Api\<close>: the handlers of api.go, the routes and the credentials of server.go; every request is a sequence
  of the administrator's actions. What the web framework delivers is a request record, with the decoding of the body as a function.

  \<^bold>\<open>Logging\<close> (src/core/golog). \<open>Go_Fmt\<close>: the part of Go's package \<open>fmt\<close> that log lines and error messages use. \<open>Log_Files\<close>: the handlers of
  handler.go and filehandler.go over a disk of named files; the locale \<open>log_handler\<close> states what a handler keeps and is interpreted by the
  stream, the null, the file and the size-rotated handler, which refines a list of chunks and keeps the tail of what is written.
  \<open>Golog\<close>: the lines of log.go, and the callers, the channel and the writing goroutine of a logger as a step relation, with the buffers as
  addresses of a store. The modelled operations of the proxy do not depend on what they log, and their calls of the logger are left out.

  \<^bold>\<open>Parameters.\<close> What is outside the sources is an argument: \<open>fo\<close> the floating-point operations, \<open>go_sort\<close> the unstable sort of
  Go (with its documented contract \<open>is_sort\<close>), \<open>mo\<close> and \<open>mk\<close> the iteration orders of maps, \<open>loc\<close> the date of a Unix time in the
  local zone, \<open>dial\<close> what \<open>net.Dial\<close> gives, \<open>now\<close> the clock, \<open>draw\<close> the random numbers, \<open>lib\<close> the texts of library errors. They are
  the fields of the record \<open>world\<close> for a session. No fuel is used: loops are structural or have a termination proof with a measure;
  the loop of a session and the loop of the parser are partial functions, of which \<open>Session_Ends\<close> and \<open>Sql_Sentences\<close> show that they
  return.

  \<^bold>\<open>Not modelled.\<close> The debug output of the parser; metrics, signals
  and the YAML file, which are input and output around the modelled operations; the slow log with its
  counter; memory limits; a default charset other than utf8 in backend connections; statements with bytes that are not runes in
  fingerprints; peers that stay silent without closing the connection, for which the code waits without a deadline; letters outside ASCII in
  \<open>ToLower\<close>; an \<open>Authorization\<close> header that is not base64, for which the web framework answers with its own error instead of a refusal.
\<close>

section \<open>Routes\<close>

text \<open>
  C1. Routes of a range rule are sound. For a rule that \<open>parseRule\<close> builds from a range
  configuration, the tables that \<open>getTableIndexByBoolExpr\<close> returns for a where condition
  include the table of every row that satisfies the condition. The only conditions excluded are
  \<open>NOT BETWEEN\<close> with reversed bounds.
\<close>

theorem range_route_sound:
  assumes "parseRule cfg = Inr r" and "range_config cfg"
    and "getTableIndexByBoolExpr loc path e plan = Inr (idx, e', plan')" and "p_Rule plan = r"
    and "range_supported r e"
    and "FindTableIndex loc r (KInt64 k) = Inr t" and "key_cond r (\<le>) range_lit ev k e"
  shows "t \<in> set idx"
  using assms by (rule range_rows_routed)

theorem range_route_sound_witness:
  "\<exists>e' plan'. getTableIndexByBoolExpr demo_loc [] demo_range_cond (new_plan demo_range_rule) = Inr ([1, 2, 3], e', plan')
     \<and> key_cond demo_range_rule (\<le>) range_lit (\<lambda>_. True) 250 demo_range_cond \<and> (2 :: int) \<in> set [1, 2, 3]"
proof -
  obtain e' plan' where g: "getTableIndexByBoolExpr demo_loc [] demo_range_cond (new_plan demo_range_rule) = Inr ([1, 2, 3], e', plan')"
    using demo_range_route by (rule routeE)
  have s: "range_supported demo_range_rule demo_range_cond" by code_simp
  have t: "FindTableIndex demo_loc demo_range_rule (KInt64 250) = Inr 2" by code_simp
  have c: "key_cond demo_range_rule (\<le>) range_lit (\<lambda>_. True) 250 demo_range_cond" by code_simp
  from range_route_sound [OF demo_range_parse demo_range_config g _ s t c] g c show ?thesis by simp
qed

text \<open>
  C2. Routes of a hash rule are sound: the tables of the route include the table of every row
  with an integer key that satisfies the condition, when the literals compared with the key are
  integers (quoted or not).
\<close>

theorem hash_route_sound:
  assumes "parseRule cfg = Inr r" and "hash_config cfg"
    and "getTableIndexByBoolExpr loc path e plan = Inr (idx, e', plan')" and "p_Rule plan = r"
    and "hash_supported r e"
    and "FindTableIndex loc r (KInt64 k) = Inr t" and "key_cond r (\<le>) hash_lit ev k e"
  shows "t \<in> set idx"
  using assms by (rule hash_rows_routed)

theorem hash_route_sound_witness:
  "\<exists>e' plan'. getTableIndexByBoolExpr demo_loc [] demo_hash_cond (new_plan demo_hash_rule) = Inr ([2, 3], e', plan')
     \<and> key_cond demo_hash_rule (\<le>) hash_lit (\<lambda>_. True) 11 demo_hash_cond \<and> (3 :: int) \<in> set [2, 3]"
proof -
  obtain e' plan' where g: "getTableIndexByBoolExpr demo_loc [] demo_hash_cond (new_plan demo_hash_rule) = Inr ([2, 3], e', plan')"
    using demo_hash_route by (rule routeE)
  have s: "hash_supported demo_hash_rule demo_hash_cond" by code_simp
  have t: "FindTableIndex demo_loc demo_hash_rule (KInt64 11) = Inr 3" by code_simp
  have c: "key_cond demo_hash_rule (\<le>) hash_lit (\<lambda>_. True) 11 demo_hash_cond" by code_simp
  from hash_route_sound [OF demo_hash_parse demo_hash_config g _ s t c] g c show ?thesis by simp
qed

text \<open>
  C3. Routes of a date rule are sound for the conditions that the code routes rightly: the tables of the route include the
  configured table of every row whose date satisfies the condition, when the literals are dates, the ends of the intervals lie
  in configured tables, and \<open>NOT IN\<close> and \<open>NOT BETWEEN\<close> do not occur on the key (\<open>date_supported\<close>). For the other conditions the code loses
  tables, as the lemma \<open>date_conditions_lose_tables\<close> shows.
\<close>

theorem date_route_sound:
  assumes "parseRule cfg = Inr r" and "date_config cfg"
    and "getTableIndexByBoolExpr loc path e plan = Inr (idx, e', plan')" and "p_Rule plan = r"
    and "date_supported r e" and "wf_datestr k"
    and "FindTableIndex loc r (KStr k) = Inr t" and "t \<in> set (r_SubTableIndexs r)"
    and "key_cond r date_le date_lit ev k e"
  shows "t \<in> set idx"
  using assms by (rule date_rows_routed)

theorem date_route_sound_witness:
  "\<exists>e' plan'. getTableIndexByBoolExpr demo_loc [] demo_date_cond (new_plan demo_month_rule) = Inr ([201602], e', plan')
     \<and> key_cond demo_month_rule date_le date_lit (\<lambda>_. True) ''2016-02-10 08:30:00'' demo_date_cond
     \<and> (201602 :: int) \<in> set [201602]"
proof -
  obtain e' plan' where g: "getTableIndexByBoolExpr demo_loc [] demo_date_cond (new_plan demo_month_rule) = Inr ([201602], e', plan')"
    using demo_date_route by (rule routeE)
  have s: "date_supported demo_month_rule demo_date_cond" by code_simp
  have w: "wf_datestr ''2016-02-10 08:30:00''" by code_simp
  have t: "FindTableIndex demo_loc demo_month_rule (KStr ''2016-02-10 08:30:00'') = Inr 201602" by code_simp
  have m: "201602 \<in> set (r_SubTableIndexs demo_month_rule)" by code_simp
  have c: "key_cond demo_month_rule date_le date_lit (\<lambda>_. True) ''2016-02-10 08:30:00'' demo_date_cond" by code_simp
  from date_route_sound [OF demo_month_parse demo_date_config g _ s w t m c] g c show ?thesis by simp
qed

section \<open>Plans\<close>

text \<open>
  C4. A select reaches every matching row. When \<open>buildSelectPlan\<close> returns a plan for a select
  with a where clause on a sharded table, then for every table that holds a row satisfying the
  condition the plan contains the text of the select for this table, under the node that the rule has for the table. The condition
  is one that the routes are sound for, and the nodes of the rule are the first ones of the schema in the same order
  (\<open>nodes_aligned\<close>): for other rules the code takes the wrong node, as the lemma \<open>late_rule_misrouted\<close> shows.
\<close>

theorem select_reaches_rows:
  assumes "parseRule cfg = Inr rule" and "buildSelectPlan mo loc r db stmt = (r', Inr plan)"
    and "select_table stmt = Inr tn" and "GetRule r db tn = (rule, r1)"
    and "s_Where stmt = Some w" and "matching_row loc cfg rule (w_Expr w) t" and "nodes_aligned r rule"
  shows "\<exists>n node. rule_node rule t = Inr n \<and> s_Where node = Some (Where (w_Type w) (strip_cond rule (w_Expr w)))
    \<and> rewriteSelectSql (plan\<lparr>p_RewrittenSqls := []\<rparr>) node t \<in> set (map_list (p_RewrittenSqls plan) n)"
proof -
  from select_plan_route [OF assms(2-5) matching_row_type [OF assms(1,6)]] obtain e' p1 node where
    g: "getTableIndexByBoolExpr loc [] (w_Expr w) ((new_plan rule)\<lparr>p_Criteria := Some (CritBool (w_Expr w))\<rparr>) =
       Inr (p_RouteTableIndexs plan, e', p1)" and w: "s_Where node = Some (Where (w_Type w) e')" and
    sql: "\<And>n. map_list (p_RewrittenSqls plan) n = map (rewriteSelectSql (plan\<lparr>p_RewrittenSqls := []\<rparr>) node)
         (filter (\<lambda>t. sent_node r' plan t = Inr n) (p_RouteTableIndexs plan))" and
    n: "\<And>t. t \<in> set (p_RouteTableIndexs plan) \<Longrightarrow> \<exists>n. sent_node r' plan t = Inr n" and rule: "p_Rule plan = rule"
    by metis
  have "r' = r1" using assms(2-4) by (simp add: buildSelectPlan_def)
  then have "nodes_aligned r' rule" using assms(7) nodes_aligned_GetRule [OF assms(4)] by simp
  note node = sent_node_rule_node [OF matching_row_wf [OF assms(1,6)] this rule]
  have "t \<in> set (p_RouteTableIndexs plan)" using matching_row_routed [OF assms(1,6) g] by simp
  moreover have "e' = strip_cond rule (w_Expr w)" using route_strip [OF g] by simp
  ultimately show ?thesis using n [of t] w by (auto simp: sql node)
qed

theorem select_reaches_rows_witness:
  "\<exists>n node. rule_node demo_range_rule 2 = Inr n
    \<and> s_Where node = Some (Where ''where'' (strip_cond demo_range_rule demo_range_cond))
    \<and> rewriteSelectSql (demo_select_plan\<lparr>p_RewrittenSqls := []\<rparr>) node 2 \<in> set (map_list (p_RewrittenSqls demo_select_plan) n)"
proof -
  have "select_table demo_select = Inr (format_tablename (demo_table ''t''))"
    by (simp add: select_table_def demo_select_def at_index_def)
  from select_reaches_rows [OF demo_range_parse demo_select_built this demo_rule_found, of "Where ''where'' demo_range_cond" 2]
  show ?thesis using demo_matching_row demo_aligned by (simp add: demo_select_def)
qed

text \<open>
  C5. An update reaches every matching row: for every table that holds one, the plan contains the text of the update for this table,
  under the node that the rule has for the table, for conditions and rules as with a select. An update that is planned for a rule
  with several nodes assigns no column that is written exactly like the sharding key; the code checks neither rules with one node nor
  names in other letters, as the lemma \<open>update_check_gaps\<close> shows.
\<close>

theorem update_reaches_rows:
  assumes "parseRule cfg = Inr rule" and "buildUpdatePlan mo loc r db stmt = (r', Inr plan)"
    and "GetRule r db (format_tablename (upd_Table stmt)) = (rule, r1)"
    and "upd_Where stmt = Some w" and "matching_row loc cfg rule (w_Expr w) t" and "nodes_aligned r rule"
  shows "(length (r_Nodes rule) \<noteq> 1 \<longrightarrow> (\<forall>e \<in> set (upd_Exprs stmt). cn_Name (ue_Name e) \<noteq> r_Key rule))
    \<and> (\<exists>n. rule_node rule t = Inr n
        \<and> update_sql (stmt\<lparr>upd_Where := Some (Where (w_Type w) (strip_cond rule (w_Expr w)))\<rparr>) t
            \<in> set (map_list (p_RewrittenSqls plan) n))"
proof -
  from update_plan_route [OF assms(2-4) matching_row_type [OF assms(1,5)]] obtain e' p1 where
    g: "getTableIndexByBoolExpr loc [] (w_Expr w) ((new_plan rule)\<lparr>p_Criteria := Some (CritBool (w_Expr w))\<rparr>) =
       Inr (p_RouteTableIndexs plan, e', p1)" and c: "checkUpdateExprs rule (upd_Exprs stmt) = Inr ()" and
    sql: "\<And>n. map_list (p_RewrittenSqls plan) n = map (update_sql (stmt\<lparr>upd_Where := Some (Where (w_Type w) e')\<rparr>))
         (filter (\<lambda>t. sent_node r' plan t = Inr n) (p_RouteTableIndexs plan))" and
    n: "\<And>t. t \<in> set (p_RouteTableIndexs plan) \<Longrightarrow> \<exists>n. sent_node r' plan t = Inr n" and rule: "p_Rule plan = rule"
    by metis
  have "r' = r1" using assms(2,3) by (simp add: buildUpdatePlan_def)
  then have "nodes_aligned r' rule" using assms(6) nodes_aligned_GetRule [OF assms(3)] by simp
  note node = sent_node_rule_node [OF matching_row_wf [OF assms(1,5)] this rule]
  have "t \<in> set (p_RouteTableIndexs plan)" using matching_row_routed [OF assms(1,5) g] by simp
  moreover have "e' = strip_cond rule (w_Expr w)" using route_strip [OF g] by simp
  ultimately have "\<exists>n. rule_node rule t = Inr n
      \<and> update_sql (stmt\<lparr>upd_Where := Some (Where (w_Type w) (strip_cond rule (w_Expr w)))\<rparr>) t \<in> set (map_list (p_RewrittenSqls plan) n)"
    using n [of t] by (auto simp: sql node)
  then show ?thesis using checked_update_keeps_key [OF c matching_row_type [OF assms(1,5)]] by blast
qed

theorem update_reaches_rows_witness:
  "\<exists>n. rule_node demo_range_rule 2 = Inr n
     \<and> update_sql (demo_update\<lparr>upd_Where := Some (Where ''where'' (strip_cond demo_range_rule demo_range_cond))\<rparr>) 2
         \<in> set (map_list (p_RewrittenSqls demo_update_plan) n)"
  using update_reaches_rows [OF demo_range_parse demo_update_built, of _ "Where ''where'' demo_range_cond" 2]
    demo_rule_found demo_matching_row demo_aligned by (simp add: demo_update_def)

text \<open>
  C6. A delete reaches every matching row: for every table that holds one, the plan contains the text of the delete for this table,
  under the node that the rule has for the table. The condition is one that the routes are sound for, and the nodes of the rule are
  the first ones of the schema.
\<close>

theorem delete_reaches_rows:
  assumes "parseRule cfg = Inr rule" and "buildDeletePlan mo loc r db stmt = (r', Inr plan)"
    and "GetRule r db (format_tablename (del_Table stmt)) = (rule, r1)"
    and "del_Where stmt = Some w" and "matching_row loc cfg rule (w_Expr w) t" and "nodes_aligned r rule"
  shows "\<exists>n. rule_node rule t = Inr n
    \<and> delete_sql (stmt\<lparr>del_Where := Some (Where (w_Type w) (strip_cond rule (w_Expr w)))\<rparr>) t
        \<in> set (map_list (p_RewrittenSqls plan) n)"
proof -
  from delete_plan_route [OF assms(2-4) matching_row_type [OF assms(1,5)]] obtain e' p1 where
    g: "getTableIndexByBoolExpr loc [] (w_Expr w) ((new_plan rule)\<lparr>p_Criteria := Some (CritBool (w_Expr w))\<rparr>) =
       Inr (p_RouteTableIndexs plan, e', p1)" and
    sql: "\<And>n. map_list (p_RewrittenSqls plan) n = map (delete_sql (stmt\<lparr>del_Where := Some (Where (w_Type w) e')\<rparr>))
         (filter (\<lambda>t. sent_node r' plan t = Inr n) (p_RouteTableIndexs plan))" and
    n: "\<And>t. t \<in> set (p_RouteTableIndexs plan) \<Longrightarrow> \<exists>n. sent_node r' plan t = Inr n" and rule: "p_Rule plan = rule"
    by metis
  have "r' = r1" using assms(2,3) by (simp add: buildDeletePlan_def)
  then have "nodes_aligned r' rule" using assms(6) nodes_aligned_GetRule [OF assms(3)] by simp
  note node = sent_node_rule_node [OF matching_row_wf [OF assms(1,5)] this rule]
  have "t \<in> set (p_RouteTableIndexs plan)" using matching_row_routed [OF assms(1,5) g] by simp
  moreover have "e' = strip_cond rule (w_Expr w)" using route_strip [OF g] by simp
  ultimately show ?thesis using n [of t] by (auto simp: sql node)
qed

theorem delete_reaches_rows_witness:
  "\<exists>n. rule_node demo_range_rule 2 = Inr n
     \<and> delete_sql (demo_delete\<lparr>del_Where := Some (Where ''where'' (strip_cond demo_range_rule demo_range_cond))\<rparr>) 2
         \<in> set (map_list (p_RewrittenSqls demo_delete_plan) n)"
  using delete_reaches_rows [OF demo_range_parse demo_delete_built, of _ "Where ''where'' demo_range_cond" 2]
    demo_rule_found demo_matching_row demo_aligned by (simp add: demo_delete_def)

text \<open>
  C7. The rows of an insert are distributed. Every row of the statement that \<open>checkValuesType\<close> accepts is in the list of exactly that
  table which its key selects, in the order of the statement, and in no other one; every such table has a node by the rule; and this
  node gets, for each of its tables in turn, one insert with the rows of the table. The rule is a well-formed one whose nodes are the first
  ones of the schema in the same order; for others the code takes the wrong node, as with a select.
\<close>

theorem insert_rows_distributed:
  assumes "buildInsertPlan mo loc r db stmt = (r', Inr plan)" and "map_order mo"
    and "ins_Rows stmt = RowsValues vals" and "ins_Columns stmt = Some cols"
    and "GetRule r db (format_tablename (ins_Table stmt)) = (rule, r1)" and "r_Type rule \<noteq> DefaultRuleType"
    and "vals \<noteq> []" and "wf_rule rule" and "nodes_aligned r rule"
  shows "\<exists>plan0 rows. GetIRKeyIndex (new_plan rule) cols = Inr plan0 \<and> checkValuesType plan0 vals = Inr rows
    \<and> (\<forall>t. map_list (p_Rows plan) t = filter (\<lambda>row. row_table loc plan0 row = Inr t) rows)
    \<and> distinct (p_RouteTableIndexs plan)
    \<and> (\<forall>row \<in> set rows. \<exists>t n. row_table loc plan0 row = Inr t \<and> t \<in> set (p_RouteTableIndexs plan) \<and> rule_node rule t = Inr n)
    \<and> (\<forall>n. map_list (p_RewrittenSqls plan) n = map (insert_sql plan stmt) (filter (\<lambda>t. rule_node rule t = Inr n) (p_RouteTableIndexs plan)))"
proof -
  from assms obtain plan0 p1 where k: "GetIRKeyIndex (new_plan rule) cols = Inr plan0" and w: "route_rows mo loc plan0 vals = Inr p1"
    and g: "generateInsertSql r' p1 stmt = Inr plan"
    by (auto simp: buildInsertPlan_def rbind_eq_Inr_iff)
  have p0: "p_Rule plan0 = rule" "p_Rows plan0 = []"
    using k by (auto simp: GetIRKeyIndex_def new_plan_def rbind_eq_Inr_iff split: if_splits)
  have ty: "r_Type (p_Rule plan0) \<noteq> DefaultRuleType" using p0 assms(6) by simp
  obtain rows where c: "checkValuesType plan0 vals = Inr rows"
    and s: "distinct (p_RouteTableIndexs p1)" "\<forall>row \<in> set rows. \<exists>t \<in> set (p_RouteTableIndexs p1). row_table loc plan0 row = Inr t"
      "\<And>t. map_list (p_Rows p1) t = filter (\<lambda>row. row_table loc plan0 row = Inr t) rows"
    using route_rows_spec [OF w assms(2) ty p0(2)] by metis
  have "p_Rule p1 = p_Rule plan0" by (rule route_rows_spec [OF w assms(2) ty p0(2)])
  then have rule: "p_Rule p1 = rule" using p0(1) by simp
  have "rows \<noteq> []" using checkValuesType_length [OF c] assms(7) by auto
  with s(2) have ne: "p_RouteTableIndexs p1 \<noteq> []" by (cases rows) auto
  note t = generate_sqls_tables [OF g [unfolded generateInsertSql_def] ne]
  have plan: "p_RouteTableIndexs plan = p_RouteTableIndexs p1" "p_Rows plan = p_Rows p1" "p_Rule plan = p_Rule p1"
    by (subst t(3), simp)+
  have i: "insert_sql plan stmt = insert_sql p1 stmt" by (rule ext) (simp add: insert_sql_def plan)
  have "r' = r1" using assms(1,3-5) by (simp add: buildInsertPlan_def)
  then have al: "nodes_aligned r' rule" using assms(9) nodes_aligned_GetRule [OF assms(5)] by simp
  have n: "sent_node r' p1 = rule_node rule" using sent_node_rule_node [OF assms(8) al rule] by (intro ext) simp
  have "\<forall>row \<in> set rows. \<exists>t n. row_table loc plan0 row = Inr t \<and> t \<in> set (p_RouteTableIndexs plan) \<and> rule_node rule t = Inr n"
    using s(2) t(2) unfolding plan n by blast
  with k c s(1,3) t(1) show ?thesis
    by (intro exI [of _ plan0] exI [of _ rows]) (simp add: plan i flip: n)
qed

theorem insert_rows_distributed_witness:
  "\<exists>plan0 rows. checkValuesType plan0 demo_rows = Inr rows
     \<and> map_list (p_Rows demo_insert_plan) 1 = filter (\<lambda>row. row_table demo_loc plan0 row = Inr 1) rows
     \<and> map_list (p_Rows demo_insert_plan) 1 = map TupleVals [[StrVal ''a'', NumVal ''150''], [StrVal ''c'', NumVal ''199'']]
     \<and> distinct (p_RouteTableIndexs demo_insert_plan)"
proof -
  have m: "map_order (\<lambda>xs :: indexs. xs)" by (rule map_order_id)
  have r: "ins_Rows demo_insert = RowsValues demo_rows" "ins_Columns demo_insert = Some [NonStarExpr (ValE (demo_col ''name'')) None, NonStarExpr (ValE (demo_col ''id'')) None]"
    "ins_Table demo_insert = demo_table ''t''" "demo_rows \<noteq> []"
    by (simp_all add: demo_insert_def demo_rows_def)
  have ty: "r_Type demo_range_rule \<noteq> DefaultRuleType" by code_simp
  have v: "map_list (p_Rows demo_insert_plan) 1 = map TupleVals [[StrVal ''a'', NumVal ''150''], [StrVal ''c'', NumVal ''199'']]" by code_simp
  have "wf_rule demo_range_rule" using matching_row_wf [OF demo_range_parse demo_matching_row] .
  from insert_rows_distributed [OF demo_insert_built m r(1,2) _ ty r(4) this demo_aligned] demo_rule_found r(3) v show ?thesis by fastforce
qed

section \<open>Sessions\<close>

text \<open>
  C8. No connection leaks. While the commands of a session succeed, in whatever order, with reloads of the
  configuration and with other clients at work, the connections that the session has taken from the pools and not given back are
  exactly those of its transaction; outside of a transaction there are none. At any such moment the end of the session gives all
  of them back. The rules of the server name each of their nodes once, which \<open>session_ok\<close> and \<open>serves\<close> demand of the configurations.
\<close>

theorem no_connection_leaks:
  assumes "session_ok s" and "others_ok w" and "orders_ok w" and "serves w s t"
  shows "set (open_conns t) = snd ` set (se_txConns t) \<and> (isInTransaction t \<or> open_conns t = [])
    \<and> (\<exists>u. clean w t = Done (Inr ()) u \<and> open_conns u = [])"
proof -
  have ok: "session_ok t" using serves_ok [OF assms(4,2,3,1)] .
  with clean_closes [OF ok assms(2,3)] show ?thesis by (auto simp: session_ok_def tx_handles_def)
qed

theorem no_connection_leaks_witness:
  "\<exists>t u. serves demo_world demo_session t \<and> se_txConns t = [(0, 0)] \<and> set (open_conns t) = {0}
     \<and> clean demo_world t = Done (Inr ()) u \<and> open_conns u = []"
proof -
  obtain t where t: "demo_transaction = Done (Inr ()) t" "se_txConns t = [(0, 0)]"
    using succeeded [OF demo_transaction_done] by blast
  then obtain s where s: "dispatch demo_world (CHR 0x03 # ''begin'') demo_session = Done (Inr ()) s"
    "dispatch demo_world (CHR 0x03 # ''delete from z'') s = Done (Inr ()) t"
    unfolding demo_transaction_def by (auto elim!: sbind_DoneE)
  have v: "serves demo_world demo_session t" by (rule serves.command [OF serves.command [OF serves.start s(1)] s(2)])
  from no_connection_leaks [OF demo_session_ok demo_world_ok v] v t(2) show ?thesis by auto
qed

text \<open>
  C17. The blacklist is enforced for queries. After the administrator has added a statement to the blacklist, every query
  (\<open>handleQuery\<close>, the command \<open>COM_QUERY\<close>) with the same fingerprint is refused before it is parsed, and the session is as before. Deleting
  the statement from the blacklist lifts this again. The length that the code keeps beside the list stays right. Prepared
  statements are not compared with the blacklist by the code, and nothing is stated of them.
\<close>

theorem blacklist_enforced:
  assumes "settings_ok sv" and "AddBlackSql v sv = (r, sv')" and "GetFingerprint (TrimSpace v) = Inr fp"
    and "se_proxy s = sv'" and "trim_right (CHR '';'') query = sql" and "sql \<noteq> []" and "GetFingerprint sql = Inr fp"
  shows "settings_ok sv' \<and> handleQuery w query s = Done (Inl (Err (NewError ER_UNKNOWN_ERROR ''sql in blacklist.''))) s
    \<and> (\<exists>sv''. DelBlackSql v sv' = (Inr (), sv'') \<and> settings_ok sv''
         \<and> isBlacklistSql sql (s\<lparr>se_proxy := sv''\<rparr>) = Done (Inr False) (s\<lparr>se_proxy := sv''\<rparr>))"
proof -
  have ok: "settings_ok sv'" using keepsD [OF keeps_blacklist(1) assms(1,2)] .
  have listed: "map_of (bl_sqls (current_blacklist sv')) (GetMd5 fp) \<noteq> None" using AddBlackSql_listed [OF assms(2,3)] .
  then have "bl_sqlsLen (current_blacklist sv') \<noteq> 0"
    using current_blacklist_ok [OF ok] by (auto simp: blacklist_ok_def)
  with listed assms(4-7) have "handleQuery w query s = Done (Inl (Err (NewError ER_UNKNOWN_ERROR ''sql in blacklist.''))) s"
    by (simp add: handleQuery_def preHandleShard_def isBlacklistSql_def srecover_def sbind_def step_defs Let_def)
  moreover obtain sv'' where "DelBlackSql v sv' = (Inr (), sv'')"
    "map_of (bl_sqls (current_blacklist sv'')) = (map_of (bl_sqls (current_blacklist sv')))(GetMd5 fp := None)"
    using DelBlackSql_unlisted [OF listed assms(3)] .
  moreover from this(1) have "settings_ok sv''" using keepsD [OF keeps_blacklist(2) ok] by blast
  ultimately show ?thesis using ok assms(7) by (auto simp: isBlacklistSql_def sbind_def step_defs)
qed

definition "demo_blacklisted = snd (AddBlackSql ''delete from z where id = 1'' demo_server)"

theorem blacklist_enforced_witness:
  "handleQuery demo_world ''DELETE  FROM z WHERE id = 25;'' (demo_session\<lparr>se_proxy := demo_blacklisted\<rparr>) =
     Done (Inl (Err (NewError ER_UNKNOWN_ERROR ''sql in blacklist.''))) (demo_session\<lparr>se_proxy := demo_blacklisted\<rparr>)"
proof -
  have f: "GetFingerprint (TrimSpace ''delete from z where id = 1'') = Inr ''delete from z where id = ?''"
    "GetFingerprint ''DELETE  FROM z WHERE id = 25'' = Inr ''delete from z where id = ?''" by code_simp+
  have q: "trim_right (CHR '';'') ''DELETE  FROM z WHERE id = 25;'' = ''DELETE  FROM z WHERE id = 25''" by code_simp
  have ok: "settings_ok demo_server" using NewServer_settings [OF demo_started [unfolded demo_start_def]] .
  obtain r where a: "AddBlackSql ''delete from z where id = 1'' demo_server = (r, demo_blacklisted)"
    by (metis demo_blacklisted_def prod.collapse)
  from blacklist_enforced [OF ok a f(1) _ q _ f(2), of "demo_session\<lparr>se_proxy := demo_blacklisted\<rparr>" demo_world] show ?thesis by simp
qed

text \<open>
  C15. The server stays consistent. A server that was started from a configuration keeps, however it is administered and however often its
  configuration is reloaded, these properties: every user has a schema; the map of nodes leads to a node of that name; nodes
  keep their place in the store, so that pointers of running sessions stay valid; every setting has a current value, and
  the blacklist its length. The configurations have no rule that names a node twice (\<open>rules_once\<close>).
\<close>

theorem server_stays_consistent:
  assumes "NewServer fo dial draw now files mo listen cfg = Inr sv0" and "map_order mo" and "rules_once cfg" and "administers fo mo sv0 sv"
  shows "(\<forall>u p. (u, p) \<in> set (sv_users sv) \<longrightarrow> GetSchema sv u \<noteq> None)
    \<and> (\<forall>n i. GetNode sv n = Some i \<longrightarrow> i < length (sv_store sv) \<and> nc_Name (n_Cfg (sv_store sv ! i)) = n)
    \<and> prefix (store_names sv0) (store_names sv) \<and> settings_ok sv"
proof -
  have "extends sv0 sv" using administers_extends [OF assms(4,2) NewServer_extends [OF assms(1-3)]] .
  with extends_lookups [OF this] show ?thesis by (simp add: extends_def)
qed

definition "demo_reloaded = UpdateConfig int_floats (\<lambda>_ _ _. demo_dial) (\<lambda>_ _. 0) 0 (\<lambda>_. Inr []) (\<lambda>xs. xs) demo_config demo_blacklisted"

theorem server_stays_consistent_witness:
  "administers int_floats (\<lambda>xs. xs) demo_server demo_reloaded \<and> settings_ok demo_reloaded \<and> prefix (store_names demo_server) (store_names demo_reloaded)"
proof -
  have once: "rules_once demo_config" by code_simp
  obtain r where a: "AddBlackSql ''delete from z where id = 1'' demo_server = (r, demo_blacklisted)"
    by (metis demo_blacklisted_def prod.collapse)
  have "administers int_floats (\<lambda>xs. xs) demo_server demo_blacklisted" by (rule administers.setting [where m = "AddBlackSql ''delete from z where id = 1''", OF administers.start _ a]) blast
  then have r: "administers int_floats (\<lambda>xs. xs) demo_server demo_reloaded"
    unfolding demo_reloaded_def by (rule administers.reload) (rule once)
  from server_stays_consistent [OF demo_started [unfolded demo_start_def] map_order_id once r] r show ?thesis by simp
qed

lemma demo_request_served:
  assumes "settings_ok sv"
  shows "\<exists>sv'. api_serve demo_world 0 (NewApiServer demo_config) (demo_request ''secret'') sv = (Responded (JSON StatusOK (JText ''ok'')), sv') \<and>
    server_Status sv' = ''offline''"
proof -
  have "to_lower ''Offline'' = ''offline''" by code_simp
  with assms show ?thesis
    by (simp add: api_serve_def CheckAuth_def NewApiServer_def demo_config_def demo_request_def RegisterURL_def ChangeProxyStatus_def bound_def
        ChangeProxy_def answer_ok_def act_defs abind_def server_Status_def settings_ok_def Let_def)
qed

text \<open>
  C16. The web interface does what the administrator may do, and only for who knows the password: whatever a request is and whatever
  becomes of it, the server is afterwards as after some sequence of the administrator's actions, so that it keeps the invariant of the
  server; without the configured credentials it is refused and changes nothing, and neither does a \<open>GET\<close> request.
\<close>

theorem web_request_safe:
  assumes "api_serve w k s rq sv = (rep, sv')"
  shows "administers (w_fo w) mo sv sv' \<and> (\<not> CheckAuth s (rq_user rq) (rq_password rq) \<longrightarrow> rep = Refused StatusUnauthorized \<and> sv' = sv) \<and>
    (rq_method rq = ''GET'' \<longrightarrow> sv' = sv)"
proof (cases "CheckAuth s (rq_user rq) (rq_password rq)")
  case False
  with assms administers.start show ?thesis by (auto simp: api_serve_def)
next
  case True
  show ?thesis
  proof (cases "map_of (RegisterURL w k s) (rq_method rq, rq_path rq)")
    case None
    with assms True administers.start show ?thesis by (auto simp: api_serve_def)
  next
    case (Some h)
    then have h: "((rq_method rq, rq_path rq), h) \<in> set (RegisterURL w k s)" by (rule map_of_SomeD)
    have sv': "sv' = snd (h rq sv)"
      using assms True Some by (auto simp: api_serve_def split: prod.splits sum.splits fail.splits)
    have "administers (w_fo w) mo sv sv'"
      using handlers_administered [OF h] administers.start sv' unfolding administered_def by blast
    with True sv' GET_reads [of "rq_path rq" h w k s rq sv] h show ?thesis by auto
  qed
qed


theorem web_request_safe_witness:
  "\<exists>sv'. api_serve demo_world 0 (NewApiServer demo_config) (demo_request ''secret'') demo_server = (Responded (JSON StatusOK (JText ''ok'')), sv') \<and>
     administers int_floats (\<lambda>xs. xs) demo_server sv' \<and> server_Status sv' = ''offline''"
proof -
  have "settings_ok demo_server" using NewServer_settings [OF demo_started [unfolded demo_start_def]] .
  then obtain sv' where r: "api_serve demo_world 0 (NewApiServer demo_config) (demo_request ''secret'') demo_server =
      (Responded (JSON StatusOK (JText ''ok'')), sv')" "server_Status sv' = ''offline''" using demo_request_served by blast
  have "w_fo demo_world = int_floats" by (simp add: demo_world_def)
  with web_request_safe [OF r(1), of "\<lambda>xs. xs"] r show ?thesis by auto
qed

end
